(* ===== verification/Prelude.thy ===== *)
theory Prelude
  imports Complex_Main "HOL-Library.Multiset"
begin

text \<open>
  What the component theories share.

  \<^item> JavaScript numbers that carry money are exact rationals. The rounding the code
    performs is written out: \<open>round2\<close> is the expression
    \<^verbatim>\<open>Math.round((n + Number.EPSILON) * 100) / 100\<close> that every money module repeats,
    with \<^verbatim>\<open>Math.round\<close> rounding halves upwards. What is not modelled is the error of
    binary floating point itself.
  \<^item> A thrown exception is \<open>Inl\<close> of an error value, a normal return is \<open>Inr\<close>.
  \<^item> A database table is an association list from primary key to row; the statements the
    code runs on it (insert, point update, conditional \<^verbatim>\<open>updateMany\<close> with its row count)
    are functions on that list.
  \<^item> Two interfaces used by several components are stated as locales: a transition table
    (with and without a rank that makes every run finite) and a transition system with an
    invariant.
\<close>

section \<open>Collections\<close>

named_theorems money_simps \<open>rounding to cents\<close>
named_theorems table_simps \<open>lookups after table statements\<close>
named_theorems guard_simps \<open>inversion of guards that refuse\<close>

section \<open>Numbers and rounding\<close>

type_synonym number = rat

definition js_round :: "number \<Rightarrow> int" where
  "js_round x = \<lfloor>x + 1 / 2\<rfloor>"

definition number_epsilon :: number where
  "number_epsilon = 1 / 2 ^ 52"

definition round2 :: "number \<Rightarrow> number" where
  "round2 n = of_int (js_round ((n + number_epsilon) * 100)) / 100"

text \<open>A number of whole cents, the shape of a \<^verbatim>\<open>DECIMAL(14,2)\<close> column.\<close>

definition is_cents :: "number \<Rightarrow> bool" where
  "is_cents n \<longleftrightarrow> of_int \<lfloor>n * 100\<rfloor> = n * 100"

lemma is_centsI [intro]: "n = of_int k / 100 \<Longrightarrow> is_cents n"
  by (simp add: is_cents_def)

lemma is_centsE [elim]:
  assumes "is_cents n"
  obtains k where "n = of_int k / 100"
proof
  from assms have "n * 100 = of_int \<lfloor>n * 100\<rfloor>"
    by (simp only: is_cents_def)
  then show "n = of_int \<lfloor>n * 100\<rfloor> / 100"
    by (simp only: eq_divide_eq) simp
qed

lemma js_round_near_int:
  assumes "0 \<le> e" and "e < 1 / 2"
  shows "js_round (of_int k + e) = k"
  unfolding js_round_def using assms by (intro floor_unique) auto

lemma round2_of_int_div: "round2 (of_int k / 100) = of_int k / 100"
proof -
  have "js_round ((of_int k / 100 + number_epsilon) * 100) = k"
    using js_round_near_int [of "number_epsilon * 100" k]
    by (simp add: number_epsilon_def algebra_simps)
  then show ?thesis by (simp add: round2_def)
qed

lemma round2_cents [simp, money_simps]: "is_cents n \<Longrightarrow> round2 n = n"
  by (elim is_centsE) (simp only: round2_of_int_div)

lemma is_cents_round2 [simp, intro, money_simps]: "is_cents (round2 n)"
  unfolding round2_def by (rule is_centsI) (rule refl)

lemma round2_idem [simp]: "round2 (round2 n) = round2 n"
  by simp

lemma is_cents_0 [simp, intro]: "is_cents 0"
  by (rule is_centsI [of _ 0]) simp

lemma is_cents_of_int [simp, intro]: "is_cents (of_int k)"
  by (rule is_centsI [of _ "100 * k"]) simp

lemma is_cents_numeral [simp, intro]: "is_cents (numeral k)" "is_cents 1"
  using is_cents_of_int [of "numeral k"] is_cents_of_int [of 1] by simp_all

lemma is_cents_add [simp, intro]: "is_cents a \<Longrightarrow> is_cents b \<Longrightarrow> is_cents (a + b)"
proof (elim is_centsE)
  fix k l assume "a = of_int k / 100" "b = of_int l / 100"
  then show "is_cents (a + b)"
    by (intro is_centsI [of _ "k + l"]) (simp add: add_divide_distrib)
qed

lemma is_cents_mult_int [simp, intro]: "is_cents a \<Longrightarrow> is_cents (of_int k * a)"
proof (elim is_centsE)
  fix l assume "a = of_int l / 100"
  then show "is_cents (of_int k * a)"
    by (intro is_centsI [of _ "k * l"]) simp
qed

lemma is_cents_uminus [simp, intro]: "is_cents a \<Longrightarrow> is_cents (- a)"
  using is_cents_mult_int [of a "- 1"] by simp

lemma is_cents_diff [simp, intro]: "is_cents a \<Longrightarrow> is_cents b \<Longrightarrow> is_cents (a - b)"
  using is_cents_add [of a "- b"] by simp

lemma is_cents_abs [simp, intro]: "is_cents a \<Longrightarrow> is_cents \<bar>a\<bar>"
  by (cases "0 \<le> a") simp_all

lemma is_cents_min_max [simp, intro]:
  "is_cents a \<Longrightarrow> is_cents b \<Longrightarrow> is_cents (min a b)"
  "is_cents a \<Longrightarrow> is_cents b \<Longrightarrow> is_cents (max a b)"
  by (simp_all add: min_def max_def)

lemma is_cents_sum_list [simp, intro]:
  "(\<And>x. x \<in> set xs \<Longrightarrow> is_cents (f x)) \<Longrightarrow> is_cents (sum_list (map f xs))"
  by (induction xs) auto

lemma round2_mono: "a \<le> b \<Longrightarrow> round2 a \<le> round2 b"
  unfolding round2_def js_round_def
  by (intro divide_right_mono) (auto intro!: floor_mono)

lemma round2_error: "\<bar>round2 n - n\<bar> \<le> 1 / 200 + number_epsilon"
proof -
  let ?x = "(n + number_epsilon) * 100 + 1 / 2"
  define f :: rat where "f = of_int \<lfloor>?x\<rfloor>"
  have "f \<le> ?x" "?x < f + 1"
    using floor_correct [of ?x] unfolding f_def of_int_add of_int_1 by blast+
  moreover have "0 < number_epsilon" by (simp add: number_epsilon_def)
  ultimately have "\<bar>f / 100 - n\<bar> \<le> 1 / 200 + number_epsilon"
    unfolding abs_le_iff by (simp add: field_simps)
  then show ?thesis unfolding round2_def js_round_def f_def .
qed

lemma cents_gap: "is_cents a \<Longrightarrow> is_cents b \<Longrightarrow> a < b \<Longrightarrow> a + 1 / 100 \<le> b"
proof (elim is_centsE)
  fix k l assume *: "a = of_int k / 100" "b = of_int l / 100" "a < b"
  then have "(of_int k :: rat) < of_int l" by simp
  then have "k + 1 \<le> l" by simp
  then have "(of_int (k + 1) :: rat) \<le> of_int l" by (simp only: of_int_le_iff)
  with * show "a + 1 / 100 \<le> b" by (simp add: field_simps)
qed

section \<open>Strings\<close>

text \<open>
  Strings are lists of characters with codes below 256; \<^verbatim>\<open>String.prototype.trim\<close> removes
  white space at both ends, and case mapping is the ASCII part of it.
\<close>

definition is_js_space :: "char \<Rightarrow> bool" where
  "is_js_space c \<longleftrightarrow> (let n = (of_char c :: nat) in (9 \<le> n \<and> n \<le> 13) \<or> n = 32 \<or> n = 160)"

definition js_trim :: "string \<Rightarrow> string" where
  "js_trim s = rev (dropWhile is_js_space (rev (dropWhile is_js_space s)))"

definition to_lower_char :: "char \<Rightarrow> char" where
  "to_lower_char c = (let n = (of_char c :: nat) in if 65 \<le> n \<and> n \<le> 90 then char_of (n + 32) else c)"

definition to_upper_char :: "char \<Rightarrow> char" where
  "to_upper_char c = (let n = (of_char c :: nat) in if 97 \<le> n \<and> n \<le> 122 then char_of (n - 32) else c)"

definition js_lower :: "string \<Rightarrow> string" where
  "js_lower s = map to_lower_char s"

definition js_upper :: "string \<Rightarrow> string" where
  "js_upper s = map to_upper_char s"

text \<open>\<^verbatim>\<open>!s?.trim()\<close>: absent, or nothing but white space.\<close>

definition blank :: "string option \<Rightarrow> bool" where
  "blank r = (case r of None \<Rightarrow> True | Some s \<Rightarrow> js_trim s = [])"

text \<open>\<^verbatim>\<open>!s\<close> for an optional string: absent or empty.\<close>

definition falsy :: "string option \<Rightarrow> bool" where
  "falsy r = (case r of None \<Rightarrow> True | Some s \<Rightarrow> s = [])"

lemma blank_simps [simp]: "blank None" "blank (Some s) \<longleftrightarrow> js_trim s = []"
  by (simp_all add: blank_def)

lemma falsy_simps [simp]: "falsy None" "falsy (Some s) \<longleftrightarrow> s = []"
  by (simp_all add: falsy_def)

lemma dropWhile_idem: "dropWhile P (dropWhile P xs) = dropWhile P xs"
  by (induction xs) auto

lemma dropWhile_suffix_free:
  "xs = [] \<or> \<not> P (hd xs) \<Longrightarrow> dropWhile P xs = xs"
  by (cases xs) auto

lemma hd_rev_dropWhile_rev:
  assumes "xs = [] \<or> \<not> P (hd xs)"
  shows "rev (dropWhile P (rev xs)) = [] \<or> \<not> P (hd (rev (dropWhile P (rev xs))))"
proof (cases "dropWhile P (rev xs) = []")
  case False
  then obtain ys where "rev xs = ys @ dropWhile P (rev xs)"
    by (metis takeWhile_dropWhile_id)
  then have "xs = rev (dropWhile P (rev xs)) @ rev ys"
    by (metis rev_append rev_rev_ident)
  with False assms show ?thesis
    by (metis Nil_is_append_conv hd_append rev_is_Nil_conv)
qed simp

lemma js_trim_idem [simp]: "js_trim (js_trim s) = js_trim s"
proof -
  let ?t = "dropWhile is_js_space s"
  have h: "?t = [] \<or> \<not> is_js_space (hd ?t)"
    by (metis hd_dropWhile)
  from hd_rev_dropWhile_rev [of ?t is_js_space, OF h]
  have "dropWhile is_js_space (js_trim s) = js_trim s"
    unfolding js_trim_def by (rule dropWhile_suffix_free)
  then show ?thesis
    by (simp add: js_trim_def dropWhile_idem)
qed

section \<open>Exceptions as values\<close>

text \<open>A guard of the form \<^verbatim>\<open>if (!ok) throw e\<close>, and sequencing of steps that may throw.\<close>

definition require :: "bool \<Rightarrow> 'e \<Rightarrow> 'e + unit" where
  "require ok e = (if ok then Inr () else Inl e)"

fun bindE :: "'e + 'a \<Rightarrow> ('a \<Rightarrow> 'e + 'b) \<Rightarrow> 'e + 'b" where
  "bindE (Inl e) f = Inl e"
| "bindE (Inr a) f = f a"

lemma require_Inr [simp, guard_simps]: "require ok e = Inr u \<longleftrightarrow> ok"
  by (simp add: require_def)

lemma require_Inl [simp, guard_simps]: "require ok e = Inl e' \<longleftrightarrow> \<not> ok \<and> e' = e"
  by (auto simp: require_def)

lemma bindE_Inr [simp, guard_simps]: "bindE m f = Inr b \<longleftrightarrow> (\<exists>a. m = Inr a \<and> f a = Inr b)"
  by (cases m) auto

lemma bindE_Inl [guard_simps]: "bindE m f = Inl e \<longleftrightarrow> m = Inl e \<or> (\<exists>a. m = Inr a \<and> f a = Inl e)"
  by (cases m) auto

section \<open>Tables\<close>

type_synonym ('k, 'v) table = "('k \<times> 'v) list"

definition t_keys :: "('k, 'v) table \<Rightarrow> 'k list" where
  "t_keys t = map fst t"

definition t_update :: "'k \<Rightarrow> ('v \<Rightarrow> 'v) \<Rightarrow> ('k, 'v) table \<Rightarrow> ('k, 'v) table" where
  "t_update k f t = map (\<lambda>(k', v). (k', if k' = k then f v else v)) t"

text \<open>\<^verbatim>\<open>updateMany({ where: { id: k, ...p }, data: f })\<close>: the row count and the new table.\<close>

definition t_update_where ::
  "'k \<Rightarrow> ('v \<Rightarrow> bool) \<Rightarrow> ('v \<Rightarrow> 'v) \<Rightarrow> ('k, 'v) table \<Rightarrow> nat \<times> ('k, 'v) table" where
  "t_update_where k p f t =
     (case map_of t k of
        None \<Rightarrow> (0, t)
      | Some v \<Rightarrow> if p v then (1, t_update k f t) else (0, t))"

definition t_insert :: "'k \<Rightarrow> 'v \<Rightarrow> ('k, 'v) table \<Rightarrow> ('k, 'v) table" where
  "t_insert k v t = t @ [(k, v)]"

definition t_wf :: "('k, 'v) table \<Rightarrow> bool" where
  "t_wf t \<longleftrightarrow> distinct (t_keys t)"

lemma map_of_t_update [simp, table_simps]:
  "map_of (t_update k f t) k' = (if k' = k then map_option f (map_of t k) else map_of t k')"
  by (induction t) (auto simp: t_update_def)

lemma map_of_t_insert [simp, table_simps]:
  "map_of t k = None \<Longrightarrow> map_of (t_insert k v t) k' = (if k' = k then Some v else map_of t k')"
  by (auto simp: t_insert_def map_add_def split: option.splits)

lemma t_keys_t_update [simp]: "t_keys (t_update k f t) = t_keys t"
  by (induction t) (auto simp: t_update_def t_keys_def)

lemma t_keys_t_insert [simp]: "t_keys (t_insert k v t) = t_keys t @ [k]"
  by (simp add: t_keys_def t_insert_def)

lemma map_of_eq_None_keys: "map_of t k = None \<longleftrightarrow> k \<notin> set (t_keys t)"
  by (simp add: t_keys_def map_of_eq_None_iff)

lemma t_wf_t_update [simp]: "t_wf (t_update k f t) = t_wf t"
  by (simp add: t_wf_def)

lemma t_wf_t_insert [simp]: "map_of t k = None \<Longrightarrow> t_wf (t_insert k v t) = t_wf t"
  by (simp add: t_wf_def map_of_eq_None_keys)

lemma t_wf_Nil [simp]: "t_wf []"
  by (simp add: t_wf_def t_keys_def)

lemma t_wf_Cons [simp]: "t_wf ((k, v) # t) \<longleftrightarrow> map_of t k = None \<and> t_wf t"
  by (simp add: t_wf_def map_of_eq_None_keys) (simp add: t_keys_def)

lemma t_wf_map_of_eq: "t_wf t \<Longrightarrow> map_of t k = Some v \<longleftrightarrow> (k, v) \<in> set t"
  by (simp add: t_wf_def t_keys_def)

lemma t_update_cong_row:
  "(\<And>v. map_of t k = Some v \<Longrightarrow> f v = g v) \<Longrightarrow> t_wf t \<Longrightarrow> t_update k f t = t_update k g t"
  by (auto simp: t_update_def t_wf_map_of_eq)

lemma t_update_where_cases:
  assumes "t_update_where k p f t = (n, t')"
  obtains (miss) "n = 0" "t' = t" "\<And>v. map_of t k = Some v \<Longrightarrow> \<not> p v"
    | (hit) v where "n = 1" "map_of t k = Some v" "p v" "t' = t_update k f t"
  using assms by (auto simp: t_update_where_def split: option.splits if_splits)

lemma t_update_where_hit:
  "t_update_where k p f t = (Suc 0, t') \<longleftrightarrow>
     (\<exists>v. map_of t k = Some v \<and> p v \<and> t' = t_update k f t)"
  by (auto simp: t_update_where_def split: option.splits)

text \<open>A sum over all rows changes by what the updated row contributes.\<close>

lemma sum_t_update:
  fixes g :: "'k \<times> 'v \<Rightarrow> 'a :: ab_group_add"
  assumes "t_wf t" and "map_of t k = Some v"
  shows "sum_list (map g (t_update k f t)) = sum_list (map g t) - g (k, v) + g (k, f v)"
  using assms
proof (induction t)
  case (Cons r t)
  obtain k' v' where r: "r = (k', v')" by fastforce
  show ?case
  proof (cases "k' = k")
    case True
    with Cons.prems r have "map_of t k = None" "v' = v" by simp_all
    then have "t_update k f t = t"
      unfolding t_update_def map_of_eq_None_iff by (intro map_idI) force
    with True r \<open>v' = v\<close> show ?thesis by (simp add: t_update_def algebra_simps)
  next
    case False
    with Cons r have "sum_list (map g (t_update k f t)) = sum_list (map g t) - g (k, v) + g (k, f v)"
      by simp
    with False r show ?thesis by (simp add: t_update_def algebra_simps)
  qed
qed simp

lemma sum_t_insert: "sum_list (map g (t_insert k v t)) = sum_list (map g t) + (g (k, v) :: 'a :: comm_monoid_add)"
  by (simp add: t_insert_def)

section \<open>Keys in insertion order\<close>

text \<open>A JavaScript \<^verbatim>\<open>Map\<close> or \<^verbatim>\<open>Set\<close> used for its keys: iteration follows the first insertion.\<close>

definition keys_insert :: "'a list \<Rightarrow> 'a list \<Rightarrow> 'a list" where
  "keys_insert = foldl (\<lambda>ks s. if s \<in> set ks then ks else ks @ [s])"

lemma keys_insert_simps [simp]:
  "keys_insert ks [] = ks"
  "keys_insert ks (x # xs) = keys_insert (if x \<in> set ks then ks else ks @ [x]) xs"
  by (simp_all add: keys_insert_def)

lemma set_keys_insert [simp]: "set (keys_insert ks xs) = set ks \<union> set xs"
  by (induction xs arbitrary: ks) auto

lemma distinct_keys_insert [simp]: "distinct ks \<Longrightarrow> distinct (keys_insert ks xs)"
  by (induction xs arbitrary: ks) auto

section \<open>Transition tables\<close>

text \<open>
  The data-driven lifecycles: a table of allowed successors, a test and an assertion on it.
  The rank of the second locale makes every run finite.
\<close>

locale transition_table =
  fixes successors :: "'s \<Rightarrow> 's list"
    and can :: "'s \<Rightarrow> 's \<Rightarrow> bool"
    and terminal :: "'s \<Rightarrow> bool"
  assumes can_iff: "can a b \<longleftrightarrow> b \<in> set (successors a)"
    and terminal_iff: "terminal a \<longleftrightarrow> successors a = []"
begin

lemma terminal_stuck: "terminal a \<Longrightarrow> \<not> can a b"
  by (simp add: can_iff terminal_iff)

lemma not_terminal_progress: "\<not> terminal a \<Longrightarrow> \<exists>b. can a b"
  by (metis can_iff terminal_iff list.set_sel(1))

lemma terminal_absorbs: "can\<^sup>*\<^sup>* a b \<Longrightarrow> terminal a \<Longrightarrow> b = a"
  by (induction rule: converse_rtranclp_induct) (auto simp: terminal_stuck)

end

fun steps_of :: "('s \<Rightarrow> 's \<Rightarrow> bool) \<Rightarrow> 's \<Rightarrow> 's list \<Rightarrow> bool" where
  "steps_of can s [] = True"
| "steps_of can s (t # ts) = (can s t \<and> steps_of can t ts)"

locale ranked_lifecycle = transition_table +
  fixes rank :: "'s \<Rightarrow> nat"
  assumes rank_decreases: "can a b \<Longrightarrow> rank b < rank a"
begin

lemma run_bounded: "steps_of can s ts \<Longrightarrow> length ts \<le> rank s"
proof (induction ts arbitrary: s)
  case (Cons t ts)
  from Cons have "length ts \<le> rank t" "rank t < rank s"
    by (auto intro: rank_decreases)
  then show ?case by simp
qed simp

lemma reaches_terminal: "\<exists>b. can\<^sup>*\<^sup>* a b \<and> terminal b"
proof (induction "rank a" arbitrary: a rule: less_induct)
  case less
  show ?case
  proof (cases "terminal a")
    case False
    then obtain b where "can a b" using not_terminal_progress by blast
    with less rank_decreases show ?thesis by (meson converse_rtranclp_into_rtranclp)
  qed auto
qed

lemma no_return: "can\<^sup>+\<^sup>+ a b \<Longrightarrow> b \<noteq> a"
proof -
  have "can\<^sup>+\<^sup>+ a b \<Longrightarrow> rank b < rank a"
    by (induction rule: tranclp_induct) (auto dest: rank_decreases)
  then show "can\<^sup>+\<^sup>+ a b \<Longrightarrow> b \<noteq> a" by auto
qed

end

lemma find_snoc: "find P (xs @ [x]) = (case find P xs of None \<Rightarrow> if P x then Some x else None | r \<Rightarrow> r)"
  by (induction xs) auto

section \<open>Transition systems with an invariant\<close>

inductive reach :: "('s \<Rightarrow> bool) \<Rightarrow> ('s \<Rightarrow> 's \<Rightarrow> bool) \<Rightarrow> 's \<Rightarrow> bool"
  for init :: "'s \<Rightarrow> bool" and step :: "'s \<Rightarrow> 's \<Rightarrow> bool" where
  reach_init: "init s \<Longrightarrow> reach init step s"
| reach_step: "reach init step s \<Longrightarrow> step s t \<Longrightarrow> reach init step t"

locale invariant_system =
  fixes init :: "'s \<Rightarrow> bool" and step :: "'s \<Rightarrow> 's \<Rightarrow> bool" and inv :: "'s \<Rightarrow> bool"
  assumes inv_init: "init s \<Longrightarrow> inv s"
    and inv_step: "inv s \<Longrightarrow> step s t \<Longrightarrow> inv t"
begin

lemma reach_inv: "reach init step s \<Longrightarrow> inv s"
  by (induction rule: reach.induct) (auto intro: inv_init inv_step)

lemma steps_inv: "step\<^sup>*\<^sup>* s t \<Longrightarrow> inv s \<Longrightarrow> inv t"
  by (induction rule: rtranclp_induct) (auto intro: inv_step)

end

end
