(* ===== verification/Ledger.thy ===== *)
theory Ledger
  imports Prelude
begin

text \<open>
  The contract that the three append-only money ledgers of the program share (loans,
  consignments, employee debts): rows carry a kind and a magnitude, a table gives each kind
  an effect of \<open>-1\<close>, \<open>0\<close> or \<open>1\<close>, and the balance is the rounded sum of signed magnitudes,
  derived on every read and stored nowhere. The lemmas of the locale are what the rules and
  the services built on a ledger rely on.
\<close>

locale signed_ledger =
  fixes effect :: "'k \<Rightarrow> int"
    and kind_of :: "'r \<Rightarrow> 'k"
    and amount_of :: "'r \<Rightarrow> number"
    and balance :: "'r list \<Rightarrow> number"
  assumes balance_eq:
      "balance rows = round2 (\<Sum>r\<leftarrow>rows. of_int (effect (kind_of r)) * amount_of r)"
    and effect_range: "effect k = -1 \<or> effect k = 0 \<or> effect k = 1"
begin

lemma balance_Nil [simp]: "balance [] = 0"
  by (simp add: balance_eq)

lemma balance_is_cents [simp]: "is_cents (balance rows)"
  by (simp add: balance_eq)

lemma balance_exact:
  assumes "\<And>r. r \<in> set rows \<Longrightarrow> is_cents (amount_of r)"
  shows "balance rows = (\<Sum>r\<leftarrow>rows. of_int (effect (kind_of r)) * amount_of r)"
  unfolding balance_eq using assms by (intro round2_cents is_cents_sum_list) auto

text \<open>The order in which entries were written carries no meaning.\<close>

lemma balance_mset:
  assumes "mset rows = mset rows'"
  shows "balance rows = balance rows'"
proof -
  have "sum_list (map f rows) = sum_list (map f rows')" for f :: "'r \<Rightarrow> number"
    using assms by (simp add: sum_mset_sum_list [symmetric])
  then show ?thesis by (simp only: balance_eq)
qed

lemma balance_append:
  assumes "\<And>r. r \<in> set rows \<union> set rows' \<Longrightarrow> is_cents (amount_of r)"
  shows "balance (rows @ rows') = balance rows + balance rows'"
  using assms balance_exact [of "rows @ rows'"] balance_exact [of rows] balance_exact [of rows']
  by simp

lemma balance_snoc:
  assumes "\<And>r. r \<in> set rows \<Longrightarrow> is_cents (amount_of r)" and "is_cents (amount_of x)"
  shows "balance (rows @ [x]) = balance rows + of_int (effect (kind_of x)) * amount_of x"
  using balance_append [of rows "[x]"] balance_exact [of "[x]"] assms by auto

text \<open>An entry that settles, guarded by what is owed, lowers the balance and never below zero.\<close>

lemma settle_guarded:
  assumes "\<And>r. r \<in> set rows \<Longrightarrow> is_cents (amount_of r)" and "is_cents (amount_of x)"
    and "effect (kind_of x) = -1" and "0 < amount_of x" and "amount_of x \<le> balance rows"
  shows "0 \<le> balance (rows @ [x]) \<and> balance (rows @ [x]) < balance rows"
  using balance_snoc [of rows x] assms by simp

text \<open>
  A ledger in which every settling entry passed the guard against the rows before it can
  never say that the creditor owes the debtor.
\<close>

lemma guarded_never_negative:
  assumes "\<And>r. r \<in> set rows \<Longrightarrow> is_cents (amount_of r) \<and> 0 \<le> amount_of r"
    and "\<And>i. i < length rows \<Longrightarrow> effect (kind_of (rows ! i)) = -1 \<Longrightarrow>
           amount_of (rows ! i) \<le> balance (take i rows)"
  shows "0 \<le> balance rows"
  using assms
proof (induction rows rule: rev_induct)
  case (snoc x xs)
  have "amount_of (xs ! i) \<le> balance (take i xs)"
    if "i < length xs" "effect (kind_of (xs ! i)) = -1" for i
    using snoc.prems(2) [of i] that by (simp add: nth_append)
  with snoc have IH: "0 \<le> balance xs" by auto
  have "amount_of x \<le> balance xs" if "effect (kind_of x) = -1"
    using snoc.prems(2) [of "length xs"] that by simp
  with IH effect_range [of "kind_of x"] snoc.prems(1) [of x] balance_snoc [of xs x] snoc.prems(1)
  show ?case by auto
qed simp

end

text \<open>What request validation lets through as a sum of money: positive, at most two decimals.\<close>

definition valid_amount :: "number \<Rightarrow> bool" where
  "valid_amount a \<longleftrightarrow> 0 < a \<and> is_cents a"

text \<open>The total of one kind, as the breakdown screens report it.\<close>

definition total_of :: "('r \<Rightarrow> 'k) \<Rightarrow> ('r \<Rightarrow> number) \<Rightarrow> 'k \<Rightarrow> 'r list \<Rightarrow> number" where
  "total_of kd am k rows = round2 (\<Sum>r\<leftarrow>filter (\<lambda>r. kd r = k) rows. am r)"

lemma total_of_exact:
  assumes "\<And>r. r \<in> set rows \<Longrightarrow> is_cents (am r)"
  shows "total_of kd am k rows = (\<Sum>r\<leftarrow>filter (\<lambda>r. kd r = k) rows. am r)"
  unfolding total_of_def using assms by (intro round2_cents is_cents_sum_list) auto

lemma total_of_nonneg:
  assumes "\<And>r. r \<in> set rows \<Longrightarrow> 0 \<le> am r"
  shows "0 \<le> total_of kd am k rows"
proof -
  have "0 \<le> (\<Sum>r\<leftarrow>filter (\<lambda>r. kd r = k) rows. am r)"
    using assms by (intro sum_list_nonneg) auto
  from round2_mono [OF this] show ?thesis by (simp add: total_of_def)
qed

end
