(* ===== verification/Common.thy ===== *)
theory Common
  imports Prelude
begin

text \<open>
  What every service receives or writes besides its own tables: the request context
  (\<^verbatim>\<open>TenantContext\<close>, \<^verbatim>\<open>AppClsStore\<close>), the append-only audit log (\<^verbatim>\<open>AuditService\<close>), the
  in-app notifications (\<^verbatim>\<open>NotificationsService\<close> with \<^verbatim>\<open>InAppChannel\<close>), the per-branch
  counters (\<^verbatim>\<open>InvoiceNumberService\<close>), the retry of transactions that InnoDB rolled back
  (\<^verbatim>\<open>withLockRetry\<close>) and the HTTP exceptions of the framework. A 16-byte identifier is a
  natural number; the text form of a UUID and its binary form are the same identifier.
\<close>

type_synonym id = nat

section \<open>Exceptions\<close>

datatype 'r http_error =
    BadRequest 'r
  | Conflict 'r
  | Forbidden 'r
  | NotFound 'r
  | Internal 'r

section \<open>Request context\<close>

record ctx =
  c_companyId :: id
  c_branchId :: "id option"
  c_userId :: "id option"
  c_permissions :: "string list"
  c_now :: nat

definition has_permission :: "ctx \<Rightarrow> string \<Rightarrow> bool" where
  "has_permission c p \<longleftrightarrow> p \<in> set (c_permissions c)"

text \<open>The UTC day of an instant in milliseconds; the code's \<^verbatim>\<open>YYYY-MM-DD\<close> key, as a number.\<close>

definition dayKey :: "nat \<Rightarrow> nat" where
  "dayKey t = t div 86400000"

section \<open>Audit log\<close>

record audit_row =
  a_companyId :: id
  a_branchId :: "id option"
  a_userId :: "id option"
  a_entityType :: string
  a_entityId :: "id option"
  a_action :: string
  a_reason :: "string option"

definition audit_row_of ::
  "ctx \<Rightarrow> string \<Rightarrow> id \<Rightarrow> string \<Rightarrow> string option \<Rightarrow> id option \<Rightarrow> audit_row" where
  "audit_row_of c entityType entityId act reason branch =
     \<lparr>a_companyId = c_companyId c,
      a_branchId = (case branch of Some b \<Rightarrow> Some b | None \<Rightarrow> c_branchId c),
      a_userId = c_userId c, a_entityType = entityType, a_entityId = Some entityId,
      a_action = act, a_reason = reason\<rparr>"

section \<open>Notifications\<close>

record notification =
  n_companyId :: id
  n_branchId :: "id option"
  n_targetUserId :: "id option"
  n_type :: string
  n_dedupeKey :: "string option"

text \<open>\<^verbatim>\<open>InAppChannel.deliver\<close>: the row belongs to the company of the request context.\<close>

definition deliver :: "ctx \<Rightarrow> string \<Rightarrow> id option \<Rightarrow> id option \<Rightarrow> notification" where
  "deliver c ty branch target =
     \<lparr>n_companyId = c_companyId c, n_branchId = branch, n_targetUserId = target, n_type = ty, n_dedupeKey = None\<rparr>"

text \<open>An assignment of a user to a branch, with the permissions of the role held there.\<close>

record assignment =
  as_companyId :: id
  as_branchId :: id
  as_userId :: id
  as_userActive :: bool
  as_permissions :: "string list"

definition holdersOf :: "assignment list \<Rightarrow> id \<Rightarrow> id \<Rightarrow> string \<Rightarrow> id list" where
  "holdersOf as companyId branchId permission =
     map as_userId
       (filter (\<lambda>a. as_companyId a = companyId \<and> as_branchId a = branchId \<and> as_userActive a \<and>
                    permission \<in> set (as_permissions a)) as)"

section \<open>Branch counters\<close>

type_synonym counters = "(id \<times> string, nat) table"

text \<open>
  \<^verbatim>\<open>INSERT ... VALUES (1) ON DUPLICATE KEY UPDATE seq = seq + 1\<close>, then the read of the row
  just written.
\<close>

definition next_number :: "id \<Rightarrow> string \<Rightarrow> counters \<Rightarrow> nat \<times> counters" where
  "next_number branch kind t =
     (let t' = (case map_of t (branch, kind) of
                  None \<Rightarrow> t_insert (branch, kind) 1 t
                | Some _ \<Rightarrow> t_update (branch, kind) Suc t)
      in (case map_of t' (branch, kind) of None \<Rightarrow> 0 | Some n \<Rightarrow> n, t'))"

text \<open>\<^verbatim>\<open>String(seq).padStart(w, '0')\<close>\<close>

fun show_nat :: "nat \<Rightarrow> string" where
  "show_nat n = (if n < 10 then [char_of (48 + n)] else show_nat (n div 10) @ [char_of (48 + n mod 10)])"

declare show_nat.simps [simp del]

definition pad_start :: "nat \<Rightarrow> string \<Rightarrow> string" where
  "pad_start w s = replicate (w - length s) (CHR ''0'') @ s"

definition invoice_format :: "nat \<Rightarrow> string" where
  "invoice_format n = pad_start 5 (show_nat n)"

lemma next_number_seq:
  "next_number b k t = (n, t') \<Longrightarrow>
     n = (case map_of t (b, k) of None \<Rightarrow> 1 | Some m \<Rightarrow> Suc m) \<and>
     map_of t' (b, k) = Some n \<and>
     (\<forall>k'. k' \<noteq> (b, k) \<longrightarrow> map_of t' k' = map_of t k')"
  by (auto simp: next_number_def Let_def split: option.splits)

lemma next_number_wf: "next_number b k t = (n, t') \<Longrightarrow> t_wf t \<Longrightarrow> t_wf t'"
  by (auto simp: next_number_def Let_def split: option.splits)

text \<open>The decimal reading of a digit string, used to show that two numbers never print alike.\<close>

fun read_nat :: "nat \<Rightarrow> string \<Rightarrow> nat" where
  "read_nat a [] = a"
| "read_nat a (c # cs) = read_nat (10 * a + (of_char c - 48)) cs"

lemma read_nat_append: "read_nat a (xs @ ys) = read_nat (read_nat a xs) ys"
  by (induction xs arbitrary: a) auto

lemma of_char_digit: "d < 10 \<Longrightarrow> (of_char (char_of (48 + d) :: char) :: nat) = 48 + d"
  by (simp add: of_char_of)

lemma read_show_nat [simp]: "read_nat 0 (show_nat n) = n"
proof (induction n rule: show_nat.induct)
  case (1 n)
  show ?case
  proof (cases "n < 10")
    case True
    then show ?thesis by (subst show_nat.simps) (simp add: of_char_digit)
  next
    case False
    with "1" have "read_nat 0 (show_nat (n div 10)) = n div 10" by simp
    with False show ?thesis
      by (subst show_nat.simps) (simp add: read_nat_append of_char_digit)
  qed
qed

lemma show_nat_inject [simp]: "show_nat m = show_nat n \<longleftrightarrow> m = n"
  by (metis read_show_nat)

lemma read_nat_zeros: "read_nat 0 (replicate k (CHR ''0'') @ s) = read_nat 0 s"
  by (induction k) auto

lemma read_pad_start [simp]: "read_nat 0 (pad_start w s) = read_nat 0 s"
  by (simp add: pad_start_def read_nat_zeros)

lemma pad_start_inject: "pad_start w (show_nat m) = pad_start w (show_nat n) \<Longrightarrow> m = n"
  by (metis read_pad_start read_show_nat)

section \<open>Identifiers as text\<close>

text \<open>\<^verbatim>\<open>binToUuid\<close>: 32 hexadecimal digits, grouped 8-4-4-4-12.\<close>

definition hex_char :: "nat \<Rightarrow> char" where
  "hex_char d = char_of (if d < 10 then 48 + d else 87 + d)"

fun hex_digits :: "nat \<Rightarrow> nat \<Rightarrow> string" where
  "hex_digits 0 n = []"
| "hex_digits (Suc k) n = hex_digits k (n div 16) @ [hex_char (n mod 16)]"

definition binToUuid :: "id \<Rightarrow> string" where
  "binToUuid b =
     (let h = hex_digits 32 b
      in take 8 h @ ''-'' @ take 4 (drop 8 h) @ ''-'' @ take 4 (drop 12 h) @ ''-'' @
         take 4 (drop 16 h) @ ''-'' @ drop 20 h)"

text \<open>\<^verbatim>\<open>uuidToBin\<close>: the dashes are dropped, and exactly 32 hexadecimal digits must remain.\<close>

definition hex_value :: "char \<Rightarrow> nat option" where
  "hex_value c =
     (let n = (of_char c :: nat)
      in if 48 \<le> n \<and> n \<le> 57 then Some (n - 48)
         else if 97 \<le> n \<and> n \<le> 102 then Some (n - 87)
         else if 65 \<le> n \<and> n \<le> 70 then Some (n - 55)
         else None)"

definition hex_read :: "string \<Rightarrow> nat" where
  "hex_read = foldl (\<lambda>a c. 16 * a + (case hex_value c of None \<Rightarrow> 0 | Some d \<Rightarrow> d)) 0"

definition uuidToBin :: "string \<Rightarrow> id option" where
  "uuidToBin uuid =
     (let hex = filter (\<lambda>c. c \<noteq> CHR ''-'') uuid
      in if length hex = 32 \<and> list_all (\<lambda>c. hex_value c \<noteq> None) hex then Some (hex_read hex) else None)"

lemma hex_char_code: "d < 16 \<Longrightarrow> (of_char (hex_char d) :: nat) = (if d < 10 then 48 + d else 87 + d)"
  by (simp add: hex_char_def of_char_of)

lemma hex_char_cases:
  assumes "d < 16"
  shows "hex_value (hex_char d) = Some d" and "hex_char d \<noteq> CHR ''-''"
proof -
  show "hex_value (hex_char d) = Some d"
    using assms by (auto simp: hex_value_def hex_char_code Let_def)
  have "(of_char (hex_char d) :: nat) \<noteq> of_char (CHR ''-'')"
    using assms by (auto simp: hex_char_code)
  then show "hex_char d \<noteq> CHR ''-''" by metis
qed

lemma length_hex_digits [simp]: "length (hex_digits k n) = k"
  by (induction k arbitrary: n) auto

lemma hex_digits_digits: "c \<in> set (hex_digits k n) \<Longrightarrow> \<exists>d<16. c = hex_char d"
  by (induction k arbitrary: n) (auto intro: exI [of _ "n mod 16" for n])

lemma hex_read_digits: "n < 16 ^ k \<Longrightarrow> hex_read (hex_digits k n) = n"
proof (induction k arbitrary: n)
  case (Suc k)
  then have "n div 16 < 16 ^ k" by (simp add: less_mult_imp_div_less mult.commute)
  with Suc.IH [OF this] show ?case
    by (simp add: hex_read_def hex_char_cases)
qed (simp add: hex_read_def)

lemma grouped_digits:
  assumes "length h = 32"
  shows "take 8 h @ take 4 (drop 8 h) @ take 4 (drop 12 h) @ take 4 (drop 16 h) @ drop 20 h = h"
  using append_take_drop_id [of 8 h] append_take_drop_id [of 4 "drop 8 h"]
    append_take_drop_id [of 4 "drop 12 h"] append_take_drop_id [of 4 "drop 16 h"]
  by simp

lemma uuidToBin_binToUuid:
  assumes "b < 16 ^ 32"
  shows "uuidToBin (binToUuid b) = Some b"
proof -
  define h where "h = hex_digits 32 b"
  have len: "length h = 32" unfolding h_def by (rule length_hex_digits)
  have digit: "\<exists>d<16. c = hex_char d" if "c \<in> set h" for c
    using that unfolding h_def by (rule hex_digits_digits)
  have "CHR ''-'' \<notin> set h" using digit hex_char_cases(2) by metis
  then have part: "filter (\<lambda>c. c \<noteq> CHR ''-'') (take m (drop n h)) = take m (drop n h)"
    "filter (\<lambda>c. c \<noteq> CHR ''-'') (drop n h) = drop n h" for m n
    by (auto intro!: filter_True dest!: in_set_takeD in_set_dropD)
  have "filter (\<lambda>c. c \<noteq> CHR ''-'') (binToUuid b) = h"
    unfolding binToUuid_def Let_def h_def [symmetric] filter_append
    using part(1) [of 8 0] part(1) [of 4 8] part(1) [of 4 12] part(1) [of 4 16] part(2) [of 20] grouped_digits [OF len]
    by simp
  moreover have "list_all (\<lambda>c. hex_value c \<noteq> None) h"
    unfolding list_all_iff using digit hex_char_cases(1) by fastforce
  moreover have "hex_read h = b" unfolding h_def using assms by (rule hex_read_digits)
  ultimately show ?thesis
    unfolding uuidToBin_def Let_def by (simp add: len)
qed

text \<open>
  \<^verbatim>\<open>newUuidV7Bin\<close>: six bytes of milliseconds, ten random bytes with the version nibble of byte
  6 and the two variant bits of byte 8 overwritten. The random bytes are one number below
  \<open>2 ^ 80\<close>.
\<close>

definition newUuidV7Bin :: "nat \<Rightarrow> nat \<Rightarrow> id" where
  "newUuidV7Bin now rnd =
     (let b6 = 112 + (rnd div 2 ^ 72) mod 16;
          b7 = (rnd div 2 ^ 64) mod 256;
          b8 = 128 + (rnd div 2 ^ 56) mod 64
      in now * 2 ^ 80 + (b6 * 2 ^ 72 + b7 * 2 ^ 64 + b8 * 2 ^ 56 + rnd mod 2 ^ 56))"

definition requestedAtOf :: "id \<Rightarrow> nat" where
  "requestedAtOf i = i div 2 ^ 80"

lemma uuidV7_tail:
  "(112 + (r div 2 ^ 72) mod 16) * 2 ^ 72 + (r div 2 ^ 64) mod 256 * 2 ^ 64
   + (128 + (r div 2 ^ 56) mod 64) * 2 ^ 56 + r mod 2 ^ 56 < (2 ^ 80 :: nat)"
proof -
  have *: "(112 + a) * 2 ^ 72 + b * 2 ^ 64 + (128 + c) * 2 ^ 56 + d < (2 ^ 80 :: nat)"
    if "a < 16" "b < 256" "c < 64" "d < 2 ^ 56" for a b c d :: nat
    using that by simp
  show ?thesis by (rule *) simp_all
qed

lemma requestedAtOf_newUuidV7Bin [simp]: "requestedAtOf (newUuidV7Bin now r) = now"
  using uuidV7_tail [of r] unfolding requestedAtOf_def newUuidV7Bin_def Let_def
  by (simp only: div_mult_self3 div_less)

text \<open>Only that the low part stays below its width matters for bounds and order.\<close>

lemma newUuidV7Bin_split:
  obtains t where "t < 2 ^ 80" "newUuidV7Bin now r = now * 2 ^ 80 + t"
  by (rule that [OF uuidV7_tail [of r]]) (simp only: newUuidV7Bin_def Let_def)

lemma high_part_less:
  assumes "a < b" "t < (p :: nat)"
  shows "a * p + t < b * p + u"
proof -
  have "Suc a * p \<le> b * p" using assms(1) by (intro mult_le_mono1) simp
  with assms(2) show ?thesis by simp
qed

lemma newUuidV7Bin_bound: "now < 2 ^ 48 \<Longrightarrow> newUuidV7Bin now r < 16 ^ 32"
proof -
  assume now: "now < 2 ^ 48"
  obtain t where t: "t < 2 ^ 80" "newUuidV7Bin now r = now * 2 ^ 80 + t" by (rule newUuidV7Bin_split)
  from high_part_less [OF now t(1), of 0] show ?thesis unfolding t(2) by (simp only: add_0_right power_add [symmetric]) simp
qed

lemma newUuidV7Bin_ordered:
  assumes "now < now'"
  shows "newUuidV7Bin now r < newUuidV7Bin now' r'"
proof -
  obtain t u where t: "t < 2 ^ 80" "newUuidV7Bin now r = now * 2 ^ 80 + t" and u: "newUuidV7Bin now' r' = now' * 2 ^ 80 + u"
    by (metis newUuidV7Bin_split)
  show ?thesis unfolding t(2) u by (rule high_part_less [OF assms t(1)])
qed

section \<open>Counterparties, accounts, payment methods\<close>

datatype StoreConnectionStatus = conn_pending | conn_accepted | conn_rejected | conn_blocked

datatype CounterpartyKind = connected_store | manual_store | manual_person | employee

text \<open>A counterparty with the status of its connection, which the services read together.\<close>

record counterparty_row =
  cp_companyId :: id
  cp_kind :: CounterpartyKind
  cp_name :: string
  cp_isActive :: bool
  cp_connectedCompanyId :: "id option"
  cp_connectionId :: "id option"
  cp_connectionStatus :: "StoreConnectionStatus option"

record account_row =
  ac_companyId :: id
  ac_label :: string
  ac_isActive :: bool
  ac_sortOrder :: int

datatype Method = cash | account

definition method_text :: "Method \<Rightarrow> string" where
  "method_text m = (case m of cash \<Rightarrow> ''cash'' | account \<Rightarrow> ''account'')"

definition trim_or_null :: "string option \<Rightarrow> string option" where
  "trim_or_null s = (case s of None \<Rightarrow> None | Some t \<Rightarrow> if js_trim t = [] then None else Some (js_trim t))"

section \<open>Text of a fingerprint\<close>

text \<open>
  \<^verbatim>\<open>Number.prototype.toFixed(2)\<close> on the exact value: the nearest number of cents, the larger
  one at a tie, printed with two digits after the point.
\<close>

definition toFixed2_nonneg :: "number \<Rightarrow> string" where
  "toFixed2_nonneg x =
     (let n = nat (js_round (x * 100))
      in show_nat (n div 100) @ ''.'' @ pad_start 2 (show_nat (n mod 100)))"

definition toFixed2 :: "number \<Rightarrow> string" where
  "toFixed2 x = (if x < 0 then ''-'' @ toFixed2_nonneg (- x) else toFixed2_nonneg x)"

fun join :: "string \<Rightarrow> string list \<Rightarrow> string" where
  "join sep [] = []"
| "join sep [s] = s"
| "join sep (s # ss) = s @ sep @ join sep ss"

definition or_empty :: "string option \<Rightarrow> string" where
  "or_empty s = (case s of None \<Rightarrow> [] | Some t \<Rightarrow> t)"

section \<open>Retrying transactions\<close>

text \<open>
  \<^verbatim>\<open>withLockRetry\<close>: at most \<open>attempts\<close> runs of a transaction; a run that fails with a lock
  conflict left the state as it was, and is run again unless it was the last attempt. The
  work of attempt \<open>i\<close> is \<open>work i\<close>; a normal return and every other exception end the loop.
\<close>

function with_lock_retry ::
  "('e \<Rightarrow> bool) \<Rightarrow> nat \<Rightarrow> (nat \<Rightarrow> 'e + 'a) \<Rightarrow> nat \<Rightarrow> 'e + 'a" where
  "with_lock_retry is_lock attempts work i =
     (case work i of
        Inr a \<Rightarrow> Inr a
      | Inl e \<Rightarrow> if i \<ge> attempts \<or> \<not> is_lock e then Inl e
                 else with_lock_retry is_lock attempts work (Suc i))"
  by pat_completeness auto
termination
  by (relation "measure (\<lambda>(l, n, w, i). n - i)") auto

declare with_lock_retry.simps [simp del]

lemma with_lock_retry_result:
  assumes "i \<le> n"
  shows "\<exists>j. i \<le> j \<and> j \<le> n \<and> with_lock_retry l n w i = w j \<and>
             (\<forall>k. i \<le> k \<and> k < j \<longrightarrow> (\<exists>e. w k = Inl e \<and> l e)) \<and>
             (\<forall>e. w j = Inl e \<longrightarrow> \<not> l e \<or> j = n)"
  using assms
proof (induction l n w i rule: with_lock_retry.induct)
  case (1 l n w i)
  show ?case
  proof (cases "\<exists>e. w i = Inl e \<and> \<not> (i \<ge> n \<or> \<not> l e)")
    case False
    then show ?thesis
      using "1.prems" by (intro exI [of _ i]) (auto simp: with_lock_retry.simps [of l n w i] split: sum.splits)
  next
    case True
    then obtain e where e: "w i = Inl e" "i < n" "l e" by auto
    with "1.IH" [of e] obtain j where j: "Suc i \<le> j" "j \<le> n" "with_lock_retry l n w (Suc i) = w j"
      "\<forall>k. Suc i \<le> k \<and> k < j \<longrightarrow> (\<exists>e. w k = Inl e \<and> l e)"
      "\<forall>e. w j = Inl e \<longrightarrow> \<not> l e \<or> j = n" by auto
    have "\<exists>e. w k = Inl e \<and> l e" if "i \<le> k \<and> k < j" for k
      using j(4) e that by (cases "k = i") auto
    with e j show ?thesis
      by (intro exI [of _ j]) (auto simp: with_lock_retry.simps [of l n w i])
  qed
qed

end
