(* ===== verification/LoanRules.thy ===== *)
theory LoanRules
  imports Ledger Common
begin

text \<open>
  The pure rules of money owed between two parties (\<^verbatim>\<open>src/src/loans/loan-rules.ts\<close>): the
  direction of a debt, the lifecycle of a proposal, the ledger whose derived sum is what
  remains, and the guards of payments and write-offs. The ledger is an instance of
  \<open>signed_ledger\<close>.
\<close>

section \<open>Data\<close>

datatype Direction = they_owe_us | we_owe_them

datatype LoanStatus =
    proposed
  | counter_proposed
  | disputed
  | accepted
  | partially_paid
  | payment_awaiting_confirmation
  | settled
  | forgiven_settled
  | cancelled

datatype StatusGroup = grp_pending | grp_accepted | grp_confirmed

fun GROUP_OF :: "LoanStatus \<Rightarrow> StatusGroup" where
  "GROUP_OF proposed = grp_pending"
| "GROUP_OF counter_proposed = grp_pending"
| "GROUP_OF disputed = grp_pending"
| "GROUP_OF accepted = grp_accepted"
| "GROUP_OF partially_paid = grp_accepted"
| "GROUP_OF payment_awaiting_confirmation = grp_accepted"
| "GROUP_OF settled = grp_confirmed"
| "GROUP_OF forgiven_settled = grp_confirmed"
| "GROUP_OF cancelled = grp_confirmed"

fun invert :: "Direction \<Rightarrow> Direction" where
  "invert they_owe_us = we_owe_them"
| "invert we_owe_them = they_owe_us"

definition directionFor :: "id \<Rightarrow> Direction \<Rightarrow> id \<Rightarrow> Direction" where
  "directionFor companyId direction viewerCompanyId =
     (if companyId = viewerCompanyId then direction else invert direction)"

datatype Creditor = owner | counterparty

definition creditorIs :: "Direction \<Rightarrow> Creditor" where
  "creditorIs direction = (if direction = they_owe_us then owner else counterparty)"

section \<open>The ledger\<close>

datatype LedgerKind =
    principal_accepted
  | payment_reported
  | payment_confirmed
  | payment_corrected
  | forgiven
  | settled_entry

fun BALANCE_EFFECT :: "LedgerKind \<Rightarrow> int" where
  "BALANCE_EFFECT principal_accepted = 1"
| "BALANCE_EFFECT payment_reported = 0"
| "BALANCE_EFFECT payment_confirmed = -1"
| "BALANCE_EFFECT payment_corrected = 1"
| "BALANCE_EFFECT forgiven = -1"
| "BALANCE_EFFECT settled_entry = 0"

record LedgerRow =
  r_kind :: LedgerKind
  r_amount :: number
  r_id :: "id option"
  r_refersToId :: "id option"

definition remaining :: "LedgerRow list \<Rightarrow> number" where
  "remaining rows = round2 (\<Sum>r\<leftarrow>rows. of_int (BALANCE_EFFECT (r_kind r)) * r_amount r)"

text \<open>
  \<^verbatim>\<open>answered\<close> is the set of ids that some confirmation refers to; a report counts as
  unanswered unless it has an id in that set.
\<close>

definition answered :: "LedgerRow list \<Rightarrow> id set" where
  "answered rows =
     {i. \<exists>r \<in> set rows. r_kind r = payment_confirmed \<and> r_refersToId r = Some i}"

definition is_answered :: "LedgerRow list \<Rightarrow> id option \<Rightarrow> bool" where
  "is_answered rows i =
     (i \<noteq> None \<and> list_ex (\<lambda>r. r_kind r = payment_confirmed \<and> r_refersToId r = i) rows)"

definition unansweredReports :: "LedgerRow list \<Rightarrow> number" where
  "unansweredReports rows =
     round2 (\<Sum>r\<leftarrow>filter (\<lambda>r. r_kind r = payment_reported \<and> \<not> is_answered rows (r_id r)) rows. r_amount r)"

record Breakdown =
  b_principal :: number
  b_confirmedPaid :: number
  b_corrected :: number
  b_forgiven :: number
  b_awaitingConfirmation :: number
  b_remaining :: number

definition breakdown :: "LedgerRow list \<Rightarrow> Breakdown" where
  "breakdown rows =
     \<lparr>b_principal = total_of r_kind r_amount principal_accepted rows,
      b_confirmedPaid = total_of r_kind r_amount payment_confirmed rows,
      b_corrected = total_of r_kind r_amount payment_corrected rows,
      b_forgiven = total_of r_kind r_amount forgiven rows,
      b_awaitingConfirmation = unansweredReports rows,
      b_remaining = remaining rows\<rparr>"

section \<open>Decisions and guards\<close>

datatype Action = accept | counter | dispute | reject | cancel

fun transition_from :: "Action \<Rightarrow> LoanStatus list" where
  "transition_from accept = [proposed, counter_proposed, disputed]"
| "transition_from counter = [proposed, counter_proposed, disputed]"
| "transition_from dispute = [proposed, counter_proposed]"
| "transition_from reject = [proposed, counter_proposed, disputed]"
| "transition_from cancel = [proposed, counter_proposed, disputed]"

fun transition_to :: "Action \<Rightarrow> LoanStatus" where
  "transition_to accept = accepted"
| "transition_to counter = counter_proposed"
| "transition_to dispute = disputed"
| "transition_to reject = cancelled"
| "transition_to cancel = cancelled"

text \<open>The exceptions of \<^verbatim>\<open>LoanRefused\<close>, one value per message.\<close>

datatype loan_refusal =
    NotWhile LoanStatus
  | WaitingOnOtherSide
  | CounterNeedsAmount
  | SayWhatYouDisagreeWith
  | PaymentNotPositive
  | MoreThanOwed number
  | AccountMissing
  | CashHasNoAccount
  | SayWhyWriteOff
  | WriteOffNotPositive
  | OnlyLeftToWriteOff number

definition assertDecision ::
  "Action \<Rightarrow> LoanStatus \<Rightarrow> bool \<Rightarrow> number option \<Rightarrow> string option \<Rightarrow> loan_refusal + LoanStatus" where
  "assertDecision act from isOwnOffer amount reason =
     (if from \<notin> set (transition_from act) then Inl (NotWhile from)
      else if (act = accept \<or> act = counter) \<and> isOwnOffer then Inl WaitingOnOtherSide
      else if act = counter \<and> \<not> (case amount of None \<Rightarrow> False | Some a \<Rightarrow> a > 0) then Inl CounterNeedsAmount
      else if act = dispute \<and> blank reason then Inl SayWhatYouDisagreeWith
      else Inr (transition_to act))"

definition assertPaymentAllowed ::
  "number \<Rightarrow> Method \<Rightarrow> id option \<Rightarrow> number \<Rightarrow> loan_refusal + unit" where
  "assertPaymentAllowed amount meth receivingAccountId owed =
     (if \<not> amount > 0 then Inl PaymentNotPositive
      else if round2 amount > round2 owed then Inl (MoreThanOwed (round2 owed))
      else if meth = account \<and> receivingAccountId = None then Inl AccountMissing
      else if meth = cash \<and> receivingAccountId \<noteq> None then Inl CashHasNoAccount
      else Inr ())"

definition assertForgivenessAllowed ::
  "number \<Rightarrow> string option \<Rightarrow> number \<Rightarrow> loan_refusal + unit" where
  "assertForgivenessAllowed amount reason owed =
     (if blank reason then Inl SayWhyWriteOff
      else if \<not> amount > 0 then Inl WriteOffNotPositive
      else if round2 amount > round2 owed then Inl (OnlyLeftToWriteOff (round2 owed))
      else Inr ())"

text \<open>Plain wording for a state.\<close>

fun readable :: "LoanStatus \<Rightarrow> string" where
  "readable proposed = ''waiting for an answer''"
| "readable counter_proposed = ''waiting on a counter-offer''"
| "readable disputed = ''disputed''"
| "readable accepted = ''agreed and outstanding''"
| "readable partially_paid = ''part paid''"
| "readable payment_awaiting_confirmation = ''waiting for a payment to be confirmed''"
| "readable settled = ''paid off''"
| "readable forgiven_settled = ''written off''"
| "readable cancelled = ''cancelled''"

section \<open>The payment fingerprint\<close>

text \<open>SHA-256 comes from \<^verbatim>\<open>node:crypto\<close> and is a parameter.\<close>

definition payment_canonical ::
  "string \<Rightarrow> number \<Rightarrow> string \<Rightarrow> string option \<Rightarrow> string option \<Rightarrow> string option \<Rightarrow> string" where
  "payment_canonical loanId amount meth receivingAccountId reference evidenceRef =
     join ''|'' [loanId, toFixed2 amount, meth, or_empty receivingAccountId,
                 js_trim (or_empty reference), js_trim (or_empty evidenceRef)]"

definition fingerprintPayment ::
  "(string \<Rightarrow> string) \<Rightarrow> string \<Rightarrow> number \<Rightarrow> string \<Rightarrow> string option \<Rightarrow> string option \<Rightarrow> string option \<Rightarrow> string" where
  "fingerprintPayment sha256 loanId amount meth receivingAccountId reference evidenceRef =
     sha256 (payment_canonical loanId amount meth receivingAccountId reference evidenceRef)"

section \<open>Lemmas\<close>

interpretation loan_ledger: signed_ledger BALANCE_EFFECT r_kind r_amount remaining
proof
  show "BALANCE_EFFECT k = - 1 \<or> BALANCE_EFFECT k = 0 \<or> BALANCE_EFFECT k = 1" for k
    by (cases k) simp_all
qed (simp add: remaining_def)

lemma answered_iff: "is_answered rows (Some i) \<longleftrightarrow> i \<in> answered rows"
  by (auto simp: is_answered_def answered_def list_ex_iff)

lemma assertDecision_ok:
  "assertDecision act from own amount reason = Inr st \<longleftrightarrow>
     from \<in> set (transition_from act) \<and> st = transition_to act \<and>
     (act \<in> {accept, counter} \<longrightarrow> \<not> own) \<and>
     (act = counter \<longrightarrow> (\<exists>a. amount = Some a \<and> a > 0)) \<and>
     (act = dispute \<longrightarrow> \<not> blank reason)"
  unfolding assertDecision_def by (cases act) (auto split: option.splits)

lemma assertPaymentAllowed_ok:
  "assertPaymentAllowed amount meth acc owed = Inr u \<longleftrightarrow>
     0 < amount \<and> round2 amount \<le> round2 owed \<and> (meth = account \<longleftrightarrow> acc \<noteq> None)"
  unfolding assertPaymentAllowed_def by (cases meth) auto

lemma assertForgivenessAllowed_ok:
  "assertForgivenessAllowed amount reason owed = Inr u \<longleftrightarrow>
     \<not> blank reason \<and> 0 < amount \<and> round2 amount \<le> round2 owed"
  unfolding assertForgivenessAllowed_def by auto

lemma invert_invert [simp]: "invert (invert d) = d"
  by (cases d) simp_all

text \<open>The breakdown explains the balance it is shown with.\<close>

lemma signed_sum_split:
  "(\<Sum>r\<leftarrow>rows. of_int (BALANCE_EFFECT (r_kind r)) * r_amount r) =
     (\<Sum>r\<leftarrow>filter (\<lambda>r. r_kind r = principal_accepted) rows. r_amount r)
     + (\<Sum>r\<leftarrow>filter (\<lambda>r. r_kind r = payment_corrected) rows. r_amount r)
     - (\<Sum>r\<leftarrow>filter (\<lambda>r. r_kind r = payment_confirmed) rows. r_amount r)
     - (\<Sum>r\<leftarrow>filter (\<lambda>r. r_kind r = forgiven) rows. r_amount r)"
proof (induction rows)
  case (Cons r rows)
  then show ?case by (cases "r_kind r") simp_all
qed simp

lemma remaining_breakdown:
  assumes "\<And>r. r \<in> set rows \<Longrightarrow> is_cents (r_amount r)"
  shows "remaining rows =
     total_of r_kind r_amount principal_accepted rows + total_of r_kind r_amount payment_corrected rows
     - total_of r_kind r_amount payment_confirmed rows - total_of r_kind r_amount forgiven rows"
proof -
  have "remaining rows = (\<Sum>r\<leftarrow>rows. of_int (BALANCE_EFFECT (r_kind r)) * r_amount r)"
    by (rule loan_ledger.balance_exact) (rule assms)
  moreover have "total_of r_kind r_amount k rows = (\<Sum>r\<leftarrow>filter (\<lambda>r. r_kind r = k) rows. r_amount r)" for k
    by (rule total_of_exact) (rule assms)
  ultimately show ?thesis by (simp add: signed_sum_split)
qed

end
