(* ===== verification/Loans.thy ===== *)
theory Loans
  imports LoanRules
begin

text \<open>
  The loan service (\<^verbatim>\<open>src/src/loans/loans.service.ts\<close>): the tables it reads and writes as
  one state record, each handler as a function from the request context, the request and the
  state to the response (or the exception) and the state afterwards. Handlers are not one
  transaction in the code, so an exception keeps the writes made before it; the identifiers
  that the code draws with \<^verbatim>\<open>newUuidV7Bin\<close> are arguments.
\<close>

section \<open>State\<close>

record loan =
  l_companyId :: id
  l_branchId :: "id option"
  l_counterpartyId :: id
  l_counterpartyCompanyId :: "id option"
  l_connectionId :: "id option"
  l_direction :: Direction
  l_status :: LoanStatus
  l_proposedAmount :: number
  l_counterAmount :: "number option"
  l_principal :: "number option"
  l_note :: "string option"
  l_disputeReason :: "string option"
  l_proposedByCompanyId :: id
  l_proposedById :: "id option"
  l_decidedById :: "id option"
  l_acceptedAt :: "nat option"
  l_settledAt :: "nat option"
  l_clientUuid :: "id option"
  l_version :: nat
  l_createdAt :: nat

record entry =
  e_loanId :: id
  e_companyId :: id
  e_counterpartyCompanyId :: "id option"
  e_kind :: LedgerKind
  e_amount :: number
  e_method :: "Method option"
  e_receivingAccountId :: "id option"
  e_accountLabelSnapshot :: "string option"
  e_reference :: "string option"
  e_evidenceRef :: "string option"
  e_reason :: "string option"
  e_note :: "string option"
  e_actingCompanyId :: id
  e_actingUserId :: "id option"
  e_entryDate :: nat
  e_clientUuid :: "id option"
  e_clientRequestHash :: "string option"
  e_refersToId :: "id option"

record loan_state =
  ls_loans :: "(id, loan) table"
  ls_ledger :: "(id, entry) table"
  ls_counterparties :: "(id, counterparty_row) table"
  ls_companies :: "(id, string) table"
  ls_accounts :: "(id, account_row) table"
  ls_audit :: "audit_row list"
  ls_notifications :: "notification list"

datatype loan_reason =
    Refused loan_refusal
  | NoSuchLoan
  | NoSuchCounterparty
  | StoreBlocked
  | RefreshRequired
  | AnsweredFirst
  | NothingAgreed
  | NotTheCreditor
  | InvalidUuid
  | NoSuchReport
  | AlreadyConfirmed
  | SayWhyReversing
  | NoSuchConfirmed
  | AlreadyReversed
  | IdempotencyConflict

type_synonym loan_error = "loan_reason http_error"

section \<open>Requests and responses\<close>

record CreateLoanDto =
  cl_counterpartyId :: id
  cl_direction :: Direction
  cl_amount :: number
  cl_note :: "string option"
  cl_clientUuid :: "id option"

record DecideLoanDto =
  dl_action :: Action
  dl_amount :: "number option"
  dl_reason :: "string option"
  dl_expectedVersion :: "nat option"

datatype PaymentAction = report | confirm | correct

record LoanPaymentDto =
  lp_action :: PaymentAction
  lp_amount :: "number option"
  lp_method :: "Method option"
  lp_receivingAccountId :: "id option"
  lp_reference :: "string option"
  lp_evidenceRef :: "string option"
  lp_note :: "string option"
  lp_entryId :: "id option"
  lp_reason :: "string option"
  lp_clientUuid :: "id option"

record ForgiveLoanDto =
  fl_amount :: number
  fl_reason :: "string option"

record LoanSummary =
  v_id :: id
  v_status :: LoanStatus
  v_group :: StatusGroup
  v_statusText :: string
  v_direction :: Direction
  v_otherParty :: "string option"
  v_proposedAmount :: number
  v_counterAmount :: "number option"
  v_principal :: "number option"
  v_remaining :: number
  v_createdAt :: nat
  v_version :: nat

record EntryView =
  ev_id :: id
  ev_kind :: LedgerKind
  ev_amount :: number
  ev_refersToId :: "id option"
  ev_method :: "Method option"
  ev_accountLabel :: "string option"
  ev_reference :: "string option"
  ev_evidenceRef :: "string option"
  ev_reason :: "string option"
  ev_date :: nat
  ev_byMe :: bool

record LoanView =
  lv_summary :: LoanSummary
  lv_note :: "string option"
  lv_disputeReason :: "string option"
  lv_breakdown :: Breakdown
  lv_ledger :: "EntryView list"

record ClosingReminders =
  rem_proposalsNeedingAnswer :: nat
  rem_paymentsAwaitingConfirmation :: nat
  rem_balancesOutstanding :: nat
  rem_totalOutstanding :: number
  rem_affectsExpectedCash :: bool

type_synonym loan_result = "(loan_error + LoanView) \<times> loan_state"

section \<open>Reads\<close>

definition visible :: "id \<Rightarrow> loan \<Rightarrow> bool" where
  "visible me l \<longleftrightarrow> l_companyId l = me \<or> l_counterpartyCompanyId l = Some me"

definition mine :: "ctx \<Rightarrow> id \<Rightarrow> loan_state \<Rightarrow> loan_error + loan" where
  "mine c i s =
     (case map_of (ls_loans s) i of
        None \<Rightarrow> Inl (NotFound NoSuchLoan)
      | Some l \<Rightarrow> if visible (c_companyId c) l then Inr l else Inl (NotFound NoSuchLoan))"

definition entries_of :: "id \<Rightarrow> loan_state \<Rightarrow> (id \<times> entry) list" where
  "entries_of i s = filter (\<lambda>(_, e). e_loanId e = i) (ls_ledger s)"

definition row_of :: "id \<times> entry \<Rightarrow> LedgerRow" where
  "row_of x = \<lparr>r_kind = e_kind (snd x), r_amount = e_amount (snd x),
               r_id = Some (fst x), r_refersToId = e_refersToId (snd x)\<rparr>"

text \<open>\<^verbatim>\<open>ledgerRows\<close> selects kinds and amounts only; \<^verbatim>\<open>get\<close> keeps the ids and links.\<close>

definition ledgerRows :: "id \<Rightarrow> loan_state \<Rightarrow> LedgerRow list" where
  "ledgerRows i s =
     map (\<lambda>(_, e). \<lparr>r_kind = e_kind e, r_amount = e_amount e, r_id = None, r_refersToId = None\<rparr>)
         (entries_of i s)"

text \<open>The names come through foreign keys that the tables keep; a missing row reads as \<open>None\<close>.\<close>

definition summarise :: "id \<Rightarrow> id \<Rightarrow> loan \<Rightarrow> loan_state \<Rightarrow> LoanSummary" where
  "summarise me i l s =
     (let iAmOwner = (l_companyId l = me)
      in \<lparr>v_id = i, v_status = l_status l, v_group = GROUP_OF (l_status l),
          v_statusText = readable (l_status l),
          v_direction = directionFor (l_companyId l) (l_direction l) me,
          v_otherParty = (if iAmOwner then map_option cp_name (map_of (ls_counterparties s) (l_counterpartyId l))
                          else map_of (ls_companies s) (l_companyId l)),
          v_proposedAmount = l_proposedAmount l, v_counterAmount = l_counterAmount l,
          v_principal = l_principal l, v_remaining = remaining (ledgerRows i s),
          v_createdAt = l_createdAt l, v_version = l_version l\<rparr>)"

definition entry_view :: "id \<Rightarrow> id \<times> entry \<Rightarrow> EntryView" where
  "entry_view me x =
     (let e = snd x
      in \<lparr>ev_id = fst x, ev_kind = e_kind e, ev_amount = e_amount e, ev_refersToId = e_refersToId e,
          ev_method = e_method e, ev_accountLabel = e_accountLabelSnapshot e, ev_reference = e_reference e,
          ev_evidenceRef = e_evidenceRef e, ev_reason = e_reason e, ev_date = e_entryDate e,
          ev_byMe = (e_actingCompanyId e = me)\<rparr>)"

definition get :: "ctx \<Rightarrow> id \<Rightarrow> loan_state \<Rightarrow> loan_error + LoanView" where
  "get c i s =
     (case mine c i s of
        Inl e \<Rightarrow> Inl e
      | Inr l \<Rightarrow>
          Inr \<lparr>lv_summary = summarise (c_companyId c) i l s, lv_note = l_note l,
               lv_disputeReason = l_disputeReason l,
               lv_breakdown = breakdown (map row_of (entries_of i s)),
               lv_ledger = map (entry_view (c_companyId c)) (entries_of i s)\<rparr>)"

text \<open>Newest first, the first 200 rows, then the filter on the group.\<close>

definition list_loans :: "ctx \<Rightarrow> StatusGroup option \<Rightarrow> loan_state \<Rightarrow> LoanSummary list" where
  "list_loans c grp s =
     (let me = c_companyId c;
          rows = take 200 (rev (sort_key (\<lambda>(_, l). l_createdAt l) (filter (\<lambda>(_, l). visible me l) (ls_loans s))))
      in filter (\<lambda>r. grp = None \<or> grp = Some (v_group r)) (map (\<lambda>(i, l). summarise me i l s) rows))"

text \<open>The query of the reminders has no order: the first 100 rows in the order of the table.\<close>

definition closingReminders :: "ctx \<Rightarrow> loan_state \<Rightarrow> ClosingReminders" where
  "closingReminders c s =
     (let me = c_companyId c;
          loans = take 100 (filter (\<lambda>(_, l). visible me l \<and>
                    l_status l \<in> set [proposed, counter_proposed, disputed, accepted, partially_paid,
                                     payment_awaiting_confirmation]) (ls_loans s));
          needsAnswer = filter (\<lambda>(_, l). l_status l \<in> set [proposed, counter_proposed, disputed] \<and>
                          \<not> (l_counterpartyCompanyId l \<noteq> None \<and> l_proposedByCompanyId l = me)) loans;
          awaitingConfirm = filter (\<lambda>(_, l). l_status l = payment_awaiting_confirmation) loans;
          outstanding = filter (\<lambda>(i, l). l_principal l \<noteq> None \<and> remaining (ledgerRows i s) > 0) loans
      in \<lparr>rem_proposalsNeedingAnswer = length needsAnswer,
          rem_paymentsAwaitingConfirmation = length awaitingConfirm,
          rem_balancesOutstanding = length outstanding,
          rem_totalOutstanding = (\<Sum>(i, l)\<leftarrow>outstanding. remaining (ledgerRows i s)),
          rem_affectsExpectedCash = False\<rparr>)"

section \<open>Handlers\<close>

definition propose :: "ctx \<Rightarrow> id \<Rightarrow> CreateLoanDto \<Rightarrow> loan_state \<Rightarrow> loan_result" where
  "propose c newId dto s =
     (let me = c_companyId c;
          replay = (case cl_clientUuid dto of
                      None \<Rightarrow> None
                    | Some u \<Rightarrow> find (\<lambda>(_, l). l_companyId l = me \<and> l_clientUuid l = Some u) (ls_loans s))
      in case replay of
           Some (i, _) \<Rightarrow> (get c i s, s)
         | None \<Rightarrow>
             (case map_of (ls_counterparties s) (cl_counterpartyId dto) of
                None \<Rightarrow> (Inl (NotFound NoSuchCounterparty), s)
              | Some cp \<Rightarrow>
                  if \<not> (cp_companyId cp = me \<and> cp_isActive cp) then (Inl (NotFound NoSuchCounterparty), s)
                  else if cp_connectionStatus cp = Some conn_blocked then (Inl (Conflict StoreBlocked), s)
                  else
                    (let l = \<lparr>l_companyId = me, l_branchId = c_branchId c,
                              l_counterpartyId = cl_counterpartyId dto,
                              l_counterpartyCompanyId = cp_connectedCompanyId cp,
                              l_connectionId = cp_connectionId cp, l_direction = cl_direction dto,
                              l_status = proposed, l_proposedAmount = cl_amount dto,
                              l_counterAmount = None, l_principal = None,
                              l_note = trim_or_null (cl_note dto), l_disputeReason = None,
                              l_proposedByCompanyId = me, l_proposedById = c_userId c,
                              l_decidedById = None, l_acceptedAt = None, l_settledAt = None,
                              l_clientUuid = cl_clientUuid dto, l_version = 0, l_createdAt = c_now c\<rparr>;
                         s1 = s\<lparr>ls_loans := t_insert newId l (ls_loans s)\<rparr>;
                         s2 = s1\<lparr>ls_audit := ls_audit s1 @
                                   [audit_row_of c ''Loan'' newId ''create'' None (c_branchId c)]\<rparr>;
                         s3 = (if cp_connectedCompanyId cp \<noteq> None
                               then s2\<lparr>ls_notifications := ls_notifications s2 @
                                         [deliver c ''loan.proposed'' None None]\<rparr>
                               else s2)
                     in (get c newId s3, s3))))"

definition new_entry :: "ctx \<Rightarrow> id \<Rightarrow> loan \<Rightarrow> LedgerKind \<Rightarrow> number \<Rightarrow> entry" where
  "new_entry c i l k a =
     \<lparr>e_loanId = i, e_companyId = l_companyId l, e_counterpartyCompanyId = l_counterpartyCompanyId l,
      e_kind = k, e_amount = a, e_method = None, e_receivingAccountId = None,
      e_accountLabelSnapshot = None, e_reference = None, e_evidenceRef = None, e_reason = None,
      e_note = None, e_actingCompanyId = c_companyId c, e_actingUserId = c_userId c,
      e_entryDate = dayKey (c_now c), e_clientUuid = None, e_clientRequestHash = None,
      e_refersToId = None\<rparr>"

definition agreed_amount :: "loan \<Rightarrow> number" where
  "agreed_amount l = (case l_counterAmount l of Some a \<Rightarrow> a | None \<Rightarrow> l_proposedAmount l)"

text \<open>The columns that \<^verbatim>\<open>decide\<close> writes, per action, with the version incremented.\<close>

definition decided :: "ctx \<Rightarrow> DecideLoanDto \<Rightarrow> LoanStatus \<Rightarrow> number \<Rightarrow> loan \<Rightarrow> loan" where
  "decided c dto st agreed l =
     (let l1 = l\<lparr>l_status := st, l_version := Suc (l_version l)\<rparr>
      in case dl_action dto of
           counter \<Rightarrow> l1\<lparr>l_counterAmount := dl_amount dto, l_proposedByCompanyId := c_companyId c,
                         l_proposedById := c_userId c\<rparr>
         | dispute \<Rightarrow> l1\<lparr>l_disputeReason := map_option js_trim (dl_reason dto)\<rparr>
         | accept \<Rightarrow> l1\<lparr>l_principal := Some agreed, l_acceptedAt := Some (c_now c),
                        l_decidedById := c_userId c\<rparr>
         | _ \<Rightarrow> l1)"

definition decide :: "ctx \<Rightarrow> id \<Rightarrow> id \<Rightarrow> DecideLoanDto \<Rightarrow> loan_state \<Rightarrow> loan_result" where
  "decide c newId i dto s =
     (case mine c i s of
        Inl e \<Rightarrow> (Inl e, s)
      | Inr l \<Rightarrow>
          (let isOwnOffer = (l_counterpartyCompanyId l \<noteq> None \<and> l_proposedByCompanyId l = c_companyId c)
           in case assertDecision (dl_action dto) (l_status l) isOwnOffer (dl_amount dto) (dl_reason dto) of
                Inl r \<Rightarrow> (Inl (Conflict (Refused r)), s)
              | Inr st \<Rightarrow>
                  if dl_expectedVersion dto \<noteq> None \<and> dl_expectedVersion dto \<noteq> Some (l_version l)
                  then (Inl (Conflict RefreshRequired), s)
                  else
                    (let agreed = agreed_amount l;
                         (won, loans') =
                           t_update_where i (\<lambda>r. l_version r = l_version l \<and> l_status r = l_status l)
                             (decided c dto st agreed) (ls_loans s)
                     in if won = 0 then (Inl (Conflict AnsweredFirst), s)
                        else
                          (let s1 = s\<lparr>ls_loans := loans'\<rparr>;
                               s2 = (if dl_action dto = accept
                                     then s1\<lparr>ls_ledger := t_insert newId
                                               (new_entry c i l principal_accepted agreed) (ls_ledger s1)\<rparr>
                                     else s1);
                               s3 = s2\<lparr>ls_audit := ls_audit s2 @
                                         [audit_row_of c ''Loan'' i ''status_change'' None (l_branchId l)]\<rparr>
                           in (get c i s3, s3)))))"

definition assertCreditor :: "loan \<Rightarrow> id \<Rightarrow> loan_error + unit" where
  "assertCreditor l me =
     (let iAmOwner = (l_companyId l = me); creditorIsOwner = (l_direction l = they_owe_us)
      in if iAmOwner \<noteq> creditorIsOwner then Inl (Forbidden NotTheCreditor) else Inr ())"

text \<open>\<^verbatim>\<open>updateMany({ where: { id, status: { in: sts } }, data })\<close>\<close>

definition set_loan_where :: "id \<Rightarrow> LoanStatus list \<Rightarrow> (loan \<Rightarrow> loan) \<Rightarrow> loan_state \<Rightarrow> loan_state" where
  "set_loan_where i sts f s =
     s\<lparr>ls_loans := snd (t_update_where i (\<lambda>l. l_status l \<in> set sts) f (ls_loans s))\<rparr>"

definition settleIfClear :: "ctx \<Rightarrow> id \<Rightarrow> LoanStatus \<Rightarrow> loan_state \<Rightarrow> loan_state" where
  "settleIfClear c i as s =
     (let owed = remaining (ledgerRows i s)
      in if owed > 0
         then set_loan_where i [accepted, payment_awaiting_confirmation] (\<lambda>l. l\<lparr>l_status := partially_paid\<rparr>) s
         else set_loan_where i [accepted, partially_paid, payment_awaiting_confirmation]
                (\<lambda>l. l\<lparr>l_status := as, l_settledAt := Some (c_now c)\<rparr>) s)"

definition add_entry :: "id \<Rightarrow> entry \<Rightarrow> loan_state \<Rightarrow> loan_state" where
  "add_entry newId e s = s\<lparr>ls_ledger := t_insert newId e (ls_ledger s)\<rparr>"

text \<open>\<^verbatim>\<open>findFirst({ where: { id, loanId, kind } })\<close> and \<^verbatim>\<open>findFirst({ where: { refersToId, kind } })\<close>\<close>

definition find_entry :: "id \<Rightarrow> id \<Rightarrow> LedgerKind \<Rightarrow> loan_state \<Rightarrow> entry option" where
  "find_entry x i k s =
     (case map_of (ls_ledger s) x of
        None \<Rightarrow> None
      | Some e \<Rightarrow> if e_loanId e = i \<and> e_kind e = k then Some e else None)"

definition refers :: "id \<Rightarrow> LedgerKind \<Rightarrow> loan_state \<Rightarrow> bool" where
  "refers x k s = list_ex (\<lambda>(_, e). e_refersToId e = Some x \<and> e_kind e = k) (ls_ledger s)"

definition payment_confirm :: "ctx \<Rightarrow> id \<Rightarrow> id \<Rightarrow> LoanPaymentDto \<Rightarrow> loan \<Rightarrow> number \<Rightarrow> loan_state \<Rightarrow> loan_result" where
  "payment_confirm c newId i dto l owed s =
     (case assertCreditor l (c_companyId c) of
        Inl e \<Rightarrow> (Inl e, s)
      | Inr _ \<Rightarrow>
          (case lp_entryId dto of
             None \<Rightarrow> (Inl (Internal InvalidUuid), s)
           | Some x \<Rightarrow>
               (case find_entry x i payment_reported s of
                  None \<Rightarrow> (Inl (NotFound NoSuchReport), s)
                | Some reported \<Rightarrow>
                    if refers x payment_confirmed s then (Inl (Conflict AlreadyConfirmed), s)
                    else
                      (case assertPaymentAllowed (e_amount reported)
                              (case e_method reported of None \<Rightarrow> cash | Some m \<Rightarrow> m)
                              (e_receivingAccountId reported) owed of
                         Inl r \<Rightarrow> (Inl (Conflict (Refused r)), s)
                       | Inr _ \<Rightarrow>
                           (let e = (new_entry c i l payment_confirmed (e_amount reported))
                                      \<lparr>e_method := e_method reported,
                                       e_receivingAccountId := e_receivingAccountId reported,
                                       e_accountLabelSnapshot := e_accountLabelSnapshot reported,
                                       e_reference := e_reference reported,
                                       e_refersToId := Some x\<rparr>;
                                s1 = settleIfClear c i settled (add_entry newId e s)
                            in (get c i s1, s1))))))"

definition payment_correct :: "ctx \<Rightarrow> id \<Rightarrow> id \<Rightarrow> LoanPaymentDto \<Rightarrow> loan \<Rightarrow> loan_state \<Rightarrow> loan_result" where
  "payment_correct c newId i dto l s =
     (case assertCreditor l (c_companyId c) of
        Inl e \<Rightarrow> (Inl e, s)
      | Inr _ \<Rightarrow>
          if blank (lp_reason dto) then (Inl (BadRequest SayWhyReversing), s)
          else
            (case lp_entryId dto of
               None \<Rightarrow> (Inl (Internal InvalidUuid), s)
             | Some x \<Rightarrow>
                 (case find_entry x i payment_confirmed s of
                    None \<Rightarrow> (Inl (NotFound NoSuchConfirmed), s)
                  | Some confirmed \<Rightarrow>
                      if refers x payment_corrected s then (Inl (Conflict AlreadyReversed), s)
                      else
                        (let e = (new_entry c i l payment_corrected (e_amount confirmed))
                                   \<lparr>e_reason := map_option js_trim (lp_reason dto),
                                    e_refersToId := Some x\<rparr>;
                             s1 = set_loan_where i [settled, forgiven_settled]
                                    (\<lambda>l. l\<lparr>l_status := partially_paid, l_settledAt := None\<rparr>)
                                    (add_entry newId e s)
                         in (get c i s1, s1)))))"

definition report_fingerprint :: "(string \<Rightarrow> string) \<Rightarrow> id \<Rightarrow> LoanPaymentDto \<Rightarrow> string" where
  "report_fingerprint sha256 i dto =
     fingerprintPayment sha256 (binToUuid i)
       (case lp_amount dto of None \<Rightarrow> 0 | Some a \<Rightarrow> a)
       (case lp_method dto of None \<Rightarrow> ''cash'' | Some m \<Rightarrow> method_text m)
       (map_option binToUuid (lp_receivingAccountId dto)) (lp_reference dto) (lp_evidenceRef dto)"

definition payment_report ::
  "(string \<Rightarrow> string) \<Rightarrow> ctx \<Rightarrow> id \<Rightarrow> id \<Rightarrow> LoanPaymentDto \<Rightarrow> loan \<Rightarrow> number \<Rightarrow> loan_state \<Rightarrow> loan_result" where
  "payment_report sha256 c newId i dto l owed s =
     (let me = c_companyId c;
          fingerprint = report_fingerprint sha256 i dto;
          replay = (case lp_clientUuid dto of
                      None \<Rightarrow> None
                    | Some u \<Rightarrow> find (\<lambda>(_, e). e_actingCompanyId e = me \<and> e_clientUuid e = Some u) (ls_ledger s))
      in case replay of
           Some (_, r) \<Rightarrow>
             if e_clientRequestHash r \<noteq> None \<and> e_clientRequestHash r \<noteq> Some fingerprint
             then (Inl (Conflict IdempotencyConflict), s)
             else (get c i s, s)
         | None \<Rightarrow>
             (case assertPaymentAllowed (case lp_amount dto of None \<Rightarrow> 0 | Some a \<Rightarrow> a)
                     (case lp_method dto of None \<Rightarrow> cash | Some m \<Rightarrow> m)
                     (lp_receivingAccountId dto) owed of
                Inl r \<Rightarrow> (Inl (BadRequest (Refused r)), s)
              | Inr _ \<Rightarrow>
                  (let label = (case lp_receivingAccountId dto of
                                  None \<Rightarrow> None
                                | Some a \<Rightarrow> (case map_of (ls_accounts s) a of
                                               None \<Rightarrow> None
                                             | Some r \<Rightarrow> if ac_companyId r = me then Some (ac_label r) else None));
                       e = (new_entry c i l payment_reported (case lp_amount dto of None \<Rightarrow> 0 | Some a \<Rightarrow> a))
                             \<lparr>e_method := lp_method dto,
                              e_receivingAccountId := lp_receivingAccountId dto,
                              e_accountLabelSnapshot := label,
                              e_reference := trim_or_null (lp_reference dto),
                              e_evidenceRef := trim_or_null (lp_evidenceRef dto),
                              e_note := trim_or_null (lp_note dto),
                              e_clientUuid := lp_clientUuid dto,
                              e_clientRequestHash :=
                                (if lp_clientUuid dto \<noteq> None then Some fingerprint else None)\<rparr>;
                       s1 = set_loan_where i [accepted, partially_paid]
                              (\<lambda>l. l\<lparr>l_status := payment_awaiting_confirmation\<rparr>) (add_entry newId e s)
                   in (get c i s1, s1))))"

definition payment :: "(string \<Rightarrow> string) \<Rightarrow> ctx \<Rightarrow> id \<Rightarrow> id \<Rightarrow> LoanPaymentDto \<Rightarrow> loan_state \<Rightarrow> loan_result" where
  "payment sha256 c newId i dto s =
     (case mine c i s of
        Inl e \<Rightarrow> (Inl e, s)
      | Inr l \<Rightarrow>
          if l_principal l = None then (Inl (Conflict NothingAgreed), s)
          else
            (let owed = remaining (ledgerRows i s)
             in case lp_action dto of
                  confirm \<Rightarrow> payment_confirm c newId i dto l owed s
                | correct \<Rightarrow> payment_correct c newId i dto l s
                | report \<Rightarrow> payment_report sha256 c newId i dto l owed s))"

definition forgive :: "ctx \<Rightarrow> id \<Rightarrow> id \<Rightarrow> ForgiveLoanDto \<Rightarrow> loan_state \<Rightarrow> loan_result" where
  "forgive c newId i dto s =
     (case mine c i s of
        Inl e \<Rightarrow> (Inl e, s)
      | Inr l \<Rightarrow>
          (case assertCreditor l (c_companyId c) of
             Inl e \<Rightarrow> (Inl e, s)
           | Inr _ \<Rightarrow>
               if l_principal l = None then (Inl (Conflict NothingAgreed), s)
               else
                 (case assertForgivenessAllowed (fl_amount dto) (fl_reason dto) (remaining (ledgerRows i s)) of
                    Inl r \<Rightarrow> (Inl (BadRequest (Refused r)), s)
                  | Inr _ \<Rightarrow>
                      (let e = (new_entry c i l forgiven (fl_amount dto))
                                 \<lparr>e_reason := map_option js_trim (fl_reason dto)\<rparr>;
                           s1 = add_entry newId e s;
                           s2 = s1\<lparr>ls_audit := ls_audit s1 @
                                     [audit_row_of c ''Loan'' i ''override'' (None) (l_branchId l)]\<rparr>;
                           s3 = settleIfClear c i forgiven_settled s2
                       in (get c i s3, s3)))))"

end
