(* ===== verification/LoanInvariant.thy ===== *)
theory LoanInvariant
  imports Loans
begin

text \<open>
  The invariant of the loan tables and that every handler keeps it. For one loan it says
  which statuses carry a principal, that the ledger holds exactly that principal, that what
  remains is between zero and the principal, that a loan reads as settled exactly when
  nothing remains, and that confirmations and corrections answer distinct earlier entries.
\<close>

section \<open>One loan and its entries\<close>

definition bal :: "(id \<times> entry) list \<Rightarrow> number" where
  "bal es = remaining (map row_of es)"

definition unagreed :: "loan \<Rightarrow> bool" where
  "unagreed l \<longleftrightarrow> l_status l \<in> {proposed, counter_proposed, disputed, cancelled}"

definition closed_loan :: "loan \<Rightarrow> bool" where
  "closed_loan l \<longleftrightarrow> l_status l \<in> {settled, forgiven_settled}"

text \<open>Every entry of kind \<open>k\<close> answers its own entry of kind \<open>k'\<close>, for the same amount.\<close>

definition links :: "LedgerKind \<Rightarrow> LedgerKind \<Rightarrow> (id \<times> entry) list \<Rightarrow> bool" where
  "links k k' es \<longleftrightarrow>
     (\<forall>x e. (x, e) \<in> set es \<and> e_kind e = k \<longrightarrow>
        (\<exists>y r. e_refersToId e = Some y \<and> (y, r) \<in> set es \<and> e_kind r = k' \<and> e_amount r = e_amount e)) \<and>
     (\<forall>x e x' e'. (x, e) \<in> set es \<and> (x', e') \<in> set es \<and> e_kind e = k \<and> e_kind e' = k \<and>
        e_refersToId e = e_refersToId e' \<longrightarrow> x = x')"

definition entries_ok :: "(id \<times> entry) list \<Rightarrow> bool" where
  "entries_ok es \<longleftrightarrow> (\<forall>x e. (x, e) \<in> set es \<longrightarrow> valid_amount (e_amount e))"

definition principal_is :: "number \<Rightarrow> (id \<times> entry) list \<Rightarrow> bool" where
  "principal_is p es \<longleftrightarrow>
     map (\<lambda>x. e_amount (snd x)) (filter (\<lambda>x. e_kind (snd x) = principal_accepted) es) = [p]"

definition loan_ok :: "loan \<Rightarrow> (id \<times> entry) list \<Rightarrow> bool" where
  "loan_ok l es \<longleftrightarrow>
     valid_amount (l_proposedAmount l) \<and>
     (\<forall>a. l_counterAmount l = Some a \<longrightarrow> valid_amount a) \<and>
     entries_ok es \<and>
     (if unagreed l then l_principal l = None \<and> es = []
      else (\<exists>p. l_principal l = Some p \<and> valid_amount p \<and> principal_is p es) \<and>
           0 \<le> bal es \<and> (closed_loan l \<longleftrightarrow> bal es = 0) \<and>
           links payment_confirmed payment_reported es \<and>
           links payment_corrected payment_confirmed es)"

lemma bal_Nil [simp]: "bal [] = 0"
  by (simp add: bal_def)

lemma row_of_simps [simp]:
  "r_kind (row_of x) = e_kind (snd x)" "r_amount (row_of x) = e_amount (snd x)"
  "r_id (row_of x) = Some (fst x)" "r_refersToId (row_of x) = e_refersToId (snd x)"
  by (simp_all add: row_of_def)

lemma rows_cents: "entries_ok es \<Longrightarrow> r \<in> set (map row_of es) \<Longrightarrow> is_cents (r_amount r)"
  by (auto simp: entries_ok_def valid_amount_def)

lemma bal_snoc:
  assumes "entries_ok es" and "is_cents (e_amount e)"
  shows "bal (es @ [(x, e)]) = bal es + of_int (BALANCE_EFFECT (e_kind e)) * e_amount e"
  using loan_ledger.balance_snoc [of "map row_of es" "row_of (x, e)", OF rows_cents [OF assms(1)]] assms(2)
  by (simp add: bal_def)

lemma entries_ok_snoc [simp]: "entries_ok (es @ [(x, e)]) \<longleftrightarrow> entries_ok es \<and> valid_amount (e_amount e)"
  by (auto simp: entries_ok_def)

lemma principal_is_snoc [simp]:
  "e_kind e \<noteq> principal_accepted \<Longrightarrow> principal_is p (es @ [(x, e)]) = principal_is p es"
  by (simp add: principal_is_def)

lemma links_Nil [simp]: "links k k' []"
  by (simp add: links_def)

lemma links_snoc_other:
  "links k k' es \<Longrightarrow> e_kind e \<noteq> k \<Longrightarrow> links k k' (es @ [(x, e)])"
  unfolding links_def by (simp, blast)

lemma links_snoc:
  assumes "links k k' es" and "e_refersToId e = Some y" and "(y, r) \<in> set es"
    and "e_kind r = k'" and "e_amount r = e_amount e"
    and "\<And>x' e'. (x', e') \<in> set es \<Longrightarrow> e_kind e' = k \<Longrightarrow> e_refersToId e' \<noteq> Some y"
  shows "links k k' (es @ [(x, e)])"
  using assms unfolding links_def
  apply simp
  apply (intro conjI allI impI)
   apply metis
  apply metis
  done

text \<open>What remains never exceeds the principal: corrections undo distinct confirmations.\<close>

lemma sum_filter_table:
  fixes f :: "'k \<times> 'v \<Rightarrow> 'a :: comm_monoid_add"
  assumes "t_wf t"
  shows "(\<Sum>x\<leftarrow>filter P t. f x) = sum f {x \<in> set t. P x}"
  using assms
  by (simp add: t_wf_def t_keys_def distinct_map sum_list_distinct_conv_sum_set)

lemma corrected_le_confirmed:
  assumes wf: "t_wf es" and ok: "entries_ok es" and lk: "links k k' es"
  shows "(\<Sum>x\<leftarrow>filter (\<lambda>x. e_kind (snd x) = k) es. e_amount (snd x))
       \<le> (\<Sum>x\<leftarrow>filter (\<lambda>x. e_kind (snd x) = k') es. e_amount (snd x))"
proof -
  let ?C = "{x \<in> set es. e_kind (snd x) = k}" and ?D = "{x \<in> set es. e_kind (snd x) = k'}"
  define g where "g = (\<lambda>x :: id \<times> entry. (the (e_refersToId (snd x)), the (map_of es (the (e_refersToId (snd x))))))"
  have g: "g x \<in> ?D \<and> e_amount (snd (g x)) = e_amount (snd x)" if "x \<in> ?C" for x
  proof -
    from that lk obtain y r where "e_refersToId (snd x) = Some y" "(y, r) \<in> set es"
      "e_kind r = k'" "e_amount r = e_amount (snd x)"
      unfolding links_def by (cases x) fastforce
    moreover from this(2) wf have "map_of es y = Some r" by (simp add: t_wf_map_of_eq)
    ultimately show ?thesis by (simp add: g_def)
  qed
  have inj: "inj_on g ?C"
  proof (rule inj_onI)
    fix x x' assume x: "x \<in> ?C" "x' \<in> ?C" and "g x = g x'"
    from x lk obtain y y' where "e_refersToId (snd x) = Some y" "e_refersToId (snd x') = Some y'"
      unfolding links_def by (cases x, cases x') fastforce
    with \<open>g x = g x'\<close> have "e_refersToId (snd x) = e_refersToId (snd x')" by (simp add: g_def)
    with x lk have "fst x = fst x'" unfolding links_def by (cases x, cases x') fastforce
    with x wf show "x = x'"
      by (cases x, cases x') (auto simp: t_wf_map_of_eq [symmetric])
  qed
  have "(\<Sum>x\<in>?C. e_amount (snd x)) = (\<Sum>x\<in>?C. e_amount (snd (g x)))"
    using g by (intro sum.cong) auto
  also have "\<dots> = (\<Sum>x\<in>g ` ?C. e_amount (snd x))"
    using inj by (simp add: sum.reindex)
  also have "\<dots> \<le> (\<Sum>x\<in>?D. e_amount (snd x))"
  proof (rule sum_mono2)
    show "g ` ?C \<subseteq> ?D" using g by auto
    show "0 \<le> e_amount (snd b)" if "b \<in> ?D - g ` ?C" for b
      using that ok by (cases b) (auto simp: entries_ok_def valid_amount_def intro: less_imp_le)
  qed simp
  finally show ?thesis by (simp add: sum_filter_table [OF wf])
qed

lemma bal_le_principal:
  assumes "t_wf es" and "entries_ok es" and "principal_is p es"
    and "links payment_corrected payment_confirmed es"
  shows "bal es \<le> p"
proof -
  note cents = rows_cents [OF assms(2)]
  have tot: "total_of r_kind r_amount k (map row_of es) =
      (\<Sum>x\<leftarrow>filter (\<lambda>x. e_kind (snd x) = k) es. e_amount (snd x))" for k
    using total_of_exact [of "map row_of es" r_amount r_kind k, OF cents]
    by (simp add: filter_map o_def)
  have "(\<Sum>x\<leftarrow>filter (\<lambda>x. e_kind (snd x) = principal_accepted) es. e_amount (snd x)) = p"
    using assms(3) by (simp add: principal_is_def)
  moreover have "0 \<le> (\<Sum>x\<leftarrow>filter (\<lambda>x. e_kind (snd x) = forgiven) es. e_amount (snd x))"
    using assms(2) by (intro sum_list_nonneg) (auto simp: entries_ok_def valid_amount_def intro: less_imp_le)
  ultimately show ?thesis
    using remaining_breakdown [of "map row_of es", OF cents] corrected_le_confirmed [OF assms(1,2,4)]
    by (simp add: bal_def tot)
qed

section \<open>The tables\<close>

definition loan_inv :: "loan_state \<Rightarrow> bool" where
  "loan_inv s \<longleftrightarrow>
     t_wf (ls_loans s) \<and> t_wf (ls_ledger s) \<and>
     (\<forall>x e. (x, e) \<in> set (ls_ledger s) \<longrightarrow> map_of (ls_loans s) (e_loanId e) \<noteq> None) \<and>
     (\<forall>i l. map_of (ls_loans s) i = Some l \<longrightarrow> loan_ok l (entries_of i s))"

lemma entries_of_t_insert:
  "ls_ledger s' = t_insert x e (ls_ledger s) \<Longrightarrow>
     entries_of i s' = entries_of i s @ (if e_loanId e = i then [(x, e)] else [])"
  by (simp add: entries_of_def t_insert_def)

lemma entries_of_cong: "ls_ledger s' = ls_ledger s \<Longrightarrow> entries_of i s' = entries_of i s"
  by (simp add: entries_of_def)

lemma t_wf_entries_of: "t_wf (ls_ledger s) \<Longrightarrow> t_wf (entries_of i s)"
  by (simp add: entries_of_def t_wf_def t_keys_def distinct_map_filter)

lemma entries_of_fresh:
  "map_of (ls_ledger s) x = None \<Longrightarrow> (x, e) \<notin> set (entries_of i s)"
  by (auto simp: entries_of_def dest: weak_map_of_SomeI)

lemma remaining_ledgerRows [simp]: "remaining (ledgerRows i s) = bal (entries_of i s)"
proof -
  have "map (\<lambda>r. of_int (BALANCE_EFFECT (r_kind r)) * r_amount r) (ledgerRows i s) =
      map (\<lambda>r. of_int (BALANCE_EFFECT (r_kind r)) * r_amount r) (map row_of (entries_of i s))"
    by (simp add: ledgerRows_def split: prod.splits)
  then show ?thesis by (simp only: remaining_def bal_def)
qed

text \<open>A handler touches one loan and appends at most one entry to it.\<close>

lemma loan_inv_local:
  assumes inv: "loan_inv s" and l: "map_of (ls_loans s) i = Some l"
    and wf': "t_wf (ls_loans s')"
    and lk: "\<And>k. map_of (ls_loans s') k = (if k = i then Some l' else map_of (ls_loans s) k)"
    and led: "ls_ledger s' = ls_ledger s \<and> es' = entries_of i s \<or>
      (\<exists>x e. map_of (ls_ledger s) x = None \<and> e_loanId e = i \<and>
             ls_ledger s' = t_insert x e (ls_ledger s) \<and> es' = entries_of i s @ [(x, e)])"
    and ok: "loan_ok l' es'"
  shows "loan_inv s'"
proof -
  from led show ?thesis
  proof (elim disjE conjE exE)
    assume "ls_ledger s' = ls_ledger s" "es' = entries_of i s"
    with inv wf' lk ok show ?thesis
      by (simp add: loan_inv_def entries_of_cong [of s' s])
  next
    fix x e
    assume new: "map_of (ls_ledger s) x = None" "e_loanId e = i"
      "ls_ledger s' = t_insert x e (ls_ledger s)" "es' = entries_of i s @ [(x, e)]"
    have "map_of (ls_loans s') (e_loanId d) \<noteq> None" if "(y, d) \<in> set (ls_ledger s')" for y d
      using that inv new lk by (auto simp: loan_inv_def t_insert_def)
    with new inv wf' lk ok show ?thesis
      by (simp add: loan_inv_def entries_of_t_insert [OF new(3)])
  qed
qed

lemma mine_Inr: "mine c i s = Inr l \<longleftrightarrow> map_of (ls_loans s) i = Some l \<and> visible (c_companyId c) l"
  by (auto simp: mine_def split: option.splits)

section \<open>Handlers keep the invariant\<close>

lemma set_loan_where_lookup:
  assumes "map_of (ls_loans s) i = Some l"
  shows "map_of (ls_loans (set_loan_where i sts f s)) k =
     (if k = i then Some (if l_status l \<in> set sts then f l else l) else map_of (ls_loans s) k)"
  using assms by (simp add: set_loan_where_def t_update_where_def)

lemma set_loan_where_frame [simp]:
  "ls_ledger (set_loan_where i sts f s) = ls_ledger s"
  "t_wf (ls_loans (set_loan_where i sts f s)) = t_wf (ls_loans s)"
  by (auto simp: set_loan_where_def t_update_where_def split: option.splits)

text \<open>What \<open>settleIfClear\<close> does to the loan, given the balance it reads.\<close>

definition settled_loan :: "ctx \<Rightarrow> LoanStatus \<Rightarrow> number \<Rightarrow> loan \<Rightarrow> loan" where
  "settled_loan c as owed l =
     (if owed > 0
      then if l_status l \<in> {accepted, payment_awaiting_confirmation} then l\<lparr>l_status := partially_paid\<rparr> else l
      else if l_status l \<in> {accepted, partially_paid, payment_awaiting_confirmation}
           then l\<lparr>l_status := as, l_settledAt := Some (c_now c)\<rparr> else l)"

lemma settleIfClear_lookup:
  assumes "map_of (ls_loans s) i = Some l"
  shows "map_of (ls_loans (settleIfClear c i as s)) k =
     (if k = i then Some (settled_loan c as (bal (entries_of i s)) l) else map_of (ls_loans s) k)"
  using assms unfolding settleIfClear_def
  by (simp add: Let_def set_loan_where_lookup settled_loan_def)

lemma settleIfClear_frame [simp]:
  "ls_ledger (settleIfClear c i as s) = ls_ledger s"
  "t_wf (ls_loans (settleIfClear c i as s)) = t_wf (ls_loans s)"
  by (simp_all add: settleIfClear_def Let_def)

text \<open>Entries of one loan that the code may append, and the loan record that goes with each.\<close>

lemma loan_ok_settling:
  assumes ok: "loan_ok l es" and agreed: "\<not> unagreed l" and amt: "valid_amount (e_amount e)"
    and kind: "e_kind e = forgiven \<or>
      e_kind e = payment_confirmed \<and> links payment_confirmed payment_reported (es @ [(x, e)])"
    and le: "e_amount e \<le> bal es" and as: "as \<in> {settled, forgiven_settled}"
  shows "loan_ok (settled_loan c as (bal (es @ [(x, e)])) l) (es @ [(x, e)])"
proof -
  let ?es = "es @ [(x, e)]"
  from ok have es: "entries_ok es" by (simp add: loan_ok_def)
  from kind have eff: "BALANCE_EFFECT (e_kind e) = -1" by auto
  with bal_snoc [OF es, of e x] amt have b: "bal ?es = bal es - e_amount e"
    by (simp add: valid_amount_def)
  with le amt ok agreed have pos: "0 < bal es" "0 \<le> bal ?es"
    by (auto simp: valid_amount_def)
  with ok agreed have open_: "\<not> closed_loan l" by (auto simp: loan_ok_def)
  from kind ok agreed have lks: "links payment_confirmed payment_reported ?es"
      "links payment_corrected payment_confirmed ?es"
    by (auto simp: loan_ok_def intro: links_snoc_other)
  from agreed open_ have st: "l_status l \<in> {accepted, partially_paid, payment_awaiting_confirmation}"
    by (cases "l_status l") (auto simp: unagreed_def closed_loan_def)
  from ok agreed kind obtain p where p: "l_principal l = Some p" "valid_amount p" "principal_is p ?es"
    by (auto simp: loan_ok_def)
  let ?l = "settled_loan c as (bal ?es) l"
  have "\<not> unagreed ?l \<and> (closed_loan ?l \<longleftrightarrow> bal ?es = 0) \<and> l_principal ?l = l_principal l \<and>
      l_proposedAmount ?l = l_proposedAmount l \<and> l_counterAmount ?l = l_counterAmount l"
    using st as pos by (auto simp: settled_loan_def unagreed_def closed_loan_def)
  with p lks pos ok es amt show ?thesis
    by (simp add: loan_ok_def)
qed

lemma loan_ok_corrected:
  assumes ok: "loan_ok l es" and agreed: "\<not> unagreed l" and amt: "valid_amount (e_amount e)"
    and kind: "e_kind e = payment_corrected"
    and lk: "links payment_corrected payment_confirmed (es @ [(x, e)])"
    and l': "l' = (if closed_loan l then l\<lparr>l_status := partially_paid, l_settledAt := None\<rparr> else l)"
  shows "loan_ok l' (es @ [(x, e)])"
proof -
  from ok have es: "entries_ok es" by (simp add: loan_ok_def)
  from bal_snoc [OF es, of e x] amt kind have "bal (es @ [(x, e)]) = bal es + e_amount e"
    by (simp add: valid_amount_def)
  with amt ok agreed have "0 < bal (es @ [(x, e)])"
    by (auto simp: valid_amount_def loan_ok_def)
  moreover have "\<not> closed_loan l' \<and> \<not> unagreed l'"
    using l' agreed by (auto simp: closed_loan_def unagreed_def)
  moreover from ok agreed kind have "links payment_confirmed payment_reported (es @ [(x, e)])"
    by (auto simp: loan_ok_def intro: links_snoc_other)
  ultimately show ?thesis
    using ok agreed kind lk amt l' by (auto simp: loan_ok_def)
qed

lemma loan_ok_reported:
  assumes ok: "loan_ok l es" and agreed: "\<not> unagreed l" and amt: "valid_amount (e_amount e)"
    and kind: "e_kind e = payment_reported" and "0 < bal es"
    and l': "l' = (if l_status l \<in> {accepted, partially_paid}
                   then l\<lparr>l_status := payment_awaiting_confirmation\<rparr> else l)"
  shows "loan_ok l' (es @ [(x, e)])"
proof -
  from ok have es: "entries_ok es" by (simp add: loan_ok_def)
  from bal_snoc [OF es, of e x] amt kind have b: "bal (es @ [(x, e)]) = bal es"
    by (simp add: valid_amount_def)
  moreover have "\<not> closed_loan l' \<and> \<not> unagreed l'"
    using l' agreed ok assms(5) by (auto simp: closed_loan_def unagreed_def loan_ok_def)
  moreover from ok agreed kind have "links payment_confirmed payment_reported (es @ [(x, e)])"
     "links payment_corrected payment_confirmed (es @ [(x, e)])"
    by (auto simp: loan_ok_def intro: links_snoc_other)
  ultimately show ?thesis
    using ok agreed kind amt l' assms(5) by (auto simp: loan_ok_def)
qed

lemma loan_ok_decided:
  assumes ok: "loan_ok l es"
    and dec: "assertDecision (dl_action dto) (l_status l) own (dl_amount dto) (dl_reason dto) = Inr st"
    and amt: "\<And>a. dl_amount dto = Some a \<Longrightarrow> valid_amount a"
  shows "es = [] \<and> loan_ok (decided c dto st (agreed_amount l) l)
           (if dl_action dto = accept then [(x, new_entry c i l principal_accepted (agreed_amount l))] else [])"
proof -
  from dec have from_st: "l_status l \<in> {proposed, counter_proposed, disputed}"
    and st: "st = transition_to (dl_action dto)"
    by (cases "dl_action dto"; auto simp: assertDecision_ok)+
  then have un: "unagreed l" by (auto simp: unagreed_def)
  with ok have es: "es = []" and pr: "l_principal l = None"
    and a1: "valid_amount (l_proposedAmount l)" and a2: "\<And>a. l_counterAmount l = Some a \<Longrightarrow> valid_amount a"
    by (simp_all add: loan_ok_def)
  have ag: "valid_amount (agreed_amount l)"
    using a1 a2 by (simp add: agreed_amount_def split: option.splits)
  let ?e = "new_entry c i l principal_accepted (agreed_amount l)"
  have b: "bal [(x, ?e)] = agreed_amount l"
    using bal_snoc [of "[]" ?e x] ag by (simp add: entries_ok_def new_entry_def valid_amount_def)
  show ?thesis
  proof (cases "dl_action dto")
    case accept
    with st ag a1 a2 es b show ?thesis
      by (auto simp: loan_ok_def decided_def unagreed_def closed_loan_def entries_ok_def principal_is_def
          new_entry_def links_def valid_amount_def)
  qed (use st amt a1 a2 es pr in \<open>auto simp: loan_ok_def decided_def unagreed_def entries_ok_def\<close>)
qed

lemma loan_inv_irrelevant [simp]:
  "loan_inv (s\<lparr>ls_audit := a\<rparr>) = loan_inv s"
  "loan_inv (s\<lparr>ls_notifications := n\<rparr>) = loan_inv s"
  by (simp_all add: loan_inv_def entries_of_def)

lemma loan_inv_propose:
  assumes inv: "loan_inv s" and fresh: "map_of (ls_loans s) n = None" and amt: "valid_amount (cl_amount dto)"
  shows "loan_inv (snd (propose c n dto s))"
proof -
  have none: "entries_of n s = []"
  proof (rule ccontr)
    assume "entries_of n s \<noteq> []"
    then obtain x e where "(x, e) \<in> set (entries_of n s)" by (metis list.set_intros(1) neq_Nil_conv surj_pair)
    with inv fresh show False by (fastforce simp: entries_of_def loan_inv_def)
  qed
  have ins: "loan_inv (s\<lparr>ls_loans := t_insert n l (ls_loans s)\<rparr>)"
    if "l_status l = proposed" "l_proposedAmount l = cl_amount dto" "l_counterAmount l = None" "l_principal l = None" for l
  proof -
    from that amt have "loan_ok l []" by (simp add: loan_ok_def unagreed_def entries_ok_def)
    with inv fresh none show ?thesis
      by (auto simp: loan_inv_def entries_of_def split: if_splits)
  qed
  show ?thesis
    unfolding propose_def Let_def
    by (auto simp: inv ins split: option.splits prod.splits)
qed

lemma loan_inv_decide:
  assumes inv: "loan_inv s" and fresh: "map_of (ls_ledger s) n = None"
    and amt: "\<And>a. dl_amount dto = Some a \<Longrightarrow> valid_amount a"
  shows "loan_inv (snd (decide c n i dto s))"
proof (cases "mine c i s")
  case (Inr l)
  then have l: "map_of (ls_loans s) i = Some l" by (simp add: mine_Inr)
  with inv have ok: "loan_ok l (entries_of i s)" by (simp add: loan_inv_def)
  let ?own = "l_counterpartyCompanyId l \<noteq> None \<and> l_proposedByCompanyId l = c_companyId c"
  show ?thesis
  proof (cases "assertDecision (dl_action dto) (l_status l) ?own (dl_amount dto) (dl_reason dto)")
    case dec: (Inr st)
    let ?l' = "decided c dto st (agreed_amount l) l"
    let ?e = "new_entry c i l principal_accepted (agreed_amount l)"
    let ?es = "if dl_action dto = accept then [(n, ?e)] else []"
    from loan_ok_decided [OF ok dec amt] have es: "entries_of i s = []" and ok': "loan_ok ?l' ?es"
      by blast+
    let ?s = "s\<lparr>ls_loans := t_update i (decided c dto st (agreed_amount l)) (ls_loans s)\<rparr>"
    have "loan_inv (if dl_action dto = accept then ?s\<lparr>ls_ledger := t_insert n ?e (ls_ledger s)\<rparr> else ?s)"
      (is "loan_inv ?s'")
      by (rule loan_inv_local [OF inv l, of ?s' ?l' ?es])
        (use inv l es ok' fresh in \<open>auto simp: loan_inv_def new_entry_def\<close>)
    moreover have "t_update_where i (\<lambda>r. l_version r = l_version l \<and> l_status r = l_status l)
        (decided c dto st (agreed_amount l)) (ls_loans s) =
        (1, t_update i (decided c dto st (agreed_amount l)) (ls_loans s))"
      using l by (simp add: t_update_where_def)
    ultimately show ?thesis
      using inv dec by (simp add: decide_def Inr Let_def split: if_splits del: not_None_eq)
  qed (simp add: decide_def Inr inv Let_def del: not_None_eq)
qed (simp add: decide_def inv)

lemma find_entry_entries:
  "find_entry x i k s = Some e \<Longrightarrow> (x, e) \<in> set (entries_of i s) \<and> e_kind e = k"
  by (auto simp: find_entry_def entries_of_def dest: map_of_SomeD split: option.splits if_splits)

lemma not_refers_entries:
  "\<not> refers x k s \<Longrightarrow> (y, e) \<in> set (entries_of i s) \<Longrightarrow> e_kind e = k \<Longrightarrow> e_refersToId e \<noteq> Some x"
  by (auto simp: refers_def entries_of_def list_ex_iff)

lemma loan_inv_add_entry:
  assumes inv: "loan_inv s" and l: "map_of (ls_loans s) i = Some l"
    and fresh: "map_of (ls_ledger s) n = None" and e: "e_loanId e = i"
    and led: "ls_ledger s' = t_insert n e (ls_ledger s)" and wf: "t_wf (ls_loans s')"
    and lk: "\<And>k. map_of (ls_loans s') k = (if k = i then Some l' else map_of (ls_loans s) k)"
    and ok: "loan_ok l' (entries_of i s @ [(n, e)])"
  shows "loan_inv s'"
  by (rule loan_inv_local [OF inv l wf lk _ ok]) (use fresh e led in blast)

lemma loan_inv_settle:
  assumes inv: "loan_inv s" and l: "map_of (ls_loans s) i = Some l"
    and fresh: "map_of (ls_ledger s) n = None" and e: "e_loanId e = i"
    and led: "ls_ledger s1 = t_insert n e (ls_ledger s)" and same: "ls_loans s1 = ls_loans s"
    and ok: "loan_ok (settled_loan c as (bal (entries_of i s @ [(n, e)])) l) (entries_of i s @ [(n, e)])"
  shows "loan_inv (settleIfClear c i as s1)"
proof (rule loan_inv_add_entry [OF inv l fresh e])
  show "ls_ledger (settleIfClear c i as s1) = t_insert n e (ls_ledger s)"
    by (simp add: led)
  show "t_wf (ls_loans (settleIfClear c i as s1))"
    using inv same by (simp add: loan_inv_def)
  show "map_of (ls_loans (settleIfClear c i as s1)) k =
      (if k = i then Some (settled_loan c as (bal (entries_of i s @ [(n, e)])) l) else map_of (ls_loans s) k)" for k
    using settleIfClear_lookup [of s1 i l c as k] l e
    by (simp add: same entries_of_t_insert [OF led])
qed (rule ok)

lemma loan_inv_payment_confirm:
  assumes inv: "loan_inv s" and l: "map_of (ls_loans s) i = Some l" and fresh: "map_of (ls_ledger s) n = None"
    and agreed: "l_principal l \<noteq> None"
  shows "loan_inv (snd (payment_confirm c n i dto l (remaining (ledgerRows i s)) s))"
proof -
  from inv l have ok: "loan_ok l (entries_of i s)" by (simp add: loan_inv_def)
  with agreed have ag: "\<not> unagreed l" by (auto simp: loan_ok_def)
  have *: "loan_inv (settleIfClear c i settled (add_entry n e s))"
    if x: "find_entry x i payment_reported s = Some r" "\<not> refers x payment_confirmed s"
      and allowed: "assertPaymentAllowed (e_amount r) m acc (bal (entries_of i s)) = Inr ()"
      and e: "e_loanId e = i" "e_kind e = payment_confirmed" "e_amount e = e_amount r" "e_refersToId e = Some x"
    for x r m acc e
  proof -
    from find_entry_entries [OF x(1)] have r: "(x, r) \<in> set (entries_of i s)" "e_kind r = payment_reported" by auto
    with ok have amt: "valid_amount (e_amount r)" by (auto simp: loan_ok_def entries_ok_def)
    from allowed amt have le: "e_amount r \<le> bal (entries_of i s)"
      by (simp add: assertPaymentAllowed_ok valid_amount_def bal_def)
    have "links payment_confirmed payment_reported (entries_of i s @ [(n, e)])"
      by (rule links_snoc [OF _ e(4) r]) (use ok ag e x(2) not_refers_entries in \<open>auto simp: loan_ok_def\<close>)
    with loan_ok_settling [OF ok ag, of e n settled c] e amt le
    show ?thesis by (intro loan_inv_settle [OF inv l fresh e(1)]) (simp_all add: add_entry_def)
  qed
  show ?thesis
    unfolding payment_confirm_def Let_def
    by (auto simp: inv * new_entry_def split: sum.splits option.splits)
qed

lemma loan_inv_payment_correct:
  assumes inv: "loan_inv s" and l: "map_of (ls_loans s) i = Some l" and fresh: "map_of (ls_ledger s) n = None"
    and agreed: "l_principal l \<noteq> None"
  shows "loan_inv (snd (payment_correct c n i dto l s))"
proof -
  from inv l have ok: "loan_ok l (entries_of i s)" by (simp add: loan_inv_def)
  with agreed have ag: "\<not> unagreed l" by (auto simp: loan_ok_def)
  let ?f = "\<lambda>l. l\<lparr>l_status := partially_paid, l_settledAt := None\<rparr>"
  have *: "loan_inv (set_loan_where i [settled, forgiven_settled] ?f (add_entry n e s))"
    if x: "find_entry x i payment_confirmed s = Some r" "\<not> refers x payment_corrected s"
      and e: "e_loanId e = i" "e_kind e = payment_corrected" "e_amount e = e_amount r" "e_refersToId e = Some x"
    for x r e
  proof -
    from find_entry_entries [OF x(1)] have r: "(x, r) \<in> set (entries_of i s)" "e_kind r = payment_confirmed" by auto
    with ok have amt: "valid_amount (e_amount r)" by (auto simp: loan_ok_def entries_ok_def)
    have "links payment_corrected payment_confirmed (entries_of i s @ [(n, e)])"
      by (rule links_snoc [OF _ e(4) r]) (use ok ag e x(2) not_refers_entries in \<open>auto simp: loan_ok_def\<close>)
    with loan_ok_corrected [OF ok ag, of e n "if closed_loan l then ?f l else l"] e amt
    have "loan_ok (if closed_loan l then ?f l else l) (entries_of i s @ [(n, e)])" by simp
    moreover have "map_of (ls_loans (set_loan_where i [settled, forgiven_settled] ?f (add_entry n e s))) k =
        (if k = i then Some (if closed_loan l then ?f l else l) else map_of (ls_loans s) k)" for k
      using set_loan_where_lookup [of "add_entry n e s" i l "[settled, forgiven_settled]" ?f k] l
      by (simp add: add_entry_def closed_loan_def)
    ultimately show ?thesis
      using inv by (intro loan_inv_add_entry [OF inv l fresh e(1)]) (auto simp: add_entry_def loan_inv_def)
  qed
  show ?thesis
    unfolding payment_correct_def Let_def
    by (auto simp: inv * new_entry_def split: sum.splits option.splits)
qed

lemma loan_inv_payment_report:
  assumes inv: "loan_inv s" and l: "map_of (ls_loans s) i = Some l" and fresh: "map_of (ls_ledger s) n = None"
    and agreed: "l_principal l \<noteq> None" and amt: "\<And>a. lp_amount dto = Some a \<Longrightarrow> valid_amount a"
  shows "loan_inv (snd (payment_report sha c n i dto l (remaining (ledgerRows i s)) s))"
proof -
  from inv l have ok: "loan_ok l (entries_of i s)" by (simp add: loan_inv_def)
  with agreed have ag: "\<not> unagreed l" by (auto simp: loan_ok_def)
  let ?f = "\<lambda>l. l\<lparr>l_status := payment_awaiting_confirmation\<rparr>"
  let ?l' = "if l_status l \<in> {accepted, partially_paid} then ?f l else l"
  have *: "loan_inv (set_loan_where i [accepted, partially_paid] ?f (add_entry n e s))"
    if allowed: "assertPaymentAllowed (case lp_amount dto of None \<Rightarrow> 0 | Some a \<Rightarrow> a) m acc (bal (entries_of i s)) = Inr ()"
      and e: "e_loanId e = i" "e_kind e = payment_reported"
        "e_amount e = (case lp_amount dto of None \<Rightarrow> 0 | Some a \<Rightarrow> a)" for m acc e
  proof -
    from allowed obtain a where a: "lp_amount dto = Some a"
      by (auto simp: assertPaymentAllowed_ok split: option.splits)
    with amt e have v: "valid_amount (e_amount e)" by simp
    from allowed a v e have pos: "0 < bal (entries_of i s)"
      by (simp add: assertPaymentAllowed_ok valid_amount_def bal_def)
    from loan_ok_reported [OF ok ag v e(2) pos refl]
    have "loan_ok ?l' (entries_of i s @ [(n, e)])" .
    moreover have "map_of (ls_loans (set_loan_where i [accepted, partially_paid] ?f (add_entry n e s))) k =
        (if k = i then Some ?l' else map_of (ls_loans s) k)" for k
      using set_loan_where_lookup [of "add_entry n e s" i l "[accepted, partially_paid]" ?f k] l
      by (simp add: add_entry_def)
    ultimately show ?thesis
      using inv by (intro loan_inv_add_entry [OF inv l fresh e(1)]) (auto simp: add_entry_def loan_inv_def)
  qed
  show ?thesis
    unfolding payment_report_def Let_def
    by (auto simp: inv * new_entry_def split: sum.splits option.splits)
qed

lemma loan_inv_payment:
  assumes "loan_inv s" and "map_of (ls_ledger s) n = None" and "\<And>a. lp_amount dto = Some a \<Longrightarrow> valid_amount a"
  shows "loan_inv (snd (payment sha c n i dto s))"
  using assms loan_inv_payment_confirm loan_inv_payment_correct loan_inv_payment_report
  by (auto simp: payment_def Let_def mine_Inr simp del: remaining_ledgerRows split: sum.splits PaymentAction.splits)

lemma loan_inv_forgive:
  assumes inv: "loan_inv s" and fresh: "map_of (ls_ledger s) n = None" and amt: "valid_amount (fl_amount dto)"
  shows "loan_inv (snd (forgive c n i dto s))"
proof -
  have *: "loan_inv (settleIfClear c i forgiven_settled s1)"
    if l: "map_of (ls_loans s) i = Some l" and agreed: "l_principal l \<noteq> None"
      and allowed: "assertForgivenessAllowed (fl_amount dto) rs (bal (entries_of i s)) = Inr ()"
      and e: "e_loanId e = i" "e_kind e = forgiven" "e_amount e = fl_amount dto"
      and s1: "ls_ledger s1 = t_insert n e (ls_ledger s)" "ls_loans s1 = ls_loans s" for l rs e s1
  proof -
    from inv l have ok: "loan_ok l (entries_of i s)" by (simp add: loan_inv_def)
    with agreed have ag: "\<not> unagreed l" by (auto simp: loan_ok_def)
    from allowed amt have le: "fl_amount dto \<le> bal (entries_of i s)"
      by (simp add: assertForgivenessAllowed_ok valid_amount_def bal_def)
    with loan_ok_settling [OF ok ag, of e n forgiven_settled c] e amt
    show ?thesis by (intro loan_inv_settle [OF inv l fresh e(1) s1]) simp_all
  qed
  show ?thesis
    unfolding forgive_def Let_def
    by (auto simp: inv mine_Inr new_entry_def add_entry_def intro!: * split: sum.splits)
qed

section \<open>Reachable states\<close>

text \<open>
  The handlers run one at a time, on requests that passed validation (amounts of whole cents,
  at least one) and with fresh identifiers.
\<close>

inductive loan_step :: "loan_state \<Rightarrow> loan_state \<Rightarrow> bool" where
  step_propose: "valid_amount (cl_amount dto) \<Longrightarrow> map_of (ls_loans s) n = None \<Longrightarrow>
     loan_step s (snd (propose c n dto s))"
| step_decide: "(\<And>a. dl_amount dto = Some a \<Longrightarrow> valid_amount a) \<Longrightarrow> map_of (ls_ledger s) n = None \<Longrightarrow>
     loan_step s (snd (decide c n i dto s))"
| step_payment: "(\<And>a. lp_amount dto = Some a \<Longrightarrow> valid_amount a) \<Longrightarrow> map_of (ls_ledger s) n = None \<Longrightarrow>
     loan_step s (snd (payment sha c n i dto s))"
| step_forgive: "valid_amount (fl_amount dto) \<Longrightarrow> map_of (ls_ledger s) n = None \<Longrightarrow>
     loan_step s (snd (forgive c n i dto s))"

definition loan_init :: "loan_state \<Rightarrow> bool" where
  "loan_init s \<longleftrightarrow> ls_loans s = [] \<and> ls_ledger s = []"

interpretation loan_sys: invariant_system loan_init loan_step loan_inv
proof
  show "loan_inv s" if "loan_init s" for s
    using that by (simp add: loan_init_def loan_inv_def)
  show "loan_inv t" if "loan_inv s" "loan_step s t" for s t
    using that(2,1)
    by (induction rule: loan_step.induct)
      (auto intro: loan_inv_propose loan_inv_decide loan_inv_payment loan_inv_forgive)
qed

end
