(* ===== verification/LoanProperties.thy ===== *)
theory LoanProperties
  imports LoanInvariant
begin

text \<open>
  What the loan component promises: the balance of every reachable loan, consent to the
  principal, who may lower a debt, isolation of third companies, replay of a queued report,
  and what the lists and the reminders show.
\<close>

section \<open>Examples\<close>

definition ex_ctx :: "id \<Rightarrow> ctx" where
  "ex_ctx co = \<lparr>c_companyId = co, c_branchId = None, c_userId = Some 7, c_permissions = [], c_now = 0\<rparr>"

text \<open>Company 1 knows company 2, and a person outside the platform.\<close>

definition ex_loans0 :: loan_state where
  "ex_loans0 = \<lparr>ls_loans = [], ls_ledger = [],
     ls_counterparties =
       [(5, \<lparr>cp_companyId = 1, cp_kind = connected_store, cp_name = ''Store B'', cp_isActive = True,
             cp_connectedCompanyId = Some 2, cp_connectionId = Some 9, cp_connectionStatus = Some conn_accepted\<rparr>)],
     ls_companies = [(1, ''Store A''), (2, ''Store B'')], ls_accounts = [], ls_audit = [], ls_notifications = []\<rparr>"

definition ex_propose :: CreateLoanDto where
  "ex_propose = \<lparr>cl_counterpartyId = 5, cl_direction = they_owe_us, cl_amount = 100,
                 cl_note = None, cl_clientUuid = None\<rparr>"

definition ex_accept :: DecideLoanDto where
  "ex_accept = \<lparr>dl_action = accept, dl_amount = None, dl_reason = None, dl_expectedVersion = None\<rparr>"

definition ex_pay :: "PaymentAction \<Rightarrow> number option \<Rightarrow> id option \<Rightarrow> LoanPaymentDto" where
  "ex_pay act a x = \<lparr>lp_action = act, lp_amount = a, lp_method = Some cash, lp_receivingAccountId = None,
     lp_reference = None, lp_evidenceRef = None, lp_note = None, lp_entryId = x, lp_reason = None,
     lp_clientUuid = Some 77\<rparr>"

definition ex_loans1 :: loan_state where
  "ex_loans1 = snd (propose (ex_ctx 1) 10 ex_propose ex_loans0)"

definition ex_loans2 :: loan_state where
  "ex_loans2 = snd (decide (ex_ctx 2) 20 10 ex_accept ex_loans1)"

definition ex_loans3 :: loan_state where
  "ex_loans3 = snd (payment (\<lambda>x. x) (ex_ctx 2) 21 10 (ex_pay report (Some 60) None) ex_loans2)"

definition ex_loans4 :: loan_state where
  "ex_loans4 = snd (payment (\<lambda>x. x) (ex_ctx 1) 22 10 (ex_pay confirm None (Some 21)) ex_loans3)"

lemmas loan_eval = ex_ctx_def ex_loans0_def ex_propose_def ex_accept_def ex_pay_def
  Let_def mine_def visible_def get_def summarise_def entry_view_def entries_of_def ledgerRows_def t_insert_def t_update_def
  t_update_where_def audit_row_of_def deliver_def trim_or_null_def new_entry_def agreed_amount_def
  decided_def assertDecision_def assertCreditor_def set_loan_where_def settleIfClear_def add_entry_def
  find_entry_def refers_def assertPaymentAllowed_def dayKey_def remaining_def

lemmas loan_handlers = propose_def decide_def payment_def payment_confirm_def payment_correct_def
  payment_report_def forgive_def

lemmas ex_loans_defs = ex_loans1_def ex_loans2_def ex_loans3_def ex_loans4_def

lemma valid_numeral [simp]: "valid_amount (numeral k)"
  by (simp add: valid_amount_def)






section \<open>Effects\<close>

lemma mine_not_visible:
  "map_of (ls_loans s) i = Some l \<Longrightarrow> \<not> visible (c_companyId c) l \<Longrightarrow> mine c i s = Inl (NotFound NoSuchLoan)"
  by (simp add: mine_def)

lemma payment_not_visible:
  "map_of (ls_loans s) i = Some l \<Longrightarrow> \<not> visible (c_companyId c) l \<Longrightarrow>
     payment sha256 c n i dto s = (Inl (NotFound NoSuchLoan), s)"
  by (simp add: payment_def mine_not_visible)

lemma forgive_not_visible:
  "map_of (ls_loans s) i = Some l \<Longrightarrow> \<not> visible (c_companyId c) l \<Longrightarrow>
     forgive c n i dto s = (Inl (NotFound NoSuchLoan), s)"
  by (simp add: forgive_def mine_not_visible)

lemma bal_snoc_zero: "BALANCE_EFFECT (e_kind e) = 0 \<Longrightarrow> bal (es @ [(x, e)]) = bal es"
  by (simp add: bal_def remaining_def)

lemma entries_of_report:
  "e_loanId e = i \<Longrightarrow> entries_of i (set_loan_where i sts f (add_entry n e s)) = entries_of i s @ [(n, e)]"
  by (simp add: entries_of_def add_entry_def t_insert_def)

lemma payment_report_bal: "bal (entries_of i (snd (payment_report sha256 c n i dto l r s))) = bal (entries_of i s)"
proof -
  have "bal (entries_of i (set_loan_where i sts f (add_entry n (new_entry c i l payment_reported a
        \<lparr>e_method := m, e_receivingAccountId := ra, e_accountLabelSnapshot := lb, e_reference := rf,
         e_evidenceRef := ev, e_note := nt, e_clientUuid := cu, e_clientRequestHash := h\<rparr>) s))) =
      bal (entries_of i s)" for sts f a m ra lb rf ev nt cu h
    by (subst entries_of_report) (simp_all add: new_entry_def bal_snoc_zero)
  then show ?thesis
    by (simp add: payment_report_def Let_def split: option.splits sum.splits prod.splits)
qed

lemma payment_not_creditor:
  assumes "map_of (ls_loans s) i = Some l" and "assertCreditor l (c_companyId c) \<noteq> Inr ()"
  shows "bal (entries_of i (snd (payment sha256 c n i dto s))) = bal (entries_of i s)"
proof -
  from assms(2) obtain e where "assertCreditor l (c_companyId c) = Inl e"
    by (cases "assertCreditor l (c_companyId c)") auto
  with assms(1) payment_report_bal show ?thesis
    by (simp add: payment_def mine_def payment_confirm_def payment_correct_def Let_def split: PaymentAction.splits)
qed

lemma forgive_not_creditor:
  assumes "map_of (ls_loans s) i = Some l" and "assertCreditor l (c_companyId c) \<noteq> Inr ()"
  shows "snd (forgive c n i dto s) = s"
proof -
  from assms(2) obtain e where "assertCreditor l (c_companyId c) = Inl e"
    by (cases "assertCreditor l (c_companyId c)") auto
  with assms(1) show ?thesis by (simp add: forgive_def mine_def)
qed

section \<open>Balances\<close>

lemma ex_remaining: "remaining (ledgerRows 10 ex_loans3) = 100" "remaining (ledgerRows 10 ex_loans4) = 40"
  unfolding ex_loans_defs loan_handlers by (simp_all add: loan_eval)



section \<open>Consent\<close>



section \<open>Who may lower a debt\<close>

text \<open>
  (C3) Only the creditor, decided by the direction of the loan and not by who created it, can
  make what remains smaller: a payment call or a write-off after which less remains was made
  by the company that is owed the money.
\<close>

theorem only_creditor_lowers_debt:
  assumes "map_of (ls_loans s) i = Some l"
    and "s' = snd (payment sha256 c n i dto s) \<or> s' = snd (forgive c n i fdto s)"
    and "remaining (ledgerRows i s') < remaining (ledgerRows i s)"
  shows "visible (c_companyId c) l \<and> (l_companyId l = c_companyId c \<longleftrightarrow> creditorIs (l_direction l) = owner)"
proof -
  have mine: "visible (c_companyId c) l"
  proof (rule ccontr)
    assume "\<not> ?thesis"
    then have "s' = s" using assms(1,2) by (auto simp: payment_not_visible forgive_not_visible)
    with assms(3) show False by simp
  qed
  have "assertCreditor l (c_companyId c) = Inr ()"
  proof (rule ccontr)
    assume no: "\<not> ?thesis"
    have "bal (entries_of i s') = bal (entries_of i s)"
      using assms(2) payment_not_creditor [OF assms(1) no] forgive_not_creditor [OF assms(1) no] by auto
    with assms(3) show False by simp
  qed
  with mine show ?thesis
    by (cases "l_direction l") (auto simp: assertCreditor_def creditorIs_def Let_def split: if_splits)
qed


theorem only_creditor_lowers_debt_witness:
  "\<exists>l. map_of (ls_loans ex_loans3) 10 = Some l \<and> l_companyId l = 1 \<and> creditorIs (l_direction l) = owner"
proof -
  obtain l where l: "map_of (ls_loans ex_loans3) 10 = Some l" "l_companyId l = 1"
    by (simp add: ex_loans_defs loan_handlers loan_eval)
  from only_creditor_lowers_debt [OF l(1) disjI1 [OF ex_loans4_def]] ex_remaining l show ?thesis
    by (auto simp: ex_ctx_def)
qed

section \<open>Isolation of third companies\<close>

lemma set_loan_where_other:
  "k \<noteq> i \<Longrightarrow> map_of (ls_loans (set_loan_where i sts f s)) k = map_of (ls_loans s) k"
  by (auto simp: set_loan_where_def t_update_where_def split: option.splits)

lemma settleIfClear_other:
  "k \<noteq> i \<Longrightarrow> map_of (ls_loans (settleIfClear c i as s)) k = map_of (ls_loans s) k"
  by (simp add: settleIfClear_def Let_def set_loan_where_other)

lemma entries_of_simps:
  "e_loanId e \<noteq> k \<Longrightarrow> entries_of k (add_entry n e s) = entries_of k s"
  "entries_of k (set_loan_where i sts f s) = entries_of k s"
  "entries_of k (settleIfClear c i as s) = entries_of k s"
  "entries_of k (s\<lparr>ls_audit := a\<rparr>) = entries_of k s"
  by (simp_all add: entries_of_def add_entry_def t_insert_def)

lemma add_entry_loans [simp]: "ls_loans (add_entry n e s) = ls_loans s"
  by (simp add: add_entry_def)

definition same_loan :: "id \<Rightarrow> loan_state \<Rightarrow> loan_state \<Rightarrow> bool" where
  "same_loan k s s' \<longleftrightarrow> map_of (ls_loans s') k = map_of (ls_loans s) k \<and> entries_of k s' = entries_of k s"

lemma propose_other: "map_of (ls_loans s) n = None \<Longrightarrow> k \<noteq> n \<Longrightarrow> same_loan k s (snd (propose c n dto s))"
  by (auto simp: same_loan_def propose_def Let_def entries_of_def split: option.splits prod.splits)

lemma decide_other: "k \<noteq> i \<Longrightarrow> same_loan k s (snd (decide c n i dto s))"
  by (simp add: same_loan_def decide_def Let_def entries_of_def t_insert_def new_entry_def t_update_where_def
      del: not_None_eq split: option.splits sum.splits)

lemma same_loan_refl [simp]: "same_loan k s s"
  by (simp add: same_loan_def)

lemma same_loan_add_entry:
  "k \<noteq> i \<Longrightarrow> e_loanId e = i \<Longrightarrow> same_loan k s (set_loan_where i sts f (add_entry n e s))"
  "k \<noteq> i \<Longrightarrow> e_loanId e = i \<Longrightarrow> same_loan k s (settleIfClear c i as (add_entry n e s))"
  by (simp_all add: same_loan_def set_loan_where_other settleIfClear_other entries_of_simps)

lemma payment_other:
  assumes "k \<noteq> i"
  shows "same_loan k s (snd (payment sha256 c n i dto s))"
proof -
  note same = same_loan_add_entry [OF assms] new_entry_def Let_def
  have "same_loan k s (snd (payment_confirm c n i dto l r s))" for l r
    by (simp add: payment_confirm_def same split: option.split sum.split)
  moreover have "same_loan k s (snd (payment_correct c n i dto l s))" for l
    by (simp add: payment_correct_def same split: option.split sum.split)
  moreover have "same_loan k s (snd (payment_report sha256 c n i dto l r s))" for l r
    by (simp add: payment_report_def same split: option.split sum.split prod.split)
  ultimately show ?thesis
    by (simp add: payment_def Let_def split: sum.split PaymentAction.split)
qed

lemma forgive_other: "k \<noteq> i \<Longrightarrow> same_loan k s (snd (forgive c n i dto s))"
  by (simp add: same_loan_def forgive_def Let_def settleIfClear_other entries_of_simps new_entry_def
      split: option.splits sum.splits)

text \<open>
  A company that is neither the owner nor the counterparty of a loan cannot read it and
  cannot change it: whatever it proposes, decides, reports, confirms, corrects or writes off,
  on that loan or on any other, the row of the loan and its ledger entries stay as they were,
  and its own reads answer as if the loan did not exist.
\<close>

theorem third_company_isolated:
  assumes "map_of (ls_loans s) i = Some l" and "\<not> visible (c_companyId c) l"
    and "map_of (ls_loans s) n = None"
  shows "get c i s = Inl (NotFound NoSuchLoan) \<and>
         same_loan i s (snd (propose c n cdto s)) \<and>
         same_loan i s (snd (decide c n j ddto s)) \<and>
         same_loan i s (snd (payment sha256 c n j pdto s)) \<and>
         same_loan i s (snd (forgive c n j fdto s))"
proof -
  have "snd (decide c n i ddto s) = s" using assms by (simp add: decide_def mine_not_visible)
  moreover have "i \<noteq> n" using assms by auto
  ultimately show ?thesis
    using assms propose_other [of s n i] decide_other [of i j s] payment_other [of i j s] forgive_other [of i j s]
      payment_not_visible [of s i l] forgive_not_visible [of s i l]
    by (cases "j = i") (auto simp: get_def mine_not_visible)
qed

theorem third_company_isolated_witness:
  "get (ex_ctx 3) 10 ex_loans2 = Inl (NotFound NoSuchLoan)"
proof -
  obtain l where l: "map_of (ls_loans ex_loans2) 10 = Some l" "\<not> visible (c_companyId (ex_ctx 3)) l"
      "map_of (ls_loans ex_loans2) 11 = None"
    unfolding ex_loans_defs loan_handlers by (simp add: loan_eval)
  from third_company_isolated [OF l] show ?thesis by blast
qed

section \<open>Replay of a queued report\<close>

definition reported_with :: "id \<Rightarrow> id \<Rightarrow> string \<Rightarrow> loan_state \<Rightarrow> bool" where
  "reported_with me u h s \<longleftrightarrow>
     (\<exists>x r. find (\<lambda>(_, e). e_actingCompanyId e = me \<and> e_clientUuid e = Some u) (ls_ledger s) = Some (x, r) \<and>
            (e_clientRequestHash r = None \<or> e_clientRequestHash r = Some h))"

lemma payment_report_recorded:
  assumes "payment_report sha256 c n i dto l r s = (Inr v, s')" and "lp_clientUuid dto = Some u"
    and "map_of (ls_loans s) i = Some l"
  shows "reported_with (c_companyId c) u (report_fingerprint sha256 i dto) s' \<and> get c i s' = Inr v \<and>
         (\<exists>l'. map_of (ls_loans s') i = Some l' \<and> visible (c_companyId c) l' = visible (c_companyId c) l \<and>
               l_principal l' = l_principal l)"
proof (cases "find (\<lambda>(_, e). e_actingCompanyId e = c_companyId c \<and> e_clientUuid e = Some u) (ls_ledger s)")
  case None
  let ?upd = "set_loan_where i [accepted, partially_paid] (\<lambda>l. l\<lparr>l_status := payment_awaiting_confirmation\<rparr>)"
  from None assms(1,2) obtain e where s': "s' = ?upd (add_entry n e s)" and v: "get c i s' = Inr v"
    and e: "e_actingCompanyId e = c_companyId c" "e_clientUuid e = Some u"
      "e_clientRequestHash e = Some (report_fingerprint sha256 i dto)"
    by (auto simp: payment_report_def Let_def new_entry_def split: sum.splits)
  have "find (\<lambda>(_, e). e_actingCompanyId e = c_companyId c \<and> e_clientUuid e = Some u) (ls_ledger s') = Some (n, e)"
    using None e by (simp add: s' add_entry_def t_insert_def find_snoc)
  moreover have "map_of (ls_loans s') i =
      Some (if l_status l \<in> {accepted, partially_paid} then l\<lparr>l_status := payment_awaiting_confirmation\<rparr> else l)"
    using assms(3) by (simp add: s' set_loan_where_lookup)
  ultimately show ?thesis using v e by (simp add: reported_with_def visible_def)
next
  case (Some xr)
  then show ?thesis
    using assms by (cases xr) (auto simp: payment_report_def Let_def reported_with_def split: if_splits)
qed

text \<open>
  A report queued offline may be sent twice: when a report with a client identifier has
  succeeded, sending the same request again returns the same answer and writes nothing. The
  same identifier on a different payload is refused once the first report has been written.
\<close>

theorem report_replay_idempotent:
  assumes "payment sha256 c n i dto s = (Inr v, s')" and "lp_action dto = report"
    and "lp_clientUuid dto = Some u"
  shows "payment sha256 c m i dto s' = (Inr v, s') \<and>
         (s' \<noteq> s \<and> lp_action dto' = report \<and> lp_clientUuid dto' = Some u \<and>
          report_fingerprint sha256 i dto' \<noteq> report_fingerprint sha256 i dto \<longrightarrow>
          payment sha256 c m i dto' s' = (Inl (Conflict IdempotencyConflict), s'))"
proof -
  from assms obtain l r where l: "map_of (ls_loans s) i = Some l" "visible (c_companyId c) l" "l_principal l \<noteq> None"
    and rep: "payment_report sha256 c n i dto l r s = (Inr v, s')"
    by (auto simp: payment_def mine_Inr Let_def split: sum.splits if_splits)
  from payment_report_recorded [OF rep assms(3) l(1)] l obtain l' where l':
    "reported_with (c_companyId c) u (report_fingerprint sha256 i dto) s'" "get c i s' = Inr v"
    "mine c i s' = Inr l'" "l_principal l' \<noteq> None"
    by (auto simp: mine_Inr)
  have same: "payment sha256 c m i dto s' = (Inr v, s')"
    using l' assms(2,3) by (auto simp: payment_def payment_report_def reported_with_def Let_def)
  have hash: "find (\<lambda>(_, e). e_actingCompanyId e = c_companyId c \<and> e_clientUuid e = Some u) (ls_ledger s') = Some (x, y) \<Longrightarrow>
      s' \<noteq> s \<Longrightarrow> e_clientRequestHash y = Some (report_fingerprint sha256 i dto)" for x y
    using rep assms(3)
    by (auto simp: payment_report_def Let_def add_entry_def t_insert_def find_snoc new_entry_def
        split: option.splits sum.splits if_splits)
  then show ?thesis
    using same l' by (auto simp: payment_def payment_report_def reported_with_def Let_def)
qed

theorem report_replay_idempotent_witness:
  "payment (\<lambda>x. x) (ex_ctx 2) 30 10 (ex_pay report (Some 60) None) ex_loans3
     = (get (ex_ctx 2) 10 ex_loans3, ex_loans3)"
proof -
  obtain v where v: "get (ex_ctx 2) 10 ex_loans3 = Inr v"
    "payment (\<lambda>x. x) (ex_ctx 2) 21 10 (ex_pay report (Some 60) None) ex_loans2 = (Inr v, ex_loans3)"
    unfolding ex_loans_defs loan_handlers by (simp add: loan_eval)
  from report_replay_idempotent [OF v(2)] v(1) show ?thesis by (simp add: ex_pay_def)
qed

end
