(* ===== verification/Inventory.thy ===== *)
theory Inventory
  imports Common
begin

text \<open>
  Stock on hand: the lifecycle of a serialized unit (\<^verbatim>\<open>inventory/unit-state-machine.ts\<close>), its
  identifier (\<^verbatim>\<open>inventory/unit-identifier.util.ts\<close>), the weighted-average receipt of quantity
  stock (\<^verbatim>\<open>inventory/stock-cost.ts\<close>) and the three conditional statements that reserve,
  release and ship quantity stock (\<^verbatim>\<open>transfers/quantity-reservation.ts\<close>). The last three
  are an instance of the interface \<open>reservation_store\<close>, on which the transfer service rests.
\<close>

section \<open>Serialized units\<close>

datatype UnitStatus =
    in_stock
  | reserved
  | sold
  | returned
  | in_transit
  | faulty
  | transferred_out
  | consigned_out

fun TRANSITIONS :: "UnitStatus \<Rightarrow> UnitStatus list" where
  "TRANSITIONS in_stock = [reserved, sold, in_transit, faulty, transferred_out, consigned_out]"
| "TRANSITIONS reserved = [in_stock, in_transit]"
| "TRANSITIONS sold = [returned]"
| "TRANSITIONS returned = [in_stock, faulty]"
| "TRANSITIONS in_transit = [in_stock, transferred_out]"
| "TRANSITIONS faulty = [in_stock]"
| "TRANSITIONS transferred_out = []"
| "TRANSITIONS consigned_out = [in_stock, sold, faulty]"

definition canTransition :: "UnitStatus \<Rightarrow> UnitStatus \<Rightarrow> bool" where
  "canTransition from to \<longleftrightarrow> to \<in> set (TRANSITIONS from)"

datatype unit_refusal = IllegalUnitTransition UnitStatus UnitStatus

definition assertTransition :: "UnitStatus \<Rightarrow> UnitStatus \<Rightarrow> unit_refusal http_error + unit" where
  "assertTransition from to =
     (if \<not> canTransition from to then Inl (Conflict (IllegalUnitTransition from to)) else Inr ())"

record unit_row =
  u_companyId :: id
  u_productId :: id
  u_branchId :: id
  u_imeiPrimary :: "string option"
  u_imeiSecondary :: "string option"
  u_serialNo :: "string option"
  u_cost :: number
  u_status :: UnitStatus
  u_dateSold :: "nat option"

type_synonym units = "(id, unit_row) table"

definition unitIdentifier :: "unit_row \<Rightarrow> string" where
  "unitIdentifier u =
     (case u_imeiPrimary u of Some i \<Rightarrow> i | None \<Rightarrow> (case u_serialNo u of Some n \<Rightarrow> n | None \<Rightarrow> []))"

text \<open>The catalogue entry of a unit or a stock row.\<close>

record product =
  pr_companyId :: id
  pr_brand :: string
  pr_model :: string
  pr_variant :: "string option"
  pr_quantityTracked :: bool
  pr_defaultPrice :: "number option"

text \<open>The price set on one unit, with the branch whose authority set it.\<close>

record override =
  ov_companyId :: id
  ov_branchId :: id
  ov_price :: number
  ov_version :: nat

section \<open>Quantity stock\<close>

text \<open>The unique key of \<^verbatim>\<open>stock_items\<close>: company, product, branch.\<close>

type_synonym stock_key = "id \<times> id \<times> id"

record stock_item =
  si_quantity :: int
  si_reservedQuantity :: int
  si_cost :: number
  si_price :: "number option"
  si_version :: nat

type_synonym stock = "(stock_key, stock_item) table"

text \<open>A value stored in a \<^verbatim>\<open>DECIMAL(14,2)\<close> column: halves round away from zero.\<close>

definition decimal2 :: "number \<Rightarrow> number" where
  "decimal2 x =
     (if x < 0 then - (of_int \<lfloor>- x * 100 + 1 / 2\<rfloor> / 100) else of_int \<lfloor>x * 100 + 1 / 2\<rfloor> / 100)"

definition weighted_average :: "int \<Rightarrow> number \<Rightarrow> int \<Rightarrow> number \<Rightarrow> number" where
  "weighted_average q c r uc = (of_int q * c + of_int r * uc) / (of_int q + of_int r)"

datatype stock_refusal = ReceivedNotPositive int

definition receiveQuantityAtCost ::
  "stock_key \<Rightarrow> int \<Rightarrow> number \<Rightarrow> number option \<Rightarrow> stock \<Rightarrow> stock_refusal http_error + stock" where
  "receiveQuantityAtCost k received unitCost priceIfNew st =
     (if received \<le> 0 then Inl (Internal (ReceivedNotPositive received))
      else Inr
        (case map_of st k of
           None \<Rightarrow> t_insert k \<lparr>si_quantity = received, si_reservedQuantity = 0,
                               si_cost = decimal2 unitCost, si_price = map_option decimal2 priceIfNew, si_version = 0\<rparr> st
         | Some _ \<Rightarrow>
             t_update k (\<lambda>r. r\<lparr>si_cost := decimal2 (weighted_average (si_quantity r) (si_cost r) received (decimal2 unitCost)),
                              si_quantity := si_quantity r + received\<rparr>) st))"

definition priceForNewStockRow ::
  "(stock_key, number) table \<Rightarrow> (id \<Rightarrow> number option) \<Rightarrow> stock_key \<Rightarrow> number option" where
  "priceForNewStockRow variantPrices defaultPrice k =
     (case map_of variantPrices k of
        Some p \<Rightarrow> Some p
      | None \<Rightarrow> defaultPrice (fst (snd k)))"

section \<open>Reservations\<close>

text \<open>Each is one conditional \<^verbatim>\<open>UPDATE\<close>; the answer says whether it matched its row.\<close>

definition reserveQuantity :: "stock_key \<Rightarrow> int \<Rightarrow> stock \<Rightarrow> bool \<times> stock" where
  "reserveQuantity k wanted st =
     (let (changed, st') = t_update_where k
            (\<lambda>r. si_quantity r - si_reservedQuantity r \<ge> wanted)
            (\<lambda>r. r\<lparr>si_reservedQuantity := si_reservedQuantity r + wanted\<rparr>) st
      in (changed = 1, st'))"

definition releaseQuantity :: "stock_key \<Rightarrow> int \<Rightarrow> stock \<Rightarrow> bool \<times> stock" where
  "releaseQuantity k amount st =
     (let (changed, st') = t_update_where k
            (\<lambda>r. si_reservedQuantity r \<ge> amount)
            (\<lambda>r. r\<lparr>si_reservedQuantity := si_reservedQuantity r - amount\<rparr>) st
      in (changed = 1, st'))"

definition shipQuantity :: "stock_key \<Rightarrow> int \<Rightarrow> stock \<Rightarrow> bool \<times> stock" where
  "shipQuantity k amount st =
     (let (changed, st') = t_update_where k
            (\<lambda>r. si_reservedQuantity r \<ge> amount \<and> si_quantity r \<ge> amount)
            (\<lambda>r. r\<lparr>si_quantity := si_quantity r - amount,
                  si_reservedQuantity := si_reservedQuantity r - amount\<rparr>) st
      in (changed = 1, st'))"

text \<open>The \<^verbatim>\<open>CHECK\<close> constraints of the table.\<close>

definition stock_row_ok :: "stock_item \<Rightarrow> bool" where
  "stock_row_ok r \<longleftrightarrow> 0 \<le> si_reservedQuantity r \<and> si_reservedQuantity r \<le> si_quantity r"

definition on_hand :: "stock \<Rightarrow> stock_key \<Rightarrow> int" where
  "on_hand st k = (case map_of st k of None \<Rightarrow> 0 | Some r \<Rightarrow> si_quantity r)"

definition promised :: "stock \<Rightarrow> stock_key \<Rightarrow> int" where
  "promised st k = (case map_of st k of None \<Rightarrow> 0 | Some r \<Rightarrow> si_reservedQuantity r)"

definition stock_ok :: "stock \<Rightarrow> bool" where
  "stock_ok st \<longleftrightarrow> t_wf st \<and> (\<forall>k r. map_of st k = Some r \<longrightarrow> stock_row_ok r)"

section \<open>The interface of a reservation store\<close>

text \<open>
  What a client may rely on: a reservation succeeds exactly when enough is free, release and
  shipment of an outstanding reservation succeed, each changes the two counters of its own
  key by the stated amount and nothing else, and a refused statement changes nothing.
\<close>

locale reservation_store =
  fixes ok :: "'st \<Rightarrow> bool"
    and held :: "'st \<Rightarrow> 'k \<Rightarrow> int"
    and resv :: "'st \<Rightarrow> 'k \<Rightarrow> int"
    and reserve release ship :: "'k \<Rightarrow> int \<Rightarrow> 'st \<Rightarrow> bool \<times> 'st"
  assumes bounds: "ok s \<Longrightarrow> 0 \<le> resv s k \<and> resv s k \<le> held s k"
    and reserve_iff: "ok s \<Longrightarrow> 0 < n \<Longrightarrow> fst (reserve k n s) \<longleftrightarrow> n \<le> held s k - resv s k"
    and reserve_eff: "ok s \<Longrightarrow> 0 < n \<Longrightarrow> reserve k n s = (True, s') \<Longrightarrow>
        ok s' \<and> held s' = held s \<and> resv s' = (resv s)(k := resv s k + n)"
    and release_iff: "ok s \<Longrightarrow> 0 < n \<Longrightarrow> fst (release k n s) \<longleftrightarrow> n \<le> resv s k"
    and release_eff: "ok s \<Longrightarrow> 0 < n \<Longrightarrow> release k n s = (True, s') \<Longrightarrow>
        ok s' \<and> held s' = held s \<and> resv s' = (resv s)(k := resv s k - n)"
    and ship_iff: "ok s \<Longrightarrow> 0 < n \<Longrightarrow> fst (ship k n s) \<longleftrightarrow> n \<le> resv s k"
    and ship_eff: "ok s \<Longrightarrow> 0 < n \<Longrightarrow> ship k n s = (True, s') \<Longrightarrow>
        ok s' \<and> held s' = (held s)(k := held s k - n) \<and> resv s' = (resv s)(k := resv s k - n)"
    and reserve_no: "reserve k n s = (False, s') \<Longrightarrow> s' = s"
    and release_no: "release k n s = (False, s') \<Longrightarrow> s' = s"
    and ship_no: "ship k n s = (False, s') \<Longrightarrow> s' = s"
begin

lemma reserve_release:
  assumes "ok s" and "0 < n" and "reserve k n s = (True, s')"
  shows "\<exists>s''. release k n s' = (True, s'') \<and> held s'' = held s \<and> resv s'' = resv s"
proof -
  from reserve_eff [OF assms] have s': "ok s'" "held s' = held s" "resv s' k = resv s k + n"
      "resv s' = (resv s)(k := resv s k + n)" by auto
  with release_iff [of s' n k] bounds [of s k] assms obtain s'' where r: "release k n s' = (True, s'')"
    by (cases "release k n s'") auto
  with release_eff [of s' n k s''] s' assms show ?thesis by auto
qed

lemma reserve_ship:
  assumes "ok s" and "0 < n" and "reserve k n s = (True, s')"
  shows "\<exists>s''. ship k n s' = (True, s'') \<and> held s'' = (held s)(k := held s k - n) \<and> resv s'' = resv s"
proof -
  from reserve_eff [OF assms] have s': "ok s'" "held s' = held s" "resv s' k = resv s k + n"
      "resv s' = (resv s)(k := resv s k + n)" by auto
  with ship_iff [of s' n k] bounds [of s k] assms obtain s'' where r: "ship k n s' = (True, s'')"
    by (cases "ship k n s'") auto
  with ship_eff [of s' n k s''] s' assms show ?thesis by auto
qed

text \<open>A list of requests, served one after the other until one is refused.\<close>

lemma reserve_mono: "ok s \<Longrightarrow> 0 < n \<Longrightarrow> reserve k n s = (b, s') \<Longrightarrow> ok s' \<and> held s' = held s"
  by (cases b) (auto dest: reserve_eff reserve_no)

end

lemma t_update_where_update:
  "map_of t k = Some v \<Longrightarrow> p v \<Longrightarrow> t_update_where k p f t = (1, t_update k f t)"
  by (simp add: t_update_where_def)

lemma cas_fst: "fst (let (n, t') = t_update_where k p f t in (n = 1, t')) \<longleftrightarrow>
    (\<exists>v. map_of t k = Some v \<and> p v)"
  by (auto simp: t_update_where_def split: option.splits)

lemma cas_True: "(let (n, t') = t_update_where k p f t in (n = 1, t')) = (True, t'') \<longleftrightarrow>
    (\<exists>v. map_of t k = Some v \<and> p v \<and> t'' = t_update k f t)"
  by (auto simp: t_update_where_def split: option.splits)

lemma cas_False: "(let (n, t') = t_update_where k p f t in (n = 1, t')) = (False, t'') \<Longrightarrow> t'' = t"
  by (auto simp: t_update_where_def split: option.splits if_splits)

lemma stock_okD: "stock_ok st \<Longrightarrow> map_of st k = Some r \<Longrightarrow> stock_row_ok r"
  unfolding stock_ok_def by blast

lemma stock_update:
  assumes "stock_ok s" and "map_of s k = Some v" and "stock_row_ok (f v)"
  shows "stock_ok (t_update k f s)"
    and "on_hand (t_update k f s) = (on_hand s)(k := si_quantity (f v))"
    and "promised (t_update k f s) = (promised s)(k := si_reservedQuantity (f v))"
proof -
  have "stock_row_ok r" if "map_of (t_update k f s) k' = Some r" for k' r
    using that assms stock_okD [OF assms(1), of k'] by (cases "k' = k") auto
  with assms(1) show "stock_ok (t_update k f s)" unfolding stock_ok_def by simp
  show "on_hand (t_update k f s) = (on_hand s)(k := si_quantity (f v))"
    using assms(2) unfolding on_hand_def by (simp add: fun_upd_def cong: if_cong) (rule ext, simp)
  show "promised (t_update k f s) = (promised s)(k := si_reservedQuantity (f v))"
    using assms(2) unfolding promised_def by (simp add: fun_upd_def cong: if_cong) (rule ext, simp)
qed

interpretation stk: reservation_store stock_ok on_hand promised reserveQuantity releaseQuantity shipQuantity
proof
  fix s s' :: stock and k :: stock_key and n :: int
  show "0 \<le> promised s k \<and> promised s k \<le> on_hand s k" if "stock_ok s"
    using that by (auto simp: stock_row_ok_def promised_def on_hand_def dest!: stock_okD split: option.splits)
  show "fst (reserveQuantity k n s) \<longleftrightarrow> n \<le> on_hand s k - promised s k" if "0 < n"
    using that unfolding reserveQuantity_def cas_fst
    by (auto simp: promised_def on_hand_def split: option.splits)
  show "fst (releaseQuantity k n s) \<longleftrightarrow> n \<le> promised s k" if "0 < n"
    using that unfolding releaseQuantity_def cas_fst by (auto simp: promised_def split: option.splits)
  show "fst (shipQuantity k n s) \<longleftrightarrow> n \<le> promised s k" if "stock_ok s" "0 < n"
    using that unfolding shipQuantity_def cas_fst
    by (auto simp: promised_def stock_row_ok_def dest!: stock_okD split: option.splits)
  have upd: "stock_ok s' \<and> on_hand s' = (on_hand s)(k := si_quantity (f v)) \<and>
      promised s' = (promised s)(k := si_reservedQuantity (f v)) \<and>
      on_hand s k = si_quantity v \<and> promised s k = si_reservedQuantity v"
    if "stock_ok s" "map_of s k = Some v" "stock_row_ok v \<Longrightarrow> stock_row_ok (f v)" "s' = t_update k f s" for f v
    using that stock_update [of s k v f] stock_okD [of s k v] by (simp add: on_hand_def promised_def)
  show "stock_ok s' \<and> on_hand s' = on_hand s \<and> promised s' = (promised s)(k := promised s k + n)"
    if "stock_ok s" "0 < n" "reserveQuantity k n s = (True, s')"
  proof -
    from that obtain v where v: "map_of s k = Some v" "si_quantity v - si_reservedQuantity v \<ge> n"
      "s' = t_update k (\<lambda>r. r\<lparr>si_reservedQuantity := si_reservedQuantity r + n\<rparr>) s"
      unfolding reserveQuantity_def cas_True by blast
    from upd [OF that(1) v(1) _ v(3)] v(2) that(2) show ?thesis by (auto simp: stock_row_ok_def)
  qed
  show "stock_ok s' \<and> on_hand s' = on_hand s \<and> promised s' = (promised s)(k := promised s k - n)"
    if "stock_ok s" "0 < n" "releaseQuantity k n s = (True, s')"
  proof -
    from that obtain v where v: "map_of s k = Some v" "si_reservedQuantity v \<ge> n"
      "s' = t_update k (\<lambda>r. r\<lparr>si_reservedQuantity := si_reservedQuantity r - n\<rparr>) s"
      unfolding releaseQuantity_def cas_True by blast
    from upd [OF that(1) v(1) _ v(3)] v(2) that(2) show ?thesis by (auto simp: stock_row_ok_def)
  qed
  show "stock_ok s' \<and> on_hand s' = (on_hand s)(k := on_hand s k - n) \<and> promised s' = (promised s)(k := promised s k - n)"
    if "stock_ok s" "0 < n" "shipQuantity k n s = (True, s')"
  proof -
    from that obtain v where v: "map_of s k = Some v" "si_reservedQuantity v \<ge> n" "si_quantity v \<ge> n"
      "s' = t_update k (\<lambda>r. r\<lparr>si_quantity := si_quantity r - n, si_reservedQuantity := si_reservedQuantity r - n\<rparr>) s"
      unfolding shipQuantity_def cas_True by blast
    from upd [OF that(1) v(1) _ v(4)] v(2,3) that(2) show ?thesis by (auto simp: stock_row_ok_def)
  qed
  show "s' = s" if "reserveQuantity k n s = (False, s')"
    using that unfolding reserveQuantity_def by (rule cas_False)
  show "s' = s" if "releaseQuantity k n s = (False, s')"
    using that unfolding releaseQuantity_def by (rule cas_False)
  show "s' = s" if "shipQuantity k n s = (False, s')"
    using that unfolding shipQuantity_def by (rule cas_False)
qed

interpretation unit_machine: transition_table TRANSITIONS canTransition "\<lambda>s. s = transferred_out"
proof
  show "s = transferred_out \<longleftrightarrow> TRANSITIONS s = []" for s by (cases s) simp_all
qed (simp add: canTransition_def)

lemmas canTransition_simps [simp] = canTransition_def [of in_stock] canTransition_def [of reserved]
  canTransition_def [of sold] canTransition_def [of returned] canTransition_def [of in_transit]
  canTransition_def [of faulty] canTransition_def [of transferred_out] canTransition_def [of consigned_out]

section \<open>The weighted average\<close>

lemma decimal2_cents [simp]: "is_cents x \<Longrightarrow> decimal2 x = x"
proof (elim is_centsE)
  fix k assume x: "x = of_int k / 100"
  have "\<lfloor>(of_int j :: rat) + 1 / 2\<rfloor> = j" for j by (rule floor_unique) auto
  from this [of k] this [of "- k"] show "decimal2 x = x"
    by (simp add: decimal2_def x)
qed

lemma is_cents_decimal2 [simp, intro]: "is_cents (decimal2 x)"
proof -
  have "is_cents (of_int j / 100)" for j by (rule is_centsI) (rule refl)
  then show ?thesis by (simp add: decimal2_def)
qed

lemma decimal2_error: "\<bar>decimal2 x - x\<bar> \<le> 1 / 200"
proof -
  have *: "\<bar>of_int \<lfloor>y * 100 + 1 / 2\<rfloor> / 100 - y\<bar> \<le> 1 / 200" for y :: rat
  proof -
    define f :: rat where "f = of_int \<lfloor>y * 100 + 1 / 2\<rfloor>"
    have "f \<le> y * 100 + 1 / 2" "y * 100 + 1 / 2 < f + 1"
      using floor_correct [of "y * 100 + 1 / 2"] unfolding f_def of_int_add of_int_1 by blast+
    then have "\<bar>f / 100 - y\<bar> \<le> 1 / 200" unfolding abs_le_iff by (simp add: field_simps)
    then show ?thesis unfolding f_def .
  qed
  show ?thesis
  proof (cases "x < 0")
    case True
    have "\<bar>decimal2 x - x\<bar> = \<bar>of_int \<lfloor>- x * 100 + 1 / 2\<rfloor> / 100 - (- x)\<bar>"
      using True by (simp add: decimal2_def abs_minus_commute)
    with * [of "- x"] show ?thesis by simp
  qed (use * [of x] in \<open>simp add: decimal2_def\<close>)
qed

lemma decimal2_mono: "x \<le> y \<Longrightarrow> decimal2 x \<le> decimal2 y"
proof -
  assume xy: "x \<le> y"
  have up: "a \<le> b \<Longrightarrow> (of_int \<lfloor>a * 100 + 1 / 2\<rfloor> / 100 :: rat) \<le> of_int \<lfloor>b * 100 + 1 / 2\<rfloor> / 100" for a b :: rat
    by (intro divide_right_mono) (auto intro!: floor_mono)
  have pos: "0 \<le> a \<Longrightarrow> (0 :: rat) \<le> of_int \<lfloor>a * 100 + 1 / 2\<rfloor> / 100" for a :: rat
    by simp
  show ?thesis
  proof (cases "x < 0 \<and> \<not> y < 0")
    case True
    with pos [of y] pos [of "- x"] show ?thesis
      unfolding decimal2_def by (simp only: if_True if_False) linarith
  next
    case False
    with xy up [of x y] up [of "- y" "- x"] show ?thesis unfolding decimal2_def by auto
  qed
qed

lemma weighted_average_between:
  assumes "0 \<le> q" and "0 < r"
  shows "min c uc \<le> weighted_average q c r uc \<and> weighted_average q c r uc \<le> max c uc"
proof -
  have d: "0 < (of_int q + of_int r :: rat)" using assms by (simp add: add_nonneg_pos)
  have lo: "min c uc * (of_int q + of_int r) \<le> of_int q * c + of_int r * uc"
    using assms mult_left_mono [of "min c uc" c "of_int q"] mult_left_mono [of "min c uc" uc "of_int r"]
    by (simp add: algebra_simps add_mono)
  have hi: "of_int q * c + of_int r * uc \<le> max c uc * (of_int q + of_int r)"
    using assms mult_left_mono [of c "max c uc" "of_int q"] mult_left_mono [of uc "max c uc" "of_int r"]
    by (simp add: algebra_simps add_mono)
  from lo hi d show ?thesis unfolding weighted_average_def
    by (simp add: pos_le_divide_eq pos_divide_le_eq)
qed

text \<open>What one receipt does to the row it lands in.\<close>

lemma receive_existing:
  assumes "stock_ok st" and "map_of st k = Some r" and "receiveQuantityAtCost k n uc p st = Inr st'"
  shows "0 < n \<and>
         map_of st' k = Some (r\<lparr>si_cost := decimal2 (weighted_average (si_quantity r) (si_cost r) n (decimal2 uc)),
                               si_quantity := si_quantity r + n\<rparr>) \<and>
         (\<forall>k'. k' \<noteq> k \<longrightarrow> map_of st' k' = map_of st k')"
  using assms by (auto simp: receiveQuantityAtCost_def split: if_splits)

lemma receive_eff:
  assumes ok: "stock_ok st" and rec: "receiveQuantityAtCost k n uc p st = Inr st'"
  shows "stock_ok st'" and "on_hand st' = (on_hand st)(k := on_hand st k + n)" and "promised st' = promised st"
proof -
  from rec have n: "0 < n" by (auto simp: receiveQuantityAtCost_def split: if_splits)
  show "stock_ok st'" "on_hand st' = (on_hand st)(k := on_hand st k + n)" "promised st' = promised st"
  proof (atomize(full), cases "map_of st k")
    case None
    let ?r = "\<lparr>si_quantity = n, si_reservedQuantity = 0, si_cost = decimal2 uc, si_price = map_option decimal2 p, si_version = 0\<rparr>"
    from rec None n have st': "st' = t_insert k ?r st" by (simp add: receiveQuantityAtCost_def)
    have "stock_row_ok r" if "map_of st' k' = Some r" for k' r
      using that None n stock_okD [OF ok, of k'] by (cases "k' = k") (auto simp: st' stock_row_ok_def)
    then have "stock_ok st'" using ok None unfolding stock_ok_def by (simp add: st')
    moreover have "on_hand st' = (on_hand st)(k := on_hand st k + n)" "promised st' = promised st"
      using None by (auto simp: st' on_hand_def promised_def)
    ultimately show "stock_ok st' \<and> on_hand st' = (on_hand st)(k := on_hand st k + n) \<and> promised st' = promised st"
      by blast
  next
    case (Some r)
    let ?f = "\<lambda>r. r\<lparr>si_cost := decimal2 (weighted_average (si_quantity r) (si_cost r) n (decimal2 uc)),
                   si_quantity := si_quantity r + n\<rparr>"
    from rec Some n have st': "st' = t_update k ?f st" by (simp add: receiveQuantityAtCost_def)
    have "stock_row_ok (?f r)" using stock_okD [OF ok Some] n by (simp add: stock_row_ok_def)
    from stock_update [of st k r ?f, OF ok Some this] Some
    show "stock_ok st' \<and> on_hand st' = (on_hand st)(k := on_hand st k + n) \<and> promised st' = promised st"
      by (auto simp: st' on_hand_def promised_def)
  qed
qed

end
