(* ===== verification/ConsignmentRules.thy ===== *)
theory ConsignmentRules
  imports Common Ledger
begin

text \<open>
  The rules of a consignment: which side a company is on
  (\<^verbatim>\<open>src/src/consignment/consignment-scope.ts\<close>), the lifecycle table and who may do what in
  it (\<^verbatim>\<open>consignment-lifecycle.ts\<close>), and what is owed and what it does to the books
  (\<^verbatim>\<open>consignment-money.ts\<close>). The ledger satisfies the contract of a signed ledger; the
  lifecycle is acyclic apart from repeated offers.
\<close>

section \<open>Sides\<close>

datatype Side = source | destination

datatype side_refusal = NotAParty | OnlyTheSender | OnlyTheReceiver

definition visibleToCompany :: "id \<Rightarrow> id \<Rightarrow> id option \<Rightarrow> bool" where
  "visibleToCompany companyId sourceId destId \<longleftrightarrow> sourceId = companyId \<or> destId = Some companyId"

definition sideOf :: "id \<Rightarrow> id option \<Rightarrow> id \<Rightarrow> side_refusal http_error + Side" where
  "sideOf sourceId destId companyId =
     (if sourceId = companyId then Inr source
      else if destId = Some companyId then Inr destination
      else Inl (NotFound NotAParty))"

definition assertSource :: "id \<Rightarrow> id option \<Rightarrow> id \<Rightarrow> side_refusal http_error + unit" where
  "assertSource sourceId destId companyId =
     bindE (sideOf sourceId destId companyId) (\<lambda>side. require (side = source) (Forbidden OnlyTheSender))"

definition assertDestination :: "id \<Rightarrow> id option \<Rightarrow> id \<Rightarrow> side_refusal http_error + unit" where
  "assertDestination sourceId destId companyId =
     bindE (sideOf sourceId destId companyId) (\<lambda>side. require (side = destination) (Forbidden OnlyTheReceiver))"

section \<open>The lifecycle\<close>

datatype ConsignmentStatus =
    draft
  | requested
  | counter_proposed
  | disputed
  | accepted_awaiting_custody
  | custody_awaiting_confirmation
  | in_custody
  | sold_awaiting_settlement
  | partially_paid
  | return_initiated
  | return_in_transit
  | settled
  | returned_accepted
  | forgiven_settled
  | cancelled

datatype StatusGroup = grp_pending | grp_accepted | grp_confirmed

fun GROUP_OF :: "ConsignmentStatus \<Rightarrow> StatusGroup" where
  "GROUP_OF draft = grp_pending"
| "GROUP_OF requested = grp_pending"
| "GROUP_OF counter_proposed = grp_pending"
| "GROUP_OF disputed = grp_pending"
| "GROUP_OF accepted_awaiting_custody = grp_pending"
| "GROUP_OF custody_awaiting_confirmation = grp_pending"
| "GROUP_OF in_custody = grp_accepted"
| "GROUP_OF sold_awaiting_settlement = grp_accepted"
| "GROUP_OF partially_paid = grp_accepted"
| "GROUP_OF return_initiated = grp_accepted"
| "GROUP_OF return_in_transit = grp_accepted"
| "GROUP_OF settled = grp_confirmed"
| "GROUP_OF returned_accepted = grp_confirmed"
| "GROUP_OF forgiven_settled = grp_confirmed"
| "GROUP_OF cancelled = grp_confirmed"

datatype Action =
    submit
  | accept
  | counter
  | dispute
  | reject
  | cancel
  | send_custody
  | confirm_custody
  | report_sold
  | record_payment
  | settle
  | initiate_return
  | ship_return
  | confirm_return
  | forgive_action

datatype By = by_side Side | either

fun rule_from :: "Action \<Rightarrow> ConsignmentStatus list" where
  "rule_from submit = [draft]"
| "rule_from accept = [requested, counter_proposed, disputed]"
| "rule_from counter = [requested, counter_proposed, disputed]"
| "rule_from dispute = [requested, counter_proposed]"
| "rule_from reject = [requested, counter_proposed, disputed]"
| "rule_from cancel = [draft, requested, counter_proposed, disputed, accepted_awaiting_custody]"
| "rule_from send_custody = [accepted_awaiting_custody]"
| "rule_from confirm_custody = [custody_awaiting_confirmation]"
| "rule_from report_sold = [in_custody]"
| "rule_from record_payment = [sold_awaiting_settlement, partially_paid]"
| "rule_from settle = [sold_awaiting_settlement, partially_paid]"
| "rule_from initiate_return = [in_custody]"
| "rule_from ship_return = [return_initiated]"
| "rule_from confirm_return = [return_in_transit, return_initiated]"
| "rule_from forgive_action = [sold_awaiting_settlement, partially_paid]"

fun rule_to :: "Action \<Rightarrow> ConsignmentStatus" where
  "rule_to submit = requested"
| "rule_to accept = accepted_awaiting_custody"
| "rule_to counter = counter_proposed"
| "rule_to dispute = disputed"
| "rule_to reject = cancelled"
| "rule_to cancel = cancelled"
| "rule_to send_custody = custody_awaiting_confirmation"
| "rule_to confirm_custody = in_custody"
| "rule_to report_sold = sold_awaiting_settlement"
| "rule_to record_payment = partially_paid"
| "rule_to settle = settled"
| "rule_to initiate_return = return_initiated"
| "rule_to ship_return = return_in_transit"
| "rule_to confirm_return = returned_accepted"
| "rule_to forgive_action = forgiven_settled"

fun rule_by :: "Action \<Rightarrow> By" where
  "rule_by submit = by_side source"
| "rule_by accept = either"
| "rule_by counter = either"
| "rule_by dispute = either"
| "rule_by reject = by_side destination"
| "rule_by cancel = by_side source"
| "rule_by send_custody = by_side source"
| "rule_by confirm_custody = by_side destination"
| "rule_by report_sold = by_side destination"
| "rule_by record_payment = either"
| "rule_by settle = either"
| "rule_by initiate_return = by_side destination"
| "rule_by ship_return = by_side destination"
| "rule_by confirm_return = by_side source"
| "rule_by forgive_action = by_side source"

text \<open>The messages of \<^verbatim>\<open>TransitionRefused\<close>.\<close>

datatype transition_refusal =
    NotWhile ConsignmentStatus
  | OnlySide Side
  | WaitingOnOtherStore
  | NotThePhone string string

definition assertTransition ::
  "Action \<Rightarrow> ConsignmentStatus \<Rightarrow> Side \<Rightarrow> Side option \<Rightarrow> transition_refusal + ConsignmentStatus" where
  "assertTransition act from side lastProposalBy =
     (if from \<notin> set (rule_from act) then Inl (NotWhile from)
      else if (case rule_by act of either \<Rightarrow> False | by_side b \<Rightarrow> b \<noteq> side)
        then Inl (OnlySide (case rule_by act of either \<Rightarrow> side | by_side b \<Rightarrow> b))
      else if act \<in> set [accept, counter] \<and> lastProposalBy = Some side then Inl WaitingOnOtherStore
      else Inr (rule_to act))"

definition amountIsMutable :: "ConsignmentStatus \<Rightarrow> bool" where
  "amountIsMutable st \<longleftrightarrow>
     st \<in> set [draft, requested, counter_proposed, disputed, accepted_awaiting_custody]"

definition isReturnable :: "ConsignmentStatus \<Rightarrow> bool" where
  "isReturnable st \<longleftrightarrow> st \<in> set [in_custody, return_initiated, return_in_transit]"

text \<open>\<^verbatim>\<open>s.replace(/[\s-]/g, '').toUpperCase()\<close>\<close>

definition norm_identifier :: "string \<Rightarrow> string" where
  "norm_identifier s = js_upper (filter (\<lambda>ch. \<not> is_js_space ch \<and> ch \<noteq> CHR ''-'') s)"

definition assertIdentifierMatches :: "string \<Rightarrow> string \<Rightarrow> transition_refusal + unit" where
  "assertIdentifierMatches expected scanned =
     (if norm_identifier expected \<noteq> norm_identifier scanned then Inl (NotThePhone expected scanned)
      else Inr ())"

fun readable :: "ConsignmentStatus \<Rightarrow> string" where
  "readable draft = ''still a draft''"
| "readable requested = ''waiting for an answer''"
| "readable counter_proposed = ''waiting on a counter-offer''"
| "readable disputed = ''disputed''"
| "readable accepted_awaiting_custody = ''agreed but not yet handed over''"
| "readable custody_awaiting_confirmation = ''on its way''"
| "readable in_custody = ''held by the other store''"
| "readable sold_awaiting_settlement = ''sold and awaiting payment''"
| "readable partially_paid = ''part paid''"
| "readable return_initiated = ''being returned''"
| "readable return_in_transit = ''on its way back''"
| "readable settled = ''settled''"
| "readable returned_accepted = ''returned''"
| "readable forgiven_settled = ''written off''"
| "readable cancelled = ''cancelled''"

section \<open>The money\<close>

datatype LedgerKind =
    receivable_raised
  | payment_reported
  | payment_confirmed
  | payment_corrected
  | forgiven
  | settled_entry

fun BALANCE_EFFECT :: "LedgerKind \<Rightarrow> int" where
  "BALANCE_EFFECT receivable_raised = 1"
| "BALANCE_EFFECT payment_reported = 0"
| "BALANCE_EFFECT payment_confirmed = -1"
| "BALANCE_EFFECT payment_corrected = 1"
| "BALANCE_EFFECT forgiven = -1"
| "BALANCE_EFFECT settled_entry = 0"

record LedgerRow =
  r_kind :: LedgerKind
  r_amount :: number

definition outstanding :: "LedgerRow list \<Rightarrow> number" where
  "outstanding rows = round2 (\<Sum>r\<leftarrow>rows. of_int (BALANCE_EFFECT (r_kind r)) * r_amount r)"

record Breakdown =
  b_raised :: number
  b_confirmedPaid :: number
  b_corrected :: number
  b_forgiven :: number
  b_awaitingConfirmation :: number
  b_outstanding :: number

definition breakdown :: "LedgerRow list \<Rightarrow> Breakdown" where
  "breakdown rows =
     \<lparr>b_raised = total_of r_kind r_amount receivable_raised rows,
      b_confirmedPaid = total_of r_kind r_amount payment_confirmed rows,
      b_corrected = total_of r_kind r_amount payment_corrected rows,
      b_forgiven = total_of r_kind r_amount forgiven rows,
      b_awaitingConfirmation = total_of r_kind r_amount payment_reported rows,
      b_outstanding = outstanding rows\<rparr>"

datatype money_refusal =
    PaymentNotPositive
  | MoreThanOwed number
  | AccountMissing
  | CashHasNoAccount
  | SayWhyWriteOff
  | WriteOffNotPositive
  | OnlyLeftToWriteOff number

definition assertPaymentAllowed :: "number \<Rightarrow> Method \<Rightarrow> id option \<Rightarrow> number \<Rightarrow> money_refusal + unit" where
  "assertPaymentAllowed amount meth receivingAccountId owed =
     (if \<not> amount > 0 then Inl PaymentNotPositive
      else if round2 amount > round2 owed then Inl (MoreThanOwed (round2 owed))
      else if meth = account \<and> receivingAccountId = None then Inl AccountMissing
      else if meth = cash \<and> receivingAccountId \<noteq> None then Inl CashHasNoAccount
      else Inr ())"

definition assertForgivenessAllowed :: "number \<Rightarrow> string option \<Rightarrow> number \<Rightarrow> money_refusal + unit" where
  "assertForgivenessAllowed amount reason owed =
     (if blank reason then Inl SayWhyWriteOff
      else if \<not> amount > 0 then Inl WriteOffNotPositive
      else if round2 amount > round2 owed then Inl (OnlyLeftToWriteOff (round2 owed))
      else Inr ())"

record DispositionAccounting =
  d_revenue :: number
  d_cogs :: number
  d_grossProfit :: number

definition sourceAccounting :: "number \<Rightarrow> number \<Rightarrow> DispositionAccounting" where
  "sourceAccounting agreedAmount unitCost =
     (let revenue = round2 agreedAmount; cogs = round2 unitCost
      in \<lparr>d_revenue = revenue, d_cogs = cogs, d_grossProfit = round2 (revenue - cogs)\<rparr>)"

definition destinationCostBasis :: "number \<Rightarrow> number" where
  "destinationCostBasis agreedAmount = round2 agreedAmount"

text \<open>SHA-256 comes from \<^verbatim>\<open>node:crypto\<close> and is a parameter.\<close>

definition fingerprintPayment ::
  "(string \<Rightarrow> string) \<Rightarrow> string \<Rightarrow> number \<Rightarrow> string \<Rightarrow> string option \<Rightarrow> string option \<Rightarrow> string" where
  "fingerprintPayment sha256 consignmentId amount meth receivingAccountId reference =
     sha256 (join ''|'' [consignmentId, toFixed2 amount, meth, or_empty receivingAccountId,
                         js_trim (or_empty reference)])"

section \<open>Lemmas\<close>

interpretation consignment_ledger: signed_ledger BALANCE_EFFECT r_kind r_amount outstanding
proof
  show "BALANCE_EFFECT k = - 1 \<or> BALANCE_EFFECT k = 0 \<or> BALANCE_EFFECT k = 1" for k
    by (cases k) simp_all
qed (simp add: outstanding_def)

lemma assertTransition_ok:
  "assertTransition act from side lp = Inr st \<longleftrightarrow>
     from \<in> set (rule_from act) \<and> st = rule_to act \<and>
     (rule_by act = either \<or> rule_by act = by_side side) \<and>
     (act \<in> {accept, counter} \<longrightarrow> lp \<noteq> Some side)"
  unfolding assertTransition_def by (auto split: By.splits)

lemma con_payment_ok:
  "assertPaymentAllowed amount meth acc owed = Inr u \<longleftrightarrow>
     0 < amount \<and> round2 amount \<le> round2 owed \<and> (meth = account \<longleftrightarrow> acc \<noteq> None)"
  unfolding assertPaymentAllowed_def by (cases meth) auto

lemma con_forgive_ok:
  "assertForgivenessAllowed amount reason owed = Inr u \<longleftrightarrow>
     \<not> blank reason \<and> 0 < amount \<and> round2 amount \<le> round2 owed"
  unfolding assertForgivenessAllowed_def by auto

lemma sideOf_ok:
  "sideOf a d me = Inr side \<longleftrightarrow>
     (side = source \<and> a = me) \<or> (side = destination \<and> a \<noteq> me \<and> d = Some me)"
  unfolding sideOf_def by auto

lemma assertSource_ok [simp]: "assertSource a d me = Inr u \<longleftrightarrow> a = me"
  unfolding assertSource_def sideOf_def require_def by auto

lemma assertDestination_ok [simp]: "assertDestination a d me = Inr u \<longleftrightarrow> a \<noteq> me \<and> d = Some me"
  unfolding assertDestination_def sideOf_def require_def by auto

end
