(* ===== verification/Consignments.thy ===== *)
theory Consignments
  imports Inventory ConsignmentRules
begin

text \<open>
  The consignment service (\<^verbatim>\<open>src/src/consignment/consignments.service.ts\<close>): its tables as one
  state record and each handler as a function of the request context, the request and the
  state. In every handler an exception is thrown before the first write or inside the
  transaction that makes the writes, so an exception leaves the state as it was. The client
  is the unscoped one: no statement is restricted to the company of the request unless it
  says so. Identifiers drawn with \<^verbatim>\<open>newUuidV7Bin\<close> are arguments.
\<close>

section \<open>State\<close>

record consignment =
  k_sourceCompanyId :: id
  k_sourceBranchId :: id
  k_destinationCompanyId :: "id option"
  k_counterpartyId :: id
  k_connectionId :: "id option"
  k_status :: ConsignmentStatus
  k_proposedAmount :: "number option"
  k_counterAmount :: "number option"
  k_agreedAmount :: "number option"
  k_disputeReason :: "string option"
  k_note :: "string option"
  k_proposedById :: "id option"
  k_decidedById :: "id option"
  k_decidedAt :: "nat option"
  k_custodySentAt :: "nat option"
  k_custodySentById :: "id option"
  k_custodyConfirmedAt :: "nat option"
  k_custodyConfirmedById :: "id option"
  k_settledAt :: "nat option"
  k_clientUuid :: "id option"
  k_version :: nat
  k_createdAt :: nat

datatype LineStatus = ln_proposed | ln_in_custody | ln_sold | ln_returned | ln_cancelled

datatype Disposition = disp_sold | disp_returned | disp_damaged | disp_forgiven

datatype ReturnCondition = good | damaged

record line =
  n_consignmentId :: id
  n_sourceCompanyId :: id
  n_unitId :: id
  n_brand :: string
  n_model :: string
  n_variant :: "string option"
  n_identifier :: string
  n_conditionNote :: "string option"
  n_defectNote :: "string option"
  n_agreedAmount :: "number option"
  n_status :: LineStatus
  n_disposition :: "Disposition option"
  n_disposedAt :: "nat option"
  n_returnCondition :: "ReturnCondition option"
  n_returnNote :: "string option"

record entry =
  e_consignmentId :: id
  e_sourceCompanyId :: id
  e_destinationCompanyId :: "id option"
  e_kind :: LedgerKind
  e_amount :: number
  e_method :: "Method option"
  e_receivingAccountId :: "id option"
  e_accountLabelSnapshot :: "string option"
  e_reference :: "string option"
  e_evidenceRef :: "string option"
  e_reason :: "string option"
  e_actingCompanyId :: id
  e_actingUserId :: "id option"
  e_entryDate :: nat
  e_clientUuid :: "id option"
  e_clientRequestHash :: "string option"
  e_refersToId :: "id option"

record consignment_state =
  cs_consignments :: "(id, consignment) table"
  cs_lines :: "(id, line) table"
  cs_ledger :: "(id, entry) table"
  cs_units :: units
  cs_products :: "(id, product) table"
  cs_counterparties :: "(id, counterparty_row) table"
  cs_companies :: "(id, string) table"
  cs_accounts :: "(id, account_row) table"
  cs_audit :: "audit_row list"
  cs_notifications :: "notification list"

datatype consignment_reason =
    BranchRequired
  | NoPhones
  | TooManyPhones
  | NoSuchCounterparty
  | StoreBlocked
  | NotConnectedYet
  | PhoneNotInBranch
  | ProductMissing
  | PhoneUnavailable string
  | NoSuchConsignment
  | SideRefused side_refusal
  | TransitionRefused transition_refusal
  | MoneyRefused money_refusal
  | SayWhatTheProblemIs
  | CounterNeedsAmount
  | RefreshRequired
  | NoAmountToAccept
  | AnsweredFirst
  | NothingAgreedToConfirm
  | ScanAllPhones nat
  | NothingSold
  | InvalidUuid
  | NoSuchReport
  | AlreadyConfirmed
  | IdempotencyConflict
  | SayTheCondition

type_synonym consignment_error = "consignment_reason http_error"

section \<open>Requests and responses\<close>

record CreateConsignmentDto =
  cc_counterpartyId :: id
  cc_unitIds :: "id list"
  cc_proposedAmount :: number
  cc_conditionNote :: "string option"
  cc_defectNote :: "string option"
  cc_note :: "string option"
  cc_clientUuid :: "id option"

record DecideConsignmentDto =
  dc_action :: Action
  dc_amount :: "number option"
  dc_reason :: "string option"
  dc_expectedVersion :: "nat option"

datatype CustodyAction = send | confirm

record CustodyDto =
  cu_action :: CustodyAction
  cu_identifiers :: "string list option"

datatype PaymentAction = pay_report | pay_confirm

record ConsignmentPaymentDto =
  cp_action :: PaymentAction
  cp_amount :: "number option"
  cp_method :: "Method option"
  cp_receivingAccountId :: "id option"
  cp_reference :: "string option"
  cp_evidenceRef :: "string option"
  cp_entryId :: "id option"
  cp_clientUuid :: "id option"

record ForgiveDto =
  fg_amount :: number
  fg_reason :: "string option"

datatype ReturnAction = initiate | ship_back | confirm_receipt

record ReturnDto =
  rt_action :: ReturnAction
  rt_condition :: "ReturnCondition option"
  rt_note :: "string option"

record ConsignmentSummary =
  v_id :: id
  v_status :: ConsignmentStatus
  v_group :: StatusGroup
  v_statusText :: string
  v_side :: Side
  v_otherParty :: "string option"
  v_phones :: nat
  v_proposedAmount :: "number option"
  v_counterAmount :: "number option"
  v_agreedAmount :: "number option"
  v_amountIsMutable :: bool
  v_createdAt :: nat
  v_version :: nat

record LineView =
  lw_id :: id
  lw_brand :: string
  lw_model :: string
  lw_variant :: "string option"
  lw_identifier :: string
  lw_conditionNote :: "string option"
  lw_defectNote :: "string option"
  lw_status :: LineStatus
  lw_disposition :: "Disposition option"
  lw_returnCondition :: "ReturnCondition option"

record EntryView =
  ew_id :: id
  ew_kind :: LedgerKind
  ew_amount :: number
  ew_method :: "Method option"
  ew_accountLabel :: "string option"
  ew_reference :: "string option"
  ew_reason :: "string option"
  ew_date :: nat
  ew_byMe :: bool

record ConsignmentView =
  cv_summary :: ConsignmentSummary
  cv_note :: "string option"
  cv_disputeReason :: "string option"
  cv_lines :: "LineView list"
  cv_ledger :: "EntryView list"

type_synonym consignment_result = "(consignment_error + ConsignmentView) \<times> consignment_state"

section \<open>Reads\<close>

definition visible :: "id \<Rightarrow> consignment \<Rightarrow> bool" where
  "visible me k \<longleftrightarrow> visibleToCompany me (k_sourceCompanyId k) (k_destinationCompanyId k)"

definition mine :: "ctx \<Rightarrow> id \<Rightarrow> consignment_state \<Rightarrow> consignment_error + consignment" where
  "mine c i s =
     (case map_of (cs_consignments s) i of
        None \<Rightarrow> Inl (NotFound NoSuchConsignment)
      | Some k \<Rightarrow> if visible (c_companyId c) k then Inr k else Inl (NotFound NoSuchConsignment))"

text \<open>The scope functions raise the exceptions of their own module.\<close>

definition scoped :: "side_refusal http_error + 'a \<Rightarrow> consignment_error + 'a" where
  "scoped r = (case r of Inl e \<Rightarrow> Inl (map_http_error SideRefused e) | Inr a \<Rightarrow> Inr a)"

definition side_of :: "ctx \<Rightarrow> consignment \<Rightarrow> consignment_error + Side" where
  "side_of c k = scoped (sideOf (k_sourceCompanyId k) (k_destinationCompanyId k) (c_companyId c))"

definition as_source :: "ctx \<Rightarrow> consignment \<Rightarrow> consignment_error + unit" where
  "as_source c k = scoped (assertSource (k_sourceCompanyId k) (k_destinationCompanyId k) (c_companyId c))"

definition as_destination :: "ctx \<Rightarrow> consignment \<Rightarrow> consignment_error + unit" where
  "as_destination c k = scoped (assertDestination (k_sourceCompanyId k) (k_destinationCompanyId k) (c_companyId c))"

definition lines_of :: "id \<Rightarrow> consignment_state \<Rightarrow> (id \<times> line) list" where
  "lines_of i s = filter (\<lambda>(_, l). n_consignmentId l = i) (cs_lines s)"

definition entries_of :: "id \<Rightarrow> consignment_state \<Rightarrow> (id \<times> entry) list" where
  "entries_of i s = filter (\<lambda>(_, e). e_consignmentId e = i) (cs_ledger s)"

definition ledgerRows :: "id \<Rightarrow> consignment_state \<Rightarrow> LedgerRow list" where
  "ledgerRows i s = map (\<lambda>(_, e). \<lparr>r_kind = e_kind e, r_amount = e_amount e\<rparr>) (entries_of i s)"

definition summarise :: "id \<Rightarrow> consignment \<Rightarrow> Side \<Rightarrow> consignment_state \<Rightarrow> ConsignmentSummary" where
  "summarise i k side s =
     \<lparr>v_id = i, v_status = k_status k, v_group = GROUP_OF (k_status k), v_statusText = readable (k_status k),
      v_side = side,
      v_otherParty = (if side = source then map_option cp_name (map_of (cs_counterparties s) (k_counterpartyId k))
                      else map_of (cs_companies s) (k_sourceCompanyId k)),
      v_phones = length (lines_of i s), v_proposedAmount = k_proposedAmount k,
      v_counterAmount = k_counterAmount k, v_agreedAmount = k_agreedAmount k,
      v_amountIsMutable = amountIsMutable (k_status k), v_createdAt = k_createdAt k, v_version = k_version k\<rparr>"

definition line_view :: "id \<times> line \<Rightarrow> LineView" where
  "line_view x =
     (let l = snd x
      in \<lparr>lw_id = fst x, lw_brand = n_brand l, lw_model = n_model l, lw_variant = n_variant l,
          lw_identifier = n_identifier l, lw_conditionNote = n_conditionNote l, lw_defectNote = n_defectNote l,
          lw_status = n_status l, lw_disposition = n_disposition l, lw_returnCondition = n_returnCondition l\<rparr>)"

definition entry_view :: "id \<Rightarrow> id \<times> entry \<Rightarrow> EntryView" where
  "entry_view me x =
     (let e = snd x
      in \<lparr>ew_id = fst x, ew_kind = e_kind e, ew_amount = e_amount e, ew_method = e_method e,
          ew_accountLabel = e_accountLabelSnapshot e, ew_reference = e_reference e, ew_reason = e_reason e,
          ew_date = e_entryDate e, ew_byMe = (e_actingCompanyId e = me)\<rparr>)"

definition get :: "ctx \<Rightarrow> id \<Rightarrow> consignment_state \<Rightarrow> consignment_error + ConsignmentView" where
  "get c i s =
     bindE (mine c i s) (\<lambda>k.
     bindE (side_of c k) (\<lambda>side.
       Inr \<lparr>cv_summary = summarise i k side s, cv_note = k_note k, cv_disputeReason = k_disputeReason k,
            cv_lines = map line_view (lines_of i s),
            cv_ledger = map (entry_view (c_companyId c)) (entries_of i s)\<rparr>))"

text \<open>Newest first, the first 200 rows, then the filter on the group.\<close>

definition list_consignments :: "ctx \<Rightarrow> StatusGroup option \<Rightarrow> consignment_state \<Rightarrow> ConsignmentSummary list" where
  "list_consignments c grp s =
     (let rows = take 200 (rev (sort_key (\<lambda>(_, k). k_createdAt k)
                   (filter (\<lambda>(_, k). visible (c_companyId c) k) (cs_consignments s))));
          views = List.map_filter (\<lambda>(i, k). case side_of c k of Inl _ \<Rightarrow> None
                                            | Inr side \<Rightarrow> Some (summarise i k side s)) rows
      in filter (\<lambda>r. grp = None \<or> grp = Some (v_group r)) views)"

text \<open>The answer of a handler: the exception and the old state, or the view of the new one.\<close>

definition respond :: "ctx \<Rightarrow> id \<Rightarrow> consignment_error + consignment_state \<Rightarrow> consignment_state \<Rightarrow> consignment_result" where
  "respond c i r s = (case r of Inl e \<Rightarrow> (Inl e, s) | Inr s' \<Rightarrow> (get c i s', s'))"

definition audit_k :: "ctx \<Rightarrow> id \<Rightarrow> string \<Rightarrow> id \<Rightarrow> consignment_state \<Rightarrow> consignment_state" where
  "audit_k c i act branch s =
     s\<lparr>cs_audit := cs_audit s @ [audit_row_of c ''Consignment'' i act None (Some branch)]\<rparr>"

section \<open>Proposing\<close>

definition set_unit_where :: "id \<Rightarrow> UnitStatus \<Rightarrow> (unit_row \<Rightarrow> unit_row) \<Rightarrow> consignment_state \<Rightarrow> consignment_state" where
  "set_unit_where u st f s = s\<lparr>cs_units := snd (t_update_where u (\<lambda>r. u_status r = st) f (cs_units s))\<rparr>"

definition set_line :: "id \<Rightarrow> (line \<Rightarrow> line) \<Rightarrow> consignment_state \<Rightarrow> consignment_state" where
  "set_line x f s = s\<lparr>cs_lines := t_update x f (cs_lines s)\<rparr>"

definition new_line :: "ctx \<Rightarrow> id \<Rightarrow> CreateConsignmentDto \<Rightarrow> id \<Rightarrow> unit_row \<Rightarrow> product \<Rightarrow> line" where
  "new_line c i dto u r p =
     \<lparr>n_consignmentId = i, n_sourceCompanyId = c_companyId c, n_unitId = u, n_brand = pr_brand p,
      n_model = pr_model p, n_variant = pr_variant p, n_identifier = unitIdentifier r,
      n_conditionNote = trim_or_null (cc_conditionNote dto), n_defectNote = trim_or_null (cc_defectNote dto),
      n_agreedAmount = None, n_status = ln_proposed, n_disposition = None, n_disposedAt = None,
      n_returnCondition = None, n_returnNote = None\<rparr>"

text \<open>The loop over the phones; \<open>lineId\<close> supplies the identifier of the line at each position.\<close>

fun claim_phones ::
  "ctx \<Rightarrow> id \<Rightarrow> id \<Rightarrow> CreateConsignmentDto \<Rightarrow> (nat \<Rightarrow> id) \<Rightarrow> nat \<Rightarrow> id list \<Rightarrow> consignment_state
   \<Rightarrow> consignment_error + consignment_state" where
  "claim_phones c branch i dto lineId j [] s = Inr s"
| "claim_phones c branch i dto lineId j (u # us) s =
     (case map_of (cs_units s) u of
        None \<Rightarrow> Inl (NotFound PhoneNotInBranch)
      | Some r \<Rightarrow>
          if u_companyId r \<noteq> c_companyId c \<or> u_branchId r \<noteq> branch then Inl (NotFound PhoneNotInBranch)
          else
            (case map_of (cs_products s) (u_productId r) of
               None \<Rightarrow> Inl (Internal ProductMissing)
             | Some p \<Rightarrow>
                 (case t_update_where u (\<lambda>r. u_status r = in_stock) (\<lambda>r. r\<lparr>u_status := consigned_out\<rparr>) (cs_units s) of
                    (claimed, units') \<Rightarrow>
                      if claimed = 0 then Inl (Conflict (PhoneUnavailable (unitIdentifier r)))
                      else claim_phones c branch i dto lineId (Suc j) us
                             (s\<lparr>cs_units := units',
                                cs_lines := t_insert (lineId j) (new_line c i dto u r p) (cs_lines s)\<rparr>))))"

definition new_consignment :: "ctx \<Rightarrow> id \<Rightarrow> CreateConsignmentDto \<Rightarrow> counterparty_row \<Rightarrow> consignment" where
  "new_consignment c branch dto cp =
     \<lparr>k_sourceCompanyId = c_companyId c, k_sourceBranchId = branch,
      k_destinationCompanyId = cp_connectedCompanyId cp, k_counterpartyId = cc_counterpartyId dto,
      k_connectionId = cp_connectionId cp, k_status = requested,
      k_proposedAmount = Some (cc_proposedAmount dto), k_counterAmount = None, k_agreedAmount = None,
      k_disputeReason = None, k_note = trim_or_null (cc_note dto), k_proposedById = c_userId c,
      k_decidedById = None, k_decidedAt = None, k_custodySentAt = None, k_custodySentById = None,
      k_custodyConfirmedAt = None, k_custodyConfirmedById = None, k_settledAt = None,
      k_clientUuid = cc_clientUuid dto, k_version = 0, k_createdAt = c_now c\<rparr>"

definition create_tx ::
  "ctx \<Rightarrow> id \<Rightarrow> id \<Rightarrow> (nat \<Rightarrow> id) \<Rightarrow> CreateConsignmentDto \<Rightarrow> counterparty_row \<Rightarrow> consignment_state
   \<Rightarrow> consignment_error + consignment_state" where
  "create_tx c branch newId lineId dto cp s =
     bindE (claim_phones c branch newId dto lineId 0 (cc_unitIds dto)
              (s\<lparr>cs_consignments := t_insert newId (new_consignment c branch dto cp) (cs_consignments s)\<rparr>)) (\<lambda>s1.
       Inr (audit_k c newId ''create'' branch s1))"

definition find_counterparty :: "ctx \<Rightarrow> id \<Rightarrow> consignment_state \<Rightarrow> consignment_error + counterparty_row" where
  "find_counterparty c i s =
     (case map_of (cs_counterparties s) i of
        None \<Rightarrow> Inl (NotFound NoSuchCounterparty)
      | Some cp \<Rightarrow>
          if \<not> (cp_companyId cp = c_companyId c \<and> cp_isActive cp) then Inl (NotFound NoSuchCounterparty)
          else if cp_connectionStatus cp = Some conn_blocked then Inl (Conflict StoreBlocked)
          else if cp_kind cp = connected_store \<and> cp_connectionStatus cp \<noteq> Some conn_accepted
            then Inl (Conflict NotConnectedYet)
          else Inr cp)"

definition create ::
  "ctx \<Rightarrow> id \<Rightarrow> (nat \<Rightarrow> id) \<Rightarrow> CreateConsignmentDto \<Rightarrow> consignment_state \<Rightarrow> consignment_result" where
  "create c newId lineId dto s =
     (case c_branchId c of
        None \<Rightarrow> (Inl (BadRequest BranchRequired), s)
      | Some branch \<Rightarrow>
          if cc_unitIds dto = [] then (Inl (BadRequest NoPhones), s)
          else if length (cc_unitIds dto) > 50 then (Inl (BadRequest TooManyPhones), s)
          else
            (case (case cc_clientUuid dto of
                     None \<Rightarrow> None
                   | Some u \<Rightarrow> find (\<lambda>(_, k). k_sourceCompanyId k = c_companyId c \<and> k_clientUuid k = Some u)
                                  (cs_consignments s)) of
               Some (i, _) \<Rightarrow> (get c i s, s)
             | None \<Rightarrow>
                 respond c newId
                   (bindE (find_counterparty c (cc_counterpartyId dto) s) (\<lambda>cp.
                    bindE (create_tx c branch newId lineId dto cp s) (\<lambda>s1.
                      Inr (if cp_connectedCompanyId cp \<noteq> None
                           then s1\<lparr>cs_notifications := cs_notifications s1 @
                                     [deliver c ''consignment.requested'' None None]\<rparr>
                           else s1)))) s))"

section \<open>Deciding\<close>

definition lastProposalBy :: "consignment \<Rightarrow> Side option" where
  "lastProposalBy k =
     (if k_status k = requested then Some source
      else if k_status k = counter_proposed then Some destination
      else None)"

definition transition :: "Action \<Rightarrow> consignment \<Rightarrow> Side \<Rightarrow> Side option \<Rightarrow> consignment_error + ConsignmentStatus" where
  "transition act k side lp =
     (case assertTransition act (k_status k) side lp of
        Inl r \<Rightarrow> Inl (Conflict (TransitionRefused r))
      | Inr st \<Rightarrow> Inr st)"

text \<open>
  \<^verbatim>\<open>updateMany({ where: { id, version: c.version, status: c.status }, ... })\<close>, with the version
  incremented; \<open>lost\<close> is the exception when no row matches.
\<close>

definition swap ::
  "id \<Rightarrow> consignment \<Rightarrow> consignment_reason \<Rightarrow> (consignment \<Rightarrow> consignment) \<Rightarrow> consignment_state
   \<Rightarrow> consignment_error + consignment_state" where
  "swap i k0 lost f s =
     (case t_update_where i (\<lambda>k. k_version k = k_version k0 \<and> k_status k = k_status k0)
             (\<lambda>k. f (k\<lparr>k_version := Suc (k_version k)\<rparr>)) (cs_consignments s) of
        (won, ks') \<Rightarrow> if won = 0 then Inl (Conflict lost) else Inr (s\<lparr>cs_consignments := ks'\<rparr>))"

definition release_line :: "id \<times> line \<Rightarrow> consignment_state \<Rightarrow> consignment_state" where
  "release_line x s =
     set_line (fst x) (\<lambda>l. l\<lparr>n_status := ln_cancelled\<rparr>)
       (set_unit_where (n_unitId (snd x)) consigned_out (\<lambda>r. r\<lparr>u_status := in_stock\<rparr>) s)"

definition releaseUnits :: "id \<Rightarrow> consignment_state \<Rightarrow> consignment_state" where
  "releaseUnits i s =
     fold release_line (filter (\<lambda>(_, l). n_status l \<in> set [ln_proposed, ln_in_custody]) (lines_of i s)) s"

text \<open>\<^verbatim>\<open>consignmentLine.updateMany({ where: { consignmentId, status }, data })\<close>\<close>

definition set_lines_where :: "id \<Rightarrow> LineStatus \<Rightarrow> (line \<Rightarrow> line) \<Rightarrow> consignment_state \<Rightarrow> consignment_state" where
  "set_lines_where i st f s =
     s\<lparr>cs_lines := map (\<lambda>(x, l). (x, if n_consignmentId l = i \<and> n_status l = st then f l else l)) (cs_lines s)\<rparr>"

definition offer_on_table :: "consignment \<Rightarrow> number" where
  "offer_on_table k =
     (case k_counterAmount k of
        Some a \<Rightarrow> a
      | None \<Rightarrow> (case k_proposedAmount k of Some a \<Rightarrow> a | None \<Rightarrow> 0))"

definition decided :: "ctx \<Rightarrow> DecideConsignmentDto \<Rightarrow> ConsignmentStatus \<Rightarrow> number \<Rightarrow> consignment \<Rightarrow> consignment" where
  "decided c dto st agreed k =
     (let k1 = k\<lparr>k_status := st\<rparr>
      in case dc_action dto of
           counter \<Rightarrow> k1\<lparr>k_counterAmount := dc_amount dto, k_proposedById := c_userId c\<rparr>
         | dispute \<Rightarrow> k1\<lparr>k_disputeReason := map_option js_trim (dc_reason dto)\<rparr>
         | accept \<Rightarrow> k1\<lparr>k_agreedAmount := Some agreed, k_decidedById := c_userId c, k_decidedAt := Some (c_now c)\<rparr>
         | _ \<Rightarrow> k1)"

definition decide_tx ::
  "ctx \<Rightarrow> id \<Rightarrow> DecideConsignmentDto \<Rightarrow> consignment \<Rightarrow> ConsignmentStatus \<Rightarrow> number \<Rightarrow> consignment_state
   \<Rightarrow> consignment_error + consignment_state" where
  "decide_tx c i dto k st agreed s =
     bindE (swap i k AnsweredFirst (decided c dto st agreed) s) (\<lambda>s1.
       let s2 = (if st = cancelled then releaseUnits i s1 else s1);
           s3 = (if dc_action dto = accept
                 then set_lines_where i ln_proposed (\<lambda>l. l\<lparr>n_agreedAmount := Some agreed\<rparr>) s2 else s2)
       in Inr (audit_k c i ''status_change'' (k_sourceBranchId k) s3))"

definition decide :: "ctx \<Rightarrow> id \<Rightarrow> DecideConsignmentDto \<Rightarrow> consignment_state \<Rightarrow> consignment_result" where
  "decide c i dto s =
     respond c i
       (bindE (mine c i s) (\<lambda>k.
        bindE (side_of c k) (\<lambda>side.
        bindE (require (\<not> (dc_action dto = dispute \<and> blank (dc_reason dto))) (BadRequest SayWhatTheProblemIs)) (\<lambda>_.
        bindE (require (\<not> (dc_action dto = counter \<and> \<not> (case dc_amount dto of None \<Rightarrow> False | Some a \<Rightarrow> a > 0)))
                 (BadRequest CounterNeedsAmount)) (\<lambda>_.
        bindE (transition (dc_action dto) k side (lastProposalBy k)) (\<lambda>st.
        bindE (require (dc_expectedVersion dto = None \<or> dc_expectedVersion dto = Some (k_version k))
                 (Conflict RefreshRequired)) (\<lambda>_.
        bindE (require (\<not> (dc_action dto = accept \<and> \<not> offer_on_table k > 0)) (BadRequest NoAmountToAccept)) (\<lambda>_.
          decide_tx c i dto k st (offer_on_table k) s))))))))
       s"

section \<open>Custody\<close>

fun check_scans :: "string list \<Rightarrow> string list \<Rightarrow> consignment_error + unit" where
  "check_scans sent [] = Inr ()"
| "check_scans sent (x # xs) =
     (if list_ex (\<lambda>y. norm_identifier y = norm_identifier x) sent then check_scans sent xs
      else
        (case assertIdentifierMatches (case sent of [] \<Rightarrow> ''(none)'' | y # _ \<Rightarrow> y) x of
           Inl r \<Rightarrow> Inl (Conflict (TransitionRefused r))
         | Inr _ \<Rightarrow> check_scans sent xs))"

definition confirm_checks :: "id \<Rightarrow> CustodyDto \<Rightarrow> consignment \<Rightarrow> consignment_state \<Rightarrow> consignment_error + unit" where
  "confirm_checks i dto k s =
     (if k_agreedAmount k = None then Inl (Conflict NothingAgreedToConfirm)
      else
        (let ls = filter (\<lambda>(_, l). n_status l = ln_proposed) (lines_of i s);
             scanned = (case cu_identifiers dto of None \<Rightarrow> [] | Some xs \<Rightarrow> xs)
         in if scanned = [] then Inr ()
            else if length scanned \<noteq> length ls then Inl (BadRequest (ScanAllPhones (length ls)))
            else check_scans (map (n_identifier \<circ> snd) ls) scanned))"

definition custody_tx ::
  "ctx \<Rightarrow> id \<Rightarrow> Action \<Rightarrow> consignment \<Rightarrow> ConsignmentStatus \<Rightarrow> consignment_state
   \<Rightarrow> consignment_error + consignment_state" where
  "custody_tx c i act k st s =
     bindE (swap i k RefreshRequired
              (\<lambda>k. if act = send_custody
                   then k\<lparr>k_status := st, k_custodySentAt := Some (c_now c), k_custodySentById := c_userId c\<rparr>
                   else k\<lparr>k_status := st, k_custodyConfirmedAt := Some (c_now c),
                          k_custodyConfirmedById := c_userId c\<rparr>) s) (\<lambda>s1.
       Inr (audit_k c i ''status_change'' (k_sourceBranchId k)
              (if act = confirm_custody then set_lines_where i ln_proposed (\<lambda>l. l\<lparr>n_status := ln_in_custody\<rparr>) s1
               else s1)))"

definition custody :: "ctx \<Rightarrow> id \<Rightarrow> CustodyDto \<Rightarrow> consignment_state \<Rightarrow> consignment_result" where
  "custody c i dto s =
     respond c i
       (bindE (mine c i s) (\<lambda>k.
        bindE (side_of c k) (\<lambda>side.
        let act = (if cu_action dto = send then send_custody else confirm_custody)
        in bindE (transition act k side None) (\<lambda>st.
           bindE (if act = send_custody then as_source c k else as_destination c k) (\<lambda>_.
           bindE (if act = confirm_custody then confirm_checks i dto k s else Inr ()) (\<lambda>_.
             custody_tx c i act k st s))))))
       s"

section \<open>Disposition\<close>

definition new_entry :: "ctx \<Rightarrow> id \<Rightarrow> consignment \<Rightarrow> LedgerKind \<Rightarrow> number \<Rightarrow> entry" where
  "new_entry c i k kd a =
     \<lparr>e_consignmentId = i, e_sourceCompanyId = k_sourceCompanyId k,
      e_destinationCompanyId = k_destinationCompanyId k, e_kind = kd, e_amount = a, e_method = None,
      e_receivingAccountId = None, e_accountLabelSnapshot = None, e_reference = None, e_evidenceRef = None,
      e_reason = None, e_actingCompanyId = c_companyId c, e_actingUserId = c_userId c,
      e_entryDate = dayKey (c_now c), e_clientUuid = None, e_clientRequestHash = None, e_refersToId = None\<rparr>"

definition add_entry :: "id \<Rightarrow> entry \<Rightarrow> consignment_state \<Rightarrow> consignment_state" where
  "add_entry newId e s = s\<lparr>cs_ledger := t_insert newId e (cs_ledger s)\<rparr>"

definition sell_line :: "ctx \<Rightarrow> id \<times> line \<Rightarrow> consignment_state \<Rightarrow> consignment_state" where
  "sell_line c x s =
     set_unit_where (n_unitId (snd x)) consigned_out (\<lambda>r. r\<lparr>u_status := sold, u_dateSold := Some (c_now c)\<rparr>)
       (set_line (fst x) (\<lambda>l. l\<lparr>n_status := ln_sold, n_disposition := Some disp_sold,
                              n_disposedAt := Some (c_now c)\<rparr>) s)"

definition sold_lines :: "id \<Rightarrow> id list option \<Rightarrow> consignment_state \<Rightarrow> (id \<times> line) list" where
  "sold_lines i lineIds s =
     (let ls = filter (\<lambda>(_, l). n_status l = ln_in_custody) (lines_of i s)
      in case lineIds of
           None \<Rightarrow> ls
         | Some xs \<Rightarrow> if xs = [] then ls else filter (\<lambda>(x, _). x \<in> set xs) ls)"

definition raised_by :: "(id \<times> line) list \<Rightarrow> number" where
  "raised_by ls = (\<Sum>x\<leftarrow>ls. case n_agreedAmount (snd x) of None \<Rightarrow> 0 | Some a \<Rightarrow> a)"

definition reportSold_tx ::
  "ctx \<Rightarrow> id \<Rightarrow> id \<Rightarrow> consignment \<Rightarrow> ConsignmentStatus \<Rightarrow> (id \<times> line) list \<Rightarrow> consignment_state
   \<Rightarrow> consignment_error + consignment_state" where
  "reportSold_tx c newId i k st ls s =
     bindE (swap i k RefreshRequired (\<lambda>k. k\<lparr>k_status := st\<rparr>) s) (\<lambda>s1.
       Inr (add_entry newId (new_entry c i k receivable_raised (raised_by ls)) (fold (sell_line c) ls s1)))"

definition reportSold :: "ctx \<Rightarrow> id \<Rightarrow> id \<Rightarrow> id list option \<Rightarrow> consignment_state \<Rightarrow> consignment_result" where
  "reportSold c newId i lineIds s =
     respond c i
       (bindE (mine c i s) (\<lambda>k.
        bindE (side_of c k) (\<lambda>side.
        bindE (if k_destinationCompanyId k \<noteq> None then as_destination c k else as_source c k) (\<lambda>_.
        bindE (transition report_sold k side None) (\<lambda>st.
        let ls = sold_lines i lineIds s
        in bindE (require (ls \<noteq> []) (BadRequest NothingSold)) (\<lambda>_.
           bindE (reportSold_tx c newId i k st ls s) (\<lambda>s1.
             Inr (audit_k c i ''status_change'' (k_sourceBranchId k) s1))))))))
       s"

section \<open>Money\<close>

definition set_status_where :: "id \<Rightarrow> ConsignmentStatus list \<Rightarrow> (consignment \<Rightarrow> consignment) \<Rightarrow> consignment_state \<Rightarrow> consignment_state" where
  "set_status_where i sts f s =
     s\<lparr>cs_consignments := snd (t_update_where i (\<lambda>k. k_status k \<in> set sts) f (cs_consignments s))\<rparr>"

definition settleIfClear :: "ctx \<Rightarrow> id \<Rightarrow> ConsignmentStatus \<Rightarrow> consignment_state \<Rightarrow> consignment_state" where
  "settleIfClear c i as s =
     (if outstanding (ledgerRows i s) > 0
      then set_status_where i [sold_awaiting_settlement] (\<lambda>k. k\<lparr>k_status := partially_paid\<rparr>) s
      else set_status_where i [sold_awaiting_settlement, partially_paid]
             (\<lambda>k. k\<lparr>k_status := as, k_settledAt := Some (c_now c)\<rparr>) s)"

definition find_entry :: "id \<Rightarrow> id \<Rightarrow> LedgerKind \<Rightarrow> consignment_state \<Rightarrow> entry option" where
  "find_entry x i kd s =
     (case map_of (cs_ledger s) x of
        None \<Rightarrow> None
      | Some e \<Rightarrow> if e_consignmentId e = i \<and> e_kind e = kd then Some e else None)"

definition refers :: "id \<Rightarrow> LedgerKind \<Rightarrow> consignment_state \<Rightarrow> bool" where
  "refers x kd s = list_ex (\<lambda>(_, e). e_refersToId e = Some x \<and> e_kind e = kd) (cs_ledger s)"

definition allowed :: "(money_refusal + unit) \<Rightarrow> (consignment_reason \<Rightarrow> consignment_error) \<Rightarrow> consignment_error + unit" where
  "allowed r wrap = (case r of Inl e \<Rightarrow> Inl (wrap (MoneyRefused e)) | Inr _ \<Rightarrow> Inr ())"

definition payment_confirm ::
  "ctx \<Rightarrow> id \<Rightarrow> id \<Rightarrow> ConsignmentPaymentDto \<Rightarrow> consignment \<Rightarrow> number \<Rightarrow> consignment_state
   \<Rightarrow> consignment_error + consignment_state" where
  "payment_confirm c newId i dto k owed s =
     bindE (as_source c k) (\<lambda>_.
       case cp_entryId dto of
         None \<Rightarrow> Inl (Internal InvalidUuid)
       | Some x \<Rightarrow>
           (case find_entry x i payment_reported s of
              None \<Rightarrow> Inl (NotFound NoSuchReport)
            | Some reported \<Rightarrow>
                if refers x payment_confirmed s then Inl (Conflict AlreadyConfirmed)
                else
                  bindE (allowed (assertPaymentAllowed (e_amount reported)
                                    (case e_method reported of None \<Rightarrow> cash | Some m \<Rightarrow> m)
                                    (e_receivingAccountId reported) owed) Conflict) (\<lambda>_.
                    let e = (new_entry c i k payment_confirmed (e_amount reported))
                              \<lparr>e_method := e_method reported,
                               e_receivingAccountId := e_receivingAccountId reported,
                               e_accountLabelSnapshot := e_accountLabelSnapshot reported,
                               e_reference := e_reference reported, e_refersToId := Some x\<rparr>
                    in Inr (settleIfClear c i settled (add_entry newId e s)))))"

definition report_fingerprint :: "(string \<Rightarrow> string) \<Rightarrow> id \<Rightarrow> ConsignmentPaymentDto \<Rightarrow> string" where
  "report_fingerprint sha256 i dto =
     fingerprintPayment sha256 (binToUuid i) (case cp_amount dto of None \<Rightarrow> 0 | Some a \<Rightarrow> a)
       (case cp_method dto of None \<Rightarrow> ''cash'' | Some m \<Rightarrow> method_text m)
       (map_option binToUuid (cp_receivingAccountId dto)) (cp_reference dto)"

definition report_entry ::
  "(string \<Rightarrow> string) \<Rightarrow> ctx \<Rightarrow> id \<Rightarrow> ConsignmentPaymentDto \<Rightarrow> consignment \<Rightarrow> consignment_state \<Rightarrow> entry" where
  "report_entry sha256 c i dto k s =
     (new_entry c i k payment_reported (case cp_amount dto of None \<Rightarrow> 0 | Some a \<Rightarrow> a))
       \<lparr>e_method := cp_method dto, e_receivingAccountId := cp_receivingAccountId dto,
        e_accountLabelSnapshot :=
          (case cp_receivingAccountId dto of
             None \<Rightarrow> None
           | Some a \<Rightarrow> (case map_of (cs_accounts s) a of
                          None \<Rightarrow> None
                        | Some r \<Rightarrow> if ac_companyId r = c_companyId c then Some (ac_label r) else None)),
        e_reference := trim_or_null (cp_reference dto), e_evidenceRef := trim_or_null (cp_evidenceRef dto),
        e_clientUuid := cp_clientUuid dto,
        e_clientRequestHash :=
          (if cp_clientUuid dto \<noteq> None then Some (report_fingerprint sha256 i dto) else None)\<rparr>"

definition payment_report ::
  "(string \<Rightarrow> string) \<Rightarrow> ctx \<Rightarrow> id \<Rightarrow> id \<Rightarrow> ConsignmentPaymentDto \<Rightarrow> consignment \<Rightarrow> number \<Rightarrow> consignment_state
   \<Rightarrow> consignment_error + consignment_state" where
  "payment_report sha256 c newId i dto k owed s =
     (let replay = (case cp_clientUuid dto of
                      None \<Rightarrow> None
                    | Some u \<Rightarrow> find (\<lambda>(_, e). e_actingCompanyId e = c_companyId c \<and> e_clientUuid e = Some u) (cs_ledger s))
      in case replay of
           Some (_, r) \<Rightarrow>
             if \<not> falsy (e_clientRequestHash r) \<and> e_clientRequestHash r \<noteq> Some (report_fingerprint sha256 i dto)
             then Inl (Conflict IdempotencyConflict) else Inr s
         | None \<Rightarrow>
             bindE (allowed (assertPaymentAllowed (case cp_amount dto of None \<Rightarrow> 0 | Some a \<Rightarrow> a)
                               (case cp_method dto of None \<Rightarrow> cash | Some m \<Rightarrow> m)
                               (cp_receivingAccountId dto) owed) BadRequest) (\<lambda>_.
               Inr (audit_k c i ''update'' (k_sourceBranchId k)
                      (add_entry newId (report_entry sha256 c i dto k s) s))))"

definition payment ::
  "(string \<Rightarrow> string) \<Rightarrow> ctx \<Rightarrow> id \<Rightarrow> id \<Rightarrow> ConsignmentPaymentDto \<Rightarrow> consignment_state \<Rightarrow> consignment_result" where
  "payment sha256 c newId i dto s =
     respond c i
       (bindE (mine c i s) (\<lambda>k.
        bindE (side_of c k) (\<lambda>_.
        let owed = outstanding (ledgerRows i s)
        in case cp_action dto of
             pay_confirm \<Rightarrow> payment_confirm c newId i dto k owed s
           | pay_report \<Rightarrow> payment_report sha256 c newId i dto k owed s)))
       s"

definition forgive :: "ctx \<Rightarrow> id \<Rightarrow> id \<Rightarrow> ForgiveDto \<Rightarrow> consignment_state \<Rightarrow> consignment_result" where
  "forgive c newId i dto s =
     respond c i
       (bindE (mine c i s) (\<lambda>k.
        bindE (as_source c k) (\<lambda>_.
        bindE (allowed (assertForgivenessAllowed (fg_amount dto) (fg_reason dto) (outstanding (ledgerRows i s)))
                 BadRequest) (\<lambda>_.
          let e = (new_entry c i k forgiven (fg_amount dto))\<lparr>e_reason := map_option js_trim (fg_reason dto)\<rparr>
          in Inr (settleIfClear c i forgiven_settled
                    (audit_k c i ''override'' (k_sourceBranchId k) (add_entry newId e s)))))))
       s"

section \<open>Returns\<close>

fun return_action :: "ReturnAction \<Rightarrow> Action" where
  "return_action initiate = initiate_return"
| "return_action ship_back = ship_return"
| "return_action confirm_receipt = confirm_return"

definition return_line :: "ctx \<Rightarrow> ReturnDto \<Rightarrow> id \<times> line \<Rightarrow> consignment_state \<Rightarrow> consignment_state" where
  "return_line c dto x s =
     set_unit_where (n_unitId (snd x)) consigned_out
       (\<lambda>r. r\<lparr>u_status := (if rt_condition dto = Some damaged then faulty else in_stock)\<rparr>)
       (set_line (fst x)
          (\<lambda>l. l\<lparr>n_status := ln_returned,
                 n_disposition := Some (if rt_condition dto = Some damaged then disp_damaged else disp_returned),
                 n_returnCondition := rt_condition dto, n_returnNote := trim_or_null (rt_note dto),
                 n_disposedAt := Some (c_now c)\<rparr>) s)"

definition returnFlow_tx ::
  "ctx \<Rightarrow> id \<Rightarrow> ReturnDto \<Rightarrow> consignment \<Rightarrow> ConsignmentStatus \<Rightarrow> consignment_state
   \<Rightarrow> consignment_error + consignment_state" where
  "returnFlow_tx c i dto k st s =
     bindE (swap i k RefreshRequired (\<lambda>k. k\<lparr>k_status := st\<rparr>) s) (\<lambda>s1.
       let s2 = (if return_action (rt_action dto) = confirm_return
                 then fold (return_line c dto)
                        (filter (\<lambda>(_, l). n_status l = ln_in_custody) (lines_of i s1)) s1
                 else s1)
       in Inr (audit_k c i ''status_change'' (k_sourceBranchId k) s2))"

definition returnFlow :: "ctx \<Rightarrow> id \<Rightarrow> ReturnDto \<Rightarrow> consignment_state \<Rightarrow> consignment_result" where
  "returnFlow c i dto s =
     respond c i
       (bindE (mine c i s) (\<lambda>k.
        bindE (side_of c k) (\<lambda>side.
        bindE (transition (return_action (rt_action dto)) k side None) (\<lambda>st.
        bindE (require (\<not> (return_action (rt_action dto) = confirm_return \<and> rt_condition dto = None))
                 (BadRequest SayTheCondition)) (\<lambda>_.
          returnFlow_tx c i dto k st s)))))
       s"

end
