(* ===== verification/ConsignmentInvariant.thy ===== *)
theory ConsignmentInvariant
  imports Consignments
begin

text \<open>
  The invariant of the consignment tables and that every handler keeps it: which statuses
  carry an agreed amount, what state the lines are in for each status of their consignment,
  that the ledger of a sold consignment holds one receivable and never goes below zero, and
  that the units out on consignment are exactly the units of the active lines.
\<close>

section \<open>The invariant\<close>

definition early :: "ConsignmentStatus set" where
  "early = {requested, counter_proposed, disputed}"

definition sold_phase :: "ConsignmentStatus set" where
  "sold_phase = {sold_awaiting_settlement, partially_paid, settled, forgiven_settled}"

definition active :: "line \<Rightarrow> bool" where
  "active l \<longleftrightarrow> n_status l \<in> {ln_proposed, ln_in_custody}"

fun line_states :: "ConsignmentStatus \<Rightarrow> LineStatus set" where
  "line_states draft = {}"
| "line_states requested = {ln_proposed}"
| "line_states counter_proposed = {ln_proposed}"
| "line_states disputed = {ln_proposed}"
| "line_states accepted_awaiting_custody = {ln_proposed}"
| "line_states custody_awaiting_confirmation = {ln_proposed}"
| "line_states in_custody = {ln_in_custody}"
| "line_states return_initiated = {ln_in_custody}"
| "line_states return_in_transit = {ln_in_custody}"
| "line_states sold_awaiting_settlement = {ln_sold, ln_in_custody}"
| "line_states partially_paid = {ln_sold, ln_in_custody}"
| "line_states settled = {ln_sold, ln_in_custody}"
| "line_states forgiven_settled = {ln_sold, ln_in_custody}"
| "line_states returned_accepted = {ln_returned}"
| "line_states cancelled = {ln_cancelled}"

definition line_ok :: "consignment \<Rightarrow> line \<Rightarrow> bool" where
  "line_ok k l \<longleftrightarrow>
     n_sourceCompanyId l = k_sourceCompanyId k \<and> n_agreedAmount l = k_agreedAmount k \<and>
     n_status l \<in> line_states (k_status k)"

definition row_of :: "id \<times> entry \<Rightarrow> LedgerRow" where
  "row_of x = \<lparr>r_kind = e_kind (snd x), r_amount = e_amount (snd x)\<rparr>"

definition owed :: "(id \<times> entry) list \<Rightarrow> number" where
  "owed es = outstanding (map row_of es)"

definition raised :: "(id \<times> entry) list \<Rightarrow> number list" where
  "raised es = map (\<lambda>x. e_amount (snd x)) (filter (\<lambda>x. e_kind (snd x) = receivable_raised) es)"

definition entries_ok :: "(id \<times> entry) list \<Rightarrow> bool" where
  "entries_ok es \<longleftrightarrow>
     (\<forall>x e. (x, e) \<in> set es \<longrightarrow> valid_amount (e_amount e) \<and>
        e_kind e \<in> {receivable_raised, payment_reported, payment_confirmed, forgiven})"

definition money_ok :: "consignment \<Rightarrow> (id \<times> entry) list \<Rightarrow> bool" where
  "money_ok k es \<longleftrightarrow>
     k_status k \<noteq> draft \<and> (\<exists>a. k_proposedAmount k = Some a \<and> valid_amount a) \<and>
     (\<forall>a. k_counterAmount k = Some a \<longrightarrow> valid_amount a) \<and>
     (\<forall>a. k_agreedAmount k = Some a \<longrightarrow> valid_amount a) \<and>
     (k_agreedAmount k = None \<longrightarrow> k_status k \<in> insert cancelled early) \<and>
     (k_status k \<in> early \<longrightarrow> k_agreedAmount k = None) \<and>
     (if k_status k \<in> sold_phase
      then entries_ok es \<and> (\<exists>p. raised es = [p]) \<and> 0 \<le> owed es \<and>
           (k_status k \<in> {settled, forgiven_settled} \<longleftrightarrow> owed es = 0)
      else es = [])"

definition units_ok :: "consignment_state \<Rightarrow> bool" where
  "units_ok s \<longleftrightarrow>
     (\<forall>x l. map_of (cs_lines s) x = Some l \<and> active l \<longrightarrow>
        (\<exists>r. map_of (cs_units s) (n_unitId l) = Some r \<and> u_status r = consigned_out \<and>
             u_companyId r = n_sourceCompanyId l)) \<and>
     (\<forall>x l x' l'. map_of (cs_lines s) x = Some l \<and> active l \<and> map_of (cs_lines s) x' = Some l' \<and> active l' \<and>
        n_unitId l = n_unitId l' \<longrightarrow> x = x') \<and>
     (\<forall>u r. map_of (cs_units s) u = Some r \<and> u_status r = consigned_out \<longrightarrow>
        (\<exists>x l. map_of (cs_lines s) x = Some l \<and> active l \<and> n_unitId l = u))"

definition con_inv :: "consignment_state \<Rightarrow> bool" where
  "con_inv s \<longleftrightarrow>
     t_wf (cs_consignments s) \<and> t_wf (cs_lines s) \<and> t_wf (cs_ledger s) \<and> t_wf (cs_units s) \<and>
     (\<forall>x l. map_of (cs_lines s) x = Some l \<longrightarrow>
        (\<exists>k. map_of (cs_consignments s) (n_consignmentId l) = Some k \<and> line_ok k l)) \<and>
     (\<forall>x e. (x, e) \<in> set (cs_ledger s) \<longrightarrow> map_of (cs_consignments s) (e_consignmentId e) \<noteq> None) \<and>
     (\<forall>i k. map_of (cs_consignments s) i = Some k \<longrightarrow> money_ok k (entries_of i s)) \<and>
     units_ok s"

lemma con_invD:
  assumes "con_inv s"
  shows "t_wf (cs_consignments s)" "t_wf (cs_lines s)" "t_wf (cs_ledger s)" "t_wf (cs_units s)"
    and "\<And>x l. map_of (cs_lines s) x = Some l \<Longrightarrow>
           \<exists>k. map_of (cs_consignments s) (n_consignmentId l) = Some k \<and> line_ok k l"
    and "\<And>x e. (x, e) \<in> set (cs_ledger s) \<Longrightarrow> map_of (cs_consignments s) (e_consignmentId e) \<noteq> None"
    and "\<And>i k. map_of (cs_consignments s) i = Some k \<Longrightarrow> money_ok k (entries_of i s)"
    and "units_ok s"
  using assms unfolding con_inv_def by blast+

lemma con_line_okD:
  assumes "con_inv s" and "map_of (cs_consignments s) i = Some k"
    and "map_of (cs_lines s) x = Some l" and "n_consignmentId l = i"
  shows "line_ok k l"
  using con_invD(5) [OF assms(1,3)] assms(2,4) by auto

lemma con_row_of_simps [simp]: "r_kind (row_of x) = e_kind (snd x)" "r_amount (row_of x) = e_amount (snd x)"
  by (simp_all add: row_of_def)

lemma owed_Nil [simp]: "owed [] = 0"
  by (simp add: owed_def)

lemma outstanding_ledgerRows [simp]: "outstanding (ledgerRows i s) = owed (entries_of i s)"
  by (simp add: ledgerRows_def owed_def row_of_def [abs_def] case_prod_unfold)

lemma con_rows_cents: "entries_ok es \<Longrightarrow> r \<in> set (map row_of es) \<Longrightarrow> is_cents (r_amount r)"
  by (auto simp: entries_ok_def valid_amount_def)

lemma owed_snoc:
  assumes "entries_ok es" and "is_cents (e_amount e)"
  shows "owed (es @ [(x, e)]) = owed es + of_int (BALANCE_EFFECT (e_kind e)) * e_amount e"
  using consignment_ledger.balance_snoc [of "map row_of es" "row_of (x, e)", OF con_rows_cents [OF assms(1)]] assms(2)
  by (simp add: owed_def)

lemma entries_ok_Nil [simp]: "entries_ok []"
  by (simp add: entries_ok_def)

lemma con_entries_ok_snoc [simp]:
  "entries_ok (es @ [(x, e)]) \<longleftrightarrow> entries_ok es \<and> valid_amount (e_amount e) \<and>
     e_kind e \<in> {receivable_raised, payment_reported, payment_confirmed, forgiven}"
  by (auto simp: entries_ok_def)

lemma raised_snoc [simp]:
  "raised (es @ [(x, e)]) = raised es @ (if e_kind e = receivable_raised then [e_amount e] else [])"
  by (simp add: raised_def)

lemma raised_Nil [simp]: "raised [] = []"
  by (simp add: raised_def)

text \<open>Nothing but the receivable adds to what is owed.\<close>

lemma owed_le_raised:
  assumes "entries_ok es"
  shows "owed es \<le> sum_list (raised es)"
  using assms
proof (induction es rule: rev_induct)
  case (snoc x xs)
  obtain y e where x: "x = (y, e)" by fastforce
  with snoc show ?case by (auto simp: owed_snoc valid_amount_def)
qed simp

section \<open>A handler that touches one consignment\<close>

lemma entries_of_other:
  "cs_ledger s' = t_insert n e (cs_ledger s) \<Longrightarrow> e_consignmentId e \<noteq> j \<Longrightarrow> entries_of j s' = entries_of j s"
  by (simp add: entries_of_def t_insert_def)

lemma con_entries_of_cong: "cs_ledger s' = cs_ledger s \<Longrightarrow> entries_of j s' = entries_of j s"
  by (simp add: entries_of_def)

lemma con_inv_local:
  assumes inv: "con_inv s" and k: "map_of (cs_consignments s) i = Some k"
    and ks: "cs_consignments s' = t_update i F (cs_consignments s)"
    and ln: "t_wf (cs_lines s')"
      "\<And>x l'. map_of (cs_lines s') x = Some l' \<Longrightarrow>
         \<exists>l. map_of (cs_lines s) x = Some l \<and> n_consignmentId l' = n_consignmentId l \<and>
             (if n_consignmentId l = i then line_ok (F k) l' else l' = l)"
    and led: "cs_ledger s' = cs_ledger s \<or>
         (\<exists>n e. map_of (cs_ledger s) n = None \<and> e_consignmentId e = i \<and> cs_ledger s' = t_insert n e (cs_ledger s))"
    and mon: "money_ok (F k) (entries_of i s')"
    and un: "t_wf (cs_units s')" "units_ok s'"
  shows "con_inv s'"
  unfolding con_inv_def
proof (intro conjI allI impI)
  note d = con_invD [OF inv]
  show "t_wf (cs_consignments s')" "t_wf (cs_lines s')" "t_wf (cs_units s')" "units_ok s'"
    using d ks ln un by simp_all
  show "t_wf (cs_ledger s')" using led d(3) by auto
  show "\<exists>k. map_of (cs_consignments s') (n_consignmentId l') = Some k \<and> line_ok k l'"
    if "map_of (cs_lines s') x = Some l'" for x l'
  proof -
    from ln(2) [OF that] obtain l where l: "map_of (cs_lines s) x = Some l" "n_consignmentId l' = n_consignmentId l"
      "if n_consignmentId l = i then line_ok (F k) l' else l' = l" by blast
    with d(5) [OF l(1)] show ?thesis using k by (auto simp: ks split: if_splits)
  qed
  show "map_of (cs_consignments s') (e_consignmentId e) \<noteq> None" if "(x, e) \<in> set (cs_ledger s')" for x e
    using that led d(6) k by (fastforce simp: ks t_insert_def)
  show "money_ok k' (entries_of j s')" if "map_of (cs_consignments s') j = Some k'" for j k'
  proof (cases "j = i")
    case True with that mon k ks show ?thesis by simp
  next
    case False
    with that ks have "map_of (cs_consignments s) j = Some k'" by simp
    moreover have "entries_of j s' = entries_of j s"
      using led False by (auto intro: entries_of_other con_entries_of_cong)
    ultimately show ?thesis using d(7) by metis
  qed
qed

text \<open>A handler that keeps units, and on each line keeps its unit and whether it is active.\<close>

lemma con_units_okD:
  assumes "units_ok s"
  shows "\<And>x l. map_of (cs_lines s) x = Some l \<Longrightarrow> active l \<Longrightarrow>
           \<exists>r. map_of (cs_units s) (n_unitId l) = Some r \<and> u_status r = consigned_out \<and>
               u_companyId r = n_sourceCompanyId l"
    and "\<And>x l x' l'. map_of (cs_lines s) x = Some l \<Longrightarrow> active l \<Longrightarrow> map_of (cs_lines s) x' = Some l' \<Longrightarrow>
           active l' \<Longrightarrow> n_unitId l = n_unitId l' \<Longrightarrow> x = x'"
    and "\<And>u r. map_of (cs_units s) u = Some r \<Longrightarrow> u_status r = consigned_out \<Longrightarrow>
           \<exists>x l. map_of (cs_lines s) x = Some l \<and> active l \<and> n_unitId l = u"
  using assms unfolding units_ok_def by blast+

lemma con_units_okI:
  assumes "\<And>x l. map_of (cs_lines s) x = Some l \<Longrightarrow> active l \<Longrightarrow>
           \<exists>r. map_of (cs_units s) (n_unitId l) = Some r \<and> u_status r = consigned_out \<and>
               u_companyId r = n_sourceCompanyId l"
    and "\<And>x l x' l'. map_of (cs_lines s) x = Some l \<Longrightarrow> active l \<Longrightarrow> map_of (cs_lines s) x' = Some l' \<Longrightarrow>
           active l' \<Longrightarrow> n_unitId l = n_unitId l' \<Longrightarrow> x = x'"
    and "\<And>u r. map_of (cs_units s) u = Some r \<Longrightarrow> u_status r = consigned_out \<Longrightarrow>
           \<exists>x l. map_of (cs_lines s) x = Some l \<and> active l \<and> n_unitId l = u"
  shows "units_ok s"
  using assms unfolding units_ok_def by blast

lemma units_ok_same:
  assumes ok: "units_ok s" and us: "cs_units s' = cs_units s"
    and ls: "\<And>x. map_of (cs_lines s') x = map_option h (map_of (cs_lines s) x)"
    and h: "\<And>l. active (h l) = active l \<and> n_unitId (h l) = n_unitId l \<and> n_sourceCompanyId (h l) = n_sourceCompanyId l"
  shows "units_ok s'"
proof (rule con_units_okI)
  note d = con_units_okD [OF ok]
  show "\<exists>r. map_of (cs_units s') (n_unitId l) = Some r \<and> u_status r = consigned_out \<and> u_companyId r = n_sourceCompanyId l"
    if "map_of (cs_lines s') x = Some l" "active l" for x l
    using that d(1) us h by (auto simp: ls)
  show "x = x'" if "map_of (cs_lines s') x = Some l" "active l" "map_of (cs_lines s') x' = Some l'" "active l'"
    "n_unitId l = n_unitId l'" for x l x' l'
    using that d(2) h by (auto simp: ls)
  show "\<exists>x l. map_of (cs_lines s') x = Some l \<and> active l \<and> n_unitId l = u"
    if "map_of (cs_units s') u = Some r" "u_status r = consigned_out" for u r
    using that us d(3) [of u r] h by (auto simp: ls)
qed

lemma units_ok_cong: "units_ok s \<Longrightarrow> cs_units s' = cs_units s \<Longrightarrow> cs_lines s' = cs_lines s \<Longrightarrow> units_ok s'"
  by (rule units_ok_same [where h = "\<lambda>l. l"]) (auto simp: option.map_ident)

lemma swap_Inr:
  assumes "swap i k lost f s = Inr s1" and "map_of (cs_consignments s) i = Some k"
  shows "s1 = s\<lparr>cs_consignments := t_update i (\<lambda>k. f (k\<lparr>k_version := Suc (k_version k)\<rparr>)) (cs_consignments s)\<rparr>"
  using assms by (simp add: swap_def t_update_where_def)

lemma swap_succeeds:
  "map_of (cs_consignments s) i = Some k \<Longrightarrow>
   swap i k lost f s = Inr (s\<lparr>cs_consignments := t_update i (\<lambda>k. f (k\<lparr>k_version := Suc (k_version k)\<rparr>)) (cs_consignments s)\<rparr>)"
  by (simp add: swap_def t_update_where_def)

lemma con_mine_Inr: "mine c i s = Inr k \<longleftrightarrow> map_of (cs_consignments s) i = Some k \<and> visible (c_companyId c) k"
  by (auto simp: mine_def split: option.splits if_splits)

lemma scoped_Inr [simp]: "scoped r = Inr a \<longleftrightarrow> r = Inr a"
  by (cases r) (auto simp: scoped_def)

lemma as_source_Inr [simp]: "as_source c k = Inr u \<longleftrightarrow> k_sourceCompanyId k = c_companyId c"
  by (simp add: as_source_def)

lemma as_destination_Inr [simp]:
  "as_destination c k = Inr u \<longleftrightarrow> k_sourceCompanyId k \<noteq> c_companyId c \<and> k_destinationCompanyId k = Some (c_companyId c)"
  by (simp add: as_destination_def)

lemma transition_Inr:
  "transition act k side lp = Inr st \<longleftrightarrow> assertTransition act (k_status k) side lp = Inr st"
  by (auto simp: transition_def split: sum.splits)

lemma respond_snd: "snd (respond c i r s) = (case r of Inl _ \<Rightarrow> s | Inr s' \<Rightarrow> s')"
  by (simp add: respond_def split: sum.splits)

lemma respond_inv:
  assumes "P s" and "\<And>s'. r = Inr s' \<Longrightarrow> P s'"
  shows "P (snd (respond c i r s))"
  using assms by (auto simp: respond_snd split: sum.splits)

section \<open>Ending lines\<close>

text \<open>
  Releasing, selling and returning a phone have one shape: the line gets its final status and
  the unit, if it is still out, leaves \<^verbatim>\<open>consigned_out\<close>.
\<close>

definition end_line :: "(line \<Rightarrow> line) \<Rightarrow> (unit_row \<Rightarrow> unit_row) \<Rightarrow> id \<times> line \<Rightarrow> consignment_state \<Rightarrow> consignment_state" where
  "end_line g f x s = set_unit_where (n_unitId (snd x)) consigned_out f (set_line (fst x) g s)"

lemma end_line_eqs:
  "release_line = end_line (\<lambda>l. l\<lparr>n_status := ln_cancelled\<rparr>) (\<lambda>r. r\<lparr>u_status := in_stock\<rparr>)"
  "sell_line c = end_line (\<lambda>l. l\<lparr>n_status := ln_sold, n_disposition := Some disp_sold, n_disposedAt := Some (c_now c)\<rparr>)
                   (\<lambda>r. r\<lparr>u_status := sold, u_dateSold := Some (c_now c)\<rparr>)"
  "return_line c dto = end_line
     (\<lambda>l. l\<lparr>n_status := ln_returned,
            n_disposition := Some (if rt_condition dto = Some damaged then disp_damaged else disp_returned),
            n_returnCondition := rt_condition dto, n_returnNote := trim_or_null (rt_note dto),
            n_disposedAt := Some (c_now c)\<rparr>)
     (\<lambda>r. r\<lparr>u_status := (if rt_condition dto = Some damaged then faulty else in_stock)\<rparr>)"
  by (simp_all add: fun_eq_iff end_line_def release_line_def sell_line_def return_line_def
      set_line_def set_unit_where_def)

lemma end_line_fields [simp]:
  "cs_consignments (end_line g f x s) = cs_consignments s" "cs_ledger (end_line g f x s) = cs_ledger s"
  "cs_products (end_line g f x s) = cs_products s" "cs_counterparties (end_line g f x s) = cs_counterparties s"
  "cs_lines (end_line g f x s) = t_update (fst x) g (cs_lines s)"
  by (simp_all add: end_line_def set_line_def set_unit_where_def)

lemma end_line_unit:
  "map_of (cs_units (end_line g f x s)) u =
     (if u = n_unitId (snd x) then map_option (\<lambda>r. if u_status r = consigned_out then f r else r) (map_of (cs_units s) u)
      else map_of (cs_units s) u)"
  by (auto simp: end_line_def set_line_def set_unit_where_def t_update_where_def split: option.splits)

lemma end_line_wf [simp]: "t_wf (cs_units (end_line g f x s)) = t_wf (cs_units s)"
  by (auto simp: end_line_def set_line_def set_unit_where_def t_update_where_def split: option.splits)

lemma fold_end_line_fields [simp]:
  "cs_consignments (fold (end_line g f) xs s) = cs_consignments s"
  "cs_ledger (fold (end_line g f) xs s) = cs_ledger s"
  "t_wf (cs_units (fold (end_line g f) xs s)) = t_wf (cs_units s)"
  "t_wf (cs_lines (fold (end_line g f) xs s)) = t_wf (cs_lines s)"
  by (induction xs arbitrary: s) simp_all

lemma end_line_row:
  "end_line g f x (s\<lparr>cs_consignments := ks\<rparr>) = (end_line g f x s)\<lparr>cs_consignments := ks\<rparr>"
  by (simp add: end_line_def set_line_def set_unit_where_def)

lemma fold_end_line_row:
  "fold (end_line g f) xs (s\<lparr>cs_consignments := ks\<rparr>) = (fold (end_line g f) xs s)\<lparr>cs_consignments := ks\<rparr>"
  by (induction xs arbitrary: s) (simp_all add: end_line_row)

lemma fold_end_line_lines:
  assumes "distinct (map fst xs)"
  shows "map_of (cs_lines (fold (end_line g f) xs s)) x =
     (if x \<in> fst ` set xs then map_option g (map_of (cs_lines s) x) else map_of (cs_lines s) x)"
  using assms by (induction xs arbitrary: s) auto

lemma fold_end_line_units:
  assumes "distinct (map (n_unitId \<circ> snd) xs)"
  shows "map_of (cs_units (fold (end_line g f) xs s)) u =
     (if u \<in> (n_unitId \<circ> snd) ` set xs
      then map_option (\<lambda>r. if u_status r = consigned_out then f r else r) (map_of (cs_units s) u)
      else map_of (cs_units s) u)"
  using assms by (induction xs arbitrary: s) (auto simp: end_line_unit)

lemma active_lines_distinct:
  assumes inv: "t_wf (cs_lines s)" "units_ok s" and P: "\<And>x l. (x, l) \<in> set xs \<Longrightarrow> active l"
    and xs: "xs = filter P (cs_lines s)"
  shows "distinct (map fst xs) \<and> distinct (map (n_unitId \<circ> snd) xs)"
proof
  have d: "distinct (map fst (cs_lines s))" using inv(1) by (simp add: t_wf_def t_keys_def)
  then show k: "distinct (map fst xs)" by (simp add: xs distinct_map_filter)
  have "inj_on (n_unitId \<circ> snd) (set xs)"
  proof (rule inj_onI)
    fix a b assume a: "a \<in> set xs" and b: "b \<in> set xs" and eq: "(n_unitId \<circ> snd) a = (n_unitId \<circ> snd) b"
    obtain x l x' l' where ab: "a = (x, l)" "b = (x', l')" by fastforce
    with a b P have "active l" "active l'" "map_of (cs_lines s) x = Some l" "map_of (cs_lines s) x' = Some l'"
      using inv(1) by (auto simp: xs t_wf_map_of_eq)
    with con_units_okD(2) [OF inv(2)] eq ab have "x = x'" by auto
    with ab \<open>map_of (cs_lines s) x = Some l\<close> \<open>map_of (cs_lines s) x' = Some l'\<close> show "a = b" by simp
  qed
  then show "distinct (map (n_unitId \<circ> snd) xs)" using k by (simp add: distinct_map)
qed

lemma units_ok_end_lines:
  assumes wf: "t_wf (cs_lines s)" and ok: "units_ok s"
    and xs: "xs = filter P (cs_lines s)" "\<And>x l. (x, l) \<in> set xs \<Longrightarrow> active l"
    and g: "\<And>l. \<not> active (g l)" and f: "\<And>r. u_status (f r) \<noteq> consigned_out"
  shows "units_ok (fold (end_line g f) xs s)"
proof (rule con_units_okI)
  note d = con_units_okD [OF ok]
  have dk: "distinct (map fst xs)" and du: "distinct (map (n_unitId \<circ> snd) xs)"
    using active_lines_distinct [OF wf ok xs(2,1)] by auto
  note ls = fold_end_line_lines [OF dk, of g f s] and us = fold_end_line_units [OF du, of g f s]
  have mem: "(x, l) \<in> set xs \<Longrightarrow> map_of (cs_lines s) x = Some l" for x l
    using wf by (auto simp: xs(1) t_wf_map_of_eq)
  have old: "x \<notin> fst ` set xs \<and> map_of (cs_lines s) x = Some l \<and> n_unitId l \<notin> (n_unitId \<circ> snd) ` set xs"
    if l: "map_of (cs_lines (fold (end_line g f) xs s)) x = Some l" "active l" for x l
  proof -
    from l g have x: "x \<notin> fst ` set xs" "map_of (cs_lines s) x = Some l" by (auto simp: ls split: if_splits)
    have "n_unitId l \<noteq> n_unitId l'" if "(x', l') \<in> set xs" for x' l'
      using d(2) [OF x(2) l(2) mem [OF that] xs(2) [OF that]] x(1) that by force
    with x show ?thesis by fastforce
  qed
  show "\<exists>r. map_of (cs_units (fold (end_line g f) xs s)) (n_unitId l) = Some r \<and> u_status r = consigned_out \<and>
            u_companyId r = n_sourceCompanyId l"
    if "map_of (cs_lines (fold (end_line g f) xs s)) x = Some l" "active l" for x l
    using old [OF that] d(1) [of x l] that(2) by (auto simp: us)
  show "x = x'"
    if "map_of (cs_lines (fold (end_line g f) xs s)) x = Some l" "active l"
      "map_of (cs_lines (fold (end_line g f) xs s)) x' = Some l'" "active l'" "n_unitId l = n_unitId l'" for x l x' l'
    using old [OF that(1,2)] old [OF that(3,4)] d(2) that by blast
  show "\<exists>x l. map_of (cs_lines (fold (end_line g f) xs s)) x = Some l \<and> active l \<and> n_unitId l = u"
    if u: "map_of (cs_units (fold (end_line g f) xs s)) u = Some r" "u_status r = consigned_out" for u r
  proof -
    from u f have u': "u \<notin> (n_unitId \<circ> snd) ` set xs" "map_of (cs_units s) u = Some r"
      by (auto simp: us split: if_splits) (metis f)
    with d(3) u(2) obtain x l where l: "map_of (cs_lines s) x = Some l" "active l" "n_unitId l = u" by blast
    have "x \<notin> fst ` set xs"
    proof
      assume "x \<in> fst ` set xs"
      then obtain l' where "(x, l') \<in> set xs" by auto
      with mem l u'(1) show False by force
    qed
    with l show ?thesis by (auto simp: ls)
  qed
qed

section \<open>Every handler keeps the invariant\<close>

lemma con_inv_irrelevant [simp]:
  "con_inv (audit_k c i act b s) = con_inv s"
  "con_inv (s\<lparr>cs_notifications := ns\<rparr>) = con_inv s"
  by (simp_all add: con_inv_def units_ok_def entries_of_def audit_k_def)

lemma map_of_set_lines_where:
  "map_of (cs_lines (set_lines_where i st f s)) x =
     map_option (\<lambda>l. if n_consignmentId l = i \<and> n_status l = st then f l else l) (map_of (cs_lines s) x)"
  by (simp add: set_lines_where_def map_of_map [where f = "\<lambda>l. if n_consignmentId l = i \<and> n_status l = st then f l else l"])

lemma set_lines_where_fields [simp]:
  "cs_consignments (set_lines_where i st f s) = cs_consignments s"
  "cs_ledger (set_lines_where i st f s) = cs_ledger s" "cs_units (set_lines_where i st f s) = cs_units s"
  "t_wf (cs_lines (set_lines_where i st f s)) = t_wf (cs_lines s)"
  by (simp_all add: set_lines_where_def t_wf_def t_keys_def case_prod_unfold comp_def)

text \<open>Ending some lines of a consignment whose row moves with them.\<close>

lemma con_inv_end_lines:
  assumes inv: "con_inv s" and k: "map_of (cs_consignments s) i = Some k"
    and xs: "xs = filter P (lines_of i s)" "\<And>x l. (x, l) \<in> set xs \<Longrightarrow> active l"
    and g: "\<And>l. \<not> active (g l)" "\<And>l. n_consignmentId (g l) = n_consignmentId l"
    and f: "\<And>r. u_status (f r) \<noteq> consigned_out"
    and upd: "\<And>x l. (x, l) \<in> set xs \<Longrightarrow> line_ok k l \<Longrightarrow> line_ok (F k) (g l)"
    and rest: "\<And>x l. map_of (cs_lines s) x = Some l \<Longrightarrow> n_consignmentId l = i \<Longrightarrow> (x, l) \<notin> set xs \<Longrightarrow>
                 line_ok k l \<Longrightarrow> line_ok (F k) l"
    and led: "led = cs_ledger s \<or> (\<exists>n e. map_of (cs_ledger s) n = None \<and> e_consignmentId e = i \<and> led = t_insert n e (cs_ledger s))"
    and mon: "money_ok (F k) (filter (\<lambda>(_, e). e_consignmentId e = i) led)"
    and s': "cs_consignments s' = t_update i F (cs_consignments s)" "cs_ledger s' = led"
      "cs_lines s' = cs_lines (fold (end_line g f) xs s)" "cs_units s' = cs_units (fold (end_line g f) xs s)"
  shows "con_inv s'"
proof (rule con_inv_local [OF inv k s'(1)])
  note d = con_invD [OF inv]
  have xs': "xs = filter (\<lambda>x. P x \<and> n_consignmentId (snd x) = i) (cs_lines s)"
    by (auto simp: xs(1) lines_of_def intro: filter_cong)
  have dk: "distinct (map fst xs)"
    using active_lines_distinct [OF d(2,8) xs(2) xs'] by simp
  have mem: "map_of (cs_lines s) x = Some l \<and> n_consignmentId l = i" if "(x, l) \<in> set xs" for x l
    using that d(2) by (auto simp: xs' t_wf_map_of_eq)
  show "t_wf (cs_lines s')" "t_wf (cs_units s')" using d(2,4) by (simp_all add: s')
  show "units_ok s'"
    using units_ok_end_lines [OF d(2,8) xs' xs(2) g(1) f] unfolding units_ok_def s'(3,4) .
  show "cs_ledger s' = cs_ledger s \<or>
      (\<exists>n e. map_of (cs_ledger s) n = None \<and> e_consignmentId e = i \<and> cs_ledger s' = t_insert n e (cs_ledger s))"
    using led by (simp add: s'(2))
  show "money_ok (F k) (entries_of i s')" using mon by (simp add: entries_of_def s'(2))
  show "\<exists>l. map_of (cs_lines s) x = Some l \<and> n_consignmentId l' = n_consignmentId l \<and>
          (if n_consignmentId l = i then line_ok (F k) l' else l' = l)"
    if l': "map_of (cs_lines s') x = Some l'" for x l'
  proof (cases "x \<in> fst ` set xs")
    case True
    then obtain l where l: "(x, l) \<in> set xs" by auto
    from mem [OF l] l' True have "l' = g l" by (simp add: s' fold_end_line_lines [OF dk])
    with mem [OF l] upd [OF l con_line_okD [OF inv k]] g(2) show ?thesis by auto
  next
    case False
    with l' have l: "map_of (cs_lines s) x = Some l'" by (simp add: s' fold_end_line_lines [OF dk])
    moreover have "line_ok (F k) l'" if "n_consignmentId l' = i"
      using rest [OF l that _ con_line_okD [OF inv k l that]] False by force
    ultimately show ?thesis by simp
  qed
qed

text \<open>Changing the row and each of its lines, no unit moving.\<close>

lemma con_inv_row:
  assumes inv: "con_inv s" and k: "map_of (cs_consignments s) i = Some k"
    and s': "cs_consignments s' = t_update i F (cs_consignments s)" "cs_units s' = cs_units s"
    and ls: "t_wf (cs_lines s')"
      "\<And>x. map_of (cs_lines s') x = map_option (\<lambda>l. if n_consignmentId l = i then h l else l) (map_of (cs_lines s) x)"
    and h: "\<And>l. line_ok k l \<Longrightarrow> line_ok (F k) (h l)"
      "\<And>l. n_consignmentId (h l) = n_consignmentId l \<and> active (h l) = active l \<and> n_unitId (h l) = n_unitId l \<and>
           n_sourceCompanyId (h l) = n_sourceCompanyId l"
    and led: "cs_ledger s' = cs_ledger s \<or>
       (\<exists>n e. map_of (cs_ledger s) n = None \<and> e_consignmentId e = i \<and> cs_ledger s' = t_insert n e (cs_ledger s))"
    and mon: "money_ok (F k) (entries_of i s')"
  shows "con_inv s'"
proof (rule con_inv_local [OF inv k s'(1) ls(1) _ led mon])
  note d = con_invD [OF inv]
  show "t_wf (cs_units s')" using d s'(2) by simp
  show "units_ok s'"
    by (rule units_ok_same [OF d(8) s'(2) ls(2)]) (auto simp: h(2))
  show "\<exists>l. map_of (cs_lines s) x = Some l \<and> n_consignmentId l' = n_consignmentId l \<and>
          (if n_consignmentId l = i then line_ok (F k) l' else l' = l)"
    if l': "map_of (cs_lines s') x = Some l'" for x l'
  proof -
    from l' obtain l where l: "map_of (cs_lines s) x = Some l" "l' = (if n_consignmentId l = i then h l else l)"
      by (auto simp: ls(2))
    then show ?thesis using h con_line_okD [OF inv k l(1)] by auto
  qed
qed

subsection \<open>Deciding\<close>

lemma money_ok_nil:
  "money_ok k es \<Longrightarrow> k_status k \<notin> sold_phase \<Longrightarrow> es = []"
  by (simp add: money_ok_def)

lemmas con_phase_defs = early_def sold_phase_def active_def line_ok_def

lemma offer_valid: "money_ok k es \<Longrightarrow> valid_amount (offer_on_table k)"
  by (auto simp: money_ok_def offer_on_table_def split: option.splits)

lemma money_ok_offer:
  assumes "money_ok k es" and "k_status k \<in> early" and "k_status k' \<in> early"
    and "k_proposedAmount k' = k_proposedAmount k" "k_agreedAmount k' = k_agreedAmount k"
    and "\<And>a. k_counterAmount k' = Some a \<Longrightarrow> valid_amount a" and "es' = []"
  shows "money_ok k' es'"
  using assms by (auto simp: money_ok_def early_def sold_phase_def)

lemma con_inv_cancelled:
  assumes inv: "con_inv s" and k: "map_of (cs_consignments s) i = Some k"
    and st: "k_status k \<in> insert accepted_awaiting_custody early" and F: "F = (\<lambda>k. k\<lparr>k_status := cancelled, k_version := v k\<rparr>)"
    and s1: "s1 = s\<lparr>cs_consignments := t_update i F (cs_consignments s)\<rparr>"
  shows "con_inv (releaseUnits i s1)"
proof -
  let ?P = "\<lambda>x. case x of (_, l) \<Rightarrow> n_status l \<in> set [ln_proposed, ln_in_custody]"
  let ?g = "\<lambda>l :: line. l\<lparr>n_status := ln_cancelled\<rparr>" and ?f = "\<lambda>r :: unit_row. r\<lparr>u_status := in_stock\<rparr>"
  have lines: "lines_of i s1 = lines_of i s" by (simp add: lines_of_def s1)
  have nil: "entries_of i s = []"
    using money_ok_nil [OF con_invD(7) [OF inv k]] st by (auto simp: con_phase_defs)
  show ?thesis
    unfolding releaseUnits_def lines end_line_eqs
  proof (rule con_inv_end_lines [OF inv k refl, of ?P ?g ?f F "cs_ledger s"])
    show "money_ok (F k) (filter (\<lambda>(_, e). e_consignmentId e = i) (cs_ledger s))"
      using con_invD(7) [OF inv k] st nil by (auto simp: money_ok_def F con_phase_defs entries_of_def)
    show "line_ok (F k) l"
      if "map_of (cs_lines s) x = Some l" "n_consignmentId l = i" "(x, l) \<notin> set (filter ?P (lines_of i s))" "line_ok k l" for x l
      using that st con_invD(2) [OF inv] by (auto simp: lines_of_def t_wf_map_of_eq con_phase_defs)
  qed (use s1 F in \<open>auto simp: con_phase_defs fold_end_line_row\<close>)
qed

lemma con_inv_decide_tx:
  assumes inv: "con_inv s" and k: "map_of (cs_consignments s) i = Some k"
    and act: "dc_action dto \<in> {accept, counter, dispute, reject, cancel}"
    and tr: "assertTransition (dc_action dto) (k_status k) side lp = Inr st"
    and am: "dc_action dto = counter \<Longrightarrow> \<exists>a. dc_amount dto = Some a \<and> valid_amount a"
    and tx: "decide_tx c i dto k st (offer_on_table k) s = Inr s'"
  shows "con_inv s'"
proof -
  note d = con_invD [OF inv]
  note mon = d(7) [OF k]
  let ?F = "\<lambda>k. decided c dto st (offer_on_table (the (map_of (cs_consignments s) i))) (k\<lparr>k_version := Suc (k_version k)\<rparr>)"
  let ?s1 = "s\<lparr>cs_consignments := t_update i ?F (cs_consignments s)\<rparr>"
  from tr have st: "st = rule_to (dc_action dto)" and fr: "k_status k \<in> set (rule_from (dc_action dto))"
    by (auto simp: assertTransition_ok)
  have nil: "entries_of i s = []" using money_ok_nil [OF mon] fr act by (auto simp: con_phase_defs)
  have nd: "k_status k \<noteq> draft" using mon by (simp add: money_ok_def)
  consider (acc) "dc_action dto = accept" | (off) "dc_action dto \<in> {counter, dispute}" | (fin) "dc_action dto \<in> {reject, cancel}"
    using act by auto
  then show ?thesis
  proof cases
    case acc
    have s': "s' = audit_k c i ''status_change'' (k_sourceBranchId k)
        (set_lines_where i ln_proposed (\<lambda>l. l\<lparr>n_agreedAmount := Some (offer_on_table k)\<rparr>) ?s1)"
      using tx acc st k by (auto simp: decide_tx_def dest!: swap_Inr)
    show ?thesis unfolding s' con_inv_irrelevant
    proof (rule con_inv_row [OF inv k, of _ ?F "\<lambda>l. if n_status l = ln_proposed then l\<lparr>n_agreedAmount := Some (offer_on_table k)\<rparr> else l"])
      show "money_ok (?F k) (entries_of i (set_lines_where i ln_proposed (\<lambda>l. l\<lparr>n_agreedAmount := Some (offer_on_table k)\<rparr>) ?s1))"
        using mon acc st nil offer_valid [OF mon] k
        by (auto simp: money_ok_def decided_def entries_of_def con_phase_defs)
      show "line_ok (?F k) (if n_status l = ln_proposed then l\<lparr>n_agreedAmount := Some (offer_on_table k)\<rparr> else l)"
        if "line_ok k l" for l
        using that fr acc st k by (auto simp: decided_def con_phase_defs)
    qed (use d(2) in \<open>auto simp: map_of_set_lines_where active_def intro: option.map_cong\<close>)
  next
    case off
    have s': "s' = audit_k c i ''status_change'' (k_sourceBranchId k) ?s1"
      using tx off st k by (auto simp: decide_tx_def dest!: swap_Inr)
    show ?thesis unfolding s' con_inv_irrelevant
    proof (rule con_inv_row [OF inv k, of _ ?F "\<lambda>l. l"])
      have "entries_of i ?s1 = []" using nil by (simp add: entries_of_def)
      moreover have "\<And>a. k_counterAmount k = Some a \<Longrightarrow> valid_amount a" using mon by (simp add: money_ok_def)
      ultimately show "money_ok (?F k) (entries_of i ?s1)"
        using off am fr st by (intro money_ok_offer [OF mon]) (auto simp: decided_def early_def nil)
      show "line_ok (?F k) l" if "line_ok k l" for l
        using that fr off st by (auto simp: decided_def con_phase_defs)
    qed (use d(2) in \<open>auto simp: option.map_ident\<close>)
  next
    case fin
    have s': "s' = audit_k c i ''status_change'' (k_sourceBranchId k) (releaseUnits i ?s1)"
      using tx fin st k by (auto simp: decide_tx_def dest!: swap_Inr)
    show ?thesis unfolding s' con_inv_irrelevant
      by (rule con_inv_cancelled [OF inv k, of ?F "\<lambda>k. Suc (k_version k)"])
        (use fin st fr nd in \<open>auto simp: decided_def early_def fun_eq_iff\<close>)
  qed
qed

lemma con_inv_decide:
  assumes inv: "con_inv s" and act: "dc_action dto \<in> {accept, counter, dispute, reject, cancel}"
    and am: "\<And>a. dc_amount dto = Some a \<Longrightarrow> valid_amount a"
  shows "con_inv (snd (decide c i dto s))"
  unfolding decide_def
  by (rule respond_inv [of con_inv, OF inv])
    (use am in \<open>auto simp: con_mine_Inr transition_Inr require_def split: if_splits option.splits
        intro: con_inv_decide_tx [OF inv _ act]\<close>)

subsection \<open>Custody and return\<close>

lemma con_inv_custody_tx:
  assumes inv: "con_inv s" and k: "map_of (cs_consignments s) i = Some k"
    and act: "act \<in> {send_custody, confirm_custody}"
    and tr: "assertTransition act (k_status k) side lp = Inr st"
    and tx: "custody_tx c i act k st s = Inr s'"
  shows "con_inv s'"
proof -
  note d = con_invD [OF inv]
  note mon = d(7) [OF k]
  let ?f = "\<lambda>k. if act = send_custody
       then k\<lparr>k_status := st, k_custodySentAt := Some (c_now c), k_custodySentById := c_userId c\<rparr>
       else k\<lparr>k_status := st, k_custodyConfirmedAt := Some (c_now c), k_custodyConfirmedById := c_userId c\<rparr>"
  let ?F = "\<lambda>k. ?f (k\<lparr>k_version := Suc (k_version k)\<rparr>)"
  let ?s1 = "s\<lparr>cs_consignments := t_update i ?F (cs_consignments s)\<rparr>"
  from tr have st: "st = rule_to act" and fr: "k_status k \<in> set (rule_from act)"
    by (auto simp: assertTransition_ok)
  have nil: "entries_of i s = []" using money_ok_nil [OF mon] fr act by (auto simp: con_phase_defs)
  let ?h = "\<lambda>l. if act = confirm_custody \<and> n_status l = ln_proposed then l\<lparr>n_status := ln_in_custody\<rparr> else l"
  have s': "s' = audit_k c i ''status_change'' (k_sourceBranchId k)
      (if act = confirm_custody then set_lines_where i ln_proposed (\<lambda>l. l\<lparr>n_status := ln_in_custody\<rparr>) ?s1 else ?s1)"
    using tx k by (auto simp: custody_tx_def dest!: swap_Inr)
  show ?thesis unfolding s' con_inv_irrelevant
  proof (rule con_inv_row [OF inv k, of _ ?F ?h])
    show "money_ok (?F k) (entries_of i (if act = confirm_custody
        then set_lines_where i ln_proposed (\<lambda>l. l\<lparr>n_status := ln_in_custody\<rparr>) ?s1 else ?s1))"
      using mon st fr act nil by (auto simp: money_ok_def entries_of_def con_phase_defs)
    show "line_ok (?F k) (?h l)" if "line_ok k l" for l
      using that fr act st by (auto simp: con_phase_defs)
  qed (use d(2) in \<open>auto simp: map_of_set_lines_where active_def option.map_ident cong: if_cong intro: option.map_cong\<close>)
qed

lemma con_inv_custody: "con_inv s \<Longrightarrow> con_inv (snd (custody c i dto s))"
  unfolding custody_def
  by (rule respond_inv [of con_inv])
    (auto simp: con_mine_Inr transition_Inr Let_def split: if_splits intro: con_inv_custody_tx)

lemma con_inv_returnFlow_tx:
  assumes inv: "con_inv s" and k: "map_of (cs_consignments s) i = Some k"
    and tr: "assertTransition (return_action (rt_action dto)) (k_status k) side lp = Inr st"
    and tx: "returnFlow_tx c i dto k st s = Inr s'"
  shows "con_inv s'"
proof -
  note d = con_invD [OF inv]
  note mon = d(7) [OF k]
  let ?F = "\<lambda>k. k\<lparr>k_version := Suc (k_version k), k_status := st\<rparr>"
  let ?s1 = "s\<lparr>cs_consignments := t_update i ?F (cs_consignments s)\<rparr>"
  let ?act = "return_action (rt_action dto)"
  from tr have st: "st = rule_to ?act" and fr: "k_status k \<in> set (rule_from ?act)"
    by (auto simp: assertTransition_ok)
  have nil: "entries_of i s = []"
    using money_ok_nil [OF mon] fr by (cases "rt_action dto") (auto simp: con_phase_defs)
  have mon': "money_ok (?F k) []"
    using mon nil st fr by (cases "rt_action dto") (auto simp: money_ok_def con_phase_defs)
  show ?thesis
  proof (cases "?act = confirm_return")
    case True
    let ?P = "\<lambda>x. case x of (_, l) \<Rightarrow> n_status l = ln_in_custody"
    have s': "s' = audit_k c i ''status_change'' (k_sourceBranchId k) (fold (return_line c dto) (filter ?P (lines_of i s)) ?s1)"
      using tx True k by (auto simp: returnFlow_tx_def lines_of_def dest!: swap_Inr)
    show ?thesis unfolding s' con_inv_irrelevant end_line_eqs
    proof (rule con_inv_end_lines [OF inv k refl, where led = "cs_ledger s" and F = ?F])
      show "money_ok (?F k) (filter (\<lambda>(_, e). e_consignmentId e = i) (cs_ledger s))"
        using mon' nil by (simp add: entries_of_def)
      show "line_ok (?F k) l"
        if "map_of (cs_lines s) x = Some l" "n_consignmentId l = i" "(x, l) \<notin> set (filter ?P (lines_of i s))" "line_ok k l" for x l
        using that fr True d(2) by (auto simp: lines_of_def t_wf_map_of_eq con_phase_defs)
    qed (use True st in \<open>auto simp: con_phase_defs fold_end_line_row\<close>)
  next
    case False
    have s': "s' = audit_k c i ''status_change'' (k_sourceBranchId k) ?s1"
      using tx False k by (auto simp: returnFlow_tx_def dest!: swap_Inr)
    show ?thesis unfolding s' con_inv_irrelevant
    proof (rule con_inv_row [OF inv k, of _ ?F "\<lambda>l. l"])
      show "money_ok (?F k) (entries_of i ?s1)" using mon' nil by (simp add: entries_of_def)
      show "line_ok (?F k) l" if "line_ok k l" for l
        using that fr False st by (cases "rt_action dto") (auto simp: con_phase_defs)
    qed (use d(2) in \<open>auto simp: option.map_ident\<close>)
  qed
qed

lemma con_inv_returnFlow: "con_inv s \<Longrightarrow> con_inv (snd (returnFlow c i dto s))"
  unfolding returnFlow_def
  by (rule respond_inv [of con_inv])
    (auto simp: con_mine_Inr transition_Inr require_def split: if_splits intro: con_inv_returnFlow_tx)

subsection \<open>Disposition\<close>

lemma sold_lines_filter: "\<exists>P. sold_lines i ids s = filter P (lines_of i s)"
  unfolding sold_lines_def Let_def by (auto split: option.splits simp: filter_filter)

lemma sold_lines_in_custody: "(x, l) \<in> set (sold_lines i ids s) \<Longrightarrow> n_status l = ln_in_custody"
  by (auto simp: sold_lines_def Let_def split: option.splits if_splits)

lemma sold_lines_mem:
  assumes "t_wf (cs_lines s)" and "(x, l) \<in> set (sold_lines i ids s)"
  shows "map_of (cs_lines s) x = Some l \<and> n_consignmentId l = i"
  using assms by (auto simp: sold_lines_def lines_of_def Let_def t_wf_map_of_eq split: option.splits if_splits)

text \<open>Every line carries the agreed amount of the whole consignment.\<close>

lemma raised_by_eq:
  assumes inv: "con_inv s" and k: "map_of (cs_consignments s) i = Some k" and a: "k_agreedAmount k = Some a"
  shows "raised_by (sold_lines i ids s) = of_nat (length (sold_lines i ids s)) * a"
proof -
  have "n_agreedAmount (snd x) = Some a" if "x \<in> set (sold_lines i ids s)" for x
    using sold_lines_mem [OF con_invD(2) [OF inv], of "fst x" "snd x"] con_line_okD [OF inv k] that a
    by (auto simp: line_ok_def)
  then have "(\<Sum>x\<leftarrow>sold_lines i ids s. case n_agreedAmount (snd x) of None \<Rightarrow> 0 | Some b \<Rightarrow> b)
      = (\<Sum>x\<leftarrow>sold_lines i ids s. a)" by (intro arg_cong [where f = sum_list] map_cong) auto
  then show ?thesis unfolding raised_by_def by (simp only: sum_list_triv)
qed

lemma valid_amount_times: "valid_amount a \<Longrightarrow> 0 < n \<Longrightarrow> valid_amount (of_nat n * a)"
  using is_cents_sum_list [of "replicate n a" "\<lambda>x. x"]
  by (simp add: valid_amount_def sum_list_replicate)

lemma con_inv_reportSold_tx:
  assumes inv: "con_inv s" and k: "map_of (cs_consignments s) i = Some k"
    and fresh: "map_of (cs_ledger s) n = None"
    and tr: "assertTransition report_sold (k_status k) side lp = Inr st"
    and ls: "ls = sold_lines i ids s" "ls \<noteq> []"
    and tx: "reportSold_tx c n i k st ls s = Inr s'"
  shows "con_inv s'"
proof -
  note d = con_invD [OF inv]
  note mon = d(7) [OF k]
  let ?F = "\<lambda>k. k\<lparr>k_version := Suc (k_version k), k_status := st\<rparr>"
  let ?s1 = "s\<lparr>cs_consignments := t_update i ?F (cs_consignments s)\<rparr>"
  let ?e = "new_entry c i k receivable_raised (raised_by ls)"
  from tr have st: "st = sold_awaiting_settlement" and fr: "k_status k = in_custody"
    by (auto simp: assertTransition_ok)
  have nil: "entries_of i s = []" using money_ok_nil [OF mon] fr by (simp add: sold_phase_def)
  from mon fr obtain a where a: "k_agreedAmount k = Some a" "valid_amount a"
    by (cases "k_agreedAmount k") (auto simp: money_ok_def early_def)
  have val: "valid_amount (raised_by ls)"
    using raised_by_eq [OF inv k a(1)] valid_amount_times [OF a(2)] ls by auto
  have s': "s' = add_entry n ?e (fold (sell_line c) ls ?s1)"
    using tx k by (auto simp: reportSold_tx_def dest!: swap_Inr)
  obtain P where P: "ls = filter P (lines_of i s)" using sold_lines_filter ls(1) by blast
  have act: "active l" if "(x, l) \<in> set ls" for x l
    using that sold_lines_in_custody by (auto simp: ls(1) active_def)
  have ent: "filter (\<lambda>(_, e). e_consignmentId e = i) (t_insert n ?e (cs_ledger s)) = [(n, ?e)]"
    using nil by (simp add: entries_of_def t_insert_def new_entry_def)
  have owe: "owed [(n, ?e)] = raised_by ls"
    using owed_snoc [of "[]" ?e n] val by (simp add: new_entry_def valid_amount_def)
  show ?thesis unfolding s' end_line_eqs
  proof (rule con_inv_end_lines [OF inv k P, where led = "t_insert n ?e (cs_ledger s)" and F = ?F])
    show "money_ok (?F k) (filter (\<lambda>(_, e). e_consignmentId e = i) (t_insert n ?e (cs_ledger s)))"
      unfolding ent using mon st fr val owe
      by (auto simp: money_ok_def con_phase_defs entries_ok_def raised_def new_entry_def valid_amount_def)
    show "line_ok (?F k) l"
      if "map_of (cs_lines s) x = Some l" "n_consignmentId l = i" "(x, l) \<notin> set ls" "line_ok k l" for x l
      using that fr st by (auto simp: line_ok_def)
    show "t_insert n ?e (cs_ledger s) = cs_ledger s \<or> (\<exists>m e. map_of (cs_ledger s) m = None \<and>
        e_consignmentId e = i \<and> t_insert n ?e (cs_ledger s) = t_insert m e (cs_ledger s))"
      using fresh by (intro disjI2 exI [of _ n] exI [of _ ?e]) (simp add: new_entry_def)
  qed (use st act in \<open>auto simp: con_phase_defs fold_end_line_row add_entry_def\<close>)
qed

lemma con_inv_reportSold:
  assumes "con_inv s" and "map_of (cs_ledger s) n = None"
  shows "con_inv (snd (reportSold c n i ids s))"
  unfolding reportSold_def
  by (rule respond_inv [of con_inv, OF assms(1)])
    (auto simp: con_mine_Inr transition_Inr require_def Let_def split: if_splits
      intro: con_inv_reportSold_tx [OF assms(1) _ assms(2) _ refl])

subsection \<open>Money\<close>

lemma owed_pos_sold: "money_ok k es \<Longrightarrow> 0 < owed es \<Longrightarrow> k_status k \<in> {sold_awaiting_settlement, partially_paid}"
  by (auto simp: money_ok_def sold_phase_def split: if_splits)

text \<open>An entry other than the receivable, within what is owed, then the settlement check.\<close>

definition moved :: "ctx \<Rightarrow> ConsignmentStatus \<Rightarrow> number \<Rightarrow> consignment \<Rightarrow> consignment" where
  "moved c as left k =
     (if left > 0 then (if k_status k = sold_awaiting_settlement then k\<lparr>k_status := partially_paid\<rparr> else k)
      else k\<lparr>k_status := as, k_settledAt := Some (c_now c)\<rparr>)"

lemma settleIfClear_row:
  assumes "map_of (cs_consignments s) i = Some k" and "k_status k \<in> {sold_awaiting_settlement, partially_paid}"
    and "t_wf (cs_consignments s)"
  shows "settleIfClear c i as s =
    s\<lparr>cs_consignments := t_update i (moved c as (owed (entries_of i s))) (cs_consignments s)\<rparr>"
proof -
  let ?m = "moved c as (owed (entries_of i s))"
  have up: "t_update i f (cs_consignments s) = t_update i ?m (cs_consignments s)" if "f k = ?m k" for f
    using that assms by (intro t_update_cong_row) simp_all
  have same: "cs_consignments s = t_update i ?m (cs_consignments s)" if "?m k = k"
    using up [of "\<lambda>k. k"] that by (simp add: t_update_def case_prod_unfold)
  show ?thesis
  proof (cases "0 < owed (entries_of i s) \<and> k_status k = partially_paid")
    case True
    with assms(1) same show ?thesis
      by (simp add: settleIfClear_def set_status_where_def t_update_where_def moved_def)
  next
    case False
    with assms(1,2) show ?thesis
      by (auto simp: settleIfClear_def set_status_where_def t_update_where_def
          intro!: arg_cong [where f = "\<lambda>x. s\<lparr>cs_consignments := x\<rparr>"] up) (auto simp: moved_def)
  qed
qed

lemma money_ok_moved:
  assumes mon: "money_ok k es" and st: "k_status k \<in> {sold_awaiting_settlement, partially_paid}"
    and e: "e_kind e \<in> {payment_confirmed, forgiven}" "valid_amount (e_amount e)" "e_amount e \<le> owed es"
    and as: "as \<in> {settled, forgiven_settled}"
  shows "money_ok (moved c as (owed (es @ [(n, e)])) k) (es @ [(n, e)])"
proof -
  from st have ph: "k_status k \<in> sold_phase" "k_status k \<notin> {settled, forgiven_settled}" by (auto simp: sold_phase_def)
  from mon ph obtain p where es: "entries_ok es" "raised es = [p]" by (auto simp: money_ok_def)
  have left: "owed (es @ [(n, e)]) = owed es - e_amount e"
    using owed_snoc [OF es(1), of e n] e by (auto simp: valid_amount_def)
  have new: "entries_ok (es @ [(n, e)])" "raised (es @ [(n, e)]) = [p]" using es e by auto
  define k' where "k' = moved c as (owed (es @ [(n, e)])) k"
  have "k_proposedAmount k' = k_proposedAmount k" "k_counterAmount k' = k_counterAmount k"
    "k_agreedAmount k' = k_agreedAmount k" by (simp_all add: k'_def moved_def)
  moreover have "k_status k' \<in> sold_phase" "k_status k' \<in> {settled, forgiven_settled} \<longleftrightarrow> \<not> 0 < owed (es @ [(n, e)])"
    using st as by (auto simp: k'_def moved_def sold_phase_def)
  moreover have "\<And>x. x \<in> sold_phase \<Longrightarrow> x \<noteq> draft \<and> x \<notin> early \<and> x \<noteq> cancelled"
    by (auto simp: sold_phase_def early_def)
  ultimately show ?thesis
    unfolding k'_def [symmetric] using mon ph new left e(3) by (auto simp: money_ok_def)
qed

lemma con_inv_add_entry:
  assumes inv: "con_inv s" and k: "map_of (cs_consignments s) i = Some k"
    and fresh: "map_of (cs_ledger s) n = None" and e: "e_consignmentId e = i"
    and s': "cs_consignments s' = t_update i F (cs_consignments s)" "cs_ledger s' = t_insert n e (cs_ledger s)"
      "cs_lines s' = cs_lines s" "cs_units s' = cs_units s"
    and F: "\<And>l. line_ok k l \<Longrightarrow> line_ok (F k) l"
    and mon: "money_ok (F k) (entries_of i s @ [(n, e)])"
  shows "con_inv s'"
proof (rule con_inv_row [OF inv k s'(1,4), of "\<lambda>l. l"])
  show "money_ok (F k) (entries_of i s')" using mon e s' by (simp add: entries_of_def t_insert_def)
  show "cs_ledger s' = cs_ledger s \<or>
      (\<exists>n e. map_of (cs_ledger s) n = None \<and> e_consignmentId e = i \<and> cs_ledger s' = t_insert n e (cs_ledger s))"
    using fresh e s' by blast
qed (use F s' con_invD(2) [OF inv] in \<open>simp_all add: option.map_ident\<close>)

lemma con_inv_settle:
  assumes inv: "con_inv s" and k: "map_of (cs_consignments s) i = Some k"
    and fresh: "map_of (cs_ledger s) n = None"
    and e: "e_consignmentId e = i" "e_kind e \<in> {payment_confirmed, forgiven}" "valid_amount (e_amount e)"
      "e_amount e \<le> owed (entries_of i s)"
    and as: "as \<in> {settled, forgiven_settled}"
    and s1: "cs_consignments s1 = cs_consignments s" "cs_ledger s1 = t_insert n e (cs_ledger s)"
      "cs_lines s1 = cs_lines s" "cs_units s1 = cs_units s"
  shows "con_inv (settleIfClear c i as s1)"
proof -
  note d = con_invD [OF inv]
  note mon = d(7) [OF k]
  have pos: "0 < owed (entries_of i s)" using e by (auto simp: valid_amount_def)
  note st = owed_pos_sold [OF mon pos]
  have ent: "entries_of i s1 = entries_of i s @ [(n, e)]"
    using e s1 by (simp add: entries_of_def t_insert_def)
  let ?F = "moved c as (owed (entries_of i s1))"
  have row: "settleIfClear c i as s1 = s1\<lparr>cs_consignments := t_update i ?F (cs_consignments s1)\<rparr>"
    using settleIfClear_row [of s1 i k] k st d(1) s1 by simp
  show ?thesis unfolding row
  proof (rule con_inv_add_entry [OF inv k fresh e(1), where F = ?F])
    show "money_ok (?F k) (entries_of i s @ [(n, e)])"
      unfolding ent by (rule money_ok_moved [OF mon st e(2-4) as])
    show "line_ok (?F k) l" if "line_ok k l" for l
      using that st as by (auto simp: moved_def line_ok_def)
  qed (simp_all add: s1)
qed

lemma con_inv_payment_confirm:
  assumes inv: "con_inv s" and k: "map_of (cs_consignments s) i = Some k"
    and fresh: "map_of (cs_ledger s) n = None"
    and r: "payment_confirm c n i dto k (outstanding (ledgerRows i s)) s = Inr s'"
  shows "con_inv s'"
proof -
  from r obtain x rep where rep: "find_entry x i payment_reported s = Some rep"
    "assertPaymentAllowed (e_amount rep) (case e_method rep of None \<Rightarrow> cash | Some m \<Rightarrow> m) (e_receivingAccountId rep)
       (owed (entries_of i s)) = Inr ()"
    "s' = settleIfClear c i settled (add_entry n ((new_entry c i k payment_confirmed (e_amount rep))
         \<lparr>e_method := e_method rep, e_receivingAccountId := e_receivingAccountId rep,
          e_accountLabelSnapshot := e_accountLabelSnapshot rep, e_reference := e_reference rep,
          e_refersToId := Some x\<rparr>) s)"
    by (auto simp: payment_confirm_def allowed_def split: option.splits if_splits sum.splits)
  note d = con_invD [OF inv]
  have mem: "(x, rep) \<in> set (entries_of i s)"
    using rep(1) d(3) by (auto simp: find_entry_def entries_of_def t_wf_map_of_eq split: option.splits if_splits)
  then have val: "valid_amount (e_amount rep)"
    using d(7) [OF k] by (auto simp: money_ok_def entries_ok_def split: if_splits)
  then have "e_amount rep \<le> owed (entries_of i s)"
    using rep(2) by (auto simp: con_payment_ok valid_amount_def owed_def)
  with val show ?thesis unfolding rep(3)
    by (intro con_inv_settle [OF inv k fresh]) (auto simp: new_entry_def add_entry_def)
qed

lemma con_inv_payment_report:
  assumes inv: "con_inv s" and k: "map_of (cs_consignments s) i = Some k"
    and fresh: "map_of (cs_ledger s) n = None"
    and am: "\<And>a. cp_amount dto = Some a \<Longrightarrow> valid_amount a"
    and r: "payment_report sha256 c n i dto k (outstanding (ledgerRows i s)) s = Inr s'"
  shows "con_inv s'"
proof (cases "s' = s")
  case True with inv show ?thesis by simp
next
  case False
  note mon = con_invD(7) [OF inv k]
  define e where "e = report_entry sha256 c i dto k s"
  from r False obtain a where e: "cp_amount dto = Some a" "e_consignmentId e = i" "e_kind e = payment_reported"
    "e_amount e = a" "0 < a" "round2 a \<le> round2 (owed (entries_of i s))"
    "s' = audit_k c i ''update'' (k_sourceBranchId k) (add_entry n e s)"
    by (auto simp: payment_report_def Let_def allowed_def con_payment_ok e_def report_entry_def new_entry_def
        split: option.splits if_splits sum.splits prod.splits)
  from e am have val: "valid_amount a" by blast
  with e(6) have "a \<le> owed (entries_of i s)" by (simp add: valid_amount_def owed_def)
  with val have pos: "0 < owed (entries_of i s)" by (simp add: valid_amount_def)
  note st = owed_pos_sold [OF mon pos]
  then have es: "entries_ok (entries_of i s)" using mon by (auto simp: money_ok_def sold_phase_def)
  show ?thesis unfolding e(7) con_inv_irrelevant
  proof (rule con_inv_add_entry [OF inv k fresh e(2), where F = "\<lambda>k. k"])
    show "money_ok k (entries_of i s @ [(n, e)])"
      using mon st owed_snoc [OF es, of e n] val e by (auto simp: money_ok_def sold_phase_def valid_amount_def)
  qed (simp_all add: add_entry_def t_update_def case_prod_unfold)
qed

lemma con_inv_payment:
  assumes "con_inv s" and "map_of (cs_ledger s) n = None" and "\<And>a. cp_amount dto = Some a \<Longrightarrow> valid_amount a"
  shows "con_inv (snd (payment sha256 c n i dto s))"
  unfolding payment_def
  by (cases "cp_action dto"; rule respond_inv [of con_inv, OF assms(1)];
      use assms in \<open>auto simp: con_mine_Inr Let_def simp del: outstanding_ledgerRows
        intro: con_inv_payment_confirm con_inv_payment_report\<close>)

lemma con_inv_forgive:
  assumes inv: "con_inv s" and fresh: "map_of (cs_ledger s) n = None" and am: "valid_amount (fg_amount dto)"
  shows "con_inv (snd (forgive c n i dto s))"
  unfolding forgive_def
proof (rule respond_inv [of con_inv, OF inv], goal_cases)
  case (1 s')
  then obtain k where k: "map_of (cs_consignments s) i = Some k"
    "fg_amount dto \<le> owed (entries_of i s)"
    "s' = settleIfClear c i forgiven_settled (audit_k c i ''override'' (k_sourceBranchId k)
       (add_entry n ((new_entry c i k forgiven (fg_amount dto))\<lparr>e_reason := map_option js_trim (fg_reason dto)\<rparr>) s))"
    using am by (auto simp: con_mine_Inr allowed_def con_forgive_ok Let_def valid_amount_def owed_def split: sum.splits)
  with am show ?case unfolding k(3)
    by (intro con_inv_settle [OF inv k(1) fresh]) (auto simp: new_entry_def add_entry_def audit_k_def)
qed

subsection \<open>Proposing\<close>

text \<open>A line that is added together with the unit it claims.\<close>

lemma con_inv_claim:
  assumes inv: "con_inv s" and k: "map_of (cs_consignments s) i = Some k" "k_status k = requested"
      "k_sourceCompanyId k = c_companyId c" "k_agreedAmount k = None"
    and x: "map_of (cs_lines s) x = None"
    and u: "map_of (cs_units s) u = Some r" "u_companyId r = c_companyId c" "u_status r = in_stock"
  shows "con_inv (s\<lparr>cs_units := t_update u (\<lambda>r. r\<lparr>u_status := consigned_out\<rparr>) (cs_units s),
                    cs_lines := t_insert x (new_line c i dto u r p) (cs_lines s)\<rparr>)"
    (is "con_inv ?s'")
proof -
  note d = con_invD [OF inv]
  note ud = con_units_okD [OF d(8)]
  have act: "active (new_line c i dto u r p)" and lf: "n_unitId (new_line c i dto u r p) = u"
    "n_sourceCompanyId (new_line c i dto u r p) = c_companyId c" "n_consignmentId (new_line c i dto u r p) = i"
    by (simp_all add: new_line_def active_def)
  have other: "n_unitId l \<noteq> u" if "map_of (cs_lines s) y = Some l" "active l" for y l
    using ud(1) [OF that] u by auto
  have "units_ok ?s'"
  proof (rule con_units_okI)
    show "\<exists>r. map_of (cs_units ?s') (n_unitId l) = Some r \<and> u_status r = consigned_out \<and> u_companyId r = n_sourceCompanyId l"
      if "map_of (cs_lines ?s') y = Some l" "active l" for y l
      using that ud(1) [of y l] other [of y l] u lf by (auto simp: x split: if_splits)
    show "y = y'" if "map_of (cs_lines ?s') y = Some l" "active l" "map_of (cs_lines ?s') y' = Some l'" "active l'"
      "n_unitId l = n_unitId l'" for y l y' l'
      using that other ud(2) lf by (auto simp: x split: if_splits)
    show "\<exists>y l. map_of (cs_lines ?s') y = Some l \<and> active l \<and> n_unitId l = v"
      if "map_of (cs_units ?s') v = Some r'" "u_status r' = consigned_out" for v r'
    proof (cases "v = u")
      case True
      with act lf show ?thesis by (intro exI [of _ x]) (simp add: x)
    next
      case False
      with that ud(3) [of v r'] obtain y l where "map_of (cs_lines s) y = Some l" "active l" "n_unitId l = v" by auto
      with x show ?thesis by (intro exI [of _ y]) auto
    qed
  qed
  moreover have "line_ok k (new_line c i dto u r p)" using k by (simp add: line_ok_def new_line_def)
  ultimately show ?thesis
    using d x k lf by (auto simp: con_inv_def entries_of_def)
qed

text \<open>One round of the loop over the phones.\<close>

definition claimed :: "ctx \<Rightarrow> id \<Rightarrow> CreateConsignmentDto \<Rightarrow> id \<Rightarrow> id \<Rightarrow> unit_row \<Rightarrow> product \<Rightarrow> consignment_state \<Rightarrow> consignment_state" where
  "claimed c i dto x u r p s =
     s\<lparr>cs_units := t_update u (\<lambda>r. r\<lparr>u_status := consigned_out\<rparr>) (cs_units s),
       cs_lines := t_insert x (new_line c i dto u r p) (cs_lines s)\<rparr>"

lemma claim_phones_Cons:
  "claim_phones c b i dto ids j (u # us) s = Inr s' \<longleftrightarrow>
     (\<exists>r p. map_of (cs_units s) u = Some r \<and> u_companyId r = c_companyId c \<and> u_branchId r = b \<and>
            u_status r = in_stock \<and> map_of (cs_products s) (u_productId r) = Some p \<and>
            claim_phones c b i dto ids (Suc j) us (claimed c i dto (ids j) u r p s) = Inr s')"
  by (auto simp: t_update_where_def claimed_def split: option.splits if_splits)

lemma claimed_fields [simp]:
  "cs_consignments (claimed c i dto x u r p s) = cs_consignments s" "cs_ledger (claimed c i dto x u r p s) = cs_ledger s"
  "cs_lines (claimed c i dto x u r p s) = t_insert x (new_line c i dto u r p) (cs_lines s)"
  "cs_units (claimed c i dto x u r p s) = t_update u (\<lambda>r. r\<lparr>u_status := consigned_out\<rparr>) (cs_units s)"
  by (simp_all add: claimed_def)

lemma con_inv_claim_phones:
  assumes "con_inv s" and "map_of (cs_consignments s) i = Some k" and k: "k_status k = requested"
      "k_sourceCompanyId k = c_companyId c" "k_agreedAmount k = None"
    and ids: "inj ids" and "\<And>m. j \<le> m \<Longrightarrow> map_of (cs_lines s) (ids m) = None"
    and "claim_phones c branch i dto ids j us s = Inr s'"
  shows "con_inv s'"
  using assms(1,2,7,8)
proof (induction us arbitrary: j s)
  case (Cons u us)
  from Cons.prems(4) obtain r p where r: "map_of (cs_units s) u = Some r" "u_companyId r = c_companyId c"
      "u_status r = in_stock"
    and rest: "claim_phones c branch i dto ids (Suc j) us (claimed c i dto (ids j) u r p s) = Inr s'"
    unfolding claim_phones_Cons by blast
  show ?case
  proof (rule Cons.IH [OF _ _ _ rest])
    show "con_inv (claimed c i dto (ids j) u r p s)"
      using con_inv_claim [OF Cons.prems(1,2) k Cons.prems(3) [of j] r] by (simp add: claimed_def)
    show "map_of (cs_lines (claimed c i dto (ids j) u r p s)) (ids m) = None" if "Suc j \<le> m" for m
      using Cons.prems(3) [of j] Cons.prems(3) [of m] that injD [OF ids, of m j] by auto
  qed (use Cons.prems(2) in simp)
qed simp

lemma con_inv_new_row:
  assumes inv: "con_inv s" and fresh: "map_of (cs_consignments s) n = None" and am: "valid_amount (cc_proposedAmount dto)"
  shows "con_inv (s\<lparr>cs_consignments := t_insert n (new_consignment c branch dto cp) (cs_consignments s)\<rparr>)"
proof -
  note d = con_invD [OF inv]
  have nil: "entries_of n s = []" using d(6) fresh by (fastforce simp: entries_of_def filter_empty_conv)
  have mon: "money_ok (new_consignment c branch dto cp) []"
    using am by (simp add: money_ok_def new_consignment_def early_def sold_phase_def)
  show ?thesis
    unfolding con_inv_def
  proof (intro conjI allI impI)
    show "\<exists>k. map_of (cs_consignments (s\<lparr>cs_consignments := t_insert n (new_consignment c branch dto cp) (cs_consignments s)\<rparr>))
              (n_consignmentId l) = Some k \<and> line_ok k l"
      if "map_of (cs_lines (s\<lparr>cs_consignments := t_insert n (new_consignment c branch dto cp) (cs_consignments s)\<rparr>)) x = Some l" for x l
      using d(5) [of x l] that fresh by auto
  qed (use d fresh mon nil in \<open>auto simp: entries_of_def units_ok_def split: if_splits\<close>)
qed

lemma create_cases:
  obtains (same) "snd (create c n ids dto s) = s"
  | (made) b cp s1 ns where "create_tx c b n ids dto cp s = Inr s1" "c_branchId c = Some b"
      "snd (create c n ids dto s) = s1\<lparr>cs_notifications := ns\<rparr>"
proof -
  have "snd (create c n ids dto s) = s \<or>
      (\<exists>b cp s1 ns. create_tx c b n ids dto cp s = Inr s1 \<and> c_branchId c = Some b \<and>
         snd (create c n ids dto s) = s1\<lparr>cs_notifications := ns\<rparr>)"
  proof -
    have id: "s1 = s1\<lparr>cs_notifications := cs_notifications s1\<rparr>" for s1 :: consignment_state by simp
    show ?thesis
      unfolding create_def
      by (auto simp: respond_snd split: option.splits sum.splits if_splits) (metis id)+
  qed
  with that show thesis by blast
qed

lemma con_inv_create:
  assumes inv: "con_inv s" and fresh: "map_of (cs_consignments s) n = None" "inj ids" "\<And>m. map_of (cs_lines s) (ids m) = None"
    and am: "valid_amount (cc_proposedAmount dto)"
  shows "con_inv (snd (create c n ids dto s))"
proof -
  have keep: "con_inv s'" if tx: "create_tx c b n ids dto cp s = Inr s'" for b cp s'
  proof -
    let ?s0 = "s\<lparr>cs_consignments := t_insert n (new_consignment c b dto cp) (cs_consignments s)\<rparr>"
    from tx obtain s1 where s1: "claim_phones c b n dto ids 0 (cc_unitIds dto) ?s0 = Inr s1"
      "s' = audit_k c n ''create'' b s1" by (auto simp: create_tx_def)
    have "con_inv s1"
      by (rule con_inv_claim_phones [OF con_inv_new_row [OF inv fresh(1) am] _ _ _ _ fresh(2) _ s1(1)])
        (use fresh in \<open>auto simp: new_consignment_def\<close>)
    then show ?thesis by (simp add: s1(2))
  qed
  show ?thesis
    by (cases rule: create_cases [of c n ids dto s]) (auto simp: inv intro: keep)
qed

section \<open>The service as a transition system\<close>

text \<open>
  A step is one call with a valid request, or a change made by the rest of the program: the
  other services may create and move units, but a unit that is out on consignment is theirs
  neither to touch nor to make (no other transition of the code leads from or to that status).
\<close>

definition con_env :: "consignment_state \<Rightarrow> consignment_state \<Rightarrow> bool" where
  "con_env s s' \<longleftrightarrow>
     cs_consignments s' = cs_consignments s \<and> cs_lines s' = cs_lines s \<and> cs_ledger s' = cs_ledger s \<and>
     t_wf (cs_units s') \<and>
     (\<forall>u r. map_of (cs_units s') u = Some r \<and> u_status r = consigned_out \<longleftrightarrow>
            map_of (cs_units s) u = Some r \<and> u_status r = consigned_out)"

inductive con_call :: "consignment_state \<Rightarrow> consignment_state \<Rightarrow> bool" where
  step_create: "map_of (cs_consignments s) n = None \<Longrightarrow> inj ids \<Longrightarrow> (\<And>m. map_of (cs_lines s) (ids m) = None) \<Longrightarrow>
     valid_amount (cc_proposedAmount dto) \<Longrightarrow> con_call s (snd (create c n ids dto s))"
| step_decide: "dc_action dto \<in> {accept, counter, dispute, reject, cancel} \<Longrightarrow>
     (\<And>a. dc_amount dto = Some a \<Longrightarrow> valid_amount a) \<Longrightarrow> con_call s (snd (decide c i dto s))"
| step_custody: "con_call s (snd (custody c i dto s))"
| step_reportSold: "map_of (cs_ledger s) n = None \<Longrightarrow> con_call s (snd (reportSold c n i ids s))"
| step_payment: "map_of (cs_ledger s) n = None \<Longrightarrow> (\<And>a. cp_amount dto = Some a \<Longrightarrow> valid_amount a) \<Longrightarrow>
     con_call s (snd (payment sha256 c n i dto s))"
| step_forgive: "map_of (cs_ledger s) n = None \<Longrightarrow> valid_amount (fg_amount dto) \<Longrightarrow>
     con_call s (snd (forgive c n i dto s))"
| step_return: "con_call s (snd (returnFlow c i dto s))"

inductive con_step :: "consignment_state \<Rightarrow> consignment_state \<Rightarrow> bool" where
  by_call: "con_call s s' \<Longrightarrow> con_step s s'"
| by_env: "con_env s s' \<Longrightarrow> con_step s s'"

definition con_init :: "consignment_state \<Rightarrow> bool" where
  "con_init s \<longleftrightarrow> cs_consignments s = [] \<and> cs_lines s = [] \<and> cs_ledger s = [] \<and> t_wf (cs_units s) \<and>
     (\<forall>u r. map_of (cs_units s) u = Some r \<longrightarrow> u_status r \<noteq> consigned_out)"

lemma con_inv_env: "con_inv s \<Longrightarrow> con_env s s' \<Longrightarrow> con_inv s'"
proof -
  assume inv: "con_inv s" and env: "con_env s s'"
  note d = con_invD [OF inv]
  from env have eq: "cs_consignments s' = cs_consignments s" "cs_lines s' = cs_lines s" "cs_ledger s' = cs_ledger s"
    "t_wf (cs_units s')" and un: "\<And>u r. map_of (cs_units s') u = Some r \<and> u_status r = consigned_out \<longleftrightarrow>
      map_of (cs_units s) u = Some r \<and> u_status r = consigned_out"
    unfolding con_env_def by blast+
  have "units_ok s'"
  proof (rule con_units_okI)
    show "\<exists>r. map_of (cs_units s') (n_unitId l) = Some r \<and> u_status r = consigned_out \<and> u_companyId r = n_sourceCompanyId l"
      if "map_of (cs_lines s') x = Some l" "active l" for x l
      using con_units_okD(1) [OF d(8), of x l] that un [of "n_unitId l"] by (auto simp: eq)
    show "x = x'" if "map_of (cs_lines s') x = Some l" "active l" "map_of (cs_lines s') x' = Some l'" "active l'"
      "n_unitId l = n_unitId l'" for x l x' l'
      using con_units_okD(2) [OF d(8)] that by (simp add: eq)
    show "\<exists>x l. map_of (cs_lines s') x = Some l \<and> active l \<and> n_unitId l = u"
      if "map_of (cs_units s') u = Some r" "u_status r = consigned_out" for u r
      using con_units_okD(3) [OF d(8), of u r] that un [of u r] by (simp add: eq)
  qed
  with d show ?thesis by (simp add: con_inv_def entries_of_def eq)
qed

lemma con_inv_call: "con_call s t \<Longrightarrow> con_inv s \<Longrightarrow> con_inv t"
  by (cases rule: con_call.cases)
    (auto intro: con_inv_create con_inv_decide con_inv_custody con_inv_reportSold con_inv_payment
      con_inv_forgive con_inv_returnFlow)

interpretation con_sys: invariant_system con_init con_step con_inv
proof
  show "con_inv s" if "con_init s" for s
    using that by (auto simp: con_init_def con_inv_def units_ok_def)
  show "con_inv t" if "con_inv s" "con_step s t" for s t
    using that(2,1) by cases (auto intro: con_inv_call con_inv_env)
qed

end
