(* ===== verification/ConsignmentEffects.thy ===== *)
theory ConsignmentEffects
  imports ConsignmentInvariant
begin

text \<open>
  What one step of the consignment service changes: a row moves along the lifecycle table with
  its parties and its agreed amount fixed; a unit keeps its owner, branch, identity and cost;
  a consignment other than the one addressed stays as it was.
\<close>

section \<open>Rows move along the table\<close>

definition row_moves :: "consignment \<Rightarrow> consignment \<Rightarrow> bool" where
  "row_moves k k' \<longleftrightarrow>
     k_sourceCompanyId k' = k_sourceCompanyId k \<and> k_destinationCompanyId k' = k_destinationCompanyId k \<and>
     (k_agreedAmount k \<noteq> None \<longrightarrow> k_agreedAmount k' = k_agreedAmount k) \<and>
     (k_status k' = k_status k \<or> (\<exists>act. k_status k \<in> set (rule_from act) \<and> k_status k' = rule_to act))"

definition rows_move :: "consignment_state \<Rightarrow> consignment_state \<Rightarrow> bool" where
  "rows_move s s' \<longleftrightarrow>
     (\<forall>i k. map_of (cs_consignments s) i = Some k \<longrightarrow>
        (\<exists>k'. map_of (cs_consignments s') i = Some k' \<and> row_moves k k'))"

lemma row_moves_refl [simp]: "row_moves k k"
  by (simp add: row_moves_def)

lemma rows_move_same: "cs_consignments s' = cs_consignments s \<Longrightarrow> rows_move s s'"
  by (simp add: rows_move_def)

lemma rows_move_update:
  assumes "map_of (cs_consignments s) i = Some k" and "cs_consignments s' = t_update i F (cs_consignments s)"
    and "row_moves k (F k)"
  shows "rows_move s s'"
  using assms by (auto simp: rows_move_def)

lemma row_movesI:
  "k_sourceCompanyId k' = k_sourceCompanyId k \<Longrightarrow> k_destinationCompanyId k' = k_destinationCompanyId k \<Longrightarrow>
   (k_agreedAmount k \<noteq> None \<Longrightarrow> k_agreedAmount k' = k_agreedAmount k) \<Longrightarrow>
   assertTransition act (k_status k) side lp = Inr (k_status k') \<Longrightarrow> row_moves k k'"
  by (auto simp: row_moves_def assertTransition_ok)

lemma respond_rows:
  assumes "\<And>s'. r = Inr s' \<Longrightarrow> rows_move s s'"
  shows "rows_move s (snd (respond c i r s))"
  by (rule respond_inv [of "rows_move s"]) (auto simp: rows_move_same assms)

lemma audit_k_rows [simp]: "cs_consignments (audit_k c i act b s) = cs_consignments s"
  by (simp add: audit_k_def)

lemma fold_lines_rows [simp]:
  "cs_consignments (fold (sell_line c) xs s) = cs_consignments s"
  "cs_consignments (fold (return_line c dto) xs s) = cs_consignments s"
  "cs_consignments (releaseUnits i s) = cs_consignments s"
  "cs_consignments (add_entry n e s) = cs_consignments s"
  by (simp_all add: end_line_eqs releaseUnits_def add_entry_def)

lemma claim_phones_rows: "claim_phones c b i dto ids j us s = Inr s' \<Longrightarrow> cs_consignments s' = cs_consignments s"
  by (induction us arbitrary: j s) (auto simp: claim_phones_Cons simp del: claim_phones.simps(2))

lemma create_rows:
  assumes fresh: "map_of (cs_consignments s) n = None"
  shows "rows_move s (snd (create c n ids dto s))"
proof -
  have "rows_move s (s1\<lparr>cs_notifications := ns\<rparr>)" if "create_tx c b n ids dto cp s = Inr s1" for b cp s1 ns
    using that fresh by (auto simp: create_tx_def rows_move_def dest!: claim_phones_rows)
  then show ?thesis
    by (cases rule: create_cases [of c n ids dto s]) (auto simp: rows_move_same)
qed

lemma decided_fields [simp]:
  "k_status (decided c dto st a k) = st"
  "k_sourceCompanyId (decided c dto st a k) = k_sourceCompanyId k"
  "k_destinationCompanyId (decided c dto st a k) = k_destinationCompanyId k"
  "k_agreedAmount (decided c dto st a k) = (if dc_action dto = accept then Some a else k_agreedAmount k)"
  by (simp_all add: decided_def Let_def split: Action.splits)

lemma decide_rows:
  assumes inv: "con_inv s"
  shows "rows_move s (snd (decide c i dto s))"
  unfolding decide_def
proof (rule respond_rows, goal_cases)
  case (1 s')
  then obtain k side st where k: "map_of (cs_consignments s) i = Some k"
    and tr: "assertTransition (dc_action dto) (k_status k) side (lastProposalBy k) = Inr st"
    and tx: "decide_tx c i dto k st (offer_on_table k) s = Inr s'"
    by (auto simp: con_mine_Inr transition_Inr)
  let ?F = "\<lambda>k'. decided c dto st (offer_on_table k) (k'\<lparr>k_version := Suc (k_version k')\<rparr>)"
  have none: "dc_action dto = accept \<Longrightarrow> k_agreedAmount k = None"
    using con_invD(7) [OF inv k] tr by (auto simp: money_ok_def assertTransition_ok early_def)
  show ?case
  proof (rule rows_move_update [OF k, of _ ?F])
    show "cs_consignments s' = t_update i ?F (cs_consignments s)"
      using tx k by (auto simp: decide_tx_def Let_def dest!: swap_Inr)
    show "row_moves k (?F k)"
      by (rule row_movesI [of _ _ "dc_action dto" side "lastProposalBy k"])
        (use tr none in auto)
  qed
qed

lemma custody_rows: "rows_move s (snd (custody c i dto s))"
  unfolding custody_def
proof (rule respond_rows, goal_cases)
  case (1 s')
  then obtain k side act st where k: "map_of (cs_consignments s) i = Some k"
    and tr: "assertTransition act (k_status k) side None = Inr st" and tx: "custody_tx c i act k st s = Inr s'"
    by (auto simp: con_mine_Inr transition_Inr Let_def)
  show ?case
    by (rule rows_move_update [OF k, of _ "\<lambda>k. if act = send_custody
          then k\<lparr>k_version := Suc (k_version k), k_status := st, k_custodySentAt := Some (c_now c), k_custodySentById := c_userId c\<rparr>
          else k\<lparr>k_version := Suc (k_version k), k_status := st, k_custodyConfirmedAt := Some (c_now c), k_custodyConfirmedById := c_userId c\<rparr>"])
      (use tx tr k in \<open>auto simp: custody_tx_def dest!: swap_Inr intro: row_movesI\<close>)
qed

lemma reportSold_rows: "rows_move s (snd (reportSold c n i ids s))"
  unfolding reportSold_def
proof (rule respond_rows, goal_cases)
  case (1 s')
  then obtain k side st where k: "map_of (cs_consignments s) i = Some k"
    and tr: "assertTransition report_sold (k_status k) side None = Inr st"
    and s': "cs_consignments s' = t_update i (\<lambda>k. k\<lparr>k_version := Suc (k_version k), k_status := st\<rparr>) (cs_consignments s)"
    by (auto simp: con_mine_Inr transition_Inr Let_def reportSold_tx_def dest!: swap_Inr)
  show ?case
    by (rule rows_move_update [OF k s']) (use tr in \<open>auto intro: row_movesI\<close>)
qed

lemma returnFlow_rows: "rows_move s (snd (returnFlow c i dto s))"
  unfolding returnFlow_def
proof (rule respond_rows, goal_cases)
  case (1 s')
  then obtain k side st where k: "map_of (cs_consignments s) i = Some k"
    and tr: "assertTransition (return_action (rt_action dto)) (k_status k) side None = Inr st"
    and s': "cs_consignments s' = t_update i (\<lambda>k. k\<lparr>k_version := Suc (k_version k), k_status := st\<rparr>) (cs_consignments s)"
    by (auto simp: con_mine_Inr transition_Inr Let_def returnFlow_tx_def dest!: swap_Inr)
  show ?case
    by (rule rows_move_update [OF k s']) (use tr in \<open>auto intro: row_movesI\<close>)
qed

lemma settleIfClear_rows:
  assumes "as \<in> {settled, forgiven_settled}" and "cs_consignments s1 = cs_consignments s"
  shows "rows_move s (settleIfClear c i as s1)"
proof (cases "map_of (cs_consignments s) i")
  case None
  with assms show ?thesis
    by (simp add: settleIfClear_def set_status_where_def t_update_where_def rows_move_def)
next
  case (Some k)
  have "row_moves k (k\<lparr>k_status := partially_paid\<rparr>)" if "k_status k = sold_awaiting_settlement"
    unfolding row_moves_def using that by (auto intro!: exI [of _ record_payment])
  moreover have "row_moves k (k\<lparr>k_status := as, k_settledAt := Some (c_now c)\<rparr>)"
    if "k_status k \<in> {sold_awaiting_settlement, partially_paid}"
    unfolding row_moves_def using that assms(1)
    by (intro conjI disjI2 exI [of _ "if as = settled then settle else forgive_action"]) auto
  ultimately show ?thesis
    using Some assms(2)
    by (auto simp: settleIfClear_def set_status_where_def t_update_where_def rows_move_def)
qed

text \<open>What a payment call can do: confirm a report, replay, or add a report.\<close>

lemma payment_confirm_Inr:
  assumes "payment_confirm c n i dto k ow s = Inr s'"
  shows "\<exists>e. s' = settleIfClear c i settled (add_entry n e s) \<and> e_kind e = payment_confirmed \<and>
             e_consignmentId e = i \<and> k_sourceCompanyId k = c_companyId c"
  using assms by (auto simp: payment_confirm_def new_entry_def split: option.splits if_splits)

lemma payment_report_Inr:
  assumes "payment_report sha256 c n i dto k ow s = Inr s'"
  shows "s' = s \<or> s' = audit_k c i ''update'' (k_sourceBranchId k) (add_entry n (report_entry sha256 c i dto k s) s)"
  using assms by (auto simp: payment_report_def Let_def split: option.splits if_splits)

lemma payment_rows: "rows_move s (snd (payment sha256 c n i dto s))"
  unfolding payment_def
  by (cases "cp_action dto"; rule respond_rows)
    (auto simp: Let_def intro!: settleIfClear_rows intro: rows_move_same
      dest!: payment_confirm_Inr payment_report_Inr)

lemma forgive_rows: "rows_move s (snd (forgive c n i dto s))"
  unfolding forgive_def
  by (rule respond_rows) (auto simp: Let_def intro!: settleIfClear_rows)

lemma con_step_rows: "con_inv s \<Longrightarrow> con_step s s' \<Longrightarrow> rows_move s s'"
  by (auto simp: con_step.simps con_call.simps con_env_def intro: create_rows decide_rows custody_rows reportSold_rows
      payment_rows forgive_rows returnFlow_rows rows_move_same)

section \<open>Goods stay where they belong\<close>

definition same_goods :: "unit_row \<Rightarrow> unit_row \<Rightarrow> bool" where
  "same_goods r r' \<longleftrightarrow>
     u_companyId r' = u_companyId r \<and> u_branchId r' = u_branchId r \<and> u_productId r' = u_productId r \<and>
     u_imeiPrimary r' = u_imeiPrimary r \<and> u_serialNo r' = u_serialNo r \<and> u_cost r' = u_cost r \<and>
     (u_status r' = u_status r \<or> canTransition (u_status r) (u_status r'))"

definition goods_stay :: "consignment_state \<Rightarrow> consignment_state \<Rightarrow> bool" where
  "goods_stay s s' \<longleftrightarrow>
     t_keys (cs_units s') = t_keys (cs_units s) \<and>
     (\<forall>u r. map_of (cs_units s) u = Some r \<longrightarrow> (\<exists>r'. map_of (cs_units s') u = Some r' \<and> same_goods r r'))"

lemma same_goods_refl [simp]: "same_goods r r"
  by (simp add: same_goods_def)

lemma goods_stay_same: "cs_units s' = cs_units s \<Longrightarrow> goods_stay s s'"
  by (simp add: goods_stay_def)

lemma respond_goods:
  assumes "\<And>s'. r = Inr s' \<Longrightarrow> goods_stay s s'"
  shows "goods_stay s (snd (respond c i r s))"
  by (rule respond_inv [of "goods_stay s"]) (auto simp: goods_stay_same assms)

lemma end_line_keys [simp]: "t_keys (cs_units (end_line g f x s)) = t_keys (cs_units s)"
  by (auto simp: end_line_def set_line_def set_unit_where_def t_update_where_def split: option.splits)

lemma goods_stay_end_lines:
  assumes f: "\<And>r. u_status (f r) \<noteq> consigned_out" "\<And>r. u_status r = consigned_out \<Longrightarrow> same_goods r (f r)"
  shows "goods_stay s (fold (end_line g f) xs s)"
proof -
  have "t_keys (cs_units (fold (end_line g f) xs s)) = t_keys (cs_units s) \<and>
      (\<forall>u r. map_of (cs_units s) u = Some r \<longrightarrow> (\<exists>r'. map_of (cs_units (fold (end_line g f) xs s)) u = Some r' \<and>
         (r' = r \<or> u_status r = consigned_out \<and> r' = f r)))"
  proof (induction xs arbitrary: s)
    case (Cons x xs)
    note IH = Cons.IH [of "end_line g f x s"]
    show ?case
    proof (intro conjI allI impI)
      fix u r assume r: "map_of (cs_units s) u = Some r"
      let ?r1 = "if u = n_unitId (snd x) \<and> u_status r = consigned_out then f r else r"
      have r1: "map_of (cs_units (end_line g f x s)) u = Some ?r1"
        using r by (auto simp: end_line_unit)
      with IH obtain r2 where "map_of (cs_units (fold (end_line g f) (x # xs) s)) u = Some r2"
        "r2 = ?r1 \<or> u_status ?r1 = consigned_out \<and> r2 = f ?r1" by auto
      with f(1) show "\<exists>r'. map_of (cs_units (fold (end_line g f) (x # xs) s)) u = Some r' \<and>
          (r' = r \<or> u_status r = consigned_out \<and> r' = f r)" by (auto split: if_splits)
    qed (use IH in simp)
  qed simp
  with f(2) show ?thesis unfolding goods_stay_def by (metis same_goods_refl)
qed

lemma same_goods_ends:
  "same_goods r (r\<lparr>u_status := in_stock\<rparr>)" "same_goods r (r\<lparr>u_status := sold, u_dateSold := d\<rparr>)"
  "same_goods r (r\<lparr>u_status := if p then faulty else in_stock\<rparr>)"
  if "u_status r = consigned_out"
  using that by (auto simp: same_goods_def canTransition_def)

lemma goods_stay_cong:
  "goods_stay s s1 \<Longrightarrow> cs_units s2 = cs_units s1 \<Longrightarrow> cs_units s0 = cs_units s \<Longrightarrow> goods_stay s0 s2"
  by (simp add: goods_stay_def)

lemma goods_stay_folds:
  "goods_stay s (fold (sell_line c) xs s)" "goods_stay s (fold (return_line c dto) xs s)" "goods_stay s (releaseUnits i s)"
  unfolding end_line_eqs releaseUnits_def by (rule goods_stay_end_lines; use same_goods_ends in auto)+

lemma claim_phones_goods:
  assumes "claim_phones c b i dto ids j us s = Inr s'"
  shows "goods_stay s s'"
proof -
  have "t_keys (cs_units s') = t_keys (cs_units s) \<and>
      (\<forall>u r. map_of (cs_units s) u = Some r \<longrightarrow> (\<exists>r'. map_of (cs_units s') u = Some r' \<and>
         (r' = r \<or> u_status r = in_stock \<and> r' = r\<lparr>u_status := consigned_out\<rparr>)))"
    using assms
  proof (induction us arbitrary: j s)
    case (Cons u us)
    from Cons.prems obtain r p where r: "map_of (cs_units s) u = Some r" "u_status r = in_stock"
      and rest: "claim_phones c b i dto ids (Suc j) us (claimed c i dto (ids j) u r p s) = Inr s'"
      unfolding claim_phones_Cons by blast
    note IH = Cons.IH [OF rest]
    show ?case
    proof (intro conjI allI impI)
      fix v rv assume "map_of (cs_units s) v = Some rv"
      with IH r show "\<exists>r'. map_of (cs_units s') v = Some r' \<and> (r' = rv \<or> u_status rv = in_stock \<and> r' = rv\<lparr>u_status := consigned_out\<rparr>)"
        by (cases "v = u") force+
    qed (use IH in simp)
  qed simp
  moreover have "same_goods r (r\<lparr>u_status := consigned_out\<rparr>)" if "u_status r = in_stock" for r
    using that by (simp add: same_goods_def canTransition_def)
  ultimately show ?thesis unfolding goods_stay_def by (metis same_goods_refl)
qed

lemma settleIfClear_units [simp]: "cs_units (settleIfClear c i as s) = cs_units s"
  by (simp add: settleIfClear_def set_status_where_def)

lemma audit_entry_units [simp]:
  "cs_units (audit_k c i act b s) = cs_units s" "cs_units (add_entry n e s) = cs_units s"
  by (simp_all add: audit_k_def add_entry_def)

lemma swap_units: "swap i k lost f s = Inr s1 \<Longrightarrow> cs_units s1 = cs_units s"
  by (auto simp: swap_def t_update_where_def split: option.splits if_splits)

lemma goods_stay_frame [simp]:
  "goods_stay s (audit_k c i act b s') = goods_stay s s'" "goods_stay s (add_entry n e s') = goods_stay s s'"
  "goods_stay s (set_lines_where i st f s') = goods_stay s s'"
  by (simp_all add: goods_stay_def)

lemma goods_stay_folds_from:
  assumes "cs_units s1 = cs_units s"
  shows "goods_stay s (fold (sell_line c) xs s1)" "goods_stay s (fold (return_line c dto) xs s1)" "goods_stay s (releaseUnits i s1)"
  using goods_stay_folds [of s1] assms by (auto simp: goods_stay_def)

lemma con_call_goods: "con_call s s' \<Longrightarrow> goods_stay s s'"
proof (induction rule: con_call.induct)
  case (step_create s n ids dto c)
  show ?case
  proof (cases rule: create_cases [of c n ids dto s])
    case (made b cp s1 ns)
    then obtain s0 where s0: "claim_phones c b n dto ids 0 (cc_unitIds dto)
        (s\<lparr>cs_consignments := t_insert n (new_consignment c b dto cp) (cs_consignments s)\<rparr>) = Inr s0"
      "s1 = audit_k c n ''create'' b s0" by (auto simp: create_tx_def)
    show ?thesis unfolding made(3) by (rule goods_stay_cong [OF claim_phones_goods [OF s0(1)]]) (simp_all add: s0(2))
  qed (simp add: goods_stay_same)
next
  case (step_decide dto s c i)
  show ?case
    unfolding decide_def
    by (rule respond_goods)
      (auto simp: decide_tx_def Let_def dest!: swap_units intro: goods_stay_folds_from goods_stay_same)
next
  case (step_custody s c i dto)
  show ?case
    unfolding custody_def
    by (rule respond_goods) (auto simp: custody_tx_def Let_def dest!: swap_units intro: goods_stay_same)
next
  case (step_reportSold s n c i ids)
  show ?case
    unfolding reportSold_def
    by (rule respond_goods)
      (auto simp: reportSold_tx_def Let_def dest!: swap_units intro: goods_stay_folds_from)
next
  case (step_payment s n dto sha256 c i)
  show ?case
    unfolding payment_def
    by (cases "cp_action dto"; rule respond_goods)
      (auto simp: Let_def dest!: payment_confirm_Inr payment_report_Inr intro!: goods_stay_same)
next
  case (step_forgive s n dto c i)
  show ?case unfolding forgive_def by (rule respond_goods) (auto simp: Let_def intro!: goods_stay_same)
next
  case (step_return s c i dto)
  show ?case
    unfolding returnFlow_def
    by (rule respond_goods)
      (auto simp: returnFlow_tx_def Let_def dest!: swap_units intro: goods_stay_folds_from goods_stay_same)
qed

section \<open>Other consignments stay as they were\<close>

definition same_con :: "id \<Rightarrow> consignment_state \<Rightarrow> consignment_state \<Rightarrow> bool" where
  "same_con j s s' \<longleftrightarrow>
     map_of (cs_consignments s') j = map_of (cs_consignments s) j \<and> entries_of j s' = entries_of j s \<and>
     (\<forall>x l. n_consignmentId l = j \<longrightarrow> (map_of (cs_lines s') x = Some l \<longleftrightarrow> map_of (cs_lines s) x = Some l))"

lemma same_con_refl [simp]: "same_con j s s"
  by (simp add: same_con_def)

lemma same_con_frame [simp]:
  "same_con j s (audit_k c i act b s') = same_con j s s'"
  "same_con j s (s'\<lparr>cs_notifications := ns\<rparr>) = same_con j s s'"
  by (simp_all add: same_con_def audit_k_def entries_of_def)

lemma same_con_entry: "e_consignmentId e \<noteq> j \<Longrightarrow> same_con j s (add_entry n e s') = same_con j s s'"
  by (simp add: same_con_def add_entry_def entries_of_def t_insert_def)

lemma same_con_status: "j \<noteq> i \<Longrightarrow> same_con j s (set_status_where i sts f s') = same_con j s s'"
  by (auto simp: same_con_def set_status_where_def t_update_where_def entries_of_def split: option.splits)

lemma same_con_settle: "j \<noteq> i \<Longrightarrow> same_con j s (settleIfClear c i as s') = same_con j s s'"
  by (simp add: settleIfClear_def same_con_status)

lemma set_lines_other:
  assumes "n_consignmentId l \<noteq> i" and "\<And>l. n_consignmentId (f l) = n_consignmentId l"
  shows "map_of (cs_lines (set_lines_where i st f s)) x = Some l \<longleftrightarrow> map_of (cs_lines s) x = Some l"
  using assms by (cases "map_of (cs_lines s) x") (auto simp: map_of_set_lines_where)

lemma same_con_set_lines:
  "j \<noteq> i \<Longrightarrow> (\<And>l. n_consignmentId (f l) = n_consignmentId l) \<Longrightarrow>
   same_con j s (set_lines_where i st f s') = same_con j s s'"
  by (simp add: same_con_def entries_of_def set_lines_other cong: conj_cong imp_cong)

lemma respond_same:
  assumes "\<And>s'. r = Inr s' \<Longrightarrow> same_con j s s'"
  shows "same_con j s (snd (respond c i r s))"
  by (rule respond_inv [of "same_con j s"]) (auto simp: assms)

lemma swap_same:
  "swap i k lost f s = Inr s1 \<Longrightarrow> j \<noteq> i \<Longrightarrow> same_con j s s1 \<and> cs_lines s1 = cs_lines s"
  by (auto simp: swap_def t_update_where_def same_con_def entries_of_def split: option.splits if_splits)

text \<open>Lines are ended by key, and the keys are those of lines of the consignment addressed.\<close>

lemma same_con_end_lines:
  assumes "j \<noteq> i" and wf: "t_wf (cs_lines s1)" and xs: "xs = filter P (lines_of i s1)"
    and g: "\<And>l. n_consignmentId (g l) = n_consignmentId l" and same: "same_con j s s1"
  shows "same_con j s (fold (end_line g f) xs s1)"
proof -
  have d: "distinct (map fst xs)"
    using wf unfolding xs lines_of_def t_wf_def t_keys_def by (intro distinct_map_filter)
  have mem: "n_consignmentId l = i" if "x \<in> fst ` set xs" "map_of (cs_lines s1) x = Some l" for x l
  proof -
    from that(1) obtain l' where "(x, l') \<in> set (cs_lines s1)" "n_consignmentId l' = i"
      by (auto simp: xs lines_of_def)
    with wf that(2) show ?thesis by (simp add: t_wf_map_of_eq [symmetric])
  qed
  have "map_of (cs_lines (fold (end_line g f) xs s1)) x = Some l \<longleftrightarrow> map_of (cs_lines s1) x = Some l"
    if "n_consignmentId l = j" for x l
    using that assms(1) g mem [of x]
    by (cases "map_of (cs_lines s1) x") (auto simp: fold_end_line_lines [OF d])
  with same show ?thesis by (simp add: same_con_def entries_of_def)
qed

lemma same_con_folds:
  assumes "j \<noteq> i" and "t_wf (cs_lines s1)" and "same_con j s s1"
  shows "same_con j s (fold (sell_line c) (filter P (lines_of i s1)) s1)"
    and "same_con j s (fold (return_line c dto) (filter P (lines_of i s1)) s1)"
    and "same_con j s (releaseUnits i s1)"
  unfolding end_line_eqs releaseUnits_def by (rule same_con_end_lines [OF assms(1,2) refl _ assms(3)]; simp)+

lemma claim_phones_same:
  assumes "claim_phones c b i dto ids m us s = Inr s'" and "j \<noteq> i" and "inj ids"
    and "\<And>p. m \<le> p \<Longrightarrow> map_of (cs_lines s) (ids p) = None"
  shows "same_con j s s'"
  using assms(1,4)
proof (induction us arbitrary: m s)
  case (Cons u us)
  from Cons.prems(1) obtain r p
    where rest: "claim_phones c b i dto ids (Suc m) us (claimed c i dto (ids m) u r p s) = Inr s'"
    unfolding claim_phones_Cons by blast
  have "same_con j (claimed c i dto (ids m) u r p s) s'"
  proof (rule Cons.IH [OF rest])
    show "map_of (cs_lines (claimed c i dto (ids m) u r p s)) (ids q) = None" if "Suc m \<le> q" for q
      using Cons.prems(2) [of m] Cons.prems(2) [of q] that injD [OF assms(3), of q m] by auto
  qed
  moreover have "same_con j s (claimed c i dto (ids m) u r p s)"
    using Cons.prems(2) [of m] assms(2) by (auto simp: same_con_def entries_of_def new_line_def)
  ultimately show ?case by (simp add: same_con_def)
qed simp

text \<open>Every call leaves every consignment but the one it names as it was.\<close>

lemma create_same:
  assumes "j \<noteq> n" "inj ids" "\<And>m. map_of (cs_lines s) (ids m) = None" "map_of (cs_consignments s) n = None"
  shows "same_con j s (snd (create c n ids dto s))"
proof (cases rule: create_cases [of c n ids dto s])
  case (made b cp s1 ns)
  then obtain s0 where s0: "claim_phones c b n dto ids 0 (cc_unitIds dto)
      (s\<lparr>cs_consignments := t_insert n (new_consignment c b dto cp) (cs_consignments s)\<rparr>) = Inr s0"
    "s1 = audit_k c n ''create'' b s0" by (auto simp: create_tx_def)
  from claim_phones_same [OF s0(1) assms(1,2)] assms(3)
  have "same_con j (s\<lparr>cs_consignments := t_insert n (new_consignment c b dto cp) (cs_consignments s)\<rparr>) s0" by simp
  with assms(1,4) show ?thesis unfolding made(3) s0(2) same_con_frame by (simp add: same_con_def entries_of_def)
qed simp

lemma decide_same: "j \<noteq> i \<Longrightarrow> t_wf (cs_lines s) \<Longrightarrow> same_con j s (snd (decide c i dto s))"
  unfolding decide_def
  by (rule respond_same)
    (auto simp: decide_tx_def Let_def same_con_set_lines dest!: swap_same intro!: same_con_folds)

lemma custody_same: "j \<noteq> i \<Longrightarrow> same_con j s (snd (custody c i dto s))"
  unfolding custody_def
  by (rule respond_same) (auto simp: custody_tx_def Let_def same_con_set_lines dest!: swap_same)

lemma reportSold_same:
  assumes "j \<noteq> i" "t_wf (cs_lines s)"
  shows "same_con j s (snd (reportSold c n i ids s))"
  unfolding reportSold_def
proof (rule respond_same, goal_cases)
  case (1 s')
  then obtain k s1 where sw: "swap i k RefreshRequired (\<lambda>k. k\<lparr>k_status := sold_awaiting_settlement\<rparr>) s = Inr s1"
    and s': "s' = audit_k c i ''status_change'' (k_sourceBranchId k)
      (add_entry n (new_entry c i k receivable_raised (raised_by (sold_lines i ids s))) (fold (sell_line c) (sold_lines i ids s) s1))"
    by (auto simp: reportSold_tx_def Let_def transition_Inr assertTransition_ok)
  obtain P where P: "sold_lines i ids s = filter P (lines_of i s)" using sold_lines_filter by blast
  from swap_same [OF sw assms(1)] same_con_folds(1) [OF assms(1), of s1 s c P] assms show ?case
    by (simp add: s' P same_con_entry new_entry_def lines_of_def)
qed

lemma payment_same: "j \<noteq> i \<Longrightarrow> same_con j s (snd (payment sha256 c n i dto s))"
  unfolding payment_def
  by (cases "cp_action dto"; rule respond_same)
    (auto simp: Let_def same_con_settle same_con_entry report_entry_def new_entry_def
      dest!: payment_confirm_Inr payment_report_Inr)

lemma forgive_same: "j \<noteq> i \<Longrightarrow> same_con j s (snd (forgive c n i dto s))"
  unfolding forgive_def
  by (rule respond_same) (auto simp: Let_def same_con_settle same_con_entry new_entry_def)

lemma returnFlow_same: "j \<noteq> i \<Longrightarrow> t_wf (cs_lines s) \<Longrightarrow> same_con j s (snd (returnFlow c i dto s))"
  unfolding returnFlow_def
  by (rule respond_same) (auto simp: returnFlow_tx_def Let_def dest!: swap_same intro!: same_con_folds)

lemmas con_handlers_same = decide_same custody_same reportSold_same payment_same forgive_same returnFlow_same

end
