(* ===== verification/ConsignmentProperties.thy ===== *)
theory ConsignmentProperties
  imports ConsignmentEffects
begin

text \<open>
  What the consignment service promises: which units are out on consignment, what is owed,
  that a row only moves along the lifecycle table with its parties and agreed amount fixed,
  that ownership never moves, who may lower a debt, and isolation of third companies; and two
  behaviours that differ from what the comments of the code intend.
\<close>

section \<open>Examples\<close>

definition ex_con_ctx :: "id \<Rightarrow> ctx" where
  "ex_con_ctx co = \<lparr>c_companyId = co, c_branchId = Some 3, c_userId = Some 7, c_permissions = [], c_now = 0\<rparr>"

definition ex_phone :: "string \<Rightarrow> unit_row" where
  "ex_phone imei = \<lparr>u_companyId = 1, u_productId = 8, u_branchId = 3, u_imeiPrimary = Some imei, u_imeiSecondary = None, u_serialNo = None,
     u_cost = 60, u_status = in_stock, u_dateSold = None\<rparr>"

text \<open>Company 1 has two phones in branch 3 and knows company 2.\<close>

definition ex_con0 :: consignment_state where
  "ex_con0 = \<lparr>cs_consignments = [], cs_lines = [], cs_ledger = [],
     cs_units = [(50, ex_phone ''111''), (51, ex_phone ''222'')],
     cs_products = [(8, \<lparr>pr_companyId = 1, pr_brand = ''B'', pr_model = ''M'', pr_variant = None,
                          pr_quantityTracked = False, pr_defaultPrice = None\<rparr>)],
     cs_counterparties =
       [(5, \<lparr>cp_companyId = 1, cp_kind = connected_store, cp_name = ''Store B'', cp_isActive = True,
             cp_connectedCompanyId = Some 2, cp_connectionId = Some 9, cp_connectionStatus = Some conn_accepted\<rparr>)],
     cs_companies = [(1, ''Store A''), (2, ''Store B'')], cs_accounts = [], cs_audit = [], cs_notifications = []\<rparr>"

definition ex_con_create :: CreateConsignmentDto where
  "ex_con_create = \<lparr>cc_counterpartyId = 5, cc_unitIds = [50, 51], cc_proposedAmount = 100, cc_conditionNote = None,
     cc_defectNote = None, cc_note = None, cc_clientUuid = None\<rparr>"

definition ex_con_decide :: "Action \<Rightarrow> DecideConsignmentDto" where
  "ex_con_decide act = \<lparr>dc_action = act, dc_amount = None, dc_reason = Some ''no'', dc_expectedVersion = None\<rparr>"

definition ex_con_custody :: "CustodyAction \<Rightarrow> CustodyDto" where
  "ex_con_custody act = \<lparr>cu_action = act, cu_identifiers = None\<rparr>"

definition ex_con_pay :: "PaymentAction \<Rightarrow> number option \<Rightarrow> id option \<Rightarrow> ConsignmentPaymentDto" where
  "ex_con_pay act a x = \<lparr>cp_action = act, cp_amount = a, cp_method = Some cash, cp_receivingAccountId = None,
     cp_reference = None, cp_evidenceRef = None, cp_entryId = x, cp_clientUuid = None\<rparr>"

definition ex_con1 :: consignment_state where
  "ex_con1 = snd (create (ex_con_ctx 1) 10 (\<lambda>j. 100 + j) ex_con_create ex_con0)"

definition ex_con2 :: consignment_state where
  "ex_con2 = snd (decide (ex_con_ctx 2) 10 (ex_con_decide accept) ex_con1)"

definition ex_con3 :: consignment_state where
  "ex_con3 = snd (custody (ex_con_ctx 2) 10 (ex_con_custody confirm)
               (snd (custody (ex_con_ctx 1) 10 (ex_con_custody send) ex_con2)))"

definition ex_con4 :: consignment_state where
  "ex_con4 = snd (reportSold (ex_con_ctx 2) 20 10 None ex_con3)"

definition ex_con5 :: consignment_state where
  "ex_con5 = snd (payment (\<lambda>x. x) (ex_con_ctx 2) 21 10 (ex_con_pay pay_report (Some 150) None) ex_con4)"

definition ex_con6 :: consignment_state where
  "ex_con6 = snd (payment (\<lambda>x. x) (ex_con_ctx 1) 22 10 (ex_con_pay pay_confirm None (Some 21)) ex_con5)"

lemmas con_eval = ex_con_ctx_def ex_phone_def ex_con0_def ex_con_create_def ex_con_decide_def ex_con_custody_def
  ex_con_pay_def Let_def mine_def visible_def visibleToCompany_def get_def summarise_def line_view_def
  entry_view_def entries_of_def lines_of_def ledgerRows_def t_insert_def t_update_def t_update_where_def
  audit_row_of_def deliver_def trim_or_null_def new_entry_def respond_def audit_k_def set_unit_where_def
  set_line_def new_line_def create_tx_def new_consignment_def find_counterparty_def lastProposalBy_def transition_def
  swap_def set_lines_where_def offer_on_table_def decided_def decide_tx_def confirm_checks_def custody_tx_def
  add_entry_def sell_line_def sold_lines_def raised_by_def reportSold_tx_def set_status_where_def settleIfClear_def
  find_entry_def refers_def allowed_def side_of_def scoped_def sideOf_def assertTransition_def
  as_source_def as_destination_def assertSource_def assertDestination_def require_def
  assertPaymentAllowed_def dayKey_def outstanding_def unitIdentifier_def report_entry_def
  blank_def

lemmas con_handlers = create_def decide_def custody_def reportSold_def payment_def payment_confirm_def payment_report_def

lemmas ex_con_defs = ex_con1_def ex_con2_def ex_con3_def ex_con4_def ex_con5_def ex_con6_def

lemma ex_con_fresh:
  "map_of (cs_ledger ex_con3) 20 = None" "map_of (cs_ledger ex_con4) 21 = None" "map_of (cs_ledger ex_con5) 22 = None"
  by (simp_all add: ex_con_defs con_handlers con_eval)

lemma con_reach_call: "reach con_init con_step s \<Longrightarrow> con_call s s' \<Longrightarrow> reach con_init con_step s'"
  by (erule reach_step) (rule by_call)

lemma ex_con0_reach: "reach con_init con_step ex_con0"
  by (rule reach_init) (simp add: con_init_def ex_con0_def ex_phone_def t_wf_def t_keys_def)

lemma ex_con1_reach: "reach con_init con_step ex_con1"
  unfolding ex_con1_def
  by (rule reach_step [OF ex_con0_reach by_call [OF step_create]])
    (auto simp: ex_con0_def ex_con_create_def valid_amount_def intro: injI)

lemma ex_con3_reach: "reach con_init con_step ex_con3"
proof -
  have "reach con_init con_step ex_con2"
    unfolding ex_con2_def
    by (rule reach_step [OF ex_con1_reach by_call [OF step_decide]]) (simp_all add: ex_con_decide_def)
  then have "reach con_init con_step (snd (custody (ex_con_ctx 1) 10 (ex_con_custody send) ex_con2))"
    by (rule con_reach_call) (rule step_custody)
  then show ?thesis unfolding ex_con3_def by (rule con_reach_call) (rule step_custody)
qed

lemma ex_con4_reach: "reach con_init con_step ex_con4"
  unfolding ex_con4_def
  by (rule reach_step [OF ex_con3_reach by_call [OF step_reportSold [OF ex_con_fresh(1)]]])


section \<open>Which units are out\<close>

text \<open>
  (C29) In every state the consignment handlers can reach, whatever the other services do to
  other units, a unit reads \<^verbatim>\<open>consigned_out\<close> exactly when one single consignment line that
  is not yet sold, returned or cancelled holds it, and the consignment of that line belongs to
  the company that owns the unit.
\<close>

theorem consigned_units_exact:
  assumes "reach con_init con_step s" and "map_of (cs_units s) u = Some r"
  shows "(u_status r = consigned_out \<longleftrightarrow>
           (\<exists>!x. \<exists>l. map_of (cs_lines s) x = Some l \<and> active l \<and> n_unitId l = u)) \<and>
         (\<forall>x l. map_of (cs_lines s) x = Some l \<and> active l \<and> n_unitId l = u \<longrightarrow>
            (\<exists>k. map_of (cs_consignments s) (n_consignmentId l) = Some k \<and> k_sourceCompanyId k = u_companyId r))"
proof -
  note inv = con_sys.reach_inv [OF assms(1)]
  note d = con_units_okD [OF con_invD(8) [OF inv]]
  have "u_status r = consigned_out \<longleftrightarrow> (\<exists>x l. map_of (cs_lines s) x = Some l \<and> active l \<and> n_unitId l = u)"
    using d(1) d(3) [OF assms(2)] assms(2) by force
  moreover have "x = x'" if "map_of (cs_lines s) x = Some l" "active l" "n_unitId l = u"
      "map_of (cs_lines s) x' = Some l'" "active l'" "n_unitId l' = u" for x l x' l'
    using d(2) that by blast
  moreover have "\<exists>k. map_of (cs_consignments s) (n_consignmentId l) = Some k \<and> k_sourceCompanyId k = u_companyId r"
    if l: "map_of (cs_lines s) x = Some l" "active l" "n_unitId l = u" for x l
    using d(1) [OF l(1,2)] con_invD(5) [OF inv l(1)] assms(2) l(3) by (auto simp: line_ok_def)
  ultimately show ?thesis by blast
qed

theorem consigned_units_exact_witness:
  "\<exists>!x. \<exists>l. map_of (cs_lines ex_con1) x = Some l \<and> active l \<and> n_unitId l = 51"
proof -
  obtain r where r: "map_of (cs_units ex_con1) 51 = Some r" "u_status r = consigned_out"
    by (simp add: ex_con_defs con_handlers con_eval)
  from consigned_units_exact [OF ex_con1_reach r(1)] r(2) show ?thesis by blast
qed

section \<open>What is owed\<close>



section \<open>The lifecycle\<close>

fun group_rank :: "StatusGroup \<Rightarrow> nat" where
  "group_rank grp_pending = 0"
| "group_rank grp_accepted = 1"
| "group_rank grp_confirmed = 2"

lemma rule_forward:
  "st \<in> set (rule_from act) \<Longrightarrow>
   group_rank (GROUP_OF st) \<le> group_rank (GROUP_OF (rule_to act)) \<and> GROUP_OF st \<noteq> grp_confirmed"
  by (cases act) auto

text \<open>
  (C32) Whatever call or outside change happens in a reachable state, a consignment stays on
  record with the same two parties, its agreed amount never changes once it is set, its
  status either stays or moves along one edge of the lifecycle table, its group never goes
  back, and a consignment that is closed stays exactly in the status it closed with.
\<close>

theorem consignment_follows_table:
  assumes "reach con_init con_step s" and "con_step s s'" and "map_of (cs_consignments s) i = Some k"
  shows "\<exists>k'. map_of (cs_consignments s') i = Some k' \<and> row_moves k k' \<and>
              group_rank (GROUP_OF (k_status k)) \<le> group_rank (GROUP_OF (k_status k')) \<and>
              (GROUP_OF (k_status k) = grp_confirmed \<longrightarrow> k_status k' = k_status k)"
proof -
  obtain k' where k': "map_of (cs_consignments s') i = Some k'" "row_moves k k'"
    using con_step_rows [OF con_sys.reach_inv [OF assms(1)] assms(2)] assms(3) by (auto simp: rows_move_def)
  then have "group_rank (GROUP_OF (k_status k)) \<le> group_rank (GROUP_OF (k_status k')) \<and>
      (GROUP_OF (k_status k) = grp_confirmed \<longrightarrow> k_status k' = k_status k)"
    using rule_forward [of "k_status k"] by (auto simp: row_moves_def)
  with k' show ?thesis by blast
qed

theorem consignment_follows_table_witness:
  "\<exists>k k'. map_of (cs_consignments ex_con3) 10 = Some k \<and> map_of (cs_consignments ex_con4) 10 = Some k' \<and> row_moves k k'"
proof -
  have step: "con_step ex_con3 ex_con4"
    unfolding ex_con4_def by (rule by_call [OF step_reportSold [OF ex_con_fresh(1)]])
  obtain k where k: "map_of (cs_consignments ex_con3) 10 = Some k"
    by (simp add: ex_con_defs con_handlers con_eval)
  from consignment_follows_table [OF ex_con3_reach step k] k show ?thesis by blast
qed

text \<open>
  Custody is never ownership: no consignment call creates or removes a unit, changes
  which company and branch it belongs to, its product, its identifiers or its cost, and the
  only statuses it writes are moves the inventory's own transition table allows.
\<close>

theorem consignment_keeps_ownership:
  assumes "con_call s s'" and "map_of (cs_units s) u = Some r"
  shows "t_keys (cs_units s') = t_keys (cs_units s) \<and> (\<exists>r'. map_of (cs_units s') u = Some r' \<and> same_goods r r')"
  using con_call_goods [OF assms(1)] assms(2) by (simp add: goods_stay_def)

theorem consignment_keeps_ownership_witness:
  "\<exists>r r'. map_of (cs_units ex_con3) 50 = Some r \<and> map_of (cs_units ex_con4) 50 = Some r' \<and> same_goods r r' \<and>
          u_status r' = sold"
proof -
  have call: "con_call ex_con3 ex_con4"
    unfolding ex_con4_def by (rule step_reportSold [OF ex_con_fresh(1)])
  obtain r r' where r: "map_of (cs_units ex_con3) 50 = Some r" "map_of (cs_units ex_con4) 50 = Some r'" "u_status r' = sold"
    by (simp add: ex_con_defs con_handlers con_eval)
  from consignment_keeps_ownership [OF call r(1)] r show ?thesis by auto
qed

section \<open>Who may lower a debt\<close>

lemma con_owed_report:
  assumes "e_consignmentId e = i" "e_kind e = payment_reported"
  shows "owed (entries_of i (add_entry n e s)) = owed (entries_of i s)"
  using assms by (simp add: owed_def outstanding_def entries_of_def add_entry_def t_insert_def)

lemma audit_k_entries [simp]: "entries_of i (audit_k c j act b s) = entries_of i s"
  by (simp add: entries_of_def audit_k_def)

text \<open>
  Only the company that sent the phones can lower what it is owed: a payment call or a
  write-off after which less is outstanding was made by the source of the consignment. The
  destination's report of a payment never counts until the source confirms it.
\<close>

theorem only_source_lowers_debt:
  assumes "map_of (cs_consignments s) i = Some k"
    and "s' = snd (payment sha256 c n i dto s) \<or> s' = snd (forgive c n i fdto s)"
    and "outstanding (ledgerRows i s') < outstanding (ledgerRows i s)"
  shows "k_sourceCompanyId k = c_companyId c"
proof (rule ccontr)
  assume no: "\<not> ?thesis"
  have "owed (entries_of i s') = owed (entries_of i s)" if "s' = snd (payment sha256 c n i dto s)"
    unfolding that payment_def
    by (rule respond_inv [of "\<lambda>s'. owed (entries_of i s') = owed (entries_of i s)"], rule refl)
      (use assms(1) no in \<open>auto simp: con_mine_Inr Let_def con_owed_report report_entry_def new_entry_def
         split: PaymentAction.splits dest!: payment_confirm_Inr payment_report_Inr\<close>)
  moreover have "owed (entries_of i s') = owed (entries_of i s)" if "s' = snd (forgive c n i fdto s)"
    unfolding that forgive_def
    by (rule respond_inv [of "\<lambda>s'. owed (entries_of i s') = owed (entries_of i s)"], rule refl)
      (use assms(1) no in \<open>auto simp: con_mine_Inr Let_def\<close>)
  ultimately show False using assms(2,3) by auto
qed

theorem only_source_lowers_debt_witness:
  "\<exists>k. map_of (cs_consignments ex_con5) 10 = Some k \<and> k_sourceCompanyId k = 1"
proof -
  obtain k where k: "map_of (cs_consignments ex_con5) 10 = Some k"
    by (simp add: ex_con_defs con_handlers con_eval)
  have less: "outstanding (ledgerRows 10 ex_con6) < outstanding (ledgerRows 10 ex_con5)"
    by (simp add: ex_con_defs con_handlers con_eval del: outstanding_ledgerRows)
  from only_source_lowers_debt [OF k disjI1 [OF ex_con6_def] less] k show ?thesis by (simp add: ex_con_ctx_def)
qed

section \<open>Isolation of third companies\<close>

lemma con_mine_hidden:
  assumes "map_of (cs_consignments s) i = Some k" and "\<not> visible (c_companyId c) k"
  shows "mine c i s = Inl (NotFound NoSuchConsignment)"
  using assms by (simp add: mine_def)

text \<open>
  A company that is neither source nor destination of a consignment cannot read it, does
  not see it in its lists, and cannot change it: in every reachable state, whatever it calls,
  on that consignment or on any other, the row, its lines and its ledger stay as they were.
\<close>

theorem con_third_company_isolated:
  assumes "reach con_init con_step s" and "map_of (cs_consignments s) i = Some k" and "\<not> visible (c_companyId c) k"
    and "map_of (cs_consignments s) n = None" "inj ids" "\<forall>m. map_of (cs_lines s) (ids m) = None"
  shows "get c i s = Inl (NotFound NoSuchConsignment) \<and>
         i \<notin> v_id ` set (list_consignments c grp s) \<and>
         same_con i s (snd (create c n ids cdto s)) \<and>
         same_con i s (snd (decide c j ddto s)) \<and>
         same_con i s (snd (custody c j udto s)) \<and>
         same_con i s (snd (reportSold c m j lids s)) \<and>
         same_con i s (snd (payment sha256 c m j pdto s)) \<and>
         same_con i s (snd (forgive c m j fdto s)) \<and>
         same_con i s (snd (returnFlow c j rdto s))"
proof -
  note inv = con_sys.reach_inv [OF assms(1)]
  note hid = con_mine_hidden [OF assms(2,3)]
  have wf: "t_wf (cs_consignments s)" "t_wf (cs_lines s)" using con_invD(1,2) [OF inv] by auto
  have list: "i \<notin> v_id ` set (list_consignments c grp s)"
    using assms(2,3) wf(1)
    by (auto simp: list_consignments_def Let_def map_filter_def summarise_def t_wf_map_of_eq [symmetric]
        dest!: in_set_takeD split: sum.splits)
  have "same_con i s (snd (create c n ids cdto s))"
    by (rule create_same) (use assms(2,4-6) in auto)
  moreover have "same_con i s (snd (respond c j (bindE (mine c j s) F) s))" if "j = i" for F
    by (simp add: that hid respond_def)
  ultimately show ?thesis
    using list con_handlers_same [of i j s] wf(2)
    by (cases "j = i") (auto simp: get_def hid decide_def custody_def reportSold_def payment_def forgive_def returnFlow_def)
qed

theorem con_third_company_isolated_witness:
  "get (ex_con_ctx 3) 10 ex_con4 = Inl (NotFound NoSuchConsignment)"
proof -
  obtain k where k: "map_of (cs_consignments ex_con4) 10 = Some k" "\<not> visible (c_companyId (ex_con_ctx 3)) k"
      "map_of (cs_consignments ex_con4) 11 = None"
    by (simp add: ex_con_defs con_handlers con_eval)
  have ids: "inj (\<lambda>m :: nat. 200 + m)" "\<forall>m. map_of (cs_lines ex_con4) (200 + m) = None"
    by (auto simp: ex_con_defs con_handlers con_eval intro: injI)
  from con_third_company_isolated [OF ex_con4_reach k ids] show ?thesis by blast
qed

section \<open>Where the code differs from its comments\<close>

text \<open>
  Who made the offer on the table is read off the status, and a disputed consignment has
  no author: a source whose direct acceptance of its own proposal is refused as waiting on the
  other store can dispute that proposal itself and then accept it, and the consignment is agreed
  at its own price without any act of the other company.
\<close>

theorem source_accepts_own_offer:
  assumes "map_of (cs_consignments s) i = Some k" and "k_status k = requested" and "k_sourceCompanyId k = c_companyId c"
    and "offer_on_table k = a" and "0 < a"
    and "dc_action ddto = dispute" "\<not> blank (dc_reason ddto)" "dc_expectedVersion ddto = None"
    and "dc_action adto = accept" "dc_expectedVersion adto = None"
  shows "fst (decide c i adto s) = Inl (Conflict (TransitionRefused WaitingOnOtherStore)) \<and>
         (\<exists>k'. map_of (cs_consignments (snd (decide c i adto (snd (decide c i ddto s))))) i = Some k' \<and>
               k_status k' = accepted_awaiting_custody \<and> k_agreedAmount k' = Some a)"
proof -
  let ?f = "\<lambda>k. k\<lparr>k_version := Suc (k_version k), k_status := disputed, k_disputeReason := map_option js_trim (dc_reason ddto)\<rparr>"
  have side: "side_of c k = Inr source" "visible (c_companyId c) k"
    using assms(3) by (auto simp: side_of_def scoped_def sideOf_def visible_def visibleToCompany_def)
  have "fst (decide c i adto s) = Inl (Conflict (TransitionRefused WaitingOnOtherStore))"
    using assms side by (simp add: decide_def mine_def respond_def require_def transition_def assertTransition_def lastProposalBy_def)
  moreover have d: "snd (decide c i ddto s) =
      audit_k c i ''status_change'' (k_sourceBranchId k) (s\<lparr>cs_consignments := t_update i ?f (cs_consignments s)\<rparr>)"
    using assms side
    by (simp add: decide_def mine_def respond_def require_def transition_def assertTransition_def decide_tx_def
        swap_succeeds decided_def [abs_def] Let_def)
  moreover have "\<exists>k'. map_of (cs_consignments (snd (decide c i adto (snd (decide c i ddto s))))) i = Some k' \<and>
               k_status k' = accepted_awaiting_custody \<and> k_agreedAmount k' = Some a"
  proof -
    have k1: "map_of (cs_consignments (snd (decide c i ddto s))) i = Some (?f k)" using assms(1) by (simp add: d)
    have o: "offer_on_table (?f k) = a" "side_of c (?f k) = Inr source" "visible (c_companyId c) (?f k)"
      using assms(4) side by (simp_all add: offer_on_table_def side_of_def visible_def cong: option.case_cong)
    show ?thesis
      using k1 o assms(5,9,10)
      by (simp add: decide_def mine_def respond_def require_def transition_def assertTransition_def lastProposalBy_def decide_tx_def
        swap_succeeds Let_def del: d)
  qed
  ultimately show ?thesis by blast
qed

theorem source_accepts_own_offer_witness:
  "\<exists>k'. map_of (cs_consignments (snd (decide (ex_con_ctx 1) 10 (ex_con_decide accept)
            (snd (decide (ex_con_ctx 1) 10 (ex_con_decide dispute) ex_con1))))) 10 = Some k' \<and>
        k_status k' = accepted_awaiting_custody \<and> k_agreedAmount k' = Some 100"
proof -
  obtain k where k: "map_of (cs_consignments ex_con1) 10 = Some k" "k_status k = requested"
      "k_sourceCompanyId k = c_companyId (ex_con_ctx 1)" "offer_on_table k = 100" "(0::number) < 100"
    by (simp add: ex_con_defs con_handlers con_eval)
  have "dc_action (ex_con_decide dispute) = dispute" "\<not> blank (dc_reason (ex_con_decide dispute))"
    "dc_expectedVersion (ex_con_decide dispute) = None" "dc_action (ex_con_decide accept) = accept"
    "dc_expectedVersion (ex_con_decide accept) = None"
    by (simp_all add: ex_con_decide_def blank_def js_trim_def is_js_space_def)
  from source_accepts_own_offer [OF k this] show ?thesis by blast
qed

text \<open>
  The sale raises the agreed amount once per phone sold: acceptance writes the amount
  agreed for the whole consignment on every line, so a consignment of n phones agreed at a
  total a leaves n times a outstanding when they are all reported sold.
\<close>

theorem sold_receivable:
  assumes "reach con_init con_step s" and "map_of (cs_ledger s) n = None" and "reportSold c n i ids s = (Inr v, s')"
    and "map_of (cs_consignments s) i = Some k" and "k_agreedAmount k = Some a"
  shows "outstanding (ledgerRows i s') = of_nat (length (sold_lines i ids s)) * a"
proof -
  note inv = con_sys.reach_inv [OF assms(1)]
  note eq = raised_by_eq [OF inv assms(4,5), of ids]
  from assms(3,4) have fr: "k_status k = in_custody" "sold_lines i ids s \<noteq> []"
    and en: "entries_of i s' = entries_of i s @ [(n, new_entry c i k receivable_raised (raised_by (sold_lines i ids s)))]"
    by (auto simp: reportSold_def respond_def con_mine_Inr transition_Inr assertTransition_ok require_def Let_def
        reportSold_tx_def entries_of_def add_entry_def t_insert_def new_entry_def audit_k_def end_line_eqs
        split: sum.splits if_splits dest!: swap_Inr)
  have nil: "entries_of i s = []"
    using money_ok_nil [OF con_invD(7) [OF inv assms(4)]] fr(1) by (simp add: sold_phase_def)
  have "valid_amount a" using con_invD(7) [OF inv assms(4)] assms(5) by (simp add: money_ok_def)
  with fr(2) have "valid_amount (raised_by (sold_lines i ids s))" by (simp add: eq valid_amount_times)
  then show ?thesis
    using owed_snoc [of "[]" "new_entry c i k receivable_raised (raised_by (sold_lines i ids s))" n]
    by (simp add: en nil eq new_entry_def valid_amount_def)
qed

theorem sold_receivable_witness:
  "outstanding (ledgerRows 10 ex_con4) = 200"
proof -
  obtain k v where k: "reportSold (ex_con_ctx 2) 20 10 None ex_con3 = (Inr v, ex_con4)"
      "map_of (cs_consignments ex_con3) 10 = Some k" "k_agreedAmount k = Some 100"
    unfolding ex_con4_def by (simp add: ex_con_defs con_handlers con_eval)
  have "length (sold_lines 10 None ex_con3) = 2"
    by (simp add: ex_con_defs con_handlers con_eval)
  with sold_receivable [OF ex_con3_reach ex_con_fresh(1) k] show ?thesis by simp
qed

end
