(* ===== verification/Books.thy ===== *)
theory Books
  imports Inventory Ledger
begin

text \<open>
  The tables of money that the daily closing, the discrepancies, the suppliers, the
  corrections and the expenses read and write together, as one state, and the statements
  the raw SQL of these services is made of: filters, sums, and sums per group. A row has the
  columns the services use. Amounts are \<^verbatim>\<open>DECIMAL(14,2)\<close> columns.
\<close>

section \<open>Rows\<close>

datatype PaymentMethod = pm_cash | pm_card | pm_mobile | pm_bank | pm_other

datatype SalePayStatus = sp_paid | sp_partial | sp_credit

record sale_row =
  sa_companyId :: id
  sa_branchId :: id
  sa_userId :: id
  sa_customerId :: "id option"
  sa_invoiceNo :: string
  sa_soldAt :: nat
  sa_subtotal :: number
  sa_discount :: number
  sa_total :: number
  sa_totalCost :: number
  sa_margin :: number
  sa_amountPaid :: number
  sa_balanceDue :: number
  sa_payStatus :: SalePayStatus
  sa_isReversed :: bool
  sa_returnWindowHours :: int
  sa_returnDeadlineAt :: "nat option"
  sa_returnPolicyOverriddenById :: "id option"
  sa_returnPolicyOverrideReason :: "string option"
  sa_clientUuid :: "id option"

record customer =
  cu_companyId :: id
  cu_balance :: number

record variant_price =
  vp_companyId :: id
  vp_productId :: id
  vp_branchId :: id
  vp_price :: number
  vp_version :: nat

record sale_item =
  it_companyId :: id
  it_saleId :: id
  it_unitId :: "id option"
  it_productId :: "id option"
  it_quantity :: nat
  it_price :: number
  it_cost :: number
  it_discount :: number
  it_voided :: bool

record payment_row =
  pm_companyId :: id
  pm_saleId :: id
  pm_method :: PaymentMethod
  pm_amount :: number
  pm_receivingAccountId :: "id option"
  pm_accountLabelSnapshot :: "string option"

record reversal =
  rv_companyId :: id
  rv_branchId :: id
  rv_saleId :: id
  rv_saleItemId :: id
  rv_unitId :: id
  rv_returnRequestId :: id
  rv_lineRevenue :: number
  rv_lineCost :: number
  rv_lineMargin :: number
  rv_grossRefund :: number
  rv_adjustmentTotal :: number
  rv_netRefundDue :: number
  rv_approvalDate :: nat
  rv_approvedById :: "id option"

datatype PayoutStatus = reported_pending_confirmation | payout_confirmed

record payout =
  po_companyId :: id
  po_branchId :: id
  po_returnRequestId :: id
  po_returnReversalId :: id
  po_status :: PayoutStatus
  po_netAmountDue :: number
  po_reportedAmount :: number
  po_method :: Method
  po_receivingAccountId :: "id option"
  po_accountLabelSnapshot :: "string option"
  po_transactionReference :: "string option"
  po_note :: "string option"
  po_reportedById :: "id option"
  po_confirmedById :: "id option"
  po_confirmedAt :: "nat option"
  po_confirmationDate :: "nat option"
  po_clientUuid :: id
  po_clientRequestHash :: string
  po_correctedById :: "id option"
  po_version :: nat

datatype ReturnStatus = pending_investigation | under_review | approved_refund_due | return_rejected

datatype ReturnResponsibility = not_decided | store_or_product_fault | customer_damage | other_responsibility

datatype ReturnCustody = customer_holds | store_holds | handed_back | retained_hold

datatype ReturnAdjustmentKind = screen_protector | accessory_retained | restocking_fee | other_adjustment

datatype EligibilityReason =
  no_return_policy | within_window | window_expired | already_returned | quantity_not_supported | sale_reversed

record return_request =
  rr_companyId :: id
  rr_branchId :: id
  rr_saleId :: id
  rr_saleItemId :: id
  rr_unitId :: id
  rr_status :: ReturnStatus
  rr_clientUuid :: id
  rr_clientRequestHash :: string
  rr_requestedById :: "id option"
  rr_requestReason :: string
  rr_conditionNotes :: "string option"
  rr_responsibility :: ReturnResponsibility
  rr_responsibilityNotes :: "string option"
  rr_custody :: ReturnCustody
  rr_custodyReceivedAt :: "nat option"
  rr_custodyReturnedAt :: "nat option"
  rr_policyWindowHours :: int
  rr_policyDeadlineAt :: "nat option"
  rr_policyReason :: EligibilityReason
  rr_requiresException :: bool
  rr_reviewedById :: "id option"
  rr_reviewedAt :: "nat option"
  rr_decidedById :: "id option"
  rr_decidedAt :: "nat option"
  rr_decisionReason :: "string option"
  rr_exceptionReason :: "string option"
  rr_version :: nat
  rr_createdAt :: nat

record adjustment =
  aj_companyId :: id
  aj_returnRequestId :: id
  aj_kind :: ReturnAdjustmentKind
  aj_label :: string
  aj_quantity :: int
  aj_unitAmount :: number
  aj_totalAmount :: number
  aj_createdById :: "id option"

record supplier =
  sp_companyId :: id
  sp_name :: string
  sp_phone :: "string option"
  sp_notes :: "string option"
  sp_balance :: number
  sp_deletedAt :: "nat option"

datatype PurchaseStatus = unpaid | partial | paid

record purchase =
  pu_companyId :: id
  pu_branchId :: id
  pu_supplierId :: id
  pu_referenceNo :: "string option"
  pu_date :: nat
  pu_dueDate :: "nat option"
  pu_total :: number
  pu_amountPaid :: number
  pu_status :: PurchaseStatus

datatype SettlementStatus = st_reported | st_confirmed

record settlement =
  st_companyId :: id
  st_branchId :: id
  st_supplierId :: id
  st_status :: SettlementStatus
  st_amount :: number
  st_method :: Method
  st_receivingAccountId :: "id option"
  st_accountLabelSnapshot :: "string option"
  st_transactionReference :: "string option"
  st_note :: "string option"
  st_version :: nat
  st_clientUuid :: id
  st_clientRequestHash :: string
  st_reportedById :: "id option"
  st_confirmedById :: "id option"
  st_confirmedAt :: "nat option"
  st_confirmationDate :: "nat option"

record allocation =
  al_companyId :: id
  al_settlementId :: id
  al_purchaseId :: id
  al_amount :: number

datatype ExpenseStatus = ex_reported | ex_confirmed | ex_rejected

datatype ExpenseClass = variable | fixed

record expense =
  x_companyId :: id
  x_branchId :: "id option"
  x_category :: string
  x_amount :: number
  x_spentOn :: nat
  x_note :: "string option"
  x_status :: ExpenseStatus
  x_expenseClass :: ExpenseClass
  x_isSalary :: bool
  x_dueDate :: "nat option"
  x_method :: Method
  x_receivingAccountId :: "id option"
  x_accountLabelSnapshot :: "string option"
  x_reference :: "string option"
  x_reasonOmitted :: bool
  x_reportedById :: "id option"
  x_confirmedById :: "id option"
  x_confirmedAt :: "nat option"
  x_confirmationDate :: "nat option"
  x_rejectedReason :: "string option"
  x_clientUuid :: "id option"
  x_clientRequestHash :: "string option"
  x_version :: nat

datatype CorrectionKind = refund_payout | supplier_settlement

datatype CorrectionStatus = fc_requested | fc_approved | fc_rejected

record correction =
  fc_companyId :: id
  fc_branchId :: id
  fc_targetKind :: CorrectionKind
  fc_targetRefundPayoutId :: "id option"
  fc_targetSupplierSettlementId :: "id option"
  fc_status :: CorrectionStatus
  fc_reason :: string
  fc_supportingReference :: "string option"
  fc_amount :: number
  fc_method :: Method
  fc_accountLabelSnapshot :: "string option"
  fc_requestedById :: "id option"
  fc_decidedById :: "id option"
  fc_decidedAt :: "nat option"
  fc_correctionDate :: "nat option"
  fc_clientUuid :: id
  fc_clientRequestHash :: string
  fc_version :: nat

text \<open>The five movements a channel is counted from, each a positive magnitude.\<close>

record Sums =
  salesIn :: number
  refundsOut :: number
  supplierOut :: number
  expensesOut :: number
  correctionsIn :: number

datatype ClosingStatus = counting | counted | locked

record closing =
  cl_companyId :: id
  cl_branchId :: id
  cl_closingDate :: nat
  cl_expectedCash :: number
  cl_countedCash :: number
  cl_difference :: number
  cl_totalSales :: number
  cl_totalProfit :: number
  cl_totalReturns :: number
  cl_totalReturnsProfitImpact :: number
  cl_totalReturnAdjustments :: number
  cl_totalReturnsCogsCredited :: number
  cl_refundsPaidTotal :: number
  cl_refundsPaidCash :: number
  cl_supplierPaidTotal :: number
  cl_supplierPaidCash :: number
  cl_correctionsTotal :: number
  cl_correctionsCash :: number
  cl_expensesCash :: number
  cl_status :: ClosingStatus
  cl_isLocked :: bool
  cl_closedById :: "id option"
  cl_countedById :: "id option"
  cl_countedAt :: "nat option"
  cl_version :: nat

datatype Channel = ch_cash | ch_account

record channel_count =
  cn_companyId :: id
  cn_closingId :: id
  cn_channel :: Channel
  cn_receivingAccountId :: "id option"
  cn_labelSnapshot :: string
  cn_sums :: Sums
  cn_expected :: number
  cn_counted :: "number option"
  cn_difference :: "number option"
  cn_isSkipped :: bool
  cn_skipReason :: "string option"
  cn_countedById :: "id option"
  cn_countedAt :: "nat option"

datatype DiscrepancyStatus = pending_investigation | resolved

datatype DiscrepancyResolution = employee_debt | store_absorbed | error_corrected | res_forgiven

record discrepancy =
  dp_companyId :: id
  dp_branchId :: id
  dp_closingId :: id
  dp_channelCountId :: "id option"
  dp_amount :: number
  dp_status :: DiscrepancyStatus
  dp_resolution :: "DiscrepancyResolution option"
  dp_responsibleUserId :: "id option"
  dp_resolutionReason :: "string option"
  dp_openedAt :: nat
  dp_resolvedById :: "id option"
  dp_resolvedAt :: "nat option"
  dp_version :: nat

datatype DebtEntryKind = charge | repayment | deduction | forgiveness

datatype DebtRepaymentMethod = by_cash | by_account | by_payroll

record debt_entry =
  de_companyId :: id
  de_branchId :: id
  de_userId :: id
  de_discrepancyId :: "id option"
  de_kind :: DebtEntryKind
  de_amount :: number
  de_reason :: string
  de_method :: "DebtRepaymentMethod option"
  de_reference :: "string option"
  de_entryDate :: nat
  de_createdById :: id
  de_clientUuid :: "id option"

record rollup =
  ru_companyId :: id
  ru_revenue :: number
  ru_cogs :: number
  ru_grossProfit :: number
  ru_salesCount :: nat
  ru_qtySold :: nat
  ru_expenses :: number
  ru_netProfit :: number
  ru_returnsRevenue :: number
  ru_returnsCogs :: number
  ru_returnsAdjustments :: number
  ru_returnsGrossProfit :: number
  ru_returnsCount :: nat
  ru_refundsPaidTotal :: number
  ru_refundsPaidCash :: number
  ru_refundsPaidCount :: nat
  ru_correctionsTotal :: number
  ru_correctionsCash :: number
  ru_correctionsCount :: nat
  ru_expensesCash :: number
  ru_expensesCount :: nat
  ru_expensesFixed :: number
  ru_expensesSalary :: number
  ru_refreshedAt :: nat

record digest_line =
  dl_identifier :: "string option"
  dl_productLabel :: "string option"
  dl_employeeId :: id
  dl_salePrice :: number
  dl_purchaseCost :: number
  dl_profit :: number
  dl_soldAt :: nat

record digest =
  dg_companyId :: id
  dg_branchId :: id
  dg_closingId :: id
  dg_digestDate :: nat
  dg_revenue :: number
  dg_costOfGoodsSold :: number
  dg_grossProfit :: number
  dg_lines :: "digest_line list"

record user_row =
  us_companyId :: id
  us_name :: string

text \<open>The rollups have one row per branch and day.\<close>

record books =
  bk_sales :: "(id, sale_row) table"
  bk_items :: "(id, sale_item) table"
  bk_payments :: "(id, payment_row) table"
  bk_reversals :: "(id, reversal) table"
  bk_payouts :: "(id, payout) table"
  bk_suppliers :: "(id, supplier) table"
  bk_purchases :: "(id, purchase) table"
  bk_settlements :: "(id, settlement) table"
  bk_allocations :: "(id, allocation) table"
  bk_expenses :: "(id, expense) table"
  bk_corrections :: "(id, correction) table"
  bk_closings :: "(id, closing) table"
  bk_counts :: "(id, channel_count) table"
  bk_discrepancies :: "(id, discrepancy) table"
  bk_debts :: "(id, debt_entry) table"
  bk_rollups :: "(id \<times> nat, rollup) table"
  bk_digests :: "(id, digest) table"
  bk_accounts :: "(id, account_row) table"
  bk_users :: "(id, user_row) table"
  bk_units :: units
  bk_products :: "(id, product) table"
  bk_stock :: stock
  bk_customers :: "(id, customer) table"
  bk_windows :: "(id, int) table"
  bk_counters :: counters
  bk_overrides :: "(id, override) table"
  bk_variants :: "(id, variant_price) table"
  bk_returns :: "(id, return_request) table"
  bk_adjustments :: "(id, adjustment) table"
  bk_assignments :: "assignment list"
  bk_audit :: "audit_row list"
  bk_notifications :: "notification list"

text \<open>Books in which nothing has been written.\<close>

definition ex_no_books :: books where
  "ex_no_books = \<lparr>bk_sales = [], bk_items = [], bk_payments = [], bk_reversals = [], bk_payouts = [], bk_suppliers = [],
     bk_purchases = [], bk_settlements = [], bk_allocations = [], bk_expenses = [], bk_corrections = [], bk_closings = [],
     bk_counts = [], bk_discrepancies = [], bk_debts = [], bk_rollups = [], bk_digests = [], bk_accounts = [],
     bk_users = [], bk_units = [], bk_products = [], bk_stock = [], bk_customers = [], bk_windows = [], bk_counters = [],
     bk_overrides = [], bk_variants = [], bk_returns = [], bk_adjustments = [], bk_assignments = [], bk_audit = [], bk_notifications = []\<rparr>"

section \<open>SQL\<close>

text \<open>The rows of a table that satisfy a condition, without their keys.\<close>

definition rows_where :: "('v \<Rightarrow> bool) \<Rightarrow> ('k, 'v) table \<Rightarrow> 'v list" where
  "rows_where p t = filter p (map snd t)"

text \<open>\<^verbatim>\<open>COALESCE(SUM(f), 0)\<close>\<close>

definition sum_of :: "('v \<Rightarrow> number) \<Rightarrow> 'v list \<Rightarrow> number" where
  "sum_of f rs = (\<Sum>r\<leftarrow>rs. f r)"

text \<open>\<^verbatim>\<open>SELECT k, SUM(f) ... GROUP BY k\<close>: one row per group that has rows.\<close>

definition group_sum :: "('v \<Rightarrow> 'g) \<Rightarrow> ('v \<Rightarrow> number) \<Rightarrow> 'v list \<Rightarrow> ('g \<times> number) list" where
  "group_sum key f rs = map (\<lambda>g. (g, sum_of f (filter (\<lambda>r. key r = g) rs))) (remdups (map key rs))"

text \<open>\<^verbatim>\<open>gte: start, lt: end\<close> of one UTC day.\<close>

definition on_day :: "nat \<Rightarrow> nat \<Rightarrow> bool" where
  "on_day day t \<longleftrightarrow> day * 86400000 \<le> t \<and> t < day * 86400000 + 86400000"

lemma on_day_iff: "on_day day t \<longleftrightarrow> dayKey t = day"
  unfolding on_day_def dayKey_def by (auto intro: div_nat_eqI)

lemma sum_of_simps [simp]: "sum_of f [] = 0" "sum_of f (r # rs) = f r + sum_of f rs" "sum_of f (rs @ rs') = sum_of f rs + sum_of f rs'"
  by (simp_all add: sum_of_def)

lemma sum_of_cong: "(\<And>x. x \<in> set xs \<Longrightarrow> f x = g x) \<Longrightarrow> sum_of f xs = sum_of g xs"
  by (induction xs) simp_all

lemma sum_of_diff: "sum_of (\<lambda>x. f x - g x) xs = sum_of f xs - sum_of g xs"
  by (induction xs) simp_all

lemma sum_of_cents [intro]: "(\<And>r. r \<in> set rs \<Longrightarrow> is_cents (f r)) \<Longrightarrow> is_cents (sum_of f rs)"
  by (simp add: sum_of_def)

lemma sum_of_filter_if: "sum_of f (filter p rs) = sum_of (\<lambda>r. if p r then f r else 0) rs"
  by (induction rs) auto

text \<open>Summing the groups that satisfy a condition on their key is summing the rows that do.\<close>

lemma sum_of_groups:
  "sum_of snd (filter (\<lambda>(g, _). p g) (group_sum key f rs)) = sum_of f (filter (\<lambda>r. p (key r)) rs)"
proof -
  have keyed: "sum_of snd (filter (\<lambda>(g, _). p g) (map (\<lambda>g. (g, h g)) gs)) = (\<Sum>g\<leftarrow>gs. if p g then h g else 0)" for h gs
    by (induction gs) auto
  have dist: "(\<Sum>g\<leftarrow>gs. if p g then sum_of f (filter (\<lambda>r. key r = g) rs) else 0) =
      sum_of f (filter (\<lambda>r. p (key r) \<and> key r \<in> set gs) rs)" if "distinct gs" for gs
    using that
  proof (induction gs)
    case (Cons g gs)
    have "sum_of f (filter (\<lambda>r. p (key r) \<and> key r \<in> set (g # gs)) rs) =
        (if p g then sum_of f (filter (\<lambda>r. key r = g) rs) else 0) + sum_of f (filter (\<lambda>r. p (key r) \<and> key r \<in> set gs) rs)"
      using Cons.prems by (induction rs) auto
    with Cons show ?case by simp
  qed simp
  have "sum_of snd (filter (\<lambda>(g, _). p g) (group_sum key f rs)) =
      (\<Sum>g\<leftarrow>remdups (map key rs). if p g then sum_of f (filter (\<lambda>r. key r = g) rs) else 0)"
    unfolding group_sum_def by (rule keyed)
  also have "\<dots> = sum_of f (filter (\<lambda>r. p (key r) \<and> key r \<in> set (remdups (map key rs))) rs)"
    by (rule dist) simp
  also have "\<dots> = sum_of f (filter (\<lambda>r. p (key r)) rs)"
    by (rule arg_cong [where f = "sum_of f"]) (rule filter_cong, auto)
  finally show ?thesis .
qed

end
