(* ===== verification/ClosingRules.thy ===== *)
theory ClosingRules
  imports Books
begin

text \<open>
  The pure rules of the daily closing: which channels a branch has to count and what each is
  expected to hold (\<^verbatim>\<open>src/src/closing/channels.ts\<close>), and what may follow a difference
  (\<^verbatim>\<open>src/src/closing/debt-rules.ts\<close>). The debt ledger is the third instance of the signed
  ledger.
\<close>

section \<open>Channels\<close>

datatype Component = c_salesIn | c_refundsOut | c_supplierOut | c_expensesOut | c_correctionsIn

fun COMPONENT_SIGN :: "Component \<Rightarrow> int" where
  "COMPONENT_SIGN c_salesIn = 1"
| "COMPONENT_SIGN c_refundsOut = -1"
| "COMPONENT_SIGN c_supplierOut = -1"
| "COMPONENT_SIGN c_expensesOut = -1"
| "COMPONENT_SIGN c_correctionsIn = 1"

definition CASH_LABEL :: string where
  "CASH_LABEL = ''CASH''"

definition UNATTRIBUTED_LABEL :: string where
  "UNATTRIBUTED_LABEL = ''UNATTRIBUTED''"

record MovementRow =
  mv_accountId :: "id option"
  mv_channel :: Channel
  mv_component :: Component
  mv_amount :: number

record AccountRow =
  ar_id :: id
  ar_label :: string
  ar_isActive :: bool
  ar_sortOrder :: int

text \<open>The five rounded components of the row are its \<open>Sums\<close>.\<close>

record ChannelRow =
  cr_channel :: Channel
  cr_accountId :: "id option"
  cr_labelSnapshot :: string
  cr_isUnattributed :: bool
  cr_sums :: Sums
  cr_expected :: number

definition empty_sums :: Sums where
  "empty_sums = \<lparr>salesIn = 0, refundsOut = 0, supplierOut = 0, expensesOut = 0, correctionsIn = 0\<rparr>"

fun sums_get :: "Component \<Rightarrow> Sums \<Rightarrow> number" where
  "sums_get c_salesIn s = salesIn s"
| "sums_get c_refundsOut s = refundsOut s"
| "sums_get c_supplierOut s = supplierOut s"
| "sums_get c_expensesOut s = expensesOut s"
| "sums_get c_correctionsIn s = correctionsIn s"

fun sums_add :: "Component \<Rightarrow> number \<Rightarrow> Sums \<Rightarrow> Sums" where
  "sums_add c_salesIn a s = s\<lparr>salesIn := salesIn s + a\<rparr>"
| "sums_add c_refundsOut a s = s\<lparr>refundsOut := refundsOut s + a\<rparr>"
| "sums_add c_supplierOut a s = s\<lparr>supplierOut := supplierOut s + a\<rparr>"
| "sums_add c_expensesOut a s = s\<lparr>expensesOut := expensesOut s + a\<rparr>"
| "sums_add c_correctionsIn a s = s\<lparr>correctionsIn := correctionsIn s + a\<rparr>"

text \<open>
  The map \<^verbatim>\<open>totals\<close> in insertion order. Its key is the pair behind the text
  \<^verbatim>\<open>`${channel}:${accountId ?? 'NONE'}`\<close>, which the code splits again at the colon: the text
  of a UUID has no colon and is not \<^verbatim>\<open>NONE\<close>.
\<close>

type_synonym channel_key = "Channel \<times> id option"

definition bucket :: "channel_key \<Rightarrow> (channel_key, Sums) table \<Rightarrow> (channel_key, Sums) table" where
  "bucket k t = (case map_of t k of None \<Rightarrow> t_insert k empty_sums t | Some _ \<Rightarrow> t)"

definition movement_key :: "MovementRow \<Rightarrow> channel_key" where
  "movement_key m = (mv_channel m, if mv_channel m = ch_cash then None else mv_accountId m)"

definition add_movement :: "MovementRow \<Rightarrow> (channel_key, Sums) table \<Rightarrow> (channel_key, Sums) table" where
  "add_movement m t =
     (if mv_amount m = 0 then t
      else t_update (movement_key m) (sums_add (mv_component m) (mv_amount m)) (bucket (movement_key m) t))"

definition channel_totals :: "MovementRow list \<Rightarrow> AccountRow list \<Rightarrow> (channel_key, Sums) table" where
  "channel_totals movements accounts =
     fold add_movement movements
       (fold (\<lambda>a t. if ar_isActive a then bucket (ch_account, Some (ar_id a)) t else t) accounts
          (bucket (ch_cash, None) []))"

definition expected_of :: "Sums \<Rightarrow> number" where
  "expected_of s =
     round2 (of_int (COMPONENT_SIGN c_salesIn) * salesIn s + of_int (COMPONENT_SIGN c_refundsOut) * refundsOut s +
             of_int (COMPONENT_SIGN c_supplierOut) * supplierOut s + of_int (COMPONENT_SIGN c_expensesOut) * expensesOut s +
             of_int (COMPONENT_SIGN c_correctionsIn) * correctionsIn s)"

definition round_sums :: "Sums \<Rightarrow> Sums" where
  "round_sums s = \<lparr>salesIn = round2 (salesIn s), refundsOut = round2 (refundsOut s), supplierOut = round2 (supplierOut s),
                   expensesOut = round2 (expensesOut s), correctionsIn = round2 (correctionsIn s)\<rparr>"

definition channel_row :: "AccountRow list \<Rightarrow> channel_key \<times> Sums \<Rightarrow> ChannelRow" where
  "channel_row accounts x =
     (let channel = fst (fst x); acc = snd (fst x); unatt = (channel = ch_account \<and> acc = None)
      in \<lparr>cr_channel = channel, cr_accountId = acc,
          cr_labelSnapshot =
            (if channel = ch_cash then CASH_LABEL
             else if unatt then UNATTRIBUTED_LABEL
             else (case map_of (rev (map (\<lambda>a. (Some (ar_id a), ar_label a)) accounts)) acc of
                     None \<Rightarrow> UNATTRIBUTED_LABEL | Some l \<Rightarrow> l)),
          cr_isUnattributed = unatt, cr_sums = round_sums (snd x), cr_expected = expected_of (snd x)\<rparr>)"

text \<open>
  The comparison of the final sort; \<^verbatim>\<open>localeCompare\<close> is a parameter. \<^verbatim>\<open>Array.sort\<close> is stable,
  so its result is the one of insertion from the right.
\<close>

definition channel_compare ::
  "(string \<Rightarrow> string \<Rightarrow> int) \<Rightarrow> AccountRow list \<Rightarrow> ChannelRow \<Rightarrow> ChannelRow \<Rightarrow> int" where
  "channel_compare localeCompare accounts a b =
     (let order_of = (\<lambda>r. case map_of (rev (map (\<lambda>a. (Some (ar_id a), ar_sortOrder a)) accounts)) (cr_accountId r) of
                            None \<Rightarrow> 0 | Some n \<Rightarrow> n);
          byOrder = order_of a - order_of b
      in if cr_channel a \<noteq> cr_channel b then (if cr_channel a = ch_cash then -1 else 1)
         else if cr_isUnattributed a \<noteq> cr_isUnattributed b then (if cr_isUnattributed a then 1 else -1)
         else if byOrder \<noteq> 0 then byOrder
         else localeCompare (cr_labelSnapshot a) (cr_labelSnapshot b))"

fun insert_by :: "('a \<Rightarrow> 'a \<Rightarrow> int) \<Rightarrow> 'a \<Rightarrow> 'a list \<Rightarrow> 'a list" where
  "insert_by cmp x [] = [x]"
| "insert_by cmp x (y # ys) = (if cmp x y \<le> 0 then x # y # ys else y # insert_by cmp x ys)"

definition sort_by :: "('a \<Rightarrow> 'a \<Rightarrow> int) \<Rightarrow> 'a list \<Rightarrow> 'a list" where
  "sort_by cmp xs = foldr (insert_by cmp) xs []"

definition buildChannels ::
  "(string \<Rightarrow> string \<Rightarrow> int) \<Rightarrow> MovementRow list \<Rightarrow> AccountRow list \<Rightarrow> ChannelRow list" where
  "buildChannels localeCompare movements accounts =
     sort_by (channel_compare localeCompare accounts)
       (map (channel_row accounts) (channel_totals movements accounts))"

definition isCountable :: "ChannelRow \<Rightarrow> bool" where
  "isCountable r \<longleftrightarrow> \<not> cr_isUnattributed r"

text \<open>A row of the counting screen: the channel with the count or the skip it has.\<close>

record OpenRow =
  or_channel :: ChannelRow
  or_counted :: "number option"
  or_difference :: "number option"
  or_isSkipped :: bool
  or_skipReason :: "string option"
  or_countedAt :: "nat option"

definition countingComplete :: "OpenRow list \<Rightarrow> bool" where
  "countingComplete rows = list_all (\<lambda>r. or_counted r \<noteq> None \<or> or_isSkipped r) (filter (\<lambda>r. isCountable (or_channel r)) rows)"

section \<open>Debts\<close>

definition NEEDS_A_PERSON :: "DiscrepancyResolution list" where
  "NEEDS_A_PERSON = [employee_debt, res_forgiven]"

fun ENTRY_SIGN :: "DebtEntryKind \<Rightarrow> int" where
  "ENTRY_SIGN charge = 1"
| "ENTRY_SIGN repayment = -1"
| "ENTRY_SIGN deduction = -1"
| "ENTRY_SIGN forgiveness = -1"

datatype rule_violation =
    ResolveNeedsReason
  | NothingToResolve
  | NameSomebody
  | DoesNotNameAPerson
  | SurplusIsNotADebt
  | EntryNeedsReason
  | EntryNotPositive
  | ChargeOnItsOwn
  | RepaymentNeedsMethod
  | OnlyRepaymentHasMethod
  | MoreThanStillOwed number

record DebtRow =
  d_kind :: DebtEntryKind
  d_amount :: number

definition balanceOf :: "DebtRow list \<Rightarrow> number" where
  "balanceOf entries = round2 (\<Sum>e\<leftarrow>entries. of_int (ENTRY_SIGN (d_kind e)) * d_amount e)"

definition planResolution ::
  "DiscrepancyResolution \<Rightarrow> string option \<Rightarrow> id option \<Rightarrow> number \<Rightarrow> rule_violation + DebtRow list" where
  "planResolution resolution reason responsibleUserId amount =
     (if blank reason then Inl ResolveNeedsReason
      else if amount = 0 then Inl NothingToResolve
      else if resolution \<in> set NEEDS_A_PERSON \<and> responsibleUserId = None then Inl NameSomebody
      else if resolution \<notin> set NEEDS_A_PERSON \<and> responsibleUserId \<noteq> None then Inl DoesNotNameAPerson
      else if amount > 0 \<and> resolution = employee_debt then Inl SurplusIsNotADebt
      else
        (let magnitude = round2 \<bar>amount\<bar>
         in case resolution of
              employee_debt \<Rightarrow> Inr [\<lparr>d_kind = charge, d_amount = magnitude\<rparr>]
            | res_forgiven \<Rightarrow> Inr [\<lparr>d_kind = charge, d_amount = magnitude\<rparr>, \<lparr>d_kind = forgiveness, d_amount = magnitude\<rparr>]
            | store_absorbed \<Rightarrow> Inr []
            | error_corrected \<Rightarrow> Inr []))"

definition assertEntryAllowed ::
  "DebtEntryKind \<Rightarrow> number \<Rightarrow> string option \<Rightarrow> DebtRepaymentMethod option \<Rightarrow> number \<Rightarrow> rule_violation + unit" where
  "assertEntryAllowed kind amount reason meth owed =
     (if blank reason then Inl EntryNeedsReason
      else if \<not> amount > 0 then Inl EntryNotPositive
      else if kind = charge then Inl ChargeOnItsOwn
      else if kind = repayment \<and> meth = None then Inl RepaymentNeedsMethod
      else if kind \<noteq> repayment \<and> meth \<noteq> None then Inl OnlyRepaymentHasMethod
      else if round2 amount > round2 owed then Inl (MoreThanStillOwed (round2 owed))
      else Inr ())"

definition opensDiscrepancy :: "number option \<Rightarrow> bool \<Rightarrow> number option \<Rightarrow> bool" where
  "opensDiscrepancy cnt isSkipped difference =
     (if isSkipped \<or> cnt = None then False
      else round2 (case difference of None \<Rightarrow> 0 | Some d \<Rightarrow> d) \<noteq> 0)"

section \<open>Lemmas on sorting and buckets\<close>

lemma mset_insert_by [simp]: "mset (insert_by cmp x ys) = add_mset x (mset ys)"
  by (induction ys) auto

lemma mset_sort_by [simp]: "mset (sort_by cmp xs) = mset xs"
  by (induction xs) (auto simp: sort_by_def)

lemma set_sort_by [simp]: "set (sort_by cmp xs) = set xs"
  by (metis mset_sort_by set_mset_mset)

interpretation debt_ledger: signed_ledger ENTRY_SIGN d_kind d_amount balanceOf
proof
  show "ENTRY_SIGN k = - 1 \<or> ENTRY_SIGN k = 0 \<or> ENTRY_SIGN k = 1" for k
    by (cases k) simp_all
qed (simp add: balanceOf_def)

lemma planResolution_ok:
  "planResolution res reason who amount = Inr plan \<longleftrightarrow>
     \<not> blank reason \<and> amount \<noteq> 0 \<and> (res \<in> {employee_debt, res_forgiven} \<longleftrightarrow> who \<noteq> None) \<and>
     (res = employee_debt \<longrightarrow> amount < 0) \<and>
     plan = (if res = employee_debt then [\<lparr>d_kind = charge, d_amount = round2 \<bar>amount\<bar>\<rparr>]
             else if res = res_forgiven
               then [\<lparr>d_kind = charge, d_amount = round2 \<bar>amount\<bar>\<rparr>, \<lparr>d_kind = forgiveness, d_amount = round2 \<bar>amount\<bar>\<rparr>]
             else [])"
  unfolding planResolution_def NEEDS_A_PERSON_def Let_def by (cases res; cases who) auto

lemma assertEntryAllowed_ok:
  "assertEntryAllowed kind amount reason meth owed = Inr u \<longleftrightarrow>
     \<not> blank reason \<and> 0 < amount \<and> kind \<noteq> charge \<and> (kind = repayment \<longleftrightarrow> meth \<noteq> None) \<and> round2 amount \<le> round2 owed"
  unfolding assertEntryAllowed_def by (cases meth) auto

lemma bucket_lookup:
  "map_of (bucket k t) k' = (if k' = k \<and> map_of t k = None then Some empty_sums else map_of t k')"
  by (auto simp: bucket_def split: option.splits)

lemma bucket_keys: "t_wf t \<Longrightarrow> t_wf (bucket k t)" "set (t_keys (bucket k t)) = insert k (set (t_keys t))"
  by (auto simp: bucket_def t_keys_def t_insert_def t_wf_def map_of_eq_None_iff split: option.splits)
    (metis map_of_SomeD image_eqI fst_conv)

end
