(* ===== verification/Closing.thy ===== *)
theory Closing
  imports ClosingRules
begin

text \<open>
  The daily closing: the rollup of one branch and day (the totals of
  \<^verbatim>\<open>src/src/analytics/rollup.service.ts\<close>, \<^verbatim>\<open>recomputeDaily\<close>), the movements per channel, the
  counting of a channel and the sign-off of a day (\<^verbatim>\<open>src/src/closing/closing.service.ts\<close>).
  The comparison with earlier days in the answer of the sign-off and the facts per product
  of the rollup are not modelled. Every read is restricted to the company of the request, as
  the tenant client does; identifiers drawn are arguments.
\<close>

section \<open>The rollup of a branch and day\<close>

definition sold_on :: "id \<Rightarrow> nat \<Rightarrow> id \<Rightarrow> books \<Rightarrow> bool" where
  "sold_on branch day saleId b \<longleftrightarrow>
     (case map_of (bk_sales b) saleId of
        None \<Rightarrow> False
      | Some s \<Rightarrow> sa_branchId s = branch \<and> on_day day (sa_soldAt s))"

definition day_items :: "id \<Rightarrow> id \<Rightarrow> nat \<Rightarrow> books \<Rightarrow> sale_item list" where
  "day_items co branch day b =
     rows_where (\<lambda>i. it_companyId i = co \<and> sold_on branch day (it_saleId i) b \<and> \<not> it_voided i) (bk_items b)"

definition day_expenses :: "id \<Rightarrow> id \<Rightarrow> nat \<Rightarrow> books \<Rightarrow> expense list" where
  "day_expenses co branch day b =
     rows_where (\<lambda>x. x_companyId x = co \<and> x_branchId x = Some branch \<and> x_status x = ex_confirmed \<and>
                     (x_expenseClass x = variable \<and> x_confirmationDate x = Some day \<or>
                      x_expenseClass x = fixed \<and> x_dueDate x = Some day)) (bk_expenses b)"

definition day_reversals :: "id \<Rightarrow> id \<Rightarrow> nat \<Rightarrow> books \<Rightarrow> reversal list" where
  "day_reversals co branch day b =
     rows_where (\<lambda>r. rv_companyId r = co \<and> rv_branchId r = branch \<and> rv_approvalDate r = day) (bk_reversals b)"

definition day_payouts :: "id \<Rightarrow> id \<Rightarrow> nat \<Rightarrow> books \<Rightarrow> payout list" where
  "day_payouts co branch day b =
     rows_where (\<lambda>p. po_companyId p = co \<and> po_branchId p = branch \<and> po_status p = payout_confirmed \<and>
                     po_confirmationDate p = Some day) (bk_payouts b)"

definition day_corrections :: "id \<Rightarrow> id \<Rightarrow> nat \<Rightarrow> books \<Rightarrow> correction list" where
  "day_corrections co branch day b =
     rows_where (\<lambda>f. fc_companyId f = co \<and> fc_branchId f = branch \<and> fc_status f = fc_approved \<and>
                     fc_correctionDate f = Some day) (bk_corrections b)"

definition daily_figures :: "id \<Rightarrow> id \<Rightarrow> nat \<Rightarrow> nat \<Rightarrow> books \<Rightarrow> rollup" where
  "daily_figures co branch day now b =
     (let items = day_items co branch day b; exps = day_expenses co branch day b;
          revs = day_reversals co branch day b; outs = day_payouts co branch day b;
          cors = day_corrections co branch day b;
          returnsRevenue = round2 (sum_of rv_grossRefund revs);
          returnsAdjustments = round2 (sum_of rv_adjustmentTotal revs);
          returnsCogs = round2 (sum_of rv_lineCost revs);
          returnsGrossProfit = round2 (returnsRevenue - returnsAdjustments - returnsCogs);
          revenue = round2 (sum_of (\<lambda>i. it_price i * of_nat (it_quantity i) - it_discount i) items);
          cogs = round2 (sum_of (\<lambda>i. it_cost i * of_nat (it_quantity i)) items);
          grossProfit = round2 (revenue - cogs);
          expenses = round2 (sum_of x_amount exps)
      in \<lparr>ru_companyId = co, ru_revenue = revenue, ru_cogs = cogs, ru_grossProfit = grossProfit,
          ru_salesCount = length (remdups (map it_saleId items)),
          ru_qtySold = (\<Sum>i\<leftarrow>items. it_quantity i),
          ru_expenses = expenses, ru_netProfit = round2 (grossProfit - returnsGrossProfit - expenses),
          ru_returnsRevenue = returnsRevenue, ru_returnsCogs = returnsCogs,
          ru_returnsAdjustments = returnsAdjustments, ru_returnsGrossProfit = returnsGrossProfit,
          ru_returnsCount = length revs,
          ru_refundsPaidTotal = round2 (sum_of po_reportedAmount outs),
          ru_refundsPaidCash = round2 (sum_of po_reportedAmount (filter (\<lambda>p. po_method p = cash) outs)),
          ru_refundsPaidCount = length outs,
          ru_correctionsTotal = round2 (sum_of fc_amount cors),
          ru_correctionsCash = round2 (sum_of fc_amount (filter (\<lambda>f. fc_method f = cash) cors)),
          ru_correctionsCount = length cors,
          ru_expensesCash = round2 (sum_of x_amount (filter (\<lambda>x. x_method x = cash) exps)),
          ru_expensesCount = length exps,
          ru_expensesFixed = round2 (sum_of x_amount (filter (\<lambda>x. x_expenseClass x = fixed) exps)),
          ru_expensesSalary = round2 (sum_of x_amount (filter x_isSalary exps)),
          ru_refreshedAt = now\<rparr>)"

text \<open>The upsert; the update leaves the company of the row.\<close>

definition recomputeDaily :: "id \<Rightarrow> id \<Rightarrow> nat \<Rightarrow> nat \<Rightarrow> books \<Rightarrow> books" where
  "recomputeDaily co branch day now b =
     (let fig = daily_figures co branch day now b
      in b\<lparr>bk_rollups := (case map_of (bk_rollups b) (branch, day) of
                             None \<Rightarrow> t_insert (branch, day) fig (bk_rollups b)
                           | Some _ \<Rightarrow> t_update (branch, day) (\<lambda>r. fig\<lparr>ru_companyId := ru_companyId r\<rparr>) (bk_rollups b))\<rparr>)"

definition find_rollup :: "id \<Rightarrow> id \<Rightarrow> nat \<Rightarrow> books \<Rightarrow> rollup option" where
  "find_rollup co branch day b =
     (case map_of (bk_rollups b) (branch, day) of
        None \<Rightarrow> None
      | Some r \<Rightarrow> if ru_companyId r = co then Some r else None)"

text \<open>\<^verbatim>\<open>round2(num(rollup?.f ?? 0))\<close>\<close>

definition figure :: "rollup option \<Rightarrow> (rollup \<Rightarrow> number) \<Rightarrow> number" where
  "figure r f = round2 (case r of None \<Rightarrow> 0 | Some x \<Rightarrow> f x)"

section \<open>Movements per channel\<close>

definition day_payments :: "id \<Rightarrow> id \<Rightarrow> nat \<Rightarrow> books \<Rightarrow> payment_row list" where
  "day_payments co branch day b =
     rows_where (\<lambda>p. pm_companyId p = co \<and> sold_on branch day (pm_saleId p) b) (bk_payments b)"

definition day_settlements :: "id \<Rightarrow> id \<Rightarrow> nat \<Rightarrow> books \<Rightarrow> settlement list" where
  "day_settlements co branch day b =
     rows_where (\<lambda>s. st_companyId s = co \<and> st_branchId s = branch \<and> st_status s = st_confirmed \<and>
                     st_confirmationDate s = Some day) (bk_settlements b)"

text \<open>\<^verbatim>\<open>IF(expense_class = 'fixed', due_date, confirmation_date) = day\<close>\<close>

definition channel_expenses :: "id \<Rightarrow> id \<Rightarrow> nat \<Rightarrow> books \<Rightarrow> expense list" where
  "channel_expenses co branch day b =
     rows_where (\<lambda>x. x_companyId x = co \<and> x_branchId x = Some branch \<and> x_status x = ex_confirmed \<and>
                     (if x_expenseClass x = fixed then x_dueDate x else x_confirmationDate x) = Some day) (bk_expenses b)"

text \<open>The account of the payment that a correction reverses, by two left joins.\<close>

definition corrected_account :: "books \<Rightarrow> correction \<Rightarrow> id option" where
  "corrected_account b f =
     (let rp = (case fc_targetRefundPayoutId f of None \<Rightarrow> None
                | Some i \<Rightarrow> Option.bind (map_of (bk_payouts b) i) po_receivingAccountId);
          ss = (case fc_targetSupplierSettlementId f of None \<Rightarrow> None
                | Some i \<Rightarrow> Option.bind (map_of (bk_settlements b) i) st_receivingAccountId)
      in case rp of Some a \<Rightarrow> Some a | None \<Rightarrow> ss)"

text \<open>One part of the union: rows grouped by method and account, cash without its account.\<close>

definition method_part ::
  "Component \<Rightarrow> ('r \<Rightarrow> Method) \<Rightarrow> ('r \<Rightarrow> id option) \<Rightarrow> ('r \<Rightarrow> number) \<Rightarrow> 'r list \<Rightarrow> MovementRow list" where
  "method_part cpt meth acc f rs =
     map (\<lambda>((m, a), s). \<lparr>mv_accountId = (if m = cash then None else a),
                          mv_channel = (if m = cash then ch_cash else ch_account),
                          mv_component = cpt, mv_amount = round2 s\<rparr>)
       (group_sum (\<lambda>r. (meth r, acc r)) f rs)"

definition sales_part :: "payment_row list \<Rightarrow> MovementRow list" where
  "sales_part ps =
     (let cashRows = filter (\<lambda>p. pm_method p = pm_cash) ps
      in (if cashRows = [] then []
          else [\<lparr>mv_accountId = None, mv_channel = ch_cash, mv_component = c_salesIn,
                 mv_amount = round2 (sum_of pm_amount cashRows)\<rparr>]) @
         map (\<lambda>(a, s). \<lparr>mv_accountId = a, mv_channel = ch_account, mv_component = c_salesIn, mv_amount = round2 s\<rparr>)
           (group_sum pm_receivingAccountId pm_amount (filter (\<lambda>p. pm_method p \<noteq> pm_cash) ps)))"

definition channelMovements :: "id \<Rightarrow> id \<Rightarrow> nat \<Rightarrow> books \<Rightarrow> MovementRow list" where
  "channelMovements co branch day b =
     sales_part (day_payments co branch day b) @
     method_part c_refundsOut po_method po_receivingAccountId po_reportedAmount (day_payouts co branch day b) @
     method_part c_supplierOut st_method st_receivingAccountId st_amount (day_settlements co branch day b) @
     method_part c_expensesOut x_method x_receivingAccountId x_amount (channel_expenses co branch day b) @
     method_part c_correctionsIn fc_method (corrected_account b) fc_amount (day_corrections co branch day b)"

definition account_rows :: "id \<Rightarrow> books \<Rightarrow> AccountRow list" where
  "account_rows co b =
     sort_key ar_sortOrder
       (map (\<lambda>(i, a). \<lparr>ar_id = i, ar_label = ac_label a, ar_isActive = ac_isActive a, ar_sortOrder = ac_sortOrder a\<rparr>)
         (filter (\<lambda>(_, a). ac_companyId a = co) (bk_accounts b)))"

definition expectedChannels :: "(string \<Rightarrow> string \<Rightarrow> int) \<Rightarrow> id \<Rightarrow> id \<Rightarrow> nat \<Rightarrow> books \<Rightarrow> ChannelRow list" where
  "expectedChannels localeCompare co branch day b =
     buildChannels localeCompare (channelMovements co branch day b) (account_rows co b)"

text \<open>\<^verbatim>\<open>SuppliersService.paidOn\<close>: the total and the cash part.\<close>

definition paidOn :: "id \<Rightarrow> id \<Rightarrow> nat \<Rightarrow> books \<Rightarrow> number \<times> number" where
  "paidOn co branch day b =
     (let by = group_sum st_method st_amount (day_settlements co branch day b);
          get = (\<lambda>m. case map_of by m of None \<Rightarrow> 0 | Some s \<Rightarrow> s)
      in (round2 (get cash + get account), round2 (get cash)))"

section \<open>Reading a day\<close>

datatype closing_reason =
    BranchRequired
  | DayAlreadyClosed nat
  | CashAlreadyCounted number nat
  | NobodyCountedCash
  | ChangedWhileClosing
  | UniqueViolation
  | CountedAndSkipped
  | SkipNeedsReason
  | CountOrSkip
  | WhichAccount
  | CashHasNoAccount
  | NotAChannelToday
  | NothingToCountAgainst
  | NoClosing nat

type_synonym closing_error = "closing_reason http_error"

definition find_closing :: "id \<Rightarrow> id \<Rightarrow> nat \<Rightarrow> books \<Rightarrow> (id \<times> closing) option" where
  "find_closing co branch day b =
     find (\<lambda>(_, k). cl_companyId k = co \<and> cl_branchId k = branch \<and> cl_closingDate k = day) (bk_closings b)"

definition counts_of :: "id \<Rightarrow> books \<Rightarrow> (id \<times> channel_count) list" where
  "counts_of i b = filter (\<lambda>(_, n). cn_closingId n = i) (bk_counts b)"

text \<open>The map from channel to saved count; a later row replaces an earlier one.\<close>

definition saved_count :: "(id \<times> channel_count) list \<Rightarrow> ChannelRow \<Rightarrow> (id \<times> channel_count) option" where
  "saved_count ns ch =
     map_of (rev (map (\<lambda>(i, n). ((cn_channel n, cn_receivingAccountId n), (i, n))) ns)) (cr_channel ch, cr_accountId ch)"

record OpenView =
  ov_date :: nat
  ov_status :: ClosingStatus
  ov_isLocked :: bool
  ov_channels :: "OpenRow list"
  ov_outstanding :: nat
  ov_complete :: bool

definition open_row :: "(id \<times> channel_count) list \<Rightarrow> ChannelRow \<Rightarrow> OpenRow" where
  "open_row ns ch =
     (let saved = map_option snd (saved_count ns ch);
          cnt = map_option round2 (Option.bind saved cn_counted)
      in \<lparr>or_channel = ch, or_counted = cnt, or_difference = map_option (\<lambda>x. round2 (x - cr_expected ch)) cnt,
          or_isSkipped = (case saved of None \<Rightarrow> False | Some n \<Rightarrow> cn_isSkipped n),
          or_skipReason = Option.bind saved cn_skipReason, or_countedAt = Option.bind saved cn_countedAt\<rparr>)"

definition openView :: "(string \<Rightarrow> string \<Rightarrow> int) \<Rightarrow> id \<Rightarrow> id \<Rightarrow> nat \<Rightarrow> books \<Rightarrow> OpenView" where
  "openView localeCompare co branch day b =
     (let k = find_closing co branch day b;
          ns = (case k of None \<Rightarrow> [] | Some (i, _) \<Rightarrow> counts_of i b);
          rows = map (open_row ns) (expectedChannels localeCompare co branch day b)
      in \<lparr>ov_date = day, ov_status = (case k of None \<Rightarrow> counting | Some (_, x) \<Rightarrow> cl_status x),
          ov_isLocked = (case k of None \<Rightarrow> False | Some (_, x) \<Rightarrow> cl_isLocked x), ov_channels = rows,
          ov_outstanding = length (filter (\<lambda>r. isCountable (or_channel r) \<and> or_counted r = None \<and> \<not> or_isSkipped r) rows),
          ov_complete = countingComplete rows\<rparr>)"

definition getClosing :: "ctx \<Rightarrow> nat \<Rightarrow> books \<Rightarrow> closing_error + closing" where
  "getClosing c day b =
     (case c_branchId c of
        None \<Rightarrow> Inl (BadRequest BranchRequired)
      | Some branch \<Rightarrow>
          (case find_closing (c_companyId c) branch day b of
             None \<Rightarrow> Inl (NotFound (NoClosing day))
           | Some (_, k) \<Rightarrow> Inr k))"

section \<open>Counting a channel\<close>

record RecordCountDto =
  rc_channel :: Channel
  rc_accountId :: "id option"
  rc_counted :: "number option"
  rc_skip :: bool
  rc_skipReason :: "string option"
  rc_date :: "nat option"

text \<open>What the handler has read before its first write.\<close>

record CountPlan =
  rp_branch :: id
  rp_day :: nat
  rp_existing :: "id option"
  rp_target :: ChannelRow

definition count_checks :: "RecordCountDto \<Rightarrow> closing_error + unit" where
  "count_checks dto =
     (if rc_skip dto then
        (if rc_counted dto \<noteq> None then Inl (BadRequest CountedAndSkipped)
         else if blank (rc_skipReason dto) then Inl (BadRequest SkipNeedsReason)
         else Inr ())
      else if rc_counted dto = None then Inl (BadRequest CountOrSkip)
      else Inr ())"

definition recordCount_plan ::
  "(string \<Rightarrow> string \<Rightarrow> int) \<Rightarrow> ctx \<Rightarrow> RecordCountDto \<Rightarrow> books \<Rightarrow> closing_error + CountPlan" where
  "recordCount_plan localeCompare c dto b =
     (case c_branchId c of
        None \<Rightarrow> Inl (BadRequest BranchRequired)
      | Some branch \<Rightarrow>
          let day = (case rc_date dto of Some d \<Rightarrow> d | None \<Rightarrow> dayKey (c_now c));
              existing = find_closing (c_companyId c) branch day b
          in bindE (count_checks dto) (\<lambda>_.
             bindE (require (\<not> (rc_channel dto = ch_account \<and> rc_accountId dto = None)) (BadRequest WhichAccount)) (\<lambda>_.
             bindE (require (\<not> (rc_channel dto = ch_cash \<and> rc_accountId dto \<noteq> None)) (BadRequest CashHasNoAccount)) (\<lambda>_.
             bindE (require (\<not> (case existing of None \<Rightarrow> False | Some (_, k) \<Rightarrow> cl_status k = locked))
                      (Conflict (DayAlreadyClosed day))) (\<lambda>_.
               case find (\<lambda>r. cr_channel r = rc_channel dto \<and> cr_accountId r = rc_accountId dto)
                      (expectedChannels localeCompare (c_companyId c) branch day b) of
                 None \<Rightarrow> Inl (NotFound NotAChannelToday)
               | Some r \<Rightarrow>
                   if \<not> isCountable r then Inl (BadRequest NothingToCountAgainst)
                   else Inr \<lparr>rp_branch = branch, rp_day = day, rp_existing = map_option fst existing, rp_target = r\<rparr>)))))"

definition new_closing :: "id \<Rightarrow> id \<Rightarrow> nat \<Rightarrow> closing" where
  "new_closing co branch day =
     \<lparr>cl_companyId = co, cl_branchId = branch, cl_closingDate = day, cl_expectedCash = 0, cl_countedCash = 0,
      cl_difference = 0, cl_totalSales = 0, cl_totalProfit = 0, cl_totalReturns = 0, cl_totalReturnsProfitImpact = 0,
      cl_totalReturnAdjustments = 0, cl_totalReturnsCogsCredited = 0, cl_refundsPaidTotal = 0, cl_refundsPaidCash = 0,
      cl_supplierPaidTotal = 0, cl_supplierPaidCash = 0, cl_correctionsTotal = 0, cl_correctionsCash = 0,
      cl_expensesCash = 0, cl_status = counting, cl_isLocked = False, cl_closedById = None, cl_countedById = None,
      cl_countedAt = None, cl_version = 0\<rparr>"

text \<open>The figures of the channel as they stand, and the count or the skip of the request.\<close>

definition count_payload :: "ctx \<Rightarrow> RecordCountDto \<Rightarrow> ChannelRow \<Rightarrow> channel_count \<Rightarrow> channel_count" where
  "count_payload c dto r n =
     (let cnt = map_option round2 (rc_counted dto)
      in n\<lparr>cn_labelSnapshot := cr_labelSnapshot r, cn_sums := cr_sums r, cn_expected := cr_expected r,
           cn_counted := cnt, cn_difference := map_option (\<lambda>x. round2 (x - cr_expected r)) cnt,
           cn_isSkipped := rc_skip dto, cn_skipReason := (if rc_skip dto then map_option js_trim (rc_skipReason dto) else None),
           cn_countedById := c_userId c, cn_countedAt := Some (c_now c)\<rparr>)"

definition new_count :: "id \<Rightarrow> id \<Rightarrow> Channel \<Rightarrow> id option \<Rightarrow> channel_count" where
  "new_count co closingId ch acc =
     \<lparr>cn_companyId = co, cn_closingId = closingId, cn_channel = ch, cn_receivingAccountId = acc,
      cn_labelSnapshot = [], cn_sums = empty_sums, cn_expected = 0, cn_counted = None, cn_difference = None,
      cn_isSkipped = False, cn_skipReason = None, cn_countedById = None, cn_countedAt = None\<rparr>"

text \<open>
  The writes, which are not in one transaction: the row of the day if there was none, the
  count, and the status of the day from a fresh reading of it.
\<close>

definition ensure_closing :: "ctx \<Rightarrow> id \<Rightarrow> CountPlan \<Rightarrow> books \<Rightarrow> books" where
  "ensure_closing c newClosing plan b =
     (case rp_existing plan of
        Some _ \<Rightarrow> b
      | None \<Rightarrow> b\<lparr>bk_closings := t_insert newClosing (new_closing (c_companyId c) (rp_branch plan) (rp_day plan)) (bk_closings b)\<rparr>)"

definition prior_count :: "ctx \<Rightarrow> RecordCountDto \<Rightarrow> id \<Rightarrow> books \<Rightarrow> (id \<times> channel_count) option" where
  "prior_count c dto closingId b =
     find (\<lambda>(_, n). cn_companyId n = c_companyId c \<and> cn_closingId n = closingId \<and> cn_channel n = rc_channel dto \<and>
                    cn_receivingAccountId n = rc_accountId dto) (bk_counts b)"

definition put_count :: "ctx \<Rightarrow> id \<Rightarrow> RecordCountDto \<Rightarrow> ChannelRow \<Rightarrow> id \<Rightarrow> books \<Rightarrow> books" where
  "put_count c newCount dto r closingId b =
     b\<lparr>bk_counts :=
         (case prior_count c dto closingId b of
            Some (i, _) \<Rightarrow> t_update i (count_payload c dto r) (bk_counts b)
          | None \<Rightarrow> t_insert newCount
                      (count_payload c dto r (new_count (c_companyId c) closingId (rc_channel dto) (rc_accountId dto)))
                      (bk_counts b))\<rparr>"

definition mark_counted :: "ctx \<Rightarrow> id \<Rightarrow> ClosingStatus \<Rightarrow> books \<Rightarrow> books" where
  "mark_counted c closingId st b =
     b\<lparr>bk_closings := t_update closingId
         (\<lambda>k. k\<lparr>cl_status := st, cl_countedById := c_userId c, cl_countedAt := Some (c_now c), cl_version := Suc (cl_version k)\<rparr>)
         (bk_closings b)\<rparr>"

definition recordCount_write ::
  "(string \<Rightarrow> string \<Rightarrow> int) \<Rightarrow> ctx \<Rightarrow> id \<Rightarrow> id \<Rightarrow> RecordCountDto \<Rightarrow> CountPlan \<Rightarrow> books
   \<Rightarrow> (closing_error + OpenView) \<times> books" where
  "recordCount_write localeCompare c newClosing newCount dto plan b =
     (let co = c_companyId c; branch = rp_branch plan; day = rp_day plan
      in if rp_existing plan = None \<and> find_closing co branch day b \<noteq> None then (Inl (Internal UniqueViolation), b)
         else
           (let closingId = (case rp_existing plan of Some i \<Rightarrow> i | None \<Rightarrow> newClosing);
                b1 = ensure_closing c newClosing plan b;
                b2 = put_count c newCount dto (rp_target plan) closingId b1;
                st = (if ov_complete (openView localeCompare co branch day b2) then counted else counting);
                b3 = mark_counted c closingId st b2;
                b4 = b3\<lparr>bk_audit := bk_audit b3 @
                          [audit_row_of c ''ClosingChannelCount'' closingId
                             (if prior_count c dto closingId b1 = None then ''create'' else ''update'') None (Some branch)]\<rparr>
            in (Inr ((openView localeCompare co branch day b4)\<lparr>ov_status := st\<rparr>), b4)))"

definition recordCount ::
  "(string \<Rightarrow> string \<Rightarrow> int) \<Rightarrow> ctx \<Rightarrow> id \<Rightarrow> id \<Rightarrow> RecordCountDto \<Rightarrow> books \<Rightarrow> (closing_error + OpenView) \<times> books" where
  "recordCount localeCompare c newClosing newCount dto b =
     (case recordCount_plan localeCompare c dto b of
        Inl e \<Rightarrow> (Inl e, b)
      | Inr plan \<Rightarrow> recordCount_write localeCompare c newClosing newCount dto plan b)"

section \<open>Signing a day off\<close>

record CreateClosingDto =
  cc_countedCash :: "number option"
  cc_date :: "nat option"

definition expected_cash :: "id \<Rightarrow> id \<Rightarrow> nat \<Rightarrow> rollup option \<Rightarrow> books \<Rightarrow> number" where
  "expected_cash co branch day ru b =
     round2 (sum_of pm_amount (filter (\<lambda>p. pm_method p = pm_cash) (day_payments co branch day b))
             - figure ru ru_refundsPaidCash - snd (paidOn co branch day b)
             - figure ru ru_expensesCash + figure ru ru_correctionsCash)"

text \<open>The count of record, or the one of the request.\<close>

definition counted_cash ::
  "nat \<Rightarrow> (id \<times> channel_count) list \<Rightarrow> number option \<Rightarrow> closing_error + number" where
  "counted_cash day ns given =
     (case Option.bind (map_option snd (find (\<lambda>(_, n). cn_channel n = ch_cash \<and> \<not> cn_isSkipped n) ns)) cn_counted of
        Some r \<Rightarrow>
          if (case given of None \<Rightarrow> False | Some g \<Rightarrow> round2 g \<noteq> round2 r)
          then Inl (Conflict (CashAlreadyCounted (round2 r) day)) else Inr (round2 r)
      | None \<Rightarrow>
          (case given of None \<Rightarrow> Inl (BadRequest NobodyCountedCash) | Some g \<Rightarrow> Inr (round2 g)))"

definition snapshot ::
  "ctx \<Rightarrow> rollup option \<Rightarrow> number \<times> number \<Rightarrow> number \<Rightarrow> number \<Rightarrow> closing \<Rightarrow> closing" where
  "snapshot c ru supplierPaid expected cnt k =
     k\<lparr>cl_expectedCash := expected, cl_countedCash := cnt, cl_difference := round2 (cnt - expected),
       cl_totalSales := figure ru ru_revenue, cl_totalProfit := figure ru ru_netProfit,
       cl_totalReturns := figure ru ru_returnsRevenue, cl_totalReturnsProfitImpact := figure ru ru_returnsGrossProfit,
       cl_totalReturnAdjustments := figure ru ru_returnsAdjustments, cl_totalReturnsCogsCredited := figure ru ru_returnsCogs,
       cl_refundsPaidTotal := figure ru ru_refundsPaidTotal, cl_refundsPaidCash := figure ru ru_refundsPaidCash,
       cl_supplierPaidTotal := fst supplierPaid, cl_supplierPaidCash := snd supplierPaid,
       cl_correctionsTotal := figure ru ru_correctionsTotal, cl_correctionsCash := figure ru ru_correctionsCash,
       cl_expensesCash := figure ru ru_expensesCash, cl_status := locked, cl_isLocked := True,
       cl_closedById := c_userId c\<rparr>"

definition frozen :: "ChannelRow \<Rightarrow> channel_count option \<Rightarrow> channel_count \<Rightarrow> channel_count" where
  "frozen ch saved n =
     (let cnt = map_option round2 (Option.bind saved cn_counted)
      in n\<lparr>cn_labelSnapshot := cr_labelSnapshot ch, cn_sums := cr_sums ch, cn_expected := cr_expected ch,
           cn_counted := cnt, cn_difference := map_option (\<lambda>x. round2 (x - cr_expected ch)) cnt,
           cn_isSkipped := (case saved of None \<Rightarrow> False | Some s \<Rightarrow> cn_isSkipped s),
           cn_skipReason := Option.bind saved cn_skipReason, cn_countedById := Option.bind saved cn_countedById,
           cn_countedAt := Option.bind saved cn_countedAt\<rparr>)"

fun freeze_channels ::
  "id \<Rightarrow> id \<Rightarrow> (id \<times> channel_count) list \<Rightarrow> (nat \<Rightarrow> id) \<Rightarrow> nat \<Rightarrow> ChannelRow list \<Rightarrow> books \<Rightarrow> books" where
  "freeze_channels co closingId ns ids j [] b = b"
| "freeze_channels co closingId ns ids j (ch # chs) b =
     freeze_channels co closingId ns ids (Suc j) chs
       (b\<lparr>bk_counts :=
            (case saved_count ns ch of
               Some (i, n) \<Rightarrow> t_update i (frozen ch (Some n)) (bk_counts b)
             | None \<Rightarrow> t_insert (ids j) (frozen ch None (new_count co closingId (cr_channel ch) (cr_accountId ch)))
                         (bk_counts b))\<rparr>)"

definition new_discrepancy :: "ctx \<Rightarrow> id \<Rightarrow> id \<Rightarrow> id \<Rightarrow> number \<Rightarrow> discrepancy" where
  "new_discrepancy c branch closingId countId amount =
     \<lparr>dp_companyId = c_companyId c, dp_branchId = branch, dp_closingId = closingId, dp_channelCountId = Some countId,
      dp_amount = amount, dp_status = pending_investigation, dp_resolution = None, dp_responsibleUserId = None,
      dp_resolutionReason = None, dp_openedAt = c_now c, dp_resolvedById = None, dp_resolvedAt = None, dp_version = 0\<rparr>"

fun open_discrepancies ::
  "ctx \<Rightarrow> id \<Rightarrow> id \<Rightarrow> (nat \<Rightarrow> id) \<Rightarrow> nat \<Rightarrow> (id \<times> channel_count) list \<Rightarrow> books \<Rightarrow> books" where
  "open_discrepancies c branch closingId ids j [] b = b"
| "open_discrepancies c branch closingId ids j ((i, n) # ns) b =
     open_discrepancies c branch closingId ids (Suc j) ns
       (if \<not> opensDiscrepancy (cn_counted n) (cn_isSkipped n) (cn_difference n) then b
        else if list_ex (\<lambda>(_, d). dp_companyId d = c_companyId c \<and> dp_closingId d = closingId \<and> dp_channelCountId d = Some i)
                  (bk_discrepancies b) then b
        else b\<lparr>bk_discrepancies := t_insert (ids j)
                 (new_discrepancy c branch closingId i (case cn_difference n of None \<Rightarrow> 0 | Some d \<Rightarrow> d))
                 (bk_discrepancies b)\<rparr>)"

definition product_label :: "product \<Rightarrow> string" where
  "product_label p = pr_brand p @ '' '' @ pr_model p @ (case pr_variant p of None \<Rightarrow> [] | Some v \<Rightarrow> if v = [] then [] else '' '' @ v)"

definition digest_line_of :: "books \<Rightarrow> sale_item \<Rightarrow> sale_row \<Rightarrow> digest_line" where
  "digest_line_of b i s =
     (let u = Option.bind (it_unitId i) (map_of (bk_units b));
          p = (case u of Some r \<Rightarrow> map_of (bk_products b) (u_productId r)
               | None \<Rightarrow> Option.bind (it_productId i) (map_of (bk_products b)));
          salePrice = round2 (it_price i * of_nat (it_quantity i) - it_discount i);
          purchaseCost = round2 (it_cost i * of_nat (it_quantity i))
      in \<lparr>dl_identifier = (case u of None \<Rightarrow> None
                           | Some r \<Rightarrow> (case u_imeiPrimary r of Some x \<Rightarrow> Some x | None \<Rightarrow> u_serialNo r)),
          dl_productLabel = map_option product_label p, dl_employeeId = sa_userId s, dl_salePrice = salePrice,
          dl_purchaseCost = purchaseCost, dl_profit = round2 (salePrice - purchaseCost), dl_soldAt = sa_soldAt s\<rparr>)"

definition buildDigestLines :: "id \<Rightarrow> id \<Rightarrow> nat \<Rightarrow> books \<Rightarrow> digest_line list" where
  "buildDigestLines co branch day b =
     List.map_filter (\<lambda>i. map_option (digest_line_of b i) (map_of (bk_sales b) (it_saleId i)))
       (day_items co branch day b)"

text \<open>Identifiers drawn by the sign-off.\<close>

record close_ids =
  ci_closing :: id
  ci_counts :: "nat \<Rightarrow> id"
  ci_discrepancies :: "nat \<Rightarrow> id"
  ci_digest :: id

definition close_tx ::
  "(string \<Rightarrow> string \<Rightarrow> int) \<Rightarrow> ctx \<Rightarrow> close_ids \<Rightarrow> id \<Rightarrow> nat \<Rightarrow> (id \<times> closing) option \<Rightarrow> rollup option
   \<Rightarrow> number \<Rightarrow> number \<Rightarrow> books \<Rightarrow> closing_error + books" where
  "close_tx localeCompare c ids branch day already ru expected cnt b =
     (let co = c_companyId c;
          closingId = (case already of Some (i, _) \<Rightarrow> i | None \<Rightarrow> ci_closing ids);
          ns = (case already of Some (i, _) \<Rightarrow> counts_of i b | None \<Rightarrow> []);
          snap = snapshot c ru (paidOn co branch day b) expected cnt;
          put = (case already of
                   Some (i, k) \<Rightarrow> t_update_where i (\<lambda>x. cl_version x = cl_version k \<and> cl_status x \<noteq> locked)
                                   (\<lambda>x. (snap x)\<lparr>cl_version := Suc (cl_version x)\<rparr>) (bk_closings b)
                 | None \<Rightarrow> (1, t_insert closingId (snap (new_closing co branch day)) (bk_closings b)))
      in if fst put = 0 then Inl (Conflict ChangedWhileClosing)
         else
           (let b1 = freeze_channels co closingId ns (ci_counts ids) 0 (expectedChannels localeCompare co branch day b)
                       (b\<lparr>bk_closings := snd put\<rparr>);
                b2 = open_discrepancies c branch closingId (ci_discrepancies ids) 0 (counts_of closingId b1) b1
            in if list_ex (\<lambda>(_, d). dg_branchId d = branch \<and> dg_digestDate d = day) (bk_digests b2)
               then Inl (Internal UniqueViolation)
               else Inr (b2\<lparr>bk_digests := t_insert (ci_digest ids)
                               \<lparr>dg_companyId = co, dg_branchId = branch, dg_closingId = closingId, dg_digestDate = day,
                                dg_revenue = figure ru ru_revenue, dg_costOfGoodsSold = figure ru ru_cogs,
                                dg_grossProfit = figure ru ru_grossProfit, dg_lines = buildDigestLines co branch day b\<rparr>
                               (bk_digests b2),
                            bk_audit := bk_audit b2 @ [audit_row_of c ''DailyClosing'' closingId ''create'' None (Some branch)]\<rparr>)))"

record ClosingResult =
  cz_date :: nat
  cz_revenue :: number
  cz_netProfit :: number
  cz_expected :: number
  cz_counted :: number
  cz_difference :: number
  cz_channels :: "OpenRow list"

text \<open>The rollup is written before anything can be refused but the day being closed.\<close>

definition close ::
  "(string \<Rightarrow> string \<Rightarrow> int) \<Rightarrow> ctx \<Rightarrow> close_ids \<Rightarrow> CreateClosingDto \<Rightarrow> books \<Rightarrow> (closing_error + ClosingResult) \<times> books" where
  "close localeCompare c ids dto b =
     (case c_branchId c of
        None \<Rightarrow> (Inl (BadRequest BranchRequired), b)
      | Some branch \<Rightarrow>
          (let co = c_companyId c;
               day = (case cc_date dto of Some d \<Rightarrow> d | None \<Rightarrow> dayKey (c_now c));
               already = find_closing co branch day b;
               ns = (case already of Some (i, _) \<Rightarrow> counts_of i b | None \<Rightarrow> [])
           in if (case already of None \<Rightarrow> False | Some (_, k) \<Rightarrow> cl_status k = locked)
              then (Inl (Conflict (DayAlreadyClosed day)), b)
              else
                (let b0 = recomputeDaily co branch day (c_now c) b;
                     ru = find_rollup co branch day b0;
                     expected = expected_cash co branch day ru b0
                 in case counted_cash day ns (cc_countedCash dto) of
                      Inl e \<Rightarrow> (Inl e, b0)
                    | Inr cnt \<Rightarrow>
                        (case close_tx localeCompare c ids branch day already ru expected cnt b0 of
                           Inl e \<Rightarrow> (Inl e, b0)
                         | Inr b1 \<Rightarrow>
                             (Inr \<lparr>cz_date = day, cz_revenue = figure ru ru_revenue, cz_netProfit = figure ru ru_netProfit,
                                   cz_expected = expected, cz_counted = cnt, cz_difference = round2 (cnt - expected),
                                   cz_channels = map (open_row ns) (expectedChannels localeCompare co branch day b0)\<rparr>,
                              b1\<lparr>bk_notifications := bk_notifications b1 @ [deliver c ''closing.completed'' (Some branch) None]\<rparr>)))))"

end
