(* ===== verification/ClosingEffects.thy ===== *)
theory ClosingEffects
  imports Closing
begin

text \<open>
  Lemmas on the closing: what the buckets of the channel builder hold, that summing them loses
  nothing, and that the movements of the drawer add up to the reconciliation equation.
\<close>

section \<open>Buckets\<close>

definition held :: "(channel_key, Sums) table \<Rightarrow> channel_key \<Rightarrow> Component \<Rightarrow> number" where
  "held t k cpt = (case map_of t k of None \<Rightarrow> 0 | Some s \<Rightarrow> sums_get cpt s)"

definition moved_in :: "channel_key \<Rightarrow> Component \<Rightarrow> MovementRow list \<Rightarrow> number" where
  "moved_in k cpt ms = sum_of mv_amount (filter (\<lambda>m. movement_key m = k \<and> mv_component m = cpt) ms)"

lemma moved_in_simps [simp]:
  "moved_in k cpt [] = 0"
  "moved_in k cpt (m # ms) = (if movement_key m = k \<and> mv_component m = cpt then mv_amount m else 0) + moved_in k cpt ms"
  "moved_in k cpt (ms @ ms') = moved_in k cpt ms + moved_in k cpt ms'"
  by (simp_all add: moved_in_def)

lemma sums_get_add: "sums_get cpt (sums_add cpt' a s) = sums_get cpt s + (if cpt = cpt' then a else 0)"
  by (cases cpt; cases cpt') simp_all

lemma sums_get_empty [simp]: "sums_get cpt empty_sums = 0"
  by (cases cpt) (simp_all add: empty_sums_def)

lemma held_bucket [simp]: "held (bucket k t) k' cpt = held t k' cpt"
  by (auto simp: held_def bucket_lookup)

lemma held_add: "held (add_movement m t) k cpt = held t k cpt + (if movement_key m = k \<and> mv_component m = cpt then mv_amount m else 0)"
  by (auto simp: held_def add_movement_def bucket_lookup sums_get_add split: option.splits)

lemma held_fold: "held (fold add_movement ms t) k cpt = held t k cpt + moved_in k cpt ms"
  by (induction ms arbitrary: t) (simp_all add: held_add)

lemma held_accounts: "held (fold (\<lambda>a t. if ar_isActive a then bucket (ch_account, Some (ar_id a)) t else t) as t) k cpt = held t k cpt"
  by (induction as arbitrary: t) simp_all

lemma held_totals: "held (channel_totals ms as) k cpt = moved_in k cpt ms"
  by (simp add: channel_totals_def held_fold held_accounts) (simp add: held_def)

lemma add_movement_keys:
  "t_wf t \<Longrightarrow> t_wf (add_movement m t)"
  "set (t_keys (add_movement m t)) = (if mv_amount m = 0 then set (t_keys t) else insert (movement_key m) (set (t_keys t)))"
  by (simp_all add: add_movement_def bucket_keys)

lemma totals_keys:
  "t_wf (channel_totals ms as)"
  "set (t_keys (channel_totals ms as)) =
     insert (ch_cash, None) ((\<lambda>a. (ch_account, Some (ar_id a))) ` {a \<in> set as. ar_isActive a} \<union>
       movement_key ` {m \<in> set ms. mv_amount m \<noteq> 0})"
proof -
  let ?acc = "\<lambda>a t. if ar_isActive a then bucket (ch_account, Some (ar_id a)) t else t"
  have ms: "t_wf (fold add_movement ms t) \<and> set (t_keys (fold add_movement ms t)) =
      set (t_keys t) \<union> movement_key ` {m \<in> set ms. mv_amount m \<noteq> 0}" if "t_wf t" for t
    using that by (induction ms arbitrary: t) (auto simp: add_movement_keys)
  have as: "t_wf (fold ?acc as t) \<and> set (t_keys (fold ?acc as t)) =
      set (t_keys t) \<union> (\<lambda>a. (ch_account, Some (ar_id a))) ` {a \<in> set as. ar_isActive a}" if "t_wf t" for t
    using that by (induction as arbitrary: t) (auto simp: bucket_keys)
  have "t_wf (bucket (ch_cash, None) [])" "set (t_keys (bucket (ch_cash, None) [])) = {(ch_cash, None)}"
    by (simp_all add: bucket_def t_insert_def t_wf_def t_keys_def)
  with as [of "bucket (ch_cash, None) []"] ms [of "fold ?acc as (bucket (ch_cash, None) [])"]
  show "t_wf (channel_totals ms as)"
    "set (t_keys (channel_totals ms as)) =
     insert (ch_cash, None) ((\<lambda>a. (ch_account, Some (ar_id a))) ` {a \<in> set as. ar_isActive a} \<union>
       movement_key ` {m \<in> set ms. mv_amount m \<noteq> 0})"
    by (auto simp: channel_totals_def)
qed

section \<open>Nothing is lost\<close>

definition signed_sum :: "Sums \<Rightarrow> number" where
  "signed_sum s = salesIn s - refundsOut s - supplierOut s - expensesOut s + correctionsIn s"

definition signed_movement :: "MovementRow \<Rightarrow> number" where
  "signed_movement m = of_int (COMPONENT_SIGN (mv_component m)) * mv_amount m"

lemma expected_of_signed: "expected_of s = round2 (signed_sum s)"
  by (simp add: expected_of_def signed_sum_def)

lemma signed_sum_add: "signed_sum (sums_add cpt a s) = signed_sum s + of_int (COMPONENT_SIGN cpt) * a"
  by (cases cpt) (simp_all add: signed_sum_def)

lemma signed_sum_get:
  "signed_sum s = sums_get c_salesIn s - sums_get c_refundsOut s - sums_get c_supplierOut s - sums_get c_expensesOut s + sums_get c_correctionsIn s"
  by (simp add: signed_sum_def)

lemma signed_sum_empty [simp]: "signed_sum empty_sums = 0"
  by (simp add: signed_sum_def empty_sums_def)

lemma total_bucket: "(\<Sum>(k, s)\<leftarrow>bucket k t. signed_sum s) = (\<Sum>(k, s)\<leftarrow>t. signed_sum s)"
  by (simp add: bucket_def sum_t_insert split: option.splits)

lemma total_add_movement:
  assumes "t_wf t"
  shows "(\<Sum>(k, s)\<leftarrow>add_movement m t. signed_sum s) = (\<Sum>(k, s)\<leftarrow>t. signed_sum s) + signed_movement m"
proof (cases "mv_amount m = 0")
  case False
  let ?k = "movement_key m" and ?b = "bucket (movement_key m) t"
  from bucket_lookup [of ?k t ?k] obtain s where s: "map_of ?b ?k = Some s" by (auto split: if_splits)
  have "t_wf ?b" using assms by (rule bucket_keys)
  from sum_t_update [OF this s, of "\<lambda>(k, s). signed_sum s"] False show ?thesis
    by (simp add: add_movement_def total_bucket signed_sum_add signed_movement_def)
qed (simp add: add_movement_def signed_movement_def)

lemma total_fold_movements:
  "t_wf t \<Longrightarrow> (\<Sum>(k, s)\<leftarrow>fold add_movement ms t. signed_sum s) = (\<Sum>(k, s)\<leftarrow>t. signed_sum s) + (\<Sum>m\<leftarrow>ms. signed_movement m)"
  by (induction ms arbitrary: t) (simp_all add: total_add_movement add_movement_keys)

lemma total_channel_totals: "(\<Sum>(k, s)\<leftarrow>channel_totals ms as. signed_sum s) = (\<Sum>m\<leftarrow>ms. signed_movement m)"
proof -
  have "t_wf (fold (\<lambda>a t. if ar_isActive a then bucket (ch_account, Some (ar_id a)) t else t) as t) \<and>
      (\<Sum>(k, s)\<leftarrow>fold (\<lambda>a t. if ar_isActive a then bucket (ch_account, Some (ar_id a)) t else t) as t. signed_sum s) =
      (\<Sum>(k, s)\<leftarrow>t. signed_sum s)" if "t_wf t" for t
    using that by (induction as arbitrary: t) (simp_all add: bucket_keys total_bucket)
  moreover have "t_wf (bucket (ch_cash, None) [])"
    by (rule bucket_keys) (simp add: t_wf_def t_keys_def)
  ultimately show ?thesis
    by (simp add: channel_totals_def total_fold_movements total_bucket)
qed

section \<open>Cents\<close>

lemma moved_in_cents: "(\<And>m. m \<in> set ms \<Longrightarrow> is_cents (mv_amount m)) \<Longrightarrow> is_cents (moved_in k cpt ms)"
  unfolding moved_in_def by (intro sum_of_cents) auto

lemma totals_cents:
  assumes "\<And>m. m \<in> set ms \<Longrightarrow> is_cents (mv_amount m)" and "(k, s) \<in> set (channel_totals ms as)"
  shows "is_cents (sums_get cpt s)"
proof -
  from assms(2) totals_keys(1) have "map_of (channel_totals ms as) k = Some s" by (simp add: t_wf_map_of_eq)
  with held_totals [of ms as k cpt] moved_in_cents [OF assms(1)] show ?thesis by (simp add: held_def)
qed

lemma expected_exact:
  assumes "\<And>m. m \<in> set ms \<Longrightarrow> is_cents (mv_amount m)" and "(k, s) \<in> set (channel_totals ms as)"
  shows "expected_of s = signed_sum s"
  using totals_cents [OF assms]
  unfolding expected_of_signed signed_sum_get by (intro round2_cents is_cents_add is_cents_diff)

section \<open>Movements of the drawer\<close>

lemma round_group_sums:
  assumes "\<And>r. r \<in> set rs \<Longrightarrow> is_cents (f r)" and "(g, s) \<in> set (group_sum key f rs)"
  shows "round2 s = s" "is_cents s"
proof -
  show "is_cents s" using assms by (auto simp: group_sum_def intro!: sum_of_cents)
  then show "round2 s = s" by simp
qed

lemma moved_in_method_part:
  assumes "\<And>r. r \<in> set rs \<Longrightarrow> is_cents (f r)"
  shows "moved_in (ch_cash, None) cpt (method_part cpt' meth acc f rs) =
     (if cpt = cpt' then sum_of f (filter (\<lambda>r. meth r = cash) rs) else 0)"
proof -
  define gs where "gs = group_sum (\<lambda>r. (meth r, acc r)) f rs"
  have rd: "\<forall>x \<in> set gs. round2 (snd x) = snd x"
    using round_group_sums(1) [of rs f, OF assms] unfolding gs_def by (metis prod.collapse)
  have "moved_in (ch_cash, None) cpt (method_part cpt' meth acc f rs) =
      (if cpt = cpt' then sum_of snd (filter (\<lambda>(g, _). fst g = cash) gs) else 0)"
    unfolding method_part_def gs_def [symmetric] using rd
    by (induction gs) (auto simp: movement_key_def)
  also have "sum_of snd (filter (\<lambda>(g, _). fst g = cash) gs) = sum_of f (filter (\<lambda>r. meth r = cash) rs)"
    unfolding gs_def using sum_of_groups [of "\<lambda>g. fst g = cash" "\<lambda>r. (meth r, acc r)" f rs] by simp
  finally show ?thesis .
qed

lemma moved_in_sales_part:
  assumes "\<And>p. p \<in> set ps \<Longrightarrow> is_cents (pm_amount p)"
  shows "moved_in (ch_cash, None) cpt (sales_part ps) =
     (if cpt = c_salesIn then sum_of pm_amount (filter (\<lambda>p. pm_method p = pm_cash) ps) else 0)"
proof -
  have c: "is_cents (sum_of pm_amount (filter (\<lambda>p. pm_method p = pm_cash) ps))"
    using assms by (intro sum_of_cents) auto
  have "moved_in (ch_cash, None) cpt (map (\<lambda>(a, s). \<lparr>mv_accountId = a, mv_channel = ch_account, mv_component = c_salesIn, mv_amount = round2 s\<rparr>) gs) = 0" for gs
    by (induction gs) (auto simp: movement_key_def)
  with c show ?thesis by (auto simp: sales_part_def Let_def movement_key_def filter_empty_conv)
qed

text \<open>Every amount is stored in a \<^verbatim>\<open>DECIMAL(14,2)\<close> column.\<close>

definition money_columns :: "books \<Rightarrow> bool" where
  "money_columns b \<longleftrightarrow>
     (\<forall>i r. (i, r) \<in> set (bk_payments b) \<longrightarrow> is_cents (pm_amount r)) \<and>
     (\<forall>i r. (i, r) \<in> set (bk_payouts b) \<longrightarrow> is_cents (po_reportedAmount r)) \<and>
     (\<forall>i r. (i, r) \<in> set (bk_settlements b) \<longrightarrow> is_cents (st_amount r)) \<and>
     (\<forall>i r. (i, r) \<in> set (bk_expenses b) \<longrightarrow> is_cents (x_amount r)) \<and>
     (\<forall>i r. (i, r) \<in> set (bk_corrections b) \<longrightarrow> is_cents (fc_amount r))"

lemma money_columns_rows:
  assumes "money_columns b"
  shows "r \<in> set (day_payments co br day b) \<Longrightarrow> is_cents (pm_amount r)"
    and "p \<in> set (day_payouts co br day b) \<Longrightarrow> is_cents (po_reportedAmount p)"
    and "s \<in> set (day_settlements co br day b) \<Longrightarrow> is_cents (st_amount s)"
    and "x \<in> set (channel_expenses co br day b) \<Longrightarrow> is_cents (x_amount x)"
    and "f \<in> set (day_corrections co br day b) \<Longrightarrow> is_cents (fc_amount f)"
  using assms
  by (auto simp: money_columns_def day_payments_def day_payouts_def day_settlements_def channel_expenses_def
      day_corrections_def rows_where_def)

text \<open>The two ways the code writes the day of an expense select the same rows.\<close>

lemma channel_expenses_eq: "channel_expenses co br day b = day_expenses co br day b"
  unfolding channel_expenses_def day_expenses_def rows_where_def
  by (rule filter_cong) (auto, metis ExpenseClass.exhaust)+

lemma paidOn_cash:
  "snd (paidOn co br day b) = round2 (sum_of st_amount (filter (\<lambda>s. st_method s = cash) (day_settlements co br day b)))"
proof -
  let ?rs = "day_settlements co br day b"
  have "(case map_of (group_sum st_method st_amount ?rs) cash of None \<Rightarrow> 0 | Some s \<Rightarrow> s) =
      sum_of st_amount (filter (\<lambda>s. st_method s = cash) ?rs)"
  proof -
    have "map_of (map (\<lambda>g. (g, h g)) gs) k = (if k \<in> set gs then Some (h k) else None)" for h :: "Method \<Rightarrow> number" and gs k
      by (induction gs) auto
    moreover have "cash \<notin> st_method ` set ?rs \<Longrightarrow> filter (\<lambda>s. st_method s = cash) ?rs = []"
      by (force simp: filter_empty_conv)
    ultimately show ?thesis by (auto simp: group_sum_def)
  qed
  then show ?thesis by (simp add: paidOn_def Let_def)
qed

lemma movements_cents:
  assumes "m \<in> set (channelMovements co br day b)"
  shows "is_cents (mv_amount m)"
  using assms by (auto simp: channelMovements_def sales_part_def method_part_def Let_def split: if_splits)

end
