(* ===== verification/ClosingProperties.thy ===== *)
theory ClosingProperties
  imports ClosingEffects
begin

text \<open>
  What the daily closing promises: one reconciliation equation whichever way it is computed,
  channels that account for every movement, and a signed-off day that no later call changes;
  and the race in which a late count reopens it.
\<close>

section \<open>Examples\<close>

definition ex_books_ctx :: ctx where
  "ex_books_ctx = \<lparr>c_companyId = 2, c_branchId = Some 3, c_userId = Some 7, c_permissions = [], c_now = 5000\<rparr>"

text \<open>One cash sale of 100 on day 0, of which nothing has been counted yet.\<close>

definition ex_day0 :: books where
  "ex_day0 = ex_no_books\<lparr>
     bk_sales := [(20, \<lparr>sa_companyId = 2, sa_branchId = 3, sa_userId = 7, sa_customerId = None, sa_invoiceNo = ''00001'', sa_soldAt = 1000,
       sa_subtotal = 100, sa_discount = 0, sa_total = 100, sa_totalCost = 60, sa_margin = 40, sa_amountPaid = 100, sa_balanceDue = 0,
       sa_payStatus = sp_paid, sa_isReversed = False, sa_returnWindowHours = 0, sa_returnDeadlineAt = None,
       sa_returnPolicyOverriddenById = None, sa_returnPolicyOverrideReason = None, sa_clientUuid = None\<rparr>)],
     bk_payments := [(21, \<lparr>pm_companyId = 2, pm_saleId = 20, pm_method = pm_cash, pm_amount = 100, pm_receivingAccountId = None,
       pm_accountLabelSnapshot = None\<rparr>)]\<rparr>"

definition ex_count :: "number \<Rightarrow> RecordCountDto" where
  "ex_count x = \<lparr>rc_channel = ch_cash, rc_accountId = None, rc_counted = Some x, rc_skip = False, rc_skipReason = None,
     rc_date = Some 0\<rparr>"

definition ex_sign_off :: CreateClosingDto where
  "ex_sign_off = \<lparr>cc_countedCash = None, cc_date = Some 0\<rparr>"

definition ex_close_ids :: close_ids where
  "ex_close_ids = \<lparr>ci_closing = 30, ci_counts = (\<lambda>j. 40 + j), ci_discrepancies = (\<lambda>j. 50 + j), ci_digest = 60\<rparr>"

abbreviation no_compare :: "string \<Rightarrow> string \<Rightarrow> int" where
  "no_compare x y \<equiv> 0"

text \<open>The drawer counted at 90, and the day signed off.\<close>

definition ex_day1 :: books where
  "ex_day1 = snd (recordCount no_compare ex_books_ctx 10 11 (ex_count 90) ex_day0)"

definition ex_day2 :: books where
  "ex_day2 = snd (close no_compare ex_books_ctx ex_close_ids ex_sign_off ex_day1)"

definition ex_cash_row :: ChannelRow where
  "ex_cash_row = \<lparr>cr_channel = ch_cash, cr_accountId = None, cr_labelSnapshot = CASH_LABEL, cr_isUnattributed = False,
     cr_sums = \<lparr>salesIn = 100, refundsOut = 0, supplierOut = 0, expensesOut = 0, correctionsIn = 0\<rparr>, cr_expected = 100\<rparr>"

definition ex_tables :: "books \<Rightarrow> bool" where
  "ex_tables b \<longleftrightarrow> bk_sales b = bk_sales ex_day0 \<and> bk_payments b = bk_payments ex_day0 \<and> bk_payouts b = [] \<and>
     bk_settlements b = [] \<and> bk_expenses b = [] \<and> bk_corrections b = [] \<and> bk_accounts b = [] \<and> bk_items b = [] \<and> bk_reversals b = []"

lemmas day_sets = day_payments_def day_payouts_def day_settlements_def channel_expenses_def day_corrections_def
  day_items_def day_expenses_def day_reversals_def rows_where_def sold_on_def on_day_def

lemma ex_movements:
  assumes "ex_tables b"
  shows "channelMovements 2 3 0 b = [\<lparr>mv_accountId = None, mv_channel = ch_cash, mv_component = c_salesIn, mv_amount = 100\<rparr>]"
  using assms
  by (simp add: ex_tables_def ex_day0_def ex_no_books_def channelMovements_def sales_part_def method_part_def group_sum_def day_sets)

lemma ex_channels:
  assumes "ex_tables b"
  shows "expectedChannels no_compare 2 3 0 b = [ex_cash_row]"
  using ex_movements [OF assms] assms
  by (simp add: expectedChannels_def account_rows_def ex_tables_def buildChannels_def channel_totals_def bucket_def
      add_movement_def movement_key_def sort_by_def channel_row_def expected_of_def round_sums_def empty_sums_def
      t_insert_def t_update_def ex_cash_row_def)

lemma ex_tables_0 [simp]: "ex_tables ex_day0"
  by (simp add: ex_tables_def ex_day0_def ex_no_books_def)

lemma ex_tables_cong [simp]:
  "ex_tables (b\<lparr>bk_closings := x\<rparr>) = ex_tables b" "ex_tables (b\<lparr>bk_counts := y\<rparr>) = ex_tables b"
  "ex_tables (b\<lparr>bk_audit := z\<rparr>) = ex_tables b" "ex_tables (b\<lparr>bk_rollups := u\<rparr>) = ex_tables b"
  by (simp_all add: ex_tables_def)

definition ex_plan :: "id option \<Rightarrow> CountPlan" where
  "ex_plan x = \<lparr>rp_branch = 3, rp_day = 0, rp_existing = x, rp_target = ex_cash_row\<rparr>"

lemma ex_plan_eval:
  assumes "ex_tables b" and "find_closing 2 3 0 b = k" and "\<And>i x. k = Some (i, x) \<Longrightarrow> cl_status x \<noteq> locked"
  shows "recordCount_plan no_compare ex_books_ctx (ex_count y) b = Inr (ex_plan (map_option fst k))"
  using assms(2,3) ex_channels [OF assms(1)]
  by (cases k) (auto simp: recordCount_plan_def ex_books_ctx_def ex_count_def count_checks_def require_def ex_plan_def
      isCountable_def Let_def ex_cash_row_def)

definition ex_closing1 :: closing where
  "ex_closing1 = (new_closing 2 3 0)\<lparr>cl_status := counted, cl_countedById := Some 7, cl_countedAt := Some 5000, cl_version := 1\<rparr>"

definition ex_count1 :: channel_count where
  "ex_count1 = count_payload ex_books_ctx (ex_count 90) ex_cash_row (new_count 2 10 ch_cash None)"

lemma ex_count1_eval:
  "cn_counted ex_count1 = Some 90" "cn_difference ex_count1 = Some (-10)" "cn_isSkipped ex_count1 = False"
  "cn_channel ex_count1 = ch_cash" "cn_receivingAccountId ex_count1 = None" "cn_closingId ex_count1 = 10"
  "cn_companyId ex_count1 = 2"
  by (simp_all add: ex_count1_def count_payload_def ex_count_def ex_cash_row_def new_count_def)

lemma ex_complete:
  assumes "ex_tables b" "find_closing 2 3 0 b = Some (10, k)" "bk_counts b = [(11, ex_count1)]"
  shows "ov_complete (openView no_compare 2 3 0 b)"
  using assms(2,3) ex_channels [OF assms(1)]
  by (simp add: openView_def counts_of_def ex_count1_eval saved_count_def open_row_def countingComplete_def ex_cash_row_def Let_def)

lemma ex_day1_eval:
  "bk_closings ex_day1 = [(10, ex_closing1)]" "bk_counts ex_day1 = [(11, ex_count1)]"
  "ex_tables ex_day1" "bk_rollups ex_day1 = []" "bk_discrepancies ex_day1 = []" "bk_digests ex_day1 = []"
  "bk_debts ex_day1 = []"
proof -
  have z: "bk_closings ex_day0 = []" "bk_counts ex_day0 = []" "bk_rollups ex_day0 = []" "bk_discrepancies ex_day0 = []"
    "bk_digests ex_day0 = []" "bk_debts ex_day0 = []" by (simp_all add: ex_day0_def ex_no_books_def)
  have "recordCount_plan no_compare ex_books_ctx (ex_count 90) ex_day0 = Inr (ex_plan None)"
    using ex_plan_eval [of ex_day0 None] z by (simp add: find_closing_def)
  then have r: "ex_day1 = snd (recordCount_write no_compare ex_books_ctx 10 11 (ex_count 90) (ex_plan None) ex_day0)"
    by (simp add: ex_day1_def recordCount_def)
  note f = recordCount_write_def find_closing_def z ensure_closing_def put_count_def prior_count_def
    mark_counted_def t_insert_def t_update_def ex_plan_def ex_books_ctx_def ex_count_def Let_def
  show "bk_counts ex_day1 = [(11, ex_count1)]" "ex_tables ex_day1" "bk_rollups ex_day1 = []" "bk_discrepancies ex_day1 = []"
    "bk_digests ex_day1 = []" "bk_debts ex_day1 = []"
    unfolding r by (simp_all add: f ex_count1_def)
  have t1: "ex_tables (put_count ex_books_ctx 11 (ex_count 90) ex_cash_row 10 (ensure_closing ex_books_ctx 10 (ex_plan None) ex_day0))"
    and c1: "bk_counts (put_count ex_books_ctx 11 (ex_count 90) ex_cash_row 10 (ensure_closing ex_books_ctx 10 (ex_plan None) ex_day0)) =
      [(11, ex_count1)]"
    and k1: "bk_closings (put_count ex_books_ctx 11 (ex_count 90) ex_cash_row 10 (ensure_closing ex_books_ctx 10 (ex_plan None) ex_day0)) =
      [(10, new_closing 2 3 0)]"
    by (simp_all add: f ex_count1_def)
  have "find_closing 2 3 0 (put_count ex_books_ctx 11 (ex_count 90) ex_cash_row 10 (ensure_closing ex_books_ctx 10 (ex_plan None) ex_day0)) =
      Some (10, new_closing 2 3 0)"
    unfolding find_closing_def k1 by (simp add: new_closing_def)
  from ex_complete [OF t1 this c1] k1 show "bk_closings ex_day1 = [(10, ex_closing1)]"
    unfolding r recordCount_write_def
    by (simp add: z find_closing_def ex_plan_def ex_books_ctx_def mark_counted_def t_update_def ex_closing1_def new_closing_def Let_def)
qed

lemma ex_close_eval:
  "\<exists>v. close no_compare ex_books_ctx ex_close_ids ex_sign_off ex_day1 = (Inr v, ex_day2) \<and> cz_expected v = 100"
  "map_option cl_status (map_of (bk_closings ex_day2) 10) = Some locked"
  "map_option cl_isLocked (map_of (bk_closings ex_day2) 10) = Some True"
  "t_keys (bk_closings ex_day2) = [10]" "t_keys (bk_counts ex_day2) = [11]"
  "bk_discrepancies ex_day2 = [(50, new_discrepancy ex_books_ctx 3 10 11 (-10))]" "bk_debts ex_day2 = []"
proof -
  define b0 where "b0 = recomputeDaily 2 3 0 5000 ex_day1"
  have b0: "bk_closings b0 = [(10, ex_closing1)]" "bk_counts b0 = [(11, ex_count1)]" "ex_tables b0" "bk_discrepancies b0 = []"
    "bk_digests b0 = []" "bk_debts b0 = []"
    unfolding b0_def by (simp_all add: recomputeDaily_def Let_def ex_day1_eval)
  have ru: "\<exists>r. find_rollup 2 3 0 b0 = Some r \<and> ru_refundsPaidCash r = 0 \<and> ru_expensesCash r = 0 \<and> ru_correctionsCash r = 0"
    using ex_day1_eval(3)
    by (simp add: b0_def find_rollup_def recomputeDaily_def ex_day1_eval daily_figures_def Let_def t_insert_def
        ex_tables_def day_sets)
  then obtain r where r: "find_rollup 2 3 0 b0 = Some r" "ru_refundsPaidCash r = 0" "ru_expensesCash r = 0" "ru_correctionsCash r = 0"
    by blast
  have pay: "day_payments 2 3 0 b0 = map snd (bk_payments ex_day0)" "day_settlements 2 3 0 b0 = []" "day_items 2 3 0 b0 = []"
    using b0(3) by (simp_all add: ex_tables_def day_sets ex_day0_def)
  have ex: "expected_cash 2 3 0 (Some r) b0 = 100"
    using r by (simp add: expected_cash_def pay paidOn_def group_sum_def figure_def ex_day0_def Let_def)
  have cnt: "counted_cash 0 [(11, ex_count1)] None = Inr 90"
    by (simp add: counted_cash_def ex_count1_eval)
  have fc: "find_closing 2 3 0 b = Some (10, ex_closing1)" "counts_of 10 b = [(11, ex_count1)]"
    if "bk_closings b = [(10, ex_closing1)]" "bk_counts b = [(11, ex_count1)]" for b
    using that by (simp_all add: find_closing_def counts_of_def ex_closing1_def new_closing_def ex_count1_eval)
  have tx: "\<exists>b'. close_tx no_compare ex_books_ctx ex_close_ids 3 0 (Some (10, ex_closing1)) (Some r) 100 90 b0 = Inr b' \<and>
      map_option cl_status (map_of (bk_closings b') 10) = Some locked \<and>
      map_option cl_isLocked (map_of (bk_closings b') 10) = Some True \<and>
      t_keys (bk_closings b') = [10] \<and> t_keys (bk_counts b') = [11] \<and>
      bk_discrepancies b' = [(50, new_discrepancy ex_books_ctx 3 10 11 (-10))] \<and> bk_debts b' = []"
    by (simp add: close_tx_def ex_books_ctx_def Let_def t_update_where_def b0 ex_channels t_update_def saved_count_def
        fc ex_count1_eval ex_closing1_def new_closing_def counts_of_def frozen_def opensDiscrepancy_def new_discrepancy_def
        t_insert_def t_keys_def snapshot_def ex_cash_row_def ex_close_ids_def)
  then obtain b' where b': "close_tx no_compare ex_books_ctx ex_close_ids 3 0 (Some (10, ex_closing1)) (Some r) 100 90 b0 = Inr b'"
    "map_option cl_status (map_of (bk_closings b') 10) = Some locked" "map_option cl_isLocked (map_of (bk_closings b') 10) = Some True"
    "t_keys (bk_closings b') = [10]" "t_keys (bk_counts b') = [11]"
    "bk_discrepancies b' = [(50, new_discrepancy ex_books_ctx 3 10 11 (-10))]" "bk_debts b' = []" by blast
  have c: "c_branchId ex_books_ctx = Some 3" "c_companyId ex_books_ctx = 2" "c_now ex_books_ctx = 5000"
    "cc_date ex_sign_off = Some 0" "cc_countedCash ex_sign_off = None"
    by (simp_all add: ex_books_ctx_def ex_sign_off_def)
  have st: "cl_status ex_closing1 \<noteq> locked" by (simp add: ex_closing1_def)
  have cl: "\<exists>v nt. close no_compare ex_books_ctx ex_close_ids ex_sign_off ex_day1 = (Inr v, b'\<lparr>bk_notifications := nt\<rparr>) \<and>
      cz_expected v = 100"
    by (simp add: close_def c Let_def fc [OF ex_day1_eval(1,2)] st b0_def [symmetric] r(1) ex cnt b'(1)) (rule exI, rule refl)
  then obtain v nt where v: "close no_compare ex_books_ctx ex_close_ids ex_sign_off ex_day1 = (Inr v, b'\<lparr>bk_notifications := nt\<rparr>)"
    "cz_expected v = 100" by blast
  then have d2: "ex_day2 = b'\<lparr>bk_notifications := nt\<rparr>" by (simp add: ex_day2_def)
  show "\<exists>v. close no_compare ex_books_ctx ex_close_ids ex_sign_off ex_day1 = (Inr v, ex_day2) \<and> cz_expected v = 100"
    using v d2 by simp
  show "map_option cl_status (map_of (bk_closings ex_day2) 10) = Some locked"
    "map_option cl_isLocked (map_of (bk_closings ex_day2) 10) = Some True"
    "t_keys (bk_closings ex_day2) = [10]" "t_keys (bk_counts ex_day2) = [11]"
    "bk_discrepancies ex_day2 = [(50, new_discrepancy ex_books_ctx 3 10 11 (-10))]" "bk_debts ex_day2 = []"
    unfolding d2 using b' by simp_all
qed

section \<open>One equation\<close>

lemma cash_total:
  assumes "money_columns b"
  shows "\<exists>s. map_of (channel_totals (channelMovements co br day b) as) (ch_cash, None) = Some s \<and>
     expected_of s = round2 (sum_of pm_amount (filter (\<lambda>p. pm_method p = pm_cash) (day_payments co br day b))
       - sum_of po_reportedAmount (filter (\<lambda>p. po_method p = cash) (day_payouts co br day b))
       - sum_of st_amount (filter (\<lambda>s. st_method s = cash) (day_settlements co br day b))
       - sum_of x_amount (filter (\<lambda>x. x_method x = cash) (day_expenses co br day b))
       + sum_of fc_amount (filter (\<lambda>f. fc_method f = cash) (day_corrections co br day b)))"
proof -
  let ?ms = "channelMovements co br day b"
  note rows = money_columns_rows [OF assms, of _ co br day]
  have "(ch_cash, None) \<in> set (t_keys (channel_totals ?ms as))" by (simp add: totals_keys(2))
  then obtain s where s: "map_of (channel_totals ?ms as) (ch_cash, None) = Some s"
    by (cases "map_of (channel_totals ?ms as) (ch_cash, None)") (auto simp: map_of_eq_None_keys)
  have get: "sums_get cpt s = moved_in (ch_cash, None) cpt ?ms" for cpt
    using held_totals [of ?ms as "(ch_cash, None)" cpt] s by (simp add: held_def)
  have "moved_in (ch_cash, None) cpt ?ms =
      (case cpt of c_salesIn \<Rightarrow> sum_of pm_amount (filter (\<lambda>p. pm_method p = pm_cash) (day_payments co br day b))
       | c_refundsOut \<Rightarrow> sum_of po_reportedAmount (filter (\<lambda>p. po_method p = cash) (day_payouts co br day b))
       | c_supplierOut \<Rightarrow> sum_of st_amount (filter (\<lambda>s. st_method s = cash) (day_settlements co br day b))
       | c_expensesOut \<Rightarrow> sum_of x_amount (filter (\<lambda>x. x_method x = cash) (day_expenses co br day b))
       | c_correctionsIn \<Rightarrow> sum_of fc_amount (filter (\<lambda>f. fc_method f = cash) (day_corrections co br day b)))" for cpt
    using rows
    by (cases cpt) (simp_all add: channelMovements_def moved_in_sales_part moved_in_method_part channel_expenses_eq)
  then show ?thesis
    using s by (intro exI [of _ s]) (simp del: sums_get.simps add: expected_of_signed signed_sum_get get)
qed

lemma rollup_after_recompute:
  assumes "\<And>r. map_of (bk_rollups b) (br, day) = Some r \<Longrightarrow> ru_companyId r = co"
  shows "find_rollup co br day (recomputeDaily co br day now b) = Some (daily_figures co br day now b)"
  using assms
  by (auto simp: find_rollup_def recomputeDaily_def Let_def split: option.splits) (simp_all add: daily_figures_def Let_def)

lemma recomputeDaily_tables [simp]:
  "bk_payments (recomputeDaily co br day now b) = bk_payments b" "bk_payouts (recomputeDaily co br day now b) = bk_payouts b"
  "bk_settlements (recomputeDaily co br day now b) = bk_settlements b" "bk_expenses (recomputeDaily co br day now b) = bk_expenses b"
  "bk_corrections (recomputeDaily co br day now b) = bk_corrections b" "bk_sales (recomputeDaily co br day now b) = bk_sales b"
  "bk_closings (recomputeDaily co br day now b) = bk_closings b" "bk_counts (recomputeDaily co br day now b) = bk_counts b"
  "bk_discrepancies (recomputeDaily co br day now b) = bk_discrepancies b" "bk_debts (recomputeDaily co br day now b) = bk_debts b"
  by (simp_all add: recomputeDaily_def Let_def)

lemma recomputeDaily_day [simp]:
  "day_payments co' br' day' (recomputeDaily co br day now b) = day_payments co' br' day' b"
  "day_settlements co' br' day' (recomputeDaily co br day now b) = day_settlements co' br' day' b"
  "day_payouts co' br' day' (recomputeDaily co br day now b) = day_payouts co' br' day' b"
  "day_expenses co' br' day' (recomputeDaily co br day now b) = day_expenses co' br' day' b"
  "day_corrections co' br' day' (recomputeDaily co br day now b) = day_corrections co' br' day' b"
  by (simp_all add: day_payments_def day_settlements_def day_payouts_def day_expenses_def day_corrections_def sold_on_def)

lemma expected_cash_eq:
  assumes "money_columns b" and "\<And>r. map_of (bk_rollups b) (br, day) = Some r \<Longrightarrow> ru_companyId r = co"
  shows "expected_cash co br day (find_rollup co br day (recomputeDaily co br day now b)) (recomputeDaily co br day now b) =
     round2 (sum_of pm_amount (filter (\<lambda>p. pm_method p = pm_cash) (day_payments co br day b))
       - sum_of po_reportedAmount (filter (\<lambda>p. po_method p = cash) (day_payouts co br day b))
       - sum_of st_amount (filter (\<lambda>s. st_method s = cash) (day_settlements co br day b))
       - sum_of x_amount (filter (\<lambda>x. x_method x = cash) (day_expenses co br day b))
       + sum_of fc_amount (filter (\<lambda>f. fc_method f = cash) (day_corrections co br day b)))"
proof -
  note rows = money_columns_rows [OF assms(1), of _ co br day]
  have c: "is_cents (sum_of po_reportedAmount (filter (\<lambda>p. po_method p = cash) (day_payouts co br day b)))"
    "is_cents (sum_of st_amount (filter (\<lambda>s. st_method s = cash) (day_settlements co br day b)))"
    "is_cents (sum_of x_amount (filter (\<lambda>x. x_method x = cash) (day_expenses co br day b)))"
    "is_cents (sum_of fc_amount (filter (\<lambda>f. fc_method f = cash) (day_corrections co br day b)))"
    using rows by (auto intro!: sum_of_cents simp: channel_expenses_eq)
  have "find_rollup co br day (recomputeDaily co br day now b) = Some (daily_figures co br day now b)"
    by (rule rollup_after_recompute) (rule assms(2))
  with c show ?thesis
    by (simp add: expected_cash_def paidOn_cash figure_def daily_figures_def Let_def)
qed

lemma distinct_one: "distinct xs \<Longrightarrow> set xs = {a} \<Longrightarrow> xs = [a]"
  by (cases xs; cases "tl xs") auto

lemma cash_rows:
  assumes "map_of (channel_totals ms as) (ch_cash, None) = Some s"
  shows "filter (\<lambda>x. fst (fst x) = ch_cash) (channel_totals ms as) = [((ch_cash, None), s)]"
proof (rule distinct_one)
  let ?t = "channel_totals ms as"
  have wf: "t_wf ?t" by (rule totals_keys)
  then show "distinct (filter (\<lambda>x. fst (fst x) = ch_cash) ?t)"
    by (simp add: t_wf_def t_keys_def distinct_map)
  have cash_key: "k = (ch_cash, None)" if "k \<in> set (t_keys ?t)" "fst k = ch_cash" for k
    using that by (auto simp: totals_keys(2) movement_key_def)
  have one: "x = ((ch_cash, None), s)" if x: "x \<in> set ?t" "fst (fst x) = ch_cash" for x
  proof -
    have "fst x \<in> set (t_keys ?t)" using x(1) unfolding t_keys_def by simp
    from cash_key [OF this x(2)] have k: "fst x = (ch_cash, None)" .
    have "map_of ?t (fst x) = Some (snd x)" using wf x(1) by (simp add: t_wf_map_of_eq)
    with assms k show ?thesis by (metis option.inject prod.collapse)
  qed
  have mem: "((ch_cash, None), s) \<in> set ?t" using assms by (rule map_of_SomeD)
  show "set (filter (\<lambda>x. fst (fst x) = ch_cash) ?t) = {((ch_cash, None), s)}"
  proof (rule set_eqI)
    fix x show "x \<in> set (filter (\<lambda>x. fst (fst x) = ch_cash) ?t) \<longleftrightarrow> x \<in> {((ch_cash, None), s)}"
      using one [of x] mem by (cases "x = ((ch_cash, None), s)") (simp_all, blast)
  qed
qed

lemma cash_channel:
  assumes "map_of (channel_totals ms as) (ch_cash, None) = Some s"
  shows "filter (\<lambda>r. cr_channel r = ch_cash) (buildChannels lc ms as) = [channel_row as ((ch_cash, None), s)]"
proof -
  have "mset (filter (\<lambda>r. cr_channel r = ch_cash) (buildChannels lc ms as)) =
      mset (filter (\<lambda>r. cr_channel r = ch_cash) (map (channel_row as) (channel_totals ms as)))"
    by (simp add: buildChannels_def)
  also have "filter (\<lambda>r. cr_channel r = ch_cash) (map (channel_row as) (channel_totals ms as)) =
      map (channel_row as) (filter (\<lambda>x. fst (fst x) = ch_cash) (channel_totals ms as))"
    by (simp add: filter_map o_def channel_row_def Let_def)
  finally have "mset (filter (\<lambda>r. cr_channel r = ch_cash) (buildChannels lc ms as)) = {#channel_row as ((ch_cash, None), s)#}"
    by (simp only: cash_rows [OF assms] list.map mset.simps)
  then show ?thesis by (simp only: mset_single_iff)
qed

text \<open>
  (C37) There is one reconciliation equation: when a day is signed off, the expected cash the
  closing computes from the rollup, the cash sales and the supplier payments is exactly what
  the channel builder, reading the ledgers movement by movement, expects in the one cash
  channel it lists.
\<close>

theorem closing_cash_is_cash_channel:
  assumes "close lc c ids dto b = (Inr r, b')" and "money_columns b" and "c_branchId c = Some br"
    and "\<And>day x. map_of (bk_rollups b) (br, day) = Some x \<Longrightarrow> ru_companyId x = c_companyId c"
  shows "\<exists>x. filter (\<lambda>x. cr_channel (or_channel x) = ch_cash) (cz_channels r) = [x] \<and>
             cr_expected (or_channel x) = cz_expected r"
proof -
  let ?co = "c_companyId c"
  from assms(1,3) obtain day ns where chans: "cz_channels r = map (open_row ns) (expectedChannels lc ?co br day (recomputeDaily ?co br day (c_now c) b))"
    and ex: "cz_expected r = expected_cash ?co br day (find_rollup ?co br day (recomputeDaily ?co br day (c_now c) b)) (recomputeDaily ?co br day (c_now c) b)"
    by (auto simp: close_def Let_def split: sum.splits if_splits prod.splits)
  let ?b0 = "recomputeDaily ?co br day (c_now c) b"
  have m0: "money_columns ?b0" using assms(2) by (simp add: money_columns_def)
  from cash_total [OF m0, of ?co br day "account_rows ?co ?b0"] obtain s where
    s: "map_of (channel_totals (channelMovements ?co br day ?b0) (account_rows ?co ?b0)) (ch_cash, None) = Some s"
    and e0: "expected_of s = round2 (sum_of pm_amount (filter (\<lambda>p. pm_method p = pm_cash) (day_payments ?co br day b))
       - sum_of po_reportedAmount (filter (\<lambda>p. po_method p = cash) (day_payouts ?co br day b))
       - sum_of st_amount (filter (\<lambda>s. st_method s = cash) (day_settlements ?co br day b))
       - sum_of x_amount (filter (\<lambda>x. x_method x = cash) (day_expenses ?co br day b))
       + sum_of fc_amount (filter (\<lambda>f. fc_method f = cash) (day_corrections ?co br day b)))"
    unfolding recomputeDaily_day by blast
  have e: "expected_of s = cz_expected r"
    unfolding e0 ex by (rule expected_cash_eq [symmetric, OF assms(2)]) (rule assms(4))
  have "filter (\<lambda>x. cr_channel (or_channel x) = ch_cash) (cz_channels r) =
      map (open_row ns) (filter (\<lambda>r. cr_channel r = ch_cash) (expectedChannels lc ?co br day ?b0))"
    by (simp add: chans filter_map o_def open_row_def Let_def)
  also have "\<dots> = [open_row ns (channel_row (account_rows ?co ?b0) ((ch_cash, None), s))]"
    by (simp add: expectedChannels_def cash_channel [OF s])
  finally show ?thesis using e by (simp add: open_row_def channel_row_def Let_def)
qed

theorem closing_cash_is_cash_channel_witness:
  "\<exists>r x. fst (close no_compare ex_books_ctx ex_close_ids ex_sign_off ex_day1) = Inr r \<and>
      filter (\<lambda>x. cr_channel (or_channel x) = ch_cash) (cz_channels r) = [x] \<and> cr_expected (or_channel x) = 100"
proof -
  obtain v where v: "close no_compare ex_books_ctx ex_close_ids ex_sign_off ex_day1 = (Inr v, ex_day2)" "cz_expected v = 100"
    using ex_close_eval(1) by blast
  have "money_columns ex_day1"
    using ex_day1_eval(3) by (simp add: money_columns_def ex_tables_def ex_day0_def)
  then have "\<exists>x. filter (\<lambda>x. cr_channel (or_channel x) = ch_cash) (cz_channels v) = [x] \<and> cr_expected (or_channel x) = cz_expected v"
    by (intro closing_cash_is_cash_channel [OF v(1)]) (simp_all add: ex_books_ctx_def ex_day1_eval)
  with v show ?thesis by auto
qed

text \<open>
  The channels of a day account for every movement exactly once: no channel is listed
  twice; the drawer and every active account are always listed, an inactive account and the
  unattributed bucket exactly when money moved through them; and what all channels together
  are expected to hold is the signed sum of all movements.
\<close>

theorem channels_account_for_everything:
  assumes "\<forall>m \<in> set ms. is_cents (mv_amount m)"
  shows "(\<Sum>r\<leftarrow>buildChannels lc ms as. cr_expected r) = (\<Sum>m\<leftarrow>ms. of_int (COMPONENT_SIGN (mv_component m)) * mv_amount m) \<and>
         distinct (map (\<lambda>r. (cr_channel r, cr_accountId r)) (buildChannels lc ms as)) \<and>
         (\<forall>k. k \<in> (\<lambda>r. (cr_channel r, cr_accountId r)) ` set (buildChannels lc ms as) \<longleftrightarrow>
            k = (ch_cash, None) \<or> (\<exists>a \<in> set as. ar_isActive a \<and> k = (ch_account, Some (ar_id a))) \<or>
            (\<exists>m \<in> set ms. mv_amount m \<noteq> 0 \<and> movement_key m = k))"
proof (intro conjI)
  let ?t = "channel_totals ms as" and ?rows = "map (channel_row as) (channel_totals ms as)"
  have ms: "mset (map f (buildChannels lc ms as)) = mset (map f ?rows)" for f :: "ChannelRow \<Rightarrow> 'a"
    by (simp only: buildChannels_def mset_map mset_sort_by)
  have "(\<Sum>r\<leftarrow>buildChannels lc ms as. cr_expected r) = (\<Sum>r\<leftarrow>?rows. cr_expected r)"
    using ms [of cr_expected] by (metis sum_mset_sum_list)
  also have "\<dots> = (\<Sum>(k, s)\<leftarrow>?t. signed_sum s)"
    using expected_exact [of ms _ _ as] assms
    by (intro arg_cong [where f = sum_list]) (auto simp: channel_row_def Let_def)
  finally show "(\<Sum>r\<leftarrow>buildChannels lc ms as. cr_expected r) = (\<Sum>m\<leftarrow>ms. of_int (COMPONENT_SIGN (mv_component m)) * mv_amount m)"
    by (simp add: total_channel_totals signed_movement_def [abs_def])
  have keys: "map (\<lambda>r. (cr_channel r, cr_accountId r)) ?rows = t_keys ?t"
    by (simp add: t_keys_def channel_row_def Let_def)
  show "distinct (map (\<lambda>r. (cr_channel r, cr_accountId r)) (buildChannels lc ms as))"
    using ms [of "\<lambda>r. (cr_channel r, cr_accountId r)"] totals_keys(1) [of ms as]
    by (metis keys mset_eq_imp_distinct_iff t_wf_def)
  have keyset: "(\<lambda>r. (cr_channel r, cr_accountId r)) ` set (buildChannels lc ms as) = set (t_keys ?t)"
    using ms [of "\<lambda>r. (cr_channel r, cr_accountId r)"] keys by (metis list.set_map mset_eq_setD)
  show "\<forall>k. k \<in> (\<lambda>r. (cr_channel r, cr_accountId r)) ` set (buildChannels lc ms as) \<longleftrightarrow>
            k = (ch_cash, None) \<or> (\<exists>a \<in> set as. ar_isActive a \<and> k = (ch_account, Some (ar_id a))) \<or>
            (\<exists>m \<in> set ms. mv_amount m \<noteq> 0 \<and> movement_key m = k)"
  proof (rule allI, goal_cases)
    case (1 k)
    have "k \<in> movement_key ` {m \<in> set ms. mv_amount m \<noteq> 0} \<longleftrightarrow> (\<exists>m \<in> set ms. mv_amount m \<noteq> 0 \<and> movement_key m = k)"
      by blast
    moreover have "k \<in> (\<lambda>a. (ch_account, Some (ar_id a))) ` {a \<in> set as. ar_isActive a} \<longleftrightarrow>
        (\<exists>a \<in> set as. ar_isActive a \<and> k = (ch_account, Some (ar_id a)))"
      by blast
    ultimately show ?case unfolding keyset totals_keys(2) insert_iff Un_iff by simp
  qed
qed

theorem channels_account_for_everything_witness:
  "(\<Sum>r\<leftarrow>buildChannels no_compare (channelMovements 2 3 0 ex_day0) []. cr_expected r) = 100"
  using channels_account_for_everything [of "channelMovements 2 3 0 ex_day0" no_compare "[]"]
  by (simp add: ex_movements)

section \<open>A signed-off day\<close>

definition same_counts :: "id \<Rightarrow> books \<Rightarrow> books \<Rightarrow> bool" where
  "same_counts i b b' \<longleftrightarrow>
     (\<forall>x n. cn_closingId n = i \<longrightarrow> (map_of (bk_counts b') x = Some n \<longleftrightarrow> map_of (bk_counts b) x = Some n))"

lemma same_counts_refl [simp]: "same_counts i b b"
  by (simp add: same_counts_def)

lemma same_counts_trans: "same_counts i b b1 \<Longrightarrow> same_counts i b1 b2 \<Longrightarrow> same_counts i b b2"
  by (simp add: same_counts_def)

lemma same_counts_cong: "same_counts i b b1 \<Longrightarrow> bk_counts b2 = bk_counts b1 \<Longrightarrow> same_counts i b b2"
  by (simp add: same_counts_def)

lemma same_counts_update:
  assumes "map_of (bk_counts b) y = Some n" and "cn_closingId n \<noteq> i" and "cn_closingId (f n) \<noteq> i"
  shows "same_counts i b (b\<lparr>bk_counts := t_update y f (bk_counts b)\<rparr>)"
  using assms by (auto simp: same_counts_def)

lemma same_counts_insert:
  assumes "cn_closingId n \<noteq> i"
  shows "same_counts i b (b\<lparr>bk_counts := t_insert y n (bk_counts b)\<rparr>)"
  using assms by (auto simp: same_counts_def t_insert_def map_add_def split: option.splits)

lemma saved_count_mem: "saved_count ns ch = Some (y, n) \<Longrightarrow> (y, n) \<in> set ns"
  unfolding saved_count_def by (drule map_of_SomeD) auto

lemma frozen_closing [simp]: "cn_closingId (frozen ch sv n) = cn_closingId n"
  by (simp add: frozen_def Let_def)

lemma freeze_channels_fields [simp]:
  "bk_closings (freeze_channels co j ns ids m chs b) = bk_closings b"
  "bk_discrepancies (freeze_channels co j ns ids m chs b) = bk_discrepancies b"
  by (induction co j ns ids m chs b rule: freeze_channels.induct) auto

lemma open_discrepancies_fields [simp]:
  "bk_closings (open_discrepancies c br j ids m ns b) = bk_closings b"
  "bk_counts (open_discrepancies c br j ids m ns b) = bk_counts b"
  by (induction c br j ids m ns b rule: open_discrepancies.induct) auto

lemma freeze_channels_same:
  assumes "i \<noteq> j" and "\<And>y n. (y, n) \<in> set ns \<Longrightarrow> \<exists>n'. map_of (bk_counts b) y = Some n' \<and> cn_closingId n' = j"
  shows "same_counts i b (freeze_channels co j ns ids m chs b)"
  using assms(2)
proof (induction chs arbitrary: m b)
  case (Cons ch chs)
  define b1 where "b1 = b\<lparr>bk_counts := (case saved_count ns ch of
       Some (y, n) \<Rightarrow> t_update y (frozen ch (Some n)) (bk_counts b)
     | None \<Rightarrow> t_insert (ids m) (frozen ch None (new_count co j (cr_channel ch) (cr_accountId ch))) (bk_counts b))\<rparr>"
  have "same_counts i b b1"
  proof (cases "saved_count ns ch")
    case None
    with assms(1) show ?thesis unfolding b1_def by (simp add: same_counts_insert new_count_def)
  next
    case (Some yn)
    obtain y n where yn: "yn = (y, n)" by fastforce
    with Some saved_count_mem Cons.prems obtain n' where "map_of (bk_counts b) y = Some n'" "cn_closingId n' = j" by blast
    with Some yn assms(1) show ?thesis unfolding b1_def by (simp add: same_counts_update)
  qed
  moreover have "\<exists>n'. map_of (bk_counts b1) y = Some n' \<and> cn_closingId n' = j" if "(y, n) \<in> set ns" for y n
    using Cons.prems [OF that]
    by (auto simp: b1_def t_insert_def map_add_def split: option.splits)
  then have "same_counts i b1 (freeze_channels co j ns ids (Suc m) chs b1)" by (rule Cons.IH)
  ultimately show ?case unfolding b1_def by (simp add: same_counts_trans)
qed simp

lemma counts_of_lookup:
  "t_wf (bk_counts b) \<Longrightarrow> (y, n) \<in> set (counts_of j b) \<Longrightarrow> map_of (bk_counts b) y = Some n \<and> cn_closingId n = j"
  by (auto simp: counts_of_def t_wf_map_of_eq)

lemma find_closing_lookup:
  assumes "t_wf (bk_closings b)" and "find_closing co br day b = Some (j, k)"
  shows "map_of (bk_closings b) j = Some k"
  using assms by (auto simp: find_closing_def find_Some_iff t_wf_map_of_eq dest: nth_mem)

lemma close_tx_locked:
  assumes wf: "t_wf (bk_closings b)" "t_wf (bk_counts b)"
    and i: "map_of (bk_closings b) i = Some k" "cl_status k = locked" and fresh: "map_of (bk_closings b) (ci_closing ids) = None"
    and al: "already = find_closing co br day b" and tx: "close_tx lc c ids br day already ru ex cnt b = Inr b'"
  shows "map_of (bk_closings b') i = Some k \<and> same_counts i b b'"
proof -
  define j where "j = (case already of Some (i, _) \<Rightarrow> i | None \<Rightarrow> ci_closing ids)"
  define ns where "ns = (case already of Some (i, _) \<Rightarrow> counts_of i b | None \<Rightarrow> [])"
  from tx obtain cls where cls: "map_of cls i = Some k \<and> i \<noteq> j"
    and b': "bk_closings b' = cls"
      "bk_counts b' = bk_counts (freeze_channels (c_companyId c) j ns (ci_counts ids) 0
         (expectedChannels lc (c_companyId c) br day b) (b\<lparr>bk_closings := cls\<rparr>))"
  proof (cases already)
    case None
    with tx i fresh show ?thesis
      by (intro that [of "t_insert j (snapshot c ru (paidOn (c_companyId c) br day b) ex cnt (new_closing (c_companyId c) br day)) (bk_closings b)"])
        (auto simp: close_tx_def j_def ns_def Let_def split: if_splits)
  next
    case (Some jk)
    obtain j' k' where jk: "jk = (j', k')" by fastforce
    with find_closing_lookup [OF wf(1)] al Some have k': "map_of (bk_closings b) j' = Some k'" by metis
    with tx Some jk i have "j' \<noteq> i" by (auto simp: close_tx_def Let_def t_update_where_def)
    with tx i Some jk k' show ?thesis
      by (intro that [of "t_update j' (\<lambda>x. (snapshot c ru (paidOn (c_companyId c) br day b) ex cnt x)\<lparr>cl_version := Suc (cl_version x)\<rparr>) (bk_closings b)"])
        (auto simp: close_tx_def j_def ns_def Let_def t_update_where_def split: if_splits)
  qed
  have "same_counts i (b\<lparr>bk_closings := cls\<rparr>) (freeze_channels (c_companyId c) j ns (ci_counts ids) 0
      (expectedChannels lc (c_companyId c) br day b) (b\<lparr>bk_closings := cls\<rparr>))"
    by (rule freeze_channels_same) (use cls counts_of_lookup [OF wf(2)] in \<open>auto simp: ns_def j_def split: option.splits\<close>)
  with cls b' show ?thesis by (simp add: same_counts_def)
qed

lemma count_payload_closing [simp]: "cn_closingId (count_payload c dto r n) = cn_closingId n"
  by (simp add: count_payload_def Let_def)

lemma ensure_closing_fields [simp]:
  "bk_counts (ensure_closing c n plan b) = bk_counts b"
  "bk_discrepancies (ensure_closing c n plan b) = bk_discrepancies b" "bk_debts (ensure_closing c n plan b) = bk_debts b"
  by (simp_all add: ensure_closing_def split: option.split)

lemma put_count_fields [simp]:
  "bk_closings (put_count c m dto r j b) = bk_closings b"
  "bk_discrepancies (put_count c m dto r j b) = bk_discrepancies b" "bk_debts (put_count c m dto r j b) = bk_debts b"
  by (simp_all add: put_count_def)

lemma mark_counted_fields [simp]:
  "bk_counts (mark_counted c j st b) = bk_counts b"
  "bk_discrepancies (mark_counted c j st b) = bk_discrepancies b" "bk_debts (mark_counted c j st b) = bk_debts b"
  by (simp_all add: mark_counted_def)

lemma recordCount_write_cases:
  fixes plan :: CountPlan and n :: id and j :: id
  defines "j \<equiv> case rp_existing plan of Some i \<Rightarrow> i | None \<Rightarrow> n"
  obtains (same) "snd (recordCount_write lc c n m dto plan b) = b"
  | (written) st au where "snd (recordCount_write lc c n m dto plan b) =
      (mark_counted c j st (put_count c m dto (rp_target plan) j (ensure_closing c n plan b)))\<lparr>bk_audit := au\<rparr>" "st \<noteq> locked"
proof (cases "rp_existing plan = None \<and> find_closing (c_companyId c) (rp_branch plan) (rp_day plan) b \<noteq> None")
  case True
  then show ?thesis by (intro same) (auto simp: recordCount_write_def Let_def)
next
  case False
  show ?thesis
    by (rule written) (unfold recordCount_write_def Let_def j_def [symmetric] if_not_P [OF False] snd_conv, rule refl, simp)
qed

lemma put_count_same:
  assumes "t_wf (bk_counts b)" and "i \<noteq> j"
  shows "same_counts i b (put_count c m dto r j b)"
proof (cases "prior_count c dto j b")
  case None
  with assms(2) show ?thesis by (simp add: put_count_def same_counts_insert new_count_def)
next
  case (Some x)
  then have "x \<in> set (counts_of j b)" by (auto simp: prior_count_def counts_of_def find_Some_iff dest: nth_mem)
  with counts_of_lookup [OF assms(1), of "fst x" "snd x" j] Some assms(2) show ?thesis
    by (cases x) (auto simp: put_count_def intro: same_counts_update)
qed

lemma recordCount_locked:
  assumes wf: "t_wf (bk_closings b)" "t_wf (bk_counts b)"
    and i: "map_of (bk_closings b) i = Some k" "cl_status k = locked" and fresh: "map_of (bk_closings b) n = None"
  shows "map_of (bk_closings (snd (recordCount lc c n m dto b))) i = Some k \<and> same_counts i b (snd (recordCount lc c n m dto b))"
proof (cases "recordCount_plan lc c dto b")
  case (Inr plan)
  then obtain ex where ex: "find_closing (c_companyId c) (rp_branch plan) (rp_day plan) b = ex"
    "rp_existing plan = map_option fst ex" "\<And>j kk. ex = Some (j, kk) \<Longrightarrow> cl_status kk \<noteq> locked"
    by (auto simp: recordCount_plan_def Let_def split: option.splits if_splits)
  define j where "j = (case rp_existing plan of Some i \<Rightarrow> i | None \<Rightarrow> n)"
  have j: "j \<noteq> i"
  proof (cases ex)
    case None
    with ex(2) i fresh show ?thesis by (auto simp: j_def)
  next
    case (Some x)
    with ex(1) find_closing_lookup [OF wf(1)] have "map_of (bk_closings b) (fst x) = Some (snd x)" by (cases x) auto
    with Some ex(2) ex(3) [of "fst x" "snd x"] i show ?thesis by (auto simp: j_def)
  qed
  show ?thesis
  proof (cases rule: recordCount_write_cases [where lc = lc and c = c and n = n and m = m and dto = dto and plan = plan and b = b])
    case same
    with i show ?thesis by (simp add: recordCount_def Inr)
  next
    case (written st au)
    have "map_of (bk_closings (ensure_closing c n plan b)) i = Some k"
      using i by (auto simp: ensure_closing_def t_insert_def map_add_def split: option.split)
    moreover have "same_counts i b (put_count c m dto (rp_target plan) j (ensure_closing c n plan b))"
      using put_count_same [of "ensure_closing c n plan b" i j] wf(2) j by (simp add: same_counts_def)
    ultimately show ?thesis
      using written(1) j unfolding j_def [symmetric] by (simp add: recordCount_def Inr mark_counted_def same_counts_def)
  qed
qed (use i in \<open>simp add: recordCount_def\<close>)

text \<open>A sign-off leaves the books, leaves them with a fresh rollup, or is a transaction on those.\<close>

lemma close_outcomes:
  assumes "c_branchId c = Some br"
  defines "day \<equiv> \<lambda>dto. case cc_date dto of Some d \<Rightarrow> d | None \<Rightarrow> dayKey (c_now c)"
  shows "snd (close lc c ids dto b) = b \<or> snd (close lc c ids dto b) = recomputeDaily (c_companyId c) br (day dto) (c_now c) b \<or>
    (\<exists>ru ex cnt b' nt. close_tx lc c ids br (day dto) (find_closing (c_companyId c) br (day dto) b) ru ex cnt
         (recomputeDaily (c_companyId c) br (day dto) (c_now c) b) = Inr b' \<and>
       snd (close lc c ids dto b) = b'\<lparr>bk_notifications := nt\<rparr>)"
  unfolding close_def assms(1) option.case Let_def day_def
  by (simp split: sum.split) blast

lemma close_locked:
  assumes wf: "t_wf (bk_closings b)" "t_wf (bk_counts b)"
    and i: "map_of (bk_closings b) i = Some k" "cl_status k = locked" and fresh: "map_of (bk_closings b) (ci_closing ids) = None"
  shows "map_of (bk_closings (snd (close lc c ids dto b))) i = Some k \<and> same_counts i b (snd (close lc c ids dto b))"
proof -
  let ?b0 = "\<lambda>br day. recomputeDaily (c_companyId c) br day (c_now c) b"
  have same0: "same_counts i b (?b0 br day)" for br day by (simp add: same_counts_def)
  have fc: "find_closing co br day (?b0 br' day') = find_closing co br day b" for co br day br' day'
    by (simp add: find_closing_def)
  have tx: "map_of (bk_closings b') i = Some k \<and> same_counts i b b'"
    if "close_tx lc c ids br day (find_closing (c_companyId c) br day b) ru ex cnt (?b0 br day) = Inr b'" for br day ru ex cnt b'
    using close_tx_locked [of "?b0 br day" i k ids _ "c_companyId c" br day, OF _ _ _ i(2) _ _ that] wf i fresh
      same_counts_trans [OF same0, of br day b'] fc by simp
  show ?thesis
  proof (cases "c_branchId c")
    case None
    with i show ?thesis by (simp add: close_def)
  next
    case (Some br)
    from close_outcomes [OF Some, of lc ids dto b] show ?thesis
    proof (elim disjE exE conjE, goal_cases)
      case (3 ru ex cnt b' nt)
      with tx show ?thesis by (auto simp: same_counts_def)
    qed (use i same0 in simp_all)
  qed
qed

text \<open>
  A signed-off day stands: once the row of a day reads \<^verbatim>\<open>locked\<close>, no later count and no
  later sign-off, on that day or on another, changes the snapshot or any of the frozen channel
  counts of that day; on that day itself both are refused.
\<close>

theorem locked_day_stands:
  assumes "t_wf (bk_closings b)" "t_wf (bk_counts b)" and "map_of (bk_closings b) i = Some k" "cl_status k = locked"
    and "map_of (bk_closings b) n = None" "ci_closing ids = n"
  shows "map_of (bk_closings (snd (close lc c ids dto b))) i = Some k \<and> same_counts i b (snd (close lc c ids dto b)) \<and>
         map_of (bk_closings (snd (recordCount lc c n m rdto b))) i = Some k \<and> same_counts i b (snd (recordCount lc c n m rdto b)) \<and>
         (find_closing (c_companyId c) br day b = Some (i, k) \<and> c_branchId c = Some br \<and> cc_date dto = Some day \<longrightarrow>
            close lc c ids dto b = (Inl (Conflict (DayAlreadyClosed day)), b))"
  using close_locked [OF assms(1-4)] recordCount_locked [OF assms(1-5)] assms(4-6)
  by (auto simp: close_def Let_def)

theorem locked_day_stands_witness:
  "map_of (bk_closings (snd (close no_compare ex_books_ctx ex_close_ids ex_sign_off ex_day2))) 10 = map_of (bk_closings ex_day2) 10"
proof -
  obtain k where k: "map_of (bk_closings ex_day2) 10 = Some k" "cl_status k = locked"
    using ex_close_eval(2) by auto
  have "map_of (bk_closings ex_day2) 30 = None"
    using ex_close_eval(4) by (simp add: map_of_eq_None_keys)
  then show ?thesis
    using locked_day_stands [of ex_day2 10 k 30 ex_close_ids] k ex_close_eval(4,5)
    by (simp add: t_wf_def ex_close_ids_def)
qed

text \<open>
  The last write of a count is not guarded: when a day is signed off between the moment a
  count read it as open and the moment it writes, the write sets the status of the signed-off
  day back to counting or counted, while the lock flag and the snapshot stay; the next count
  of that day is then no longer refused as closed.
\<close>

theorem late_count_reopens_day:
  assumes "recordCount_plan lc c dto b = Inr plan" and "rp_existing plan = Some i"
    and "map_of (bk_closings b1) i = Some k" "cl_status k = locked" "cl_isLocked k"
  shows "\<exists>k'. map_of (bk_closings (snd (recordCount_write lc c n m dto plan b1))) i = Some k' \<and>
              cl_status k' \<noteq> locked \<and> cl_isLocked k' \<and> cl_countedCash k' = cl_countedCash k \<and> cl_difference k' = cl_difference k"
  using assms(2-)
  by (auto simp: recordCount_write_def Let_def mark_counted_def ensure_closing_def)

theorem late_count_reopens_day_witness:
  "\<exists>k'. map_of (bk_closings (snd (recordCount_write no_compare ex_books_ctx 12 13 (ex_count 95) (ex_plan (Some 10)) ex_day2))) 10
      = Some k' \<and> cl_status k' \<noteq> locked \<and> cl_isLocked k'"
proof -
  obtain k where k: "map_of (bk_closings ex_day2) 10 = Some k" "cl_status k = locked" "cl_isLocked k"
    using ex_close_eval(2,3) by auto
  have "recordCount_plan no_compare ex_books_ctx (ex_count 95) ex_day1 = Inr (ex_plan (Some 10))"
    using ex_plan_eval [of ex_day1 "Some (10, ex_closing1)" 95] ex_day1_eval
    by (simp add: find_closing_def ex_closing1_def new_closing_def)
  from late_count_reopens_day [OF this _ k] show ?thesis by (fastforce simp: ex_plan_def)
qed

end
