(* ===== verification/Discrepancies.thy ===== *)
theory Discrepancies
  imports ClosingRules
begin

text \<open>
  What follows a till that does not balance (\<^verbatim>\<open>src/src/closing/discrepancies.service.ts\<close>): the
  decision on a discrepancy, the ledger of what a person owes, and the entries that settle it.
\<close>

section \<open>Requests and answers\<close>

datatype debt_reason =
    NoBranch
  | NoUser
  | NoSuchDiscrepancy
  | AlreadyResolved
  | Violates rule_violation
  | NotPartOfThisShop
  | DecidedMeanwhile
  | NoSuchPerson

type_synonym debt_error = "debt_reason http_error"

record ResolveDiscrepancyDto =
  rd_resolution :: DiscrepancyResolution
  rd_reason :: string
  rd_responsibleUserId :: "id option"
  rd_expectedVersion :: "nat option"

record CreateDebtEntryDto =
  ed_userId :: id
  ed_kind :: DebtEntryKind
  ed_amount :: number
  ed_reason :: string
  ed_method :: "DebtRepaymentMethod option"
  ed_reference :: "string option"
  ed_entryDate :: "nat option"
  ed_clientUuid :: "id option"

datatype Direction = shortage | surplus

record ChannelView =
  cw_channel :: Channel
  cw_label :: string
  cw_expected :: number
  cw_counted :: "number option"

record DiscrepancyView =
  dv_id :: id
  dv_date :: nat
  dv_amount :: number
  dv_kind :: Direction
  dv_channel :: "ChannelView option"
  dv_status :: DiscrepancyStatus
  dv_resolution :: "DiscrepancyResolution option"
  dv_responsibleUserId :: "id option"
  dv_reason :: "string option"
  dv_openedAt :: nat
  dv_resolvedAt :: "nat option"
  dv_version :: nat

record DebtEntryView =
  dw_id :: id
  dw_kind :: DebtEntryKind
  dw_amount :: number
  dw_reason :: string
  dw_method :: "DebtRepaymentMethod option"
  dw_reference :: "string option"
  dw_date :: nat

record DebtLedger =
  lg_userId :: id
  lg_name :: string
  lg_outstanding :: number
  lg_entries :: "DebtEntryView list"

section \<open>Reads\<close>

definition shape :: "id \<Rightarrow> discrepancy \<Rightarrow> books \<Rightarrow> DiscrepancyView" where
  "shape i d b =
     \<lparr>dv_id = i,
      dv_date = (case map_of (bk_closings b) (dp_closingId d) of None \<Rightarrow> 0 | Some k \<Rightarrow> cl_closingDate k),
      dv_amount = round2 (dp_amount d), dv_kind = (if dp_amount d < 0 then shortage else surplus),
      dv_channel = map_option (\<lambda>n. \<lparr>cw_channel = cn_channel n, cw_label = cn_labelSnapshot n, cw_expected = round2 (cn_expected n),
                                     cw_counted = map_option round2 (cn_counted n)\<rparr>)
                     (Option.bind (dp_channelCountId d) (map_of (bk_counts b))),
      dv_status = dp_status d, dv_resolution = dp_resolution d, dv_responsibleUserId = dp_responsibleUserId d,
      dv_reason = dp_resolutionReason d, dv_openedAt = dp_openedAt d, dv_resolvedAt = dp_resolvedAt d,
      dv_version = dp_version d\<rparr>"

definition shapeEntry :: "id \<times> debt_entry \<Rightarrow> DebtEntryView" where
  "shapeEntry x =
     (let e = snd x
      in \<lparr>dw_id = fst x, dw_kind = de_kind e, dw_amount = round2 (de_amount e), dw_reason = de_reason e,
          dw_method = de_method e, dw_reference = de_reference e, dw_date = de_entryDate e\<rparr>)"

definition listPending :: "ctx \<Rightarrow> books \<Rightarrow> debt_error + DiscrepancyView list" where
  "listPending c b =
     (case c_branchId c of
        None \<Rightarrow> Inl (BadRequest NoBranch)
      | Some branch \<Rightarrow>
          Inr (map (\<lambda>(i, d). shape i d b)
            (take 100 (rev (sort_key (\<lambda>(_, d). dp_openedAt d)
              (filter (\<lambda>(_, d). dp_companyId d = c_companyId c \<and> dp_branchId d = branch \<and> dp_status d = pending_investigation)
                (bk_discrepancies b)))))))"

definition find_discrepancy :: "ctx \<Rightarrow> id \<Rightarrow> id \<Rightarrow> books \<Rightarrow> debt_error + discrepancy" where
  "find_discrepancy c branch i b =
     (case map_of (bk_discrepancies b) i of
        None \<Rightarrow> Inl (NotFound NoSuchDiscrepancy)
      | Some d \<Rightarrow> if dp_companyId d = c_companyId c \<and> dp_branchId d = branch then Inr d
                   else Inl (NotFound NoSuchDiscrepancy))"

definition get :: "ctx \<Rightarrow> id \<Rightarrow> books \<Rightarrow> debt_error + (DiscrepancyView \<times> DebtEntryView list)" where
  "get c i b =
     (case c_branchId c of
        None \<Rightarrow> Inl (BadRequest NoBranch)
      | Some branch \<Rightarrow>
          bindE (find_discrepancy c branch i b) (\<lambda>d.
            Inr (shape i d b, map shapeEntry (filter (\<lambda>(_, e). de_discrepancyId e = Some i) (bk_debts b)))))"

text \<open>The rows of one person, through the client of one company.\<close>

definition entries_of :: "id \<Rightarrow> id \<Rightarrow> books \<Rightarrow> (id \<times> debt_entry) list" where
  "entries_of co u b = filter (\<lambda>(_, e). de_companyId e = co \<and> de_userId e = u) (bk_debts b)"

definition debt_rows :: "(id \<times> debt_entry) list \<Rightarrow> DebtRow list" where
  "debt_rows es = map (\<lambda>(_, e). \<lparr>d_kind = de_kind e, d_amount = de_amount e\<rparr>) es"

definition find_person :: "ctx \<Rightarrow> id \<Rightarrow> books \<Rightarrow> user_row option" where
  "find_person c u b =
     (case map_of (bk_users b) u of
        None \<Rightarrow> None
      | Some r \<Rightarrow> if us_companyId r = c_companyId c then Some r else None)"

definition ledgerFor :: "ctx \<Rightarrow> id \<Rightarrow> books \<Rightarrow> debt_error + DebtLedger" where
  "ledgerFor c u b =
     (case find_person c u b of
        None \<Rightarrow> Inl (NotFound NoSuchPerson)
      | Some r \<Rightarrow>
          let es = entries_of (c_companyId c) u b
          in Inr \<lparr>lg_userId = u, lg_name = us_name r, lg_outstanding = balanceOf (debt_rows es),
                  lg_entries = map shapeEntry es\<rparr>)"

definition myLedger :: "ctx \<Rightarrow> books \<Rightarrow> debt_error + DebtLedger" where
  "myLedger c b = (case c_userId c of None \<Rightarrow> Inl (BadRequest NoUser) | Some u \<Rightarrow> ledgerFor c u b)"

section \<open>The decision\<close>

definition plan_of :: "ResolveDiscrepancyDto \<Rightarrow> discrepancy \<Rightarrow> debt_error + DebtRow list" where
  "plan_of dto d =
     (case planResolution (rd_resolution dto) (Some (rd_reason dto)) (rd_responsibleUserId dto) (dp_amount d) of
        Inl v \<Rightarrow> Inl (BadRequest (Violates v))
      | Inr rows \<Rightarrow> Inr rows)"

definition decided :: "ctx \<Rightarrow> id \<Rightarrow> ResolveDiscrepancyDto \<Rightarrow> discrepancy \<Rightarrow> discrepancy" where
  "decided c u dto d =
     d\<lparr>dp_status := resolved, dp_resolution := Some (rd_resolution dto), dp_responsibleUserId := rd_responsibleUserId dto,
       dp_resolutionReason := Some (js_trim (rd_reason dto)), dp_resolvedById := Some u, dp_resolvedAt := Some (c_now c),
       dp_version := Suc (dp_version d)\<rparr>"

definition resolution_entry :: "ctx \<Rightarrow> id \<Rightarrow> id \<Rightarrow> id \<Rightarrow> ResolveDiscrepancyDto \<Rightarrow> DebtRow \<Rightarrow> debt_entry" where
  "resolution_entry c branch actor i dto r =
     \<lparr>de_companyId = c_companyId c, de_branchId = branch,
      de_userId = (case rd_responsibleUserId dto of None \<Rightarrow> 0 | Some u \<Rightarrow> u), de_discrepancyId = Some i,
      de_kind = d_kind r, de_amount = d_amount r, de_reason = js_trim (rd_reason dto), de_method = None,
      de_reference = None, de_entryDate = dayKey (c_now c), de_createdById = actor, de_clientUuid = None\<rparr>"

fun add_entries :: "(nat \<Rightarrow> id) \<Rightarrow> nat \<Rightarrow> debt_entry list \<Rightarrow> books \<Rightarrow> books" where
  "add_entries ids j [] b = b"
| "add_entries ids j (e # es) b = add_entries ids (Suc j) es (b\<lparr>bk_debts := t_insert (ids j) e (bk_debts b)\<rparr>)"

definition resolve_tx ::
  "ctx \<Rightarrow> id \<Rightarrow> id \<Rightarrow> (nat \<Rightarrow> id) \<Rightarrow> id \<Rightarrow> ResolveDiscrepancyDto \<Rightarrow> discrepancy \<Rightarrow> DebtRow list \<Rightarrow> books
   \<Rightarrow> debt_error + books" where
  "resolve_tx c branch actor ids i dto d0 plan b =
     (case t_update_where i (\<lambda>d. dp_version d = dp_version d0 \<and> dp_status d = pending_investigation) (decided c actor dto)
             (bk_discrepancies b) of
        (won, ds) \<Rightarrow>
          if won = 0 then Inl (Conflict DecidedMeanwhile)
          else
            (let b1 = add_entries ids 0 (map (resolution_entry c branch actor i dto) plan) (b\<lparr>bk_discrepancies := ds\<rparr>)
             in Inr (b1\<lparr>bk_audit := bk_audit b1 @ [audit_row_of c ''ClosingDiscrepancy'' i ''update'' None (Some branch)]\<rparr>)))"

definition resolve ::
  "ctx \<Rightarrow> (nat \<Rightarrow> id) \<Rightarrow> id \<Rightarrow> ResolveDiscrepancyDto \<Rightarrow> books
   \<Rightarrow> (debt_error + (DiscrepancyView \<times> DebtEntryView list)) \<times> books" where
  "resolve c ids i dto b =
     (case (case c_branchId c of
              None \<Rightarrow> Inl (BadRequest NoBranch)
            | Some branch \<Rightarrow>
                (case c_userId c of
                   None \<Rightarrow> Inl (BadRequest NoUser)
                 | Some actor \<Rightarrow>
                     bindE (find_discrepancy c branch i b) (\<lambda>d.
                     bindE (require (dp_status d \<noteq> resolved) (Conflict AlreadyResolved)) (\<lambda>_.
                     bindE (plan_of dto d) (\<lambda>plan.
                     bindE (require (case rd_responsibleUserId dto of None \<Rightarrow> True | Some u \<Rightarrow> find_person c u b \<noteq> None)
                              (BadRequest NotPartOfThisShop)) (\<lambda>_.
                     bindE (resolve_tx c branch actor ids i dto d plan b) (\<lambda>b1.
                       Inr (if rd_responsibleUserId dto \<noteq> None \<and> list_ex (\<lambda>r. d_kind r = charge) plan
                            then b1\<lparr>bk_notifications := bk_notifications b1 @ [deliver c ''debt.charged'' (Some branch) None]\<rparr>
                            else b1)))))))) of
        Inl e \<Rightarrow> (Inl e, b)
      | Inr b1 \<Rightarrow> (get c i b1, b1))"

section \<open>Settling\<close>

definition new_debt_entry :: "ctx \<Rightarrow> id \<Rightarrow> id \<Rightarrow> CreateDebtEntryDto \<Rightarrow> debt_entry" where
  "new_debt_entry c branch actor dto =
     \<lparr>de_companyId = c_companyId c, de_branchId = branch, de_userId = ed_userId dto, de_discrepancyId = None,
      de_kind = ed_kind dto, de_amount = ed_amount dto, de_reason = js_trim (ed_reason dto), de_method = ed_method dto,
      de_reference = ed_reference dto,
      de_entryDate = (case ed_entryDate dto of Some d \<Rightarrow> d | None \<Rightarrow> dayKey (c_now c)), de_createdById = actor,
      de_clientUuid = ed_clientUuid dto\<rparr>"

definition addEntry ::
  "ctx \<Rightarrow> id \<Rightarrow> CreateDebtEntryDto \<Rightarrow> books \<Rightarrow> (debt_error + DebtLedger) \<times> books" where
  "addEntry c newId dto b =
     (case (case c_branchId c of
              None \<Rightarrow> Inl (BadRequest NoBranch)
            | Some branch \<Rightarrow>
                (case c_userId c of
                   None \<Rightarrow> Inl (BadRequest NoUser)
                 | Some actor \<Rightarrow>
                     bindE (ledgerFor c (ed_userId dto) b) (\<lambda>current.
                     bindE (case assertEntryAllowed (ed_kind dto) (ed_amount dto) (Some (ed_reason dto)) (ed_method dto)
                                   (lg_outstanding current) of
                              Inl v \<Rightarrow> Inl (BadRequest (Violates v)) | Inr _ \<Rightarrow> Inr ()) (\<lambda>_.
                       Inr (if ed_clientUuid dto \<noteq> None \<and>
                               list_ex (\<lambda>(_, e). de_companyId e = c_companyId c \<and> de_clientUuid e = ed_clientUuid dto) (bk_debts b)
                            then b
                            else b\<lparr>bk_debts := t_insert newId (new_debt_entry c branch actor dto) (bk_debts b),
                                   bk_audit := bk_audit b @
                                     [audit_row_of c ''EmployeeDebtEntry'' newId ''create'' None (Some branch)]\<rparr>))))) of
        Inl e \<Rightarrow> (Inl e, b)
      | Inr b1 \<Rightarrow> (ledgerFor c (ed_userId dto) b1, b1))"

end
