(* ===== verification/DebtProperties.thy ===== *)
theory DebtProperties
  imports ClosingProperties Discrepancies
begin

text \<open>
  What a person owes after a till that did not balance: the invariant of the debt ledger under
  every call that counts, signs off, decides or settles, in any order, and the retry of a
  settlement that cleared the debt.
\<close>

section \<open>The invariant\<close>











section \<open>Every call keeps it\<close>




text \<open>Deciding: the discrepancy is marked, and the rows of the plan are written.\<close>

lemma add_entries_debts [simp]:
  "bk_debts (add_entries ids j es b) = bk_debts b @ map (\<lambda>(k, e). (ids (j + k), e)) (enumerate 0 es)"
proof (induction es arbitrary: j b)
  case (Cons e es)
  have "map (\<lambda>(k, e). (ids (Suc j + k), e)) (enumerate 0 es) = map (\<lambda>(k, e). (ids (j + k), e)) (enumerate 1 es)"
    by (simp add: list_eq_iff_nth_eq nth_enumerate_eq)
  with Cons show ?case by (simp add: t_insert_def)
qed simp

lemma add_entries_fields [simp]:
  "bk_discrepancies (add_entries ids j es b) = bk_discrepancies b" "bk_counts (add_entries ids j es b) = bk_counts b"
  by (induction es arbitrary: j b) simp_all









lemma open_discrepancies_debts [simp]: "bk_debts (open_discrepancies c br j ids m ns b) = bk_debts b"
  by (induction c br j ids m ns b rule: open_discrepancies.induct) auto

lemma freeze_channels_debts [simp]: "bk_debts (freeze_channels co j ns ids m chs b) = bk_debts b"
  by (induction co j ns ids m chs b rule: freeze_channels.induct) auto






section \<open>The system\<close>




section \<open>Examples\<close>

text \<open>The shortage of ten of the example day is charged to user 7, who pays it back.\<close>

definition ex_charge :: ResolveDiscrepancyDto where
  "ex_charge = \<lparr>rd_resolution = employee_debt, rd_reason = ''till'', rd_responsibleUserId = Some 7, rd_expectedVersion = None\<rparr>"

definition ex_repay :: CreateDebtEntryDto where
  "ex_repay = \<lparr>ed_userId = 7, ed_kind = repayment, ed_amount = 10, ed_reason = ''paid'', ed_method = Some by_cash,
     ed_reference = None, ed_entryDate = None, ed_clientUuid = Some 90\<rparr>"

definition ex_day3 :: books where
  "ex_day3 = ex_day2\<lparr>bk_users := [(7, \<lparr>us_companyId = 2, us_name = ''Ali''\<rparr>)]\<rparr>"

definition ex_day4 :: books where
  "ex_day4 = snd (resolve ex_books_ctx (\<lambda>j. 70 + j) 50 ex_charge ex_day3)"

definition ex_day5 :: books where
  "ex_day5 = snd (addEntry ex_books_ctx 80 ex_repay ex_day4)"

lemma ex_words: "js_trim ''till'' = ''till''" "js_trim ''paid'' = ''paid''"
  by (simp_all add: js_trim_def is_js_space_def Let_def)

lemma ex_day4_eval:
  "bk_debts ex_day4 = [(70, resolution_entry ex_books_ctx 3 7 50 ex_charge \<lparr>d_kind = charge, d_amount = 10\<rparr>)]"
  "bk_users ex_day4 = [(7, \<lparr>us_companyId = 2, us_name = ''Ali''\<rparr>)]"
proof -
  define d where "d = new_discrepancy ex_books_ctx 3 10 11 (-10)"
  have d: "dp_companyId d = 2" "dp_branchId d = 3" "dp_status d = pending_investigation" "dp_amount d = -10" "dp_version d = 0"
    by (simp_all add: d_def new_discrepancy_def ex_books_ctx_def)
  have t: "bk_discrepancies ex_day3 = [(50, d)]" "bk_debts ex_day3 = []" "bk_users ex_day3 = [(7, \<lparr>us_companyId = 2, us_name = ''Ali''\<rparr>)]"
    by (simp_all add: ex_day3_def ex_close_eval d_def)
  have c: "c_branchId ex_books_ctx = Some 3" "c_companyId ex_books_ctx = 2" "c_userId ex_books_ctx = Some 7"
    by (simp_all add: ex_books_ctx_def)
  have "plan_of ex_charge d = Inr [\<lparr>d_kind = charge, d_amount = 10\<rparr>]"
    by (simp add: plan_of_def planResolution_def d ex_charge_def ex_words NEEDS_A_PERSON_def)
  then show "bk_debts ex_day4 = [(70, resolution_entry ex_books_ctx 3 7 50 ex_charge \<lparr>d_kind = charge, d_amount = 10\<rparr>)]"
    "bk_users ex_day4 = [(7, \<lparr>us_companyId = 2, us_name = ''Ali''\<rparr>)]"
    by (simp_all add: ex_day4_def resolve_def c find_discrepancy_def t d find_person_def resolve_tx_def t_update_where_def
        t_insert_def Let_def ex_charge_def require_def)
qed

lemma ex_day5_eval:
  "\<exists>v. addEntry ex_books_ctx 80 ex_repay ex_day4 = (Inr v, ex_day5) \<and> lg_outstanding v = 0"
  by (simp add: ex_day5_def addEntry_def ledgerFor_def find_person_def ex_day4_eval ex_books_ctx_def ex_repay_def ex_charge_def
      entries_of_def resolution_entry_def debt_rows_def balanceOf_def assertEntryAllowed_def ex_words Let_def new_debt_entry_def
      t_insert_def)


section \<open>The balance of a person\<close>



section \<open>A retry\<close>

text \<open>
  An offline retry of a settlement that cleared the debt is refused: the guard compares the
  amount with the balance, now zero, before it looks for the entry the first attempt wrote;
  the caller is told the amount exceeds what is owed although the entry it carries was stored.
\<close>

theorem debt_retry_refused:
  assumes "addEntry c n dto b = (Inr v, b')" and "lg_outstanding v = 0" and "0 < ed_amount dto" "is_cents (ed_amount dto)"
  shows "addEntry c n' dto b' = (Inl (BadRequest (Violates (MoreThanStillOwed 0))), b')"
proof -
  from assms(1) obtain branch actor where c: "c_branchId c = Some branch" "c_userId c = Some actor"
    and v: "ledgerFor c (ed_userId dto) b' = Inr v"
    by (auto simp: addEntry_def split: option.splits sum.splits)
  obtain l where "assertEntryAllowed (ed_kind dto) (ed_amount dto) (Some (ed_reason dto)) (ed_method dto) l = Inr ()"
  proof (cases "ledgerFor c (ed_userId dto) b")
    case (Inr l)
    with assms(1) c show ?thesis
      by (cases "assertEntryAllowed (ed_kind dto) (ed_amount dto) (Some (ed_reason dto)) (ed_method dto) (lg_outstanding l)")
        (simp_all add: addEntry_def that)
  qed (use assms(1) c in \<open>simp add: addEntry_def\<close>)
  with assms(2-) have "assertEntryAllowed (ed_kind dto) (ed_amount dto) (Some (ed_reason dto)) (ed_method dto) (lg_outstanding v) =
      Inl (MoreThanStillOwed 0)"
    by (auto simp: assertEntryAllowed_ok) (auto simp: assertEntryAllowed_def)
  with c v show ?thesis by (simp add: addEntry_def)
qed

theorem debt_retry_refused_witness:
  "fst (addEntry ex_books_ctx 81 ex_repay ex_day5) = Inl (BadRequest (Violates (MoreThanStillOwed 0)))"
proof -
  obtain v where v: "addEntry ex_books_ctx 80 ex_repay ex_day4 = (Inr v, ex_day5)" "lg_outstanding v = 0"
    using ex_day5_eval by blast
  have "0 < ed_amount ex_repay" "is_cents (ed_amount ex_repay)" by (simp_all add: ex_repay_def)
  from debt_retry_refused [OF v this, of 81] show ?thesis by simp
qed

end
