(* ===== verification/Json.thy ===== *)
theory Json
  imports Common "HOL-Library.List_Lexorder" "HOL-Library.Char_ord"
begin

text \<open>
  The texts the services hash into request fingerprints: \<^verbatim>\<open>JSON.stringify\<close> on the values they
  use, with the proof that the text determines the value, and \<^verbatim>\<open>Array.sort\<close> on strings, the
  order of character codes.
\<close>

text \<open>\<^verbatim>\<open>JSON.stringify\<close> on strings and on arrays of strings.\<close>

definition json_esc :: "char \<Rightarrow> string" where
  "json_esc c =
     (let n = (of_char c :: nat)
      in if n = 34 then [CHR 0x5C, CHR 0x22]
         else if n = 92 then [CHR 0x5C, CHR 0x5C]
         else if n = 8 then [CHR 0x5C, CHR ''b'']
         else if n = 9 then [CHR 0x5C, CHR ''t'']
         else if n = 10 then [CHR 0x5C, CHR ''n'']
         else if n = 12 then [CHR 0x5C, CHR ''f'']
         else if n = 13 then [CHR 0x5C, CHR ''r'']
         else if n < 32 then [CHR 0x5C, CHR ''u'', CHR ''0'', CHR ''0'', hex_char (n div 16), hex_char (n mod 16)]
         else [c])"

definition json_string :: "string \<Rightarrow> string" where
  "json_string s = [CHR 0x22] @ concat (map json_esc s) @ [CHR 0x22]"

fun json_items :: "string list \<Rightarrow> string" where
  "json_items [] = '']''"
| "json_items (s # ss) = '','' @ json_string s @ json_items ss"

definition json_array :: "string list \<Rightarrow> string" where
  "json_array ss =
     ''['' @ (case ss of [] \<Rightarrow> '']'' | s # rest \<Rightarrow> json_string s @ json_items rest)"

text \<open>A reader for one character of a JSON string, used to show that the text can be decoded.\<close>

fun json_unesc :: "string \<Rightarrow> (char \<times> string) option" where
  "json_unesc (c # d # r) =
     (if c \<noteq> CHR 0x5C then Some (c, d # r)
      else if d = CHR ''u'' then
        (case r of a # b # x # y # r' \<Rightarrow> Some (char_of (hex_read [x, y]), r') | _ \<Rightarrow> None)
      else Some (if d = CHR ''b'' then CHR 0x08 else if d = CHR ''t'' then CHR 0x09
                 else if d = CHR ''n'' then CHR 0x0A else if d = CHR ''f'' then CHR 0x0C
                 else if d = CHR ''r'' then CHR 0x0D else d, r))"
| "json_unesc _ = None"

lemma char_by_code: "(of_char c :: nat) = of_char d \<Longrightarrow> c = d"
  by simp

lemma json_unesc_esc:
  assumes "r \<noteq> []"
  shows "json_unesc (json_esc c @ r) = Some (c, r)"
proof -
  define n where "n = (of_char c :: nat)"
  have c: "c = char_of n" by (simp add: n_def)
  obtain d r' where r: "r = d # r'" using assms by (cases r) auto
  consider (short) "n \<in> {34, 92, 8, 9, 10, 12, 13}"
    | (ctrl) "n < 32" "n \<notin> {8, 9, 10, 12, 13}" | (plain) "n \<ge> 32" "n \<noteq> 34" "n \<noteq> 92"
    by fastforce
  then show ?thesis
  proof cases
    case ctrl
    then have e: "json_esc c = [CHR 0x5C, CHR ''u'', CHR ''0'', CHR ''0'', hex_char (n div 16), hex_char (n mod 16)]"
      by (simp add: json_esc_def Let_def n_def)
    have "hex_read [hex_char (n div 16), hex_char (n mod 16)] = n"
      using ctrl by (simp add: hex_read_def hex_char_cases)
    then show ?thesis unfolding e by (simp add: n_def)
  next
    case plain
    then have e: "json_esc c = [c]" by (simp add: json_esc_def Let_def n_def)
    have "c \<noteq> CHR 0x5C" using plain by (auto simp: n_def)
    then show ?thesis by (simp add: e r)
  next
    case short
    then have "c \<in> {CHR 0x22, CHR 0x5C, CHR 0x08, CHR 0x09, CHR 0x0A, CHR 0x0C, CHR 0x0D}"
      by (auto simp: n_def intro: char_by_code)
    then show ?thesis by (auto simp: json_esc_def r)
  qed
qed

lemma json_esc_not_quote: "hd (json_esc c) \<noteq> CHR 0x22 \<and> json_esc c \<noteq> []"
  by (auto simp: json_esc_def Let_def)

lemma json_chars_inject:
  "concat (map json_esc s) @ CHR 0x22 # r = concat (map json_esc s') @ CHR 0x22 # r' \<Longrightarrow> s = s' \<and> r = r'"
proof (induction s arbitrary: s')
  case Nil
  then show ?case
  proof (cases s')
    case (Cons c cs)
    with Nil json_esc_not_quote [of c] show ?thesis by (cases "json_esc c") auto
  qed simp
next
  case (Cons c cs)
  show ?case
  proof (cases s')
    case Nil
    with Cons.prems json_esc_not_quote [of c] show ?thesis by (cases "json_esc c") auto
  next
    case (Cons c' cs')
    let ?t = "concat (map json_esc cs) @ CHR 0x22 # r" and ?t' = "concat (map json_esc cs') @ CHR 0x22 # r'"
    from Cons.prems \<open>s' = c' # cs'\<close> have "json_esc c @ ?t = json_esc c' @ ?t'" by simp
    then have "json_unesc (json_esc c @ ?t) = json_unesc (json_esc c' @ ?t')" by simp
    then have "c = c'" "?t = ?t'" by (simp_all add: json_unesc_esc)
    with Cons.IH [of cs'] \<open>s' = c' # cs'\<close> show ?thesis by simp
  qed
qed

lemma json_string_inject: "json_string s @ r = json_string s' @ r' \<Longrightarrow> s = s' \<and> r = r'"
  using json_chars_inject [of s r s' r'] by (simp add: json_string_def)

lemma json_items_inject: "json_items ss @ r = json_items ss' @ r' \<Longrightarrow> ss = ss' \<and> r = r'"
proof (induction ss arbitrary: ss')
  case Nil
  then show ?case by (cases ss') auto
next
  case (Cons s ss)
  then obtain t ts where ts: "ss' = t # ts" by (cases ss') auto
  with Cons.prems json_string_inject [of s "json_items ss @ r" t "json_items ts @ r'"]
  have "s = t" "json_items ss @ r = json_items ts @ r'" by simp_all
  with Cons.IH [of ts] ts show ?case by simp
qed

lemma json_array_inject:
  assumes "json_array ss @ r = json_array ss' @ r'"
  shows "ss = ss' \<and> r = r'"
proof (cases ss; cases ss')
  fix s rest s' rest' assume ss: "ss = s # rest" "ss' = s' # rest'"
  with assms json_string_inject [of s "json_items rest @ r" s' "json_items rest' @ r'"]
  have "s = s'" "json_items rest @ r = json_items rest' @ r'" by (simp_all add: json_array_def)
  with json_items_inject [of rest r rest' r'] ss show ?thesis by simp
qed (use assms in \<open>auto simp: json_array_def json_string_def\<close>)

lemma sort_eq_iff: "sort xs = sort ys \<longleftrightarrow> mset xs = mset (ys :: 'a :: linorder list)"
  by (metis mset_sort properties_for_sort sorted_sort)

lemma hex_digits_inject: "a < 16 ^ 32 \<Longrightarrow> b < 16 ^ 32 \<Longrightarrow> hex_digits 32 a = hex_digits 32 b \<longleftrightarrow> a = b"
  by (metis hex_read_digits)

end
