(* ===== verification/TransferRules.thy ===== *)
theory TransferRules
  imports Inventory Json
begin

text \<open>
  The rules of stock transfers that need no database: the lifecycle
  (\<^verbatim>\<open>transfers/transfer-state-machine.ts\<close>), the reading of a request's lines and its
  fingerprint (\<^verbatim>\<open>transfers/transfer-lines.ts\<close>), the comparison of expected and scanned
  identifiers (\<^verbatim>\<open>transfers/discrepancy.util.ts\<close>) and the actions offered to a user
  (\<^verbatim>\<open>transfers/transfer-view.ts\<close>).
\<close>

section \<open>Lifecycle\<close>

datatype TransferStatus =
    pending_approval
  | approved
  | in_transit
  | received
  | rejected
  | cancelled

fun TRANSFER_TRANSITIONS :: "TransferStatus \<Rightarrow> TransferStatus list" where
  "TRANSFER_TRANSITIONS pending_approval = [approved, rejected, cancelled]"
| "TRANSFER_TRANSITIONS approved = [in_transit, cancelled]"
| "TRANSFER_TRANSITIONS in_transit = [received]"
| "TRANSFER_TRANSITIONS received = []"
| "TRANSFER_TRANSITIONS rejected = []"
| "TRANSFER_TRANSITIONS cancelled = []"

definition RESERVING_STATUSES :: "TransferStatus list" where
  "RESERVING_STATUSES = [pending_approval, approved]"

definition TERMINAL_STATUSES :: "TransferStatus list" where
  "TERMINAL_STATUSES = [received, rejected, cancelled]"

definition canTransferTransition :: "TransferStatus \<Rightarrow> TransferStatus \<Rightarrow> bool" where
  "canTransferTransition from to \<longleftrightarrow> to \<in> set (TRANSFER_TRANSITIONS from)"

definition isFinished :: "TransferStatus \<Rightarrow> bool" where
  "isFinished st \<longleftrightarrow> st \<in> set TERMINAL_STATUSES"

text \<open>How many more transitions a transfer can make.\<close>

fun transfer_rank :: "TransferStatus \<Rightarrow> nat" where
  "transfer_rank pending_approval = 3"
| "transfer_rank approved = 2"
| "transfer_rank in_transit = 1"
| "transfer_rank received = 0"
| "transfer_rank rejected = 0"
| "transfer_rank cancelled = 0"

interpretation transfer_machine: ranked_lifecycle TRANSFER_TRANSITIONS canTransferTransition isFinished transfer_rank
proof
  show "isFinished a \<longleftrightarrow> TRANSFER_TRANSITIONS a = []" for a
    by (cases a) (simp_all add: isFinished_def TERMINAL_STATUSES_def)
  show "transfer_rank b < transfer_rank a" if "canTransferTransition a b" for a b
    using that by (cases a) (auto simp: canTransferTransition_def)
qed (simp add: canTransferTransition_def)

lemmas canTransferTransition_simps [simp] =
  canTransferTransition_def [of pending_approval] canTransferTransition_def [of approved]
  canTransferTransition_def [of in_transit] canTransferTransition_def [of received]
  canTransferTransition_def [of rejected] canTransferTransition_def [of cancelled]

section \<open>The lines of a request\<close>

datatype TransferLineDto =
    unit_line string
  | stock_line string int

record CreateTransferDto =
  ct_clientUuid :: string
  ct_toBranchId :: string
  ct_lines :: "TransferLineDto list option"
  ct_identifiers :: "string list option"

record NormalizedLines =
  nl_identifiers :: "string list"
  nl_quantities :: "(string \<times> int) list"

datatype LineProblem =
    EmptyIdentifier
  | ScannedTwice string
  | ListedTwice string

datatype lines_refusal =
    NeedsAnItem
  | ListedMoreThanOnce "LineProblem list"

definition request_lines :: "CreateTransferDto \<Rightarrow> TransferLineDto list" where
  "request_lines dto =
     (case ct_lines dto of
        Some (l # ls) \<Rightarrow> l # ls
      | _ \<Rightarrow> map unit_line (case ct_identifiers dto of None \<Rightarrow> [] | Some ids \<Rightarrow> ids))"

text \<open>
  The loop of \<^verbatim>\<open>normalizeLines\<close>; the two sets of things seen hold exactly what the two result
  lists hold.
\<close>

fun normalize_loop ::
  "TransferLineDto list \<Rightarrow> string list \<Rightarrow> (string \<times> int) list \<Rightarrow> LineProblem list
   \<Rightarrow> string list \<times> (string \<times> int) list \<times> LineProblem list" where
  "normalize_loop [] ids qs ps = (ids, qs, ps)"
| "normalize_loop (unit_line raw # ls) ids qs ps =
     (let identifier = js_trim raw
      in if identifier = [] then normalize_loop ls ids qs (ps @ [EmptyIdentifier])
         else if identifier \<in> set ids then normalize_loop ls ids qs (ps @ [ScannedTwice identifier])
         else normalize_loop ls (ids @ [identifier]) qs ps)"
| "normalize_loop (stock_line productId quantity # ls) ids qs ps =
     (if productId \<in> fst ` set qs then normalize_loop ls ids qs (ps @ [ListedTwice productId])
      else normalize_loop ls ids (qs @ [(productId, quantity)]) ps)"

definition normalizeLines :: "CreateTransferDto \<Rightarrow> lines_refusal + NormalizedLines" where
  "normalizeLines dto =
     (let lines = request_lines dto
      in if lines = [] then Inl NeedsAnItem
         else (case normalize_loop lines [] [] [] of
                 (ids, qs, ps) \<Rightarrow>
                   if ps \<noteq> [] then Inl (ListedMoreThanOnce ps)
                   else Inr \<lparr>nl_identifiers = ids, nl_quantities = qs\<rparr>))"

section \<open>The fingerprint\<close>

definition stock_text :: "string \<times> int \<Rightarrow> string" where
  "stock_text q = js_lower (fst q) @ '':'' @ show_nat (nat (snd q))"

definition transfer_canonical :: "NormalizedLines \<Rightarrow> id \<Rightarrow> string \<Rightarrow> string" where
  "transfer_canonical ls fromBranchId toBranchId =
     ''{'' @ json_string ''fromBranchId'' @ '':'' @ json_string (hex_digits 32 fromBranchId) @ '','' @
     json_string ''toBranchId'' @ '':'' @ json_string (js_lower toBranchId) @ '','' @
     json_string ''units'' @ '':'' @ json_array (sort (nl_identifiers ls)) @ '','' @
     json_string ''stock'' @ '':'' @ json_array (sort (map stock_text (nl_quantities ls))) @ ''}''"

definition transferFingerprint ::
  "(string \<Rightarrow> string) \<Rightarrow> NormalizedLines \<Rightarrow> id \<Rightarrow> string \<Rightarrow> string" where
  "transferFingerprint sha256 ls fromBranchId toBranchId =
     sha256 (transfer_canonical ls fromBranchId toBranchId)"

section \<open>Counts\<close>

record LineCounts =
  unitCount :: int
  quantityLineCount :: int
  totalQuantity :: int

text \<open>An item is given by its unit, if it has one, and its quantity.\<close>

fun count_loop :: "(id option \<times> int) list \<Rightarrow> LineCounts \<Rightarrow> LineCounts" where
  "count_loop [] n = n"
| "count_loop ((Some u, q) # is) n =
     count_loop is (n\<lparr>unitCount := unitCount n + 1, totalQuantity := totalQuantity n + 1\<rparr>)"
| "count_loop ((None, q) # is) n =
     count_loop is (n\<lparr>quantityLineCount := quantityLineCount n + 1, totalQuantity := totalQuantity n + q\<rparr>)"

definition countLines :: "(id option \<times> int) list \<Rightarrow> LineCounts" where
  "countLines items = count_loop items \<lparr>unitCount = 0, quantityLineCount = 0, totalQuantity = 0\<rparr>"

section \<open>Discrepancies\<close>

record DiscrepancyReport =
  dr_expected :: "string list"
  dr_scanned :: "string list"
  dr_matched :: "string list"
  dr_missing :: "string list"
  dr_unexpected :: "string list"
  dr_duplicate :: "string list"
  dr_hasDiscrepancy :: bool

definition computeDiscrepancy :: "string list \<Rightarrow> string list \<Rightarrow> DiscrepancyReport" where
  "computeDiscrepancy expected scannedRaw =
     (let scanned = keys_insert [] scannedRaw;
          duplicate = filter (\<lambda>s. count_list scannedRaw s > 1) scanned;
          missing = filter (\<lambda>e. e \<notin> set scannedRaw) expected;
          unexpected = filter (\<lambda>s. s \<notin> set expected) scanned;
          matched = filter (\<lambda>e. e \<in> set scannedRaw) expected
      in \<lparr>dr_expected = expected, dr_scanned = scanned, dr_matched = matched, dr_missing = missing,
          dr_unexpected = unexpected, dr_duplicate = duplicate,
          dr_hasDiscrepancy = (missing \<noteq> [] \<or> unexpected \<noteq> [] \<or> duplicate \<noteq> [])\<rparr>)"

section \<open>Actions\<close>

datatype ActionReason = r_status | r_permission | r_branch | r_ownership

record TransferAction =
  ta_allowed :: bool
  ta_reason :: "ActionReason option"
  ta_branchId :: id

record TransferActions =
  act_approve :: TransferAction
  act_reject :: TransferAction
  act_ship :: TransferAction
  act_receive :: TransferAction
  act_cancel :: TransferAction

definition decide_action ::
  "bool \<Rightarrow> bool \<Rightarrow> id \<Rightarrow> id \<Rightarrow> (bool \<times> ActionReason option) option \<Rightarrow> TransferAction" where
  "decide_action ok permitted requiredBranch activeBranchId extra =
     (if \<not> ok then \<lparr>ta_allowed = False, ta_reason = Some r_status, ta_branchId = requiredBranch\<rparr>
      else if \<not> permitted then \<lparr>ta_allowed = False, ta_reason = Some r_permission, ta_branchId = requiredBranch\<rparr>
      else case extra of
             Some (False, why) \<Rightarrow> \<lparr>ta_allowed = False, ta_reason = why, ta_branchId = requiredBranch\<rparr>
           | _ \<Rightarrow>
               if requiredBranch \<noteq> activeBranchId
               then \<lparr>ta_allowed = False, ta_reason = Some r_branch, ta_branchId = requiredBranch\<rparr>
               else \<lparr>ta_allowed = True, ta_reason = None, ta_branchId = requiredBranch\<rparr>)"

definition computeActions ::
  "TransferStatus \<Rightarrow> id option \<Rightarrow> id \<Rightarrow> id \<Rightarrow> id \<Rightarrow> id option \<Rightarrow> (string \<Rightarrow> bool) \<Rightarrow> TransferActions" where
  "computeActions st requestedById from to activeBranchId userId has =
     (let pending = (st = pending_approval);
          preShipment = (pending \<or> st = approved);
          isRequester = (userId \<noteq> None \<and> requestedById = userId);
          cancelBreadth = (if has ''transfer.cancel'' then (True, None)
                           else (isRequester \<and> pending, Some r_ownership))
      in \<lparr>act_approve = decide_action pending (has ''transfer.approve'') from activeBranchId None,
          act_reject = decide_action pending (has ''transfer.approve'') from activeBranchId None,
          act_ship = decide_action (st = approved) (has ''transfer.ship'') from activeBranchId None,
          act_receive = decide_action (st = in_transit) (has ''transfer.receive'') to activeBranchId None,
          act_cancel = decide_action preShipment (has ''transfer.cancel_own'') from activeBranchId (Some cancelBreadth)\<rparr>)"

section \<open>Reading the lines\<close>

text \<open>What an accepted request looks like: nothing dropped, nothing merged, order kept.\<close>

fun unit_texts :: "TransferLineDto list \<Rightarrow> string list" where
  "unit_texts [] = []"
| "unit_texts (unit_line raw # ls) = js_trim raw # unit_texts ls"
| "unit_texts (stock_line p q # ls) = unit_texts ls"

fun stock_pairs :: "TransferLineDto list \<Rightarrow> (string \<times> int) list" where
  "stock_pairs [] = []"
| "stock_pairs (unit_line raw # ls) = stock_pairs ls"
| "stock_pairs (stock_line p q # ls) = (p, q) # stock_pairs ls"

lemma normalize_loop_problems:
  "normalize_loop ls ids qs ps = (ids', qs', ps') \<Longrightarrow> \<exists>ps''. ps' = ps @ ps''"
  by (induction ls ids qs ps rule: normalize_loop.induct) (auto simp: Let_def split: if_splits)

lemma normalize_loop_ok:
  "(\<exists>ids' qs'. normalize_loop ls ids qs [] = (ids', qs', [])) \<longleftrightarrow>
     [] \<notin> set (unit_texts ls) \<and> distinct (unit_texts ls) \<and> set (unit_texts ls) \<inter> set ids = {} \<and>
     distinct (map fst (stock_pairs ls)) \<and> fst ` set (stock_pairs ls) \<inter> fst ` set qs = {}"
proof (induction ls arbitrary: ids qs)
  case (Cons l ls)
  have bad: "normalize_loop ls ids qs [p] \<noteq> (ids', qs', [])" for ids qs p ids' qs'
    using normalize_loop_problems [of ls ids qs "[p]" ids' qs' "[]"] by auto
  show ?case by (cases l) (auto simp: Let_def bad Cons.IH)
qed auto

lemma normalize_loop_result:
  "normalize_loop ls ids qs [] = (ids', qs', []) \<Longrightarrow> ids' = ids @ unit_texts ls \<and> qs' = qs @ stock_pairs ls"
proof (induction ls arbitrary: ids qs)
  case (Cons l ls)
  have bad: "normalize_loop ls ids qs [p] \<noteq> (ids', qs', [])" for ids qs p
    using normalize_loop_problems [of ls ids qs "[p]" ids' qs' "[]"] by auto
  show ?case
    using Cons.prems by (cases l) (auto simp: Let_def bad split: if_splits dest!: Cons.IH)
qed auto

lemma normalizeLines_Inr:
  "normalizeLines dto = Inr nl \<longleftrightarrow>
     request_lines dto \<noteq> [] \<and>
     [] \<notin> set (unit_texts (request_lines dto)) \<and> distinct (unit_texts (request_lines dto)) \<and>
     distinct (map fst (stock_pairs (request_lines dto))) \<and>
     nl = \<lparr>nl_identifiers = unit_texts (request_lines dto), nl_quantities = stock_pairs (request_lines dto)\<rparr>"
proof -
  obtain ids qs ps where n: "normalize_loop (request_lines dto) [] [] [] = (ids, qs, ps)"
    by (metis prod_cases3)
  show ?thesis
    using normalize_loop_ok [of "request_lines dto" "[]" "[]"]
      normalize_loop_result [of "request_lines dto" "[]" "[]" ids qs] n
    by (auto simp: normalizeLines_def Let_def split: if_splits)
qed

lemma count_le_one_distinct: "(\<forall>x. count_list xs x \<le> 1) \<longleftrightarrow> distinct xs"
  by (metis One_nat_def count_mset distinct_count_atmost_1 le_Suc_eq le_zero_eq count_mset_0_iff count_mset)

section \<open>The canonical text determines the request\<close>

lemma transfer_canonical_iff:
  assumes "f < 16 ^ 32" and "f' < 16 ^ 32"
  shows "transfer_canonical ls f t = transfer_canonical ls' f' t' \<longleftrightarrow>
     f = f' \<and> js_lower t = js_lower t' \<and> mset (nl_identifiers ls) = mset (nl_identifiers ls') \<and>
     mset (map stock_text (nl_quantities ls)) = mset (map stock_text (nl_quantities ls'))"
    (is "?l = ?r \<longleftrightarrow> ?same")
proof
  assume "?l = ?r"
  then have 1: "json_string (hex_digits 32 f) @ '','' @ json_string ''toBranchId'' @ '':'' @
      json_string (js_lower t) @ '','' @ json_string ''units'' @ '':'' @ json_array (sort (nl_identifiers ls)) @ '','' @
      json_string ''stock'' @ '':'' @ json_array (sort (map stock_text (nl_quantities ls))) @ ''}'' =
    json_string (hex_digits 32 f') @ '','' @ json_string ''toBranchId'' @ '':'' @
      json_string (js_lower t') @ '','' @ json_string ''units'' @ '':'' @ json_array (sort (nl_identifiers ls')) @ '','' @
      json_string ''stock'' @ '':'' @ json_array (sort (map stock_text (nl_quantities ls'))) @ ''}''"
    unfolding transfer_canonical_def by (simp only: same_append_eq)
  note 2 = json_string_inject [OF 1]
  from 2 have 3: "json_string (js_lower t) @ '','' @ json_string ''units'' @ '':'' @ json_array (sort (nl_identifiers ls)) @ '','' @
      json_string ''stock'' @ '':'' @ json_array (sort (map stock_text (nl_quantities ls))) @ ''}'' =
      json_string (js_lower t') @ '','' @ json_string ''units'' @ '':'' @ json_array (sort (nl_identifiers ls')) @ '','' @
      json_string ''stock'' @ '':'' @ json_array (sort (map stock_text (nl_quantities ls'))) @ ''}''"
    by (simp only: same_append_eq)
  note 4 = json_string_inject [OF 3]
  from 4 have 5: "json_array (sort (nl_identifiers ls)) @ '','' @
      json_string ''stock'' @ '':'' @ json_array (sort (map stock_text (nl_quantities ls))) @ ''}'' =
      json_array (sort (nl_identifiers ls')) @ '','' @
      json_string ''stock'' @ '':'' @ json_array (sort (map stock_text (nl_quantities ls'))) @ ''}''"
    by (simp only: same_append_eq)
  note 6 = json_array_inject [OF 5]
  from 6 have 7: "json_array (sort (map stock_text (nl_quantities ls))) @ ''}'' =
      json_array (sort (map stock_text (nl_quantities ls'))) @ ''}''"
    by (simp only: same_append_eq)
  from 2 4 6 json_array_inject [OF 7] show ?same
    using assms by (simp add: hex_digits_inject sort_eq_iff)
next
  assume ?same
  then have "sort (nl_identifiers ls) = sort (nl_identifiers ls')"
    "sort (map stock_text (nl_quantities ls)) = sort (map stock_text (nl_quantities ls'))"
    by (simp_all only: sort_eq_iff)
  with \<open>?same\<close> show "?l = ?r" unfolding transfer_canonical_def by (simp only:)
qed

end
