(* ===== verification/TransferNotifications.thy ===== *)
theory TransferNotifications
  imports TransferRules
begin

text \<open>
  Who is told what when a transfer moves (\<^verbatim>\<open>transfers/transfer-notifications.ts\<close>). The rows
  are written inside the caller's transaction; the unique index on company, person and
  deduplication key turns a repeated row into a skipped one. The English sentences built
  from the payload are not modelled.
\<close>

datatype TransferEvent =
    ev_requested
  | ev_created_approved
  | ev_approved
  | ev_rejected
  | ev_shipped
  | ev_received
  | ev_cancelled

record transfer_ref =
  tr_id :: id
  tr_companyId :: id
  tr_fromBranchId :: id
  tr_toBranchId :: id
  tr_transferNo :: "string option"
  tr_requestedById :: "id option"

record Payload =
  p_transferNo :: string
  p_fromBranch :: string
  p_toBranch :: string
  p_units :: int
  p_actor :: string
  p_reason :: "string option"

record transfer_note =
  tn_companyId :: id
  tn_branchId :: id
  tn_targetUserId :: id
  tn_transferId :: id
  tn_event :: TransferEvent
  tn_payload :: Payload

text \<open>The deduplication key \<^verbatim>\<open>transfer:<id>:<event>\<close>, with the person it is for.\<close>

definition note_key :: "transfer_note \<Rightarrow> id \<times> id \<times> id \<times> TransferEvent" where
  "note_key n = (tn_companyId n, tn_targetUserId n, tn_transferId n, tn_event n)"

definition recipients_of_event :: "assignment list \<Rightarrow> transfer_ref \<Rightarrow> TransferEvent \<Rightarrow> id list" where
  "recipients_of_event as t ev =
     (let requester = (case tr_requestedById t of None \<Rightarrow> [] | Some u \<Rightarrow> [u]);
          at_source = holdersOf as (tr_companyId t) (tr_fromBranchId t);
          at_dest = holdersOf as (tr_companyId t) (tr_toBranchId t)
      in case ev of
           ev_requested \<Rightarrow> keys_insert [] (at_source ''transfer.approve'')
         | ev_created_approved \<Rightarrow> keys_insert [] (at_dest ''transfer.receive'')
         | ev_approved \<Rightarrow>
             keys_insert (keys_insert (keys_insert [] requester) (at_source ''transfer.ship'')) (at_dest ''transfer.receive'')
         | ev_rejected \<Rightarrow> keys_insert [] requester
         | ev_shipped \<Rightarrow> keys_insert [] (at_dest ''transfer.receive'')
         | ev_received \<Rightarrow> keys_insert (keys_insert [] requester) (at_source ''transfer.approve'')
         | ev_cancelled \<Rightarrow>
             keys_insert (keys_insert (keys_insert [] requester) (at_source ''transfer.approve'')) (at_dest ''transfer.receive''))"

definition recipientsFor :: "assignment list \<Rightarrow> transfer_ref \<Rightarrow> TransferEvent \<Rightarrow> id option \<Rightarrow> id list" where
  "recipientsFor as t ev actorId = filter (\<lambda>u. actorId \<noteq> Some u) (recipients_of_event as t ev)"

fun send_notes :: "(id \<Rightarrow> transfer_note) \<Rightarrow> id list \<Rightarrow> transfer_note list \<Rightarrow> nat \<times> transfer_note list" where
  "send_notes mk [] ns = (0, ns)"
| "send_notes mk (u # us) ns =
     (if note_key (mk u) \<in> note_key ` set ns then send_notes mk us ns
      else case send_notes mk us (ns @ [mk u]) of (sent, ns') \<Rightarrow> (sent + 1, ns'))"

definition notifyTx ::
  "assignment list \<Rightarrow> (id \<Rightarrow> string option) \<Rightarrow> (id \<Rightarrow> string option) \<Rightarrow> transfer_ref \<Rightarrow> TransferEvent
   \<Rightarrow> id option \<Rightarrow> int \<Rightarrow> string option \<Rightarrow> transfer_note list \<Rightarrow> nat \<times> transfer_note list" where
  "notifyTx as branchName userName t ev actorId units reason ns =
     (let recipients = recipientsFor as t ev actorId
      in if recipients = [] then (0, ns)
         else
           (let nameOf = (\<lambda>b. case branchName b of None \<Rightarrow> ''another branch'' | Some n \<Rightarrow> n);
                payload =
                  \<lparr>p_transferNo = (case tr_transferNo t of None \<Rightarrow> [] | Some n \<Rightarrow> n),
                   p_fromBranch = nameOf (tr_fromBranchId t), p_toBranch = nameOf (tr_toBranchId t),
                   p_units = units,
                   p_actor = (case actorId of
                                None \<Rightarrow> ''Someone''
                              | Some u \<Rightarrow> (case userName u of None \<Rightarrow> ''Someone'' | Some n \<Rightarrow> n)),
                   p_reason = (if blank reason then None else map_option js_trim reason)\<rparr>
            in send_notes
                 (\<lambda>u. \<lparr>tn_companyId = tr_companyId t,
                       tn_branchId = (if ev = ev_received \<or> ev = ev_shipped then tr_toBranchId t else tr_fromBranchId t),
                       tn_targetUserId = u, tn_transferId = tr_id t, tn_event = ev, tn_payload = payload\<rparr>)
                 recipients ns))"

section \<open>One note per person and event\<close>

lemma send_notes_extends: "\<exists>new. snd (send_notes mk us ns) = ns @ new \<and> fst (send_notes mk us ns) = length new"
proof (induction us arbitrary: ns)
  case (Cons u us)
  show ?case
  proof (cases "note_key (mk u) \<in> note_key ` set ns")
    case False
    obtain new where "snd (send_notes mk us (ns @ [mk u])) = (ns @ [mk u]) @ new"
      "fst (send_notes mk us (ns @ [mk u])) = length new" using Cons.IH by blast
    with False show ?thesis by (intro exI [of _ "mk u # new"]) (simp add: case_prod_beta)
  qed (use Cons.IH in auto)
qed simp

lemma send_notes_distinct:
  "distinct (map note_key ns) \<Longrightarrow> distinct (map note_key (snd (send_notes mk us ns)))"
  by (induction us arbitrary: ns) (simp_all add: case_prod_beta)

lemma send_notes_keys:
  "note_key ` set (snd (send_notes mk us ns)) = note_key ` set ns \<union> (\<lambda>u. note_key (mk u)) ` set us"
proof (induction us arbitrary: ns)
  case (Cons u us)
  show ?case
    using Cons.IH [of ns] Cons.IH [of "ns @ [mk u]"] by (auto simp: case_prod_beta)
qed simp

lemma note_key_make [simp]:
  "note_key \<lparr>tn_companyId = c, tn_branchId = b, tn_targetUserId = u, tn_transferId = t, tn_event = e, tn_payload = p\<rparr>
     = (c, u, t, e)"
  by (simp add: note_key_def)

lemma notifyTx_keys:
  "note_key ` set (snd (notifyTx as bn un t ev actor units reason ns)) =
     note_key ` set ns \<union> (\<lambda>u. (tr_companyId t, u, tr_id t, ev)) ` set (recipientsFor as t ev actor)"
  by (simp add: notifyTx_def Let_def send_notes_keys)

lemma notifyTx_distinct:
  "distinct (map note_key ns) \<Longrightarrow> distinct (map note_key (snd (notifyTx as bn un t ev actor units reason ns)))"
  by (simp add: notifyTx_def Let_def send_notes_distinct)

end
