(* ===== verification/Transfers.thy ===== *)
theory Transfers
  imports TransferNotifications
begin

text \<open>
  The transfer service (\<^verbatim>\<open>src/src/transfers/transfers.service.ts\<close>). Every handler of the code
  first reads, outside any transaction, and then runs one transaction; here the two halves
  are two functions, \<open>*_read\<close> (or \<open>plan_create\<close>) and \<open>*_tx\<close>, and the handler is their
  composition on one state. The transaction takes what was read as an argument, so it can
  also be run on a later state than the one it was read from. A transaction that throws
  leaves the state as it was. The items of a transfer are kept with its row; the payload of
  an audit row (before and after images) is not modelled.
\<close>

section \<open>State\<close>

record item =
  i_unitId :: "id option"
  i_productId :: "id option"
  i_quantity :: int
  i_shippedUnitCost :: "number option"

record transfer =
  t_companyId :: id
  t_fromBranchId :: id
  t_toBranchId :: id
  t_transferNo :: "string option"
  t_status :: TransferStatus
  t_version :: nat
  t_requestedById :: "id option"
  t_approvedById :: "id option"
  t_approvedAt :: "nat option"
  t_autoApproved :: bool
  t_decisionReason :: "string option"
  t_decidedById :: "id option"
  t_decidedAt :: "nat option"
  t_sentById :: "id option"
  t_sentAt :: nat
  t_receivedById :: "id option"
  t_receivedAt :: "nat option"
  t_clientUuid :: "id option"
  t_clientRequestHash :: "string option"
  t_items :: "item list"

record branch_row =
  br_companyId :: id
  br_name :: string

record price_event =
  pe_companyId :: id
  pe_branchId :: id
  pe_productId :: id
  pe_unitId :: id
  pe_previousPrice :: number
  pe_actorId :: "id option"

text \<open>The table of overrides is keyed by its unique column, the unit.\<close>

record transfer_state =
  ts_transfers :: "(id, transfer) table"
  ts_units :: units
  ts_stock :: stock
  ts_products :: "(id, product) table"
  ts_branches :: "(id, branch_row) table"
  ts_variantPrices :: "(stock_key, number) table"
  ts_overrides :: "(id, override) table"
  ts_priceEvents :: "price_event list"
  ts_counters :: counters
  ts_prefixes :: "(id, string) table"
  ts_assignments :: "assignment list"
  ts_users :: "(id, string) table"
  ts_notes :: "transfer_note list"
  ts_audit :: "audit_row list"

datatype UnitProblem = UnitNotFound string | UnitIs string UnitStatus | UnitElsewhere string

datatype StockLineProblem = ProductNotFound string | TrackedIndividually string | NoneAtBranch string

datatype transfer_reason =
    BranchRequired
  | InvalidUuid
  | SameBranch
  | BadLines lines_refusal
  | IdempotencyConflict
  | NoDestination
  | LinesNotTransferable "StockLineProblem list"
  | UnitsNotTransferable "UnitProblem list"
  | ClaimedByOther string
  | NotEnoughLeft id int int int int
  | UniqueViolation
  | NoSuchTransfer
  | WrongBranch
  | IllegalTransferTransition TransferStatus TransferStatus
  | RefreshRequired
  | SayWhy
  | UnitsNotReady "string list"
  | UnitNoLongerReserved id
  | NoRecordedCost id
  | StockNoLongerReserved id int int int int
  | NotInTransit TransferStatus
  | NeverShipped id
  | StockRefused stock_refusal
  | NotYourRequest
  | AlreadyActedOn
  | AlreadyShipped
  | BrokenReference

type_synonym transfer_error = "transfer_reason http_error"

record CreateResult =
  cr_id :: id
  cr_transferNo :: "string option"
  cr_status :: TransferStatus
  cr_autoApproved :: bool
  cr_version :: nat
  cr_units :: int
  cr_quantityLines :: int
  cr_totalQuantity :: int

record TransferDecisionDto =
  td_expectedVersion :: nat
  td_reason :: "string option"

section \<open>Shared steps\<close>

definition requireBranchId :: "ctx \<Rightarrow> transfer_error + id" where
  "requireBranchId c = (case c_branchId c of None \<Rightarrow> Inl (BadRequest BranchRequired) | Some b \<Rightarrow> Inr b)"

text \<open>Every read of the tenant client is narrowed to the company of the request.\<close>

definition load :: "ctx \<Rightarrow> id \<Rightarrow> transfer_state \<Rightarrow> transfer_error + transfer" where
  "load c i s =
     (case map_of (ts_transfers s) i of
        None \<Rightarrow> Inl (NotFound NoSuchTransfer)
      | Some t \<Rightarrow> if t_companyId t = c_companyId c then Inr t else Inl (NotFound NoSuchTransfer))"

definition item_counts :: "item list \<Rightarrow> LineCounts" where
  "item_counts is = countLines (map (\<lambda>i. (i_unitId i, i_quantity i)) is)"

definition serialized :: "item list \<Rightarrow> id list" where
  "serialized is = List.map_filter i_unitId is"

definition quantity_lines :: "item list \<Rightarrow> (id \<times> int) list" where
  "quantity_lines is = List.map_filter (\<lambda>i. map_option (\<lambda>p. (p, i_quantity i)) (i_productId i)) is"

definition items_of :: "id \<Rightarrow> transfer_state \<Rightarrow> item list" where
  "items_of i s = (case map_of (ts_transfers s) i of None \<Rightarrow> [] | Some t \<Rightarrow> t_items t)"

definition audit_tx :: "ctx \<Rightarrow> string \<Rightarrow> id \<Rightarrow> string \<Rightarrow> string option \<Rightarrow> id \<Rightarrow> transfer_state \<Rightarrow> transfer_state" where
  "audit_tx c ty i act reason branch s =
     s\<lparr>ts_audit := ts_audit s @ [audit_row_of c ty i act reason (Some branch)]\<rparr>"

definition ref_of :: "id \<Rightarrow> transfer \<Rightarrow> transfer_ref" where
  "ref_of i t = \<lparr>tr_id = i, tr_companyId = t_companyId t, tr_fromBranchId = t_fromBranchId t,
                 tr_toBranchId = t_toBranchId t, tr_transferNo = t_transferNo t,
                 tr_requestedById = t_requestedById t\<rparr>"

definition branch_name :: "ctx \<Rightarrow> transfer_state \<Rightarrow> id \<Rightarrow> string option" where
  "branch_name c s b =
     (case map_of (ts_branches s) b of
        None \<Rightarrow> None
      | Some r \<Rightarrow> if br_companyId r = c_companyId c then Some (br_name r) else None)"

definition notify_tx ::
  "ctx \<Rightarrow> transfer_ref \<Rightarrow> TransferEvent \<Rightarrow> int \<Rightarrow> string option \<Rightarrow> transfer_state \<Rightarrow> transfer_state" where
  "notify_tx c t ev units reason s =
     s\<lparr>ts_notes := snd (notifyTx (ts_assignments s) (branch_name c s) (map_of (ts_users s))
                          t ev (c_userId c) units reason (ts_notes s))\<rparr>"

definition transitionTx ::
  "ctx \<Rightarrow> id \<Rightarrow> transfer \<Rightarrow> TransferStatus \<Rightarrow> nat \<Rightarrow> (transfer \<Rightarrow> transfer) \<Rightarrow> transfer_state
   \<Rightarrow> transfer_error + transfer_state" where
  "transitionTx c i t0 to expectedVersion extra s =
     (if \<not> canTransferTransition (t_status t0) to
      then Inl (Conflict (IllegalTransferTransition (t_status t0) to))
      else
        (let (moved, ts') =
               t_update_where i (\<lambda>t. t_companyId t = c_companyId c \<and> t_version t = expectedVersion)
                 (\<lambda>t. extra (t\<lparr>t_status := to, t_version := Suc (t_version t)\<rparr>)) (ts_transfers s)
         in if moved = 0 then Inl (Conflict RefreshRequired) else Inr (s\<lparr>ts_transfers := ts'\<rparr>)))"

section \<open>Request\<close>

definition create_result :: "id \<Rightarrow> transfer \<Rightarrow> CreateResult" where
  "create_result i t =
     (let n = item_counts (t_items t)
      in \<lparr>cr_id = i, cr_transferNo = t_transferNo t, cr_status = t_status t,
          cr_autoApproved = t_autoApproved t, cr_version = t_version t, cr_units = unitCount n,
          cr_quantityLines = quantityLineCount n, cr_totalQuantity = totalQuantity n\<rparr>)"

definition findReplay ::
  "(string \<Rightarrow> string) \<Rightarrow> ctx \<Rightarrow> CreateTransferDto \<Rightarrow> NormalizedLines \<Rightarrow> transfer_state
   \<Rightarrow> transfer_error + CreateResult option" where
  "findReplay sha256 c dto ls s =
     (case uuidToBin (ct_clientUuid dto) of
        None \<Rightarrow> Inl (Internal InvalidUuid)
      | Some u \<Rightarrow>
          (case find (\<lambda>(_, t). t_companyId t = c_companyId c \<and> t_clientUuid t = Some u) (ts_transfers s) of
             None \<Rightarrow> Inr None
           | Some (i, prior) \<Rightarrow>
               if \<not> falsy (t_clientRequestHash prior) \<and>
                  t_clientRequestHash prior \<noteq>
                    Some (transferFingerprint sha256 ls (t_fromBranchId prior) (ct_toBranchId dto))
               then Inl (Conflict IdempotencyConflict)
               else Inr (Some (create_result i prior))))"

definition line_problem :: "ctx \<Rightarrow> id \<Rightarrow> transfer_state \<Rightarrow> string \<Rightarrow> id \<Rightarrow> StockLineProblem option" where
  "line_problem c fromBranchId s text p =
     (case map_of (ts_products s) p of
        None \<Rightarrow> Some (ProductNotFound text)
      | Some pr \<Rightarrow>
          if pr_companyId pr \<noteq> c_companyId c then Some (ProductNotFound text)
          else if \<not> pr_quantityTracked pr then Some (TrackedIndividually text)
          else if map_of (ts_stock s) (c_companyId c, p, fromBranchId) = None then Some (NoneAtBranch text)
          else None)"

definition planQuantityLines ::
  "ctx \<Rightarrow> NormalizedLines \<Rightarrow> id \<Rightarrow> transfer_state \<Rightarrow> transfer_error + (id \<times> int) list" where
  "planQuantityLines c ls fromBranchId s =
     (if list_ex (\<lambda>(text, _). uuidToBin text = None) (nl_quantities ls) then Inl (Internal InvalidUuid)
      else
        (let lines = map (\<lambda>(text, q). (text, the (uuidToBin text), q)) (nl_quantities ls);
             problems = List.map_filter (\<lambda>(text, p, _). line_problem c fromBranchId s text p) lines
         in if problems \<noteq> [] then Inl (BadRequest (LinesNotTransferable problems))
            else Inr (map (\<lambda>(_, p, q). (p, q)) lines)))"

text \<open>The units found by IMEI or serial, indexed by \<open>unitIdentifier\<close>; a later row wins.\<close>

definition byIdentifier :: "ctx \<Rightarrow> string list \<Rightarrow> units \<Rightarrow> string \<Rightarrow> (id \<times> unit_row) option" where
  "byIdentifier c ids us x =
     (let found = filter (\<lambda>(_, u). u_companyId u = c_companyId c \<and>
                            (u_imeiPrimary u \<in> Some ` set ids \<or> u_serialNo u \<in> Some ` set ids)) us
      in find (\<lambda>(_, u). unitIdentifier u = x) (rev found))"

definition unit_problem :: "ctx \<Rightarrow> id \<Rightarrow> string list \<Rightarrow> units \<Rightarrow> string \<Rightarrow> UnitProblem option" where
  "unit_problem c fromBranchId ids us x =
     (case byIdentifier c ids us x of
        None \<Rightarrow> Some (UnitNotFound x)
      | Some (_, u) \<Rightarrow>
          if u_status u \<noteq> in_stock then Some (UnitIs x (u_status u))
          else if u_branchId u \<noteq> fromBranchId then Some (UnitElsewhere x)
          else None)"

record create_plan =
  pl_fromBranchId :: id
  pl_toBranchId :: id
  pl_lines :: NormalizedLines
  pl_units :: "(string \<times> id) list"
  pl_stock :: "(id \<times> int) list"
  pl_prefix :: string

definition plan_create ::
  "(string \<Rightarrow> string) \<Rightarrow> ctx \<Rightarrow> CreateTransferDto \<Rightarrow> transfer_state
   \<Rightarrow> transfer_error + (CreateResult + create_plan)" where
  "plan_create sha256 c dto s =
     bindE (requireBranchId c) (\<lambda>fromBranchId.
     case uuidToBin (ct_toBranchId dto) of
       None \<Rightarrow> Inl (Internal InvalidUuid)
     | Some toBranchId \<Rightarrow>
         if fromBranchId = toBranchId then Inl (BadRequest SameBranch)
         else
           (case normalizeLines dto of
              Inl r \<Rightarrow> Inl (BadRequest (BadLines r))
            | Inr ls \<Rightarrow>
                bindE (findReplay sha256 c dto ls s) (\<lambda>replay.
                case replay of
                  Some r \<Rightarrow> Inr (Inl r)
                | None \<Rightarrow>
                    if branch_name c s toBranchId = None then Inl (NotFound NoDestination)
                    else
                      bindE (planQuantityLines c ls fromBranchId s) (\<lambda>stockPlan.
                      let ids = nl_identifiers ls;
                          problems = List.map_filter (unit_problem c fromBranchId ids (ts_units s)) ids
                      in if problems \<noteq> [] then Inl (BadRequest (UnitsNotTransferable problems))
                         else Inr (Inr \<lparr>pl_fromBranchId = fromBranchId, pl_toBranchId = toBranchId,
                                        pl_lines = ls,
                                        pl_units = map (\<lambda>x. (x, fst (the (byIdentifier c ids (ts_units s) x)))) ids,
                                        pl_stock = stockPlan,
                                        pl_prefix = (case map_of (ts_prefixes s) fromBranchId of None \<Rightarrow> [] | Some p \<Rightarrow> p)\<rparr>)))))"

fun claim_units :: "id \<Rightarrow> id \<Rightarrow> (string \<times> id) list \<Rightarrow> units \<Rightarrow> transfer_error + units" where
  "claim_units companyId fromBranchId [] us = Inr us"
| "claim_units companyId fromBranchId ((identifier, u) # rest) us =
     (case t_update_where u
             (\<lambda>r. u_companyId r = companyId \<and> u_branchId r = fromBranchId \<and> u_status r = in_stock)
             (\<lambda>r. r\<lparr>u_status := reserved\<rparr>) us of
        (n, us') \<Rightarrow> if n = 0 then Inl (Conflict (ClaimedByOther identifier))
                    else claim_units companyId fromBranchId rest us')"

definition unavailable :: "stock_key \<Rightarrow> int \<Rightarrow> stock \<Rightarrow> transfer_error" where
  "unavailable k requested st =
     Conflict (NotEnoughLeft (fst (snd k)) requested (on_hand st k) (promised st k)
                 (max (on_hand st k - promised st k) 0))"

fun reserve_lines :: "id \<Rightarrow> id \<Rightarrow> (id \<times> int) list \<Rightarrow> stock \<Rightarrow> transfer_error + stock" where
  "reserve_lines companyId fromBranchId [] st = Inr st"
| "reserve_lines companyId fromBranchId ((p, q) # rest) st =
     (case reserveQuantity (companyId, p, fromBranchId) q st of
        (ok, st') \<Rightarrow> if \<not> ok then Inl (unavailable (companyId, p, fromBranchId) q st')
                     else reserve_lines companyId fromBranchId rest st')"

definition transfer_number :: "string \<Rightarrow> nat \<Rightarrow> string" where
  "transfer_number prefix seq =
     ''TRF-'' @ (if prefix \<noteq> [] then prefix @ ''-'' else []) @ pad_start 6 (show_nat seq)"

definition new_transfer ::
  "(string \<Rightarrow> string) \<Rightarrow> ctx \<Rightarrow> CreateTransferDto \<Rightarrow> create_plan \<Rightarrow> string \<Rightarrow> transfer" where
  "new_transfer sha256 c dto p no =
     (let selfApproves = has_permission c ''transfer.approve''
      in \<lparr>t_companyId = c_companyId c, t_fromBranchId = pl_fromBranchId p, t_toBranchId = pl_toBranchId p,
          t_transferNo = Some no, t_status = (if selfApproves then approved else pending_approval),
          t_version = 0, t_requestedById = c_userId c,
          t_approvedById = (if selfApproves then c_userId c else None),
          t_approvedAt = (if selfApproves then Some (c_now c) else None), t_autoApproved = selfApproves,
          t_decisionReason = None, t_decidedById = None, t_decidedAt = None, t_sentById = None,
          t_sentAt = c_now c, t_receivedById = None, t_receivedAt = None,
          t_clientUuid = uuidToBin (ct_clientUuid dto),
          t_clientRequestHash =
            Some (transferFingerprint sha256 (pl_lines p) (pl_fromBranchId p) (ct_toBranchId dto)),
          t_items =
            map (\<lambda>(_, u). \<lparr>i_unitId = Some u, i_productId = None, i_quantity = 1, i_shippedUnitCost = None\<rparr>) (pl_units p) @
            map (\<lambda>(pr, q). \<lparr>i_unitId = None, i_productId = Some pr, i_quantity = q, i_shippedUnitCost = None\<rparr>) (pl_stock p)\<rparr>)"

text \<open>The unique keys on company and request id, branch and number, transfer and product.\<close>

definition unique_ok :: "transfer \<Rightarrow> transfer_state \<Rightarrow> bool" where
  "unique_ok t s \<longleftrightarrow>
     \<not> list_ex (\<lambda>(_, r). t_companyId r = t_companyId t \<and> t_clientUuid r \<noteq> None \<and> t_clientUuid r = t_clientUuid t) (ts_transfers s) \<and>
     \<not> list_ex (\<lambda>(_, r). t_fromBranchId r = t_fromBranchId t \<and> t_transferNo r = t_transferNo t) (ts_transfers s) \<and>
     distinct (map fst (quantity_lines (t_items t)))"

definition create_tx ::
  "(string \<Rightarrow> string) \<Rightarrow> ctx \<Rightarrow> id \<Rightarrow> CreateTransferDto \<Rightarrow> create_plan \<Rightarrow> transfer_state
   \<Rightarrow> transfer_error + transfer \<times> transfer_state" where
  "create_tx sha256 c newId dto p s =
     (let companyId = c_companyId c; fromBranchId = pl_fromBranchId p
      in bindE (claim_units companyId fromBranchId (pl_units p) (ts_units s)) (\<lambda>us.
         bindE (reserve_lines companyId fromBranchId (pl_stock p) (ts_stock s)) (\<lambda>st.
         let (seq, counters) = next_number fromBranchId ''transfer'' (ts_counters s);
             t = new_transfer sha256 c dto p (transfer_number (pl_prefix p) seq);
             s1 = s\<lparr>ts_units := us, ts_stock := st, ts_counters := counters,
                    ts_transfers := t_insert newId t (ts_transfers s)\<rparr>
         in if \<not> unique_ok t s then Inl (Internal UniqueViolation)
            else Inr (t, notify_tx c (ref_of newId t)
                           (if t_autoApproved t then ev_created_approved else ev_requested)
                           (totalQuantity (item_counts (t_items t))) None
                           (audit_tx c ''StockTransfer'' newId ''create'' None fromBranchId s1)))))"

definition raced :: "transfer_error \<Rightarrow> bool" where
  "raced e = (case e of Conflict _ \<Rightarrow> True | Internal UniqueViolation \<Rightarrow> True | _ \<Rightarrow> False)"

definition create_commit ::
  "(string \<Rightarrow> string) \<Rightarrow> ctx \<Rightarrow> id \<Rightarrow> CreateTransferDto \<Rightarrow> create_plan \<Rightarrow> transfer_state
   \<Rightarrow> (transfer_error + CreateResult) \<times> transfer_state" where
  "create_commit sha256 c newId dto p s =
     (case create_tx sha256 c newId dto p s of
        Inr (t, s') \<Rightarrow> (Inr (create_result newId t), s')
      | Inl e \<Rightarrow>
          if raced e
          then (case findReplay sha256 c dto (pl_lines p) s of
                  Inl e' \<Rightarrow> (Inl e', s)
                | Inr (Some winner) \<Rightarrow> (Inr winner, s)
                | Inr None \<Rightarrow> (Inl e, s))
          else (Inl e, s))"

definition create ::
  "(string \<Rightarrow> string) \<Rightarrow> ctx \<Rightarrow> id \<Rightarrow> CreateTransferDto \<Rightarrow> transfer_state
   \<Rightarrow> (transfer_error + CreateResult) \<times> transfer_state" where
  "create sha256 c newId dto s =
     (case plan_create sha256 c dto s of
        Inl e \<Rightarrow> (Inl e, s)
      | Inr (Inl r) \<Rightarrow> (Inr r, s)
      | Inr (Inr p) \<Rightarrow> create_commit sha256 c newId dto p s)"

section \<open>Reading one transfer\<close>

record ItemView =
  iv_isUnit :: bool
  iv_identifier :: "string option"
  iv_productId :: "id option"
  iv_quantity :: int
  iv_physicalQuantity :: "int option"
  iv_reservedQuantity :: "int option"
  iv_availableQuantity :: "int option"
  iv_unitStatus :: "UnitStatus option"

record TransferView =
  tv_id :: id
  tv_transferNo :: "string option"
  tv_status :: TransferStatus
  tv_version :: nat
  tv_outgoing :: bool
  tv_autoApproved :: bool
  tv_decisionReason :: "string option"
  tv_requestedAt :: nat
  tv_approvedAt :: "nat option"
  tv_sentAt :: "nat option"
  tv_receivedAt :: "nat option"
  tv_decidedAt :: "nat option"
  tv_counts :: LineCounts
  tv_items :: "ItemView list"
  tv_actions :: TransferActions

definition item_view :: "ctx \<Rightarrow> transfer \<Rightarrow> transfer_state \<Rightarrow> item \<Rightarrow> ItemView" where
  "item_view c t s i =
     (case i_unitId i of
        Some u \<Rightarrow>
          (let r = map_of (ts_units s) u
           in \<lparr>iv_isUnit = True, iv_identifier = map_option unitIdentifier r, iv_productId = None,
               iv_quantity = 1, iv_physicalQuantity = None, iv_reservedQuantity = None,
               iv_availableQuantity = None, iv_unitStatus = map_option u_status r\<rparr>)
      | None \<Rightarrow>
          (let openAtSource = (t_status t = pending_approval \<or> t_status t = approved);
               row = (case i_productId i of
                        None \<Rightarrow> None
                      | Some p \<Rightarrow> if openAtSource then map_of (ts_stock s) (c_companyId c, p, t_fromBranchId t) else None)
           in \<lparr>iv_isUnit = False, iv_identifier = None, iv_productId = i_productId i,
               iv_quantity = i_quantity i, iv_physicalQuantity = map_option si_quantity row,
               iv_reservedQuantity = map_option si_reservedQuantity row,
               iv_availableQuantity = map_option (\<lambda>r. max (si_quantity r - si_reservedQuantity r) 0) row,
               iv_unitStatus = None\<rparr>))"

definition getById :: "ctx \<Rightarrow> id \<Rightarrow> transfer_state \<Rightarrow> transfer_error + TransferView" where
  "getById c i s =
     bindE (requireBranchId c) (\<lambda>activeBranchId.
     bindE (load c i s) (\<lambda>t.
       Inr \<lparr>tv_id = i, tv_transferNo = t_transferNo t, tv_status = t_status t, tv_version = t_version t,
            tv_outgoing = (t_fromBranchId t = activeBranchId), tv_autoApproved = t_autoApproved t,
            tv_decisionReason = t_decisionReason t, tv_requestedAt = requestedAtOf i,
            tv_approvedAt = t_approvedAt t,
            tv_sentAt = (if t_status t = pending_approval \<or> t_status t = approved then None else Some (t_sentAt t)),
            tv_receivedAt = t_receivedAt t, tv_decidedAt = t_decidedAt t,
            tv_counts = item_counts (t_items t), tv_items = map (item_view c t s) (t_items t),
            tv_actions = computeActions (t_status t) (t_requestedById t) (t_fromBranchId t) (t_toBranchId t)
                           activeBranchId (c_userId c) (has_permission c)\<rparr>))"

definition finish ::
  "(transfer_state \<Rightarrow> 'r) \<Rightarrow> transfer_error + transfer_state \<Rightarrow> transfer_state
   \<Rightarrow> (transfer_error + 'r) \<times> transfer_state" where
  "finish answer r s = (case r of Inl e \<Rightarrow> (Inl e, s) | Inr s' \<Rightarrow> (Inr (answer s'), s'))"

definition view_after ::
  "ctx \<Rightarrow> id \<Rightarrow> transfer_error + transfer_state \<Rightarrow> transfer_state
   \<Rightarrow> (transfer_error + TransferView) \<times> transfer_state" where
  "view_after c i r s = (case r of Inl e \<Rightarrow> (Inl e, s) | Inr s' \<Rightarrow> (getById c i s', s'))"

section \<open>Decisions before shipment\<close>

definition at_source :: "ctx \<Rightarrow> id \<Rightarrow> transfer_state \<Rightarrow> transfer_error + transfer" where
  "at_source c i s =
     bindE (requireBranchId c) (\<lambda>b.
     bindE (load c i s) (\<lambda>t. if t_fromBranchId t \<noteq> b then Inl (Forbidden WrongBranch) else Inr t))"

definition approve_tx ::
  "ctx \<Rightarrow> id \<Rightarrow> TransferDecisionDto \<Rightarrow> transfer \<Rightarrow> transfer_state \<Rightarrow> transfer_error + transfer_state" where
  "approve_tx c i dto t0 s =
     bindE (transitionTx c i t0 approved (td_expectedVersion dto)
              (\<lambda>t. t\<lparr>t_approvedById := c_userId c, t_approvedAt := Some (c_now c)\<rparr>) s) (\<lambda>s1.
     Inr (notify_tx c (ref_of i t0) ev_approved (int (length (items_of i s1))) None
            (audit_tx c ''StockTransfer'' i ''status_change'' None (t_fromBranchId t0) s1)))"

definition approve ::
  "ctx \<Rightarrow> id \<Rightarrow> TransferDecisionDto \<Rightarrow> transfer_state \<Rightarrow> (transfer_error + TransferView) \<times> transfer_state" where
  "approve c i dto s =
     (case at_source c i s of
        Inl e \<Rightarrow> (Inl e, s)
      | Inr t0 \<Rightarrow> view_after c i (approve_tx c i dto t0 s) s)"

text \<open>
  The two loops of \<^verbatim>\<open>releaseReservationsTx\<close>. Each statement is guarded by the reservation it
  gives back, and one that matches nothing is skipped; the number released is only reported
  in the payload of an audit row.
\<close>

fun release_units :: "ctx \<Rightarrow> id \<Rightarrow> string \<Rightarrow> id list \<Rightarrow> transfer_state \<Rightarrow> transfer_state" where
  "release_units c branch why [] s = s"
| "release_units c branch why (u # rest) s =
     (case t_update_where u (\<lambda>r. u_companyId r = c_companyId c \<and> u_status r = reserved)
             (\<lambda>r. r\<lparr>u_status := in_stock\<rparr>) (ts_units s) of
        (n, us') \<Rightarrow>
          release_units c branch why rest
            (if n > 0 then audit_tx c ''Unit'' u ''status_change'' (Some why) branch (s\<lparr>ts_units := us'\<rparr>) else s))"

fun release_lines :: "ctx \<Rightarrow> id \<Rightarrow> string \<Rightarrow> (id \<times> int) list \<Rightarrow> transfer_state \<Rightarrow> transfer_state" where
  "release_lines c branch why [] s = s"
| "release_lines c branch why ((p, q) # rest) s =
     (case releaseQuantity (c_companyId c, p, branch) q (ts_stock s) of
        (ok, st') \<Rightarrow>
          release_lines c branch why rest
            (if ok then audit_tx c ''StockItem'' p ''update'' (Some why) branch (s\<lparr>ts_stock := st'\<rparr>) else s))"

definition releaseReservationsTx :: "ctx \<Rightarrow> item list \<Rightarrow> id \<Rightarrow> string \<Rightarrow> transfer_state \<Rightarrow> transfer_state" where
  "releaseReservationsTx c is branch why s =
     release_lines c branch why (quantity_lines is) (release_units c branch why (serialized is) s)"

text \<open>Both refusals end the same way: status, reservations, audit, notification.\<close>

definition withdraw_tx ::
  "ctx \<Rightarrow> id \<Rightarrow> TransferDecisionDto \<Rightarrow> TransferStatus \<Rightarrow> string \<Rightarrow> TransferEvent \<Rightarrow> transfer \<Rightarrow> transfer_state
   \<Rightarrow> transfer_error + transfer_state" where
  "withdraw_tx c i dto to why ev t0 s =
     (let reason = js_trim (case td_reason dto of None \<Rightarrow> [] | Some r \<Rightarrow> r)
      in bindE (transitionTx c i t0 to (td_expectedVersion dto)
                  (\<lambda>t. t\<lparr>t_decisionReason := Some reason, t_decidedById := c_userId c,
                        t_decidedAt := Some (c_now c)\<rparr>) s) (\<lambda>s1.
         let s2 = releaseReservationsTx c (items_of i s1) (t_fromBranchId t0) why s1
         in Inr (notify_tx c (ref_of i t0) ev (int (length (items_of i s1))) (Some reason)
                   (audit_tx c ''StockTransfer'' i ''status_change'' (Some reason) (t_fromBranchId t0) s2))))"

definition reject_read :: "ctx \<Rightarrow> id \<Rightarrow> TransferDecisionDto \<Rightarrow> transfer_state \<Rightarrow> transfer_error + transfer" where
  "reject_read c i dto s =
     bindE (at_source c i s) (\<lambda>t0. if blank (td_reason dto) then Inl (BadRequest SayWhy) else Inr t0)"

definition reject_tx ::
  "ctx \<Rightarrow> id \<Rightarrow> TransferDecisionDto \<Rightarrow> transfer \<Rightarrow> transfer_state \<Rightarrow> transfer_error + transfer_state" where
  "reject_tx c i dto = withdraw_tx c i dto rejected ''transfer rejected'' ev_rejected"

definition reject ::
  "ctx \<Rightarrow> id \<Rightarrow> TransferDecisionDto \<Rightarrow> transfer_state \<Rightarrow> (transfer_error + TransferView) \<times> transfer_state" where
  "reject c i dto s =
     (case reject_read c i dto s of
        Inl e \<Rightarrow> (Inl e, s)
      | Inr t0 \<Rightarrow> view_after c i (reject_tx c i dto t0 s) s)"

definition cancel_read :: "ctx \<Rightarrow> id \<Rightarrow> TransferDecisionDto \<Rightarrow> transfer_state \<Rightarrow> transfer_error + transfer" where
  "cancel_read c i dto s =
     bindE (at_source c i s) (\<lambda>t0.
       if blank (td_reason dto) then Inl (BadRequest SayWhy)
       else if \<not> has_permission c ''transfer.cancel'' \<and> \<not> (c_userId c \<noteq> None \<and> t_requestedById t0 = c_userId c)
       then Inl (Forbidden NotYourRequest)
       else if \<not> has_permission c ''transfer.cancel'' \<and> t_status t0 \<noteq> pending_approval
       then Inl (Forbidden AlreadyActedOn)
       else if t_status t0 = in_transit then Inl (Conflict AlreadyShipped)
       else Inr t0)"

definition cancel_tx ::
  "ctx \<Rightarrow> id \<Rightarrow> TransferDecisionDto \<Rightarrow> transfer \<Rightarrow> transfer_state \<Rightarrow> transfer_error + transfer_state" where
  "cancel_tx c i dto = withdraw_tx c i dto cancelled ''transfer cancelled'' ev_cancelled"

definition cancel ::
  "ctx \<Rightarrow> id \<Rightarrow> TransferDecisionDto \<Rightarrow> transfer_state \<Rightarrow> (transfer_error + TransferView) \<times> transfer_state" where
  "cancel c i dto s =
     (case cancel_read c i dto s of
        Inl e \<Rightarrow> (Inl e, s)
      | Inr t0 \<Rightarrow> view_after c i (cancel_tx c i dto t0 s) s)"

section \<open>Shipment\<close>

definition ship_read :: "ctx \<Rightarrow> id \<Rightarrow> transfer_state \<Rightarrow> transfer_error + transfer" where
  "ship_read c i s =
     bindE (at_source c i s) (\<lambda>t0.
       if \<not> canTransferTransition (t_status t0) in_transit
       then Inl (Conflict (IllegalTransferTransition (t_status t0) in_transit))
       else
         (let notReady = filter (\<lambda>u. case map_of (ts_units s) u of
                                       None \<Rightarrow> True
                                     | Some r \<Rightarrow> u_status r \<noteq> reserved \<or> u_branchId r \<noteq> t_fromBranchId t0)
                                (serialized (t_items t0))
          in if notReady \<noteq> []
             then Inl (Conflict (UnitsNotReady
                    (List.map_filter (\<lambda>u. map_option unitIdentifier (map_of (ts_units s) u)) notReady)))
             else Inr t0))"

fun ship_units :: "ctx \<Rightarrow> id \<Rightarrow> id list \<Rightarrow> transfer_state \<Rightarrow> transfer_error + transfer_state" where
  "ship_units c branch [] s = Inr s"
| "ship_units c branch (u # rest) s =
     (case t_update_where u (\<lambda>r. u_companyId r = c_companyId c \<and> u_status r = reserved)
             (\<lambda>r. r\<lparr>u_status := UnitStatus.in_transit\<rparr>) (ts_units s) of
        (n, us') \<Rightarrow>
          if n = 0 then Inl (Conflict (UnitNoLongerReserved u))
          else ship_units c branch rest
                 (audit_tx c ''Unit'' u ''status_change'' None branch (s\<lparr>ts_units := us'\<rparr>)))"

text \<open>\<^verbatim>\<open>transferItem.update\<close> on the line of a product, which is unique within its transfer.\<close>

definition set_shipped_cost :: "id \<Rightarrow> number \<Rightarrow> transfer \<Rightarrow> transfer" where
  "set_shipped_cost p cost t =
     t\<lparr>t_items := map (\<lambda>i. if i_productId i = Some p then i\<lparr>i_shippedUnitCost := Some cost\<rparr> else i) (t_items t)\<rparr>"

fun ship_lines :: "ctx \<Rightarrow> id \<Rightarrow> id \<Rightarrow> (id \<times> int) list \<Rightarrow> transfer_state \<Rightarrow> transfer_error + transfer_state" where
  "ship_lines c i branch [] s = Inr s"
| "ship_lines c i branch ((p, q) # rest) s =
     (let k = (c_companyId c, p, branch)
      in case map_of (ts_stock s) k of
           None \<Rightarrow> Inl (Conflict (NoRecordedCost p))
         | Some source \<Rightarrow>
             (case shipQuantity k q (ts_stock s) of
                (shipped, st') \<Rightarrow>
                  if \<not> shipped
                  then Inl (Conflict (StockNoLongerReserved p q (si_quantity source) (si_reservedQuantity source)
                              (max (si_quantity source - si_reservedQuantity source) 0)))
                  else ship_lines c i branch rest
                         (audit_tx c ''StockItem'' p ''update'' (Some ''shipped on transfer'') branch
                            (s\<lparr>ts_stock := st',
                               ts_transfers := t_update i (set_shipped_cost p (si_cost source)) (ts_transfers s)\<rparr>))))"

definition ship_tx ::
  "ctx \<Rightarrow> id \<Rightarrow> TransferDecisionDto \<Rightarrow> transfer \<Rightarrow> transfer_state \<Rightarrow> transfer_error + transfer_state" where
  "ship_tx c i dto t0 s =
     bindE (ship_units c (t_fromBranchId t0) (serialized (t_items t0)) s) (\<lambda>s1.
     bindE (ship_lines c i (t_fromBranchId t0) (quantity_lines (t_items t0)) s1) (\<lambda>s2.
     bindE (transitionTx c i t0 in_transit (td_expectedVersion dto)
              (\<lambda>t. t\<lparr>t_sentAt := c_now c, t_sentById := c_userId c\<rparr>) s2) (\<lambda>s3.
     Inr (notify_tx c (ref_of i t0) ev_shipped (totalQuantity (item_counts (t_items t0))) None
            (audit_tx c ''StockTransfer'' i ''status_change'' None (t_fromBranchId t0) s3)))))"

definition ship ::
  "ctx \<Rightarrow> id \<Rightarrow> TransferDecisionDto \<Rightarrow> transfer_state \<Rightarrow> (transfer_error + TransferStatus) \<times> transfer_state" where
  "ship c i dto s =
     (case ship_read c i s of
        Inl e \<Rightarrow> (Inl e, s)
      | Inr t0 \<Rightarrow> finish (\<lambda>_. in_transit) (ship_tx c i dto t0 s) s)"

section \<open>Receipt\<close>

definition at_destination :: "ctx \<Rightarrow> id \<Rightarrow> transfer_state \<Rightarrow> transfer_error + transfer" where
  "at_destination c i s =
     bindE (requireBranchId c) (\<lambda>b.
     bindE (load c i s) (\<lambda>t. if t_toBranchId t \<noteq> b then Inl (Forbidden WrongBranch) else Inr t))"

text \<open>The unit rows that the items refer to; a foreign key guarantees each one exists.\<close>

definition unit_rows :: "id list \<Rightarrow> units \<Rightarrow> transfer_error + (id \<times> unit_row) list" where
  "unit_rows ids us =
     (if list_ex (\<lambda>u. map_of us u = None) ids then Inl (Internal BrokenReference)
      else Inr (map (\<lambda>u. (u, the (map_of us u))) ids))"

definition receivePreview ::
  "ctx \<Rightarrow> id \<Rightarrow> string list \<Rightarrow> transfer_state \<Rightarrow> transfer_error + DiscrepancyReport" where
  "receivePreview c i scanned s =
     bindE (at_destination c i s) (\<lambda>t0.
       if t_status t0 \<noteq> in_transit then Inl (Conflict (NotInTransit (t_status t0)))
       else bindE (unit_rows (serialized (t_items t0)) (ts_units s)) (\<lambda>rows.
              Inr (computeDiscrepancy (map (unitIdentifier \<circ> snd) rows) scanned)))"

record receive_plan =
  rp_transfer :: transfer
  rp_rows :: "(id \<times> unit_row) list"
  rp_report :: DiscrepancyReport

definition receive_read ::
  "ctx \<Rightarrow> id \<Rightarrow> string list \<Rightarrow> transfer_state \<Rightarrow> transfer_error + receive_plan" where
  "receive_read c i scanned s =
     bindE (at_destination c i s) (\<lambda>t0.
       if \<not> canTransferTransition (t_status t0) received
       then Inl (Conflict (IllegalTransferTransition (t_status t0) received))
       else bindE (unit_rows (serialized (t_items t0)) (ts_units s)) (\<lambda>rows.
              Inr \<lparr>rp_transfer = t0, rp_rows = rows,
                   rp_report = computeDiscrepancy (map (unitIdentifier \<circ> snd) rows) scanned\<rparr>))"

record move =
  mv_unitId :: id
  mv_productId :: id
  mv_fromBranchId :: id
  mv_toBranchId :: id

fun receive_units ::
  "ctx \<Rightarrow> id \<Rightarrow> string list \<Rightarrow> (id \<times> unit_row) list \<Rightarrow> transfer_state \<Rightarrow> move list \<times> transfer_state" where
  "receive_units c toBranch matched [] s = ([], s)"
| "receive_units c toBranch matched ((u, row) # rest) s =
     (if unitIdentifier row \<in> set matched
      then case t_update_where u (\<lambda>r. u_companyId r = c_companyId c \<and> u_status r = UnitStatus.in_transit)
                  (\<lambda>r. r\<lparr>u_status := in_stock, u_branchId := toBranch\<rparr>) (ts_units s) of
             (n, us') \<Rightarrow>
               if n = 0 then receive_units c toBranch matched rest s
               else
                 (case receive_units c toBranch matched rest
                         (audit_tx c ''Unit'' u ''status_change'' None toBranch (s\<lparr>ts_units := us'\<rparr>)) of
                    (moves, s') \<Rightarrow>
                      (\<lparr>mv_unitId = u, mv_productId = u_productId row, mv_fromBranchId = u_branchId row,
                        mv_toBranchId = toBranch\<rparr> # moves, s'))
      else receive_units c toBranch matched rest s)"

fun invalidateOnBranchMoveTx :: "ctx \<Rightarrow> move list \<Rightarrow> transfer_state \<Rightarrow> nat \<times> transfer_state" where
  "invalidateOnBranchMoveTx c [] s = (0, s)"
| "invalidateOnBranchMoveTx c (m # ms) s =
     (if mv_fromBranchId m = mv_toBranchId m then invalidateOnBranchMoveTx c ms s
      else
        (case map_of (ts_overrides s) (mv_unitId m) of
           None \<Rightarrow> invalidateOnBranchMoveTx c ms s
         | Some ov \<Rightarrow>
             if ov_companyId ov \<noteq> c_companyId c then invalidateOnBranchMoveTx c ms s
             else
               (case invalidateOnBranchMoveTx c ms
                       (s\<lparr>ts_overrides := filter (\<lambda>(u, _). u \<noteq> mv_unitId m) (ts_overrides s),
                          ts_priceEvents := ts_priceEvents s @
                            [\<lparr>pe_companyId = c_companyId c, pe_branchId = ov_branchId ov,
                              pe_productId = mv_productId m, pe_unitId = mv_unitId m,
                              pe_previousPrice = ov_price ov, pe_actorId = c_userId c\<rparr>]\<rparr>) of
                  (n, s') \<Rightarrow> (n + 1, s'))))"

definition default_price :: "ctx \<Rightarrow> transfer_state \<Rightarrow> id \<Rightarrow> number option" where
  "default_price c s p =
     (case map_of (ts_products s) p of
        None \<Rightarrow> None
      | Some pr \<Rightarrow> if pr_companyId pr = c_companyId c then pr_defaultPrice pr else None)"

definition receiveQuantityLineTx ::
  "ctx \<Rightarrow> id \<Rightarrow> item \<Rightarrow> transfer_state \<Rightarrow> transfer_error + transfer_state" where
  "receiveQuantityLineTx c toBranch i s =
     (case i_productId i of
        None \<Rightarrow> Inr s
      | Some p \<Rightarrow>
          (case i_shippedUnitCost i of
             None \<Rightarrow> Inl (Conflict (NeverShipped p))
           | Some cost \<Rightarrow>
               (let k = (c_companyId c, p, toBranch);
                    priceIfNew = priceForNewStockRow (ts_variantPrices s) (default_price c s) k
                in case receiveQuantityAtCost k (i_quantity i) cost priceIfNew (ts_stock s) of
                     Inl e \<Rightarrow> Inl (Internal (StockRefused (ReceivedNotPositive (i_quantity i))))
                   | Inr st' \<Rightarrow>
                       Inr (audit_tx c ''StockItem'' p ''update'' (Some ''received on transfer'') toBranch
                              (s\<lparr>ts_stock := st'\<rparr>)))))"

fun receive_lines :: "ctx \<Rightarrow> id \<Rightarrow> item list \<Rightarrow> transfer_state \<Rightarrow> transfer_error + transfer_state" where
  "receive_lines c toBranch [] s = Inr s"
| "receive_lines c toBranch (i # rest) s =
     bindE (receiveQuantityLineTx c toBranch i s) (receive_lines c toBranch rest)"

definition receive_tx ::
  "ctx \<Rightarrow> id \<Rightarrow> nat \<Rightarrow> receive_plan \<Rightarrow> transfer_state \<Rightarrow> transfer_error + transfer_state" where
  "receive_tx c i expectedVersion p s =
     (let t0 = rp_transfer p;
          toBranch = t_toBranchId t0;
          report = rp_report p;
          (moved, s1) = receive_units c toBranch (dr_matched report) (rp_rows p) s;
          (_, s2) = invalidateOnBranchMoveTx c moved s1
      in bindE (receive_lines c toBranch (filter (\<lambda>x. i_productId x \<noteq> None) (t_items t0)) s2) (\<lambda>s3.
         bindE (transitionTx c i t0 received expectedVersion
                  (\<lambda>t. t\<lparr>t_receivedById := c_userId c, t_receivedAt := Some (c_now c)\<rparr>) s3) (\<lambda>s4.
         let s5 = audit_tx c ''StockTransfer'' i ''status_change'' None toBranch s4;
             s6 = (if dr_hasDiscrepancy report
                   then audit_tx c ''StockTransfer'' i ''update'' (Some ''discrepancy detected'') toBranch s5 else s5)
         in Inr (notify_tx c (ref_of i t0) ev_received
                   (int (length (dr_matched report)) +
                    totalQuantity (item_counts (filter (\<lambda>x. i_productId x \<noteq> None) (t_items t0)))) None s6))))"

definition receiveConfirm ::
  "ctx \<Rightarrow> id \<Rightarrow> string list \<Rightarrow> nat \<Rightarrow> transfer_state \<Rightarrow> (transfer_error + DiscrepancyReport) \<times> transfer_state" where
  "receiveConfirm c i scanned expectedVersion s =
     (case receive_read c i scanned s of
        Inl e \<Rightarrow> (Inl e, s)
      | Inr p \<Rightarrow> finish (\<lambda>_. rp_report p) (receive_tx c i expectedVersion p s) s)"

end
