(* ===== verification/TransferEffects.thy ===== *)
theory TransferEffects
  imports Transfers
begin

text \<open>
  What the loops of the transfer service do to units, stock and transfers, each stated once
  for the whole loop. The stock loops rest on the interface \<open>reservation_store\<close>.
\<close>

section \<open>Frames\<close>

lemma audit_tx_frame [simp]:
  "ts_transfers (audit_tx c ty i a r b s) = ts_transfers s" "ts_units (audit_tx c ty i a r b s) = ts_units s"
  "ts_stock (audit_tx c ty i a r b s) = ts_stock s" "ts_overrides (audit_tx c ty i a r b s) = ts_overrides s"
  "ts_notes (audit_tx c ty i a r b s) = ts_notes s" "ts_counters (audit_tx c ty i a r b s) = ts_counters s"
  "ts_products (audit_tx c ty i a r b s) = ts_products s"
  "ts_variantPrices (audit_tx c ty i a r b s) = ts_variantPrices s"
  by (simp_all add: audit_tx_def)

lemma notify_tx_frame [simp]:
  "ts_transfers (notify_tx c t e n r s) = ts_transfers s" "ts_units (notify_tx c t e n r s) = ts_units s"
  "ts_stock (notify_tx c t e n r s) = ts_stock s" "ts_overrides (notify_tx c t e n r s) = ts_overrides s"
  "ts_counters (notify_tx c t e n r s) = ts_counters s"
  by (simp_all add: notify_tx_def)

lemma items_of_eq [simp]: "map_of (ts_transfers s) i = Some t \<Longrightarrow> items_of i s = t_items t"
  by (simp add: items_of_def)

section \<open>Transitions\<close>

lemma transitionTx_Inr:
  "transitionTx c i t0 to ev f s = Inr s' \<longleftrightarrow>
     canTransferTransition (t_status t0) to \<and>
     (\<exists>t. map_of (ts_transfers s) i = Some t \<and> t_companyId t = c_companyId c \<and> t_version t = ev \<and>
          s' = s\<lparr>ts_transfers := t_update i (\<lambda>t. f (t\<lparr>t_status := to, t_version := Suc (t_version t)\<rparr>)) (ts_transfers s)\<rparr>)"
  by (auto simp: transitionTx_def t_update_where_def split: option.splits)

section \<open>Units\<close>

text \<open>The rows of a set of units after a status change.\<close>

definition units_after :: "id set \<Rightarrow> (unit_row \<Rightarrow> unit_row) \<Rightarrow> units \<Rightarrow> units \<Rightarrow> bool" where
  "units_after us f old new \<longleftrightarrow>
     t_keys new = t_keys old \<and>
     (\<forall>u. map_of new u = (if u \<in> us then map_option f (map_of old u) else map_of old u))"

lemma units_after_empty [simp]: "units_after {} f old old"
  by (simp add: units_after_def)

lemma units_after_step:
  assumes "units_after us f (t_update u f old) new" and "u \<notin> us"
  shows "units_after (insert u us) f old new"
  using assms by (auto simp: units_after_def)

lemma units_after_wf: "units_after us f old new \<Longrightarrow> t_wf new = t_wf old"
  by (simp add: units_after_def t_wf_def)

lemma claim_units_Inr:
  "claim_units co b xs us = Inr us' \<Longrightarrow>
     distinct (map snd xs) \<and>
     (\<forall>u \<in> snd ` set xs. \<exists>r. map_of us u = Some r \<and> u_companyId r = co \<and> u_branchId r = b \<and> u_status r = in_stock) \<and>
     units_after (snd ` set xs) (\<lambda>r. r\<lparr>u_status := reserved\<rparr>) us us'"
proof (induction co b xs us rule: claim_units.induct)
  case (2 co b x u rest us)
  let ?f = "\<lambda>r. r\<lparr>u_status := reserved\<rparr>"
  from "2.prems" obtain r where r: "map_of us u = Some r" "u_companyId r = co" "u_branchId r = b" "u_status r = in_stock"
    and rest: "claim_units co b rest (t_update u ?f us) = Inr us'"
    by (auto simp: t_update_where_def split: option.splits if_splits)
  have "t_update_where u (\<lambda>r. u_companyId r = co \<and> u_branchId r = b \<and> u_status r = in_stock) ?f us
      = (1, t_update u ?f us)"
    using r by (simp add: t_update_where_def)
  from "2.IH" [OF this [symmetric] _ rest] have IH: "distinct (map snd rest)"
    "\<And>v. v \<in> snd ` set rest \<Longrightarrow> \<exists>r. map_of (t_update u ?f us) v = Some r \<and> u_companyId r = co \<and> u_branchId r = b \<and> u_status r = in_stock"
    "units_after (snd ` set rest) ?f (t_update u ?f us) us'"
    by blast+
  have notin: "u \<notin> snd ` set rest" using IH(2) [of u] r by auto
  have "\<exists>r. map_of us v = Some r \<and> u_companyId r = co \<and> u_branchId r = b \<and> u_status r = in_stock"
    if "v \<in> snd ` set rest" for v
    using IH(2) [OF that] that notin by (cases "v = u") auto
  with r IH(1) notin units_after_step [OF IH(3) notin] show ?case by auto
qed simp

text \<open>\<open>s'\<close> differs from \<open>s\<close> in units and audit log at most.\<close>

definition only_units :: "transfer_state \<Rightarrow> transfer_state \<Rightarrow> bool" where
  "only_units s s' \<longleftrightarrow> (\<exists>us a. s' = s\<lparr>ts_units := us, ts_audit := a\<rparr>)"

definition reserved_units :: "id \<Rightarrow> id set \<Rightarrow> units \<Rightarrow> bool" where
  "reserved_units co ids us \<longleftrightarrow>
     (\<forall>u \<in> ids. \<exists>r. map_of us u = Some r \<and> u_companyId r = co \<and> u_status r = reserved)"

lemma only_units_refl [simp]: "only_units s s"
proof -
  have "s = s\<lparr>ts_units := ts_units s, ts_audit := ts_audit s\<rparr>" by simp
  then show ?thesis unfolding only_units_def by blast
qed

lemma only_units_step: "only_units (audit_tx c ty i a r b (s\<lparr>ts_units := us\<rparr>)) s' \<Longrightarrow> only_units s s'"
  by (auto simp: only_units_def audit_tx_def)

lemma only_units_frame:
  assumes "only_units s s'"
  shows "ts_transfers s' = ts_transfers s" and "ts_stock s' = ts_stock s" and "ts_overrides s' = ts_overrides s"
    and "ts_notes s' = ts_notes s" and "ts_products s' = ts_products s" and "ts_variantPrices s' = ts_variantPrices s"
    and "ts_counters s' = ts_counters s"
  using assms by (auto simp: only_units_def)

lemma reserved_units_update:
  "u \<notin> ids \<Longrightarrow> reserved_units co ids (t_update u f us) = reserved_units co ids us"
  by (auto simp: reserved_units_def)

lemma reserved_units_insert:
  "reserved_units co (insert u ids) us \<longleftrightarrow>
     (\<exists>r. map_of us u = Some r \<and> u_companyId r = co \<and> u_status r = reserved) \<and> reserved_units co ids us"
  by (auto simp: reserved_units_def)

lemma ship_units_Inr:
  "ship_units c b ids s = Inr s' \<Longrightarrow>
     distinct ids \<and> reserved_units (c_companyId c) (set ids) (ts_units s) \<and> only_units s s' \<and>
     units_after (set ids) (\<lambda>r. r\<lparr>u_status := UnitStatus.in_transit\<rparr>) (ts_units s) (ts_units s')"
proof (induction c b ids s rule: ship_units.induct)
  case (2 c b u rest s)
  let ?f = "\<lambda>r. r\<lparr>u_status := UnitStatus.in_transit\<rparr>"
  let ?s = "audit_tx c ''Unit'' u ''status_change'' None b (s\<lparr>ts_units := t_update u ?f (ts_units s)\<rparr>)"
  from "2.prems" obtain r where r: "map_of (ts_units s) u = Some r" "u_companyId r = c_companyId c" "u_status r = reserved"
    and rest: "ship_units c b rest ?s = Inr s'"
    by (auto simp: t_update_where_def split: option.splits if_splits)
  have "t_update_where u (\<lambda>r. u_companyId r = c_companyId c \<and> u_status r = reserved) ?f (ts_units s)
      = (1, t_update u ?f (ts_units s))"
    using r by (simp add: t_update_where_def)
  from "2.IH" [OF this [symmetric] _ rest] have IH: "distinct rest"
    "reserved_units (c_companyId c) (set rest) (t_update u ?f (ts_units s))" "only_units ?s s'"
    "units_after (set rest) ?f (t_update u ?f (ts_units s)) (ts_units s')"
    by simp_all
  have notin: "u \<notin> set rest" using IH(2) r by (fastforce simp: reserved_units_def)
  with r IH units_after_step [OF IH(4) notin] show ?case
    by (auto simp: reserved_units_update reserved_units_insert dest: only_units_step)
qed (simp add: reserved_units_def)

lemma ship_units_succeeds:
  "distinct ids \<Longrightarrow> reserved_units (c_companyId c) (set ids) (ts_units s) \<Longrightarrow> \<exists>s'. ship_units c b ids s = Inr s'"
proof (induction ids arbitrary: s)
  case (Cons u rest)
  let ?f = "\<lambda>r. r\<lparr>u_status := UnitStatus.in_transit\<rparr>"
  have "reserved_units (c_companyId c) (set rest)
      (ts_units (audit_tx c ''Unit'' u ''status_change'' None b (s\<lparr>ts_units := t_update u ?f (ts_units s)\<rparr>)))"
    using Cons.prems by (simp add: reserved_units_update reserved_units_insert)
  from Cons.IH [OF _ this] Cons.prems show ?case
    by (auto simp: reserved_units_insert t_update_where_def)
qed simp

lemma release_units_eff:
  "distinct ids \<Longrightarrow> reserved_units (c_companyId c) (set ids) (ts_units s) \<Longrightarrow>
     only_units s (release_units c b why ids s) \<and>
     units_after (set ids) (\<lambda>r. r\<lparr>u_status := in_stock\<rparr>) (ts_units s) (ts_units (release_units c b why ids s))"
proof (induction ids arbitrary: s)
  case (Cons u rest)
  let ?f = "\<lambda>r. r\<lparr>u_status := in_stock\<rparr>"
  let ?s = "audit_tx c ''Unit'' u ''status_change'' (Some why) b (s\<lparr>ts_units := t_update u ?f (ts_units s)\<rparr>)"
  from Cons.prems have step: "release_units c b why (u # rest) s = release_units c b why rest ?s"
    by (auto simp: reserved_units_insert t_update_where_def)
  have "reserved_units (c_companyId c) (set rest) (ts_units ?s)"
    using Cons.prems by (simp add: reserved_units_update reserved_units_insert)
  from Cons.IH [OF _ this] Cons.prems step show ?case
    using units_after_step [of "set rest" ?f u "ts_units s"] only_units_step by auto
qed simp

section \<open>Stock\<close>

text \<open>What a list of lines of one branch asks of one stock row.\<close>

definition lines_at :: "id \<Rightarrow> id \<Rightarrow> (id \<times> int) list \<Rightarrow> stock_key \<Rightarrow> int" where
  "lines_at co b ls k = (\<Sum>(p, q)\<leftarrow>ls. if k = (co, p, b) then q else 0)"

lemma lines_at_simps [simp]:
  "lines_at co b [] k = 0"
  "lines_at co b ((p, q) # ls) k = (if k = (co, p, b) then q else 0) + lines_at co b ls k"
  by (simp_all add: lines_at_def)

definition positive :: "(id \<times> int) list \<Rightarrow> bool" where
  "positive ls \<longleftrightarrow> (\<forall>(p, q) \<in> set ls. 0 < q)"

lemma positive_simps [simp]: "positive []" "positive ((p, q) # ls) \<longleftrightarrow> 0 < q \<and> positive ls"
  by (auto simp: positive_def)

lemma lines_at_nonneg: "positive ls \<Longrightarrow> 0 \<le> lines_at co b ls k"
  by (induction ls) auto

lemma reserve_lines_Inr:
  "reserve_lines co b ls st = Inr st' \<Longrightarrow> stock_ok st \<Longrightarrow> positive ls \<Longrightarrow>
     stock_ok st' \<and> on_hand st' = on_hand st \<and> promised st' = (\<lambda>k. promised st k + lines_at co b ls k)"
proof (induction co b ls st rule: reserve_lines.induct)
  case (2 co b p q rest st)
  obtain st1 where res: "reserveQuantity (co, p, b) q st = (True, st1)" and rest: "reserve_lines co b rest st1 = Inr st'"
    using "2.prems"(1) by (auto split: prod.splits if_splits)
  from "2.prems" have pos: "0 < q" "positive rest" by simp_all
  note eff = stk.reserve_eff [OF "2.prems"(2) pos(1) res]
  from "2.IH" [OF res [symmetric] _ rest] eff pos
  have "stock_ok st'" "on_hand st' = on_hand st1" "promised st' = (\<lambda>k. promised st1 k + lines_at co b rest k)"
    by auto
  with eff show ?case by (auto simp: fun_eq_iff)
qed simp

definition only_stock :: "transfer_state \<Rightarrow> transfer_state \<Rightarrow> bool" where
  "only_stock s s' \<longleftrightarrow> (\<exists>st a. s' = s\<lparr>ts_stock := st, ts_audit := a\<rparr>)"

lemma only_stock_refl [simp]: "only_stock s s"
proof -
  have "s = s\<lparr>ts_stock := ts_stock s, ts_audit := ts_audit s\<rparr>" by simp
  then show ?thesis unfolding only_stock_def by blast
qed

lemma only_stock_step: "only_stock (audit_tx c ty i a r b (s\<lparr>ts_stock := st\<rparr>)) s' \<Longrightarrow> only_stock s s'"
  by (auto simp: only_stock_def audit_tx_def)

lemma only_stock_frame:
  assumes "only_stock s s'"
  shows "ts_transfers s' = ts_transfers s" and "ts_units s' = ts_units s" and "ts_notes s' = ts_notes s"
    and "ts_overrides s' = ts_overrides s" and "ts_counters s' = ts_counters s"
  using assms by (auto simp: only_stock_def)

text \<open>Releasing what is promised gives all of it back.\<close>

lemma release_lines_eff:
  "stock_ok (ts_stock s) \<Longrightarrow> positive ls \<Longrightarrow>
   (\<forall>k. lines_at (c_companyId c) b ls k \<le> promised (ts_stock s) k) \<Longrightarrow>
     only_stock s (release_lines c b why ls s) \<and>
     stock_ok (ts_stock (release_lines c b why ls s)) \<and>
     on_hand (ts_stock (release_lines c b why ls s)) = on_hand (ts_stock s) \<and>
     promised (ts_stock (release_lines c b why ls s)) =
       (\<lambda>k. promised (ts_stock s) k - lines_at (c_companyId c) b ls k)"
proof (induction ls arbitrary: s)
  case (Cons pq rest)
  obtain p q where pq: "pq = (p, q)" by fastforce
  let ?k = "(c_companyId c, p, b)"
  from Cons.prems pq have pos: "0 < q" "positive rest" by simp_all
  have "q \<le> promised (ts_stock s) ?k"
    using Cons.prems(3) [rule_format, of ?k] lines_at_nonneg [OF pos(2), of "c_companyId c" b ?k] by (simp add: pq)
  with stk.release_iff [OF Cons.prems(1) pos(1)] obtain st1 where
    rel: "releaseQuantity ?k q (ts_stock s) = (True, st1)"
    by (metis fst_conv prod.exhaust)
  note eff = stk.release_eff [OF Cons.prems(1) pos(1) rel]
  let ?s = "audit_tx c ''StockItem'' p ''update'' (Some why) b (s\<lparr>ts_stock := st1\<rparr>)"
  have st: "ts_stock ?s = st1" by simp
  have "lines_at (c_companyId c) b rest k \<le> promised st1 k" for k
    using Cons.prems(3) [rule_format, of k] eff by (auto simp: pq split: if_splits)
  then have IH: "only_stock ?s (release_lines c b why rest ?s)"
    "stock_ok (ts_stock (release_lines c b why rest ?s))"
    "on_hand (ts_stock (release_lines c b why rest ?s)) = on_hand st1"
    "promised (ts_stock (release_lines c b why rest ?s)) =
       (\<lambda>k. promised st1 k - lines_at (c_companyId c) b rest k)"
    using Cons.IH [of ?s] eff pos unfolding st by blast+
  have step: "release_lines c b why (pq # rest) s = release_lines c b why rest ?s"
    by (simp add: pq rel)
  from IH only_stock_step [OF IH(1)] eff show ?case
    unfolding step by (simp add: pq fun_eq_iff)
qed simp

text \<open>Shipment takes the lines off the shelf and writes the cost of each source row to its line.\<close>

definition cost_of :: "stock \<Rightarrow> stock_key \<Rightarrow> number" where
  "cost_of st k = (case map_of st k of None \<Rightarrow> 0 | Some r \<Rightarrow> si_cost r)"

definition with_costs :: "(stock_key \<Rightarrow> number) \<Rightarrow> id \<Rightarrow> id \<Rightarrow> id set \<Rightarrow> transfer \<Rightarrow> transfer" where
  "with_costs cst co b ps t =
     t\<lparr>t_items := map (\<lambda>i. case i_productId i of
                             None \<Rightarrow> i
                           | Some p \<Rightarrow> if p \<in> ps then i\<lparr>i_shippedUnitCost := Some (cst (co, p, b))\<rparr> else i)
                      (t_items t)\<rparr>"

lemma t_update_t_update: "t_update k f (t_update k g t) = t_update k (f \<circ> g) t"
  by (auto simp: t_update_def)

lemma t_update_cong_id: "(\<And>v. f v = v) \<Longrightarrow> t_update k f t = t"
  by (auto simp: t_update_def intro: map_idI)

lemma with_costs_empty: "with_costs cst co b {} t = t"
proof -
  have "(\<lambda>i :: item. case i_productId i of None \<Rightarrow> i
      | Some p \<Rightarrow> if p \<in> {} then i\<lparr>i_shippedUnitCost := Some (cst (co, p, b))\<rparr> else i) = (\<lambda>i. i)"
    by (auto split: option.split)
  then show ?thesis unfolding with_costs_def by simp
qed

lemma with_costs_insert:
  "with_costs cst co b ps (set_shipped_cost p (cst (co, p, b)) t) = with_costs cst co b (insert p ps) t"
  by (auto simp: with_costs_def set_shipped_cost_def split: option.splits)

lemma shipQuantity_cost: "shipQuantity k n st = (ok, st') \<Longrightarrow> cost_of st' = cost_of st"
  unfolding shipQuantity_def
  by (cases k) (auto simp: t_update_where_def cost_of_def fun_eq_iff split: option.splits if_splits)

definition only_stock_items :: "id \<Rightarrow> transfer_state \<Rightarrow> transfer_state \<Rightarrow> bool" where
  "only_stock_items i s s' \<longleftrightarrow> (\<exists>st ts a. s' = s\<lparr>ts_stock := st, ts_transfers := ts, ts_audit := a\<rparr>)"

lemma only_stock_items_frame:
  assumes "only_stock_items i s s'"
  shows "ts_units s' = ts_units s" and "ts_notes s' = ts_notes s" and "ts_overrides s' = ts_overrides s"
    and "ts_counters s' = ts_counters s"
  using assms by (auto simp: only_stock_items_def)

lemma ship_lines_Inr:
  "ship_lines c i b ls s = Inr s' \<Longrightarrow> stock_ok (ts_stock s) \<Longrightarrow> positive ls \<Longrightarrow>
     only_stock_items i s s' \<and> stock_ok (ts_stock s') \<and>
     on_hand (ts_stock s') = (\<lambda>k. on_hand (ts_stock s) k - lines_at (c_companyId c) b ls k) \<and>
     promised (ts_stock s') = (\<lambda>k. promised (ts_stock s) k - lines_at (c_companyId c) b ls k) \<and>
     ts_transfers s' = t_update i (with_costs (cost_of (ts_stock s)) (c_companyId c) b (fst ` set ls)) (ts_transfers s)"
proof (induction ls arbitrary: s)
  case Nil
  have "s = s\<lparr>ts_stock := ts_stock s, ts_transfers := ts_transfers s, ts_audit := ts_audit s\<rparr>" by simp
  then have "only_stock_items i s s" unfolding only_stock_items_def by blast
  with Nil show ?case by (simp add: t_update_cong_id with_costs_empty)
next
  case (Cons pq rest)
  obtain p q where pq: "pq = (p, q)" by fastforce
  let ?co = "c_companyId c" and ?k = "(c_companyId c, p, b)"
  from Cons.prems(1) obtain r st1 where src: "map_of (ts_stock s) ?k = Some r"
    and sq: "shipQuantity ?k q (ts_stock s) = (True, st1)"
    by (auto simp: pq Let_def split: option.splits prod.splits if_splits)
  define s1 where "s1 = audit_tx c ''StockItem'' p ''update'' (Some ''shipped on transfer'') b
      (s\<lparr>ts_stock := st1, ts_transfers := t_update i (set_shipped_cost p (si_cost r)) (ts_transfers s)\<rparr>)"
  from Cons.prems(1) src sq have rest: "ship_lines c i b rest s1 = Inr s'"
    by (simp add: pq Let_def s1_def)
  from Cons.prems pq have pos: "0 < q" "positive rest" by simp_all
  note eff = stk.ship_eff [OF Cons.prems(2) pos(1) sq]
  have st: "ts_stock s1 = st1" "cost_of st1 = cost_of (ts_stock s)" "cost_of (ts_stock s) ?k = si_cost r"
    using shipQuantity_cost [OF sq] src by (simp_all add: s1_def cost_of_def)
  from Cons.IH [OF rest] eff pos st have IH: "only_stock_items i s1 s'" "stock_ok (ts_stock s')"
    "on_hand (ts_stock s') = (\<lambda>k. on_hand st1 k - lines_at ?co b rest k)"
    "promised (ts_stock s') = (\<lambda>k. promised st1 k - lines_at ?co b rest k)"
    "ts_transfers s' = t_update i (with_costs (cost_of st1) ?co b (fst ` set rest)) (ts_transfers s1)"
    by auto
  have wc: "with_costs (cost_of st1) ?co b ps = with_costs (cost_of (ts_stock s)) ?co b ps" for ps
    by (simp only: st(2))
  have "ts_transfers s' = t_update i (with_costs (cost_of (ts_stock s)) ?co b (insert p (fst ` set rest))) (ts_transfers s)"
    using with_costs_insert [of "cost_of (ts_stock s)" ?co b "fst ` set rest" p]
    by (simp add: IH(5) wc s1_def t_update_t_update comp_def st(3))
  moreover have "only_stock_items i s s'"
    using IH(1) by (auto simp: only_stock_items_def s1_def audit_tx_def)
  ultimately show ?case using IH(2-4) eff by (simp add: pq fun_eq_iff)
qed

lemma ship_lines_succeeds:
  "stock_ok (ts_stock s) \<Longrightarrow> positive ls \<Longrightarrow>
   (\<forall>k. lines_at (c_companyId c) b ls k \<le> promised (ts_stock s) k) \<Longrightarrow> \<exists>s'. ship_lines c i b ls s = Inr s'"
proof (induction ls arbitrary: s)
  case (Cons pq rest)
  obtain p q where pq: "pq = (p, q)" by fastforce
  let ?k = "(c_companyId c, p, b)"
  from Cons.prems pq have pos: "0 < q" "positive rest" by simp_all
  have le: "q \<le> promised (ts_stock s) ?k"
    using Cons.prems(3) [rule_format, of ?k] lines_at_nonneg [OF pos(2), of "c_companyId c" b ?k] by (simp add: pq)
  with stk.ship_iff [OF Cons.prems(1) pos(1)] obtain st1 where sq: "shipQuantity ?k q (ts_stock s) = (True, st1)"
    by (metis fst_conv prod.exhaust)
  from le pos(1) obtain r where src: "map_of (ts_stock s) ?k = Some r"
    by (cases "map_of (ts_stock s) ?k") (auto simp: promised_def)
  note eff = stk.ship_eff [OF Cons.prems(1) pos(1) sq]
  define s1 where "s1 = audit_tx c ''StockItem'' p ''update'' (Some ''shipped on transfer'') b
      (s\<lparr>ts_stock := st1, ts_transfers := t_update i (set_shipped_cost p (si_cost r)) (ts_transfers s)\<rparr>)"
  have "lines_at (c_companyId c) b rest k \<le> promised st1 k" for k
    using Cons.prems(3) [rule_format, of k] eff by (auto simp: pq split: if_splits)
  moreover have "ts_stock s1 = st1" by (simp add: s1_def)
  ultimately have "\<exists>s'. ship_lines c i b rest s1 = Inr s'" using Cons.IH [of s1] eff pos by metis
  with src sq show ?case by (simp add: pq Let_def s1_def)
qed simp

text \<open>Receipt adds the lines at the destination; nothing promised there changes.\<close>

lemma quantity_lines_Cons:
  "quantity_lines (i # is) = (case i_productId i of None \<Rightarrow> [] | Some p \<Rightarrow> [(p, i_quantity i)]) @ quantity_lines is"
  by (simp add: quantity_lines_def List.map_filter_def split: option.splits)

lemma quantity_lines_Nil [simp]: "quantity_lines [] = []"
  by (simp add: quantity_lines_def List.map_filter_def)

lemma serialized_Cons:
  "serialized (i # is) = (case i_unitId i of None \<Rightarrow> [] | Some u \<Rightarrow> [u]) @ serialized is"
  by (simp add: serialized_def List.map_filter_def split: option.splits)

lemma serialized_Nil [simp]: "serialized [] = []"
  by (simp add: serialized_def List.map_filter_def)

lemma receive_lines_Inr:
  "receive_lines c b is s = Inr s' \<Longrightarrow> stock_ok (ts_stock s) \<Longrightarrow>
     only_stock s s' \<and> stock_ok (ts_stock s') \<and> promised (ts_stock s') = promised (ts_stock s) \<and>
     on_hand (ts_stock s') = (\<lambda>k. on_hand (ts_stock s) k + lines_at (c_companyId c) b (quantity_lines is) k)"
proof (induction "is" arbitrary: s)
  case (Cons x rest)
  show ?case
  proof (cases "i_productId x")
    case None
    with Cons show ?thesis by (simp add: receiveQuantityLineTx_def quantity_lines_Cons)
  next
    case (Some p)
    let ?k = "(c_companyId c, p, b)"
    from Cons.prems(1) Some obtain cost pr st1 where rec: "receiveQuantityAtCost ?k (i_quantity x) cost pr (ts_stock s) = Inr st1"
      and rest: "receive_lines c b rest (audit_tx c ''StockItem'' p ''update'' (Some ''received on transfer'') b (s\<lparr>ts_stock := st1\<rparr>)) = Inr s'"
      by (auto simp: receiveQuantityLineTx_def Let_def split: option.splits sum.splits)
    note eff = receive_eff [OF Cons.prems(2) rec]
    from Cons.IH [OF rest] eff have IH: "only_stock (audit_tx c ''StockItem'' p ''update'' (Some ''received on transfer'') b (s\<lparr>ts_stock := st1\<rparr>)) s'"
      "stock_ok (ts_stock s')" "promised (ts_stock s') = promised st1"
      "on_hand (ts_stock s') = (\<lambda>k. on_hand st1 k + lines_at (c_companyId c) b (quantity_lines rest) k)"
      by auto
    with eff only_stock_step [OF IH(1)] Some show ?thesis by (simp add: quantity_lines_Cons fun_eq_iff)
  qed
qed simp

definition shipped_lines :: "item list \<Rightarrow> bool" where
  "shipped_lines is \<longleftrightarrow> (\<forall>i \<in> set is. i_productId i \<noteq> None \<longrightarrow> i_shippedUnitCost i \<noteq> None \<and> 0 < i_quantity i)"

lemma receive_lines_succeeds: "shipped_lines is \<Longrightarrow> \<exists>s'. receive_lines c b is s = Inr s'"
proof (induction "is" arbitrary: s)
  case (Cons x rest)
  then have "\<exists>s1. receiveQuantityLineTx c b x s = Inr s1"
    by (auto simp: shipped_lines_def receiveQuantityLineTx_def receiveQuantityAtCost_def Let_def split: option.splits)
  with Cons show ?case by (fastforce simp: shipped_lines_def)
qed simp

section \<open>Receipt of units\<close>

definition arriving :: "id \<Rightarrow> string list \<Rightarrow> (id \<times> unit_row) list \<Rightarrow> units \<Rightarrow> id set" where
  "arriving co matched rows us =
     {u. \<exists>row r. (u, row) \<in> set rows \<and> unitIdentifier row \<in> set matched \<and>
         map_of us u = Some r \<and> u_companyId r = co \<and> u_status r = UnitStatus.in_transit}"

lemma receive_units_eff:
  "receive_units c b matched rows s = (moves, s') \<Longrightarrow> distinct (map fst rows) \<Longrightarrow>
     only_units s s' \<and>
     units_after (arriving (c_companyId c) matched rows (ts_units s))
       (\<lambda>r. r\<lparr>u_status := in_stock, u_branchId := b\<rparr>) (ts_units s) (ts_units s') \<and>
     mv_unitId ` set moves = arriving (c_companyId c) matched rows (ts_units s)"
proof (induction rows arbitrary: s moves)
  case (Cons x rest)
  obtain u row where x: "x = (u, row)" by fastforce
  let ?co = "c_companyId c" and ?f = "\<lambda>r. r\<lparr>u_status := in_stock, u_branchId := b\<rparr>"
  let ?go = "unitIdentifier row \<in> set matched \<and>
      (\<exists>r. map_of (ts_units s) u = Some r \<and> u_companyId r = ?co \<and> u_status r = UnitStatus.in_transit)"
  from Cons.prems(2) x have new: "u \<notin> fst ` set rest" "distinct (map fst rest)" by simp_all
  have notin: "u \<notin> arriving ?co matched rest us" for us
    using new(1) by (force simp: arriving_def)
  show ?case
  proof (cases ?go)
    case False
    then have "receive_units c b matched rest s = (moves, s')"
      using Cons.prems(1) by (auto simp: x t_update_where_def split: option.splits if_splits)
    moreover have "arriving ?co matched (x # rest) (ts_units s) = arriving ?co matched rest (ts_units s)"
      using False by (auto simp: arriving_def x)
    ultimately show ?thesis using Cons.IH [of s moves] new by simp
  next
    case True
    let ?s = "audit_tx c ''Unit'' u ''status_change'' None b (s\<lparr>ts_units := t_update u ?f (ts_units s)\<rparr>)"
    from True Cons.prems(1) obtain ms where rest: "receive_units c b matched rest ?s = (ms, s')"
      and moves: "moves = \<lparr>mv_unitId = u, mv_productId = u_productId row, mv_fromBranchId = u_branchId row, mv_toBranchId = b\<rparr> # ms"
      by (auto simp: x t_update_where_def split: option.splits if_splits prod.splits)
    have same: "arriving ?co matched rest (t_update u ?f (ts_units s)) = arriving ?co matched rest (ts_units s)"
      using new(1) by (force simp: arriving_def)
    have all: "arriving ?co matched (x # rest) (ts_units s) = insert u (arriving ?co matched rest (ts_units s))"
      using True by (auto simp: arriving_def x)
    from Cons.IH [OF rest new(2)] have IH: "only_units ?s s'"
      "units_after (arriving ?co matched rest (ts_units s)) ?f (t_update u ?f (ts_units s)) (ts_units s')"
      "mv_unitId ` set ms = arriving ?co matched rest (ts_units s)"
      by (simp_all add: same)
    from only_units_step [OF IH(1)] units_after_step [OF IH(2) notin] IH(3) show ?thesis
      by (simp add: all moves)
  qed
qed (auto simp: arriving_def)

lemma receive_units_frame:
  "receive_units c b matched rows s = (moves, s') \<Longrightarrow> ts_transfers s' = ts_transfers s \<and> ts_stock s' = ts_stock s"
proof (induction rows arbitrary: s moves)
  case (Cons x rest)
  obtain u row where x: "x = (u, row)" by fastforce
  obtain n us' where w: "t_update_where u (\<lambda>r. u_companyId r = c_companyId c \<and> u_status r = UnitStatus.in_transit)
      (\<lambda>r. r\<lparr>u_status := in_stock, u_branchId := b\<rparr>) (ts_units s) = (n, us')" by fastforce
  let ?s = "audit_tx c ''Unit'' u ''status_change'' None b (s\<lparr>ts_units := us'\<rparr>)"
  show ?case
  proof (cases "unitIdentifier row \<in> set matched \<and> n \<noteq> 0")
    case True
    with Cons.prems obtain ms where "receive_units c b matched rest ?s = (ms, s')"
      by (cases "receive_units c b matched rest ?s") (simp add: x w)
    from Cons.IH [OF this] show ?thesis by simp
  next
    case False
    with Cons.prems have "receive_units c b matched rest s = (moves, s')"
      by (auto simp: x w split: if_splits)
    from Cons.IH [OF this] show ?thesis .
  qed
qed simp

lemma invalidate_frame:
  "ts_transfers (snd (invalidateOnBranchMoveTx c ms s)) = ts_transfers s \<and>
   ts_units (snd (invalidateOnBranchMoveTx c ms s)) = ts_units s \<and>
   ts_stock (snd (invalidateOnBranchMoveTx c ms s)) = ts_stock s \<and>
   ts_notes (snd (invalidateOnBranchMoveTx c ms s)) = ts_notes s"
  by (induction c ms s rule: invalidateOnBranchMoveTx.induct) (auto split: option.splits prod.splits)

end
