(* ===== verification/TransferInvariant.thy ===== *)
theory TransferInvariant
  imports TransferEffects
begin

text \<open>
  The invariant of the transfer tables: what is promised of every stock row is exactly what
  the open transfers ask for, every unit on an open transfer is reserved for it and for no
  other, every reserved unit is on an open transfer, and what is in transit has a recorded
  cost. Every transaction of the service keeps it, also when it runs on a later state than
  the one it was planned on, and so do the sales, receipts and other status changes that
  run between.
\<close>

section \<open>The invariant\<close>

definition open_t :: "transfer \<Rightarrow> bool" where
  "open_t t \<longleftrightarrow> t_status t \<in> set RESERVING_STATUSES"

definition active :: "transfer \<Rightarrow> bool" where
  "active t \<longleftrightarrow> open_t t \<or> t_status t = in_transit"

definition item_ok :: "item \<Rightarrow> bool" where
  "item_ok i \<longleftrightarrow>
     (i_unitId i \<noteq> None \<and> i_productId i = None \<and> i_quantity i = 1) \<or>
     (i_unitId i = None \<and> i_productId i \<noteq> None \<and> 0 < i_quantity i)"

definition transfer_ok :: "transfer \<Rightarrow> bool" where
  "transfer_ok t \<longleftrightarrow>
     (\<forall>i \<in> set (t_items t). item_ok i) \<and>
     (t_status t \<in> {in_transit, received} \<longrightarrow> shipped_lines (t_items t)) \<and>
     distinct (serialized (t_items t))"

definition claim :: "stock_key \<Rightarrow> transfer \<Rightarrow> int" where
  "claim k t =
     (if open_t t then lines_at (t_companyId t) (t_fromBranchId t) (quantity_lines (t_items t)) k else 0)"

definition claims :: "stock_key \<Rightarrow> transfer_state \<Rightarrow> int" where
  "claims k s = (\<Sum>(i, t)\<leftarrow>ts_transfers s. claim k t)"

text \<open>The state of a unit that an active transfer holds.\<close>

definition held_as :: "transfer \<Rightarrow> unit_row \<Rightarrow> bool" where
  "held_as t r \<longleftrightarrow>
     u_companyId r = t_companyId t \<and> u_branchId r = t_fromBranchId t \<and>
     u_status r = (if open_t t then reserved else UnitStatus.in_transit)"

definition units_ok :: "transfer_state \<Rightarrow> bool" where
  "units_ok s \<longleftrightarrow>
     (\<forall>i t u. map_of (ts_transfers s) i = Some t \<and> active t \<and> u \<in> set (serialized (t_items t)) \<longrightarrow>
        (\<exists>r. map_of (ts_units s) u = Some r \<and> held_as t r)) \<and>
     (\<forall>i t j t' u. map_of (ts_transfers s) i = Some t \<and> map_of (ts_transfers s) j = Some t' \<and> active t \<and> active t' \<and>
        u \<in> set (serialized (t_items t)) \<and> u \<in> set (serialized (t_items t')) \<longrightarrow> i = j) \<and>
     (\<forall>u r. map_of (ts_units s) u = Some r \<and> u_status r = reserved \<longrightarrow>
        (\<exists>i t. map_of (ts_transfers s) i = Some t \<and> open_t t \<and> u \<in> set (serialized (t_items t))))"

definition transfer_inv :: "transfer_state \<Rightarrow> bool" where
  "transfer_inv s \<longleftrightarrow>
     t_wf (ts_transfers s) \<and> t_wf (ts_units s) \<and> stock_ok (ts_stock s) \<and>
     (\<forall>i t. map_of (ts_transfers s) i = Some t \<longrightarrow> transfer_ok t) \<and>
     (\<forall>k. promised (ts_stock s) k = claims k s) \<and>
     units_ok s"

lemma open_t_simps: "open_t t \<longleftrightarrow> t_status t = pending_approval \<or> t_status t = approved"
  by (simp add: open_t_def RESERVING_STATUSES_def)

lemma transfer_invD:
  assumes "transfer_inv s"
  shows "t_wf (ts_transfers s)" and "t_wf (ts_units s)" and "stock_ok (ts_stock s)"
    and "map_of (ts_transfers s) i = Some t \<Longrightarrow> transfer_ok t"
    and "promised (ts_stock s) k = claims k s" and "units_ok s"
  using assms unfolding transfer_inv_def by blast+

lemma units_okD:
  assumes "units_ok s" and "map_of (ts_transfers s) i = Some t" and "active t" and "u \<in> set (serialized (t_items t))"
  shows "\<exists>r. map_of (ts_units s) u = Some r \<and> held_as t r"
    and "map_of (ts_transfers s) j = Some t' \<Longrightarrow> active t' \<Longrightarrow> u \<in> set (serialized (t_items t')) \<Longrightarrow> i = j"
  using assms unfolding units_ok_def by blast+

lemma units_ok_reserved:
  "units_ok s \<Longrightarrow> map_of (ts_units s) u = Some r \<Longrightarrow> u_status r = reserved \<Longrightarrow>
     \<exists>i t. map_of (ts_transfers s) i = Some t \<and> open_t t \<and> u \<in> set (serialized (t_items t))"
  unfolding units_ok_def by blast

lemma positive_lines: "transfer_ok t \<Longrightarrow> positive (quantity_lines (t_items t))"
  unfolding transfer_ok_def positive_def quantity_lines_def List.map_filter_def
  by (auto simp: item_ok_def)

lemma claim_nonneg: "transfer_ok t \<Longrightarrow> 0 \<le> claim k t"
  by (simp add: claim_def lines_at_nonneg positive_lines)

lemma claim_le_claims:
  assumes inv: "transfer_inv s" and t: "map_of (ts_transfers s) i = Some t"
  shows "claim k t \<le> claims k s"
proof -
  have nonneg: "0 \<le> claim k t'" if "(j, t') \<in> set (ts_transfers s)" for j t'
    using that inv by (intro claim_nonneg) (simp add: transfer_inv_def t_wf_map_of_eq)
  have "claim k t \<in> set (map (\<lambda>(i, t). claim k t) (ts_transfers s))"
    using map_of_SomeD [OF t] by force
  moreover have "x \<in> set (map (\<lambda>(i, t). claim k t) (ts_transfers s)) \<Longrightarrow> 0 \<le> x" for x
    using nonneg by auto
  ultimately show ?thesis
    unfolding claims_def by (rule member_le_sum_list)
qed

lemma claims_update:
  assumes "t_wf (ts_transfers s)" and "map_of (ts_transfers s) i = Some t"
    and "ts_transfers s' = t_update i f (ts_transfers s)"
  shows "claims k s' = claims k s - claim k t + claim k (f t)"
  unfolding claims_def assms(3) using sum_t_update [OF assms(1,2), of "\<lambda>(i, t). claim k t" f] by simp

section \<open>Changing one transfer\<close>

text \<open>
  All transactions on an existing transfer have this shape: one row changes, with the units
  of its own items and the promises of its own lines.
\<close>

lemma transfer_inv_change:
  assumes inv: "transfer_inv s" and t: "map_of (ts_transfers s) i = Some t" and act: "active t"
    and tr: "ts_transfers s' = t_update i f (ts_transfers s)"
    and same: "serialized (t_items (f t)) = serialized (t_items t)"
    and ok: "transfer_ok (f t)"
    and st: "stock_ok (ts_stock s')" "\<And>k. promised (ts_stock s') k = promised (ts_stock s) k - claim k t + claim k (f t)"
    and wf: "t_wf (ts_units s')"
    and out: "\<And>u. u \<notin> set (serialized (t_items t)) \<Longrightarrow> map_of (ts_units s') u = map_of (ts_units s) u"
    and held: "\<And>u. u \<in> set (serialized (t_items t)) \<Longrightarrow> active (f t) \<Longrightarrow>
        \<exists>r. map_of (ts_units s') u = Some r \<and> held_as (f t) r"
    and free: "\<And>u r. u \<in> set (serialized (t_items t)) \<Longrightarrow> map_of (ts_units s') u = Some r \<Longrightarrow>
        u_status r = reserved \<Longrightarrow> open_t (f t)"
  shows "transfer_inv s'"
proof -
  note d = transfer_invD [OF inv]
  have look: "map_of (ts_transfers s') j = (if j = i then Some (f t) else map_of (ts_transfers s) j)" for j
    using t by (simp add: tr)
  have other: "u \<notin> set (serialized (t_items t))"
    if "map_of (ts_transfers s) j = Some t'" "active t'" "j \<noteq> i" "u \<in> set (serialized (t_items t'))" for j t' u
    using units_okD(2) [OF d(6) t act] that by blast
  have "units_ok s'"
    unfolding units_ok_def
  proof (intro conjI allI impI)
    fix j t' u
    assume a: "map_of (ts_transfers s') j = Some t' \<and> active t' \<and> u \<in> set (serialized (t_items t'))"
    show "\<exists>r. map_of (ts_units s') u = Some r \<and> held_as t' r"
    proof (cases "j = i")
      case True
      with a held show ?thesis by (auto simp: look same)
    next
      case False
      with a have j: "map_of (ts_transfers s) j = Some t'" "active t'" "u \<in> set (serialized (t_items t'))"
        by (auto simp: look)
      from units_okD(1) [OF d(6) j] out [OF other [OF j(1,2) False j(3)]] show ?thesis by simp
    qed
  next
    fix j t1 j' t2 u
    assume a: "map_of (ts_transfers s') j = Some t1 \<and> map_of (ts_transfers s') j' = Some t2 \<and> active t1 \<and> active t2 \<and>
        u \<in> set (serialized (t_items t1)) \<and> u \<in> set (serialized (t_items t2))"
    show "j = j'"
    proof (cases "j = i \<or> j' = i")
      case True
      with a other show ?thesis by (auto simp: look same split: if_splits)
    next
      case False
      with a units_okD(2) [OF d(6), of j t1 u j' t2] show ?thesis by (auto simp: look)
    qed
  next
    fix u r
    assume a: "map_of (ts_units s') u = Some r \<and> u_status r = reserved"
    show "\<exists>j t'. map_of (ts_transfers s') j = Some t' \<and> open_t t' \<and> u \<in> set (serialized (t_items t'))"
    proof (cases "u \<in> set (serialized (t_items t))")
      case True
      with a free have "open_t (f t)" by blast
      with True look [of i] same show ?thesis by (intro exI [of _ i] exI [of _ "f t"]) simp
    next
      case False
      with a out units_ok_reserved [OF d(6), of u r] obtain j t' where
        "map_of (ts_transfers s) j = Some t'" "open_t t'" "u \<in> set (serialized (t_items t'))" by auto
      with False t look [of j] show ?thesis by (cases "j = i") auto
    qed
  qed
  moreover have "transfer_ok t'" if "map_of (ts_transfers s') j = Some t'" for j t'
    using that ok d(4) [of j] by (auto simp: look split: if_splits)
  moreover have "promised (ts_stock s') k = claims k s'" for k
    using claims_update [OF d(1) t tr] st(2) d(5) by simp
  ultimately show ?thesis
    using d(1) st(1) wf by (simp add: transfer_inv_def tr)
qed

text \<open>Fields that no transaction on an existing row touches.\<close>

lemma serialized_with_costs [simp]: "serialized (t_items (with_costs cst co b ps t)) = serialized (t_items t)"
proof -
  have "serialized (map (\<lambda>i. case i_productId i of None \<Rightarrow> i
      | Some p \<Rightarrow> if p \<in> ps then i\<lparr>i_shippedUnitCost := Some (cst (co, p, b))\<rparr> else i) is) = serialized is" for "is"
    by (induction "is") (auto simp: serialized_Cons split: option.splits)
  then show ?thesis by (simp add: with_costs_def)
qed

lemma quantity_with_costs [simp]: "quantity_lines (t_items (with_costs cst co b ps t)) = quantity_lines (t_items t)"
proof -
  have "quantity_lines (map (\<lambda>i. case i_productId i of None \<Rightarrow> i
      | Some p \<Rightarrow> if p \<in> ps then i\<lparr>i_shippedUnitCost := Some (cst (co, p, b))\<rparr> else i) is) = quantity_lines is" for "is"
    by (induction "is") (auto simp: quantity_lines_Cons split: option.splits)
  then show ?thesis by (simp add: with_costs_def)
qed

lemma with_costs_frame [simp]:
  "t_companyId (with_costs cst co b ps t) = t_companyId t" "t_fromBranchId (with_costs cst co b ps t) = t_fromBranchId t"
  "t_toBranchId (with_costs cst co b ps t) = t_toBranchId t"
  "t_status (with_costs cst co b ps t) = t_status t" "t_version (with_costs cst co b ps t) = t_version t"
  by (simp_all add: with_costs_def)

lemma quantity_lines_fst: "p \<in> fst ` set (quantity_lines is) \<longleftrightarrow> (\<exists>i \<in> set is. i_productId i = Some p)"
  by (force simp: quantity_lines_def List.map_filter_def)

lemma with_costs_items:
  assumes "\<forall>i \<in> set (t_items t). item_ok i" and "ps = fst ` set (quantity_lines (t_items t))"
  shows "(\<forall>i \<in> set (t_items (with_costs cst co b ps t)). item_ok i) \<and> shipped_lines (t_items (with_costs cst co b ps t))"
proof -
  have "p \<in> ps" if "i \<in> set (t_items t)" "i_productId i = Some p" for i p
    using that by (auto simp: assms(2) quantity_lines_fst)
  with assms(1) show ?thesis
    by (auto simp: with_costs_def item_ok_def shipped_lines_def split: option.splits)
qed

section \<open>Transactions on a row read earlier\<close>

text \<open>
  \<open>t0\<close> was read from row \<open>i\<close> at some earlier moment: versions only grow, and a row with the
  same version is the same row.
\<close>

definition snapshot :: "id \<Rightarrow> transfer \<Rightarrow> transfer_state \<Rightarrow> bool" where
  "snapshot i t0 s \<longleftrightarrow>
     (\<exists>t. map_of (ts_transfers s) i = Some t \<and> t_version t0 \<le> t_version t \<and>
          (t_version t = t_version t0 \<longrightarrow> t = t0))"

lemma snapshot_now: "map_of (ts_transfers s) i = Some t \<Longrightarrow> snapshot i t s"
  by (simp add: snapshot_def)

definition commit :: "transfer_error + transfer_state \<Rightarrow> transfer_state \<Rightarrow> transfer_state" where
  "commit r s = (case r of Inl _ \<Rightarrow> s | Inr s' \<Rightarrow> s')"

lemma commit_inv: "P s \<Longrightarrow> (\<And>s'. r = Inr s' \<Longrightarrow> P s') \<Longrightarrow> P (commit r s)"
  by (simp add: commit_def split: sum.splits)

text \<open>A compare-and-swap that succeeds was run on the row as it was read.\<close>

lemma snapshot_cas:
  assumes "snapshot i t0 s" and "ev \<le> t_version t0" and "map_of (ts_transfers s) i = Some t" and "t_version t = ev"
  shows "t = t0"
  using assms by (auto simp: snapshot_def)

lemma canTransferTransition_from:
  "canTransferTransition a approved \<longleftrightarrow> a = pending_approval"
  "canTransferTransition a rejected \<longleftrightarrow> a = pending_approval"
  "canTransferTransition a cancelled \<longleftrightarrow> a = pending_approval \<or> a = approved"
  "canTransferTransition a in_transit \<longleftrightarrow> a = approved"
  "canTransferTransition a received \<longleftrightarrow> a = in_transit"
  by (cases a; simp)+

lemma approve_tx_Inr:
  assumes "approve_tx c i dto t0 s = Inr s'" and "snapshot i t0 s" and "td_expectedVersion dto \<le> t_version t0"
  shows "map_of (ts_transfers s) i = Some t0 \<and> t_status t0 = pending_approval \<and> t_companyId t0 = c_companyId c \<and>
         ts_units s' = ts_units s \<and> ts_stock s' = ts_stock s \<and>
         ts_transfers s' = t_update i (\<lambda>t. t\<lparr>t_status := approved, t_version := Suc (t_version t),
           t_approvedById := c_userId c, t_approvedAt := Some (c_now c)\<rparr>) (ts_transfers s)"
  using assms snapshot_cas [OF assms(2,3)]
  by (auto simp: approve_tx_def transitionTx_Inr canTransferTransition_from)

lemma transfer_inv_approve:
  assumes inv: "transfer_inv s" and sn: "snapshot i t0 s" "td_expectedVersion dto \<le> t_version t0"
  shows "transfer_inv (commit (approve_tx c i dto t0 s) s)"
proof (rule commit_inv [of transfer_inv, OF inv])
  fix s' assume tx: "approve_tx c i dto t0 s = Inr s'"
  note e = approve_tx_Inr [OF tx sn]
  let ?f = "\<lambda>t. t\<lparr>t_status := approved, t_version := Suc (t_version t),
           t_approvedById := c_userId c, t_approvedAt := Some (c_now c)\<rparr>"
  note d = transfer_invD [OF inv]
  from e have t: "map_of (ts_transfers s) i = Some t0" and op: "open_t t0" "open_t (?f t0)"
    and tr: "ts_transfers s' = t_update i ?f (ts_transfers s)"
    by (auto simp: open_t_simps)
  show "transfer_inv s'"
  proof (rule transfer_inv_change [OF inv t _ tr])
    show "transfer_ok (?f t0)" using d(4) [OF t] by (simp add: transfer_ok_def)
    show "\<exists>r. map_of (ts_units s') u = Some r \<and> held_as (?f t0) r" if "u \<in> set (serialized (t_items t0))" for u
      using units_okD(1) [OF d(6) t _ that] op e by (simp add: active_def held_as_def)
  qed (use op e d in \<open>simp_all add: active_def claim_def\<close>)
qed

text \<open>Both refusals: everything held is given back.\<close>

lemma promised_covers:
  assumes "transfer_inv s" and "map_of (ts_transfers s) i = Some t" and "open_t t"
  shows "lines_at (t_companyId t) (t_fromBranchId t) (quantity_lines (t_items t)) k \<le> promised (ts_stock s) k"
  using claim_le_claims [OF assms(1,2), of k] assms(3) transfer_invD(5) [OF assms(1), of k] by (simp add: claim_def)

lemma reserved_items:
  assumes "transfer_inv s" and "map_of (ts_transfers s) i = Some t" and "open_t t"
  shows "reserved_units (t_companyId t) (set (serialized (t_items t))) (ts_units s)"
  unfolding reserved_units_def
proof
  fix u assume "u \<in> set (serialized (t_items t))"
  with units_okD(1) [OF transfer_invD(6) [OF assms(1)] assms(2)] assms(3)
  show "\<exists>r. map_of (ts_units s) u = Some r \<and> u_companyId r = t_companyId t \<and> u_status r = reserved"
    by (auto simp: active_def held_as_def)
qed

lemma withdraw_tx_Inr:
  assumes tx: "withdraw_tx c i dto to why ev t0 s = Inr s'" and inv: "transfer_inv s"
    and sn: "snapshot i t0 s" "td_expectedVersion dto \<le> t_version t0" and to: "to \<in> {rejected, cancelled}"
  shows "map_of (ts_transfers s) i = Some t0 \<and> open_t t0 \<and> t_companyId t0 = c_companyId c \<and>
         canTransferTransition (t_status t0) to \<and>
         ts_transfers s' = t_update i (\<lambda>t. t\<lparr>t_status := to, t_version := Suc (t_version t),
           t_decisionReason := Some (js_trim (case td_reason dto of None \<Rightarrow> [] | Some r \<Rightarrow> r)),
           t_decidedById := c_userId c, t_decidedAt := Some (c_now c)\<rparr>) (ts_transfers s) \<and>
         units_after (set (serialized (t_items t0))) (\<lambda>r. r\<lparr>u_status := in_stock\<rparr>) (ts_units s) (ts_units s') \<and>
         stock_ok (ts_stock s') \<and> on_hand (ts_stock s') = on_hand (ts_stock s) \<and>
         promised (ts_stock s') = (\<lambda>k. promised (ts_stock s) k - claim k t0)"
proof -
  let ?f = "\<lambda>t. t\<lparr>t_status := to, t_version := Suc (t_version t),
           t_decisionReason := Some (js_trim (case td_reason dto of None \<Rightarrow> [] | Some r \<Rightarrow> r)),
           t_decidedById := c_userId c, t_decidedAt := Some (c_now c)\<rparr>"
  define s1 where "s1 = s\<lparr>ts_transfers := t_update i ?f (ts_transfers s)\<rparr>"
  from tx have can: "canTransferTransition (t_status t0) to"
    by (auto simp: withdraw_tx_def Let_def transitionTx_Inr)
  from tx obtain t where t: "map_of (ts_transfers s) i = Some t" "t_companyId t = c_companyId c"
    "t_version t = td_expectedVersion dto"
    by (auto simp: withdraw_tx_def Let_def transitionTx_Inr)
  with snapshot_cas [OF sn t(1)] have t0: "t = t0" by simp
  from can to have op: "open_t t0" by (auto simp: open_t_simps canTransferTransition_from)
  have items: "items_of i s1 = t_items t0" using t t0 by (simp add: s1_def)
  define s2 where "s2 = release_units c (t_fromBranchId t0) why (serialized (t_items t0)) s1"
  define s3 where "s3 = release_lines c (t_fromBranchId t0) why (quantity_lines (t_items t0)) s2"
  from tx t t0 items have s': "ts_transfers s' = ts_transfers s3" "ts_units s' = ts_units s3" "ts_stock s' = ts_stock s3"
    by (auto simp: withdraw_tx_def Let_def transitionTx_Inr s1_def [symmetric] s2_def s3_def releaseReservationsTx_def)
  note d = transfer_invD [OF inv]
  have ok: "transfer_ok t0" using d(4) t t0 by simp
  have r1: "only_units s1 s2 \<and>
      units_after (set (serialized (t_items t0))) (\<lambda>r. r\<lparr>u_status := in_stock\<rparr>) (ts_units s1) (ts_units s2)"
    unfolding s2_def
    by (rule release_units_eff) (use ok reserved_items [OF inv t(1)] op t t0 in \<open>simp_all add: transfer_ok_def s1_def\<close>)
  then have s2: "ts_transfers s2 = ts_transfers s1" "ts_stock s2 = ts_stock s"
    using only_units_frame [of s1 s2] by (simp_all add: s1_def)
  have r2: "only_stock s2 s3 \<and> stock_ok (ts_stock s3) \<and> on_hand (ts_stock s3) = on_hand (ts_stock s2) \<and>
      promised (ts_stock s3) = (\<lambda>k. promised (ts_stock s2) k - lines_at (c_companyId c) (t_fromBranchId t0) (quantity_lines (t_items t0)) k)"
    unfolding s3_def
    by (rule release_lines_eff) (use positive_lines [OF ok] promised_covers [OF inv t(1)] op t t0 d(3) in \<open>simp_all add: s2\<close>)
  from r2 only_stock_frame [of s2 s3] have "ts_transfers s3 = ts_transfers s1" "ts_units s3 = ts_units s2"
    by (simp_all add: s2)
  with r1 r2 s' s2 t t0 op can show ?thesis by (simp add: s1_def claim_def)
qed

lemma transfer_inv_withdraw:
  assumes inv: "transfer_inv s" and sn: "snapshot i t0 s" "td_expectedVersion dto \<le> t_version t0"
    and to: "to \<in> {rejected, cancelled}"
  shows "transfer_inv (commit (withdraw_tx c i dto to why ev t0 s) s)"
proof (rule commit_inv [of transfer_inv, OF inv])
  fix s' assume tx: "withdraw_tx c i dto to why ev t0 s = Inr s'"
  let ?f = "\<lambda>t. t\<lparr>t_status := to, t_version := Suc (t_version t),
           t_decisionReason := Some (js_trim (case td_reason dto of None \<Rightarrow> [] | Some r \<Rightarrow> r)),
           t_decidedById := c_userId c, t_decidedAt := Some (c_now c)\<rparr>"
  note e = withdraw_tx_Inr [OF tx inv sn to]
  note d = transfer_invD [OF inv]
  from e have t: "map_of (ts_transfers s) i = Some t0" and op: "open_t t0"
    and tr: "ts_transfers s' = t_update i ?f (ts_transfers s)"
    and ua: "units_after (set (serialized (t_items t0))) (\<lambda>r. r\<lparr>u_status := in_stock\<rparr>) (ts_units s) (ts_units s')"
    by auto
  have closed: "\<not> open_t (?f t0)" "\<not> active (?f t0)" using to by (auto simp: open_t_simps active_def)
  show "transfer_inv s'"
  proof (rule transfer_inv_change [OF inv t _ tr])
    show "transfer_ok (?f t0)" using d(4) [OF t] to by (auto simp: transfer_ok_def)
    show "open_t (?f t0)" if "u \<in> set (serialized (t_items t0))" "map_of (ts_units s') u = Some r" "u_status r = reserved" for u r
      using that ua by (auto simp: units_after_def)
    show "t_wf (ts_units s')" using units_after_wf [OF ua] d(2) by simp
    show "map_of (ts_units s') u = map_of (ts_units s) u" if "u \<notin> set (serialized (t_items t0))" for u
      using that ua by (simp add: units_after_def)
  qed (use op e d closed in \<open>simp_all add: active_def claim_def\<close>)
qed

section \<open>Shipment\<close>

definition shipped :: "ctx \<Rightarrow> stock \<Rightarrow> transfer \<Rightarrow> transfer" where
  "shipped c st t =
     (with_costs (cost_of st) (t_companyId t) (t_fromBranchId t) (fst ` set (quantity_lines (t_items t))) t)
       \<lparr>t_status := in_transit, t_version := Suc (t_version t), t_sentAt := c_now c, t_sentById := c_userId c\<rparr>"

lemma shipped_simps [simp]:
  "t_status (shipped c st t) = in_transit" "t_version (shipped c st t) = Suc (t_version t)"
  "t_companyId (shipped c st t) = t_companyId t" "t_fromBranchId (shipped c st t) = t_fromBranchId t"
  "t_toBranchId (shipped c st t) = t_toBranchId t"
  "serialized (t_items (shipped c st t)) = serialized (t_items t)"
  "quantity_lines (t_items (shipped c st t)) = quantity_lines (t_items t)"
  by (simp_all add: shipped_def)

lemma ship_tx_Inr:
  assumes tx: "ship_tx c i dto t0 s = Inr s'" and inv: "transfer_inv s"
    and sn: "snapshot i t0 s" "td_expectedVersion dto \<le> t_version t0" and pos: "positive (quantity_lines (t_items t0))"
  shows "map_of (ts_transfers s) i = Some t0 \<and> t_status t0 = approved \<and> t_companyId t0 = c_companyId c \<and>
         ts_transfers s' = t_update i (shipped c (ts_stock s)) (ts_transfers s) \<and>
         units_after (set (serialized (t_items t0))) (\<lambda>r. r\<lparr>u_status := UnitStatus.in_transit\<rparr>) (ts_units s) (ts_units s') \<and>
         stock_ok (ts_stock s') \<and>
         on_hand (ts_stock s') = (\<lambda>k. on_hand (ts_stock s) k - claim k t0) \<and>
         promised (ts_stock s') = (\<lambda>k. promised (ts_stock s) k - claim k t0)"
proof -
  let ?ls = "quantity_lines (t_items t0)" and ?b = "t_fromBranchId t0"
  let ?wc = "with_costs (cost_of (ts_stock s)) (c_companyId c) ?b (fst ` set ?ls)"
  let ?g = "\<lambda>t. t\<lparr>t_status := in_transit, t_version := Suc (t_version t), t_sentAt := c_now c, t_sentById := c_userId c\<rparr>"
  from tx obtain s1 s2 where u: "ship_units c ?b (serialized (t_items t0)) s = Inr s1"
    and l: "ship_lines c i ?b ?ls s1 = Inr s2"
    and can: "canTransferTransition (t_status t0) in_transit"
    and ex: "\<exists>t. map_of (ts_transfers s2) i = Some t \<and> t_companyId t = c_companyId c \<and> t_version t = td_expectedVersion dto"
    and s': "ts_transfers s' = t_update i ?g (ts_transfers s2)" "ts_units s' = ts_units s2" "ts_stock s' = ts_stock s2"
    by (auto simp: ship_tx_def transitionTx_Inr)
  note d = transfer_invD [OF inv]
  note eu = ship_units_Inr [OF u]
  from eu have f1: "ts_transfers s1 = ts_transfers s" "ts_stock s1 = ts_stock s"
    using only_units_frame [of s s1] by simp_all
  have "stock_ok (ts_stock s1)" using d(3) f1 by simp
  note el = ship_lines_Inr [OF l this pos]
  from el have f2: "ts_units s2 = ts_units s1" using only_stock_items_frame [of i s1 s2] by simp
  from el f1 have tr2: "ts_transfers s2 = t_update i ?wc (ts_transfers s)" by simp
  from ex tr2 obtain t where t: "map_of (ts_transfers s) i = Some t" "t_companyId t = c_companyId c"
    "t_version t = td_expectedVersion dto" by (auto split: if_splits)
  with snapshot_cas [OF sn t(1)] have t0: "t = t0" by simp
  from can have st: "t_status t0 = approved" by (simp add: canTransferTransition_from)
  have "ts_transfers s' = t_update i (shipped c (ts_stock s)) (ts_transfers s)"
    unfolding s'(1) tr2 t_update_t_update
    by (rule t_update_cong_row) (use t t0 d(1) in \<open>simp_all add: shipped_def\<close>)
  with t t0 st eu el f1 f2 s' show ?thesis by (simp add: claim_def open_t_simps)
qed

lemma transfer_inv_ship:
  assumes inv: "transfer_inv s" and sn: "snapshot i t0 s" "td_expectedVersion dto \<le> t_version t0"
    and pos: "positive (quantity_lines (t_items t0))"
  shows "transfer_inv (commit (ship_tx c i dto t0 s) s)"
proof (rule commit_inv [of transfer_inv, OF inv])
  fix s' assume tx: "ship_tx c i dto t0 s = Inr s'"
  note e = ship_tx_Inr [OF tx inv sn pos]
  note d = transfer_invD [OF inv]
  let ?f = "shipped c (ts_stock s)"
  from e have t: "map_of (ts_transfers s) i = Some t0" and op: "open_t t0"
    and tr: "ts_transfers s' = t_update i ?f (ts_transfers s)"
    and ua: "units_after (set (serialized (t_items t0))) (\<lambda>r. r\<lparr>u_status := UnitStatus.in_transit\<rparr>) (ts_units s) (ts_units s')"
    by (auto simp: open_t_simps)
  have closed: "\<not> open_t (?f t0)" by (simp add: open_t_simps)
  show "transfer_inv s'"
  proof (rule transfer_inv_change [OF inv t _ tr])
    have "\<forall>i \<in> set (t_items t0). item_ok i" using d(4) [OF t] by (simp add: transfer_ok_def)
    from with_costs_items [OF this refl, of "cost_of (ts_stock s)" "t_companyId t0" "t_fromBranchId t0"] d(4) [OF t]
    show "transfer_ok (?f t0)" by (simp add: transfer_ok_def shipped_def)
    show "\<exists>r. map_of (ts_units s') u = Some r \<and> held_as (?f t0) r" if "u \<in> set (serialized (t_items t0))" for u
      using units_okD(1) [OF d(6) t _ that] op closed ua that by (auto simp: active_def held_as_def units_after_def)
    show "open_t (?f t0)" if "u \<in> set (serialized (t_items t0))" "map_of (ts_units s') u = Some r" "u_status r = reserved" for u r
      using that ua by (auto simp: units_after_def)
    show "t_wf (ts_units s')" using units_after_wf [OF ua] d(2) by simp
    show "map_of (ts_units s') u = map_of (ts_units s) u" if "u \<notin> set (serialized (t_items t0))" for u
      using that ua by (simp add: units_after_def)
  qed (use op e d closed in \<open>simp_all add: active_def claim_def\<close>)
qed

section \<open>Receipt\<close>

lemma quantity_lines_filter: "quantity_lines (filter (\<lambda>x. i_productId x \<noteq> None) is) = quantity_lines is"
  by (induction "is") (auto simp: quantity_lines_Cons)

lemma receive_tx_Inr:
  assumes tx: "receive_tx c i ev p s = Inr s'" and inv: "transfer_inv s"
    and sn: "snapshot i (rp_transfer p) s" "ev \<le> t_version (rp_transfer p)"
    and rows: "map fst (rp_rows p) = serialized (t_items (rp_transfer p))"
  shows "map_of (ts_transfers s) i = Some (rp_transfer p) \<and> t_status (rp_transfer p) = in_transit \<and>
         t_companyId (rp_transfer p) = c_companyId c \<and>
         ts_transfers s' = t_update i (\<lambda>t. t\<lparr>t_status := received, t_version := Suc (t_version t),
           t_receivedById := c_userId c, t_receivedAt := Some (c_now c)\<rparr>) (ts_transfers s) \<and>
         units_after (arriving (c_companyId c) (dr_matched (rp_report p)) (rp_rows p) (ts_units s))
           (\<lambda>r. r\<lparr>u_status := in_stock, u_branchId := t_toBranchId (rp_transfer p)\<rparr>) (ts_units s) (ts_units s') \<and>
         stock_ok (ts_stock s') \<and> promised (ts_stock s') = promised (ts_stock s) \<and>
         on_hand (ts_stock s') = (\<lambda>k. on_hand (ts_stock s) k +
           lines_at (c_companyId c) (t_toBranchId (rp_transfer p)) (quantity_lines (t_items (rp_transfer p))) k)"
proof -
  let ?t0 = "rp_transfer p" and ?m = "dr_matched (rp_report p)"
  let ?b = "t_toBranchId (rp_transfer p)"
  obtain moved s1 where u: "receive_units c ?b ?m (rp_rows p) s = (moved, s1)" by fastforce
  define s2 where "s2 = snd (invalidateOnBranchMoveTx c moved s1)"
  have frame2: "ts_transfers s2 = ts_transfers s1" "ts_units s2 = ts_units s1" "ts_stock s2 = ts_stock s1"
    using invalidate_frame [of c moved s1] by (simp_all add: s2_def)
  let ?g = "\<lambda>t. t\<lparr>t_status := received, t_version := Suc (t_version t),
           t_receivedById := c_userId c, t_receivedAt := Some (c_now c)\<rparr>"
  from tx obtain s3 where l: "receive_lines c ?b (filter (\<lambda>x. i_productId x \<noteq> None) (t_items ?t0)) s2 = Inr s3"
    and can: "canTransferTransition (t_status ?t0) received"
    and ex: "\<exists>t. map_of (ts_transfers s3) i = Some t \<and> t_companyId t = c_companyId c \<and> t_version t = ev"
    and s': "ts_transfers s' = t_update i ?g (ts_transfers s3)" "ts_units s' = ts_units s3" "ts_stock s' = ts_stock s3"
    by (auto simp: receive_tx_def Let_def u s2_def transitionTx_Inr split: prod.splits)
  note d = transfer_invD [OF inv]
  from can have st: "t_status ?t0 = in_transit" by (simp add: canTransferTransition_from)
  obtain t where row: "map_of (ts_transfers s) i = Some t" using sn(1) by (auto simp: snapshot_def)
  have nou: "ts_transfers s1 = ts_transfers s" "ts_stock s1 = ts_stock s"
    using receive_units_frame [OF u] by simp_all
  have ok3: "stock_ok (ts_stock s2)" using d(3) nou frame2 by simp
  note el = receive_lines_Inr [OF l ok3, unfolded quantity_lines_filter]
  from el have f3: "ts_transfers s3 = ts_transfers s" "ts_units s3 = ts_units s1"
    using only_stock_frame [of s2 s3] frame2 nou by simp_all
  from ex f3 row have t: "t_companyId t = c_companyId c" "t_version t = ev" by auto
  with snapshot_cas [OF sn row] have t0: "t = ?t0" by simp
  have "distinct (map fst (rp_rows p))" using d(4) [OF row] t0 by (simp add: rows transfer_ok_def)
  note eu = receive_units_eff [OF u this]
  from eu el f3 s' row t t0 st nou frame2 show ?thesis by simp
qed

lemma transfer_inv_receive:
  assumes inv: "transfer_inv s" and sn: "snapshot i (rp_transfer p) s" "ev \<le> t_version (rp_transfer p)"
    and rows: "map fst (rp_rows p) = serialized (t_items (rp_transfer p))"
  shows "transfer_inv (commit (receive_tx c i ev p s) s)"
proof (rule commit_inv [of transfer_inv, OF inv])
  fix s' assume tx: "receive_tx c i ev p s = Inr s'"
  note e = receive_tx_Inr [OF tx inv sn rows]
  note d = transfer_invD [OF inv]
  let ?t0 = "rp_transfer p"
  let ?f = "\<lambda>t. t\<lparr>t_status := received, t_version := Suc (t_version t),
           t_receivedById := c_userId c, t_receivedAt := Some (c_now c)\<rparr>"
  let ?A = "arriving (c_companyId c) (dr_matched (rp_report p)) (rp_rows p) (ts_units s)"
  from e have t: "map_of (ts_transfers s) i = Some ?t0" and act: "active ?t0" and no: "\<not> open_t ?t0"
    and tr: "ts_transfers s' = t_update i ?f (ts_transfers s)"
    and ua: "units_after ?A (\<lambda>r. r\<lparr>u_status := in_stock, u_branchId := t_toBranchId ?t0\<rparr>) (ts_units s) (ts_units s')"
    by (auto simp: open_t_simps active_def)
  have closed: "\<not> open_t (?f ?t0)" "\<not> active (?f ?t0)" by (auto simp: open_t_simps active_def)
  have sub: "?A \<subseteq> set (serialized (t_items ?t0))"
  proof
    fix u assume "u \<in> ?A"
    then obtain row where "(u, row) \<in> set (rp_rows p)" by (auto simp: arriving_def)
    then have "u \<in> set (map fst (rp_rows p))" by force
    then show "u \<in> set (serialized (t_items ?t0))" by (simp only: rows)
  qed
  show "transfer_inv s'"
  proof (rule transfer_inv_change [OF inv t act tr])
    show "transfer_ok (?f ?t0)" using d(4) [OF t] e by (auto simp: transfer_ok_def)
    show "open_t (?f ?t0)" if u: "u \<in> set (serialized (t_items ?t0))" "map_of (ts_units s') u = Some r" "u_status r = reserved" for u r
      using units_okD(1) [OF d(6) t act u(1)] u no ua by (auto simp: units_after_def held_as_def split: if_splits)
    show "t_wf (ts_units s')" using units_after_wf [OF ua] d(2) by simp
    show "map_of (ts_units s') u = map_of (ts_units s) u" if "u \<notin> set (serialized (t_items ?t0))" for u
      using that ua sub by (auto simp: units_after_def)
  qed (use no e d closed in \<open>simp_all add: claim_def\<close>)
qed

section \<open>Request\<close>

lemma serialized_append [simp]: "serialized (xs @ ys) = serialized xs @ serialized ys"
  by (simp add: serialized_def List.map_filter_def)

lemma quantity_lines_append [simp]: "quantity_lines (xs @ ys) = quantity_lines xs @ quantity_lines ys"
  by (simp add: quantity_lines_def List.map_filter_def)

lemma new_transfer_items:
  "serialized (t_items (new_transfer sha c dto p no)) = map snd (pl_units p)"
  "quantity_lines (t_items (new_transfer sha c dto p no)) = pl_stock p"
  "positive (pl_stock p) \<Longrightarrow> i \<in> set (t_items (new_transfer sha c dto p no)) \<Longrightarrow> item_ok i"
proof -
  have u: "serialized (map (\<lambda>(_, u). \<lparr>i_unitId = Some u, i_productId = None, i_quantity = 1, i_shippedUnitCost = None\<rparr>) us) = map snd us"
    "quantity_lines (map (\<lambda>(_, u). \<lparr>i_unitId = Some u, i_productId = None, i_quantity = 1, i_shippedUnitCost = None\<rparr>) us) = []"
    for us :: "(string \<times> id) list"
    by (induction us) (auto simp: serialized_Cons quantity_lines_Cons)
  have q: "serialized (map (\<lambda>(p, q). \<lparr>i_unitId = None, i_productId = Some p, i_quantity = q, i_shippedUnitCost = None\<rparr>) ls) = []"
    "quantity_lines (map (\<lambda>(p, q). \<lparr>i_unitId = None, i_productId = Some p, i_quantity = q, i_shippedUnitCost = None\<rparr>) ls) = ls"
    for ls :: "(id \<times> int) list"
    by (induction ls) (auto simp: serialized_Cons quantity_lines_Cons)
  show "serialized (t_items (new_transfer sha c dto p no)) = map snd (pl_units p)"
    "quantity_lines (t_items (new_transfer sha c dto p no)) = pl_stock p"
    by (simp_all add: new_transfer_def Let_def u q)
  show "positive (pl_stock p) \<Longrightarrow> i \<in> set (t_items (new_transfer sha c dto p no)) \<Longrightarrow> item_ok i"
    by (auto simp: new_transfer_def Let_def item_ok_def positive_def)
qed

lemma new_transfer_simps [simp]:
  "t_companyId (new_transfer sha c dto p no) = c_companyId c"
  "t_fromBranchId (new_transfer sha c dto p no) = pl_fromBranchId p"
  "t_toBranchId (new_transfer sha c dto p no) = pl_toBranchId p"
  "t_version (new_transfer sha c dto p no) = 0"
  "open_t (new_transfer sha c dto p no)" "active (new_transfer sha c dto p no)"
  by (simp_all add: new_transfer_def Let_def open_t_simps active_def)

lemma create_tx_Inr:
  assumes tx: "create_tx sha c n dto p s = Inr (t, s')" and ok: "stock_ok (ts_stock s)" and pos: "positive (pl_stock p)"
  shows "(\<exists>no. t = new_transfer sha c dto p no) \<and> unique_ok t s \<and>
         ts_transfers s' = t_insert n t (ts_transfers s) \<and>
         distinct (map snd (pl_units p)) \<and>
         (\<forall>u \<in> snd ` set (pl_units p). \<exists>r. map_of (ts_units s) u = Some r \<and> u_companyId r = c_companyId c \<and>
            u_branchId r = pl_fromBranchId p \<and> u_status r = in_stock) \<and>
         units_after (snd ` set (pl_units p)) (\<lambda>r. r\<lparr>u_status := reserved\<rparr>) (ts_units s) (ts_units s') \<and>
         stock_ok (ts_stock s') \<and> on_hand (ts_stock s') = on_hand (ts_stock s) \<and>
         promised (ts_stock s') = (\<lambda>k. promised (ts_stock s) k + claim k t)"
proof -
  obtain seq cn where nn: "next_number (pl_fromBranchId p) ''transfer'' (ts_counters s) = (seq, cn)" by fastforce
  from tx obtain us st where u: "claim_units (c_companyId c) (pl_fromBranchId p) (pl_units p) (ts_units s) = Inr us"
    and l: "reserve_lines (c_companyId c) (pl_fromBranchId p) (pl_stock p) (ts_stock s) = Inr st"
    and t: "t = new_transfer sha c dto p (transfer_number (pl_prefix p) seq)" and uq: "unique_ok t s"
    and s': "ts_transfers s' = t_insert n t (ts_transfers s)" "ts_units s' = us" "ts_stock s' = st"
    by (auto simp: create_tx_def Let_def nn split: if_splits)
  from claim_units_Inr [OF u] reserve_lines_Inr [OF l ok pos] t uq s' show ?thesis
    by (auto simp: claim_def new_transfer_items)
qed

lemma transfer_inv_create_tx:
  assumes inv: "transfer_inv s" and fresh: "map_of (ts_transfers s) n = None" and pos: "positive (pl_stock p)"
    and tx: "create_tx sha c n dto p s = Inr (t, s')"
  shows "transfer_inv s'"
proof -
  note d = transfer_invD [OF inv]
  note e = create_tx_Inr [OF tx d(3) pos]
  let ?U = "set (serialized (t_items t))"
  from e obtain no where t: "t = new_transfer sha c dto p no" by blast
  have U: "?U = snd ` set (pl_units p)" by (simp add: t new_transfer_items)
  have look: "map_of (ts_transfers s') j = (if j = n then Some t else map_of (ts_transfers s) j)" for j
    using e fresh by simp
  have ua: "map_of (ts_units s') u = (if u \<in> ?U then map_option (\<lambda>r. r\<lparr>u_status := reserved\<rparr>) (map_of (ts_units s) u) else map_of (ts_units s) u)" for u
    using e U by (simp add: units_after_def)
  have mine: "\<exists>r. map_of (ts_units s) u = Some r \<and> u_companyId r = c_companyId c \<and> u_branchId r = pl_fromBranchId p \<and> u_status r = in_stock"
    if "u \<in> ?U" for u using e U that by blast
  have free: "u \<notin> ?U" if "map_of (ts_transfers s) j = Some t'" "active t'" "u \<in> set (serialized (t_items t'))" for j t' u
    using units_okD(1) [OF d(6) that] mine [of u] by (auto simp: held_as_def split: if_splits)
  have "units_ok s'"
    unfolding units_ok_def
  proof (intro conjI allI impI)
    fix j t' u assume a: "map_of (ts_transfers s') j = Some t' \<and> active t' \<and> u \<in> set (serialized (t_items t'))"
    show "\<exists>r. map_of (ts_units s') u = Some r \<and> held_as t' r"
    proof (cases "j = n")
      case True
      with a mine [of u] show ?thesis by (auto simp: look ua held_as_def t)
    next
      case False
      with a free [of j t' u] units_okD(1) [OF d(6), of j t' u] show ?thesis by (auto simp: look ua)
    qed
  next
    fix j t1 j' t2 u
    assume a: "map_of (ts_transfers s') j = Some t1 \<and> map_of (ts_transfers s') j' = Some t2 \<and> active t1 \<and> active t2 \<and>
        u \<in> set (serialized (t_items t1)) \<and> u \<in> set (serialized (t_items t2))"
    then show "j = j'"
      using free units_okD(2) [OF d(6), of j t1 u j' t2] by (auto simp: look split: if_splits)
  next
    fix u r assume a: "map_of (ts_units s') u = Some r \<and> u_status r = reserved"
    show "\<exists>j t'. map_of (ts_transfers s') j = Some t' \<and> open_t t' \<and> u \<in> set (serialized (t_items t'))"
    proof (cases "u \<in> ?U")
      case True
      then show ?thesis by (intro exI [of _ n] exI [of _ t]) (simp add: look t)
    next
      case False
      with a units_ok_reserved [OF d(6), of u r] obtain j t' where
        j: "map_of (ts_transfers s) j = Some t'" "open_t t'" "u \<in> set (serialized (t_items t'))" by (auto simp: ua)
      moreover from j(1) fresh have "j \<noteq> n" by auto
      ultimately show ?thesis by (intro exI [of _ j] exI [of _ t']) (simp add: look)
    qed
  qed
  moreover have "t_status t \<notin> {in_transit, received}"
    using new_transfer_simps(5) [of sha c dto p no] by (auto simp: open_t_simps t)
  then have "transfer_ok t"
    using e new_transfer_items pos unfolding transfer_ok_def t by auto
  then have "transfer_ok t'" if "map_of (ts_transfers s') j = Some t'" for j t'
    using that d(4) [of j] by (auto simp: look split: if_splits)
  moreover have "promised (ts_stock s') k = claims k s'" for k
    using e d(5) [of k] sum_t_insert [of "\<lambda>(i, t). claim k t" n t "ts_transfers s"] by (simp add: claims_def)
  moreover have "t_wf (ts_transfers s')" "t_wf (ts_units s')"
    using e d(1,2) fresh units_after_wf by auto
  ultimately show ?thesis
    using e by (simp add: transfer_inv_def)
qed

lemma transfer_inv_create:
  assumes "transfer_inv s" and "map_of (ts_transfers s) n = None" and "positive (pl_stock p)"
  shows "transfer_inv (snd (create_commit sha c n dto p s))"
  using assms transfer_inv_create_tx [OF assms]
  by (auto simp: create_commit_def split: sum.splits option.splits prod.splits)

section \<open>Everything else that touches the tables\<close>

text \<open>
  The other modules of the program write the same tables. What is assumed of them is the
  discipline of their own conditional statements: a unit that a transfer holds is not
  touched, no one else puts a unit into the states \<open>reserved\<close> or \<open>in_transit\<close>, the reserved
  counter of a stock row is not written and the row constraints hold.
\<close>

definition unheld :: "id \<Rightarrow> transfer_state \<Rightarrow> bool" where
  "unheld u s \<longleftrightarrow> (\<forall>i t. map_of (ts_transfers s) i = Some t \<and> active t \<longrightarrow> u \<notin> set (serialized (t_items t)))"

inductive env_step :: "transfer_state \<Rightarrow> transfer_state \<Rightarrow> bool" where
  env_unit: "unheld u s \<Longrightarrow> (\<And>r. u_status (f r) \<notin> {reserved, UnitStatus.in_transit}) \<Longrightarrow>
     env_step s (s\<lparr>ts_units := t_update u f (ts_units s)\<rparr>)"
| env_new_unit: "map_of (ts_units s) u = None \<Longrightarrow> unheld u s \<Longrightarrow> u_status r \<noteq> reserved \<Longrightarrow>
     env_step s (s\<lparr>ts_units := t_insert u r (ts_units s)\<rparr>)"
| env_stock: "stock_ok st \<Longrightarrow> promised st = promised (ts_stock s) \<Longrightarrow> env_step s (s\<lparr>ts_stock := st\<rparr>)"
| env_other: "ts_transfers s' = ts_transfers s \<Longrightarrow> ts_units s' = ts_units s \<Longrightarrow> ts_stock s' = ts_stock s \<Longrightarrow>
     env_step s s'"

lemma units_ok_frame:
  assumes ok: "units_ok s" and tr: "ts_transfers s' = ts_transfers s"
    and held: "\<And>u. \<not> unheld u s \<Longrightarrow> map_of (ts_units s') u = map_of (ts_units s) u"
    and res: "\<And>u r. map_of (ts_units s') u = Some r \<Longrightarrow> u_status r = reserved \<Longrightarrow> map_of (ts_units s) u = Some r"
  shows "units_ok s'"
  unfolding units_ok_def tr
proof (intro conjI allI impI)
  fix i t u assume a: "map_of (ts_transfers s) i = Some t \<and> active t \<and> u \<in> set (serialized (t_items t))"
  then have "\<not> unheld u s" by (auto simp: unheld_def)
  with a held units_okD(1) [OF ok, of i t u] show "\<exists>r. map_of (ts_units s') u = Some r \<and> held_as t r" by auto
next
  fix i t j t' u
  assume "map_of (ts_transfers s) i = Some t \<and> map_of (ts_transfers s) j = Some t' \<and> active t \<and> active t' \<and>
     u \<in> set (serialized (t_items t)) \<and> u \<in> set (serialized (t_items t'))"
  then show "i = j" using units_okD(2) [OF ok, of i t u j t'] by blast
next
  fix u r assume "map_of (ts_units s') u = Some r \<and> u_status r = reserved"
  then show "\<exists>i t. map_of (ts_transfers s) i = Some t \<and> open_t t \<and> u \<in> set (serialized (t_items t))"
    using res units_ok_reserved [OF ok, of u r] by blast
qed

lemma claims_frame: "ts_transfers s' = ts_transfers s \<Longrightarrow> claims k s' = claims k s"
  by (simp add: claims_def)

lemma transfer_inv_frame:
  assumes "transfer_inv s" and tr: "ts_transfers s' = ts_transfers s" and "t_wf (ts_units s')" and "stock_ok (ts_stock s')"
    and "promised (ts_stock s') = promised (ts_stock s)" and "units_ok s'"
  shows "transfer_inv s'"
  using assms(1,3-) claims_frame [OF tr] unfolding transfer_inv_def tr by auto

lemma transfer_inv_env:
  assumes "transfer_inv s" and "env_step s s'"
  shows "transfer_inv s'"
  using assms(2,1)
proof (induction rule: env_step.induct)
  case (env_unit u s f)
  note d = transfer_invD [OF env_unit.prems]
  have "u_status (f r) \<noteq> reserved" for r using env_unit(2) [of r] by simp
  then have "units_ok (s\<lparr>ts_units := t_update u f (ts_units s)\<rparr>)"
    using env_unit(1) by (intro units_ok_frame [OF d(6)]) (auto split: if_splits)
  with env_unit.prems d show ?case by (intro transfer_inv_frame [OF env_unit.prems]) simp_all
next
  case (env_new_unit s u r)
  note d = transfer_invD [OF env_new_unit.prems]
  have "units_ok (s\<lparr>ts_units := t_insert u r (ts_units s)\<rparr>)"
    using env_new_unit(1-3) by (intro units_ok_frame [OF d(6)]) (auto split: if_splits)
  with env_new_unit d show ?case by (intro transfer_inv_frame [OF env_new_unit.prems]) simp_all
next
  case (env_stock st s)
  note d = transfer_invD [OF env_stock.prems]
  have "units_ok (s\<lparr>ts_stock := st\<rparr>)" by (rule units_ok_frame [OF d(6)]) simp_all
  with env_stock d show ?case by (intro transfer_inv_frame [OF env_stock.prems]) simp_all
next
  case (env_other s' s)
  note d = transfer_invD [OF env_other.prems]
  have "units_ok s'" using env_other by (intro units_ok_frame [OF d(6)]) simp_all
  with env_other d show ?case by (intro transfer_inv_frame [OF env_other.prems]) simp_all
qed

section \<open>Reachable states\<close>

text \<open>
  Transactions are serialized by the database; between the read of a handler and its
  transaction any number of other transactions may run. The version a caller sends is one it
  has read, so it is at most the version the handler loads.
\<close>

inductive service_step :: "transfer_state \<Rightarrow> transfer_state \<Rightarrow> bool" where
  step_create: "map_of (ts_transfers s) n = None \<Longrightarrow> positive (pl_stock p) \<Longrightarrow>
     service_step s (snd (create_commit sha c n dto p s))"
| step_approve: "snapshot i t0 s \<Longrightarrow> td_expectedVersion dto \<le> t_version t0 \<Longrightarrow>
     service_step s (commit (approve_tx c i dto t0 s) s)"
| step_reject: "snapshot i t0 s \<Longrightarrow> td_expectedVersion dto \<le> t_version t0 \<Longrightarrow>
     service_step s (commit (reject_tx c i dto t0 s) s)"
| step_cancel: "snapshot i t0 s \<Longrightarrow> td_expectedVersion dto \<le> t_version t0 \<Longrightarrow>
     service_step s (commit (cancel_tx c i dto t0 s) s)"
| step_ship: "snapshot i t0 s \<Longrightarrow> td_expectedVersion dto \<le> t_version t0 \<Longrightarrow> positive (quantity_lines (t_items t0)) \<Longrightarrow>
     service_step s (commit (ship_tx c i dto t0 s) s)"
| step_receive: "snapshot i (rp_transfer p) s \<Longrightarrow> ev \<le> t_version (rp_transfer p) \<Longrightarrow>
     map fst (rp_rows p) = serialized (t_items (rp_transfer p)) \<Longrightarrow>
     service_step s (commit (receive_tx c i ev p s) s)"

inductive transfer_step :: "transfer_state \<Rightarrow> transfer_state \<Rightarrow> bool" where
  by_service: "service_step s s' \<Longrightarrow> transfer_step s s'"
| by_others: "env_step s s' \<Longrightarrow> transfer_step s s'"

lemma transfer_inv_service:
  assumes "transfer_inv s" and "service_step s s'"
  shows "transfer_inv s'"
  using assms(2,1)
  by (induction rule: service_step.induct)
    (simp_all add: transfer_inv_create transfer_inv_approve transfer_inv_withdraw reject_tx_def cancel_tx_def
      transfer_inv_ship transfer_inv_receive)

definition transfer_init :: "transfer_state \<Rightarrow> bool" where
  "transfer_init s \<longleftrightarrow>
     ts_transfers s = [] \<and> t_wf (ts_units s) \<and> stock_ok (ts_stock s) \<and>
     (\<forall>k. promised (ts_stock s) k = 0) \<and>
     (\<forall>u r. map_of (ts_units s) u = Some r \<longrightarrow> u_status r \<noteq> reserved)"

interpretation transfer_sys: invariant_system transfer_init transfer_step transfer_inv
proof
  show "transfer_inv s" if "transfer_init s" for s
    using that unfolding transfer_init_def transfer_inv_def units_ok_def claims_def by auto
  show "transfer_inv t" if "transfer_inv s" "transfer_step s t" for s t
    using that(2,1)
    by (induction rule: transfer_step.induct) (auto intro: transfer_inv_service transfer_inv_env)
qed

text \<open>What was read stays a valid snapshot: a row changes only together with its version.\<close>

definition row_moves_on :: "transfer_state \<Rightarrow> transfer_state \<Rightarrow> bool" where
  "row_moves_on s s' \<longleftrightarrow>
     (\<forall>i t. map_of (ts_transfers s) i = Some t \<longrightarrow>
        (\<exists>t'. map_of (ts_transfers s') i = Some t' \<and> (t' = t \<or> t_version t < t_version t')))"

lemma row_moves_on_update:
  "ts_transfers s' = t_update i f (ts_transfers s) \<Longrightarrow> (\<And>t. t_version t < t_version (f t)) \<Longrightarrow> row_moves_on s s'"
  by (auto simp: row_moves_on_def)

lemma row_moves_on_refl [simp]: "row_moves_on s s"
  by (simp add: row_moves_on_def)

lemma snapshot_moves_on:
  assumes "snapshot i t0 s" and "row_moves_on s s'"
  shows "snapshot i t0 s'"
proof -
  from assms(1) obtain t where t: "map_of (ts_transfers s) i = Some t" "t_version t0 \<le> t_version t"
    "t_version t = t_version t0 \<longrightarrow> t = t0" by (auto simp: snapshot_def)
  with assms(2) obtain t' where t': "map_of (ts_transfers s') i = Some t'" "t' = t \<or> t_version t < t_version t'"
    by (auto simp: row_moves_on_def)
  with t show ?thesis by (auto simp: snapshot_def)
qed

lemma row_moves_on_service:
  assumes inv: "transfer_inv s" and step: "service_step s s'"
  shows "row_moves_on s s'"
  using step inv
proof (induction rule: service_step.induct)
  case (step_create s n p sha c dto)
  have "row_moves_on s s''" if "create_tx sha c n dto p s = Inr (t, s'')" for t s''
    using create_tx_Inr [OF that transfer_invD(3) [OF step_create.prems] step_create.hyps(2)] step_create.hyps(1)
    by (auto simp: row_moves_on_def)
  then show ?case by (auto simp: create_commit_def split: sum.splits option.splits prod.splits)
next
  case (step_approve i t0 s dto c)
  show ?case
    by (rule commit_inv [of "row_moves_on s"])
      (auto dest!: approve_tx_Inr [OF _ step_approve.hyps] intro: row_moves_on_update)
next
  case (step_reject i t0 s dto c)
  show ?case
    unfolding reject_tx_def
    by (rule commit_inv [of "row_moves_on s"])
      (auto dest!: withdraw_tx_Inr [OF _ step_reject.prems step_reject.hyps] intro: row_moves_on_update)
next
  case (step_cancel i t0 s dto c)
  show ?case
    unfolding cancel_tx_def
    by (rule commit_inv [of "row_moves_on s"])
      (auto dest!: withdraw_tx_Inr [OF _ step_cancel.prems step_cancel.hyps] intro: row_moves_on_update)
next
  case (step_ship i t0 s dto c)
  show ?case
    by (rule commit_inv [of "row_moves_on s"])
      (auto dest!: ship_tx_Inr [OF _ step_ship.prems step_ship.hyps] intro: row_moves_on_update)
next
  case (step_receive i p s ev c)
  show ?case
    by (rule commit_inv [of "row_moves_on s"])
      (auto dest!: receive_tx_Inr [OF _ step_receive.prems step_receive.hyps] intro: row_moves_on_update)
qed

lemma row_moves_on_env: "env_step s s' \<Longrightarrow> row_moves_on s s'"
  by (induction rule: env_step.induct) (simp_all add: row_moves_on_def)

lemma row_moves_on_step: "transfer_inv s \<Longrightarrow> transfer_step s s' \<Longrightarrow> row_moves_on s s'"
  by (auto simp: transfer_step.simps intro: row_moves_on_service row_moves_on_env)

lemma snapshot_stays:
  assumes "transfer_inv s" and "transfer_step\<^sup>*\<^sup>* s s'" and "snapshot i t0 s"
  shows "snapshot i t0 s'"
  using assms(2)
proof (induction rule: rtranclp_induct)
  case (step y z)
  from transfer_sys.steps_inv [OF step(1) assms(1)] row_moves_on_step [OF _ step(2)] step(3)
  show ?case by (blast intro: snapshot_moves_on)
qed (rule assms(3))

end
