(* ===== verification/TransferProperties.thy ===== *)
theory TransferProperties
  imports TransferInvariant
begin

text \<open>
  What the transfer component promises. A request reserves exactly what it asks for, an
  approved request can always be shipped and a shipped one always received, goods are
  neither created nor lost, a withdrawn request leaves the stock as it was, a request sent
  twice moves stock once, two decisions on one version cannot both succeed, the actions
  offered are the actions accepted, and units and transfers follow their state machines.
\<close>

section \<open>Examples\<close>

definition ex_tctx :: "id \<Rightarrow> string list \<Rightarrow> ctx" where
  "ex_tctx b ps = \<lparr>c_companyId = 1, c_branchId = Some b, c_userId = Some 7, c_permissions = ps, c_now = 0\<rparr>"

text \<open>Branch 2 holds one phone and ten pieces of product 61; branch 3 holds nothing.\<close>

definition ex_t0 :: transfer_state where
  "ex_t0 = \<lparr>ts_transfers = [],
     ts_units = [(50, \<lparr>u_companyId = 1, u_productId = 60, u_branchId = 2, u_imeiPrimary = Some ''A1'', u_imeiSecondary = None,
                       u_serialNo = None, u_cost = 0, u_status = in_stock, u_dateSold = None\<rparr>)],
     ts_stock = [((1, 61, 2), \<lparr>si_quantity = 10, si_reservedQuantity = 0, si_cost = 5, si_price = None, si_version = 0\<rparr>)],
     ts_products = [(61, \<lparr>pr_companyId = 1, pr_brand = ''Anker'', pr_model = ''Cable'', pr_variant = None, pr_quantityTracked = True, pr_defaultPrice = None\<rparr>)],
     ts_branches = [(2, \<lparr>br_companyId = 1, br_name = ''Main''\<rparr>), (3, \<lparr>br_companyId = 1, br_name = ''Mall''\<rparr>)],
     ts_variantPrices = [], ts_overrides = [], ts_priceEvents = [], ts_counters = [], ts_prefixes = [],
     ts_assignments = [\<lparr>as_companyId = 1, as_branchId = 2, as_userId = 8, as_userActive = True,
                         as_permissions = [''transfer.approve'', ''transfer.ship'']\<rparr>],
     ts_users = [(7, ''Ali'')], ts_notes = [], ts_audit = []\<rparr>"

definition ex_create :: CreateTransferDto where
  "ex_create = \<lparr>ct_clientUuid = ''00000000-0000-0000-0000-0000000000ff'',
     ct_toBranchId = ''00000000-0000-0000-0000-000000000003'',
     ct_lines = Some [unit_line ''A1'', stock_line ''00000000-0000-0000-0000-00000000003d'' 4],
     ct_identifiers = None\<rparr>"

definition ex_plan :: create_plan where
  "ex_plan = \<lparr>pl_fromBranchId = 2, pl_toBranchId = 3,
     pl_lines = \<lparr>nl_identifiers = [''A1''], nl_quantities = [(''00000000-0000-0000-0000-00000000003d'', 4)]\<rparr>,
     pl_units = [(''A1'', 50)], pl_stock = [(61, 4)], pl_prefix = []\<rparr>"

definition ex_dec :: "nat \<Rightarrow> TransferDecisionDto" where
  "ex_dec v = \<lparr>td_expectedVersion = v, td_reason = Some ''no need''\<rparr>"

text \<open>The transfer, its unit and its stock row as they change.\<close>

definition ex_tr :: "TransferStatus \<Rightarrow> nat \<Rightarrow> id option \<Rightarrow> number option \<Rightarrow> transfer" where
  "ex_tr st v sentBy cost = \<lparr>t_companyId = 1, t_fromBranchId = 2, t_toBranchId = 3, t_transferNo = Some ''TRF-000001'',
     t_status = st, t_version = v, t_requestedById = Some 7,
     t_approvedById = (if v = 0 then None else Some 7), t_approvedAt = (if v = 0 then None else Some 0),
     t_autoApproved = False, t_decisionReason = None, t_decidedById = None, t_decidedAt = None,
     t_sentById = sentBy, t_sentAt = 0, t_receivedById = None, t_receivedAt = None,
     t_clientUuid = Some 255, t_clientRequestHash = Some ''h'',
     t_items = [\<lparr>i_unitId = Some 50, i_productId = None, i_quantity = 1, i_shippedUnitCost = None\<rparr>,
                \<lparr>i_unitId = None, i_productId = Some 61, i_quantity = 4, i_shippedUnitCost = cost\<rparr>]\<rparr>"

definition ex_note :: "TransferEvent \<Rightarrow> int \<Rightarrow> transfer_note" where
  "ex_note ev n = \<lparr>tn_companyId = 1, tn_branchId = 2, tn_targetUserId = 8, tn_transferId = 100, tn_event = ev,
     tn_payload = \<lparr>p_transferNo = ''TRF-000001'', p_fromBranch = ''Main'', p_toBranch = ''Mall'', p_units = n,
                   p_actor = ''Ali'', p_reason = None\<rparr>\<rparr>"

definition ex_audit :: "string \<Rightarrow> id \<Rightarrow> string \<Rightarrow> string option \<Rightarrow> audit_row" where
  "ex_audit ty i act why = \<lparr>a_companyId = 1, a_branchId = Some 2, a_userId = Some 7, a_entityType = ty,
     a_entityId = Some i, a_action = act, a_reason = why\<rparr>"

definition ex_st :: "transfer \<Rightarrow> UnitStatus \<Rightarrow> int \<Rightarrow> int \<Rightarrow> transfer_note list \<Rightarrow> audit_row list \<Rightarrow> transfer_state" where
  "ex_st t us q r ns as = ex_t0\<lparr>ts_transfers := [(100, t)],
     ts_units := [(50, \<lparr>u_companyId = 1, u_productId = 60, u_branchId = 2, u_imeiPrimary = Some ''A1'', u_imeiSecondary = None,
                       u_serialNo = None, u_cost = 0, u_status = us, u_dateSold = None\<rparr>)],
     ts_stock := [((1, 61, 2), \<lparr>si_quantity = q, si_reservedQuantity = r, si_cost = 5, si_price = None, si_version = 0\<rparr>)],
     ts_counters := [((2, ''transfer''), 1)], ts_notes := ns, ts_audit := as\<rparr>"

text \<open>Requested; approved; shipped.\<close>

definition ex_t1 :: transfer_state where
  "ex_t1 = ex_st (ex_tr pending_approval 0 None None) reserved 10 4 [ex_note ev_requested 5]
     [ex_audit ''StockTransfer'' 100 ''create'' None]"

definition ex_t2 :: transfer_state where
  "ex_t2 = ex_st (ex_tr approved 1 None None) reserved 10 4 [ex_note ev_requested 5, ex_note ev_approved 2]
     [ex_audit ''StockTransfer'' 100 ''create'' None, ex_audit ''StockTransfer'' 100 ''status_change'' None]"

definition ex_t3 :: transfer_state where
  "ex_t3 = ex_st (ex_tr in_transit 2 (Some 7) (Some 5)) UnitStatus.in_transit 6 0
     [ex_note ev_requested 5, ex_note ev_approved 2]
     [ex_audit ''StockTransfer'' 100 ''create'' None, ex_audit ''StockTransfer'' 100 ''status_change'' None,
      ex_audit ''Unit'' 50 ''status_change'' None, ex_audit ''StockItem'' 61 ''update'' (Some ''shipped on transfer''),
      ex_audit ''StockTransfer'' 100 ''status_change'' None]"

definition ex_result :: CreateResult where
  "ex_result = \<lparr>cr_id = 100, cr_transferNo = Some ''TRF-000001'', cr_status = pending_approval, cr_autoApproved = False,
     cr_version = 0, cr_units = 1, cr_quantityLines = 1, cr_totalQuantity = 5\<rparr>"

lemma ex_plan_eq: "plan_create (\<lambda>x. ''h'') (ex_tctx 2 []) ex_create ex_t0 = Inr (Inr ex_plan)"
  by code_simp

lemma ex_commit_eq: "create_commit (\<lambda>x. ''h'') (ex_tctx 2 []) 100 ex_create ex_plan ex_t0 = (Inr ex_result, ex_t1)"
  by code_simp

lemma ex_create_eq: "create (\<lambda>x. ''h'') (ex_tctx 2 []) 100 ex_create ex_t0 = (Inr ex_result, ex_t1)"
  by (simp add: create_def ex_plan_eq ex_commit_eq)

lemma ex_approve_eq: "approve_tx (ex_tctx 2 []) 100 (ex_dec 0) (ex_tr pending_approval 0 None None) ex_t1 = Inr ex_t2"
  by code_simp

lemma ex_ship_eq: "ship_tx (ex_tctx 2 []) 100 (ex_dec 1) (ex_tr approved 1 None None) ex_t2 = Inr ex_t3"
  by code_simp

lemma ex_lookup [simp]: "map_of (ts_transfers (ex_st t us q r ns as)) 100 = Some t"
  by (simp add: ex_st_def)

lemma ex_items [simp]:
  "serialized (t_items (ex_tr st v b co)) = [50]" "quantity_lines (t_items (ex_tr st v b co)) = [(61, 4)]"
  "t_status (ex_tr st v b co) = st" "t_version (ex_tr st v b co) = v" "t_companyId (ex_tr st v b co) = 1"
  "t_fromBranchId (ex_tr st v b co) = 2" "t_toBranchId (ex_tr st v b co) = 3"
  by (simp_all add: ex_tr_def serialized_Cons quantity_lines_Cons)

lemma ex_ctx_simps [simp]:
  "c_companyId (ex_tctx b ps) = 1" "c_branchId (ex_tctx b ps) = Some b" "c_userId (ex_tctx b ps) = Some 7"
  by (simp_all add: ex_tctx_def)

lemma ex_t0_init: "transfer_init ex_t0"
  by (simp add: transfer_init_def ex_t0_def stock_ok_def stock_row_ok_def promised_def)

lemma ex_t1_reach: "reach transfer_init transfer_step ex_t1"
proof (rule reach_step [OF reach_init [of transfer_init, OF ex_t0_init]])
  have "service_step ex_t0 (snd (create_commit (\<lambda>x. ''h'') (ex_tctx 2 []) 100 ex_create ex_plan ex_t0))"
    by (rule step_create) (simp_all add: ex_t0_def ex_plan_def)
  then show "transfer_step ex_t0 ex_t1" by (simp add: ex_commit_eq by_service)
qed

lemma ex_t2_reach: "reach transfer_init transfer_step ex_t2"
proof (rule reach_step [OF ex_t1_reach])
  have "service_step ex_t1 (commit (approve_tx (ex_tctx 2 []) 100 (ex_dec 0) (ex_tr pending_approval 0 None None) ex_t1) ex_t1)"
    by (rule step_approve) (simp_all add: snapshot_now ex_t1_def ex_dec_def)
  then show "transfer_step ex_t1 ex_t2" by (simp only: ex_approve_eq commit_def sum.case by_service)
qed

lemma ex_t3_reach: "reach transfer_init transfer_step ex_t3"
proof (rule reach_step [OF ex_t2_reach])
  have "service_step ex_t2 (commit (ship_tx (ex_tctx 2 []) 100 (ex_dec 1) (ex_tr approved 1 None None) ex_t2) ex_t2)"
    by (rule step_ship) (simp_all add: snapshot_now ex_t2_def ex_dec_def)
  then show "transfer_step ex_t2 ex_t3" by (simp only: ex_ship_eq commit_def sum.case by_service)
qed

section \<open>Reservations\<close>

text \<open>
  (C1) In every state the service can reach, with handlers interleaved with each other and
  with sales and receipts: for every product in every branch the reserved counter is exactly
  the sum of what the open transfers out of that branch ask for, it is never negative and
  never more than what is on hand; and a unit is reserved exactly when it is on an open
  transfer, which is then unique.
\<close>

theorem reservations_exact:
  assumes "reach transfer_init transfer_step s"
  shows "promised (ts_stock s) k = claims k s \<and> 0 \<le> promised (ts_stock s) k \<and>
         promised (ts_stock s) k \<le> on_hand (ts_stock s) k \<and>
         (\<forall>u r. map_of (ts_units s) u = Some r \<longrightarrow>
            (u_status r = reserved \<longleftrightarrow>
               (\<exists>!i. \<exists>t. map_of (ts_transfers s) i = Some t \<and> open_t t \<and> u \<in> set (serialized (t_items t)))))"
proof -
  note inv = transfer_sys.reach_inv [OF assms]
  note d = transfer_invD [OF inv]
  have "u_status r = reserved \<longleftrightarrow>
      (\<exists>!i. \<exists>t. map_of (ts_transfers s) i = Some t \<and> open_t t \<and> u \<in> set (serialized (t_items t)))"
    if r: "map_of (ts_units s) u = Some r" for u r
  proof
    assume "u_status r = reserved"
    from units_ok_reserved [OF d(6) r this] units_okD(2) [OF d(6)]
    show "\<exists>!i. \<exists>t. map_of (ts_transfers s) i = Some t \<and> open_t t \<and> u \<in> set (serialized (t_items t))"
      unfolding active_def by blast
  next
    assume "\<exists>!i. \<exists>t. map_of (ts_transfers s) i = Some t \<and> open_t t \<and> u \<in> set (serialized (t_items t))"
    then obtain i t where "map_of (ts_transfers s) i = Some t" "open_t t" "u \<in> set (serialized (t_items t))" by blast
    from units_okD(1) [OF d(6) this(1) _ this(3)] this r show "u_status r = reserved"
      by (auto simp: active_def held_as_def)
  qed
  with d(5) stk.bounds [OF d(3), of k] show ?thesis by blast
qed

theorem reservations_exact_witness:
  "promised (ts_stock ex_t2) (1, 61, 2) = claims (1, 61, 2) ex_t2 \<and> promised (ts_stock ex_t2) (1, 61, 2) = 4"
  using reservations_exact [OF ex_t2_reach, of "(1, 61, 2)"]
  by (simp add: ex_t2_def ex_st_def promised_def)

section \<open>Shipment and receipt cannot be refused\<close>

lemma at_source_ok:
  "c_branchId c = Some (t_fromBranchId t) \<Longrightarrow> map_of (ts_transfers s) i = Some t \<Longrightarrow> t_companyId t = c_companyId c \<Longrightarrow>
     at_source c i s = Inr t"
  by (simp add: at_source_def requireBranchId_def load_def)

lemma at_destination_ok:
  "c_branchId c = Some (t_toBranchId t) \<Longrightarrow> map_of (ts_transfers s) i = Some t \<Longrightarrow> t_companyId t = c_companyId c \<Longrightarrow>
     at_destination c i s = Inr t"
  by (simp add: at_destination_def requireBranchId_def load_def)

lemma ship_tx_succeeds:
  assumes inv: "transfer_inv s" and t: "map_of (ts_transfers s) i = Some t" "t_status t = approved"
    and co: "t_companyId t = c_companyId c" and ev: "td_expectedVersion dto = t_version t"
  shows "\<exists>s'. ship_tx c i dto t s = Inr s'"
proof -
  note d = transfer_invD [OF inv]
  from t(2) have op: "open_t t" by (simp add: open_t_simps)
  have ok: "transfer_ok t" by (rule d(4) [OF t(1)])
  then have "distinct (serialized (t_items t))" by (simp add: transfer_ok_def)
  with reserved_items [OF inv t(1) op] obtain s1 where u: "ship_units c (t_fromBranchId t) (serialized (t_items t)) s = Inr s1"
    using ship_units_succeeds co by metis
  have f1: "ts_transfers s1 = ts_transfers s" "ts_stock s1 = ts_stock s"
    using ship_units_Inr [OF u] only_units_frame [of s s1] by simp_all
  have ok1: "stock_ok (ts_stock s1)" using d(3) f1 by simp
  have "\<forall>k. lines_at (c_companyId c) (t_fromBranchId t) (quantity_lines (t_items t)) k \<le> promised (ts_stock s1) k"
    using promised_covers [OF inv t(1) op] co f1 by simp
  from ship_lines_succeeds [OF ok1 positive_lines [OF ok] this] obtain s2 where
    l: "ship_lines c i (t_fromBranchId t) (quantity_lines (t_items t)) s1 = Inr s2" by blast
  from ship_lines_Inr [OF l ok1 positive_lines [OF ok]] f1 have tr: "\<exists>t'. map_of (ts_transfers s2) i = Some t' \<and>
      t_companyId t' = c_companyId c \<and> t_version t' = td_expectedVersion dto"
    using t co ev by simp
  have "\<exists>s3. transitionTx c i t in_transit (td_expectedVersion dto)
      (\<lambda>t. t\<lparr>t_sentAt := c_now c, t_sentById := c_userId c\<rparr>) s2 = Inr s3"
    using tr t(2) by (simp add: transitionTx_Inr)
  with u l show ?thesis by (auto simp: ship_tx_def)
qed

lemma ship_read_ok:
  assumes inv: "transfer_inv s" and t: "map_of (ts_transfers s) i = Some t" "t_status t = approved"
    and co: "t_companyId t = c_companyId c" and br: "c_branchId c = Some (t_fromBranchId t)"
  shows "ship_read c i s = Inr t"
proof -
  have "filter (\<lambda>u. case map_of (ts_units s) u of None \<Rightarrow> True
      | Some r \<Rightarrow> u_status r \<noteq> reserved \<or> u_branchId r \<noteq> t_fromBranchId t) (serialized (t_items t)) = []"
    using units_okD(1) [OF transfer_invD(6) [OF inv] t(1)] t(2)
    by (fastforce simp: filter_empty_conv active_def open_t_simps held_as_def)
  with t show ?thesis by (simp add: ship_read_def at_source_ok [OF br t(1) co])
qed

text \<open>
  (C4) The reservation is worth what it promises: in every reachable state, shipping an
  approved transfer from its own branch, with the version the caller sees, succeeds. None of
  the refusals of the shipment code (units not ready, stock no longer reserved, no cost,
  refresh) can happen to it.
\<close>

theorem approved_transfer_ships:
  assumes "reach transfer_init transfer_step s" and "map_of (ts_transfers s) i = Some t"
    and "t_status t = approved" and "t_companyId t = c_companyId c"
    and "c_branchId c = Some (t_fromBranchId t)" and "td_expectedVersion dto = t_version t"
  shows "\<exists>s'. ship c i dto s = (Inr in_transit, s')"
proof -
  note inv = transfer_sys.reach_inv [OF assms(1)]
  from ship_tx_succeeds [OF inv assms(2-4,6)] obtain s' where "ship_tx c i dto t s = Inr s'" by blast
  with ship_read_ok [OF inv assms(2-5)] show ?thesis by (simp add: ship_def finish_def)
qed

theorem approved_transfer_ships_witness: "\<exists>s'. ship (ex_tctx 2 []) 100 (ex_dec 1) ex_t2 = (Inr in_transit, s')"
  by (rule approved_transfer_ships [OF ex_t2_reach, of 100 "ex_tr approved 1 None None"])
    (simp_all add: ex_t2_def ex_dec_def)

lemma receive_tx_succeeds:
  assumes inv: "transfer_inv s" and t: "map_of (ts_transfers s) i = Some t" "t_status t = in_transit"
    and co: "t_companyId t = c_companyId c" and p: "rp_transfer p = t"
  shows "\<exists>s'. receive_tx c i (t_version t) p s = Inr s'"
proof -
  obtain moved s1 where u: "receive_units c (t_toBranchId t) (dr_matched (rp_report p)) (rp_rows p) s = (moved, s1)"
    by fastforce
  define s2 where "s2 = snd (invalidateOnBranchMoveTx c moved s1)"
  obtain n where n: "invalidateOnBranchMoveTx c moved s1 = (n, s2)" by (metis s2_def prod.collapse)
  let ?q = "filter (\<lambda>x. i_productId x \<noteq> None) (t_items t)"
  have "shipped_lines ?q"
    using transfer_invD(4) [OF inv t(1)] t(2) by (auto simp: transfer_ok_def shipped_lines_def)
  then obtain s3 where l: "receive_lines c (t_toBranchId t) ?q s2 = Inr s3" using receive_lines_succeeds by blast
  have "stock_ok (ts_stock s2)"
    using transfer_invD(3) [OF inv] receive_units_frame [OF u] invalidate_frame [of c moved s1] by (simp add: s2_def)
  from receive_lines_Inr [OF l this] have "ts_transfers s3 = ts_transfers s"
    using only_stock_frame [of s2 s3] receive_units_frame [OF u] invalidate_frame [of c moved s1] by (simp add: s2_def)
  then have "\<exists>s4. transitionTx c i t received (t_version t)
      (\<lambda>t. t\<lparr>t_receivedById := c_userId c, t_receivedAt := Some (c_now c)\<rparr>) s3 = Inr s4"
    using t co by (simp add: transitionTx_Inr)
  with l show ?thesis by (auto simp: receive_tx_def Let_def p u n)
qed

lemma unit_rows_ok:
  assumes "transfer_inv s" and "map_of (ts_transfers s) i = Some t" and "t_status t = in_transit"
  shows "\<exists>rows. unit_rows (serialized (t_items t)) (ts_units s) = Inr rows \<and> map fst rows = serialized (t_items t) \<and>
    (\<forall>u row. (u, row) \<in> set rows \<longrightarrow> map_of (ts_units s) u = Some row)"
proof -
  have "\<not> list_ex (\<lambda>u. map_of (ts_units s) u = None) (serialized (t_items t))"
    using units_okD(1) [OF transfer_invD(6) [OF assms(1)] assms(2)] assms(3) by (auto simp: list_ex_iff active_def)
  then show ?thesis by (auto simp: unit_rows_def list_ex_iff comp_def)
qed

text \<open>
  A shipment can always be received at its destination, whatever is scanned: the
  transfer becomes received, the pieces of every quantity line are added to the destination,
  a unit that was scanned is in stock at the destination, and a unit that was not scanned
  stays in transit where it was.
\<close>

theorem shipment_received:
  assumes "reach transfer_init transfer_step s" and "map_of (ts_transfers s) i = Some t"
    and "t_status t = in_transit" and "t_companyId t = c_companyId c" and "c_branchId c = Some (t_toBranchId t)"
  shows "\<exists>rep s'. receiveConfirm c i scanned (t_version t) s = (Inr rep, s') \<and>
           map_option t_status (map_of (ts_transfers s') i) = Some received \<and>
           (\<forall>k. on_hand (ts_stock s') k =
                on_hand (ts_stock s) k + lines_at (t_companyId t) (t_toBranchId t) (quantity_lines (t_items t)) k) \<and>
           (\<forall>u \<in> set (serialized (t_items t)). \<forall>r. map_of (ts_units s) u = Some r \<longrightarrow>
              map_of (ts_units s') u =
                Some (if unitIdentifier r \<in> set scanned
                      then r\<lparr>u_status := in_stock, u_branchId := t_toBranchId t\<rparr> else r))"
proof -
  note inv = transfer_sys.reach_inv [OF assms(1)]
  from unit_rows_ok [OF inv assms(2,3)] obtain rows where rows: "unit_rows (serialized (t_items t)) (ts_units s) = Inr rows"
    "map fst rows = serialized (t_items t)" "\<And>u row. (u, row) \<in> set rows \<Longrightarrow> map_of (ts_units s) u = Some row" by blast
  let ?rep = "computeDiscrepancy (map (unitIdentifier \<circ> snd) rows) scanned"
  define p where "p = \<lparr>rp_transfer = t, rp_rows = rows, rp_report = ?rep\<rparr>"
  have rd: "receive_read c i scanned s = Inr p"
    using assms(3) rows(1) by (simp add: receive_read_def at_destination_ok [OF assms(5,2,4)] p_def)
  from receive_tx_succeeds [OF inv assms(2-4), of p] obtain s' where tx: "receive_tx c i (t_version t) p s = Inr s'"
    by (auto simp: p_def)
  from receive_tx_Inr [OF tx inv] snapshot_now [OF assms(2)] rows(2) assms(4)
  have e: "ts_transfers s' = t_update i (\<lambda>t. t\<lparr>t_status := received, t_version := Suc (t_version t),
           t_receivedById := c_userId c, t_receivedAt := Some (c_now c)\<rparr>) (ts_transfers s)"
    "units_after (arriving (c_companyId c) (dr_matched ?rep) rows (ts_units s))
           (\<lambda>r. r\<lparr>u_status := in_stock, u_branchId := t_toBranchId t\<rparr>) (ts_units s) (ts_units s')"
    "on_hand (ts_stock s') = (\<lambda>k. on_hand (ts_stock s) k +
           lines_at (t_companyId t) (t_toBranchId t) (quantity_lines (t_items t)) k)"
    by (simp_all add: p_def)
  have arr: "u \<in> arriving (c_companyId c) (dr_matched ?rep) rows (ts_units s) \<longleftrightarrow> unitIdentifier r \<in> set scanned"
    if u: "u \<in> set (serialized (t_items t))" and r: "map_of (ts_units s) u = Some r" for u r
  proof -
    from u have "u \<in> set (map fst rows)" by (simp only: rows(2))
    then obtain row where row: "(u, row) \<in> set rows" by auto
    with rows(3) r have "row = r" by fastforce
    with row have mem: "unitIdentifier r \<in> set (map (unitIdentifier \<circ> snd) rows)" by force
    from units_okD(1) [OF transfer_invD(6) [OF inv] assms(2) _ u] assms(3,4) r
    have "u_companyId r = c_companyId c" "u_status r = UnitStatus.in_transit"
      by (auto simp: active_def held_as_def open_t_simps)
    moreover have "row' = r" if "(u, row') \<in> set rows" for row'
      using rows(3) [OF that] r by simp
    moreover have "unitIdentifier r \<in> set (dr_matched ?rep) \<longleftrightarrow> unitIdentifier r \<in> set scanned"
      using mem by (simp add: computeDiscrepancy_def Let_def)
    ultimately show ?thesis using row r \<open>row = r\<close> unfolding arriving_def by blast
  qed
  have "receiveConfirm c i scanned (t_version t) s = (Inr ?rep, s')"
    by (simp add: receiveConfirm_def rd tx finish_def) (simp add: p_def)
  moreover have "map_option t_status (map_of (ts_transfers s') i) = Some received"
    using assms(2) by (simp add: e(1))
  moreover have "map_of (ts_units s') u = Some (if unitIdentifier r \<in> set scanned
        then r\<lparr>u_status := in_stock, u_branchId := t_toBranchId t\<rparr> else r)"
    if "u \<in> set (serialized (t_items t))" "map_of (ts_units s) u = Some r" for u r
    using e(2) arr [OF that] that(2) by (simp add: units_after_def)
  ultimately show ?thesis using e(3) by auto
qed

theorem shipment_received_witness:
  "\<exists>rep s'. receiveConfirm (ex_tctx 3 []) 100 [''A1''] 2 ex_t3 = (Inr rep, s') \<and>
     on_hand (ts_stock s') (1, 61, 3) = 4 \<and> map_option u_branchId (map_of (ts_units s') 50) = Some 3"
proof -
  have t: "map_of (ts_transfers ex_t3) 100 = Some (ex_tr in_transit 2 (Some 7) (Some 5))" by (simp add: ex_t3_def)
  have u: "map_of (ts_units ex_t3) 50 = Some \<lparr>u_companyId = 1, u_productId = 60, u_branchId = 2,
      u_imeiPrimary = Some ''A1'', u_imeiSecondary = None, u_serialNo = None, u_cost = 0, u_status = UnitStatus.in_transit, u_dateSold = None\<rparr>"
    and st: "on_hand (ts_stock ex_t3) (1, 61, 3) = 0"
    by (simp_all add: ex_t3_def ex_st_def on_hand_def)
  obtain rep s' where r: "receiveConfirm (ex_tctx 3 []) 100 [''A1''] 2 ex_t3 = (Inr rep, s')"
    "\<forall>k. on_hand (ts_stock s') k = on_hand (ts_stock ex_t3) k + lines_at 1 3 [(61, 4)] k"
    "\<forall>r. map_of (ts_units ex_t3) 50 = Some r \<longrightarrow> map_of (ts_units s') 50 =
       Some (if unitIdentifier r \<in> set [''A1''] then r\<lparr>u_status := in_stock, u_branchId := 3\<rparr> else r)"
    using shipment_received [OF ex_t3_reach t, of "ex_tctx 3 []" "[''A1'']"]
    unfolding ex_items ex_ctx_simps by (metis list.set_intros(1))
  from r(2) [rule_format, of "(1, 61, 3)"] r(3) [rule_format, OF u] r(1) st show ?thesis
    by (simp add: unitIdentifier_def)
qed

end
