(* ===== verification/TransferContracts.thy ===== *)
theory TransferContracts
  imports TransferProperties
begin

text \<open>
  Further promises of the transfer component: conservation of goods, undoing a request,
  exclusive decisions, the actions offered, the state machines, and replay of a request.
\<close>

section \<open>A transaction that commits saw the version it was given\<close>

definition version_at :: "transfer_state \<Rightarrow> id \<Rightarrow> nat option" where
  "version_at s i = map_option t_version (map_of (ts_transfers s) i)"

lemma ship_lines_version: "ship_lines c i b ls s = Inr s' \<Longrightarrow> version_at s' j = version_at s j"
proof (induction ls arbitrary: s)
  case (Cons pq rest)
  obtain p q where pq: "pq = (p, q)" by fastforce
  from Cons.prems obtain st cost where
    "ship_lines c i b rest (audit_tx c ''StockItem'' p ''update'' (Some ''shipped on transfer'') b
       (s\<lparr>ts_stock := st, ts_transfers := t_update i (set_shipped_cost p cost) (ts_transfers s)\<rparr>)) = Inr s'"
    by (auto simp: pq Let_def split: option.splits prod.splits if_splits)
  from Cons.IH [OF this] show ?case
    by (auto simp: version_at_def set_shipped_cost_def option.map_comp comp_def)
qed simp

lemma receive_lines_frame: "receive_lines c b is s = Inr s' \<Longrightarrow> ts_transfers s' = ts_transfers s"
proof (induction "is" arbitrary: s)
  case (Cons x rest)
  from Cons.prems obtain s1 where s1: "receiveQuantityLineTx c b x s = Inr s1" and "receive_lines c b rest s1 = Inr s'"
    by auto
  moreover from s1 have "ts_transfers s1 = ts_transfers s"
    by (auto simp: receiveQuantityLineTx_def Let_def split: option.splits sum.splits)
  ultimately show ?case using Cons.IH by simp
qed simp

lemma transition_version: "transitionTx c i t0 to ev f s = Inr s' \<Longrightarrow> version_at s i = Some ev"
  by (auto simp: transitionTx_Inr version_at_def)

lemma approve_tx_version: "approve_tx c i dto t0 s = Inr s' \<Longrightarrow> version_at s i = Some (td_expectedVersion dto)"
  unfolding approve_tx_def by (auto dest: transition_version)

lemma withdraw_tx_version:
  "withdraw_tx c i dto to why ev t0 s = Inr s' \<Longrightarrow> version_at s i = Some (td_expectedVersion dto)"
  unfolding withdraw_tx_def Let_def by (auto dest: transition_version)

lemma ship_tx_version:
  assumes "ship_tx c i dto t0 s = Inr s'"
  shows "version_at s i = Some (td_expectedVersion dto)"
proof -
  from assms obtain s1 s2 s3 where u: "ship_units c (t_fromBranchId t0) (serialized (t_items t0)) s = Inr s1"
    and l: "ship_lines c i (t_fromBranchId t0) (quantity_lines (t_items t0)) s1 = Inr s2"
    and tr: "transitionTx c i t0 in_transit (td_expectedVersion dto)
      (\<lambda>t. t\<lparr>t_sentAt := c_now c, t_sentById := c_userId c\<rparr>) s2 = Inr s3"
    by (auto simp: ship_tx_def)
  have "ts_transfers s1 = ts_transfers s" using ship_units_Inr [OF u] only_units_frame [of s s1] by simp
  then have "version_at s1 i = version_at s i" by (simp add: version_at_def)
  with transition_version [OF tr] ship_lines_version [OF l, of i] show ?thesis by simp
qed

lemma receive_tx_version:
  assumes "receive_tx c i ev p s = Inr s'"
  shows "version_at s i = Some ev"
proof -
  let ?t0 = "rp_transfer p"
  obtain moved s1 where u: "receive_units c (t_toBranchId ?t0) (dr_matched (rp_report p)) (rp_rows p) s = (moved, s1)"
    by fastforce
  obtain n s2 where n: "invalidateOnBranchMoveTx c moved s1 = (n, s2)" by fastforce
  from assms obtain s3 s4 where l: "receive_lines c (t_toBranchId ?t0) (filter (\<lambda>x. i_productId x \<noteq> None) (t_items ?t0)) s2 = Inr s3"
    and tr: "transitionTx c i ?t0 received ev
      (\<lambda>t. t\<lparr>t_receivedById := c_userId c, t_receivedAt := Some (c_now c)\<rparr>) s3 = Inr s4"
    by (auto simp: receive_tx_def Let_def u n)
  from transition_version [OF tr] receive_lines_frame [OF l] invalidate_frame [of c moved s1] receive_units_frame [OF u] n
  show ?thesis by (simp add: version_at_def)
qed

section \<open>Exclusive decisions\<close>

lemma service_bumps:
  assumes inv: "transfer_inv s" and sn: "snapshot i t0 s" "td_expectedVersion dto \<le> t_version t0"
    and pos: "positive (quantity_lines (t_items t0))"
    and tx: "approve_tx c i dto t0 s = Inr s' \<or> reject_tx c i dto t0 s = Inr s' \<or> cancel_tx c i dto t0 s = Inr s' \<or>
             ship_tx c i dto t0 s = Inr s'"
  shows "version_at s' i = Some (Suc (td_expectedVersion dto))"
proof -
  have v: "version_at s i = Some (td_expectedVersion dto)"
    using tx approve_tx_version withdraw_tx_version ship_tx_version unfolding reject_tx_def cancel_tx_def by metis
  from tx show ?thesis
    unfolding reject_tx_def cancel_tx_def
    using v approve_tx_Inr [OF _ sn] withdraw_tx_Inr [OF _ inv sn] ship_tx_Inr [OF _ inv sn pos]
    by (elim disjE) (fastforce simp: version_at_def)+
qed

text \<open>
  (C15) Two people acting on one version of a transfer cannot both succeed. Once any of
  approve, reject, cancel and ship has committed against version \<open>v\<close>, every transaction that
  was sent with version \<open>v\<close>, whatever row it had read, is refused and changes nothing.
\<close>

theorem decisions_exclusive:
  assumes "reach transfer_init transfer_step s" and "map_of (ts_transfers s) i = Some t0"
    and "td_expectedVersion dto = v" and "td_expectedVersion dto' = v"
    and "approve_tx c i dto t0 s = Inr s' \<or> reject_tx c i dto t0 s = Inr s' \<or> cancel_tx c i dto t0 s = Inr s' \<or>
         ship_tx c i dto t0 s = Inr s'"
  shows "commit (approve_tx c' i dto' t s') s' = s' \<and> commit (reject_tx c' i dto' t s') s' = s' \<and>
         commit (cancel_tx c' i dto' t s') s' = s' \<and> commit (ship_tx c' i dto' t s') s' = s' \<and>
         commit (receive_tx c' i v p s') s' = s'"
proof -
  note inv = transfer_sys.reach_inv [OF assms(1)]
  have "version_at s i = Some (td_expectedVersion dto)"
    using assms(5) approve_tx_version withdraw_tx_version ship_tx_version unfolding reject_tx_def cancel_tx_def by metis
  with assms(2) have le: "td_expectedVersion dto \<le> t_version t0" by (simp add: version_at_def)
  from service_bumps [OF inv snapshot_now [OF assms(2)] le positive_lines [OF transfer_invD(4) [OF inv assms(2)]] assms(5)]
  have "version_at s' i \<noteq> Some v" using assms(3) by simp
  moreover have "commit r s' = s' \<or> (\<exists>s2. r = Inr s2)" for r by (cases r) (simp_all add: commit_def)
  ultimately show ?thesis
    using approve_tx_version [of c' i dto' t s'] withdraw_tx_version [of c' i dto'] ship_tx_version [of c' i dto' t s']
      receive_tx_version [of c' i v p s'] assms(4)
    unfolding reject_tx_def cancel_tx_def by metis
qed

theorem decisions_exclusive_witness:
  "commit (reject_tx (ex_tctx 2 []) 100 (ex_dec 0) (ex_tr pending_approval 0 None None) ex_t2) ex_t2 = ex_t2"
proof -
  have t: "map_of (ts_transfers ex_t1) 100 = Some (ex_tr pending_approval 0 None None)" by (simp add: ex_t1_def)
  have v: "td_expectedVersion (ex_dec 0) = 0" by (simp add: ex_dec_def)
  from decisions_exclusive [OF ex_t1_reach t v v disjI1 [OF ex_approve_eq]] show ?thesis by blast
qed

section \<open>Goods are conserved\<close>

definition line_total :: "id \<Rightarrow> (id \<times> int) list \<Rightarrow> int" where
  "line_total p ls = (\<Sum>(p', q)\<leftarrow>ls. if p' = p then q else 0)"

text \<open>Pieces of a product on the shelves of the branches \<open>B\<close>, and on the road.\<close>

definition on_shelves :: "id set \<Rightarrow> id \<Rightarrow> id \<Rightarrow> transfer_state \<Rightarrow> int" where
  "on_shelves B co p s = (\<Sum>b\<in>B. on_hand (ts_stock s) (co, p, b))"

definition road :: "id \<Rightarrow> id \<Rightarrow> transfer \<Rightarrow> int" where
  "road co p t =
     (if t_status t = in_transit \<and> t_companyId t = co then line_total p (quantity_lines (t_items t)) else 0)"

definition on_the_road :: "id \<Rightarrow> id \<Rightarrow> transfer_state \<Rightarrow> int" where
  "on_the_road co p s = (\<Sum>(i, t)\<leftarrow>ts_transfers s. road co p t)"

definition pieces :: "id set \<Rightarrow> id \<Rightarrow> id \<Rightarrow> transfer_state \<Rightarrow> int" where
  "pieces B co p s = on_shelves B co p s + on_the_road co p s"

lemma lines_at_line_total: "lines_at co b ls (co', p, b') = (if co' = co \<and> b' = b then line_total p ls else 0)"
  by (induction ls) (auto simp: line_total_def)

lemma shelves_change:
  assumes "finite B" and "b \<in> B"
    and "\<And>k. on_hand (ts_stock s') k = on_hand (ts_stock s) k + d * lines_at co0 b ls k"
  shows "on_shelves B co p s' = on_shelves B co p s + (if co = co0 then d * line_total p ls else 0)"
proof -
  have "on_shelves B co p s' = (\<Sum>b'\<in>B. on_hand (ts_stock s) (co, p, b') +
      (if b' = b then (if co = co0 then d * line_total p ls else 0) else 0))"
    unfolding on_shelves_def by (intro sum.cong) (auto simp: assms(3) lines_at_line_total)
  also have "\<dots> = on_shelves B co p s + (if co = co0 then d * line_total p ls else 0)"
    using assms(1,2) by (simp add: sum.distrib on_shelves_def)
  finally show ?thesis .
qed

lemma road_change:
  assumes "t_wf (ts_transfers s)" and "map_of (ts_transfers s) i = Some t"
    and "ts_transfers s' = t_update i f (ts_transfers s)"
  shows "on_the_road co p s' = on_the_road co p s - road co p t + road co p (f t)"
  unfolding on_the_road_def assms(3) using sum_t_update [OF assms(1,2), of "\<lambda>(i, t). road co p t" f] by simp

lemma conserved_change:
  assumes "t_wf (ts_transfers s)" and "map_of (ts_transfers s) i = Some t"
    and "ts_transfers s' = t_update i f (ts_transfers s)"
    and "on_hand (ts_stock s') = on_hand (ts_stock s)" and "t_status t \<noteq> in_transit" and "t_status (f t) \<noteq> in_transit"
  shows "pieces B co p s' = pieces B co p s"
  using road_change [OF assms(1-3), of co p] assms(4-6) by (simp add: pieces_def on_shelves_def road_def)

text \<open>
  (C5) Transfers move goods and neither make nor lose any: for every product, the pieces on
  the shelves of all branches plus the pieces on the road are the same before and after
  every transaction of the service, committed or refused.
\<close>

theorem goods_conserved:
  assumes "reach transfer_init transfer_step s" and "service_step s s'" and "finite B"
    and "\<And>i t. map_of (ts_transfers s) i = Some t \<Longrightarrow> t_fromBranchId t \<in> B \<and> t_toBranchId t \<in> B"
  shows "pieces B co p s' = pieces B co p s"
  using assms(2) transfer_sys.reach_inv [OF assms(1)] assms(4)
proof (induction rule: service_step.induct)
  case (step_create s n pl sha c dto)
  note ok = transfer_invD(3) [OF step_create.prems(1)]
  have "pieces B co p s'' = pieces B co p s"
    if tx: "create_tx sha c n dto pl s = Inr (t, s'')" for t s''
  proof -
    note e = create_tx_Inr [OF tx ok step_create.hyps(2)]
    then obtain no where "t = new_transfer sha c dto pl no" by blast
    then have "road co p t = 0" using new_transfer_simps(5) [of sha c dto pl no] by (auto simp: road_def open_t_simps)
    with e show ?thesis
      by (simp add: pieces_def on_shelves_def on_the_road_def sum_t_insert)
  qed
  then show ?case by (auto simp: create_commit_def split: sum.splits option.splits prod.splits)
next
  case (step_approve i t0 s dto c)
  show ?case
  proof (rule commit_inv [of "\<lambda>s'. pieces B co p s' = pieces B co p s"])
    fix s' assume "approve_tx c i dto t0 s = Inr s'"
    note e = approve_tx_Inr [OF this step_approve.hyps]
    show "pieces B co p s' = pieces B co p s"
      by (rule conserved_change [OF transfer_invD(1) [OF step_approve.prems(1)], of i t0]) (use e in auto)
  qed simp
next
  case (step_reject i t0 s dto c)
  show ?case
  proof (rule commit_inv [of "\<lambda>s'. pieces B co p s' = pieces B co p s"])
    fix s' assume "reject_tx c i dto t0 s = Inr s'"
    note e = withdraw_tx_Inr [OF this [unfolded reject_tx_def] step_reject.prems(1) step_reject.hyps]
    show "pieces B co p s' = pieces B co p s"
      by (rule conserved_change [OF transfer_invD(1) [OF step_reject.prems(1)], of i t0]) (use e in \<open>auto simp: open_t_simps\<close>)
  qed simp
next
  case (step_cancel i t0 s dto c)
  show ?case
  proof (rule commit_inv [of "\<lambda>s'. pieces B co p s' = pieces B co p s"])
    fix s' assume "cancel_tx c i dto t0 s = Inr s'"
    note e = withdraw_tx_Inr [OF this [unfolded cancel_tx_def] step_cancel.prems(1) step_cancel.hyps]
    show "pieces B co p s' = pieces B co p s"
      by (rule conserved_change [OF transfer_invD(1) [OF step_cancel.prems(1)], of i t0]) (use e in \<open>auto simp: open_t_simps\<close>)
  qed simp
next
  case (step_ship i t0 s dto c)
  show ?case
  proof (rule commit_inv [of "\<lambda>s'. pieces B co p s' = pieces B co p s"])
    fix s' assume "ship_tx c i dto t0 s = Inr s'"
    note e = ship_tx_Inr [OF this step_ship.prems(1) step_ship.hyps]
    then have t: "map_of (ts_transfers s) i = Some t0" and op: "open_t t0" by (auto simp: open_t_simps)
    have "on_shelves B co p s' = on_shelves B co p s + (if co = t_companyId t0 then - 1 * line_total p (quantity_lines (t_items t0)) else 0)"
      by (rule shelves_change [OF assms(3)]) (use e op step_ship.prems(2) [OF t] in \<open>auto simp: claim_def\<close>)
    with road_change [OF transfer_invD(1) [OF step_ship.prems(1)] t, of s' "shipped c (ts_stock s)" co p] e
    show "pieces B co p s' = pieces B co p s"
      by (auto simp: pieces_def road_def)
  qed simp
next
  case (step_receive i pl s ev c)
  show ?case
  proof (rule commit_inv [of "\<lambda>s'. pieces B co p s' = pieces B co p s"])
    fix s' assume "receive_tx c i ev pl s = Inr s'"
    note e = receive_tx_Inr [OF this step_receive.prems(1) step_receive.hyps]
    let ?t = "rp_transfer pl"
    from e have t: "map_of (ts_transfers s) i = Some ?t" by blast
    have "on_shelves B co p s' = on_shelves B co p s + (if co = t_companyId ?t then 1 * line_total p (quantity_lines (t_items ?t)) else 0)"
      by (rule shelves_change [OF assms(3)]) (use e step_receive.prems(2) [OF t] in auto)
    with road_change [OF transfer_invD(1) [OF step_receive.prems(1)] t, of s' _ co p] e
    show "pieces B co p s' = pieces B co p s"
      by (auto simp: pieces_def road_def)
  qed simp
qed

theorem goods_conserved_witness: "pieces {2, 3} 1 61 ex_t3 = pieces {2, 3} 1 61 ex_t2 \<and> pieces {2, 3} 1 61 ex_t2 = 10"
proof -
  have "service_step ex_t2 (commit (ship_tx (ex_tctx 2 []) 100 (ex_dec 1) (ex_tr approved 1 None None) ex_t2) ex_t2)"
    by (rule step_ship) (simp_all add: snapshot_now ex_t2_def ex_dec_def)
  then have st: "service_step ex_t2 ex_t3" by (simp only: ex_ship_eq commit_def sum.case)
  have "t_fromBranchId t \<in> {2, 3} \<and> t_toBranchId t \<in> {2, 3}" if "map_of (ts_transfers ex_t2) i = Some t" for i t
    using that by (auto simp: ex_t2_def ex_st_def split: if_splits)
  from goods_conserved [OF ex_t2_reach st _ this] show ?thesis
    by (simp add: pieces_def on_shelves_def on_the_road_def road_def on_hand_def ex_t2_def ex_st_def)
qed

section \<open>Undoing a request\<close>

lemma planQuantityLines_positive:
  assumes "planQuantityLines c ls b s = Inr plan" and "\<forall>(x, q) \<in> set (nl_quantities ls). 0 < q"
  shows "positive plan"
proof -
  from assms(1) have "plan = map (\<lambda>(text, q). (the (uuidToBin text), q)) (nl_quantities ls)"
    by (auto simp: planQuantityLines_def Let_def split: if_splits)
  with assms(2) show ?thesis by (fastforce simp: positive_def)
qed

lemma stock_pairs_lines: "(p, q) \<in> set (stock_pairs ls) \<Longrightarrow> stock_line p q \<in> set ls"
  by (induction ls rule: stock_pairs.induct) auto

definition valid_request :: "CreateTransferDto \<Rightarrow> bool" where
  "valid_request dto \<longleftrightarrow> (\<forall>p q. stock_line p q \<in> set (request_lines dto) \<longrightarrow> 0 < q)"

lemma plan_create_plan:
  assumes "plan_create sha c dto s = Inr (Inr p)"
  shows "c_branchId c = Some (pl_fromBranchId p) \<and> uuidToBin (ct_toBranchId dto) = Some (pl_toBranchId p) \<and>
     pl_fromBranchId p \<noteq> pl_toBranchId p \<and> normalizeLines dto = Inr (pl_lines p) \<and>
     findReplay sha c dto (pl_lines p) s = Inr None \<and>
     planQuantityLines c (pl_lines p) (pl_fromBranchId p) s = Inr (pl_stock p)"
proof -
  from assms obtain b where b: "c_branchId c = Some b"
    by (cases "c_branchId c") (simp_all add: plan_create_def requireBranchId_def)
  from assms b obtain d where d: "uuidToBin (ct_toBranchId dto) = Some d"
    by (cases "uuidToBin (ct_toBranchId dto)") (simp_all add: plan_create_def requireBranchId_def)
  from assms b d have bd: "b \<noteq> d" by (auto simp: plan_create_def requireBranchId_def)
  from assms b d bd obtain ls where ls: "normalizeLines dto = Inr ls"
    by (cases "normalizeLines dto") (simp_all add: plan_create_def requireBranchId_def)
  from assms b d bd ls obtain rp where rp: "findReplay sha c dto ls s = Inr rp"
    by (cases "findReplay sha c dto ls s") (simp_all add: plan_create_def requireBranchId_def)
  from assms b d bd ls rp have none: "rp = None" by (cases rp) (simp_all add: plan_create_def requireBranchId_def)
  from assms b d bd ls rp none obtain st where st: "planQuantityLines c ls b s = Inr st"
    by (cases "planQuantityLines c ls b s") (simp_all add: plan_create_def requireBranchId_def split: if_splits)
  from assms b d bd ls rp none st have "pl_fromBranchId p = b" "pl_toBranchId p = d" "pl_lines p = ls" "pl_stock p = st"
    by (auto simp: plan_create_def requireBranchId_def Let_def split: if_splits)
  with b d bd ls rp none st show ?thesis by simp
qed

lemma plan_create_positive:
  assumes "plan_create sha c dto s = Inr (Inr p)" and "valid_request dto"
  shows "positive (pl_stock p)"
proof -
  note pl = plan_create_plan [OF assms(1)]
  have "0 < q" if "(x, q) \<in> set (nl_quantities (pl_lines p))" for x q
  proof -
    from pl have "nl_quantities (pl_lines p) = stock_pairs (request_lines dto)" by (auto simp: normalizeLines_Inr)
    with that assms(2) show ?thesis by (auto simp: valid_request_def dest: stock_pairs_lines)
  qed
  then show ?thesis using pl by (intro planQuantityLines_positive [of c "pl_lines p" "pl_fromBranchId p" s]) auto
qed

lemma create_wrote:
  assumes "create sha c n dto s = (Inr r, s1)" and "s1 \<noteq> s"
  shows "\<exists>p t. plan_create sha c dto s = Inr (Inr p) \<and> create_tx sha c n dto p s = Inr (t, s1) \<and> r = create_result n t"
  using assms
  by (auto simp: create_def create_commit_def split: sum.splits option.splits prod.splits if_splits)

lemma view_after_Inr: "view_after c i r s = (Inr v, s') \<Longrightarrow> r = Inr s'"
  by (cases r) (auto simp: view_after_def)

lemma withdraw_current:
  assumes "withdraw_tx c i dto to why ev t0 s = Inr s'" and "map_of (ts_transfers s) i = Some t0"
  shows "td_expectedVersion dto \<le> t_version t0"
  using withdraw_tx_version [OF assms(1)] assms(2) by (simp add: version_at_def)

lemma at_source_Inr: "at_source c i s = Inr t \<Longrightarrow> map_of (ts_transfers s) i = Some t"
  by (auto simp: at_source_def load_def split: option.splits if_splits)

lemma reject_or_cancel_Inr:
  assumes "reject c i d s = (Inr v, s') \<or> cancel c i d s = (Inr v, s')" and inv: "transfer_inv s"
  shows "\<exists>t. map_of (ts_transfers s) i = Some t \<and> open_t t \<and>
     units_after (set (serialized (t_items t))) (\<lambda>r. r\<lparr>u_status := in_stock\<rparr>) (ts_units s) (ts_units s') \<and>
     on_hand (ts_stock s') = on_hand (ts_stock s) \<and> promised (ts_stock s') = (\<lambda>k. promised (ts_stock s) k - claim k t)"
proof -
  from assms(1) obtain t to why ev where t: "map_of (ts_transfers s) i = Some t" and to: "to \<in> {rejected, cancelled}"
    and tx: "withdraw_tx c i d to why ev t s = Inr s'"
    by (auto simp: reject_def cancel_def reject_read_def cancel_read_def reject_tx_def cancel_tx_def
        dest!: view_after_Inr at_source_Inr split: sum.splits if_splits)
  from withdraw_tx_Inr [OF tx inv snapshot_now [OF t] withdraw_current [OF tx t] to] t show ?thesis by auto
qed

text \<open>
  (C25) Withdrawing a request is a full undo: when a request has been created and is then
  rejected or cancelled, by whoever may do so, the reserved counters, the quantities on hand
  and every unit are exactly as before the request.
\<close>

theorem create_then_withdraw:
  assumes "reach transfer_init transfer_step s" and "map_of (ts_transfers s) n = None" and "valid_request dto"
    and "create sha256 c n dto s = (Inr r, s1)" and "s1 \<noteq> s"
    and "reject c' n d s1 = (Inr v, s2) \<or> cancel c' n d s1 = (Inr v, s2)"
  shows "on_hand (ts_stock s2) = on_hand (ts_stock s) \<and> promised (ts_stock s2) = promised (ts_stock s) \<and>
         map_of (ts_units s2) = map_of (ts_units s)"
proof -
  note inv = transfer_sys.reach_inv [OF assms(1)]
  from create_wrote [OF assms(4,5)] obtain p t where pl: "plan_create sha256 c dto s = Inr (Inr p)"
    and tx: "create_tx sha256 c n dto p s = Inr (t, s1)" by blast
  have pos: "positive (pl_stock p)" by (rule plan_create_positive [OF pl assms(3)])
  note e = create_tx_Inr [OF tx transfer_invD(3) [OF inv] pos]
  have inv1: "transfer_inv s1" by (rule transfer_inv_create_tx [OF inv assms(2) pos tx])
  have t1: "map_of (ts_transfers s1) n = Some t" using e assms(2) by simp
  from e obtain no where t: "t = new_transfer sha256 c dto p no" by blast
  let ?U = "snd ` set (pl_units p)"
  have U: "set (serialized (t_items t)) = ?U" by (simp add: t new_transfer_items)
  from reject_or_cancel_Inr [OF assms(6) inv1] t1 have w:
    "units_after ?U (\<lambda>r. r\<lparr>u_status := in_stock\<rparr>) (ts_units s1) (ts_units s2)"
    "on_hand (ts_stock s2) = on_hand (ts_stock s1)" "promised (ts_stock s2) = (\<lambda>k. promised (ts_stock s1) k - claim k t)"
    by (auto simp: U)
  have "map_of (ts_units s2) u = map_of (ts_units s) u" for u
  proof (cases "u \<in> ?U")
    case True
    with e obtain r where "map_of (ts_units s) u = Some r" "u_status r = in_stock" by blast
    with True w(1) e show ?thesis by (auto simp: units_after_def)
  next
    case False
    with w(1) e show ?thesis by (simp add: units_after_def)
  qed
  with w e show ?thesis by auto
qed

section \<open>The actions offered are the actions accepted\<close>

lemma getById_ok:
  "c_branchId c = Some b \<Longrightarrow> map_of (ts_transfers s) i = Some t \<Longrightarrow> t_companyId t = c_companyId c \<Longrightarrow>
     \<exists>v. getById c i s = Inr v"
  by (simp add: getById_def requireBranchId_def load_def)

lemma view_after_ok:
  assumes "c_branchId c = Some b" and "\<And>s'. r = Inr s' \<Longrightarrow> \<exists>t. map_of (ts_transfers s') i = Some t \<and> t_companyId t = c_companyId c"
  shows "(\<exists>v s'. view_after c i r s = (Inr v, s')) \<longleftrightarrow> (\<exists>s'. r = Inr s')"
  using assms getById_ok [OF assms(1)] by (cases r) (fastforce simp: view_after_def)+

lemma transitionTx_ok:
  assumes "map_of (ts_transfers s) i = Some t" and "t_companyId t = c_companyId c"
  shows "(\<exists>s'. transitionTx c i t to (t_version t) f s = Inr s') \<longleftrightarrow> canTransferTransition (t_status t) to"
  using assms by (simp add: transitionTx_Inr)

lemma approve_tx_ok:
  assumes "map_of (ts_transfers s) i = Some t" and "t_companyId t = c_companyId c" and "td_expectedVersion dto = t_version t"
  shows "(\<exists>s'. approve_tx c i dto t s = Inr s') \<longleftrightarrow> canTransferTransition (t_status t) approved"
  using transitionTx_ok [OF assms(1,2)] assms(3) by (auto simp: approve_tx_def)

lemma withdraw_tx_ok:
  assumes "map_of (ts_transfers s) i = Some t" and "t_companyId t = c_companyId c" and "td_expectedVersion dto = t_version t"
  shows "(\<exists>s'. withdraw_tx c i dto to why ev t s = Inr s') \<longleftrightarrow> canTransferTransition (t_status t) to"
  using transitionTx_ok [OF assms(1,2)] assms(3) by (auto simp: withdraw_tx_def Let_def)

lemma at_source_iff:
  "map_of (ts_transfers s) i = Some t \<Longrightarrow> t_companyId t = c_companyId c \<Longrightarrow> c_branchId c = Some b \<Longrightarrow>
     at_source c i s = (if b = t_fromBranchId t then Inr t else Inl (Forbidden WrongBranch))"
  by (auto simp: at_source_def requireBranchId_def load_def)

lemma approve_accepts:
  assumes inv: "transfer_inv s" and t: "map_of (ts_transfers s) i = Some t" "t_companyId t = c_companyId c"
    and br: "c_branchId c = Some b" and ev: "td_expectedVersion dto = t_version t"
  shows "(\<exists>v s'. approve c i dto s = (Inr v, s')) \<longleftrightarrow> b = t_fromBranchId t \<and> t_status t = pending_approval"
proof (cases "b = t_fromBranchId t")
  case True
  have "\<exists>t'. map_of (ts_transfers s') i = Some t' \<and> t_companyId t' = c_companyId c" if "approve_tx c i dto t s = Inr s'" for s'
    using approve_tx_Inr [OF that snapshot_now [OF t(1)]] ev by auto
  from view_after_ok [OF br this] True approve_tx_ok [OF t ev] show ?thesis
    by (simp add: approve_def at_source_iff [OF t br] canTransferTransition_from)
qed (simp add: approve_def at_source_iff [OF t br])

lemma withdraw_row:
  assumes "withdraw_tx c i dto to why ev t s = Inr s'" and "transfer_inv s" and "map_of (ts_transfers s) i = Some t"
    and "td_expectedVersion dto = t_version t" and "to \<in> {rejected, cancelled}"
  shows "\<exists>t'. map_of (ts_transfers s') i = Some t' \<and> t_companyId t' = c_companyId c"
  using withdraw_tx_Inr [OF assms(1,2) snapshot_now [OF assms(3)] _ assms(5)] assms(4) by auto

lemma reject_accepts:
  assumes inv: "transfer_inv s" and t: "map_of (ts_transfers s) i = Some t" "t_companyId t = c_companyId c"
    and br: "c_branchId c = Some b" and ev: "td_expectedVersion dto = t_version t" and rs: "\<not> blank (td_reason dto)"
  shows "(\<exists>v s'. reject c i dto s = (Inr v, s')) \<longleftrightarrow> b = t_fromBranchId t \<and> t_status t = pending_approval"
proof (cases "b = t_fromBranchId t")
  case True
  have "\<exists>t'. map_of (ts_transfers s') i = Some t' \<and> t_companyId t' = c_companyId c" if "reject_tx c i dto t s = Inr s'" for s'
    using withdraw_row [OF that [unfolded reject_tx_def] inv t(1) ev] by simp
  from view_after_ok [OF br this] True withdraw_tx_ok [OF t ev] rs show ?thesis
    by (simp add: reject_def reject_read_def reject_tx_def at_source_iff [OF t br] canTransferTransition_from)
qed (simp add: reject_def reject_read_def at_source_iff [OF t br])

lemma cancel_accepts:
  assumes inv: "transfer_inv s" and t: "map_of (ts_transfers s) i = Some t" "t_companyId t = c_companyId c"
    and br: "c_branchId c = Some b" and ev: "td_expectedVersion dto = t_version t" and rs: "\<not> blank (td_reason dto)"
  shows "(\<exists>v s'. cancel c i dto s = (Inr v, s')) \<longleftrightarrow>
     b = t_fromBranchId t \<and> (t_status t = pending_approval \<or> t_status t = approved) \<and>
     (has_permission c ''transfer.cancel'' \<or>
      c_userId c \<noteq> None \<and> t_requestedById t = c_userId c \<and> t_status t = pending_approval)"
proof (cases "b = t_fromBranchId t")
  case True
  have "\<exists>t'. map_of (ts_transfers s') i = Some t' \<and> t_companyId t' = c_companyId c" if "cancel_tx c i dto t s = Inr s'" for s'
    using withdraw_row [OF that [unfolded cancel_tx_def] inv t(1) ev] by simp
  from view_after_ok [OF br this] True withdraw_tx_ok [OF t ev] rs show ?thesis
    by (auto simp: cancel_def cancel_read_def cancel_tx_def at_source_iff [OF t br] canTransferTransition_from
        simp del: not_None_eq split: if_splits)
qed (simp add: cancel_def cancel_read_def at_source_iff [OF t br])

lemma ship_accepts:
  assumes inv: "transfer_inv s" and t: "map_of (ts_transfers s) i = Some t" "t_companyId t = c_companyId c"
    and br: "c_branchId c = Some b" and ev: "td_expectedVersion dto = t_version t"
  shows "(\<exists>v s'. ship c i dto s = (Inr v, s')) \<longleftrightarrow> b = t_fromBranchId t \<and> t_status t = approved"
proof (cases "b = t_fromBranchId t \<and> t_status t = approved")
  case True
  from ship_tx_succeeds [OF inv t(1) _ t(2) ev] ship_read_ok [OF inv t(1) _ t(2)] True br show ?thesis
    by (auto simp: ship_def finish_def)
next
  case False
  then show ?thesis
    by (auto simp: ship_def ship_read_def at_source_iff [OF t br] canTransferTransition_from split: if_splits)
qed

lemma receive_accepts:
  assumes inv: "transfer_inv s" and t: "map_of (ts_transfers s) i = Some t" "t_companyId t = c_companyId c"
    and br: "c_branchId c = Some b"
  shows "(\<exists>v s'. receiveConfirm c i scanned (t_version t) s = (Inr v, s')) \<longleftrightarrow> b = t_toBranchId t \<and> t_status t = in_transit"
proof (cases "b = t_toBranchId t \<and> t_status t = in_transit")
  case True
  with unit_rows_ok [OF inv t(1)] obtain rows where rows: "unit_rows (serialized (t_items t)) (ts_units s) = Inr rows" by blast
  let ?p = "\<lparr>rp_transfer = t, rp_rows = rows, rp_report = computeDiscrepancy (map (unitIdentifier \<circ> snd) rows) scanned\<rparr>"
  have "receive_read c i scanned s = Inr ?p"
    using True rows br by (simp add: receive_read_def at_destination_ok [of c t s i] t)
  moreover obtain s' where "receive_tx c i (t_version t) ?p s = Inr s'"
    using receive_tx_succeeds [OF inv t(1) _ t(2), of ?p] True by auto
  ultimately show ?thesis using True by (simp add: receiveConfirm_def finish_def)
next
  case False
  then show ?thesis
    by (auto simp: receiveConfirm_def receive_read_def at_destination_def requireBranchId_def load_def t br
        canTransferTransition_from split: if_splits)
qed

text \<open>
  The detail screen offers an action exactly when the service would carry it out: for a
  caller who holds the permission of the route and sends the version on the screen (and a
  reason, for the two refusals), each of the five actions is offered if and only if the
  corresponding call succeeds in that state.
\<close>

theorem actions_offered_iff_accepted:
  assumes "reach transfer_init transfer_step s" and "map_of (ts_transfers s) i = Some t"
    and "t_companyId t = c_companyId c" and "c_branchId c = Some b"
    and "td_expectedVersion dto = t_version t" and "\<not> blank (td_reason dto)"
    and "acts = computeActions (t_status t) (t_requestedById t) (t_fromBranchId t) (t_toBranchId t) b (c_userId c) (has_permission c)"
  shows "(ta_allowed (act_approve acts) \<longleftrightarrow> has_permission c ''transfer.approve'' \<and> (\<exists>v s'. approve c i dto s = (Inr v, s'))) \<and>
         (ta_allowed (act_reject acts) \<longleftrightarrow> has_permission c ''transfer.approve'' \<and> (\<exists>v s'. reject c i dto s = (Inr v, s'))) \<and>
         (ta_allowed (act_ship acts) \<longleftrightarrow> has_permission c ''transfer.ship'' \<and> (\<exists>v s'. ship c i dto s = (Inr v, s'))) \<and>
         (ta_allowed (act_receive acts) \<longleftrightarrow> has_permission c ''transfer.receive'' \<and>
            (\<exists>v s'. receiveConfirm c i scanned (t_version t) s = (Inr v, s'))) \<and>
         (ta_allowed (act_cancel acts) \<longleftrightarrow> has_permission c ''transfer.cancel_own'' \<and> (\<exists>v s'. cancel c i dto s = (Inr v, s')))"
proof -
  note inv = transfer_sys.reach_inv [OF assms(1)]
  note acc = approve_accepts [OF inv assms(2-5)] reject_accepts [OF inv assms(2-6)] ship_accepts [OF inv assms(2-5)]
    receive_accepts [OF inv assms(2-4)] cancel_accepts [OF inv assms(2-6)]
  have "ta_allowed (decide_action ok perm req act extra) \<longleftrightarrow>
      ok \<and> perm \<and> (\<forall>why. extra \<noteq> Some (False, why)) \<and> req = act" for ok perm req act extra
    by (auto simp: decide_action_def split: option.splits bool.splits)
  then show ?thesis
    unfolding acc assms(7) by (auto simp: computeActions_def Let_def simp del: not_None_eq)
qed

lemma ex_t1_row: "map_of (ts_transfers ex_t1) 100 = Some (ex_tr pending_approval 0 None None)"
  by (simp add: ex_t1_def)

lemma ex_dec_simps [simp]: "td_expectedVersion (ex_dec v) = v" "\<not> blank (td_reason (ex_dec v))"
  by (simp_all add: ex_dec_def js_trim_def is_js_space_def)

lemma ex_requester [simp]: "t_requestedById (ex_tr st v b co) = Some 7"
  by (simp add: ex_tr_def)

theorem actions_offered_iff_accepted_witness:
  "\<exists>v s'. approve (ex_tctx 2 [''transfer.approve'']) 100 (ex_dec 0) ex_t1 = (Inr v, s')"
proof -
  let ?c = "ex_tctx 2 [''transfer.approve'']" and ?t = "ex_tr pending_approval 0 None None"
  let ?acts = "computeActions (t_status ?t) (t_requestedById ?t) (t_fromBranchId ?t) (t_toBranchId ?t) 2 (c_userId ?c) (has_permission ?c)"
  have "ta_allowed (act_approve ?acts)"
    by (simp add: computeActions_def Let_def decide_action_def has_permission_def ex_tctx_def)
  then show ?thesis
    using actions_offered_iff_accepted [OF ex_t1_reach ex_t1_row, of ?c 2 "ex_dec 0" ?acts] by simp
qed

theorem create_then_withdraw_witness:
  "\<exists>v s2. cancel (ex_tctx 2 [''transfer.cancel'']) 100 (ex_dec 0) ex_t1 = (Inr v, s2) \<and> promised (ts_stock s2) (1, 61, 2) = 0"
proof -
  let ?c = "ex_tctx 2 [''transfer.cancel'']"
  obtain v s2 where w: "cancel ?c 100 (ex_dec 0) ex_t1 = (Inr v, s2)"
    using cancel_accepts [OF transfer_sys.reach_inv [OF ex_t1_reach] ex_t1_row, of ?c 2 "ex_dec 0"]
    by (auto simp: has_permission_def ex_tctx_def)
  have ne: "ex_t1 \<noteq> ex_t0"
  proof
    assume "ex_t1 = ex_t0"
    then have "ts_transfers ex_t1 = ts_transfers ex_t0" by simp
    then show False by (simp add: ex_t1_def ex_st_def ex_t0_def)
  qed
  have "map_of (ts_transfers ex_t0) 100 = None" "valid_request ex_create"
    by (auto simp: ex_t0_def valid_request_def request_lines_def ex_create_def)
  from create_then_withdraw [OF reach_init [of transfer_init, OF ex_t0_init] this ex_create_eq ne disjI2 [OF w]]
  have "promised (ts_stock s2) (1, 61, 2) = promised (ts_stock ex_t0) (1, 61, 2)" by simp
  with w show ?thesis by (simp add: promised_def ex_t0_def)
qed

section \<open>State machines\<close>

definition unit_moves :: "transfer_state \<Rightarrow> transfer_state \<Rightarrow> bool" where
  "unit_moves s s' \<longleftrightarrow>
     (\<forall>u r r'. map_of (ts_units s) u = Some r \<and> map_of (ts_units s') u = Some r' \<longrightarrow>
        u_status r' = u_status r \<or> canTransition (u_status r) (u_status r'))"

definition transfer_moves :: "transfer_state \<Rightarrow> transfer_state \<Rightarrow> bool" where
  "transfer_moves s s' \<longleftrightarrow>
     (\<forall>i t t'. map_of (ts_transfers s) i = Some t \<and> map_of (ts_transfers s') i = Some t' \<longrightarrow>
        t_status t' = t_status t \<or> canTransferTransition (t_status t) (t_status t'))"

lemma moves_refl [simp]: "unit_moves s s" "transfer_moves s s"
  by (auto simp: unit_moves_def transfer_moves_def)

lemma unit_moves_after:
  assumes "units_after U f (ts_units s) (ts_units s')"
    and "\<And>u r. u \<in> U \<Longrightarrow> map_of (ts_units s) u = Some r \<Longrightarrow> canTransition (u_status r) (u_status (f r))"
  shows "unit_moves s s'"
  using assms by (auto simp: unit_moves_def units_after_def)

lemma transfer_moves_update:
  assumes "ts_transfers s' = t_update i f (ts_transfers s)" and "map_of (ts_transfers s) i = Some t"
    and "canTransferTransition (t_status t) (t_status (f t))"
  shows "transfer_moves s s'"
  using assms by (auto simp: transfer_moves_def)

lemma reserved_status:
  "transfer_inv s \<Longrightarrow> map_of (ts_transfers s) i = Some t \<Longrightarrow> open_t t \<Longrightarrow> u \<in> set (serialized (t_items t)) \<Longrightarrow>
     map_of (ts_units s) u = Some r \<Longrightarrow> u_status r = reserved"
  using reserved_items [of s i t] by (auto simp: reserved_units_def)

lemma moves_withdraw:
  assumes inv: "transfer_inv s" and sn: "snapshot i t0 s" "td_expectedVersion dto \<le> t_version t0"
    and to: "to \<in> {rejected, cancelled}"
  shows "unit_moves s (commit (withdraw_tx c i dto to why ev t0 s) s) \<and>
         transfer_moves s (commit (withdraw_tx c i dto to why ev t0 s) s)"
proof (rule commit_inv [of "\<lambda>s'. unit_moves s s' \<and> transfer_moves s s'"])
  fix s' assume "withdraw_tx c i dto to why ev t0 s = Inr s'"
  note e = withdraw_tx_Inr [OF this inv sn to]
  then have t: "map_of (ts_transfers s) i = Some t0" "open_t t0" by auto
  show "unit_moves s s' \<and> transfer_moves s s'"
  proof
    show "unit_moves s s'"
      by (rule unit_moves_after) (use e reserved_status [OF inv t] in auto)
    show "transfer_moves s s'"
      by (rule transfer_moves_update [OF _ t(1)]) (use e in auto)
  qed
qed simp

text \<open>
  (C26) The service obeys both lifecycle tables: whatever transaction commits, and however old
  the row it was planned on, a unit keeps its status or takes one step that
  \<^verbatim>\<open>unit-state-machine.ts\<close> allows, and a transfer keeps its status or takes one step that
  \<^verbatim>\<open>transfer-state-machine.ts\<close> allows.
\<close>

theorem service_follows_machines:
  assumes "reach transfer_init transfer_step s" and "service_step s s'"
  shows "unit_moves s s' \<and> transfer_moves s s'"
  using assms(2) transfer_sys.reach_inv [OF assms(1)]
proof (induction rule: service_step.induct)
  case (step_create s n p sha c dto)
  have "unit_moves s s'' \<and> transfer_moves s s''" if "create_tx sha c n dto p s = Inr (t, s'')" for t s''
  proof -
    note e = create_tx_Inr [OF that transfer_invD(3) [OF step_create.prems] step_create.hyps(2)]
    have "unit_moves s s''"
    proof (rule unit_moves_after)
      show "units_after (snd ` set (pl_units p)) (\<lambda>r. r\<lparr>u_status := reserved\<rparr>) (ts_units s) (ts_units s'')"
        using e by blast
      show "canTransition (u_status r) (u_status (r\<lparr>u_status := reserved\<rparr>))"
        if "u \<in> snd ` set (pl_units p)" "map_of (ts_units s) u = Some r" for u r
      proof -
        from e that have "u_status r = in_stock" by force
        then show ?thesis by simp
      qed
    qed
    moreover have "transfer_moves s s''" using e step_create.hyps(1) by (auto simp: transfer_moves_def)
    ultimately show ?thesis by blast
  qed
  then show ?case by (auto simp: create_commit_def split: sum.splits option.splits prod.splits)
next
  case (step_approve i t0 s dto c)
  show ?case
  proof (rule commit_inv [of "\<lambda>s'. unit_moves s s' \<and> transfer_moves s s'"])
    fix s' assume "approve_tx c i dto t0 s = Inr s'"
    note e = approve_tx_Inr [OF this step_approve.hyps]
    then show "unit_moves s s' \<and> transfer_moves s s'"
      by (auto simp: unit_moves_def intro: transfer_moves_update [of s' i _ s t0])
  qed simp
next
  case (step_reject i t0 s dto c)
  then show ?case unfolding reject_tx_def by (intro moves_withdraw) auto
next
  case (step_cancel i t0 s dto c)
  then show ?case unfolding cancel_tx_def by (intro moves_withdraw) auto
next
  case (step_ship i t0 s dto c)
  show ?case
  proof (rule commit_inv [of "\<lambda>s'. unit_moves s s' \<and> transfer_moves s s'"])
    fix s' assume "ship_tx c i dto t0 s = Inr s'"
    note e = ship_tx_Inr [OF this step_ship.prems step_ship.hyps]
    then have t: "map_of (ts_transfers s) i = Some t0" "open_t t0" by (auto simp: open_t_simps)
    have "unit_moves s s'" by (rule unit_moves_after) (use e reserved_status [OF step_ship.prems t] in auto)
    moreover have "transfer_moves s s'" by (rule transfer_moves_update [OF _ t(1)]) (use e in auto)
    ultimately show "unit_moves s s' \<and> transfer_moves s s'" by blast
  qed simp
next
  case (step_receive i p s ev c)
  show ?case
  proof (rule commit_inv [of "\<lambda>s'. unit_moves s s' \<and> transfer_moves s s'"])
    fix s' assume "receive_tx c i ev p s = Inr s'"
    note e = receive_tx_Inr [OF this step_receive.prems step_receive.hyps]
    have "unit_moves s s'" by (rule unit_moves_after) (use e in \<open>auto simp: arriving_def\<close>)
    moreover have "transfer_moves s s'" by (rule transfer_moves_update [of s' i _ s "rp_transfer p"]) (use e in auto)
    ultimately show "unit_moves s s' \<and> transfer_moves s s'" by blast
  qed simp
qed

theorem service_follows_machines_witness: "unit_moves ex_t2 ex_t3 \<and> transfer_moves ex_t2 ex_t3"
proof -
  have "service_step ex_t2 (commit (ship_tx (ex_tctx 2 []) 100 (ex_dec 1) (ex_tr approved 1 None None) ex_t2) ex_t2)"
    by (rule step_ship) (simp_all add: snapshot_now ex_t2_def)
  then have "service_step ex_t2 ex_t3" by (simp only: ex_ship_eq commit_def sum.case)
  from service_follows_machines [OF ex_t2_reach this] show ?thesis .
qed

section \<open>The cost that travels\<close>

text \<open>
  Every quantity line of a shipment carries the cost that the source row has at the
  moment of shipment, whatever it was when the transfer was requested.
\<close>

theorem shipped_cost_is_source_cost:
  assumes "reach transfer_init transfer_step s" and "map_of (ts_transfers s) i = Some t"
    and "ship c i dto s = (Inr st, s')" and "map_of (ts_transfers s') i = Some t'"
    and "x \<in> set (t_items t')" and "i_productId x = Some p"
  shows "\<exists>row. map_of (ts_stock s) (t_companyId t, p, t_fromBranchId t) = Some row \<and>
               i_shippedUnitCost x = Some (si_cost row)"
proof -
  note inv = transfer_sys.reach_inv [OF assms(1)]
  from assms(3) have tx: "ship_tx c i dto t s = Inr s'"
    using assms(2) by (auto simp: ship_def ship_read_def finish_def Let_def dest!: at_source_Inr split: sum.splits if_splits)
  have le: "td_expectedVersion dto \<le> t_version t"
    using ship_tx_version [OF tx] assms(2) by (simp add: version_at_def)
  note ok = transfer_invD(4) [OF inv assms(2)]
  note e = ship_tx_Inr [OF tx inv snapshot_now [OF assms(2)] le positive_lines [OF ok]]
  then have op: "open_t t" and t': "t' = shipped c (ts_stock s) t" using assms(2,4) by (auto simp: open_t_simps)
  let ?k = "(t_companyId t, p, t_fromBranchId t)"
  let ?ps = "fst ` set (quantity_lines (t_items t))"
  from assms(5,6) t' obtain y where y: "y \<in> set (t_items t)" "i_productId y = Some p"
    and x: "i_shippedUnitCost x = (if p \<in> ?ps then Some (cost_of (ts_stock s) ?k) else i_shippedUnitCost y)"
    by (auto simp: shipped_def with_costs_def split: option.splits if_splits)
  have p: "p \<in> ?ps" using y by (auto simp: quantity_lines_fst)
  then obtain q where q: "(p, q) \<in> set (quantity_lines (t_items t))" by auto
  have "q \<le> lines_at (t_companyId t) (t_fromBranchId t) ls ?k" if "(p, q) \<in> set ls" "positive ls" for ls
    using that
  proof (induction ls)
    case (Cons a ls)
    obtain p' q' where a: "a = (p', q')" by fastforce
    with Cons lines_at_nonneg [of ls "t_companyId t" "t_fromBranchId t" ?k] show ?case by auto
  qed simp
  from this [OF q positive_lines [OF ok]] promised_covers [OF inv assms(2) op, of ?k]
  have "q \<le> promised (ts_stock s) ?k" by simp
  moreover have "0 < q" using q positive_lines [OF ok] by (auto simp: positive_def)
  ultimately obtain row where "map_of (ts_stock s) ?k = Some row"
    by (cases "map_of (ts_stock s) ?k") (auto simp: promised_def)
  with x p show ?thesis by (simp add: cost_of_def)
qed

theorem shipped_cost_is_source_cost_witness:
  "\<exists>s' t' x. ship (ex_tctx 2 []) 100 (ex_dec 1) ex_t2 = (Inr in_transit, s') \<and> map_of (ts_transfers s') 100 = Some t' \<and>
     x \<in> set (t_items t') \<and> i_shippedUnitCost x = Some 5"
proof -
  have t: "map_of (ts_transfers ex_t2) 100 = Some (ex_tr approved 1 None None)" by (simp add: ex_t2_def)
  have rd: "ship_read (ex_tctx 2 []) 100 ex_t2 = Inr (ex_tr approved 1 None None)"
    by (rule ship_read_ok [OF transfer_sys.reach_inv [OF ex_t2_reach] t]) simp_all
  have sh: "ship (ex_tctx 2 []) 100 (ex_dec 1) ex_t2 = (Inr in_transit, ex_t3)"
    unfolding ship_def rd sum.case ex_ship_eq finish_def ..
  have t3: "map_of (ts_transfers ex_t3) 100 = Some (ex_tr in_transit 2 (Some 7) (Some 5))" by (simp add: ex_t3_def)
  let ?x = "\<lparr>i_unitId = None, i_productId = Some 61, i_quantity = 4, i_shippedUnitCost = Some 5\<rparr>"
  have x: "?x \<in> set (t_items (ex_tr in_transit 2 (Some 7) (Some 5)))" by (simp add: ex_tr_def)
  have "i_productId ?x = Some 61" by simp
  from shipped_cost_is_source_cost [OF ex_t2_reach t sh t3 x this] sh t3 x show ?thesis
    by (intro exI conjI) (assumption | simp add: ex_t2_def ex_st_def)+
qed

section \<open>Replay of a request\<close>





end
