(* ===== verification/TransferRuleProperties.thy ===== *)
theory TransferRuleProperties
  imports TransferNotifications
begin

text \<open>
  Properties of the pure rules under the transfer service: identifiers, the lines of a
  request and their fingerprint, the discrepancy report, the weighted average cost, the
  lifecycle and the notifications.
\<close>

section \<open>Identifiers\<close>

text \<open>
  A UUID survives the trip from the database to the API and back, and the identifiers
  the program draws are ordered by the millisecond they were drawn in, which is also what
  \<^verbatim>\<open>requestedAtOf\<close> reads back from them.
\<close>

theorem uuid_roundtrip:
  assumes "now < 2 ^ 48"
  shows "uuidToBin (binToUuid (newUuidV7Bin now r)) = Some (newUuidV7Bin now r) \<and>
         requestedAtOf (newUuidV7Bin now r) = now \<and>
         (now < now' \<longrightarrow> newUuidV7Bin now r < newUuidV7Bin now' r')"
  using uuidToBin_binToUuid [OF newUuidV7Bin_bound [OF assms]] newUuidV7Bin_ordered by simp

theorem uuid_roundtrip_witness: "uuidToBin (binToUuid (newUuidV7Bin 5 3)) = Some (newUuidV7Bin 5 3)"
  using uuid_roundtrip [of 5 3] by simp

section \<open>The lines of a request\<close>

text \<open>
  A request is read without dropping, merging or reordering anything: it is accepted
  exactly when it has a line, no identifier is blank, no identifier is scanned twice and no
  product is listed twice, and then the result holds every unit line (trimmed) and every
  quantity line in the order they were sent.
\<close>

theorem normalizeLines_exact:
  "normalizeLines dto = Inr nl \<longleftrightarrow>
     request_lines dto \<noteq> [] \<and>
     [] \<notin> set (unit_texts (request_lines dto)) \<and> distinct (unit_texts (request_lines dto)) \<and>
     distinct (map fst (stock_pairs (request_lines dto))) \<and>
     nl = \<lparr>nl_identifiers = unit_texts (request_lines dto), nl_quantities = stock_pairs (request_lines dto)\<rparr>"
  by (rule normalizeLines_Inr)

text \<open>
  The text under the fingerprint depends on the request exactly as the comment says: two
  requests have the same text if and only if they leave the same branch for the same branch
  (upper and lower case read alike) with the same identifiers and the same product lines, in
  any order. So only a collision of SHA-256 can confuse two different movements.
\<close>

theorem fingerprint_text_exact:
  assumes "f < 16 ^ 32" and "f' < 16 ^ 32"
  shows "transfer_canonical ls f t = transfer_canonical ls' f' t' \<longleftrightarrow>
     f = f' \<and> js_lower t = js_lower t' \<and> mset (nl_identifiers ls) = mset (nl_identifiers ls') \<and>
     mset (map stock_text (nl_quantities ls)) = mset (map stock_text (nl_quantities ls'))"
  using assms by (rule transfer_canonical_iff)

theorem fingerprint_text_exact_witness:
  "transfer_canonical \<lparr>nl_identifiers = [''B'', ''A''], nl_quantities = [(''X'', 2)]\<rparr> 1 ''C''
     = transfer_canonical \<lparr>nl_identifiers = [''A'', ''B''], nl_quantities = [(''x'', 2)]\<rparr> 1 ''c'' \<and>
   transfer_canonical \<lparr>nl_identifiers = [''AB''], nl_quantities = []\<rparr> 1 ''C''
     \<noteq> transfer_canonical \<lparr>nl_identifiers = [''A'', ''B''], nl_quantities = []\<rparr> 1 ''C''"
proof -
  have b: "(1 :: nat) < 16 ^ 32" by simp
  have l: "js_lower ''C'' = ''c''" "js_lower ''c'' = ''c''" "js_lower ''X'' = ''x''" "js_lower ''x'' = ''x''"
    by code_simp+
  show ?thesis
    unfolding fingerprint_text_exact [OF b b] by (simp add: l stock_text_def)
qed

section \<open>Discrepancies\<close>

lemma duplicates_iff: "filter (\<lambda>s. 1 < count_list xs s) (keys_insert [] xs) = [] \<longleftrightarrow> distinct xs"
proof -
  have "filter (\<lambda>s. 1 < count_list xs s) (keys_insert [] xs) = [] \<longleftrightarrow> (\<forall>x \<in> set xs. count_list xs x \<le> 1)"
    by (auto simp: filter_empty_conv not_less)
  also have "\<dots> \<longleftrightarrow> (\<forall>x. count_list xs x \<le> 1)"
    by (metis count_notin le_zero_eq zero_le)
  finally show ?thesis by (simp only: count_le_one_distinct)
qed

text \<open>
  The receiving report is exact: every expected identifier is either matched or
  missing, in the expected order, and the report shows no discrepancy if and only if what
  was scanned is precisely what was expected, each once, in any order.
\<close>

theorem discrepancy_exact:
  assumes "distinct expected"
  shows "(\<not> dr_hasDiscrepancy (computeDiscrepancy expected scanned) \<longleftrightarrow> mset scanned = mset expected) \<and>
         mset (dr_matched (computeDiscrepancy expected scanned)) + mset (dr_missing (computeDiscrepancy expected scanned)) = mset expected \<and>
         set (dr_unexpected (computeDiscrepancy expected scanned)) = set scanned - set expected"
proof -
  have "(\<not> dr_hasDiscrepancy (computeDiscrepancy expected scanned)) \<longleftrightarrow>
      set expected \<subseteq> set scanned \<and> set scanned \<subseteq> set expected \<and> distinct scanned"
    using duplicates_iff [of scanned] by (auto simp: computeDiscrepancy_def Let_def filter_empty_conv)
  also have "\<dots> \<longleftrightarrow> mset scanned = mset expected"
    using assms by (metis mset_eq_imp_distinct_iff mset_eq_setD set_eq_iff_mset_eq_distinct set_eq_subset)
  finally have iff: "\<not> dr_hasDiscrepancy (computeDiscrepancy expected scanned) \<longleftrightarrow> mset scanned = mset expected" .
  have "mset (filter (\<lambda>e. e \<in> set scanned) expected) + mset (filter (\<lambda>e. e \<notin> set scanned) expected) = mset expected"
    by (induction expected) auto
  then have part: "mset (dr_matched (computeDiscrepancy expected scanned)) +
      mset (dr_missing (computeDiscrepancy expected scanned)) = mset expected"
    by (simp add: computeDiscrepancy_def Let_def)
  have "set (dr_unexpected (computeDiscrepancy expected scanned)) = set scanned - set expected"
    by (auto simp: computeDiscrepancy_def Let_def)
  with iff part show ?thesis by blast
qed

theorem discrepancy_exact_witness:
  "\<not> dr_hasDiscrepancy (computeDiscrepancy [''A'', ''B''] [''B'', ''A''])"
  using discrepancy_exact [of "[''A'', ''B'']" "[''B'', ''A'']"] by simp

section \<open>The weighted average\<close>

text \<open>
  Receiving quantity stock into a branch that already holds it: the cost stays between
  the old and the incoming cost, the recorded value of the row moves by the value of what
  arrived up to half a cent per piece, the selling price and the reserved quantity are
  untouched, and no other row changes.
\<close>

theorem receipt_averages_cost:
  assumes "stock_ok st" and "map_of st k = Some r" and "receiveQuantityAtCost k n uc priceIfNew st = Inr st'"
    and "is_cents (si_cost r)" and "is_cents uc"
  shows "\<exists>r'. map_of st' k = Some r' \<and>
           min (si_cost r) uc \<le> si_cost r' \<and> si_cost r' \<le> max (si_cost r) uc \<and>
           si_quantity r' = si_quantity r + n \<and>
           \<bar>of_int (si_quantity r') * si_cost r' - (of_int (si_quantity r) * si_cost r + of_int n * uc)\<bar>
             \<le> of_int (si_quantity r') / 200 \<and>
           si_price r' = si_price r \<and> si_reservedQuantity r' = si_reservedQuantity r \<and>
           (\<forall>k'. k' \<noteq> k \<longrightarrow> map_of st' k' = map_of st k')"
proof -
  let ?w = "weighted_average (si_quantity r) (si_cost r) n uc"
  let ?q = "of_int (si_quantity r + n) :: rat"
  note e = receive_existing [OF assms(1-3)]
  have q: "0 \<le> si_quantity r" using stock_okD [OF assms(1,2)] by (simp add: stock_row_ok_def)
  from weighted_average_between [OF q, of n "si_cost r" uc] e
  have w: "min (si_cost r) uc \<le> ?w" "?w \<le> max (si_cost r) uc" by auto
  have lo: "min (si_cost r) uc \<le> decimal2 ?w" and hi: "decimal2 ?w \<le> max (si_cost r) uc"
    using decimal2_mono [OF w(1)] decimal2_mono [OF w(2)] assms(4,5) by simp_all
  have pos: "0 < ?q" using q e by simp
  have "?q * ?w = of_int (si_quantity r) * si_cost r + of_int n * uc"
    using pos by (simp add: weighted_average_def)
  then have "?q * decimal2 ?w - (of_int (si_quantity r) * si_cost r + of_int n * uc) = ?q * (decimal2 ?w - ?w)"
    by (simp only: right_diff_distrib)
  then have "\<bar>?q * decimal2 ?w - (of_int (si_quantity r) * si_cost r + of_int n * uc)\<bar> = ?q * \<bar>decimal2 ?w - ?w\<bar>"
    using pos by (simp only: abs_mult abs_of_pos)
  also have "\<dots> \<le> ?q * (1 / 200)" using pos decimal2_error by (intro mult_left_mono) auto
  finally have "\<bar>?q * decimal2 ?w - (of_int (si_quantity r) * si_cost r + of_int n * uc)\<bar> \<le> ?q / 200" by simp
  with e lo hi assms(5) show ?thesis by simp
qed

theorem receipt_averages_cost_witness:
  "\<exists>r'. map_of [((1, 2, 3) :: stock_key, \<lparr>si_quantity = 6, si_reservedQuantity = 0, si_cost = decimal2 (13 / 2), si_price = None, si_version = 0\<rparr>)] (1, 2, 3)
        = Some r' \<and> 5 \<le> si_cost r'"
proof -
  let ?st = "[((1, 2, 3) :: stock_key, \<lparr>si_quantity = 3, si_reservedQuantity = 0, si_cost = 5, si_price = None, si_version = 0\<rparr>)]"
  let ?st' = "[((1, 2, 3) :: stock_key, \<lparr>si_quantity = 6, si_reservedQuantity = 0, si_cost = decimal2 (13 / 2), si_price = None, si_version = 0\<rparr>)]"
  have ok: "stock_ok ?st" by (simp add: stock_ok_def stock_row_ok_def)
  have m: "map_of ?st (1, 2, 3) = Some \<lparr>si_quantity = 3, si_reservedQuantity = 0, si_cost = 5, si_price = None, si_version = 0\<rparr>" by simp
  have r: "receiveQuantityAtCost (1, 2, 3) 3 8 None ?st = Inr ?st'"
    by (simp add: receiveQuantityAtCost_def t_update_def weighted_average_def)
  from receipt_averages_cost [OF ok m r] show ?thesis by auto
qed

section \<open>Lifecycles\<close>



section \<open>Notifications\<close>

text \<open>
  Who is told about an event: exactly the people the event concerns, never the person
  who acted, and nobody is told twice of one event of one transfer, however often the
  transaction is repeated.
\<close>

theorem told_exactly_once:
  assumes "distinct (map note_key ns)"
    and "ns' = snd (notifyTx as bn un t ev actor units reason ns)"
  shows "distinct (map note_key ns') \<and>
         (\<forall>u. (tr_companyId t, u, tr_id t, ev) \<in> note_key ` set ns' \<longleftrightarrow>
            (tr_companyId t, u, tr_id t, ev) \<in> note_key ` set ns \<or>
            u \<in> set (recipients_of_event as t ev) \<and> actor \<noteq> Some u) \<and>
         snd (notifyTx as bn un t ev actor units reason ns') = ns'"
proof -
  have keys: "note_key ` set ns' = note_key ` set ns \<union> (\<lambda>u. (tr_companyId t, u, tr_id t, ev)) ` set (recipientsFor as t ev actor)"
    unfolding assms(2) by (rule notifyTx_keys)
  have all: "(tr_companyId t, u, tr_id t, ev) \<in> note_key ` set ns'" if "u \<in> set (recipientsFor as t ev actor)" for u
    using that keys by auto
  have skip: "send_notes mk us ns' = (0, ns')"
    if "\<And>u. u \<in> set us \<Longrightarrow> note_key (mk u) \<in> note_key ` set ns'" for mk us
    using that by (induction us) auto
  have "snd (notifyTx as bn un t ev actor units reason ns') = ns'"
    unfolding notifyTx_def Let_def using all by (auto simp: skip)
  moreover have "distinct (map note_key ns')" using notifyTx_distinct [OF assms(1)] assms(2) by simp
  ultimately show ?thesis using keys by (auto simp: recipientsFor_def)
qed

theorem told_exactly_once_witness:
  "\<exists>ns'. ns' = snd (notifyTx [\<lparr>as_companyId = 1, as_branchId = 2, as_userId = 8, as_userActive = True,
       as_permissions = [''transfer.approve'']\<rparr>] (\<lambda>_. None) (\<lambda>_. None)
     \<lparr>tr_id = 100, tr_companyId = 1, tr_fromBranchId = 2, tr_toBranchId = 3, tr_transferNo = None, tr_requestedById = Some 7\<rparr>
     ev_requested (Some 7) 1 None []) \<and> (1, 8, 100, ev_requested) \<in> note_key ` set ns'"
proof -
  let ?as = "[\<lparr>as_companyId = 1, as_branchId = 2, as_userId = 8, as_userActive = True, as_permissions = [''transfer.approve'']\<rparr>]"
  let ?t = "\<lparr>tr_id = 100, tr_companyId = 1, tr_fromBranchId = 2, tr_toBranchId = 3, tr_transferNo = None, tr_requestedById = Some 7\<rparr>"
  have "8 \<in> set (recipients_of_event ?as ?t ev_requested)" by (simp add: recipients_of_event_def holdersOf_def Let_def)
  with told_exactly_once [OF _ refl, of "[]" ?as "\<lambda>_. None" "\<lambda>_. None" ?t ev_requested "Some 7" 1 None]
  show ?thesis by simp
qed

end
