(* ===== verification/Payable.thy ===== *)
theory Payable
  imports ClosingRules Json
begin

text \<open>
  The rules of paying suppliers that need no database (\<^verbatim>\<open>src/src/suppliers/payable.ts\<close>): the
  suggested split of an amount over open purchases, the checks of a split, the status derived
  from what was paid, and the fingerprint of a reported payment.
\<close>

record OutstandingPurchase =
  op_purchaseId :: id
  op_total :: number
  op_paid :: number
  op_outstanding :: number
  op_date :: nat

record AllocationInput =
  ai_purchaseId :: id
  ai_amount :: number

section \<open>Oldest first\<close>

text \<open>The loop over the sorted purchases; \<^verbatim>\<open>break\<close> ends it when nothing is left.\<close>

fun allocate_loop :: "number \<Rightarrow> OutstandingPurchase list \<Rightarrow> AllocationInput list" where
  "allocate_loop left [] = []"
| "allocate_loop left (p # ps) =
     (if left \<le> 0 then []
      else
        (let took = round2 (min left (op_outstanding p))
         in if took > 0
            then \<lparr>ai_purchaseId = op_purchaseId p, ai_amount = took\<rparr> # allocate_loop (round2 (left - took)) ps
            else allocate_loop left ps))"

definition allocateOldestFirst :: "number \<Rightarrow> OutstandingPurchase list \<Rightarrow> AllocationInput list" where
  "allocateOldestFirst amount purchases =
     allocate_loop (round2 amount) (sort_key op_date (filter (\<lambda>p. op_outstanding p > 0) purchases))"

section \<open>The checks\<close>

datatype allocation_problem =
    AmountMustBePositive
  | ListedTwice
  | NotAnOpenPurchase
  | MoreThanOwed number number

datatype payable_refusal =
    SayWhichPurchases
  | CannotBeApplied "(id \<times> allocation_problem) list"
  | DoesNotAddUp number number
  | AlreadyPaid id number number

text \<open>\<^verbatim>\<open>new Map(open.map((p) => [p.purchaseId, p]))\<close>\<close>

definition by_purchase :: "OutstandingPurchase list \<Rightarrow> id \<Rightarrow> OutstandingPurchase option" where
  "by_purchase ps = map_of (rev (map (\<lambda>p. (op_purchaseId p, p)) ps))"

fun fits_loop ::
  "(id \<Rightarrow> OutstandingPurchase option) \<Rightarrow> AllocationInput list \<Rightarrow> id list \<Rightarrow> (id \<times> allocation_problem) list \<Rightarrow> number
   \<Rightarrow> (id \<times> allocation_problem) list \<times> number" where
  "fits_loop owed [] seen problems tot = (problems, tot)"
| "fits_loop owed (a # as) seen problems tot =
     (let i = ai_purchaseId a
      in if ai_amount a \<le> 0 then fits_loop owed as seen (problems @ [(i, AmountMustBePositive)]) tot
         else if i \<in> set seen then fits_loop owed as seen (problems @ [(i, ListedTwice)]) tot
         else
           (case owed i of
              None \<Rightarrow> fits_loop owed as (i # seen) (problems @ [(i, NotAnOpenPurchase)]) tot
            | Some p \<Rightarrow>
                if round2 (ai_amount a) > round2 (op_outstanding p)
                then fits_loop owed as (i # seen)
                       (problems @ [(i, MoreThanOwed (round2 (op_outstanding p)) (round2 (ai_amount a)))]) tot
                else fits_loop owed as (i # seen) problems (round2 (tot + ai_amount a))))"

definition assertAllocationFits ::
  "number \<Rightarrow> AllocationInput list \<Rightarrow> (id \<Rightarrow> OutstandingPurchase option) \<Rightarrow> payable_refusal + unit" where
  "assertAllocationFits amount allocations owed =
     (if allocations = [] then Inl SayWhichPurchases
      else
        (case fits_loop owed allocations [] [] 0 of
           (problems, tot) \<Rightarrow>
             if problems \<noteq> [] then Inl (CannotBeApplied problems)
             else if round2 tot \<noteq> round2 amount then Inl (DoesNotAddUp (round2 amount) (round2 tot))
             else Inr ()))"

fun assertStillPayable ::
  "AllocationInput list \<Rightarrow> (id \<Rightarrow> OutstandingPurchase option) \<Rightarrow> payable_refusal + unit" where
  "assertStillPayable [] owed = Inr ()"
| "assertStillPayable (a # as) owed =
     (case owed (ai_purchaseId a) of
        None \<Rightarrow> Inl (AlreadyPaid (ai_purchaseId a) 0 (round2 (ai_amount a)))
      | Some p \<Rightarrow>
          if round2 (ai_amount a) > round2 (op_outstanding p)
          then Inl (AlreadyPaid (ai_purchaseId a) (round2 (op_outstanding p)) (round2 (ai_amount a)))
          else assertStillPayable as owed)"

definition purchaseStatusOf :: "number \<Rightarrow> number \<Rightarrow> PurchaseStatus" where
  "purchaseStatusOf tot amt =
     (if round2 amt \<le> 0 then unpaid else if round2 amt \<ge> round2 tot then paid else partial)"

section \<open>The fingerprint\<close>

definition allocation_text :: "AllocationInput \<Rightarrow> string" where
  "allocation_text a = js_lower (binToUuid (ai_purchaseId a)) @ '':'' @ toFixed2 (round2 (ai_amount a))"

definition settlement_canonical ::
  "id \<Rightarrow> number \<Rightarrow> Method \<Rightarrow> id option \<Rightarrow> AllocationInput list \<Rightarrow> string" where
  "settlement_canonical supplierId amount meth acc allocations =
     ''{'' @ json_string ''supplierId'' @ '':'' @ json_string (js_lower (binToUuid supplierId)) @ '','' @
     json_string ''amount'' @ '':'' @ json_string (toFixed2 (round2 amount)) @ '','' @
     json_string ''method'' @ '':'' @ json_string (method_text meth) @ '','' @
     json_string ''account'' @ '':'' @
       (case acc of None \<Rightarrow> ''null'' | Some a \<Rightarrow> json_string (js_lower (binToUuid a))) @ '','' @
     json_string ''allocations'' @ '':'' @ json_array (sort (map allocation_text allocations)) @ ''}''"

definition settlementFingerprint ::
  "(string \<Rightarrow> string) \<Rightarrow> id \<Rightarrow> number \<Rightarrow> Method \<Rightarrow> id option \<Rightarrow> AllocationInput list \<Rightarrow> string" where
  "settlementFingerprint sha256 supplierId amount meth acc allocations =
     sha256 (settlement_canonical supplierId amount meth acc allocations)"

section \<open>What the rules guarantee\<close>

lemma fits_loop_problems: "\<exists>more. fst (fits_loop owed as seen problems tot) = problems @ more"
proof (induction as arbitrary: seen problems tot)
  case (Cons a as)
  have "\<exists>more. fst (fits_loop owed as sn (problems @ [q]) t) = problems @ more" for sn q t
    using Cons.IH [of sn "problems @ [q]" t] by auto
  with Cons.IH show ?case by (simp add: Let_def split: option.split)
qed simp

text \<open>A split without problems names distinct open purchases, each for at most what is owed on it.\<close>

lemma fits_loop_ok:
  assumes "fits_loop owed as seen [] tot = ([], t)" and "\<forall>a \<in> set as. is_cents (ai_amount a)" and "is_cents tot"
  shows "distinct (map ai_purchaseId as) \<and> set (map ai_purchaseId as) \<inter> set seen = {} \<and>
     (\<forall>a \<in> set as. 0 < ai_amount a \<and> (\<exists>p. owed (ai_purchaseId a) = Some p \<and> ai_amount a \<le> round2 (op_outstanding p))) \<and>
     t = tot + (\<Sum>a\<leftarrow>as. ai_amount a)"
  using assms
proof (induction as arbitrary: seen tot)
  case (Cons a as)
  note more = fits_loop_problems [of owed as]
  have nonempty: "fits_loop owed as sn (ps @ [q]) tt \<noteq> ([], t)" for sn ps q tt
    using more [of sn "ps @ [q]" tt] by (cases "fits_loop owed as sn (ps @ [q]) tt") auto
  have pos: "0 < ai_amount a" and new: "ai_purchaseId a \<notin> set seen"
    using Cons.prems(1) nonempty [of _ "[]"] by (auto simp: Let_def split: if_splits)
  then obtain p where p: "owed (ai_purchaseId a) = Some p" "round2 (ai_amount a) \<le> round2 (op_outstanding p)"
    and rest: "fits_loop owed as (ai_purchaseId a # seen) [] (round2 (tot + ai_amount a)) = ([], t)"
    using Cons.prems(1) nonempty [of _ "[]"] by (auto simp: Let_def split: option.splits if_splits)
  have c: "is_cents (ai_amount a)" "is_cents (tot + ai_amount a)" using Cons.prems(2,3) by auto
  from Cons.IH [OF rest] Cons.prems(2) c pos new p show ?case by auto
qed simp

lemma assertAllocationFits_ok:
  assumes "assertAllocationFits amount as owed = Inr u" and "\<forall>a \<in> set as. is_cents (ai_amount a)" and "is_cents amount"
  shows "as \<noteq> []" "distinct (map ai_purchaseId as)" "(\<Sum>a\<leftarrow>as. ai_amount a) = amount"
    "\<forall>a \<in> set as. 0 < ai_amount a \<and> (\<exists>p. owed (ai_purchaseId a) = Some p \<and> ai_amount a \<le> round2 (op_outstanding p))"
proof -
  from assms(1) obtain t where t: "fits_loop owed as [] [] 0 = ([], t)" "round2 t = round2 amount" "as \<noteq> []"
    by (auto simp: assertAllocationFits_def split: if_splits prod.splits)
  note ok = fits_loop_ok [OF t(1) assms(2)]
  from ok have sum: "t = (\<Sum>a\<leftarrow>as. ai_amount a)" by simp
  moreover have "is_cents (\<Sum>a\<leftarrow>as. ai_amount a)" using assms(2) by (intro is_cents_sum_list) auto
  ultimately show "(\<Sum>a\<leftarrow>as. ai_amount a) = amount" using t(2) assms(3) by simp
  show "as \<noteq> []" "distinct (map ai_purchaseId as)"
    "\<forall>a \<in> set as. 0 < ai_amount a \<and> (\<exists>p. owed (ai_purchaseId a) = Some p \<and> ai_amount a \<le> round2 (op_outstanding p))"
    using t(3) ok by simp_all
qed

lemma assertStillPayable_ok:
  "assertStillPayable as owed = Inr u \<longleftrightarrow>
     (\<forall>a \<in> set as. \<exists>p. owed (ai_purchaseId a) = Some p \<and> round2 (ai_amount a) \<le> round2 (op_outstanding p))"
  by (induction as) (auto split: option.split)

text \<open>The suggestion spends what it can, oldest purchases first, and passes the checks.\<close>

lemma allocate_loop_sum:
  assumes "is_cents left" "\<forall>p \<in> set ps. is_cents (op_outstanding p) \<and> 0 < op_outstanding p"
  shows "(\<Sum>a\<leftarrow>allocate_loop left ps. ai_amount a) = max 0 (min left (\<Sum>p\<leftarrow>ps. op_outstanding p))"
  using assms
proof (induction ps arbitrary: left)
  case (Cons p ps)
  have nn: "0 \<le> (\<Sum>p\<leftarrow>ps. op_outstanding p)" using Cons.prems(2) by (intro sum_list_nonneg) auto
  show ?case
  proof (cases "left \<le> 0")
    case False
    define tk where "tk = min left (op_outstanding p)"
    have tk: "is_cents tk" "0 < tk" "tk \<le> left" using Cons.prems False by (auto simp: tk_def)
    have "(\<Sum>a\<leftarrow>allocate_loop left (p # ps). ai_amount a) = tk + max 0 (min (left - tk) (\<Sum>p\<leftarrow>ps. op_outstanding p))"
      using False tk Cons.IH [of "left - tk"] Cons.prems by (simp add: Let_def tk_def [symmetric])
    with False nn Cons.prems show ?thesis by (auto simp: tk_def min_def max_def)
  qed (use nn Cons.prems in \<open>simp add: min_def\<close>)
qed simp

text \<open>A purchase is touched only when every older one of the list is paid in full.\<close>

lemma allocate_loop_prefix:
  assumes "is_cents left" "\<forall>p \<in> set ps. is_cents (op_outstanding p) \<and> 0 < op_outstanding p"
  shows "\<exists>n. map ai_purchaseId (allocate_loop left ps) = map op_purchaseId (take n ps) \<and> n \<le> length ps \<and>
     (\<forall>i < n. ai_amount (allocate_loop left ps ! i) \<le> op_outstanding (ps ! i) \<and> 0 < ai_amount (allocate_loop left ps ! i)) \<and>
     (\<forall>i. Suc i < n \<longrightarrow> ai_amount (allocate_loop left ps ! i) = op_outstanding (ps ! i))"
  using assms
proof (induction ps arbitrary: left)
  case Nil
  show ?case by (intro exI [of _ 0]) simp
next
  case (Cons p ps)
  show ?case
  proof (cases "left \<le> 0")
    case True
    then show ?thesis by (intro exI [of _ 0]) simp
  next
    case False
    define tk where "tk = min left (op_outstanding p)"
    have tk: "is_cents tk" "0 < tk" "tk \<le> left" "tk \<le> op_outstanding p" using Cons.prems False by (auto simp: tk_def)
    have step: "allocate_loop left (p # ps) = \<lparr>ai_purchaseId = op_purchaseId p, ai_amount = tk\<rparr> # allocate_loop (left - tk) ps"
      using False tk Cons.prems by (simp add: Let_def tk_def [symmetric])
    obtain n where n: "map ai_purchaseId (allocate_loop (left - tk) ps) = map op_purchaseId (take n ps)" "n \<le> length ps"
      "\<forall>i < n. ai_amount (allocate_loop (left - tk) ps ! i) \<le> op_outstanding (ps ! i) \<and> 0 < ai_amount (allocate_loop (left - tk) ps ! i)"
      "\<forall>i. Suc i < n \<longrightarrow> ai_amount (allocate_loop (left - tk) ps ! i) = op_outstanding (ps ! i)"
      using Cons.IH [of "left - tk"] Cons.prems tk by auto
    have full: "tk = op_outstanding p" if "0 < n"
    proof (rule ccontr)
      assume "tk \<noteq> op_outstanding p"
      then have "tk = left" by (auto simp: tk_def min_def split: if_splits)
      then have "allocate_loop (left - tk) ps = []" by (cases ps) simp_all
      with n(1,2) that show False by (cases ps) auto
    qed
    show ?thesis
    proof (intro exI [of _ "Suc n"] conjI allI impI)
      fix i assume "Suc i < Suc n"
      then show "ai_amount (allocate_loop left (p # ps) ! i) = op_outstanding ((p # ps) ! i)"
        unfolding step using n(4) full by (cases i) auto
    next
      fix i assume "i < Suc n"
      then show "ai_amount (allocate_loop left (p # ps) ! i) \<le> op_outstanding ((p # ps) ! i)"
        "0 < ai_amount (allocate_loop left (p # ps) ! i)"
        unfolding step using n(3) tk by (cases i; simp)+
    qed (unfold step, use n in simp_all)
  qed
qed

end
