(* ===== verification/CorrectionRules.thy ===== *)
theory CorrectionRules
  imports Books
begin

text \<open>
  The rules of correcting a confirmed payment (\<^verbatim>\<open>src/src/corrections/correction-rules.ts\<close>) and
  the condition by which every live liability skips a corrected payment
  (\<^verbatim>\<open>src/src/corrections/correction-sql.ts\<close>).
\<close>

datatype correction_reason =
    NoSuchPayment
  | NotConfirmed
  | AlreadyCorrected
  | RequestPending
  | ReasonRequired
  | AlreadyApproved
  | AlreadyRejected
  | DayAlreadyClosed nat
  | IdempotencyConflict
  | RefreshRequired
  | CorrectionNotFound
  | OneApprovedPerTarget
  | NoBranch

type_synonym correction_error = "correction_reason http_error"

text \<open>The payment to correct, reduced to what a correction copies.\<close>

record CorrectionTarget =
  tg_confirmed :: bool
  tg_branchId :: id
  tg_amount :: number
  tg_method :: Method
  tg_accountLabel :: "string option"

definition assertTargetCorrectable :: "CorrectionTarget option \<Rightarrow> correction_error + CorrectionTarget" where
  "assertTargetCorrectable target =
     (case target of
        None \<Rightarrow> Inl (BadRequest NoSuchPayment)
      | Some t \<Rightarrow> if tg_confirmed t then Inr t else Inl (Conflict NotConfirmed))"

definition assertNotAlreadyCorrected :: "CorrectionStatus list \<Rightarrow> correction_error + unit" where
  "assertNotAlreadyCorrected existing = require (\<not> list_ex (\<lambda>s. s = fc_approved) existing) (Conflict AlreadyCorrected)"

definition assertNoOpenRequest :: "CorrectionStatus list \<Rightarrow> correction_error + unit" where
  "assertNoOpenRequest existing = require (\<not> list_ex (\<lambda>s. s = fc_requested) existing) (Conflict RequestPending)"

definition assertReasonGiven :: "string option \<Rightarrow> correction_error + string" where
  "assertReasonGiven reason =
     (let trimmed = js_trim (or_empty reason)
      in if trimmed = [] then Inl (BadRequest ReasonRequired) else Inr trimmed)"

definition assertDecidable :: "correction \<Rightarrow> correction_error + unit" where
  "assertDecidable f =
     (case fc_status f of
        fc_requested \<Rightarrow> Inr ()
      | fc_approved \<Rightarrow> Inl (Conflict AlreadyApproved)
      | fc_rejected \<Rightarrow> Inl (Conflict AlreadyRejected))"

definition assertDayOpen :: "closing option \<Rightarrow> nat \<Rightarrow> correction_error + unit" where
  "assertDayOpen k day =
     require (\<not> (case k of None \<Rightarrow> False | Some x \<Rightarrow> cl_isLocked x)) (Conflict (DayAlreadyClosed day))"

definition kind_text :: "CorrectionKind \<Rightarrow> string" where
  "kind_text k = (case k of refund_payout \<Rightarrow> ''refund_payout'' | supplier_settlement \<Rightarrow> ''supplier_settlement'')"

definition fingerprintCorrection ::
  "(string \<Rightarrow> string) \<Rightarrow> CorrectionKind \<Rightarrow> id \<Rightarrow> string \<Rightarrow> string option \<Rightarrow> string" where
  "fingerprintCorrection sha256 kind targetId reason supportingReference =
     sha256 (join ''|'' [kind_text kind, binToUuid targetId, js_trim reason, js_trim (or_empty supportingReference)])"

section \<open>Corrected payments\<close>

definition settlementNotCorrected :: "id \<Rightarrow> books \<Rightarrow> bool" where
  "settlementNotCorrected i b \<longleftrightarrow>
     \<not> list_ex (\<lambda>(_, f). fc_targetSupplierSettlementId f = Some i \<and> fc_status f = fc_approved) (bk_corrections b)"

definition payoutNotCorrected :: "id \<Rightarrow> books \<Rightarrow> bool" where
  "payoutNotCorrected i b \<longleftrightarrow>
     \<not> list_ex (\<lambda>(_, f). fc_targetRefundPayoutId f = Some i \<and> fc_status f = fc_approved) (bk_corrections b)"

lemma assertTargetCorrectable_ok: "assertTargetCorrectable target = Inr t \<longleftrightarrow> target = Some t \<and> tg_confirmed t"
  by (auto simp: assertTargetCorrectable_def split: option.splits)

lemma assertDecidable_ok [simp]: "assertDecidable f = Inr u \<longleftrightarrow> fc_status f = fc_requested"
  by (auto simp: assertDecidable_def split: CorrectionStatus.splits)

lemma assertDayOpen_ok: "assertDayOpen k day = Inr u \<longleftrightarrow> (\<forall>x. k = Some x \<longrightarrow> \<not> cl_isLocked x)"
  by (auto simp: assertDayOpen_def split: option.splits)

lemma existing_ok:
  "assertNotAlreadyCorrected ss = Inr u \<longleftrightarrow> fc_approved \<notin> set ss"
  "assertNoOpenRequest ss = Inr u \<longleftrightarrow> fc_requested \<notin> set ss"
  by (auto simp: assertNotAlreadyCorrected_def assertNoOpenRequest_def list_ex_iff)

end
