(* ===== verification/Suppliers.thy ===== *)
theory Suppliers
  imports Payable Closing CorrectionRules
begin

text \<open>
  Suppliers, what the shop owes them, and recording that it paid
  (\<^verbatim>\<open>src/src/suppliers/suppliers.service.ts\<close>). What is owed is derived from the purchases and the
  confirmed allocations on every read. The collation of the database, by which names are
  compared and searched, and SHA-256 are parameters; names of branches and users in the views
  are left out.
\<close>

datatype supplier_reason =
    SupplierNotFound
  | SupplierExists string
  | NothingToChange
  | SupplierInactive
  | BranchNeeded
  | UsedForDifferentPayment
  | Payable payable_refusal
  | CashNamesNoAccount
  | ChooseAccount
  | AccountNotFound
  | AccountInactive
  | PaymentNotFound
  | AlreadyConfirmed
  | DayLocked nat
  | ChangedMeanwhile

type_synonym supplier_error = "supplier_reason http_error"

definition seesMoney :: "ctx \<Rightarrow> bool" where
  "seesMoney c \<longleftrightarrow> has_permission c ''supplier.manage'' \<or> has_permission c ''supplier.payment.confirm''"

section \<open>What is owed\<close>

text \<open>The allocations of confirmed payments that carry no approved correction.\<close>

definition live_allocations :: "id \<Rightarrow> books \<Rightarrow> allocation list" where
  "live_allocations co b =
     rows_where (\<lambda>a. case map_of (bk_settlements b) (al_settlementId a) of
                       None \<Rightarrow> False
                     | Some s \<Rightarrow> st_companyId s = co \<and> st_status s = st_confirmed \<and>
                                 settlementNotCorrected (al_settlementId a) b) (bk_allocations b)"

definition supplier_of :: "books \<Rightarrow> allocation \<Rightarrow> id option" where
  "supplier_of b a = map_option st_supplierId (map_of (bk_settlements b) (al_settlementId a))"

definition purchases_of :: "id \<Rightarrow> id \<Rightarrow> books \<Rightarrow> (id \<times> purchase) list" where
  "purchases_of co sid b =
     sort_key (\<lambda>(_, p). pu_date p) (filter (\<lambda>(_, p). pu_companyId p = co \<and> pu_supplierId p = sid) (bk_purchases b))"

definition outstandingBySupplier :: "id \<Rightarrow> id list \<Rightarrow> books \<Rightarrow> (id \<times> number) list" where
  "outstandingBySupplier co ids b =
     map (\<lambda>i. (i, let ps = purchases_of co i b;
                      amt = sum_of al_amount (filter (\<lambda>a. supplier_of b a = Some i) (live_allocations co b))
                  in if ps = [] then round2 (- amt) else round2 (sum_of (\<lambda>(_, p). pu_total p) ps - amt))) ids"

definition openPurchases :: "id \<Rightarrow> id \<Rightarrow> books \<Rightarrow> OutstandingPurchase list" where
  "openPurchases co sid b =
     (let as = filter (\<lambda>a. supplier_of b a = Some sid) (live_allocations co b)
      in filter (\<lambda>p. op_outstanding p > 0)
           (map (\<lambda>(i, p). let amt = sum_of al_amount (filter (\<lambda>a. al_purchaseId a = i) as)
                          in \<lparr>op_purchaseId = i, op_total = pu_total p, op_paid = round2 amt,
                              op_outstanding = round2 (pu_total p - amt), op_date = pu_date p\<rparr>) (purchases_of co sid b)))"

section \<open>Suppliers\<close>

definition load :: "ctx \<Rightarrow> id \<Rightarrow> books \<Rightarrow> supplier_error + supplier" where
  "load c i b =
     (case map_of (bk_suppliers b) i of
        None \<Rightarrow> Inl (NotFound SupplierNotFound)
      | Some s \<Rightarrow> if sp_companyId s = c_companyId c then Inr s else Inl (NotFound SupplierNotFound))"

datatype SupplierFilter = only_active | only_inactive | every_supplier

record ListSuppliersDto =
  ls_search :: "string option"
  ls_status :: "SupplierFilter option"
  ls_cursor :: "id option"
  ls_limit :: "int option"

record SupplierLine =
  sl_id :: id
  sl_name :: string
  sl_phone :: "string option"
  sl_isActive :: bool
  sl_outstanding :: "number option"

text \<open>
  A page in the order of the keys: the cursor row and what follows it, without the cursor row;
  nothing when there is no such row.
\<close>

definition after_cursor :: "id option \<Rightarrow> ('v \<Rightarrow> bool) \<Rightarrow> (id, 'v) table \<Rightarrow> (id \<times> 'v) list" where
  "after_cursor cursor p t =
     (let rows = sort_key fst (filter (\<lambda>(_, r). p r) t)
      in case cursor of
           None \<Rightarrow> rows
         | Some k \<Rightarrow> if map_of t k = None then [] else drop 1 (filter (\<lambda>(i, _). k \<le> i) rows))"

definition list_suppliers ::
  "(string \<Rightarrow> string \<Rightarrow> bool) \<Rightarrow> ctx \<Rightarrow> ListSuppliersDto \<Rightarrow> books \<Rightarrow> SupplierLine list \<times> id option" where
  "list_suppliers contains c q b =
     (let limit = nat (min (max (case ls_limit q of None \<Rightarrow> 20 | Some n \<Rightarrow> n) 1) 50);
          search = (case ls_search q of None \<Rightarrow> [] | Some s \<Rightarrow> js_trim s);
          matches = (\<lambda>s. sp_companyId s = c_companyId c \<and>
             (case (case ls_status q of None \<Rightarrow> only_active | Some f \<Rightarrow> f) of
                only_active \<Rightarrow> sp_deletedAt s = None
              | only_inactive \<Rightarrow> sp_deletedAt s \<noteq> None
              | every_supplier \<Rightarrow> True) \<and>
             (search = [] \<or> contains (sp_name s) search \<or>
              (case sp_phone s of None \<Rightarrow> False | Some p \<Rightarrow> contains p search)));
          rows = take (limit + 1) (after_cursor (ls_cursor q) matches (bk_suppliers b));
          page = take limit rows;
          money = (if seesMoney c then outstandingBySupplier (c_companyId c) (map fst page) b else [])
      in (map (\<lambda>(i, s). \<lparr>sl_id = i, sl_name = sp_name s, sl_phone = sp_phone s, sl_isActive = (sp_deletedAt s = None),
                         sl_outstanding = (if seesMoney c then Some (case map_of money i of None \<Rightarrow> 0 | Some x \<Rightarrow> x) else None)\<rparr>) page,
          if length rows > limit then Some (fst (last page)) else None))"

section \<open>Views\<close>

record CorrectionNote =
  cq_id :: id
  cq_status :: CorrectionStatus
  cq_reason :: string
  cq_correctionDate :: "nat option"
  cq_version :: nat

record SettlementView =
  sv_id :: id
  sv_status :: SettlementStatus
  sv_version :: nat
  sv_amount :: number
  sv_method :: Method
  sv_accountLabel :: "string option"
  sv_transactionReference :: "string option"
  sv_note :: "string option"
  sv_confirmedAt :: "nat option"
  sv_confirmationDate :: "nat option"
  sv_allocations :: "AllocationInput list"
  sv_correction :: "CorrectionNote option"

definition allocations_of :: "id \<Rightarrow> books \<Rightarrow> allocation list" where
  "allocations_of i b = rows_where (\<lambda>a. al_settlementId a = i) (bk_allocations b)"

definition allocation_inputs :: "allocation list \<Rightarrow> AllocationInput list" where
  "allocation_inputs as = map (\<lambda>a. \<lparr>ai_purchaseId = al_purchaseId a, ai_amount = al_amount a\<rparr>) as"

text \<open>The newest correction of a payment, by key.\<close>

definition latest_correction :: "id \<Rightarrow> books \<Rightarrow> CorrectionNote option" where
  "latest_correction i b =
     (case rev (sort_key fst (filter (\<lambda>(_, f). fc_targetSupplierSettlementId f = Some i) (bk_corrections b))) of
        [] \<Rightarrow> None
      | (k, f) # _ \<Rightarrow> Some \<lparr>cq_id = k, cq_status = fc_status f, cq_reason = fc_reason f,
                             cq_correctionDate = fc_correctionDate f, cq_version = fc_version f\<rparr>)"

definition settlementView :: "id \<Rightarrow> settlement \<Rightarrow> CorrectionNote option \<Rightarrow> books \<Rightarrow> SettlementView" where
  "settlementView i s corr b =
     \<lparr>sv_id = i, sv_status = st_status s, sv_version = st_version s, sv_amount = st_amount s, sv_method = st_method s,
      sv_accountLabel = st_accountLabelSnapshot s, sv_transactionReference = st_transactionReference s, sv_note = st_note s,
      sv_confirmedAt = st_confirmedAt s, sv_confirmationDate = st_confirmationDate s,
      sv_allocations = allocation_inputs (allocations_of i b), sv_correction = corr\<rparr>"

record PurchaseLine =
  pl_purchaseId :: id
  pl_referenceNo :: "string option"
  pl_date :: nat
  pl_dueDate :: "nat option"
  pl_total :: number
  pl_paid :: number
  pl_outstanding :: number
  pl_status :: PurchaseStatus

record SupplierLedger =
  lv_totalPurchased :: number
  lv_totalConfirmedPaid :: number
  lv_outstanding :: number
  lv_awaitingConfirmation :: number
  lv_purchases :: "PurchaseLine list"
  lv_settlements :: "SettlementView list"

record SupplierDetail =
  sd_id :: id
  sd_name :: string
  sd_phone :: "string option"
  sd_notes :: "string option"
  sd_isActive :: bool
  sd_ledger :: "SupplierLedger option"

text \<open>The map built by the loop over confirmed payments and their allocations.\<close>

definition paidByPurchase :: "(id \<times> settlement) list \<Rightarrow> books \<Rightarrow> id \<Rightarrow> number" where
  "paidByPurchase ss b =
     fold (\<lambda>a m. m(al_purchaseId a := round2 (m (al_purchaseId a) + al_amount a)))
       (concat (map (\<lambda>(i, s). allocations_of i b) (filter (\<lambda>(_, s). st_status s = st_confirmed) ss))) (\<lambda>_. 0)"

definition settlements_of :: "id \<Rightarrow> id \<Rightarrow> books \<Rightarrow> (id \<times> settlement) list" where
  "settlements_of co sid b =
     rev (sort_key fst (filter (\<lambda>(_, s). st_companyId s = co \<and> st_supplierId s = sid) (bk_settlements b)))"

definition purchase_line :: "(id \<Rightarrow> number) \<Rightarrow> id \<times> purchase \<Rightarrow> PurchaseLine" where
  "purchase_line pd x =
     (let i = fst x; p = snd x
      in \<lparr>pl_purchaseId = i, pl_referenceNo = pu_referenceNo p, pl_date = pu_date p, pl_dueDate = pu_dueDate p,
          pl_total = pu_total p, pl_paid = round2 (pd i), pl_outstanding = round2 (pu_total p - pd i),
          pl_status = purchaseStatusOf (pu_total p) (pd i)\<rparr>)"

definition supplier_ledger :: "id \<Rightarrow> id \<Rightarrow> books \<Rightarrow> SupplierLedger" where
  "supplier_ledger co sid b =
     (let ss = settlements_of co sid b;
          ledger = map (purchase_line (paidByPurchase ss b)) (purchases_of co sid b)
      in \<lparr>lv_totalPurchased = round2 (sum_of pl_total ledger),
          lv_totalConfirmedPaid = round2 (sum_of (\<lambda>(_, s). st_amount s) (filter (\<lambda>(_, s). st_status s = st_confirmed) ss)),
          lv_outstanding = round2 (sum_of pl_outstanding ledger),
          lv_awaitingConfirmation = round2 (sum_of (\<lambda>(_, s). st_amount s) (filter (\<lambda>(_, s). st_status s = st_reported) ss)),
          lv_purchases = ledger,
          lv_settlements = map (\<lambda>(i, s). settlementView i s (latest_correction i b) b) ss\<rparr>)"

definition detail :: "ctx \<Rightarrow> id \<Rightarrow> books \<Rightarrow> supplier_error + SupplierDetail" where
  "detail c i b =
     bindE (load c i b) (\<lambda>s.
       Inr \<lparr>sd_id = i, sd_name = sp_name s, sd_phone = sp_phone s, sd_notes = sp_notes s, sd_isActive = (sp_deletedAt s = None),
            sd_ledger = (if seesMoney c then Some (supplier_ledger (c_companyId c) i b) else None)\<rparr>)"

section \<open>Creating and changing suppliers\<close>

record CreateSupplierDto =
  cs_name :: string
  cs_phone :: "string option"
  cs_notes :: "string option"

record UpdateSupplierDto =
  up_name :: "string option"
  up_phone :: "string option"
  up_notes :: "string option"
  up_isActive :: "bool option"

text \<open>The unique key on company and name.\<close>

definition name_taken :: "(string \<Rightarrow> string \<Rightarrow> bool) \<Rightarrow> id \<Rightarrow> id \<Rightarrow> string \<Rightarrow> books \<Rightarrow> bool" where
  "name_taken same co i name b \<longleftrightarrow>
     list_ex (\<lambda>(j, s). j \<noteq> i \<and> sp_companyId s = co \<and> same (sp_name s) name) (bk_suppliers b)"

definition create ::
  "(string \<Rightarrow> string \<Rightarrow> bool) \<Rightarrow> ctx \<Rightarrow> id \<Rightarrow> CreateSupplierDto \<Rightarrow> books \<Rightarrow> (supplier_error + SupplierDetail) \<times> books" where
  "create same c newId dto b =
     (if name_taken same (c_companyId c) newId (cs_name dto) b then (Inl (Conflict (SupplierExists (cs_name dto))), b)
      else
        (let b1 = b\<lparr>bk_suppliers := t_insert newId
                       \<lparr>sp_companyId = c_companyId c, sp_name = cs_name dto, sp_phone = cs_phone dto, sp_notes = cs_notes dto,
                        sp_balance = 0, sp_deletedAt = None\<rparr> (bk_suppliers b),
                    bk_audit := bk_audit b @ [audit_row_of c ''Supplier'' newId ''create'' None None]\<rparr>
         in (detail c newId b1, b1)))"

text \<open>\<^verbatim>\<open>dto.phone || null\<close>\<close>

definition or_null :: "string \<Rightarrow> string option" where
  "or_null s = (if s = [] then None else Some s)"

definition update_row :: "ctx \<Rightarrow> UpdateSupplierDto \<Rightarrow> supplier \<Rightarrow> supplier" where
  "update_row c dto s =
     s\<lparr>sp_name := (case up_name dto of None \<Rightarrow> sp_name s | Some n \<Rightarrow> n),
       sp_phone := (case up_phone dto of None \<Rightarrow> sp_phone s | Some p \<Rightarrow> or_null p),
       sp_notes := (case up_notes dto of None \<Rightarrow> sp_notes s | Some n \<Rightarrow> or_null n),
       sp_deletedAt := (case up_isActive dto of None \<Rightarrow> sp_deletedAt s | Some a \<Rightarrow> if a then None else Some (c_now c))\<rparr>"

definition update ::
  "(string \<Rightarrow> string \<Rightarrow> bool) \<Rightarrow> ctx \<Rightarrow> id \<Rightarrow> UpdateSupplierDto \<Rightarrow> books \<Rightarrow> (supplier_error + SupplierDetail) \<times> books" where
  "update same c i dto b =
     (case load c i b of
        Inl e \<Rightarrow> (Inl e, b)
      | Inr s \<Rightarrow>
          if up_name dto = None \<and> up_phone dto = None \<and> up_notes dto = None \<and> up_isActive dto = None
          then (Inl (BadRequest NothingToChange), b)
          else if (case up_name dto of None \<Rightarrow> False | Some n \<Rightarrow> name_taken same (c_companyId c) i n b)
          then (Inl (Conflict (SupplierExists (case up_name dto of None \<Rightarrow> sp_name s | Some n \<Rightarrow> n))), b)
          else
            (let b1 = b\<lparr>bk_suppliers := t_update i (update_row c dto) (bk_suppliers b),
                        bk_audit := bk_audit b @ [audit_row_of c ''Supplier'' i ''update'' None None]\<rparr>
             in (detail c i b1, b1)))"

section \<open>Payments: what is payable, and reporting\<close>

record PayableView =
  pv_supplierId :: id
  pv_isActive :: bool
  pv_outstanding :: number
  pv_purchases :: "OutstandingPurchase list"
  pv_suggested :: "AllocationInput list"

definition payableFor :: "ctx \<Rightarrow> id \<Rightarrow> number option \<Rightarrow> books \<Rightarrow> supplier_error + PayableView" where
  "payableFor c i amount b =
     bindE (load c i b) (\<lambda>s.
       let open = openPurchases (c_companyId c) i b
       in Inr \<lparr>pv_supplierId = i, pv_isActive = (sp_deletedAt s = None), pv_outstanding = round2 (sum_of op_outstanding open),
               pv_purchases = open,
               pv_suggested = (case amount of None \<Rightarrow> [] | Some a \<Rightarrow> if a > 0 then allocateOldestFirst a open else [])\<rparr>)"

definition resolveAccount :: "ctx \<Rightarrow> Method \<Rightarrow> id option \<Rightarrow> bool \<Rightarrow> books \<Rightarrow> supplier_error + (id \<times> account_row) option" where
  "resolveAccount c meth accountId mustBeActive b =
     (case meth of
        cash \<Rightarrow> if accountId \<noteq> None then Inl (BadRequest CashNamesNoAccount) else Inr None
      | account \<Rightarrow>
          (case accountId of
             None \<Rightarrow> Inl (BadRequest ChooseAccount)
           | Some a \<Rightarrow>
               (case map_of (bk_accounts b) a of
                  None \<Rightarrow> Inl (NotFound AccountNotFound)
                | Some r \<Rightarrow>
                    if ac_companyId r \<noteq> c_companyId c then Inl (NotFound AccountNotFound)
                    else if mustBeActive \<and> \<not> ac_isActive r then Inl (Conflict AccountInactive)
                    else Inr (Some (a, r)))))"

record ReportSettlementDto =
  rs_supplierId :: id
  rs_amount :: number
  rs_method :: Method
  rs_receivingAccountId :: "id option"
  rs_allocations :: "AllocationInput list"
  rs_transactionReference :: "string option"
  rs_note :: "string option"
  rs_clientUuid :: id

definition loadSettlement :: "ctx \<Rightarrow> id \<Rightarrow> books \<Rightarrow> supplier_error + settlement" where
  "loadSettlement c i b =
     (case map_of (bk_settlements b) i of
        None \<Rightarrow> Inl (NotFound PaymentNotFound)
      | Some s \<Rightarrow> if st_companyId s = c_companyId c then Inr s else Inl (NotFound PaymentNotFound))"

text \<open>The view of one payment does not read its corrections.\<close>

definition settlement_detail :: "ctx \<Rightarrow> id \<Rightarrow> books \<Rightarrow> supplier_error + SettlementView" where
  "settlement_detail c i b = bindE (loadSettlement c i b) (\<lambda>s. Inr (settlementView i s None b))"

definition findReplay :: "ctx \<Rightarrow> id \<Rightarrow> string \<Rightarrow> books \<Rightarrow> supplier_error + SettlementView option" where
  "findReplay c clientUuid fp b =
     (case find (\<lambda>(_, s). st_companyId s = c_companyId c \<and> st_clientUuid s = clientUuid) (bk_settlements b) of
        None \<Rightarrow> Inr None
      | Some (i, s) \<Rightarrow>
          if st_clientRequestHash s \<noteq> fp then Inl (Conflict UsedForDifferentPayment)
          else bindE (settlement_detail c i b) (\<lambda>v. Inr (Some v)))"

definition payable :: "payable_refusal + unit \<Rightarrow> supplier_error + unit" where
  "payable r = (case r of Inl (AlreadyPaid i x y) \<Rightarrow> Inl (Conflict (Payable (AlreadyPaid i x y)))
                        | Inl e \<Rightarrow> Inl (BadRequest (Payable e)) | Inr u \<Rightarrow> Inr u)"

definition new_allocation :: "ctx \<Rightarrow> id \<Rightarrow> AllocationInput \<Rightarrow> allocation" where
  "new_allocation c i a =
     \<lparr>al_companyId = c_companyId c, al_settlementId = i, al_purchaseId = ai_purchaseId a, al_amount = ai_amount a\<rparr>"

fun add_allocations :: "(nat \<Rightarrow> id) \<Rightarrow> nat \<Rightarrow> allocation list \<Rightarrow> (id, allocation) table \<Rightarrow> (id, allocation) table" where
  "add_allocations ids j [] t = t"
| "add_allocations ids j (a # as) t = add_allocations ids (Suc j) as (t_insert (ids j) a t)"

definition report_tx ::
  "(string \<Rightarrow> string) \<Rightarrow> ctx \<Rightarrow> id \<Rightarrow> (nat \<Rightarrow> id) \<Rightarrow> id \<Rightarrow> ReportSettlementDto \<Rightarrow> (id \<times> account_row) option \<Rightarrow> books \<Rightarrow> books" where
  "report_tx sha256 c newId ids branch dto acc b =
     b\<lparr>bk_settlements := t_insert newId
          \<lparr>st_companyId = c_companyId c, st_branchId = branch, st_supplierId = rs_supplierId dto, st_status = st_reported,
           st_amount = rs_amount dto, st_method = rs_method dto, st_receivingAccountId = map_option fst acc,
           st_accountLabelSnapshot = map_option (ac_label \<circ> snd) acc, st_transactionReference = rs_transactionReference dto,
           st_note = rs_note dto, st_version = 0, st_clientUuid = rs_clientUuid dto,
           st_clientRequestHash = settlementFingerprint sha256 (rs_supplierId dto) (rs_amount dto) (rs_method dto)
             (rs_receivingAccountId dto) (rs_allocations dto),
           st_reportedById = c_userId c, st_confirmedById = None, st_confirmedAt = None, st_confirmationDate = None\<rparr>
          (bk_settlements b),
       bk_allocations := add_allocations ids 0 (map (new_allocation c newId) (rs_allocations dto)) (bk_allocations b),
       bk_audit := bk_audit b @ [audit_row_of c ''SupplierSettlement'' newId ''create'' None (Some branch)]\<rparr>"

text \<open>The answer of an earlier attempt, or the branch and the account to write.\<close>

definition report_plan ::
  "(string \<Rightarrow> string) \<Rightarrow> ctx \<Rightarrow> ReportSettlementDto \<Rightarrow> books
   \<Rightarrow> supplier_error + (SettlementView + id \<times> (id \<times> account_row) option)" where
  "report_plan sha256 c dto b =
     (case c_branchId c of
        None \<Rightarrow> Inl (BadRequest BranchNeeded)
      | Some branch \<Rightarrow>
          bindE (load c (rs_supplierId dto) b) (\<lambda>s.
          bindE (require (sp_deletedAt s = None) (Conflict SupplierInactive)) (\<lambda>_.
          bindE (findReplay c (rs_clientUuid dto)
                   (settlementFingerprint sha256 (rs_supplierId dto) (rs_amount dto) (rs_method dto)
                      (rs_receivingAccountId dto) (rs_allocations dto)) b) (\<lambda>replay.
          case replay of
            Some v \<Rightarrow> Inr (Inl v)
          | None \<Rightarrow>
              bindE (payable (assertAllocationFits (rs_amount dto) (rs_allocations dto)
                       (by_purchase (openPurchases (c_companyId c) (rs_supplierId dto) b)))) (\<lambda>_.
              bindE (resolveAccount c (rs_method dto) (rs_receivingAccountId dto) True b) (\<lambda>acc.
                Inr (Inr (branch, acc))))))))"

definition report ::
  "(string \<Rightarrow> string) \<Rightarrow> ctx \<Rightarrow> id \<Rightarrow> (nat \<Rightarrow> id) \<Rightarrow> ReportSettlementDto \<Rightarrow> books \<Rightarrow> (supplier_error + SettlementView) \<times> books" where
  "report sha256 c newId ids dto b =
     (case report_plan sha256 c dto b of
        Inl e \<Rightarrow> (Inl e, b)
      | Inr (Inl v) \<Rightarrow> (Inr v, b)
      | Inr (Inr (branch, acc)) \<Rightarrow>
          let b1 = report_tx sha256 c newId ids branch dto acc b in (settlement_detail c newId b1, b1))"

section \<open>Changing a reported payment\<close>

record CorrectSettlementDto =
  ct_expectedVersion :: nat
  ct_method :: "Method option"
  ct_receivingAccountId :: "id option"
  ct_transactionReference :: "string option"
  ct_note :: "string option"
  ct_allocations :: "AllocationInput list option"

definition changed_row :: "Method \<Rightarrow> (id \<times> account_row) option \<Rightarrow> CorrectSettlementDto \<Rightarrow> settlement \<Rightarrow> settlement" where
  "changed_row meth acc dto s =
     s\<lparr>st_method := meth, st_receivingAccountId := map_option fst acc,
       st_accountLabelSnapshot := (if ct_receivingAccountId dto \<noteq> None \<or> meth = cash
          then map_option (ac_label \<circ> snd) acc else st_accountLabelSnapshot s),
       st_transactionReference := (case ct_transactionReference dto of None \<Rightarrow> st_transactionReference s | Some r \<Rightarrow> or_null r),
       st_note := (case ct_note dto of None \<Rightarrow> st_note s | Some n \<Rightarrow> or_null n),
       st_version := Suc (st_version s)\<rparr>"

definition correct_tx ::
  "ctx \<Rightarrow> (nat \<Rightarrow> id) \<Rightarrow> id \<Rightarrow> settlement \<Rightarrow> Method \<Rightarrow> (id \<times> account_row) option \<Rightarrow> CorrectSettlementDto \<Rightarrow> books
   \<Rightarrow> supplier_error + books" where
  "correct_tx c ids i s0 meth acc dto b =
     (case t_update_where i (\<lambda>s. st_companyId s = c_companyId c \<and> st_version s = ct_expectedVersion dto \<and> st_status s = st_reported)
             (changed_row meth acc dto) (bk_settlements b) of
        (moved, ss) \<Rightarrow>
          if moved = 0 then Inl (Conflict ChangedMeanwhile)
          else Inr (b\<lparr>bk_settlements := ss,
                      bk_allocations := (case ct_allocations dto of
                         None \<Rightarrow> bk_allocations b
                       | Some as \<Rightarrow> add_allocations ids 0 (map (new_allocation c i) as)
                                      (filter (\<lambda>(_, a). al_settlementId a \<noteq> i) (bk_allocations b))),
                      bk_audit := bk_audit b @
                        [audit_row_of c ''SupplierSettlement'' i ''update'' None (Some (st_branchId s0))]\<rparr>))"

definition correct_plan ::
  "ctx \<Rightarrow> id \<Rightarrow> CorrectSettlementDto \<Rightarrow> books \<Rightarrow> supplier_error + settlement \<times> Method \<times> (id \<times> account_row) option" where
  "correct_plan c i dto b =
     bindE (loadSettlement c i b) (\<lambda>s.
     bindE (require (st_status s \<noteq> st_confirmed) (Conflict AlreadyConfirmed)) (\<lambda>_.
     let meth = (case ct_method dto of None \<Rightarrow> st_method s | Some m \<Rightarrow> m)
     in bindE (resolveAccount c meth
                 (case ct_receivingAccountId dto of
                    Some a \<Rightarrow> Some a
                  | None \<Rightarrow> if meth = account then st_receivingAccountId s else None)
                 (ct_receivingAccountId dto \<noteq> None) b) (\<lambda>acc.
        bindE (case ct_allocations dto of
                 None \<Rightarrow> Inr ()
               | Some as \<Rightarrow> payable (assertAllocationFits (st_amount s) as
                               (by_purchase (openPurchases (c_companyId c) (st_supplierId s) b)))) (\<lambda>_.
          Inr (s, meth, acc)))))"

definition correct ::
  "ctx \<Rightarrow> (nat \<Rightarrow> id) \<Rightarrow> id \<Rightarrow> CorrectSettlementDto \<Rightarrow> books \<Rightarrow> (supplier_error + SettlementView) \<times> books" where
  "correct c ids i dto b =
     (case bindE (correct_plan c i dto b) (\<lambda>(s, meth, acc). correct_tx c ids i s meth acc dto b) of
        Inl e \<Rightarrow> (Inl e, b)
      | Inr b1 \<Rightarrow> (settlement_detail c i b1, b1))"

section \<open>Confirming\<close>

text \<open>
  What the confirmation has read before its first write. The check against what is still owed
  is inside the callback of the transaction but reads through the client outside it.
\<close>

definition confirm_read :: "ctx \<Rightarrow> id \<Rightarrow> books \<Rightarrow> supplier_error + (settlement \<times> allocation list)" where
  "confirm_read c i b =
     bindE (loadSettlement c i b) (\<lambda>s.
     bindE (require (st_status s \<noteq> st_confirmed) (Conflict AlreadyConfirmed)) (\<lambda>_.
     bindE (require (\<not> list_ex (\<lambda>(_, k). cl_companyId k = c_companyId c \<and> cl_branchId k = st_branchId s \<and>
                                   cl_closingDate k = dayKey (c_now c) \<and> cl_isLocked k) (bk_closings b))
              (Conflict (DayLocked (dayKey (c_now c))))) (\<lambda>_.
     let as = filter (\<lambda>a. al_companyId a = c_companyId c) (allocations_of i b)
     in bindE (payable (assertStillPayable (allocation_inputs as)
                 (by_purchase (openPurchases (c_companyId c) (st_supplierId s) b)))) (\<lambda>_. Inr (s, as)))))"

definition confirmed_row :: "ctx \<Rightarrow> settlement \<Rightarrow> settlement" where
  "confirmed_row c s =
     s\<lparr>st_status := st_confirmed, st_confirmedById := c_userId c, st_confirmedAt := Some (c_now c),
       st_confirmationDate := Some (dayKey (c_now c)), st_version := Suc (st_version s)\<rparr>"

text \<open>The projection on a purchase, recomputed from the allocations.\<close>

definition project_purchase :: "id \<Rightarrow> id \<Rightarrow> books \<Rightarrow> books" where
  "project_purchase co pid b =
     (let amt = sum_of al_amount (filter (\<lambda>a. al_purchaseId a = pid) (live_allocations co b))
      in b\<lparr>bk_purchases := t_update pid
             (\<lambda>p. p\<lparr>pu_amountPaid := amt, pu_status := purchaseStatusOf (pu_total p) amt\<rparr>) (bk_purchases b)\<rparr>)"

definition confirm_tx ::
  "ctx \<Rightarrow> id \<Rightarrow> nat \<Rightarrow> settlement \<times> allocation list \<Rightarrow> books \<Rightarrow> supplier_error + books" where
  "confirm_tx c i expectedVersion plan b =
     (case t_update_where i (\<lambda>s. st_companyId s = c_companyId c \<and> st_version s = expectedVersion \<and> st_status s = st_reported)
             (confirmed_row c) (bk_settlements b) of
        (moved, ss) \<Rightarrow>
          if moved = 0 then Inl (Conflict ChangedMeanwhile)
          else
            (let b1 = b\<lparr>bk_settlements := ss,
                        bk_suppliers := t_update (st_supplierId (fst plan))
                          (\<lambda>s. s\<lparr>sp_balance := sp_balance s - st_amount (fst plan)\<rparr>) (bk_suppliers b)\<rparr>;
                 b2 = fold (\<lambda>a. project_purchase (c_companyId c) (al_purchaseId a)) (snd plan) b1
             in Inr (b2\<lparr>bk_audit := bk_audit b2 @
                  [audit_row_of c ''SupplierSettlement'' i ''status_change'' None (Some (st_branchId (fst plan)))]\<rparr>)))"

definition confirm :: "ctx \<Rightarrow> id \<Rightarrow> nat \<Rightarrow> books \<Rightarrow> (supplier_error + SettlementView) \<times> books" where
  "confirm c i expectedVersion b =
     (case bindE (confirm_read c i b) (\<lambda>plan. confirm_tx c i expectedVersion plan b) of
        Inl e \<Rightarrow> (Inl e, b)
      | Inr b1 \<Rightarrow> (settlement_detail c i b1, b1))"

end
