(* ===== verification/Corrections.thy ===== *)
theory Corrections
  imports Closing CorrectionRules
begin

text \<open>
  Correcting a payment that was already confirmed
  (\<^verbatim>\<open>src/src/corrections/corrections.service.ts\<close>): the request, the decision, and the reads.
  Approving is three writes that are not one transaction: the guarded status change, the mark
  on a refund payout, and the recomputed figures of the day.
\<close>

record RequestCorrectionDto =
  rq_targetKind :: CorrectionKind
  rq_targetId :: id
  rq_reason :: string
  rq_supportingReference :: "string option"
  rq_clientUuid :: id

record DecideCorrectionDto =
  dq_expectedVersion :: nat
  dq_note :: "string option"

record CorrectionView =
  cv_id :: id
  cv_targetKind :: CorrectionKind
  cv_targetId :: "id option"
  cv_status :: CorrectionStatus
  cv_reason :: string
  cv_supportingReference :: "string option"
  cv_amount :: number
  cv_method :: Method
  cv_accountLabel :: "string option"
  cv_decidedAt :: "nat option"
  cv_correctionDate :: "nat option"
  cv_version :: nat

section \<open>Reads\<close>

definition shape :: "id \<Rightarrow> correction \<Rightarrow> CorrectionView" where
  "shape i f =
     \<lparr>cv_id = i, cv_targetKind = fc_targetKind f,
      cv_targetId = (case fc_targetRefundPayoutId f of Some x \<Rightarrow> Some x | None \<Rightarrow> fc_targetSupplierSettlementId f),
      cv_status = fc_status f, cv_reason = fc_reason f, cv_supportingReference = fc_supportingReference f,
      cv_amount = fc_amount f, cv_method = fc_method f, cv_accountLabel = fc_accountLabelSnapshot f,
      cv_decidedAt = fc_decidedAt f, cv_correctionDate = fc_correctionDate f, cv_version = fc_version f\<rparr>"

definition load :: "ctx \<Rightarrow> id \<Rightarrow> books \<Rightarrow> correction_error + correction" where
  "load c i b =
     (case map_of (bk_corrections b) i of
        None \<Rightarrow> Inl (NotFound CorrectionNotFound)
      | Some f \<Rightarrow> if fc_companyId f = c_companyId c then Inr f else Inl (NotFound CorrectionNotFound))"

definition detail :: "ctx \<Rightarrow> id \<Rightarrow> books \<Rightarrow> correction_error + CorrectionView" where
  "detail c i b = bindE (load c i b) (\<lambda>f. Inr (shape i f))"

text \<open>Newest first, from the row after the cursor.\<close>

definition list_corrections ::
  "ctx \<Rightarrow> CorrectionStatus option \<Rightarrow> id option \<Rightarrow> int option \<Rightarrow> books \<Rightarrow> CorrectionView list \<times> id option" where
  "list_corrections c status cursor limit b =
     (let n = nat (min (max (case limit of None \<Rightarrow> 20 | Some k \<Rightarrow> k) 1) 50);
          all = rev (sort_key fst (filter (\<lambda>(_, f). fc_companyId f = c_companyId c \<and> (status = None \<or> status = Some (fc_status f)))
                       (bk_corrections b)));
          rows = take (n + 1)
            (case cursor of
               None \<Rightarrow> all
             | Some k \<Rightarrow> if map_of (bk_corrections b) k = None then [] else drop 1 (filter (\<lambda>(i, _). i \<le> k) all));
          page = take n rows
      in (map (\<lambda>(i, f). shape i f) page, if length rows > n then Some (fst (last page)) else None))"

section \<open>Asking\<close>

definition loadTarget :: "ctx \<Rightarrow> CorrectionKind \<Rightarrow> id \<Rightarrow> books \<Rightarrow> CorrectionTarget option" where
  "loadTarget c kind i b =
     (case kind of
        refund_payout \<Rightarrow>
          (case map_of (bk_payouts b) i of
             None \<Rightarrow> None
           | Some p \<Rightarrow>
               if po_companyId p = c_companyId c
               then Some \<lparr>tg_confirmed = (po_status p = payout_confirmed), tg_branchId = po_branchId p,
                          tg_amount = po_reportedAmount p, tg_method = po_method p, tg_accountLabel = po_accountLabelSnapshot p\<rparr>
               else None)
      | supplier_settlement \<Rightarrow>
          (case map_of (bk_settlements b) i of
             None \<Rightarrow> None
           | Some s \<Rightarrow>
               if st_companyId s = c_companyId c
               then Some \<lparr>tg_confirmed = (st_status s = st_confirmed), tg_branchId = st_branchId s,
                          tg_amount = st_amount s, tg_method = st_method s, tg_accountLabel = st_accountLabelSnapshot s\<rparr>
               else None))"

definition targets :: "CorrectionKind \<Rightarrow> id \<Rightarrow> correction \<Rightarrow> bool" where
  "targets kind i f \<longleftrightarrow>
     (case kind of refund_payout \<Rightarrow> fc_targetRefundPayoutId f = Some i
                 | supplier_settlement \<Rightarrow> fc_targetSupplierSettlementId f = Some i)"

definition existing_corrections :: "ctx \<Rightarrow> CorrectionKind \<Rightarrow> id \<Rightarrow> books \<Rightarrow> CorrectionStatus list" where
  "existing_corrections c kind i b =
     map fc_status (rows_where (\<lambda>f. fc_companyId f = c_companyId c \<and> targets kind i f) (bk_corrections b))"

definition new_correction ::
  "(string \<Rightarrow> string) \<Rightarrow> ctx \<Rightarrow> string \<Rightarrow> RequestCorrectionDto \<Rightarrow> CorrectionTarget \<Rightarrow> correction" where
  "new_correction sha256 c reason dto t =
     \<lparr>fc_companyId = c_companyId c, fc_branchId = tg_branchId t, fc_targetKind = rq_targetKind dto,
      fc_targetRefundPayoutId = (if rq_targetKind dto = refund_payout then Some (rq_targetId dto) else None),
      fc_targetSupplierSettlementId = (if rq_targetKind dto = supplier_settlement then Some (rq_targetId dto) else None),
      fc_status = fc_requested, fc_reason = reason, fc_supportingReference = trim_or_null (rq_supportingReference dto),
      fc_amount = tg_amount t, fc_method = tg_method t, fc_accountLabelSnapshot = tg_accountLabel t,
      fc_requestedById = c_userId c, fc_decidedById = None, fc_decidedAt = None, fc_correctionDate = None,
      fc_clientUuid = rq_clientUuid dto,
      fc_clientRequestHash = fingerprintCorrection sha256 (rq_targetKind dto) (rq_targetId dto) reason (rq_supportingReference dto),
      fc_version = 0\<rparr>"

text \<open>The key of the correction, an earlier one or the new one, and the books after.\<close>

definition request_tx ::
  "(string \<Rightarrow> string) \<Rightarrow> ctx \<Rightarrow> id \<Rightarrow> RequestCorrectionDto \<Rightarrow> books \<Rightarrow> correction_error + id \<times> books" where
  "request_tx sha256 c newId dto b =
     bindE (require (c_branchId c \<noteq> None) (BadRequest NoBranch)) (\<lambda>_.
     bindE (assertReasonGiven (Some (rq_reason dto))) (\<lambda>reason.
     case find (\<lambda>(_, f). fc_companyId f = c_companyId c \<and> fc_clientUuid f = rq_clientUuid dto) (bk_corrections b) of
       Some (i, f) \<Rightarrow>
         if fc_clientRequestHash f \<noteq>
            fingerprintCorrection sha256 (rq_targetKind dto) (rq_targetId dto) reason (rq_supportingReference dto)
         then Inl (Conflict IdempotencyConflict) else Inr (i, b)
     | None \<Rightarrow>
         bindE (assertTargetCorrectable (loadTarget c (rq_targetKind dto) (rq_targetId dto) b)) (\<lambda>t.
         bindE (assertNotAlreadyCorrected (existing_corrections c (rq_targetKind dto) (rq_targetId dto) b)) (\<lambda>_.
         bindE (assertNoOpenRequest (existing_corrections c (rq_targetKind dto) (rq_targetId dto) b)) (\<lambda>_.
           Inr (newId, b\<lparr>bk_corrections := t_insert newId (new_correction sha256 c reason dto t) (bk_corrections b),
                         bk_audit := bk_audit b @
                           [audit_row_of c ''FinancialCorrection'' newId ''create'' (Some reason) None]\<rparr>))))))"

definition request ::
  "(string \<Rightarrow> string) \<Rightarrow> ctx \<Rightarrow> id \<Rightarrow> RequestCorrectionDto \<Rightarrow> books \<Rightarrow> (correction_error + CorrectionView) \<times> books" where
  "request sha256 c newId dto b =
     (case request_tx sha256 c newId dto b of
        Inl e \<Rightarrow> (Inl e, b)
      | Inr (i, b1) \<Rightarrow> (detail c i b1, b1))"

section \<open>Deciding\<close>

definition approved_row :: "ctx \<Rightarrow> correction \<Rightarrow> correction" where
  "approved_row c f =
     f\<lparr>fc_status := fc_approved, fc_decidedById := c_userId c, fc_decidedAt := Some (c_now c),
       fc_correctionDate := Some (dayKey (c_now c)), fc_version := Suc (fc_version f)\<rparr>"

text \<open>The unique keys on the target of an approved correction.\<close>

definition approved_elsewhere :: "id \<Rightarrow> correction \<Rightarrow> books \<Rightarrow> bool" where
  "approved_elsewhere i f b \<longleftrightarrow>
     list_ex (\<lambda>(j, g). j \<noteq> i \<and> fc_status g = fc_approved \<and>
         (fc_targetRefundPayoutId f \<noteq> None \<and> fc_targetRefundPayoutId g = fc_targetRefundPayoutId f \<or>
          fc_targetSupplierSettlementId f \<noteq> None \<and> fc_targetSupplierSettlementId g = fc_targetSupplierSettlementId f))
       (bk_corrections b)"

definition mark_payout :: "id \<Rightarrow> correction \<Rightarrow> books \<Rightarrow> books" where
  "mark_payout i f b =
     (case fc_targetRefundPayoutId f of
        None \<Rightarrow> b
      | Some p \<Rightarrow> b\<lparr>bk_payouts := t_update p (\<lambda>r. if po_correctedById r = None then r\<lparr>po_correctedById := Some i\<rparr> else r)
                      (bk_payouts b)\<rparr>)"

definition approve_tx :: "ctx \<Rightarrow> id \<Rightarrow> DecideCorrectionDto \<Rightarrow> books \<Rightarrow> correction_error + books" where
  "approve_tx c i dto b =
     bindE (load c i b) (\<lambda>f.
     bindE (assertDecidable f) (\<lambda>_.
     bindE (assertDayOpen (map_option snd (find_closing (c_companyId c) (fc_branchId f) (dayKey (c_now c)) b))
              (dayKey (c_now c))) (\<lambda>_.
     case t_update_where i (\<lambda>g. fc_companyId g = c_companyId c \<and> fc_version g = dq_expectedVersion dto \<and>
                                fc_status g = fc_requested) (approved_row c) (bk_corrections b) of
       (moved, fs) \<Rightarrow>
         if moved = 0 then Inl (Conflict RefreshRequired)
         else if approved_elsewhere i f b then Inl (Conflict OneApprovedPerTarget)
         else
           (let b1 = mark_payout i f (b\<lparr>bk_corrections := fs\<rparr>);
                b2 = recomputeDaily (c_companyId c) (fc_branchId f) (dayKey (c_now c)) (c_now c) b1
            in Inr (b2\<lparr>bk_audit := bk_audit b2 @
                 [audit_row_of c ''FinancialCorrection'' i ''status_change'' (Some (fc_reason f)) None]\<rparr>)))))"

definition approve ::
  "ctx \<Rightarrow> id \<Rightarrow> DecideCorrectionDto \<Rightarrow> books \<Rightarrow> (correction_error + CorrectionView) \<times> books" where
  "approve c i dto b =
     (case approve_tx c i dto b of
        Inl e \<Rightarrow> (Inl e, b)
      | Inr b1 \<Rightarrow> (detail c i b1, b1))"

definition rejected_row :: "ctx \<Rightarrow> correction \<Rightarrow> correction" where
  "rejected_row c f =
     f\<lparr>fc_status := fc_rejected, fc_decidedById := c_userId c, fc_decidedAt := Some (c_now c), fc_version := Suc (fc_version f)\<rparr>"

definition reject_tx :: "ctx \<Rightarrow> id \<Rightarrow> DecideCorrectionDto \<Rightarrow> books \<Rightarrow> correction_error + books" where
  "reject_tx c i dto b =
     bindE (load c i b) (\<lambda>f.
     bindE (assertDecidable f) (\<lambda>_.
     case t_update_where i (\<lambda>g. fc_companyId g = c_companyId c \<and> fc_version g = dq_expectedVersion dto \<and>
                                fc_status g = fc_requested) (rejected_row c) (bk_corrections b) of
       (moved, fs) \<Rightarrow>
         if moved = 0 then Inl (Conflict RefreshRequired)
         else Inr (b\<lparr>bk_corrections := fs,
                     bk_audit := bk_audit b @
                       [audit_row_of c ''FinancialCorrection'' i ''status_change''
                          (case trim_or_null (dq_note dto) of Some n \<Rightarrow> Some n | None \<Rightarrow> Some (fc_reason f)) None]\<rparr>)))"

definition reject ::
  "ctx \<Rightarrow> id \<Rightarrow> DecideCorrectionDto \<Rightarrow> books \<Rightarrow> (correction_error + CorrectionView) \<times> books" where
  "reject c i dto b =
     (case reject_tx c i dto b of
        Inl e \<Rightarrow> (Inl e, b)
      | Inr b1 \<Rightarrow> (detail c i b1, b1))"

section \<open>What a request and a decision write\<close>

lemma load_Inr: "load c i b = Inr f \<longleftrightarrow> map_of (bk_corrections b) i = Some f \<and> fc_companyId f = c_companyId c"
  by (auto simp: load_def split: option.splits)

text \<open>A decision changes only the status of the row it was asked about.\<close>

lemma correction_approve_tx_Inr:
  assumes "approve_tx c i dto b = Inr b'"
  obtains f where "map_of (bk_corrections b) i = Some f" "fc_companyId f = c_companyId c" "fc_status f = fc_requested"
    "fc_version f = dq_expectedVersion dto" "\<not> approved_elsewhere i f b"
    "b' = (let b2 = recomputeDaily (c_companyId c) (fc_branchId f) (dayKey (c_now c)) (c_now c)
                      (mark_payout i f (b\<lparr>bk_corrections := t_update i (approved_row c) (bk_corrections b)\<rparr>))
           in b2\<lparr>bk_audit := bk_audit b2 @ [audit_row_of c ''FinancialCorrection'' i ''status_change'' (Some (fc_reason f)) None]\<rparr>)"
  using assms by (auto simp: approve_tx_def load_Inr t_update_where_def Let_def split: if_splits)

lemma request_tx_Inr:
  assumes "request_tx sha256 c n dto b = Inr (i, b')"
  obtains (same) "b' = b"
  | (requested) t reason where "loadTarget c (rq_targetKind dto) (rq_targetId dto) b = Some t" "tg_confirmed t"
      "b' = b\<lparr>bk_corrections := t_insert n (new_correction sha256 c reason dto t) (bk_corrections b),
              bk_audit := bk_audit b @ [audit_row_of c ''FinancialCorrection'' n ''create'' (Some reason) None]\<rparr>"
  using assms unfolding request_tx_def bindE_Inr require_Inr assertTargetCorrectable_ok
  by (auto simp: assertTargetCorrectable_ok split: option.splits if_splits)

lemma correction_reject_tx_Inr:
  assumes "reject_tx c i dto b = Inr b'"
  obtains f a where "map_of (bk_corrections b) i = Some f" "fc_status f = fc_requested"
    "b' = b\<lparr>bk_corrections := t_update i (rejected_row c) (bk_corrections b), bk_audit := a\<rparr>"
  using assms by (auto simp: reject_tx_def load_Inr t_update_where_def Let_def split: if_splits)

end
