(* ===== verification/SupplierInvariant.thy ===== *)
theory SupplierInvariant
  imports Suppliers Corrections ClosingProperties
begin

text \<open>
  The invariant of purchases, payments, allocations and corrections, kept by every handler of
  the suppliers and the corrections service and by what the rest of the program does to these
  tables.
\<close>

section \<open>Live allocations\<close>

definition is_live :: "books \<Rightarrow> allocation \<Rightarrow> bool" where
  "is_live b a \<longleftrightarrow>
     (\<exists>s. map_of (bk_settlements b) (al_settlementId a) = Some s \<and> st_status s = st_confirmed) \<and>
     settlementNotCorrected (al_settlementId a) b"

text \<open>What the live allocations pay on a purchase.\<close>

definition paid_on :: "id \<Rightarrow> books \<Rightarrow> number" where
  "paid_on pid b = sum_of al_amount (filter (\<lambda>a. al_purchaseId a = pid \<and> is_live b a) (map snd (bk_allocations b)))"

definition allocation_ok :: "books \<Rightarrow> allocation \<Rightarrow> bool" where
  "allocation_ok b a \<longleftrightarrow> valid_amount (al_amount a) \<and>
     (\<exists>s p. map_of (bk_settlements b) (al_settlementId a) = Some s \<and> map_of (bk_purchases b) (al_purchaseId a) = Some p \<and>
        st_companyId s = al_companyId a \<and> pu_companyId p = al_companyId a \<and> pu_supplierId p = st_supplierId s)"

definition correction_ok :: "books \<Rightarrow> correction \<Rightarrow> bool" where
  "correction_ok b f \<longleftrightarrow>
     (\<forall>i. fc_targetSupplierSettlementId f = Some i \<longrightarrow>
        (\<exists>s. map_of (bk_settlements b) i = Some s \<and> st_status s = st_confirmed \<and> st_companyId s = fc_companyId f \<and>
             st_amount s = fc_amount f))"

definition approved_for :: "id \<Rightarrow> books \<Rightarrow> (id \<times> correction) list" where
  "approved_for i b = filter (\<lambda>(_, f). fc_targetSupplierSettlementId f = Some i \<and> fc_status f = fc_approved) (bk_corrections b)"

definition sup_inv :: "books \<Rightarrow> bool" where
  "sup_inv b \<longleftrightarrow>
     t_wf (bk_settlements b) \<and> t_wf (bk_purchases b) \<and> t_wf (bk_corrections b) \<and>
     (\<forall>pid p. map_of (bk_purchases b) pid = Some p \<longrightarrow> is_cents (pu_total p) \<and> paid_on pid b \<le> pu_total p) \<and>
     (\<forall>a \<in> snd ` set (bk_allocations b). allocation_ok b a) \<and>
     (\<forall>i s. map_of (bk_settlements b) i = Some s \<longrightarrow>
        st_amount s = sum_of al_amount (allocations_of i b) \<and> distinct (map al_purchaseId (allocations_of i b))) \<and>
     (\<forall>f \<in> snd ` set (bk_corrections b). correction_ok b f) \<and>
     (\<forall>i. length (approved_for i b) \<le> 1)"

lemma sup_invD:
  assumes "sup_inv b"
  shows "t_wf (bk_settlements b)" "t_wf (bk_purchases b)" "t_wf (bk_corrections b)"
    "map_of (bk_purchases b) pid = Some p \<Longrightarrow> is_cents (pu_total p)"
    "map_of (bk_purchases b) pid = Some p \<Longrightarrow> paid_on pid b \<le> pu_total p"
    "a \<in> snd ` set (bk_allocations b) \<Longrightarrow> allocation_ok b a"
    "map_of (bk_settlements b) i = Some s \<Longrightarrow> st_amount s = sum_of al_amount (allocations_of i b)"
    "map_of (bk_settlements b) i = Some s \<Longrightarrow> distinct (map al_purchaseId (allocations_of i b))"
    "f \<in> snd ` set (bk_corrections b) \<Longrightarrow> correction_ok b f"
    "length (approved_for i b) \<le> 1"
  using assms by (simp_all add: sup_inv_def) auto

lemma sup_invI:
  assumes "t_wf (bk_settlements b)" "t_wf (bk_purchases b)" "t_wf (bk_corrections b)"
    "\<And>pid p. map_of (bk_purchases b) pid = Some p \<Longrightarrow> is_cents (pu_total p)"
    "\<And>pid p. map_of (bk_purchases b) pid = Some p \<Longrightarrow> paid_on pid b \<le> pu_total p"
    "\<And>a. a \<in> snd ` set (bk_allocations b) \<Longrightarrow> allocation_ok b a"
    "\<And>i s. map_of (bk_settlements b) i = Some s \<Longrightarrow> st_amount s = sum_of al_amount (allocations_of i b)"
    "\<And>i s. map_of (bk_settlements b) i = Some s \<Longrightarrow> distinct (map al_purchaseId (allocations_of i b))"
    "\<And>f. f \<in> snd ` set (bk_corrections b) \<Longrightarrow> correction_ok b f"
    "\<And>i. length (approved_for i b) \<le> 1"
  shows "sup_inv b"
  unfolding sup_inv_def by (intro conjI allI ballI impI) (assumption | rule assms)+

section \<open>The reads in terms of live allocations\<close>

lemma settlementNotCorrected_iff: "settlementNotCorrected i b \<longleftrightarrow> approved_for i b = []"
  by (auto simp: settlementNotCorrected_def approved_for_def list_ex_iff filter_empty_conv)

lemma live_allocations_eq:
  assumes "sup_inv b"
  shows "live_allocations co b = filter (\<lambda>a. al_companyId a = co \<and> is_live b a) (map snd (bk_allocations b))"
  unfolding live_allocations_def rows_where_def
proof (rule filter_cong [OF refl], goal_cases)
  case (1 a)
  then have "allocation_ok b a" using sup_invD(6) [OF assms] by auto
  then obtain s where "map_of (bk_settlements b) (al_settlementId a) = Some s" "st_companyId s = al_companyId a"
    by (auto simp: allocation_ok_def)
  then show ?case by (auto simp: is_live_def)
qed

lemma paid_on_reads:
  assumes inv: "sup_inv b" and p: "map_of (bk_purchases b) pid = Some p"
  shows "sum_of al_amount (filter (\<lambda>a. al_purchaseId a = pid) (live_allocations (pu_companyId p) b)) = paid_on pid b"
    "sum_of al_amount (filter (\<lambda>a. al_purchaseId a = pid)
       (filter (\<lambda>a. supplier_of b a = Some (pu_supplierId p)) (live_allocations (pu_companyId p) b))) = paid_on pid b"
proof -
  have 1: "filter (\<lambda>a. al_purchaseId a = pid) (live_allocations (pu_companyId p) b) =
      filter (\<lambda>a. al_purchaseId a = pid \<and> is_live b a) (map snd (bk_allocations b))"
    unfolding live_allocations_eq [OF inv] filter_filter
  proof (rule filter_cong [OF refl], goal_cases)
    case (1 a)
    with sup_invD(6) [OF inv, of a] p show ?case by (auto simp: allocation_ok_def)
  qed
  have 2: "filter (\<lambda>a. al_purchaseId a = pid) (filter (\<lambda>a. supplier_of b a = Some (pu_supplierId p)) (live_allocations (pu_companyId p) b)) =
      filter (\<lambda>a. al_purchaseId a = pid) (live_allocations (pu_companyId p) b)"
    unfolding live_allocations_eq [OF inv] filter_filter
  proof (rule filter_cong [OF refl], goal_cases)
    case (1 a)
    with sup_invD(6) [OF inv, of a] p show ?case by (auto simp: allocation_ok_def supplier_of_def)
  qed
  show "sum_of al_amount (filter (\<lambda>a. al_purchaseId a = pid) (live_allocations (pu_companyId p) b)) = paid_on pid b"
    unfolding 1 paid_on_def ..
  then show "sum_of al_amount (filter (\<lambda>a. al_purchaseId a = pid)
       (filter (\<lambda>a. supplier_of b a = Some (pu_supplierId p)) (live_allocations (pu_companyId p) b))) = paid_on pid b"
    unfolding 2 .
qed

lemma paid_on_cents: "sup_inv b \<Longrightarrow> is_cents (paid_on pid b)"
  unfolding paid_on_def using sup_invD(6) by (fastforce simp: allocation_ok_def valid_amount_def)

lemma paid_on_nonneg: "sup_inv b \<Longrightarrow> 0 \<le> paid_on pid b"
  unfolding paid_on_def sum_of_def using sup_invD(6)
  by (intro sum_list_nonneg) (fastforce simp: allocation_ok_def valid_amount_def)

lemma purchases_of_lookup:
  assumes "t_wf (bk_purchases b)"
  shows "(pid, p) \<in> set (purchases_of co sid b) \<longleftrightarrow>
    map_of (bk_purchases b) pid = Some p \<and> pu_companyId p = co \<and> pu_supplierId p = sid"
  using assms by (auto simp: purchases_of_def t_wf_map_of_eq)

lemma distinct_purchases_of: "t_wf (bk_purchases b) \<Longrightarrow> distinct (map fst (purchases_of co sid b))"
  unfolding purchases_of_def t_wf_def t_keys_def
  by (metis (no_types, lifting) distinct_map_filter mset_map mset_sort mset_eq_imp_distinct_iff)

text \<open>An open purchase, read by its key, carries what is still owed on it.\<close>

lemma open_purchase:
  assumes inv: "sup_inv b" and p: "by_purchase (openPurchases co sid b) pid = Some x"
  obtains r where "map_of (bk_purchases b) pid = Some r" "pu_companyId r = co" "pu_supplierId r = sid"
    "op_outstanding x = pu_total r - paid_on pid b" "0 < op_outstanding x"
proof -
  from p have "x \<in> set (openPurchases co sid b)" "op_purchaseId x = pid"
    unfolding by_purchase_def by (auto dest!: map_of_SomeD)
  then obtain r where r: "(pid, r) \<in> set (purchases_of co sid b)" "0 < op_outstanding x"
    "op_outstanding x = round2 (pu_total r - sum_of al_amount (filter (\<lambda>a. al_purchaseId a = pid)
       (filter (\<lambda>a. supplier_of b a = Some sid) (live_allocations co b))))"
    unfolding openPurchases_def by (auto simp: Let_def)
  then have r': "map_of (bk_purchases b) pid = Some r" "pu_companyId r = co" "pu_supplierId r = sid"
    using purchases_of_lookup sup_invD(2) [OF inv] by auto
  moreover have "op_outstanding x = pu_total r - paid_on pid b"
    using r(3) paid_on_reads(2) [OF inv r'(1)] r'(2,3) paid_on_cents [OF inv] sup_invD(4) [OF inv r'(1)] by simp
  ultimately show ?thesis using that r(2) by blast
qed

section \<open>Changes that keep it\<close>

text \<open>
  The general step: purchases keep their owner and total, settlements may appear, become
  confirmed or change otherwise, allocations and corrections change as stated, and no purchase
  is paid beyond its total.
\<close>

lemma sup_inv_cong:
  assumes "sup_inv b" "bk_settlements b' = bk_settlements b" "bk_purchases b' = bk_purchases b"
    "bk_allocations b' = bk_allocations b" "bk_corrections b' = bk_corrections b"
  shows "sup_inv b'"
  using assms by (simp add: sup_inv_def paid_on_def is_live_def settlementNotCorrected_def allocation_ok_def correction_ok_def
      approved_for_def allocations_of_def)

lemma paid_on_mono:
  assumes inv: "sup_inv b" and al: "bk_allocations b' = bk_allocations b"
    and live: "\<And>a. a \<in> snd ` set (bk_allocations b) \<Longrightarrow> is_live b' a \<Longrightarrow> is_live b a"
  shows "paid_on pid b' \<le> paid_on pid b"
proof -
  have "sum_of al_amount (filter (\<lambda>a. al_purchaseId a = pid \<and> is_live b' a) as) \<le>
      sum_of al_amount (filter (\<lambda>a. al_purchaseId a = pid \<and> is_live b a) as)"
    if "\<forall>a \<in> set as. 0 \<le> al_amount a \<and> (is_live b' a \<longrightarrow> is_live b a)" for as
    using that by (induction as) auto
  moreover have "\<forall>a \<in> set (map snd (bk_allocations b)). 0 \<le> al_amount a \<and> (is_live b' a \<longrightarrow> is_live b a)"
    using sup_invD(6) [OF inv] live by (fastforce simp: allocation_ok_def valid_amount_def)
  ultimately show ?thesis by (simp add: paid_on_def al)
qed

lemma add_allocations_eq:
  "map snd (add_allocations ids j as t) = map snd t @ as"
  by (induction as arbitrary: j t) (simp_all add: t_insert_def)

lemma allocations_of_map: "allocations_of i b = filter (\<lambda>a. al_settlementId a = i) (map snd (bk_allocations b))"
  by (simp add: allocations_of_def rows_where_def)

lemma paid_on_map: "snd ` set t = set (map snd t)"
  by simp

text \<open>Writing the allocations of a payment that is not confirmed pays nothing.\<close>

lemma sup_inv_allocate:
  assumes inv: "sup_inv b" and i: "map_of ss i = Some s" "st_status s = st_reported" "t_wf ss"
    and ss: "\<And>j. j \<noteq> i \<Longrightarrow> map_of ss j = map_of (bk_settlements b) j"
    and was: "\<And>s0. map_of (bk_settlements b) i = Some s0 \<Longrightarrow> st_status s0 = st_reported"
    and al: "map snd al' = filter (\<lambda>a. al_settlementId a \<noteq> i) (map snd (bk_allocations b)) @ map (new_allocation c i) as"
    and co: "st_companyId s = c_companyId c" and fits: "\<forall>a \<in> set as. is_cents (ai_amount a)" "is_cents (st_amount s)"
      "assertAllocationFits (st_amount s) as (by_purchase (openPurchases (c_companyId c) (st_supplierId s) b)) = Inr ()"
    and b': "bk_settlements b' = ss" "bk_allocations b' = al'" "bk_purchases b' = bk_purchases b" "bk_corrections b' = bk_corrections b"
  shows "sup_inv b'"
proof (rule sup_invI)
  note D = sup_invD [OF inv] and F = assertAllocationFits_ok [OF fits(3) fits(1,2)]
  have corr: "settlementNotCorrected = (\<lambda>i x. approved_for i x = [])" by (intro ext) (simp add: settlementNotCorrected_iff)
  have af: "approved_for j b' = approved_for j b" for j by (simp add: approved_for_def b')
  have not_target: "fc_targetSupplierSettlementId f \<noteq> Some i" if "f \<in> snd ` set (bk_corrections b)" for f
    using D(9) [OF that] was by (auto simp: correction_ok_def)
  have dead: "\<not> is_live b' a" if "al_settlementId a = i" for a using that i b' by (simp add: is_live_def)
  have dead0: "\<not> is_live b a" if "al_settlementId a = i" for a using that was by (auto simp: is_live_def)
  have live: "is_live b' a = is_live b a" if "al_settlementId a \<noteq> i" for a
    using that ss by (simp add: is_live_def b' corr af)
  have paid: "paid_on pid b' = paid_on pid b" for pid
  proof -
    have "filter (\<lambda>a. al_purchaseId a = pid \<and> is_live b' a) (map snd al') =
        filter (\<lambda>a. al_purchaseId a = pid \<and> is_live b a) (map snd (bk_allocations b))"
      unfolding al filter_append filter_filter
      using dead dead0 live
      by (auto simp: filter_empty_conv new_allocation_def intro!: filter_cong)
    then show ?thesis by (simp add: paid_on_def b')
  qed
  show "t_wf (bk_settlements b')" "t_wf (bk_purchases b')" "t_wf (bk_corrections b')" using i(3) D(2,3) by (simp_all add: b')
  show "is_cents (pu_total p)" "paid_on pid b' \<le> pu_total p" if "map_of (bk_purchases b') pid = Some p" for pid p
    using that D(4,5) by (simp_all add: b' paid)
  show "length (approved_for j b') \<le> 1" for j using D(10) by (simp add: af)
  have new: "allocation_ok b' (new_allocation c i a)" if a: "a \<in> set as" for a
  proof -
    from F(4) a obtain p where p: "by_purchase (openPurchases (c_companyId c) (st_supplierId s) b) (ai_purchaseId a) = Some p"
      and "0 < ai_amount a" by blast
    from open_purchase [OF inv p] obtain r where "map_of (bk_purchases b) (ai_purchaseId a) = Some r" "pu_companyId r = c_companyId c"
      "pu_supplierId r = st_supplierId s" by metis
    with \<open>0 < ai_amount a\<close> fits(1) a i(1) co b' show ?thesis by (simp add: allocation_ok_def new_allocation_def valid_amount_def)
  qed
  show "allocation_ok b' a" if "a \<in> snd ` set (bk_allocations b')" for a
  proof (cases "al_settlementId a = i")
    case True
    with that obtain x where "x \<in> set as" "a = new_allocation c i x" unfolding b' paid_on_map al by auto
    with new show ?thesis by simp
  next
    case False
    with that have "a \<in> snd ` set (bk_allocations b)" unfolding b' paid_on_map al by (auto simp: new_allocation_def)
    with D(6) ss [OF False] show ?thesis by (auto simp: allocation_ok_def b')
  qed
  have of_i: "allocations_of i b' = map (new_allocation c i) as"
    by (simp add: allocations_of_map b' al filter_filter, simp add: filter_map o_def new_allocation_def filter_True)
  have of_j: "allocations_of j b' = allocations_of j b" if "j \<noteq> i" for j
    using that unfolding allocations_of_map b' al filter_append filter_filter
    by (auto simp: filter_empty_conv new_allocation_def intro!: filter_cong)
  show "st_amount s' = sum_of al_amount (allocations_of j b')" "distinct (map al_purchaseId (allocations_of j b'))"
    if "map_of (bk_settlements b') j = Some s'" for j s'
  proof -
    have "st_amount s' = sum_of al_amount (allocations_of j b') \<and> distinct (map al_purchaseId (allocations_of j b'))"
    proof (cases "j = i")
      case True
      with that i(1) F(2,3) show ?thesis by (simp add: b' of_i sum_of_def o_def new_allocation_def)
    next
      case False
      with that D(7,8) ss show ?thesis by (simp add: b' of_j)
    qed
    then show "st_amount s' = sum_of al_amount (allocations_of j b')" "distinct (map al_purchaseId (allocations_of j b'))" by simp_all
  qed
  show "correction_ok b' f" if "f \<in> snd ` set (bk_corrections b')" for f
    using that D(9) [of f] not_target [of f] ss by (auto simp: b' correction_ok_def)
qed

section \<open>Reporting and changing\<close>

definition valid_split :: "AllocationInput list \<Rightarrow> bool" where
  "valid_split as \<longleftrightarrow> (\<forall>a \<in> set as. is_cents (ai_amount a))"

lemma payable_Inr [simp]: "payable r = Inr u \<longleftrightarrow> r = Inr u"
  by (auto simp: payable_def split: sum.splits payable_refusal.splits)

lemma loadSettlement_Inr:
  "loadSettlement c i b = Inr s \<longleftrightarrow> map_of (bk_settlements b) i = Some s \<and> st_companyId s = c_companyId c"
  by (auto simp: loadSettlement_def split: option.splits)

lemma not_confirmed [simp]: "st_status s \<noteq> st_confirmed \<longleftrightarrow> st_status s = st_reported"
  by (cases "st_status s") auto

lemma report_cases:
  obtains (same) "snd (report sha256 c n ids dto b) = b"
  | (reported) branch acc where
      "assertAllocationFits (rs_amount dto) (rs_allocations dto) (by_purchase (openPurchases (c_companyId c) (rs_supplierId dto) b)) = Inr ()"
      "snd (report sha256 c n ids dto b) = report_tx sha256 c n ids branch dto acc b"
proof (cases "report_plan sha256 c dto b")
  case (Inl e)
  then show ?thesis by (intro same) (simp add: report_def)
next
  case (Inr x)
  show ?thesis
  proof (cases x)
    case (Inl v)
    with Inr show ?thesis by (intro same) (simp add: report_def)
  next
    case (Inr y)
    with \<open>report_plan sha256 c dto b = Inr x\<close>
    have fits: "assertAllocationFits (rs_amount dto) (rs_allocations dto)
        (by_purchase (openPurchases (c_companyId c) (rs_supplierId dto) b)) = Inr ()"
      by (auto simp: report_plan_def split: option.splits)
    show ?thesis
      by (rule reported [OF fits, of "fst y" "snd y"])
        (use Inr \<open>report_plan sha256 c dto b = Inr x\<close> in \<open>simp add: report_def Let_def split: prod.split\<close>)
  qed
qed

lemma sup_inv_report:
  assumes inv: "sup_inv b" and ok: "valid_split (rs_allocations dto)" "is_cents (rs_amount dto)"
    and fresh: "map_of (bk_settlements b) n = None"
  shows "sup_inv (snd (report sha256 c n ids dto b))"
proof (rule report_cases [of sha256 c n ids dto b])
  fix branch acc
  assume reported: "assertAllocationFits (rs_amount dto) (rs_allocations dto)
      (by_purchase (openPurchases (c_companyId c) (rs_supplierId dto) b)) = Inr ()"
    "snd (report sha256 c n ids dto b) = report_tx sha256 c n ids branch dto acc b"
  have none: "filter (\<lambda>a. al_settlementId a \<noteq> n) (map snd (bk_allocations b)) = map snd (bk_allocations b)"
    using sup_invD(6) [OF inv] fresh by (fastforce simp: filter_id_conv allocation_ok_def)
  let ?b' = "report_tx sha256 c n ids branch dto acc b"
  have al: "map snd (bk_allocations ?b') = filter (\<lambda>a. al_settlementId a \<noteq> n) (map snd (bk_allocations b)) @
      map (new_allocation c n) (rs_allocations dto)"
    by (simp add: report_tx_def add_allocations_eq none)
  obtain s where s: "map_of (bk_settlements ?b') n = Some s" "st_status s = st_reported" "st_companyId s = c_companyId c"
    "st_amount s = rs_amount dto" "st_supplierId s = rs_supplierId dto" using fresh by (simp add: report_tx_def)
  show ?thesis
    unfolding reported(2)
    by (rule sup_inv_allocate [OF inv s(1,2) _ _ _ al s(3)])
      (use reported(1) ok fresh s sup_invD(1) [OF inv] in \<open>simp_all add: report_tx_def valid_split_def\<close>)
qed (use inv in simp)

lemma correct_cases:
  obtains (same) "snd (correct c ids i dto b) = b"
  | (changed) s meth acc b1 where "loadSettlement c i b = Inr s" "st_status s = st_reported"
      "\<And>as. ct_allocations dto = Some as \<Longrightarrow>
         assertAllocationFits (st_amount s) as (by_purchase (openPurchases (c_companyId c) (st_supplierId s) b)) = Inr ()"
      "correct_tx c ids i s meth acc dto b = Inr b1" "snd (correct c ids i dto b) = b1"
proof (cases "bindE (correct_plan c i dto b) (\<lambda>(s, meth, acc). correct_tx c ids i s meth acc dto b)")
  case (Inl e)
  then show ?thesis by (intro same) (simp add: correct_def)
next
  case (Inr b1)
  then obtain s meth acc where plan: "correct_plan c i dto b = Inr (s, meth, acc)" and tx: "correct_tx c ids i s meth acc dto b = Inr b1"
    by auto
  have "snd (correct c ids i dto b) = b1" unfolding correct_def Inr by simp
  moreover have "loadSettlement c i b = Inr s \<and> st_status s = st_reported \<and> (\<forall>as. ct_allocations dto = Some as \<longrightarrow>
      assertAllocationFits (st_amount s) as (by_purchase (openPurchases (c_companyId c) (st_supplierId s) b)) = Inr ())"
    using plan unfolding correct_plan_def Let_def bindE_Inr require_Inr by (auto split: option.splits)
  ultimately show ?thesis using changed [of s meth acc b1] tx by blast
qed

lemma changed_row_fields [simp]:
  "st_status (changed_row meth acc dto s) = st_status s" "st_companyId (changed_row meth acc dto s) = st_companyId s"
  "st_amount (changed_row meth acc dto s) = st_amount s" "st_supplierId (changed_row meth acc dto s) = st_supplierId s"
  by (simp_all add: changed_row_def)

text \<open>A settlement row may change in everything but its company, supplier, amount and status.\<close>

lemma sup_inv_settlement_row:
  assumes inv: "sup_inv b" and f: "\<And>s. st_status (f s) = st_status s \<and> st_companyId (f s) = st_companyId s \<and>
      st_amount (f s) = st_amount s \<and> st_supplierId (f s) = st_supplierId s"
    and b': "bk_settlements b' = t_update i f (bk_settlements b)" "bk_allocations b' = bk_allocations b"
      "bk_purchases b' = bk_purchases b" "bk_corrections b' = bk_corrections b"
  shows "sup_inv b'"
proof -
  note D = sup_invD [OF inv]
  have look: "map_of (bk_settlements b') j = Some s' \<Longrightarrow> \<exists>s. map_of (bk_settlements b) j = Some s \<and> st_status s' = st_status s \<and>
      st_companyId s' = st_companyId s \<and> st_amount s' = st_amount s \<and> st_supplierId s' = st_supplierId s" for j s'
    using f by (auto simp: b' split: if_splits)
  have look': "map_of (bk_settlements b) j = Some s \<Longrightarrow> \<exists>s'. map_of (bk_settlements b') j = Some s' \<and> st_status s' = st_status s \<and>
      st_companyId s' = st_companyId s \<and> st_amount s' = st_amount s \<and> st_supplierId s' = st_supplierId s" for j s
    using f by (cases "j = i") (auto simp: b')
  have live: "is_live b' a \<longleftrightarrow> is_live b a" for a
    using look look' by (fastforce simp: is_live_def settlementNotCorrected_def b'(4))
  have aof: "allocations_of j b' = allocations_of j b" "approved_for j b' = approved_for j b" for j
    by (simp_all add: allocations_of_def approved_for_def b')
  show ?thesis
  proof (rule sup_invI)
    show "t_wf (bk_settlements b')" "t_wf (bk_purchases b')" "t_wf (bk_corrections b')" using D(1-3) by (simp_all add: b')
    show "is_cents (pu_total p)" "paid_on pid b' \<le> pu_total p" if "map_of (bk_purchases b') pid = Some p" for pid p
      using that D(4,5) by (simp_all add: b' paid_on_def live)
    show "allocation_ok b' a" if "a \<in> snd ` set (bk_allocations b')" for a
    proof -
      from that D(6) b'(2) have "allocation_ok b a" by simp
      then obtain s p where "valid_amount (al_amount a)" "map_of (bk_settlements b) (al_settlementId a) = Some s"
        "map_of (bk_purchases b) (al_purchaseId a) = Some p" "st_companyId s = al_companyId a" "pu_companyId p = al_companyId a"
        "pu_supplierId p = st_supplierId s" by (auto simp: allocation_ok_def)
      with look' [of "al_settlementId a" s] show ?thesis by (auto simp: allocation_ok_def b'(3))
    qed
    show "st_amount s' = sum_of al_amount (allocations_of j b')" "distinct (map al_purchaseId (allocations_of j b'))"
      if "map_of (bk_settlements b') j = Some s'" for j s'
      using look [OF that] D(7,8) by (auto simp: aof)
    show "correction_ok b' g" if "g \<in> snd ` set (bk_corrections b')" for g
    proof -
      from that D(9) b'(4) have "correction_ok b g" by simp
      then show ?thesis unfolding correction_ok_def using look' by metis
    qed
    show "length (approved_for j b') \<le> 1" for j using D(10) by (simp add: aof)
  qed
qed

lemma sup_inv_correct:
  assumes inv: "sup_inv b" and ok: "\<And>as. ct_allocations dto = Some as \<Longrightarrow> valid_split as"
  shows "sup_inv (snd (correct c ids i dto b))"
proof (cases rule: correct_cases [where c = c and ids = ids and i = i and dto = dto and b = b])
  case (changed s meth acc b1)
  from changed(1) have s: "map_of (bk_settlements b) i = Some s" "st_companyId s = c_companyId c"
    by (simp_all add: loadSettlement_Inr)
  let ?ss = "t_update i (changed_row meth acc dto) (bk_settlements b)"
  from changed(4) s have b1: "bk_settlements b1 = ?ss" "bk_purchases b1 = bk_purchases b" "bk_corrections b1 = bk_corrections b"
    "bk_allocations b1 = (case ct_allocations dto of None \<Rightarrow> bk_allocations b
       | Some as \<Rightarrow> add_allocations ids 0 (map (new_allocation c i) as) (filter (\<lambda>(_, a). al_settlementId a \<noteq> i) (bk_allocations b)))"
    by (auto simp: correct_tx_def t_update_where_def split: if_splits)
  show ?thesis
  proof (cases "ct_allocations dto")
    case None
    show ?thesis
      unfolding changed(5)
      by (rule sup_inv_settlement_row [OF inv _ b1(1)]) (use None b1 in simp_all)
  next
    case (Some as)
    have cents: "is_cents (st_amount s)"
      using sup_invD(7) [OF inv s(1)] sup_invD(6) [OF inv]
      by (fastforce simp: allocations_of_map allocation_ok_def valid_amount_def)
    have al: "map snd (bk_allocations b1) = filter (\<lambda>a. al_settlementId a \<noteq> i) (map snd (bk_allocations b)) @ map (new_allocation c i) as"
      by (simp add: Some b1 add_allocations_eq filter_map o_def case_prod_unfold)
    have row: "map_of ?ss i = Some (changed_row meth acc dto s)" using s(1) by simp
    show ?thesis
      unfolding changed(5)
      by (rule sup_inv_allocate [OF inv row _ _ _ _ al])
        (use s changed(2) changed(3) [OF Some] ok [OF Some] sup_invD(1) [OF inv] cents b1 in \<open>simp_all add: valid_split_def\<close>)
  qed
qed (use inv in simp)

section \<open>Confirming\<close>

text \<open>Two tables of purchases that agree but for what was projected on them.\<close>

definition same_purchases :: "(id, purchase) table \<Rightarrow> (id, purchase) table \<Rightarrow> bool" where
  "same_purchases t t' \<longleftrightarrow> t_keys t' = t_keys t \<and>
     (\<forall>pid. rel_option (\<lambda>p p'. pu_total p' = pu_total p \<and> pu_companyId p' = pu_companyId p \<and> pu_supplierId p' = pu_supplierId p)
        (map_of t pid) (map_of t' pid))"

lemma same_purchases_refl [simp]: "same_purchases t t"
  by (auto simp: same_purchases_def option.rel_refl)

lemma same_purchases_project:
  assumes "same_purchases t (bk_purchases b)"
  shows "same_purchases t (bk_purchases (project_purchase co pid b))"
  using assms by (auto simp: same_purchases_def project_purchase_def Let_def option.rel_map split: if_splits)

lemma fold_project_fields [simp]:
  "bk_settlements (fold (\<lambda>a. project_purchase co (al_purchaseId a)) as b) = bk_settlements b"
  "bk_allocations (fold (\<lambda>a. project_purchase co (al_purchaseId a)) as b) = bk_allocations b"
  "bk_corrections (fold (\<lambda>a. project_purchase co (al_purchaseId a)) as b) = bk_corrections b"
  by (induction as arbitrary: b) (simp_all add: project_purchase_def Let_def)

lemma fold_project_purchases:
  "same_purchases t (bk_purchases b) \<Longrightarrow> same_purchases t (bk_purchases (fold (\<lambda>a. project_purchase co (al_purchaseId a)) as b))"
  by (induction as arbitrary: b) (simp_all add: same_purchases_project)

lemma same_purchasesD:
  assumes "same_purchases t t'"
  shows "t_wf t' = t_wf t"
    "map_of t' pid = Some p' \<Longrightarrow> \<exists>p. map_of t pid = Some p \<and> pu_total p' = pu_total p \<and> pu_companyId p' = pu_companyId p \<and> pu_supplierId p' = pu_supplierId p"
    "map_of t pid = Some p \<Longrightarrow> \<exists>p'. map_of t' pid = Some p' \<and> pu_total p' = pu_total p \<and> pu_companyId p' = pu_companyId p \<and> pu_supplierId p' = pu_supplierId p"
proof -
  have r: "rel_option (\<lambda>p p'. pu_total p' = pu_total p \<and> pu_companyId p' = pu_companyId p \<and> pu_supplierId p' = pu_supplierId p)
      (map_of t pid) (map_of t' pid)"
    using assms by (simp add: same_purchases_def)
  show "t_wf t' = t_wf t" using assms by (simp add: same_purchases_def t_wf_def)
  show "map_of t' pid = Some p' \<Longrightarrow> \<exists>p. map_of t pid = Some p \<and> pu_total p' = pu_total p \<and> pu_companyId p' = pu_companyId p \<and> pu_supplierId p' = pu_supplierId p"
    using r by (cases "map_of t pid") simp_all
  show "map_of t pid = Some p \<Longrightarrow> \<exists>p'. map_of t' pid = Some p' \<and> pu_total p' = pu_total p \<and> pu_companyId p' = pu_companyId p \<and> pu_supplierId p' = pu_supplierId p"
    using r by (cases "map_of t' pid") simp_all
qed

lemma sup_inv_purchases:
  assumes inv: "sup_inv b" and t: "same_purchases (bk_purchases b) (bk_purchases b')"
    and b': "bk_settlements b' = bk_settlements b" "bk_allocations b' = bk_allocations b" "bk_corrections b' = bk_corrections b"
  shows "sup_inv b'"
proof -
  note D = sup_invD [OF inv] and P = same_purchasesD [OF t]
  have paid: "paid_on pid b' = paid_on pid b" for pid
    by (simp add: paid_on_def is_live_def settlementNotCorrected_def b')
  show ?thesis
  proof (rule sup_invI)
    show "is_cents (pu_total p)" "paid_on pid b' \<le> pu_total p" if "map_of (bk_purchases b') pid = Some p" for pid p
      using P(2) [OF that] D(4,5) by (auto simp: paid)
    show "allocation_ok b' a" if "a \<in> snd ` set (bk_allocations b')" for a
    proof -
      from that D(6) b'(2) have "allocation_ok b a" by simp
      then obtain s p where "valid_amount (al_amount a)" "map_of (bk_settlements b) (al_settlementId a) = Some s"
        "map_of (bk_purchases b) (al_purchaseId a) = Some p" "st_companyId s = al_companyId a" "pu_companyId p = al_companyId a"
        "pu_supplierId p = st_supplierId s" by (auto simp: allocation_ok_def)
      with P(3) [of "al_purchaseId a" p] show ?thesis by (auto simp: allocation_ok_def b'(1))
    qed
  qed (use D P(1) b' in \<open>simp_all add: allocations_of_def correction_ok_def approved_for_def\<close>)
qed

text \<open>The allocations of a payment pay each purchase at most once, and at most what is owed.\<close>

lemma confirm_read_Inr:
  assumes inv: "sup_inv b" and r: "confirm_read c i b = Inr (s, as)"
  shows "map_of (bk_settlements b) i = Some s" "st_companyId s = c_companyId c" "st_status s = st_reported"
    "as = allocations_of i b" "\<And>a. a \<in> set as \<Longrightarrow> \<exists>p. map_of (bk_purchases b) (al_purchaseId a) = Some p \<and>
       al_amount a \<le> pu_total p - paid_on (al_purchaseId a) b"
proof -
  from r have s: "map_of (bk_settlements b) i = Some s" "st_companyId s = c_companyId c" "st_status s = st_reported"
    and as: "as = filter (\<lambda>a. al_companyId a = c_companyId c) (allocations_of i b)"
    and pay: "assertStillPayable (allocation_inputs as) (by_purchase (openPurchases (c_companyId c) (st_supplierId s) b)) = Inr ()"
    by (auto simp: confirm_read_def Let_def loadSettlement_Inr)
  show "map_of (bk_settlements b) i = Some s" "st_companyId s = c_companyId c" "st_status s = st_reported" by fact+
  show al: "as = allocations_of i b"
  proof -
    have "al_companyId a = c_companyId c" if "a \<in> set (allocations_of i b)" for a
    proof -
      from that have "a \<in> snd ` set (bk_allocations b)" "al_settlementId a = i" by (auto simp: allocations_of_map)
      with sup_invD(6) [OF inv, of a] s show ?thesis by (auto simp: allocation_ok_def)
    qed
    then show ?thesis by (simp add: as filter_id_conv)
  qed
  show "\<exists>p. map_of (bk_purchases b) (al_purchaseId a) = Some p \<and> al_amount a \<le> pu_total p - paid_on (al_purchaseId a) b"
    if a: "a \<in> set as" for a
  proof -
    have "a \<in> snd ` set (bk_allocations b)" using a unfolding al allocations_of_map by auto
    then have c: "is_cents (al_amount a)" using sup_invD(6) [OF inv] by (auto simp: allocation_ok_def valid_amount_def)
    from pay a obtain x where x: "by_purchase (openPurchases (c_companyId c) (st_supplierId s) b) (al_purchaseId a) = Some x"
      "round2 (al_amount a) \<le> round2 (op_outstanding x)"
      by (auto simp: assertStillPayable_ok allocation_inputs_def)
    from open_purchase [OF inv x(1)] obtain p where p: "map_of (bk_purchases b) (al_purchaseId a) = Some p"
      "op_outstanding x = pu_total p - paid_on (al_purchaseId a) b" by metis
    moreover have "is_cents (op_outstanding x)" using p sup_invD(4) [OF inv p(1)] paid_on_cents [OF inv] by simp
    ultimately show ?thesis using x(2) c by simp
  qed
qed

lemma sum_of_filter_le_one:
  assumes "distinct (map f as)" "\<And>a. a \<in> set as \<Longrightarrow> f a = k \<Longrightarrow> g a \<le> m" "0 \<le> m"
  shows "sum_of g (filter (\<lambda>a. f a = k) as) \<le> m"
proof (cases "\<exists>a \<in> set as. f a = k")
  case True
  then obtain a where a: "a \<in> set as" "f a = k" by blast
  then obtain xs ys where as: "as = xs @ a # ys" by (auto simp: in_set_conv_decomp)
  have "filter (\<lambda>x. f x = k) xs = []" "filter (\<lambda>x. f x = k) ys = []"
    using assms(1) a(2) by (auto simp: as filter_empty_conv image_iff)
  then have "filter (\<lambda>x. f x = k) as = [a]" using a(2) by (simp add: as)
  with a assms(2) show ?thesis by simp
next
  case False
  then have "filter (\<lambda>a. f a = k) as = []" by (simp add: filter_empty_conv)
  with assms(3) show ?thesis by simp
qed

lemma sup_inv_confirmed:
  assumes inv: "sup_inv b" and s: "map_of (bk_settlements b) i = Some s" "st_status s = st_reported"
    and fit: "\<And>a. a \<in> set (allocations_of i b) \<Longrightarrow> \<exists>p. map_of (bk_purchases b) (al_purchaseId a) = Some p \<and>
       al_amount a \<le> pu_total p - paid_on (al_purchaseId a) b"
    and b': "bk_settlements b' = t_update i (confirmed_row c) (bk_settlements b)" "bk_allocations b' = bk_allocations b"
      "bk_purchases b' = bk_purchases b" "bk_corrections b' = bk_corrections b"
  shows "sup_inv b'"
proof -
  note D = sup_invD [OF inv]
  have af: "approved_for j b' = approved_for j b" for j by (simp add: approved_for_def b')
  have free: "approved_for i b = []"
    using D(9) s by (fastforce simp: approved_for_def filter_empty_conv correction_ok_def)
  have live: "is_live b' a \<longleftrightarrow> is_live b a \<or> al_settlementId a = i" for a
    using s free by (auto simp: is_live_def settlementNotCorrected_iff af b' confirmed_row_def)
  have dead: "\<not> is_live b a" if "al_settlementId a = i" for a using that s by (simp add: is_live_def)
  have paid: "paid_on pid b' = paid_on pid b + sum_of al_amount (filter (\<lambda>a. al_purchaseId a = pid) (allocations_of i b))" for pid
  proof -
    have "sum_of al_amount (filter (\<lambda>a. al_purchaseId a = pid \<and> is_live b' a) as) =
      sum_of al_amount (filter (\<lambda>a. al_purchaseId a = pid \<and> is_live b a) as) +
      sum_of al_amount (filter (\<lambda>a. al_purchaseId a = pid) (filter (\<lambda>a. al_settlementId a = i) as))" for as
      using dead by (induction as) (auto simp: live)
    then show ?thesis by (simp add: paid_on_def allocations_of_map b')
  qed
  have look: "map_of (bk_settlements b) j = Some s' \<Longrightarrow> \<exists>s''. map_of (bk_settlements b') j = Some s'' \<and> st_companyId s'' = st_companyId s' \<and>
      st_amount s'' = st_amount s' \<and> st_supplierId s'' = st_supplierId s' \<and> (st_status s' = st_confirmed \<longrightarrow> st_status s'' = st_confirmed)" for j s'
    by (cases "j = i") (auto simp: b' confirmed_row_def)
  show ?thesis
  proof (rule sup_invI)
    show "t_wf (bk_settlements b')" "t_wf (bk_purchases b')" "t_wf (bk_corrections b')" using D(1-3) by (simp_all add: b')
    show "is_cents (pu_total p)" if "map_of (bk_purchases b') pid = Some p" for pid p using that D(4) by (simp add: b')
    show "paid_on pid b' \<le> pu_total p" if p: "map_of (bk_purchases b') pid = Some p" for pid p
    proof -
      have "sum_of al_amount (filter (\<lambda>a. al_purchaseId a = pid) (allocations_of i b)) \<le> pu_total p - paid_on pid b"
        by (rule sum_of_filter_le_one [OF D(8) [OF s(1)]]) (use fit p D(5) in \<open>fastforce simp: b'\<close>)+
      then show ?thesis by (simp add: paid)
    qed
    show "allocation_ok b' a" if "a \<in> snd ` set (bk_allocations b')" for a
    proof -
      from that D(6) b'(2) have "allocation_ok b a" by simp
      then obtain s0 p where "valid_amount (al_amount a)" "map_of (bk_settlements b) (al_settlementId a) = Some s0"
        "map_of (bk_purchases b) (al_purchaseId a) = Some p" "st_companyId s0 = al_companyId a" "pu_companyId p = al_companyId a"
        "pu_supplierId p = st_supplierId s0" by (auto simp: allocation_ok_def)
      with look [of "al_settlementId a" s0] show ?thesis by (auto simp: allocation_ok_def b'(3))
    qed
    show "st_amount s' = sum_of al_amount (allocations_of j b')" "distinct (map al_purchaseId (allocations_of j b'))"
      if "map_of (bk_settlements b') j = Some s'" for j s'
      using that D(7,8) by (auto simp: b' allocations_of_def confirmed_row_def split: if_splits)
    show "correction_ok b' g" if "g \<in> snd ` set (bk_corrections b')" for g
    proof -
      from that D(9) b'(4) have "correction_ok b g" by simp
      then show ?thesis unfolding correction_ok_def using look by metis
    qed
    show "length (approved_for j b') \<le> 1" for j using D(10) by (simp add: af)
  qed
qed

lemma confirm_tx_Inr:
  fixes b b' :: books
  assumes "confirm_tx c i v (s, as) b = Inr b'"
  obtains s0 and b1 :: books where "map_of (bk_settlements b) i = Some s0" "st_status s0 = st_reported" "st_version s0 = v" "st_companyId s0 = c_companyId c"
    "bk_settlements b1 = t_update i (confirmed_row c) (bk_settlements b)" "bk_allocations b1 = bk_allocations b"
    "bk_purchases b1 = bk_purchases b" "bk_corrections b1 = bk_corrections b"
    "bk_settlements b' = bk_settlements b1" "bk_allocations b' = bk_allocations b1" "bk_corrections b' = bk_corrections b1"
    "same_purchases (bk_purchases b1) (bk_purchases b')"
proof -
  let ?b1 = "b\<lparr>bk_settlements := t_update i (confirmed_row c) (bk_settlements b),
     bk_suppliers := t_update (st_supplierId s) (\<lambda>x. x\<lparr>sp_balance := sp_balance x - st_amount s\<rparr>) (bk_suppliers b)\<rparr>"
  from assms obtain s0 where s0: "map_of (bk_settlements b) i = Some s0" "st_status s0 = st_reported" "st_version s0 = v"
      "st_companyId s0 = c_companyId c"
    and b': "bk_settlements b' = bk_settlements ?b1" "bk_allocations b' = bk_allocations ?b1" "bk_corrections b' = bk_corrections ?b1"
      "bk_purchases b' = bk_purchases (fold (\<lambda>a. project_purchase (c_companyId c) (al_purchaseId a)) as ?b1)"
    by (auto simp: confirm_tx_def t_update_where_def Let_def split: option.splits if_splits)
  have "same_purchases (bk_purchases ?b1) (bk_purchases b')" unfolding b'(4) by (rule fold_project_purchases) simp
  with that [of s0 ?b1] s0 b' show ?thesis by simp
qed

lemma sup_inv_confirm:
  assumes inv: "sup_inv b"
  shows "sup_inv (snd (confirm c i v b))"
proof (cases "bindE (confirm_read c i b) (\<lambda>plan. confirm_tx c i v plan b)")
  case (Inr b')
  then obtain s as where r: "confirm_read c i b = Inr (s, as)" and tx: "confirm_tx c i v (s, as) b = Inr b'" by auto
  note R = confirm_read_Inr [OF inv r]
  obtain b1 :: books where b1: "bk_settlements b1 = t_update i (confirmed_row c) (bk_settlements b)" "bk_allocations b1 = bk_allocations b"
    "bk_purchases b1 = bk_purchases b" "bk_corrections b1 = bk_corrections b"
    and b': "bk_settlements b' = bk_settlements b1" "bk_allocations b' = bk_allocations b1" "bk_corrections b' = bk_corrections b1"
    "same_purchases (bk_purchases b1) (bk_purchases b')"
    using confirm_tx_Inr [OF tx] by metis
  have "sup_inv b1" by (rule sup_inv_confirmed [OF inv R(1,3) _ b1]) (use R(4,5) in blast)
  from sup_inv_purchases [OF this b'(4,1,2,3)] show ?thesis unfolding confirm_def Inr by simp
qed (use inv in \<open>simp add: confirm_def\<close>)

section \<open>Corrections\<close>

lemma recomputeDaily_supplier_tables [simp]:
  "bk_purchases (recomputeDaily co br day now b) = bk_purchases b" "bk_allocations (recomputeDaily co br day now b) = bk_allocations b"
  "bk_suppliers (recomputeDaily co br day now b) = bk_suppliers b"
  by (simp_all add: recomputeDaily_def Let_def)

lemma mark_payout_tables [simp]:
  "bk_settlements (mark_payout i f b) = bk_settlements b" "bk_purchases (mark_payout i f b) = bk_purchases b"
  "bk_allocations (mark_payout i f b) = bk_allocations b" "bk_corrections (mark_payout i f b) = bk_corrections b"
  "bk_suppliers (mark_payout i f b) = bk_suppliers b" "bk_expenses (mark_payout i f b) = bk_expenses b"
  "bk_rollups (mark_payout i f b) = bk_rollups b" "bk_closings (mark_payout i f b) = bk_closings b"
  by (simp_all add: mark_payout_def split: option.split)

text \<open>An approved correction only takes payments away from what counts.\<close>

lemma sup_inv_corrections:
  assumes inv: "sup_inv b" and b': "bk_settlements b' = bk_settlements b" "bk_purchases b' = bk_purchases b"
      "bk_allocations b' = bk_allocations b"
    and fs: "t_wf (bk_corrections b')" "\<And>f. f \<in> snd ` set (bk_corrections b') \<Longrightarrow> correction_ok b f"
      "\<And>j. approved_for j b' = [] \<Longrightarrow> approved_for j b = []" "\<And>j. length (approved_for j b') \<le> 1"
  shows "sup_inv b'"
proof -
  note D = sup_invD [OF inv]
  have live: "is_live b' a \<Longrightarrow> is_live b a" for a using fs(3) by (simp add: is_live_def settlementNotCorrected_iff b')
  show ?thesis
  proof (rule sup_invI)
    show "paid_on pid b' \<le> pu_total p" if "map_of (bk_purchases b') pid = Some p" for pid p
      using paid_on_mono [OF inv b'(3) live, of pid] D(5) [of pid p] that by (simp add: b')
    show "correction_ok b' f" if "f \<in> snd ` set (bk_corrections b')" for f
      using fs(2) [OF that] by (simp add: correction_ok_def b')
    show "allocation_ok b' a" if "a \<in> snd ` set (bk_allocations b')" for a
      using that D(6) by (simp add: allocation_ok_def b')
  qed (use D fs in \<open>simp_all add: b' allocations_of_def\<close>)
qed

lemma request_cases:
  obtains (same) "snd (request sha256 c n dto b) = b"
  | (requested) t reason where "loadTarget c (rq_targetKind dto) (rq_targetId dto) b = Some t" "tg_confirmed t"
      "bk_corrections (snd (request sha256 c n dto b)) = t_insert n (new_correction sha256 c reason dto t) (bk_corrections b)"
      "bk_settlements (snd (request sha256 c n dto b)) = bk_settlements b" "bk_purchases (snd (request sha256 c n dto b)) = bk_purchases b"
      "bk_allocations (snd (request sha256 c n dto b)) = bk_allocations b"
proof (cases "request_tx sha256 c n dto b")
  case (Inl e)
  then show ?thesis by (intro same) (simp add: request_def)
next
  case (Inr x)
  then have "snd x = b \<or> (\<exists>t reason. loadTarget c (rq_targetKind dto) (rq_targetId dto) b = Some t \<and> tg_confirmed t \<and>
      bk_corrections (snd x) = t_insert n (new_correction sha256 c reason dto t) (bk_corrections b) \<and>
      bk_settlements (snd x) = bk_settlements b \<and> bk_purchases (snd x) = bk_purchases b \<and> bk_allocations (snd x) = bk_allocations b)"
    unfolding request_tx_def bindE_Inr require_Inr assertTargetCorrectable_ok
    by (elim exE conjE) (auto simp: assertTargetCorrectable_ok split: option.splits if_splits)
  moreover have "snd (request sha256 c n dto b) = snd x" using Inr by (simp add: request_def split: prod.split)
  ultimately show ?thesis using same requested by (elim disjE exE conjE) simp_all
qed

lemma sup_inv_request:
  assumes inv: "sup_inv b" and fresh: "map_of (bk_corrections b) n = None"
  shows "sup_inv (snd (request sha256 c n dto b))"
proof (cases rule: request_cases [of sha256 c n dto b])
  case (requested t reason)
  note D = sup_invD [OF inv]
  let ?f = "new_correction sha256 c reason dto t"
  have "correction_ok b ?f"
    using requested(1,2) by (auto simp: correction_ok_def new_correction_def loadTarget_def split: option.splits if_splits)
  moreover have "approved_for j (snd (request sha256 c n dto b)) = approved_for j b" for j
    by (simp add: approved_for_def requested(3) t_insert_def new_correction_def)
  ultimately show ?thesis
    using D(3,10) fresh by (intro sup_inv_corrections [OF inv requested(4-6)])
      (auto simp: requested(3) t_insert_def t_wf_t_insert [unfolded t_insert_def] intro: D(9) [OF image_eqI])
qed (use inv in simp)

lemma approved_for_length:
  "int (length (approved_for j b)) =
     sum_list (map (\<lambda>(_, f). if fc_targetSupplierSettlementId f = Some j \<and> fc_status f = fc_approved then 1 else 0) (bk_corrections b))"
proof -
  have "int (length (filter p xs)) = sum_list (map (\<lambda>x. if p x then 1 else 0) xs)" for p and xs :: "(id \<times> correction) list"
    by (induction xs) simp_all
  then show ?thesis by (simp add: approved_for_def case_prod_unfold)
qed

lemma approved_for_decide:
  assumes "t_wf (bk_corrections b)" "map_of (bk_corrections b) i = Some f" "fc_status f = fc_requested"
    and g: "fc_targetSupplierSettlementId (g f) = fc_targetSupplierSettlementId f"
    and b': "bk_corrections b' = t_update i g (bk_corrections b)"
  shows "length (approved_for j b') = length (approved_for j b) +
    (if fc_targetSupplierSettlementId f = Some j \<and> fc_status (g f) = fc_approved then 1 else 0)"
proof -
  have "int (length (approved_for j b')) = int (length (approved_for j b)) +
      (if fc_targetSupplierSettlementId f = Some j \<and> fc_status (g f) = fc_approved then 1 else 0)"
    unfolding approved_for_length b' by (subst sum_t_update [OF assms(1,2)]) (simp add: assms(3) g)
  then show ?thesis by (simp split: if_splits)
qed

lemma sup_inv_decide:
  assumes inv: "sup_inv b" and f: "map_of (bk_corrections b) i = Some f" "fc_status f = fc_requested"
    and g: "\<And>f. fc_targetSupplierSettlementId (g f) = fc_targetSupplierSettlementId f" "\<And>f. fc_companyId (g f) = fc_companyId f"
      "\<And>f. fc_amount (g f) = fc_amount f"
    and once: "fc_status (g f) = fc_approved \<Longrightarrow> \<not> approved_elsewhere i f b"
    and b': "bk_corrections b' = t_update i g (bk_corrections b)" "bk_settlements b' = bk_settlements b"
      "bk_purchases b' = bk_purchases b" "bk_allocations b' = bk_allocations b"
  shows "sup_inv b'"
proof -
  note D = sup_invD [OF inv]
  note len = approved_for_decide [of b i f g b', OF D(3) f g(1) b'(1)]
  show ?thesis
  proof (rule sup_inv_corrections [OF inv b'(2-4)])
    show "t_wf (bk_corrections b')" using D(3) by (simp add: b')
    show "correction_ok b h" if "h \<in> snd ` set (bk_corrections b')" for h
    proof -
      from that obtain k where "(k, h) \<in> set (bk_corrections b')" by auto
      then obtain h0 where "(k, h0) \<in> set (bk_corrections b)" "h = h0 \<or> h = g h0" by (auto simp: b' t_update_def split: if_splits)
      moreover from this have "correction_ok b h0" using D(9) by force
      ultimately show ?thesis using g by (auto simp: correction_ok_def)
    qed
    show "approved_for j b = []" if "approved_for j b' = []" for j using len [of j] that by simp
    show "length (approved_for j b') \<le> 1" for j
    proof (cases "fc_targetSupplierSettlementId f = Some j \<and> fc_status (g f) = fc_approved")
      case True
      have "approved_for j b = []"
        unfolding approved_for_def filter_empty_conv
      proof clarify
        fix k h
        assume kh: "(k, h) \<in> set (bk_corrections b)" "fc_targetSupplierSettlementId h = Some j" "fc_status h = fc_approved"
        then have "map_of (bk_corrections b) k = Some h" using t_wf_map_of_eq [OF D(3)] by simp
        with f kh(3) have "k \<noteq> i" by auto
        with once True kh show False by (force simp: approved_elsewhere_def list_ex_iff)
      qed
      with len [of j] True show ?thesis by simp
    next
      case False
      with len [of j] D(10) [of j] show ?thesis by simp
    qed
  qed
qed

lemma sup_inv_approve:
  assumes inv: "sup_inv b"
  shows "sup_inv (snd (approve c i dto b))"
proof (cases "approve_tx c i dto b")
  case (Inr b')
  from Inr obtain f where f: "map_of (bk_corrections b) i = Some f" "fc_status f = fc_requested" "\<not> approved_elsewhere i f b"
    "bk_corrections b' = t_update i (approved_row c) (bk_corrections b)" "bk_settlements b' = bk_settlements b"
    "bk_purchases b' = bk_purchases b" "bk_allocations b' = bk_allocations b"
    by (rule correction_approve_tx_Inr) (simp add: Let_def)
  show ?thesis
    unfolding approve_def Inr
    by (simp, rule sup_inv_decide [OF inv f(1,2) _ _ _ _ f(4-7)]) (use f(3) in \<open>simp_all add: approved_row_def\<close>)
qed (use inv in \<open>simp add: approve_def\<close>)

lemma sup_inv_reject:
  assumes inv: "sup_inv b"
  shows "sup_inv (snd (reject c i dto b))"
proof (cases "reject_tx c i dto b")
  case (Inr b')
  then obtain f where f: "map_of (bk_corrections b) i = Some f" "fc_status f = fc_requested"
    "bk_corrections b' = t_update i (rejected_row c) (bk_corrections b)" "bk_settlements b' = bk_settlements b"
    "bk_purchases b' = bk_purchases b" "bk_allocations b' = bk_allocations b"
    by (auto simp: reject_tx_def load_Inr t_update_where_def split: if_splits)
  show ?thesis
    unfolding reject_def Inr
    by (simp, rule sup_inv_decide [OF inv f(1,2) _ _ _ _ f(3-6)]) (simp_all add: rejected_row_def)
qed (use inv in \<open>simp add: reject_def\<close>)

section \<open>The rest of the program\<close>

text \<open>
  Receiving goods adds a purchase with a total in cents; everything else leaves these four
  tables alone.
\<close>

definition received :: "books \<Rightarrow> books \<Rightarrow> bool" where
  "received b b' \<longleftrightarrow> bk_settlements b' = bk_settlements b \<and> bk_allocations b' = bk_allocations b \<and> bk_corrections b' = bk_corrections b \<and>
     (bk_purchases b' = bk_purchases b \<or>
      (\<exists>pid p. map_of (bk_purchases b) pid = None \<and> is_cents (pu_total p) \<and> 0 \<le> pu_total p \<and>
               bk_purchases b' = t_insert pid p (bk_purchases b)))"

lemma sup_inv_received:
  assumes inv: "sup_inv b" and r: "received b b'"
  shows "sup_inv b'"
proof -
  from r have b': "bk_settlements b' = bk_settlements b" "bk_allocations b' = bk_allocations b" "bk_corrections b' = bk_corrections b"
    and "bk_purchases b' = bk_purchases b \<or> (\<exists>pid p. map_of (bk_purchases b) pid = None \<and> is_cents (pu_total p) \<and> 0 \<le> pu_total p \<and>
               bk_purchases b' = t_insert pid p (bk_purchases b))" by (simp_all add: received_def)
  then consider "bk_purchases b' = bk_purchases b"
    | pid p where "map_of (bk_purchases b) pid = None" "is_cents (pu_total p)" "0 \<le> pu_total p" "bk_purchases b' = t_insert pid p (bk_purchases b)"
    by blast
  then show ?thesis
  proof cases
    case 1
    with b' show ?thesis by (intro sup_inv_cong [OF inv])
  next
    case (2 k q)
    note D = sup_invD [OF inv]
    have look: "map_of (bk_purchases b') j = (if j = k then Some q else map_of (bk_purchases b) j)" for j by (simp add: 2)
    have paid: "paid_on pid b' = paid_on pid b" for pid by (simp add: paid_on_def is_live_def settlementNotCorrected_def b')
    have "paid_on k b = 0"
    proof -
      have "filter (\<lambda>a. al_purchaseId a = k \<and> is_live b a) (map snd (bk_allocations b)) = []"
        unfolding filter_empty_conv using D(6) 2(1) by (fastforce simp: allocation_ok_def)
      then show ?thesis by (simp add: paid_on_def)
    qed
    show ?thesis
    proof (rule sup_invI)
      show "is_cents (pu_total p)" "paid_on pid b' \<le> pu_total p" if "map_of (bk_purchases b') pid = Some p" for pid p
        using that D(4,5) 2 \<open>paid_on k b = 0\<close> unfolding look paid by (simp_all split: if_splits)
      show "allocation_ok b' a" if "a \<in> snd ` set (bk_allocations b')" for a
        using that D(6) [of a] 2(1) by (auto simp: allocation_ok_def b' look)
    qed (use D b' 2 in \<open>simp_all add: allocations_of_def approved_for_def correction_ok_def\<close>)
  qed
qed

section \<open>The system\<close>

inductive sup_step :: "books \<Rightarrow> books \<Rightarrow> bool" where
  reports: "valid_split (rs_allocations dto) \<Longrightarrow> is_cents (rs_amount dto) \<Longrightarrow> map_of (bk_settlements b) n = None
    \<Longrightarrow> sup_step b (snd (report sha256 c n ids dto b))"
| corrects: "(\<And>as. ct_allocations dto = Some as \<Longrightarrow> valid_split as) \<Longrightarrow> sup_step b (snd (correct c ids i dto b))"
| confirms: "sup_step b (snd (Suppliers.confirm c i v b))"
| creates: "sup_step b (snd (Suppliers.create same c n cdto b))"
| updates: "sup_step b (snd (Suppliers.update same c i udto b))"
| requests: "map_of (bk_corrections b) n = None \<Longrightarrow> sup_step b (snd (request sha256 c n rdto b))"
| approves: "sup_step b (snd (approve c i ddto b))"
| rejects: "sup_step b (snd (reject c i ddto b))"
| others: "received b b' \<Longrightarrow> sup_step b b'"

inductive_cases sup_stepE: "sup_step b b'"

definition sup_init :: "books \<Rightarrow> bool" where
  "sup_init b \<longleftrightarrow> bk_settlements b = [] \<and> bk_purchases b = [] \<and> bk_allocations b = [] \<and> bk_corrections b = []"

lemma create_tables:
  "sup_inv b \<Longrightarrow> sup_inv (snd (Suppliers.create same c n cdto b))"
  by (rule sup_inv_cong, assumption) (simp_all add: create_def Let_def)

lemma update_tables:
  "sup_inv b \<Longrightarrow> sup_inv (snd (Suppliers.update same c i udto b))"
  by (rule sup_inv_cong, assumption) (simp_all add: update_def Let_def split: sum.split)

lemmas sup_inv_handlers =
  sup_inv_report sup_inv_correct sup_inv_confirm create_tables update_tables sup_inv_request sup_inv_approve sup_inv_reject sup_inv_received

interpretation sup_sys: invariant_system sup_init sup_step sup_inv
proof unfold_locales
  show "sup_inv b" if "sup_init b" for b
    using that by (simp add: sup_init_def sup_inv_def approved_for_def)
  show "sup_inv b'" if "sup_inv b" "sup_step b b'" for b b'
    using that(2,1) by (cases rule: sup_step.cases) (simp_all add: sup_inv_handlers)
qed

end
