(* ===== verification/SupplierProperties.thy ===== *)
theory SupplierProperties
  imports SupplierInvariant
begin

text \<open>
  What the suppliers and the corrections services guarantee: the figures of what is owed agree,
  no purchase is paid beyond its total, an approved correction brings a debt back exactly, the
  suggested split is accepted; and where the code falls short of it.
\<close>

section \<open>What is owed, in one sum\<close>

lemma sum_of_delta: "distinct ks \<Longrightarrow> sum_of (\<lambda>k. if x = k then v else 0) ks = (if x \<in> set ks then v else 0)"
  by (induction ks) auto

lemma sum_of_by_key:
  assumes "distinct ks" "\<And>a. a \<in> set as \<Longrightarrow> key a \<in> set ks"
  shows "sum_of (\<lambda>k. sum_of g (filter (\<lambda>a. key a = k) as)) ks = sum_of g as"
  using assms(2)
proof (induction as)
  case Nil
  then show ?case by (induction ks) simp_all
next
  case (Cons a as)
  have "sum_of (\<lambda>k. sum_of g (filter (\<lambda>x. key x = k) (a # as))) ks =
      sum_of (\<lambda>k. if key a = k then g a else 0) ks + sum_of (\<lambda>k. sum_of g (filter (\<lambda>x. key x = k) as)) ks"
    by (induction ks) simp_all
  with Cons show ?case by (simp add: sum_of_delta [OF assms(1)])
qed

lemma sum_of_map: "sum_of f (map g xs) = sum_of (\<lambda>x. f (g x)) xs"
  by (induction xs) simp_all

lemma sum_of_concat: "sum_of f (concat xss) = sum_of (sum_of f) xss"
  by (induction xss) simp_all

lemma sum_of_mset: "mset xs = mset ys \<Longrightarrow> sum_of f xs = sum_of f ys"
  unfolding sum_of_def by (metis mset_map sum_mset_sum_list)

lemma sum_of_split: "sum_of f (filter p xs) = sum_of f (filter (\<lambda>x. p x \<and> q x) xs) + sum_of f (filter (\<lambda>x. p x \<and> \<not> q x) xs)"
  by (induction xs) simp_all

lemma sum_of_filter_pos: "(\<And>x. x \<in> set xs \<Longrightarrow> 0 \<le> f x) \<Longrightarrow> sum_of f (filter (\<lambda>x. f x > 0) xs) = sum_of f xs"
  by (induction xs) (auto simp: order_le_less)

text \<open>
  The promise: what is owed to a supplier is what was bought from it less the confirmed
  payments that no approved correction took back.
\<close>

definition counting_payments :: "id \<Rightarrow> id \<Rightarrow> books \<Rightarrow> (id \<times> settlement) list" where
  "counting_payments co sid b = filter (\<lambda>(i, s). st_companyId s = co \<and> st_supplierId s = sid \<and> st_status s = st_confirmed \<and>
     settlementNotCorrected i b) (bk_settlements b)"

definition debt_to :: "id \<Rightarrow> id \<Rightarrow> books \<Rightarrow> number" where
  "debt_to co sid b = sum_of (\<lambda>(_, p). pu_total p) (purchases_of co sid b) - sum_of (\<lambda>(_, s). st_amount s) (counting_payments co sid b)"

lemma allocation_owner:
  assumes inv: "sup_inv b" and a: "a \<in> snd ` set (bk_allocations b)"
    and s: "map_of (bk_settlements b) (al_settlementId a) = Some s"
  shows "st_companyId s = al_companyId a" "al_purchaseId a \<in> fst ` set (purchases_of (al_companyId a) (st_supplierId s) b)"
proof -
  from sup_invD(6) [OF inv a] s obtain p where p: "map_of (bk_purchases b) (al_purchaseId a) = Some p"
    "st_companyId s = al_companyId a" "pu_companyId p = al_companyId a" "pu_supplierId p = st_supplierId s"
    by (auto simp: allocation_ok_def)
  then show "st_companyId s = al_companyId a" by simp
  from p have "(al_purchaseId a, p) \<in> set (purchases_of (al_companyId a) (st_supplierId s) b)"
    using purchases_of_lookup [OF sup_invD(2) [OF inv]] by simp
  then show "al_purchaseId a \<in> fst ` set (purchases_of (al_companyId a) (st_supplierId s) b)" by force
qed

text \<open>Summed over the purchases or over the payments, the live allocations of a supplier are the same.\<close>

lemma settlements_split:
  assumes inv: "sup_inv b" and ss: "set ss \<subseteq> {(i, s). map_of (bk_settlements b) i = Some s \<and> st_companyId s = co \<and> st_supplierId s = sid}"
  shows "sum_of (\<lambda>(pid, _). sum_of al_amount (filter (\<lambda>a. al_purchaseId a = pid) (concat (map (\<lambda>(i, _). allocations_of i b) ss))))
      (purchases_of co sid b) = sum_of (\<lambda>(_, s). st_amount s) ss"
proof -
  let ?as = "concat (map (\<lambda>(i, _). allocations_of i b) ss)"
  have own: "al_purchaseId a \<in> set (map fst (purchases_of co sid b))" if a: "a \<in> set ?as" for a
  proof -
    from a obtain i s where "(i, s) \<in> set ss" "a \<in> snd ` set (bk_allocations b)" "al_settlementId a = i"
      by (auto simp: allocations_of_map)
    with ss allocation_owner [OF inv, of a s] show ?thesis by auto
  qed
  have "sum_of (\<lambda>k. sum_of al_amount (filter (\<lambda>a. al_purchaseId a = k) ?as)) (map fst (purchases_of co sid b)) = sum_of al_amount ?as"
    by (rule sum_of_by_key [OF distinct_purchases_of [OF sup_invD(2) [OF inv]] own])
  then have "sum_of (\<lambda>(pid, _). sum_of al_amount (filter (\<lambda>a. al_purchaseId a = pid) ?as)) (purchases_of co sid b) = sum_of al_amount ?as"
    by (simp add: sum_of_map case_prod_unfold)
  also have "\<dots> = sum_of (\<lambda>(_, s). st_amount s) ss"
    unfolding sum_of_concat sum_of_map using ss sup_invD(7) [OF inv] by (intro sum_of_cong) auto
  finally show ?thesis .
qed

lemma counting_rows:
  assumes "sup_inv b"
  shows "set (counting_payments co sid b) \<subseteq> {(i, s). map_of (bk_settlements b) i = Some s \<and> st_companyId s = co \<and> st_supplierId s = sid}"
  using sup_invD(1) [OF assms] by (auto simp: counting_payments_def t_wf_map_of_eq)

lemma paid_on_counting:
  assumes inv: "sup_inv b" and p: "(pid, p) \<in> set (purchases_of co sid b)"
  shows "sum_of al_amount (filter (\<lambda>a. al_purchaseId a = pid) (concat (map (\<lambda>(i, _). allocations_of i b) (counting_payments co sid b)))) = paid_on pid b"
proof -
  let ?P = "\<lambda>a. al_purchaseId a = pid" and ?as = "map snd (bk_allocations b)"
  let ?ks = "map fst (counting_payments co sid b)"
  from p have p': "map_of (bk_purchases b) pid = Some p" "pu_companyId p = co" "pu_supplierId p = sid"
    using purchases_of_lookup [OF sup_invD(2) [OF inv]] by auto
  have keys: "distinct ?ks"
    using sup_invD(1) [OF inv] unfolding counting_payments_def t_wf_def t_keys_def by (rule distinct_map_filter)
  have live: "al_settlementId a \<in> set ?ks" if "a \<in> set ?as" "?P a" "is_live b a" for a
  proof -
    from that(3) obtain s where s: "map_of (bk_settlements b) (al_settlementId a) = Some s" "st_status s = st_confirmed"
      "settlementNotCorrected (al_settlementId a) b" by (auto simp: is_live_def)
    from that(1) sup_invD(6) [OF inv, of a] s(1) p' that(2) have "st_companyId s = co" "st_supplierId s = sid"
      by (auto simp: allocation_ok_def)
    with s map_of_SomeD [OF s(1)] show ?thesis by (force simp: counting_payments_def)
  qed
  have live': "is_live b a" if "al_settlementId a \<in> set ?ks" for a
    using that counting_rows [OF inv, of co sid] by (auto simp: counting_payments_def is_live_def)
  have "sum_of al_amount (filter ?P (concat (map (\<lambda>(i, _). allocations_of i b) (counting_payments co sid b)))) =
      sum_of (\<lambda>k. sum_of al_amount (filter (\<lambda>a. al_settlementId a = k) (filter (\<lambda>a. ?P a \<and> is_live b a) ?as))) ?ks"
    unfolding filter_concat sum_of_concat sum_of_map map_map
  proof (rule sum_of_cong, goal_cases)
    case (1 x)
    then show ?case using live' [of ] by (auto simp: allocations_of_map case_prod_unfold intro!: arg_cong [where f = "sum_of al_amount"] filter_cong)
  qed
  also have "\<dots> = paid_on pid b" unfolding paid_on_def by (rule sum_of_by_key [OF keys]) (use live in auto)
  finally show ?thesis .
qed

lemma debt_to_purchases:
  assumes inv: "sup_inv b"
  shows "debt_to co sid b = sum_of (\<lambda>(pid, p). pu_total p - paid_on pid b) (purchases_of co sid b)"
proof -
  have "sum_of (\<lambda>(_, s). st_amount s) (counting_payments co sid b) = sum_of (\<lambda>(pid, _). paid_on pid b) (purchases_of co sid b)"
    unfolding settlements_split [OF inv counting_rows [OF inv], symmetric]
    by (rule sum_of_cong) (use paid_on_counting [OF inv] in auto)
  then show ?thesis by (simp add: debt_to_def sum_of_diff [symmetric] case_prod_unfold)
qed

section \<open>The figures agree\<close>

lemma round2_debt:
  assumes inv: "sup_inv b"
  shows "round2 (debt_to co sid b) = debt_to co sid b"
proof -
  have "is_cents (pu_total p - paid_on pid b)" if "(pid, p) \<in> set (purchases_of co sid b)" for pid p
    using that purchases_of_lookup [OF sup_invD(2) [OF inv]] sup_invD(4) [OF inv, of pid p] paid_on_cents [OF inv] by auto
  then have "is_cents (debt_to co sid b)" unfolding debt_to_purchases [OF inv] by (intro sum_of_cents) auto
  then show ?thesis by simp
qed

lemma live_by_supplier:
  assumes inv: "sup_inv b"
  shows "sum_of al_amount (filter (\<lambda>a. supplier_of b a = Some sid) (live_allocations co b)) =
    sum_of (\<lambda>(pid, _). paid_on pid b) (purchases_of co sid b)"
proof -
  let ?as = "filter (\<lambda>a. supplier_of b a = Some sid) (live_allocations co b)"
  have own: "al_purchaseId a \<in> set (map fst (purchases_of co sid b))" if a: "a \<in> set ?as" for a
  proof -
    from a have a': "a \<in> snd ` set (bk_allocations b)" "al_companyId a = co" "is_live b a" "supplier_of b a = Some sid"
      unfolding live_allocations_eq [OF inv] by auto
    then obtain s where "map_of (bk_settlements b) (al_settlementId a) = Some s" "st_supplierId s = sid" by (auto simp: supplier_of_def)
    with allocation_owner [OF inv a'(1)] a' show ?thesis by auto
  qed
  have "sum_of (\<lambda>k. sum_of al_amount (filter (\<lambda>a. al_purchaseId a = k) ?as)) (map fst (purchases_of co sid b)) = sum_of al_amount ?as"
    by (rule sum_of_by_key [OF distinct_purchases_of [OF sup_invD(2) [OF inv]] own])
  moreover have "sum_of (\<lambda>k. sum_of al_amount (filter (\<lambda>a. al_purchaseId a = k) ?as)) (map fst (purchases_of co sid b)) =
      sum_of (\<lambda>(pid, _). paid_on pid b) (purchases_of co sid b)"
    unfolding sum_of_map
  proof (rule sum_of_cong, goal_cases)
    case (1 x)
    obtain pid p where "x = (pid, p)" by fastforce
    with 1 have x: "x = (pid, p)" "map_of (bk_purchases b) pid = Some p" "pu_companyId p = co" "pu_supplierId p = sid"
      using purchases_of_lookup [OF sup_invD(2) [OF inv]] by simp_all
    from paid_on_reads(2) [OF inv x(2)] x show ?case by simp
  qed
  ultimately show ?thesis by simp
qed

lemma outstandingBySupplier_eq:
  assumes inv: "sup_inv b"
  shows "outstandingBySupplier co [sid] b = [(sid, debt_to co sid b)]"
proof -
  have "sum_of (\<lambda>(_, p). pu_total p) (purchases_of co sid b) -
      sum_of al_amount (filter (\<lambda>a. supplier_of b a = Some sid) (live_allocations co b)) = debt_to co sid b"
    unfolding live_by_supplier [OF inv] debt_to_purchases [OF inv] by (simp add: sum_of_diff case_prod_unfold)
  then show ?thesis using round2_debt [OF inv, of co sid] by (auto simp: outstandingBySupplier_def Let_def)
qed

lemma open_sum:
  assumes inv: "sup_inv b"
  shows "sum_of op_outstanding (openPurchases co sid b) = debt_to co sid b"
proof -
  let ?paid = "\<lambda>i. sum_of al_amount (filter (\<lambda>a. al_purchaseId a = i) (filter (\<lambda>a. supplier_of b a = Some sid) (live_allocations co b)))"
  have row: "round2 (pu_total p - ?paid pid) = pu_total p - paid_on pid b \<and> 0 \<le> pu_total p - paid_on pid b"
    if "(pid, p) \<in> set (purchases_of co sid b)" for pid p
  proof -
    from that have p: "map_of (bk_purchases b) pid = Some p" "pu_companyId p = co" "pu_supplierId p = sid"
      using purchases_of_lookup [OF sup_invD(2) [OF inv]] by auto
    with paid_on_reads(2) [OF inv p(1)] sup_invD(4,5) [OF inv p(1)] paid_on_cents [OF inv] show ?thesis by simp
  qed
  have "sum_of op_outstanding (openPurchases co sid b) =
      sum_of op_outstanding (map (\<lambda>(i, p). \<lparr>op_purchaseId = i, op_total = pu_total p, op_paid = round2 (?paid i),
         op_outstanding = round2 (pu_total p - ?paid i), op_date = pu_date p\<rparr>) (purchases_of co sid b))"
    unfolding openPurchases_def Let_def by (rule sum_of_filter_pos) (use row in auto)
  also have "\<dots> = debt_to co sid b"
    unfolding debt_to_purchases [OF inv] sum_of_map by (rule sum_of_cong) (use row in auto)
  finally show ?thesis .
qed

lemma debt_to_nonneg:
  assumes inv: "sup_inv b"
  shows "0 \<le> debt_to co sid b"
  unfolding open_sum [OF inv, symmetric] openPurchases_def sum_of_def Let_def by (intro sum_list_nonneg) auto

section \<open>The detail page\<close>

lemma paid_fold:
  assumes "\<forall>a \<in> set as. is_cents (al_amount a)" "\<forall>k. is_cents (m k)"
  shows "fold (\<lambda>a m. m(al_purchaseId a := round2 (m (al_purchaseId a) + al_amount a))) as m pid =
    m pid + sum_of al_amount (filter (\<lambda>a. al_purchaseId a = pid) as)"
  using assms by (induction as arbitrary: m) simp_all

definition corrected_payments :: "id \<Rightarrow> id \<Rightarrow> books \<Rightarrow> (id \<times> settlement) list" where
  "corrected_payments co sid b = filter (\<lambda>(i, s). st_companyId s = co \<and> st_supplierId s = sid \<and> st_status s = st_confirmed \<and>
     \<not> settlementNotCorrected i b) (bk_settlements b)"

lemma ledger_outstanding:
  assumes inv: "sup_inv b"
  shows "lv_outstanding (supplier_ledger co sid b) = debt_to co sid b - sum_of (\<lambda>(_, s). st_amount s) (corrected_payments co sid b)"
proof -
  let ?ss = "filter (\<lambda>(_, s). st_status s = st_confirmed) (settlements_of co sid b)"
  let ?as = "concat (map (\<lambda>(i, _). allocations_of i b) ?ss)"
  have rows: "set ?ss \<subseteq> {(i, s). map_of (bk_settlements b) i = Some s \<and> st_companyId s = co \<and> st_supplierId s = sid}"
    using sup_invD(1) [OF inv] by (auto simp: settlements_of_def t_wf_map_of_eq)
  have cents: "\<forall>a \<in> set ?as. is_cents (al_amount a)"
    using sup_invD(6) [OF inv] by (fastforce simp: allocations_of_map allocation_ok_def valid_amount_def)
  have pd: "paidByPurchase (settlements_of co sid b) b pid = sum_of al_amount (filter (\<lambda>a. al_purchaseId a = pid) ?as)" for pid
    unfolding paidByPurchase_def using paid_fold [OF cents, of "\<lambda>_. 0" pid] by simp
  have total: "is_cents (pu_total p)" if "(pid, p) \<in> set (purchases_of co sid b)" for pid p
    using that purchases_of_lookup [OF sup_invD(2) [OF inv]] sup_invD(4) [OF inv] by auto
  have pdc: "is_cents (paidByPurchase (settlements_of co sid b) b pid)" for pid
    unfolding pd using cents by (intro sum_of_cents) auto
  let ?x = "sum_of (\<lambda>(pid, p). pu_total p - paidByPurchase (settlements_of co sid b) b pid) (purchases_of co sid b)"
  have "is_cents ?x" using total pdc by (intro sum_of_cents) auto
  have "sum_of (\<lambda>x. pl_outstanding (purchase_line (paidByPurchase (settlements_of co sid b) b) x)) (purchases_of co sid b) = ?x"
    by (rule sum_of_cong) (use total pdc in \<open>auto simp: purchase_line_def Let_def\<close>)
  then have "lv_outstanding (supplier_ledger co sid b) = ?x"
    unfolding supplier_ledger_def Let_def using \<open>is_cents ?x\<close> by (simp add: sum_of_map)
  also have "\<dots> = sum_of (\<lambda>(_, p). pu_total p) (purchases_of co sid b) - sum_of (\<lambda>(_, s). st_amount s) ?ss"
    unfolding settlements_split [OF inv rows, symmetric] pd by (simp add: sum_of_diff case_prod_unfold)
  also have "sum_of (\<lambda>(_, s). st_amount s) ?ss = sum_of (\<lambda>(_, s). st_amount s) (counting_payments co sid b) +
      sum_of (\<lambda>(_, s). st_amount s) (corrected_payments co sid b)"
  proof -
    have "sum_of (\<lambda>(_, s). st_amount s) ?ss =
        sum_of (\<lambda>(_, s). st_amount s) (filter (\<lambda>(_, s). st_companyId s = co \<and> st_supplierId s = sid \<and> st_status s = st_confirmed) (bk_settlements b))"
      by (rule sum_of_mset) (simp add: settlements_of_def case_prod_unfold filter_filter_mset conj_ac)
    also have "\<dots> = sum_of (\<lambda>(_, s). st_amount s) (counting_payments co sid b) + sum_of (\<lambda>(_, s). st_amount s) (corrected_payments co sid b)"
      unfolding counting_payments_def corrected_payments_def case_prod_unfold
      by (subst sum_of_split [where q = "\<lambda>x. settlementNotCorrected (fst x) b"]) (simp add: conj_assoc)
    finally show ?thesis .
  qed
  finally show ?thesis by (simp add: debt_to_def)
qed

section \<open>Taking a payment back\<close>

lemma approve_target:
  assumes inv: "sup_inv b" and tx: "approve_tx c i dto b = Inr b'" and f: "map_of (bk_corrections b) i = Some f"
    "fc_targetSupplierSettlementId f = Some k"
  obtains s where "map_of (bk_settlements b) k = Some s" "st_status s = st_confirmed" "st_amount s = fc_amount f"
    "st_companyId s = fc_companyId f" "settlementNotCorrected k b" "\<And>j. settlementNotCorrected j b' \<longleftrightarrow> settlementNotCorrected j b \<and> j \<noteq> k"
    "bk_settlements b' = bk_settlements b" "bk_purchases b' = bk_purchases b" "bk_allocations b' = bk_allocations b"
    "bk_corrections b' = t_update i (approved_row c) (bk_corrections b)"
proof -
  note D = sup_invD [OF inv]
  from tx obtain f' where f': "map_of (bk_corrections b) i = Some f'" "fc_status f' = fc_requested"
    and b': "bk_settlements b' = bk_settlements b" "bk_purchases b' = bk_purchases b" "bk_allocations b' = bk_allocations b"
    "bk_corrections b' = t_update i (approved_row c) (bk_corrections b)" by (rule correction_approve_tx_Inr) (simp add: Let_def)
  with f have req: "fc_status f = fc_requested" by simp
  have "f \<in> snd ` set (bk_corrections b)" using map_of_SomeD [OF f(1)] by force
  from D(9) [OF this] f(2) obtain s where s: "map_of (bk_settlements b) k = Some s" "st_status s = st_confirmed"
    "st_companyId s = fc_companyId f" "st_amount s = fc_amount f" by (auto simp: correction_ok_def)
  have len: "length (approved_for j b') = length (approved_for j b) + (if k = j then 1 else 0)" for j
    using approved_for_decide [of b i f "approved_row c" b', OF D(3) f(1) req _ b'(4), of j] f(2) by (simp add: approved_row_def)
  have "sup_inv b'" using sup_inv_approve [OF inv, of c i dto] tx by (simp add: approve_def)
  from sup_invD(10) [OF this, of k] len [of k] have none: "approved_for k b = []" by simp
  have "settlementNotCorrected j b' \<longleftrightarrow> settlementNotCorrected j b \<and> j \<noteq> k" for j
    unfolding settlementNotCorrected_iff length_0_conv [symmetric] len by auto
  moreover have "settlementNotCorrected k b" using none by (simp add: settlementNotCorrected_iff)
  ultimately show ?thesis using that s b' by metis
qed

lemma sum_of_remove_key:
  assumes "distinct (map fst xs)" "(k, v) \<in> set xs"
  shows "sum_of f (filter (\<lambda>x. fst x \<noteq> k) xs) = sum_of f xs - f (k, v)"
  using assms
proof (induction xs)
  case (Cons x xs)
  show ?case
  proof (cases "fst x = k")
    case True
    with Cons.prems have k: "k \<notin> fst ` set xs" by auto
    with Cons.prems(2) have "x = (k, v)" by force
    from k have "filter (\<lambda>x. fst x \<noteq> k) xs = xs" by (auto simp: filter_id_conv)
    with \<open>x = (k, v)\<close> show ?thesis by simp
  next
    case False
    with Cons show ?thesis by auto
  qed
qed simp

lemma approve_debt:
  assumes inv: "sup_inv b" and tx: "approve_tx c i dto b = Inr b'" and f: "map_of (bk_corrections b) i = Some f"
    "fc_targetSupplierSettlementId f = Some k" and s: "map_of (bk_settlements b) k = Some s"
  shows "debt_to co sid b' = debt_to co sid b + (if co = fc_companyId f \<and> sid = st_supplierId s then fc_amount f else 0)"
proof -
  from approve_target [OF inv tx f] s
  have s': "st_status s = st_confirmed" "st_amount s = fc_amount f" "st_companyId s = fc_companyId f" "settlementNotCorrected k b"
    and live: "\<And>j. settlementNotCorrected j b' \<longleftrightarrow> settlementNotCorrected j b \<and> j \<noteq> k"
    and b': "bk_settlements b' = bk_settlements b" "bk_purchases b' = bk_purchases b" by (metis option.inject)+
  have cnt: "counting_payments co sid b' = filter (\<lambda>x. fst x \<noteq> k) (counting_payments co sid b)"
    unfolding counting_payments_def b' live filter_filter by (rule filter_cong) auto
  have keys: "distinct (map fst (counting_payments co sid b))"
    using sup_invD(1) [OF inv] unfolding counting_payments_def t_wf_def t_keys_def by (rule distinct_map_filter)
  have mem: "(k, s) \<in> set (counting_payments co sid b) \<longleftrightarrow> co = fc_companyId f \<and> sid = st_supplierId s"
    using map_of_SomeD [OF s] s' by (auto simp: counting_payments_def)
  have same: "purchases_of co sid b' = purchases_of co sid b" by (simp add: purchases_of_def b')
  show ?thesis
  proof (cases "co = fc_companyId f \<and> sid = st_supplierId s")
    case True
    with mem have "(k, s) \<in> set (counting_payments co sid b)" by simp
    from sum_of_remove_key [OF keys this, of "\<lambda>(_, s). st_amount s"] show ?thesis
      unfolding debt_to_def cnt same if_P [OF True] by (simp add: s'(2))
  next
    case False
    have "fst x \<noteq> k" if "x \<in> set (counting_payments co sid b)" for x
      using that False mem counting_rows [OF inv, of co sid] s by (cases x) auto
    then have "filter (\<lambda>x. fst x \<noteq> k) (counting_payments co sid b) = counting_payments co sid b" by (simp add: filter_id_conv)
    then show ?thesis unfolding debt_to_def cnt same if_not_P [OF False] by simp
  qed
qed

lemma approve_rollups:
  assumes "approve_tx c i dto b = Inr b'" "map_of (bk_corrections b) i = Some f" "(br, day) \<noteq> (fc_branchId f, dayKey (c_now c))"
  shows "map_of (bk_rollups b') (br, day) = map_of (bk_rollups b) (br, day)"
  using assms(1)
proof (rule correction_approve_tx_Inr)
  fix f' assume "map_of (bk_corrections b) i = Some f'"
    and b': "b' = (let b2 = recomputeDaily (c_companyId c) (fc_branchId f') (dayKey (c_now c)) (c_now c)
                      (mark_payout i f' (b\<lparr>bk_corrections := t_update i (approved_row c) (bk_corrections b)\<rparr>))
           in b2\<lparr>bk_audit := bk_audit b2 @ [audit_row_of c ''FinancialCorrection'' i ''status_change'' (Some (fc_reason f')) None]\<rparr>)"
  then have "f' = f" using assms(2) by simp
  with assms(3) show ?thesis unfolding b' by (auto simp: recomputeDaily_def Let_def split: option.split)
qed

section \<open>The suggestion\<close>

lemma distinct_open:
  assumes "sup_inv b"
  shows "distinct (map op_purchaseId (openPurchases co sid b))"
  unfolding openPurchases_def Let_def
  by (rule distinct_map_filter) (use distinct_purchases_of [OF sup_invD(2) [OF assms], of co sid] in \<open>simp add: case_prod_unfold o_def\<close>)

lemma by_purchase_open:
  assumes inv: "sup_inv b" and x: "x \<in> set (openPurchases co sid b)"
  shows "by_purchase (openPurchases co sid b) (op_purchaseId x) = Some x"
  using x distinct_open [OF inv] unfolding by_purchase_def
  by (subst map_of_eq_Some_iff) (simp_all add: rev_map [symmetric] o_def image_iff)

lemma open_sorted: "sort_key op_date (filter (\<lambda>p. op_outstanding p > 0) (openPurchases co sid b)) = openPurchases co sid b"
proof -
  have "sorted (map op_date (map (\<lambda>(i, p). \<lparr>op_purchaseId = i, op_total = pu_total p, op_paid = g i, op_outstanding = h i p, op_date = pu_date p\<rparr>)
      (purchases_of co sid b)))" for g h
    unfolding purchases_of_def by (simp add: case_prod_unfold o_def)
  then have "sorted (map op_date (openPurchases co sid b))"
    unfolding openPurchases_def Let_def by (intro sorted_filter) simp
  moreover have "filter (\<lambda>p. op_outstanding p > 0) (openPurchases co sid b) = openPurchases co sid b"
    by (simp add: openPurchases_def Let_def)
  ultimately show ?thesis by (simp add: sorted_sort_id sort_key_id_if_sorted)
qed

lemma allocate_loop_cents: "x \<in> set (allocate_loop left ps) \<Longrightarrow> is_cents (ai_amount x)"
  by (induction left ps rule: allocate_loop.induct) (auto simp: Let_def split: if_splits)

lemma fits_loop_complete:
  assumes "distinct (map ai_purchaseId as)" "set (map ai_purchaseId as) \<inter> set seen = {}"
    "\<forall>a \<in> set as. 0 < ai_amount a \<and> is_cents (ai_amount a) \<and> (\<exists>p. owed (ai_purchaseId a) = Some p \<and> ai_amount a \<le> round2 (op_outstanding p))"
    "is_cents tot"
  shows "fits_loop owed as seen [] tot = ([], tot + (\<Sum>a\<leftarrow>as. ai_amount a))"
  using assms
proof (induction as arbitrary: seen tot)
  case (Cons a as)
  then obtain p where p: "owed (ai_purchaseId a) = Some p" "ai_amount a \<le> round2 (op_outstanding p)" by auto
  have c: "is_cents (ai_amount a)" "is_cents (tot + ai_amount a)" using Cons.prems by auto
  have "fits_loop owed (a # as) seen [] tot = fits_loop owed as (ai_purchaseId a # seen) [] (tot + ai_amount a)"
    using Cons.prems p c by (auto simp: Let_def)
  also have "\<dots> = ([], tot + ai_amount a + (\<Sum>a\<leftarrow>as. ai_amount a))"
    using Cons.prems c by (intro Cons.IH) auto
  finally show ?case by (simp add: add.assoc)
qed simp

section \<open>A delivery and two reported payments\<close>

definition ex_delivery :: books where
  "ex_delivery = ex_no_books\<lparr>
     bk_suppliers := [(5, \<lparr>sp_companyId = 2, sp_name = ''Nord'', sp_phone = None, sp_notes = None, sp_balance = 100, sp_deletedAt = None\<rparr>)],
     bk_purchases := [(7, \<lparr>pu_companyId = 2, pu_branchId = 3, pu_supplierId = 5, pu_referenceNo = None, pu_date = 0, pu_dueDate = None,
                           pu_total = 100, pu_amountPaid = 0, pu_status = unpaid\<rparr>)]\<rparr>"

definition ex_pay :: "id \<Rightarrow> ReportSettlementDto" where
  "ex_pay u = \<lparr>rs_supplierId = 5, rs_amount = 60, rs_method = cash, rs_receivingAccountId = None,
     rs_allocations = [\<lparr>ai_purchaseId = 7, ai_amount = 60\<rparr>], rs_transactionReference = None, rs_note = None, rs_clientUuid = u\<rparr>"

abbreviation ex_hash :: "string \<Rightarrow> string" where
  "ex_hash \<equiv> \<lambda>_. ''h''"

definition ex_reported1 :: books where
  "ex_reported1 = snd (report ex_hash ex_books_ctx 11 (\<lambda>j. 20 + j) (ex_pay 31) ex_delivery)"

definition ex_reported2 :: books where
  "ex_reported2 = snd (report ex_hash ex_books_ctx 12 (\<lambda>j. 30 + j) (ex_pay 32) ex_reported1)"

definition ex_payment :: "id \<Rightarrow> settlement" where
  "ex_payment u = \<lparr>st_companyId = 2, st_branchId = 3, st_supplierId = 5, st_status = st_reported, st_amount = 60, st_method = cash,
     st_receivingAccountId = None, st_accountLabelSnapshot = None, st_transactionReference = None, st_note = None, st_version = 0,
     st_clientUuid = u, st_clientRequestHash = ''h'', st_reportedById = Some 7, st_confirmedById = None, st_confirmedAt = None,
     st_confirmationDate = None\<rparr>"

definition ex_alloc :: "id \<Rightarrow> allocation" where
  "ex_alloc i = \<lparr>al_companyId = 2, al_settlementId = i, al_purchaseId = 7, al_amount = 60\<rparr>"

lemmas ex_supplier_defs = ex_delivery_def ex_no_books_def ex_books_ctx_def ex_pay_def

lemma ex_ctx [simp]: "c_companyId ex_books_ctx = 2" "c_branchId ex_books_ctx = Some 3" "c_userId ex_books_ctx = Some 7" "c_now ex_books_ctx = 5000"
  by (simp_all add: ex_books_ctx_def)

lemma ex_report_tables:
  assumes "bk_suppliers b = bk_suppliers ex_delivery" "bk_purchases b = bk_purchases ex_delivery"
    "live_allocations 2 b = []" "find (\<lambda>(_, s). st_companyId s = 2 \<and> st_clientUuid s = u) (bk_settlements b) = None"
  shows "snd (report ex_hash ex_books_ctx n ids (ex_pay u) b) =
     b\<lparr>bk_settlements := t_insert n (ex_payment u) (bk_settlements b), bk_allocations := t_insert (ids 0) (ex_alloc n) (bk_allocations b),
       bk_audit := bk_audit b @ [audit_row_of ex_books_ctx ''SupplierSettlement'' n ''create'' None (Some 3)]\<rparr>"
proof -
  have owed: "openPurchases 2 5 b = [\<lparr>op_purchaseId = 7, op_total = 100, op_paid = 0, op_outstanding = 100, op_date = 0\<rparr>]"
    by (simp add: openPurchases_def purchases_of_def assms(2,3) ex_delivery_def)
  have fits: "assertAllocationFits 60 [\<lparr>ai_purchaseId = 7, ai_amount = 60\<rparr>] (by_purchase (openPurchases 2 5 b)) = Inr ()"
    unfolding owed by (simp add: assertAllocationFits_def by_purchase_def)
  have "report_plan ex_hash ex_books_ctx (ex_pay u) b = Inr (Inr (3, None))"
    using fits assms(1,4)
    by (simp add: report_plan_def Suppliers.load_def findReplay_def resolveAccount_def require_def ex_pay_def ex_delivery_def payable_def)
  then have "snd (report ex_hash ex_books_ctx n ids (ex_pay u) b) = report_tx ex_hash ex_books_ctx n ids 3 (ex_pay u) None b"
    by (simp add: report_def Let_def)
  then show ?thesis
    by (simp add: report_tx_def ex_pay_def ex_payment_def new_allocation_def ex_alloc_def settlementFingerprint_def)
qed

lemma ex_reported1_eq:
  "ex_reported1 = ex_delivery\<lparr>bk_settlements := [(11, ex_payment 31)], bk_allocations := [(20, ex_alloc 11)],
     bk_audit := [audit_row_of ex_books_ctx ''SupplierSettlement'' 11 ''create'' None (Some 3)]\<rparr>"
  unfolding ex_reported1_def
  by (subst ex_report_tables) (simp_all add: ex_delivery_def ex_no_books_def live_allocations_def rows_where_def t_insert_def)

lemma ex_reported2_eq:
  "ex_reported2 = ex_delivery\<lparr>bk_settlements := [(11, ex_payment 31), (12, ex_payment 32)], bk_allocations := [(20, ex_alloc 11), (30, ex_alloc 12)],
     bk_audit := [audit_row_of ex_books_ctx ''SupplierSettlement'' 11 ''create'' None (Some 3),
                  audit_row_of ex_books_ctx ''SupplierSettlement'' 12 ''create'' None (Some 3)]\<rparr>"
  unfolding ex_reported2_def
  by (subst ex_report_tables)
    (simp_all add: ex_reported1_eq ex_delivery_def ex_no_books_def live_allocations_def rows_where_def t_insert_def ex_payment_def ex_alloc_def)

lemma ex_reach: "reach sup_init sup_step ex_delivery" "reach sup_init sup_step ex_reported1" "reach sup_init sup_step ex_reported2"
proof -
  have "reach sup_init sup_step ex_no_books" by (rule reach.reach_init) (simp add: sup_init_def ex_no_books_def)
  moreover have "sup_step ex_no_books ex_delivery"
    by (rule sup_step.others) (simp add: received_def ex_delivery_def ex_no_books_def t_insert_def)
  ultimately show d: "reach sup_init sup_step ex_delivery" by (rule reach.reach_step)
  show r: "reach sup_init sup_step ex_reported1"
    unfolding ex_reported1_def
    by (rule reach.reach_step [OF d], rule sup_step.reports) (simp_all add: ex_pay_def valid_split_def ex_delivery_def ex_no_books_def)
  show "reach sup_init sup_step ex_reported2"
    unfolding ex_reported2_def
    by (rule reach.reach_step [OF r], rule sup_step.reports) (simp_all add: ex_pay_def valid_split_def ex_reported1_eq)
qed

section \<open>Theorems\<close>




text \<open>
  The figure in the list of suppliers and the one offered for payment agree, in every
  reachable state, with what was bought less the confirmed payments that no approved
  correction took back; it is never negative, and the open purchases add up to it.
\<close>

theorem supplier_outstanding_agrees:
  assumes "reach sup_init sup_step b" "Suppliers.load c i b = Inr s"
  shows "outstandingBySupplier (c_companyId c) [i] b = [(i, debt_to (c_companyId c) i b)] \<and> 0 \<le> debt_to (c_companyId c) i b \<and>
    (\<exists>v. payableFor c i amt b = Inr v \<and> pv_outstanding v = debt_to (c_companyId c) i b \<and>
         sum_of op_outstanding (pv_purchases v) = pv_outstanding v)"
proof -
  have inv: "sup_inv b" by (rule sup_sys.reach_inv [OF assms(1)])
  have "payableFor c i amt b = Inr \<lparr>pv_supplierId = i, pv_isActive = (sp_deletedAt s = None),
      pv_outstanding = round2 (sum_of op_outstanding (openPurchases (c_companyId c) i b)), pv_purchases = openPurchases (c_companyId c) i b,
      pv_suggested = (case amt of None \<Rightarrow> [] | Some a \<Rightarrow> if a > 0 then allocateOldestFirst a (openPurchases (c_companyId c) i b) else [])\<rparr>"
    using assms(2) by (simp add: payableFor_def Let_def)
  then show ?thesis
    using outstandingBySupplier_eq [OF inv] debt_to_nonneg [OF inv] open_sum [OF inv] round2_debt [OF inv] by simp
qed

lemma ex_load: "Suppliers.load ex_books_ctx 5 ex_reported2 = Inr (snd (hd (bk_suppliers ex_delivery)))"
  by (simp add: Suppliers.load_def ex_reported2_eq) (simp add: ex_delivery_def)

theorem supplier_outstanding_agrees_witness:
  "outstandingBySupplier 2 [5] ex_reported2 = [(5, 100)] \<and> (\<exists>v. payableFor ex_books_ctx 5 (Some 60) ex_reported2 = Inr v \<and> pv_outstanding v = 100)"
proof -
  have "debt_to 2 5 ex_reported2 = 100"
    by (simp add: debt_to_def purchases_of_def counting_payments_def ex_reported2_eq ex_payment_def) (simp add: ex_delivery_def)
  with supplier_outstanding_agrees [OF ex_reach(3) ex_load, of "Some 60"] show ?thesis by auto
qed

text \<open>
  The suggested split of an amount that is not more than what is owed passes the checks of
  a reported payment, and touches a purchase only when every older one is paid in full.
\<close>

theorem suggestion_accepted:
  assumes "reach sup_init sup_step b" "payableFor c i (Some a) b = Inr v" "0 < a" "is_cents a" "a \<le> pv_outstanding v"
  shows "assertAllocationFits a (pv_suggested v) (by_purchase (openPurchases (c_companyId c) i b)) = Inr () \<and>
    (\<exists>n. map ai_purchaseId (pv_suggested v) = map op_purchaseId (take n (pv_purchases v)) \<and>
      (\<forall>j. Suc j < n \<longrightarrow> ai_amount (pv_suggested v ! j) = op_outstanding (pv_purchases v ! j)))"
proof -
  have inv: "sup_inv b" by (rule sup_sys.reach_inv [OF assms(1)])
  let ?ps = "openPurchases (c_companyId c) i b"
  from assms(2,3) have v: "pv_suggested v = allocateOldestFirst a ?ps" "pv_purchases v = ?ps" "pv_outstanding v = round2 (sum_of op_outstanding ?ps)"
    by (auto simp: payableFor_def Let_def)
  have pos: "\<forall>p \<in> set ?ps. is_cents (op_outstanding p) \<and> 0 < op_outstanding p"
    by (auto simp: openPurchases_def Let_def)
  have srt: "sort_key op_date (filter (\<lambda>p. op_outstanding p > 0) ?ps) = ?ps" by (rule open_sorted)
  have sug: "pv_suggested v = allocate_loop a ?ps" using assms(4) by (simp add: v allocateOldestFirst_def srt)
  have tot: "(\<Sum>x\<leftarrow>allocate_loop a ?ps. ai_amount x) = a"
    using allocate_loop_sum [OF assms(4) pos] assms(3,5) open_sum [OF inv, of "c_companyId c" i] round2_debt [OF inv, of "c_companyId c" i]
    by (simp add: v sum_of_def min_def max_def)
  obtain n where n: "map ai_purchaseId (allocate_loop a ?ps) = map op_purchaseId (take n ?ps)" "n \<le> length ?ps"
      "\<forall>j < n. ai_amount (allocate_loop a ?ps ! j) \<le> op_outstanding (?ps ! j) \<and> 0 < ai_amount (allocate_loop a ?ps ! j)"
      "\<forall>j. Suc j < n \<longrightarrow> ai_amount (allocate_loop a ?ps ! j) = op_outstanding (?ps ! j)"
    using allocate_loop_prefix [OF assms(4) pos] by blast
  have "fits_loop (by_purchase ?ps) (allocate_loop a ?ps) [] [] 0 = ([], 0 + (\<Sum>x\<leftarrow>allocate_loop a ?ps. ai_amount x))"
  proof (rule fits_loop_complete)
    show "distinct (map ai_purchaseId (allocate_loop a ?ps))"
      using distinct_open [OF inv] by (simp add: n(1) take_map [symmetric])
    show "\<forall>x \<in> set (allocate_loop a ?ps). 0 < ai_amount x \<and> is_cents (ai_amount x) \<and>
        (\<exists>p. by_purchase ?ps (ai_purchaseId x) = Some p \<and> ai_amount x \<le> round2 (op_outstanding p))"
    proof
      fix x assume "x \<in> set (allocate_loop a ?ps)"
      then obtain j where j: "j < length (allocate_loop a ?ps)" "x = allocate_loop a ?ps ! j" by (auto simp: in_set_conv_nth)
      from n(1,2) have len: "length (allocate_loop a ?ps) = n" by (metis length_map length_take min.absorb2)
      with j n(2) have "?ps ! j \<in> set ?ps" by simp
      moreover have "ai_purchaseId x = op_purchaseId (?ps ! j)" using arg_cong [OF n(1), of "\<lambda>xs. xs ! j"] j len n(2) by simp
      ultimately show "0 < ai_amount x \<and> is_cents (ai_amount x) \<and>
          (\<exists>p. by_purchase ?ps (ai_purchaseId x) = Some p \<and> ai_amount x \<le> round2 (op_outstanding p))"
        using by_purchase_open [OF inv] n(3) j len pos allocate_loop_cents [of x a ?ps] by auto
    qed
  qed simp_all
  moreover have "allocate_loop a ?ps \<noteq> []" using tot assms(3) by auto
  ultimately show ?thesis using n(1,4) assms(4) tot by (auto simp: sug v(2) assertAllocationFits_def)
qed

theorem suggestion_accepted_witness:
  "\<exists>v. payableFor ex_books_ctx 5 (Some 60) ex_reported2 = Inr v \<and>
     assertAllocationFits 60 (pv_suggested v) (by_purchase (openPurchases 2 5 ex_reported2)) = Inr ()"
proof -
  have "debt_to 2 5 ex_reported2 = 100"
    by (simp add: debt_to_def purchases_of_def counting_payments_def ex_reported2_eq ex_payment_def) (simp add: ex_delivery_def)
  moreover obtain v where v: "payableFor ex_books_ctx 5 (Some 60) ex_reported2 = Inr v"
    by (simp add: payableFor_def ex_load Let_def)
  moreover have "pv_outstanding v = debt_to 2 5 ex_reported2"
    using v open_sum [OF sup_sys.reach_inv [OF ex_reach(3)], of 2 5] round2_debt [OF sup_sys.reach_inv [OF ex_reach(3)], of 2 5]
    by (auto simp: payableFor_def ex_load Let_def)
  ultimately show ?thesis using suggestion_accepted [OF ex_reach(3) v] by simp
qed

text \<open>
  (C24) Approving the correction of a supplier payment raises what is owed to that supplier by
  exactly the amount of the payment and changes no other supplier's figure; the payment, its
  allocations and the purchases stay as recorded, no day but the day of the decision is
  recomputed, and no further correction of that payment can be approved.
\<close>

theorem correction_restores_debt:
  assumes "reach sup_init sup_step b" and tx: "approve_tx c i dto b = Inr b'" and f: "map_of (bk_corrections b) i = Some f"
    "fc_targetSupplierSettlementId f = Some k" and s: "map_of (bk_settlements b) k = Some s"
  shows "outstandingBySupplier co [sid] b' =
      [(sid, debt_to co sid b + (if co = fc_companyId f \<and> sid = st_supplierId s then st_amount s else 0))] \<and>
    bk_settlements b' = bk_settlements b \<and> bk_purchases b' = bk_purchases b \<and> bk_allocations b' = bk_allocations b \<and>
    (\<forall>br day. (br, day) \<noteq> (fc_branchId f, dayKey (c_now c)) \<longrightarrow> map_of (bk_rollups b') (br, day) = map_of (bk_rollups b) (br, day)) \<and>
    (\<forall>c' j g dto'. map_of (bk_corrections b') j = Some g \<and> fc_targetSupplierSettlementId g = Some k \<longrightarrow> (\<exists>e. approve_tx c' j dto' b' = Inl e))"
proof -
  have inv: "sup_inv b" by (rule sup_sys.reach_inv [OF assms(1)])
  have inv': "sup_inv b'" using sup_inv_approve [OF inv, of c i dto] tx by (simp add: approve_def)
  obtain s' where s': "map_of (bk_settlements b) k = Some s'" "st_amount s' = fc_amount f"
    and gone: "\<And>j. settlementNotCorrected j b' \<longleftrightarrow> settlementNotCorrected j b \<and> j \<noteq> k"
    and same: "bk_settlements b' = bk_settlements b" "bk_purchases b' = bk_purchases b" "bk_allocations b' = bk_allocations b"
    by (rule approve_target [OF inv tx f]) metis
  have once: "\<exists>e. approve_tx c' j dto' b' = Inl e" if "map_of (bk_corrections b') j = Some g" "fc_targetSupplierSettlementId g = Some k" for c' j g dto'
  proof (cases "approve_tx c' j dto' b'")
    case (Inr b2)
    from approve_target [OF inv' Inr that] gone [of k] show ?thesis by metis
  qed simp
  show ?thesis
    using outstandingBySupplier_eq [OF inv'] approve_debt [OF inv tx f s] approve_rollups [OF tx f(1)] same once s s' by auto
qed

text \<open>The second payment of the example is confirmed, then reported as a mistake.\<close>

definition ex_confirmed :: books where
  "ex_confirmed = snd (Suppliers.confirm ex_books_ctx 11 0 ex_reported2)"

definition ex_mistake :: RequestCorrectionDto where
  "ex_mistake = \<lparr>rq_targetKind = supplier_settlement, rq_targetId = 11, rq_reason = ''twice'', rq_supportingReference = None, rq_clientUuid = 41\<rparr>"

definition ex_asked :: books where
  "ex_asked = snd (request ex_hash ex_books_ctx 51 ex_mistake ex_confirmed)"

lemma ex_open:
  assumes "bk_purchases b = bk_purchases ex_delivery" "live_allocations 2 b = []"
  shows "openPurchases 2 5 b = [\<lparr>op_purchaseId = 7, op_total = 100, op_paid = 0, op_outstanding = 100, op_date = 0\<rparr>]"
  by (simp add: openPurchases_def purchases_of_def assms ex_delivery_def)

lemma ex_reported2_tables [simp]:
  "bk_settlements ex_reported2 = [(11, ex_payment 31), (12, ex_payment 32)]" "bk_allocations ex_reported2 = [(20, ex_alloc 11), (30, ex_alloc 12)]"
  "bk_purchases ex_reported2 = bk_purchases ex_delivery" "bk_corrections ex_reported2 = []" "bk_closings ex_reported2 = []"
  "live_allocations 2 ex_reported2 = []"
  by (simp_all add: ex_reported2_eq live_allocations_def rows_where_def ex_payment_def ex_alloc_def) (simp_all add: ex_delivery_def ex_no_books_def)

lemma ex_read:
  "confirm_read ex_books_ctx 11 ex_reported2 = Inr (ex_payment 31, [ex_alloc 11])"
  "confirm_read ex_books_ctx 12 ex_reported2 = Inr (ex_payment 32, [ex_alloc 12])"
  by (simp_all add: confirm_read_def loadSettlement_def allocations_of_def rows_where_def ex_alloc_def ex_payment_def require_def Let_def
      allocation_inputs_def ex_open payable_def by_purchase_def)

lemma ex_confirm_tx:
  "\<exists>b'. confirm_tx ex_books_ctx 11 0 (ex_payment 31, [ex_alloc 11]) ex_reported2 = Inr b'"
  by (simp add: confirm_tx_def t_update_where_def ex_payment_def Let_def)

lemma ex_confirmed_tables:
  "confirm_tx ex_books_ctx 11 0 (ex_payment 31, [ex_alloc 11]) ex_reported2 = Inr ex_confirmed"
  "bk_settlements ex_confirmed = [(11, confirmed_row ex_books_ctx (ex_payment 31)), (12, ex_payment 32)]"
  "bk_allocations ex_confirmed = [(20, ex_alloc 11), (30, ex_alloc 12)]" "bk_corrections ex_confirmed = []"
proof -
  from ex_confirm_tx obtain b' where b': "confirm_tx ex_books_ctx 11 0 (ex_payment 31, [ex_alloc 11]) ex_reported2 = Inr b'" by blast
  then have "ex_confirmed = b'" by (simp add: ex_confirmed_def Suppliers.confirm_def ex_read)
  with b' show tx: "confirm_tx ex_books_ctx 11 0 (ex_payment 31, [ex_alloc 11]) ex_reported2 = Inr ex_confirmed" by simp
  show "bk_settlements ex_confirmed = [(11, confirmed_row ex_books_ctx (ex_payment 31)), (12, ex_payment 32)]"
    "bk_allocations ex_confirmed = [(20, ex_alloc 11), (30, ex_alloc 12)]" "bk_corrections ex_confirmed = []"
    by (rule confirm_tx_Inr [OF tx], simp add: t_update_def)+
qed

lemma ex_asked_tables:
  "\<exists>f. bk_corrections ex_asked = [(51, f)] \<and> fc_targetSupplierSettlementId f = Some 11 \<and> fc_status f = fc_requested \<and> fc_version f = 0 \<and>
     fc_companyId f = 2 \<and> fc_branchId f = 3 \<and> fc_targetRefundPayoutId f = None"
  "bk_settlements ex_asked = bk_settlements ex_confirmed" "bk_closings ex_asked = bk_closings ex_confirmed"
  "bk_purchases ex_asked = bk_purchases ex_confirmed"
proof -
  let ?t = "\<lparr>tg_confirmed = True, tg_branchId = 3, tg_amount = 60, tg_method = cash, tg_accountLabel = None\<rparr>"
  let ?f = "new_correction ex_hash ex_books_ctx ''twice'' ex_mistake ?t"
  have "js_trim ''twice'' = ''twice''" by code_simp
  then have "request_tx ex_hash ex_books_ctx 51 ex_mistake ex_confirmed =
      Inr (51, ex_confirmed\<lparr>bk_corrections := [(51, ?f)], bk_audit := bk_audit ex_confirmed @
        [audit_row_of ex_books_ctx ''FinancialCorrection'' 51 ''create'' (Some ''twice'') None]\<rparr>)"
    by (simp add: request_tx_def ex_mistake_def require_def assertReasonGiven_def or_empty_def ex_confirmed_tables loadTarget_def
        assertTargetCorrectable_def confirmed_row_def ex_payment_def existing_corrections_def rows_where_def assertNotAlreadyCorrected_def
        assertNoOpenRequest_def t_insert_def)
  then show "\<exists>f. bk_corrections ex_asked = [(51, f)] \<and> fc_targetSupplierSettlementId f = Some 11 \<and> fc_status f = fc_requested \<and> fc_version f = 0 \<and>
     fc_companyId f = 2 \<and> fc_branchId f = 3 \<and> fc_targetRefundPayoutId f = None"
    "bk_settlements ex_asked = bk_settlements ex_confirmed" "bk_closings ex_asked = bk_closings ex_confirmed"
    "bk_purchases ex_asked = bk_purchases ex_confirmed"
    by (simp_all add: ex_asked_def request_def new_correction_def ex_mistake_def)
qed

lemma ex_asked_reach: "reach sup_init sup_step ex_confirmed" "reach sup_init sup_step ex_asked"
proof -
  show r: "reach sup_init sup_step ex_confirmed"
    unfolding ex_confirmed_def by (rule reach.reach_step [OF ex_reach(3)]) (rule sup_step.confirms)
  show "reach sup_init sup_step ex_asked"
    unfolding ex_asked_def by (rule reach.reach_step [OF r], rule sup_step.requests) (simp add: ex_confirmed_tables)
qed

lemma fold_project_rest [simp]:
  "bk_closings (fold (\<lambda>a. project_purchase co (al_purchaseId a)) as b) = bk_closings b"
  "bk_suppliers (fold (\<lambda>a. project_purchase co (al_purchaseId a)) as b) = bk_suppliers b"
  by (induction as arbitrary: b) (simp_all add: project_purchase_def Let_def)

lemma confirm_tx_rest:
  "confirm_tx c i v (s, as) b = Inr b' \<Longrightarrow> bk_closings b' = bk_closings b \<and>
     bk_suppliers b' = t_update (st_supplierId s) (\<lambda>x. x\<lparr>sp_balance := sp_balance x - st_amount s\<rparr>) (bk_suppliers b)"
  by (auto simp: confirm_tx_def t_update_where_def Let_def split: if_splits option.splits)

lemma ex_confirmed_closings: "bk_closings ex_confirmed = []"
  using confirm_tx_rest [OF ex_confirmed_tables(1)] by simp

lemma ex_approve_tx:
  "\<exists>b'. approve_tx ex_books_ctx 51 \<lparr>dq_expectedVersion = 0, dq_note = None\<rparr> ex_asked = Inr b'"
  using ex_asked_tables(1,3)
  by (auto simp: approve_tx_def load_Inr Corrections.load_def CorrectionRules.assertDecidable_def CorrectionRules.assertDayOpen_def require_def
      find_closing_def ex_confirmed_closings t_update_where_def approved_elsewhere_def Let_def)

theorem correction_restores_debt_witness:
  "\<exists>b'. approve_tx ex_books_ctx 51 \<lparr>dq_expectedVersion = 0, dq_note = None\<rparr> ex_asked = Inr b' \<and>
     outstandingBySupplier 2 [5] b' = [(5, debt_to 2 5 ex_asked + 60)] \<and> bk_settlements b' = bk_settlements ex_asked"
proof -
  from ex_approve_tx obtain b' where tx: "approve_tx ex_books_ctx 51 \<lparr>dq_expectedVersion = 0, dq_note = None\<rparr> ex_asked = Inr b'" by blast
  obtain f where f: "bk_corrections ex_asked = [(51, f)]" "fc_targetSupplierSettlementId f = Some 11" "fc_companyId f = 2"
    using ex_asked_tables(1) by blast
  have s: "map_of (bk_settlements ex_asked) 11 = Some (confirmed_row ex_books_ctx (ex_payment 31))"
    by (simp add: ex_asked_tables ex_confirmed_tables)
  from correction_restores_debt [OF ex_asked_reach(2) tx _ f(2) s, of 2 5] f tx show ?thesis
    by (simp add: confirmed_row_def ex_payment_def)
qed

section \<open>Where the code falls short\<close>

text \<open>
  The detail page of a supplier subtracts every confirmed payment, corrected or not: its
  figure is below the one of the list by exactly the payments an approved correction took back.
\<close>

theorem detail_ignores_corrections:
  assumes "reach sup_init sup_step b" "Suppliers.detail c i b = Inr d" "sd_ledger d = Some l"
  shows "outstandingBySupplier (c_companyId c) [i] b =
    [(i, lv_outstanding l + sum_of (\<lambda>(_, s). st_amount s) (corrected_payments (c_companyId c) i b))]"
proof -
  have inv: "sup_inv b" by (rule sup_sys.reach_inv [OF assms(1)])
  from assms(2,3) have "l = supplier_ledger (c_companyId c) i b" by (auto simp: Suppliers.detail_def split: if_splits)
  with ledger_outstanding [OF inv] outstandingBySupplier_eq [OF inv] show ?thesis by simp
qed

definition ex_manager :: ctx where
  "ex_manager = ex_books_ctx\<lparr>c_permissions := [''supplier.manage'']\<rparr>"

definition ex_approved :: books where
  "ex_approved = snd (approve ex_books_ctx 51 \<lparr>dq_expectedVersion = 0, dq_note = None\<rparr> ex_asked)"

lemma ex_confirmed_supplier: "\<exists>s. map_of (bk_suppliers ex_confirmed) 5 = Some s \<and> sp_companyId s = 2"
  using confirm_tx_rest [OF ex_confirmed_tables(1)] by (simp add: ex_payment_def ex_reported2_eq) (simp add: ex_delivery_def)

lemma ex_approved_tables:
  "bk_settlements ex_approved = bk_settlements ex_confirmed" "\<exists>s. map_of (bk_suppliers ex_approved) 5 = Some s \<and> sp_companyId s = 2"
  "\<exists>f. bk_corrections ex_approved = [(51, f)] \<and> fc_targetSupplierSettlementId f = Some 11 \<and> fc_status f = fc_approved"
proof -
  from ex_approve_tx obtain b' where tx: "approve_tx ex_books_ctx 51 \<lparr>dq_expectedVersion = 0, dq_note = None\<rparr> ex_asked = Inr b'" by blast
  then have b': "ex_approved = b'" by (simp add: ex_approved_def approve_def)
  have sup: "bk_suppliers ex_asked = bk_suppliers ex_confirmed"
    unfolding ex_asked_def request_def by (auto simp: request_tx_def split: sum.splits option.splits if_splits)
  show "bk_settlements ex_approved = bk_settlements ex_confirmed" "\<exists>s. map_of (bk_suppliers ex_approved) 5 = Some s \<and> sp_companyId s = 2"
    unfolding b' by (rule correction_approve_tx_Inr [OF tx], use ex_confirmed_supplier in \<open>simp add: Let_def ex_asked_tables sup\<close>)+
  show "\<exists>f. bk_corrections ex_approved = [(51, f)] \<and> fc_targetSupplierSettlementId f = Some 11 \<and> fc_status f = fc_approved"
    unfolding b' by (rule correction_approve_tx_Inr [OF tx], use ex_asked_tables(1) in \<open>auto simp: Let_def t_update_def approved_row_def\<close>)
qed

theorem detail_ignores_corrections_witness:
  "\<exists>d l. Suppliers.detail ex_manager 5 ex_approved = Inr d \<and> sd_ledger d = Some l \<and>
     outstandingBySupplier 2 [5] ex_approved = [(5, lv_outstanding l + 60)]"
proof -
  have r: "reach sup_init sup_step ex_approved"
    unfolding ex_approved_def by (rule reach.reach_step [OF ex_asked_reach(2)]) (rule sup_step.approves)
  have "corrected_payments 2 5 ex_approved = [(11, confirmed_row ex_books_ctx (ex_payment 31))]"
    using ex_approved_tables(3)
    by (auto simp: corrected_payments_def ex_approved_tables(1) ex_confirmed_tables settlementNotCorrected_def confirmed_row_def ex_payment_def)
  moreover obtain d l where d: "Suppliers.detail ex_manager 5 ex_approved = Inr d" "sd_ledger d = Some l"
    using ex_approved_tables(2) by (auto simp: Suppliers.detail_def Suppliers.load_def ex_manager_def seesMoney_def has_permission_def)
  moreover have "c_companyId ex_manager = 2" by (simp add: ex_manager_def)
  ultimately show ?thesis
    using detail_ignores_corrections [OF r d] by (simp add: confirmed_row_def ex_payment_def)
qed


end
