(* ===== verification/Expenses.thy ===== *)
theory Expenses
  imports Closing
begin

text \<open>
  Expenses (\<^verbatim>\<open>src/src/expenses/expense-rules.ts\<close> and \<^verbatim>\<open>src/src/expenses/expenses.service.ts\<close>): a
  report is a claim, only the confirmation moves money. The recomputation a confirmation
  queues is the step \<open>run_recompute\<close>, taken when the queue gets to it.
\<close>

section \<open>Rules\<close>

datatype expense_reason =
    CashWithAccount
  | AccountRequired
  | VariableWithDueDate
  | DueDateRequired
  | SalaryMustBeFixed
  | AmountRequired
  | AlreadyConfirmed
  | AlreadyRejected
  | DayAlreadyClosed nat
  | IdempotencyConflict
  | AccountUnavailable
  | RefreshRequired
  | ExpenseNotFound
  | BranchNeeded

type_synonym expense_error = "expense_reason http_error"

definition assertMethodAndAccount :: "Method \<Rightarrow> id option \<Rightarrow> expense_error + unit" where
  "assertMethodAndAccount meth accountId =
     (if meth = cash \<and> accountId \<noteq> None then Inl (BadRequest CashWithAccount)
      else if meth = account \<and> accountId = None then Inl (BadRequest AccountRequired)
      else Inr ())"

definition assertClassAndDueDate :: "ExpenseClass \<Rightarrow> nat option \<Rightarrow> expense_error + unit" where
  "assertClassAndDueDate cls dueDate =
     (if cls = variable \<and> dueDate \<noteq> None then Inl (BadRequest VariableWithDueDate)
      else if cls = fixed \<and> dueDate = None then Inl (BadRequest DueDateRequired)
      else Inr ())"

definition assertSalaryIsFixed :: "bool \<Rightarrow> ExpenseClass \<Rightarrow> expense_error + unit" where
  "assertSalaryIsFixed isSalary cls = require (\<not> (isSalary \<and> cls \<noteq> fixed)) (BadRequest SalaryMustBeFixed)"

definition assertAmount :: "number \<Rightarrow> expense_error + unit" where
  "assertAmount amount = require (amount > 0) (BadRequest AmountRequired)"

definition assertDecidable :: "expense \<Rightarrow> expense_error + unit" where
  "assertDecidable x =
     (case x_status x of
        ex_reported \<Rightarrow> Inr ()
      | ex_confirmed \<Rightarrow> Inl (Conflict AlreadyConfirmed)
      | ex_rejected \<Rightarrow> Inl (Conflict AlreadyRejected))"

definition assertNotConfirmed :: "expense \<Rightarrow> expense_error + unit" where
  "assertNotConfirmed x = require (x_status x \<noteq> ex_confirmed) (Conflict AlreadyConfirmed)"

definition assertDayOpen :: "closing option \<Rightarrow> nat \<Rightarrow> expense_error + unit" where
  "assertDayOpen k day =
     require (\<not> (case k of None \<Rightarrow> False | Some x \<Rightarrow> cl_isLocked x)) (Conflict (DayAlreadyClosed day))"

definition needsReasonWarning :: "string option \<Rightarrow> bool" where
  "needsReasonWarning note = blank note"

definition class_text :: "ExpenseClass \<Rightarrow> string" where
  "class_text cls = (case cls of variable \<Rightarrow> ''variable'' | fixed \<Rightarrow> ''fixed'')"

text \<open>The text of a date, \<^verbatim>\<open>YYYY-MM-DD\<close>, is a parameter.\<close>

definition fingerprintExpense ::
  "(string \<Rightarrow> string) \<Rightarrow> (nat \<Rightarrow> string) \<Rightarrow> string \<Rightarrow> number \<Rightarrow> Method \<Rightarrow> id option \<Rightarrow> ExpenseClass \<Rightarrow> nat option
   \<Rightarrow> string option \<Rightarrow> string" where
  "fingerprintExpense sha256 date_text category amount meth acc cls dueDate note =
     sha256 (join ''|'' [js_trim category, toFixed2 amount, method_text meth, or_empty (map_option binToUuid acc),
       class_text cls, or_empty (map_option date_text dueDate), js_trim (or_empty note)])"

section \<open>Reads\<close>

record CreateExpenseDto =
  ce_category :: string
  ce_amount :: number
  ce_expenseClass :: "ExpenseClass option"
  ce_isSalary :: "bool option"
  ce_dueDate :: "nat option"
  ce_method :: "Method option"
  ce_receivingAccountId :: "id option"
  ce_reference :: "string option"
  ce_note :: "string option"
  ce_spentOn :: "nat option"
  ce_clientUuid :: "id option"

record DecideExpenseDto =
  dx_expectedVersion :: nat
  dx_reasonOmitted :: "bool option"
  dx_reason :: "string option"

record ExpenseView =
  ev_id :: id
  ev_category :: string
  ev_amount :: number
  ev_status :: ExpenseStatus
  ev_expenseClass :: ExpenseClass
  ev_isSalary :: bool
  ev_dueDate :: "nat option"
  ev_method :: Method
  ev_accountLabel :: "string option"
  ev_reference :: "string option"
  ev_note :: "string option"
  ev_reasonOmitted :: bool
  ev_rejectedReason :: "string option"
  ev_spentOn :: nat
  ev_confirmedAt :: "nat option"
  ev_confirmationDate :: "nat option"
  ev_version :: nat

definition seesAll :: "ctx \<Rightarrow> bool" where
  "seesAll c \<longleftrightarrow> has_permission c ''expense.review'' \<or> has_permission c ''expense.manage''"

definition shape :: "id \<Rightarrow> expense \<Rightarrow> ExpenseView" where
  "shape i x =
     \<lparr>ev_id = i, ev_category = x_category x, ev_amount = x_amount x, ev_status = x_status x,
      ev_expenseClass = x_expenseClass x, ev_isSalary = x_isSalary x, ev_dueDate = x_dueDate x, ev_method = x_method x,
      ev_accountLabel = x_accountLabelSnapshot x, ev_reference = x_reference x, ev_note = x_note x,
      ev_reasonOmitted = x_reasonOmitted x, ev_rejectedReason = x_rejectedReason x, ev_spentOn = x_spentOn x,
      ev_confirmedAt = x_confirmedAt x, ev_confirmationDate = x_confirmationDate x, ev_version = x_version x\<rparr>"

definition load :: "ctx \<Rightarrow> id \<Rightarrow> books \<Rightarrow> expense_error + expense" where
  "load c i b =
     (case map_of (bk_expenses b) i of
        None \<Rightarrow> Inl (NotFound ExpenseNotFound)
      | Some x \<Rightarrow> if x_companyId x = c_companyId c then Inr x else Inl (NotFound ExpenseNotFound))"

definition detail :: "ctx \<Rightarrow> id \<Rightarrow> books \<Rightarrow> expense_error + ExpenseView" where
  "detail c i b =
     bindE (load c i b) (\<lambda>x.
       if \<not> seesAll c \<and> (x_reportedById x = None \<or> c_userId c = None \<or> x_reportedById x \<noteq> c_userId c)
       then Inl (NotFound ExpenseNotFound) else Inr (shape i x))"

text \<open>A filter that is absent, and a reporter that is not known, restrict nothing.\<close>

definition list_expenses ::
  "ctx \<Rightarrow> ExpenseStatus option \<Rightarrow> nat option \<Rightarrow> int option \<Rightarrow> books \<Rightarrow> ExpenseView list" where
  "list_expenses c status date limit b =
     map (\<lambda>(i, x). shape i x)
       (take (nat (min (max (case limit of None \<Rightarrow> 50 | Some n \<Rightarrow> n) 1) 200))
         (rev (sort_key fst (filter (\<lambda>(_, x). x_companyId x = c_companyId c \<and>
             (c_branchId c = None \<or> x_branchId x = c_branchId c) \<and>
             (status = None \<or> status = Some (x_status x)) \<and> (date = None \<or> date = Some (x_spentOn x)) \<and>
             (seesAll c \<or> c_userId c = None \<or> x_reportedById x = c_userId c)) (bk_expenses b)))))"

section \<open>Reporting\<close>

definition new_expense ::
  "(string \<Rightarrow> string) \<Rightarrow> (nat \<Rightarrow> string) \<Rightarrow> ctx \<Rightarrow> id \<Rightarrow> CreateExpenseDto \<Rightarrow> string option \<Rightarrow> expense" where
  "new_expense sha256 date_text c branch dto label =
     (let cls = (case ce_expenseClass dto of None \<Rightarrow> variable | Some x \<Rightarrow> x);
          meth = (case ce_method dto of None \<Rightarrow> cash | Some m \<Rightarrow> m)
      in \<lparr>x_companyId = c_companyId c, x_branchId = Some branch, x_category = js_trim (ce_category dto), x_amount = ce_amount dto,
          x_spentOn = (case ce_spentOn dto of None \<Rightarrow> dayKey (c_now c) | Some d \<Rightarrow> d), x_note = trim_or_null (ce_note dto),
          x_status = ex_reported, x_expenseClass = cls, x_isSalary = (case ce_isSalary dto of None \<Rightarrow> False | Some s \<Rightarrow> s),
          x_dueDate = ce_dueDate dto, x_method = meth, x_receivingAccountId = ce_receivingAccountId dto,
          x_accountLabelSnapshot = label, x_reference = trim_or_null (ce_reference dto), x_reasonOmitted = False,
          x_reportedById = c_userId c, x_confirmedById = None, x_confirmedAt = None, x_confirmationDate = None,
          x_rejectedReason = None, x_clientUuid = ce_clientUuid dto,
          x_clientRequestHash = (if ce_clientUuid dto \<noteq> None
             then Some (fingerprintExpense sha256 date_text (ce_category dto) (ce_amount dto) meth (ce_receivingAccountId dto) cls
                          (ce_dueDate dto) (ce_note dto)) else None),
          x_version = 0\<rparr>)"

definition account_label :: "ctx \<Rightarrow> Method \<Rightarrow> id option \<Rightarrow> books \<Rightarrow> expense_error + string option" where
  "account_label c meth acc b =
     (if meth = cash then Inr None
      else (case Option.bind acc (map_of (bk_accounts b)) of
              None \<Rightarrow> Inl (NotFound AccountUnavailable)
            | Some r \<Rightarrow> if ac_companyId r = c_companyId c \<and> ac_isActive r then Inr (Some (ac_label r))
                        else Inl (NotFound AccountUnavailable)))"

text \<open>The key of the expense, an earlier one or the new one, and the books after.\<close>

definition create_tx ::
  "(string \<Rightarrow> string) \<Rightarrow> (nat \<Rightarrow> string) \<Rightarrow> ctx \<Rightarrow> id \<Rightarrow> CreateExpenseDto \<Rightarrow> books \<Rightarrow> expense_error + id \<times> books" where
  "create_tx sha256 date_text c newId dto b =
     (case c_branchId c of
        None \<Rightarrow> Inl (BadRequest BranchNeeded)
      | Some branch \<Rightarrow>
          (let cls = (case ce_expenseClass dto of None \<Rightarrow> variable | Some x \<Rightarrow> x);
               meth = (case ce_method dto of None \<Rightarrow> cash | Some m \<Rightarrow> m)
           in bindE (assertAmount (ce_amount dto)) (\<lambda>_.
              bindE (assertMethodAndAccount meth (ce_receivingAccountId dto)) (\<lambda>_.
              bindE (assertClassAndDueDate cls (ce_dueDate dto)) (\<lambda>_.
              bindE (assertSalaryIsFixed (case ce_isSalary dto of None \<Rightarrow> False | Some s \<Rightarrow> s) cls) (\<lambda>_.
              case (case ce_clientUuid dto of
                      None \<Rightarrow> None
                    | Some u \<Rightarrow> find (\<lambda>(_, x). x_companyId x = c_companyId c \<and> x_clientUuid x = Some u) (bk_expenses b)) of
                Some (i, x) \<Rightarrow>
                  if x_clientRequestHash x \<noteq>
                     Some (fingerprintExpense sha256 date_text (ce_category dto) (ce_amount dto) meth
                             (ce_receivingAccountId dto) cls (ce_dueDate dto) (ce_note dto))
                  then Inl (Conflict IdempotencyConflict) else Inr (i, b)
              | None \<Rightarrow>
                  bindE (account_label c meth (ce_receivingAccountId dto) b) (\<lambda>label.
                    Inr (newId, b\<lparr>bk_expenses := t_insert newId (new_expense sha256 date_text c branch dto label) (bk_expenses b),
                                  bk_audit := bk_audit b @
                                    [audit_row_of c ''Expense'' newId ''create'' None (Some branch)]\<rparr>))))))))"

definition create ::
  "(string \<Rightarrow> string) \<Rightarrow> (nat \<Rightarrow> string) \<Rightarrow> ctx \<Rightarrow> id \<Rightarrow> CreateExpenseDto \<Rightarrow> books \<Rightarrow> (expense_error + ExpenseView) \<times> books" where
  "create sha256 date_text c newId dto b =
     (case create_tx sha256 date_text c newId dto b of
        Inl e \<Rightarrow> (Inl e, b)
      | Inr (i, b1) \<Rightarrow> (detail c i b1, b1))"

section \<open>Deciding\<close>

definition confirmed_row :: "ctx \<Rightarrow> bool \<Rightarrow> expense \<Rightarrow> expense" where
  "confirmed_row c omitted x =
     x\<lparr>x_status := ex_confirmed, x_confirmedById := c_userId c, x_confirmedAt := Some (c_now c),
       x_confirmationDate := Some (dayKey (c_now c)), x_reasonOmitted := omitted, x_version := Suc (x_version x)\<rparr>"

text \<open>The job put on the queue: branch and day to recompute.\<close>

definition accounting_day :: "ctx \<Rightarrow> expense \<Rightarrow> nat" where
  "accounting_day c x =
     (case x_dueDate x of Some d \<Rightarrow> if x_expenseClass x = fixed then d else dayKey (c_now c) | None \<Rightarrow> dayKey (c_now c))"

definition confirm_tx :: "ctx \<Rightarrow> id \<Rightarrow> DecideExpenseDto \<Rightarrow> books \<Rightarrow> expense_error + expense \<times> books" where
  "confirm_tx c i dto b =
     bindE (load c i b) (\<lambda>x.
     bindE (assertDecidable x) (\<lambda>_.
     bindE (if x_expenseClass x = variable
            then assertDayOpen (Option.bind (x_branchId x) (\<lambda>br. map_option snd (find_closing (c_companyId c) br (dayKey (c_now c)) b)))
                   (dayKey (c_now c))
            else Inr ()) (\<lambda>_.
     case t_update_where i (\<lambda>y. x_companyId y = c_companyId c \<and> x_version y = dx_expectedVersion dto \<and> x_status y = ex_reported)
            (confirmed_row c (case dx_reasonOmitted dto of Some o' \<Rightarrow> o' | None \<Rightarrow> needsReasonWarning (x_note x)))
            (bk_expenses b) of
       (moved, xs) \<Rightarrow>
         if moved = 0 then Inl (Conflict RefreshRequired)
         else Inr (x, b\<lparr>bk_expenses := xs,
                        bk_audit := bk_audit b @ [audit_row_of c ''Expense'' i ''status_change'' None (x_branchId x)]\<rparr>))))"

definition confirm ::
  "ctx \<Rightarrow> id \<Rightarrow> DecideExpenseDto \<Rightarrow> books \<Rightarrow> (expense_error + ExpenseView) \<times> books \<times> (id option \<times> nat) option" where
  "confirm c i dto b =
     (case confirm_tx c i dto b of
        Inl e \<Rightarrow> (Inl e, b, None)
      | Inr (x, b1) \<Rightarrow> (detail c i b1, b1, Some (x_branchId x, accounting_day c x)))"

definition run_recompute :: "id \<Rightarrow> nat \<Rightarrow> id option \<times> nat \<Rightarrow> books \<Rightarrow> books" where
  "run_recompute co now job b = (case fst job of None \<Rightarrow> b | Some br \<Rightarrow> recomputeDaily co br (snd job) now b)"

definition rejected_row :: "DecideExpenseDto \<Rightarrow> expense \<Rightarrow> expense" where
  "rejected_row dto x =
     x\<lparr>x_status := ex_rejected, x_rejectedReason := trim_or_null (dx_reason dto), x_version := Suc (x_version x)\<rparr>"

definition reject_tx :: "ctx \<Rightarrow> id \<Rightarrow> DecideExpenseDto \<Rightarrow> books \<Rightarrow> expense_error + books" where
  "reject_tx c i dto b =
     bindE (load c i b) (\<lambda>x.
     bindE (assertDecidable x) (\<lambda>_.
     case t_update_where i (\<lambda>y. x_companyId y = c_companyId c \<and> x_version y = dx_expectedVersion dto \<and> x_status y = ex_reported)
            (rejected_row dto) (bk_expenses b) of
       (moved, xs) \<Rightarrow>
         if moved = 0 then Inl (Conflict RefreshRequired)
         else Inr (b\<lparr>bk_expenses := xs,
                     bk_audit := bk_audit b @
                       [audit_row_of c ''Expense'' i ''status_change'' (map_option js_trim (dx_reason dto)) (x_branchId x)]\<rparr>)))"

definition reject ::
  "ctx \<Rightarrow> id \<Rightarrow> DecideExpenseDto \<Rightarrow> books \<Rightarrow> (expense_error + ExpenseView) \<times> books" where
  "reject c i dto b =
     (case reject_tx c i dto b of
        Inl e \<Rightarrow> (Inl e, b)
      | Inr b1 \<Rightarrow> (detail c i b1, b1))"

end
