(* ===== verification/ExpenseProperties.thy ===== *)
theory ExpenseProperties
  imports Expenses ClosingProperties
begin

text \<open>
  What the expenses service guarantees: the shape of every row it ever writes, that a report and
  a rejection move no figure, and that a confirmation adds the amount to one day, once; and that
  a fixed expense reaches a day that is already closed.
\<close>

section \<open>The invariant\<close>

definition expense_ok :: "expense \<Rightarrow> bool" where
  "expense_ok x \<longleftrightarrow> 0 < x_amount x \<and> x_branchId x \<noteq> None \<and>
     (x_expenseClass x = fixed \<longleftrightarrow> x_dueDate x \<noteq> None) \<and> (x_isSalary x \<longrightarrow> x_expenseClass x = fixed) \<and>
     (x_method x = account \<longleftrightarrow> x_receivingAccountId x \<noteq> None) \<and> (x_method x = cash \<longrightarrow> x_accountLabelSnapshot x = None) \<and>
     (x_status x = ex_confirmed \<longleftrightarrow> x_confirmationDate x \<noteq> None)"

definition exp_inv :: "books \<Rightarrow> bool" where
  "exp_inv b \<longleftrightarrow> t_wf (bk_expenses b) \<and> (\<forall>x \<in> snd ` set (bk_expenses b). expense_ok x)"

lemma expense_load_Inr: "Expenses.load c i b = Inr x \<longleftrightarrow> map_of (bk_expenses b) i = Some x \<and> x_companyId x = c_companyId c"
  by (auto simp: Expenses.load_def split: option.splits)

lemma expense_decidable [simp]: "Expenses.assertDecidable x = Inr u \<longleftrightarrow> x_status x = ex_reported"
  by (auto simp: Expenses.assertDecidable_def split: ExpenseStatus.splits)

lemma new_expense_ok:
  assumes "assertAmount (ce_amount dto) = Inr u1"
    "assertMethodAndAccount (case ce_method dto of None \<Rightarrow> cash | Some m \<Rightarrow> m) (ce_receivingAccountId dto) = Inr u2"
    "assertClassAndDueDate (case ce_expenseClass dto of None \<Rightarrow> variable | Some x \<Rightarrow> x) (ce_dueDate dto) = Inr u3"
    "assertSalaryIsFixed (case ce_isSalary dto of None \<Rightarrow> False | Some s \<Rightarrow> s) (case ce_expenseClass dto of None \<Rightarrow> variable | Some x \<Rightarrow> x) = Inr u4"
    "account_label c (case ce_method dto of None \<Rightarrow> cash | Some m \<Rightarrow> m) (ce_receivingAccountId dto) b = Inr label"
  shows "expense_ok (new_expense sha256 date_text c branch dto label)"
proof -
  define meth where "meth = (case ce_method dto of None \<Rightarrow> cash | Some m \<Rightarrow> m)"
  define cls where "cls = (case ce_expenseClass dto of None \<Rightarrow> variable | Some x \<Rightarrow> x)"
  have 1: "0 < ce_amount dto" using assms(1) by (simp add: assertAmount_def)
  have 2: "meth = account \<longleftrightarrow> ce_receivingAccountId dto \<noteq> None"
    using assms(2) unfolding meth_def [symmetric] by (cases meth) (auto simp: assertMethodAndAccount_def split: if_splits)
  have 3: "cls = fixed \<longleftrightarrow> ce_dueDate dto \<noteq> None"
    using assms(3) unfolding cls_def [symmetric] by (cases cls) (auto simp: assertClassAndDueDate_def split: if_splits)
  have 4: "(case ce_isSalary dto of None \<Rightarrow> False | Some s \<Rightarrow> s) \<longrightarrow> cls = fixed"
    using assms(4) unfolding cls_def [symmetric] by (auto simp: assertSalaryIsFixed_def)
  have 5: "meth = cash \<longrightarrow> label = None"
    using assms(5) unfolding meth_def [symmetric] by (auto simp: account_label_def)
  from 1 2 3 4 5 show ?thesis
    by (simp add: expense_ok_def new_expense_def Let_def meth_def [symmetric] cls_def [symmetric])
qed

lemma new_expense_status [simp]: "x_status (new_expense sha256 date_text c branch dto label) = ex_reported"
  by (simp add: new_expense_def Let_def)

lemma expense_create_cases:
  obtains (same) "snd (Expenses.create sha256 date_text c n dto b) = b"
  | (added) x aud where "expense_ok x" "x_status x = ex_reported"
      "snd (Expenses.create sha256 date_text c n dto b) = b\<lparr>bk_expenses := t_insert n x (bk_expenses b), bk_audit := aud\<rparr>"
proof (cases "create_tx sha256 date_text c n dto b")
  case (Inl e)
  then show ?thesis by (intro same) (simp add: Expenses.create_def)
next
  case (Inr r)
  obtain branch where br: "c_branchId c = Some branch" using Inr by (cases "c_branchId c") (simp_all add: create_tx_def)
  let ?old = "case ce_clientUuid dto of None \<Rightarrow> None
    | Some u \<Rightarrow> find (\<lambda>(_, x). x_companyId x = c_companyId c \<and> x_clientUuid x = Some u) (bk_expenses b)"
  have "snd r = b \<or> (\<exists>x aud. expense_ok x \<and> x_status x = ex_reported \<and>
      snd r = b\<lparr>bk_expenses := t_insert n x (bk_expenses b), bk_audit := aud\<rparr>)"
  proof (cases ?old)
    case (Some p)
    with Inr show ?thesis unfolding create_tx_def Let_def br option.case(2) bindE_Inr by (cases p) (auto split: if_splits)
  next
    case None
    with Inr obtain u1 u2 u3 u4 label where
      "assertAmount (ce_amount dto) = Inr u1"
      "assertMethodAndAccount (case ce_method dto of None \<Rightarrow> cash | Some m \<Rightarrow> m) (ce_receivingAccountId dto) = Inr u2"
      "assertClassAndDueDate (case ce_expenseClass dto of None \<Rightarrow> variable | Some x \<Rightarrow> x) (ce_dueDate dto) = Inr u3"
      "assertSalaryIsFixed (case ce_isSalary dto of None \<Rightarrow> False | Some s \<Rightarrow> s) (case ce_expenseClass dto of None \<Rightarrow> variable | Some x \<Rightarrow> x) = Inr u4"
      "account_label c (case ce_method dto of None \<Rightarrow> cash | Some m \<Rightarrow> m) (ce_receivingAccountId dto) b = Inr label"
      and r: "snd r = b\<lparr>bk_expenses := t_insert n (new_expense sha256 date_text c branch dto label) (bk_expenses b),
        bk_audit := bk_audit b @ [audit_row_of c ''Expense'' n ''create'' None (Some branch)]\<rparr>"
      unfolding create_tx_def Let_def br option.case(2) bindE_Inr by auto
    from new_expense_ok [OF this(1-5)] r show ?thesis by (metis new_expense_status)
  qed
  moreover have "snd (Expenses.create sha256 date_text c n dto b) = snd r" using Inr by (simp add: Expenses.create_def split: prod.split)
  ultimately show ?thesis using same added by (elim disjE exE conjE) simp_all
qed

lemma expense_confirm_tx_Inr:
  assumes "Expenses.confirm_tx c i dto b = Inr (x, b')"
  obtains om aud where "map_of (bk_expenses b) i = Some x" "x_companyId x = c_companyId c" "x_status x = ex_reported"
    "x_version x = dx_expectedVersion dto"
    "x_expenseClass x = variable \<Longrightarrow> x_branchId x = Some br \<Longrightarrow> find_closing (c_companyId c) br (dayKey (c_now c)) b = Some (k, cl) \<Longrightarrow> \<not> cl_isLocked cl"
    "b' = b\<lparr>bk_expenses := t_update i (Expenses.confirmed_row c om) (bk_expenses b), bk_audit := aud\<rparr>"
proof -
  from assms have "map_of (bk_expenses b) i = Some x" "x_companyId x = c_companyId c" "x_status x = ex_reported" "x_version x = dx_expectedVersion dto"
    "x_expenseClass x = variable \<longrightarrow> x_branchId x = Some br \<longrightarrow> find_closing (c_companyId c) br (dayKey (c_now c)) b = Some (k, cl) \<longrightarrow> \<not> cl_isLocked cl"
    "\<exists>om aud. b' = b\<lparr>bk_expenses := t_update i (Expenses.confirmed_row c om) (bk_expenses b), bk_audit := aud\<rparr>"
    by (auto simp: Expenses.confirm_tx_def expense_load_Inr t_update_where_def Expenses.assertDayOpen_def split: if_splits option.splits)
  then show ?thesis using that by blast
qed

lemma reject_tx_Inr:
  assumes "Expenses.reject_tx c i dto b = Inr b'"
  obtains x aud where "map_of (bk_expenses b) i = Some x" "x_status x = ex_reported"
    "b' = b\<lparr>bk_expenses := t_update i (Expenses.rejected_row dto) (bk_expenses b), bk_audit := aud\<rparr>"
  using assms by (auto simp: Expenses.reject_tx_def expense_load_Inr t_update_where_def split: if_splits)

lemma exp_inv_row:
  assumes inv: "exp_inv b" and x: "map_of (bk_expenses b) i = Some x" and ok: "expense_ok (f x)"
    and b': "bk_expenses b' = t_update i f (bk_expenses b)"
  shows "exp_inv b'"
proof -
  have wf: "t_wf (bk_expenses b)" and rows: "\<forall>y \<in> snd ` set (bk_expenses b). expense_ok y" using inv by (simp_all add: exp_inv_def)
  have "expense_ok y" if "(j, y) \<in> set (bk_expenses b')" for j y
  proof -
    from wf have "t_wf (bk_expenses b')" by (simp add: b')
    with that have "map_of (bk_expenses b') j = Some y" using t_wf_map_of_eq by fast
    then have "if j = i then y = f x else map_of (bk_expenses b) j = Some y" using x by (simp add: b' split: if_splits)
    then show ?thesis using ok rows by (auto dest!: map_of_SomeD split: if_splits)
  qed
  with wf show ?thesis by (auto simp: exp_inv_def b')
qed

inductive exp_step :: "books \<Rightarrow> books \<Rightarrow> bool" where
  reports: "map_of (bk_expenses b) n = None \<Longrightarrow> exp_step b (snd (Expenses.create sha256 date_text c n dto b))"
| confirms: "exp_step b (fst (snd (Expenses.confirm c i ddto b)))"
| rejects: "exp_step b (snd (Expenses.reject c i ddto b))"
| others: "bk_expenses b' = bk_expenses b \<Longrightarrow> exp_step b b'"

definition exp_init :: "books \<Rightarrow> bool" where
  "exp_init b \<longleftrightarrow> bk_expenses b = []"

lemma exp_inv_create:
  assumes "exp_inv b" "map_of (bk_expenses b) n = None"
  shows "exp_inv (snd (Expenses.create sha256 date_text c n dto b))"
proof (cases rule: expense_create_cases [of sha256 date_text c n dto b])
  case (added x aud)
  with assms show ?thesis by (auto simp: exp_inv_def t_insert_def t_wf_t_insert [unfolded t_insert_def])
qed (use assms in simp)

lemma exp_inv_confirm:
  assumes inv: "exp_inv b"
  shows "exp_inv (fst (snd (Expenses.confirm c i ddto b)))"
proof (cases "Expenses.confirm_tx c i ddto b")
  case (Inr r)
  obtain x b' where r: "r = (x, b')" by fastforce
  show ?thesis
  proof (rule expense_confirm_tx_Inr [OF Inr [unfolded r]])
    fix om aud
    assume x: "map_of (bk_expenses b) i = Some x" and b': "b' = b\<lparr>bk_expenses := t_update i (Expenses.confirmed_row c om) (bk_expenses b), bk_audit := aud\<rparr>"
    have "expense_ok x" using inv map_of_SomeD [OF x] by (force simp: exp_inv_def)
    then have "expense_ok (Expenses.confirmed_row c om x)" by (simp add: expense_ok_def Expenses.confirmed_row_def)
    from exp_inv_row [where f = "Expenses.confirmed_row c om" and b' = b', OF inv x this] b' show ?thesis by (simp add: Expenses.confirm_def Inr r)
  qed
qed (use inv in \<open>simp add: Expenses.confirm_def\<close>)

lemma exp_inv_reject:
  assumes inv: "exp_inv b"
  shows "exp_inv (snd (Expenses.reject c i ddto b))"
proof (cases "Expenses.reject_tx c i ddto b")
  case (Inr b')
  show ?thesis
  proof (rule reject_tx_Inr [OF Inr])
    fix x aud
    assume x: "map_of (bk_expenses b) i = Some x" "x_status x = ex_reported"
      and b': "b' = b\<lparr>bk_expenses := t_update i (Expenses.rejected_row ddto) (bk_expenses b), bk_audit := aud\<rparr>"
    have "expense_ok x" using inv map_of_SomeD [OF x(1)] by (force simp: exp_inv_def)
    then have "expense_ok (Expenses.rejected_row ddto x)" using x(2) by (simp add: expense_ok_def Expenses.rejected_row_def)
    from exp_inv_row [where f = "Expenses.rejected_row ddto" and b' = b', OF inv x(1) this] b' show ?thesis by (simp add: Expenses.reject_def Inr)
  qed
qed (use inv in \<open>simp add: Expenses.reject_def\<close>)

interpretation exp_sys: invariant_system exp_init exp_step exp_inv
proof unfold_locales
  show "exp_inv b" if "exp_init b" for b using that by (simp add: exp_init_def exp_inv_def)
  show "exp_inv b'" if "exp_inv b" "exp_step b b'" for b b'
    using that(2,1)
    by (cases rule: exp_step.cases) (simp_all add: exp_inv_create exp_inv_confirm exp_inv_reject, simp add: exp_inv_def)
qed

section \<open>What a day has spent\<close>

definition spent :: "id \<Rightarrow> id \<Rightarrow> nat \<Rightarrow> books \<Rightarrow> number" where
  "spent co br day b = sum_of x_amount (day_expenses co br day b)"

text \<open>What one row adds to a day.\<close>

definition counts_on :: "id \<Rightarrow> id \<Rightarrow> nat \<Rightarrow> expense \<Rightarrow> number" where
  "counts_on co br day x =
     (if x_companyId x = co \<and> x_branchId x = Some br \<and> x_status x = ex_confirmed \<and>
         (x_expenseClass x = variable \<and> x_confirmationDate x = Some day \<or> x_expenseClass x = fixed \<and> x_dueDate x = Some day)
      then x_amount x else 0)"

lemma spent_rows: "spent co br day b = sum_list (map (\<lambda>(_, x). counts_on co br day x) (bk_expenses b))"
proof -
  have "sum_of x_amount (rows_where (\<lambda>x. p x) t) = sum_list (map (\<lambda>(_, x). if p x then x_amount x else 0) t)" for p and t :: "(id, expense) table"
    by (induction t) (auto simp: rows_where_def)
  then show ?thesis by (simp add: spent_def day_expenses_def counts_on_def)
qed

lemma spent_row:
  assumes "t_wf (bk_expenses b)" "map_of (bk_expenses b) i = Some x" "bk_expenses b' = t_update i f (bk_expenses b)"
  shows "spent co br day b' = spent co br day b - counts_on co br day x + counts_on co br day (f x)"
  unfolding spent_rows assms(3) by (subst sum_t_update [OF assms(1,2)]) simp

lemma spent_create: "spent co br day (snd (Expenses.create sha256 date_text c n dto b)) = spent co br day b"
proof (cases rule: expense_create_cases [of sha256 date_text c n dto b])
  case (added x aud)
  then show ?thesis by (simp add: spent_rows t_insert_def counts_on_def)
qed simp

lemma spent_reject:
  assumes inv: "exp_inv b"
  shows "spent co br day (snd (Expenses.reject c i dto b)) = spent co br day b"
proof (cases "Expenses.reject_tx c i dto b")
  case (Inr b')
  show ?thesis
  proof (rule reject_tx_Inr [OF Inr])
    fix x aud
    assume x: "map_of (bk_expenses b) i = Some x" "x_status x = ex_reported"
      and b': "b' = b\<lparr>bk_expenses := t_update i (Expenses.rejected_row dto) (bk_expenses b), bk_audit := aud\<rparr>"
    have "spent co br day b' = spent co br day b - counts_on co br day x + counts_on co br day (Expenses.rejected_row dto x)"
      by (rule spent_row [OF _ x(1)]) (use inv b' in \<open>simp_all add: exp_inv_def\<close>)
    with x(2) Inr show ?thesis by (simp add: Expenses.reject_def counts_on_def Expenses.rejected_row_def)
  qed
qed (simp add: Expenses.reject_def)

section \<open>Theorems\<close>

text \<open>
  (C36) Every expense the service ever writes keeps its shape: a positive amount of a branch, a
  due date exactly when the class is fixed, salaries fixed, an account exactly when it was paid
  from one, no account name on cash, and a day of confirmation exactly when it is confirmed.
\<close>

theorem expense_shape:
  assumes "reach exp_init exp_step b" "map_of (bk_expenses b) i = Some x"
  shows "expense_ok x"
  using exp_sys.reach_inv [OF assms(1)] map_of_SomeD [OF assms(2)] by (force simp: exp_inv_def)

text \<open>
  (C30) A report and a rejection change what no day has spent. A confirmation adds the amount to
  one day of the branch: the due date of a fixed expense, today for the others; that is the day
  the queue is asked to recompute, the recomputed figure is what the day has spent, and the
  expense can not be confirmed again.
\<close>

theorem expense_counts_once:
  assumes "reach exp_init exp_step b"
  shows "spent co br day (snd (Expenses.create sha256 date_text c n dto b)) = spent co br day b \<and>
    spent co br day (snd (Expenses.reject c i ddto b)) = spent co br day b \<and>
    (Expenses.confirm_tx c i ddto b = Inr (x, b') \<longrightarrow>
       spent co br day b' = spent co br day b +
         (if co = c_companyId c \<and> x_branchId x = Some br \<and> day = accounting_day c x then x_amount x else 0) \<and>
       snd (snd (Expenses.confirm c i ddto b)) = Some (x_branchId x, accounting_day c x) \<and>
       (\<exists>e. Expenses.confirm_tx c' i ddto' b' = Inl e))"
proof -
  have inv: "exp_inv b" by (rule exp_sys.reach_inv [OF assms])
  have "spent co br day b' = spent co br day b +
         (if co = c_companyId c \<and> x_branchId x = Some br \<and> day = accounting_day c x then x_amount x else 0) \<and>
       (\<exists>e. Expenses.confirm_tx c' i ddto' b' = Inl e)" if tx: "Expenses.confirm_tx c i ddto b = Inr (x, b')"
  proof (rule expense_confirm_tx_Inr [OF tx])
    fix om aud
    assume x: "map_of (bk_expenses b) i = Some x" "x_companyId x = c_companyId c" "x_status x = ex_reported"
      and b': "b' = b\<lparr>bk_expenses := t_update i (Expenses.confirmed_row c om) (bk_expenses b), bk_audit := aud\<rparr>"
    have ok: "expense_ok x" using inv map_of_SomeD [OF x(1)] by (force simp: exp_inv_def)
    have "spent co br day b' = spent co br day b - counts_on co br day x + counts_on co br day (Expenses.confirmed_row c om x)"
      by (rule spent_row [OF _ x(1)]) (use inv b' in \<open>simp_all add: exp_inv_def\<close>)
    also have "counts_on co br day x = 0" using x(3) by (simp add: counts_on_def)
    also have "counts_on co br day (Expenses.confirmed_row c om x) =
        (if co = c_companyId c \<and> x_branchId x = Some br \<and> day = accounting_day c x then x_amount x else 0)"
      using x(2) ok by (cases "x_expenseClass x") (auto simp: counts_on_def Expenses.confirmed_row_def accounting_day_def expense_ok_def)
    finally have "spent co br day b' = spent co br day b +
        (if co = c_companyId c \<and> x_branchId x = Some br \<and> day = accounting_day c x then x_amount x else 0)" by simp
    moreover have "\<exists>e. Expenses.confirm_tx c' i ddto' b' = Inl e"
    proof (cases "Expenses.confirm_tx c' i ddto' b'")
      case (Inr r)
      obtain y b2 where r: "r = (y, b2)" by fastforce
      have "x_status y = ex_reported" "map_of (bk_expenses b') i = Some y"
        by (rule expense_confirm_tx_Inr [OF Inr [unfolded r]], simp)+
      then show ?thesis using x(1) by (simp add: b') (auto simp: Expenses.confirmed_row_def)
    qed simp
    ultimately show ?thesis by simp
  qed
  moreover have "Expenses.confirm_tx c i ddto b = Inr (x, b') \<Longrightarrow>
      snd (snd (Expenses.confirm c i ddto b)) = Some (x_branchId x, accounting_day c x)"
    by (simp add: Expenses.confirm_def)
  ultimately show ?thesis using spent_create spent_reject [OF inv] by blast
qed

text \<open>
  Confirming a fixed expense whose due date lies in a closed day is not refused: the closing
  stays locked as it was, and the recomputed figures of that day carry the amount.
\<close>

theorem fixed_expense_reaches_closed_day:
  assumes "reach exp_init exp_step b" "Expenses.confirm_tx c i ddto b = Inr (x, b')" "x_expenseClass x = fixed" "x_branchId x = Some br"
    "x_dueDate x = Some d" "find_closing (c_companyId c) br d b = Some (k, cl)" "cl_isLocked cl"
    "\<And>r. map_of (bk_rollups b) (br, d) = Some r \<Longrightarrow> ru_companyId r = c_companyId c"
  shows "find_closing (c_companyId c) br d b' = Some (k, cl) \<and>
    snd (snd (Expenses.confirm c i ddto b)) = Some (Some br, d) \<and>
    (\<exists>r. find_rollup (c_companyId c) br d (run_recompute (c_companyId c) now (Some br, d) b') = Some r \<and>
         ru_expenses r = round2 (spent (c_companyId c) br d b + x_amount x))"
proof -
  have inv: "exp_inv b" by (rule exp_sys.reach_inv [OF assms(1)])
  show ?thesis
  proof (rule expense_confirm_tx_Inr [OF assms(2)])
    fix om aud
    assume x: "map_of (bk_expenses b) i = Some x" "x_companyId x = c_companyId c" "x_status x = ex_reported"
      and b': "b' = b\<lparr>bk_expenses := t_update i (Expenses.confirmed_row c om) (bk_expenses b), bk_audit := aud\<rparr>"
    have "spent (c_companyId c) br d b' = spent (c_companyId c) br d b - counts_on (c_companyId c) br d x +
        counts_on (c_companyId c) br d (Expenses.confirmed_row c om x)"
      by (rule spent_row [OF _ x(1)]) (use inv b' in \<open>simp_all add: exp_inv_def\<close>)
    then have sp: "spent (c_companyId c) br d b' = spent (c_companyId c) br d b + x_amount x"
      using x assms(3-5) by (simp add: counts_on_def Expenses.confirmed_row_def)
    have "find_rollup (c_companyId c) br d (recomputeDaily (c_companyId c) br d now b') = Some (daily_figures (c_companyId c) br d now b')"
      by (rule rollup_after_recompute) (use assms(8) b' in simp)
    then have "find_rollup (c_companyId c) br d (run_recompute (c_companyId c) now (Some br, d) b') = Some (daily_figures (c_companyId c) br d now b')"
      by (simp add: run_recompute_def)
    moreover have "ru_expenses (daily_figures (c_companyId c) br d now b') = round2 (spent (c_companyId c) br d b + x_amount x)"
      by (simp add: daily_figures_def Let_def sp [symmetric]) (simp add: spent_def)
    moreover have "find_closing (c_companyId c) br d b' = Some (k, cl)" using assms(6) by (simp add: b' find_closing_def)
    moreover have "snd (snd (Expenses.confirm c i ddto b)) = Some (Some br, d)"
      using assms(2-5) by (simp add: Expenses.confirm_def accounting_day_def)
    ultimately show ?thesis by blast
  qed
qed

section \<open>A rent due in a closed day\<close>

definition ex_next_day :: ctx where
  "ex_next_day = ex_books_ctx\<lparr>c_now := 86405000\<rparr>"

definition ex_closed_day :: books where
  "ex_closed_day = ex_no_books\<lparr>bk_closings := [(10, (new_closing 2 3 0)\<lparr>cl_isLocked := True\<rparr>)]\<rparr>"

definition ex_rent :: CreateExpenseDto where
  "ex_rent = \<lparr>ce_category = ''rent'', ce_amount = 30, ce_expenseClass = Some fixed, ce_isSalary = None, ce_dueDate = Some 0,
     ce_method = None, ce_receivingAccountId = None, ce_reference = None, ce_note = None, ce_spentOn = None, ce_clientUuid = None\<rparr>"

definition ex_rent_row :: expense where
  "ex_rent_row = new_expense (\<lambda>_. ''h'') (\<lambda>_. ''d'') ex_next_day 3 ex_rent None"

definition ex_rent_reported :: books where
  "ex_rent_reported = snd (Expenses.create (\<lambda>_. ''h'') (\<lambda>_. ''d'') ex_next_day 71 ex_rent ex_closed_day)"

definition ex_agree :: DecideExpenseDto where
  "ex_agree = \<lparr>dx_expectedVersion = 0, dx_reasonOmitted = Some True, dx_reason = None\<rparr>"

lemma ex_rent_fields [simp]:
  "x_companyId ex_rent_row = 2" "x_branchId ex_rent_row = Some 3" "x_amount ex_rent_row = 30" "x_status ex_rent_row = ex_reported"
  "x_expenseClass ex_rent_row = fixed" "x_dueDate ex_rent_row = Some 0" "x_version ex_rent_row = 0"
  by (simp_all add: ex_rent_row_def new_expense_def ex_rent_def ex_next_day_def ex_books_ctx_def Let_def)

lemma ex_rent_reported_eq:
  "\<exists>aud. ex_rent_reported = ex_closed_day\<lparr>bk_expenses := [(71, ex_rent_row)], bk_audit := aud\<rparr>"
  by (auto simp: ex_rent_reported_def Expenses.create_def create_tx_def ex_next_day_def ex_books_ctx_def ex_rent_def Let_def assertAmount_def
      assertMethodAndAccount_def assertClassAndDueDate_def assertSalaryIsFixed_def require_def account_label_def t_insert_def ex_closed_day_def
      ex_no_books_def ex_rent_row_def)

lemma ex_rent_tables:
  "bk_expenses ex_rent_reported = [(71, ex_rent_row)]" "bk_closings ex_rent_reported = bk_closings ex_closed_day" "bk_rollups ex_rent_reported = []"
proof -
  obtain aud where eq: "ex_rent_reported = ex_closed_day\<lparr>bk_expenses := [(71, ex_rent_row)], bk_audit := aud\<rparr>" using ex_rent_reported_eq by blast
  show "bk_expenses ex_rent_reported = [(71, ex_rent_row)]" "bk_closings ex_rent_reported = bk_closings ex_closed_day" "bk_rollups ex_rent_reported = []"
    unfolding eq by (simp_all add: ex_closed_day_def ex_no_books_def)
qed

lemma ex_rent_reach: "reach exp_init exp_step ex_closed_day" "reach exp_init exp_step ex_rent_reported"
proof -
  show r: "reach exp_init exp_step ex_closed_day" by (rule reach.reach_init) (simp add: exp_init_def ex_closed_day_def ex_no_books_def)
  show "reach exp_init exp_step ex_rent_reported"
    unfolding ex_rent_reported_def by (rule reach.reach_step [OF r], rule exp_step.reports) (simp add: ex_closed_day_def ex_no_books_def)
qed

lemma ex_rent_confirm: "\<exists>b'. Expenses.confirm_tx ex_next_day 71 ex_agree ex_rent_reported = Inr (ex_rent_row, b')"
  by (simp add: Expenses.confirm_tx_def Expenses.load_def ex_rent_tables ex_next_day_def ex_books_ctx_def Expenses.assertDecidable_def t_update_where_def ex_agree_def)

theorem expense_shape_witness:
  "map_of (bk_expenses ex_rent_reported) 71 = Some ex_rent_row \<and> expense_ok ex_rent_row"
  using expense_shape [OF ex_rent_reach(2), of 71] by (simp add: ex_rent_tables)

theorem expense_counts_once_witness:
  "\<exists>b'. Expenses.confirm_tx ex_next_day 71 ex_agree ex_rent_reported = Inr (ex_rent_row, b') \<and>
     spent 2 3 0 b' = spent 2 3 0 ex_rent_reported + 30 \<and> spent 2 3 1 b' = spent 2 3 1 ex_rent_reported"
proof -
  from ex_rent_confirm obtain b' where b': "Expenses.confirm_tx ex_next_day 71 ex_agree ex_rent_reported = Inr (ex_rent_row, b')" by blast
  have "c_companyId ex_next_day = 2" "accounting_day ex_next_day ex_rent_row = 0"
    by (simp_all add: ex_next_day_def ex_books_ctx_def accounting_day_def)
  with expense_counts_once [OF ex_rent_reach(2), where c = ex_next_day and i = 71 and ddto = ex_agree and x = ex_rent_row and b' = b'
      and co = 2 and br = 3 and day = 0]
    expense_counts_once [OF ex_rent_reach(2), where c = ex_next_day and i = 71 and ddto = ex_agree and x = ex_rent_row and b' = b'
      and co = 2 and br = 3 and day = 1] b'
  show ?thesis by auto
qed

theorem fixed_expense_reaches_closed_day_witness:
  "\<exists>b' r. Expenses.confirm_tx ex_next_day 71 ex_agree ex_rent_reported = Inr (ex_rent_row, b') \<and>
     find_rollup 2 3 0 (run_recompute 2 86405000 (Some 3, 0) b') = Some r \<and> ru_expenses r = 30"
proof -
  from ex_rent_confirm obtain b' where b': "Expenses.confirm_tx ex_next_day 71 ex_agree ex_rent_reported = Inr (ex_rent_row, b')" by blast
  have co: "c_companyId ex_next_day = 2" by (simp add: ex_next_day_def ex_books_ctx_def)
  have cl: "find_closing (c_companyId ex_next_day) 3 0 ex_rent_reported = Some (10, (new_closing 2 3 0)\<lparr>cl_isLocked := True\<rparr>)"
    by (simp add: co find_closing_def ex_rent_tables ex_closed_day_def new_closing_def)
  have "spent 2 3 0 ex_rent_reported = 0" by (simp add: spent_rows ex_rent_tables counts_on_def)
  then show ?thesis
    using fixed_expense_reaches_closed_day [OF ex_rent_reach(2) b' _ _ _ cl, where now = 86405000] b' by (auto simp: co ex_rent_tables)
qed

end
