(* ===== verification/PriceResolution.thy ===== *)
theory PriceResolution
  imports Books
begin

text \<open>
  The price ladder (\<^verbatim>\<open>src/src/pricing/price-resolution.ts\<close>) and its use inside a sale
  (\<^verbatim>\<open>PricingService.resolveForSaleTx\<close>).
\<close>

datatype PriceSource = unit_override | branch_variant | stock_item_price | product_default | unpriced

datatype PriceTargetType = tt_unit | tt_branch_variant | tt_stock_item

record CurrentRow =
  cr_price :: number
  cr_version :: nat

record OverrideRow = CurrentRow +
  or_branchId :: id

record ResolvedPrice =
  rp_price :: "number option"
  rp_source :: PriceSource
  rp_version :: "nat option"
  rp_targetType :: "PriceTargetType option"
  rp_staleOverrideIgnored :: bool

definition UNPRICED :: ResolvedPrice where
  "UNPRICED = \<lparr>rp_price = None, rp_source = unpriced, rp_version = None, rp_targetType = None, rp_staleOverrideIgnored = False\<rparr>"

definition overrideApplies :: "OverrideRow option \<Rightarrow> id \<Rightarrow> id \<Rightarrow> bool" where
  "overrideApplies ov unitBranchId activeBranchId =
     (case ov of None \<Rightarrow> False | Some r \<Rightarrow> or_branchId r = unitBranchId \<and> activeBranchId = unitBranchId)"

definition resolveProductLevel :: "CurrentRow option \<Rightarrow> number option \<Rightarrow> ResolvedPrice" where
  "resolveProductLevel branchVariant productDefault =
     (case branchVariant of
        Some r \<Rightarrow> \<lparr>rp_price = Some (cr_price r), rp_source = branch_variant, rp_version = Some (cr_version r),
                   rp_targetType = Some tt_branch_variant, rp_staleOverrideIgnored = False\<rparr>
      | None \<Rightarrow>
          (case productDefault of
             Some p \<Rightarrow> \<lparr>rp_price = Some p, rp_source = product_default, rp_version = None,
                        rp_targetType = Some tt_branch_variant, rp_staleOverrideIgnored = False\<rparr>
           | None \<Rightarrow> UNPRICED))"

definition resolveSerialized ::
  "id \<Rightarrow> id \<Rightarrow> OverrideRow option \<Rightarrow> CurrentRow option \<Rightarrow> number option \<Rightarrow> ResolvedPrice" where
  "resolveSerialized activeBranchId unitBranchId ov branchVariant productDefault =
     (case ov of
        Some r \<Rightarrow>
          if overrideApplies ov unitBranchId activeBranchId
          then \<lparr>rp_price = Some (cr_price r), rp_source = unit_override, rp_version = Some (cr_version r),
                rp_targetType = Some tt_unit, rp_staleOverrideIgnored = False\<rparr>
          else (resolveProductLevel branchVariant productDefault)\<lparr>rp_staleOverrideIgnored := True\<rparr>
      | None \<Rightarrow> (resolveProductLevel branchVariant productDefault)\<lparr>rp_staleOverrideIgnored := False\<rparr>)"

definition resolveQuantity :: "CurrentRow option \<Rightarrow> number option \<Rightarrow> ResolvedPrice" where
  "resolveQuantity stockItem productDefault =
     (case stockItem of
        Some r \<Rightarrow> \<lparr>rp_price = Some (cr_price r), rp_source = stock_item_price, rp_version = Some (cr_version r),
                   rp_targetType = Some tt_stock_item, rp_staleOverrideIgnored = False\<rparr>
      | None \<Rightarrow>
          (case productDefault of
             Some p \<Rightarrow> \<lparr>rp_price = Some p, rp_source = product_default, rp_version = None,
                        rp_targetType = Some tt_stock_item, rp_staleOverrideIgnored = False\<rparr>
           | None \<Rightarrow> UNPRICED))"

section \<open>Inside a sale\<close>

text \<open>The override table is keyed by the unit, which is unique in it.\<close>

definition override_of :: "id \<Rightarrow> id \<Rightarrow> books \<Rightarrow> OverrideRow option" where
  "override_of co unitId b =
     (case map_of (bk_overrides b) unitId of
        None \<Rightarrow> None
      | Some r \<Rightarrow> if ov_companyId r = co
                  then Some \<lparr>cr_price = ov_price r, cr_version = ov_version r, or_branchId = ov_branchId r\<rparr> else None)"

definition variant_of :: "id \<Rightarrow> id \<Rightarrow> id \<Rightarrow> books \<Rightarrow> CurrentRow option" where
  "variant_of co productId branch b =
     map_option (\<lambda>(_, v). \<lparr>cr_price = vp_price v, cr_version = vp_version v\<rparr>)
       (find (\<lambda>(_, v). vp_companyId v = co \<and> vp_productId v = productId \<and> vp_branchId v = branch) (bk_variants b))"

definition resolveForSaleTx_unit :: "id \<Rightarrow> id \<Rightarrow> id \<Rightarrow> id \<Rightarrow> number option \<Rightarrow> id \<Rightarrow> books \<Rightarrow> ResolvedPrice" where
  "resolveForSaleTx_unit co unitId productId unitBranchId productDefault branch b =
     resolveSerialized branch unitBranchId (override_of co unitId b) (variant_of co productId branch b) productDefault"

definition resolveForSaleTx_quantity :: "CurrentRow option \<Rightarrow> number option \<Rightarrow> ResolvedPrice" where
  "resolveForSaleTx_quantity stock productDefault = resolveQuantity stock productDefault"

section \<open>The ladder\<close>

text \<open>A price set in one branch is never used in another, and a rung is used only when the ones above are empty.\<close>

lemma resolveSerialized_source:
  "rp_source (resolveSerialized br ub ov bv pd) = unit_override \<longleftrightarrow> overrideApplies ov ub br"
  "rp_source (resolveSerialized br ub ov bv pd) = branch_variant \<longleftrightarrow> \<not> overrideApplies ov ub br \<and> bv \<noteq> None"
  "rp_source (resolveSerialized br ub ov bv pd) = product_default \<longleftrightarrow> \<not> overrideApplies ov ub br \<and> bv = None \<and> pd \<noteq> None"
  "rp_price (resolveSerialized br ub ov bv pd) = None \<longleftrightarrow> \<not> overrideApplies ov ub br \<and> bv = None \<and> pd = None"
  by (auto simp: resolveSerialized_def resolveProductLevel_def overrideApplies_def UNPRICED_def split: option.splits)

end
