(* ===== verification/SalePolicy.thy ===== *)
theory SalePolicy
  imports PriceResolution
begin

text \<open>
  The rules of a sale that need no database: the return policy a sale is sold under
  (\<^verbatim>\<open>src/src/sales/return-policy.ts\<close>) and the checks of prices and payments
  (\<^verbatim>\<open>src/src/sales/sales-policy.service.ts\<close>). Instants are milliseconds.
\<close>

datatype sale_reason =
    NoUser
  | LineNotOneKind
  | UnitNotFound string
  | NotSellable UnitStatus
  | NotAtThisBranch
  | OnlyAvailable int
  | PriceRequired
  | DiscountExceedsSubtotal
  | BelowCostNotAllowed
  | OverrideReasonRequired
  | PaymentsExceedTotal number number
  | CustomerRequired
  | CustomerUnknown
  | PolicyOverrideForbidden
  | PolicyReasonRequired
  | WindowOutOfRange
  | WindowShortened
  | JustSold
  | TakenMeanwhile
  | StockTaken
  | StockReserved
  | AccountUnknown
  | SaleNotFound
  | SaleBranchNeeded

type_synonym sale_error = "sale_reason http_error"

section \<open>Return policy\<close>

definition NO_RETURNS :: int where
  "NO_RETURNS = 0"

definition MAX_WINDOW_HOURS :: int where
  "MAX_WINDOW_HOURS = 8760"

record ReturnPolicySnapshot =
  ps_windowHours :: int
  ps_deadlineAt :: "nat option"

definition snapshotPolicy :: "nat \<Rightarrow> int \<Rightarrow> sale_error + ReturnPolicySnapshot" where
  "snapshotPolicy soldAt windowHours =
     (if windowHours < NO_RETURNS \<or> windowHours > MAX_WINDOW_HOURS then Inl (BadRequest WindowOutOfRange)
      else Inr \<lparr>ps_windowHours = windowHours,
                ps_deadlineAt = (if windowHours = NO_RETURNS then None else Some (soldAt + nat windowHours * 3600000))\<rparr>)"

record ResolvedWindow =
  rw_windowHours :: int
  rw_overrideReason :: "string option"
  rw_overridden :: bool

definition resolveWindowForSale :: "int \<Rightarrow> (int \<times> string option) option \<Rightarrow> bool \<Rightarrow> sale_error + ResolvedWindow" where
  "resolveWindowForSale companyDefaultHours requested canOverride =
     (case requested of
        None \<Rightarrow> Inr \<lparr>rw_windowHours = companyDefaultHours, rw_overrideReason = None, rw_overridden = False\<rparr>
      | Some (hours, why) \<Rightarrow>
          if hours = companyDefaultHours
          then Inr \<lparr>rw_windowHours = companyDefaultHours, rw_overrideReason = None, rw_overridden = False\<rparr>
          else if \<not> canOverride then Inl (Forbidden PolicyOverrideForbidden)
          else if blank why then Inl (BadRequest PolicyReasonRequired)
          else if hours < NO_RETURNS \<or> hours > MAX_WINDOW_HOURS then Inl (BadRequest WindowOutOfRange)
          else if companyDefaultHours > NO_RETURNS \<and> hours > NO_RETURNS \<and> hours < companyDefaultHours
          then Inl (BadRequest WindowShortened)
          else Inr \<lparr>rw_windowHours = hours, rw_overrideReason = map_option js_trim why, rw_overridden = True\<rparr>)"

record ReturnEligibility =
  el_eligibleByPolicy :: bool
  el_deadlineAt :: "nat option"
  el_remainingMs :: "int option"
  el_reason :: EligibilityReason
  el_requiresOwnerException :: bool

definition evaluateEligibility :: "int \<Rightarrow> nat option \<Rightarrow> nat \<Rightarrow> bool \<Rightarrow> bool \<Rightarrow> bool \<Rightarrow> ReturnEligibility" where
  "evaluateEligibility windowHours deadlineAt now isReversed hasReturn quantityOnly =
     (let answer = (\<lambda>ok ms why ex. \<lparr>el_eligibleByPolicy = ok, el_deadlineAt = deadlineAt, el_remainingMs = ms,
                                     el_reason = why, el_requiresOwnerException = ex\<rparr>)
      in if isReversed then answer False None sale_reversed False
         else if hasReturn then answer False None already_returned False
         else
           (case deadlineAt of
              None \<Rightarrow> answer False None no_return_policy True
            | Some d \<Rightarrow>
                if windowHours = NO_RETURNS then answer False None no_return_policy True
                else if quantityOnly then answer False None quantity_not_supported False
                else if int d - int now \<le> 0 then answer False (Some 0) window_expired True
                else answer True (Some (int d - int now)) within_window False))"

section \<open>Prices and payments\<close>

definition EPSILON :: number where
  "EPSILON = 5 / 1000"

definition assertSellable :: "unit_row \<Rightarrow> id \<Rightarrow> sale_error + unit" where
  "assertSellable u branch =
     (if u_status u \<noteq> in_stock then Inl (Conflict (NotSellable (u_status u)))
      else if u_branchId u \<noteq> branch then Inl (Conflict NotAtThisBranch)
      else Inr ())"

definition resolvePrice :: "number option \<Rightarrow> number option \<Rightarrow> sale_error + number" where
  "resolvePrice provided defaultPrice =
     (case provided of
        Some p \<Rightarrow> Inr p
      | None \<Rightarrow> (case defaultPrice of Some p \<Rightarrow> Inr p | None \<Rightarrow> Inl (BadRequest PriceRequired)))"

record PaymentReconciliation =
  pc_amountPaid :: number
  pc_balanceDue :: number
  pc_payStatus :: SalePayStatus

definition reconcilePayments :: "number list \<Rightarrow> number \<Rightarrow> sale_error + PaymentReconciliation" where
  "reconcilePayments payments tot =
     (let amountPaid = round2 (sum_list payments)
      in if amountPaid > tot + EPSILON then Inl (BadRequest (PaymentsExceedTotal amountPaid tot))
         else
           (let balanceDue = round2 (tot - amountPaid)
            in Inr \<lparr>pc_amountPaid = amountPaid, pc_balanceDue = balanceDue,
                    pc_payStatus = (if balanceDue \<le> EPSILON then sp_paid else if amountPaid \<le> EPSILON then sp_credit else sp_partial)\<rparr>))"

definition assertBelowCostAllowed :: "number \<Rightarrow> bool \<Rightarrow> string option \<Rightarrow> sale_error + unit" where
  "assertBelowCostAllowed margin hasOverride why =
     (if margin < - EPSILON then
        if \<not> hasOverride then Inl (Forbidden BelowCostNotAllowed)
        else if blank why then Inl (BadRequest OverrideReasonRequired)
        else Inr ()
      else Inr ())"

definition assertCreditHasCustomer :: "SalePayStatus \<Rightarrow> id option \<Rightarrow> sale_error + unit" where
  "assertCreditHasCustomer s customerId =
     require (\<not> ((s = sp_credit \<or> s = sp_partial) \<and> customerId = None)) (BadRequest CustomerRequired)"

section \<open>What the rules guarantee\<close>

lemma reconcilePayments_ok:
  assumes "reconcilePayments ps tot = Inr r" "\<forall>p \<in> set ps. is_cents p \<and> 0 < p" "is_cents tot"
  shows "pc_amountPaid r = sum_list ps" "pc_amountPaid r + pc_balanceDue r = tot" "0 \<le> pc_balanceDue r"
    "pc_payStatus r = sp_paid \<longleftrightarrow> pc_balanceDue r = 0"
proof -
  have c: "is_cents (sum_list ps)" using assms(2) by (induction ps) auto
  then have cb: "is_cents (tot - sum_list ps)" using assms(3) by simp
  from assms(1) c cb have le: "sum_list ps \<le> tot + EPSILON" and r: "pc_amountPaid r = sum_list ps" "pc_balanceDue r = tot - sum_list ps"
    "pc_payStatus r = (if tot - sum_list ps \<le> EPSILON then sp_paid else if sum_list ps \<le> EPSILON then sp_credit else sp_partial)"
    by (auto simp: reconcilePayments_def Let_def split: if_splits)
  show "pc_amountPaid r = sum_list ps" "pc_amountPaid r + pc_balanceDue r = tot" using r by simp_all
  obtain n :: int where n: "tot - sum_list ps = of_int n / 100" using cb by (rule is_centsE)
  have "-1 < n" using le n by (simp add: EPSILON_def)
  then show nn: "0 \<le> pc_balanceDue r" using r n by simp
  have "(of_int n / 100 \<le> EPSILON) \<longleftrightarrow> (of_int (2 * n) \<le> (of_int 1 :: rat))" by (simp add: EPSILON_def)
  also have "\<dots> \<longleftrightarrow> n = 0" unfolding of_int_le_iff using \<open>-1 < n\<close> by arith
  finally show "pc_payStatus r = sp_paid \<longleftrightarrow> pc_balanceDue r = 0" using r n by simp
qed

end
