(* ===== verification/ReturnRules.thy ===== *)
theory ReturnRules
  imports SalePolicy
begin

text \<open>
  The rules of a reviewed return and of settling its refund, as pure functions
  (\<^verbatim>\<open>src/src/returns/return-workflow.ts\<close>, \<^verbatim>\<open>src/src/returns/refund-payout.ts\<close>), and who is told
  when a return moves (\<^verbatim>\<open>src/src/returns/return-notifications.ts\<close>).
\<close>

datatype return_reason =
    NoBranch
  | NoUser
  | IdempotencyConflict
  | LineNotFound
  | OnlySerialized
  | LineVoided
  | IdentifierMismatch
  | ReturnAlreadyOpen
  | ReturnNotFound
  | AlreadyDecided
  | IllegalTransition ReturnStatus ReturnStatus
  | CustodySettled
  | RefreshRequired
  | UnitMoved
  | IllegalUnit UnitStatus UnitStatus
  | ExplainOther
  | WholeQuantity
  | NegativeAmount
  | LabelRequired
  | AdjustmentsExceedRefund
  | AdjustmentNotFound
  | CustodyRequired
  | MayNotApprove
  | DecideResponsibility
  | OwnerOnly
  | ExceptionReasonRequired
  | DayAlreadyClosed nat
  | ReversalExists
  | ReasonRequired
  | NotAwaitingRefund
  | MissingReversal
  | NothingToRefund
  | MustBeExactly number
  | CashHasNoAccount
  | AccountRequired
  | AccountNotFound
  | AlreadyReported
  | RefundNotFound
  | AlreadyConfirmed
  | NotConfirmed
  | BadRange

type_synonym return_error = "return_reason http_error"

section \<open>Money\<close>

definition grossRefundOf :: "sale_item \<Rightarrow> number" where
  "grossRefundOf l = round2 (it_price l * of_nat (it_quantity l) - it_discount l)"

record AdjustmentDto =
  adj_kind :: ReturnAdjustmentKind
  adj_label :: string
  adj_quantity :: int
  adj_unitAmount :: number
  adj_expectedVersion :: nat

definition priceAdjustment :: "AdjustmentDto \<Rightarrow> return_error + number" where
  "priceAdjustment a =
     (if adj_quantity a < 1 then Inl (BadRequest WholeQuantity)
      else if adj_unitAmount a < 0 then Inl (BadRequest NegativeAmount)
      else if js_trim (adj_label a) = [] then Inl (BadRequest LabelRequired)
      else Inr (round2 (adj_unitAmount a * of_int (adj_quantity a))))"

record Settled =
  sd_adjustmentTotal :: number
  sd_netRefundDue :: number

definition settleRefund :: "number \<Rightarrow> number list \<Rightarrow> return_error + Settled" where
  "settleRefund grossRefund adjustments =
     (let adjustmentTotal = round2 (foldl (+) 0 adjustments)
      in if adjustmentTotal > grossRefund then Inl (BadRequest AdjustmentsExceedRefund)
         else Inr \<lparr>sd_adjustmentTotal = adjustmentTotal, sd_netRefundDue = round2 (grossRefund - adjustmentTotal)\<rparr>)"

section \<open>Fingerprint of a request\<close>

definition custody_text :: "ReturnCustody \<Rightarrow> string" where
  "custody_text k =
     (case k of customer_holds \<Rightarrow> ''customer_holds'' | store_holds \<Rightarrow> ''store_holds''
              | handed_back \<Rightarrow> ''handed_back'' | retained_hold \<Rightarrow> ''retained_hold'')"

text \<open>The parts are joined by the character with code 0.\<close>

definition fingerprintRequest ::
  "(string \<Rightarrow> string) \<Rightarrow> id \<Rightarrow> string \<Rightarrow> string \<Rightarrow> string option \<Rightarrow> ReturnCustody \<Rightarrow> string" where
  "fingerprintRequest sha256 saleItemId unitId requestReason conditionNotes custody =
     sha256 (join [CHR 0x00] [js_lower (binToUuid saleItemId), js_lower unitId, js_trim requestReason,
       js_trim (or_empty conditionNotes), custody_text custody])"

section \<open>Lifecycle\<close>

fun TRANSITIONS :: "ReturnStatus \<Rightarrow> ReturnStatus list" where
  "TRANSITIONS ReturnStatus.pending_investigation = [under_review, approved_refund_due, return_rejected]"
| "TRANSITIONS under_review = [approved_refund_due, return_rejected]"
| "TRANSITIONS approved_refund_due = []"
| "TRANSITIONS return_rejected = []"

definition canTransition :: "ReturnStatus \<Rightarrow> ReturnStatus \<Rightarrow> bool" where
  "canTransition a z \<longleftrightarrow> z \<in> set (TRANSITIONS a)"

definition decided :: "ReturnStatus \<Rightarrow> bool" where
  "decided s \<longleftrightarrow> s = approved_refund_due \<or> s = return_rejected"

definition assertTransition :: "ReturnStatus \<Rightarrow> ReturnStatus \<Rightarrow> return_error + unit" where
  "assertTransition a z =
     (if canTransition a z then Inr ()
      else if decided a then Inl (Conflict AlreadyDecided)
      else Inl (Conflict (IllegalTransition a z)))"

definition assertEditable :: "ReturnStatus \<Rightarrow> return_error + unit" where
  "assertEditable s = require (\<not> decided s) (Conflict AlreadyDecided)"

section \<open>Custody\<close>

fun CUSTODY_UNIT_STATUS :: "ReturnCustody \<Rightarrow> UnitStatus" where
  "CUSTODY_UNIT_STATUS customer_holds = sold"
| "CUSTODY_UNIT_STATUS store_holds = returned"
| "CUSTODY_UNIT_STATUS handed_back = sold"
| "CUSTODY_UNIT_STATUS retained_hold = faulty"

definition custodyIntakeNeeded :: "ReturnCustody \<Rightarrow> return_error + bool" where
  "custodyIntakeNeeded current =
     (if current = store_holds then Inr False
      else if current = customer_holds then Inr True
      else Inl (Conflict CustodySettled))"

section \<open>Authority\<close>

definition assertMayApprove ::
  "bool \<Rightarrow> ReturnResponsibility \<Rightarrow> string list \<Rightarrow> string option \<Rightarrow> return_error + bool" where
  "assertMayApprove requiresException responsibility permissions exceptionReason =
     (let isException = (requiresException \<or> responsibility = customer_damage)
      in if ''return.approve'' \<notin> set permissions then Inl (Forbidden MayNotApprove)
         else if responsibility = not_decided then Inl (BadRequest DecideResponsibility)
         else if isException \<and> ''return.exception'' \<notin> set permissions then Inl (Forbidden OwnerOnly)
         else if isException \<and> blank exceptionReason then Inl (BadRequest ExceptionReasonRequired)
         else Inr isException)"

definition isProvisionalMoney :: "ReturnStatus \<Rightarrow> bool" where
  "isProvisionalMoney s \<longleftrightarrow> s \<noteq> approved_refund_due"

section \<open>Settling a refund\<close>

definition assertMethodAndAccount :: "Method \<Rightarrow> id option \<Rightarrow> return_error + unit" where
  "assertMethodAndAccount m receivingAccountId =
     (if m = cash \<and> receivingAccountId \<noteq> None then Inl (BadRequest CashHasNoAccount)
      else if m = account \<and> receivingAccountId = None then Inl (BadRequest AccountRequired)
      else Inr ())"

definition assertAmountMatchesDue :: "number \<Rightarrow> number \<Rightarrow> return_error + unit" where
  "assertAmountMatchesDue reported netAmountDue =
     require (js_round (reported * 100) = js_round (netAmountDue * 100)) (BadRequest (MustBeExactly netAmountDue))"

definition show_int :: "int \<Rightarrow> string" where
  "show_int n = (if n < 0 then ''-'' @ show_nat (nat (- n)) else show_nat (nat n))"

text \<open>The parts are joined by a space.\<close>

definition fingerprintPayout ::
  "(string \<Rightarrow> string) \<Rightarrow> id \<Rightarrow> Method \<Rightarrow> id option \<Rightarrow> number \<Rightarrow> string option \<Rightarrow> string option \<Rightarrow> string" where
  "fingerprintPayout sha256 returnRequestId m receivingAccountId reportedAmount transactionReference note =
     sha256 (join '' '' [js_lower (binToUuid returnRequestId), method_text m,
       js_lower (case receivingAccountId of None \<Rightarrow> [] | Some a \<Rightarrow> binToUuid a),
       show_int (js_round (reportedAmount * 100)), js_trim (or_empty transactionReference), js_trim (or_empty note)])"

definition assertCorrectable :: "PayoutStatus \<Rightarrow> return_error + unit" where
  "assertCorrectable s = require (s \<noteq> payout_confirmed) (Conflict AlreadyConfirmed)"

definition assertReportable :: "ReturnStatus \<Rightarrow> bool \<Rightarrow> return_error + unit" where
  "assertReportable s hasReversal =
     (if s \<noteq> approved_refund_due then Inl (Conflict NotAwaitingRefund)
      else if \<not> hasReversal then Inl (Conflict MissingReversal)
      else Inr ())"

definition assertWorthSettling :: "number \<Rightarrow> return_error + unit" where
  "assertWorthSettling netAmountDue = require (js_round (netAmountDue * 100) \<noteq> 0) (BadRequest NothingToRefund)"

section \<open>Notices\<close>

datatype ReturnEvent =
    ev_return_requested
  | ev_custody_received
  | ev_under_review
  | ev_return_approved
  | ev_return_rejected
  | ev_refund_reported
  | ev_refund_corrected
  | ev_refund_confirmed

definition event_text :: "ReturnEvent \<Rightarrow> string" where
  "event_text e =
     (case e of
        ev_return_requested \<Rightarrow> ''requested'' | ev_custody_received \<Rightarrow> ''custody_received''
      | ev_under_review \<Rightarrow> ''under_review'' | ev_return_approved \<Rightarrow> ''approved'' | ev_return_rejected \<Rightarrow> ''rejected''
      | ev_refund_reported \<Rightarrow> ''refund_reported'' | ev_refund_corrected \<Rightarrow> ''refund_corrected''
      | ev_refund_confirmed \<Rightarrow> ''refund_confirmed'')"

text \<open>The request a notice is about: its key, company, branch and the person to answer.\<close>

record return_ref =
  rf_id :: id
  rf_companyId :: id
  rf_branchId :: id
  rf_requestedById :: "id option"

definition candidates :: "assignment list \<Rightarrow> return_ref \<Rightarrow> ReturnEvent \<Rightarrow> id list" where
  "candidates as r e =
     (let requester = (case rf_requestedById r of None \<Rightarrow> [] | Some u \<Rightarrow> [u]);
          holders = holdersOf as (rf_companyId r) (rf_branchId r)
      in case e of
           ev_return_requested \<Rightarrow> holders ''return.review''
         | ev_custody_received \<Rightarrow> holders ''return.review''
         | ev_under_review \<Rightarrow> requester
         | ev_return_rejected \<Rightarrow> requester
         | ev_refund_reported \<Rightarrow> holders ''refund.confirm''
         | ev_refund_corrected \<Rightarrow> requester
         | ev_refund_confirmed \<Rightarrow> requester @ holders ''refund.confirm''
         | ev_return_approved \<Rightarrow> requester @ holders ''return.approve'')"

definition recipientsFor :: "assignment list \<Rightarrow> return_ref \<Rightarrow> ReturnEvent \<Rightarrow> id option \<Rightarrow> id list" where
  "recipientsFor as r e actorId = keys_insert [] (filter (\<lambda>u. actorId \<noteq> Some u) (candidates as r e))"

definition dedupe_key :: "return_ref \<Rightarrow> ReturnEvent \<Rightarrow> id \<Rightarrow> string" where
  "dedupe_key r e u =
     ''return:'' @ hex_digits 32 (rf_id r) @ '':'' @ event_text e @ '':'' @ take 12 (hex_digits 32 u)"

definition note_for :: "return_ref \<Rightarrow> ReturnEvent \<Rightarrow> id \<Rightarrow> notification" where
  "note_for r e u =
     \<lparr>n_companyId = rf_companyId r, n_branchId = Some (rf_branchId r), n_targetUserId = Some u,
      n_type = ''return.'' @ event_text e, n_dedupeKey = Some (dedupe_key r e u)\<rparr>"

text \<open>The unique key on company, person and deduplication key refuses a second row; the refusal is swallowed.\<close>

definition already_told :: "notification \<Rightarrow> notification list \<Rightarrow> bool" where
  "already_told n ns \<longleftrightarrow>
     list_ex (\<lambda>m. n_companyId m = n_companyId n \<and> n_targetUserId m = n_targetUserId n \<and> n_dedupeKey m = n_dedupeKey n) ns"

fun send_all :: "return_ref \<Rightarrow> ReturnEvent \<Rightarrow> id list \<Rightarrow> notification list \<Rightarrow> notification list" where
  "send_all r e [] ns = ns"
| "send_all r e (u # us) ns =
     send_all r e us (if already_told (note_for r e u) ns then ns else ns @ [note_for r e u])"

definition emit :: "assignment list \<Rightarrow> return_ref \<Rightarrow> ReturnEvent \<Rightarrow> id option \<Rightarrow> notification list \<Rightarrow> nat \<times> notification list" where
  "emit as r e actorId ns =
     (let recipients = recipientsFor as r e actorId
      in (length recipients, send_all r e recipients ns))"

section \<open>What the rules guarantee\<close>

lemma return_status_nonfinal: "ReturnStatus.pending_investigation \<noteq> z \<Longrightarrow> canTransition ReturnStatus.pending_investigation z"
  by (cases z) (simp_all add: canTransition_def)

definition return_rank :: "ReturnStatus \<Rightarrow> nat" where
  "return_rank s = (case s of ReturnStatus.pending_investigation \<Rightarrow> 2 | under_review \<Rightarrow> 1 | _ \<Rightarrow> 0)"

interpretation return_machine: ranked_lifecycle TRANSITIONS canTransition decided return_rank
proof
  show "canTransition a b \<longleftrightarrow> b \<in> set (TRANSITIONS a)" for a b by (rule canTransition_def)
  show "decided a \<longleftrightarrow> TRANSITIONS a = []" for a by (cases a) (simp_all add: decided_def)
  show "return_rank b < return_rank a" if "canTransition a b" for a b
    using that by (cases a) (auto simp: canTransition_def return_rank_def)
qed

lemma foldl_plus_sum_list: "foldl (+) (a :: rat) xs = a + sum_list xs"
  by (induction xs arbitrary: a) simp_all

lemma settleRefund_ok:
  assumes "settleRefund g as = Inr s" "is_cents g" "\<forall>a \<in> set as. is_cents a \<and> 0 \<le> a"
  shows "sd_adjustmentTotal s = sum_list as" "sd_netRefundDue s = g - sum_list as" "0 \<le> sd_netRefundDue s" "sum_list as \<le> g"
    "0 \<le> sum_list as"
proof -
  have c: "is_cents (sum_list as)" "0 \<le> sum_list as" using assms(3) by (induction as) auto
  show "sd_adjustmentTotal s = sum_list as" "sd_netRefundDue s = g - sum_list as" "0 \<le> sd_netRefundDue s" "sum_list as \<le> g"
    using assms(1,2) c(1) by (auto simp: settleRefund_def foldl_plus_sum_list Let_def split: if_splits)
qed (use assms(3) in \<open>auto intro: sum_list_nonneg\<close>)

lemma assertMayApprove_ok:
  "assertMayApprove ex resp perms why = Inr e \<longleftrightarrow>
     e = (ex \<or> resp = customer_damage) \<and> ''return.approve'' \<in> set perms \<and> resp \<noteq> not_decided \<and>
     (e \<longrightarrow> ''return.exception'' \<in> set perms \<and> \<not> blank why)"
  by (auto simp: assertMayApprove_def Let_def)

lemma assertAmountMatchesDue_exact:
  "assertAmountMatchesDue a d = Inr u \<Longrightarrow> is_cents a \<Longrightarrow> is_cents d \<Longrightarrow> a = d"
proof (elim is_centsE)
  fix k l :: int assume "assertAmountMatchesDue a d = Inr u" and k: "a = of_int k / 100" and l: "d = of_int l / 100"
  moreover have "js_round (of_int j) = j" for j using js_round_near_int [of 0 j] by simp
  ultimately show "a = d" by (simp add: assertAmountMatchesDue_def)
qed

end
