(* ===== verification/SaleQuery.thy ===== *)
theory SaleQuery
  imports Books
begin

text \<open>
  The parsing of the filters of a history (\<^verbatim>\<open>src/src/sales/sale-query.ts\<close>), which the sales and
  the returns share. A date given as text is read as a bare date, an instant, or neither.
\<close>

fun split_on :: "char \<Rightarrow> string \<Rightarrow> string list" where
  "split_on c [] = [[]]"
| "split_on c (x # xs) =
     (if x = c then [] # split_on c xs
      else (case split_on c xs of [] \<Rightarrow> [[x]] | p # ps \<Rightarrow> (x # p) # ps))"

text \<open>The values asked for, each once and in order, or the values that are unknown.\<close>

definition parseEnumList :: "string option \<Rightarrow> string list \<Rightarrow> string list + string list" where
  "parseEnumList raw allowed =
     (let parts = filter (\<lambda>s. s \<noteq> []) (map js_trim (split_on (CHR '','') (or_empty raw)));
          unknown = filter (\<lambda>p. p \<notin> set allowed) parts
      in if unknown \<noteq> [] then Inl unknown else Inr (keys_insert [] parts))"

datatype date_text = BareDate nat | Instant nat | NotADate

datatype range_error = InvalidDate | EmptyRange

definition startOfRange :: "date_text \<Rightarrow> range_error + nat" where
  "startOfRange d = (case d of BareDate day \<Rightarrow> Inr (day * 86400000) | Instant t \<Rightarrow> Inr t | NotADate \<Rightarrow> Inl InvalidDate)"

definition endOfRange :: "date_text \<Rightarrow> range_error + nat" where
  "endOfRange d =
     (case d of BareDate day \<Rightarrow> Inr (day * 86400000 + 24 * 3600000) | Instant t \<Rightarrow> Inr t | NotADate \<Rightarrow> Inl InvalidDate)"

definition optionally :: "('a \<Rightarrow> 'e + 'b) \<Rightarrow> 'a option \<Rightarrow> 'e + 'b option" where
  "optionally f x = (case x of None \<Rightarrow> Inr None | Some a \<Rightarrow> bindE (f a) (\<lambda>y. Inr (Some y)))"

text \<open>The lower bound, included, and the upper bound, excluded.\<close>

definition parseDateRange :: "date_text option \<Rightarrow> date_text option \<Rightarrow> range_error + nat option \<times> nat option" where
  "parseDateRange a z =
     bindE (optionally startOfRange a) (\<lambda>gte.
     bindE (optionally endOfRange z) (\<lambda>lt.
       if (case (gte, lt) of (Some g, Some l) \<Rightarrow> g \<ge> l | _ \<Rightarrow> False) then Inl EmptyRange else Inr (gte, lt)))"

definition in_range :: "nat option \<times> nat option \<Rightarrow> nat \<Rightarrow> bool" where
  "in_range r t \<longleftrightarrow>
     (case fst r of None \<Rightarrow> True | Some g \<Rightarrow> g \<le> t) \<and> (case snd r of None \<Rightarrow> True | Some l \<Rightarrow> t < l)"

text \<open>\<^verbatim>\<open>[brand, model, variant].filter(Boolean).join(' ')\<close>\<close>

definition product_words :: "product \<Rightarrow> string" where
  "product_words p =
     join '' '' (filter (\<lambda>s. s \<noteq> []) [pr_brand p, pr_model p, or_empty (pr_variant p)])"

definition describeProduct :: "product option \<Rightarrow> string option" where
  "describeProduct p =
     (case p of
        None \<Rightarrow> None
      | Some q \<Rightarrow> if js_trim (product_words q) = [] then None else Some (js_trim (product_words q)))"

section \<open>What the filters accept\<close>

text \<open>A bare day as both bounds is exactly the instants of that day.\<close>

lemma bare_day_range:
  "parseDateRange (Some (BareDate d)) (Some (BareDate d)) = Inr r \<Longrightarrow> in_range r t \<longleftrightarrow> dayKey t = d"
  unfolding on_day_iff [symmetric]
  by (auto simp: parseDateRange_def optionally_def startOfRange_def endOfRange_def in_range_def on_day_def)

lemma bare_day_range_ok: "\<exists>r. parseDateRange (Some (BareDate d)) (Some (BareDate d)) = Inr r"
  by (simp add: parseDateRange_def optionally_def startOfRange_def endOfRange_def)

text \<open>A value that is not allowed is refused, never dropped; what is accepted is what was asked for.\<close>

lemma parseEnumList_allowed: "parseEnumList raw allowed = Inr vs \<Longrightarrow> set vs \<subseteq> set allowed \<and> distinct vs"
  by (auto simp: parseEnumList_def Let_def filter_empty_conv split: if_splits)

end
