(* ===== verification/Returns.thy ===== *)
theory Returns
  imports Corrections ReturnRules SaleQuery
begin

text \<open>
  The reviewed return of a phone (\<^verbatim>\<open>src/src/returns/returns.service.ts\<close>): the request, the
  custody of the phone, the investigation, the charges withheld, the decision, the report of
  the refund and its confirmation, and the reads. A query without an order yields the row that
  was written first.
\<close>

section \<open>Requests\<close>

record CreateReturnRequestDto =
  crr_saleItemId :: id
  crr_identifier :: string
  crr_requestReason :: string
  crr_conditionNotes :: "string option"
  crr_custody :: ReturnCustody
  crr_clientUuid :: id

record ReceiveCustodyDto =
  rcu_identifier :: string
  rcu_expectedVersion :: nat

text \<open>A note that is absent leaves the column; a null clears it.\<close>

record InvestigateDto =
  ivd_responsibility :: "ReturnResponsibility option"
  ivd_responsibilityNotes :: "string option option"
  ivd_conditionNotes :: "string option option"
  ivd_expectedVersion :: nat

record ApproveReturnDto =
  apr_expectedVersion :: nat
  apr_exceptionReason :: "string option"

record RejectReturnDto =
  rjr_expectedVersion :: nat
  rjr_reason :: string

record ReportRefundDto =
  rpr_reportedAmount :: number
  rpr_method :: Method
  rpr_receivingAccountId :: "id option"
  rpr_transactionReference :: "string option"
  rpr_note :: "string option"
  rpr_clientUuid :: id

record CorrectRefundDto =
  cor_expectedVersion :: nat
  cor_method :: "Method option"
  cor_receivingAccountId :: "id option"
  cor_transactionReference :: "string option"
  cor_note :: "string option"

section \<open>Loading\<close>

text \<open>A request with the rows its foreign keys name.\<close>

record Loaded =
  ld_request :: return_request
  ld_sale :: sale_row
  ld_item :: sale_item
  ld_unit :: unit_row

definition load :: "ctx \<Rightarrow> id \<Rightarrow> id \<Rightarrow> books \<Rightarrow> return_error + Loaded" where
  "load c branch i b =
     (case map_of (bk_returns b) i of
        None \<Rightarrow> Inl (NotFound ReturnNotFound)
      | Some r \<Rightarrow>
          if rr_companyId r \<noteq> c_companyId c \<or> rr_branchId r \<noteq> branch then Inl (NotFound ReturnNotFound)
          else
            (case (map_of (bk_sales b) (rr_saleId r), map_of (bk_items b) (rr_saleItemId r), map_of (bk_units b) (rr_unitId r)) of
               (Some s, Some l, Some u) \<Rightarrow> Inr \<lparr>ld_request = r, ld_sale = s, ld_item = l, ld_unit = u\<rparr>
             | _ \<Rightarrow> Inl (Internal ReturnNotFound)))"

definition requireBranchId :: "ctx \<Rightarrow> return_error + id" where
  "requireBranchId c = (case c_branchId c of None \<Rightarrow> Inl (BadRequest NoBranch) | Some x \<Rightarrow> Inr x)"

definition adjustments_of :: "id \<Rightarrow> books \<Rightarrow> (id \<times> adjustment) list" where
  "adjustments_of i b = filter (\<lambda>(_, a). aj_returnRequestId a = i) (bk_adjustments b)"

definition adjustment_amounts :: "id \<Rightarrow> books \<Rightarrow> number list" where
  "adjustment_amounts i b = map (\<lambda>(_, a). aj_totalAmount a) (adjustments_of i b)"

definition payout_of :: "id \<Rightarrow> books \<Rightarrow> (id \<times> payout) option" where
  "payout_of i b = find (\<lambda>(_, p). po_returnRequestId p = i) (bk_payouts b)"

definition reversal_of :: "id \<Rightarrow> books \<Rightarrow> (id \<times> reversal) option" where
  "reversal_of i b = find (\<lambda>(_, v). rv_returnRequestId v = i) (bk_reversals b)"

definition day_closed :: "ctx \<Rightarrow> id \<Rightarrow> nat \<Rightarrow> books \<Rightarrow> bool" where
  "day_closed c branch day b \<longleftrightarrow>
     (case find_closing (c_companyId c) branch day b of None \<Rightarrow> False | Some (_, k) \<Rightarrow> cl_isLocked k)"

section \<open>Reads\<close>

definition user_name :: "books \<Rightarrow> id option \<Rightarrow> string option" where
  "user_name b u = Option.bind u (\<lambda>i. map_option us_name (map_of (bk_users b) i))"

record ReturnMoney =
  mn_provisional :: bool
  mn_grossRefund :: number
  mn_adjustmentTotal :: number
  mn_netRefundDue :: number
  mn_cost :: number

text \<open>The rounding here is \<^verbatim>\<open>Math.round(x * 100) / 100\<close>, without the epsilon.\<close>

definition plain_round2 :: "number \<Rightarrow> number" where
  "plain_round2 x = of_int (js_round (x * 100)) / 100"

definition return_money :: "Loaded \<Rightarrow> number list \<Rightarrow> ReturnMoney" where
  "return_money ld as =
     (let gross = grossRefundOf (ld_item ld);
          adjustmentTotal = plain_round2 (foldl (+) 0 as)
      in \<lparr>mn_provisional = isProvisionalMoney (rr_status (ld_request ld)), mn_grossRefund = gross,
          mn_adjustmentTotal = adjustmentTotal, mn_netRefundDue = plain_round2 (gross - adjustmentTotal),
          mn_cost = it_cost (ld_item ld) * of_nat (it_quantity (ld_item ld))\<rparr>)"

datatype timeline_event = tl_requested | tl_custody_received | tl_under_review | tl_decided ReturnStatus

definition timeline :: "books \<Rightarrow> return_request \<Rightarrow> (nat \<times> timeline_event \<times> string option) list" where
  "timeline b r =
     [(rr_createdAt r, tl_requested, user_name b (rr_requestedById r))] @
     (case rr_custodyReceivedAt r of None \<Rightarrow> [] | Some t \<Rightarrow> [(t, tl_custody_received, None)]) @
     (case rr_reviewedAt r of None \<Rightarrow> [] | Some t \<Rightarrow> [(t, tl_under_review, user_name b (rr_reviewedById r))]) @
     (case rr_decidedAt r of None \<Rightarrow> [] | Some t \<Rightarrow> [(t, tl_decided (rr_status r), user_name b (rr_decidedById r))])"

record PayoutView =
  pv_id :: id
  pv_payout :: payout
  pv_accountLabel :: "string option"
  pv_correction :: "(id \<times> correction) option"

definition account_label :: "books \<Rightarrow> payout \<Rightarrow> string option" where
  "account_label b p =
     (case po_accountLabelSnapshot p of
        Some l \<Rightarrow> Some l
      | None \<Rightarrow> Option.bind (po_receivingAccountId p) (\<lambda>a. map_option ac_label (map_of (bk_accounts b) a)))"

text \<open>The newest correction of a payout.\<close>

definition latest_correction :: "id \<Rightarrow> books \<Rightarrow> (id \<times> correction) option" where
  "latest_correction p b =
     (case rev (sort_key fst (filter (\<lambda>(_, f). fc_targetRefundPayoutId f = Some p) (bk_corrections b))) of
        [] \<Rightarrow> None | x # _ \<Rightarrow> Some x)"

definition payout_view :: "id \<Rightarrow> books \<Rightarrow> PayoutView option" where
  "payout_view i b =
     map_option (\<lambda>(k, p). \<lparr>pv_id = k, pv_payout = p, pv_accountLabel = account_label b p, pv_correction = latest_correction k b\<rparr>)
       (payout_of i b)"

record ReturnDetail =
  rdt_id :: id
  rdt_request :: return_request
  rdt_invoiceNo :: string
  rdt_soldAt :: nat
  rdt_imei :: "string option"
  rdt_serialNo :: "string option"
  rdt_product :: string
  rdt_unitStatus :: UnitStatus
  rdt_money :: ReturnMoney
  rdt_adjustments :: "(id \<times> adjustment) list"
  rdt_timeline :: "(nat \<times> timeline_event \<times> string option) list"
  rdt_payout :: "PayoutView option"

definition product_of_unit :: "books \<Rightarrow> unit_row \<Rightarrow> string" where
  "product_of_unit b u = (case map_of (bk_products b) (u_productId u) of None \<Rightarrow> [] | Some p \<Rightarrow> product_words p)"

definition detail :: "ctx \<Rightarrow> id \<Rightarrow> books \<Rightarrow> return_error + ReturnDetail" where
  "detail c i b =
     bindE (requireBranchId c) (\<lambda>branch.
     bindE (load c branch i b) (\<lambda>ld.
     let adjustments = sort_key fst (adjustments_of i b)
     in Inr \<lparr>rdt_id = i, rdt_request = ld_request ld, rdt_invoiceNo = sa_invoiceNo (ld_sale ld), rdt_soldAt = sa_soldAt (ld_sale ld),
             rdt_imei = u_imeiPrimary (ld_unit ld), rdt_serialNo = u_serialNo (ld_unit ld), rdt_product = product_of_unit b (ld_unit ld),
             rdt_unitStatus = u_status (ld_unit ld), rdt_money = return_money ld (map (\<lambda>(_, a). aj_totalAmount a) adjustments),
             rdt_adjustments = adjustments, rdt_timeline = timeline b (ld_request ld), rdt_payout = payout_view i b\<rparr>))"

text \<open>Every handler answers with the detail, read after its writes.\<close>

definition answer :: "ctx \<Rightarrow> id \<Rightarrow> books \<Rightarrow> return_error + books \<Rightarrow> (return_error + ReturnDetail) \<times> books" where
  "answer c i b r = (case r of Inl e \<Rightarrow> (Inl e, b) | Inr b1 \<Rightarrow> (detail c i b1, b1))"

section \<open>Shared writes\<close>

definition matches :: "string \<Rightarrow> unit_row \<Rightarrow> bool" where
  "matches identifier u \<longleftrightarrow>
     (let presented = js_trim identifier
      in u_imeiPrimary u = Some presented \<or> u_imeiSecondary u = Some presented \<or> u_serialNo u = Some presented)"

definition moveUnitForCustody :: "ctx \<Rightarrow> id \<Rightarrow> UnitStatus \<Rightarrow> UnitStatus \<Rightarrow> books \<Rightarrow> return_error + books" where
  "moveUnitForCustody c u a z b =
     (if \<not> Inventory.canTransition a z then Inl (Conflict (IllegalUnit a z))
      else
        (case t_update_where u (\<lambda>x. u_companyId x = c_companyId c \<and> u_status x = a) (\<lambda>x. x\<lparr>u_status := z\<rparr>) (bk_units b) of
           (moved, us) \<Rightarrow> if moved = 0 then Inl (Conflict UnitMoved) else Inr (b\<lparr>bk_units := us\<rparr>)))"

text \<open>The write guarded by the version last seen, which every write increments.\<close>

definition guarded_write ::
  "ctx \<Rightarrow> id \<Rightarrow> nat \<Rightarrow> (return_request \<Rightarrow> bool) \<Rightarrow> (return_request \<Rightarrow> return_request) \<Rightarrow> books \<Rightarrow> return_error + books" where
  "guarded_write c i expected p f b =
     (case t_update_where i (\<lambda>r. rr_companyId r = c_companyId c \<and> rr_version r = expected \<and> p r)
             (\<lambda>r. (f r)\<lparr>rr_version := Suc (rr_version r)\<rparr>) (bk_returns b) of
        (moved, rs) \<Rightarrow> if moved = 0 then Inl (Conflict RefreshRequired) else Inr (b\<lparr>bk_returns := rs\<rparr>))"

definition record_audit :: "ctx \<Rightarrow> string \<Rightarrow> id \<Rightarrow> string \<Rightarrow> string option \<Rightarrow> id \<Rightarrow> books \<Rightarrow> books" where
  "record_audit c entity i act why branch b = b\<lparr>bk_audit := bk_audit b @ [audit_row_of c entity i act why (Some branch)]\<rparr>"

definition tell :: "ctx \<Rightarrow> id \<Rightarrow> id \<Rightarrow> id option \<Rightarrow> ReturnEvent \<Rightarrow> books \<Rightarrow> books" where
  "tell c i branch person e b =
     b\<lparr>bk_notifications := snd (emit (bk_assignments b)
         \<lparr>rf_id = i, rf_companyId = c_companyId c, rf_branchId = branch, rf_requestedById = person\<rparr> e (c_userId c)
         (bk_notifications b))\<rparr>"

section \<open>Raising a return\<close>

definition new_request ::
  "(string \<Rightarrow> string) \<Rightarrow> ctx \<Rightarrow> id \<Rightarrow> CreateReturnRequestDto \<Rightarrow> sale_item \<Rightarrow> id \<Rightarrow> sale_row \<Rightarrow> return_request" where
  "new_request sha256 c branch dto l unitId s =
     (let e = evaluateEligibility (sa_returnWindowHours s) (sa_returnDeadlineAt s) (c_now c) (sa_isReversed s) False False;
          takesCustody = (crr_custody dto = store_holds)
      in \<lparr>rr_companyId = c_companyId c, rr_branchId = branch, rr_saleId = it_saleId l, rr_saleItemId = crr_saleItemId dto,
          rr_unitId = unitId, rr_status = ReturnStatus.pending_investigation, rr_clientUuid = crr_clientUuid dto,
          rr_clientRequestHash = fingerprintRequest sha256 (crr_saleItemId dto) (crr_identifier dto) (crr_requestReason dto)
             (crr_conditionNotes dto) (crr_custody dto),
          rr_requestedById = c_userId c, rr_requestReason = js_trim (crr_requestReason dto),
          rr_conditionNotes = map_option js_trim (crr_conditionNotes dto), rr_responsibility = not_decided,
          rr_responsibilityNotes = None, rr_custody = (if takesCustody then store_holds else customer_holds),
          rr_custodyReceivedAt = (if takesCustody then Some (c_now c) else None), rr_custodyReturnedAt = None,
          rr_policyWindowHours = sa_returnWindowHours s, rr_policyDeadlineAt = sa_returnDeadlineAt s,
          rr_policyReason = el_reason e, rr_requiresException = (\<not> el_eligibleByPolicy e), rr_reviewedById = None,
          rr_reviewedAt = None, rr_decidedById = None, rr_decidedAt = None, rr_decisionReason = None, rr_exceptionReason = None,
          rr_version = 0, rr_createdAt = c_now c\<rparr>)"

text \<open>The unique key on the sale line and the generated claim key, null for a rejected request.\<close>

definition claim_open :: "id \<Rightarrow> books \<Rightarrow> bool" where
  "claim_open saleItemId b \<longleftrightarrow>
     list_ex (\<lambda>(_, r). rr_saleItemId r = saleItemId \<and> rr_status r \<noteq> return_rejected) (bk_returns b)"

definition open_request :: "ctx \<Rightarrow> id \<Rightarrow> id \<Rightarrow> return_request \<Rightarrow> books \<Rightarrow> return_error + books" where
  "open_request c branch newId r b =
     (if claim_open (rr_saleItemId r) b then Inl (Conflict ReturnAlreadyOpen)
      else
        (let b1 = b\<lparr>bk_returns := t_insert newId r (bk_returns b)\<rparr>
         in bindE (if rr_custody r = store_holds then moveUnitForCustody c (rr_unitId r) sold returned b1 else Inr b1) (\<lambda>b2.
            let b3 = record_audit c ''ReturnRequest'' newId ''create'' None branch b2;
                b4 = (if rr_custody r = store_holds
                      then record_audit c ''Unit'' (rr_unitId r) ''status_change'' None branch b3 else b3)
            in Inr (tell c newId branch (c_userId c) ev_return_requested b4))))"

definition create_tx ::
  "(string \<Rightarrow> string) \<Rightarrow> ctx \<Rightarrow> id \<Rightarrow> id \<Rightarrow> CreateReturnRequestDto \<Rightarrow> books \<Rightarrow> return_error + books" where
  "create_tx sha256 c branch newId dto b =
     (case map_of (bk_items b) (crr_saleItemId dto) of
        None \<Rightarrow> Inl (NotFound LineNotFound)
      | Some l \<Rightarrow>
          (case map_of (bk_sales b) (it_saleId l) of
             None \<Rightarrow> Inl (NotFound LineNotFound)
           | Some s \<Rightarrow>
               if it_companyId l \<noteq> c_companyId c \<or> sa_branchId s \<noteq> branch then Inl (NotFound LineNotFound)
               else
                 (case it_unitId l of
                    None \<Rightarrow> Inl (BadRequest OnlySerialized)
                  | Some uid \<Rightarrow>
                      (case map_of (bk_units b) uid of
                         None \<Rightarrow> Inl (BadRequest OnlySerialized)
                       | Some u \<Rightarrow>
                           if it_voided l then Inl (Conflict LineVoided)
                           else if \<not> matches (crr_identifier dto) u then Inl (BadRequest IdentifierMismatch)
                           else open_request c branch newId (new_request sha256 c branch dto l uid s) b))))"

definition create ::
  "(string \<Rightarrow> string) \<Rightarrow> ctx \<Rightarrow> id \<Rightarrow> CreateReturnRequestDto \<Rightarrow> books \<Rightarrow> (return_error + ReturnDetail) \<times> books" where
  "create sha256 c newId dto b =
     (case requireBranchId c of
        Inl e \<Rightarrow> (Inl e, b)
      | Inr branch \<Rightarrow>
          if c_userId c = None then (Inl (BadRequest NoUser), b)
          else
            (case find (\<lambda>(_, r). rr_companyId r = c_companyId c \<and> rr_clientUuid r = crr_clientUuid dto) (bk_returns b) of
               Some (i, r) \<Rightarrow>
                 if rr_clientRequestHash r \<noteq>
                    fingerprintRequest sha256 (crr_saleItemId dto) (crr_identifier dto) (crr_requestReason dto)
                      (crr_conditionNotes dto) (crr_custody dto)
                 then (Inl (Conflict IdempotencyConflict), b) else (detail c i b, b)
             | None \<Rightarrow> answer c newId b (create_tx sha256 c branch newId dto b)))"

section \<open>Custody and investigation\<close>

definition receiveCustody_tx :: "ctx \<Rightarrow> id \<Rightarrow> ReceiveCustodyDto \<Rightarrow> books \<Rightarrow> return_error + books" where
  "receiveCustody_tx c i dto b =
     bindE (requireBranchId c) (\<lambda>branch.
     bindE (load c branch i b) (\<lambda>ld.
     let r = ld_request ld
     in bindE (assertEditable (rr_status r)) (\<lambda>_.
        bindE (custodyIntakeNeeded (rr_custody r)) (\<lambda>needed.
        if \<not> needed then Inr b
        else if \<not> matches (rcu_identifier dto) (ld_unit ld) then Inl (BadRequest IdentifierMismatch)
        else
          bindE (guarded_write c i (rcu_expectedVersion dto) (\<lambda>_. True)
                   (\<lambda>x. x\<lparr>rr_custody := store_holds, rr_custodyReceivedAt := Some (c_now c)\<rparr>) b) (\<lambda>b1.
          bindE (moveUnitForCustody c (rr_unitId r) sold returned b1) (\<lambda>b2.
            Inr (tell c i branch (rr_requestedById r) ev_custody_received
                   (record_audit c ''Unit'' (rr_unitId r) ''status_change'' None branch
                     (record_audit c ''ReturnRequest'' i ''update'' None branch b2)))))))))"

definition receiveCustody :: "ctx \<Rightarrow> id \<Rightarrow> ReceiveCustodyDto \<Rightarrow> books \<Rightarrow> (return_error + ReturnDetail) \<times> books" where
  "receiveCustody c i dto b = answer c i b (receiveCustody_tx c i dto b)"

definition investigated :: "ctx \<Rightarrow> InvestigateDto \<Rightarrow> ReturnStatus \<Rightarrow> return_request \<Rightarrow> return_request" where
  "investigated c dto nextStatus r =
     r\<lparr>rr_status := nextStatus,
       rr_responsibility := (case ivd_responsibility dto of None \<Rightarrow> rr_responsibility r | Some x \<Rightarrow> x),
       rr_responsibilityNotes := (case ivd_responsibilityNotes dto of None \<Rightarrow> rr_responsibilityNotes r | Some n \<Rightarrow> trim_or_null n),
       rr_conditionNotes := (case ivd_conditionNotes dto of None \<Rightarrow> rr_conditionNotes r | Some n \<Rightarrow> trim_or_null n),
       rr_reviewedById := c_userId c, rr_reviewedAt := Some (c_now c)\<rparr>"

definition investigate_tx :: "ctx \<Rightarrow> id \<Rightarrow> InvestigateDto \<Rightarrow> books \<Rightarrow> return_error + books" where
  "investigate_tx c i dto b =
     bindE (requireBranchId c) (\<lambda>branch.
     bindE (load c branch i b) (\<lambda>ld.
     let r = ld_request ld;
         notes = (case ivd_responsibilityNotes dto of None \<Rightarrow> None | Some n \<Rightarrow> n);
         nextStatus = (if rr_status r = ReturnStatus.pending_investigation then under_review else rr_status r)
     in bindE (assertEditable (rr_status r)) (\<lambda>_.
        bindE (require (\<not> (ivd_responsibility dto = Some other_responsibility \<and> blank notes)) (BadRequest ExplainOther)) (\<lambda>_.
        bindE (if nextStatus \<noteq> rr_status r then assertTransition (rr_status r) nextStatus else Inr ()) (\<lambda>_.
        bindE (guarded_write c i (ivd_expectedVersion dto) (\<lambda>_. True) (investigated c dto nextStatus) b) (\<lambda>b1.
          Inr (tell c i branch (rr_requestedById r) ev_under_review
                 (record_audit c ''ReturnRequest'' i ''update'' (trim_or_null notes) branch b1))))))))"

definition investigate :: "ctx \<Rightarrow> id \<Rightarrow> InvestigateDto \<Rightarrow> books \<Rightarrow> (return_error + ReturnDetail) \<times> books" where
  "investigate c i dto b = answer c i b (investigate_tx c i dto b)"

section \<open>Charges withheld\<close>

definition addAdjustment_tx :: "ctx \<Rightarrow> id \<Rightarrow> id \<Rightarrow> AdjustmentDto \<Rightarrow> books \<Rightarrow> return_error + books" where
  "addAdjustment_tx c newId i dto b =
     bindE (requireBranchId c) (\<lambda>branch.
     bindE (load c branch i b) (\<lambda>ld.
     bindE (assertEditable (rr_status (ld_request ld))) (\<lambda>_.
     bindE (priceAdjustment dto) (\<lambda>totalAmount.
     bindE (settleRefund (grossRefundOf (ld_item ld)) (adjustment_amounts i b @ [totalAmount])) (\<lambda>_.
     bindE (guarded_write c i (adj_expectedVersion dto) (\<lambda>_. True) (\<lambda>r. r) b) (\<lambda>b1.
       Inr (record_audit c ''ReturnAdjustment'' newId ''create'' None branch
              (b1\<lparr>bk_adjustments := t_insert newId
                  \<lparr>aj_companyId = rr_companyId (ld_request ld), aj_returnRequestId = i, aj_kind = adj_kind dto,
                   aj_label = js_trim (adj_label dto), aj_quantity = adj_quantity dto, aj_unitAmount = adj_unitAmount dto,
                   aj_totalAmount = totalAmount, aj_createdById = c_userId c\<rparr> (bk_adjustments b1)\<rparr>))))))))"

definition addAdjustment :: "ctx \<Rightarrow> id \<Rightarrow> id \<Rightarrow> AdjustmentDto \<Rightarrow> books \<Rightarrow> (return_error + ReturnDetail) \<times> books" where
  "addAdjustment c newId i dto b = answer c i b (addAdjustment_tx c newId i dto b)"

definition removeAdjustment_tx :: "ctx \<Rightarrow> id \<Rightarrow> id \<Rightarrow> nat \<Rightarrow> books \<Rightarrow> return_error + books" where
  "removeAdjustment_tx c i adjustmentId expected b =
     bindE (requireBranchId c) (\<lambda>branch.
     bindE (load c branch i b) (\<lambda>ld.
     bindE (assertEditable (rr_status (ld_request ld))) (\<lambda>_.
     case map_of (bk_adjustments b) adjustmentId of
       None \<Rightarrow> Inl (NotFound AdjustmentNotFound)
     | Some a \<Rightarrow>
         if aj_companyId a \<noteq> c_companyId c \<or> aj_returnRequestId a \<noteq> i then Inl (NotFound AdjustmentNotFound)
         else
           bindE (guarded_write c i expected (\<lambda>_. True) (\<lambda>r. r) b) (\<lambda>b1.
             Inr (record_audit c ''ReturnAdjustment'' adjustmentId ''delete'' None branch
                    (b1\<lparr>bk_adjustments := filter (\<lambda>(k, _). k \<noteq> adjustmentId) (bk_adjustments b1)\<rparr>))))))"

definition removeAdjustment :: "ctx \<Rightarrow> id \<Rightarrow> id \<Rightarrow> nat \<Rightarrow> books \<Rightarrow> (return_error + ReturnDetail) \<times> books" where
  "removeAdjustment c i adjustmentId expected b = answer c i b (removeAdjustment_tx c i adjustmentId expected b)"

section \<open>Deciding\<close>

text \<open>What is decided before the transaction of an approval: the exception, the line refund, the settlement.\<close>

definition approve_plan :: "ctx \<Rightarrow> id \<Rightarrow> Loaded \<Rightarrow> id \<Rightarrow> ApproveReturnDto \<Rightarrow> books \<Rightarrow> return_error + bool \<times> Settled" where
  "approve_plan c branch ld i dto b =
     (let r = ld_request ld
      in bindE (assertEditable (rr_status r)) (\<lambda>_.
         bindE (assertTransition (rr_status r) approved_refund_due) (\<lambda>_.
         bindE (require (rr_custody r = store_holds) (Conflict CustodyRequired)) (\<lambda>_.
         bindE (assertMayApprove (rr_requiresException r) (rr_responsibility r) (c_permissions c) (apr_exceptionReason dto)) (\<lambda>isException.
         bindE (settleRefund (grossRefundOf (ld_item ld)) (adjustment_amounts i b)) (\<lambda>s.
         bindE (require (\<not> day_closed c branch (dayKey (c_now c)) b) (Conflict (DayAlreadyClosed (dayKey (c_now c))))) (\<lambda>_.
           Inr (isException, s))))))))"

definition new_reversal :: "ctx \<Rightarrow> id \<Rightarrow> id \<Rightarrow> Loaded \<Rightarrow> Settled \<Rightarrow> reversal" where
  "new_reversal c branch i ld s =
     (let r = ld_request ld; l = ld_item ld; gross = grossRefundOf l
      in \<lparr>rv_companyId = c_companyId c, rv_branchId = branch, rv_saleId = rr_saleId r, rv_saleItemId = rr_saleItemId r,
          rv_unitId = rr_unitId r, rv_returnRequestId = i, rv_lineRevenue = gross,
          rv_lineCost = it_cost l * of_nat (it_quantity l), rv_lineMargin = gross - it_cost l * of_nat (it_quantity l),
          rv_grossRefund = gross, rv_adjustmentTotal = sd_adjustmentTotal s, rv_netRefundDue = sd_netRefundDue s,
          rv_approvalDate = dayKey (c_now c), rv_approvedById = c_userId c\<rparr>)"

text \<open>The unique keys of the reversals: one per sale line, one per request.\<close>

definition reversal_exists :: "reversal \<Rightarrow> books \<Rightarrow> bool" where
  "reversal_exists v b \<longleftrightarrow>
     list_ex (\<lambda>(_, w). rv_saleItemId w = rv_saleItemId v \<or> rv_returnRequestId w = rv_returnRequestId v) (bk_reversals b)"

definition approved_request :: "ctx \<Rightarrow> ApproveReturnDto \<Rightarrow> bool \<Rightarrow> return_request \<Rightarrow> return_request" where
  "approved_request c dto isException r =
     r\<lparr>rr_status := approved_refund_due, rr_custody := retained_hold, rr_decidedById := c_userId c,
       rr_decidedAt := Some (c_now c),
       rr_exceptionReason := (if isException then map_option js_trim (apr_exceptionReason dto) else None)\<rparr>"

definition approve_write :: "ctx \<Rightarrow> id \<Rightarrow> id \<Rightarrow> Loaded \<Rightarrow> id \<Rightarrow> ApproveReturnDto \<Rightarrow> bool \<times> Settled \<Rightarrow> books \<Rightarrow> return_error + books" where
  "approve_write c branch reversalId ld i dto plan b =
     (let r = ld_request ld; v = new_reversal c branch i ld (snd plan)
      in bindE (guarded_write c i (apr_expectedVersion dto) (\<lambda>x. rr_status x = rr_status r) (approved_request c dto (fst plan)) b) (\<lambda>b1.
         if reversal_exists v b1 then Inl (Conflict ReversalExists)
         else
           bindE (moveUnitForCustody c (rr_unitId r) returned faulty
                    (b1\<lparr>bk_reversals := t_insert reversalId v (bk_reversals b1)\<rparr>)) (\<lambda>b2.
             Inr (tell c i branch (rr_requestedById r) ev_return_approved
                    (record_audit c ''Unit'' (rr_unitId r) ''status_change'' None branch
                      (record_audit c ''ReturnReversal'' reversalId ''create'' None branch
                        (record_audit c ''ReturnRequest'' i ''update''
                           (if fst plan then map_option js_trim (apr_exceptionReason dto) else None) branch b2)))))))"

definition approve_tx :: "ctx \<Rightarrow> id \<Rightarrow> id \<Rightarrow> ApproveReturnDto \<Rightarrow> books \<Rightarrow> return_error + books" where
  "approve_tx c reversalId i dto b =
     bindE (requireBranchId c) (\<lambda>branch.
     bindE (load c branch i b) (\<lambda>ld.
     bindE (approve_plan c branch ld i dto b) (\<lambda>plan.
     bindE (approve_write c branch reversalId ld i dto plan b) (\<lambda>b1.
       Inr (recomputeDaily (c_companyId c) branch (dayKey (c_now c)) (c_now c) b1)))))"

definition approve :: "ctx \<Rightarrow> id \<Rightarrow> id \<Rightarrow> ApproveReturnDto \<Rightarrow> books \<Rightarrow> (return_error + ReturnDetail) \<times> books" where
  "approve c reversalId i dto b = answer c i b (approve_tx c reversalId i dto b)"

definition rejected_request :: "ctx \<Rightarrow> string \<Rightarrow> bool \<Rightarrow> return_request \<Rightarrow> return_request" where
  "rejected_request c reason handingBack r =
     r\<lparr>rr_status := return_rejected, rr_custody := (if handingBack then handed_back else rr_custody r),
       rr_custodyReturnedAt := (if handingBack then Some (c_now c) else None), rr_decidedById := c_userId c,
       rr_decidedAt := Some (c_now c), rr_decisionReason := Some reason\<rparr>"

definition reject_tx :: "ctx \<Rightarrow> id \<Rightarrow> RejectReturnDto \<Rightarrow> books \<Rightarrow> return_error + books" where
  "reject_tx c i dto b =
     bindE (requireBranchId c) (\<lambda>branch.
     bindE (load c branch i b) (\<lambda>ld.
     let r = ld_request ld; reason = js_trim (rjr_reason dto); handingBack = (rr_custody r = store_holds)
     in bindE (assertEditable (rr_status r)) (\<lambda>_.
        bindE (assertTransition (rr_status r) return_rejected) (\<lambda>_.
        bindE (require (reason \<noteq> []) (BadRequest ReasonRequired)) (\<lambda>_.
        bindE (guarded_write c i (rjr_expectedVersion dto) (\<lambda>x. rr_status x = rr_status r) (rejected_request c reason handingBack) b) (\<lambda>b1.
        bindE (if handingBack
               then bindE (moveUnitForCustody c (rr_unitId r) returned sold b1) (\<lambda>b2.
                      Inr (record_audit c ''Unit'' (rr_unitId r) ''status_change'' None branch b2))
               else Inr b1) (\<lambda>b3.
          Inr (tell c i branch (rr_requestedById r) ev_return_rejected
                 (record_audit c ''ReturnRequest'' i ''update'' (Some reason) branch b3)))))))))"

definition reject :: "ctx \<Rightarrow> id \<Rightarrow> RejectReturnDto \<Rightarrow> books \<Rightarrow> (return_error + ReturnDetail) \<times> books" where
  "reject c i dto b = answer c i b (reject_tx c i dto b)"

end
