(* ===== verification/Refunds.thy ===== *)
theory Refunds
  imports Returns
begin

text \<open>
  Settling the refund of an approved return (\<^verbatim>\<open>src/src/returns/returns.service.ts\<close>, second half):
  the report, its correction before confirmation, the confirmation, the receipt, the summary
  of what is owed and paid, and the list of returns.
\<close>

section \<open>Reporting\<close>

text \<open>The account must belong to the company and be active.\<close>

definition active_account :: "ctx \<Rightarrow> id option \<Rightarrow> books \<Rightarrow> return_error + (id \<times> string) option" where
  "active_account c accountId b =
     (case accountId of
        None \<Rightarrow> Inr None
      | Some a \<Rightarrow>
          (case map_of (bk_accounts b) a of
             None \<Rightarrow> Inl (NotFound AccountNotFound)
           | Some r \<Rightarrow> if ac_companyId r = c_companyId c \<and> ac_isActive r then Inr (Some (a, ac_label r))
                       else Inl (NotFound AccountNotFound)))"

definition report_print :: "(string \<Rightarrow> string) \<Rightarrow> id \<Rightarrow> ReportRefundDto \<Rightarrow> string" where
  "report_print sha256 i dto =
     fingerprintPayout sha256 i (rpr_method dto) (rpr_receivingAccountId dto) (rpr_reportedAmount dto)
       (rpr_transactionReference dto) (rpr_note dto)"

definition new_payout ::
  "(string \<Rightarrow> string) \<Rightarrow> ctx \<Rightarrow> id \<Rightarrow> id \<Rightarrow> id \<times> reversal \<Rightarrow> ReportRefundDto \<Rightarrow> (id \<times> string) option \<Rightarrow> payout" where
  "new_payout sha256 c branch i rv dto acc =
     \<lparr>po_companyId = c_companyId c, po_branchId = branch, po_returnRequestId = i, po_returnReversalId = fst rv,
      po_status = reported_pending_confirmation, po_netAmountDue = rv_netRefundDue (snd rv),
      po_reportedAmount = rpr_reportedAmount dto, po_method = rpr_method dto, po_receivingAccountId = map_option fst acc,
      po_accountLabelSnapshot = map_option snd acc, po_transactionReference = trim_or_null (rpr_transactionReference dto),
      po_note = trim_or_null (rpr_note dto), po_reportedById = c_userId c, po_confirmedById = None, po_confirmedAt = None,
      po_confirmationDate = None, po_clientUuid = rpr_clientUuid dto, po_clientRequestHash = report_print sha256 i dto,
      po_correctedById = None, po_version = 0\<rparr>"

text \<open>The unique keys on the request and the reversal of a payout that is not corrected.\<close>

definition live_payout_exists :: "payout \<Rightarrow> books \<Rightarrow> bool" where
  "live_payout_exists p b \<longleftrightarrow>
     list_ex (\<lambda>(_, q). po_correctedById q = None \<and>
         (po_returnRequestId q = po_returnRequestId p \<or> po_returnReversalId q = po_returnReversalId p)) (bk_payouts b)"

definition report_checks :: "id \<Rightarrow> Loaded \<Rightarrow> ReportRefundDto \<Rightarrow> books \<Rightarrow> return_error + id \<times> reversal" where
  "report_checks i ld dto b =
     bindE (assertReportable (rr_status (ld_request ld)) (reversal_of i b \<noteq> None)) (\<lambda>_.
     case reversal_of i b of
       None \<Rightarrow> Inl (Conflict MissingReversal)
     | Some rv \<Rightarrow>
         bindE (assertWorthSettling (rv_netRefundDue (snd rv))) (\<lambda>_.
         bindE (assertAmountMatchesDue (rpr_reportedAmount dto) (rv_netRefundDue (snd rv))) (\<lambda>_.
         bindE (assertMethodAndAccount (rpr_method dto) (rpr_receivingAccountId dto)) (\<lambda>_. Inr rv))))"

definition report_write ::
  "(string \<Rightarrow> string) \<Rightarrow> ctx \<Rightarrow> id \<Rightarrow> id \<Rightarrow> id \<Rightarrow> Loaded \<Rightarrow> id \<times> reversal \<Rightarrow> ReportRefundDto \<Rightarrow> books \<Rightarrow> return_error + books" where
  "report_write sha256 c branch newId i ld rv dto b =
     bindE (active_account c (rpr_receivingAccountId dto) b) (\<lambda>acc.
     let p = new_payout sha256 c branch i rv dto acc
     in if live_payout_exists p b then Inl (Conflict AlreadyReported)
        else Inr (tell c i branch (rr_requestedById (ld_request ld)) ev_refund_reported
                    (record_audit c ''RefundPayout'' newId ''create'' None branch
                      (b\<lparr>bk_payouts := t_insert newId p (bk_payouts b)\<rparr>))))"

definition reportRefund_tx ::
  "(string \<Rightarrow> string) \<Rightarrow> ctx \<Rightarrow> id \<Rightarrow> id \<Rightarrow> ReportRefundDto \<Rightarrow> books \<Rightarrow> return_error + books" where
  "reportRefund_tx sha256 c newId i dto b =
     bindE (requireBranchId c) (\<lambda>branch.
     bindE (load c branch i b) (\<lambda>ld.
     bindE (report_checks i ld dto b) (\<lambda>rv.
     case find (\<lambda>(_, p). po_companyId p = c_companyId c \<and> po_clientUuid p = rpr_clientUuid dto) (bk_payouts b) of
       Some (_, p) \<Rightarrow>
         if po_clientRequestHash p \<noteq> report_print sha256 i dto then Inl (Conflict IdempotencyConflict) else Inr b
     | None \<Rightarrow> report_write sha256 c branch newId i ld rv dto b)))"

definition reportRefund ::
  "(string \<Rightarrow> string) \<Rightarrow> ctx \<Rightarrow> id \<Rightarrow> id \<Rightarrow> ReportRefundDto \<Rightarrow> books \<Rightarrow> (return_error + ReturnDetail) \<times> books" where
  "reportRefund sha256 c newId i dto b = answer c i b (reportRefund_tx sha256 c newId i dto b)"

section \<open>Correcting a report\<close>

definition guarded_payout ::
  "ctx \<Rightarrow> id \<Rightarrow> nat \<Rightarrow> (payout \<Rightarrow> payout) \<Rightarrow> books \<Rightarrow> return_error + books" where
  "guarded_payout c k expected f b =
     (case t_update_where k (\<lambda>p. po_companyId p = c_companyId c \<and> po_version p = expected \<and>
                                po_status p = reported_pending_confirmation)
             (\<lambda>p. (f p)\<lparr>po_version := Suc (po_version p)\<rparr>) (bk_payouts b) of
        (moved, ps) \<Rightarrow> if moved = 0 then Inl (Conflict RefreshRequired) else Inr (b\<lparr>bk_payouts := ps\<rparr>))"

definition corrected_report :: "CorrectRefundDto \<Rightarrow> Method \<Rightarrow> (id \<times> string) option \<Rightarrow> payout \<Rightarrow> payout" where
  "corrected_report dto m acc p =
     p\<lparr>po_method := m, po_receivingAccountId := (if m = cash then None else map_option fst acc),
       po_accountLabelSnapshot := (if m = cash then None else map_option snd acc),
       po_transactionReference := (case cor_transactionReference dto of None \<Rightarrow> po_transactionReference p | Some _ \<Rightarrow> trim_or_null (cor_transactionReference dto)),
       po_note := (case cor_note dto of None \<Rightarrow> po_note p | Some _ \<Rightarrow> trim_or_null (cor_note dto))\<rparr>"

definition correctRefund_tx :: "ctx \<Rightarrow> id \<Rightarrow> CorrectRefundDto \<Rightarrow> books \<Rightarrow> return_error + books" where
  "correctRefund_tx c i dto b =
     bindE (requireBranchId c) (\<lambda>branch.
     bindE (load c branch i b) (\<lambda>ld.
     case payout_of i b of
       None \<Rightarrow> Inl (NotFound RefundNotFound)
     | Some (k, p) \<Rightarrow>
         let m = (case cor_method dto of None \<Rightarrow> po_method p | Some x \<Rightarrow> x);
             accountId = (case cor_receivingAccountId dto of Some a \<Rightarrow> Some a | None \<Rightarrow> po_receivingAccountId p)
         in bindE (assertCorrectable (po_status p)) (\<lambda>_.
            bindE (assertMethodAndAccount m (if m = cash then None else accountId)) (\<lambda>_.
            bindE (if m = account then active_account c accountId b else Inr None) (\<lambda>acc.
            bindE (guarded_payout c k (cor_expectedVersion dto) (corrected_report dto m acc) b) (\<lambda>b1.
              Inr (tell c i branch (po_reportedById p) ev_refund_corrected
                     (record_audit c ''RefundPayout'' k ''update'' None branch b1))))))))"

definition correctRefund :: "ctx \<Rightarrow> id \<Rightarrow> CorrectRefundDto \<Rightarrow> books \<Rightarrow> (return_error + ReturnDetail) \<times> books" where
  "correctRefund c i dto b = answer c i b (correctRefund_tx c i dto b)"

section \<open>Confirming\<close>

definition confirmed_payout :: "ctx \<Rightarrow> books \<Rightarrow> payout \<Rightarrow> payout" where
  "confirmed_payout c b p =
     p\<lparr>po_status := payout_confirmed, po_confirmedById := c_userId c, po_confirmedAt := Some (c_now c),
       po_confirmationDate := Some (dayKey (c_now c)), po_accountLabelSnapshot := account_label b p\<rparr>"

definition confirmRefund_tx :: "ctx \<Rightarrow> id \<Rightarrow> nat \<Rightarrow> books \<Rightarrow> return_error + books" where
  "confirmRefund_tx c i expected b =
     bindE (requireBranchId c) (\<lambda>branch.
     bindE (load c branch i b) (\<lambda>ld.
     case payout_of i b of
       None \<Rightarrow> Inl (NotFound RefundNotFound)
     | Some (k, p) \<Rightarrow>
         if po_status p = payout_confirmed then Inr b
         else
           bindE (require (\<not> day_closed c branch (dayKey (c_now c)) b) (Conflict (DayAlreadyClosed (dayKey (c_now c))))) (\<lambda>_.
           bindE (guarded_payout c k expected (confirmed_payout c b) b) (\<lambda>b1.
             Inr (recomputeDaily (c_companyId c) branch (dayKey (c_now c)) (c_now c)
                    (tell c i branch (po_reportedById p) ev_refund_confirmed
                      (record_audit c ''RefundPayout'' k ''update'' None branch b1)))))))"

definition confirmRefund :: "ctx \<Rightarrow> id \<Rightarrow> nat \<Rightarrow> books \<Rightarrow> (return_error + ReturnDetail) \<times> books" where
  "confirmRefund c i expected b = answer c i b (confirmRefund_tx c i expected b)"

section \<open>Receipt\<close>

record RefundReceipt =
  rt_reference :: string
  rt_originalInvoiceNo :: string
  rt_confirmedAt :: "nat option"
  rt_product :: string
  rt_identifier :: "string option"
  rt_grossRefund :: number
  rt_adjustments :: "(string \<times> int \<times> number) list"
  rt_netAmountReturned :: number
  rt_method :: Method
  rt_accountLabel :: "string option"
  rt_transactionReference :: "string option"
  rt_reportedBy :: "string option"
  rt_confirmedBy :: "string option"
  rt_correctedAt :: "nat option"

definition refundReceipt :: "ctx \<Rightarrow> id \<Rightarrow> books \<Rightarrow> return_error + RefundReceipt" where
  "refundReceipt c i b =
     bindE (requireBranchId c) (\<lambda>branch.
     bindE (load c branch i b) (\<lambda>ld.
     case find (\<lambda>(_, p). po_returnRequestId p = i \<and> po_status p = payout_confirmed) (bk_payouts b) of
       None \<Rightarrow> Inl (Conflict NotConfirmed)
     | Some (k, p) \<Rightarrow>
         let corrected = find (\<lambda>(_, f). fc_targetRefundPayoutId f = Some k \<and> fc_status f = fc_approved) (bk_corrections b)
         in Inr \<lparr>rt_reference = ''R-'' @ sa_invoiceNo (ld_sale ld) @ ''-'' @ js_upper (take 8 (binToUuid i)),
                 rt_originalInvoiceNo = sa_invoiceNo (ld_sale ld), rt_confirmedAt = po_confirmedAt p,
                 rt_product = product_of_unit b (ld_unit ld),
                 rt_identifier = (case u_imeiPrimary (ld_unit ld) of Some x \<Rightarrow> Some x | None \<Rightarrow> u_serialNo (ld_unit ld)),
                 rt_grossRefund = (case reversal_of i b of None \<Rightarrow> 0 | Some (_, v) \<Rightarrow> rv_grossRefund v),
                 rt_adjustments = map (\<lambda>(_, a). (aj_label a, aj_quantity a, aj_totalAmount a)) (sort_key fst (adjustments_of i b)),
                 rt_netAmountReturned = po_reportedAmount p, rt_method = po_method p, rt_accountLabel = po_accountLabelSnapshot p,
                 rt_transactionReference = po_transactionReference p, rt_reportedBy = user_name b (po_reportedById p),
                 rt_confirmedBy = user_name b (po_confirmedById p),
                 rt_correctedAt = Option.bind corrected (\<lambda>(_, f). fc_correctionDate f)\<rparr>))"

section \<open>Summary\<close>

record RefundSummary =
  rs_approvedCount :: nat
  rs_grossRefund :: number
  rs_adjustments :: number
  rs_cogsCredited :: number
  rs_profitEffect :: number
  rs_outstandingCount :: nat
  rs_outstandingAmount :: number
  rs_awaitingCount :: nat
  rs_awaitingAmount :: number
  rs_confirmedCount :: nat
  rs_confirmedTotal :: number
  rs_confirmedCash :: number
  rs_byAccount :: "(string \<times> number \<times> nat) list"

definition summary_range :: "date_text option \<Rightarrow> date_text option \<Rightarrow> range_error + nat \<times> nat" where
  "summary_range a z =
     bindE (parseDateRange a z) (\<lambda>(g, l).
       Inr (case g of None \<Rightarrow> 0 | Some x \<Rightarrow> x, case l of None \<Rightarrow> 32472144000000 | Some x \<Rightarrow> x))"

text \<open>A date column compared with an instant is its midnight.\<close>

definition date_within :: "nat \<times> nat \<Rightarrow> nat \<Rightarrow> bool" where
  "date_within r day \<longleftrightarrow> fst r \<le> day * 86400000 \<and> day * 86400000 < snd r"

definition branch_reversals :: "id \<Rightarrow> id \<Rightarrow> books \<Rightarrow> (id \<times> reversal) list" where
  "branch_reversals co branch b = filter (\<lambda>(_, v). rv_companyId v = co \<and> rv_branchId v = branch) (bk_reversals b)"

text \<open>The left join: a reversal without a confirmed payout that no approved correction undid.\<close>

definition settled :: "books \<Rightarrow> id \<Rightarrow> bool" where
  "settled b rv \<longleftrightarrow>
     list_ex (\<lambda>(k, p). po_returnReversalId p = rv \<and> po_status p = payout_confirmed \<and> payoutNotCorrected k b) (bk_payouts b)"

definition outstanding_reversals :: "id \<Rightarrow> id \<Rightarrow> books \<Rightarrow> reversal list" where
  "outstanding_reversals co branch b = map snd (filter (\<lambda>(k, _). \<not> settled b k) (branch_reversals co branch b))"

definition branch_payouts :: "id \<Rightarrow> id \<Rightarrow> PayoutStatus \<Rightarrow> books \<Rightarrow> payout list" where
  "branch_payouts co branch s b = rows_where (\<lambda>p. po_companyId p = co \<and> po_branchId p = branch \<and> po_status p = s) (bk_payouts b)"

definition confirmed_within :: "nat \<times> nat \<Rightarrow> payout \<Rightarrow> bool" where
  "confirmed_within r p \<longleftrightarrow> (case po_confirmationDate p of None \<Rightarrow> False | Some d \<Rightarrow> date_within r d)"

definition by_account :: "payout list \<Rightarrow> (string \<times> number \<times> nat) list" where
  "by_account ps =
     (let rows = filter (\<lambda>p. po_method p = account) ps
      in map (\<lambda>(g, s). (case g of None \<Rightarrow> ''Unnamed account'' | Some l \<Rightarrow> l, s,
                        length (filter (\<lambda>p. po_accountLabelSnapshot p = g) rows)))
           (group_sum po_accountLabelSnapshot po_reportedAmount rows))"

definition summary_of :: "id \<Rightarrow> id \<Rightarrow> nat \<times> nat \<Rightarrow> books \<Rightarrow> RefundSummary" where
  "summary_of co branch r b =
     (let revs = filter (\<lambda>v. date_within r (rv_approvalDate v)) (map snd (branch_reversals co branch b));
          gross = sum_of rv_grossRefund revs;
          adjustments = sum_of rv_adjustmentTotal revs;
          cogs = sum_of rv_lineCost revs;
          out = outstanding_reversals co branch b;
          waiting = branch_payouts co branch reported_pending_confirmation b;
          done = filter (confirmed_within r) (branch_payouts co branch payout_confirmed b)
      in \<lparr>rs_approvedCount = length revs, rs_grossRefund = gross, rs_adjustments = adjustments, rs_cogsCredited = cogs,
          rs_profitEffect = plain_round2 (gross - adjustments - cogs), rs_outstandingCount = length out,
          rs_outstandingAmount = sum_of rv_netRefundDue out, rs_awaitingCount = length waiting,
          rs_awaitingAmount = sum_of po_reportedAmount waiting, rs_confirmedCount = length done,
          rs_confirmedTotal = sum_of po_reportedAmount done,
          rs_confirmedCash = sum_of po_reportedAmount (filter (\<lambda>p. po_method p = cash) done), rs_byAccount = by_account done\<rparr>)"

definition refundSummary :: "ctx \<Rightarrow> date_text option \<Rightarrow> date_text option \<Rightarrow> books \<Rightarrow> return_error + RefundSummary" where
  "refundSummary c a z b =
     bindE (requireBranchId c) (\<lambda>branch.
     case summary_range a z of
       Inl _ \<Rightarrow> Inl (BadRequest BadRange)
     | Inr r \<Rightarrow> Inr (summary_of (c_companyId c) branch r b))"

section \<open>List\<close>

definition status_text :: "ReturnStatus \<Rightarrow> string" where
  "status_text s =
     (case s of ReturnStatus.pending_investigation \<Rightarrow> ''pending_investigation'' | under_review \<Rightarrow> ''under_review''
              | approved_refund_due \<Rightarrow> ''approved_refund_due'' | return_rejected \<Rightarrow> ''rejected'')"

definition RETURN_STATUSES :: "string list" where
  "RETURN_STATUSES = map status_text [ReturnStatus.pending_investigation, under_review, approved_refund_due, return_rejected]"

definition responsibility_text :: "ReturnResponsibility \<Rightarrow> string" where
  "responsibility_text s =
     (case s of not_decided \<Rightarrow> ''pending_investigation'' | store_or_product_fault \<Rightarrow> ''store_or_product_fault''
              | customer_damage \<Rightarrow> ''customer_damage'' | other_responsibility \<Rightarrow> ''other'')"

definition RESPONSIBILITIES :: "string list" where
  "RESPONSIBILITIES = map responsibility_text [not_decided, store_or_product_fault, customer_damage, other_responsibility]"

datatype eligibility_filter = eligible | ineligible

record ListReturnsDto =
  lr_status :: "string option"
  lr_responsibility :: "string option"
  lr_eligibility :: "eligibility_filter option"
  lr_requestedBy :: "id option"
  lr_from :: "date_text option"
  lr_to :: "date_text option"
  lr_search :: "string option"
  lr_cursor :: "id option"
  lr_limit :: "int option"

text \<open>\<^verbatim>\<open>contains\<close> is the comparison of the database's collation.\<close>

definition searchWhere :: "(string \<Rightarrow> string \<Rightarrow> bool) \<Rightarrow> string option \<Rightarrow> books \<Rightarrow> Loaded \<Rightarrow> bool" where
  "searchWhere contains search b ld =
     (blank search \<or>
      (let q = js_trim (or_empty search); u = ld_unit ld; p = map_of (bk_products b) (u_productId u);
           hit = (\<lambda>s. case s of None \<Rightarrow> False | Some t \<Rightarrow> contains t q)
       in contains (sa_invoiceNo (ld_sale ld)) q \<or> hit (u_imeiPrimary u) \<or> hit (u_imeiSecondary u) \<or> hit (u_serialNo u) \<or>
          hit (map_option pr_brand p) \<or> hit (map_option pr_model p) \<or> hit (Option.bind p pr_variant) \<or>
          hit (user_name b (rr_requestedById (ld_request ld))) \<or> contains (rr_requestReason (ld_request ld)) q))"

definition list_filter ::
  "(string \<Rightarrow> string \<Rightarrow> bool) \<Rightarrow> string list \<Rightarrow> string list \<Rightarrow> nat option \<times> nat option \<Rightarrow> ListReturnsDto \<Rightarrow> books \<Rightarrow> Loaded \<Rightarrow> bool" where
  "list_filter contains statuses responsibilities created q b ld =
     (let r = ld_request ld
      in (statuses = [] \<or> status_text (rr_status r) \<in> set statuses) \<and>
         (responsibilities = [] \<or> responsibility_text (rr_responsibility r) \<in> set responsibilities) \<and>
         (case lr_eligibility q of None \<Rightarrow> True | Some e \<Rightarrow> rr_requiresException r = (e = ineligible)) \<and>
         (case lr_requestedBy q of None \<Rightarrow> True | Some u \<Rightarrow> rr_requestedById r = Some u) \<and>
         in_range created (rr_createdAt r) \<and> searchWhere contains (lr_search q) b ld)"

definition list_returns ::
  "(string \<Rightarrow> string \<Rightarrow> bool) \<Rightarrow> ctx \<Rightarrow> ListReturnsDto \<Rightarrow> books \<Rightarrow> return_error + (id \<times> Loaded \<times> ReturnMoney) list \<times> id option" where
  "list_returns contains c q b =
     bindE (requireBranchId c) (\<lambda>branch.
     case (parseEnumList (lr_status q) RETURN_STATUSES, parseEnumList (lr_responsibility q) RESPONSIBILITIES,
           parseDateRange (lr_from q) (lr_to q)) of
       (Inr statuses, Inr responsibilities, Inr created) \<Rightarrow>
         let limit = nat (min (max (case lr_limit q of None \<Rightarrow> 20 | Some k \<Rightarrow> k) 1) 50);
             found = [(i, ld) . (i, _) \<leftarrow> bk_returns b, ld \<leftarrow> (case load c branch i b of Inl _ \<Rightarrow> [] | Inr x \<Rightarrow> [x]),
                      list_filter contains statuses responsibilities created q b ld];
             newest = rev (sort_key fst found);
             rows = take (limit + 1)
               (case lr_cursor q of
                  None \<Rightarrow> newest
                | Some k \<Rightarrow> if map_of (bk_returns b) k = None then [] else drop 1 (filter (\<lambda>(i, _). i \<le> k) newest));
             page = take limit rows
         in Inr (map (\<lambda>(i, ld). (i, ld, return_money ld (adjustment_amounts i b))) page,
                 if length rows > limit then Some (fst (last page)) else None)
     | _ \<Rightarrow> Inl (BadRequest BadRange))"

end
