(* ===== verification/Sales.thy ===== *)
theory Sales
  imports SalePolicy
begin

text \<open>
  Selling (\<^verbatim>\<open>src/src/sales/sales.service.ts\<close>): the sale transaction with its claims on units and
  stock, the replay of a retry, and the read of one sale. The recomputation that the event
  after a sale puts on the queue is returned as a job.
\<close>

section \<open>Requests\<close>

record SaleLineDto =
  sli_identifier :: "string option"
  sli_productId :: "id option"
  sli_quantity :: "nat option"
  sli_price :: "number option"
  sli_discount :: "number option"

record PaymentInputDto =
  pin_method :: PaymentMethod
  pin_amount :: number
  pin_receivingAccountId :: "id option"

record CreateSaleDto =
  csl_lines :: "SaleLineDto list"
  csl_payments :: "PaymentInputDto list"
  csl_customerId :: "id option"
  csl_saleDiscount :: "number option"
  csl_overrideReason :: "string option"
  csl_returnWindowHours :: "int option"
  csl_returnPolicyReason :: "string option"
  csl_clientUuid :: "id option"

record PreparedLine =
  pl_unitId :: "id option"
  pl_productId :: id
  pl_quantity :: nat
  pl_price :: number
  pl_discount :: number
  pl_cost :: number

text \<open>The identifiers drawn for the rows of one sale.\<close>

record sale_ids =
  sid_sale :: id
  sid_items :: "nat \<Rightarrow> id"
  sid_payments :: "nat \<Rightarrow> id"

section \<open>Preparing the lines\<close>

definition present :: "string option \<Rightarrow> bool" where
  "present s \<longleftrightarrow> s \<noteq> None \<and> s \<noteq> Some []"

definition one_kind :: "SaleLineDto \<Rightarrow> bool" where
  "one_kind l \<longleftrightarrow> present (sli_identifier l) \<noteq> (sli_productId l \<noteq> None)"

definition answers_to :: "string \<Rightarrow> unit_row \<Rightarrow> bool" where
  "answers_to i u \<longleftrightarrow> u_imeiPrimary u = Some i \<or> u_imeiSecondary u = Some i \<or> u_serialNo u = Some i"

definition default_of :: "id \<Rightarrow> books \<Rightarrow> number option" where
  "default_of pid b = Option.bind (map_of (bk_products b) pid) pr_defaultPrice"

definition prepare_unit :: "ctx \<Rightarrow> id \<Rightarrow> string \<Rightarrow> SaleLineDto \<Rightarrow> books \<Rightarrow> sale_error + PreparedLine" where
  "prepare_unit c branch ident l b =
     (case find (\<lambda>(_, u). u_companyId u = c_companyId c \<and> answers_to ident u) (bk_units b) of
        None \<Rightarrow> Inl (NotFound (UnitNotFound ident))
      | Some (uid, u) \<Rightarrow>
          bindE (assertSellable u branch) (\<lambda>_.
          bindE (resolvePrice (sli_price l)
                   (rp_price (resolveForSaleTx_unit (c_companyId c) uid (u_productId u) (u_branchId u)
                                (default_of (u_productId u) b) branch b))) (\<lambda>price.
            Inr \<lparr>pl_unitId = Some uid, pl_productId = u_productId u, pl_quantity = 1, pl_price = price,
                 pl_discount = (case sli_discount l of None \<Rightarrow> 0 | Some d \<Rightarrow> d), pl_cost = u_cost u\<rparr>)))"

definition prepare_stock :: "ctx \<Rightarrow> id \<Rightarrow> id \<Rightarrow> SaleLineDto \<Rightarrow> books \<Rightarrow> sale_error + PreparedLine" where
  "prepare_stock c branch productId l b =
     (let quantity = (case sli_quantity l of None \<Rightarrow> 1 | Some q \<Rightarrow> q)
      in case map_of (bk_stock b) (c_companyId c, productId, branch) of
           None \<Rightarrow> Inl (Conflict (OnlyAvailable 0))
         | Some r \<Rightarrow>
             let available = si_quantity r - si_reservedQuantity r
             in if available < int quantity then Inl (Conflict (OnlyAvailable (max available 0)))
                else
                  bindE (resolvePrice (sli_price l)
                           (rp_price (resolveForSaleTx_quantity
                              (map_option (\<lambda>p. \<lparr>cr_price = p, cr_version = si_version r\<rparr>) (si_price r)) (default_of productId b)))) (\<lambda>price.
                    Inr \<lparr>pl_unitId = None, pl_productId = productId, pl_quantity = quantity, pl_price = price,
                         pl_discount = (case sli_discount l of None \<Rightarrow> 0 | Some d \<Rightarrow> d), pl_cost = si_cost r\<rparr>))"

text \<open>A line that names an identifier is a unit; the check before the transaction made the two kinds exclusive.\<close>

definition prepare_line :: "ctx \<Rightarrow> id \<Rightarrow> SaleLineDto \<Rightarrow> books \<Rightarrow> sale_error + PreparedLine" where
  "prepare_line c branch l b =
     (if present (sli_identifier l) then prepare_unit c branch (the (sli_identifier l)) l b
      else (case sli_productId l of
              None \<Rightarrow> Inl (BadRequest LineNotOneKind)
            | Some p \<Rightarrow> prepare_stock c branch p l b))"

fun prepare_lines :: "ctx \<Rightarrow> id \<Rightarrow> SaleLineDto list \<Rightarrow> books \<Rightarrow> sale_error + PreparedLine list" where
  "prepare_lines c branch [] b = Inr []"
| "prepare_lines c branch (l # ls) b =
     bindE (prepare_line c branch l b) (\<lambda>p. bindE (prepare_lines c branch ls b) (\<lambda>ps. Inr (p # ps)))"

section \<open>Totals\<close>

record SaleTotals =
  tot_subtotal :: number
  tot_discount :: number
  tot_total :: number
  tot_totalCost :: number
  tot_margin :: number

definition sale_totals :: "PreparedLine list \<Rightarrow> number option \<Rightarrow> SaleTotals" where
  "sale_totals ps saleDiscount =
     (let subtotal = round2 (sum_of (\<lambda>p. pl_price p * of_nat (pl_quantity p)) ps);
          discountTotal = round2 (sum_of pl_discount ps + (case saleDiscount of None \<Rightarrow> 0 | Some d \<Rightarrow> d));
          tot = round2 (subtotal - discountTotal);
          totalCost = round2 (sum_of (\<lambda>p. pl_cost p * of_nat (pl_quantity p)) ps)
      in \<lparr>tot_subtotal = subtotal, tot_discount = discountTotal, tot_total = tot, tot_totalCost = totalCost,
          tot_margin = round2 (tot - totalCost)\<rparr>)"

text \<open>What is decided before the first write of the transaction.\<close>

record SalePlan =
  pn_lines :: "PreparedLine list"
  pn_totals :: SaleTotals
  pn_payment :: PaymentReconciliation
  pn_window :: ResolvedWindow
  pn_policy :: ReturnPolicySnapshot

definition sale_plan :: "ctx \<Rightarrow> id \<Rightarrow> CreateSaleDto \<Rightarrow> books \<Rightarrow> sale_error + SalePlan" where
  "sale_plan c branch dto b =
     bindE (prepare_lines c branch (csl_lines dto) b) (\<lambda>ps.
     let t = sale_totals ps (csl_saleDiscount dto)
     in bindE (require (tot_total t \<ge> 0) (BadRequest DiscountExceedsSubtotal)) (\<lambda>_.
        bindE (assertBelowCostAllowed (tot_margin t) (has_permission c ''discount.override'') (csl_overrideReason dto)) (\<lambda>_.
        bindE (reconcilePayments (map pin_amount (csl_payments dto)) (tot_total t)) (\<lambda>r.
        bindE (assertCreditHasCustomer (pc_payStatus r) (csl_customerId dto)) (\<lambda>_.
        bindE (resolveWindowForSale (case map_of (bk_windows b) (c_companyId c) of None \<Rightarrow> NO_RETURNS | Some h \<Rightarrow> h)
                 (map_option (\<lambda>h. (h, csl_returnPolicyReason dto)) (csl_returnWindowHours dto))
                 (has_permission c ''return.policy.override'')) (\<lambda>w.
        bindE (snapshotPolicy (c_now c) (rw_windowHours w)) (\<lambda>s.
          Inr \<lparr>pn_lines = ps, pn_totals = t, pn_payment = r, pn_window = w, pn_policy = s\<rparr>)))))))"

section \<open>The writes\<close>

definition new_sale :: "ctx \<Rightarrow> id \<Rightarrow> string \<Rightarrow> CreateSaleDto \<Rightarrow> SalePlan \<Rightarrow> sale_row" where
  "new_sale c branch invoiceNo dto pn =
     \<lparr>sa_companyId = c_companyId c, sa_branchId = branch, sa_userId = (case c_userId c of None \<Rightarrow> 0 | Some u \<Rightarrow> u),
      sa_customerId = csl_customerId dto, sa_invoiceNo = invoiceNo, sa_soldAt = c_now c,
      sa_subtotal = tot_subtotal (pn_totals pn), sa_discount = tot_discount (pn_totals pn), sa_total = tot_total (pn_totals pn),
      sa_totalCost = tot_totalCost (pn_totals pn), sa_margin = tot_margin (pn_totals pn),
      sa_amountPaid = pc_amountPaid (pn_payment pn), sa_balanceDue = pc_balanceDue (pn_payment pn),
      sa_payStatus = pc_payStatus (pn_payment pn), sa_isReversed = False,
      sa_returnWindowHours = ps_windowHours (pn_policy pn), sa_returnDeadlineAt = ps_deadlineAt (pn_policy pn),
      sa_returnPolicyOverriddenById = (if rw_overridden (pn_window pn) then c_userId c else None),
      sa_returnPolicyOverrideReason = rw_overrideReason (pn_window pn), sa_clientUuid = csl_clientUuid dto\<rparr>"

definition new_item :: "ctx \<Rightarrow> id \<Rightarrow> PreparedLine \<Rightarrow> sale_item" where
  "new_item c saleId p =
     \<lparr>it_companyId = c_companyId c, it_saleId = saleId, it_unitId = pl_unitId p,
      it_productId = (if pl_unitId p = None then Some (pl_productId p) else None), it_quantity = pl_quantity p,
      it_price = pl_price p, it_cost = pl_cost p, it_discount = pl_discount p, it_voided = False\<rparr>"

text \<open>The generated column \<^verbatim>\<open>active_unit_id\<close> with its unique key: a unit on a line that is not voided.\<close>

definition unit_on_line :: "id \<Rightarrow> books \<Rightarrow> bool" where
  "unit_on_line u b \<longleftrightarrow> list_ex (\<lambda>(_, i). it_unitId i = Some u \<and> \<not> it_voided i) (bk_items b)"

definition sold_row :: "ctx \<Rightarrow> unit_row \<Rightarrow> unit_row" where
  "sold_row c u = u\<lparr>u_status := sold, u_dateSold := Some (c_now c)\<rparr>"

definition write_line :: "ctx \<Rightarrow> id \<Rightarrow> id \<Rightarrow> id \<Rightarrow> PreparedLine \<Rightarrow> books \<Rightarrow> sale_error + books" where
  "write_line c branch saleId itemId p b =
     (let b1 = b\<lparr>bk_items := t_insert itemId (new_item c saleId p) (bk_items b)\<rparr>
      in case pl_unitId p of
           Some u \<Rightarrow>
             if unit_on_line u b then Inl (Conflict JustSold)
             else
               (case t_update_where u (\<lambda>r. u_companyId r = c_companyId c \<and> u_status r = in_stock) (sold_row c) (bk_units b) of
                  (claimed, us) \<Rightarrow>
                    if claimed = 0 then Inl (Conflict TakenMeanwhile)
                    else Inr (b1\<lparr>bk_units := us,
                                 bk_audit := bk_audit b @ [audit_row_of c ''Unit'' u ''status_change'' None (Some branch)]\<rparr>))
         | None \<Rightarrow>
             (case t_update_where (c_companyId c, pl_productId p, branch) (\<lambda>r. si_quantity r \<ge> int (pl_quantity p))
                     (\<lambda>r. r\<lparr>si_quantity := si_quantity r - int (pl_quantity p)\<rparr>) (bk_stock b) of
                (taken, st) \<Rightarrow>
                  if taken = 0 then Inl (Conflict StockTaken)
                  else if (case map_of st (c_companyId c, pl_productId p, branch) of
                             None \<Rightarrow> False | Some r \<Rightarrow> si_quantity r < si_reservedQuantity r)
                  then Inl (Conflict StockReserved)
                  else Inr (b1\<lparr>bk_stock := st\<rparr>)))"

fun write_lines :: "ctx \<Rightarrow> id \<Rightarrow> id \<Rightarrow> (nat \<Rightarrow> id) \<Rightarrow> nat \<Rightarrow> PreparedLine list \<Rightarrow> books \<Rightarrow> sale_error + books" where
  "write_lines c branch saleId ids j [] b = Inr b"
| "write_lines c branch saleId ids j (p # ps) b =
     bindE (write_line c branch saleId (ids j) p b) (write_lines c branch saleId ids (Suc j) ps)"

definition payment_account :: "PaymentInputDto \<Rightarrow> id option" where
  "payment_account pay = (if pin_method pay = pm_cash then None else pin_receivingAccountId pay)"

definition write_payment :: "ctx \<Rightarrow> id \<Rightarrow> id \<Rightarrow> PaymentInputDto \<Rightarrow> books \<Rightarrow> sale_error + books" where
  "write_payment c saleId payId pay b =
     (let row = (\<lambda>label. b\<lparr>bk_payments := t_insert payId
            \<lparr>pm_companyId = c_companyId c, pm_saleId = saleId, pm_method = pin_method pay, pm_amount = pin_amount pay,
             pm_receivingAccountId = payment_account pay, pm_accountLabelSnapshot = label\<rparr> (bk_payments b)\<rparr>)
      in case payment_account pay of
           None \<Rightarrow> Inr (row None)
         | Some a \<Rightarrow>
             (case map_of (bk_accounts b) a of
                None \<Rightarrow> Inl (BadRequest AccountUnknown)
              | Some r \<Rightarrow> if ac_companyId r = c_companyId c then Inr (row (Some (ac_label r))) else Inl (BadRequest AccountUnknown)))"

fun write_payments :: "ctx \<Rightarrow> id \<Rightarrow> (nat \<Rightarrow> id) \<Rightarrow> nat \<Rightarrow> PaymentInputDto list \<Rightarrow> books \<Rightarrow> sale_error + books" where
  "write_payments c saleId ids j [] b = Inr b"
| "write_payments c saleId ids j (p # ps) b =
     bindE (write_payment c saleId (ids j) p b) (write_payments c saleId ids (Suc j) ps)"

text \<open>The foreign key of the sale, and the update that must find the customer in the company.\<close>

definition charge_customer :: "ctx \<Rightarrow> id option \<Rightarrow> number \<Rightarrow> books \<Rightarrow> sale_error + books" where
  "charge_customer c customerId balanceDue b =
     (case customerId of
        None \<Rightarrow> Inr b
      | Some k \<Rightarrow>
          if balanceDue > 0
          then (case map_of (bk_customers b) k of
                  None \<Rightarrow> Inl (NotFound CustomerUnknown)
                | Some r \<Rightarrow> if cu_companyId r = c_companyId c
                            then Inr (b\<lparr>bk_customers := t_update k (\<lambda>x. x\<lparr>cu_balance := cu_balance x + balanceDue\<rparr>) (bk_customers b)\<rparr>)
                            else Inl (NotFound CustomerUnknown))
          else Inr b)"

definition sale_audits :: "ctx \<Rightarrow> id \<Rightarrow> id \<Rightarrow> CreateSaleDto \<Rightarrow> SalePlan \<Rightarrow> audit_row list" where
  "sale_audits c branch saleId dto pn =
     [audit_row_of c ''Sale'' saleId ''create'' None (Some branch)] @
     (if tot_margin (pn_totals pn) < 0
      then [audit_row_of c ''Sale'' saleId ''override'' (csl_overrideReason dto) (Some branch)] else []) @
     (if rw_overridden (pn_window pn)
      then [audit_row_of c ''Sale'' saleId ''override'' (rw_overrideReason (pn_window pn)) (Some branch)] else [])"

definition createSale_tx :: "ctx \<Rightarrow> id \<Rightarrow> sale_ids \<Rightarrow> CreateSaleDto \<Rightarrow> SalePlan \<Rightarrow> books \<Rightarrow> sale_error + books" where
  "createSale_tx c branch ids dto pn b =
     (case next_number branch ''invoice'' (bk_counters b) of
        (n, counters) \<Rightarrow>
          if (case csl_customerId dto of None \<Rightarrow> False | Some k \<Rightarrow> map_of (bk_customers b) k = None)
          then Inl (Conflict CustomerUnknown)
          else
            (let b1 = b\<lparr>bk_counters := counters,
                        bk_sales := t_insert (sid_sale ids) (new_sale c branch (invoice_format n) dto pn) (bk_sales b)\<rparr>
             in bindE (write_lines c branch (sid_sale ids) (sid_items ids) 0 (pn_lines pn) b1) (\<lambda>b2.
                bindE (write_payments c (sid_sale ids) (sid_payments ids) 0 (csl_payments dto) b2) (\<lambda>b3.
                bindE (charge_customer c (csl_customerId dto) (pc_balanceDue (pn_payment pn)) b3) (\<lambda>b4.
                  Inr (b4\<lparr>bk_audit := bk_audit b4 @ sale_audits c branch (sid_sale ids) dto pn,
                          bk_notifications := bk_notifications b4 @
                            [\<lparr>n_companyId = c_companyId c, n_branchId = Some branch, n_targetUserId = None, n_type = ''sale.recorded'',
                              n_dedupeKey = None\<rparr>]\<rparr>))))))"

section \<open>The handler\<close>

record SaleResponse =
  srp_id :: id
  srp_invoiceNo :: string
  srp_total :: number
  srp_margin :: number
  srp_balanceDue :: number
  srp_payStatus :: SalePayStatus
  srp_soldAt :: nat
  srp_windowHours :: int
  srp_deadlineAt :: "nat option"

definition toResponse :: "id \<Rightarrow> sale_row \<Rightarrow> SaleResponse" where
  "toResponse i s =
     \<lparr>srp_id = i, srp_invoiceNo = sa_invoiceNo s, srp_total = sa_total s, srp_margin = sa_margin s, srp_balanceDue = sa_balanceDue s,
      srp_payStatus = sa_payStatus s, srp_soldAt = sa_soldAt s, srp_windowHours = sa_returnWindowHours s,
      srp_deadlineAt = sa_returnDeadlineAt s\<rparr>"

definition earlier_sale :: "ctx \<Rightarrow> CreateSaleDto \<Rightarrow> books \<Rightarrow> (id \<times> sale_row) option" where
  "earlier_sale c dto b =
     (case csl_clientUuid dto of
        None \<Rightarrow> None
      | Some u \<Rightarrow> find (\<lambda>(_, s). sa_companyId s = c_companyId c \<and> sa_clientUuid s = Some u) (bk_sales b))"

definition createSale ::
  "ctx \<Rightarrow> sale_ids \<Rightarrow> CreateSaleDto \<Rightarrow> books \<Rightarrow> (sale_error + SaleResponse) \<times> books \<times> (id \<times> nat) option" where
  "createSale c ids dto b =
     (case c_branchId c of
        None \<Rightarrow> (Inl (BadRequest SaleBranchNeeded), b, None)
      | Some branch \<Rightarrow>
          if c_userId c = None then (Inl (BadRequest NoUser), b, None)
          else
            (case earlier_sale c dto b of
               Some (i, s) \<Rightarrow> (Inr (toResponse i s), b, None)
             | None \<Rightarrow>
                 if \<not> list_all one_kind (csl_lines dto) then (Inl (BadRequest LineNotOneKind), b, None)
                 else
                   (case bindE (sale_plan c branch dto b) (\<lambda>pn. createSale_tx c branch ids dto pn b) of
                      Inl e \<Rightarrow> (Inl e, b, None)
                    | Inr b1 \<Rightarrow>
                        (case map_of (bk_sales b1) (sid_sale ids) of
                           None \<Rightarrow> (Inl (Internal SaleNotFound), b1, None)
                         | Some s \<Rightarrow> (Inr (toResponse (sid_sale ids) s), b1, Some (branch, dayKey (c_now c)))))))"

section \<open>Reading a sale\<close>

definition items_of_sale :: "id \<Rightarrow> books \<Rightarrow> sale_item list" where
  "items_of_sale i b = rows_where (\<lambda>x. it_saleId x = i) (bk_items b)"

text \<open>The rows of the retired table of returns, which no code writes any more, are an argument.\<close>

definition policySummary :: "sale_row \<Rightarrow> sale_item list \<Rightarrow> nat \<Rightarrow> bool \<Rightarrow> ReturnEligibility" where
  "policySummary s live now hasReturn =
     evaluateEligibility (sa_returnWindowHours s) (sa_returnDeadlineAt s) now (sa_isReversed s) hasReturn
       (live \<noteq> [] \<and> list_all (\<lambda>i. it_unitId i = None) live)"

record SaleDetail =
  sde_sale :: sale_row
  sde_lines :: "sale_item list"
  sde_payments :: "payment_row list"
  sde_policy :: ReturnEligibility

definition getById :: "(id \<Rightarrow> bool) \<Rightarrow> ctx \<Rightarrow> id \<Rightarrow> books \<Rightarrow> sale_error + SaleDetail" where
  "getById retired c i b =
     (case c_branchId c of
        None \<Rightarrow> Inl (BadRequest SaleBranchNeeded)
      | Some branch \<Rightarrow>
          (case map_of (bk_sales b) i of
             None \<Rightarrow> Inl (NotFound SaleNotFound)
           | Some s \<Rightarrow>
               if sa_companyId s \<noteq> c_companyId c \<or> sa_branchId s \<noteq> branch then Inl (NotFound SaleNotFound)
               else
                 (let lines = items_of_sale i b
                  in Inr \<lparr>sde_sale = s, sde_lines = lines, sde_payments = rows_where (\<lambda>p. pm_saleId p = i) (bk_payments b),
                          sde_policy = policySummary s (filter (\<lambda>l. \<not> it_voided l) lines) (c_now c) (retired i)\<rparr>)))"

end
