(* ===== verification/ReturnInvariant.thy ===== *)
theory ReturnInvariant
  imports Refunds Sales
begin

text \<open>
  The invariant of returns, reversals, refunds and their corrections, kept by every handler of
  the returns and the corrections service, by a sale, and by what the rest of the program does
  to these tables.
\<close>

section \<open>The invariant\<close>

text \<open>A reversal is the frozen account of an approved request: the line's refund less what is withheld.\<close>

definition rev_ok :: "books \<Rightarrow> reversal \<Rightarrow> bool" where
  "rev_ok b v \<longleftrightarrow>
     (\<exists>r l. map_of (bk_returns b) (rv_returnRequestId v) = Some r \<and> rr_status r = approved_refund_due \<and>
        rr_saleItemId r = rv_saleItemId v \<and> rr_companyId r = rv_companyId v \<and> rr_branchId r = rv_branchId v \<and>
        map_of (bk_items b) (rv_saleItemId v) = Some l \<and> rv_grossRefund v = grossRefundOf l \<and>
        rv_adjustmentTotal v = sum_list (adjustment_amounts (rv_returnRequestId v) b) \<and>
        rv_netRefundDue v = rv_grossRefund v - rv_adjustmentTotal v \<and>
        0 \<le> rv_adjustmentTotal v \<and> rv_adjustmentTotal v \<le> rv_grossRefund v)"

definition live_for :: "id \<Rightarrow> books \<Rightarrow> (id \<times> payout) list" where
  "live_for rv b = filter (\<lambda>(_, p). po_returnReversalId p = rv \<and> po_correctedById p = None) (bk_payouts b)"

definition pay_ok :: "books \<Rightarrow> id \<Rightarrow> payout \<Rightarrow> bool" where
  "pay_ok b k p \<longleftrightarrow>
     (\<exists>v. map_of (bk_reversals b) (po_returnReversalId p) = Some v \<and> rv_returnRequestId v = po_returnRequestId p \<and>
        rv_companyId v = po_companyId p \<and> rv_branchId v = po_branchId p \<and> po_reportedAmount p = rv_netRefundDue v) \<and>
     po_reportedAmount p \<noteq> 0 \<and>
     (po_status p = payout_confirmed \<longrightarrow> payout_of (po_returnRequestId p) b = Some (k, p)) \<and>
     (po_status p = payout_confirmed \<longleftrightarrow> po_confirmationDate p \<noteq> None) \<and>
     (po_correctedById p = None \<longleftrightarrow> payoutNotCorrected k b)"

definition target_ok :: "books \<Rightarrow> correction \<Rightarrow> bool" where
  "target_ok b f \<longleftrightarrow>
     (\<forall>k. fc_targetRefundPayoutId f = Some k \<longrightarrow> (\<exists>p. map_of (bk_payouts b) k = Some p \<and> po_status p = payout_confirmed))"

definition withheld_ok :: "adjustment \<Rightarrow> bool" where
  "withheld_ok a \<longleftrightarrow> is_cents (aj_totalAmount a) \<and> 0 \<le> aj_totalAmount a"

definition tables_wf :: "books \<Rightarrow> bool" where
  "tables_wf b \<longleftrightarrow> t_wf (bk_returns b) \<and> t_wf (bk_reversals b) \<and> t_wf (bk_payouts b) \<and> t_wf (bk_adjustments b) \<and> t_wf (bk_corrections b)"

definition ret_inv :: "books \<Rightarrow> bool" where
  "ret_inv b \<longleftrightarrow>
     tables_wf b \<and>
     (\<forall>k v. map_of (bk_reversals b) k = Some v \<longrightarrow> rev_ok b v) \<and>
     (\<forall>i r. map_of (bk_returns b) i = Some r \<and> rr_status r = approved_refund_due \<longrightarrow> reversal_of i b \<noteq> None) \<and>
     distinct (map (\<lambda>(_, v). rv_saleItemId v) (bk_reversals b)) \<and>
     distinct (map (\<lambda>(_, v). rv_returnRequestId v) (bk_reversals b)) \<and>
     (\<forall>k p. map_of (bk_payouts b) k = Some p \<longrightarrow> pay_ok b k p) \<and>
     (\<forall>rv. length (live_for rv b) \<le> 1) \<and>
     (\<forall>k f. map_of (bk_corrections b) k = Some f \<longrightarrow> target_ok b f) \<and>
     (\<forall>k a. map_of (bk_adjustments b) k = Some a \<longrightarrow> withheld_ok a)"

lemma ret_invD:
  assumes "ret_inv b"
  shows "t_wf (bk_returns b)" "t_wf (bk_reversals b)" "t_wf (bk_payouts b)" "t_wf (bk_adjustments b)" "t_wf (bk_corrections b)"
    "map_of (bk_reversals b) k = Some v \<Longrightarrow> rev_ok b v"
    "map_of (bk_returns b) i = Some r \<Longrightarrow> rr_status r = approved_refund_due \<Longrightarrow> reversal_of i b \<noteq> None"
    "distinct (map (\<lambda>(_, v). rv_saleItemId v) (bk_reversals b))" "distinct (map (\<lambda>(_, v). rv_returnRequestId v) (bk_reversals b))"
    "map_of (bk_payouts b) k = Some p \<Longrightarrow> pay_ok b k p"
    "length (live_for rv b) \<le> 1"
    "map_of (bk_corrections b) k = Some f \<Longrightarrow> target_ok b f"
    "map_of (bk_adjustments b) k = Some a \<Longrightarrow> withheld_ok a"
  using assms unfolding ret_inv_def tables_wf_def by blast+

lemma ret_invI:
  assumes "tables_wf b"
    "\<And>k v. map_of (bk_reversals b) k = Some v \<Longrightarrow> rev_ok b v"
    "\<And>i r. map_of (bk_returns b) i = Some r \<Longrightarrow> rr_status r = approved_refund_due \<Longrightarrow> reversal_of i b \<noteq> None"
    "distinct (map (\<lambda>(_, v). rv_saleItemId v) (bk_reversals b))" "distinct (map (\<lambda>(_, v). rv_returnRequestId v) (bk_reversals b))"
    "\<And>k p. map_of (bk_payouts b) k = Some p \<Longrightarrow> pay_ok b k p"
    "\<And>rv. length (live_for rv b) \<le> 1"
    "\<And>k f. map_of (bk_corrections b) k = Some f \<Longrightarrow> target_ok b f"
    "\<And>k a. map_of (bk_adjustments b) k = Some a \<Longrightarrow> withheld_ok a"
  shows "ret_inv b"
  unfolding ret_inv_def by (intro conjI allI impI; (elim conjE)?) (assumption | rule assms)+

section \<open>What the shared writes change\<close>

lemma tell_frame [simp]:
  "bk_returns (tell c i br u e b) = bk_returns b" "bk_reversals (tell c i br u e b) = bk_reversals b"
  "bk_payouts (tell c i br u e b) = bk_payouts b" "bk_adjustments (tell c i br u e b) = bk_adjustments b"
  "bk_corrections (tell c i br u e b) = bk_corrections b" "bk_items (tell c i br u e b) = bk_items b"
  "bk_units (tell c i br u e b) = bk_units b" "bk_sales (tell c i br u e b) = bk_sales b"
  by (simp_all add: tell_def)

lemma record_audit_frame [simp]:
  "bk_returns (record_audit c t i a w br b) = bk_returns b" "bk_reversals (record_audit c t i a w br b) = bk_reversals b"
  "bk_payouts (record_audit c t i a w br b) = bk_payouts b" "bk_adjustments (record_audit c t i a w br b) = bk_adjustments b"
  "bk_corrections (record_audit c t i a w br b) = bk_corrections b" "bk_items (record_audit c t i a w br b) = bk_items b"
  "bk_units (record_audit c t i a w br b) = bk_units b" "bk_sales (record_audit c t i a w br b) = bk_sales b"
  by (simp_all add: record_audit_def)

lemma recomputeDaily_frame [simp]:
  "bk_returns (recomputeDaily co br d t b) = bk_returns b" "bk_reversals (recomputeDaily co br d t b) = bk_reversals b"
  "bk_payouts (recomputeDaily co br d t b) = bk_payouts b" "bk_adjustments (recomputeDaily co br d t b) = bk_adjustments b"
  "bk_corrections (recomputeDaily co br d t b) = bk_corrections b" "bk_items (recomputeDaily co br d t b) = bk_items b"
  "bk_units (recomputeDaily co br d t b) = bk_units b" "bk_sales (recomputeDaily co br d t b) = bk_sales b"
  by (simp_all add: recomputeDaily_def Let_def)

lemma moveUnit_Inr:
  assumes "moveUnitForCustody c u a z b = Inr b'"
  obtains x where "map_of (bk_units b) u = Some x" "u_companyId x = c_companyId c" "u_status x = a" "Inventory.canTransition a z"
    "b' = b\<lparr>bk_units := t_update u (\<lambda>x. x\<lparr>u_status := z\<rparr>) (bk_units b)\<rparr>"
  using assms by (auto simp: moveUnitForCustody_def t_update_where_def split: if_splits option.splits)

lemma guarded_write_Inr:
  assumes "guarded_write c i n p f b = Inr b'"
  obtains r where "map_of (bk_returns b) i = Some r" "rr_companyId r = c_companyId c" "rr_version r = n" "p r"
    "b' = b\<lparr>bk_returns := t_update i (\<lambda>r. (f r)\<lparr>rr_version := Suc (rr_version r)\<rparr>) (bk_returns b)\<rparr>"
  using assms by (auto simp: guarded_write_def t_update_where_def split: if_splits option.splits)

lemma guarded_payout_Inr:
  assumes "guarded_payout c k n f b = Inr b'"
  obtains p where "map_of (bk_payouts b) k = Some p" "po_companyId p = c_companyId c" "po_version p = n"
    "po_status p = reported_pending_confirmation"
    "b' = b\<lparr>bk_payouts := t_update k (\<lambda>p. (f p)\<lparr>po_version := Suc (po_version p)\<rparr>) (bk_payouts b)\<rparr>"
  using assms by (auto simp: guarded_payout_def t_update_where_def split: if_splits option.splits)

lemma requireBranchId_Inr [simp]: "requireBranchId c = Inr br \<longleftrightarrow> c_branchId c = Some br"
  by (auto simp: requireBranchId_def split: option.splits)

lemma return_load_Inr:
  "Returns.load c br i b = Inr ld \<longleftrightarrow>
     map_of (bk_returns b) i = Some (ld_request ld) \<and> rr_companyId (ld_request ld) = c_companyId c \<and> rr_branchId (ld_request ld) = br \<and>
     map_of (bk_sales b) (rr_saleId (ld_request ld)) = Some (ld_sale ld) \<and>
     map_of (bk_items b) (rr_saleItemId (ld_request ld)) = Some (ld_item ld) \<and>
     map_of (bk_units b) (rr_unitId (ld_request ld)) = Some (ld_unit ld)"
  by (cases ld) (auto simp: Returns.load_def split: option.splits)

lemma assertEditable_Inr [simp]: "assertEditable s = Inr u \<longleftrightarrow> \<not> decided s"
  by (simp add: assertEditable_def)

lemma assertTransition_Inr [simp]: "ReturnRules.assertTransition a z = Inr u \<longleftrightarrow> ReturnRules.canTransition a z"
  by (simp add: ReturnRules.assertTransition_def)

lemma snd_answer: "snd (answer c i b r) = (case r of Inl _ \<Rightarrow> b | Inr b1 \<Rightarrow> b1)"
  by (simp add: answer_def split: sum.splits)

section \<open>What each handler writes\<close>

text \<open>
  Editing a request that is not decided: the rows of reversals, payouts and corrections stay,
  the edited request does not become approved, and only its own charges may change.
\<close>

definition edits :: "id \<Rightarrow> books \<Rightarrow> books \<Rightarrow> bool" where
  "edits i b b' \<longleftrightarrow>
     (\<forall>r. map_of (bk_returns b) i = Some r \<longrightarrow> \<not> decided (rr_status r)) \<and>
     (\<exists>r'. map_of (bk_returns b') i = Some r' \<and> rr_status r' \<noteq> approved_refund_due) \<and>
     (\<forall>j. j \<noteq> i \<longrightarrow> map_of (bk_returns b') j = map_of (bk_returns b) j) \<and> t_wf (bk_returns b') = t_wf (bk_returns b) \<and>
     bk_reversals b' = bk_reversals b \<and> bk_payouts b' = bk_payouts b \<and> bk_corrections b' = bk_corrections b \<and>
     bk_items b' = bk_items b \<and> bk_sales b' = bk_sales b"

lemma open_request_edits:
  assumes "open_request c br n r b = Inr b'" "map_of (bk_returns b) n = None" "rr_status r = ReturnStatus.pending_investigation"
  shows "edits n b b'" "bk_adjustments b' = bk_adjustments b"
  using assms by (auto simp: open_request_def edits_def Let_def decided_def elim!: moveUnit_Inr split: if_splits)

lemma create_tx_edits:
  assumes "create_tx sha256 c br n dto b = Inr b'" "map_of (bk_returns b) n = None"
  shows "edits n b b'" "bk_adjustments b' = bk_adjustments b"
proof -
  from assms(1) obtain r where "open_request c br n r b = Inr b'" "rr_status r = ReturnStatus.pending_investigation"
    by (auto simp: create_tx_def new_request_def Let_def split: option.splits if_splits)
  from open_request_edits [OF this(1) assms(2) this(2)] show "edits n b b'" "bk_adjustments b' = bk_adjustments b" .
qed

lemma receiveCustody_tx_edits:
  assumes "receiveCustody_tx c i dto b = Inr b'"
  shows "b' = b \<or> edits i b b' \<and> bk_adjustments b' = bk_adjustments b"
  using assms by (auto simp: receiveCustody_tx_def return_load_Inr edits_def Let_def decided_def
      elim!: guarded_write_Inr moveUnit_Inr split: if_splits)

lemma investigate_tx_edits:
  assumes "investigate_tx c i dto b = Inr b'"
  shows "edits i b b'" "bk_adjustments b' = bk_adjustments b"
  using assms by (auto simp: investigate_tx_def return_load_Inr edits_def Let_def decided_def investigated_def
      elim!: guarded_write_Inr split: if_splits)

lemma addAdjustment_tx_edits:
  assumes "addAdjustment_tx c n i dto b = Inr b'"
  obtains a where "edits i b b'" "bk_adjustments b' = t_insert n a (bk_adjustments b)" "aj_returnRequestId a = i" "withheld_ok a"
proof -
  from assms obtain ld amt s b1 where *: "Returns.load c (the (c_branchId c)) i b = Inr ld" "\<not> decided (rr_status (ld_request ld))"
    "priceAdjustment dto = Inr amt" "guarded_write c i (adj_expectedVersion dto) (\<lambda>_. True) (\<lambda>r. r) b = Inr b1"
    "b' = record_audit c ''ReturnAdjustment'' n ''create'' None (the (c_branchId c))
              (b1\<lparr>bk_adjustments := t_insert n
                  \<lparr>aj_companyId = rr_companyId (ld_request ld), aj_returnRequestId = i, aj_kind = adj_kind dto,
                   aj_label = js_trim (adj_label dto), aj_quantity = adj_quantity dto, aj_unitAmount = adj_unitAmount dto,
                   aj_totalAmount = amt, aj_createdById = c_userId c\<rparr> (bk_adjustments b1)\<rparr>)"
    by (auto simp: addAdjustment_tx_def)
  from *(4) have b1: "edits i b b1" "bk_adjustments b1 = bk_adjustments b"
    using *(1,2) by (auto simp: edits_def decided_def return_load_Inr elim!: guarded_write_Inr)
  have "0 \<le> amt" "is_cents amt"
  proof -
    from *(3) have "amt = round2 (adj_unitAmount dto * of_int (adj_quantity dto))" "0 \<le> adj_unitAmount dto" "1 \<le> adj_quantity dto"
      by (auto simp: priceAdjustment_def split: if_splits)
    moreover from this have "0 \<le> adj_unitAmount dto * of_int (adj_quantity dto)" by simp
    ultimately show "0 \<le> amt" "is_cents amt" using round2_mono [of 0] by auto
  qed
  with *(5) b1 show ?thesis by (intro that [of "\<lparr>aj_companyId = rr_companyId (ld_request ld), aj_returnRequestId = i,
      aj_kind = adj_kind dto, aj_label = js_trim (adj_label dto), aj_quantity = adj_quantity dto, aj_unitAmount = adj_unitAmount dto,
      aj_totalAmount = amt, aj_createdById = c_userId c\<rparr>"]) (simp_all add: edits_def withheld_ok_def)
qed

lemma removeAdjustment_tx_edits:
  assumes "removeAdjustment_tx c i k n b = Inr b'"
  obtains a where "edits i b b'" "bk_adjustments b' = filter (\<lambda>(j, _). j \<noteq> k) (bk_adjustments b)"
    "map_of (bk_adjustments b) k = Some a" "aj_returnRequestId a = i"
proof (cases "map_of (bk_adjustments b) k")
  case None
  with assms show ?thesis by (auto simp: removeAdjustment_tx_def)
next
  case (Some a)
  with assms obtain ld b1 where *: "Returns.load c (the (c_branchId c)) i b = Inr ld" "\<not> decided (rr_status (ld_request ld))"
    "aj_returnRequestId a = i" "guarded_write c i n (\<lambda>_. True) (\<lambda>r. r) b = Inr b1"
    "b' = record_audit c ''ReturnAdjustment'' k ''delete'' None (the (c_branchId c)) (b1\<lparr>bk_adjustments := filter (\<lambda>(j, _). j \<noteq> k) (bk_adjustments b1)\<rparr>)"
    by (auto simp: removeAdjustment_tx_def split: if_splits)
  from *(4) have "edits i b b1" "bk_adjustments b1 = bk_adjustments b"
    using *(1,2) by (auto simp: edits_def decided_def return_load_Inr elim!: guarded_write_Inr)
  with * Some show ?thesis by (intro that [of a]) (simp_all add: edits_def)
qed

text \<open>
  A rejection that succeeds leaves the phone where it is: handing a phone back would need the
  transition from returned to sold, which the machine of the units does not have.
\<close>

lemma return_reject_tx_Inr:
  assumes "Returns.reject_tx c i dto b = Inr b'"
  obtains ld br b1 where "Returns.load c br i b = Inr ld" "c_branchId c = Some br" "\<not> decided (rr_status (ld_request ld))"
    "rr_custody (ld_request ld) \<noteq> store_holds" "js_trim (rjr_reason dto) \<noteq> []"
    "guarded_write c i (rjr_expectedVersion dto) (\<lambda>x. rr_status x = rr_status (ld_request ld))
       (rejected_request c (js_trim (rjr_reason dto)) False) b = Inr b1"
    "b' = tell c i br (rr_requestedById (ld_request ld)) ev_return_rejected
            (record_audit c ''ReturnRequest'' i ''update'' (Some (js_trim (rjr_reason dto))) br b1)"
proof -
  from assms obtain ld br b1 b3 where *: "c_branchId c = Some br" "Returns.load c br i b = Inr ld" "\<not> decided (rr_status (ld_request ld))"
    "js_trim (rjr_reason dto) \<noteq> []"
    "guarded_write c i (rjr_expectedVersion dto) (\<lambda>x. rr_status x = rr_status (ld_request ld))
       (rejected_request c (js_trim (rjr_reason dto)) (rr_custody (ld_request ld) = store_holds)) b = Inr b1"
    "(if rr_custody (ld_request ld) = store_holds
      then bindE (moveUnitForCustody c (rr_unitId (ld_request ld)) returned sold b1) (\<lambda>b2.
             Inr (record_audit c ''Unit'' (rr_unitId (ld_request ld)) ''status_change'' None br b2))
      else Inr b1) = Inr b3"
    "b' = tell c i br (rr_requestedById (ld_request ld)) ev_return_rejected
            (record_audit c ''ReturnRequest'' i ''update'' (Some (js_trim (rjr_reason dto))) br b3)"
    unfolding Returns.reject_tx_def Let_def bindE_Inr requireBranchId_Inr assertEditable_Inr require_Inr by blast
  have out: "rr_custody (ld_request ld) \<noteq> store_holds"
    using *(6) by (auto simp: moveUnitForCustody_def split: if_splits)
  with *(6) have "b3 = b1" by simp
  with * out show ?thesis by (intro that [of br ld b1]) simp_all
qed

lemma reject_tx_edits:
  assumes "Returns.reject_tx c i dto b = Inr b'"
  shows "edits i b b'" "bk_adjustments b' = bk_adjustments b"
  using assms by (auto simp: return_load_Inr edits_def decided_def rejected_request_def elim!: return_reject_tx_Inr guarded_write_Inr)

section \<open>Editing keeps the invariant\<close>

lemma adjustment_amounts_insert:
  "adjustment_amounts i (b\<lparr>bk_adjustments := t_insert n a t\<rparr>) =
     adjustment_amounts i (b\<lparr>bk_adjustments := t\<rparr>) @ (if aj_returnRequestId a = i then [aj_totalAmount a] else [])"
  by (simp add: adjustment_amounts_def adjustments_of_def t_insert_def)

lemma adjustment_amounts_cong: "bk_adjustments b' = bk_adjustments b \<Longrightarrow> adjustment_amounts i b' = adjustment_amounts i b"
  by (simp add: adjustment_amounts_def adjustments_of_def)

text \<open>The request of a reversal is decided, so an edit leaves it and its charges alone.\<close>

lemma ret_inv_edits:
  assumes inv: "ret_inv b" and e: "edits i b b'"
    and amounts: "\<And>j. j \<noteq> i \<Longrightarrow> adjustment_amounts j b' = adjustment_amounts j b"
    and wf: "t_wf (bk_adjustments b')" and ok: "\<And>k a. map_of (bk_adjustments b') k = Some a \<Longrightarrow> withheld_ok a"
  shows "ret_inv b'"
proof -
  note D = ret_invD [OF inv]
  from e have E: "bk_reversals b' = bk_reversals b" "bk_payouts b' = bk_payouts b" "bk_corrections b' = bk_corrections b"
    "bk_items b' = bk_items b" and other: "\<And>j. j \<noteq> i \<Longrightarrow> map_of (bk_returns b') j = map_of (bk_returns b) j"
    and was: "\<And>r. map_of (bk_returns b) i = Some r \<Longrightarrow> \<not> decided (rr_status r)"
    and now: "\<And>r. map_of (bk_returns b') i = Some r \<Longrightarrow> rr_status r \<noteq> approved_refund_due"
    and wfr: "t_wf (bk_returns b')"
    using D(1) unfolding edits_def by auto
  have rev: "rev_ok b' v" if v: "rev_ok b v" for v
  proof -
    from v was have "rv_returnRequestId v \<noteq> i" by (auto simp: rev_ok_def decided_def)
    with v show ?thesis by (simp add: rev_ok_def other amounts E)
  qed
  show ?thesis
  proof (rule ret_invI)
    show "tables_wf b'" using D wf wfr by (simp add: tables_wf_def E)
    show "rev_ok b' v" if "map_of (bk_reversals b') k = Some v" for k v using that D(6) rev by (simp add: E)
    show "reversal_of j b' \<noteq> None" if "map_of (bk_returns b') j = Some r" "rr_status r = approved_refund_due" for j r
    proof -
      have "j \<noteq> i" using that now by blast
      with that other have "map_of (bk_returns b) j = Some r" by simp
      from D(7) [OF this that(2)] show ?thesis by (simp add: reversal_of_def E)
    qed
    show "pay_ok b' k p" if "map_of (bk_payouts b') k = Some p" for k p
      using that D(10) by (simp add: pay_ok_def payout_of_def payoutNotCorrected_def E)
    show "target_ok b' f" if "map_of (bk_corrections b') k = Some f" for k f
      using that D(12) by (simp add: target_ok_def E)
  qed (use D(8,9) D(11) ok in \<open>simp_all add: live_for_def E\<close>)
qed

lemma ret_inv_edits_same:
  assumes "ret_inv b" "edits i b b'" "bk_adjustments b' = bk_adjustments b"
  shows "ret_inv b'"
  using ret_invD(4,13) [OF assms(1)] assms(3) adjustment_amounts_cong [OF assms(3)]
  by (intro ret_inv_edits [OF assms(1,2)]) auto

lemma ret_inv_create:
  assumes "ret_inv b" "map_of (bk_returns b) n = None"
  shows "ret_inv (snd (Returns.create sha256 c n dto b))"
proof -
  have "ret_inv (snd (answer c n b (create_tx sha256 c br n dto b)))" for br
    using assms(1) ret_inv_edits_same [OF assms(1) create_tx_edits [OF _ assms(2)]] by (simp add: snd_answer split: sum.split)
  with assms(1) show ?thesis by (simp add: Returns.create_def split: sum.split option.split)
qed

lemma ret_inv_receiveCustody: "ret_inv b \<Longrightarrow> ret_inv (snd (receiveCustody c i dto b))"
  unfolding receiveCustody_def snd_answer
  using ret_inv_edits_same receiveCustody_tx_edits by (fastforce split: sum.split)

lemma ret_inv_investigate: "ret_inv b \<Longrightarrow> ret_inv (snd (investigate c i dto b))"
  unfolding investigate_def snd_answer
  using ret_inv_edits_same investigate_tx_edits by (fastforce split: sum.split)

lemma ret_inv_reject: "ret_inv b \<Longrightarrow> ret_inv (snd (Returns.reject c i dto b))"
  unfolding Returns.reject_def snd_answer
  using ret_inv_edits_same reject_tx_edits by (fastforce split: sum.split)

lemma ret_inv_addAdjustment:
  assumes inv: "ret_inv b" and fresh: "map_of (bk_adjustments b) n = None"
  shows "ret_inv (snd (addAdjustment c n i dto b))"
proof (cases "addAdjustment_tx c n i dto b")
  case (Inr b')
  from addAdjustment_tx_edits [OF this] obtain a where a: "edits i b b'" "bk_adjustments b' = t_insert n a (bk_adjustments b)"
    "aj_returnRequestId a = i" "withheld_ok a" .
  have "ret_inv b'"
  proof (rule ret_inv_edits [OF inv a(1)])
    show "adjustment_amounts j b' = adjustment_amounts j b" if "j \<noteq> i" for j
      using that a(3) by (simp add: adjustment_amounts_def adjustments_of_def a(2) t_insert_def)
    show "t_wf (bk_adjustments b')" using ret_invD(4) [OF inv] fresh by (simp add: a(2))
    show "withheld_ok x" if "map_of (bk_adjustments b') k = Some x" for k x
      using that fresh a(4) ret_invD(13) [OF inv] by (simp add: a(2) split: if_splits)
  qed
  with Inr show ?thesis by (simp add: addAdjustment_def snd_answer)
qed (use inv in \<open>simp add: addAdjustment_def snd_answer\<close>)

lemma ret_inv_removeAdjustment:
  assumes inv: "ret_inv b"
  shows "ret_inv (snd (removeAdjustment c i k n b))"
proof (cases "removeAdjustment_tx c i k n b")
  case (Inr b')
  note wf = ret_invD(4) [OF inv]
  from removeAdjustment_tx_edits [OF Inr] obtain a where a: "edits i b b'"
    "bk_adjustments b' = filter (\<lambda>(j, _). j \<noteq> k) (bk_adjustments b)" "map_of (bk_adjustments b) k = Some a" "aj_returnRequestId a = i" .
  have wf': "t_wf (bk_adjustments b')" using wf by (simp add: a(2) t_wf_def t_keys_def distinct_map_filter)
  have "ret_inv b'"
  proof (rule ret_inv_edits [OF inv a(1) _ wf'])
    show "adjustment_amounts j b' = adjustment_amounts j b" if "j \<noteq> i" for j
    proof -
      have "filter (\<lambda>(_, x). aj_returnRequestId x = j) (filter (\<lambda>(j, _). j \<noteq> k) (bk_adjustments b)) =
          filter (\<lambda>(_, x). aj_returnRequestId x = j) (bk_adjustments b)"
        unfolding filter_filter
      proof (rule filter_cong [OF refl], goal_cases)
        case (1 x)
        then have "map_of (bk_adjustments b) (fst x) = Some (snd x)" using t_wf_map_of_eq [OF wf] by simp
        with a(3,4) that show ?case by (auto simp: case_prod_unfold)
      qed
      then show ?thesis by (simp add: adjustment_amounts_def adjustments_of_def a(2))
    qed
    show "withheld_ok x" if "map_of (bk_adjustments b') j = Some x" for j x
      using that ret_invD(13) [OF inv] t_wf_map_of_eq [OF wf] t_wf_map_of_eq [OF wf'] by (auto simp: a(2))
  qed
  with Inr show ?thesis by (simp add: removeAdjustment_def snd_answer)
qed (use inv in \<open>simp add: removeAdjustment_def snd_answer\<close>)

section \<open>Approval\<close>

lemma approve_plan_Inr:
  assumes "approve_plan c br ld i dto b = Inr (ex, s)"
  shows "\<not> decided (rr_status (ld_request ld))" "rr_custody (ld_request ld) = store_holds"
    "assertMayApprove (rr_requiresException (ld_request ld)) (rr_responsibility (ld_request ld)) (c_permissions c) (apr_exceptionReason dto) = Inr ex"
    "settleRefund (grossRefundOf (ld_item ld)) (adjustment_amounts i b) = Inr s" "\<not> day_closed c br (dayKey (c_now c)) b"
  using assms unfolding approve_plan_def Let_def bindE_Inr assertEditable_Inr require_Inr by blast+

lemma return_approve_tx_Inr:
  assumes "Returns.approve_tx c n i dto b = Inr b'"
  obtains br ld ex s x where "c_branchId c = Some br" "Returns.load c br i b = Inr ld" "approve_plan c br ld i dto b = Inr (ex, s)"
    "rr_version (ld_request ld) = apr_expectedVersion dto" "\<not> reversal_exists (new_reversal c br i ld s) b"
    "map_of (bk_units b) (rr_unitId (ld_request ld)) = Some x" "u_status x = returned"
    "bk_returns b' = t_update i (\<lambda>r. (approved_request c dto ex r)\<lparr>rr_version := Suc (rr_version r)\<rparr>) (bk_returns b)"
    "bk_reversals b' = t_insert n (new_reversal c br i ld s) (bk_reversals b)"
    "bk_units b' = t_update (rr_unitId (ld_request ld)) (\<lambda>x. x\<lparr>u_status := faulty\<rparr>) (bk_units b)"
    "bk_payouts b' = bk_payouts b" "bk_adjustments b' = bk_adjustments b" "bk_corrections b' = bk_corrections b"
    "bk_items b' = bk_items b" "bk_sales b' = bk_sales b"
proof -
  from assms obtain br ld plan b1 where *: "c_branchId c = Some br" "Returns.load c br i b = Inr ld"
    "approve_plan c br ld i dto b = Inr plan" "approve_write c br n ld i dto plan b = Inr b1"
    "b' = recomputeDaily (c_companyId c) br (dayKey (c_now c)) (c_now c) b1"
    unfolding Returns.approve_tx_def bindE_Inr requireBranchId_Inr by blast
  obtain ex s where plan: "plan = (ex, s)" by fastforce
  let ?v = "new_reversal c br i ld s" and ?r = "ld_request ld"
  from *(4) obtain b2 b3 where w: "guarded_write c i (apr_expectedVersion dto) (\<lambda>x. rr_status x = rr_status ?r) (approved_request c dto ex) b = Inr b2"
    "\<not> reversal_exists ?v b2" "moveUnitForCustody c (rr_unitId ?r) returned faulty (b2\<lparr>bk_reversals := t_insert n ?v (bk_reversals b2)\<rparr>) = Inr b3"
    "bk_returns b1 = bk_returns b3" "bk_reversals b1 = bk_reversals b3" "bk_units b1 = bk_units b3" "bk_payouts b1 = bk_payouts b3"
    "bk_adjustments b1 = bk_adjustments b3" "bk_corrections b1 = bk_corrections b3" "bk_items b1 = bk_items b3" "bk_sales b1 = bk_sales b3"
    unfolding approve_write_def Let_def plan by (auto split: if_splits)
  obtain r where r: "map_of (bk_returns b) i = Some r" "rr_version r = apr_expectedVersion dto"
    "b2 = b\<lparr>bk_returns := t_update i (\<lambda>r. (approved_request c dto ex r)\<lparr>rr_version := Suc (rr_version r)\<rparr>) (bk_returns b)\<rparr>"
    using w(1) by (rule guarded_write_Inr)
  obtain x where x: "map_of (bk_units (b2\<lparr>bk_reversals := t_insert n ?v (bk_reversals b2)\<rparr>)) (rr_unitId ?r) = Some x" "u_status x = returned"
    "b3 = b2\<lparr>bk_reversals := t_insert n ?v (bk_reversals b2)\<rparr>\<lparr>bk_units := t_update (rr_unitId ?r) (\<lambda>x. x\<lparr>u_status := faulty\<rparr>)
      (bk_units (b2\<lparr>bk_reversals := t_insert n ?v (bk_reversals b2)\<rparr>))\<rparr>"
    using w(3) by (rule moveUnit_Inr)
  from r(1) *(2) have "ld_request ld = r" by (simp add: return_load_Inr)
  with * plan w r x show ?thesis by (intro that [of br ld ex s x]) (simp_all add: reversal_exists_def)
qed

lemma adjustment_amounts_ok: "ret_inv b \<Longrightarrow> \<forall>a \<in> set (adjustment_amounts i b). is_cents a \<and> 0 \<le> a"
  using ret_invD(4,13) [of b] by (auto simp: adjustment_amounts_def adjustments_of_def t_wf_map_of_eq withheld_ok_def)

lemma grossRefundOf_cents [simp]: "is_cents (grossRefundOf l)"
  by (simp add: grossRefundOf_def)

lemma ret_inv_approve:
  assumes inv: "ret_inv b" and fresh: "map_of (bk_reversals b) n = None"
  shows "ret_inv (snd (Returns.approve c n i dto b))"
proof (cases "Returns.approve_tx c n i dto b")
  case (Inr b')
  note D = ret_invD [OF inv]
  from Inr obtain br ld ex s x where A: "c_branchId c = Some br" "Returns.load c br i b = Inr ld" "approve_plan c br ld i dto b = Inr (ex, s)"
    "\<not> reversal_exists (new_reversal c br i ld s) b"
    "bk_returns b' = t_update i (\<lambda>r. (approved_request c dto ex r)\<lparr>rr_version := Suc (rr_version r)\<rparr>) (bk_returns b)"
    "bk_reversals b' = t_insert n (new_reversal c br i ld s) (bk_reversals b)"
    "bk_payouts b' = bk_payouts b" "bk_adjustments b' = bk_adjustments b" "bk_corrections b' = bk_corrections b"
    "bk_items b' = bk_items b"
    by (elim return_approve_tx_Inr) blast
  let ?v = "new_reversal c br i ld s"
  note plan = approve_plan_Inr [OF A(3)]
  have row: "map_of (bk_returns b) i = Some (ld_request ld)" and item: "map_of (bk_items b) (rr_saleItemId (ld_request ld)) = Some (ld_item ld)"
    and own: "rr_companyId (ld_request ld) = c_companyId c" "rr_branchId (ld_request ld) = br"
    using A(2) by (simp_all add: return_load_Inr)
  note s = settleRefund_ok [OF plan(4) grossRefundOf_cents adjustment_amounts_ok [OF inv]]
  have same: "adjustment_amounts j b' = adjustment_amounts j b" for j using A(8) by (rule adjustment_amounts_cong)
  have new: "rev_ok b' ?v"
    using row item own s by (auto simp: rev_ok_def new_reversal_def Let_def A(5,10) approved_request_def same)
  have old: "rev_ok b' v" if v: "rev_ok b v" for v
  proof -
    from v row plan(1) have "rv_returnRequestId v \<noteq> i" by (auto simp: rev_ok_def decided_def)
    with v show ?thesis by (simp add: rev_ok_def A(5,10) same)
  qed
  have none: "rv_saleItemId ?v \<notin> set (map (\<lambda>(_, v). rv_saleItemId v) (bk_reversals b))"
    "rv_returnRequestId ?v \<notin> set (map (\<lambda>(_, v). rv_returnRequestId v) (bk_reversals b))"
    using A(4) by (auto simp: reversal_exists_def list_ex_iff)
  have new_id: "rv_returnRequestId ?v = i" by (simp add: new_reversal_def Let_def)
  have found: "reversal_of j b' \<noteq> None" if "reversal_of j b \<noteq> None \<or> j = i" for j
    using that new_id by (auto simp: reversal_of_def A(6) t_insert_def find_snoc split: option.splits)
  have "ret_inv b'"
  proof (rule ret_invI)
    show "tables_wf b'" using D(1-5) fresh by (simp add: tables_wf_def A(5-9))
    show "rev_ok b' v" if "map_of (bk_reversals b') k = Some v" for k v
      using that fresh new old D(6) by (auto simp: A(6) split: if_splits)
    show "reversal_of j b' \<noteq> None" if "map_of (bk_returns b') j = Some r" "rr_status r = approved_refund_due" for j r
      using that D(7) [of j] found [of j] by (cases "j = i") (auto simp: A(5))
    show "pay_ok b' k p" if "map_of (bk_payouts b') k = Some p" for k p
    proof -
      from that D(10) have p: "pay_ok b k p" by (simp add: A(7))
      then have "map_of (bk_reversals b) (po_returnReversalId p) \<noteq> None" by (auto simp: pay_ok_def)
      with fresh have "po_returnReversalId p \<noteq> n" by auto
      with p fresh show ?thesis by (simp add: pay_ok_def payout_of_def payoutNotCorrected_def A(6,7,9))
    qed
    show "target_ok b' f" if "map_of (bk_corrections b') k = Some f" for k f
      using that D(12) by (simp add: target_ok_def A(7,9))
  qed (use D(8,9,11,13) none in \<open>simp_all add: live_for_def A(6-8) t_insert_def\<close>)
  with Inr show ?thesis by (simp add: Returns.approve_def snd_answer)
qed (use inv in \<open>simp add: Returns.approve_def snd_answer\<close>)

section \<open>Refunds\<close>

lemma find_t_update:
  "(\<And>v. P (k, f v) = P (k, v)) \<Longrightarrow>
     find P (t_update k f t) = map_option (\<lambda>(j, v). (j, if j = k then f v else v)) (find P t)"
  by (induction t) (auto simp: t_update_def)

lemma payout_of_t_update:
  assumes "bk_payouts b' = t_update k f (bk_payouts b)" "\<And>p. po_returnRequestId (f p) = po_returnRequestId p"
  shows "payout_of i b' = map_option (\<lambda>(j, p). (j, if j = k then f p else p)) (payout_of i b)"
  unfolding payout_of_def assms(1) by (rule find_t_update) (simp add: assms(2))

lemma live_for_t_update:
  assumes "bk_payouts b' = t_update k f (bk_payouts b)" "\<And>p. po_returnReversalId (f p) = po_returnReversalId p"
    "\<And>p. po_correctedById (f p) = None \<Longrightarrow> po_correctedById p = None"
  shows "length (live_for rv b') \<le> length (live_for rv b)"
proof -
  have "length (filter (\<lambda>(_, p). po_returnReversalId p = rv \<and> po_correctedById p = None) (t_update k f t)) \<le>
      length (filter (\<lambda>(_, p). po_returnReversalId p = rv \<and> po_correctedById p = None) t)" for t
    using assms(2,3) by (induction t) (auto simp: t_update_def split: if_splits)
  then show ?thesis by (simp add: live_for_def assms(1))
qed

text \<open>A payout changes in place: what it settles, and how much, stays.\<close>

lemma ret_inv_payout_update:
  assumes inv: "ret_inv b" and k: "map_of (bk_payouts b) k = Some p" and b': "bk_payouts b' = t_update k f (bk_payouts b)"
    and keep: "\<And>p. po_returnRequestId (f p) = po_returnRequestId p" "\<And>p. po_returnReversalId (f p) = po_returnReversalId p"
      "\<And>p. po_companyId (f p) = po_companyId p" "\<And>p. po_branchId (f p) = po_branchId p" "\<And>p. po_reportedAmount (f p) = po_reportedAmount p"
      "\<And>p. po_correctedById (f p) = None \<Longrightarrow> po_correctedById p = None"
    and confirmed: "po_status (f p) = payout_confirmed \<Longrightarrow> payout_of (po_returnRequestId p) b = Some (k, p)"
      "po_status (f p) = payout_confirmed \<longleftrightarrow> po_confirmationDate (f p) \<noteq> None"
      "po_status p = payout_confirmed \<Longrightarrow> po_status (f p) = payout_confirmed"
    and link: "\<And>j. payoutNotCorrected j b' \<longleftrightarrow> payoutNotCorrected j b \<and> \<not> (j = k \<and> po_correctedById (f p) \<noteq> None)"
    and cor: "t_wf (bk_corrections b')" "\<And>j f. map_of (bk_corrections b') j = Some f \<Longrightarrow> target_ok b f"
    and same: "bk_returns b' = bk_returns b" "bk_reversals b' = bk_reversals b" "bk_adjustments b' = bk_adjustments b" "bk_items b' = bk_items b"
  shows "ret_inv b'"
proof (rule ret_invI)
  note D = ret_invD [OF inv]
  note first = payout_of_t_update [OF b' keep(1)]
  show "tables_wf b'" using D(1-5) cor(1) by (simp add: tables_wf_def b' same)
  show "rev_ok b' v" if "map_of (bk_reversals b') j = Some v" for j v
    using that D(6) by (simp add: rev_ok_def same adjustment_amounts_cong [OF same(3)])
  show "reversal_of j b' \<noteq> None" if "map_of (bk_returns b') j = Some r" "rr_status r = approved_refund_due" for j r
    using that D(7) by (simp add: reversal_of_def same)
  show "pay_ok b' j q" if q: "map_of (bk_payouts b') j = Some q" for j q
  proof (cases "j = k")
    case True
    with q k have "q = f p" by (simp add: b')
    moreover have "pay_ok b k p" using D(10) k .
    ultimately show ?thesis using True confirmed(1,2) keep link [of k] by (auto simp: pay_ok_def first same)
  next
    case False
    with q have "pay_ok b j q" using D(10) by (simp add: b')
    with False show ?thesis using link [of j] by (auto simp: pay_ok_def first same)
  qed
  show "length (live_for rv b') \<le> 1" for rv using live_for_t_update [OF b' keep(2,6)] D(11) by (meson le_trans)
  show "target_ok b' g" if g: "map_of (bk_corrections b') j = Some g" for j g
    using cor(2) [OF g] k confirmed(3) by (auto simp: target_ok_def b')
qed (use ret_invD(8,9,13) [OF inv] in \<open>simp_all add: same\<close>)

lemma find_in_table: "find P xs = Some x \<Longrightarrow> x \<in> set xs \<and> P x"
  by (induction xs) (auto split: if_splits)

lemma payout_of_row:
  assumes "ret_inv b" "payout_of i b = Some (k, p)"
  shows "map_of (bk_payouts b) k = Some p" "po_returnRequestId p = i"
  using find_in_table [OF assms(2) [unfolded payout_of_def]] ret_invD(3) [OF assms(1)] by (auto simp: t_wf_map_of_eq)

lemma payout_link: "ret_inv b \<Longrightarrow> map_of (bk_payouts b) k = Some p \<Longrightarrow> po_correctedById p = None \<longleftrightarrow> payoutNotCorrected k b"
  using ret_invD(10) by (simp add: pay_ok_def)

lemma correctRefund_tx_Inr:
  assumes "correctRefund_tx c i dto b = Inr b'"
  obtains k p m acc b1 where "payout_of i b = Some (k, p)"
    "guarded_payout c k (cor_expectedVersion dto) (corrected_report dto m acc) b = Inr b1"
    "bk_payouts b' = bk_payouts b1" "bk_returns b' = bk_returns b1" "bk_reversals b' = bk_reversals b1"
    "bk_adjustments b' = bk_adjustments b1" "bk_corrections b' = bk_corrections b1" "bk_items b' = bk_items b1"
proof (cases "payout_of i b")
  case None
  with assms show ?thesis by (simp add: correctRefund_tx_def)
next
  case (Some x)
  obtain k p where x: "x = (k, p)" by fastforce
  with assms Some obtain m acc b1 where "guarded_payout c k (cor_expectedVersion dto) (corrected_report dto m acc) b = Inr b1"
    "b' = tell c i (the (c_branchId c)) (po_reportedById p) ev_refund_corrected
       (record_audit c ''RefundPayout'' k ''update'' None (the (c_branchId c)) b1)"
    by (auto simp: correctRefund_tx_def Let_def)
  with Some x show ?thesis by (intro that [of k p m acc b1]) simp_all
qed

lemma ret_inv_correctRefund:
  assumes inv: "ret_inv b"
  shows "ret_inv (snd (correctRefund c i dto b))"
proof (cases "correctRefund_tx c i dto b")
  case (Inr b')
  from correctRefund_tx_Inr [OF Inr] obtain k p m acc b1 where *: "payout_of i b = Some (k, p)"
    "guarded_payout c k (cor_expectedVersion dto) (corrected_report dto m acc) b = Inr b1"
    "bk_payouts b' = bk_payouts b1" "bk_returns b' = bk_returns b1" "bk_reversals b' = bk_reversals b1"
    "bk_adjustments b' = bk_adjustments b1" "bk_corrections b' = bk_corrections b1" "bk_items b' = bk_items b1" .
  obtain q where q: "map_of (bk_payouts b) k = Some q" "po_status q = reported_pending_confirmation"
    "b1 = b\<lparr>bk_payouts := t_update k (\<lambda>p. (corrected_report dto m acc p)\<lparr>po_version := Suc (po_version p)\<rparr>) (bk_payouts b)\<rparr>"
    using *(2) by (rule guarded_payout_Inr)
  have "pay_ok b k q" using ret_invD(10) [OF inv q(1)] .
  then have "ret_inv b'"
    using q *(3-8) payout_link [OF inv q(1)] ret_invD(5,12) [OF inv]
    by (intro ret_inv_payout_update [OF inv q(1), where b' = b' and f = "\<lambda>p. (corrected_report dto m acc p)\<lparr>po_version := Suc (po_version p)\<rparr>"])
      (auto simp: corrected_report_def payoutNotCorrected_def pay_ok_def)
  with Inr show ?thesis by (simp add: correctRefund_def snd_answer)
qed (use inv in \<open>simp add: correctRefund_def snd_answer\<close>)

lemma confirmRefund_tx_Inr:
  assumes "confirmRefund_tx c i n b = Inr b'"
  obtains (again) k p where "payout_of i b = Some (k, p)" "po_status p = payout_confirmed" "b' = b"
  | (confirms) k p b1 where "payout_of i b = Some (k, p)" "po_status p \<noteq> payout_confirmed"
      "\<not> day_closed c (the (c_branchId c)) (dayKey (c_now c)) b"
      "guarded_payout c k n (confirmed_payout c b) b = Inr b1"
      "bk_payouts b' = bk_payouts b1" "bk_returns b' = bk_returns b1" "bk_reversals b' = bk_reversals b1"
      "bk_adjustments b' = bk_adjustments b1" "bk_corrections b' = bk_corrections b1" "bk_items b' = bk_items b1" "bk_units b' = bk_units b1"
proof (cases "payout_of i b")
  case None
  with assms show ?thesis by (simp add: confirmRefund_tx_def)
next
  case (Some x)
  obtain k p where x: "x = (k, p)" by fastforce
  show ?thesis
  proof (cases "po_status p = payout_confirmed")
    case True
    with assms Some x show ?thesis by (intro again [of k p]) (auto simp: confirmRefund_tx_def)
  next
    case False
    with assms Some x obtain b1 where "\<not> day_closed c (the (c_branchId c)) (dayKey (c_now c)) b"
      "guarded_payout c k n (confirmed_payout c b) b = Inr b1"
      "b' = recomputeDaily (c_companyId c) (the (c_branchId c)) (dayKey (c_now c)) (c_now c)
         (tell c i (the (c_branchId c)) (po_reportedById p) ev_refund_confirmed
            (record_audit c ''RefundPayout'' k ''update'' None (the (c_branchId c)) b1))"
      by (auto simp: confirmRefund_tx_def)
    with Some x False show ?thesis by (intro confirms [of k p b1]) simp_all
  qed
qed

lemma ret_inv_confirmRefund:
  assumes inv: "ret_inv b"
  shows "ret_inv (snd (confirmRefund c i n b))"
proof (cases "confirmRefund_tx c i n b")
  case (Inr b')
  from Inr have "ret_inv b'"
  proof (cases rule: confirmRefund_tx_Inr)
    case (confirms k p b1)
    obtain q where q: "map_of (bk_payouts b) k = Some q"
      "b1 = b\<lparr>bk_payouts := t_update k (\<lambda>p. (confirmed_payout c b p)\<lparr>po_version := Suc (po_version p)\<rparr>) (bk_payouts b)\<rparr>"
      using confirms(4) by (rule guarded_payout_Inr)
    from payout_of_row [OF inv confirms(1)] q(1) have "q = p" "po_returnRequestId p = i" by simp_all
    then show ?thesis
      using q confirms(1) confirms(5-10) payout_link [OF inv q(1)] ret_invD(5,12) [OF inv]
      by (intro ret_inv_payout_update [OF inv q(1), where b' = b' and f = "\<lambda>p. (confirmed_payout c b p)\<lparr>po_version := Suc (po_version p)\<rparr>"])
        (auto simp: confirmed_payout_def payoutNotCorrected_def)
  qed (use inv in simp)
  with Inr show ?thesis by (simp add: confirmRefund_def snd_answer)
qed (use inv in \<open>simp add: confirmRefund_def snd_answer\<close>)

lemma reportRefund_tx_Inr:
  assumes "reportRefund_tx sha256 c n i dto b = Inr b'"
  obtains (again) "b' = b"
  | (reports) br ld rv acc where "c_branchId c = Some br" "Returns.load c br i b = Inr ld" "report_checks i ld dto b = Inr rv"
      "\<not> live_payout_exists (new_payout sha256 c br i rv dto acc) b"
      "bk_payouts b' = t_insert n (new_payout sha256 c br i rv dto acc) (bk_payouts b)" "bk_returns b' = bk_returns b"
      "bk_reversals b' = bk_reversals b" "bk_adjustments b' = bk_adjustments b" "bk_corrections b' = bk_corrections b"
      "bk_items b' = bk_items b" "bk_units b' = bk_units b"
proof -
  from assms obtain br ld rv where *: "c_branchId c = Some br" "Returns.load c br i b = Inr ld" "report_checks i ld dto b = Inr rv"
    and rest: "(case find (\<lambda>(_, p). po_companyId p = c_companyId c \<and> po_clientUuid p = rpr_clientUuid dto) (bk_payouts b) of
       Some (_, p) \<Rightarrow>
         if po_clientRequestHash p \<noteq> report_print sha256 i dto then Inl (Conflict IdempotencyConflict) else Inr b
     | None \<Rightarrow> report_write sha256 c br n i ld rv dto b) = Inr b'"
    unfolding reportRefund_tx_def bindE_Inr requireBranchId_Inr by blast
  from rest have "b' = b \<or> report_write sha256 c br n i ld rv dto b = Inr b'"
    by (cases "find (\<lambda>(_, p). po_companyId p = c_companyId c \<and> po_clientUuid p = rpr_clientUuid dto) (bk_payouts b)")
      (auto split: if_splits)
  then show ?thesis
  proof
    assume "report_write sha256 c br n i ld rv dto b = Inr b'"
    then obtain acc where "\<not> live_payout_exists (new_payout sha256 c br i rv dto acc) b"
      "b' = tell c i br (rr_requestedById (ld_request ld)) ev_refund_reported (record_audit c ''RefundPayout'' n ''create'' None br
          (b\<lparr>bk_payouts := t_insert n (new_payout sha256 c br i rv dto acc) (bk_payouts b)\<rparr>))"
      by (auto simp: report_write_def Let_def split: if_splits)
    with * show ?thesis by (intro reports [of br ld rv acc]) simp_all
  qed (rule again)
qed

lemma report_checks_Inr:
  assumes "report_checks i ld dto b = Inr rv"
  shows "rr_status (ld_request ld) = approved_refund_due" "reversal_of i b = Some rv" "js_round (rv_netRefundDue (snd rv) * 100) \<noteq> 0"
    "assertAmountMatchesDue (rpr_reportedAmount dto) (rv_netRefundDue (snd rv)) = Inr ()"
  using assms by (auto simp: report_checks_def assertReportable_def assertWorthSettling_def split: option.splits if_splits)

lemma reversal_of_row:
  assumes "ret_inv b" "reversal_of i b = Some (k, v)"
  shows "map_of (bk_reversals b) k = Some v" "rv_returnRequestId v = i"
  using find_in_table [OF assms(2) [unfolded reversal_of_def]] ret_invD(2) [OF assms(1)] by (auto simp: t_wf_map_of_eq)

lemma net_cents:
  assumes "ret_inv b" "map_of (bk_reversals b) k = Some v"
  shows "is_cents (rv_netRefundDue v)"
proof -
  from ret_invD(6) [OF assms] obtain l where "rv_netRefundDue v = grossRefundOf l - sum_list (adjustment_amounts (rv_returnRequestId v) b)"
    by (auto simp: rev_ok_def)
  moreover have "is_cents (sum_list as)" if "\<forall>a \<in> set as. is_cents a \<and> 0 \<le> a" for as :: "number list"
    using that by (induction as) auto
  ultimately show ?thesis using adjustment_amounts_ok [OF assms(1)] by simp
qed

lemma ret_inv_reportRefund:
  assumes inv: "ret_inv b" and fresh: "map_of (bk_payouts b) n = None" and cents: "is_cents (rpr_reportedAmount dto)"
  shows "ret_inv (snd (reportRefund sha256 c n i dto b))"
proof (cases "reportRefund_tx sha256 c n i dto b")
  case (Inr b')
  note D = ret_invD [OF inv]
  from Inr have "ret_inv b'"
  proof (cases rule: reportRefund_tx_Inr)
    case (reports br ld rv acc)
    let ?p = "new_payout sha256 c br i rv dto acc"
    obtain k v where rv: "rv = (k, v)" by fastforce
    note chk = report_checks_Inr [OF reports(3), unfolded rv snd_conv]
    note row = reversal_of_row [OF inv chk(2)]
    have amount: "rpr_reportedAmount dto = rv_netRefundDue v"
      using chk(4) cents net_cents [OF inv row(1)] by (rule assertAmountMatchesDue_exact)
    have nz: "rv_netRefundDue v \<noteq> 0" using chk(3) js_round_near_int [of 0 0] by auto
    have own: "rv_companyId v = c_companyId c" "rv_branchId v = br"
      using D(6) [OF row(1)] reports(2) row(2) by (auto simp: rev_ok_def return_load_Inr)
    have untouched: "payoutNotCorrected n b"
      using D(12) fresh t_wf_map_of_eq [OF D(5)] by (fastforce simp: payoutNotCorrected_def list_ex_iff target_ok_def)
    have old: "payout_of j b' = Some x" if "payout_of j b = Some x" for j x
      using that by (simp add: payout_of_def reports(5) t_insert_def find_snoc)
    show ?thesis
    proof (rule ret_invI)
      show "tables_wf b'" using D(1-5) fresh by (simp add: tables_wf_def reports(5-9))
      show "rev_ok b' v" if "map_of (bk_reversals b') j = Some v" for j v
        using that D(6) by (simp add: rev_ok_def reports(6-10) adjustment_amounts_cong [OF reports(8)])
      show "reversal_of j b' \<noteq> None" if "map_of (bk_returns b') j = Some r" "rr_status r = approved_refund_due" for j r
        using that D(7) by (simp add: reversal_of_def reports(6,7))
      show "pay_ok b' j q" if q: "map_of (bk_payouts b') j = Some q" for j q
      proof (cases "j = n")
        case True
        with q fresh have "q = ?p" by (simp add: reports(5))
        with True row own amount nz untouched show ?thesis
          by (simp add: pay_ok_def new_payout_def rv reports(7,9) payoutNotCorrected_def)
      next
        case False
        with q fresh have "pay_ok b j q" using D(10) by (simp add: reports(5))
        then show ?thesis using old by (auto simp: pay_ok_def reports(7,9) payoutNotCorrected_def)
      qed
      show "length (live_for x b') \<le> 1" for x
      proof (cases "x = k")
        case True
        have "live_for k b = []" using reports(4)
          by (auto simp: live_for_def live_payout_exists_def list_ex_iff new_payout_def rv filter_empty_conv)
        then show ?thesis by (simp add: live_for_def reports(5) t_insert_def True)
      next
        case False
        then have "live_for x b' = live_for x b" by (simp add: live_for_def reports(5) t_insert_def new_payout_def rv)
        with D(11) show ?thesis by simp
      qed
      show "target_ok b' f" if "map_of (bk_corrections b') j = Some f" for j f
        using that D(12) fresh by (fastforce simp: target_ok_def reports(5,9))
    qed (use D(8,9,13) in \<open>simp_all add: reports(7,8)\<close>)
  qed (use inv in simp)
  with Inr show ?thesis by (simp add: reportRefund_def snd_answer)
qed (use inv in \<open>simp add: reportRefund_def snd_answer\<close>)

section \<open>Corrections\<close>

lemma payoutNotCorrected_decide:
  assumes "t_wf (bk_corrections b)" "map_of (bk_corrections b) i = Some f" "fc_status f = fc_requested"
    and g: "\<And>f. fc_targetRefundPayoutId (g f) = fc_targetRefundPayoutId f"
    and b': "bk_corrections b' = t_update i g (bk_corrections b)"
  shows "payoutNotCorrected j b' \<longleftrightarrow> payoutNotCorrected j b \<and> \<not> (fc_targetRefundPayoutId f = Some j \<and> fc_status (g f) = fc_approved)"
proof -
  let ?P = "\<lambda>f. fc_targetRefundPayoutId f = Some j \<and> fc_status f = fc_approved"
  have wf': "t_wf (bk_corrections b')" using assms(1) by (simp add: b')
  have iff: "payoutNotCorrected j x \<longleftrightarrow> (\<forall>k h. map_of (bk_corrections x) k = Some h \<longrightarrow> \<not> ?P h)" if "t_wf (bk_corrections x)" for x
    using that by (auto simp: payoutNotCorrected_def list_ex_iff t_wf_map_of_eq)
  show ?thesis
    unfolding iff [OF assms(1)] iff [OF wf'] using assms(2,3) by (auto simp: b' g split: if_splits)
qed

lemma target_ok_decide:
  assumes "ret_inv b" "\<And>f. fc_targetRefundPayoutId (g f) = fc_targetRefundPayoutId f"
    "map_of (t_update i g (bk_corrections b)) j = Some h"
  shows "target_ok b h"
proof -
  from assms(3) obtain h0 where "map_of (bk_corrections b) j = Some h0" "fc_targetRefundPayoutId h = fc_targetRefundPayoutId h0"
    using assms(2) by (auto split: if_splits)
  with ret_invD(12) [OF assms(1)] show ?thesis by (simp add: target_ok_def)
qed

text \<open>Corrections change, payouts do not, and no payout becomes corrected.\<close>

lemma ret_inv_corrections:
  assumes inv: "ret_inv b" and wf: "t_wf (bk_corrections b')" and ok: "\<And>j f. map_of (bk_corrections b') j = Some f \<Longrightarrow> target_ok b f"
    and link: "\<And>j. payoutNotCorrected j b' = payoutNotCorrected j b"
    and same: "bk_payouts b' = bk_payouts b" "bk_returns b' = bk_returns b" "bk_reversals b' = bk_reversals b"
      "bk_adjustments b' = bk_adjustments b"
    and items: "\<And>k l. map_of (bk_items b) k = Some l \<Longrightarrow> map_of (bk_items b') k = Some l"
  shows "ret_inv b'"
proof (rule ret_invI)
  note D = ret_invD [OF inv]
  show "tables_wf b'" using D(1-5) wf by (simp add: tables_wf_def same)
  show "rev_ok b' v" if "map_of (bk_reversals b') j = Some v" for j v
    using that D(6) items unfolding rev_ok_def same adjustment_amounts_cong [OF same(4)] by blast
  show "reversal_of j b' \<noteq> None" if "map_of (bk_returns b') j = Some r" "rr_status r = approved_refund_due" for j r
    using that D(7) by (simp add: reversal_of_def same)
  show "pay_ok b' j q" if "map_of (bk_payouts b') j = Some q" for j q
    using that D(10) by (simp add: pay_ok_def payout_of_def same link)
  show "target_ok b' f" if "map_of (bk_corrections b') j = Some f" for j f
    using ok [OF that] by (simp add: target_ok_def same)
qed (use ret_invD(8,9,11,13) [OF inv] in \<open>simp_all add: same live_for_def\<close>)

lemma ret_inv_request:
  assumes inv: "ret_inv b" and fresh: "map_of (bk_corrections b) n = None"
  shows "ret_inv (snd (request sha256 c n dto b))"
proof (cases "request_tx sha256 c n dto b")
  case (Inr x)
  obtain i b' where x: "x = (i, b')" by fastforce
  from Inr [unfolded x] have "ret_inv b'"
  proof (cases rule: request_tx_Inr)
    case (requested t reason)
    let ?f = "new_correction sha256 c reason dto t"
    have "target_ok b ?f"
      using requested(1,2) by (auto simp: target_ok_def new_correction_def loadTarget_def split: option.splits if_splits)
    moreover have "payoutNotCorrected j b' = payoutNotCorrected j b" for j
      by (simp add: payoutNotCorrected_def requested(3) t_insert_def new_correction_def)
    ultimately show ?thesis
      using ret_invD(5,12) [OF inv] fresh by (intro ret_inv_corrections [OF inv]) (auto simp: requested(3) split: if_splits)
  qed (use inv in simp)
  with Inr x show ?thesis by (simp add: request_def)
qed (use inv in \<open>simp add: request_def\<close>)

lemma ret_inv_correction_reject:
  assumes inv: "ret_inv b"
  shows "ret_inv (snd (Corrections.reject c i dto b))"
proof (cases "Corrections.reject_tx c i dto b")
  case (Inr b')
  from correction_reject_tx_Inr [OF Inr] obtain f a where f: "map_of (bk_corrections b) i = Some f" "fc_status f = fc_requested"
    "b' = b\<lparr>bk_corrections := t_update i (rejected_row c) (bk_corrections b), bk_audit := a\<rparr>" .
  have keep: "fc_targetRefundPayoutId (rejected_row c f) = fc_targetRefundPayoutId f" "fc_status (rejected_row c f) = fc_rejected" for f
    by (simp_all add: rejected_row_def)
  have "ret_inv b'"
    using ret_invD(5) [OF inv] payoutNotCorrected_decide [OF ret_invD(5) [OF inv] f(1,2) keep(1), of b']
    by (intro ret_inv_corrections [OF inv _ target_ok_decide [OF inv keep(1)]]) (auto simp: f(3) keep)
  with Inr show ?thesis by (simp add: Corrections.reject_def)
qed (use inv in \<open>simp add: Corrections.reject_def\<close>)

lemma ret_inv_correction_approve:
  assumes inv: "ret_inv b"
  shows "ret_inv (snd (Corrections.approve c i dto b))"
proof (cases "Corrections.approve_tx c i dto b")
  case (Inr b')
  note D = ret_invD [OF inv]
  from correction_approve_tx_Inr [OF Inr] obtain f where f: "map_of (bk_corrections b) i = Some f" "fc_status f = fc_requested"
    and b': "b' = (let b2 = recomputeDaily (c_companyId c) (fc_branchId f) (dayKey (c_now c)) (c_now c)
                      (mark_payout i f (b\<lparr>bk_corrections := t_update i (approved_row c) (bk_corrections b)\<rparr>))
           in b2\<lparr>bk_audit := bk_audit b2 @ [audit_row_of c ''FinancialCorrection'' i ''status_change'' (Some (fc_reason f)) None]\<rparr>)"
    by blast
  have keep: "fc_targetRefundPayoutId (approved_row c f) = fc_targetRefundPayoutId f" "fc_status (approved_row c f) = fc_approved" for f
    by (simp_all add: approved_row_def)
  let ?m = "\<lambda>r. if po_correctedById r = None then r\<lparr>po_correctedById := Some i\<rparr> else r"
  have t: "bk_corrections b' = t_update i (approved_row c) (bk_corrections b)" "bk_returns b' = bk_returns b"
    "bk_reversals b' = bk_reversals b" "bk_adjustments b' = bk_adjustments b" "bk_items b' = bk_items b"
    "bk_payouts b' = (case fc_targetRefundPayoutId f of None \<Rightarrow> bk_payouts b | Some k \<Rightarrow> t_update k ?m (bk_payouts b))"
    by (simp_all add: b' Let_def mark_payout_def split: option.split)
  note link = payoutNotCorrected_decide [OF D(5) f keep(1) t(1), unfolded keep]
  have tok: "target_ok b h" if "map_of (bk_corrections b') j = Some h" for j h
    using target_ok_decide [OF inv keep(1)] that unfolding t(1) .
  have "ret_inv b'"
  proof (cases "fc_targetRefundPayoutId f")
    case None
    with t link D(5) show ?thesis
      by (intro ret_inv_corrections [OF inv _ tok]) simp_all
  next
    case (Some k)
    with D(12) [OF f(1)] obtain p where p: "map_of (bk_payouts b) k = Some p" "po_status p = payout_confirmed"
      by (auto simp: target_ok_def)
    have ok: "pay_ok b k p" using D(10) p(1) .
    show ?thesis
      using t D(5) Some link ok p(2)
      by (intro ret_inv_payout_update [OF inv p(1) _ _ _ _ _ _ _ _ _ _ _ _ tok, where f = ?m])
        (auto simp: pay_ok_def split: if_splits)
  qed
  with Inr show ?thesis by (simp add: Corrections.approve_def)
qed (use inv in \<open>simp add: Corrections.approve_def\<close>)

section \<open>Sales and the rest of the program\<close>

text \<open>No code changes or removes a line of a sale once it is written; lines are only added.\<close>

definition kept :: "books \<Rightarrow> books \<Rightarrow> bool" where
  "kept b b' \<longleftrightarrow>
     (\<exists>rows. bk_items b' = bk_items b @ rows) \<and> bk_returns b' = bk_returns b \<and> bk_reversals b' = bk_reversals b \<and>
     bk_payouts b' = bk_payouts b \<and> bk_adjustments b' = bk_adjustments b \<and> bk_corrections b' = bk_corrections b"

lemma kept_refl [simp]: "kept b b"
  by (simp add: kept_def)

lemma kept_trans: "kept a b \<Longrightarrow> kept b d \<Longrightarrow> kept a d"
  by (auto simp: kept_def)

lemma write_line_kept: "write_line c br s i p b = Inr b' \<Longrightarrow> kept b b'"
  by (auto simp: write_line_def kept_def Let_def t_insert_def split: option.splits if_splits prod.splits)

lemma write_lines_kept: "write_lines c br s ids j ps b = Inr b' \<Longrightarrow> kept b b'"
proof (induction ps arbitrary: j b)
  case (Cons p ps)
  then obtain b1 where "write_line c br s (ids j) p b = Inr b1" "write_lines c br s ids (Suc j) ps b1 = Inr b'" by auto
  with Cons.IH write_line_kept kept_trans show ?case by blast
qed simp

lemma write_payment_same:
  "write_payment c s i p b = Inr b' \<Longrightarrow> \<exists>ps. b' = b\<lparr>bk_payments := ps\<rparr>"
  by (auto simp: write_payment_def Let_def split: option.splits if_splits)

lemma write_payments_same: "write_payments c s ids j ps b = Inr b' \<Longrightarrow> \<exists>ps. b' = b\<lparr>bk_payments := ps\<rparr>"
proof (induction ps arbitrary: j b)
  case Nil
  then show ?case by (intro exI [of _ "bk_payments b"]) simp
next
  case (Cons p ps)
  then obtain b1 where w: "write_payment c s (ids j) p b = Inr b1" "write_payments c s ids (Suc j) ps b1 = Inr b'" by auto
  from write_payment_same [OF w(1)] Cons.IH [OF w(2)] show ?case by auto
qed

lemma same_customers: "\<exists>cs. (b :: books) = b\<lparr>bk_customers := cs\<rparr>"
  by (rule exI [of _ "bk_customers b"]) simp

lemma charge_customer_same: "charge_customer c k d b = Inr b' \<Longrightarrow> \<exists>cs. b' = b\<lparr>bk_customers := cs\<rparr>"
  by (auto simp: charge_customer_def same_customers split: option.splits if_splits)

text \<open>The steps of the transaction of a sale, as the tables after each.\<close>

lemma createSale_tx_Inr:
  assumes "createSale_tx c br ids dto pn b = Inr b'"
  obtains n counters b2 ps cs au no where "next_number br ''invoice'' (bk_counters b) = (n, counters)"
    "write_lines c br (sid_sale ids) (sid_items ids) 0 (pn_lines pn)
       (b\<lparr>bk_counters := counters, bk_sales := t_insert (sid_sale ids) (new_sale c br (invoice_format n) dto pn) (bk_sales b)\<rparr>) = Inr b2"
    "b' = b2\<lparr>bk_payments := ps, bk_customers := cs, bk_audit := au, bk_notifications := no\<rparr>"
    "write_payments c (sid_sale ids) (sid_payments ids) 0 (csl_payments dto) b2 = Inr (b2\<lparr>bk_payments := ps\<rparr>)"
proof -
  obtain n counters where nn: "next_number br ''invoice'' (bk_counters b) = (n, counters)" by fastforce
  let ?b1 = "b\<lparr>bk_counters := counters, bk_sales := t_insert (sid_sale ids) (new_sale c br (invoice_format n) dto pn) (bk_sales b)\<rparr>"
  from assms nn obtain b2 b3 b4 where w: "write_lines c br (sid_sale ids) (sid_items ids) 0 (pn_lines pn) ?b1 = Inr b2"
    "write_payments c (sid_sale ids) (sid_payments ids) 0 (csl_payments dto) b2 = Inr b3"
    "charge_customer c (csl_customerId dto) (pc_balanceDue (pn_payment pn)) b3 = Inr b4"
    "b' = b4\<lparr>bk_audit := bk_audit b4 @ sale_audits c br (sid_sale ids) dto pn, bk_notifications := bk_notifications b4 @
       [\<lparr>n_companyId = c_companyId c, n_branchId = Some br, n_targetUserId = None, n_type = ''sale.recorded'', n_dedupeKey = None\<rparr>]\<rparr>"
    unfolding createSale_tx_def Let_def nn prod.case by (auto split: if_splits)
  from write_payments_same [OF w(2)] obtain ps where ps: "b3 = b2\<lparr>bk_payments := ps\<rparr>" ..
  from charge_customer_same [OF w(3)] obtain cs where cs: "b4 = b3\<lparr>bk_customers := cs\<rparr>" ..
  from w(4) obtain au no where "b' = b4\<lparr>bk_audit := au, bk_notifications := no\<rparr>" by blast
  with nn w ps cs show ?thesis by (intro that [of n counters b2 no au cs ps]) simp_all
qed

lemma createSale_tx_kept:
  assumes "createSale_tx c br ids dto pn b = Inr b'"
  shows "kept b b'"
  using assms
proof (rule createSale_tx_Inr)
  fix n counters b2 ps cs au no
  assume w: "write_lines c br (sid_sale ids) (sid_items ids) 0 (pn_lines pn)
       (b\<lparr>bk_counters := counters, bk_sales := t_insert (sid_sale ids) (new_sale c br (invoice_format n) dto pn) (bk_sales b)\<rparr>) = Inr b2"
    and b': "b' = b2\<lparr>bk_payments := ps, bk_customers := cs, bk_audit := au, bk_notifications := no\<rparr>"
  from write_lines_kept [OF w] show ?thesis by (simp add: kept_def b')
qed

text \<open>A sale either changes nothing or is its transaction on what was planned.\<close>

lemma createSale_cases:
  obtains (same) "fst (snd (createSale c ids dto b)) = b"
  | (sold) br pn b' where "c_branchId c = Some br" "list_all one_kind (csl_lines dto)" "sale_plan c br dto b = Inr pn"
      "createSale_tx c br ids dto pn b = Inr b'" "fst (snd (createSale c ids dto b)) = b'"
proof (cases "c_branchId c")
  case None
  then show ?thesis by (intro same) (simp add: createSale_def)
next
  case (Some br)
  show ?thesis
  proof (cases "c_userId c = None \<or> earlier_sale c dto b \<noteq> None \<or> \<not> list_all one_kind (csl_lines dto)")
    case True
    with Some show ?thesis by (intro same) (auto simp: createSale_def split: option.split)
  next
    case False
    then have ok: "c_userId c \<noteq> None" "earlier_sale c dto b = None" "list_all one_kind (csl_lines dto)"
      by (simp_all del: not_None_eq not_Some_eq)
    show ?thesis
    proof (cases "bindE (sale_plan c br dto b) (\<lambda>pn. createSale_tx c br ids dto pn b)")
      case (Inl e)
      with Some ok show ?thesis by (intro same) (simp add: createSale_def)
    next
      case (Inr b')
      from Inr obtain pn where pn: "sale_plan c br dto b = Inr pn" "createSale_tx c br ids dto pn b = Inr b'" by auto
      with Some ok Inr have "fst (snd (createSale c ids dto b)) = b'"
        by (cases "map_of (bk_sales b') (sid_sale ids)") (auto simp: createSale_def)
      with pn Some ok show ?thesis by (intro sold [of br pn b']) simp_all
    qed
  qed
qed

lemma createSale_kept: "kept b (fst (snd (createSale c ids dto b)))"
  by (cases rule: createSale_cases [of c ids dto b]) (simp_all add: createSale_tx_kept)

lemma ret_inv_kept:
  assumes inv: "ret_inv b" and k: "kept b b'"
  shows "ret_inv b'"
proof (rule ret_inv_corrections [OF inv])
  from k have s: "bk_corrections b' = bk_corrections b" by (simp add: kept_def)
  show "t_wf (bk_corrections b')" using ret_invD(5) [OF inv] by (simp add: s)
  show "target_ok b f" if "map_of (bk_corrections b') j = Some f" for j f using that ret_invD(12) [OF inv] by (simp add: s)
  show "payoutNotCorrected j b' = payoutNotCorrected j b" for j by (simp add: payoutNotCorrected_def s)
  show "map_of (bk_items b') j = Some l" if "map_of (bk_items b) j = Some l" for j l
    using k that by (auto simp: kept_def map_add_def split: option.split)
qed (use k in \<open>simp_all add: kept_def\<close>)

section \<open>The system\<close>

inductive ret_step :: "books \<Rightarrow> books \<Rightarrow> bool" where
  raises: "map_of (bk_returns b) n = None \<Longrightarrow> ret_step b (snd (Returns.create sha256 c n cdto b))"
| receives: "ret_step b (snd (receiveCustody c i rdto b))"
| investigates: "ret_step b (snd (investigate c i idto b))"
| withholds: "map_of (bk_adjustments b) n = None \<Longrightarrow> ret_step b (snd (addAdjustment c n i adto b))"
| drops: "ret_step b (snd (removeAdjustment c i k v b))"
| approves: "map_of (bk_reversals b) n = None \<Longrightarrow> ret_step b (snd (Returns.approve c n i pdto b))"
| rejects: "ret_step b (snd (Returns.reject c i jdto b))"
| reports: "map_of (bk_payouts b) n = None \<Longrightarrow> is_cents (rpr_reportedAmount odto)
    \<Longrightarrow> ret_step b (snd (reportRefund sha256 c n i odto b))"
| recorrects: "ret_step b (snd (correctRefund c i tdto b))"
| confirms: "ret_step b (snd (confirmRefund c i v b))"
| requests: "map_of (bk_corrections b) n = None \<Longrightarrow> ret_step b (snd (request sha256 c n qdto b))"
| undoes: "ret_step b (snd (Corrections.approve c i ddto b))"
| refuses: "ret_step b (snd (Corrections.reject c i ddto b))"
| sells: "ret_step b (fst (snd (createSale c ids sdto b)))"
| others: "kept b b' \<Longrightarrow> ret_step b b'"

definition ret_init :: "books \<Rightarrow> bool" where
  "ret_init b \<longleftrightarrow> bk_returns b = [] \<and> bk_reversals b = [] \<and> bk_payouts b = [] \<and> bk_adjustments b = [] \<and> bk_corrections b = []"

lemmas ret_inv_handlers = ret_inv_create ret_inv_receiveCustody ret_inv_investigate ret_inv_addAdjustment ret_inv_removeAdjustment
  ret_inv_approve ret_inv_reject ret_inv_reportRefund ret_inv_correctRefund ret_inv_confirmRefund ret_inv_request
  ret_inv_correction_approve ret_inv_correction_reject ret_inv_kept ret_inv_kept [OF _ createSale_kept]

interpretation ret_sys: invariant_system ret_init ret_step ret_inv
proof unfold_locales
  show "ret_inv b" if "ret_init b" for b
    using that by (simp add: ret_init_def ret_inv_def tables_wf_def live_for_def)
  show "ret_inv b'" if "ret_inv b" "ret_step b b'" for b b'
    using that(2,1) by (cases rule: ret_step.cases) (simp_all add: ret_inv_handlers)
qed

end
