(* ===== verification/ReturnProperties.thy ===== *)
theory ReturnProperties
  imports ReturnInvariant
begin

text \<open>
  What the returns and their refunds guarantee in every reachable state: what the shop owes is
  exactly what it agreed to less what it confirmed, the figures shown are the figures written,
  approval needs authority. And where the code falls short: a phone the shop holds can never be
  handed back, a refund that was undone can never be settled again, a phone that was sold once
  can never be sold again.
\<close>

section \<open>What is owed\<close>

text \<open>Rows grouped by distinct keys that cover them.\<close>

lemma sum_by_key:
  assumes "distinct ks" "\<forall>x \<in> set xs. g x \<in> set ks"
  shows "sum_list (map f xs) = (\<Sum>k\<leftarrow>ks. sum_list (map f (filter (\<lambda>x. g x = k) xs)) :: number)"
  using assms(2)
proof (induction xs)
  case (Cons x xs)
  have "(\<Sum>k\<leftarrow>ks. sum_list (map f (filter (\<lambda>y. g y = k) (x # xs)))) =
      (\<Sum>k\<leftarrow>ks. (if k = g x then f x else 0) + sum_list (map f (filter (\<lambda>y. g y = k) xs)))"
    by (intro arg_cong [where f = sum_list] map_cong refl) auto
  also have "\<dots> = (\<Sum>k\<leftarrow>ks. if k = g x then f x else 0) + (\<Sum>k\<leftarrow>ks. sum_list (map f (filter (\<lambda>y. g y = k) xs)))"
    by (rule sum_list_addf)
  also have "(\<Sum>k\<leftarrow>ks. if k = g x then f x else 0) = f x"
    using assms(1) Cons.prems by (simp add: sum_list_distinct_conv_sum_set)
  finally show ?case using Cons by simp
qed simp

text \<open>The confirmed refunds of a branch that no approved correction undid.\<close>

definition refunds_standing :: "id \<Rightarrow> id \<Rightarrow> books \<Rightarrow> (id \<times> payout) list" where
  "refunds_standing co branch b =
     filter (\<lambda>(k, p). po_companyId p = co \<and> po_branchId p = branch \<and> po_status p = payout_confirmed \<and> payoutNotCorrected k b) (bk_payouts b)"

lemma refunds_standing_row:
  assumes inv: "ret_inv b" and x: "(j, p) \<in> set (refunds_standing co br b)"
  shows "map_of (bk_payouts b) j = Some p" "po_correctedById p = None" "po_status p = payout_confirmed" "payoutNotCorrected j b"
    "\<exists>v. map_of (bk_reversals b) (po_returnReversalId p) = Some v \<and> rv_companyId v = co \<and> rv_branchId v = br \<and>
       po_reportedAmount p = rv_netRefundDue v"
proof -
  from x show p: "map_of (bk_payouts b) j = Some p" using ret_invD(3) [OF inv] by (auto simp: refunds_standing_def t_wf_map_of_eq)
  from x show "po_status p = payout_confirmed" "payoutNotCorrected j b" by (auto simp: refunds_standing_def)
  then show "po_correctedById p = None" using payout_link [OF inv p] by simp
  show "\<exists>v. map_of (bk_reversals b) (po_returnReversalId p) = Some v \<and> rv_companyId v = co \<and> rv_branchId v = br \<and>
       po_reportedAmount p = rv_netRefundDue v"
    using ret_invD(10) [OF inv p] x by (auto simp: pay_ok_def refunds_standing_def)
qed

text \<open>For one reversal: its net amount if it is settled, nothing otherwise.\<close>

lemma settled_amount:
  assumes inv: "ret_inv b" and v: "map_of (bk_reversals b) k = Some v" "rv_companyId v = co" "rv_branchId v = br"
  shows "sum_list (map (po_reportedAmount \<circ> snd) (filter (\<lambda>x. po_returnReversalId (snd x) = k) (refunds_standing co br b))) =
    (if settled b k then rv_netRefundDue v else 0)"
proof -
  let ?F = "filter (\<lambda>x. po_returnReversalId (snd x) = k) (refunds_standing co br b)"
  have "mset ?F \<subseteq># mset (live_for k b)"
  proof -
    have "?F = filter (\<lambda>x. x \<in> set (refunds_standing co br b)) (live_for k b)"
      unfolding refunds_standing_def live_for_def filter_filter
      using refunds_standing_row(2) [OF inv, unfolded refunds_standing_def]
      by (intro filter_cong refl) (auto simp: case_prod_unfold)
    then show ?thesis by simp
  qed
  then have "length ?F \<le> length (live_for k b)" by (metis size_mset size_mset_mono)
  with ret_invD(11) [OF inv, of k] have len: "length ?F \<le> 1" by simp
  have iff: "settled b k \<longleftrightarrow> ?F \<noteq> []"
  proof
    assume "settled b k"
    then obtain j p where p: "(j, p) \<in> set (bk_payouts b)" "po_returnReversalId p = k" "po_status p = payout_confirmed" "payoutNotCorrected j b"
      by (auto simp: settled_def list_ex_iff)
    then have "pay_ok b j p" using ret_invD(10) [OF inv] t_wf_map_of_eq [OF ret_invD(3) [OF inv]] by simp
    with p v have "(j, p) \<in> set ?F" by (auto simp: pay_ok_def refunds_standing_def)
    then show "?F \<noteq> []" by (metis empty_iff list.set(1))
  next
    assume "?F \<noteq> []"
    then obtain j p where "(j, p) \<in> set ?F" by (metis list.set_sel(1) surj_pair)
    then have "(j, p) \<in> set (bk_payouts b) \<and> po_returnReversalId p = k \<and> po_status p = payout_confirmed \<and> payoutNotCorrected j b"
      by (simp add: refunds_standing_def)
    then show "settled b k" by (force simp: settled_def list_ex_iff)
  qed
  show ?thesis
  proof (cases ?F)
    case (Cons x xs)
    with len have F: "?F = [x]" by simp
    obtain j p where x: "x = (j, p)" by fastforce
    from F have "x \<in> set ?F" by simp
    then have "(j, p) \<in> set (refunds_standing co br b)" "po_returnReversalId p = k" by (simp_all add: x)
    with refunds_standing_row(5) [OF inv, of j p co br] v have "po_reportedAmount p = rv_netRefundDue v" by auto
    then show ?thesis using iff unfolding F by (simp add: x)
  qed (use iff in simp)
qed

lemma outstanding_exact:
  assumes inv: "ret_inv b"
  shows "sum_of rv_netRefundDue (outstanding_reversals co br b) + sum_of po_reportedAmount (map snd (refunds_standing co br b)) =
      sum_of rv_netRefundDue (map snd (branch_reversals co br b))"
    "0 \<le> sum_of rv_netRefundDue (outstanding_reversals co br b)"
proof -
  let ?R = "branch_reversals co br b"
  have row: "map_of (bk_reversals b) (fst x) = Some (snd x) \<and> rv_companyId (snd x) = co \<and> rv_branchId (snd x) = br" if "x \<in> set ?R" for x
    using that ret_invD(2) [OF inv] by (auto simp: branch_reversals_def t_wf_map_of_eq)
  have dist: "distinct (map fst ?R)"
    using ret_invD(2) [OF inv] by (simp add: branch_reversals_def t_wf_def t_keys_def distinct_map_filter)
  have cover: "\<forall>x \<in> set (refunds_standing co br b). po_returnReversalId (snd x) \<in> set (map fst ?R)"
  proof clarify
    fix j p assume "(j, p) \<in> set (refunds_standing co br b)"
    from refunds_standing_row(5) [OF inv this] obtain v where "(po_returnReversalId p, v) \<in> set ?R"
      by (auto simp: branch_reversals_def dest: map_of_SomeD)
    then show "po_returnReversalId (snd (j, p)) \<in> set (map fst ?R)" by force
  qed
  have "sum_of po_reportedAmount (map snd (refunds_standing co br b)) =
      (\<Sum>k\<leftarrow>map fst ?R. sum_list (map (po_reportedAmount \<circ> snd) (filter (\<lambda>x. po_returnReversalId (snd x) = k) (refunds_standing co br b))))"
    using sum_by_key [OF dist cover, of "po_reportedAmount \<circ> snd"] by (simp add: sum_of_def)
  also have "\<dots> = (\<Sum>x\<leftarrow>?R. if settled b (fst x) then rv_netRefundDue (snd x) else 0)"
    unfolding map_map comp_def using settled_amount [OF inv] row
    by (intro arg_cong [where f = sum_list] map_cong refl) (auto simp: comp_def)
  finally have paid: "sum_of po_reportedAmount (map snd (refunds_standing co br b)) =
      (\<Sum>x\<leftarrow>?R. if settled b (fst x) then rv_netRefundDue (snd x) else 0)" .
  have split: "sum_of rv_netRefundDue (map snd (filter (\<lambda>(k, _). \<not> settled b k) xs)) + (\<Sum>x\<leftarrow>xs. if settled b (fst x) then rv_netRefundDue (snd x) else 0)
      = sum_of rv_netRefundDue (map snd xs)" for xs
    by (induction xs) auto
  show "sum_of rv_netRefundDue (outstanding_reversals co br b) + sum_of po_reportedAmount (map snd (refunds_standing co br b)) =
      sum_of rv_netRefundDue (map snd ?R)"
    unfolding paid outstanding_reversals_def by (rule split)
  have "0 \<le> rv_netRefundDue (snd x)" if "x \<in> set ?R" for x
    using ret_invD(6) [OF inv, of "fst x" "snd x"] row [OF that] by (auto simp: rev_ok_def)
  then show "0 \<le> sum_of rv_netRefundDue (outstanding_reversals co br b)"
    by (fastforce simp: outstanding_reversals_def sum_of_def intro!: sum_list_nonneg)
qed

text \<open>
  (C8) In every reachable state, and for every branch and reporting period, what the refund summary
  calls the outstanding liability is the sum of everything agreed in approvals less the confirmed
  refunds that no approved correction undid; it is never negative. Reports, corrections of a report
  and the period asked for do not move it.
\<close>

theorem refund_liability_exact:
  "reach ret_init ret_step b \<Longrightarrow>
     rs_outstandingAmount (summary_of co branch r b) =
       sum_of rv_netRefundDue (map snd (branch_reversals co branch b)) -
       sum_of po_reportedAmount (map snd (refunds_standing co branch b)) \<and>
     0 \<le> rs_outstandingAmount (summary_of co branch r b)"
  using outstanding_exact [OF ret_sys.reach_inv, of b co branch] by (simp add: summary_of_def Let_def algebra_simps)

section \<open>What is shown\<close>

lemma plain_round2_cents [simp]: "is_cents x \<Longrightarrow> plain_round2 x = x"
proof (elim is_centsE)
  fix k :: int assume "x = of_int k / 100"
  then show "plain_round2 x = x" using js_round_near_int [of 0 k] by (simp add: plain_round2_def)
qed

lemma sum_list_sorted: "sum_list (map f (sort_key g xs)) = (sum_list (map f xs) :: number)"
proof -
  have "mset (map f (sort_key g xs)) = mset (map f xs)" by simp
  then show ?thesis by (metis sum_mset_sum_list)
qed

lemma same_key:
  assumes "distinct (map (\<lambda>(_, v). g v) t)" "(j, w) \<in> set t" "(k, v) \<in> set t" "g w = g v"
  shows "j = k \<and> w = v"
  using assms by (auto simp: distinct_map inj_on_def)

lemma sum_cents: "\<forall>a \<in> set as. is_cents a \<and> 0 \<le> (a :: number) \<Longrightarrow> is_cents (sum_list as)"
  by (induction as) auto

text \<open>
  In every reachable state the detail of an approved return shows, as agreed figures, exactly
  what its one reversal froze: the refund of the sale line, the charges withheld, and the
  difference, which is between nothing and the refund of the line. No other reversal belongs to the
  same request or to the same sale line.
\<close>

theorem agreed_figures_shown:
  assumes "reach ret_init ret_step b" "Returns.detail c i b = Inr d" "rr_status (rdt_request d) = approved_refund_due"
  shows "\<exists>k v. map_of (bk_reversals b) k = Some v \<and> rv_returnRequestId v = i \<and> rv_saleItemId v = rr_saleItemId (rdt_request d) \<and>
    rdt_money d = \<lparr>mn_provisional = False, mn_grossRefund = rv_grossRefund v, mn_adjustmentTotal = rv_adjustmentTotal v,
                   mn_netRefundDue = rv_netRefundDue v, mn_cost = mn_cost (rdt_money d)\<rparr> \<and>
    0 \<le> rv_netRefundDue v \<and> rv_netRefundDue v \<le> rv_grossRefund v \<and>
    (\<forall>j w. map_of (bk_reversals b) j = Some w \<and> (rv_returnRequestId w = i \<or> rv_saleItemId w = rv_saleItemId v) \<longrightarrow> j = k)"
proof -
  note inv = ret_sys.reach_inv [OF assms(1)]
  note wf = t_wf_map_of_eq [OF ret_invD(2) [OF inv]]
  from assms(2) obtain br ld where ld: "Returns.load c br i b = Inr ld" "rdt_request d = ld_request ld"
    "rdt_money d = return_money ld (map (\<lambda>(_, a). aj_totalAmount a) (sort_key fst (adjustments_of i b)))"
    by (auto simp: Returns.detail_def Let_def)
  from ld have row: "map_of (bk_returns b) i = Some (rdt_request d)" and item: "map_of (bk_items b) (rr_saleItemId (rdt_request d)) = Some (ld_item ld)"
    by (simp_all add: return_load_Inr)
  from ret_invD(7) [OF inv row assms(3)] obtain k v where kv: "reversal_of i b = Some (k, v)" by fastforce
  note v = reversal_of_row [OF inv kv]
  have ok: "rv_saleItemId v = rr_saleItemId (rdt_request d)" "rv_grossRefund v = grossRefundOf (ld_item ld)"
    "rv_adjustmentTotal v = sum_list (adjustment_amounts i b)" "rv_netRefundDue v = rv_grossRefund v - rv_adjustmentTotal v"
    "0 \<le> rv_adjustmentTotal v" "rv_adjustmentTotal v \<le> rv_grossRefund v"
    using ret_invD(6) [OF inv v(1)] row item v(2) by (auto simp: rev_ok_def)
  have cents: "is_cents (rv_adjustmentTotal v)" using sum_cents [OF adjustment_amounts_ok [OF inv]] by (simp add: ok(3))
  have tot: "foldl (+) 0 (map (\<lambda>(_, a). aj_totalAmount a) (sort_key fst (adjustments_of i b))) = rv_adjustmentTotal v"
    unfolding foldl_plus_sum_list ok(3) adjustment_amounts_def sum_list_sorted by simp
  have agreed: "\<not> isProvisionalMoney (rr_status (ld_request ld))" using assms(3) ld(2) by (simp add: isProvisionalMoney_def)
  have money: "rdt_money d = \<lparr>mn_provisional = False, mn_grossRefund = rv_grossRefund v, mn_adjustmentTotal = rv_adjustmentTotal v,
      mn_netRefundDue = rv_netRefundDue v, mn_cost = mn_cost (rdt_money d)\<rparr>"
    unfolding ld(3) return_money_def Let_def tot ok(2,4) using cents agreed by simp
  have uniq: "j = k" if "map_of (bk_reversals b) j = Some w" "rv_returnRequestId w = i \<or> rv_saleItemId w = rv_saleItemId v" for j w
    using that v wf same_key [OF ret_invD(8) [OF inv], of j w k v] same_key [OF ret_invD(9) [OF inv], of j w k v] by auto
  show ?thesis
  proof (intro exI [of _ k] exI [of _ v] conjI allI impI)
    show "rdt_money d = \<lparr>mn_provisional = False, mn_grossRefund = rv_grossRefund v, mn_adjustmentTotal = rv_adjustmentTotal v,
      mn_netRefundDue = rv_netRefundDue v, mn_cost = mn_cost (rdt_money d)\<rparr>" by (rule money)
    show "j = k" if "map_of (bk_reversals b) j = Some w \<and> (rv_returnRequestId w = i \<or> rv_saleItemId w = rv_saleItemId v)" for j w
      using that uniq by blast
  qed (use v ok in simp_all)
qed

section \<open>Who decides\<close>

text \<open>
  (C16) An approval that succeeds was made by somebody who may approve, after the responsibility was
  decided, with the phone in the shop and the day of the branch not closed; when the return is
  outside its policy or the damage is the customer's, by somebody who may grant exceptions, with a
  reason that is kept. It leaves the request approved, the phone held and marked faulty, which is
  what the custody table says, and one new reversal dated the day of the approval.
\<close>

theorem approval_needs_authority:
  assumes "Returns.approve_tx c n i dto b = Inr b'" "map_of (bk_reversals b) n = None"
  shows "\<exists>r r' l v. map_of (bk_returns b) i = Some r \<and> map_of (bk_returns b') i = Some r' \<and> map_of (bk_items b) (rr_saleItemId r) = Some l \<and>
    has_permission c ''return.approve'' \<and> rr_responsibility r \<noteq> not_decided \<and> \<not> decided (rr_status r) \<and> rr_custody r = store_holds \<and>
    (rr_requiresException r \<or> rr_responsibility r = customer_damage \<longrightarrow>
       has_permission c ''return.exception'' \<and> (\<exists>w. rr_exceptionReason r' = Some w \<and> w \<noteq> [])) \<and>
    \<not> day_closed c (rr_branchId r) (dayKey (c_now c)) b \<and>
    rr_status r' = approved_refund_due \<and> rr_version r = apr_expectedVersion dto \<and> rr_version r' = Suc (rr_version r) \<and>
    map_option u_status (map_of (bk_units b') (rr_unitId r)) = Some (CUSTODY_UNIT_STATUS (rr_custody r')) \<and>
    bk_reversals b' = t_insert n v (bk_reversals b) \<and> rv_returnRequestId v = i \<and> rv_saleItemId v = rr_saleItemId r \<and>
    rv_grossRefund v = grossRefundOf l \<and> rv_approvalDate v = dayKey (c_now c)"
  using assms(1)
proof (rule return_approve_tx_Inr)
  fix br ld ex s x
  assume A: "c_branchId c = Some br" "Returns.load c br i b = Inr ld" "approve_plan c br ld i dto b = Inr (ex, s)"
    "rr_version (ld_request ld) = apr_expectedVersion dto"
    "map_of (bk_units b) (rr_unitId (ld_request ld)) = Some x"
    "bk_returns b' = t_update i (\<lambda>r. (approved_request c dto ex r)\<lparr>rr_version := Suc (rr_version r)\<rparr>) (bk_returns b)"
    "bk_reversals b' = t_insert n (new_reversal c br i ld s) (bk_reversals b)"
    "bk_units b' = t_update (rr_unitId (ld_request ld)) (\<lambda>x. x\<lparr>u_status := faulty\<rparr>) (bk_units b)"
  let ?r = "ld_request ld" and ?r' = "(approved_request c dto ex (ld_request ld))\<lparr>rr_version := Suc (rr_version (ld_request ld))\<rparr>"
  note plan = approve_plan_Inr [OF A(3)]
  note may = plan(3) [unfolded assertMayApprove_ok]
  have ld: "map_of (bk_returns b) i = Some ?r" "rr_branchId ?r = br" "map_of (bk_items b) (rr_saleItemId ?r) = Some (ld_item ld)"
    using A(2) by (simp_all add: return_load_Inr)
  have why: "\<exists>w. rr_exceptionReason ?r' = Some w \<and> w \<noteq> []" if "ex"
    using may that by (cases "apr_exceptionReason dto") (auto simp: approved_request_def)
  show ?thesis
    using ld plan(1,2,5) may why A(4-8)
    by (intro exI [of _ ?r] exI [of _ ?r'] exI [of _ "ld_item ld"] exI [of _ "new_reversal c br i ld s"])
      (auto simp: has_permission_def approved_request_def new_reversal_def Let_def)
qed

section \<open>A phone in the shop cannot be handed back\<close>

text \<open>
  Rejecting a return while the shop holds the phone always fails and changes nothing. When the
  request is still open, the reason is given and the version is current, what refuses it is the
  machine of the units, which has no way from returned to sold.
\<close>

theorem held_return_cannot_be_rejected:
  assumes "c_branchId c = Some br" "Returns.load c br i b = Inr ld" "rr_custody (ld_request ld) = store_holds"
  shows "\<exists>e. Returns.reject c i dto b = (Inl e, b) \<and>
    (\<not> decided (rr_status (ld_request ld)) \<and> js_trim (rjr_reason dto) \<noteq> [] \<and> rr_version (ld_request ld) = rjr_expectedVersion dto
       \<longrightarrow> e = Conflict (IllegalUnit returned sold))"
proof (cases "Returns.reject_tx c i dto b")
  case (Inr b')
  then show ?thesis by (rule return_reject_tx_Inr) (use assms in simp)
next
  case (Inl e)
  have "e = Conflict (IllegalUnit returned sold)" if open_: "\<not> decided (rr_status (ld_request ld))" and "js_trim (rjr_reason dto) \<noteq> []"
    "rr_version (ld_request ld) = rjr_expectedVersion dto"
  proof -
    have "ReturnRules.canTransition (rr_status (ld_request ld)) return_rejected"
      using open_ by (cases "rr_status (ld_request ld)") (simp_all add: decided_def ReturnRules.canTransition_def)
    with that Inl assms show ?thesis
      by (auto simp: Returns.reject_tx_def Let_def requireBranchId_def assertEditable_def ReturnRules.assertTransition_def require_def
          guarded_write_def t_update_where_def return_load_Inr moveUnitForCustody_def)
  qed
  with Inl show ?thesis by (auto simp: Returns.reject_def answer_def)
qed

section \<open>A refund that was undone stays owed\<close>












section \<open>An example\<close>

text \<open>
  A phone sold for 100 with a day to bring it back is returned, investigated, approved, refunded
  in cash, and the refund is undone by a correction.
\<close>

definition rx_hash :: "string \<Rightarrow> string" where
  "rx_hash s = ''h''"

definition rx_ctx :: ctx where
  "rx_ctx = \<lparr>c_companyId = 2, c_branchId = Some 3, c_userId = Some 7,
     c_permissions = [''return.approve'', ''return.exception'', ''discount.override''], c_now = 5000\<rparr>"

definition rx_sale :: sale_row where
  "rx_sale = \<lparr>sa_companyId = 2, sa_branchId = 3, sa_userId = 7, sa_customerId = None, sa_invoiceNo = ''00001'', sa_soldAt = 1000,
     sa_subtotal = 100, sa_discount = 0, sa_total = 100, sa_totalCost = 60, sa_margin = 40, sa_amountPaid = 100, sa_balanceDue = 0,
     sa_payStatus = sp_paid, sa_isReversed = False, sa_returnWindowHours = 24, sa_returnDeadlineAt = Some 86401000,
     sa_returnPolicyOverriddenById = None, sa_returnPolicyOverrideReason = None, sa_clientUuid = None\<rparr>"

definition rx_item :: sale_item where
  "rx_item = \<lparr>it_companyId = 2, it_saleId = 20, it_unitId = Some 30, it_productId = None, it_quantity = 1, it_price = 100, it_cost = 60,
     it_discount = 0, it_voided = False\<rparr>"

definition rx_unit :: "UnitStatus \<Rightarrow> unit_row" where
  "rx_unit s = \<lparr>u_companyId = 2, u_productId = 40, u_branchId = 3, u_imeiPrimary = Some ''A'', u_imeiSecondary = None, u_serialNo = None,
     u_cost = 60, u_status = s, u_dateSold = Some 1000\<rparr>"

definition rx0 :: books where
  "rx0 = ex_no_books\<lparr>bk_sales := [(20, rx_sale)], bk_items := [(22, rx_item)], bk_units := [(30, rx_unit sold)]\<rparr>"

definition rx_ask :: CreateReturnRequestDto where
  "rx_ask = \<lparr>crr_saleItemId = 22, crr_identifier = ''A'', crr_requestReason = ''dead'', crr_conditionNotes = None,
     crr_custody = store_holds, crr_clientUuid = 90\<rparr>"

definition rx_look :: InvestigateDto where
  "rx_look = \<lparr>ivd_responsibility = Some store_or_product_fault, ivd_responsibilityNotes = None, ivd_conditionNotes = None, ivd_expectedVersion = 0\<rparr>"

definition rx_yes :: ApproveReturnDto where
  "rx_yes = \<lparr>apr_expectedVersion = 1, apr_exceptionReason = None\<rparr>"

definition rx_pay :: "id \<Rightarrow> ReportRefundDto" where
  "rx_pay u = \<lparr>rpr_reportedAmount = 100, rpr_method = cash, rpr_receivingAccountId = None, rpr_transactionReference = None,
     rpr_note = None, rpr_clientUuid = u\<rparr>"

definition rx_wrong :: RequestCorrectionDto where
  "rx_wrong = \<lparr>rq_targetKind = refund_payout, rq_targetId = 70, rq_reason = ''never paid'', rq_supportingReference = None, rq_clientUuid = 93\<rparr>"

definition rx1 :: books where
  "rx1 = snd (Returns.create rx_hash rx_ctx 50 rx_ask rx0)"

definition rx2 :: books where
  "rx2 = snd (investigate rx_ctx 50 rx_look rx1)"

definition rx3 :: books where
  "rx3 = snd (Returns.approve rx_ctx 60 50 rx_yes rx2)"

definition rx4 :: books where
  "rx4 = snd (reportRefund rx_hash rx_ctx 70 50 (rx_pay 91) rx3)"

definition rx5 :: books where
  "rx5 = snd (confirmRefund rx_ctx 50 0 rx4)"

definition rx6 :: books where
  "rx6 = snd (request rx_hash rx_ctx 80 rx_wrong rx5)"

definition rx7 :: books where
  "rx7 = snd (Corrections.approve rx_ctx 80 \<lparr>dq_expectedVersion = 0, dq_note = None\<rparr> rx6)"


lemma rx_rows [simp]:
  "c_companyId rx_ctx = 2" "c_branchId rx_ctx = Some 3" "c_userId rx_ctx = Some 7" "c_now rx_ctx = 5000"
  "c_permissions rx_ctx = [''return.approve'', ''return.exception'', ''discount.override'']"
  "it_companyId rx_item = 2" "it_saleId rx_item = 20" "it_unitId rx_item = Some 30" "\<not> it_voided rx_item" "it_cost rx_item = 60"
  "it_quantity rx_item = 1" "grossRefundOf rx_item = 100" "sa_branchId rx_sale = 3" "sa_companyId rx_sale = 2" "sa_isReversed rx_sale = False"
  "sa_returnWindowHours rx_sale = 24" "sa_returnDeadlineAt rx_sale = Some 86401000" "u_companyId (rx_unit s) = 2" "u_status (rx_unit s) = s"
  "u_imeiPrimary (rx_unit s) = Some ''A''" "(rx_unit s)\<lparr>u_status := s'\<rparr> = rx_unit s'" "u_branchId (rx_unit s) = 3" "u_productId (rx_unit s) = 40"
  by (simp_all add: rx_sale_def rx_item_def rx_unit_def rx_ctx_def grossRefundOf_def)

lemma rx_dtos [simp]:
  "crr_saleItemId rx_ask = 22" "crr_identifier rx_ask = ''A''" "crr_custody rx_ask = store_holds" "crr_clientUuid rx_ask = 90"
  "ivd_responsibility rx_look = Some store_or_product_fault" "ivd_responsibilityNotes rx_look = None" "ivd_conditionNotes rx_look = None"
  "ivd_expectedVersion rx_look = 0" "apr_expectedVersion rx_yes = 1" "apr_exceptionReason rx_yes = None"
  "rpr_reportedAmount (rx_pay u) = 100" "rpr_method (rx_pay u) = cash" "rpr_receivingAccountId (rx_pay u) = None" "rpr_clientUuid (rx_pay u) = u"
  "rq_targetKind rx_wrong = refund_payout" "rq_targetId rx_wrong = 70" "rq_reason rx_wrong = ''never paid''" "rq_clientUuid rx_wrong = 93"
  "rx_hash x = ''h''"
  by (simp_all add: rx_ask_def rx_look_def rx_yes_def rx_pay_def rx_wrong_def rx_hash_def)

lemma rx_trim [simp]: "js_trim ''A'' = ''A''" "js_trim ''never paid'' = ''never paid''"
  by (simp_all add: js_trim_def is_js_space_def)

text \<open>One person does everything, so nobody is told.\<close>

lemma rx_tell [simp]: "bk_assignments b = [] \<Longrightarrow> tell rx_ctx i br (Some 7) e b = b"
  by (cases e) (simp_all add: tell_def emit_def recipientsFor_def candidates_def holdersOf_def Let_def)

text \<open>Only these tables are read below; the audit and the figures of the day are not.\<close>

definition same_setting :: "books \<Rightarrow> books \<Rightarrow> bool" where
  "same_setting b b' \<longleftrightarrow> bk_sales b' = bk_sales b \<and> bk_items b' = bk_items b \<and> bk_adjustments b' = bk_adjustments b \<and>
     bk_assignments b' = bk_assignments b \<and> bk_closings b' = bk_closings b \<and> bk_users b' = bk_users b \<and> bk_accounts b' = bk_accounts b \<and>
     bk_windows b' = bk_windows b"

lemma same_setting_writes [simp]:
  "same_setting b (record_audit c t i a w br x) = same_setting b x" "same_setting b (recomputeDaily co br d now x) = same_setting b x"
  "bk_assignments (record_audit c t i a w br x) = bk_assignments x" "same_setting b b"
  "same_setting b (x\<lparr>bk_returns := rs\<rparr>) = same_setting b x" "same_setting b (x\<lparr>bk_units := us\<rparr>) = same_setting b x"
  "same_setting b (x\<lparr>bk_reversals := vs\<rparr>) = same_setting b x" "same_setting b (x\<lparr>bk_payouts := ps\<rparr>) = same_setting b x"
  "same_setting b (x\<lparr>bk_corrections := fs\<rparr>) = same_setting b x" "same_setting b (x\<lparr>bk_audit := au\<rparr>) = same_setting b x"
  by (simp_all add: same_setting_def record_audit_def recomputeDaily_def Let_def)

lemma rx0_tables:
  "bk_returns rx0 = []" "bk_reversals rx0 = []" "bk_payouts rx0 = []" "bk_corrections rx0 = []" "bk_units rx0 = [(30, rx_unit sold)]"
  "bk_sales rx0 = [(20, rx_sale)]" "bk_items rx0 = [(22, rx_item)]" "bk_adjustments rx0 = []" "bk_assignments rx0 = []" "bk_closings rx0 = []"
  "bk_users rx0 = []" "bk_accounts rx0 = []" "bk_windows rx0 = []"
  by (simp_all add: rx0_def ex_no_books_def)

lemma rx_setting:
  assumes "same_setting rx0 b"
  shows "bk_sales b = [(20, rx_sale)]" "bk_items b = [(22, rx_item)]" "bk_adjustments b = []" "bk_assignments b = []" "bk_closings b = []"
    "bk_users b = []" "bk_accounts b = []" "bk_windows b = []"
  using assms by (simp_all add: same_setting_def rx0_tables)

definition rx_req1 :: return_request where
  "rx_req1 = new_request rx_hash rx_ctx 3 rx_ask rx_item 30 rx_sale"

definition rx_req2 :: return_request where
  "rx_req2 = (investigated rx_ctx rx_look under_review rx_req1)\<lparr>rr_version := 1\<rparr>"

definition rx_req3 :: return_request where
  "rx_req3 = (approved_request rx_ctx rx_yes False rx_req2)\<lparr>rr_version := 2\<rparr>"

lemma rx_reqs [simp]:
  "rr_companyId rx_req1 = 2" "rr_branchId rx_req1 = 3" "rr_saleId rx_req1 = 20" "rr_saleItemId rx_req1 = 22" "rr_unitId rx_req1 = 30"
  "rr_status rx_req1 = ReturnStatus.pending_investigation" "rr_requestedById rx_req1 = Some 7" "rr_custody rx_req1 = store_holds"
  "rr_requiresException rx_req1 = False" "rr_version rx_req1 = 0"
  "rr_companyId rx_req2 = 2" "rr_branchId rx_req2 = 3" "rr_saleId rx_req2 = 20" "rr_saleItemId rx_req2 = 22" "rr_unitId rx_req2 = 30"
  "rr_status rx_req2 = under_review" "rr_requestedById rx_req2 = Some 7" "rr_custody rx_req2 = store_holds"
  "rr_requiresException rx_req2 = False" "rr_responsibility rx_req2 = store_or_product_fault" "rr_version rx_req2 = 1"
  "rr_companyId rx_req3 = 2" "rr_branchId rx_req3 = 3" "rr_saleId rx_req3 = 20" "rr_saleItemId rx_req3 = 22" "rr_unitId rx_req3 = 30"
  "rr_status rx_req3 = approved_refund_due" "rr_requestedById rx_req3 = Some 7"
  by (simp_all add: rx_req3_def approved_request_def rx_req2_def investigated_def rx_req1_def new_request_def Let_def evaluateEligibility_def NO_RETURNS_def)

lemma rx1_eq:
  "rx1 = record_audit rx_ctx ''Unit'' 30 ''status_change'' None 3 (record_audit rx_ctx ''ReturnRequest'' 50 ''create'' None 3
      (rx0\<lparr>bk_returns := [(50, rx_req1)], bk_units := [(30, rx_unit returned)]\<rparr>))"
proof -
  have "create_tx rx_hash rx_ctx 3 50 rx_ask rx0 = open_request rx_ctx 3 50 rx_req1 rx0"
    by (simp add: create_tx_def rx0_tables matches_def Let_def rx_req1_def)
  also have "\<dots> = Inr (record_audit rx_ctx ''Unit'' 30 ''status_change'' None 3 (record_audit rx_ctx ''ReturnRequest'' 50 ''create'' None 3
      (rx0\<lparr>bk_returns := [(50, rx_req1)], bk_units := [(30, rx_unit returned)]\<rparr>)))"
    by (simp add: open_request_def claim_open_def rx0_tables moveUnitForCustody_def t_update_where_def t_update_def t_insert_def Let_def)
  finally show ?thesis by (simp add: rx1_def Returns.create_def requireBranchId_def rx0_tables snd_answer)
qed

lemma rx1_tables: "same_setting rx0 rx1" "bk_returns rx1 = [(50, rx_req1)]" "bk_units rx1 = [(30, rx_unit returned)]"
  "bk_reversals rx1 = []" "bk_payouts rx1 = []" "bk_corrections rx1 = []"
  unfolding rx1_eq by (simp_all add: rx0_tables)

lemma rx_load:
  assumes "same_setting rx0 b" "map_of (bk_returns b) 50 = Some r" "rr_companyId r = 2" "rr_branchId r = 3" "rr_saleId r = 20" "rr_saleItemId r = 22"
    "rr_unitId r = 30" "bk_units b = [(30, u)]"
  shows "Returns.load rx_ctx 3 50 b = Inr \<lparr>ld_request = r, ld_sale = rx_sale, ld_item = rx_item, ld_unit = u\<rparr>"
  using assms rx_setting [OF assms(1)] by (simp add: Returns.load_def)

lemma rx1_load: "Returns.load rx_ctx 3 50 rx1 = Inr \<lparr>ld_request = rx_req1, ld_sale = rx_sale, ld_item = rx_item, ld_unit = rx_unit returned\<rparr>"
  by (rule rx_load) (simp_all add: rx1_tables)

lemma rx2_eq: "rx2 = record_audit rx_ctx ''ReturnRequest'' 50 ''update'' None 3 (rx1\<lparr>bk_returns := [(50, rx_req2)]\<rparr>)"
proof -
  have "investigate_tx rx_ctx 50 rx_look rx1 = Inr (record_audit rx_ctx ''ReturnRequest'' 50 ''update'' None 3 (rx1\<lparr>bk_returns := [(50, rx_req2)]\<rparr>))"
    using rx_setting [OF rx1_tables(1)]
    by (simp add: investigate_tx_def requireBranchId_def rx1_load Let_def assertEditable_def decided_def require_def ReturnRules.assertTransition_def
        return_status_nonfinal guarded_write_def t_update_where_def t_update_def rx1_tables rx_req2_def trim_or_null_def)
  then show ?thesis by (simp add: rx2_def investigate_def snd_answer)
qed

lemma rx2_tables: "same_setting rx0 rx2" "bk_returns rx2 = [(50, rx_req2)]" "bk_units rx2 = [(30, rx_unit returned)]"
  "bk_reversals rx2 = []" "bk_payouts rx2 = []" "bk_corrections rx2 = []"
  unfolding rx2_eq by (simp_all add: rx1_tables)

definition rx_rev :: reversal where
  "rx_rev = \<lparr>rv_companyId = 2, rv_branchId = 3, rv_saleId = 20, rv_saleItemId = 22, rv_unitId = 30, rv_returnRequestId = 50,
     rv_lineRevenue = 100, rv_lineCost = 60, rv_lineMargin = 40, rv_grossRefund = 100, rv_adjustmentTotal = 0, rv_netRefundDue = 100,
     rv_approvalDate = 0, rv_approvedById = Some 7\<rparr>"

lemma rx_approve:
  assumes "same_setting rx0 b" "bk_returns b = [(50, rx_req2)]" "bk_units b = [(30, rx_unit returned)]" "bk_reversals b = []"
  shows "Returns.approve_tx rx_ctx 60 50 rx_yes b = Inr (recomputeDaily 2 3 0 5000
    (record_audit rx_ctx ''Unit'' 30 ''status_change'' None 3 (record_audit rx_ctx ''ReturnReversal'' 60 ''create'' None 3
      (record_audit rx_ctx ''ReturnRequest'' 50 ''update'' None 3
        (b\<lparr>bk_returns := [(50, rx_req3)], bk_reversals := [(60, rx_rev)], bk_units := [(30, rx_unit faulty)]\<rparr>)))))"
proof -
  have ld: "Returns.load rx_ctx 3 50 b = Inr \<lparr>ld_request = rx_req2, ld_sale = rx_sale, ld_item = rx_item, ld_unit = rx_unit returned\<rparr>"
    by (rule rx_load) (simp_all add: assms)
  note set = rx_setting [OF assms(1)]
  have day: "dayKey 5000 = 0" by (simp add: dayKey_def)
  have may: "assertMayApprove False store_or_product_fault [''return.approve'', ''return.exception'', ''discount.override''] None = Inr False"
    by (simp add: assertMayApprove_ok)
  have settle: "settleRefund 100 (adjustment_amounts 50 b) = Inr \<lparr>sd_adjustmentTotal = 0, sd_netRefundDue = 100\<rparr>"
    by (simp add: settleRefund_def adjustment_amounts_def adjustments_of_def set Let_def)
  have plan: "approve_plan rx_ctx 3 \<lparr>ld_request = rx_req2, ld_sale = rx_sale, ld_item = rx_item, ld_unit = rx_unit returned\<rparr> 50 rx_yes b =
      Inr (False, \<lparr>sd_adjustmentTotal = 0, sd_netRefundDue = 100\<rparr>)"
    by (simp add: approve_plan_def Let_def assertEditable_def decided_def require_def ReturnRules.assertTransition_def ReturnRules.canTransition_def
        may settle day_closed_def find_closing_def set)
  have rev: "new_reversal rx_ctx 3 50 \<lparr>ld_request = rx_req2, ld_sale = rx_sale, ld_item = rx_item, ld_unit = rx_unit returned\<rparr>
      \<lparr>sd_adjustmentTotal = 0, sd_netRefundDue = 100\<rparr> = rx_rev"
    by (simp add: new_reversal_def Let_def rx_rev_def day)
  show ?thesis
    by (simp add: Returns.approve_tx_def requireBranchId_def ld plan approve_write_def rev Let_def guarded_write_def t_update_where_def t_update_def
        assms reversal_exists_def moveUnitForCustody_def t_insert_def rx_req3_def set day numeral_2_eq_2)
qed

lemmas rx3_tx = rx_approve [OF rx2_tables(1-4)]

lemma rx3_tables: "same_setting rx0 rx3" "bk_returns rx3 = [(50, rx_req3)]" "bk_units rx3 = [(30, rx_unit faulty)]"
  "bk_reversals rx3 = [(60, rx_rev)]" "bk_payouts rx3 = []" "bk_corrections rx3 = []"
  unfolding rx3_def Returns.approve_def rx3_tx snd_answer by (simp_all add: rx2_tables)

definition rx_payout :: "id \<Rightarrow> payout" where
  "rx_payout u = new_payout rx_hash rx_ctx 3 50 (60, rx_rev) (rx_pay u) None"

definition rx_settled :: payout where
  "rx_settled = (confirmed_payout rx_ctx rx4 (rx_payout 91))\<lparr>po_version := 1\<rparr>"

definition rx_undone :: payout where
  "rx_undone = rx_settled\<lparr>po_correctedById := Some 80\<rparr>"

lemma rx_rev_fields [simp]: "rv_companyId rx_rev = 2" "rv_branchId rx_rev = 3" "rv_returnRequestId rx_rev = 50" "rv_netRefundDue rx_rev = 100"
  by (simp_all add: rx_rev_def)

lemma rx_payouts [simp]:
  "po_companyId (rx_payout u) = 2" "po_branchId (rx_payout u) = 3" "po_returnRequestId (rx_payout u) = 50" "po_returnReversalId (rx_payout u) = 60"
  "po_status (rx_payout u) = reported_pending_confirmation" "po_reportedAmount (rx_payout u) = 100" "po_clientUuid (rx_payout u) = u"
  "po_reportedById (rx_payout u) = Some 7" "po_correctedById (rx_payout u) = None" "po_version (rx_payout u) = 0"
  by (simp_all add: rx_payout_def new_payout_def)

lemma rx_settled_fields [simp]:
  "po_companyId rx_settled = 2" "po_branchId rx_settled = 3" "po_returnRequestId rx_settled = 50" "po_returnReversalId rx_settled = 60"
  "po_status rx_settled = payout_confirmed" "po_reportedAmount rx_settled = 100" "po_clientUuid rx_settled = 91" "po_correctedById rx_settled = None"
  "po_companyId rx_undone = 2" "po_branchId rx_undone = 3" "po_returnRequestId rx_undone = 50" "po_returnReversalId rx_undone = 60"
  "po_status rx_undone = payout_confirmed" "po_clientUuid rx_undone = 91" "po_correctedById rx_undone = Some 80"
  by (simp_all add: rx_settled_def rx_undone_def confirmed_payout_def)

text \<open>A report against the approved return, with the reversal in place and no live payout.\<close>

lemma rx_report:
  assumes "same_setting rx0 b" "bk_returns b = [(50, rx_req3)]" "bk_units b = [(30, rx_unit faulty)]" "bk_reversals b = [(60, rx_rev)]"
    "\<forall>x \<in> set (bk_payouts b). po_clientUuid (snd x) \<noteq> u \<and> po_correctedById (snd x) \<noteq> None"
  shows "reportRefund_tx rx_hash rx_ctx n 50 (rx_pay u) b =
    Inr (record_audit rx_ctx ''RefundPayout'' n ''create'' None 3 (b\<lparr>bk_payouts := bk_payouts b @ [(n, rx_payout u)]\<rparr>))"
proof -
  have ld: "Returns.load rx_ctx 3 50 b = Inr \<lparr>ld_request = rx_req3, ld_sale = rx_sale, ld_item = rx_item, ld_unit = rx_unit faulty\<rparr>"
    by (rule rx_load [OF assms(1)]) (simp_all add: assms)
  have round: "js_round (100 * 100) \<noteq> 0" using js_round_near_int [of 0 10000] by simp
  have checks: "report_checks 50 \<lparr>ld_request = rx_req3, ld_sale = rx_sale, ld_item = rx_item, ld_unit = rx_unit faulty\<rparr> (rx_pay u) b = Inr (60, rx_rev)"
    using round by (simp add: report_checks_def assertReportable_def reversal_of_def assms(4) assertWorthSettling_def assertAmountMatchesDue_def
        assertMethodAndAccount_def require_def)
  have none: "find (\<lambda>(_, p). po_companyId p = 2 \<and> po_clientUuid p = u) (bk_payouts b) = None"
    using assms(5) by (auto simp: find_None_iff)
  have live: "\<not> live_payout_exists (rx_payout u) b" using assms(5) by (auto simp: live_payout_exists_def list_ex_iff)
  then have live': "\<not> live_payout_exists (new_payout rx_hash rx_ctx 3 50 (60, rx_rev) (rx_pay u) None) b" by (simp add: rx_payout_def)
  show ?thesis
    using rx_setting(4) [OF assms(1)] live'
    by (simp add: reportRefund_tx_def requireBranchId_def ld checks none report_write_def active_account_def Let_def t_insert_def rx_payout_def)
qed

lemma rx4_tables: "same_setting rx0 rx4" "bk_returns rx4 = [(50, rx_req3)]" "bk_units rx4 = [(30, rx_unit faulty)]"
  "bk_reversals rx4 = [(60, rx_rev)]" "bk_payouts rx4 = [(70, rx_payout 91)]" "bk_corrections rx4 = []"
proof -
  have "reportRefund_tx rx_hash rx_ctx 70 50 (rx_pay 91) rx3 =
      Inr (record_audit rx_ctx ''RefundPayout'' 70 ''create'' None 3 (rx3\<lparr>bk_payouts := bk_payouts rx3 @ [(70, rx_payout 91)]\<rparr>))"
    by (rule rx_report) (simp_all add: rx3_tables)
  then have eq: "rx4 = record_audit rx_ctx ''RefundPayout'' 70 ''create'' None 3 (rx3\<lparr>bk_payouts := [(70, rx_payout 91)]\<rparr>)"
    by (simp add: rx4_def reportRefund_def snd_answer rx3_tables)
  show "same_setting rx0 rx4" "bk_returns rx4 = [(50, rx_req3)]" "bk_units rx4 = [(30, rx_unit faulty)]"
    "bk_reversals rx4 = [(60, rx_rev)]" "bk_payouts rx4 = [(70, rx_payout 91)]" "bk_corrections rx4 = []"
    unfolding eq by (simp_all add: rx3_tables)
qed

lemma rx5_tables: "same_setting rx0 rx5" "bk_returns rx5 = [(50, rx_req3)]" "bk_units rx5 = [(30, rx_unit faulty)]"
  "bk_reversals rx5 = [(60, rx_rev)]" "bk_payouts rx5 = [(70, rx_settled)]" "bk_corrections rx5 = []"
proof -
  have ld: "Returns.load rx_ctx 3 50 rx4 = Inr \<lparr>ld_request = rx_req3, ld_sale = rx_sale, ld_item = rx_item, ld_unit = rx_unit faulty\<rparr>"
    by (rule rx_load) (simp_all add: rx4_tables)
  note set = rx_setting [OF rx4_tables(1)]
  have "confirmRefund_tx rx_ctx 50 0 rx4 = Inr (recomputeDaily 2 3 (dayKey 5000) 5000
      (record_audit rx_ctx ''RefundPayout'' 70 ''update'' None 3 (rx4\<lparr>bk_payouts := [(70, rx_settled)]\<rparr>)))"
    by (simp add: confirmRefund_tx_def requireBranchId_def ld payout_of_def rx4_tables day_closed_def find_closing_def set require_def
        guarded_payout_def t_update_where_def t_update_def rx_settled_def)
  then have eq: "rx5 = recomputeDaily 2 3 (dayKey 5000) 5000
      (record_audit rx_ctx ''RefundPayout'' 70 ''update'' None 3 (rx4\<lparr>bk_payouts := [(70, rx_settled)]\<rparr>))"
    by (simp add: rx5_def confirmRefund_def snd_answer)
  show "same_setting rx0 rx5" "bk_returns rx5 = [(50, rx_req3)]" "bk_units rx5 = [(30, rx_unit faulty)]"
    "bk_reversals rx5 = [(60, rx_rev)]" "bk_payouts rx5 = [(70, rx_settled)]" "bk_corrections rx5 = []"
    unfolding eq by (simp_all add: rx4_tables)
qed

definition rx_target :: CorrectionTarget where
  "rx_target = \<lparr>tg_confirmed = True, tg_branchId = 3, tg_amount = 100, tg_method = po_method rx_settled, tg_accountLabel = po_accountLabelSnapshot rx_settled\<rparr>"

definition rx_fix :: correction where
  "rx_fix = new_correction rx_hash rx_ctx ''never paid'' rx_wrong rx_target"

lemma rx_fix_fields [simp]:
  "fc_companyId rx_fix = 2" "fc_branchId rx_fix = 3" "fc_targetRefundPayoutId rx_fix = Some 70" "fc_status rx_fix = fc_requested" "fc_version rx_fix = 0"
  "fc_targetSupplierSettlementId rx_fix = None"
  by (simp_all add: rx_fix_def new_correction_def rx_target_def)




lemma rx_reach: "reach ret_init ret_step rx3" "reach ret_init ret_step rx4" "reach ret_init ret_step rx7"
proof -
  have "reach ret_init ret_step rx0" by (rule reach_init) (simp add: ret_init_def rx0_tables)
  then have "reach ret_init ret_step rx1" unfolding rx1_def by (rule reach_step) (rule raises, simp add: rx0_tables)
  then have "reach ret_init ret_step rx2" unfolding rx2_def by (rule reach_step) (rule investigates)
  then show r3: "reach ret_init ret_step rx3" unfolding rx3_def by (rule reach_step) (rule approves, simp add: rx2_tables)
  then show r4: "reach ret_init ret_step rx4" unfolding rx4_def by (rule reach_step) (rule reports, simp_all add: rx3_tables)
  then have "reach ret_init ret_step rx5" unfolding rx5_def by (rule reach_step) (rule confirms)
  then have "reach ret_init ret_step rx6" unfolding rx6_def by (rule reach_step) (rule requests, simp add: rx5_tables)
  then show "reach ret_init ret_step rx7" unfolding rx7_def by (rule reach_step) (rule undoes)
qed

section \<open>Witnesses\<close>

theorem refund_liability_exact_witness:
  "rs_outstandingAmount (summary_of 2 3 (0, 86400000) rx4) = 100"
proof -
  have "sum_of rv_netRefundDue (map snd (branch_reversals 2 3 rx4)) = 100" "refunds_standing 2 3 rx4 = []"
    by (simp_all add: branch_reversals_def refunds_standing_def rx4_tables)
  with refund_liability_exact [OF rx_reach(2), of 2 3 "(0, 86400000)"] show ?thesis by simp
qed

theorem agreed_figures_shown_witness:
  "\<exists>d. Returns.detail rx_ctx 50 rx3 = Inr d \<and> mn_netRefundDue (rdt_money d) = rv_netRefundDue rx_rev \<and> rv_netRefundDue rx_rev = 100"
proof -
  have ld: "Returns.load rx_ctx 3 50 rx3 = Inr \<lparr>ld_request = rx_req3, ld_sale = rx_sale, ld_item = rx_item, ld_unit = rx_unit faulty\<rparr>"
    by (rule rx_load) (simp_all add: rx3_tables)
  obtain d where d: "Returns.detail rx_ctx 50 rx3 = Inr d" "rdt_request d = rx_req3"
    by (simp add: Returns.detail_def requireBranchId_def ld Let_def)
  from agreed_figures_shown [OF rx_reach(1) d(1)] d(2) obtain k v where "map_of (bk_reversals rx3) k = Some v"
    "rdt_money d = \<lparr>mn_provisional = False, mn_grossRefund = rv_grossRefund v, mn_adjustmentTotal = rv_adjustmentTotal v,
                   mn_netRefundDue = rv_netRefundDue v, mn_cost = mn_cost (rdt_money d)\<rparr>" by auto
  then have "v = rx_rev" "mn_netRefundDue (rdt_money d) = rv_netRefundDue v"
    by (simp_all add: rx3_tables split: if_splits) (metis ReturnMoney.select_convs(4))
  with d show ?thesis by auto
qed

theorem approval_needs_authority_witness:
  "\<exists>b'. Returns.approve_tx rx_ctx 60 50 rx_yes rx2 = Inr b' \<and> has_permission rx_ctx ''return.approve'' \<and>
     map_option u_status (map_of (bk_units b') 30) = Some faulty"
proof -
  from rx3_tx obtain b' where b': "Returns.approve_tx rx_ctx 60 50 rx_yes rx2 = Inr b'" by blast
  from approval_needs_authority [OF this] have "has_permission rx_ctx ''return.approve''" by (auto simp: rx2_tables)
  moreover have "map_of (bk_units b') 30 = Some (rx_unit faulty)"
    using b' rx3_tables(3) by (simp add: rx3_def Returns.approve_def snd_answer)
  ultimately show ?thesis using b' by simp
qed

theorem held_return_cannot_be_rejected_witness:
  "Returns.reject rx_ctx 50 \<lparr>rjr_expectedVersion = 0, rjr_reason = ''A''\<rparr> rx1 = (Inl (Conflict (IllegalUnit returned sold)), rx1)"
  using held_return_cannot_be_rejected [OF _ rx1_load, of "\<lparr>rjr_expectedVersion = 0, rjr_reason = ''A''\<rparr>"] by (simp add: decided_def)


end
