(* ===== verification/SaleProperties.thy ===== *)
theory SaleProperties
  imports ReturnProperties
begin

text \<open>
  What a sale writes: totals that reconcile with its lines and payments, goods that were there to
  be sold. And two limits: the discount on the whole sale is on no line, and a phone that was
  sold once is refused for ever.
\<close>

section \<open>Lines and payments written\<close>

lemma write_line_items:
  assumes "write_line c br s i p b = Inr b'"
  shows "bk_items b' = bk_items b @ [(i, new_item c s p)]" "bk_payments b' = bk_payments b" "bk_sales b' = bk_sales b"
  using assms by (auto simp: write_line_def Let_def t_insert_def split: option.splits if_splits prod.splits)

lemma write_lines_items:
  "write_lines c br s ids j ps b = Inr b' \<Longrightarrow>
     map snd (bk_items b') = map snd (bk_items b) @ map (new_item c s) ps \<and> bk_payments b' = bk_payments b \<and> bk_sales b' = bk_sales b"
proof (induction ps arbitrary: j b)
  case (Cons p ps)
  then obtain b1 where w: "write_line c br s (ids j) p b = Inr b1" "write_lines c br s ids (Suc j) ps b1 = Inr b'" by auto
  from Cons.IH [OF w(2)] write_line_items [OF w(1)] show ?case by simp
qed simp

lemma write_payment_row:
  assumes "write_payment c s i p b = Inr b'"
  shows "\<exists>r. map snd (bk_payments b') = map snd (bk_payments b) @ [r] \<and> pm_saleId r = s \<and> pm_amount r = pin_amount p"
  using assms by (auto simp: write_payment_def Let_def t_insert_def split: option.splits if_splits)

lemma write_payments_rows:
  "write_payments c s ids j ps b = Inr b' \<Longrightarrow>
     \<exists>rs. map snd (bk_payments b') = map snd (bk_payments b) @ rs \<and> (\<forall>r \<in> set rs. pm_saleId r = s) \<and> map pm_amount rs = map pin_amount ps"
proof (induction ps arbitrary: j b)
  case (Cons p ps)
  then obtain b1 where w: "write_payment c s (ids j) p b = Inr b1" "write_payments c s ids (Suc j) ps b1 = Inr b'" by auto
  from write_payment_row [OF w(1)] obtain r where "map snd (bk_payments b1) = map snd (bk_payments b) @ [r]" "pm_saleId r = s"
    "pm_amount r = pin_amount p" by blast
  moreover from Cons.IH [OF w(2)] obtain rs where "map snd (bk_payments b') = map snd (bk_payments b1) @ rs" "\<forall>r \<in> set rs. pm_saleId r = s"
    "map pm_amount rs = map pin_amount ps" by blast
  ultimately show ?case by (intro exI [of _ "r # rs"]) simp
qed simp

section \<open>Totals\<close>

definition line_cents :: "PreparedLine \<Rightarrow> bool" where
  "line_cents p \<longleftrightarrow> is_cents (pl_price p) \<and> is_cents (pl_discount p)"

lemma is_cents_mult_nat [simp, intro]: "is_cents a \<Longrightarrow> is_cents (a * of_nat n)"
  using is_cents_mult_int [of a "int n"] by (simp add: mult.commute)

definition sale_discount :: "CreateSaleDto \<Rightarrow> number" where
  "sale_discount dto = (case csl_saleDiscount dto of None \<Rightarrow> 0 | Some d \<Rightarrow> d)"

lemma gross_new_item: "line_cents p \<Longrightarrow> grossRefundOf (new_item c s p) = pl_price p * of_nat (pl_quantity p) - pl_discount p"
  by (simp add: grossRefundOf_def new_item_def line_cents_def)

lemma line_sums:
  assumes "\<forall>p \<in> set ps. line_cents p"
  shows "is_cents (sum_of (\<lambda>p. pl_price p * of_nat (pl_quantity p)) ps)" "is_cents (sum_of pl_discount ps)"
    "sum_of grossRefundOf (map (new_item c s) ps) = sum_of (\<lambda>p. pl_price p * of_nat (pl_quantity p)) ps - sum_of pl_discount ps"
  using assms by (induction ps) (auto simp: line_cents_def gross_new_item)

lemma sale_totals_exact:
  assumes "\<forall>p \<in> set ps. line_cents p" "is_cents (case d of None \<Rightarrow> 0 | Some x \<Rightarrow> x)"
  shows "tot_total (sale_totals ps d) = sum_of grossRefundOf (map (new_item c s) ps) - (case d of None \<Rightarrow> 0 | Some x \<Rightarrow> x)"
  using line_sums [OF assms(1)] assms(2) by (simp add: sale_totals_def Let_def)

lemma sale_plan_Inr:
  assumes "sale_plan c br dto b = Inr pn"
  shows "prepare_lines c br (csl_lines dto) b = Inr (pn_lines pn)" "pn_totals pn = sale_totals (pn_lines pn) (csl_saleDiscount dto)"
    "0 \<le> tot_total (pn_totals pn)" "reconcilePayments (map pin_amount (csl_payments dto)) (tot_total (pn_totals pn)) = Inr (pn_payment pn)"
    "assertCreditHasCustomer (pc_payStatus (pn_payment pn)) (csl_customerId dto) = Inr ()"
    "assertBelowCostAllowed (tot_margin (pn_totals pn)) (has_permission c ''discount.override'') (csl_overrideReason dto) = Inr ()"
  using assms by (auto simp: sale_plan_def Let_def)

text \<open>
  (C6) A sale that succeeds, with amounts in whole cents, is written so that everything reconciles:
  its lines are the lines planned and its payments the payments given; what was paid plus what is
  due is the total, nothing is due beyond it, and the sale is marked paid exactly when nothing is
  due; a sale that leaves something due has a customer. The lines by themselves add up to the total
  plus the discount on the whole sale: that discount is on no line, so revenue and refunds, which
  are computed from the lines, count it as if it had been paid.
\<close>

theorem sale_reconciles:
  assumes "sale_plan c br dto b = Inr pn" "createSale_tx c br ids dto pn b = Inr b'"
    "map_of (bk_sales b) (sid_sale ids) = None" "\<forall>x \<in> set (bk_items b). it_saleId (snd x) \<noteq> sid_sale ids"
    "\<forall>x \<in> set (bk_payments b). pm_saleId (snd x) \<noteq> sid_sale ids"
    "\<forall>p \<in> set (pn_lines pn). line_cents p" "\<forall>p \<in> set (csl_payments dto). is_cents (pin_amount p) \<and> 0 < pin_amount p"
    "is_cents (sale_discount dto)"
  shows "\<exists>s. map_of (bk_sales b') (sid_sale ids) = Some s \<and>
    items_of_sale (sid_sale ids) b' = map (new_item c (sid_sale ids)) (pn_lines pn) \<and>
    sa_amountPaid s = sum_of pm_amount (rows_where (\<lambda>p. pm_saleId p = sid_sale ids) (bk_payments b')) \<and>
    sa_amountPaid s + sa_balanceDue s = sa_total s \<and> 0 \<le> sa_balanceDue s \<and> (sa_payStatus s = sp_paid \<longleftrightarrow> sa_balanceDue s = 0) \<and>
    (sa_balanceDue s > 0 \<longrightarrow> sa_customerId s \<noteq> None) \<and>
    sum_of grossRefundOf (items_of_sale (sid_sale ids) b') = sa_total s + sale_discount dto"
  using assms(2)
proof (rule createSale_tx_Inr)
  fix n counters b2 ps cs au no
  let ?i = "sid_sale ids" and ?s = "new_sale c br (invoice_format n) dto pn"
  assume w: "write_lines c br ?i (sid_items ids) 0 (pn_lines pn) (b\<lparr>bk_counters := counters, bk_sales := t_insert ?i ?s (bk_sales b)\<rparr>) = Inr b2"
    and b': "b' = b2\<lparr>bk_payments := ps, bk_customers := cs, bk_audit := au, bk_notifications := no\<rparr>"
    and pay: "write_payments c ?i (sid_payments ids) 0 (csl_payments dto) b2 = Inr (b2\<lparr>bk_payments := ps\<rparr>)"
  note W = write_lines_items [OF w, simplified]
  note P = sale_plan_Inr [OF assms(1)]
  have lines: "items_of_sale ?i b' = map (new_item c ?i) (pn_lines pn)"
  proof -
    have "filter (\<lambda>x. it_saleId x = ?i) (map snd (bk_items b)) = []" using assms(4) by (simp add: filter_empty_conv)
    moreover have "filter (\<lambda>x. it_saleId x = ?i) (map (new_item c ?i) qs) = map (new_item c ?i) qs" for qs
      by (induction qs) (simp_all add: new_item_def)
    ultimately show ?thesis using W by (simp add: items_of_sale_def rows_where_def b')
  qed
  from write_payments_rows [OF pay] obtain rs where rs: "map snd ps = map snd (bk_payments b) @ rs" "\<forall>r \<in> set rs. pm_saleId r = ?i"
    "map pm_amount rs = map pin_amount (csl_payments dto)" using W by auto
  have "filter (\<lambda>p. pm_saleId p = ?i) (map snd (bk_payments b)) = []" using assms(5) by (simp add: filter_empty_conv)
  moreover have "filter (\<lambda>p. pm_saleId p = ?i) rs = rs" using rs(2) by (simp add: filter_id_conv)
  ultimately have paid: "sum_of pm_amount (rows_where (\<lambda>p. pm_saleId p = ?i) (bk_payments b')) = sum_list (map pin_amount (csl_payments dto))"
    using rs by (simp add: rows_where_def b' sum_of_def)
  have total: "tot_total (pn_totals pn) = sum_of grossRefundOf (map (new_item c ?i) (pn_lines pn)) - sale_discount dto"
    using sale_totals_exact [OF assms(6)] assms(8) by (simp add: P(2) sale_discount_def)
  have "is_cents (tot_total (pn_totals pn))" by (simp add: P(2) sale_totals_def Let_def)
  from reconcilePayments_ok [OF P(4) _ this] assms(7) have R: "pc_amountPaid (pn_payment pn) = sum_list (map pin_amount (csl_payments dto))"
    "pc_amountPaid (pn_payment pn) + pc_balanceDue (pn_payment pn) = tot_total (pn_totals pn)" "0 \<le> pc_balanceDue (pn_payment pn)"
    "pc_payStatus (pn_payment pn) = sp_paid \<longleftrightarrow> pc_balanceDue (pn_payment pn) = 0" by auto
  have cust: "csl_customerId dto \<noteq> None" if "0 < pc_balanceDue (pn_payment pn)"
    using that P(5) R(4) by (cases "pc_payStatus (pn_payment pn)") (auto simp: assertCreditHasCustomer_def)
  have row: "map_of (bk_sales b') ?i = Some ?s" using W assms(3) by (simp add: b')
  show ?thesis
    unfolding lines using row paid total R cust by (intro exI [of _ ?s]) (simp add: new_sale_def)
qed

section \<open>Goods\<close>

text \<open>What a written line did to the goods: the unit it claimed was in stock, the stock it took was free.\<close>

definition within_stock :: "books \<Rightarrow> bool" where
  "within_stock b \<longleftrightarrow> (\<forall>k r. map_of (bk_stock b) k = Some r \<longrightarrow> si_reservedQuantity r \<le> si_quantity r)"

lemma write_line_unit:
  assumes "write_line c br s i p b = Inr b'" "pl_unitId p = Some u"
  obtains x where "\<not> unit_on_line u b" "map_of (bk_units b) u = Some x" "u_companyId x = c_companyId c" "u_status x = in_stock"
    "bk_units b' = t_update u (sold_row c) (bk_units b)" "bk_stock b' = bk_stock b"
  using assms by (auto simp: write_line_def Let_def t_update_where_def split: if_splits option.splits)

lemma write_line_quantity:
  assumes "write_line c br s i p b = Inr b'" "pl_unitId p = None"
  obtains r where "map_of (bk_stock b) (c_companyId c, pl_productId p, br) = Some r"
    "si_reservedQuantity r \<le> si_quantity r - int (pl_quantity p)"
    "bk_stock b' = t_update (c_companyId c, pl_productId p, br) (\<lambda>r. r\<lparr>si_quantity := si_quantity r - int (pl_quantity p)\<rparr>) (bk_stock b)"
    "bk_units b' = bk_units b"
  using assms by (auto simp: write_line_def Let_def t_update_where_def split: if_splits option.splits)

lemma write_line_goods:
  assumes w: "write_line c br s i p b = Inr b'"
  shows "within_stock b \<Longrightarrow> within_stock b'"
    "map_option u_status (map_of (bk_units b) u) = Some sold \<Longrightarrow> map_option u_status (map_of (bk_units b') u) = Some sold"
    "pl_unitId p = Some u \<Longrightarrow> map_option u_status (map_of (bk_units b) u) = Some in_stock \<and> \<not> unit_on_line u b \<and>
       map_option u_status (map_of (bk_units b') u) = Some sold \<and> unit_on_line u b'"
    "unit_on_line u b \<Longrightarrow> unit_on_line u b'"
proof -
  have units: "bk_units b' = bk_units b \<or> (\<exists>v x. map_of (bk_units b) v = Some x \<and> u_status x = in_stock \<and> bk_units b' = t_update v (sold_row c) (bk_units b))"
  proof (cases "pl_unitId p")
    case None
    with w show ?thesis by (auto elim: write_line_quantity)
  next
    case (Some v)
    with w show ?thesis by (auto elim: write_line_unit)
  qed
  show "within_stock b'" if ok: "within_stock b"
  proof (cases "pl_unitId p")
    case None
    with w ok show ?thesis by (auto simp: within_stock_def elim!: write_line_quantity split: if_splits)
  next
    case (Some v)
    with w ok show ?thesis by (auto simp: within_stock_def elim!: write_line_unit)
  qed
  show "map_option u_status (map_of (bk_units b') u) = Some sold" if "map_option u_status (map_of (bk_units b) u) = Some sold"
    using units that by (auto simp: sold_row_def)
  show line: "unit_on_line u b'" if "unit_on_line u b" using that write_line_items(1) [OF w] by (auto simp: unit_on_line_def)
  show "map_option u_status (map_of (bk_units b) u) = Some in_stock \<and> \<not> unit_on_line u b \<and>
       map_option u_status (map_of (bk_units b') u) = Some sold \<and> unit_on_line u b'" if "pl_unitId p = Some u"
    using w that
  proof (rule write_line_unit)
    fix x assume "\<not> unit_on_line u b" "map_of (bk_units b) u = Some x" "u_status x = in_stock" "bk_units b' = t_update u (sold_row c) (bk_units b)"
    with that show ?thesis using write_line_items(1) [OF w] by (auto simp: unit_on_line_def sold_row_def new_item_def)
  qed
qed

lemma write_lines_goods:
  assumes "write_lines c br s ids j ps b = Inr b'"
  shows "(within_stock b \<longrightarrow> within_stock b') \<and>
    (map_option u_status (map_of (bk_units b) u) = Some sold \<longrightarrow> map_option u_status (map_of (bk_units b') u) = Some sold) \<and>
    (unit_on_line u b \<longrightarrow> unit_on_line u b' \<and> (\<forall>p \<in> set ps. pl_unitId p \<noteq> Some u)) \<and>
    ((\<exists>p \<in> set ps. pl_unitId p = Some u) \<longrightarrow> \<not> unit_on_line u b \<and> map_option u_status (map_of (bk_units b') u) = Some sold)"
  using assms
proof (induction ps arbitrary: j b)
  case (Cons p ps)
  then obtain b1 where w: "write_line c br s (ids j) p b = Inr b1" "write_lines c br s ids (Suc j) ps b1 = Inr b'" by auto
  note rest = Cons.IH [OF w(2)]
  note here = write_line_goods(1) [OF w(1)] write_line_goods(2) [OF w(1), of u] write_line_goods(3) [OF w(1), of u] write_line_goods(4) [OF w(1), of u]
  show ?case
  proof (intro conjI impI)
    show "within_stock b'" if "within_stock b" using rest here(1) that by blast
    show "map_option u_status (map_of (bk_units b') u) = Some sold" if "map_option u_status (map_of (bk_units b) u) = Some sold"
      using rest here(2) that by blast
    show "unit_on_line u b'" if "unit_on_line u b" using rest here(4) that by blast
    show "\<forall>q \<in> set (p # ps). pl_unitId q \<noteq> Some u" if "unit_on_line u b"
      using rest here(3,4) that by (metis set_ConsD)
    show "\<not> unit_on_line u b" if "\<exists>q \<in> set (p # ps). pl_unitId q = Some u"
      using rest here(3,4) that by (metis set_ConsD)
    show "map_option u_status (map_of (bk_units b') u) = Some sold" if "\<exists>q \<in> set (p # ps). pl_unitId q = Some u"
      using rest here(3) that by (metis set_ConsD)
  qed
qed simp

text \<open>The machine is followed: a unit that the sale names was in stock at the branch of the sale.\<close>

lemma prepare_lines_units:
  assumes "prepare_lines c br ls b = Inr ps" "p \<in> set ps" "pl_unitId p = Some u"
  shows "\<exists>x. (u, x) \<in> set (bk_units b) \<and> u_companyId x = c_companyId c \<and> u_status x = in_stock \<and> u_branchId x = br"
  using assms
proof (induction ls arbitrary: ps)
  case (Cons l ls)
  then obtain q qs where q: "prepare_line c br l b = Inr q" "prepare_lines c br ls b = Inr qs" "ps = q # qs" by auto
  show ?case
  proof (cases "p = q")
    case True
    with q(1) Cons.prems(3) have "prepare_unit c br (the (sli_identifier l)) l b = Inr p"
      by (auto simp: prepare_line_def prepare_stock_def Let_def split: if_splits option.splits)
    with Cons.prems(3) obtain x where "find (\<lambda>(_, x). u_companyId x = c_companyId c \<and> answers_to (the (sli_identifier l)) x) (bk_units b) = Some (u, x)"
      "assertSellable x br = Inr ()" by (auto simp: prepare_unit_def split: option.splits)
    then show ?thesis by (auto simp: assertSellable_def dest!: find_in_table split: if_splits)
  next
    case False
    with Cons q show ?thesis by auto
  qed
qed simp

lemma sale_goods:
  assumes "sale_plan c br dto b = Inr pn" "createSale_tx c br ids dto pn b = Inr b'"
  shows "(within_stock b \<longrightarrow> within_stock b') \<and> distinct (filter (\<lambda>u. u \<noteq> None) (map pl_unitId (pn_lines pn))) \<and>
    (\<forall>p u. p \<in> set (pn_lines pn) \<and> pl_unitId p = Some u \<longrightarrow>
       (\<exists>x. (u, x) \<in> set (bk_units b) \<and> u_companyId x = c_companyId c \<and> u_status x = in_stock \<and> u_branchId x = br) \<and>
       \<not> unit_on_line u b \<and> map_option u_status (map_of (bk_units b') u) = Some sold)"
  using assms(2)
proof (rule createSale_tx_Inr)
  fix n counters b2 ps cs au no
  let ?b1 = "b\<lparr>bk_counters := counters, bk_sales := t_insert (sid_sale ids) (new_sale c br (invoice_format n) dto pn) (bk_sales b)\<rparr>"
  assume w: "write_lines c br (sid_sale ids) (sid_items ids) 0 (pn_lines pn) ?b1 = Inr b2"
    and b': "b' = b2\<lparr>bk_payments := ps, bk_customers := cs, bk_audit := au, bk_notifications := no\<rparr>"
  have dist: "distinct (filter (\<lambda>u. u \<noteq> None) (map pl_unitId qs))" if "write_lines c br s ids j qs b = Inr b''" for s ids j qs b b''
    using that
  proof (induction qs arbitrary: j b)
    case (Cons q qs)
    then obtain b1 where v: "write_line c br s (ids j) q b = Inr b1" "write_lines c br s ids (Suc j) qs b1 = Inr b''" by auto
    show ?case
    proof (cases "pl_unitId q")
      case (Some u)
      then have "Some u \<notin> pl_unitId ` set qs"
        using write_line_goods(3) [OF v(1)] write_lines_goods [OF v(2), of u] by (metis imageE)
      with Some Cons.IH [OF v(2)] show ?thesis by simp
    qed (use Cons.IH [OF v(2)] in simp)
  qed simp
  have same: "unit_on_line u ?b1 = unit_on_line u b" "within_stock ?b1 = within_stock b" "within_stock b' = within_stock b2"
    "bk_units b' = bk_units b2" for u by (simp_all add: unit_on_line_def within_stock_def b')
  show ?thesis
    using write_lines_goods [OF w] dist [OF w] prepare_lines_units [OF sale_plan_Inr(1) [OF assms(1)]] unfolding same by blast
qed

section \<open>A phone is sold once\<close>

lemma answer_lines:
  "(\<And>b'. r = Inr b' \<Longrightarrow> \<exists>rows. bk_items b' = bk_items b @ rows) \<Longrightarrow> \<exists>rows. bk_items (snd (answer c i b r)) = bk_items b @ rows"
  by (auto simp: snd_answer split: sum.split)

lemma edits_lines: "edits i b b' \<Longrightarrow> \<exists>rows. bk_items b' = bk_items b @ rows"
  by (simp add: edits_def)

lemma ret_step_lines:
  assumes "ret_step b b'"
  shows "\<exists>rows. bk_items b' = bk_items b @ rows"
  using assms
proof (cases rule: ret_step.cases)
  case (raises n sha256 c dto)
  have "\<exists>rows. bk_items (snd (answer c n b (create_tx sha256 c x n dto b))) = bk_items b @ rows" for x
    by (rule answer_lines) (rule edits_lines [OF create_tx_edits(1) [OF _ raises(2)]])
  then show ?thesis unfolding raises(1) by (simp add: Returns.create_def split: sum.split option.split)
next
  case (receives c i dto)
  have "\<exists>rows. bk_items b1 = bk_items b @ rows" if "receiveCustody_tx c i dto b = Inr b1" for b1
    using receiveCustody_tx_edits [OF that] edits_lines by auto
  then show ?thesis unfolding receives receiveCustody_def by (rule answer_lines)
next
  case (investigates c i dto)
  show ?thesis unfolding investigates investigate_def by (rule answer_lines) (rule edits_lines [OF investigate_tx_edits(1)])
next
  case (withholds n c i dto)
  show ?thesis unfolding withholds addAdjustment_def by (rule answer_lines, erule addAdjustment_tx_edits) (rule edits_lines)
next
  case (drops c i k v)
  show ?thesis unfolding drops removeAdjustment_def by (rule answer_lines, erule removeAdjustment_tx_edits) (rule edits_lines)
next
  case (approves n c i dto)
  show ?thesis unfolding approves Returns.approve_def by (rule answer_lines, erule return_approve_tx_Inr) simp
next
  case (rejects c i dto)
  show ?thesis unfolding rejects Returns.reject_def by (rule answer_lines) (rule edits_lines [OF reject_tx_edits(1)])
next
  case (reports n dto sha256 c i)
  show ?thesis unfolding reports reportRefund_def by (rule answer_lines, erule reportRefund_tx_Inr) simp_all
next
  case (recorrects c i dto)
  show ?thesis unfolding recorrects correctRefund_def
    by (rule answer_lines, erule correctRefund_tx_Inr, erule guarded_payout_Inr) simp
next
  case (confirms c i v)
  show ?thesis unfolding confirms confirmRefund_def
    by (rule answer_lines, erule confirmRefund_tx_Inr) (auto elim: guarded_payout_Inr)
next
  case (requests n sha256 c dto)
  then show ?thesis by (auto simp: request_def elim!: request_tx_Inr split: sum.split)
next
  case (undoes c i dto)
  then show ?thesis
    by (auto simp: Corrections.approve_def Let_def mark_payout_def elim!: correction_approve_tx_Inr split: sum.split option.split)
next
  case (refuses c i dto)
  then show ?thesis by (auto simp: Corrections.reject_def elim!: correction_reject_tx_Inr split: sum.split)
next
  case (sells c ids dto)
  with createSale_kept show ?thesis by (auto simp: kept_def)
next
  case others
  then show ?thesis by (auto simp: kept_def)
qed

lemma unit_stays_on_line: "ret_step\<^sup>*\<^sup>* b b' \<Longrightarrow> unit_on_line u b \<Longrightarrow> unit_on_line u b'"
proof (induction rule: rtranclp_induct)
  case (step y z)
  with ret_step_lines [of y z] show ?case by (auto simp: unit_on_line_def)
qed

text \<open>
  (C9) A sale that succeeds takes only goods that were there: every phone on it was in stock at the
  branch of the sale, on no other line, appears once on the sale and is sold afterwards; and no
  quantity row that covered its reservations stops covering them.
\<close>

theorem sale_takes_free_goods:
  assumes "sale_plan c br dto b = Inr pn" "createSale_tx c br ids dto pn b = Inr b'"
  shows "(within_stock b \<longrightarrow> within_stock b') \<and> distinct (filter (\<lambda>u. u \<noteq> None) (map pl_unitId (pn_lines pn))) \<and>
    (\<forall>p u. p \<in> set (pn_lines pn) \<and> pl_unitId p = Some u \<longrightarrow>
       (\<exists>x. (u, x) \<in> set (bk_units b) \<and> u_companyId x = c_companyId c \<and> u_status x = in_stock \<and> u_branchId x = br) \<and>
       \<not> unit_on_line u b \<and> map_option u_status (map_of (bk_units b') u) = Some sold)"
  using sale_goods [OF assms] .

text \<open>
  (C34) A phone that is on a sale line is never sold again. Whatever happened to it since - returned,
  refunded, inspected and put back in stock - and although the sale is otherwise in order, selling
  it fails and changes nothing: no step of the program takes the line away, and the claim on the
  unit is unique among lines that are not voided.
\<close>

theorem sold_phone_never_resold:
  assumes "unit_on_line u b" "ret_step\<^sup>*\<^sup>* b b'" "c_branchId c = Some br" "earlier_sale c dto b' = None"
    "sale_plan c br dto b' = Inr pn" "\<exists>p \<in> set (pn_lines pn). pl_unitId p = Some u"
  shows "\<exists>e. createSale c ids dto b' = (Inl e, b', None)"
proof (cases "createSale_tx c br ids dto pn b'")
  case (Inr b2)
  with sale_goods [OF assms(5) Inr] assms(6) unit_stays_on_line [OF assms(2,1)] show ?thesis by blast
next
  case (Inl e)
  with assms show ?thesis by (auto simp: createSale_def split: if_splits)
qed

section \<open>Two small limits\<close>

text \<open>
  A refund the charges consume can never be reported, so its reversal is counted among what is
  outstanding for ever.
\<close>

theorem zero_refund_stays_counted:
  assumes "reach ret_init ret_step b" "map_of (bk_reversals b) k = Some v" "rv_netRefundDue v = 0"
  shows "\<not> settled b k \<and> v \<in> set (outstanding_reversals (rv_companyId v) (rv_branchId v) b)"
proof -
  note inv = ret_sys.reach_inv [OF assms(1)]
  have "\<not> settled b k"
  proof
    assume "settled b k"
    then obtain j p where "(j, p) \<in> set (bk_payouts b)" "po_returnReversalId p = k" by (auto simp: settled_def list_ex_iff)
    moreover from this have "pay_ok b j p" using ret_invD(10) [OF inv] t_wf_map_of_eq [OF ret_invD(3) [OF inv]] by simp
    ultimately show False using assms(2,3) by (auto simp: pay_ok_def)
  qed
  with assms(2) show ?thesis by (force simp: outstanding_reversals_def branch_reversals_def dest: map_of_SomeD)
qed

text \<open>
  Two different reports of a refund have the same fingerprint, whatever the hash, because the parts
  are joined by a space that a part may contain.
\<close>

theorem payout_fingerprint_collides:
  "fingerprintPayout sha256 i m a x (Some ''A'') (Some ''B C'') = fingerprintPayout sha256 i m a x (Some ''A B'') (Some ''C'')"
proof -
  have "js_trim ''A'' = ''A''" "js_trim ''B C'' = ''B C''" "js_trim ''A B'' = ''A B''" "js_trim ''C'' = ''C''"
    by (simp_all add: js_trim_def is_js_space_def)
  then show ?thesis by (simp add: fingerprintPayout_def or_empty_def)
qed

section \<open>Witnesses\<close>

text \<open>A phone on the shelf, offered at 100 with 10 off the whole sale; and the phone of the return, put back on the shelf.\<close>

definition sx_dto :: "string \<Rightarrow> CreateSaleDto" where
  "sx_dto identifier = \<lparr>csl_lines = [\<lparr>sli_identifier = Some identifier, sli_productId = None, sli_quantity = None, sli_price = Some 100, sli_discount = None\<rparr>],
     csl_payments = [\<lparr>pin_method = pm_cash, pin_amount = 90, pin_receivingAccountId = None\<rparr>], csl_customerId = None,
     csl_saleDiscount = Some 10, csl_overrideReason = None, csl_returnWindowHours = None, csl_returnPolicyReason = None, csl_clientUuid = None\<rparr>"

definition sx_ids :: sale_ids where
  "sx_ids = \<lparr>sid_sale = 120, sid_items = (\<lambda>j. 130 + j), sid_payments = (\<lambda>j. 140 + j)\<rparr>"

definition sx0 :: books where
  "sx0 = ex_no_books\<lparr>bk_units := [(30, rx_unit in_stock)]\<rparr>"

definition sx_back :: books where
  "sx_back = rx3\<lparr>bk_units := [(30, rx_unit in_stock)]\<rparr>"

definition sx_line :: PreparedLine where
  "sx_line = \<lparr>pl_unitId = Some 30, pl_productId = 40, pl_quantity = 1, pl_price = 100, pl_discount = 0, pl_cost = 60\<rparr>"

definition sx_plan :: SalePlan where
  "sx_plan = \<lparr>pn_lines = [sx_line],
     pn_totals = \<lparr>tot_subtotal = 100, tot_discount = 10, tot_total = 90, tot_totalCost = 60, tot_margin = 30\<rparr>,
     pn_payment = \<lparr>pc_amountPaid = 90, pc_balanceDue = 0, pc_payStatus = sp_paid\<rparr>,
     pn_window = \<lparr>rw_windowHours = 0, rw_overrideReason = None, rw_overridden = False\<rparr>,
     pn_policy = \<lparr>ps_windowHours = 0, ps_deadlineAt = None\<rparr>\<rparr>"

lemma sx_plan_eq:
  assumes "bk_units b = [(30, rx_unit in_stock)]" "bk_windows b = []"
  shows "sale_plan rx_ctx 3 (sx_dto ''A'') b = Inr sx_plan"
proof -
  have cost: "u_cost (rx_unit in_stock) = 60" by (simp add: rx_unit_def)
  have lines: "prepare_lines rx_ctx 3 (csl_lines (sx_dto ''A'')) b = Inr [sx_line]"
    by (simp add: sx_dto_def prepare_line_def present_def prepare_unit_def assms(1) answers_to_def assertSellable_def resolvePrice_def sx_line_def cost)
  have totals: "sale_totals [sx_line] (Some 10) = \<lparr>tot_subtotal = 100, tot_discount = 10, tot_total = 90, tot_totalCost = 60, tot_margin = 30\<rparr>"
    by (simp add: sale_totals_def sx_line_def Let_def)
  have pays: "reconcilePayments [90] 90 = Inr \<lparr>pc_amountPaid = 90, pc_balanceDue = 0, pc_payStatus = sp_paid\<rparr>"
    by (simp add: reconcilePayments_def Let_def EPSILON_def)
  have dto: "csl_saleDiscount (sx_dto ''A'') = Some 10" "map pin_amount (csl_payments (sx_dto ''A'')) = [90]" "csl_customerId (sx_dto ''A'') = None"
    "csl_returnWindowHours (sx_dto ''A'') = None" by (simp_all add: sx_dto_def)
  show ?thesis
    unfolding sale_plan_def lines bindE.simps Let_def dto totals
    by (simp add: require_def assertBelowCostAllowed_def EPSILON_def pays assertCreditHasCustomer_def assms(2) resolveWindowForSale_def
        snapshotPolicy_def NO_RETURNS_def MAX_WINDOW_HOURS_def sx_plan_def)
qed

lemma sx_tx: "\<exists>b'. createSale_tx rx_ctx 3 sx_ids (sx_dto ''A'') sx_plan sx0 = Inr b'"
  by (simp add: createSale_tx_def next_number_def sx0_def ex_no_books_def Let_def sx_dto_def sx_plan_def sx_line_def write_line_def unit_on_line_def
      t_update_where_def write_payment_def payment_account_def charge_customer_def)

lemma sx0_plan: "sale_plan rx_ctx 3 (sx_dto ''A'') sx0 = Inr sx_plan"
  by (rule sx_plan_eq) (simp_all add: sx0_def ex_no_books_def)

theorem sale_reconciles_witness:
  "\<exists>b' s. createSale_tx rx_ctx 3 sx_ids (sx_dto ''A'') sx_plan sx0 = Inr b' \<and> map_of (bk_sales b') 120 = Some s \<and>
     sum_of grossRefundOf (items_of_sale 120 b') = sa_total s + 10"
proof -
  from sx_tx obtain b' where b': "createSale_tx rx_ctx 3 sx_ids (sx_dto ''A'') sx_plan sx0 = Inr b'" ..
  from sale_reconciles [OF sx0_plan b'] obtain s where "map_of (bk_sales b') 120 = Some s"
    "sum_of grossRefundOf (items_of_sale 120 b') = sa_total s + sale_discount (sx_dto ''A'')"
    by (auto simp: sx0_def ex_no_books_def sx_ids_def sx_plan_def sx_line_def line_cents_def sx_dto_def sale_discount_def)
  with b' show ?thesis by (auto simp: sale_discount_def sx_dto_def)
qed

theorem sale_takes_free_goods_witness:
  "\<exists>b'. createSale_tx rx_ctx 3 sx_ids (sx_dto ''A'') sx_plan sx0 = Inr b' \<and> \<not> unit_on_line 30 sx0 \<and>
     map_option u_status (map_of (bk_units b') 30) = Some sold"
proof -
  from sx_tx obtain b' where b': "createSale_tx rx_ctx 3 sx_ids (sx_dto ''A'') sx_plan sx0 = Inr b'" ..
  have "sx_line \<in> set (pn_lines sx_plan) \<and> pl_unitId sx_line = Some 30" by (simp add: sx_plan_def sx_line_def)
  with sale_takes_free_goods [OF sx0_plan b'] b' show ?thesis by blast
qed

theorem sold_phone_never_resold_witness:
  "u_status (snd (hd (bk_units sx_back))) = in_stock \<and> (\<exists>e. createSale rx_ctx sx_ids (sx_dto ''A'') sx_back = (Inl e, sx_back, None))"
proof -
  have units: "bk_units sx_back = [(30, rx_unit in_stock)]" by (simp add: sx_back_def)
  have line: "unit_on_line 30 rx3" using rx_setting(2) [OF rx3_tables(1)] by (simp add: unit_on_line_def)
  have "ret_step rx3 sx_back" by (rule others) (simp add: kept_def sx_back_def)
  then have step: "ret_step\<^sup>*\<^sup>* rx3 sx_back" by simp
  have "earlier_sale rx_ctx (sx_dto ''A'') sx_back = None" by (simp add: earlier_sale_def sx_dto_def)
  moreover have "bk_windows sx_back = []" using rx_setting(8) [OF rx3_tables(1)] by (simp add: sx_back_def)
  then have "sale_plan rx_ctx 3 (sx_dto ''A'') sx_back = Inr sx_plan" by (rule sx_plan_eq [OF units])
  moreover have "\<exists>p \<in> set (pn_lines sx_plan). pl_unitId p = Some 30" by (simp add: sx_plan_def sx_line_def)
  ultimately show ?thesis using sold_phone_never_resold [OF line step] by (simp add: units)
qed

end
