(* ===== verification/Goals.thy ===== *)
theory Goals
  imports Closing
begin

text \<open>
  Goals: how one is doing (\<^verbatim>\<open>goals/goal-progress.ts\<close>) and the service that keeps them
  (\<^verbatim>\<open>goals/goals.service.ts\<close>). Days are day numbers, which compare as the keys of the code do.
  Progress is read from the rollups, or from the sale lines for a goal of one person.
\<close>

section \<open>Progress\<close>

datatype GoalState = not_started | on_track | behind | met | missed

record Progress =
  pg_target :: number
  pg_achieved :: number
  pg_percent :: number
  pg_remaining :: number
  pg_state :: GoalState
  pg_daysTotal :: int
  pg_daysElapsed :: int
  pg_daysRemaining :: int
  pg_expectedByNow :: "number option"
  pg_neededPerRemainingDay :: "number option"

definition daysBetween :: "nat \<Rightarrow> nat \<Rightarrow> int" where
  "daysBetween start stop = int stop - int start + 1"

record ProgressInput =
  gin_target :: number
  gin_achieved :: number
  gin_periodStart :: nat
  gin_periodEnd :: nat
  gin_today :: nat

definition computeProgress :: "ProgressInput \<Rightarrow> Progress" where
  "computeProgress inp =
     (let target = gin_target inp; achieved = gin_achieved inp; today = gin_today inp;
          daysTotal = daysBetween (gin_periodStart inp) (gin_periodEnd inp);
          started = (today \<ge> gin_periodStart inp);
          ended = (today > gin_periodEnd inp);
          daysElapsed = (if \<not> started then 0 else if ended then daysTotal else daysBetween (gin_periodStart inp) today);
          daysRemaining = max 0 (daysTotal - daysElapsed);
          remaining = round2 (max 0 (target - achieved));
          expectedByNow = (if \<not> started then None else Some (round2 (target / of_int daysTotal * of_int daysElapsed)));
          state = (if achieved \<ge> target then met
                   else if \<not> started then not_started
                   else if ended then missed
                   else if achieved \<ge> the expectedByNow then on_track else behind)
      in \<lparr>pg_target = round2 target, pg_achieved = round2 achieved,
          pg_percent = (if target > 0 then round2 (achieved / target * 100) else 0),
          pg_remaining = remaining, pg_state = state,
          pg_daysTotal = daysTotal, pg_daysElapsed = daysElapsed, pg_daysRemaining = daysRemaining,
          pg_expectedByNow = expectedByNow,
          pg_neededPerRemainingDay = (if state = met \<or> ended \<or> daysRemaining = 0 then None
                                      else Some (round2 (remaining / of_int daysRemaining)))\<rparr>)"

datatype GoalMetric = gross_profit | revenue | sales_count | units_sold

text \<open>The column of the rollup a metric reads.\<close>

fun METRIC_COLUMN :: "GoalMetric \<Rightarrow> rollup \<Rightarrow> number" where
  "METRIC_COLUMN gross_profit r = ru_grossProfit r"
| "METRIC_COLUMN revenue r = ru_revenue r"
| "METRIC_COLUMN sales_count r = of_nat (ru_salesCount r)"
| "METRIC_COLUMN units_sold r = of_nat (ru_qtySold r)"

definition isMoneyMetric :: "GoalMetric \<Rightarrow> bool" where
  "isMoneyMetric m \<longleftrightarrow> m = gross_profit \<or> m = revenue"

section \<open>Goals\<close>

datatype GoalScope = company_scope | branch_scope | user_scope

datatype GoalPeriodLabel = daily | weekly | monthly | custom

datatype GoalStatus = goal_active | goal_archived

record goal =
  gl_companyId :: id
  gl_scope :: GoalScope
  gl_branchId :: "id option"
  gl_targetUserId :: "id option"
  gl_metric :: GoalMetric
  gl_periodStart :: nat
  gl_periodEnd :: nat
  gl_periodLabel :: GoalPeriodLabel
  gl_targetAmount :: number
  gl_status :: GoalStatus
  gl_archivedReason :: "string option"
  gl_note :: "string option"
  gl_createdById :: id
  gl_createdAt :: nat
  gl_version :: nat

record goal_state =
  gs_goals :: "(id, goal) table"
  gs_books :: books

datatype goal_reason =
    NoUser
  | PeriodBackwards
  | WhichBranch
  | WhichPerson
  | NotInShop
  | GoalExists
  | NoSuchGoal
  | AlreadyArchived
  | ArchiveNeedsReason
  | GoalChanged
  | GoalNoBranch

type_synonym goal_error = "goal_reason http_error"

record CreateGoalDto =
  cg_scope :: GoalScope
  cg_branchId :: "id option"
  cg_targetUserId :: "id option"
  cg_metric :: GoalMetric
  cg_periodStart :: nat
  cg_periodEnd :: nat
  cg_periodLabel :: "GoalPeriodLabel option"
  cg_targetAmount :: number
  cg_note :: "string option"

section \<open>What was achieved\<close>

definition within_days :: "nat \<Rightarrow> nat \<Rightarrow> nat \<Rightarrow> bool" where
  "within_days start stop d \<longleftrightarrow> start \<le> d \<and> d \<le> stop"

text \<open>Branch and company scope read the rollups; without a branch, those of every branch.\<close>

definition rollup_achieved :: "id \<Rightarrow> id option \<Rightarrow> GoalMetric \<Rightarrow> nat \<Rightarrow> nat \<Rightarrow> books \<Rightarrow> number" where
  "rollup_achieved co branch m start stop b =
     sum_of (\<lambda>(_, r). METRIC_COLUMN m r)
       (filter (\<lambda>((br, d), r). ru_companyId r = co \<and> within_days start stop d \<and> (case branch of None \<Rightarrow> True | Some x \<Rightarrow> br = x)) (bk_rollups b))"

definition sold_by :: "id option \<Rightarrow> id option \<Rightarrow> nat \<Rightarrow> nat \<Rightarrow> sale_row \<Rightarrow> bool" where
  "sold_by branch person start stop s \<longleftrightarrow>
     Some (sa_branchId s) = branch \<and> Some (sa_userId s) = person \<and> within_days start stop (dayKey (sa_soldAt s))"

fun line_value :: "GoalMetric \<Rightarrow> sale_item \<Rightarrow> number" where
  "line_value gross_profit i = (it_price i * of_nat (it_quantity i) - it_discount i) - it_cost i * of_nat (it_quantity i)"
| "line_value revenue i = it_price i * of_nat (it_quantity i) - it_discount i"
| "line_value units_sold i = of_nat (it_quantity i)"
| "line_value sales_count i = 0"

definition personal_items :: "id \<Rightarrow> id option \<Rightarrow> id option \<Rightarrow> nat \<Rightarrow> nat \<Rightarrow> books \<Rightarrow> sale_item list" where
  "personal_items co branch person start stop b =
     rows_where (\<lambda>i. it_companyId i = co \<and> \<not> it_voided i \<and>
                     (case map_of (bk_sales b) (it_saleId i) of None \<Rightarrow> False | Some s \<Rightarrow> sold_by branch person start stop s)) (bk_items b)"

text \<open>Sales are counted on the sale, from midnight of the first day to midnight after the last.\<close>

definition personal_achieved :: "id \<Rightarrow> id option \<Rightarrow> id option \<Rightarrow> GoalMetric \<Rightarrow> nat \<Rightarrow> nat \<Rightarrow> books \<Rightarrow> number" where
  "personal_achieved co branch person m start stop b =
     (if m = sales_count
      then of_nat (length (rows_where (\<lambda>s. sa_companyId s = co \<and> Some (sa_branchId s) = branch \<and> Some (sa_userId s) = person \<and>
                                            start * 86400000 \<le> sa_soldAt s \<and> sa_soldAt s < stop * 86400000 + 86400000) (bk_sales b)))
      else sum_of (line_value m) (personal_items co branch person start stop b))"

definition achieved :: "goal \<Rightarrow> ctx \<Rightarrow> books \<Rightarrow> number" where
  "achieved g c b =
     (if gl_scope g \<noteq> user_scope
      then rollup_achieved (c_companyId c) (gl_branchId g) (gl_metric g) (gl_periodStart g) (gl_periodEnd g) b
      else personal_achieved (c_companyId c) (gl_branchId g) (gl_targetUserId g) (gl_metric g) (gl_periodStart g) (gl_periodEnd g) b)"

section \<open>The service\<close>

record GoalView =
  gv_id :: id
  gv_goal :: goal
  gv_targetUser :: "string option"
  gv_isMoney :: bool
  gv_progress :: Progress

definition withProgress :: "ctx \<Rightarrow> goal_state \<Rightarrow> id \<times> goal \<Rightarrow> GoalView" where
  "withProgress c s x =
     (case x of (i, g) \<Rightarrow>
        \<lparr>gv_id = i, gv_goal = g,
         gv_targetUser = Option.bind (gl_targetUserId g) (\<lambda>u. map_option us_name (map_of (bk_users (gs_books s)) u)),
         gv_isMoney = isMoneyMetric (gl_metric g),
         gv_progress = computeProgress
           \<lparr>gin_target = gl_targetAmount g, gin_achieved = achieved g c (gs_books s), gin_periodStart = gl_periodStart g,
            gin_periodEnd = gl_periodEnd g, gin_today = dayKey (c_now c)\<rparr>\<rparr>)"

definition canManage :: "ctx \<Rightarrow> bool" where
  "canManage c \<longleftrightarrow> c_userId c \<noteq> None \<and> has_permission c ''goal.manage''"

definition goal_branch :: "ctx \<Rightarrow> goal_error + id" where
  "goal_branch c = (case c_branchId c of None \<Rightarrow> Inl (BadRequest GoalNoBranch) | Some br \<Rightarrow> Inr br)"

text \<open>The goal of the company of the request with this identifier, of the whole company or of the branch.\<close>

definition find_goal :: "ctx \<Rightarrow> id \<Rightarrow> id \<Rightarrow> goal_state \<Rightarrow> goal option" where
  "find_goal c br i s =
     (case map_of (gs_goals s) i of
        None \<Rightarrow> None
      | Some g \<Rightarrow> if gl_companyId g = c_companyId c \<and> (gl_scope g = company_scope \<or> gl_branchId g = Some br) then Some g else None)"

definition get :: "ctx \<Rightarrow> id \<Rightarrow> goal_state \<Rightarrow> goal_error + GoalView" where
  "get c i s =
     bindE (goal_branch c) (\<lambda>br.
       case find_goal c br i s of
         None \<Rightarrow> Inl (NotFound NoSuchGoal)
       | Some g \<Rightarrow>
           if gl_scope g = user_scope \<and> \<not> canManage c \<and> (c_userId c = None \<or> gl_targetUserId g \<noteq> c_userId c)
           then Inl (NotFound NoSuchGoal)
           else Inr (withProgress c s (i, g)))"

text \<open>Without a user the filter on the person is absent, as an undefined filter is in the query.\<close>

definition in_view :: "ctx \<Rightarrow> id \<Rightarrow> bool \<Rightarrow> goal \<Rightarrow> bool" where
  "in_view c br includeArchived g \<longleftrightarrow>
     gl_companyId g = c_companyId c \<and> (includeArchived \<or> gl_status g = goal_active) \<and>
     (gl_scope g = company_scope \<or> gl_scope g = branch_scope \<and> gl_branchId g = Some br \<or>
      gl_scope g = user_scope \<and> gl_branchId g = Some br \<and> (canManage c \<or> c_userId c = None \<or> gl_targetUserId g = c_userId c))"

definition list_goals :: "ctx \<Rightarrow> bool \<Rightarrow> goal_state \<Rightarrow> goal_error + GoalView list" where
  "list_goals c includeArchived s =
     bindE (goal_branch c) (\<lambda>br.
       Inr (map (withProgress c s)
              (take 100 (rev (sort_key (\<lambda>(_, g). gl_periodEnd g) (sort_key (\<lambda>(_, g). gl_createdAt g)
                 (filter (\<lambda>(_, g). in_view c br includeArchived g) (gs_goals s))))))))"

text \<open>The unique key over the goals that are active.\<close>

definition same_active_key :: "goal \<Rightarrow> goal \<Rightarrow> bool" where
  "same_active_key g h \<longleftrightarrow>
     gl_status g = goal_active \<and> gl_status h = goal_active \<and> gl_companyId g = gl_companyId h \<and> gl_scope g = gl_scope h \<and>
     gl_branchId g = gl_branchId h \<and> gl_targetUserId g = gl_targetUserId h \<and> gl_metric g = gl_metric h \<and>
     gl_periodStart g = gl_periodStart h \<and> gl_periodEnd g = gl_periodEnd h"

definition requireBranch :: "CreateGoalDto \<Rightarrow> goal_error + id option" where
  "requireBranch dto =
     (if cg_scope dto = company_scope then Inr None
      else case cg_branchId dto of None \<Rightarrow> Inl (BadRequest WhichBranch) | Some br \<Rightarrow> Inr (Some br))"

definition requireUser :: "CreateGoalDto \<Rightarrow> goal_error + id option" where
  "requireUser dto =
     (if cg_scope dto \<noteq> user_scope then Inr None
      else case cg_targetUserId dto of None \<Rightarrow> Inl (BadRequest WhichPerson) | Some u \<Rightarrow> Inr (Some u))"

definition new_goal :: "ctx \<Rightarrow> id \<Rightarrow> CreateGoalDto \<Rightarrow> id option \<Rightarrow> id option \<Rightarrow> goal" where
  "new_goal c creator dto branch person =
     \<lparr>gl_companyId = c_companyId c, gl_scope = cg_scope dto, gl_branchId = branch, gl_targetUserId = person, gl_metric = cg_metric dto,
      gl_periodStart = cg_periodStart dto, gl_periodEnd = cg_periodEnd dto,
      gl_periodLabel = (case cg_periodLabel dto of None \<Rightarrow> custom | Some l \<Rightarrow> l), gl_targetAmount = cg_targetAmount dto,
      gl_status = goal_active, gl_archivedReason = None, gl_note = cg_note dto, gl_createdById = creator, gl_createdAt = c_now c, gl_version = 0\<rparr>"

definition plan_goal :: "ctx \<Rightarrow> CreateGoalDto \<Rightarrow> goal_state \<Rightarrow> goal_error + goal" where
  "plan_goal c dto s =
     (case c_userId c of
        None \<Rightarrow> Inl (BadRequest NoUser)
      | Some creator \<Rightarrow>
          bindE (require (cg_periodStart dto \<le> cg_periodEnd dto) (BadRequest PeriodBackwards)) (\<lambda>_.
          bindE (requireBranch dto) (\<lambda>branch.
          bindE (requireUser dto) (\<lambda>person.
          bindE (require (case person of
                            None \<Rightarrow> True
                          | Some u \<Rightarrow> (case map_of (bk_users (gs_books s)) u of None \<Rightarrow> False | Some x \<Rightarrow> us_companyId x = c_companyId c))
                   (BadRequest NotInShop)) (\<lambda>_.
          let g = new_goal c creator dto branch person
          in bindE (require (\<not> list_ex (\<lambda>(_, h). same_active_key g h) (gs_goals s)) (Conflict GoalExists)) (\<lambda>_. Inr g))))))"

text \<open>The row and its audit entry are written before the answer is read back.\<close>

definition create :: "ctx \<Rightarrow> id \<Rightarrow> CreateGoalDto \<Rightarrow> goal_state \<Rightarrow> (goal_error + GoalView) \<times> goal_state" where
  "create c newId dto s =
     (case plan_goal c dto s of
        Inl e \<Rightarrow> (Inl e, s)
      | Inr g \<Rightarrow>
          (let s' = s\<lparr>gs_goals := t_insert newId g (gs_goals s),
                       gs_books := (gs_books s)\<lparr>bk_audit := bk_audit (gs_books s) @ [audit_row_of c ''Goal'' newId ''create'' None (gl_branchId g)]\<rparr>\<rparr>
           in (get c newId s', s')))"

definition archived :: "string \<Rightarrow> goal \<Rightarrow> goal" where
  "archived reason g = g\<lparr>gl_status := goal_archived, gl_archivedReason := Some (js_trim reason), gl_version := Suc (gl_version g)\<rparr>"

definition archive_read :: "ctx \<Rightarrow> id \<Rightarrow> string option \<Rightarrow> goal_state \<Rightarrow> goal_error + goal \<times> string" where
  "archive_read c i reason s =
     bindE (goal_branch c) (\<lambda>br.
       case find_goal c br i s of
         None \<Rightarrow> Inl (NotFound NoSuchGoal)
       | Some g \<Rightarrow>
           if gl_status g = goal_archived then Inl (Conflict AlreadyArchived)
           else if blank reason then Inl (BadRequest ArchiveNeedsReason)
           else Inr (g, the reason))"

definition archive_write :: "ctx \<Rightarrow> id \<Rightarrow> goal \<Rightarrow> string \<Rightarrow> goal_state \<Rightarrow> goal_error + goal_state" where
  "archive_write c i g reason s =
     (case t_update_where i (\<lambda>h. gl_companyId h = c_companyId c \<and> gl_version h = gl_version g \<and> gl_status h = goal_active) (archived reason) (gs_goals s) of
        (won, gs) \<Rightarrow>
          if won = 0 then Inl (Conflict GoalChanged)
          else Inr (s\<lparr>gs_goals := gs,
                      gs_books := (gs_books s)\<lparr>bk_audit := bk_audit (gs_books s) @ [audit_row_of c ''Goal'' i ''update'' None (gl_branchId g)]\<rparr>\<rparr>))"

definition archive :: "ctx \<Rightarrow> id \<Rightarrow> string option \<Rightarrow> goal_state \<Rightarrow> (goal_error + GoalView) \<times> goal_state" where
  "archive c i reason s =
     (case archive_read c i reason s of
        Inl e \<Rightarrow> (Inl e, s)
      | Inr (g, r) \<Rightarrow>
          (case archive_write c i g r s of
             Inl e \<Rightarrow> (Inl e, s)
           | Inr s' \<Rightarrow> (get c i s', s')))"

end
