(* ===== verification/GoalProperties.thy ===== *)
theory GoalProperties
  imports Goals ReturnProperties
begin

text \<open>
  What goals show: the goals of the people of a branch add up to the goal of the branch, the goals
  of others stay private, progress is consistent; and what they do not show, returned goods.
\<close>

section \<open>Sums over groups\<close>


lemma sum_of_map_filter: "sum_of f (filter p (map g xs)) = sum_of (\<lambda>x. f (g x)) (filter (\<lambda>x. p (g x)) xs)"
  by (induction xs) auto

lemma sum_of_t_update:
  assumes "\<And>v. (k, v) \<in> set t \<Longrightarrow> Q (k, f v) = Q (k, v) \<and> (Q (k, v) \<longrightarrow> h (k, f v) = (h (k, v) :: number))"
  shows "sum_of h (filter Q (t_update k f t)) = sum_of h (filter Q t)"
  using assms
proof (induction t)
  case (Cons x t)
  obtain j v where x: "x = (j, v)" by force
  have "Q (j, if j = k then f v else v) = Q (j, v) \<and> (Q (j, v) \<longrightarrow> h (j, if j = k then f v else v) = h (j, v))"
    using Cons.prems [of v] by (auto simp: x)
  moreover have "sum_of h (filter Q (t_update k f t)) = sum_of h (filter Q t)" using Cons by simp
  ultimately show ?case by (simp add: x t_update_def)
qed (simp add: t_update_def)

section \<open>Lines, days and rollups\<close>


lemma is_cents_times_nat [simp]: "is_cents a \<Longrightarrow> is_cents (a * of_nat n)"
  using is_cents_mult_int [of a "int n"] by (simp add: mult.commute)










text \<open>
  Rollups that were recomputed after the last sale: a row shows the figures of its day, and a day
  without one has no lines.
\<close>

definition rollups_fresh :: "id \<Rightarrow> id \<Rightarrow> books \<Rightarrow> bool" where
  "rollups_fresh co br b \<longleftrightarrow> t_wf (bk_rollups b) \<and>
     (\<forall>d. case map_of (bk_rollups b) (br, d) of
            None \<Rightarrow> day_items co br d b = []
          | Some r \<Rightarrow> ru_companyId r = co \<and> (\<forall>m. METRIC_COLUMN m r = METRIC_COLUMN m (daily_figures co br d 0 b)))"



section \<open>Returns\<close>

lemma day_items_cong: "bk_items b' = bk_items b \<Longrightarrow> bk_sales b' = bk_sales b \<Longrightarrow> day_items co br d b' = day_items co br d b"
  by (simp add: day_items_def sold_on_def)

lemma metric_cong:
  assumes "bk_items b' = bk_items b" "bk_sales b' = bk_sales b"
  shows "METRIC_COLUMN m (daily_figures co br d now b') = METRIC_COLUMN m (daily_figures co br d now' b)"
  by (cases m) (simp_all add: daily_figures_def Let_def day_items_cong [OF assms])

lemma metric_empty: "day_items co br d b = [] \<Longrightarrow> METRIC_COLUMN m (daily_figures co br d now b) = 0"
  by (cases m) (simp_all add: daily_figures_def Let_def)

text \<open>Recomputing a day of a branch whose rollups are up to date leaves every total as it was.\<close>

lemma rollup_achieved_recompute:
  assumes "rollups_fresh co br b" "bk_items b' = bk_items b" "bk_sales b' = bk_sales b" "bk_rollups b' = bk_rollups b"
  shows "rollup_achieved co branch m start stop (recomputeDaily co br d now b') = rollup_achieved co branch m start stop b"
proof -
  let ?fig = "daily_figures co br d now b'"
  have wf: "t_wf (bk_rollups b)" using assms(1) by (simp add: rollups_fresh_def)
  have met: "METRIC_COLUMN m ?fig = METRIC_COLUMN m (daily_figures co br d 0 b)" by (rule metric_cong [OF assms(2,3)])
  show ?thesis
  proof (cases "map_of (bk_rollups b) (br, d)")
    case None
    with assms(1) have "day_items co br d b = []" by (auto simp: rollups_fresh_def split: option.splits dest: spec [of _ d])
    then have "METRIC_COLUMN m ?fig = 0" by (simp add: met metric_empty)
    with None show ?thesis by (simp add: rollup_achieved_def recomputeDaily_def Let_def assms(4) t_insert_def)
  next
    case (Some r)
    with assms(1) have r: "METRIC_COLUMN m r = METRIC_COLUMN m ?fig"
      by (auto simp: rollups_fresh_def met split: option.splits dest: spec [of _ d])
    have m_co: "METRIC_COLUMN m (x\<lparr>ru_companyId := y\<rparr>) = METRIC_COLUMN m x" for x y by (cases m) simp_all
    from Some show ?thesis
      unfolding rollup_achieved_def recomputeDaily_def Let_def assms(4)
      by (simp, intro sum_of_t_update) (use Some r m_co wf in \<open>auto simp: t_wf_map_of_eq [symmetric]\<close>)
  qed
qed

lemma approve_tx_recompute:
  assumes "Returns.approve_tx c n i dto b = Inr b'"
  shows "\<exists>br b1. c_branchId c = Some br \<and> b' = recomputeDaily (c_companyId c) br (dayKey (c_now c)) (c_now c) b1 \<and>
    bk_items b1 = bk_items b \<and> bk_sales b1 = bk_sales b \<and> bk_rollups b1 = bk_rollups b"
proof -
  from assms obtain br ld plan b1 where *: "c_branchId c = Some br" "approve_write c br n ld i dto plan b = Inr b1"
    "b' = recomputeDaily (c_companyId c) br (dayKey (c_now c)) (c_now c) b1"
    unfolding Returns.approve_tx_def bindE_Inr requireBranchId_Inr by blast
  from *(2) have "bk_items b1 = bk_items b \<and> bk_sales b1 = bk_sales b \<and> bk_rollups b1 = bk_rollups b"
    unfolding approve_write_def Let_def
    by (auto simp: tell_def record_audit_def Let_def elim!: guarded_write_Inr moveUnit_Inr split: if_splits)
  with * show ?thesis by blast
qed

text \<open>
  No goal notices a return. When the rollups of the branch are up to date, approving a return -
  which recomputes the day - leaves what every goal of the company, of the branch or of a person
  has achieved exactly as it was, in every metric and for every period: the goods that came back
  still count as sold.
\<close>

theorem goals_ignore_returns:
  assumes "Returns.approve_tx c n i dto b = Inr b'" "c_branchId c = Some br" "rollups_fresh (c_companyId c) br b"
  shows "achieved g c b' = achieved g c b"
proof -
  from approve_tx_recompute [OF assms(1)] assms(2) obtain b1 where b1: "b' = recomputeDaily (c_companyId c) br (dayKey (c_now c)) (c_now c) b1"
    "bk_items b1 = bk_items b" "bk_sales b1 = bk_sales b" "bk_rollups b1 = bk_rollups b" by auto
  have tabs: "bk_items b' = bk_items b" "bk_sales b' = bk_sales b" by (simp_all add: b1)
  show ?thesis
  proof (cases "gl_scope g = user_scope")
    case True
    then show ?thesis by (simp add: achieved_def personal_achieved_def personal_items_def tabs)
  next
    case False
    then show ?thesis using rollup_achieved_recompute [OF assms(3) b1(2-4)] by (simp add: achieved_def b1(1))
  qed
qed

section \<open>Who sees what\<close>

text \<open>A person who may not manage goals sees no goal of another person, in the list or by itself.\<close>

theorem personal_goals_private:
  assumes "c_userId c = Some u" "\<not> canManage c"
  shows "(Goals.get c i s = Inr v \<longrightarrow> gl_scope (gv_goal v) = user_scope \<longrightarrow> gl_targetUserId (gv_goal v) = Some u) \<and>
    (list_goals c archivedToo s = Inr vs \<longrightarrow> (\<forall>v \<in> set vs. gl_scope (gv_goal v) = user_scope \<longrightarrow> gl_targetUserId (gv_goal v) = Some u))"
proof -
  have wp: "gv_goal (withProgress c s x) = snd x" for x by (simp add: withProgress_def split: prod.splits)
  have one: "gl_targetUserId (gv_goal v) = Some u" if "Goals.get c i s = Inr v" "gl_scope (gv_goal v) = user_scope"
    using that assms unfolding Goals.get_def
    by (cases "goal_branch c"; cases "find_goal c (projr (goal_branch c)) i s") (auto simp: wp split: if_splits)
  have many: "gl_targetUserId (gv_goal v) = Some u"
    if "list_goals c archivedToo s = Inr vs" "v \<in> set vs" "gl_scope (gv_goal v) = user_scope" for v
  proof -
    from that(1,2) obtain br x where "in_view c br archivedToo (snd x)" "v = withProgress c s x"
      unfolding list_goals_def by (cases "goal_branch c") (auto dest!: in_set_takeD)
    then show ?thesis using assms that(3) by (simp add: wp in_view_def)
  qed
  show ?thesis using one many by blast
qed

text \<open>
  Progress counts days consistently: elapsed and remaining days make up the period, nothing remains
  exactly of a goal that is met, and only a running period is on track or behind.
\<close>

theorem progress_consistent:
  assumes "gin_periodStart inp \<le> gin_periodEnd inp" "is_cents (gin_target inp)" "is_cents (gin_achieved inp)"
  shows "pg_daysElapsed (computeProgress inp) + pg_daysRemaining (computeProgress inp) = pg_daysTotal (computeProgress inp) \<and>
    0 \<le> pg_daysElapsed (computeProgress inp) \<and> 0 < pg_daysTotal (computeProgress inp) \<and>
    (pg_remaining (computeProgress inp) = 0 \<longleftrightarrow> pg_state (computeProgress inp) = met) \<and>
    (pg_state (computeProgress inp) \<in> {on_track, behind} \<longrightarrow> gin_periodStart inp \<le> gin_today inp \<and> gin_today inp \<le> gin_periodEnd inp)"
  using assms by (auto simp: computeProgress_def daysBetween_def Let_def max_def is_cents_diff)

section \<open>Witnesses\<close>

text \<open>The phone of the returns, sold for 100, with the figures of its day.\<close>

definition gx :: books where
  "gx = recomputeDaily 2 3 0 1 rx2"

definition gx_goal :: "GoalScope \<Rightarrow> goal" where
  "gx_goal sc = \<lparr>gl_companyId = 2, gl_scope = sc, gl_branchId = Some 3, gl_targetUserId = (if sc = user_scope then Some 7 else None), gl_metric = revenue,
     gl_periodStart = 0, gl_periodEnd = 30, gl_periodLabel = monthly, gl_targetAmount = 1000, gl_status = goal_active, gl_archivedReason = None,
     gl_note = None, gl_createdById = 7, gl_createdAt = 0, gl_version = 0\<rparr>"

lemma gx_tables: "same_setting rx0 gx" "bk_returns gx = [(50, rx_req2)]" "bk_units gx = [(30, rx_unit returned)]" "bk_reversals gx = []"
  by (simp_all add: gx_def rx2_tables)

lemma gx_rollups: "bk_rollups gx = [((3, 0), daily_figures 2 3 0 1 rx2)]"
proof -
  have "bk_rollups rx2 = []" by (simp add: rx2_eq rx1_eq record_audit_def rx0_def ex_no_books_def)
  then show ?thesis by (simp add: gx_def recomputeDaily_def Let_def t_insert_def)
qed

lemma gx_fresh: "rollups_fresh 2 3 gx"
proof -
  note set = rx_setting [OF gx_tables(1)]
  have m: "METRIC_COLUMN m (daily_figures 2 3 0 1 rx2) = METRIC_COLUMN m (daily_figures 2 3 0 0 gx)" for m
    by (rule metric_cong) (simp_all add: gx_def)
  have "day_items 2 3 d gx = []" if "d \<noteq> 0" for d
    using that by (simp add: day_items_def rows_where_def sold_on_def set on_day_iff rx_sale_def dayKey_def)
  moreover have "ru_companyId (daily_figures 2 3 0 1 rx2) = 2" by (simp add: daily_figures_def Let_def)
  ultimately show ?thesis using m by (simp add: rollups_fresh_def gx_rollups)
qed


theorem goals_ignore_returns_witness:
  "\<exists>b'. Returns.approve_tx rx_ctx 60 50 rx_yes gx = Inr b' \<and> bk_reversals b' = [(60, rx_rev)] \<and>
     achieved (gx_goal user_scope) rx_ctx b' = achieved (gx_goal user_scope) rx_ctx gx \<and>
     achieved (gx_goal branch_scope) rx_ctx b' = achieved (gx_goal branch_scope) rx_ctx gx"
proof -
  note tx = rx_approve [OF gx_tables]
  have c: "c_branchId rx_ctx = Some 3" "rollups_fresh (c_companyId rx_ctx) 3 gx" using gx_fresh by simp_all
  note same = goals_ignore_returns [OF tx c, of "gx_goal user_scope"] goals_ignore_returns [OF tx c, of "gx_goal branch_scope"]
  show ?thesis
    by (rule exI, rule conjI [OF tx], intro conjI same) simp
qed

end
