(* ===== verification/EntitlementRules.thy ===== *)
theory EntitlementRules
  imports Common
begin

text \<open>
  What a shop is entitled to (\<^verbatim>\<open>entitlement/entitlement-rules.ts\<close>) and which routes stop when its
  subscription lapses (\<^verbatim>\<open>entitlement/route-classification.ts\<close>). Moments are milliseconds since
  1970, as elsewhere.
\<close>

section \<open>The state of a subscription\<close>

text \<open>
  \<open>unknown_status\<close> stands for every other value the column can hold: the server runs without
  strict mode, and a bad value is stored as blank. An absent status reads as \<open>activated\<close> in the
  code; a row always has one.
\<close>

datatype SubscriptionStatus = pending_activation | activated | suspended | cancelled | unknown_status

datatype EntitlementState = pending_st | active_st | grace_st | expired_st | complimentary_st | suspended_st | cancelled_st

definition GRACE_MS :: nat where
  "GRACE_MS = 72 * 60 * 60 * 1000"

definition SEATS_PER_BRANCH :: int where
  "SEATS_PER_BRANCH = 2"

record SubscriptionRecord =
  sb_subscribedBranchCount :: int
  sb_additionalSeats :: int
  sb_currentPeriodEnd :: "nat option"
  sb_isComplimentary :: bool
  sb_complimentaryUntil :: "nat option"
  sb_status :: SubscriptionStatus

record SeatUsage =
  us_seatsUsed :: int
  us_activeBranchCount :: int

definition stateOf :: "'z SubscriptionRecord_scheme \<Rightarrow> nat \<Rightarrow> EntitlementState" where
  "stateOf sub now =
     (case sb_status sub of
        cancelled \<Rightarrow> cancelled_st
      | suspended \<Rightarrow> suspended_st
      | pending_activation \<Rightarrow> pending_st
      | unknown_status \<Rightarrow> expired_st
      | activated \<Rightarrow>
          if sb_isComplimentary sub \<and> (case sb_complimentaryUntil sub of None \<Rightarrow> False | Some u \<Rightarrow> now < u) then complimentary_st
          else (case sb_currentPeriodEnd sub of
                  None \<Rightarrow> expired_st
                | Some stop \<Rightarrow> if now < stop then active_st else if now < stop + GRACE_MS then grace_st else expired_st))"

definition canWrite :: "EntitlementState \<Rightarrow> bool" where
  "canWrite s \<longleftrightarrow> s = active_st \<or> s = grace_st \<or> s = complimentary_st"

definition canRead :: "EntitlementState \<Rightarrow> bool" where
  "canRead s \<longleftrightarrow> s \<noteq> pending_st \<and> s \<noteq> suspended_st \<and> s \<noteq> cancelled_st"

definition graceEndsAt :: "'z SubscriptionRecord_scheme \<Rightarrow> nat option" where
  "graceEndsAt sub = map_option (\<lambda>stop. stop + GRACE_MS) (sb_currentPeriodEnd sub)"

definition daysRemaining :: "'z SubscriptionRecord_scheme \<Rightarrow> nat \<Rightarrow> int option" where
  "daysRemaining sub now = map_option (\<lambda>stop. (int stop - int now) div (24 * 60 * 60 * 1000)) (sb_currentPeriodEnd sub)"

text \<open>\<^verbatim>\<open>Math.ceil\<close> of a quotient is the negated floor of the negated one.\<close>

definition graceHoursRemaining :: "'z SubscriptionRecord_scheme \<Rightarrow> nat \<Rightarrow> int" where
  "graceHoursRemaining sub now =
     (case graceEndsAt sub of
        None \<Rightarrow> 0
      | Some stop \<Rightarrow> max 0 (- ((int now - int stop) div (60 * 60 * 1000))))"

record SeatMath =
  sm_includedSeats :: int
  sm_additionalSeats :: int
  sm_seatLimit :: int
  sm_seatsUsed :: int
  sm_overLimit :: bool
  sm_seatsAvailable :: int

definition seatMath :: "'z SubscriptionRecord_scheme \<Rightarrow> SeatUsage \<Rightarrow> SeatMath" where
  "seatMath sub usage =
     (let included = max 0 (sb_subscribedBranchCount sub) * SEATS_PER_BRANCH;
          additional = max 0 (sb_additionalSeats sub);
          limit = included + additional;
          used = max 0 (us_seatsUsed usage)
      in \<lparr>sm_includedSeats = included, sm_additionalSeats = additional, sm_seatLimit = limit, sm_seatsUsed = used,
          sm_overLimit = (used > limit), sm_seatsAvailable = max 0 (limit - used)\<rparr>)"

definition mayConsumeSeat :: "SeatMath \<Rightarrow> bool" where
  "mayConsumeSeat m \<longleftrightarrow> sm_seatsUsed m < sm_seatLimit m"

record Entitlement =
  en_state :: EntitlementState
  en_periodEnd :: "nat option"
  en_graceEnd :: "nat option"
  en_daysRemaining :: "int option"
  en_graceHoursRemaining :: int
  en_subscribedBranchCount :: int
  en_activeBranchCount :: int
  en_includedSeats :: int
  en_additionalSeats :: int
  en_seatLimit :: int
  en_seatsUsed :: int
  en_overLimit :: bool
  en_canRead :: bool
  en_canWrite :: bool
  en_isComplimentary :: bool
  en_status :: SubscriptionStatus
  en_calculatedAt :: nat

definition buildEntitlement :: "'z SubscriptionRecord_scheme \<Rightarrow> SeatUsage \<Rightarrow> nat \<Rightarrow> Entitlement" where
  "buildEntitlement sub usage now =
     (let state = stateOf sub now; seats = seatMath sub usage
      in \<lparr>en_state = state,
          en_periodEnd = sb_currentPeriodEnd sub,
          en_graceEnd = graceEndsAt sub,
          en_daysRemaining = daysRemaining sub now,
          en_graceHoursRemaining = (if state = grace_st then graceHoursRemaining sub now else 0),
          en_subscribedBranchCount = sb_subscribedBranchCount sub,
          en_activeBranchCount = us_activeBranchCount usage,
          en_includedSeats = sm_includedSeats seats,
          en_additionalSeats = sm_additionalSeats seats,
          en_seatLimit = sm_seatLimit seats,
          en_seatsUsed = sm_seatsUsed seats,
          en_overLimit = sm_overLimit seats,
          en_canRead = canRead state,
          en_canWrite = canWrite state,
          en_isComplimentary = (state = complimentary_st),
          en_status = sb_status sub,
          en_calculatedAt = now\<rparr>)"

section \<open>Which routes stop\<close>

definition ALWAYS_ALLOWED :: "(string \<times> string) list" where
  "ALWAYS_ALLOWED =
     [(''POST'', ''auth/login''), (''POST'', ''auth/refresh''), (''POST'', ''auth/logout''), (''POST'', ''auth/logout-all''),
      (''POST'', ''platform/portal-handoff''), (''POST'', ''notifications/:id/read'')]"

definition trim_slashes :: "string \<Rightarrow> string" where
  "trim_slashes s = rev (dropWhile (\<lambda>c. c = CHR ''/'') (rev (dropWhile (\<lambda>c. c = CHR ''/'') s)))"

definition route_key :: "string \<Rightarrow> string \<Rightarrow> string" where
  "route_key verb path = js_upper verb @ '' '' @ trim_slashes path"

definition ALLOWED_KEYS :: "string list" where
  "ALLOWED_KEYS = map (\<lambda>(verb, path). route_key verb path) ALWAYS_ALLOWED"

definition MUTATING_METHODS :: "string list" where
  "MUTATING_METHODS = [''POST'', ''PUT'', ''PATCH'', ''DELETE'']"

definition isMutation :: "string \<Rightarrow> bool" where
  "isMutation verb \<longleftrightarrow> js_upper verb \<in> set MUTATING_METHODS"

definition isAllowedWhenExpired :: "string \<Rightarrow> string \<Rightarrow> bool" where
  "isAllowedWhenExpired verb path \<longleftrightarrow> (if \<not> isMutation verb then True else route_key verb path \<in> set ALLOWED_KEYS)"

definition SEAT_CONSUMING :: "(string \<times> string) list" where
  "SEAT_CONSUMING = [(''POST'', ''users''), (''PATCH'', ''users/:id'')]"

definition isSeatConsumingRoute :: "string \<Rightarrow> string \<Rightarrow> bool" where
  "isSeatConsumingRoute verb path \<longleftrightarrow> route_key verb path \<in> set (map (\<lambda>(v, p). route_key v p) SEAT_CONSUMING)"

definition ALWAYS_READABLE :: "string list" where
  "ALWAYS_READABLE =
     [''entitlement'', ''auth/me'', ''auth/logout'', ''auth/refresh'', ''health'', ''platform/my-subscription'',
      ''platform/payment-instructions'']"

definition isAlwaysReadable :: "string \<Rightarrow> bool" where
  "isAlwaysReadable path \<longleftrightarrow> path \<in> set ALWAYS_READABLE"

definition strip_prefix :: "string \<Rightarrow> string \<Rightarrow> string" where
  "strip_prefix p s = (if take (length p) s = p then drop (length p) s else s)"

text \<open>The version segment: \<^verbatim>\<open>v\<close>, one or more digits, a slash.\<close>

definition strip_version :: "string \<Rightarrow> string" where
  "strip_version s =
     (case s of
        c # r \<Rightarrow>
          (let ds = takeWhile (\<lambda>d. d \<in> set ''0123456789'') r; rest = dropWhile (\<lambda>d. d \<in> set ''0123456789'') r
           in if c = CHR ''v'' \<and> ds \<noteq> [] \<and> take 1 rest = ''/'' then drop 1 rest else s)
      | [] \<Rightarrow> [])"

definition normalise :: "string \<Rightarrow> string" where
  "normalise routePath =
     rev (dropWhile (\<lambda>c. c = CHR ''/'')
       (rev (strip_version (strip_prefix ''api/'' (dropWhile (\<lambda>c. c = CHR ''/'') routePath)))))"

section \<open>Facts on the rules\<close>

lemma canWrite_canRead: "canWrite s \<Longrightarrow> canRead s"
  by (auto simp: canWrite_def canRead_def)

lemma stateOf_not_activated: "sb_status sub \<noteq> activated \<Longrightarrow> \<not> canWrite (stateOf sub now)"
  by (cases "sb_status sub") (simp_all add: stateOf_def canWrite_def)

text \<open>An activated subscription writes until three days after the later of what was paid and granted.\<close>

lemma canWrite_iff:
  "canWrite (stateOf sub now) \<longleftrightarrow>
     sb_status sub = activated \<and>
     (sb_isComplimentary sub \<and> (\<exists>u. sb_complimentaryUntil sub = Some u \<and> now < u) \<or>
      (\<exists>e. sb_currentPeriodEnd sub = Some e \<and> now < e + GRACE_MS))"
  by (auto simp: canWrite_def stateOf_def split: SubscriptionStatus.split option.split)

lemma canRead_iff:
  "canRead (stateOf sub now) \<longleftrightarrow> sb_status sub \<notin> {pending_activation, suspended, cancelled}"
  by (auto simp: canRead_def stateOf_def split: SubscriptionStatus.split option.split)

text \<open>While time passes and nothing is decided, a subscription only loses the right to write.\<close>

lemma canWrite_antimono: "now \<le> later \<Longrightarrow> canWrite (stateOf sub later) \<Longrightarrow> canWrite (stateOf sub now)"
  unfolding canWrite_iff by (meson le_less_trans)

lemma graceHours_bounds:
  assumes "stateOf sub now = grace_st"
  shows "0 < graceHoursRemaining sub now \<and> graceHoursRemaining sub now \<le> 72"
proof -
  from assms obtain e where e: "sb_currentPeriodEnd sub = Some e" "e \<le> now" "now < e + GRACE_MS"
    by (auto simp: stateOf_def split: SubscriptionStatus.splits option.splits if_splits)
  define q where "q = (int now - int (e + GRACE_MS)) div 3600000"
  have "3600000 * q \<le> int now - int (e + GRACE_MS)" "int now - int (e + GRACE_MS) < 3600000 * q + 3600000"
    by (simp_all add: q_def)
  with e have "- 72 \<le> q" "q < 0" by (simp_all add: GRACE_MS_def)
  with e show ?thesis by (simp add: graceHoursRemaining_def graceEndsAt_def q_def)
qed

end
