(* ===== verification/Platform.thy ===== *)
theory Platform
  imports EntitlementRules
begin

text \<open>
  The tables of the platform side of the program, the entitlement service with the interceptor
  every request passes (\<^verbatim>\<open>entitlement/entitlement.service.ts\<close>,
  \<^verbatim>\<open>entitlement/entitlement.interceptor.ts\<close>), and billing (\<^verbatim>\<open>billing/pricing-rules.ts\<close>,
  \<^verbatim>\<open>billing/billing.service.ts\<close>). Amounts are whole units of currency.
\<close>

section \<open>Tables\<close>

record subscription = SubscriptionRecord +
  sb_companyId :: id
  sb_complimentaryReason :: "string option"
  sb_version :: nat

datatype SubscriptionEventKind =
  created | backfilled | registered | administrative_grant | extended | ev_suspended | reinstated | ev_cancelled
  | branches_changed | seats_changed | complimentary_granted | complimentary_revoked

record sub_event =
  se_companyId :: id
  se_subscriptionId :: id
  se_kind :: SubscriptionEventKind
  se_note :: "string option"
  se_periodEndAfter :: "nat option"
  se_branchesAfter :: "int option"
  se_seatsAfter :: "int option"
  se_actor :: "string option"
  se_createdAt :: nat

datatype SubscriptionPaymentChannel = manual | bank_transfer | mobile_money

record sub_payment =
  sp_companyId :: id
  sp_subscriptionId :: id
  sp_amount :: number
  sp_paidAt :: nat
  sp_channel :: SubscriptionPaymentChannel
  sp_reference :: "string option"
  sp_note :: "string option"
  sp_recordedBy :: string
  sp_confirmedBy :: "string option"
  sp_confirmedAt :: "nat option"

record PlanPricing =
  pp_branchMonthly :: int
  pp_includedStaffPerBranch :: int
  pp_extraStaffMonthly :: int

record plan_version = PlanPricing +
  pv_planKey :: string
  pv_version :: nat
  pv_effectiveFrom :: nat
  pv_createdBy :: string
  pv_reason :: string

record billing_period = PlanPricing +
  bp_companyId :: id
  bp_subscriptionId :: id
  bp_planVersionId :: id
  bp_periodStart :: nat
  bp_periodEnd :: "nat option"
  bp_activeBranchCount :: int
  bp_activeStaffCount :: int
  bp_includedStaffCount :: int
  bp_chargeableStaffCount :: int
  bp_assessedBranchFee :: int
  bp_assessedStaffFee :: int
  bp_assessedTotal :: int

record staff_row =
  sf_companyId :: id
  sf_isActive :: bool
  sf_deletedAt :: "nat option"

record branch_state =
  bs_companyId :: id
  bs_isActive :: bool

record platform_audit =
  pa_actor :: string
  pa_action :: string
  pa_targetId :: id
  pa_reason :: "string option"

text \<open>\<open>pf_roles\<close> pairs a user with the key of the role of one of the assignments of that user.\<close>

record platform =
  pf_subscriptions :: "(id, subscription) table"
  pf_events :: "(id, sub_event) table"
  pf_payments :: "(id, sub_payment) table"
  pf_plans :: "(id, plan_version) table"
  pf_periods :: "(id, billing_period) table"
  pf_users :: "(id, staff_row) table"
  pf_roles :: "(id \<times> string) list"
  pf_branches :: "(id, branch_state) table"
  pf_audit :: "platform_audit list"

section \<open>The entitlement service\<close>

definition find_subscription :: "id \<Rightarrow> platform \<Rightarrow> (id \<times> subscription) option" where
  "find_subscription co p = find (\<lambda>(_, s). sb_companyId s = co) (pf_subscriptions p)"

definition recordFor :: "id \<Rightarrow> platform \<Rightarrow> SubscriptionRecord" where
  "recordFor co p =
     (case find_subscription co p of
        None \<Rightarrow> \<lparr>sb_subscribedBranchCount = 0, sb_additionalSeats = 0, sb_currentPeriodEnd = None, sb_isComplimentary = False,
                 sb_complimentaryUntil = None, sb_status = activated\<rparr>
      | Some (_, row) \<Rightarrow> SubscriptionRecord.truncate row)"

definition holds_staff_role :: "id \<Rightarrow> platform \<Rightarrow> bool" where
  "holds_staff_role u p \<longleftrightarrow> list_ex (\<lambda>(v, role). v = u \<and> role \<noteq> ''owner'') (pf_roles p)"

definition seatUsage :: "id \<Rightarrow> platform \<Rightarrow> SeatUsage" where
  "seatUsage co p =
     \<lparr>us_seatsUsed = int (length (filter (\<lambda>(u, x). sf_companyId x = co \<and> sf_isActive x \<and> holds_staff_role u p) (pf_users p))),
      us_activeBranchCount = int (length (filter (\<lambda>(_, x). bs_companyId x = co) (pf_branches p)))\<rparr>"

definition forCompany :: "id \<Rightarrow> nat \<Rightarrow> platform \<Rightarrow> Entitlement" where
  "forCompany co now p = buildEntitlement (recordFor co p) (seatUsage co p) now"

definition mayWrite :: "id \<Rightarrow> nat \<Rightarrow> platform \<Rightarrow> bool" where
  "mayWrite co now p \<longleftrightarrow> canWrite (stateOf (recordFor co p) now)"

datatype access_refusal =
    EntitlementPending
  | EntitlementSuspended EntitlementState
  | EntitlementWriteBlocked
  | EntitlementUnchecked

definition operationalAccessBlocked :: "id \<Rightarrow> nat \<Rightarrow> platform \<Rightarrow> access_refusal option" where
  "operationalAccessBlocked co now p =
     (let state = stateOf (recordFor co p) now
      in if canRead state then None
         else Some (if state = pending_st then EntitlementPending else EntitlementSuspended state))"

record SeatAnswer =
  sa_allowed :: bool
  sa_seatsUsed :: int
  sa_seatLimit :: int

definition maySeat :: "id \<Rightarrow> platform \<Rightarrow> SeatAnswer" where
  "maySeat co p =
     (let m = seatMath (recordFor co p) (seatUsage co p)
      in \<lparr>sa_allowed = mayConsumeSeat m, sa_seatsUsed = sm_seatsUsed m, sa_seatLimit = sm_seatLimit m\<rparr>)"

text \<open>The interceptor: \<open>None\<close> lets the request through to its handler.\<close>

definition intercept :: "bool \<Rightarrow> string \<Rightarrow> string \<Rightarrow> id option \<Rightarrow> nat \<Rightarrow> platform \<Rightarrow> access_refusal http_error option" where
  "intercept isPublic verb routePath company now p =
     (if isPublic then None
      else if \<not> isMutation verb then
        (if isAlwaysReadable (normalise routePath) then None
         else (case company of
                 None \<Rightarrow> None
               | Some co \<Rightarrow> map_option Forbidden (operationalAccessBlocked co now p)))
      else if isAllowedWhenExpired verb (normalise routePath) then None
      else (case company of
              None \<Rightarrow> Some (Forbidden EntitlementUnchecked)
            | Some co \<Rightarrow> if mayWrite co now p then None else Some (Forbidden EntitlementWriteBlocked)))"

section \<open>What a shop owes each month\<close>

definition STANDARD_PLAN_V1 :: PlanPricing where
  "STANDARD_PLAN_V1 = \<lparr>pp_branchMonthly = 500, pp_includedStaffPerBranch = 2, pp_extraStaffMonthly = 100\<rparr>"

record CompanySize =
  cs_activeBranchCount :: int
  cs_activeStaffCount :: int

record Quote =
  qt_branchMonthly :: int
  qt_extraStaffMonthly :: int
  qt_activeBranchCount :: int
  qt_activeStaffCount :: int
  qt_includedStaffCount :: int
  qt_chargeableStaffCount :: int
  qt_branchFee :: int
  qt_staffFee :: int
  qt_monthlyTotal :: int

text \<open>Truncation does nothing to a whole number.\<close>

definition whole :: "int \<Rightarrow> int" where
  "whole n = max 0 n"

definition quoteFor :: "CompanySize \<Rightarrow> 'z PlanPricing_scheme \<Rightarrow> Quote" where
  "quoteFor sz plan =
     (let branches = whole (cs_activeBranchCount sz);
          staff = whole (cs_activeStaffCount sz);
          included = branches * whole (pp_includedStaffPerBranch plan);
          chargeable = max 0 (staff - included);
          branchFee = branches * whole (pp_branchMonthly plan);
          staffFee = chargeable * whole (pp_extraStaffMonthly plan)
      in \<lparr>qt_branchMonthly = pp_branchMonthly plan, qt_extraStaffMonthly = pp_extraStaffMonthly plan,
          qt_activeBranchCount = branches, qt_activeStaffCount = staff, qt_includedStaffCount = included,
          qt_chargeableStaffCount = chargeable, qt_branchFee = branchFee, qt_staffFee = staffFee,
          qt_monthlyTotal = branchFee + staffFee\<rparr>)"

record AssessedPeriod =
  ap_assessedBranchFee :: int
  ap_assessedStaffFee :: int

record PeriodAssessment = Quote +
  as_previouslyAssessedBranchFee :: int
  as_previouslyAssessedStaffFee :: int
  as_assessedBranchFee :: int
  as_assessedStaffFee :: int
  as_assessedTotal :: int
  as_addedThisPeriod :: int

definition assessPeriod :: "CompanySize \<Rightarrow> AssessedPeriod \<Rightarrow> 'z PlanPricing_scheme \<Rightarrow> PeriodAssessment" where
  "assessPeriod sz prior plan =
     (let q = quoteFor sz plan;
          priorBranch = whole (ap_assessedBranchFee prior);
          priorStaff = whole (ap_assessedStaffFee prior);
          branchFee = max priorBranch (qt_branchFee q);
          staffFee = max priorStaff (qt_staffFee q);
          assessed = branchFee + staffFee
      in Quote.extend q
           \<lparr>as_previouslyAssessedBranchFee = priorBranch, as_previouslyAssessedStaffFee = priorStaff,
            as_assessedBranchFee = branchFee, as_assessedStaffFee = staffFee, as_assessedTotal = assessed,
            as_addedThisPeriod = max 0 (assessed - (priorBranch + priorStaff))\<rparr>)"

definition nextRenewalEstimate :: "CompanySize \<Rightarrow> 'z PlanPricing_scheme \<Rightarrow> Quote" where
  "nextRenewalEstimate sz plan = quoteFor sz plan"

section \<open>The billing service\<close>

datatype billing_reason =
    NoPricing
  | NotInFuture
  | PriceNeedsReason
  | NotWhole
  | UnknownBusiness
  | BadDuration
  | GrantNeedsReason
  | BadMonths
  | SuspensionNeedsReason
  | CancellationNeedsReason
  | SubscriptionChanged
  | BadAmount
  | ProvisioningClosed
  | NotAnOperator
  | NoSuchCompany
  | NothingToChange

type_synonym billing_error = "billing_reason http_error"

definition sizeOf :: "id \<Rightarrow> platform \<Rightarrow> CompanySize" where
  "sizeOf co p =
     \<lparr>cs_activeBranchCount = int (length (filter (\<lambda>(_, x). bs_companyId x = co \<and> bs_isActive x) (pf_branches p))),
      cs_activeStaffCount =
        int (length (filter (\<lambda>(u, x). sf_companyId x = co \<and> sf_isActive x \<and> sf_deletedAt x = None \<and> holds_staff_role u p) (pf_users p)))\<rparr>"

definition standard_plans :: "platform \<Rightarrow> (id \<times> plan_version) list" where
  "standard_plans p = sort_key (\<lambda>(_, v). pv_effectiveFrom v) (filter (\<lambda>(_, v). pv_planKey v = ''standard'') (pf_plans p))"

definition planAt :: "nat \<Rightarrow> platform \<Rightarrow> billing_error + (id \<times> plan_version) \<times> (id \<times> plan_version) option" where
  "planAt t p =
     (case standard_plans p of
        [] \<Rightarrow> Inl (BadRequest NoPricing)
      | first # later \<Rightarrow>
          (let rows = first # later;
               past = filter (\<lambda>(_, v). pv_effectiveFrom v \<le> t) rows;
               future = filter (\<lambda>(_, v). pv_effectiveFrom v > t) rows
           in Inr (if past = [] then first else last past, case future of [] \<Rightarrow> None | f # _ \<Rightarrow> Some f)))"

text \<open>The latest period: the rows in descending order of their start, the newest row first among equals.\<close>

definition latest_period :: "id \<Rightarrow> platform \<Rightarrow> (id \<times> billing_period) option" where
  "latest_period co p =
     (case rev (sort_key (\<lambda>(_, b). bp_periodStart b) (filter (\<lambda>(_, b). bp_companyId b = co) (pf_periods p))) of
        [] \<Rightarrow> None | x # _ \<Rightarrow> Some x)"

definition assessed_of :: "billing_period \<Rightarrow> AssessedPeriod" where
  "assessed_of b = \<lparr>ap_assessedBranchFee = bp_assessedBranchFee b, ap_assessedStaffFee = bp_assessedStaffFee b\<rparr>"

record CurrentPeriod =
  cp_periodStart :: "nat option"
  cp_assessedBranchFee :: int
  cp_assessedStaffFee :: int
  cp_assessedTotal :: int
  cp_adjustments :: int
  cp_available :: bool

record SubscriptionPricing =
  pr_plan :: "id \<times> plan_version"
  pr_upcomingPlan :: "(id \<times> plan_version) option"
  pr_quote :: Quote
  pr_currentPeriod :: CurrentPeriod
  pr_nextRenewalEstimate :: Quote

definition current_period :: "id \<Rightarrow> platform \<Rightarrow> CurrentPeriod" where
  "current_period co p =
     (case latest_period co p of
        None \<Rightarrow> \<lparr>cp_periodStart = None, cp_assessedBranchFee = 0, cp_assessedStaffFee = 0, cp_assessedTotal = 0,
                 cp_adjustments = 0, cp_available = False\<rparr>
      | Some (_, b) \<Rightarrow>
          (let a = assessPeriod (sizeOf co p) (assessed_of b) b
           in \<lparr>cp_periodStart = Some (bp_periodStart b), cp_assessedBranchFee = as_assessedBranchFee a,
               cp_assessedStaffFee = as_assessedStaffFee a, cp_assessedTotal = as_assessedTotal a,
               cp_adjustments = max 0 (as_assessedTotal a - qt_monthlyTotal a), cp_available = True\<rparr>))"

definition pricingFor :: "id \<Rightarrow> nat \<Rightarrow> platform \<Rightarrow> billing_error + SubscriptionPricing" where
  "pricingFor co now p =
     bindE (planAt now p) (\<lambda>(current, upcoming).
       Inr \<lparr>pr_plan = current, pr_upcomingPlan = upcoming, pr_quote = quoteFor (sizeOf co p) (snd current),
            pr_currentPeriod = current_period co p,
            pr_nextRenewalEstimate = nextRenewalEstimate (sizeOf co p) (snd (case upcoming of None \<Rightarrow> current | Some u \<Rightarrow> u))\<rparr>)"

definition raised :: "CompanySize \<Rightarrow> billing_period \<Rightarrow> billing_period" where
  "raised sz b =
     (let a = assessPeriod sz (assessed_of b) b
      in b\<lparr>bp_activeBranchCount := cs_activeBranchCount sz, bp_activeStaffCount := cs_activeStaffCount sz,
           bp_includedStaffCount := qt_includedStaffCount a, bp_chargeableStaffCount := qt_chargeableStaffCount a,
           bp_assessedBranchFee := as_assessedBranchFee a, bp_assessedStaffFee := as_assessedStaffFee a,
           bp_assessedTotal := as_assessedTotal a\<rparr>)"

definition assessNow :: "id \<Rightarrow> platform \<Rightarrow> platform" where
  "assessNow co p =
     (case latest_period co p of
        None \<Rightarrow> p
      | Some (i, b) \<Rightarrow>
          if as_addedThisPeriod (assessPeriod (sizeOf co p) (assessed_of b) b) = 0 then p
          else p\<lparr>pf_periods := t_update i (raised (sizeOf co p)) (pf_periods p)\<rparr>)"

definition new_period :: "id \<Rightarrow> id \<Rightarrow> nat option \<Rightarrow> nat \<Rightarrow> id \<times> plan_version \<Rightarrow> Quote \<Rightarrow> billing_period" where
  "new_period co sub endsAt now plan q =
     \<lparr>pp_branchMonthly = pp_branchMonthly (snd plan), pp_includedStaffPerBranch = pp_includedStaffPerBranch (snd plan),
      pp_extraStaffMonthly = pp_extraStaffMonthly (snd plan),
      bp_companyId = co, bp_subscriptionId = sub, bp_planVersionId = fst plan, bp_periodStart = now, bp_periodEnd = endsAt,
      bp_activeBranchCount = qt_activeBranchCount q, bp_activeStaffCount = qt_activeStaffCount q,
      bp_includedStaffCount = qt_includedStaffCount q, bp_chargeableStaffCount = qt_chargeableStaffCount q,
      bp_assessedBranchFee = qt_branchFee q, bp_assessedStaffFee = qt_staffFee q, bp_assessedTotal = qt_monthlyTotal q\<rparr>"

definition openPeriod :: "id \<Rightarrow> id \<Rightarrow> id \<Rightarrow> nat option \<Rightarrow> nat \<Rightarrow> platform \<Rightarrow> billing_error + platform" where
  "openPeriod newId co sub endsAt now p =
     bindE (planAt now p) (\<lambda>(current, _).
       Inr (p\<lparr>pf_periods := t_insert newId (new_period co sub endsAt now current (quoteFor (sizeOf co p) (snd current))) (pf_periods p)\<rparr>))"

record PlanInput = PlanPricing +
  pli_effectiveFrom :: nat
  pli_reason :: string
  pli_createdBy :: string

definition latest_version :: "platform \<Rightarrow> nat" where
  "latest_version p = foldr (\<lambda>(_, v) n. max (pv_version v) n) (filter (\<lambda>(_, v). pv_planKey v = ''standard'') (pf_plans p)) 0"

definition schedulePlanVersion :: "id \<Rightarrow> PlanInput \<Rightarrow> nat \<Rightarrow> platform \<Rightarrow> (billing_error + plan_version) \<times> platform" where
  "schedulePlanVersion newId inp now p =
     (if pli_effectiveFrom inp \<le> now then (Inl (BadRequest NotInFuture), p)
      else if js_trim (pli_reason inp) = [] then (Inl (BadRequest PriceNeedsReason), p)
      else if pp_branchMonthly inp < 0 \<or> pp_includedStaffPerBranch inp < 0 \<or> pp_extraStaffMonthly inp < 0 then (Inl (BadRequest NotWhole), p)
      else
        (let v = \<lparr>pp_branchMonthly = pp_branchMonthly inp, pp_includedStaffPerBranch = pp_includedStaffPerBranch inp,
                  pp_extraStaffMonthly = pp_extraStaffMonthly inp, pv_planKey = ''standard'', pv_version = latest_version p + 1,
                  pv_effectiveFrom = pli_effectiveFrom inp, pv_createdBy = pli_createdBy inp, pv_reason = take 500 (pli_reason inp)\<rparr>
         in (Inr v, p\<lparr>pf_plans := t_insert newId v (pf_plans p)\<rparr>)))"

end
