(* ===== verification/Calendar.thy ===== *)
theory Calendar
  imports Common
begin

text \<open>
  The calendar arithmetic of \<^verbatim>\<open>Date.prototype.setMonth\<close>, as the language defines it, for a server
  whose clock is UTC: days are counted from 1 January 1970, months from January of year 0. Used by
  the periods of subscriptions and by the periods of goals.
\<close>

definition MS_PER_DAY :: nat where
  "MS_PER_DAY = 86400000"

definition year_start :: "int \<Rightarrow> int" where
  "year_start y = 365 * (y - 1970) + (y - 1969) div 4 - (y - 1901) div 100 + (y - 1601) div 400"

definition in_leap :: "int \<Rightarrow> bool" where
  "in_leap y \<longleftrightarrow> y mod 4 = 0 \<and> (y mod 100 \<noteq> 0 \<or> y mod 400 = 0)"

definition month_offset :: "int \<Rightarrow> nat \<Rightarrow> int" where
  "month_offset y m = [0, 31, 59, 90, 120, 151, 181, 212, 243, 273, 304, 334] ! m + (if in_leap y \<and> 2 \<le> m then 1 else 0)"

text \<open>The first day of a month, given as a count of months.\<close>

definition month_start :: "int \<Rightarrow> int" where
  "month_start k = year_start (k div 12) + month_offset (k div 12) (nat (k mod 12))"

definition year_of :: "int \<Rightarrow> int" where
  "year_of d =
     (let y = 1970 + (d * 400) div 146097
      in if d < year_start y then y - 1 else if year_start (y + 1) \<le> d then y + 1 else y)"

definition month_of :: "int \<Rightarrow> int" where
  "month_of d =
     (let y = year_of d
      in 12 * y + int (length (filter (\<lambda>m. year_start y + month_offset y m \<le> d) [1..<12])))"

text \<open>
  \<^verbatim>\<open>d.setMonth(d.getMonth() + k)\<close>: the day of the month is kept as a distance from the first, so the
  31st of a month lands in the month after a shorter one.
\<close>

definition add_months :: "nat \<Rightarrow> nat \<Rightarrow> nat" where
  "add_months t k =
     (let d = int (t div MS_PER_DAY); km = month_of d
      in nat (month_start (km + int k) + (d - month_start km)) * MS_PER_DAY + t mod MS_PER_DAY)"

lemma div_succ:
  fixes a n :: int
  assumes "0 < n"
  shows "(a + 1) div n = a div n + (if (a + 1) mod n = 0 then 1 else 0)"
proof -
  define q r where "q = a div n" and "r = a mod n"
  have a: "a = n * q + r" and r: "0 \<le> r" "r < n" using assms by (simp_all add: q_def r_def)
  show ?thesis
  proof (cases "r + 1 = n")
    case True
    with a have "a + 1 = n * (q + 1) + 0" by (simp add: algebra_simps)
    then have "(a + 1) div n = q + 1" "(a + 1) mod n = 0" using assms by (simp_all del: add_0_right)
    then show ?thesis by (simp add: q_def)
  next
    case False
    with a r have e: "a + 1 = n * q + (r + 1)" "0 \<le> r + 1" "r + 1 < n" by simp_all
    from int_div_pos_eq [OF e] int_mod_pos_eq [OF e] r show ?thesis by (simp add: q_def)
  qed
qed

lemma mod_shift:
  fixes y n :: int
  shows "(y - n * q) mod n = y mod n"
  using mod_mult_self2 [of y n "- q"] by simp

lemma year_length: "year_start (y + 1) = year_start y + (if in_leap y then 366 else 365)"
proof -
  define a b c where "a = (y - 1969) div 4" and "b = (y - 1901) div 100" and "c = (y - 1601) div 400"
  have 4: "(y + 1 - 1969) div 4 = a + (if y mod 4 = 0 then 1 else 0)"
    using div_succ [of 4 "y - 1969"] mod_shift [of y 4 492] by (simp add: a_def add.commute diff_add_eq)
  have 100: "(y + 1 - 1901) div 100 = b + (if y mod 100 = 0 then 1 else 0)"
    using div_succ [of 100 "y - 1901"] mod_shift [of y 100 19] by (simp add: b_def add.commute diff_add_eq)
  have 400: "(y + 1 - 1601) div 400 = c + (if y mod 400 = 0 then 1 else 0)"
    using div_succ [of 400 "y - 1601"] mod_shift [of y 400 4] by (simp add: c_def add.commute diff_add_eq)
  have "4 dvd y" if "100 dvd y" using that dvd_trans [of 4 100 y] by simp
  moreover have "100 dvd y" if "400 dvd y" using that dvd_trans [of 100 400 y] by simp
  ultimately have leap: "in_leap y \<longleftrightarrow> 4 dvd y \<and> (\<not> 100 dvd y \<or> 400 dvd y)" and i: "100 dvd y \<longrightarrow> 4 dvd y" "400 dvd y \<longrightarrow> 100 dvd y"
    unfolding in_leap_def mod_eq_0_iff_dvd by blast+
  define P Q R where PQR: "P = (4 dvd y)" "Q = (100 dvd y)" "R = (400 dvd y)"
  have "year_start (y + 1) = 365 * (y + 1 - 1970) + (a + (if P then 1 else 0)) - (b + (if Q then 1 else 0)) + (c + (if R then 1 else 0))"
    unfolding year_start_def 4 100 400 mod_eq_0_iff_dvd PQR ..
  moreover have "year_start y = 365 * (y - 1970) + a - b + c" by (simp only: year_start_def a_def b_def c_def)
  ultimately show ?thesis using i unfolding leap PQR [symmetric] by (cases P; cases Q; cases R) simp_all
qed

lemma month_cases:
  fixes m :: nat
  assumes "m < 12"
  obtains "m = 0" | "m = 1" | "m = 2" | "m = 3" | "m = 4" | "m = 5" | "m = 6" | "m = 7" | "m = 8" | "m = 9" | "m = 10" | "m = 11"
  using assms by (simp add: numeral_eq_Suc less_Suc_eq) (elim disjE; blast)

lemma month_offset_step:
  assumes "m < 11"
  shows "month_offset y m + 28 \<le> month_offset y (Suc m) \<and> month_offset y (Suc m) \<le> month_offset y m + 31"
proof -
  from assms have "m < 12" by simp
  then show ?thesis using assms by (cases rule: month_cases) (simp_all add: month_offset_def)
qed

lemma month_start_in: "m < 12 \<Longrightarrow> month_start (12 * y + int m) = year_start y + month_offset y m"
  by (simp add: month_start_def)

lemma month_in:
  obtains y m where "k = 12 * y + int m" "m < 12"
proof (rule that [of "k div 12" "nat (k mod 12)"])
  show "k = 12 * (k div 12) + int (nat (k mod 12))" by simp
  show "nat (k mod 12) < 12" by (simp add: nat_less_iff)
qed

lemma month_length: "month_start k + 28 \<le> month_start (k + 1) \<and> month_start (k + 1) \<le> month_start k + 31"
proof (rule month_in [of k])
  fix y m assume k: "k = 12 * y + int m" "m < 12"
  show ?thesis
  proof (cases "m = 11")
    case True
    with k have "month_start k = year_start y + month_offset y 11" "k + 1 = 12 * (y + 1) + int 0"
      using month_start_in [of 11 y] by simp_all
    moreover from this(2) have "month_start (k + 1) = year_start (y + 1) + month_offset (y + 1) 0" using month_start_in [of 0 "y + 1"] by (simp only:)
    ultimately show ?thesis by (simp add: year_length month_offset_def)
  next
    case False
    with k have m: "m < 11" and k1: "k + 1 = 12 * y + int (Suc m)" by simp_all
    have "month_start (k + 1) = year_start y + month_offset y (Suc m)" using m month_start_in [of "Suc m" y] by (simp only: k1)
    moreover have "month_start k = year_start y + month_offset y m" using k month_start_in by simp
    ultimately show ?thesis using month_offset_step [OF m, of y] by simp
  qed
qed

lemma months_length: "month_start k + 28 * int n \<le> month_start (k + int n)" "month_start (k + int n) \<le> month_start k + 31 * int n"
proof (induction n)
  case (Suc n)
  case 1
  with Suc.IH(1) month_length [of "k + int n"] show ?case by (simp add: algebra_simps)
next
  case (Suc n)
  case 2
  with Suc.IH(2) month_length [of "k + int n"] show ?case by (simp add: algebra_simps)
qed simp_all

text \<open>Adding months moves a moment forward by 28 to 31 days for each.\<close>

lemma add_months_bounds:
  "t + 28 * k * MS_PER_DAY \<le> add_months t k" "add_months t k \<le> t + 31 * k * MS_PER_DAY"
proof -
  let ?d = "int (t div MS_PER_DAY)" and ?km = "month_of (int (t div MS_PER_DAY))"
  let ?e = "nat (month_start (?km + int k) + (?d - month_start ?km))"
  have e: "t div MS_PER_DAY + 28 * k \<le> ?e" "?e \<le> t div MS_PER_DAY + 31 * k"
    using months_length [of ?km k] by linarith+
  have t: "t = t div MS_PER_DAY * MS_PER_DAY + t mod MS_PER_DAY" by simp
  have "(t div MS_PER_DAY + 28 * k) * MS_PER_DAY \<le> ?e * MS_PER_DAY" "?e * MS_PER_DAY \<le> (t div MS_PER_DAY + 31 * k) * MS_PER_DAY"
    using e by (auto intro: mult_le_mono1)
  then have m: "t div MS_PER_DAY * MS_PER_DAY + 28 * k * MS_PER_DAY \<le> ?e * MS_PER_DAY" "?e * MS_PER_DAY \<le> t div MS_PER_DAY * MS_PER_DAY + 31 * k * MS_PER_DAY"
    by (simp_all only: distrib_right)
  have a: "add_months t k = ?e * MS_PER_DAY + t mod MS_PER_DAY" by (simp add: add_months_def Let_def)
  show "t + 28 * k * MS_PER_DAY \<le> add_months t k" "add_months t k \<le> t + 31 * k * MS_PER_DAY"
    unfolding a using m t by linarith+
qed

text \<open>The year and the month found for a day contain it.\<close>

lemma div_bounds:
  fixes a n :: int
  assumes "0 < n"
  shows "a - (n - 1) \<le> n * (a div n)" "n * (a div n) \<le> a"
proof -
  have "n * (a div n) + a mod n = a" by simp
  moreover have "0 \<le> a mod n" "a mod n < n" using assms by simp_all
  ultimately show "a - (n - 1) \<le> n * (a div n)" "n * (a div n) \<le> a" by linarith+
qed

lemma year_start_approx:
  "146097 * (y - 1970) - 800 \<le> 400 * year_start y" "400 * year_start y \<le> 146097 * (y - 1970) + 800"
proof -
  define a b c where abc: "a = (y - 1969) div 4" "b = (y - 1901) div 100" "c = (y - 1601) div 400"
  have 1: "y - 1969 - 3 \<le> 4 * a" "4 * a \<le> y - 1969"
    using div_bounds [of 4 "y - 1969"] by (simp_all add: abc)
  have 2: "y - 1901 - 99 \<le> 100 * b" "100 * b \<le> y - 1901"
    using div_bounds [of 100 "y - 1901"] by (simp_all add: abc)
  have 3: "y - 1601 - 399 \<le> 400 * c" "400 * c \<le> y - 1601"
    using div_bounds [of 400 "y - 1601"] by (simp_all add: abc)
  have "100 * y - 197200 \<le> 400 * a" "400 * a \<le> 100 * y - 196900" using 1 by simp_all
  moreover have "4 * y - 8000 \<le> 400 * b" "400 * b \<le> 4 * y - 7604" using 2 by simp_all
  moreover have "y - 2000 \<le> 400 * c" "400 * c \<le> y - 1601" using 3 by simp_all
  moreover have "400 * year_start y = 146000 * y - 287620000 + 400 * a - 400 * b + 400 * c"
    unfolding year_start_def abc by (simp add: algebra_simps)
  ultimately show "146097 * (y - 1970) - 800 \<le> 400 * year_start y" "400 * year_start y \<le> 146097 * (y - 1970) + 800"
    by (simp_all add: algebra_simps)
qed

lemma year_of_contains: "year_start (year_of d) \<le> d \<and> d < year_start (year_of d + 1)"
proof -
  define e where "e = (d * 400) div 146097"
  have e: "146097 * e \<le> 400 * d" "400 * d < 146097 * e + 146097" by (simp_all add: e_def)
  have "year_start (1970 + e - 1) \<le> d" using year_start_approx(2) [of "1970 + e - 1"] e by simp
  moreover have "d < year_start (1970 + e + 2)" using year_start_approx(1) [of "1970 + e + 2"] e by simp
  ultimately show ?thesis by (auto simp: year_of_def Let_def e_def [symmetric] algebra_simps)
qed

end
