(* ===== verification/Subscriptions.thy ===== *)
theory Subscriptions
  imports Platform Calendar
begin

text \<open>
  The lifecycle of subscriptions, driven by a platform administrator
  (\<^verbatim>\<open>platform/subscription-lifecycle.service.ts\<close>), and the provisioning route guarded by the platform
  key (\<^verbatim>\<open>entitlement/provisioning.controller.ts\<close>). None of these handlers runs in a transaction: the
  subscription, the event, the audit row and the billing period are written one after the other,
  so a failure of the last leaves the others in place. The identifiers a handler draws, the clock
  and the administrator are arguments.
\<close>

record actor =
  ac_email :: string
  ac_now :: nat

record new_ids =
  ni_event :: id
  ni_period :: id

definition loadOrThrow :: "id \<Rightarrow> platform \<Rightarrow> billing_error + id \<times> subscription" where
  "loadOrThrow co p = (case find_subscription co p of None \<Rightarrow> Inl (NotFound UnknownBusiness) | Some s \<Rightarrow> Inr s)"

text \<open>
  The write is by company, and by version when the caller gave one; no row means somebody else
  changed it.
\<close>

definition transition :: "id \<Rightarrow> nat option \<Rightarrow> (subscription \<Rightarrow> subscription) \<Rightarrow> platform \<Rightarrow> billing_error + subscription \<times> platform" where
  "transition co expected change p =
     (case find_subscription co p of
        None \<Rightarrow> Inl (Conflict SubscriptionChanged)
      | Some (i, s) \<Rightarrow>
          if (case expected of None \<Rightarrow> True | Some v \<Rightarrow> sb_version s = v)
          then (let s' = (change s)\<lparr>sb_version := Suc (sb_version s)\<rparr>
                in Inr (s', p\<lparr>pf_subscriptions := t_update i (\<lambda>_. s') (pf_subscriptions p)\<rparr>))
          else Inl (Conflict SubscriptionChanged))"

definition add_event :: "actor \<Rightarrow> id \<Rightarrow> id \<Rightarrow> id \<Rightarrow> SubscriptionEventKind \<Rightarrow> string option \<Rightarrow> subscription \<Rightarrow> platform \<Rightarrow> platform" where
  "add_event a eventId co subId kind note after p =
     p\<lparr>pf_events := t_insert eventId
        \<lparr>se_companyId = co, se_subscriptionId = subId, se_kind = kind, se_note = note, se_periodEndAfter = sb_currentPeriodEnd after,
         se_branchesAfter = Some (sb_subscribedBranchCount after), se_seatsAfter = Some (sb_additionalSeats after), se_actor = Some (ac_email a),
         se_createdAt = ac_now a\<rparr> (pf_events p)\<rparr>"

definition add_audit :: "actor \<Rightarrow> string \<Rightarrow> id \<Rightarrow> string option \<Rightarrow> platform \<Rightarrow> platform" where
  "add_audit a action co reason p =
     p\<lparr>pf_audit := pf_audit p @ [\<lparr>pa_actor = ac_email a, pa_action = action, pa_targetId = co, pa_reason = map_option (take 500) reason\<rparr>]\<rparr>"

text \<open>Whether the change was applied, beside the subscription as it stands.\<close>

type_synonym lifecycle_answer = "(billing_error + subscription \<times> bool) \<times> platform"

definition write_change ::
  "actor \<Rightarrow> id \<Rightarrow> id \<Rightarrow> nat option \<Rightarrow> SubscriptionEventKind \<Rightarrow> string \<Rightarrow> string option \<Rightarrow> (subscription \<Rightarrow> subscription) \<Rightarrow> id \<Rightarrow> platform \<Rightarrow> lifecycle_answer" where
  "write_change a eventId co expected kind action reason change subId p =
     (case transition co expected change p of
        Inl e \<Rightarrow> (Inl e, p)
      | Inr (after, p') \<Rightarrow>
          (Inr (after, True),
           add_audit a action co reason (add_event a eventId co subId kind (map_option (take 255) reason) after p')))"

section \<open>The handlers\<close>

record GrantInput =
  gi_days :: int
  gi_reason :: string
  gi_expectedVersion :: "nat option"

definition grant_until :: "actor \<Rightarrow> GrantInput \<Rightarrow> nat" where
  "grant_until a inp = ac_now a + nat (gi_days inp) * MS_PER_DAY"

definition already_granted :: "actor \<Rightarrow> GrantInput \<Rightarrow> subscription \<Rightarrow> bool" where
  "already_granted a inp before \<longleftrightarrow>
     sb_status before = activated \<and> sb_isComplimentary before \<and>
     (case sb_complimentaryUntil before of
        None \<Rightarrow> False
      | Some u \<Rightarrow> \<bar>int u - int (grant_until a inp)\<bar> < 60000)"

definition granted :: "actor \<Rightarrow> GrantInput \<Rightarrow> subscription \<Rightarrow> subscription" where
  "granted a inp s =
     s\<lparr>sb_status := activated, sb_isComplimentary := True, sb_complimentaryReason := Some (take 255 (gi_reason inp)),
       sb_complimentaryUntil := Some (grant_until a inp)\<rparr>"

definition activateByGrant :: "actor \<Rightarrow> new_ids \<Rightarrow> id \<Rightarrow> GrantInput \<Rightarrow> platform \<Rightarrow> lifecycle_answer" where
  "activateByGrant a ids co inp p =
     (if gi_days inp < 1 \<or> gi_days inp > 3650 then (Inl (BadRequest BadDuration), p)
      else if js_trim (gi_reason inp) = [] then (Inl (BadRequest GrantNeedsReason), p)
      else
        (case loadOrThrow co p of
           Inl e \<Rightarrow> (Inl e, p)
         | Inr (subId, before) \<Rightarrow>
             if already_granted a inp before then (Inr (before, False), p)
             else
               (case write_change a (ni_event ids) co (gi_expectedVersion inp) administrative_grant ''subscription.activate_grant''
                       (Some (gi_reason inp)) (granted a inp) subId p of
                  (Inl e, p') \<Rightarrow> (Inl e, p')
                | (Inr (after, done), p') \<Rightarrow>
                    (case openPeriod (ni_period ids) co subId (sb_complimentaryUntil after) (ac_now a) p' of
                       Inl e \<Rightarrow> (Inl e, p')
                     | Inr p'' \<Rightarrow> (Inr (after, done), p'')))))"

record ExtendInput =
  xi_months :: int
  xi_reason :: "string option"
  xi_expectedVersion :: "nat option"

text \<open>From the later of now and the current end.\<close>

definition extension_start :: "nat \<Rightarrow> 'z SubscriptionRecord_scheme \<Rightarrow> nat" where
  "extension_start now s = (case sb_currentPeriodEnd s of Some e \<Rightarrow> if now < e then e else now | None \<Rightarrow> now)"

definition extend_handler :: "actor \<Rightarrow> new_ids \<Rightarrow> id \<Rightarrow> ExtendInput \<Rightarrow> platform \<Rightarrow> lifecycle_answer" where
  "extend_handler a ids co inp p =
     (if xi_months inp < 1 \<or> xi_months inp > 60 then (Inl (BadRequest BadMonths), p)
      else
        (case loadOrThrow co p of
           Inl e \<Rightarrow> (Inl e, p)
         | Inr (subId, before) \<Rightarrow>
             (let stop = add_months (extension_start (ac_now a) before) (nat (xi_months inp))
              in write_change a (ni_event ids) co (xi_expectedVersion inp) extended ''subscription.extend'' (xi_reason inp)
                   (\<lambda>s. s\<lparr>sb_status := activated, sb_currentPeriodEnd := Some stop\<rparr>) subId p)))"

record ReasonInput =
  ri_reason :: "string option"
  ri_expectedVersion :: "nat option"

definition suspend :: "actor \<Rightarrow> new_ids \<Rightarrow> id \<Rightarrow> ReasonInput \<Rightarrow> platform \<Rightarrow> lifecycle_answer" where
  "suspend a ids co inp p =
     (if blank (ri_reason inp) then (Inl (BadRequest SuspensionNeedsReason), p)
      else
        (case loadOrThrow co p of
           Inl e \<Rightarrow> (Inl e, p)
         | Inr (subId, before) \<Rightarrow>
             if sb_status before = suspended then (Inr (before, False), p)
             else write_change a (ni_event ids) co (ri_expectedVersion inp) ev_suspended ''subscription.suspend'' (ri_reason inp)
                    (\<lambda>s. s\<lparr>sb_status := suspended\<rparr>) subId p))"

definition reinstate :: "actor \<Rightarrow> new_ids \<Rightarrow> id \<Rightarrow> ReasonInput \<Rightarrow> platform \<Rightarrow> lifecycle_answer" where
  "reinstate a ids co inp p =
     (case loadOrThrow co p of
        Inl e \<Rightarrow> (Inl e, p)
      | Inr (subId, before) \<Rightarrow>
          if sb_status before \<noteq> suspended then (Inr (before, False), p)
          else write_change a (ni_event ids) co (ri_expectedVersion inp) reinstated ''subscription.reinstate'' (ri_reason inp)
                 (\<lambda>s. s\<lparr>sb_status := activated\<rparr>) subId p)"

definition cancel :: "actor \<Rightarrow> new_ids \<Rightarrow> id \<Rightarrow> ReasonInput \<Rightarrow> platform \<Rightarrow> lifecycle_answer" where
  "cancel a ids co inp p =
     (if blank (ri_reason inp) then (Inl (BadRequest CancellationNeedsReason), p)
      else
        (case loadOrThrow co p of
           Inl e \<Rightarrow> (Inl e, p)
         | Inr (subId, before) \<Rightarrow>
             if sb_status before = cancelled then (Inr (before, False), p)
             else write_change a (ni_event ids) co (ri_expectedVersion inp) ev_cancelled ''subscription.cancel'' (ri_reason inp)
                    (\<lambda>s. s\<lparr>sb_status := cancelled\<rparr>) subId p))"

text \<open>The amount arrives as text; \<open>None\<close> is a text that is not a finite number.\<close>

record PaymentInput =
  pyi_amount :: "number option"
  pyi_paidAt :: nat
  pyi_channel :: "SubscriptionPaymentChannel option"
  pyi_reference :: "string option"
  pyi_note :: "string option"
  pyi_confirm :: bool

definition recordPayment :: "actor \<Rightarrow> id \<Rightarrow> id \<Rightarrow> PaymentInput \<Rightarrow> platform \<Rightarrow> (billing_error + sub_payment) \<times> platform" where
  "recordPayment a newId co inp p =
     (case pyi_amount inp of
        None \<Rightarrow> (Inl (BadRequest BadAmount), p)
      | Some amount \<Rightarrow>
          if amount \<le> 0 then (Inl (BadRequest BadAmount), p)
          else
            (case loadOrThrow co p of
               Inl e \<Rightarrow> (Inl e, p)
             | Inr (subId, _) \<Rightarrow>
                 (let row = \<lparr>sp_companyId = co, sp_subscriptionId = subId, sp_amount = amount, sp_paidAt = pyi_paidAt inp,
                             sp_channel = (case pyi_channel inp of None \<Rightarrow> manual | Some ch \<Rightarrow> ch),
                             sp_reference = map_option (take 120) (pyi_reference inp), sp_note = map_option (take 500) (pyi_note inp),
                             sp_recordedBy = ac_email a, sp_confirmedBy = (if pyi_confirm inp then Some (ac_email a) else None),
                             sp_confirmedAt = (if pyi_confirm inp then Some (ac_now a) else None)\<rparr>
                  in (Inr row,
                      add_audit a (if pyi_confirm inp then ''payment.record_and_confirm'' else ''payment.record'') co (pyi_note inp)
                        (p\<lparr>pf_payments := t_insert newId row (pf_payments p)\<rparr>)))))"

text \<open>Newest first, at most two hundred of each.\<close>

definition timeline :: "id \<Rightarrow> platform \<Rightarrow> billing_error + (id \<times> sub_event) list \<times> (id \<times> sub_payment) list" where
  "timeline co p =
     bindE (loadOrThrow co p) (\<lambda>_.
       Inr (take 200 (rev (sort_key (\<lambda>(_, e). se_createdAt e) (filter (\<lambda>(_, e). se_companyId e = co) (pf_events p)))),
            take 200 (rev (sort_key (\<lambda>(_, y). sp_paidAt y) (filter (\<lambda>(_, y). sp_companyId y = co) (pf_payments p))))))"

section \<open>Provisioning by the platform key\<close>

record ProvisionDto =
  pd_companyId :: id
  pd_months :: "nat option"
  pd_subscribedBranchCount :: "int option"
  pd_additionalSeats :: "int option"
  pd_complimentary :: "bool option"
  pd_reason :: "string option"
  pd_actor :: string

definition assertPlatform :: "string option \<Rightarrow> string option \<Rightarrow> billing_error + unit" where
  "assertPlatform configured given =
     (case configured of
        None \<Rightarrow> Inl (Forbidden ProvisioningClosed)
      | Some k \<Rightarrow>
          if length k < 16 then Inl (Forbidden ProvisioningClosed)
          else require (given = Some k) (Forbidden NotAnOperator))"

text \<open>A count of zero months is no extension, as an absent one.\<close>

definition months_of :: "ProvisionDto \<Rightarrow> nat option" where
  "months_of dto = (if pd_months dto = Some 0 then None else pd_months dto)"

definition provisioned :: "nat \<Rightarrow> ProvisionDto \<Rightarrow> subscription \<Rightarrow> subscription" where
  "provisioned now dto s =
     (let s1 = (case months_of dto of None \<Rightarrow> s | Some m \<Rightarrow> s\<lparr>sb_currentPeriodEnd := Some (add_months (extension_start now s) m)\<rparr>);
          s2 = (case pd_subscribedBranchCount dto of None \<Rightarrow> s1 | Some n \<Rightarrow> s1\<lparr>sb_subscribedBranchCount := n\<rparr>);
          s3 = (case pd_additionalSeats dto of None \<Rightarrow> s2 | Some n \<Rightarrow> s2\<lparr>sb_additionalSeats := n\<rparr>)
      in case pd_complimentary dto of
           None \<Rightarrow> s3
         | Some True \<Rightarrow> s3\<lparr>sb_isComplimentary := True, sb_complimentaryReason := pd_reason dto,
                            sb_complimentaryUntil := Some (add_months now (case pd_months dto of None \<Rightarrow> 1 | Some m \<Rightarrow> m))\<rparr>
         | Some False \<Rightarrow> s3\<lparr>sb_isComplimentary := False, sb_complimentaryReason := None, sb_complimentaryUntil := None\<rparr>)"

definition provision_kind :: "ProvisionDto \<Rightarrow> SubscriptionEventKind" where
  "provision_kind dto =
     (case pd_complimentary dto of
        Some True \<Rightarrow> complimentary_granted
      | Some False \<Rightarrow> complimentary_revoked
      | None \<Rightarrow> if pd_additionalSeats dto \<noteq> None then seats_changed
               else if pd_subscribedBranchCount dto \<noteq> None then branches_changed
               else extended)"

definition provision :: "string option \<Rightarrow> string option \<Rightarrow> nat \<Rightarrow> id \<Rightarrow> ProvisionDto \<Rightarrow> platform \<Rightarrow> (billing_error + subscription) \<times> platform" where
  "provision configured given now eventId dto p =
     (case assertPlatform configured given of
        Inl e \<Rightarrow> (Inl e, p)
      | Inr _ \<Rightarrow>
          (case find_subscription (pd_companyId dto) p of
             None \<Rightarrow> (Inl (BadRequest NoSuchCompany), p)
           | Some (i, s) \<Rightarrow>
               if pd_complimentary dto = Some True \<and> falsy (pd_reason dto) then (Inl (BadRequest GrantNeedsReason), p)
               else if months_of dto = None \<and> pd_subscribedBranchCount dto = None \<and> pd_additionalSeats dto = None \<and> pd_complimentary dto = None
               then (Inl (BadRequest NothingToChange), p)
               else
                 (let s' = (provisioned now dto s)\<lparr>sb_version := Suc (sb_version s)\<rparr>
                  in (Inr s',
                      add_event \<lparr>ac_email = pd_actor dto, ac_now = now\<rparr> eventId (pd_companyId dto) i (provision_kind dto) (pd_reason dto) s'
                        (p\<lparr>pf_subscriptions := t_update i (\<lambda>_. s') (pf_subscriptions p)\<rparr>)))))"

section \<open>Registration\<close>

text \<open>
  The part of the registration transaction (\<^verbatim>\<open>platform/registration.service.ts\<close>) that concerns the
  subscription: a row that waits for activation, and its event.
\<close>

definition new_subscription :: "id \<Rightarrow> subscription" where
  "new_subscription co =
     \<lparr>sb_subscribedBranchCount = 1, sb_additionalSeats = 0, sb_currentPeriodEnd = None, sb_isComplimentary = False,
      sb_complimentaryUntil = None, sb_status = pending_activation, sb_companyId = co, sb_complimentaryReason = None, sb_version = 0\<rparr>"

definition register_subscription :: "id \<Rightarrow> id \<Rightarrow> id \<Rightarrow> nat \<Rightarrow> platform \<Rightarrow> platform" where
  "register_subscription subId eventId co now p =
     p\<lparr>pf_subscriptions := t_insert subId (new_subscription co) (pf_subscriptions p),
       pf_events := t_insert eventId
         \<lparr>se_companyId = co, se_subscriptionId = subId, se_kind = registered,
          se_note = Some ''Self-service registration. Awaiting activation.'', se_periodEndAfter = None, se_branchesAfter = None, se_seatsAfter = None,
          se_actor = Some ''self-service'', se_createdAt = now\<rparr> (pf_events p)\<rparr>"

end
