(* ===== verification/PlatformProperties.thy ===== *)
theory PlatformProperties
  imports Subscriptions
begin

text \<open>
  What the platform side promises: who gets past the interceptor, that every change of a
  subscription is recorded and that of two administrators one wins, that a billing period keeps
  its prices and only grows; and two places where a retry does harm or no good. The transition
  system runs the handlers of subscriptions and billing in any order, with companies registering
  and hiring in between.
\<close>

section \<open>The administrator's calls\<close>

datatype lifecycle_call =
    CGrant GrantInput
  | CExtend ExtendInput
  | CSuspend ReasonInput
  | CReinstate ReasonInput
  | CCancel ReasonInput

fun run_call :: "actor \<Rightarrow> new_ids \<Rightarrow> id \<Rightarrow> lifecycle_call \<Rightarrow> platform \<Rightarrow> lifecycle_answer" where
  "run_call a ids co (CGrant inp) p = activateByGrant a ids co inp p"
| "run_call a ids co (CExtend inp) p = extend_handler a ids co inp p"
| "run_call a ids co (CSuspend inp) p = suspend a ids co inp p"
| "run_call a ids co (CReinstate inp) p = reinstate a ids co inp p"
| "run_call a ids co (CCancel inp) p = cancel a ids co inp p"

fun call_version :: "lifecycle_call \<Rightarrow> nat option" where
  "call_version (CGrant inp) = gi_expectedVersion inp"
| "call_version (CExtend inp) = xi_expectedVersion inp"
| "call_version (CSuspend inp) = ri_expectedVersion inp"
| "call_version (CReinstate inp) = ri_expectedVersion inp"
| "call_version (CCancel inp) = ri_expectedVersion inp"

section \<open>The transition system\<close>

inductive pf_step :: "platform \<Rightarrow> platform \<Rightarrow> bool" where
  call: "map_of (pf_events p) (ni_event ids) = None \<Longrightarrow> map_of (pf_periods p) (ni_period ids) = None \<Longrightarrow>
         run_call a ids co c p = (r, p') \<Longrightarrow> pf_step p p'"
| payment: "recordPayment a k co inp p = (r, p') \<Longrightarrow> pf_step p p'"
| provision: "map_of (pf_events p) k = None \<Longrightarrow> provision configured given now k dto p = (r, p') \<Longrightarrow> pf_step p p'"
| schedule: "map_of (pf_plans p) k = None \<Longrightarrow> schedulePlanVersion k inp now p = (r, p') \<Longrightarrow> pf_step p p'"
| assess: "pf_step p (assessNow co p)"
| people: "pf_step p (p\<lparr>pf_users := us, pf_roles := rs, pf_branches := bs\<rparr>)"
| register: "map_of (pf_subscriptions p) k = None \<Longrightarrow> map_of (pf_events p) e = None \<Longrightarrow> find_subscription co p = None \<Longrightarrow>
             pf_step p (register_subscription k e co now p)"

definition pf_init :: "platform \<Rightarrow> bool" where
  "pf_init p \<longleftrightarrow> pf_subscriptions p = [] \<and> pf_events p = [] \<and> pf_periods p = []"

definition period_ok :: "billing_period \<Rightarrow> bool" where
  "period_ok b \<longleftrightarrow> 0 \<le> bp_assessedBranchFee b \<and> 0 \<le> bp_assessedStaffFee b \<and> bp_assessedTotal b = bp_assessedBranchFee b + bp_assessedStaffFee b"

definition pf_inv :: "platform \<Rightarrow> bool" where
  "pf_inv p \<longleftrightarrow> t_wf (pf_subscriptions p) \<and> t_wf (pf_periods p) \<and> (\<forall>i b. map_of (pf_periods p) i = Some b \<longrightarrow> period_ok b)"

lemma pf_invD:
  assumes "pf_inv p"
  shows "t_wf (pf_subscriptions p)" "t_wf (pf_periods p)" "map_of (pf_periods p) i = Some b \<Longrightarrow> period_ok b"
  using assms by (auto simp: pf_inv_def)

section \<open>What the handlers write\<close>

lemma quote_nonneg: "0 \<le> qt_branchFee (quoteFor sz plan)" "0 \<le> qt_staffFee (quoteFor sz plan)"
  by (simp_all add: quoteFor_def Let_def whole_def)

lemma quote_total: "qt_monthlyTotal (quoteFor sz plan) = qt_branchFee (quoteFor sz plan) + qt_staffFee (quoteFor sz plan)"
  by (simp add: quoteFor_def Let_def)

lemma assess_fields [simp]:
  "as_assessedBranchFee (assessPeriod sz prior plan) = max (whole (ap_assessedBranchFee prior)) (qt_branchFee (quoteFor sz plan))"
  "as_assessedStaffFee (assessPeriod sz prior plan) = max (whole (ap_assessedStaffFee prior)) (qt_staffFee (quoteFor sz plan))"
  "as_assessedTotal (assessPeriod sz prior plan) =
     max (whole (ap_assessedBranchFee prior)) (qt_branchFee (quoteFor sz plan)) +
     max (whole (ap_assessedStaffFee prior)) (qt_staffFee (quoteFor sz plan))"
  by (simp_all add: assessPeriod_def Let_def Quote.defs)

lemma raised_fields [simp]:
  "bp_assessedBranchFee (raised sz b) = max (whole (bp_assessedBranchFee b)) (qt_branchFee (quoteFor sz b))"
  "bp_assessedStaffFee (raised sz b) = max (whole (bp_assessedStaffFee b)) (qt_staffFee (quoteFor sz b))"
  "bp_assessedTotal (raised sz b) = bp_assessedBranchFee (raised sz b) + bp_assessedStaffFee (raised sz b)"
  by (simp_all add: raised_def Let_def assessed_of_def)

definition same_terms :: "billing_period \<Rightarrow> billing_period \<Rightarrow> bool" where
  "same_terms b b' \<longleftrightarrow>
     PlanPricing.truncate b' = PlanPricing.truncate b \<and> bp_companyId b' = bp_companyId b \<and> bp_subscriptionId b' = bp_subscriptionId b \<and>
     bp_planVersionId b' = bp_planVersionId b \<and> bp_periodStart b' = bp_periodStart b \<and> bp_periodEnd b' = bp_periodEnd b"

definition grown :: "billing_period \<Rightarrow> billing_period \<Rightarrow> bool" where
  "grown b b' \<longleftrightarrow> same_terms b b' \<and> bp_assessedBranchFee b \<le> bp_assessedBranchFee b' \<and> bp_assessedStaffFee b \<le> bp_assessedStaffFee b' \<and>
     bp_assessedTotal b \<le> bp_assessedTotal b'"

lemma grown_refl [simp]: "grown b b"
  by (simp add: grown_def same_terms_def)

lemma grown_trans: "grown b b' \<Longrightarrow> grown b' b'' \<Longrightarrow> grown b b''"
  by (auto simp: grown_def same_terms_def)

lemma same_terms_raised [simp]: "same_terms b (raised sz b)"
  by (simp add: same_terms_def raised_def Let_def PlanPricing.defs)

lemma grown_raised: "period_ok b \<Longrightarrow> grown b (raised sz b)"
  by (simp add: grown_def period_ok_def whole_def)

lemma period_ok_raised [simp]: "period_ok (raised sz b)"
  using quote_nonneg [of sz b] by (simp add: period_ok_def whole_def le_max_iff_disj)

lemma period_ok_new [simp]: "period_ok (new_period co sub e now plan (quoteFor sz pl))"
  by (simp add: period_ok_def new_period_def quote_nonneg quote_total)

lemma find_subscriptionD:
  "find_subscription co p = Some (i, s) \<Longrightarrow> (i, s) \<in> set (pf_subscriptions p) \<and> sb_companyId s = co"
  by (auto simp: find_subscription_def find_Some_iff dest: nth_mem)

text \<open>Changing one row that keeps its company leaves the rows of the other companies to be found.\<close>

lemma find_subscription_update:
  assumes "t_wf (pf_subscriptions p)" "find_subscription co p = Some (i, s)" "sb_companyId s' = co"
    "pf_subscriptions p' = t_update i (\<lambda>_. s') (pf_subscriptions p)"
  shows "find_subscription co2 p' = (if co2 = co then Some (i, s') else find_subscription co2 p)"
proof -
  have "find (\<lambda>(_, s). sb_companyId s = co2) (t_update i (\<lambda>_. s') t) =
      (if co2 = co then Some (i, s') else find (\<lambda>(_, s). sb_companyId s = co2) t)"
    if "t_wf t" "find (\<lambda>(_, s). sb_companyId s = co) t = Some (i, s)" for t
    using that
  proof (induction t)
    case (Cons x t)
    obtain k v where x: "x = (k, v)" by force
    have rest: "t_update i (\<lambda>_. s') t = t" if "k = i"
      using Cons.prems(1) that unfolding x t_update_def
      by (simp add: map_of_eq_None_iff) (rule map_idI, force)
    show ?case
    proof (cases "sb_companyId v = co")
      case True
      with Cons.prems x have "k = i" "v = s" by simp_all
      with True rest assms(3) show ?thesis by (auto simp: x t_update_def)
    next
      case False
      with Cons x have IH: "find (\<lambda>(_, s). sb_companyId s = co2) (t_update i (\<lambda>_. s') t) = (if co2 = co then Some (i, s') else find (\<lambda>(_, s). sb_companyId s = co2) t)"
        and "(i, s) \<in> set t" by (auto simp: find_Some_iff in_set_conv_nth)
      with Cons.prems(1) x have "k \<noteq> i" by (auto simp: map_of_eq_None_iff rev_image_eqI)
      with IH False show ?thesis by (auto simp: x t_update_def)
    qed
  qed simp
  with assms show ?thesis by (simp add: find_subscription_def)
qed

definition recorded :: "id \<Rightarrow> id \<Rightarrow> subscription \<Rightarrow> sub_event \<Rightarrow> bool" where
  "recorded co i s e \<longleftrightarrow>
     se_companyId e = co \<and> se_subscriptionId e = i \<and> se_periodEndAfter e = sb_currentPeriodEnd s \<and>
     se_branchesAfter e = Some (sb_subscribedBranchCount s) \<and> se_seatsAfter e = Some (sb_additionalSeats s)"

text \<open>
  The one way a subscription changes: its row gets the next version and one event records what
  stands afterwards; periods may have been added.
\<close>

definition changed :: "id \<Rightarrow> platform \<Rightarrow> platform \<Rightarrow> bool" where
  "changed co p p' \<longleftrightarrow>
     (\<exists>i s s' k e. find_subscription co p = Some (i, s) \<and> sb_companyId s' = co \<and> sb_version s' = Suc (sb_version s) \<and>
        pf_subscriptions p' = t_update i (\<lambda>_. s') (pf_subscriptions p) \<and> pf_events p' = t_insert k e (pf_events p) \<and> recorded co i s' e)"

lemma write_change_cases:
  assumes "write_change a k co v kind action reason f subId p = (r, p')" "\<And>s. sb_companyId (f s) = sb_companyId s"
    "find_subscription co p = Some (subId, s)"
  shows "(\<exists>e. r = Inl e \<and> p' = p) \<or>
    (v = None \<or> v = Some (sb_version s)) \<and> r = Inr ((f s)\<lparr>sb_version := Suc (sb_version s)\<rparr>, True) \<and> changed co p p' \<and> pf_periods p' = pf_periods p \<and>
    pf_plans p' = pf_plans p \<and> pf_users p' = pf_users p \<and> pf_roles p' = pf_roles p \<and> pf_branches p' = pf_branches p \<and>
    pf_subscriptions p' = t_update subId (\<lambda>_. (f s)\<lparr>sb_version := Suc (sb_version s)\<rparr>) (pf_subscriptions p)"
proof (cases "v = None \<or> v = Some (sb_version s)")
  case True
  let ?s = "(f s)\<lparr>sb_version := Suc (sb_version s)\<rparr>"
  from True assms(3) have t: "transition co v f p = Inr (?s, p\<lparr>pf_subscriptions := t_update subId (\<lambda>_. ?s) (pf_subscriptions p)\<rparr>)"
    by (auto simp: transition_def Let_def)
  from assms(1) have r: "r = Inr (?s, True)" and
    p': "p' = add_audit a action co reason (add_event a k co subId kind (map_option (take 255) reason) ?s
        (p\<lparr>pf_subscriptions := t_update subId (\<lambda>_. ?s) (pf_subscriptions p)\<rparr>))"
    by (simp_all add: write_change_def t)
  have "changed co p p'"
    unfolding changed_def p'
    by (rule exI [of _ subId], rule exI [of _ s], rule exI [of _ ?s], rule exI [of _ k], rule exI)
       (use assms find_subscriptionD [OF assms(3)] in \<open>auto simp: add_audit_def add_event_def recorded_def\<close>)
  with True r show ?thesis by (simp add: p' add_audit_def add_event_def)
next
  case False
  with assms(1,3) show ?thesis by (auto simp: write_change_def transition_def split: option.splits)
qed

lemma loadOrThrow_Inr [simp]: "loadOrThrow co p = Inr x \<longleftrightarrow> find_subscription co p = Some x"
  by (auto simp: loadOrThrow_def split: option.split)

lemma loadOrThrow_Inl: "loadOrThrow co p = Inl e \<Longrightarrow> find_subscription co p = None"
  by (auto simp: loadOrThrow_def split: option.splits)

lemma openPeriod_Inr:
  assumes "openPeriod k co sub e now p = Inr p'"
  shows "\<exists>b. period_ok b \<and> p' = p\<lparr>pf_periods := t_insert k b (pf_periods p)\<rparr>"
  using assms by (auto simp: openPeriod_def split: prod.splits) (blast intro: period_ok_new)

definition applied :: "id \<Rightarrow> nat option \<Rightarrow> id \<Rightarrow> platform \<Rightarrow> platform \<Rightarrow> bool" where
  "applied co v newPeriod p p' \<longleftrightarrow>
     changed co p p' \<and> (\<exists>i s. find_subscription co p = Some (i, s) \<and> (v = None \<or> v = Some (sb_version s))) \<and>
     (pf_periods p' = pf_periods p \<or> (\<exists>b. period_ok b \<and> pf_periods p' = t_insert newPeriod b (pf_periods p)))"

text \<open>A call of an administrator does nothing and says so, or it changes the subscription it read.\<close>

lemma applied_write_change:
  assumes "write_change a k co v kind action reason f i p = (r, p')" "\<And>s. sb_companyId (f s) = sb_companyId s"
    "find_subscription co p = Some (i, s)"
  shows "p' = p \<and> (\<forall>s. r \<noteq> Inr (s, True)) \<or> applied co v n p p'"
  using write_change_cases [OF assms] assms(3) by (auto simp: applied_def)

lemma applied_grant:
  assumes "activateByGrant a ids co inp p = (r, p')"
  shows "p' = p \<and> (\<forall>s. r \<noteq> Inr (s, True)) \<or> applied co (gi_expectedVersion inp) (ni_period ids) p p'"
proof (cases "gi_days inp < 1 \<or> gi_days inp > 3650 \<or> js_trim (gi_reason inp) = []")
  case True
  with assms show ?thesis by (auto simp: activateByGrant_def split: if_splits)
next
  case ok: False
  show ?thesis
  proof (cases "find_subscription co p")
    case None
    with ok assms show ?thesis by (auto simp: activateByGrant_def loadOrThrow_def)
  next
    case (Some x)
    obtain i s where x: "x = (i, s)" by force
    obtain r1 p1 where w: "write_change a (ni_event ids) co (gi_expectedVersion inp) administrative_grant ''subscription.activate_grant''
        (Some (gi_reason inp)) (granted a inp) i p = (r1, p1)" by force
    have one: "p1 = p \<and> (\<forall>s. r1 \<noteq> Inr (s, True)) \<or> applied co (gi_expectedVersion inp) (ni_period ids) p p1"
      and keep: "pf_periods p1 = pf_periods p"
      using applied_write_change [OF w _ Some [unfolded x], of "ni_period ids"] write_change_cases [OF w _ Some [unfolded x]]
      by (auto simp: granted_def)
    show ?thesis
    proof (cases "already_granted a inp s")
      case True
      with ok Some x assms show ?thesis by (auto simp: activateByGrant_def loadOrThrow_def)
    next
      case False
      with ok Some x assms w have g: "(case r1 of Inl e \<Rightarrow> (Inl e, p1) | Inr (after, done) \<Rightarrow>
          (case openPeriod (ni_period ids) co i (sb_complimentaryUntil after) (ac_now a) p1 of Inl e \<Rightarrow> (Inl e, p1) | Inr p2 \<Rightarrow> (Inr (after, done), p2))) = (r, p')"
        by (auto simp: activateByGrant_def loadOrThrow_def split: sum.splits prod.splits)
      show ?thesis
      proof (cases r1)
        case (Inl e)
        with g one show ?thesis by auto
      next
        case (Inr y)
        obtain after d where y: "y = (after, d)" by force
        have ap: "applied co (gi_expectedVersion inp) (ni_period ids) p p1" and "d"
          using Inr y write_change_cases [OF w _ Some [unfolded x]] one by (auto simp: granted_def)
        show ?thesis
        proof (cases "openPeriod (ni_period ids) co i (sb_complimentaryUntil after) (ac_now a) p1")
          case (Inl e)
          with g Inr y ap show ?thesis by simp
        next
          case o: (Inr p2)
          from openPeriod_Inr [OF o] obtain b where "period_ok b" "p2 = p1\<lparr>pf_periods := t_insert (ni_period ids) b (pf_periods p1)\<rparr>" by blast
          with g Inr y o ap keep show ?thesis by (auto simp: applied_def changed_def)
        qed
      qed
    qed
  qed
qed

lemma applied_call:
  assumes "run_call a ids co c p = (r, p')"
  shows "p' = p \<and> (\<forall>s. r \<noteq> Inr (s, True)) \<or> applied co (call_version c) (ni_period ids) p p'"
proof (cases c)
  case (CGrant inp)
  with assms applied_grant show ?thesis by simp
next
  case (CExtend inp)
  with assms show ?thesis
    by (auto simp: extend_handler_def Let_def split: if_splits sum.splits dest!: applied_write_change [where n = "ni_period ids"])
next
  case (CSuspend inp)
  with assms show ?thesis
    by (auto simp: suspend_def split: if_splits sum.splits dest!: applied_write_change [where n = "ni_period ids"])
next
  case (CReinstate inp)
  with assms show ?thesis
    by (auto simp: reinstate_def split: if_splits sum.splits dest!: applied_write_change [where n = "ni_period ids"])
next
  case (CCancel inp)
  with assms show ?thesis
    by (auto simp: Subscriptions.cancel_def split: if_splits sum.splits dest!: applied_write_change [where n = "ni_period ids"])
qed

lemma provision_cases:
  assumes "provision configured given now k dto p = (r, p')"
  shows "p' = p \<or> changed (pd_companyId dto) p p' \<and> pf_periods p' = pf_periods p"
proof (cases r)
  case (Inl e)
  with assms show ?thesis by (auto simp: provision_def Let_def split: sum.splits option.splits if_splits)
next
  case (Inr s')
  with assms obtain i s where f: "find_subscription (pd_companyId dto) p = Some (i, s)"
    and s': "s' = (provisioned now dto s)\<lparr>sb_version := Suc (sb_version s)\<rparr>"
    and p': "p' = add_event \<lparr>ac_email = pd_actor dto, ac_now = now\<rparr> k (pd_companyId dto) i (provision_kind dto) (pd_reason dto) s'
        (p\<lparr>pf_subscriptions := t_update i (\<lambda>_. s') (pf_subscriptions p)\<rparr>)"
    by (auto simp: provision_def Let_def split: sum.splits option.splits if_splits)
  have "sb_companyId (provisioned now dto s) = sb_companyId s"
    by (auto simp: provisioned_def Let_def split: option.split bool.split)
  with find_subscriptionD [OF f] have "sb_companyId s' = pd_companyId dto" "sb_version s' = Suc (sb_version s)" by (simp_all add: s')
  then have "changed (pd_companyId dto) p p'"
    unfolding changed_def p' using f
    by (intro exI [of _ i] exI [of _ s] exI [of _ s'] exI [of _ k] exI) (auto simp: add_event_def recorded_def)
  then show ?thesis by (simp add: p' add_event_def)
qed

section \<open>The invariant\<close>

lemma changed_wf: "changed co p p' \<Longrightarrow> t_wf (pf_subscriptions p) \<Longrightarrow> t_wf (pf_subscriptions p')"
  by (auto simp: changed_def)

lemma assessNow_cases:
  "pf_subscriptions (assessNow co p) = pf_subscriptions p" "pf_events (assessNow co p) = pf_events p"
  "pf_periods (assessNow co p) = pf_periods p \<or> (\<exists>i sz. pf_periods (assessNow co p) = t_update i (raised sz) (pf_periods p))"
  by (auto simp: assessNow_def split: option.split)

lemma recordPayment_frame:
  "recordPayment a k co inp p = (r, p') \<Longrightarrow>
     pf_subscriptions p' = pf_subscriptions p \<and> pf_periods p' = pf_periods p \<and> pf_events p' = pf_events p"
  by (auto simp: recordPayment_def Let_def add_audit_def split: option.splits if_splits sum.splits)

lemma schedule_frame:
  "schedulePlanVersion k inp now p = (r, p') \<Longrightarrow>
     pf_subscriptions p' = pf_subscriptions p \<and> pf_periods p' = pf_periods p \<and> pf_events p' = pf_events p"
  by (auto simp: schedulePlanVersion_def Let_def split: if_splits)

text \<open>What every step does to subscriptions and events, and to periods.\<close>

lemma step_subscriptions:
  assumes "pf_step p p'"
  shows "pf_subscriptions p' = pf_subscriptions p \<and> pf_events p' = pf_events p \<or> (\<exists>co. changed co p p') \<or>
    (\<exists>k co. map_of (pf_subscriptions p) k = None \<and> find_subscription co p = None \<and> (\<exists>j e. pf_events p' = t_insert j e (pf_events p)) \<and>
       pf_subscriptions p' = t_insert k (new_subscription co) (pf_subscriptions p))"
  using assms
proof cases
  case (call ids a co c r)
  then show ?thesis using applied_call [OF call(3)] by (auto simp: applied_def)
next
  case (payment a k co inp r)
  then show ?thesis using recordPayment_frame by simp
next
  case (provision k configured given now dto r)
  then show ?thesis using provision_cases [OF provision(2)] by auto
next
  case (schedule k inp now r)
  then show ?thesis using schedule_frame by simp
next
  case (assess co)
  then show ?thesis using assessNow_cases [of co p] by simp
next
  case (register k e co now)
  then show ?thesis by (auto simp: register_subscription_def)
qed auto

lemma step_periods:
  assumes "pf_step p p'"
  shows "pf_periods p' = pf_periods p \<or> (\<exists>i sz. pf_periods p' = t_update i (raised sz) (pf_periods p)) \<or>
    (\<exists>k b. map_of (pf_periods p) k = None \<and> period_ok b \<and> pf_periods p' = t_insert k b (pf_periods p))"
  using assms
proof cases
  case (call ids a co c r)
  then show ?thesis using applied_call [OF call(3)] by (auto simp: applied_def)
next
  case (payment a k co inp r)
  then show ?thesis using recordPayment_frame by simp
next
  case (provision k configured given now dto r)
  then show ?thesis using provision_cases [OF provision(2)] by auto
next
  case (schedule k inp now r)
  then show ?thesis using schedule_frame by simp
next
  case (assess co)
  then show ?thesis using assessNow_cases(3) [of co p] by blast
qed (auto simp: register_subscription_def)

interpretation pf_sys: invariant_system pf_init pf_step pf_inv
proof
  show "pf_inv p" if "pf_init p" for p using that by (simp add: pf_init_def pf_inv_def)
  show "pf_inv p'" if "pf_inv p" and st: "pf_step p p'" for p p'
  proof -
    have "t_wf (pf_subscriptions p')" using step_subscriptions [OF st] pf_invD(1) [OF that(1)] changed_wf by auto
    moreover have "t_wf (pf_periods p')" using step_periods [OF st] pf_invD(2) [OF that(1)] by auto
    moreover have "period_ok b" if "map_of (pf_periods p') i = Some b" for i b
      using step_periods [OF st] pf_invD(3) [OF \<open>pf_inv p\<close>] that by (auto split: if_splits)
    ultimately show ?thesis by (simp add: pf_inv_def)
  qed
qed

section \<open>What is promised\<close>

lemma period_grown_step:
  assumes "pf_inv p" "pf_step p p'" "map_of (pf_periods p) i = Some b"
  shows "\<exists>b'. map_of (pf_periods p') i = Some b' \<and> grown b b'"
  using step_periods [OF assms(2)] pf_invD(3) [OF assms(1,3)] assms(3) by (auto simp: grown_raised)

text \<open>
  (C13) A billing period keeps the unit prices, the plan version and the dates it was opened with,
  whatever plans are scheduled later, and what it was assessed at - the branch fee, the staff fee
  and their sum - never falls, whatever administrators do and however the company shrinks.
\<close>

theorem billing_period_only_grows:
  assumes "reach pf_init pf_step p" "pf_step\<^sup>*\<^sup>* p p'" "map_of (pf_periods p) i = Some b"
  shows "\<exists>b'. map_of (pf_periods p') i = Some b' \<and> PlanPricing.truncate b' = PlanPricing.truncate b \<and>
    bp_planVersionId b' = bp_planVersionId b \<and> bp_periodStart b' = bp_periodStart b \<and> bp_periodEnd b' = bp_periodEnd b \<and>
    bp_assessedBranchFee b \<le> bp_assessedBranchFee b' \<and> bp_assessedStaffFee b \<le> bp_assessedStaffFee b' \<and>
    bp_assessedTotal b' = bp_assessedBranchFee b' + bp_assessedStaffFee b' \<and> 0 \<le> bp_assessedTotal b \<and> bp_assessedTotal b \<le> bp_assessedTotal b'"
proof -
  from assms(2) have "pf_inv p' \<and> (\<exists>b'. map_of (pf_periods p') i = Some b' \<and> grown b b')"
  proof (induction rule: rtranclp_induct)
    case base
    with assms pf_sys.reach_inv show ?case by auto
  next
    case (step y z)
    then obtain b1 where "map_of (pf_periods y) i = Some b1" "grown b b1" by blast
    with step period_grown_step [of y z i b1] pf_sys.inv_step show ?case using grown_trans by blast
  qed
  then obtain b' where "map_of (pf_periods p') i = Some b'" "grown b b'" "period_ok b'" using pf_invD(3) by blast
  moreover have "period_ok b" using pf_invD(3) [OF pf_sys.reach_inv [OF assms(1)] assms(3)] .
  ultimately show ?thesis by (auto simp: grown_def same_terms_def period_ok_def)
qed

lemma find_subscription_step:
  assumes "pf_inv p" "pf_step p p'" "find_subscription co p = Some (i, s)"
  shows "\<exists>s'. find_subscription co p' = Some (i, s') \<and>
    (s' = s \<or> sb_version s' = Suc (sb_version s) \<and> (\<exists>k e. pf_events p' = pf_events p @ [(k, e)] \<and> recorded co i s' e))"
  using step_subscriptions [OF assms(2)]
proof (elim disjE exE conjE)
  assume "pf_subscriptions p' = pf_subscriptions p"
  with assms(3) show ?thesis by (simp add: find_subscription_def)
next
  fix co2 assume "changed co2 p p'"
  then obtain j u u' k e where c: "find_subscription co2 p = Some (j, u)" "sb_companyId u' = co2" "sb_version u' = Suc (sb_version u)"
    "pf_subscriptions p' = t_update j (\<lambda>_. u') (pf_subscriptions p)" "pf_events p' = t_insert k e (pf_events p)" "recorded co2 j u' e"
    by (auto simp: changed_def)
  from find_subscription_update [OF pf_invD(1) [OF assms(1)] c(1,2,4), of co] assms(3) c
  show ?thesis by (cases "co = co2") (auto simp: t_insert_def)
next
  fix k co2 assume "pf_subscriptions p' = t_insert k (new_subscription co2) (pf_subscriptions p)"
  with assms(3) show ?thesis by (simp add: find_subscription_def t_insert_def find_snoc)
qed

text \<open>
  In every reachable state, a step changes what a company is entitled to only together with its
  record: the version of the row moves by one and exactly one event is appended, which names the
  subscription and the period, branches and seats that hold afterwards. No step removes a
  subscription or an event.
\<close>

theorem every_change_recorded:
  assumes "reach pf_init pf_step p" "pf_step p p'"
  shows "(\<exists>new. pf_events p' = pf_events p @ new \<and> length new \<le> 1) \<and>
    (\<forall>co i s. find_subscription co p = Some (i, s) \<longrightarrow>
       (\<exists>s'. find_subscription co p' = Some (i, s') \<and>
          (s' = s \<or> sb_version s' = Suc (sb_version s) \<and>
             (\<exists>k e. pf_events p' = pf_events p @ [(k, e)] \<and> se_companyId e = co \<and> se_subscriptionId e = i \<and>
                se_periodEndAfter e = sb_currentPeriodEnd s' \<and> se_branchesAfter e = Some (sb_subscribedBranchCount s') \<and>
                se_seatsAfter e = Some (sb_additionalSeats s')))))"
proof (intro conjI allI impI)
  show "\<exists>new. pf_events p' = pf_events p @ new \<and> length new \<le> 1"
    using step_subscriptions [OF assms(2)] by (auto simp: changed_def t_insert_def)
next
  fix co i s assume "find_subscription co p = Some (i, s)"
  from find_subscription_step [OF pf_sys.reach_inv [OF assms(1)] assms(2) this]
  show "\<exists>s'. find_subscription co p' = Some (i, s') \<and>
          (s' = s \<or> sb_version s' = Suc (sb_version s) \<and>
             (\<exists>k e. pf_events p' = pf_events p @ [(k, e)] \<and> se_companyId e = co \<and> se_subscriptionId e = i \<and>
                se_periodEndAfter e = sb_currentPeriodEnd s' \<and> se_branchesAfter e = Some (sb_subscribedBranchCount s') \<and>
                se_seatsAfter e = Some (sb_additionalSeats s')))"
    by (auto simp: recorded_def)
qed

lemma version_steps:
  assumes "pf_inv p" "pf_step\<^sup>*\<^sup>* p p'" "find_subscription co p = Some (i, s)"
  shows "\<exists>s'. find_subscription co p' = Some (i, s') \<and> sb_version s \<le> sb_version s'"
  using assms(2)
proof (induction rule: rtranclp_induct)
  case base
  with assms show ?case by simp
next
  case (step y z)
  then obtain s1 where s1: "find_subscription co y = Some (i, s1)" "sb_version s \<le> sb_version s1" by blast
  have "pf_inv y" using pf_sys.steps_inv [OF step(1)] assms(1) by simp
  from find_subscription_step [OF this step(2) s1(1)] s1(2) show ?case by (metis Suc_le_eq le_Suc_eq le_trans)
qed

text \<open>
  Of the calls administrators send against one version of a subscription at most one is
  applied: once one was, no call that names the same version is applied at any later time, whatever
  happened in between. It is refused or answers that it changed nothing.
\<close>

theorem one_administrator_wins:
  assumes "reach pf_init pf_step p" "run_call a ids co c p = (Inr (s, True), p1)" "call_version c = Some v"
    "map_of (pf_events p) (ni_event ids) = None" "map_of (pf_periods p) (ni_period ids) = None"
    "pf_step\<^sup>*\<^sup>* p1 p2" "call_version c2 = Some v" "run_call a2 ids2 co c2 p2 = (r, p3)"
  shows "p3 = p2 \<and> (\<forall>s. r \<noteq> Inr (s, True))"
proof -
  note inv = pf_sys.reach_inv [OF assms(1)]
  from applied_call [OF assms(2)] assms(3) obtain i u where u: "applied co (Some v) (ni_period ids) p p1" "find_subscription co p = Some (i, u)" "v = sb_version u"
    by (auto simp: applied_def)
  from u(1) obtain u' where u': "sb_companyId u' = co" "sb_version u' = Suc v" "pf_subscriptions p1 = t_update i (\<lambda>_. u') (pf_subscriptions p)"
    using u(2,3) by (auto simp: applied_def changed_def)
  have f1: "find_subscription co p1 = Some (i, u')" using find_subscription_update [OF pf_invD(1) [OF inv] u(2) u'(1,3)] by simp
  have "pf_step p p1" using pf_step.call [OF assms(4,5,2)] .
  with inv have inv1: "pf_inv p1" using pf_sys.inv_step by blast
  from version_steps [OF inv1 assms(6) f1] u'(2) obtain w where "find_subscription co p2 = Some (i, w)" "Suc v \<le> sb_version w" by auto
  with applied_call [OF assms(8)] assms(7) show ?thesis by (auto simp: applied_def)
qed

text \<open>
  (C12) A request of a company that is not public reaches its handler exactly as follows. A write
  does when its route is on the short list, or when the subscription of the company is activated
  and either granted beyond now or paid until less than 72 hours ago; a company without a
  subscription writes nothing. A read does when its route is part of the account pages, or unless
  the subscription is waiting for activation, suspended or cancelled: no date ever stops a read.
\<close>

theorem access_exact:
  "intercept False verb path (Some co) now p = None \<longleftrightarrow>
     (if isMutation verb
      then route_key verb (normalise path) \<in> set ALLOWED_KEYS \<or>
           (\<exists>i s. find_subscription co p = Some (i, s) \<and> sb_status s = activated \<and>
              (sb_isComplimentary s \<and> (\<exists>u. sb_complimentaryUntil s = Some u \<and> now < u) \<or>
               (\<exists>e. sb_currentPeriodEnd s = Some e \<and> now < e + 72 * 60 * 60 * 1000)))
      else normalise path \<in> set ALWAYS_READABLE \<or>
           (\<nexists>i s. find_subscription co p = Some (i, s) \<and> sb_status s \<in> {pending_activation, suspended, cancelled}))"
proof (cases "isMutation verb")
  case True
  then show ?thesis
    by (auto simp: intercept_def isAllowedWhenExpired_def mayWrite_def canWrite_iff recordFor_def GRACE_MS_def SubscriptionRecord.defs
        split: option.split)
next
  case False
  have "operationalAccessBlocked co now p = None \<longleftrightarrow> canRead (stateOf (recordFor co p) now)"
    by (simp add: operationalAccessBlocked_def Let_def)
  moreover have "canRead (stateOf (recordFor co p) now) \<longleftrightarrow>
      (\<nexists>i s. find_subscription co p = Some (i, s) \<and> sb_status s \<in> {pending_activation, suspended, cancelled})"
    unfolding canRead_iff by (auto simp: recordFor_def SubscriptionRecord.defs split: option.split)
  ultimately show ?thesis using False by (simp add: intercept_def isAlwaysReadable_def)
qed

section \<open>Retries\<close>

lemma extension_start_ge: "sb_currentPeriodEnd s = Some e \<Longrightarrow> e \<le> extension_start now s"
  by (simp add: extension_start_def)

lemma extend_effect:
  assumes "find_subscription co p = Some (i, s)" "1 \<le> xi_months inp" "xi_months inp \<le> 60" "xi_expectedVersion inp = None"
  shows "\<exists>s' p'. extend_handler a ids co inp p = (Inr (s', True), p') \<and> find_subscription co p \<noteq> None \<and>
    sb_currentPeriodEnd s' = Some (add_months (extension_start (ac_now a) s) (nat (xi_months inp))) \<and>
    s' = s\<lparr>sb_status := activated, sb_currentPeriodEnd := Some (add_months (extension_start (ac_now a) s) (nat (xi_months inp))), sb_version := Suc (sb_version s)\<rparr> \<and>
    pf_subscriptions p' = t_update i (\<lambda>_. s') (pf_subscriptions p)"
  using assms by (simp add: extend_handler_def loadOrThrow_def Let_def write_change_def transition_def add_audit_def add_event_def)

text \<open>
  Extending without naming a version is not safe to retry: the same call sent again, at any
  time, is applied again, ends the period at least 28 days for each month later than the first did,
  and activates the subscription whatever its status was - a suspended or cancelled one as well.
\<close>

theorem extend_retry_extends_again:
  assumes "t_wf (pf_subscriptions p)" "find_subscription co p = Some (i, s)" "1 \<le> xi_months inp" "xi_months inp \<le> 60" "xi_expectedVersion inp = None"
  shows "\<exists>s1 p1 s2 p2 e1 e2. extend_handler a ids co inp p = (Inr (s1, True), p1) \<and> extend_handler a' ids' co inp p1 = (Inr (s2, True), p2) \<and>
    sb_status s1 = activated \<and> sb_currentPeriodEnd s1 = Some e1 \<and> sb_currentPeriodEnd s2 = Some e2 \<and>
    e1 + 28 * nat (xi_months inp) * MS_PER_DAY \<le> e2"
proof -
  from extend_effect [OF assms(2-5), of a ids] obtain s1 p1 where 1: "extend_handler a ids co inp p = (Inr (s1, True), p1)"
    "sb_currentPeriodEnd s1 = Some (add_months (extension_start (ac_now a) s) (nat (xi_months inp)))"
    "s1 = s\<lparr>sb_status := activated, sb_currentPeriodEnd := Some (add_months (extension_start (ac_now a) s) (nat (xi_months inp))), sb_version := Suc (sb_version s)\<rparr>"
    "pf_subscriptions p1 = t_update i (\<lambda>_. s1) (pf_subscriptions p)"
    by blast
  let ?e1 = "add_months (extension_start (ac_now a) s) (nat (xi_months inp))"
  have "sb_companyId s1 = co" "sb_status s1 = activated" using find_subscriptionD [OF assms(2)] by (simp_all add: 1(3))
  then have "find_subscription co p1 = Some (i, s1)" using find_subscription_update [OF assms(1,2) _ 1(4)] by simp
  from extend_effect [OF this assms(3-5), of a' ids'] obtain s2 p2 where 2: "extend_handler a' ids' co inp p1 = (Inr (s2, True), p2)"
    "sb_currentPeriodEnd s2 = Some (add_months (extension_start (ac_now a') s1) (nat (xi_months inp)))"
    by blast
  have "?e1 + 28 * nat (xi_months inp) * MS_PER_DAY \<le> add_months (extension_start (ac_now a') s1) (nat (xi_months inp))"
    using extension_start_ge [OF 1(2), of "ac_now a'"] add_months_bounds(1) [of "extension_start (ac_now a') s1" "nat (xi_months inp)"] by linarith
  with 1(1,2) 2 \<open>sb_status s1 = activated\<close> show ?thesis by blast
qed

text \<open>
  When no price is configured, a grant that is otherwise in order answers with an error after
  it was written: the subscription is activated and the company may write, but no billing period
  was opened. Sending it again within a minute, whatever prices are configured meanwhile, answers
  that there is nothing to do and still opens none.
\<close>

theorem failed_grant_is_not_repaired:
  assumes "t_wf (pf_subscriptions p)" "find_subscription co p = Some (i, s)" "standard_plans p = []" "\<not> already_granted a inp s"
    "1 \<le> gi_days inp" "gi_days inp \<le> 3650" "js_trim (gi_reason inp) \<noteq> []" "gi_expectedVersion inp = None"
    "ac_now a \<le> ac_now a'" "ac_now a' < ac_now a + 60000"
  shows "\<exists>p' s'. activateByGrant a ids co inp p = (Inl (BadRequest NoPricing), p') \<and> pf_periods p' = pf_periods p \<and>
    find_subscription co p' = Some (i, s') \<and> mayWrite co (ac_now a) p' \<and>
    activateByGrant a' ids' co inp (p'\<lparr>pf_plans := plans\<rparr>) = (Inr (s', False), p'\<lparr>pf_plans := plans\<rparr>)"
proof -
  let ?s = "(granted a inp s)\<lparr>sb_version := Suc (sb_version s)\<rparr>"
  obtain r p' where w: "write_change a (ni_event ids) co (gi_expectedVersion inp) administrative_grant ''subscription.activate_grant''
      (Some (gi_reason inp)) (granted a inp) i p = (r, p')" by force
  have "transition co None (granted a inp) p = Inr (?s, p\<lparr>pf_subscriptions := t_update i (\<lambda>_. ?s) (pf_subscriptions p)\<rparr>)"
    using assms(2) by (simp add: transition_def Let_def)
  with w assms(8) have r: "r = Inr (?s, True)" by (simp add: write_change_def)
  with write_change_cases [OF w _ assms(2)] have p': "pf_plans p' = pf_plans p" "pf_periods p' = pf_periods p"
    "pf_subscriptions p' = t_update i (\<lambda>_. ?s) (pf_subscriptions p)" by (auto simp: granted_def)
  have open_: "openPeriod (ni_period ids) co i u (ac_now a) p' = Inl (BadRequest NoPricing)" for u
    using assms(3) p'(1) by (simp add: openPeriod_def planAt_def standard_plans_def)
  have one: "activateByGrant a ids co inp p = (Inl (BadRequest NoPricing), p')"
    using assms(2,4-7) by (simp add: activateByGrant_def loadOrThrow_def w r open_)
  have f: "find_subscription co p' = Some (i, ?s)"
    using find_subscription_update [OF assms(1,2) _ p'(3)] find_subscriptionD [OF assms(2)] by (simp add: granted_def)
  have may: "mayWrite co (ac_now a) p'"
    unfolding mayWrite_def canWrite_iff using assms(5)
    by (simp add: recordFor_def f SubscriptionRecord.defs granted_def grant_until_def MS_PER_DAY_def)
  have again: "already_granted a' inp ?s"
    using assms(9,10) by (simp add: already_granted_def granted_def grant_until_def)
  have "find_subscription co (p'\<lparr>pf_plans := plans\<rparr>) = Some (i, ?s)" using f by (simp add: find_subscription_def)
  then have two: "activateByGrant a' ids' co inp (p'\<lparr>pf_plans := plans\<rparr>) = (Inr (?s, False), p'\<lparr>pf_plans := plans\<rparr>)"
    using assms(5-7) again by (simp add: activateByGrant_def loadOrThrow_def)
  from one p'(2) f may two show ?thesis by blast
qed

section \<open>An example\<close>

text \<open>A company with one branch registers, is granted thirty days and opens a second branch.\<close>

definition px_plan :: plan_version where
  "px_plan = \<lparr>pp_branchMonthly = 500, pp_includedStaffPerBranch = 2, pp_extraStaffMonthly = 100, pv_planKey = ''standard'', pv_version = 1,
     pv_effectiveFrom = 0, pv_createdBy = ''ops'', pv_reason = ''launch''\<rparr>"

definition px0 :: platform where
  "px0 = \<lparr>pf_subscriptions = [], pf_events = [], pf_payments = [], pf_plans = [(20, px_plan)], pf_periods = [], pf_users = [], pf_roles = [],
     pf_branches = [(30, \<lparr>bs_companyId = 2, bs_isActive = True\<rparr>)], pf_audit = []\<rparr>"

definition px1 :: platform where
  "px1 = register_subscription 10 11 2 500 px0"

definition px_admin :: actor where
  "px_admin = \<lparr>ac_email = ''ops'', ac_now = 1000\<rparr>"

definition px_ids :: new_ids where
  "px_ids = \<lparr>ni_event = 40, ni_period = 41\<rparr>"

definition px_grant :: "nat option \<Rightarrow> GrantInput" where
  "px_grant v = \<lparr>gi_days = 30, gi_reason = ''test'', gi_expectedVersion = v\<rparr>"

definition px_extend :: ExtendInput where
  "px_extend = \<lparr>xi_months = 1, xi_reason = None, xi_expectedVersion = None\<rparr>"

definition px_granted :: subscription where
  "px_granted = (granted px_admin (px_grant (Some 0)) (new_subscription 2))\<lparr>sb_version := 1\<rparr>"

definition px2 :: platform where
  "px2 = snd (run_call px_admin px_ids 2 (CGrant (px_grant (Some 0))) px1)"

definition px3 :: platform where
  "px3 = px2\<lparr>pf_users := [], pf_roles := [], pf_branches := pf_branches px2 @ [(31, \<lparr>bs_companyId = 2, bs_isActive = True\<rparr>)]\<rparr>"

lemma px_test_trim: "js_trim ''test'' = ''test''"
  by (simp add: js_trim_def is_js_space_def)

lemma px1_sub: "find_subscription 2 px1 = Some (10, new_subscription 2)" "t_wf (pf_subscriptions px1)" "map_of (pf_events px1) (ni_event px_ids) = None" "pf_periods px1 = []"
  by (simp_all add: px1_def register_subscription_def px0_def find_subscription_def t_insert_def new_subscription_def px_ids_def)

lemma px_not_granted: "\<not> already_granted a inp (new_subscription 2)"
  by (simp add: already_granted_def new_subscription_def)

lemma px_grant_applied:
  "run_call px_admin px_ids 2 (CGrant (px_grant (Some 0))) px1 = (Inr (px_granted, True), px2)"
  "pf_periods px2 = [(41, new_period 2 10 (Some 2592001000) 1000 (20, px_plan) (quoteFor \<lparr>cs_activeBranchCount = 1, cs_activeStaffCount = 0\<rparr> px_plan))]"
proof -
  have s0: "sb_version (new_subscription 2) = 0" by (simp add: new_subscription_def)
  have plans: "standard_plans (p\<lparr>pf_subscriptions := x, pf_events := y, pf_audit := z\<rparr>) = standard_plans p" for p x y z
    by (simp add: standard_plans_def)
  have pl: "planAt 1000 (p\<lparr>pf_subscriptions := x, pf_events := y, pf_audit := z\<rparr>) = Inr ((20, px_plan), None)" if "pf_plans p = [(20, px_plan)]" for p x y z
    using that by (simp add: planAt_def standard_plans_def px_plan_def)
  have sz: "sizeOf 2 (px1\<lparr>pf_subscriptions := x, pf_events := y, pf_audit := z\<rparr>) = \<lparr>cs_activeBranchCount = 1, cs_activeStaffCount = 0\<rparr>" for x y z
    by (simp add: sizeOf_def px1_def register_subscription_def px0_def)
  have pp: "pf_plans px1 = [(20, px_plan)]" by (simp add: px1_def register_subscription_def px0_def)
  have u: "sb_complimentaryUntil (granted px_admin (px_grant (Some 0)) (new_subscription 2)) = Some 2592001000"
    by (simp add: granted_def grant_until_def px_admin_def px_grant_def MS_PER_DAY_def)
  have now: "ac_now px_admin = 1000" and ids: "ni_period px_ids = 41" "ni_event px_ids = 40"
    and g: "gi_days (px_grant (Some 0)) = 30" "gi_reason (px_grant (Some 0)) = ''test''" "gi_expectedVersion (px_grant (Some 0)) = Some 0"
    by (simp_all add: px_admin_def px_ids_def px_grant_def)
  note calc = activateByGrant_def loadOrThrow_def px1_sub px_not_granted px_test_trim write_change_def transition_def s0 add_event_def add_audit_def
    openPeriod_def pl [OF pp] sz u now ids g Let_def
  show "run_call px_admin px_ids 2 (CGrant (px_grant (Some 0))) px1 = (Inr (px_granted, True), px2)"
    unfolding px2_def px_granted_def by (simp add: calc)
  show "pf_periods px2 = [(41, new_period 2 10 (Some 2592001000) 1000 (20, px_plan) (quoteFor \<lparr>cs_activeBranchCount = 1, cs_activeStaffCount = 0\<rparr> px_plan))]"
    unfolding px2_def by (simp add: calc t_insert_def)
qed

lemma px_reach: "reach pf_init pf_step px1" "pf_step px1 px2" "reach pf_init pf_step px2" "pf_step\<^sup>*\<^sup>* px2 (assessNow 2 px3)"
proof -
  have "reach pf_init pf_step px0" by (rule reach.intros(1)) (simp add: pf_init_def px0_def)
  moreover have "pf_step px0 px1" unfolding px1_def by (rule pf_step.register) (simp_all add: px0_def find_subscription_def)
  ultimately show 1: "reach pf_init pf_step px1" by (rule reach.intros(2))
  show 2: "pf_step px1 px2"
    by (rule pf_step.call [of _ px_ids px_admin 2 "CGrant (px_grant (Some 0))", OF _ _ px_grant_applied(1)]) (simp_all add: px1_sub)
  from 1 2 show "reach pf_init pf_step px2" by (rule reach.intros(2))
  have "pf_step px2 px3" unfolding px3_def by (rule pf_step.people)
  moreover have "pf_step px3 (assessNow 2 px3)" by (rule pf_step.assess)
  ultimately show "pf_step\<^sup>*\<^sup>* px2 (assessNow 2 px3)" by simp
qed

section \<open>Witnesses\<close>

theorem billing_period_only_grows_witness:
  "\<exists>b b'. map_of (pf_periods px2) 41 = Some b \<and> bp_assessedTotal b = 500 \<and> map_of (pf_periods (assessNow 2 px3)) 41 = Some b' \<and>
     bp_assessedBranchFee b \<le> bp_assessedBranchFee b' \<and> bp_assessedTotal b \<le> bp_assessedTotal b'"
proof -
  obtain b where b: "map_of (pf_periods px2) 41 = Some b" "bp_assessedTotal b = 500"
    by (simp add: px_grant_applied(2) new_period_def quoteFor_def Let_def whole_def px_plan_def)
  from billing_period_only_grows [OF px_reach(3,4) b(1)] b show ?thesis by blast
qed

theorem every_change_recorded_witness:
  "\<exists>s' k e. find_subscription 2 px2 = Some (10, s') \<and> (s' = new_subscription 2 \<or> sb_version s' = 1 \<and> pf_events px2 = pf_events px1 @ [(k, e)] \<and> se_subscriptionId e = 10)"
proof -
  have v: "sb_version (new_subscription 2) = 0" by (simp add: new_subscription_def)
  from every_change_recorded [OF px_reach(1,2)] px1_sub(1) show ?thesis by (fastforce simp: v px1_sub)
qed

theorem one_administrator_wins_witness:
  "\<exists>r. run_call px_admin px_ids 2 (CSuspend \<lparr>ri_reason = Some ''late'', ri_expectedVersion = Some 0\<rparr>) px2 = (r, px2) \<and> (\<forall>s. r \<noteq> Inr (s, True))"
proof -
  obtain r p3 where r: "run_call px_admin px_ids 2 (CSuspend \<lparr>ri_reason = Some ''late'', ri_expectedVersion = Some 0\<rparr>) px2 = (r, p3)" by force
  have "call_version (CGrant (px_grant (Some 0))) = Some 0" by (simp add: px_grant_def)
  from one_administrator_wins [OF px_reach(1) px_grant_applied(1) this _ _ rtranclp.rtrancl_refl _ r] r show ?thesis by (simp add: px1_sub)
qed

theorem access_exact_witness:
  "intercept False ''POST'' ''/api/v1/sales'' (Some 2) 5 px1 \<noteq> None \<and> intercept False ''GET'' ''/api/v1/entitlement'' (Some 2) 5 px1 = None"
proof -
  have m: "isMutation ''POST''" "\<not> isMutation ''GET''" by (simp_all add: isMutation_def MUTATING_METHODS_def js_upper_def to_upper_char_def)
  have n: "normalise ''/api/v1/sales'' = ''sales''" "normalise ''/api/v1/entitlement'' = ''entitlement''" by code_simp+
  have k: "route_key ''POST'' ''sales'' \<notin> set ALLOWED_KEYS" by code_simp
  have st: "sb_status (new_subscription 2) = pending_activation" by (simp add: new_subscription_def)
  show ?thesis
    unfolding access_exact using m k by (simp add: n px1_sub st ALWAYS_READABLE_def)
qed

theorem extend_retry_extends_again_witness:
  "\<exists>s1 p1 s2 p2 e1 e2. extend_handler px_admin px_ids 2 px_extend px1 = (Inr (s1, True), p1) \<and>
     extend_handler px_admin \<lparr>ni_event = 50, ni_period = 51\<rparr> 2 px_extend p1 = (Inr (s2, True), p2) \<and>
     sb_currentPeriodEnd s1 = Some e1 \<and> sb_currentPeriodEnd s2 = Some e2 \<and> e1 + 28 * MS_PER_DAY \<le> e2"
  using extend_retry_extends_again [OF px1_sub(2,1), of px_extend px_admin px_ids px_admin "\<lparr>ni_event = 50, ni_period = 51\<rparr>"]
  by (simp add: px_extend_def) blast

theorem failed_grant_is_not_repaired_witness:
  "\<exists>p' s'. activateByGrant px_admin px_ids 2 (px_grant None) (px1\<lparr>pf_plans := []\<rparr>) = (Inl (BadRequest NoPricing), p') \<and> pf_periods p' = [] \<and>
     activateByGrant px_admin px_ids 2 (px_grant None) (p'\<lparr>pf_plans := [(20, px_plan)]\<rparr>) = (Inr (s', False), p'\<lparr>pf_plans := [(20, px_plan)]\<rparr>)"
proof -
  have "t_wf (pf_subscriptions (px1\<lparr>pf_plans := []\<rparr>))" "find_subscription 2 (px1\<lparr>pf_plans := []\<rparr>) = Some (10, new_subscription 2)"
    "standard_plans (px1\<lparr>pf_plans := []\<rparr>) = []"
    using px1_sub by (simp_all add: find_subscription_def standard_plans_def)
  from failed_grant_is_not_repaired [OF this px_not_granted, of "px_grant None" px_admin px_admin px_ids px_ids "[(20, px_plan)]"]
  show ?thesis by (simp add: px_grant_def px_test_trim px1_sub) blast
qed

end
