(* ===== verification/Tracking.thy ===== *)
theory Tracking
  imports Common
begin

text \<open>
  How goods are identified: the check digit of an IMEI (\<^verbatim>\<open>src/src/inventory/imei.util.ts\<close>), the
  three tracking strategies and their registry (\<^verbatim>\<open>src/src/tracking/strategies\<close>), the rules on
  choosing and changing a tracking mode (\<^verbatim>\<open>src/src/tracking/tracking-modes.ts\<close>) and the
  classification of a scanned code (\<^verbatim>\<open>src/src/scanner/code-classifier.ts\<close>).
\<close>

section \<open>IMEI numbers\<close>

definition is_digit :: "char \<Rightarrow> bool" where
  "is_digit ch \<longleftrightarrow> (let n = (of_char ch :: nat) in 48 \<le> n \<and> n \<le> 57)"

text \<open>The loop of \<^verbatim>\<open>luhnValid\<close> over the characters from the last to the first.\<close>

fun luhn_loop :: "string \<Rightarrow> int \<Rightarrow> bool \<Rightarrow> bool" where
  "luhn_loop [] acc alt = (acc mod 10 = 0)"
| "luhn_loop (ch # chs) acc alt =
     (let d = int (of_char ch) - 48
      in if d < 0 \<or> d > 9 then False
         else let d' = (if alt then let e = d * 2 in if e > 9 then e - 9 else e else d)
              in luhn_loop chs (acc + d') (\<not> alt))"

definition luhnValid :: "string \<Rightarrow> bool" where
  "luhnValid digits = luhn_loop (rev digits) 0 False"

text \<open>\<^verbatim>\<open>/^\d{n}$/\<close>.\<close>

definition all_digits :: "nat \<Rightarrow> string \<Rightarrow> bool" where
  "all_digits n s \<longleftrightarrow> length s = n \<and> list_all is_digit s"

definition isValidImei :: "string \<Rightarrow> bool" where
  "isValidImei imei \<longleftrightarrow> all_digits 15 imei \<and> luhnValid imei"

definition tacOf :: "string \<Rightarrow> string" where
  "tacOf imei = take 8 imei"

section \<open>Tracking strategies\<close>

datatype TrackingType = track_imei | track_serial | track_quantity

datatype CodeType = code_tac | code_barcode | code_serial_prefix

type_synonym RecognitionKey = "CodeType \<times> string"

datatype identifier_field = imeiPrimary | serialNo

datatype identifier_refusal = ImeiInvalid | SerialRequired | SerialTooLong

record TrackingStrategy =
  ts_type :: TrackingType
  ts_identifierLabel :: "string option"
  ts_perUnit :: bool
  ts_identifierField :: "identifier_field option"
  ts_normalize :: "string \<Rightarrow> string"
  ts_validateIdentifier :: "string \<Rightarrow> identifier_refusal + unit"
  ts_recognitionKey :: "string \<Rightarrow> RecognitionKey option"

definition imei_normalize :: "string \<Rightarrow> string" where
  "imei_normalize code = filter is_digit code"

definition ImeiStrategy :: TrackingStrategy where
  "ImeiStrategy =
     \<lparr>ts_type = track_imei, ts_identifierLabel = Some ''IMEI'', ts_perUnit = True, ts_identifierField = Some imeiPrimary,
      ts_normalize = imei_normalize,
      ts_validateIdentifier = (\<lambda>code. require (isValidImei (imei_normalize code)) ImeiInvalid),
      ts_recognitionKey = (\<lambda>code. let imei = imei_normalize code
        in if \<not> isValidImei imei then None else Some (code_tac, tacOf imei))\<rparr>"

definition serial_normalize :: "string \<Rightarrow> string" where
  "serial_normalize code = js_upper (js_trim code)"

definition SerialStrategy :: TrackingStrategy where
  "SerialStrategy =
     \<lparr>ts_type = track_serial, ts_identifierLabel = Some ''Serial number'', ts_perUnit = True, ts_identifierField = Some serialNo,
      ts_normalize = serial_normalize,
      ts_validateIdentifier = (\<lambda>code. let n = length (serial_normalize code)
        in if n < 1 then Inl SerialRequired else if n > 64 then Inl SerialTooLong else Inr ()),
      ts_recognitionKey = (\<lambda>_. None)\<rparr>"

definition QuantityStrategy :: TrackingStrategy where
  "QuantityStrategy =
     \<lparr>ts_type = track_quantity, ts_identifierLabel = None, ts_perUnit = False, ts_identifierField = None,
      ts_normalize = js_trim,
      ts_validateIdentifier = (\<lambda>_. Inr ()),
      ts_recognitionKey = (\<lambda>code. let barcode = js_trim code in if barcode = [] then None else Some (code_barcode, barcode))\<rparr>"

text \<open>The registry holds all three, so its lookup never throws on a stored type.\<close>

fun strategy_for :: "TrackingType \<Rightarrow> TrackingStrategy" where
  "strategy_for track_imei = ImeiStrategy"
| "strategy_for track_serial = SerialStrategy"
| "strategy_for track_quantity = QuantityStrategy"

section \<open>Tracking modes\<close>

datatype tracking_refusal =
    ModeNotSelectable TrackingType
  | CategoryDecides TrackingType TrackingType
  | TrackingChangeBlocked TrackingType TrackingType

definition SELECTABLE_TRACKING_TYPES :: "TrackingType list" where
  "SELECTABLE_TRACKING_TYPES = [track_imei, track_quantity]"

definition isSerialized :: "TrackingType \<Rightarrow> bool" where
  "isSerialized mode \<longleftrightarrow> mode \<noteq> track_quantity"

definition assertSelectableTrackingType :: "TrackingType \<Rightarrow> TrackingType option \<Rightarrow> tracking_refusal http_error + unit" where
  "assertSelectableTrackingType nxt previous =
     (if Some nxt = previous then Inr ()
      else if nxt \<notin> set SELECTABLE_TRACKING_TYPES then Inl (BadRequest (ModeNotSelectable nxt))
      else Inr ())"

definition resolveTrackingType :: "TrackingType \<Rightarrow> TrackingType option \<Rightarrow> tracking_refusal http_error + TrackingType" where
  "resolveTrackingType categoryMode clientMode =
     (case clientMode of
        Some m \<Rightarrow> if m \<noteq> categoryMode then Inl (BadRequest (CategoryDecides categoryMode m)) else Inr categoryMode
      | None \<Rightarrow> Inr categoryMode)"

definition assertTrackingChangeSafe :: "bool \<Rightarrow> TrackingType \<Rightarrow> TrackingType \<Rightarrow> tracking_refusal http_error + unit" where
  "assertTrackingChangeSafe hasHistory old nxt =
     (if \<not> hasHistory then Inr () else Inl (Conflict (TrackingChangeBlocked old nxt)))"

section \<open>Classifying a scanned code\<close>

datatype ScanKind = scan_imei | scan_barcode | scan_serial | scan_unknown

definition is_alnum :: "char \<Rightarrow> bool" where
  "is_alnum ch \<longleftrightarrow> is_digit ch \<or>
     (let n = (of_char ch :: nat) in (65 \<le> n \<and> n \<le> 90) \<or> (97 \<le> n \<and> n \<le> 122))"

text \<open>\<^verbatim>\<open>/^[A-Za-z0-9][A-Za-z0-9/\-]{2,63}$/\<close>.\<close>

definition serial_shape :: "string \<Rightarrow> bool" where
  "serial_shape s \<longleftrightarrow> 3 \<le> length s \<and> length s \<le> 64 \<and> is_alnum (hd s) \<and>
     list_all (\<lambda>ch. is_alnum ch \<or> ch = CHR ''/'' \<or> ch = CHR ''-'') (tl s)"

definition classifyCode :: "string \<Rightarrow> ScanKind \<times> string" where
  "classifyCode raw =
     (let trimmed = js_trim raw
      in if trimmed = [] then (scan_unknown, [])
         else let digits = filter (\<lambda>ch. \<not> is_js_space ch \<and> ch \<noteq> CHR ''-'') trimmed
              in if all_digits 15 digits \<and> luhnValid digits then (scan_imei, digits)
                 else if 8 \<le> length digits \<and> length digits \<le> 14 \<and> list_all is_digit digits then (scan_barcode, digits)
                 else if serial_shape trimmed then (scan_serial, js_upper trimmed)
                 else (scan_unknown, trimmed))"

section \<open>The check digit\<close>

text \<open>What a digit adds to the sum, doubled at every second place from the right.\<close>

definition digit_of :: "char \<Rightarrow> int" where
  "digit_of ch = int (of_char ch) - 48"

definition luhn_term :: "bool \<Rightarrow> int \<Rightarrow> int" where
  "luhn_term alt d = (if alt then if d * 2 > 9 then d * 2 - 9 else d * 2 else d)"

fun luhn_sum :: "bool \<Rightarrow> string \<Rightarrow> int" where
  "luhn_sum alt [] = 0"
| "luhn_sum alt (ch # chs) = luhn_term alt (digit_of ch) + luhn_sum (\<not> alt) chs"

lemma is_digit_range: "is_digit ch \<longleftrightarrow> 0 \<le> digit_of ch \<and> digit_of ch \<le> 9"
  by (auto simp: is_digit_def digit_of_def Let_def)

lemma digit_of_inj: "digit_of a = digit_of b \<Longrightarrow> a = b"
  by (simp add: digit_of_def)

text \<open>The loop computes the sum of the terms, and refuses anything that is not a digit.\<close>

lemma luhn_loop_sum:
  "luhn_loop chs acc alt \<longleftrightarrow> list_all is_digit chs \<and> (acc + luhn_sum alt chs) mod 10 = 0"
proof (induction chs arbitrary: acc alt)
  case (Cons ch chs)
  have "luhn_loop (ch # chs) acc alt \<longleftrightarrow> is_digit ch \<and> luhn_loop chs (acc + luhn_term alt (digit_of ch)) (\<not> alt)"
    unfolding luhn_loop.simps digit_of_def [symmetric] is_digit_range luhn_term_def Let_def not_le [symmetric] by simp
  then show ?case by (simp only: Cons.IH list.pred_inject luhn_sum.simps) (simp add: add.assoc)
qed simp

lemma isValidImei_sum:
  "isValidImei s \<longleftrightarrow> length s = 15 \<and> list_all is_digit s \<and> luhn_sum False (rev s) mod 10 = 0"
  by (auto simp: isValidImei_def all_digits_def luhnValid_def luhn_loop_sum)

lemma luhn_sum_append:
  "luhn_sum alt (xs @ ys) = luhn_sum alt xs + luhn_sum (alt \<noteq> odd (length xs)) ys"
proof (induction xs arbitrary: alt)
  case (Cons x xs)
  have "((\<not> alt) \<noteq> odd (length xs)) = (alt \<noteq> odd (length (x # xs)))" by auto
  with Cons.IH [of "\<not> alt"] show ?case by simp
qed simp

lemma luhn_term_range: "0 \<le> d \<Longrightarrow> d \<le> 9 \<Longrightarrow> 0 \<le> luhn_term alt d \<and> luhn_term alt d \<le> 9"
  by (auto simp: luhn_term_def)

lemma luhn_term_inj:
  assumes "0 \<le> d" "d \<le> 9" "0 \<le> e" "e \<le> 9" "luhn_term alt d = luhn_term alt e"
  shows "d = e"
proof -
  have "d * 2 - 9 \<noteq> e * 2" "d * 2 \<noteq> e * 2 - 9" by presburger+
  with assms show ?thesis by (auto simp: luhn_term_def split: if_splits)
qed

lemma dvd10_small:
  fixes a :: int
  assumes "10 dvd a" "- 9 \<le> a" "a \<le> 9"
  shows "a = 0"
  using assms by presburger

lemma same_mod10:
  fixes a b x :: int
  assumes "(x + a) mod 10 = 0" "(x + b) mod 10 = 0"
  shows "10 dvd a - b"
proof -
  have "10 dvd (x + a) - (x + b)" using assms by (intro dvd_diff) (simp_all add: dvd_eq_mod_eq_0)
  then show ?thesis by simp
qed

text \<open>One wrong digit changes the sum by an amount that is no multiple of ten.\<close>

lemma luhn_typo:
  assumes v: "isValidImei (xs @ a # ys)" and w: "isValidImei (xs @ b # ys)"
  shows "a = b"
proof -
  define alt where "alt = odd (length ys)"
  define x where "x = luhn_sum False (rev ys) + luhn_sum (\<not> alt) (rev xs)"
  have s: "luhn_sum False (rev (xs @ c # ys)) = x + luhn_term alt (digit_of c)" for c
    by (simp add: luhn_sum_append x_def alt_def)
  have "is_digit a" "is_digit b" using v w by (simp_all add: isValidImei_sum)
  then have r: "0 \<le> digit_of a" "digit_of a \<le> 9" "0 \<le> digit_of b" "digit_of b \<le> 9" by (simp_all add: is_digit_range)
  have "(x + luhn_term alt (digit_of a)) mod 10 = 0" "(x + luhn_term alt (digit_of b)) mod 10 = 0"
    using v w by (simp_all only: isValidImei_sum s)
  from dvd10_small [OF same_mod10 [OF this]] luhn_term_range [OF r(1,2), of alt] luhn_term_range [OF r(3,4), of alt]
  have "luhn_term alt (digit_of a) = luhn_term alt (digit_of b)" by simp
  then show ?thesis using luhn_term_inj [OF r] digit_of_inj by blast
qed

text \<open>
  Two neighbours in the wrong order are noticed, unless they are a zero and a nine: doubling
  adds to a digit an amount that determines it, up to that pair.
\<close>

lemma luhn_gain:
  assumes "0 \<le> d" "d \<le> 9" "0 \<le> e" "e \<le> 9" "10 dvd (luhn_term True d - d) - (luhn_term True e - e)"
  shows "d = e \<or> {d, e} = {0, 9}"
proof -
  have g: "luhn_term True i - i = (if i < 5 then i else i - 9)" for i by (simp add: luhn_term_def)
  have "(if d < 5 then d else d - 9) - (if e < 5 then e else e - 9) = 0"
    using assms(1-4) by (intro dvd10_small [OF assms(5) [unfolded g]]) auto
  with assms(1-4) have "d = e \<or> (d = 0 \<and> e = 9) \<or> (d = 9 \<and> e = 0)"
    by (cases "d < 5"; cases "e < 5"; simp; linarith)
  then show ?thesis by auto
qed

lemma luhn_swap:
  assumes v: "isValidImei (xs @ a # b # ys)" and w: "isValidImei (xs @ b # a # ys)"
  shows "a = b \<or> {a, b} = {CHR ''0'', CHR ''9''}"
proof -
  define alt where "alt = odd (length ys)"
  define x where "x = luhn_sum False (rev ys) + luhn_sum alt (rev xs)"
  have s: "luhn_sum False (rev (xs @ c # d # ys)) = x + (luhn_term alt (digit_of d) + luhn_term (\<not> alt) (digit_of c))" for c d
    by (simp add: luhn_sum_append x_def alt_def)
  have "is_digit a" "is_digit b" using v w by (simp_all add: isValidImei_sum)
  then have r: "0 \<le> digit_of a" "digit_of a \<le> 9" "0 \<le> digit_of b" "digit_of b \<le> 9" by (simp_all add: is_digit_range)
  have m: "(x + (luhn_term alt (digit_of b) + luhn_term (\<not> alt) (digit_of a))) mod 10 = 0"
    "(x + (luhn_term alt (digit_of a) + luhn_term (\<not> alt) (digit_of b))) mod 10 = 0"
    using v w by (simp_all only: isValidImei_sum s)
  have F: "luhn_term False i = i" for i by (simp add: luhn_term_def)
  have "10 dvd (luhn_term True (digit_of a) - digit_of a) - (luhn_term True (digit_of b) - digit_of b)"
    using same_mod10 [OF m] same_mod10 [OF m(2,1)] by (cases alt) (simp_all add: F algebra_simps)
  from luhn_gain [OF r this] have "digit_of a = digit_of b \<or> {digit_of a, digit_of b} = {0, 9}" .
  moreover have "digit_of c = 0 \<longleftrightarrow> c = CHR ''0''" "digit_of c = 9 \<longleftrightarrow> c = CHR ''9''" for c
    using digit_of_inj [of c "CHR ''0''"] digit_of_inj [of c "CHR ''9''"] by (auto simp: digit_of_def)
  ultimately show ?thesis using digit_of_inj [of a b] by (auto simp: doubleton_eq_iff)
qed

section \<open>Laws of the strategies\<close>

text \<open>
  What every consumer relies on: normalising twice is normalising once, an identifier is judged
  and keyed by its canonical form, and exactly the types with an identifier column are per unit.
\<close>

locale tracking_strategy =
  fixes strat :: TrackingStrategy
  assumes normalize_idem: "ts_normalize strat (ts_normalize strat code) = ts_normalize strat code"
    and validate_normalized: "ts_validateIdentifier strat (ts_normalize strat code) = ts_validateIdentifier strat code"
    and key_normalized: "ts_recognitionKey strat (ts_normalize strat code) = ts_recognitionKey strat code"
    and per_unit_column: "ts_perUnit strat \<longleftrightarrow> ts_identifierField strat \<noteq> None"
    and per_unit_nonempty: "ts_perUnit strat \<Longrightarrow> ts_validateIdentifier strat code = Inr () \<Longrightarrow> ts_normalize strat code \<noteq> []"
begin

text \<open>Two scans of one label, however typed, agree on everything when their canonical forms agree.\<close>

lemma scans_agree:
  assumes "ts_normalize strat a = ts_normalize strat b"
  shows "ts_validateIdentifier strat a = ts_validateIdentifier strat b" "ts_recognitionKey strat a = ts_recognitionKey strat b"
  using validate_normalized [of a] validate_normalized [of b] key_normalized [of a] key_normalized [of b] assms by simp_all

end

lemma to_upper_idem: "to_upper_char (to_upper_char ch) = to_upper_char ch"
proof -
  have "of_char (char_of (of_char ch - 32 :: nat) :: char) = (of_char ch - 32 :: nat)" if "of_char ch \<le> (122 :: nat)"
    using that by (simp add: of_char_of)
  then show ?thesis by (auto simp: to_upper_char_def Let_def)
qed

lemma space_upper: "is_js_space (to_upper_char ch) \<longleftrightarrow> is_js_space ch"
proof -
  have "of_char (char_of (of_char ch - 32 :: nat) :: char) = (of_char ch - 32 :: nat)" if "of_char ch \<le> (122 :: nat)"
    using that by (simp add: of_char_of)
  then show ?thesis by (auto simp: to_upper_char_def is_js_space_def Let_def)
qed

lemma dropWhile_map_upper: "dropWhile is_js_space (map to_upper_char s) = map to_upper_char (dropWhile is_js_space s)"
  by (induction s) (simp_all add: space_upper)

lemma js_trim_upper: "js_trim (js_upper s) = js_upper (js_trim s)"
  unfolding js_trim_def js_upper_def by (simp only: dropWhile_map_upper rev_map)

lemma serial_normalize_idem: "serial_normalize (serial_normalize s) = serial_normalize s"
  by (simp add: serial_normalize_def js_trim_upper) (simp add: js_upper_def to_upper_idem)

interpretation imei_strategy: tracking_strategy ImeiStrategy
  by unfold_locales
    (auto simp: ImeiStrategy_def imei_normalize_def isValidImei_def all_digits_def Let_def)

interpretation serial_strategy: tracking_strategy SerialStrategy
  by unfold_locales (auto simp: SerialStrategy_def serial_normalize_idem Let_def split: if_splits)

interpretation quantity_strategy: tracking_strategy QuantityStrategy
  by unfold_locales (auto simp: QuantityStrategy_def Let_def)

lemma strategy_for_laws: "tracking_strategy (strategy_for t)"
  by (cases t) (simp_all add: imei_strategy.tracking_strategy_axioms serial_strategy.tracking_strategy_axioms
      quantity_strategy.tracking_strategy_axioms)

interpretation registered: tracking_strategy "strategy_for t"
  for t
  by (rule strategy_for_laws)

lemma strategy_type [simp]: "ts_type (strategy_for t) = t"
  by (cases t) (simp_all add: ImeiStrategy_def SerialStrategy_def QuantityStrategy_def)

lemma strategy_perUnit [simp]: "ts_perUnit (strategy_for t) \<longleftrightarrow> isSerialized t"
  by (cases t) (simp_all add: ImeiStrategy_def SerialStrategy_def QuantityStrategy_def isSerialized_def)

section \<open>Mistyped numbers\<close>

text \<open>
  (C23) A mistyped IMEI is refused: changing any one digit of a valid number gives an invalid
  one, and so does exchanging two neighbouring digits, unless they are equal or a zero and a
  nine (the exchange a Luhn digit cannot see).
\<close>

theorem mistyped_imei_refused:
  assumes v: "isValidImei s" and i: "i < 15"
  shows "(\<forall>ch. isValidImei (s[i := ch]) \<longrightarrow> ch = s ! i) \<and>
    (Suc i < 15 \<longrightarrow> isValidImei (s[i := s ! Suc i, Suc i := s ! i]) \<longrightarrow>
       s ! i = s ! Suc i \<or> {s ! i, s ! Suc i} = {CHR ''0'', CHR ''9''})"
proof (intro conjI allI impI)
  have n: "length s = 15" using v by (simp add: isValidImei_sum)
  have s: "s = take i s @ s ! i # drop (Suc i) s" by (rule id_take_nth_drop) (simp add: n i)
  fix ch assume "isValidImei (s[i := ch])"
  moreover have "s[i := ch] = take i s @ ch # drop (Suc i) s" by (rule upd_conv_take_nth_drop) (simp add: n i)
  ultimately show "ch = s ! i" using v s by (metis luhn_typo)
next
  assume j: "Suc i < 15" and w: "isValidImei (s[i := s ! Suc i, Suc i := s ! i])"
  have n: "length s = 15" using v by (simp add: isValidImei_sum)
  have d: "drop (Suc i) s = s ! Suc i # drop (Suc (Suc i)) s" by (rule Cons_nth_drop_Suc [symmetric]) (use n j in simp)
  have s: "s = take i s @ s ! i # s ! Suc i # drop (Suc (Suc i)) s" using id_take_nth_drop [of i s] n i d by simp
  have "s[i := s ! Suc i, Suc i := s ! i] = take i s @ s ! Suc i # s ! i # drop (Suc (Suc i)) s"
    using n i j by (subst s) (simp add: list_update_append)
  with v w s luhn_swap [of "take i s" "s ! i" "s ! Suc i" "drop (Suc (Suc i)) s"]
  show "s ! i = s ! Suc i \<or> {s ! i, s ! Suc i} = {CHR ''0'', CHR ''9''}" by simp
qed

theorem mistyped_imei_refused_witness:
  "isValidImei ''123456789012347'' \<and> \<not> isValidImei (''123456789012347''[3 := CHR ''5''])"
proof -
  have "isValidImei ''123456789012347''" by code_simp
  with mistyped_imei_refused [OF this, of 3] show ?thesis by auto
qed

end
