(* ===== verification/Recognition.thy ===== *)
theory Recognition
  imports Tracking
begin

text \<open>
  The scanner's memory of what a code means: the learned mappings with their confidence
  (\<^verbatim>\<open>src/src/scanner/recognition.service.ts\<close>, \<^verbatim>\<open>confidence/default-confidence.scorer.ts\<close>), the
  ladder from a TAC to a suggestion (\<^verbatim>\<open>tac-resolution.ts\<close>), the company's own decisions on a TAC
  (\<^verbatim>\<open>tac-mapping.service.ts\<close>), and the outbox that teaches the memory after a delivery
  (\<^verbatim>\<open>recognition-outbox.service.ts\<close>). Times are in milliseconds. Texts are compared exactly.
\<close>

section \<open>Rows\<close>

datatype LearningSource = src_receiving | src_sale | src_scan | src_manual

fun source_text :: "LearningSource \<Rightarrow> string" where
  "source_text src_receiving = ''receiving''"
| "source_text src_sale = ''sale''"
| "source_text src_scan = ''scan''"
| "source_text src_manual = ''manual''"

datatype RecognitionStatus = rg_proposed | rg_confirmed | rg_superseded

record recognition =
  rg_companyId :: id
  rg_codeType :: CodeType
  rg_code :: string
  rg_productId :: id
  rg_timesSeen :: nat
  rg_confirmations :: nat
  rg_corrections :: nat
  rg_lastSeenAt :: "nat option"
  rg_lastConfirmedAt :: "nat option"
  rg_lastCorrectedAt :: "nat option"
  rg_sourceStats :: "(LearningSource \<times> nat) list"
  rg_status :: RecognitionStatus
  rg_proposedById :: "id option"
  rg_confirmedById :: "id option"
  rg_confirmedAt :: "nat option"
  rg_evidenceSource :: "string option"
  rg_version :: nat

datatype OutboxStatus = ob_pending | ob_processing | ob_done | ob_failed

record outbox_row =
  ob_companyId :: id
  ob_purchaseId :: "id option"
  ob_codeType :: CodeType
  ob_code :: string
  ob_productId :: id
  ob_supplierId :: "id option"
  ob_source :: LearningSource
  ob_status :: OutboxStatus
  ob_attempts :: nat
  ob_lastError :: "string option"
  ob_processedAt :: "nat option"
  ob_claimedUntil :: "nat option"
  ob_nextAttemptAt :: nat

text \<open>A catalogue product, with what the scanner and the receiving read of it.\<close>

record product_row =
  pd_companyId :: id
  pd_brand :: string
  pd_model :: string
  pd_variant :: "string option"
  pd_trackingType :: TrackingType
  pd_barcode :: "string option"
  pd_defaultPrice :: "number option"
  pd_deletedAt :: "nat option"

text \<open>The platform's TAC catalogue, keyed by TAC.\<close>

record tac_entry =
  te_brand :: "string option"
  te_model :: "string option"
  te_defaultVariant :: "string option"
  te_isActive :: bool
  te_synthetic :: bool

record memory =
  rm_products :: "(id, product_row) table"
  rm_rows :: "(id, recognition) table"
  rm_outbox :: "(id, outbox_row) table"
  rm_tacs :: "(string, tac_entry) table"
  rm_audit :: "audit_row list"

section \<open>Confidence\<close>

text \<open>The signals the bound scorer reads; the dates and the counts per source are reserved for another one.\<close>

record RecognitionSignals =
  sg_timesSeen :: nat
  sg_confirmations :: nat
  sg_corrections :: nat

definition signalsOf :: "recognition \<Rightarrow> RecognitionSignals" where
  "signalsOf r = \<lparr>sg_timesSeen = rg_timesSeen r, sg_confirmations = rg_confirmations r, sg_corrections = rg_corrections r\<rparr>"

text \<open>Counts are columns that never go below zero, so \<^verbatim>\<open>Math.max(0, n)\<close> is \<open>n\<close>.\<close>

definition score :: "RecognitionSignals \<Rightarrow> number" where
  "score s =
     (let confirms = (if sg_confirmations s = 0 then sg_timesSeen s else sg_confirmations s);
          corrects = sg_corrections s
      in if confirms = 0 then 0
         else of_nat confirms / (of_nat confirms + 2) * (of_nat confirms / (of_nat confirms + of_nat corrects)))"

section \<open>Learning\<close>

record LearningEvent =
  le_codeType :: CodeType
  le_code :: string
  le_productId :: id
  le_source :: LearningSource
  le_supplierId :: "id option"

definition bumpSource :: "(LearningSource \<times> nat) list \<Rightarrow> LearningSource \<Rightarrow> (LearningSource \<times> nat) list" where
  "bumpSource stats src =
     (case map_of stats src of
        None \<Rightarrow> t_insert src 1 stats
      | Some _ \<Rightarrow> t_update src Suc stats)"

definition recordEvent :: "ctx \<Rightarrow> id \<Rightarrow> string \<Rightarrow> id option \<Rightarrow> memory \<Rightarrow> memory" where
  "recordEvent c entityId reason beforeProductId m =
     m\<lparr>rm_audit := rm_audit m @
       [audit_row_of c ''ProductRecognition'' entityId (if beforeProductId = None then ''create'' else ''update'') (Some reason) None]\<rparr>"

definition maps_code :: "id \<Rightarrow> CodeType \<Rightarrow> string \<Rightarrow> recognition \<Rightarrow> bool" where
  "maps_code co ct code r \<longleftrightarrow> rg_companyId r = co \<and> rg_codeType r = ct \<and> rg_code r = code"

definition isValidTac :: "string \<Rightarrow> bool" where
  "isValidTac tac \<longleftrightarrow> all_digits 8 tac"

text \<open>
  What the table refuses (migration 0043): a product that does not exist, a TAC that is not
  eight digits, a confirmed row that does not say when it was confirmed, and a second confirmed
  row for one company, code type and code.
\<close>

datatype row_refusal = UnknownProduct | TacFormat | ConfirmedFields | ActiveCodeTaken

definition insert_refused :: "recognition \<Rightarrow> memory \<Rightarrow> row_refusal option" where
  "insert_refused r m =
     (if map_of (rm_products m) (rg_productId r) = None then Some UnknownProduct
      else if rg_codeType r = code_tac \<and> \<not> isValidTac (rg_code r) then Some TacFormat
      else if rg_status r = rg_confirmed \<and> rg_confirmedAt r = None then Some ConfirmedFields
      else if rg_status r = rg_confirmed \<and>
              list_ex (\<lambda>(_, q). maps_code (rg_companyId r) (rg_codeType r) (rg_code r) q \<and> rg_status q = rg_confirmed) (rm_rows m)
      then Some ActiveCodeTaken
      else None)"

definition new_recognition :: "id \<Rightarrow> CodeType \<Rightarrow> string \<Rightarrow> id \<Rightarrow> RecognitionStatus \<Rightarrow> recognition" where
  "new_recognition co ct code pid st =
     \<lparr>rg_companyId = co, rg_codeType = ct, rg_code = code, rg_productId = pid, rg_timesSeen = 1, rg_confirmations = 0,
      rg_corrections = 0, rg_lastSeenAt = None, rg_lastConfirmedAt = None, rg_lastCorrectedAt = None, rg_sourceStats = [],
      rg_status = st, rg_proposedById = None, rg_confirmedById = None, rg_confirmedAt = None, rg_evidenceSource = None,
      rg_version = 0\<rparr>"

definition learned_row :: "ctx \<Rightarrow> LearningEvent \<Rightarrow> recognition" where
  "learned_row c ev = (new_recognition (c_companyId c) (le_codeType ev) (le_code ev) (le_productId ev) rg_confirmed)
     \<lparr>rg_confirmations := 1, rg_lastSeenAt := Some (c_now c), rg_lastConfirmedAt := Some (c_now c),
      rg_sourceStats := bumpSource [] (le_source ev)\<rparr>"

definition reinforced :: "ctx \<Rightarrow> LearningEvent \<Rightarrow> recognition \<Rightarrow> recognition" where
  "reinforced c ev r = r\<lparr>rg_timesSeen := Suc (rg_timesSeen r), rg_confirmations := Suc (rg_confirmations r),
     rg_lastSeenAt := Some (c_now c), rg_lastConfirmedAt := Some (c_now c),
     rg_sourceStats := bumpSource (rg_sourceStats r) (le_source ev)\<rparr>"

definition corrected :: "ctx \<Rightarrow> LearningEvent \<Rightarrow> recognition \<Rightarrow> recognition" where
  "corrected c ev r = r\<lparr>rg_productId := le_productId ev, rg_timesSeen := Suc (rg_timesSeen r), rg_confirmations := 1,
     rg_corrections := Suc (rg_corrections r), rg_lastSeenAt := Some (c_now c), rg_lastConfirmedAt := Some (c_now c),
     rg_lastCorrectedAt := Some (c_now c), rg_sourceStats := bumpSource (rg_sourceStats r) (le_source ev)\<rparr>"

text \<open>
  The statements of \<^verbatim>\<open>learn\<close>. A new row takes the default status, which is confirmed, and no
  time of confirmation. The audit row is written through the request's client, outside a
  transaction that the caller may hold, so it stays when the correction is refused.
\<close>

definition learn :: "ctx \<Rightarrow> id \<Rightarrow> LearningEvent \<Rightarrow> memory \<Rightarrow> (row_refusal + unit) \<times> memory" where
  "learn c new ev m =
     (case find (\<lambda>(_, r). maps_code (c_companyId c) (le_codeType ev) (le_code ev) r) (rm_rows m) of
        None \<Rightarrow>
          (case insert_refused (learned_row c ev) m of
             Some e \<Rightarrow> (Inl e, m)
           | None \<Rightarrow> (Inr (), recordEvent c new (''learned:'' @ source_text (le_source ev)) None
                       (m\<lparr>rm_rows := t_insert new (learned_row c ev) (rm_rows m)\<rparr>)))
      | Some (i, r) \<Rightarrow>
          if rg_productId r = le_productId ev
          then (Inr (), recordEvent c i (''reinforce:'' @ source_text (le_source ev)) (Some (le_productId ev))
                  (m\<lparr>rm_rows := t_update i (reinforced c ev) (rm_rows m)\<rparr>))
          else
            let m1 = recordEvent c i (''correction:'' @ source_text (le_source ev)) (Some (rg_productId r)) m
            in if map_of (rm_products m) (le_productId ev) = None then (Inl UnknownProduct, m1)
               else (Inr (), m1\<lparr>rm_rows := t_update i (corrected c ev) (rm_rows m1)\<rparr>))"

text \<open>\<^verbatim>\<open>RecognitionService.resolve\<close>: the confirmed mapping of the company.\<close>

definition resolve_code :: "id \<Rightarrow> CodeType \<Rightarrow> string \<Rightarrow> memory \<Rightarrow> (id \<times> RecognitionSignals) option" where
  "resolve_code co ct code m =
     map_option (\<lambda>(_, r). (rg_productId r, signalsOf r))
       (find (\<lambda>(_, r). maps_code co ct code r \<and> rg_status r = rg_confirmed) (rm_rows m))"

section \<open>The ladder from a TAC to a suggestion\<close>

datatype SuggestionSource = company_confirmed | company_proposed | global_catalog | no_source

datatype ReviewReason = unconfirmed_proposal | conflicting_mappings

record CompanyMapping =
  mp_productId :: id
  mp_status :: RecognitionStatus

record TacSuggestion =
  sug_source :: SuggestionSource
  sug_productId :: "id option"
  sug_brand :: "string option"
  sug_model :: "string option"
  sug_variant :: "string option"
  sug_reviewReason :: "ReviewReason option"

text \<open>\<^verbatim>\<open>needsReview\<close> is set exactly where a reason is given.\<close>

definition needsReview :: "TacSuggestion \<Rightarrow> bool" where
  "needsReview s \<longleftrightarrow> sug_reviewReason s \<noteq> None"

definition UNKNOWN :: TacSuggestion where
  "UNKNOWN = \<lparr>sug_source = no_source, sug_productId = None, sug_brand = None, sug_model = None, sug_variant = None,
     sug_reviewReason = None\<rparr>"

definition tacFromImei :: "string \<Rightarrow> string option" where
  "tacFromImei imei = (if all_digits 15 imei then Some (take 8 imei) else None)"

definition resolveTac :: "string \<Rightarrow> CompanyMapping list \<Rightarrow> tac_entry option \<Rightarrow> TacSuggestion" where
  "resolveTac tac companyMappings globalEntry =
     (if \<not> isValidTac tac then UNKNOWN
      else
        let confirmed = filter (\<lambda>p. mp_status p = rg_confirmed) companyMappings;
            brand = Option.bind globalEntry te_brand;
            model = Option.bind globalEntry te_model
        in if length confirmed > 1
           then UNKNOWN\<lparr>sug_source := company_confirmed, sug_reviewReason := Some conflicting_mappings\<rparr>
           else if length confirmed = 1
           then \<lparr>sug_source = company_confirmed, sug_productId = Some (mp_productId (hd confirmed)), sug_brand = brand,
                 sug_model = model, sug_variant = None, sug_reviewReason = None\<rparr>
           else if filter (\<lambda>p. mp_status p = rg_proposed) companyMappings \<noteq> []
           then \<lparr>sug_source = company_proposed, sug_productId = None, sug_brand = brand, sug_model = model,
                 sug_variant = None, sug_reviewReason = Some unconfirmed_proposal\<rparr>
           else (case globalEntry of
                   None \<Rightarrow> UNKNOWN
                 | Some g \<Rightarrow>
                     if \<not> falsy (te_brand g) \<or> \<not> falsy (te_model g)
                     then \<lparr>sug_source = global_catalog, sug_productId = None, sug_brand = te_brand g, sug_model = te_model g,
                           sug_variant = te_defaultVariant g, sug_reviewReason = None\<rparr>
                     else UNKNOWN))"

definition reconcileDualSim :: "TacSuggestion \<Rightarrow> TacSuggestion option \<Rightarrow> TacSuggestion" where
  "reconcileDualSim primary secondary =
     (case secondary of
        None \<Rightarrow> primary
      | Some sec \<Rightarrow>
          (case (sug_productId primary, sug_productId sec) of
             (Some a, Some b) \<Rightarrow>
               if a \<noteq> b then UNKNOWN\<lparr>sug_source := company_confirmed, sug_reviewReason := Some conflicting_mappings\<rparr>
               else if sug_source primary \<noteq> no_source then primary else sec
           | (Some _, None) \<Rightarrow> primary
           | (None, Some _) \<Rightarrow> sec
           | (None, None) \<Rightarrow> if sug_source primary \<noteq> no_source then primary else sec))"

section \<open>The company's decision on a TAC\<close>

datatype mapping_refusal =
    InvalidTac
  | ProductNotFound
  | AlreadyConfirmed
  | ConfirmationExists
  | RefreshRequired
  | RowRefused row_refusal

type_synonym mapping_error = "mapping_refusal http_error"

record SubmitMappingDto =
  sm_tac :: string
  sm_productId :: id
  sm_evidenceSource :: "string option"
  sm_expectedVersion :: "nat option"

definition canConfirm :: "ctx \<Rightarrow> bool" where
  "canConfirm c \<longleftrightarrow> has_permission c ''catalog.manage''"

text \<open>Rows newest first, as \<^verbatim>\<open>orderBy: { id: 'desc' }\<close> returns them.\<close>

definition mappings_of :: "id \<Rightarrow> string \<Rightarrow> memory \<Rightarrow> CompanyMapping list" where
  "mappings_of co tac m =
     map (\<lambda>(_, r). \<lparr>mp_productId = rg_productId r, mp_status = rg_status r\<rparr>)
       (rev (sort_key fst (filter (\<lambda>(_, r). maps_code co code_tac tac r) (rm_rows m))))"

definition global_entry :: "bool \<Rightarrow> string \<Rightarrow> memory \<Rightarrow> tac_entry option" where
  "global_entry staging tac m =
     (case map_of (rm_tacs m) tac of
        Some g \<Rightarrow> if te_isActive g \<and> (staging \<or> \<not> te_synthetic g) then Some g else None
      | None \<Rightarrow> None)"

definition resolve_tac :: "bool \<Rightarrow> ctx \<Rightarrow> string \<Rightarrow> memory \<Rightarrow> mapping_error + TacSuggestion" where
  "resolve_tac staging c tac m =
     (if \<not> isValidTac tac then Inl (BadRequest InvalidTac)
      else Inr (resolveTac tac (mappings_of (c_companyId c) tac m) (global_entry staging tac m)))"

definition proposal_row :: "ctx \<Rightarrow> SubmitMappingDto \<Rightarrow> recognition" where
  "proposal_row c dto = (new_recognition (c_companyId c) code_tac (sm_tac dto) (sm_productId dto) rg_proposed)
     \<lparr>rg_proposedById := c_userId c,
      rg_evidenceSource := Some (case sm_evidenceSource dto of Some e \<Rightarrow> e | None \<Rightarrow> ''receiving'')\<rparr>"

definition confirmation_row :: "ctx \<Rightarrow> SubmitMappingDto \<Rightarrow> recognition" where
  "confirmation_row c dto = (new_recognition (c_companyId c) code_tac (sm_tac dto) (sm_productId dto) rg_confirmed)
     \<lparr>rg_confirmedById := c_userId c, rg_confirmedAt := Some (c_now c),
      rg_evidenceSource := Some (case sm_evidenceSource dto of Some e \<Rightarrow> e | None \<Rightarrow> ''manual''),
      rg_confirmations := 1, rg_lastConfirmedAt := Some (c_now c)\<rparr>"

text \<open>Create the row, write the audit row, and answer with the ladder.\<close>

definition store_mapping ::
  "bool \<Rightarrow> ctx \<Rightarrow> id \<Rightarrow> recognition \<Rightarrow> string \<Rightarrow> memory \<Rightarrow> (mapping_error + TacSuggestion) \<times> memory" where
  "store_mapping staging c new r act m =
     (case insert_refused r m of
        Some e \<Rightarrow> (Inl (Conflict (RowRefused e)), m)
      | None \<Rightarrow>
          let m1 = m\<lparr>rm_rows := t_insert new r (rm_rows m),
                     rm_audit := rm_audit m @ [audit_row_of c ''ProductRecognition'' new act None None]\<rparr>
          in (resolve_tac staging c (rg_code r) m1, m1))"

definition submit_mapping ::
  "bool \<Rightarrow> ctx \<Rightarrow> id \<Rightarrow> SubmitMappingDto \<Rightarrow> memory \<Rightarrow> (mapping_error + TacSuggestion) \<times> memory" where
  "submit_mapping staging c new dto m =
     (if \<not> isValidTac (sm_tac dto) then (Inl (BadRequest InvalidTac), m)
      else case map_of (rm_products m) (sm_productId dto) of
        None \<Rightarrow> (Inl (NotFound ProductNotFound), m)
      | Some p \<Rightarrow>
          if pd_companyId p \<noteq> c_companyId c \<or> pd_deletedAt p \<noteq> None then (Inl (NotFound ProductNotFound), m)
          else
            let existing = find (\<lambda>(_, r). maps_code (c_companyId c) code_tac (sm_tac dto) r \<and> rg_status r = rg_confirmed) (rm_rows m)
            in if \<not> canConfirm c
               then (case existing of
                       Some _ \<Rightarrow> (Inl (Forbidden AlreadyConfirmed), m)
                     | None \<Rightarrow> store_mapping staging c new (proposal_row c dto) ''create'' m)
               else (case existing of
                       None \<Rightarrow> store_mapping staging c new (confirmation_row c dto) ''create'' m
                     | Some (i, _) \<Rightarrow>
                         (case sm_expectedVersion dto of
                            None \<Rightarrow> (Inl (Conflict ConfirmationExists), m)
                          | Some v \<Rightarrow>
                              let (n, rows) = t_update_where i (\<lambda>r. rg_version r = v \<and> rg_status r = rg_confirmed)
                                    (\<lambda>r. r\<lparr>rg_status := rg_superseded, rg_version := Suc (rg_version r)\<rparr>) (rm_rows m)
                              in if n = 0 then (Inl (Conflict RefreshRequired), m)
                                 else store_mapping staging c new (confirmation_row c dto) ''status_change'' (m\<lparr>rm_rows := rows\<rparr>))))"

section \<open>The outbox\<close>

definition LEASE_MS :: nat where "LEASE_MS = 60000"
definition BATCH_SIZE :: nat where "BATCH_SIZE = 50"
definition MAX_ATTEMPTS :: nat where "MAX_ATTEMPTS = 8"
definition BACKOFF_BASE_MS :: nat where "BACKOFF_BASE_MS = 5000"
definition BACKOFF_CAP_MS :: nat where "BACKOFF_CAP_MS = 30 * 60000"

definition backoffMs :: "nat \<Rightarrow> nat" where
  "backoffMs attempts = min (BACKOFF_BASE_MS * 2 ^ (attempts - 1)) BACKOFF_CAP_MS"

record LearningIntent =
  li_companyId :: id
  li_purchaseId :: "id option"
  li_codeType :: CodeType
  li_code :: string
  li_productId :: id
  li_supplierId :: "id option"
  li_source :: LearningSource

definition outbox_of :: "nat \<Rightarrow> LearningIntent \<Rightarrow> outbox_row" where
  "outbox_of now i =
     \<lparr>ob_companyId = li_companyId i, ob_purchaseId = li_purchaseId i, ob_codeType = li_codeType i, ob_code = li_code i,
      ob_productId = li_productId i, ob_supplierId = li_supplierId i, ob_source = li_source i, ob_status = ob_pending,
      ob_attempts = 0, ob_lastError = None, ob_processedAt = None, ob_claimedUntil = None, ob_nextAttemptAt = now\<rparr>"

text \<open>The unique key of the table; as in MySQL a missing purchase never equals another.\<close>

definition same_event :: "outbox_row \<Rightarrow> outbox_row \<Rightarrow> bool" where
  "same_event a b \<longleftrightarrow> ob_companyId a = ob_companyId b \<and> ob_purchaseId a \<noteq> None \<and> ob_purchaseId a = ob_purchaseId b \<and>
     ob_codeType a = ob_codeType b \<and> ob_code a = ob_code b"

definition enqueue_one :: "nat \<Rightarrow> id \<times> LearningIntent \<Rightarrow> (id, outbox_row) table \<Rightarrow> (id, outbox_row) table" where
  "enqueue_one now ni t =
     (let r = outbox_of now (snd ni)
      in if list_ex (\<lambda>(_, q). same_event r q) t then t else t_insert (fst ni) r t)"

definition enqueueTx :: "nat \<Rightarrow> (nat \<Rightarrow> id) \<Rightarrow> LearningIntent list \<Rightarrow> (id, outbox_row) table \<Rightarrow> (id, outbox_row) table" where
  "enqueueTx now new intents t = fold (enqueue_one now) (zip (map new [0..<length intents]) intents) t"

definition due :: "nat \<Rightarrow> outbox_row \<Rightarrow> bool" where
  "due now r \<longleftrightarrow>
     (ob_status r = ob_pending \<and> ob_nextAttemptAt r \<le> now) \<or>
     (ob_status r = ob_processing \<and> (case ob_claimedUntil r of None \<Rightarrow> False | Some d \<Rightarrow> d < now))"

definition claim_row :: "nat \<Rightarrow> id \<Rightarrow> (id, outbox_row) table \<Rightarrow> nat \<times> (id, outbox_row) table" where
  "claim_row now i t =
     t_update_where i (due now)
       (\<lambda>r. r\<lparr>ob_status := ob_processing, ob_claimedUntil := Some (now + LEASE_MS), ob_attempts := Suc (ob_attempts r)\<rparr>) t"

definition event_of :: "outbox_row \<Rightarrow> LearningEvent" where
  "event_of r = \<lparr>le_codeType = ob_codeType r, le_code = ob_code r, le_productId = ob_productId r, le_source = ob_source r,
     le_supplierId = ob_supplierId r\<rparr>"

text \<open>The scope a row is processed in: its company, and nobody signed in.\<close>

definition worker_ctx :: "nat \<Rightarrow> outbox_row \<Rightarrow> ctx" where
  "worker_ctx now r = \<lparr>c_companyId = ob_companyId r, c_branchId = None, c_userId = None, c_permissions = [], c_now = now\<rparr>"

text \<open>Learning and completion in one transaction: a refusal rolls the rows back and keeps the audit row.\<close>

definition complete_row :: "nat \<Rightarrow> id \<Rightarrow> id \<Rightarrow> outbox_row \<Rightarrow> memory \<Rightarrow> (row_refusal + unit) \<times> memory" where
  "complete_row now new i r m =
     (case learn (worker_ctx now r) new (event_of r) m of
        (Inl e, m1) \<Rightarrow> (Inl e, m\<lparr>rm_audit := rm_audit m1\<rparr>)
      | (Inr _, m1) \<Rightarrow> (Inr (), m1\<lparr>rm_outbox := t_update i (\<lambda>q. q\<lparr>ob_status := ob_done, ob_processedAt := Some now,
                                   ob_claimedUntil := None, ob_lastError := None\<rparr>) (rm_outbox m1)\<rparr>))"

definition release_row :: "nat \<Rightarrow> id \<Rightarrow> nat \<Rightarrow> string \<Rightarrow> (id, outbox_row) table \<Rightarrow> (id, outbox_row) table" where
  "release_row now i attempts msg t =
     (let dead = (attempts \<ge> MAX_ATTEMPTS)
      in t_update i (\<lambda>q. q\<lparr>ob_status := (if dead then ob_failed else ob_pending), ob_claimedUntil := None,
            ob_lastError := Some (take 500 msg), ob_nextAttemptAt := (if dead then now else now + backoffMs attempts)\<rparr>) t)"

datatype row_outcome = row_done | row_failed | row_skipped

text \<open>One row, with nothing of another worker in between; \<open>describe\<close> gives the text of an exception.\<close>

definition processRow ::
  "(row_refusal \<Rightarrow> string) \<Rightarrow> nat \<Rightarrow> id \<Rightarrow> id \<Rightarrow> outbox_row \<Rightarrow> memory \<Rightarrow> row_outcome \<times> memory" where
  "processRow describe now new i row m =
     (let (n, t) = claim_row now i (rm_outbox m)
      in if n = 0 then (row_skipped, m)
         else
           let attempts = ob_attempts row + 1
           in case complete_row now new i row (m\<lparr>rm_outbox := t\<rparr>) of
                (Inr _, m1) \<Rightarrow> (row_done, m1)
              | (Inl e, m1) \<Rightarrow>
                  (if attempts \<ge> MAX_ATTEMPTS then row_failed else row_skipped,
                   m1\<lparr>rm_outbox := release_row now i attempts (describe e) (rm_outbox m1)\<rparr>))"

definition due_rows :: "nat \<Rightarrow> memory \<Rightarrow> (id \<times> outbox_row) list" where
  "due_rows now m = take BATCH_SIZE (sort_key (\<lambda>(_, r). ob_nextAttemptAt r) (filter (\<lambda>(_, r). due now r) (rm_outbox m)))"

fun process_rows ::
  "(row_refusal \<Rightarrow> string) \<Rightarrow> nat \<Rightarrow> (nat \<Rightarrow> id) \<Rightarrow> (id \<times> outbox_row) list \<Rightarrow> nat \<times> nat \<Rightarrow> memory \<Rightarrow> (nat \<times> nat) \<times> memory" where
  "process_rows describe now new [] acc m = (acc, m)"
| "process_rows describe now new ((i, r) # rest) (processed, failed) m =
     (case processRow describe now (new (length rest)) i r m of
        (row_done, m1) \<Rightarrow> process_rows describe now new rest (Suc processed, failed) m1
      | (row_failed, m1) \<Rightarrow> process_rows describe now new rest (processed, Suc failed) m1
      | (row_skipped, m1) \<Rightarrow> process_rows describe now new rest (processed, failed) m1)"

definition sweep :: "(row_refusal \<Rightarrow> string) \<Rightarrow> nat \<Rightarrow> (nat \<Rightarrow> id) \<Rightarrow> memory \<Rightarrow> (nat \<times> nat) \<times> memory" where
  "sweep describe now new m = process_rows describe now new (due_rows now m) (0, 0) m"

end
