(* ===== verification/RecognitionProperties.thy ===== *)
theory RecognitionProperties
  imports Recognition
begin

text \<open>
  What the scanner's memory guarantees: one confirmed meaning per code, the ladder agreeing with
  the memory, proposals that select nothing, evidence counted once per event as long as workers
  keep their leases, and two behaviours that differ from what the source says of itself.
\<close>

section \<open>One confirmed mapping\<close>

definition active_rows :: "id \<Rightarrow> CodeType \<Rightarrow> string \<Rightarrow> memory \<Rightarrow> (id \<times> recognition) list" where
  "active_rows co ct code m = filter (\<lambda>(_, r). maps_code co ct code r \<and> rg_status r = rg_confirmed) (rm_rows m)"

definition memory_ok :: "memory \<Rightarrow> bool" where
  "memory_ok m \<longleftrightarrow> t_wf (rm_rows m) \<and> (\<forall>co ct code. length (active_rows co ct code m) \<le> 1)"

lemma find_filter: "find P xs = (case filter P xs of [] \<Rightarrow> None | x # _ \<Rightarrow> Some x)"
  by (induction xs) auto

lemma length_filter_update:
  assumes "\<And>v. P (f v) \<Longrightarrow> P v"
  shows "length (filter (\<lambda>(_, v). P v) (t_update k f t)) \<le> length (filter (\<lambda>(_, v). P v) t)"
  using assms by (induction t) (auto simp: t_update_def le_SucI split: if_splits)

lemma active_update:
  assumes "\<And>r. maps_code co ct code (f r) \<and> rg_status (f r) = rg_confirmed \<Longrightarrow> maps_code co ct code r \<and> rg_status r = rg_confirmed"
  shows "length (active_rows co ct code (m\<lparr>rm_rows := t_update i f (rm_rows m)\<rparr>)) \<le> length (active_rows co ct code m)"
  unfolding active_rows_def using length_filter_update [of "\<lambda>r. maps_code co ct code r \<and> rg_status r = rg_confirmed" f, OF assms]
  by simp

lemma memory_ok_update:
  assumes "memory_ok m" and keep: "\<And>r. rg_companyId (f r) = rg_companyId r \<and> rg_codeType (f r) = rg_codeType r \<and>
      rg_code (f r) = rg_code r \<and> (rg_status (f r) = rg_confirmed \<longrightarrow> rg_status r = rg_confirmed)"
  shows "memory_ok (m\<lparr>rm_rows := t_update i f (rm_rows m)\<rparr>)"
proof -
  have "length (active_rows co ct code (m\<lparr>rm_rows := t_update i f (rm_rows m)\<rparr>)) \<le> 1" for co ct code
    using keep assms(1) by (intro le_trans [OF active_update]) (auto simp: memory_ok_def maps_code_def)
  then show ?thesis using assms(1) by (simp add: memory_ok_def)
qed

lemma memory_ok_insert:
  assumes ok: "memory_ok m" and new: "map_of (rm_rows m) new = None" and free: "insert_refused r m = None"
  shows "memory_ok (m\<lparr>rm_rows := t_insert new r (rm_rows m)\<rparr>)"
proof -
  have "length (active_rows co ct code (m\<lparr>rm_rows := t_insert new r (rm_rows m)\<rparr>)) \<le> 1" for co ct code
  proof (cases "maps_code co ct code r \<and> rg_status r = rg_confirmed")
    case True
    then have "active_rows co ct code m = []"
      using free by (auto simp: insert_refused_def active_rows_def maps_code_def filter_empty_conv list_ex_iff split: if_splits)
    with True show ?thesis by (simp add: active_rows_def t_insert_def)
  next
    case False
    then show ?thesis using ok by (auto simp: memory_ok_def active_rows_def t_insert_def)
  qed
  with ok new show ?thesis by (simp add: memory_ok_def)
qed

lemma memory_ok_cong: "rm_rows m' = rm_rows m \<Longrightarrow> memory_ok m' = memory_ok m"
  by (simp add: memory_ok_def active_rows_def)

lemma recordEvent_simps [simp]:
  "rm_rows (recordEvent c i s b m) = rm_rows m" "rm_outbox (recordEvent c i s b m) = rm_outbox m"
  "rm_products (recordEvent c i s b m) = rm_products m" "rm_tacs (recordEvent c i s b m) = rm_tacs m"
  by (simp_all add: recordEvent_def)

lemma find_row:
  assumes "find (\<lambda>(_, r). P r) t = Some (i, r)" "t_wf t"
  shows "map_of t i = Some r" "P r"
  using assms by (auto simp: find_Some_iff t_wf_map_of_eq in_set_conv_nth)

text \<open>A lesson about a code without a row is always refused, so there are two ways it changes the memory.\<close>

lemma learned_row_refused: "\<exists>e. insert_refused (learned_row c ev) m = Some e"
  by (auto simp: insert_refused_def learned_row_def new_recognition_def)

lemma learn_unknown:
  assumes "find (\<lambda>(_, r). maps_code (c_companyId c) (le_codeType ev) (le_code ev) r) (rm_rows m) = None"
  shows "\<exists>e. learn c new ev m = (Inl e, m)"
  using learned_row_refused [of c ev m] assms by (auto simp: learn_def)

lemma learn_cases:
  assumes "learn c new ev m = (res, m')" "t_wf (rm_rows m)"
  obtains (same) i r where "res = Inr ()" "map_of (rm_rows m) i = Some r" "rg_productId r = le_productId ev"
        "rm_rows m' = t_update i (reinforced c ev) (rm_rows m)"
    | (moved) i r where "res = Inr ()" "map_of (rm_rows m) i = Some r" "rg_productId r \<noteq> le_productId ev"
        "rm_rows m' = t_update i (corrected c ev) (rm_rows m)"
    | (refused) e where "res = Inl e" "rm_rows m' = rm_rows m"
proof (cases "find (\<lambda>(_, r). maps_code (c_companyId c) (le_codeType ev) (le_code ev) r) (rm_rows m)")
  case None
  then show ?thesis using assms(1) learn_unknown [of c ev m new] refused by auto
next
  case (Some x)
  obtain i r where x: "x = (i, r)" by fastforce
  from find_row [OF Some [unfolded x] assms(2)] have "map_of (rm_rows m) i = Some r" by simp
  with Some x show ?thesis using assms(1) same moved refused
    by (auto simp: learn_def Let_def split: if_splits)
qed

lemma learn_frame:
  assumes "learn c new ev m = (res, m')"
  shows "rm_outbox m' = rm_outbox m" "rm_products m' = rm_products m" "rm_tacs m' = rm_tacs m"
  using assms by (auto simp: learn_def Let_def split: option.splits prod.splits if_splits)

lemma learn_ok:
  assumes "memory_ok m" "map_of (rm_rows m) new = None" "learn c new ev m = (res, m')"
  shows "memory_ok m'"
proof -
  have wf: "t_wf (rm_rows m)" using assms(1) by (simp add: memory_ok_def)
  from assms(3) wf show ?thesis
  proof (cases rule: learn_cases)
    case (same i r)
    then show ?thesis using memory_ok_update [OF assms(1), of "reinforced c ev" i]
      by (simp add: memory_ok_def active_rows_def reinforced_def)
  next
    case (moved i r)
    then show ?thesis using memory_ok_update [OF assms(1), of "corrected c ev" i]
      by (simp add: memory_ok_def active_rows_def corrected_def)
  next
    case (refused e)
    then show ?thesis using assms(1) memory_ok_cong [of m' m] by simp
  qed
qed

lemma store_mapping_ok:
  assumes "memory_ok m" "map_of (rm_rows m) new = None" "store_mapping staging c new r act m = (res, m')"
  shows "memory_ok m'"
  using assms memory_ok_insert [OF assms(1,2), of r]
  by (auto simp: store_mapping_def Let_def memory_ok_def active_rows_def split: option.splits)

lemma supersede_ok:
  assumes "memory_ok m"
  shows "memory_ok (m\<lparr>rm_rows := t_update i (\<lambda>r. r\<lparr>rg_status := rg_superseded, rg_version := v r\<rparr>) (rm_rows m)\<rparr>)"
  by (rule memory_ok_update [OF assms]) simp

lemma submit_ok:
  assumes ok: "memory_ok m" and new: "map_of (rm_rows m) new = None" and s: "submit_mapping staging c new dto m = (res, m')"
  shows "memory_ok m'"
proof -
  let ?m = "\<lambda>i. m\<lparr>rm_rows := t_update i (\<lambda>r. r\<lparr>rg_status := rg_superseded, rg_version := Suc (rg_version r)\<rparr>) (rm_rows m)\<rparr>"
  from s consider "m' = m"
    | r act where "store_mapping staging c new r act m = (res, m')"
    | i r act where "store_mapping staging c new r act (?m i) = (res, m')"
    unfolding submit_mapping_def Let_def t_update_where_def
    by (simp split: if_splits option.splits prod.splits)
  then show ?thesis
  proof cases
    case (3 i r act)
    have "memory_ok (?m i)" by (rule supersede_ok [OF ok])
    moreover have "map_of (rm_rows (?m i)) new = None" using new by auto
    ultimately show ?thesis using 3 by (rule store_mapping_ok)
  qed (use ok new store_mapping_ok in blast)+
qed

section \<open>The ladder and the memory\<close>

definition mapping_of :: "id \<times> recognition \<Rightarrow> CompanyMapping" where
  "mapping_of x = \<lparr>mp_productId = rg_productId (snd x), mp_status = rg_status (snd x)\<rparr>"

lemma mappings_filter:
  "filter (\<lambda>p. mp_status p = st) (mappings_of co tac m) =
     map mapping_of (rev (sort_key fst (filter (\<lambda>(_, r). maps_code co code_tac tac r \<and> rg_status r = st) (rm_rows m))))"
proof -
  have f: "(\<lambda>(_, r). \<lparr>mp_productId = rg_productId r, mp_status = rg_status r\<rparr>) = mapping_of"
    by (auto simp: mapping_of_def fun_eq_iff)
  have g: "(\<lambda>p. mp_status p = st) \<circ> mapping_of = (\<lambda>(_, r). rg_status r = st)"
    by (auto simp: mapping_of_def fun_eq_iff)
  have h: "(\<lambda>x. (case x of (_, r) \<Rightarrow> maps_code co code_tac tac r) \<and> (case x of (_, r) \<Rightarrow> rg_status r = st)) =
      (\<lambda>(_, r). maps_code co code_tac tac r \<and> rg_status r = st)" by auto
  show ?thesis
    unfolding mappings_of_def f filter_map g rev_filter [symmetric] filter_sort filter_filter h ..
qed

lemma sort_key_empty: "sort_key f xs = [] \<longleftrightarrow> xs = []"
  by (metis set_empty set_sort)

lemma mappings_with:
  "filter (\<lambda>p. mp_status p = st) (mappings_of co tac m) \<noteq> [] \<longleftrightarrow>
     (\<exists>i r. (i, r) \<in> set (rm_rows m) \<and> maps_code co code_tac tac r \<and> rg_status r = st)"
  unfolding mappings_filter map_is_Nil_conv rev_is_Nil_conv sort_key_empty filter_empty_conv by blast

lemma confirmed_mappings:
  "filter (\<lambda>p. mp_status p = rg_confirmed) (mappings_of co tac m) = map mapping_of (rev (sort_key fst (active_rows co code_tac tac m)))"
  unfolding mappings_filter active_rows_def ..

lemma resolve_code_active:
  "resolve_code co ct code m = (case active_rows co ct code m of [] \<Rightarrow> None | x # _ \<Rightarrow> Some (rg_productId (snd x), signalsOf (snd x)))"
  by (simp add: resolve_code_def find_filter active_rows_def split: list.splits prod.splits)

text \<open>What the ladder answers when the code has no confirmed mapping.\<close>

lemma resolveTac_unconfirmed:
  assumes "isValidTac tac" "filter (\<lambda>p. mp_status p = rg_confirmed) ms = []"
  shows "sug_productId (resolveTac tac ms g) = None"
    "needsReview (resolveTac tac ms g) \<longleftrightarrow> filter (\<lambda>p. mp_status p = rg_proposed) ms \<noteq> []"
  using assms by (auto simp: resolveTac_def Let_def UNKNOWN_def needsReview_def split: option.splits)

lemma resolveTac_confirmed:
  assumes "isValidTac tac" "filter (\<lambda>p. mp_status p = rg_confirmed) ms = [x]"
  shows "sug_productId (resolveTac tac ms g) = Some (mp_productId x)" "\<not> needsReview (resolveTac tac ms g)"
  using assms by (simp_all add: resolveTac_def Let_def needsReview_def)

lemma ladder_agrees:
  assumes ok: "memory_ok m" and v: "isValidTac tac"
  shows "\<exists>s. resolve_tac staging c tac m = Inr s \<and>
    sug_productId s = map_option fst (resolve_code (c_companyId c) code_tac tac m) \<and>
    (needsReview s \<longleftrightarrow> resolve_code (c_companyId c) code_tac tac m = None \<and>
       (\<exists>i r. (i, r) \<in> set (rm_rows m) \<and> maps_code (c_companyId c) code_tac tac r \<and> rg_status r = rg_proposed))"
proof -
  let ?co = "c_companyId c" and ?ms = "mappings_of (c_companyId c) tac m"
  let ?s = "resolveTac tac ?ms (global_entry staging tac m)"
  have r: "resolve_tac staging c tac m = Inr ?s" using v by (simp add: resolve_tac_def)
  have "length (active_rows ?co code_tac tac m) \<le> 1" using ok by (simp add: memory_ok_def)
  then consider "active_rows ?co code_tac tac m = []" | x where "active_rows ?co code_tac tac m = [x]"
    by (cases "active_rows ?co code_tac tac m") auto
  then show ?thesis
  proof cases
    case 1
    then have "filter (\<lambda>p. mp_status p = rg_confirmed) ?ms = []" by (simp add: confirmed_mappings)
    from resolveTac_unconfirmed [OF v this] show ?thesis using r mappings_with [of rg_proposed ?co tac m] by (simp add: resolve_code_active 1)
  next
    case (2 x)
    then have "filter (\<lambda>p. mp_status p = rg_confirmed) ?ms = [mapping_of x]" by (simp add: confirmed_mappings)
    from resolveTac_confirmed [OF v this] show ?thesis using r by (simp add: resolve_code_active 2 mapping_of_def)
  qed
qed

section \<open>Proposals\<close>

lemma active_insert_proposed:
  "rg_status r \<noteq> rg_confirmed \<Longrightarrow> active_rows co ct code (m\<lparr>rm_rows := t_insert new r (rm_rows m), rm_audit := a\<rparr>) = active_rows co ct code m"
  by (simp add: active_rows_def t_insert_def)

lemma submit_proposal:
  assumes "submit_mapping staging c new dto m = (res, m')" "\<not> canConfirm c"
  shows "(\<exists>e. res = Inl e \<and> m' = m) \<or>
    (active_rows (c_companyId c) code_tac (sm_tac dto) m = [] \<and> isValidTac (sm_tac dto) \<and>
     store_mapping staging c new (proposal_row c dto) ''create'' m = (res, m'))"
  using assms unfolding submit_mapping_def find_filter active_rows_def Let_def
  by (simp split: if_splits option.splits list.splits) blast+

lemma proposal_effect:
  assumes "submit_mapping staging c new dto m = (res, m')" "\<not> canConfirm c"
  shows "resolve_code co ct code m' = resolve_code co ct code m"
    "res = Inr s \<Longrightarrow> sug_productId s = None \<and> needsReview s"
proof -
  let ?r = "proposal_row c dto" and ?co = "c_companyId c"
  have st: "rg_status ?r = rg_proposed" "rg_code ?r = sm_tac dto" "maps_code ?co code_tac (sm_tac dto) ?r"
    by (simp_all add: proposal_row_def new_recognition_def maps_code_def)
  consider (no) e where "res = Inl e" "m' = m"
    | (yes) "active_rows ?co code_tac (sm_tac dto) m = []" "isValidTac (sm_tac dto)"
        "m' = m\<lparr>rm_rows := t_insert new ?r (rm_rows m),
            rm_audit := rm_audit m @ [audit_row_of c ''ProductRecognition'' new ''create'' None None]\<rparr>"
        "res = resolve_tac staging c (sm_tac dto) m'"
  proof (cases "\<exists>e. res = Inl e \<and> m' = m")
    case False
    with submit_proposal [OF assms] have y: "active_rows ?co code_tac (sm_tac dto) m = []" "isValidTac (sm_tac dto)"
      "store_mapping staging c new ?r ''create'' m = (res, m')" by auto
    with False show ?thesis by (cases "insert_refused ?r m") (auto simp: store_mapping_def Let_def st intro!: yes)
  qed (use no in blast)
  note split = this
  show "resolve_code co ct code m' = resolve_code co ct code m"
    using split by cases (simp_all add: resolve_code_active active_insert_proposed st)
  assume s: "res = Inr s"
  show "sug_productId s = None \<and> needsReview s"
    using split
  proof cases
    case yes
    let ?ms = "mappings_of ?co (sm_tac dto) m'"
    have "filter (\<lambda>p. mp_status p = rg_confirmed) ?ms = []"
      unfolding confirmed_mappings using yes(1) st by (simp add: yes(3) active_insert_proposed)
    moreover have "filter (\<lambda>p. mp_status p = rg_proposed) ?ms \<noteq> []"
      unfolding mappings_with using st by (auto simp: yes(3) t_insert_def)
    ultimately show ?thesis using resolveTac_unconfirmed [OF yes(2)] s yes(2,4) by (auto simp: resolve_tac_def)
  qed (use s in simp)
qed

section \<open>A delivery re-points a confirmed mapping\<close>

lemma filter_update_hit:
  assumes "t_wf t" "map_of t i = Some v" "P (f v)" "filter (\<lambda>(_, v). P v) t = [(i, v)]"
  shows "filter (\<lambda>(_, v). P v) (t_update i f t) = [(i, f v)]"
  using assms
proof (induction t)
  case (Cons x t)
  obtain j w where x: "x = (j, w)" by fastforce
  have "(i, v) \<in> set (filter (\<lambda>(_, v). P v) (x # t))" by (simp only: Cons.prems(4)) simp
  then have "P v" unfolding set_filter by simp
  show ?case
  proof (cases "j = i")
    case True
    with Cons.prems x have "w = v" "map_of t i = None" by simp_all
    then have "t_update i f t = t" by (force simp: t_update_def map_of_eq_None_iff intro!: map_idI)
    then show ?thesis using Cons.prems x True \<open>w = v\<close> \<open>P v\<close> by (auto simp: t_update_def split: if_splits)
  next
    case False
    with Cons.prems x have "\<not> P w" by (auto split: if_splits)
    with False Cons x show ?thesis by (simp add: t_update_def)
  qed
qed simp

lemma correction_effect:
  assumes wf: "t_wf (rm_rows m)"
    and one: "filter (\<lambda>(_, r). maps_code (c_companyId c) (le_codeType ev) (le_code ev) r) (rm_rows m) = [(i, r)]"
    and conf: "rg_status r = rg_confirmed" and other: "rg_productId r \<noteq> le_productId ev"
    and p: "map_of (rm_products m) (le_productId ev) = Some p" and l: "learn c new ev m = (res, m')"
  shows "res = Inr ()" "map_of (rm_rows m') i = Some (corrected c ev r)"
    "active_rows (c_companyId c) (le_codeType ev) (le_code ev) m' = [(i, corrected c ev r)]"
proof -
  let ?P = "\<lambda>r. maps_code (c_companyId c) (le_codeType ev) (le_code ev) r \<and> rg_status r = rg_confirmed"
  have i: "map_of (rm_rows m) i = Some r" "maps_code (c_companyId c) (le_codeType ev) (le_code ev) r"
    using one wf by (auto simp: t_wf_map_of_eq dest: filter_eq_ConsD)
  have "find (\<lambda>(_, r). maps_code (c_companyId c) (le_codeType ev) (le_code ev) r) (rm_rows m) = Some (i, r)"
    by (simp add: find_filter one)
  with l other p have e: "res = Inr ()" "rm_rows m' = t_update i (corrected c ev) (rm_rows m)"
    by (auto simp: learn_def Let_def)
  have "filter (\<lambda>(_, r). ?P r) (rm_rows m) = filter (\<lambda>(_, r). rg_status r = rg_confirmed) [(i, r)]"
    unfolding one [symmetric] filter_filter by (rule filter_cong) auto
  then have a: "filter (\<lambda>(_, r). ?P r) (rm_rows m) = [(i, r)]" using conf by simp
  have "?P (corrected c ev r)" using i(2) conf by (simp add: corrected_def maps_code_def)
  from filter_update_hit [where P = ?P and f = "corrected c ev", OF wf i(1) this a] show "active_rows (c_companyId c) (le_codeType ev) (le_code ev) m' = [(i, corrected c ev r)]"
    by (simp add: active_rows_def e)
  show "res = Inr ()" "map_of (rm_rows m') i = Some (corrected c ev r)" using e i by simp_all
qed

section \<open>Several workers on one outbox\<close>

text \<open>
  The statements of \<open>processRow\<close> interleaved: a worker reads a due row, claims it with a lease,
  and later commits the lesson with the completion, or puts the row back, or dies. With
  \<open>leased\<close> a worker writes its outcome only while its lease lasts; the code does not check
  that. The list \<open>cw_learned\<close> keeps the events whose lesson was committed.
\<close>

datatype job =
    Seen id outbox_row
  | Held id outbox_row nat

record crew =
  cw_memory :: memory
  cw_now :: nat
  cw_jobs :: "job list"
  cw_learned :: "id list"

inductive crew_step :: "bool \<Rightarrow> crew \<Rightarrow> crew \<Rightarrow> bool" for leased where
  wait: "cw_now s \<le> t \<Longrightarrow> crew_step leased s (s\<lparr>cw_now := t\<rparr>)"
| read: "map_of (rm_outbox (cw_memory s)) i = Some r \<Longrightarrow> due (cw_now s) r \<Longrightarrow>
    crew_step leased s (s\<lparr>cw_jobs := Seen i r # cw_jobs s\<rparr>)"
| claim: "Seen i r \<in> set (cw_jobs s) \<Longrightarrow> claim_row (cw_now s) i (rm_outbox (cw_memory s)) = (1, t) \<Longrightarrow>
    crew_step leased s (s\<lparr>cw_memory := (cw_memory s)\<lparr>rm_outbox := t\<rparr>,
      cw_jobs := Held i r (cw_now s + LEASE_MS) # remove1 (Seen i r) (cw_jobs s)\<rparr>)"
| commit: "Held i r d \<in> set (cw_jobs s) \<Longrightarrow> leased \<longrightarrow> cw_now s \<le> d \<Longrightarrow> map_of (rm_rows (cw_memory s)) new = None \<Longrightarrow>
    complete_row (cw_now s) new i r (cw_memory s) = (Inr (), m) \<Longrightarrow>
    crew_step leased s (s\<lparr>cw_memory := m, cw_jobs := remove1 (Held i r d) (cw_jobs s), cw_learned := i # cw_learned s\<rparr>)"
| give_back: "Held i r d \<in> set (cw_jobs s) \<Longrightarrow> leased \<longrightarrow> cw_now s \<le> d \<Longrightarrow>
    crew_step leased s (s\<lparr>cw_memory := (cw_memory s)\<lparr>rm_outbox :=
        release_row (cw_now s) i (ob_attempts r + 1) msg (rm_outbox (cw_memory s))\<rparr>,
      cw_jobs := remove1 (Held i r d) (cw_jobs s)\<rparr>)"
| die: "crew_step leased s (s\<lparr>cw_jobs := remove1 j (cw_jobs s)\<rparr>)"

inductive crew_run :: "bool \<Rightarrow> crew \<Rightarrow> crew \<Rightarrow> bool" for leased s0 where
  start: "crew_run leased s0 s0"
| more_work: "crew_run leased s0 s \<Longrightarrow> crew_step leased s s' \<Longrightarrow> crew_run leased s0 s'"

definition evidence :: "memory \<Rightarrow> int" where
  "evidence m = sum_list (map (\<lambda>x. int (rg_timesSeen (snd x))) (rm_rows m))"

definition done_events :: "memory \<Rightarrow> id set" where
  "done_events m = {i. \<exists>r. map_of (rm_outbox m) i = Some r \<and> ob_status r = ob_done}"

text \<open>The jobs on a row whose lease still runs.\<close>

fun running :: "nat \<Rightarrow> id \<Rightarrow> job \<Rightarrow> bool" where
  "running now i (Seen j r) = False"
| "running now i (Held j r d) = (i = j \<and> now \<le> d)"

definition crew_ok :: "crew \<Rightarrow> bool" where
  "crew_ok s \<longleftrightarrow> t_wf (rm_rows (cw_memory s)) \<and> distinct (cw_learned s) \<and>
     set (cw_learned s) = done_events (cw_memory s) \<and>
     (\<forall>i r d. Held i r d \<in> set (cw_jobs s) \<longrightarrow> cw_now s \<le> d \<longrightarrow>
        (\<exists>q. map_of (rm_outbox (cw_memory s)) i = Some q \<and> ob_status q = ob_processing \<and> ob_claimedUntil q = Some d)) \<and>
     (\<forall>i. length (filter (running (cw_now s) i) (cw_jobs s)) \<le> 1)"

lemma learn_evidence:
  assumes "learn c new ev m = (Inr u, m')" "t_wf (rm_rows m)" "map_of (rm_rows m) new = None"
  shows "evidence m' = evidence m + 1" "t_wf (rm_rows m')"
proof -
  have "evidence m' = evidence m + 1 \<and> t_wf (rm_rows m')"
    using assms(1,2)
  proof (cases rule: learn_cases)
    case (same i r)
    then show ?thesis using assms(2) sum_t_update [OF assms(2) same(2), of "\<lambda>x. int (rg_timesSeen (snd x))"]
      by (simp add: evidence_def reinforced_def)
  next
    case (moved i r)
    then show ?thesis using assms(2) sum_t_update [OF assms(2) moved(2), of "\<lambda>x. int (rg_timesSeen (snd x))"]
      by (simp add: evidence_def corrected_def)
  qed simp
  then show "evidence m' = evidence m + 1" "t_wf (rm_rows m')" by simp_all
qed

lemma complete_cases:
  assumes "complete_row now new i r m = (Inr u, m')"
  obtains m1 where "learn (worker_ctx now r) new (event_of r) m = (Inr (), m1)" "rm_rows m' = rm_rows m1"
    "rm_outbox m' = t_update i (\<lambda>q. q\<lparr>ob_status := ob_done, ob_processedAt := Some now, ob_claimedUntil := None,
        ob_lastError := None\<rparr>) (rm_outbox m)"
  using assms learn_frame(1) [of "worker_ctx now r" new "event_of r" m]
  by (auto simp: complete_row_def split: prod.splits sum.splits)

text \<open>Every committed lesson adds one piece of evidence, with leases or without.\<close>

lemma crew_evidence:
  assumes "crew_run leased s0 s" "t_wf (rm_rows (cw_memory s0))" "cw_learned s0 = []"
  shows "t_wf (rm_rows (cw_memory s)) \<and> evidence (cw_memory s) = evidence (cw_memory s0) + int (length (cw_learned s))"
  using assms(1)
proof induction
  case (more_work s s')
  from more_work(2) more_work.IH show ?case
  proof cases
    case (commit i r d new m)
    from commit(5) obtain m1 where m1: "learn (worker_ctx (cw_now s) r) new (event_of r) (cw_memory s) = (Inr (), m1)" "rm_rows m = rm_rows m1"
      by (rule complete_cases)
    from learn_evidence [OF m1(1) _ commit(4)] more_work.IH show ?thesis
      by (simp add: commit(1) evidence_def m1(2))
  qed (simp_all add: evidence_def)
qed (use assms in simp_all)

text \<open>The codes a memory knows: neither a lesson nor a worker ever adds one.\<close>

definition known_codes :: "memory \<Rightarrow> (id \<times> id \<times> CodeType \<times> string) list" where
  "known_codes m = map (\<lambda>(i, r). (i, rg_companyId r, rg_codeType r, rg_code r)) (rm_rows m)"

lemma known_update:
  assumes "\<And>r. rg_companyId (f r) = rg_companyId r \<and> rg_codeType (f r) = rg_codeType r \<and> rg_code (f r) = rg_code r"
    "rm_rows m' = t_update i f (rm_rows m)"
  shows "known_codes m' = known_codes m"
  using assms(1) by (auto simp: known_codes_def assms(2) t_update_def)

lemma learn_known:
  assumes "learn c new ev m = (res, m')" "t_wf (rm_rows m)"
  shows "known_codes m' = known_codes m"
  using assms
proof (cases rule: learn_cases)
  case (same i r)
  show ?thesis by (rule known_update [OF _ same(4)]) (simp add: reinforced_def)
next
  case (moved i r)
  show ?thesis by (rule known_update [OF _ moved(4)]) (simp add: corrected_def)
qed (simp add: known_codes_def)

lemma crew_known:
  assumes "crew_run leased s0 s" "t_wf (rm_rows (cw_memory s0))" "cw_learned s0 = []"
  shows "known_codes (cw_memory s) = known_codes (cw_memory s0)"
  using assms(1)
proof induction
  case (more_work s s')
  from more_work(2) more_work.IH show ?case
  proof cases
    case (commit i r d new m)
    from commit(5) obtain m1 where m1: "learn (worker_ctx (cw_now s) r) new (event_of r) (cw_memory s) = (Inr (), m1)" "rm_rows m = rm_rows m1"
      by (rule complete_cases)
    from learn_known [OF m1(1)] crew_evidence [OF more_work(1) assms(2,3)] more_work.IH show ?thesis
      by (simp add: commit(1) known_codes_def m1(2))
  qed (simp_all add: known_codes_def)
qed simp

text \<open>With leases kept, a row has one running worker at most, and nothing is learned twice.\<close>

lemma crew_okD:
  assumes "crew_ok s"
  shows "t_wf (rm_rows (cw_memory s))" "distinct (cw_learned s)" "set (cw_learned s) = done_events (cw_memory s)"
    "Held i r d \<in> set (cw_jobs s) \<Longrightarrow> cw_now s \<le> d \<Longrightarrow>
      \<exists>q. map_of (rm_outbox (cw_memory s)) i = Some q \<and> ob_status q = ob_processing \<and> ob_claimedUntil q = Some d"
    "length (filter (running (cw_now s) i) (cw_jobs s)) \<le> 1"
  using assms unfolding crew_ok_def by blast+

lemma filter_remove1_le: "length (filter P (remove1 x xs)) \<le> length (filter P xs)"
  by (induction xs) auto

lemma running_gone:
  assumes "length (filter P xs) \<le> 1" "x \<in> set xs" "P x"
  shows "filter P (remove1 x xs) = []"
proof -
  have "x \<in> set (filter P xs)" using assms(2,3) by simp
  with assms(1) have "filter P xs = [x]" by (cases "filter P xs") auto
  then show ?thesis by (simp add: filter_remove1)
qed

lemma length_filter_imp: "(\<And>x. P x \<Longrightarrow> Q x) \<Longrightarrow> length (filter P xs) \<le> length (filter Q xs)"
  by (induction xs) (auto simp: le_SucI)

lemma due_not_done: "due now r \<Longrightarrow> ob_status r \<noteq> ob_done"
  by (auto simp: due_def)

lemma due_not_leased: "due now r \<Longrightarrow> ob_status r = ob_processing \<Longrightarrow> ob_claimedUntil r = Some d \<Longrightarrow> d < now"
  by (auto simp: due_def)

lemma done_update:
  assumes "map_of t i = Some q" "ob_status q \<noteq> ob_done" "\<And>r. ob_status (f r) \<noteq> ob_done"
  shows "{j. \<exists>r. map_of (t_update i f t) j = Some r \<and> ob_status r = ob_done} = {j. \<exists>r. map_of t j = Some r \<and> ob_status r = ob_done}"
  using assms by auto

text \<open>A finished outcome of the only running worker, whatever it is.\<close>

lemma crew_outcome:
  assumes ok: "crew_ok s" and h: "Held i r d \<in> set (cw_jobs s)" and l: "cw_now s \<le> d" and wf: "t_wf (rm_rows m)"
    and ob: "rm_outbox m = t_update i f (rm_outbox (cw_memory s))"
    and ln: "distinct ls" "set ls = done_events m"
  shows "crew_ok (s\<lparr>cw_memory := m, cw_jobs := remove1 (Held i r d) (cw_jobs s), cw_learned := ls\<rparr>)"
proof -
  let ?js = "remove1 (Held i r d) (cw_jobs s)"
  note D = crew_okD [OF ok]
  have gone: "filter (running (cw_now s) i) ?js = []"
    by (rule running_gone [OF D(5) h]) (simp add: l)
  have "\<exists>q. map_of (rm_outbox m) j = Some q \<and> ob_status q = ob_processing \<and> ob_claimedUntil q = Some e"
    if "Held j x e \<in> set ?js" "cw_now s \<le> e" for j x e
  proof -
    from that gone have "j \<noteq> i" by (auto simp: filter_empty_conv)
    with D(4) [of j x e] that show ?thesis using notin_set_remove1 [of _ _ "Held i r d"] by (auto simp: ob)
  qed
  moreover have "length (filter (running (cw_now s) j) ?js) \<le> 1" for j
    using le_trans [OF filter_remove1_le D(5)] .
  ultimately show ?thesis using wf ln by (simp add: crew_ok_def)
qed

lemma crew_step_ok:
  assumes "crew_step True s s'" and ok: "crew_ok s"
  shows "crew_ok s'"
  using assms(1)
proof cases
  case (wait t)
  have "length (filter (running t i) (cw_jobs s)) \<le> 1" for i
  proof (rule le_trans [OF _ crew_okD(5) [OF ok, of i]])
    have "running t i j \<Longrightarrow> running (cw_now s) i j" for j using wait(2) by (cases j) auto
    then show "length (filter (running t i) (cw_jobs s)) \<le> length (filter (running (cw_now s) i) (cw_jobs s))"
      by (rule length_filter_imp)
  qed
  with ok wait show ?thesis by (auto simp: crew_ok_def)
next
  case (read i r)
  then show ?thesis using ok by (simp add: crew_ok_def)
next
  case (claim i r t)
  let ?f = "\<lambda>r. r\<lparr>ob_status := ob_processing, ob_claimedUntil := Some (cw_now s + LEASE_MS), ob_attempts := Suc (ob_attempts r)\<rparr>"
  note D = crew_okD [OF ok]
  from claim(3) obtain q where q: "map_of (rm_outbox (cw_memory s)) i = Some q" "due (cw_now s) q"
    "t = t_update i ?f (rm_outbox (cw_memory s))"
    unfolding claim_row_def by (auto elim!: t_update_where_cases)
  have idle: "\<not> (Held i x e \<in> set (cw_jobs s) \<and> cw_now s \<le> e)" for x e
    using D(4) [of i x e] q due_not_leased by fastforce
  have none: "filter (running (cw_now s) i) (cw_jobs s) = []"
    unfolding filter_empty_conv
  proof (intro ballI notI)
    fix j assume "j \<in> set (cw_jobs s)" "running (cw_now s) i j"
    with idle show False by (cases j) auto
  qed
  have "\<exists>q. map_of t j = Some q \<and> ob_status q = ob_processing \<and> ob_claimedUntil q = Some e"
    if "Held j x e \<in> set (Held i r (cw_now s + LEASE_MS) # remove1 (Seen i r) (cw_jobs s))" "cw_now s \<le> e" for j x e
    using that idle D(4) [of j x e] q notin_set_remove1 [of "Held j x e" "cw_jobs s" "Seen i r"] by auto
  moreover have "length (filter (running (cw_now s) j) (Held i r (cw_now s + LEASE_MS) # remove1 (Seen i r) (cw_jobs s))) \<le> 1" for j
    using le_trans [OF filter_remove1_le D(5), of j "Seen i r"] le_trans [OF filter_remove1_le, of "running (cw_now s) i" "cw_jobs s" 0 "Seen i r"]
    by (auto simp: none)
  moreover have "{j. \<exists>r. map_of t j = Some r \<and> ob_status r = ob_done} = done_events (cw_memory s)"
    unfolding q(3) done_events_def by (rule done_update [OF q(1)]) (use q(2) due_not_done in auto)
  ultimately show ?thesis using D(1-3) by (simp add: crew_ok_def claim(1) done_events_def)
next
  case (commit i r d new m)
  from commit(5) obtain m1 where m1: "learn (worker_ctx (cw_now s) r) new (event_of r) (cw_memory s) = (Inr (), m1)" "rm_rows m = rm_rows m1"
    "rm_outbox m = t_update i (\<lambda>q. q\<lparr>ob_status := ob_done, ob_processedAt := Some (cw_now s), ob_claimedUntil := None,
        ob_lastError := None\<rparr>) (rm_outbox (cw_memory s))" by (rule complete_cases)
  from crew_okD(4) [OF ok commit(2)] commit(3) obtain q where q: "map_of (rm_outbox (cw_memory s)) i = Some q" "ob_status q = ob_processing" by auto
  have "i \<notin> done_events (cw_memory s)" using q by (simp add: done_events_def)
  then have "distinct (i # cw_learned s)" using crew_okD(2,3) [OF ok] by simp
  moreover have "set (i # cw_learned s) = done_events m"
    using crew_okD(3) [OF ok] q by (auto simp: done_events_def m1(3))
  ultimately show ?thesis
    unfolding commit(1) using commit(3) learn_evidence(2) [OF m1(1) crew_okD(1) [OF ok] commit(4)] m1(2)
    by (intro crew_outcome [OF ok commit(2) _ _ m1(3)]) simp_all
next
  case (give_back i r d msg)
  let ?m = "(cw_memory s)\<lparr>rm_outbox := release_row (cw_now s) i (ob_attempts r + 1) msg (rm_outbox (cw_memory s))\<rparr>"
  from crew_okD(4) [OF ok give_back(2)] give_back(3) obtain q where q: "map_of (rm_outbox (cw_memory s)) i = Some q" "ob_status q = ob_processing" by auto
  have "done_events ?m = done_events (cw_memory s)"
    unfolding done_events_def release_row_def Let_def using q by (auto split: if_splits)
  with crew_okD [OF ok] give_back(3) have "crew_ok (s\<lparr>cw_memory := ?m, cw_jobs := remove1 (Held i r d) (cw_jobs s), cw_learned := cw_learned s\<rparr>)"
    by (intro crew_outcome [OF ok give_back(2)]) (simp_all add: release_row_def Let_def)
  then show ?thesis unfolding give_back(1) by simp
next
  case (die j)
  have "length (filter (running (cw_now s) i) (remove1 j (cw_jobs s))) \<le> 1" for i
    by (rule le_trans [OF filter_remove1_le crew_okD(5) [OF ok]])
  with ok show ?thesis unfolding die(1) crew_ok_def using notin_set_remove1 by fastforce
qed

lemma crew_run_ok: "crew_run True s0 s \<Longrightarrow> crew_ok s0 \<Longrightarrow> crew_ok s"
  by (induction rule: crew_run.induct) (auto intro: crew_step_ok)

section \<open>A reachable memory\<close>

inductive mem_reach :: "memory \<Rightarrow> bool" where
  empty: "rm_rows m = [] \<Longrightarrow> mem_reach m"
| lesson: "mem_reach m \<Longrightarrow> map_of (rm_rows m) new = None \<Longrightarrow> learn c new ev m = (res, m') \<Longrightarrow> mem_reach m'"
| decision: "mem_reach m \<Longrightarrow> map_of (rm_rows m) new = None \<Longrightarrow> submit_mapping staging c new dto m = (res, m') \<Longrightarrow> mem_reach m'"
| elsewhere: "mem_reach m \<Longrightarrow> rm_rows m' = rm_rows m \<Longrightarrow> mem_reach m'"

lemma mem_reach_ok: "mem_reach m \<Longrightarrow> memory_ok m"
proof (induction rule: mem_reach.induct)
  case (empty m)
  then show ?case by (simp add: memory_ok_def active_rows_def)
next
  case (elsewhere m m')
  then show ?case using memory_ok_cong by blast
qed (blast intro: learn_ok submit_ok)+

section \<open>Examples\<close>

definition ex_phone :: product_row where
  "ex_phone = \<lparr>pd_companyId = 2, pd_brand = ''A'', pd_model = ''one'', pd_variant = None, pd_trackingType = track_imei,
     pd_barcode = None, pd_defaultPrice = None, pd_deletedAt = None\<rparr>"

definition ex_tac :: string where "ex_tac = ''35693803''"

definition ex_owner :: ctx where
  "ex_owner = \<lparr>c_companyId = 2, c_branchId = Some 4, c_userId = Some 7, c_permissions = [''catalog.manage''], c_now = 1000\<rparr>"

definition ex_clerk :: ctx where
  "ex_clerk = \<lparr>c_companyId = 2, c_branchId = Some 4, c_userId = Some 8, c_permissions = [''unit.add''], c_now = 1000\<rparr>"

definition ex_choice :: SubmitMappingDto where
  "ex_choice = \<lparr>sm_tac = ex_tac, sm_productId = 10, sm_evidenceSource = None, sm_expectedVersion = None\<rparr>"

definition ex_blank_memory :: memory where
  "ex_blank_memory = \<lparr>rm_products = [(10, ex_phone), (11, ex_phone)], rm_rows = [], rm_outbox = [], rm_tacs = [], rm_audit = []\<rparr>"

definition ex_taught :: memory where
  "ex_taught = snd (submit_mapping False ex_owner 50 ex_choice ex_blank_memory)"

definition ex_delivery_event :: outbox_row where
  "ex_delivery_event = outbox_of 1000 \<lparr>li_companyId = 2, li_purchaseId = Some 60, li_codeType = code_tac, li_code = ex_tac,
     li_productId = 11, li_supplierId = None, li_source = src_receiving\<rparr>"

lemma ex_tac_valid: "isValidTac ex_tac"
  by code_simp

lemma ex_taught_rows: "rm_rows ex_taught = [(50, confirmation_row ex_owner ex_choice)]" "rm_products ex_taught = rm_products ex_blank_memory"
  by (simp_all add: ex_taught_def submit_mapping_def store_mapping_def insert_refused_def ex_choice_def ex_tac_valid ex_blank_memory_def
      ex_phone_def ex_owner_def canConfirm_def has_permission_def confirmation_row_def new_recognition_def t_insert_def Let_def)

lemmas ex_defs = ex_owner_def ex_clerk_def ex_choice_def ex_delivery_event_def ex_phone_def ex_blank_memory_def

lemma ex_taught_reach: "mem_reach ex_taught"
  unfolding ex_taught_def
  by (rule mem_reach.decision [OF mem_reach.empty, of ex_blank_memory 50 False ex_owner ex_choice, OF _ _ prod.collapse [symmetric]])
    (simp_all add: ex_blank_memory_def)

section \<open>Properties\<close>

text \<open>
  (C20) The two ways of asking what a TAC means never disagree: in every memory reached by
  lessons and decisions, the ladder of the TAC screen names exactly the product that the
  scanner's own lookup resolves to, and it asks for review exactly when nothing is confirmed
  and a proposal is pending. In particular its branch for conflicting confirmations is never
  taken.
\<close>

theorem ladder_agrees_with_scanner:
  assumes "mem_reach m" and "isValidTac tac"
  shows "\<exists>s. resolve_tac staging c tac m = Inr s \<and>
    sug_productId s = map_option fst (resolve_code (c_companyId c) code_tac tac m) \<and>
    (needsReview s \<longleftrightarrow> resolve_code (c_companyId c) code_tac tac m = None \<and>
       (\<exists>i r. (i, r) \<in> set (rm_rows m) \<and> maps_code (c_companyId c) code_tac tac r \<and> rg_status r = rg_proposed))"
  by (rule ladder_agrees [OF mem_reach_ok [OF assms(1)] assms(2)])

theorem ladder_agrees_with_scanner_witness:
  "\<exists>s. resolve_tac False ex_clerk ex_tac ex_taught = Inr s \<and> sug_productId s = Some 10 \<and> \<not> needsReview s"
proof -
  have "resolve_code (c_companyId ex_clerk) code_tac ex_tac ex_taught = Some (10, signalsOf (confirmation_row ex_owner ex_choice))"
    by (simp add: resolve_code_def ex_taught_rows maps_code_def confirmation_row_def new_recognition_def ex_defs)
  with ladder_agrees_with_scanner [OF ex_taught_reach ex_tac_valid, of False ex_clerk] show ?thesis by auto
qed

text \<open>
  A submission by somebody without catalogue authority changes nothing anybody acts on:
  every code of every company resolves as before, and the answer selects no product and asks
  for review.
\<close>

theorem proposal_selects_nothing:
  assumes "submit_mapping staging c new dto m = (res, m')" and "\<not> canConfirm c"
  shows "resolve_code co ct code m' = resolve_code co ct code m \<and>
    (\<forall>s. res = Inr s \<longrightarrow> sug_productId s = None \<and> needsReview s)"
  using proposal_effect [OF assms] by blast

theorem proposal_selects_nothing_witness:
  "\<exists>s. fst (submit_mapping False ex_clerk 51 ex_choice ex_blank_memory) = Inr s \<and> sug_productId s = None \<and> needsReview s"
proof -
  have no: "\<not> canConfirm ex_clerk" by (simp add: canConfirm_def has_permission_def ex_clerk_def)
  have "\<exists>s. fst (submit_mapping False ex_clerk 51 ex_choice ex_blank_memory) = Inr s"
    using no by (simp add: submit_mapping_def store_mapping_def insert_refused_def resolve_tac_def ex_tac_valid ex_defs proposal_row_def
        new_recognition_def t_insert_def Let_def)
  moreover obtain res m' where r: "submit_mapping False ex_clerk 51 ex_choice ex_blank_memory = (res, m')" by fastforce
  ultimately show ?thesis using proposal_selects_nothing [OF r no] by auto
qed

text \<open>
  What the source denies: the event a delivery leaves in the outbox re-points a mapping
  that an owner confirmed, whoever received the delivery. Afterwards the code resolves to the
  delivered product, the row is still marked confirmed, and it still names the owner as the
  person who confirmed it.
\<close>

theorem delivery_overrides_confirmation:
  assumes "t_wf (rm_rows m)" and "filter (\<lambda>(_, q). maps_code (ob_companyId r) (ob_codeType r) (ob_code r) q) (rm_rows m) = [(i, q)]"
    and "rg_status q = rg_confirmed" and "rg_productId q \<noteq> ob_productId r" and "map_of (rm_products m) (ob_productId r) = Some p"
    and "complete_row now new k r m = (res, m')"
  shows "res = Inr () \<and> map_option fst (resolve_code (ob_companyId r) (ob_codeType r) (ob_code r) m') = Some (ob_productId r) \<and>
    (\<exists>q'. map_of (rm_rows m') i = Some q' \<and> rg_status q' = rg_confirmed \<and> rg_confirmedById q' = rg_confirmedById q \<and>
      rg_productId q' = ob_productId r)"
proof -
  let ?c = "worker_ctx now r" and ?ev = "event_of r"
  obtain res1 m1 where l: "learn ?c new ?ev m = (res1, m1)" by fastforce
  have e: "c_companyId ?c = ob_companyId r" "le_codeType ?ev = ob_codeType r" "le_code ?ev = ob_code r" "le_productId ?ev = ob_productId r"
    by (simp_all add: worker_ctx_def event_of_def)
  note f = correction_effect [of m ?c ?ev i q p new res1 m1, unfolded e, OF assms(1-5) l]
  have "res = Inr ()" "rm_rows m' = rm_rows m1" using assms(6) f(1) l by (auto simp: complete_row_def)
  then show ?thesis using f(2,3) assms(3)
    by (simp add: resolve_code_active active_rows_def corrected_def e)
qed

theorem delivery_overrides_confirmation_witness:
  "rg_confirmedById (confirmation_row ex_owner ex_choice) = Some 7 \<and>
   map_option fst (resolve_code 2 code_tac ex_tac ex_taught) = Some 10 \<and>
   map_option fst (resolve_code 2 code_tac ex_tac (snd (complete_row 2000 51 70 ex_delivery_event ex_taught))) = Some 11"
proof -
  have r: "ob_companyId ex_delivery_event = 2" "ob_codeType ex_delivery_event = code_tac" "ob_code ex_delivery_event = ex_tac"
    "ob_productId ex_delivery_event = 11" by (simp_all add: ex_delivery_event_def outbox_of_def)
  have q: "rg_status (confirmation_row ex_owner ex_choice) = rg_confirmed" "rg_productId (confirmation_row ex_owner ex_choice) = 10"
    "rg_confirmedById (confirmation_row ex_owner ex_choice) = Some 7" "maps_code 2 code_tac ex_tac (confirmation_row ex_owner ex_choice)"
    by (simp_all add: confirmation_row_def new_recognition_def ex_owner_def ex_choice_def maps_code_def)
  have "t_wf (rm_rows ex_taught)" "map_of (rm_products ex_taught) 11 = Some ex_phone"
    "filter (\<lambda>(_, q). maps_code 2 code_tac ex_tac q) (rm_rows ex_taught) = [(50, confirmation_row ex_owner ex_choice)]"
    using q by (simp_all add: ex_taught_rows ex_blank_memory_def)
  then have "map_option fst (resolve_code 2 code_tac ex_tac (snd (complete_row 2000 51 70 ex_delivery_event ex_taught))) = Some 11"
    using delivery_overrides_confirmation [of ex_taught ex_delivery_event 50 "confirmation_row ex_owner ex_choice" ex_phone 2000 51 70,
        OF _ _ _ _ _ prod.collapse [symmetric]] q by (simp add: r)
  moreover have "map_option fst (resolve_code 2 code_tac ex_tac ex_taught) = Some 10"
    using q by (simp add: resolve_code_def ex_taught_rows)
  ultimately show ?thesis using q by simp
qed

text \<open>
  (C21) Evidence is counted once per event, whatever the workers do in whatever order, as long
  as a worker writes its outcome within its lease: the sightings recorded in the memory grow
  by exactly the number of events marked done.
\<close>

theorem events_counted_once:
  assumes "crew_run True s0 s" and "t_wf (rm_rows (cw_memory s0))" and "cw_jobs s0 = []" and "cw_learned s0 = []"
    and "done_events (cw_memory s0) = {}"
  shows "evidence (cw_memory s) = evidence (cw_memory s0) + int (card (done_events (cw_memory s)))"
proof -
  have "crew_ok s0" using assms(2-5) by (simp add: crew_ok_def)
  then have "crew_ok s" by (rule crew_run_ok [OF assms(1)])
  from crew_okD(2,3) [OF this] distinct_card [of "cw_learned s"]
  have "card (done_events (cw_memory s)) = length (cw_learned s)" by simp
  with crew_evidence [OF assms(1,2,4)] show ?thesis by simp
qed

definition ex_crew :: crew where
  "ex_crew = \<lparr>cw_memory = ex_taught\<lparr>rm_outbox := [(70, ex_delivery_event)]\<rparr>, cw_now = 1000, cw_jobs = [], cw_learned = []\<rparr>"

definition ex_claimed :: "nat \<Rightarrow> outbox_row \<Rightarrow> outbox_row" where
  "ex_claimed now r = r\<lparr>ob_status := ob_processing, ob_claimedUntil := Some (now + LEASE_MS), ob_attempts := Suc (ob_attempts r)\<rparr>"

definition ex_crew_claimed :: crew where
  "ex_crew_claimed = ex_crew\<lparr>cw_memory := ex_taught\<lparr>rm_outbox := [(70, ex_claimed 1000 ex_delivery_event)]\<rparr>,
     cw_jobs := [Held 70 ex_delivery_event 61000]\<rparr>"

definition commit_of :: "id \<Rightarrow> id \<Rightarrow> outbox_row \<Rightarrow> nat \<Rightarrow> crew \<Rightarrow> crew" where
  "commit_of new i r d s = s\<lparr>cw_memory := snd (complete_row (cw_now s) new i r (cw_memory s)),
     cw_jobs := remove1 (Held i r d) (cw_jobs s), cw_learned := i # cw_learned s\<rparr>"

lemma crew_commit:
  assumes "crew_run leased s0 s" "Held i r d \<in> set (cw_jobs s)" "leased \<longrightarrow> cw_now s \<le> d" "map_of (rm_rows (cw_memory s)) new = None"
    "fst (complete_row (cw_now s) new i r (cw_memory s)) = Inr ()"
  shows "crew_run leased s0 (commit_of new i r d s)"
proof -
  have "complete_row (cw_now s) new i r (cw_memory s) = (Inr (), snd (complete_row (cw_now s) new i r (cw_memory s)))"
    using assms(5) by (simp add: prod_eq_iff)
  from crew_step.commit [OF assms(2,3,4) this] show ?thesis
    unfolding commit_of_def by (rule crew_run.more_work [OF assms(1)])
qed

lemma crew_claim:
  assumes "crew_run leased s0 s" "rm_outbox (cw_memory s) = [(70, r)]" "due (cw_now s) r"
  shows "crew_run leased s0 (s\<lparr>cw_memory := (cw_memory s)\<lparr>rm_outbox := [(70, ex_claimed (cw_now s) r)]\<rparr>,
      cw_jobs := Held 70 r (cw_now s + LEASE_MS) # cw_jobs s\<rparr>)"
proof -
  have r: "crew_run leased s0 (s\<lparr>cw_jobs := Seen 70 r # cw_jobs s\<rparr>)"
    by (rule crew_run.more_work [OF assms(1)]) (rule crew_step.read, use assms in simp_all)
  show ?thesis
    using crew_run.more_work [OF r crew_step.claim, of 70 r "[(70, ex_claimed (cw_now s) r)]"] assms
    by (simp add: claim_row_def t_update_where_def t_update_def ex_claimed_def)
qed

lemma ex_claimed_run: "crew_run leased ex_crew ex_crew_claimed"
  using crew_claim [OF crew_run.start, of ex_crew ex_delivery_event leased]
  by (simp add: ex_crew_claimed_def ex_crew_def due_def ex_delivery_event_def outbox_of_def LEASE_MS_def)

lemmas ex_learn_simps = complete_row_def learn_def maps_code_def worker_ctx_def event_of_def recordEvent_def ex_delivery_event_def
  outbox_of_def ex_taught_rows confirmation_row_def new_recognition_def ex_owner_def ex_choice_def ex_blank_memory_def Let_def

theorem events_counted_once_witness:
  "evidence (cw_memory (commit_of 51 70 ex_delivery_event 61000 ex_crew_claimed)) = evidence ex_taught + 1"
proof -
  let ?s = "commit_of 51 70 ex_delivery_event 61000 ex_crew_claimed"
  have run: "crew_run True ex_crew ?s"
    by (rule crew_commit [OF ex_claimed_run]) (simp_all add: ex_crew_claimed_def ex_crew_def ex_learn_simps)
  have e: "evidence (cw_memory ex_crew) = evidence ex_taught" by (simp add: ex_crew_def evidence_def)
  have d: "done_events (cw_memory ?s) = {70}"
    by (auto simp: done_events_def commit_of_def ex_crew_claimed_def ex_crew_def ex_learn_simps t_update_def)
  have "t_wf (rm_rows (cw_memory ex_crew))" "cw_jobs ex_crew = []" "cw_learned ex_crew = []" "done_events (cw_memory ex_crew) = {}"
    by (auto simp: ex_crew_def done_events_def ex_taught_rows ex_delivery_event_def outbox_of_def)
  from events_counted_once [OF run this] show ?thesis unfolding e d by simp
qed

definition ex_late :: crew where
  "ex_late = ex_crew_claimed\<lparr>cw_now := 61001,
     cw_memory := ex_taught\<lparr>rm_outbox := [(70, ex_claimed 61001 (ex_claimed 1000 ex_delivery_event))]\<rparr>,
     cw_jobs := [Held 70 (ex_claimed 1000 ex_delivery_event) 121001, Held 70 ex_delivery_event 61000]\<rparr>"

definition ex_twice :: crew where
  "ex_twice = commit_of 52 70 ex_delivery_event 61000 (commit_of 51 70 (ex_claimed 1000 ex_delivery_event) 121001 ex_late)"

lemma ex_late_run: "crew_run False ex_crew ex_late"
proof -
  let ?s = "ex_crew_claimed\<lparr>cw_now := 61001\<rparr>"
  have "crew_run False ex_crew ?s"
    by (rule crew_run.more_work [OF ex_claimed_run crew_step.wait]) (simp add: ex_crew_claimed_def ex_crew_def)
  from crew_claim [OF this, of "ex_claimed 1000 ex_delivery_event"] show ?thesis
    by (simp add: ex_late_def ex_crew_claimed_def ex_crew_def due_def ex_claimed_def LEASE_MS_def)
qed

text \<open>
  Nothing in the code makes a worker keep its lease, and the promise that one event is
  never counted twice then fails: a worker that is slower than its lease and the worker that
  took over both commit, and one delivery event leaves two sightings and two confirmations.
\<close>

theorem late_worker_counts_twice:
  "crew_run False ex_crew ex_twice \<and> length (rm_outbox (cw_memory ex_twice)) = 1 \<and>
   evidence (cw_memory ex_twice) = evidence (cw_memory ex_crew) + 2 \<and>
   map rg_confirmations (map snd (rm_rows (cw_memory ex_twice))) = [2]"
proof -
  let ?s = "commit_of 51 70 (ex_claimed 1000 ex_delivery_event) 121001 ex_late"
  have run: "crew_run False ex_crew ?s"
    by (rule crew_commit [OF ex_late_run]) (simp_all add: ex_late_def ex_crew_claimed_def ex_crew_def ex_claimed_def ex_learn_simps)
  let ?q = "corrected (worker_ctx 61001 ex_delivery_event) (event_of ex_delivery_event) (confirmation_row ex_owner ex_choice)"
  have rows: "rm_rows (cw_memory ?s) = [(50, ?q)]"
    "Held 70 ex_delivery_event 61000 \<in> set (cw_jobs ?s)" "cw_now ?s = 61001" "length (rm_outbox (cw_memory ?s)) = 1"
    by (simp_all add: commit_of_def ex_late_def ex_crew_claimed_def ex_crew_def ex_claimed_def ex_learn_simps t_update_def)
  let ?r = "reinforced (worker_ctx 61001 ex_delivery_event) (event_of ex_delivery_event)"
  have c: "fst (complete_row 61001 52 70 ex_delivery_event (cw_memory ?s)) = Inr ()"
    "rm_rows (snd (complete_row 61001 52 70 ex_delivery_event (cw_memory ?s))) = t_update 50 ?r (rm_rows (cw_memory ?s))"
    "length (rm_outbox (snd (complete_row 61001 52 70 ex_delivery_event (cw_memory ?s)))) = 1"
    using rows by (simp_all add: complete_row_def learn_def maps_code_def corrected_def confirmation_row_def new_recognition_def worker_ctx_def
        event_of_def recordEvent_def t_update_def ex_delivery_event_def outbox_of_def ex_owner_def ex_choice_def)
  have "crew_run False ex_crew ex_twice"
    unfolding ex_twice_def by (rule crew_commit [OF run]) (use rows c in simp_all)
  moreover have "rm_rows (cw_memory ex_twice) = t_update 50 ?r (rm_rows (cw_memory ?s))"
    "length (rm_outbox (cw_memory ex_twice)) = 1"
    using rows c by (simp_all add: ex_twice_def commit_of_def [of 52])
  ultimately show ?thesis
    using rows by (simp add: evidence_def t_update_def reinforced_def corrected_def ex_crew_def ex_taught_rows)
qed

text \<open>
  (C40) Receiving a delivery is meant to teach the scanner the codes on it, and with the
  constraint of migration 0043 it never does: however the workers run, and whatever events are
  in the outbox, the memory knows exactly the codes it knew before. The row for a new code is
  created confirmed, the column's default, without the time of confirmation that the constraint
  demands, and every attempt is refused.
\<close>

theorem new_code_never_learned:
  assumes "crew_run leased s0 s" and "t_wf (rm_rows (cw_memory s0))" and "cw_learned s0 = []"
  shows "known_codes (cw_memory s) = known_codes (cw_memory s0) \<and>
    ((\<forall>x \<in> set (known_codes (cw_memory s0)). snd x \<noteq> (co, ct, code)) \<longrightarrow> resolve_code co ct code (cw_memory s) = None)"
proof -
  have k: "known_codes (cw_memory s) = known_codes (cw_memory s0)" by (rule crew_known [OF assms])
  have "active_rows co ct code m = []" if "\<forall>x \<in> set (known_codes m). snd x \<noteq> (co, ct, code)" for m
    using that by (fastforce simp: active_rows_def known_codes_def maps_code_def filter_empty_conv)
  with k show ?thesis by (simp add: resolve_code_active)
qed

definition ex_new_crew :: crew where
  "ex_new_crew = ex_crew\<lparr>cw_memory := ex_blank_memory\<lparr>rm_outbox := [(70, ex_delivery_event)]\<rparr>\<rparr>"

theorem new_code_never_learned_witness:
  "\<exists>s. crew_run True ex_new_crew s \<and> cw_jobs s = [Held 70 ex_delivery_event 61000] \<and>
     (\<exists>e. fst (complete_row (cw_now s) 51 70 ex_delivery_event (cw_memory s)) = Inl e) \<and>
     resolve_code 2 code_tac ex_tac (cw_memory s) = None"
proof -
  let ?s = "ex_new_crew\<lparr>cw_memory := (cw_memory ex_new_crew)\<lparr>rm_outbox := [(70, ex_claimed 1000 ex_delivery_event)]\<rparr>,
      cw_jobs := [Held 70 ex_delivery_event 61000]\<rparr>"
  have i: "cw_now ex_new_crew = 1000" "cw_jobs ex_new_crew = []" "cw_learned ex_new_crew = []" "rm_rows (cw_memory ex_new_crew) = []"
    "rm_outbox (cw_memory ex_new_crew) = [(70, ex_delivery_event)]"
    by (simp_all add: ex_new_crew_def ex_crew_def ex_blank_memory_def)
  have run: "crew_run True ex_new_crew ?s"
    using crew_claim [OF crew_run.start, of ex_new_crew ex_delivery_event True]
    by (simp add: i due_def ex_delivery_event_def outbox_of_def LEASE_MS_def)
  obtain e where "learn (worker_ctx 1000 ex_delivery_event) 51 (event_of ex_delivery_event) (cw_memory ?s) = (Inl e, cw_memory ?s)"
    using learn_unknown [of "worker_ctx 1000 ex_delivery_event" "event_of ex_delivery_event" "cw_memory ?s" 51] i by auto
  then have "fst (complete_row (cw_now ?s) 51 70 ex_delivery_event (cw_memory ?s)) = Inl e"
    by (simp add: complete_row_def i)
  moreover have "resolve_code 2 code_tac ex_tac (cw_memory ?s) = None"
    using new_code_never_learned [OF run, of 2 code_tac ex_tac] i by (simp add: known_codes_def resolve_code_active active_rows_def)
  ultimately show ?thesis using run by (intro exI [of _ ?s] conjI exI [of _ e]) (simp_all add: i)
qed

end
