(* ===== verification/Purchasing.thy ===== *)
theory Purchasing
  imports Recognition Books Json
begin

text \<open>
  Receiving a delivery (\<^verbatim>\<open>src/src/purchasing/purchasing.service.ts\<close>): the lines sorted into units,
  quantity stock and rejections by each product's tracking strategy, the one transaction that
  writes the purchase with its goods, its debt and its lessons, and the replay of a retry. The
  identifier lookups and the creation of a unit are those of
  \<^verbatim>\<open>src/src/inventory/inventory.service.ts\<close>. The hash of a request is an argument.
\<close>

section \<open>Tables\<close>

record purchase_item =
  pit_companyId :: id
  pit_purchaseId :: id
  pit_productId :: id
  pit_quantity :: int
  pit_unitCost :: number

record supplier_payment =
  spy_companyId :: id
  spy_supplierId :: id
  spy_purchaseId :: id
  spy_amount :: number
  spy_method :: PaymentMethod

text \<open>The columns of a purchase that identify its request.\<close>

record purchase_request =
  prq_companyId :: id
  prq_clientUuid :: id
  prq_hash :: string

text \<open>The columns of a unit that name the delivery it came with.\<close>

record unit_origin =
  uo_supplierId :: id
  uo_purchaseId :: id

record receiving =
  rv_books :: books
  rv_memory :: memory
  rv_requests :: "(id, purchase_request) table"
  rv_items :: "(id, purchase_item) table"
  rv_payments :: "(id, supplier_payment) table"
  rv_origins :: "(id, unit_origin) table"

section \<open>Requests\<close>

record ReceiveItemDto =
  ri_productId :: id
  ri_unitCost :: number
  ri_identifiers :: "string list option"
  ri_quantity :: "nat option"
  ri_price :: "number option"
  ri_recognitionKey :: "RecognitionKey option"

record CreatePurchaseDto =
  cpu_clientUuid :: id
  cpu_supplierId :: id
  cpu_referenceNo :: "string option"
  cpu_paidAmount :: "number option"
  cpu_dueDate :: "nat option"
  cpu_items :: "ReceiveItemDto list"

definition ids_of :: "ReceiveItemDto \<Rightarrow> string list" where
  "ids_of i = (case ri_identifiers i of None \<Rightarrow> [] | Some xs \<Rightarrow> xs)"

definition amountPaid_of :: "CreatePurchaseDto \<Rightarrow> number" where
  "amountPaid_of dto = (case cpu_paidAmount dto of None \<Rightarrow> 0 | Some a \<Rightarrow> a)"

text \<open>The canonical form that is hashed.\<close>

record canonical_item =
  ci_productId :: id
  ci_unitCost :: number
  ci_quantity :: "nat option"
  ci_price :: "number option"
  ci_identifiers :: "string list"

type_synonym canonical_request = "id \<times> string option \<times> number \<times> canonical_item list"

definition canonical_item_of :: "ReceiveItemDto \<Rightarrow> canonical_item" where
  "canonical_item_of i = \<lparr>ci_productId = ri_productId i, ci_unitCost = ri_unitCost i, ci_quantity = ri_quantity i,
     ci_price = ri_price i, ci_identifiers = sort (ids_of i)\<rparr>"

definition canonical :: "CreatePurchaseDto \<Rightarrow> canonical_request" where
  "canonical dto = (cpu_supplierId dto, cpu_referenceNo dto, amountPaid_of dto,
     sort_key ci_productId (map canonical_item_of (cpu_items dto)))"

definition fingerprint :: "(canonical_request \<Rightarrow> string) \<Rightarrow> CreatePurchaseDto \<Rightarrow> string" where
  "fingerprint hash dto = hash (canonical dto)"

section \<open>Preparing the lines\<close>

datatype reject_reason =
    RejUnknownProduct
  | RejIdentifierRequired
  | RejInvalid identifier_refusal
  | RejDuplicateInBatch
  | RejQuantityRequired
  | RejAlreadyRegistered

datatype rejected_name = OfProduct id | OfCode string

type_synonym RejectedLine = "rejected_name \<times> reject_reason"

record PreparedUnit =
  pun_productId :: id
  pun_identifier :: string
  pun_imeiPrimary :: "string option"
  pun_serialNo :: "string option"
  pun_cost :: number

record PreparedStock =
  pst_productId :: id
  pst_quantity :: nat
  pst_cost :: number
  pst_price :: "number option"

record LearnPlan =
  lp_productId :: id
  lp_codeType :: CodeType
  lp_code :: string

record preparation =
  pp_rejected :: "RejectedLine list"
  pp_units :: "PreparedUnit list"
  pp_stock :: "PreparedStock list"
  pp_plans :: "LearnPlan list"
  pp_seen :: "string set"

definition identifierColumns :: "TrackingType \<Rightarrow> string \<Rightarrow> string option \<times> string option" where
  "identifierColumns t identifier =
     (let field = ts_identifierField (strategy_for t)
      in (if field = Some imeiPrimary then Some identifier else None, if field = Some serialNo then Some identifier else None))"

definition learnPlanFor :: "id \<Rightarrow> product_row \<Rightarrow> ReceiveItemDto \<Rightarrow> LearnPlan option" where
  "learnPlanFor pid p i =
     (case ri_recognitionKey i of
        Some (ct, code) \<Rightarrow> Some \<lparr>lp_productId = pid, lp_codeType = ct, lp_code = code\<rparr>
      | None \<Rightarrow>
          (case ids_of i of
             [] \<Rightarrow> None
           | x # _ \<Rightarrow>
               if pd_trackingType p = track_imei
               then map_option (\<lambda>(ct, code). \<lparr>lp_productId = pid, lp_codeType = ct, lp_code = code\<rparr>)
                      (ts_recognitionKey (strategy_for track_imei) x)
               else None))"

definition prepared_unit_of :: "id \<Rightarrow> product_row \<Rightarrow> number \<Rightarrow> string \<Rightarrow> PreparedUnit" where
  "prepared_unit_of pid p cost ident =
     \<lparr>pun_productId = pid, pun_identifier = ident, pun_imeiPrimary = fst (identifierColumns (pd_trackingType p) ident),
      pun_serialNo = snd (identifierColumns (pd_trackingType p) ident), pun_cost = cost\<rparr>"

definition prepare_identifier :: "id \<Rightarrow> product_row \<Rightarrow> number \<Rightarrow> string \<Rightarrow> preparation \<Rightarrow> preparation" where
  "prepare_identifier pid p cost raw pp =
     (let strategy = strategy_for (pd_trackingType p);
          normalized = ts_normalize strategy raw
      in case ts_validateIdentifier strategy raw of
           Inl e \<Rightarrow> pp\<lparr>pp_rejected := pp_rejected pp @ [(OfCode raw, RejInvalid e)]\<rparr>
         | Inr _ \<Rightarrow>
             if normalized \<in> pp_seen pp then pp\<lparr>pp_rejected := pp_rejected pp @ [(OfCode normalized, RejDuplicateInBatch)]\<rparr>
             else pp\<lparr>pp_seen := insert normalized (pp_seen pp), pp_units := pp_units pp @ [prepared_unit_of pid p cost normalized]\<rparr>)"

definition add_plan :: "LearnPlan option \<Rightarrow> preparation \<Rightarrow> preparation" where
  "add_plan plan pp = (case plan of None \<Rightarrow> pp | Some l \<Rightarrow> pp\<lparr>pp_plans := pp_plans pp @ [l]\<rparr>)"

definition prepare_item :: "id \<Rightarrow> (id, product_row) table \<Rightarrow> ReceiveItemDto \<Rightarrow> preparation \<Rightarrow> preparation" where
  "prepare_item co products i pp =
     (let reject = (\<lambda>r. pp\<lparr>pp_rejected := pp_rejected pp @ [(OfProduct (ri_productId i), r)]\<rparr>)
      in case map_of products (ri_productId i) of
           None \<Rightarrow> reject RejUnknownProduct
         | Some p \<Rightarrow>
             if pd_companyId p \<noteq> co then reject RejUnknownProduct
             else if ts_perUnit (strategy_for (pd_trackingType p))
             then if ids_of i = [] then reject RejIdentifierRequired
                  else add_plan (learnPlanFor (ri_productId i) p i)
                         (fold (prepare_identifier (ri_productId i) p (ri_unitCost i)) (ids_of i) pp)
             else case ri_quantity i of
                    None \<Rightarrow> reject RejQuantityRequired
                  | Some q \<Rightarrow>
                      if q < 1 then reject RejQuantityRequired
                      else add_plan (learnPlanFor (ri_productId i) p i)
                             (pp\<lparr>pp_stock := pp_stock pp @
                                [\<lparr>pst_productId = ri_productId i, pst_quantity = q, pst_cost = ri_unitCost i,
                                  pst_price = (case ri_price i of Some x \<Rightarrow> Some x | None \<Rightarrow> pd_defaultPrice p)\<rparr>]\<rparr>))"

definition nothing_prepared :: preparation where
  "nothing_prepared = \<lparr>pp_rejected = [], pp_units = [], pp_stock = [], pp_plans = [], pp_seen = {}\<rparr>"

definition prepare_items :: "id \<Rightarrow> (id, product_row) table \<Rightarrow> ReceiveItemDto list \<Rightarrow> preparation" where
  "prepare_items co products items = fold (prepare_item co products) items nothing_prepared"

section \<open>Units in the database\<close>

definition identifiers_of :: "unit_row \<Rightarrow> string list" where
  "identifiers_of u = filter (\<lambda>s. s \<noteq> [])
     (List.map_filter (\<lambda>x. x) [u_imeiPrimary u, u_imeiSecondary u, u_serialNo u])"

definition matches_any :: "string list \<Rightarrow> unit_row \<Rightarrow> bool" where
  "matches_any wanted u \<longleftrightarrow>
     list_ex (\<lambda>x. case x of None \<Rightarrow> False | Some s \<Rightarrow> s \<in> set wanted) [u_imeiPrimary u, u_imeiSecondary u, u_serialNo u]"

definition findExistingIdentifiers :: "id \<Rightarrow> string list \<Rightarrow> units \<Rightarrow> string list" where
  "findExistingIdentifiers co identifiers us =
     (if identifiers = [] then []
      else concat (map (\<lambda>(_, u). if u_companyId u = co \<and> matches_any identifiers u then identifiers_of u else []) us))"

text \<open>The generated column with the table's global unique index.\<close>

definition unit_key :: "unit_row \<Rightarrow> string option" where
  "unit_key u = (case u_imeiPrimary u of Some i \<Rightarrow> Some i | None \<Rightarrow> u_serialNo u)"

datatype purchase_refusal =
    NoItems
  | BranchRequired
  | SupplierMissing
  | PaidExceedsTotal
  | RequestReused
  | DuplicateIdentifier
  | IdentifierOfAnotherUnit
  | ColumnTooShort
  | StockRefused stock_refusal

type_synonym purchase_error = "purchase_refusal http_error"

text \<open>
  What the table refuses of a new row: a serial longer than its column, two equal IMEIs, an IMEI
  that is another unit's second IMEI or serial and a second IMEI that is any unit's number (the
  trigger), and a key that exists in any company (the unique index).
\<close>

definition unit_refused :: "unit_row \<Rightarrow> units \<Rightarrow> purchase_error option" where
  "unit_refused u us =
     (if (case u_serialNo u of None \<Rightarrow> False | Some s \<Rightarrow> length s > 60) then Some (BadRequest ColumnTooShort)
      else if u_imeiSecondary u \<noteq> None \<and> u_imeiSecondary u = u_imeiPrimary u then Some (Internal IdentifierOfAnotherUnit)
      else if u_imeiPrimary u \<noteq> None \<and>
              list_ex (\<lambda>(_, q). u_imeiSecondary q = u_imeiPrimary u \<or> u_serialNo q = u_imeiPrimary u) us
      then Some (Internal IdentifierOfAnotherUnit)
      else if u_imeiSecondary u \<noteq> None \<and>
              list_ex (\<lambda>(_, q). u_imeiPrimary q = u_imeiSecondary u \<or> u_imeiSecondary q = u_imeiSecondary u \<or>
                u_serialNo q = u_imeiSecondary u) us
      then Some (Internal IdentifierOfAnotherUnit)
      else if unit_key u \<noteq> None \<and> list_ex (\<lambda>(_, q). unit_key q = unit_key u) us then Some (Conflict DuplicateIdentifier)
      else None)"

record CreateUnitData =
  cud_productId :: id
  cud_branchId :: id
  cud_imeiPrimary :: "string option"
  cud_imeiSecondary :: "string option"
  cud_serialNo :: "string option"
  cud_cost :: number

definition new_unit :: "ctx \<Rightarrow> CreateUnitData \<Rightarrow> unit_row" where
  "new_unit c x = \<lparr>u_companyId = c_companyId c, u_productId = cud_productId x, u_branchId = cud_branchId x, u_imeiPrimary = cud_imeiPrimary x,
     u_imeiSecondary = cud_imeiSecondary x, u_serialNo = cud_serialNo x, u_cost = cud_cost x, u_status = in_stock, u_dateSold = None\<rparr>"

definition createUnit :: "ctx \<Rightarrow> id \<Rightarrow> CreateUnitData \<Rightarrow> books \<Rightarrow> purchase_error + books" where
  "createUnit c new x b =
     (case unit_refused (new_unit c x) (bk_units b) of
        Some e \<Rightarrow> Inl e
      | None \<Rightarrow> Inr (b\<lparr>bk_units := t_insert new (new_unit c x) (bk_units b),
                        bk_audit := bk_audit b @ [audit_row_of c ''Unit'' new ''create'' None (Some (cud_branchId x))]\<rparr>))"

section \<open>The replay of a request\<close>

record PurchaseOutcome =
  po_purchaseId :: "id option"
  po_unitsCreated :: nat
  po_stockLines :: nat
  po_total :: number
  po_rejected :: "RejectedLine list"
  po_replayed :: bool

definition findReplay ::
  "(canonical_request \<Rightarrow> string) \<Rightarrow> ctx \<Rightarrow> CreatePurchaseDto \<Rightarrow> receiving \<Rightarrow> purchase_error + PurchaseOutcome option" where
  "findReplay hash c dto s =
     (case find (\<lambda>(_, q). prq_companyId q = c_companyId c \<and> prq_clientUuid q = cpu_clientUuid dto) (rv_requests s) of
        None \<Rightarrow> Inr None
      | Some (pid, q) \<Rightarrow>
          if prq_hash q \<noteq> [] \<and> prq_hash q \<noteq> fingerprint hash dto then Inl (Conflict RequestReused)
          else
            let items = length (filter (\<lambda>(_, x). pit_purchaseId x = pid) (rv_items s));
                units = length (filter (\<lambda>(_, x). uo_purchaseId x = pid) (rv_origins s))
            in Inr (Some \<lparr>po_purchaseId = Some pid, po_unitsCreated = units, po_stockLines = items - units,
                 po_total = (case map_of (bk_purchases (rv_books s)) pid of None \<Rightarrow> 0 | Some p \<Rightarrow> pu_total p),
                 po_rejected = [], po_replayed = True\<rparr>))"

section \<open>The plan of a delivery\<close>

record purchase_plan =
  pn_branch :: id
  pn_units :: "PreparedUnit list"
  pn_stock :: "PreparedStock list"
  pn_plans :: "LearnPlan list"
  pn_rejected :: "RejectedLine list"
  pn_total :: number
  pn_paid :: number
  pn_status :: PurchaseStatus

definition purchase_total :: "PreparedUnit list \<Rightarrow> PreparedStock list \<Rightarrow> number" where
  "purchase_total us st = decimal2 (sum_of pun_cost us + sum_of (\<lambda>l. pst_cost l * of_nat (pst_quantity l)) st)"

text \<open>Everything up to the transaction: an error, an answer without one, or the plan.\<close>

definition plan_purchase ::
  "(canonical_request \<Rightarrow> string) \<Rightarrow> ctx \<Rightarrow> CreatePurchaseDto \<Rightarrow> receiving \<Rightarrow> purchase_error + (PurchaseOutcome + purchase_plan)" where
  "plan_purchase hash c dto s =
     (case c_branchId c of
        None \<Rightarrow> Inl (BadRequest BranchRequired)
      | Some branch \<Rightarrow>
          if cpu_items dto = [] then Inl (BadRequest NoItems)
          else bindE (findReplay hash c dto s) (\<lambda>replay.
            case replay of
              Some out \<Rightarrow> Inr (Inl out)
            | None \<Rightarrow>
                (case map_of (bk_suppliers (rv_books s)) (cpu_supplierId dto) of
                   None \<Rightarrow> Inl (NotFound SupplierMissing)
                 | Some sp \<Rightarrow>
                     if sp_companyId sp \<noteq> c_companyId c then Inl (NotFound SupplierMissing)
                     else
                       let pp = prepare_items (c_companyId c) (rm_products (rv_memory s)) (cpu_items dto);
                           existing = findExistingIdentifiers (c_companyId c) (map pun_identifier (pp_units pp)) (bk_units (rv_books s));
                           committable = filter (\<lambda>u. pun_identifier u \<notin> set existing) (pp_units pp);
                           rejected = pp_rejected pp @ map (\<lambda>u. (OfCode (pun_identifier u), RejAlreadyRegistered))
                             (filter (\<lambda>u. pun_identifier u \<in> set existing) (pp_units pp));
                           tot = purchase_total committable (pp_stock pp);
                           amountPaid = amountPaid_of dto
                       in if committable = [] \<and> pp_stock pp = []
                          then Inr (Inl \<lparr>po_purchaseId = None, po_unitsCreated = 0, po_stockLines = 0, po_total = 0,
                                 po_rejected = rejected, po_replayed = False\<rparr>)
                          else if amountPaid > tot then Inl (BadRequest PaidExceedsTotal)
                          else Inr (Inr \<lparr>pn_branch = branch, pn_units = committable, pn_stock = sort_key pst_productId (pp_stock pp),
                                 pn_plans = pp_plans pp, pn_rejected = rejected, pn_total = tot, pn_paid = amountPaid,
                                 pn_status = (if amountPaid \<ge> tot then paid else if amountPaid > 0 then partial else unpaid)\<rparr>))))"

section \<open>The transaction\<close>

text \<open>The identifiers drawn for the rows of one delivery.\<close>

record purchase_ids =
  pid_purchase :: id
  pid_unitItems :: "nat \<Rightarrow> id"
  pid_units :: "nat \<Rightarrow> id"
  pid_stockItems :: "nat \<Rightarrow> id"
  pid_payment :: id
  pid_events :: "nat \<Rightarrow> id"
  pid_lessons :: "nat \<Rightarrow> id"

definition new_item :: "ctx \<Rightarrow> id \<Rightarrow> id \<Rightarrow> int \<Rightarrow> number \<Rightarrow> purchase_item" where
  "new_item c pid product q cost = \<lparr>pit_companyId = c_companyId c, pit_purchaseId = pid, pit_productId = product, pit_quantity = q, pit_unitCost = cost\<rparr>"

definition received_unit :: "id \<Rightarrow> PreparedUnit \<Rightarrow> CreateUnitData" where
  "received_unit branch u = \<lparr>cud_productId = pun_productId u, cud_branchId = branch, cud_imeiPrimary = pun_imeiPrimary u,
     cud_imeiSecondary = None, cud_serialNo = pun_serialNo u, cud_cost = pun_cost u\<rparr>"

fun deliver_units :: "ctx \<Rightarrow> purchase_ids \<Rightarrow> id \<Rightarrow> id \<Rightarrow> nat \<Rightarrow> PreparedUnit list \<Rightarrow> receiving \<Rightarrow> purchase_error + receiving" where
  "deliver_units c ids branch supplier n [] s = Inr s"
| "deliver_units c ids branch supplier n (u # us) s =
     bindE (createUnit c (pid_units ids n) (received_unit branch u) (rv_books s)) (\<lambda>b.
       deliver_units c ids branch supplier (Suc n) us
         (s\<lparr>rv_books := b,
            rv_items := t_insert (pid_unitItems ids n) (new_item c (pid_purchase ids) (pun_productId u) 1 (pun_cost u)) (rv_items s),
            rv_origins := t_insert (pid_units ids n) \<lparr>uo_supplierId = supplier, uo_purchaseId = pid_purchase ids\<rparr> (rv_origins s)\<rparr>))"

fun deliver_stock :: "ctx \<Rightarrow> purchase_ids \<Rightarrow> id \<Rightarrow> nat \<Rightarrow> PreparedStock list \<Rightarrow> receiving \<Rightarrow> purchase_error + receiving" where
  "deliver_stock c ids branch n [] s = Inr s"
| "deliver_stock c ids branch n (l # ls) s =
     (case receiveQuantityAtCost (c_companyId c, pst_productId l, branch) (int (pst_quantity l)) (pst_cost l) (pst_price l) (bk_stock (rv_books s)) of
        Inl _ \<Rightarrow> Inl (Internal (StockRefused (ReceivedNotPositive (int (pst_quantity l)))))
      | Inr st \<Rightarrow>
          deliver_stock c ids branch (Suc n) ls
            (s\<lparr>rv_books := (rv_books s)\<lparr>bk_stock := st\<rparr>,
               rv_items := t_insert (pid_stockItems ids n) (new_item c (pid_purchase ids) (pst_productId l) (int (pst_quantity l)) (pst_cost l)) (rv_items s)\<rparr>))"

definition new_purchase :: "ctx \<Rightarrow> CreatePurchaseDto \<Rightarrow> purchase_plan \<Rightarrow> purchase" where
  "new_purchase c dto pn =
     \<lparr>pu_companyId = c_companyId c, pu_branchId = pn_branch pn, pu_supplierId = cpu_supplierId dto, pu_referenceNo = cpu_referenceNo dto,
      pu_date = c_now c, pu_dueDate = cpu_dueDate dto, pu_total = pn_total pn, pu_amountPaid = pn_paid pn, pu_status = pn_status pn\<rparr>"

definition intents_of :: "ctx \<Rightarrow> id \<Rightarrow> id \<Rightarrow> LearnPlan list \<Rightarrow> LearningIntent list" where
  "intents_of c pid supplier plans =
     map (\<lambda>l. \<lparr>li_companyId = c_companyId c, li_purchaseId = Some pid, li_codeType = lp_codeType l, li_code = lp_code l,
               li_productId = lp_productId l, li_supplierId = Some supplier, li_source = src_receiving\<rparr>) plans"

text \<open>What follows the goods: the debt to the supplier, the payment, the audit row and the lessons.\<close>

definition settle_delivery :: "ctx \<Rightarrow> purchase_ids \<Rightarrow> CreatePurchaseDto \<Rightarrow> purchase_plan \<Rightarrow> receiving \<Rightarrow> receiving" where
  "settle_delivery c ids dto pn s =
     (let payable = decimal2 (pn_total pn - pn_paid pn);
          b = rv_books s;
          b1 = (if payable \<noteq> 0
                then b\<lparr>bk_suppliers := t_update (cpu_supplierId dto) (\<lambda>p. p\<lparr>sp_balance := sp_balance p + payable\<rparr>) (bk_suppliers b)\<rparr>
                else b);
          b2 = b1\<lparr>bk_audit := bk_audit b1 @ [audit_row_of c ''Purchase'' (pid_purchase ids) ''create'' None (Some (pn_branch pn))]\<rparr>
      in s\<lparr>rv_books := b2,
           rv_payments := (if pn_paid pn > 0
             then t_insert (pid_payment ids) \<lparr>spy_companyId = c_companyId c, spy_supplierId = cpu_supplierId dto,
                    spy_purchaseId = pid_purchase ids, spy_amount = pn_paid pn, spy_method = pm_cash\<rparr> (rv_payments s)
             else rv_payments s),
           rv_memory := (rv_memory s)\<lparr>rm_outbox := enqueueTx (c_now c) (pid_events ids)
             (intents_of c (pid_purchase ids) (cpu_supplierId dto) (pn_plans pn)) (rm_outbox (rv_memory s))\<rparr>\<rparr>)"

definition request_taken :: "ctx \<Rightarrow> CreatePurchaseDto \<Rightarrow> receiving \<Rightarrow> bool" where
  "request_taken c dto s \<longleftrightarrow> list_ex (\<lambda>(_, q). prq_companyId q = c_companyId c \<and> prq_clientUuid q = cpu_clientUuid dto) (rv_requests s)"

definition purchase_tx ::
  "(canonical_request \<Rightarrow> string) \<Rightarrow> ctx \<Rightarrow> purchase_ids \<Rightarrow> CreatePurchaseDto \<Rightarrow> purchase_plan \<Rightarrow> receiving \<Rightarrow> purchase_error + receiving" where
  "purchase_tx hash c ids dto pn s =
     (if request_taken c dto s then Inl (Conflict DuplicateIdentifier)
      else
        let s1 = s\<lparr>rv_books := (rv_books s)\<lparr>bk_purchases := t_insert (pid_purchase ids) (new_purchase c dto pn) (bk_purchases (rv_books s))\<rparr>,
                   rv_requests := t_insert (pid_purchase ids)
                     \<lparr>prq_companyId = c_companyId c, prq_clientUuid = cpu_clientUuid dto, prq_hash = fingerprint hash dto\<rparr> (rv_requests s)\<rparr>
        in bindE (deliver_units c ids (pn_branch pn) (cpu_supplierId dto) 0 (pn_units pn) s1) (\<lambda>s2.
           bindE (deliver_stock c ids (pn_branch pn) 0 (pn_stock pn) s2) (\<lambda>s3.
             Inr (settle_delivery c ids dto pn s3))))"

text \<open>
  The transaction with the answer to its failure: a violated unique key asks whether a twin of
  this request has just been received. After the commit the outbox is drained and the shop is
  told; something was received, since a plan is never empty.
\<close>

definition after_delivery :: "(row_refusal \<Rightarrow> string) \<Rightarrow> ctx \<Rightarrow> purchase_ids \<Rightarrow> receiving \<Rightarrow> receiving" where
  "after_delivery describe c ids s =
     s\<lparr>rv_memory := snd (sweep describe (c_now c) (pid_lessons ids) (rv_memory s)),
       rv_books := (rv_books s)\<lparr>bk_notifications := bk_notifications (rv_books s) @ [deliver c ''stock.received'' None None]\<rparr>\<rparr>"

definition commit_purchase ::
  "(row_refusal \<Rightarrow> string) \<Rightarrow> (canonical_request \<Rightarrow> string) \<Rightarrow> ctx \<Rightarrow> purchase_ids \<Rightarrow> CreatePurchaseDto \<Rightarrow> purchase_plan \<Rightarrow> receiving \<Rightarrow>
   (purchase_error + PurchaseOutcome) \<times> receiving" where
  "commit_purchase describe hash c ids dto pn s =
     (case purchase_tx hash c ids dto pn s of
        Inl (Conflict DuplicateIdentifier) \<Rightarrow>
          (case findReplay hash c dto s of
             Inl e \<Rightarrow> (Inl e, s)
           | Inr (Some out) \<Rightarrow> (Inr out, s)
           | Inr None \<Rightarrow> (Inl (Conflict DuplicateIdentifier), s))
      | Inl e \<Rightarrow> (Inl e, s)
      | Inr s1 \<Rightarrow>
          (Inr \<lparr>po_purchaseId = Some (pid_purchase ids), po_unitsCreated = length (pn_units pn), po_stockLines = length (pn_stock pn),
                po_total = pn_total pn, po_rejected = pn_rejected pn, po_replayed = False\<rparr>,
           after_delivery describe c ids s1))"

definition createPurchase ::
  "(row_refusal \<Rightarrow> string) \<Rightarrow> (canonical_request \<Rightarrow> string) \<Rightarrow> ctx \<Rightarrow> purchase_ids \<Rightarrow> CreatePurchaseDto \<Rightarrow> receiving \<Rightarrow>
   (purchase_error + PurchaseOutcome) \<times> receiving" where
  "createPurchase describe hash c ids dto s =
     (case plan_purchase hash c dto s of
        Inl e \<Rightarrow> (Inl e, s)
      | Inr (Inl out) \<Rightarrow> (Inr out, s)
      | Inr (Inr pn) \<Rightarrow> commit_purchase describe hash c ids dto pn s)"

end
