(* ===== verification/PurchasingProperties.thy ===== *)
theory PurchasingProperties
  imports Purchasing SupplierInvariant
begin

text \<open>
  Receiving a delivery: what one call writes, that a retry or a race returns the first outcome,
  that a valid delivery goes through, that it is a step the suppliers' books allow, and what a
  payment made on delivery does not do.
\<close>

section \<open>The prepared lines\<close>

definition prepared_ok :: "PreparedUnit \<Rightarrow> bool" where
  "prepared_ok u \<longleftrightarrow> pun_identifier u \<noteq> [] \<and>
     (pun_imeiPrimary u = Some (pun_identifier u) \<and> pun_serialNo u = None \<or>
      pun_imeiPrimary u = None \<and> pun_serialNo u = Some (pun_identifier u))"

definition preparation_ok :: "preparation \<Rightarrow> bool" where
  "preparation_ok pp \<longleftrightarrow> distinct (map pun_identifier (pp_units pp)) \<and> pun_identifier ` set (pp_units pp) \<subseteq> pp_seen pp \<and>
     (\<forall>u \<in> set (pp_units pp). prepared_ok u) \<and> (\<forall>l \<in> set (pp_stock pp). 1 \<le> pst_quantity l)"

lemma prepared_unit_ok:
  assumes "ts_perUnit (strategy_for (pd_trackingType p))"
    "ts_validateIdentifier (strategy_for (pd_trackingType p)) raw = Inr ()"
  shows "prepared_ok (prepared_unit_of pid p cost (ts_normalize (strategy_for (pd_trackingType p)) raw))"
proof -
  have "ts_identifierField (strategy_for (pd_trackingType p)) \<noteq> None"
    using assms(1) registered.per_unit_column [of "pd_trackingType p"] by simp
  then have "ts_identifierField (strategy_for (pd_trackingType p)) = Some imeiPrimary \<or>
      ts_identifierField (strategy_for (pd_trackingType p)) = Some serialNo"
    by (metis identifier_field.exhaust not_Some_eq)
  then show ?thesis using registered.per_unit_nonempty [OF assms]
    by (auto simp: prepared_ok_def prepared_unit_of_def identifierColumns_def Let_def)
qed

lemma prepare_identifier_ok:
  assumes "ts_perUnit (strategy_for (pd_trackingType p))" "preparation_ok pp"
  shows "preparation_ok (prepare_identifier pid p cost raw pp)"
proof (cases "ts_validateIdentifier (strategy_for (pd_trackingType p)) raw")
  case (Inr u)
  then have "prepared_ok (prepared_unit_of pid p cost (ts_normalize (strategy_for (pd_trackingType p)) raw))"
    by (intro prepared_unit_ok assms) simp
  moreover have "pun_identifier (prepared_unit_of pid p cost i) = i" for i by (simp add: prepared_unit_of_def)
  ultimately show ?thesis using assms(2) Inr
    by (auto simp: prepare_identifier_def Let_def preparation_ok_def)
qed (use assms in \<open>simp add: prepare_identifier_def Let_def preparation_ok_def\<close>)

lemma prepare_identifiers_ok:
  assumes "ts_perUnit (strategy_for (pd_trackingType p))" "preparation_ok pp"
  shows "preparation_ok (fold (prepare_identifier pid p cost) raws pp)"
  using assms(2) by (induction raws arbitrary: pp) (simp_all add: prepare_identifier_ok [OF assms(1)])

lemma preparation_ok_more:
  "preparation_ok pp \<Longrightarrow> preparation_ok (add_plan l pp)"
  "preparation_ok pp \<Longrightarrow> preparation_ok (pp\<lparr>pp_rejected := rs\<rparr>)"
  "preparation_ok pp \<Longrightarrow> 1 \<le> pst_quantity x \<Longrightarrow> preparation_ok (pp\<lparr>pp_stock := pp_stock pp @ [x]\<rparr>)"
  by (auto simp: preparation_ok_def add_plan_def split: option.splits)

lemma prepare_item_cases:
  obtains (rejected) r where "prepare_item co products i pp = pp\<lparr>pp_rejected := pp_rejected pp @ [r]\<rparr>"
    | (units) p l where "ts_perUnit (strategy_for (pd_trackingType p))"
        "prepare_item co products i pp = add_plan l (fold (prepare_identifier (ri_productId i) p (ri_unitCost i)) (ids_of i) pp)"
    | (stock) x l where "1 \<le> pst_quantity x" "pst_cost x = ri_unitCost i"
        "prepare_item co products i pp = add_plan l (pp\<lparr>pp_stock := pp_stock pp @ [x]\<rparr>)"
proof (cases "map_of products (ri_productId i)")
  case (Some p)
  show ?thesis
  proof (cases "pd_companyId p \<noteq> co")
    case False
    show ?thesis
    proof (cases "ts_perUnit (strategy_for (pd_trackingType p))")
      case True
      then show ?thesis using False Some rejected units [OF True]
        by (cases "ids_of i = []") (simp_all add: prepare_item_def Let_def)
    next
      case quantity: False
      let ?x = "\<lambda>q. \<lparr>pst_productId = ri_productId i, pst_quantity = q, pst_cost = ri_unitCost i,
        pst_price = (case ri_price i of Some x \<Rightarrow> Some x | None \<Rightarrow> pd_defaultPrice p)\<rparr>"
      have "prepare_item co products i pp = (case ri_quantity i of None \<Rightarrow> pp\<lparr>pp_rejected := pp_rejected pp @ [(OfProduct (ri_productId i), RejQuantityRequired)]\<rparr>
          | Some q \<Rightarrow> if q < 1 then pp\<lparr>pp_rejected := pp_rejected pp @ [(OfProduct (ri_productId i), RejQuantityRequired)]\<rparr>
            else add_plan (learnPlanFor (ri_productId i) p i) (pp\<lparr>pp_stock := pp_stock pp @ [?x q]\<rparr>))"
        using quantity False Some by (simp add: prepare_item_def Let_def)
      then show ?thesis using rejected stock [of "?x (the (ri_quantity i))"]
        by (cases "ri_quantity i"; cases "the (ri_quantity i) < 1") simp_all
    qed
  qed (use Some rejected in \<open>simp add: prepare_item_def Let_def\<close>)
qed (use rejected in \<open>simp add: prepare_item_def Let_def\<close>)

lemma prepare_item_ok: "preparation_ok pp \<Longrightarrow> preparation_ok (prepare_item co products i pp)"
  by (cases rule: prepare_item_cases [of co products i pp]) (simp_all add: preparation_ok_more prepare_identifiers_ok)

lemma prepare_items_ok: "preparation_ok (prepare_items co products items)"
proof -
  have "preparation_ok pp \<Longrightarrow> preparation_ok (fold (prepare_item co products) items pp)" for pp
    by (induction items arbitrary: pp) (simp_all add: prepare_item_ok)
  moreover have "preparation_ok nothing_prepared" by (simp add: preparation_ok_def nothing_prepared_def)
  ultimately show ?thesis unfolding prepare_items_def by blast
qed

section \<open>Costs of the prepared lines\<close>

definition request_ok :: "CreatePurchaseDto \<Rightarrow> bool" where
  "request_ok dto \<longleftrightarrow> (\<forall>i \<in> set (cpu_items dto). is_cents (ri_unitCost i) \<and> 0 < ri_unitCost i) \<and>
     is_cents (amountPaid_of dto) \<and> 0 \<le> amountPaid_of dto"

definition costs_ok :: "preparation \<Rightarrow> bool" where
  "costs_ok pp \<longleftrightarrow> (\<forall>u \<in> set (pp_units pp). is_cents (pun_cost u) \<and> 0 < pun_cost u) \<and>
     (\<forall>l \<in> set (pp_stock pp). is_cents (pst_cost l) \<and> 0 < pst_cost l)"

lemma prepare_identifiers_costs:
  assumes "costs_ok pp" "is_cents cost" "0 < cost"
  shows "costs_ok (fold (prepare_identifier pid p cost) raws pp)"
  using assms(1)
proof (induction raws arbitrary: pp)
  case (Cons r raws)
  have "costs_ok (prepare_identifier pid p cost r pp)"
    using Cons.prems assms(2,3) by (auto simp: costs_ok_def prepare_identifier_def prepared_unit_of_def Let_def split: sum.splits)
  then show ?case using Cons.IH by simp
qed simp

lemma prepare_item_costs:
  assumes "costs_ok pp" "is_cents (ri_unitCost i)" "0 < ri_unitCost i"
  shows "costs_ok (prepare_item co products i pp)"
proof -
  have plan: "costs_ok q \<Longrightarrow> costs_ok (add_plan l q)" for q l by (simp add: costs_ok_def add_plan_def split: option.splits)
  have st: "costs_ok (pp\<lparr>pp_stock := pp_stock pp @ [x]\<rparr>)" if "pst_cost x = ri_unitCost i" for x
    using assms that by (simp add: costs_ok_def)
  have rej: "costs_ok (pp\<lparr>pp_rejected := rs\<rparr>)" for rs using assms(1) by (simp add: costs_ok_def)
  show ?thesis
    by (cases rule: prepare_item_cases [of co products i pp])
      (simp_all add: plan st rej prepare_identifiers_costs [OF assms])
qed

lemma prepare_items_costs:
  assumes "request_ok dto"
  shows "costs_ok (prepare_items co products (cpu_items dto))"
proof -
  have "costs_ok pp \<Longrightarrow> (\<forall>i \<in> set items. is_cents (ri_unitCost i) \<and> 0 < ri_unitCost i) \<Longrightarrow>
      costs_ok (fold (prepare_item co products) items pp)" for pp items
  proof (induction items arbitrary: pp)
    case (Cons i items)
    then have "costs_ok (prepare_item co products i pp)" by (intro prepare_item_costs) simp_all
    with Cons show ?case by simp
  qed simp
  moreover have "costs_ok nothing_prepared" by (simp add: costs_ok_def nothing_prepared_def)
  ultimately show ?thesis using assms unfolding prepare_items_def request_ok_def by blast
qed

section \<open>The plan\<close>

definition plan_ok :: "purchase_plan \<Rightarrow> bool" where
  "plan_ok pn \<longleftrightarrow> distinct (map pun_identifier (pn_units pn)) \<and> (\<forall>u \<in> set (pn_units pn). prepared_ok u) \<and>
     (\<forall>l \<in> set (pn_stock pn). 1 \<le> pst_quantity l)"

lemma plan_cases:
  assumes "plan_purchase hash c dto s = Inr (Inr pn)"
  obtains branch sp pp existing where "c_branchId c = Some branch" "cpu_items dto \<noteq> []" "Purchasing.findReplay hash c dto s = Inr None"
    "map_of (bk_suppliers (rv_books s)) (cpu_supplierId dto) = Some sp" "sp_companyId sp = c_companyId c"
    "pp = prepare_items (c_companyId c) (rm_products (rv_memory s)) (cpu_items dto)"
    "existing = findExistingIdentifiers (c_companyId c) (map pun_identifier (pp_units pp)) (bk_units (rv_books s))"
    "pn_branch pn = branch" "pn_units pn = filter (\<lambda>u. pun_identifier u \<notin> set existing) (pp_units pp)"
    "pn_stock pn = sort_key pst_productId (pp_stock pp)" "pn_total pn = purchase_total (pn_units pn) (pp_stock pp)"
    "pn_paid pn = amountPaid_of dto" "pn_paid pn \<le> pn_total pn" "pn_units pn = [] \<longrightarrow> pp_stock pp \<noteq> []"
proof -
  obtain branch where br: "c_branchId c = Some branch" using assms by (cases "c_branchId c") (simp_all add: plan_purchase_def)
  have items: "cpu_items dto \<noteq> []" using assms br by (auto simp: plan_purchase_def)
  obtain rp where rp: "Purchasing.findReplay hash c dto s = Inr rp"
    using assms br items by (cases "Purchasing.findReplay hash c dto s") (simp_all add: plan_purchase_def)
  have none: "rp = None" using assms br items rp by (cases rp) (simp_all add: plan_purchase_def)
  obtain sp where sp: "map_of (bk_suppliers (rv_books s)) (cpu_supplierId dto) = Some sp"
    using assms br items rp none by (cases "map_of (bk_suppliers (rv_books s)) (cpu_supplierId dto)") (simp_all add: plan_purchase_def)
  have co: "sp_companyId sp = c_companyId c"
    using assms br items rp none sp by (simp add: plan_purchase_def split: if_splits)
  show ?thesis
    using that [OF br items _ sp co refl refl] assms br items rp none sp co
    by (simp add: plan_purchase_def Let_def split: if_splits) force+
qed

lemma purchase_total_sort: "purchase_total us (sort_key f st) = purchase_total us st"
  unfolding purchase_total_def sum_of_def
  by (metis (no_types, lifting) mset_map mset_sort sum_mset_sum_list)

lemma plan_ok_of:
  assumes "plan_purchase hash c dto s = Inr (Inr pn)"
  shows "plan_ok pn \<and> pn_total pn = purchase_total (pn_units pn) (pn_stock pn) \<and> pn_paid pn = amountPaid_of dto \<and>
    pn_paid pn \<le> pn_total pn \<and> Purchasing.findReplay hash c dto s = Inr None"
  using assms
proof (cases rule: plan_cases)
  case (1 branch sp pp existing)
  have "preparation_ok pp" unfolding 1(6) by (rule prepare_items_ok)
  then have "plan_ok pn" unfolding plan_ok_def 1(9,10)
    by (auto simp: preparation_ok_def distinct_map intro: inj_on_subset)
  then show ?thesis using 1 by (simp add: purchase_total_sort)
qed

section \<open>What the transaction writes\<close>

definition unit_row_of :: "ctx \<Rightarrow> id \<Rightarrow> PreparedUnit \<Rightarrow> unit_row" where
  "unit_row_of c branch u = \<lparr>u_companyId = c_companyId c, u_productId = pun_productId u, u_branchId = branch,
     u_imeiPrimary = pun_imeiPrimary u, u_imeiSecondary = None, u_serialNo = pun_serialNo u, u_cost = pun_cost u,
     u_status = in_stock, u_dateSold = None\<rparr>"

lemma createUnit_Inr:
  "createUnit c new (received_unit branch u) b = Inr b' \<longleftrightarrow> unit_refused (unit_row_of c branch u) (bk_units b) = None \<and>
     b' = b\<lparr>bk_units := t_insert new (unit_row_of c branch u) (bk_units b),
            bk_audit := bk_audit b @ [audit_row_of c ''Unit'' new ''create'' None (Some branch)]\<rparr>"
  unfolding createUnit_def unit_row_of_def new_unit_def received_unit_def by (auto split: option.splits)

lemma deliver_units_effect:
  assumes "deliver_units c ids branch supp n us s = Inr s'"
  shows "map snd (rv_items s') = map snd (rv_items s) @ map (\<lambda>u. new_item c (pid_purchase ids) (pun_productId u) 1 (pun_cost u)) us \<and>
    map snd (rv_origins s') = map snd (rv_origins s) @ map (\<lambda>_. \<lparr>uo_supplierId = supp, uo_purchaseId = pid_purchase ids\<rparr>) us \<and>
    map snd (bk_units (rv_books s')) = map snd (bk_units (rv_books s)) @ map (unit_row_of c branch) us \<and>
    rv_books s' = (rv_books s)\<lparr>bk_units := bk_units (rv_books s'), bk_audit := bk_audit (rv_books s')\<rparr> \<and>
    rv_requests s' = rv_requests s \<and> rv_payments s' = rv_payments s \<and> rv_memory s' = rv_memory s"
  using assms
proof (induction us arbitrary: n s)
  case (Cons u us)
  from Cons.prems obtain b where b: "createUnit c (pid_units ids n) (received_unit branch u) (rv_books s) = Inr b"
    and rest: "deliver_units c ids branch supp (Suc n) us (s\<lparr>rv_books := b,
            rv_items := t_insert (pid_unitItems ids n) (new_item c (pid_purchase ids) (pun_productId u) 1 (pun_cost u)) (rv_items s),
            rv_origins := t_insert (pid_units ids n) \<lparr>uo_supplierId = supp, uo_purchaseId = pid_purchase ids\<rparr> (rv_origins s)\<rparr>) = Inr s'"
    by (auto simp: bindE_Inr)
  from b have b': "b = (rv_books s)\<lparr>bk_units := t_insert (pid_units ids n) (unit_row_of c branch u) (bk_units (rv_books s)),
      bk_audit := bk_audit (rv_books s) @ [audit_row_of c ''Unit'' (pid_units ids n) ''create'' None (Some branch)]\<rparr>"
    by (simp add: createUnit_Inr)
  from Cons.IH [OF rest] show ?case by (simp add: b' t_insert_def)
qed simp

lemma deliver_stock_effect:
  assumes "deliver_stock c ids branch n ls s = Inr s'"
  shows "map snd (rv_items s') = map snd (rv_items s) @ map (\<lambda>l. new_item c (pid_purchase ids) (pst_productId l) (int (pst_quantity l)) (pst_cost l)) ls \<and>
    rv_books s' = (rv_books s)\<lparr>bk_stock := bk_stock (rv_books s')\<rparr> \<and> rv_origins s' = rv_origins s \<and>
    rv_requests s' = rv_requests s \<and> rv_payments s' = rv_payments s \<and> rv_memory s' = rv_memory s \<and>
    (stock_ok (bk_stock (rv_books s)) \<longrightarrow> stock_ok (bk_stock (rv_books s')) \<and>
       (\<forall>p. on_hand (bk_stock (rv_books s')) (c_companyId c, p, branch) = on_hand (bk_stock (rv_books s)) (c_companyId c, p, branch) +
          sum_list (map (\<lambda>l. if pst_productId l = p then int (pst_quantity l) else 0) ls)))"
  using assms
proof (induction ls arbitrary: n s)
  case (Cons l ls)
  let ?k = "(c_companyId c, pst_productId l, branch)"
  from Cons.prems obtain st where st: "receiveQuantityAtCost ?k (int (pst_quantity l)) (pst_cost l) (pst_price l) (bk_stock (rv_books s)) = Inr st"
    by (auto split: sum.splits)
  let ?s = "s\<lparr>rv_books := (rv_books s)\<lparr>bk_stock := st\<rparr>,
      rv_items := t_insert (pid_stockItems ids n) (new_item c (pid_purchase ids) (pst_productId l) (int (pst_quantity l)) (pst_cost l)) (rv_items s)\<rparr>"
  from Cons.prems st have rest: "deliver_stock c ids branch (Suc n) ls ?s = Inr s'" by simp
  have eff: "stock_ok st \<and> on_hand st = (on_hand (bk_stock (rv_books s)))(?k := on_hand (bk_stock (rv_books s)) ?k + int (pst_quantity l))"
    if "stock_ok (bk_stock (rv_books s))" using receive_eff [OF that st] by blast
  show ?case using Cons.IH [OF rest] eff by (simp add: t_insert_def)
qed simp

text \<open>A transaction that succeeds went through all of its statements.\<close>

lemma purchase_tx_cases:
  assumes "purchase_tx hash c ids dto pn s = Inr s'"
  obtains s2 s3 where "\<not> request_taken c dto s"
    "deliver_units c ids (pn_branch pn) (cpu_supplierId dto) 0 (pn_units pn)
       (s\<lparr>rv_books := (rv_books s)\<lparr>bk_purchases := t_insert (pid_purchase ids) (new_purchase c dto pn) (bk_purchases (rv_books s))\<rparr>,
          rv_requests := t_insert (pid_purchase ids)
            \<lparr>prq_companyId = c_companyId c, prq_clientUuid = cpu_clientUuid dto, prq_hash = Purchasing.fingerprint hash dto\<rparr> (rv_requests s)\<rparr>) = Inr s2"
    "deliver_stock c ids (pn_branch pn) 0 (pn_stock pn) s2 = Inr s3" "s' = settle_delivery c ids dto pn s3"
  using assms unfolding purchase_tx_def Let_def by (auto simp: bindE_Inr split: if_splits)

definition delivery_items :: "ctx \<Rightarrow> id \<Rightarrow> purchase_plan \<Rightarrow> purchase_item list" where
  "delivery_items c pid pn = map (\<lambda>u. new_item c pid (pun_productId u) 1 (pun_cost u)) (pn_units pn) @
     map (\<lambda>l. new_item c pid (pst_productId l) (int (pst_quantity l)) (pst_cost l)) (pn_stock pn)"

lemma settle_fields [simp]:
  "rv_items (settle_delivery c ids dto pn s) = rv_items s" "rv_origins (settle_delivery c ids dto pn s) = rv_origins s"
  "rv_requests (settle_delivery c ids dto pn s) = rv_requests s"
  "bk_units (rv_books (settle_delivery c ids dto pn s)) = bk_units (rv_books s)"
  "bk_stock (rv_books (settle_delivery c ids dto pn s)) = bk_stock (rv_books s)"
  "bk_purchases (rv_books (settle_delivery c ids dto pn s)) = bk_purchases (rv_books s)"
  "bk_settlements (rv_books (settle_delivery c ids dto pn s)) = bk_settlements (rv_books s)"
  "bk_allocations (rv_books (settle_delivery c ids dto pn s)) = bk_allocations (rv_books s)"
  "bk_corrections (rv_books (settle_delivery c ids dto pn s)) = bk_corrections (rv_books s)"
  by (simp_all add: settle_delivery_def Let_def)

lemma settle_suppliers:
  "map_of (bk_suppliers (rv_books (settle_delivery c ids dto pn s))) (cpu_supplierId dto) =
     map_option (\<lambda>p. p\<lparr>sp_balance := sp_balance p + decimal2 (pn_total pn - pn_paid pn)\<rparr>) (map_of (bk_suppliers (rv_books s)) (cpu_supplierId dto))"
  by (cases "map_of (bk_suppliers (rv_books s)) (cpu_supplierId dto)") (simp_all add: settle_delivery_def Let_def)

lemma purchase_tx_effect:
  assumes "purchase_tx hash c ids dto pn s = Inr s'"
  shows "map snd (rv_items s') = map snd (rv_items s) @ delivery_items c (pid_purchase ids) pn"
    "map snd (rv_origins s') = map snd (rv_origins s) @
       map (\<lambda>_. \<lparr>uo_supplierId = cpu_supplierId dto, uo_purchaseId = pid_purchase ids\<rparr>) (pn_units pn)"
    "map snd (bk_units (rv_books s')) = map snd (bk_units (rv_books s)) @ map (unit_row_of c (pn_branch pn)) (pn_units pn)"
    "bk_purchases (rv_books s') = t_insert (pid_purchase ids) (new_purchase c dto pn) (bk_purchases (rv_books s))"
    "rv_requests s' = t_insert (pid_purchase ids) \<lparr>prq_companyId = c_companyId c, prq_clientUuid = cpu_clientUuid dto,
       prq_hash = Purchasing.fingerprint hash dto\<rparr> (rv_requests s)"
    "\<not> request_taken c dto s"
    "bk_settlements (rv_books s') = bk_settlements (rv_books s)" "bk_allocations (rv_books s') = bk_allocations (rv_books s)"
    "bk_corrections (rv_books s') = bk_corrections (rv_books s)"
    "map_of (bk_suppliers (rv_books s')) (cpu_supplierId dto) =
       map_option (\<lambda>p. p\<lparr>sp_balance := sp_balance p + decimal2 (pn_total pn - pn_paid pn)\<rparr>) (map_of (bk_suppliers (rv_books s)) (cpu_supplierId dto))"
    "stock_ok (bk_stock (rv_books s)) \<Longrightarrow> on_hand (bk_stock (rv_books s')) (c_companyId c, p, pn_branch pn) =
       on_hand (bk_stock (rv_books s)) (c_companyId c, p, pn_branch pn) +
       sum_list (map (\<lambda>l. if pst_productId l = p then int (pst_quantity l) else 0) (pn_stock pn))"
proof -
  from assms obtain s2 s3 where t: "\<not> request_taken c dto s"
    and u: "deliver_units c ids (pn_branch pn) (cpu_supplierId dto) 0 (pn_units pn)
       (s\<lparr>rv_books := (rv_books s)\<lparr>bk_purchases := t_insert (pid_purchase ids) (new_purchase c dto pn) (bk_purchases (rv_books s))\<rparr>,
          rv_requests := t_insert (pid_purchase ids)
            \<lparr>prq_companyId = c_companyId c, prq_clientUuid = cpu_clientUuid dto, prq_hash = Purchasing.fingerprint hash dto\<rparr> (rv_requests s)\<rparr>) = Inr s2"
    and k: "deliver_stock c ids (pn_branch pn) 0 (pn_stock pn) s2 = Inr s3" and s': "s' = settle_delivery c ids dto pn s3"
    by (rule purchase_tx_cases)
  note U = deliver_units_effect [OF u] and K = deliver_stock_effect [OF k]
  from U obtain us au where b2: "rv_books s2 = (rv_books s)\<lparr>bk_purchases := t_insert (pid_purchase ids) (new_purchase c dto pn) (bk_purchases (rv_books s)),
      bk_units := us, bk_audit := au\<rparr>" by simp blast
  from K obtain st where b3: "rv_books s3 = (rv_books s2)\<lparr>bk_stock := st\<rparr>" by blast
  have f: "bk_units (rv_books s3) = bk_units (rv_books s2)" "bk_stock (rv_books s2) = bk_stock (rv_books s)"
    "bk_suppliers (rv_books s3) = bk_suppliers (rv_books s)" by (simp_all add: b2 b3)
  show "map snd (rv_items s') = map snd (rv_items s) @ delivery_items c (pid_purchase ids) pn"
    using U K by (simp add: s' delivery_items_def)
  show "map snd (rv_origins s') = map snd (rv_origins s) @
       map (\<lambda>_. \<lparr>uo_supplierId = cpu_supplierId dto, uo_purchaseId = pid_purchase ids\<rparr>) (pn_units pn)"
    using U K by (simp add: s')
  show "map snd (bk_units (rv_books s')) = map snd (bk_units (rv_books s)) @ map (unit_row_of c (pn_branch pn)) (pn_units pn)"
    using U by (simp add: s' f)
  show "bk_purchases (rv_books s') = t_insert (pid_purchase ids) (new_purchase c dto pn) (bk_purchases (rv_books s))"
    "bk_settlements (rv_books s') = bk_settlements (rv_books s)" "bk_allocations (rv_books s') = bk_allocations (rv_books s)"
    "bk_corrections (rv_books s') = bk_corrections (rv_books s)"
    by (simp_all add: s' b3 b2)
  show "rv_requests s' = t_insert (pid_purchase ids) \<lparr>prq_companyId = c_companyId c, prq_clientUuid = cpu_clientUuid dto,
       prq_hash = Purchasing.fingerprint hash dto\<rparr> (rv_requests s)"
    using U K by (simp add: s')
  show "map_of (bk_suppliers (rv_books s')) (cpu_supplierId dto) =
       map_option (\<lambda>p. p\<lparr>sp_balance := sp_balance p + decimal2 (pn_total pn - pn_paid pn)\<rparr>) (map_of (bk_suppliers (rv_books s)) (cpu_supplierId dto))"
    unfolding s' settle_suppliers f ..
  show "on_hand (bk_stock (rv_books s')) (c_companyId c, p, pn_branch pn) = on_hand (bk_stock (rv_books s)) (c_companyId c, p, pn_branch pn) +
       sum_list (map (\<lambda>l. if pst_productId l = p then int (pst_quantity l) else 0) (pn_stock pn))"
    if "stock_ok (bk_stock (rv_books s))"
    using K that by (simp add: s' f)
  show "\<not> request_taken c dto s" by fact
qed

section \<open>A valid delivery goes through\<close>

definition ident_free :: "string \<Rightarrow> unit_row \<Rightarrow> bool" where
  "ident_free i q \<longleftrightarrow> u_imeiPrimary q \<noteq> Some i \<and> u_imeiSecondary q \<noteq> Some i \<and> u_serialNo q \<noteq> Some i"

lemma unit_accepted:
  assumes "prepared_ok u" "\<forall>(_, q) \<in> set us. ident_free (pun_identifier u) q" "length (pun_identifier u) \<le> 60"
  shows "unit_refused (unit_row_of c branch u) us = None"
proof -
  have k: "unit_key (unit_row_of c branch u) = Some (pun_identifier u)" "u_serialNo (unit_row_of c branch u) \<in> {None, Some (pun_identifier u)}"
    "u_imeiPrimary (unit_row_of c branch u) \<in> {None, Some (pun_identifier u)}"
    "u_imeiSecondary (unit_row_of c branch u) = None"
    using assms(1) by (auto simp: prepared_ok_def unit_key_def unit_row_of_def)
  have "unit_key q \<noteq> Some (pun_identifier u) \<and> u_imeiSecondary q \<noteq> Some (pun_identifier u) \<and> u_serialNo q \<noteq> Some (pun_identifier u)"
    if "(j, q) \<in> set us" for j q
    using assms(2) that by (auto simp: ident_free_def unit_key_def split: option.splits)
  then show ?thesis using k assms(3)
    by (auto simp: unit_refused_def list_ex_iff split: option.splits)
qed

lemma row_ident_free: "prepared_ok u \<Longrightarrow> pun_identifier u \<noteq> i \<Longrightarrow> ident_free i (unit_row_of c branch u)"
  by (auto simp: ident_free_def unit_row_of_def prepared_ok_def)

lemma deliver_units_succeeds:
  assumes "\<forall>u \<in> set us. prepared_ok u \<and> length (pun_identifier u) \<le> 60" "distinct (map pun_identifier us)"
    "\<forall>u \<in> set us. \<forall>(_, q) \<in> set (bk_units (rv_books s)). ident_free (pun_identifier u) q"
  shows "\<exists>s'. deliver_units c ids branch supp n us s = Inr s'"
  using assms
proof (induction us arbitrary: n s)
  case (Cons u us)
  have "unit_refused (unit_row_of c branch u) (bk_units (rv_books s)) = None"
    using Cons.prems by (intro unit_accepted) auto
  then obtain b where b: "createUnit c (pid_units ids n) (received_unit branch u) (rv_books s) = Inr b" by (simp add: createUnit_Inr)
  then have us': "bk_units b = t_insert (pid_units ids n) (unit_row_of c branch u) (bk_units (rv_books s))" by (simp add: createUnit_Inr)
  have "\<forall>v \<in> set us. \<forall>(_, q) \<in> set (bk_units b). ident_free (pun_identifier v) q"
    using Cons.prems by (auto simp: us' t_insert_def intro!: row_ident_free)
  then show ?case using Cons.IH [of "s\<lparr>rv_books := b,
            rv_items := t_insert (pid_unitItems ids n) (new_item c (pid_purchase ids) (pun_productId u) 1 (pun_cost u)) (rv_items s),
            rv_origins := t_insert (pid_units ids n) \<lparr>uo_supplierId = supp, uo_purchaseId = pid_purchase ids\<rparr> (rv_origins s)\<rparr>" "Suc n"] Cons.prems b
    by simp
qed simp

lemma deliver_stock_succeeds:
  "\<forall>l \<in> set ls. 1 \<le> pst_quantity l \<Longrightarrow> \<exists>s'. deliver_stock c ids branch n ls s = Inr s'"
  by (induction ls arbitrary: n s) (auto simp: receiveQuantityAtCost_def)

text \<open>An identifier that the lookup did not return is in no column of the company's units.\<close>

lemma not_existing_free:
  assumes "i \<in> set wanted" "i \<notin> set (findExistingIdentifiers co wanted us)" "i \<noteq> []" "(k, q) \<in> set us" "u_companyId q = co"
  shows "ident_free i q"
proof (rule ccontr)
  assume "\<not> ident_free i q"
  then have "matches_any wanted q" "i \<in> set (identifiers_of q)"
    using assms(1,3) by (auto simp: ident_free_def matches_any_def identifiers_of_def map_filter_def)
  with assms show False by (force simp: findExistingIdentifiers_def split: if_splits)
qed

lemma plan_units_free:
  assumes "plan_purchase hash c dto s = Inr (Inr pn)" "u \<in> set (pn_units pn)" "(k, q) \<in> set (bk_units (rv_books s))" "u_companyId q = c_companyId c"
  shows "ident_free (pun_identifier u) q"
  using assms(1)
proof (cases rule: plan_cases)
  case (1 branch sp pp existing)
  have "prepared_ok u" using plan_ok_of [OF assms(1)] assms(2) by (simp add: plan_ok_def)
  then show ?thesis using assms(2-4)
    by (intro not_existing_free [of _ "map pun_identifier (pp_units pp)" "c_companyId c" "bk_units (rv_books s)"])
      (auto simp: 1(7,9) prepared_ok_def)
qed

lemma replay_None: "Purchasing.findReplay hash c dto s = Inr None \<longleftrightarrow> \<not> request_taken c dto s"
proof -
  let ?P = "\<lambda>(_, q). prq_companyId q = c_companyId c \<and> prq_clientUuid q = cpu_clientUuid dto"
  have "find ?P (rv_requests s) = None \<longleftrightarrow> \<not> request_taken c dto s"
    by (auto simp: request_taken_def find_None_iff list_ex_iff)
  then show ?thesis by (cases "find ?P (rv_requests s)") (auto simp: Purchasing.findReplay_def Let_def split: if_splits)
qed

lemma purchase_tx_succeeds:
  assumes p: "plan_purchase hash c dto s = Inr (Inr pn)"
    and else': "\<forall>u \<in> set (pn_units pn). length (pun_identifier u) \<le> 60 \<and>
      (\<forall>(_, q) \<in> set (bk_units (rv_books s)). u_companyId q \<noteq> c_companyId c \<longrightarrow> ident_free (pun_identifier u) q)"
  shows "\<exists>s'. purchase_tx hash c ids dto pn s = Inr s'"
proof -
  note P = plan_ok_of [OF p]
  have t: "\<not> request_taken c dto s" using P replay_None by blast
  let ?s = "s\<lparr>rv_books := (rv_books s)\<lparr>bk_purchases := t_insert (pid_purchase ids) (new_purchase c dto pn) (bk_purchases (rv_books s))\<rparr>,
          rv_requests := t_insert (pid_purchase ids)
            \<lparr>prq_companyId = c_companyId c, prq_clientUuid = cpu_clientUuid dto, prq_hash = Purchasing.fingerprint hash dto\<rparr> (rv_requests s)\<rparr>"
  have "\<forall>u \<in> set (pn_units pn). \<forall>(_, q) \<in> set (bk_units (rv_books s)). ident_free (pun_identifier u) q"
    using plan_units_free [OF p] else' by blast
  then have "\<exists>s2. deliver_units c ids (pn_branch pn) (cpu_supplierId dto) 0 (pn_units pn) ?s = Inr s2"
    using P else' by (intro deliver_units_succeeds) (auto simp: plan_ok_def)
  then obtain s2 where s2: "deliver_units c ids (pn_branch pn) (cpu_supplierId dto) 0 (pn_units pn) ?s = Inr s2" by blast
  have "\<exists>s3. deliver_stock c ids (pn_branch pn) 0 (pn_stock pn) s2 = Inr s3"
    using P by (intro deliver_stock_succeeds) (simp add: plan_ok_def)
  then obtain s3 where s3: "deliver_stock c ids (pn_branch pn) 0 (pn_stock pn) s2 = Inr s3" by blast
  show ?thesis using t s2 s3 by (simp add: purchase_tx_def Let_def)
qed

section \<open>What one call does\<close>

lemma after_delivery_fields [simp]:
  "rv_items (after_delivery d c ids s) = rv_items s" "rv_origins (after_delivery d c ids s) = rv_origins s"
  "rv_requests (after_delivery d c ids s) = rv_requests s" "rv_payments (after_delivery d c ids s) = rv_payments s"
  "rv_books (after_delivery d c ids s) = (rv_books s)\<lparr>bk_notifications := bk_notifications (rv_books s) @ [deliver c ''stock.received'' None None]\<rparr>"
  by (simp_all add: after_delivery_def)

text \<open>A call either writes nothing or commits the plan it made.\<close>

lemma replay_flag: "Purchasing.findReplay hash c dto s = Inr (Some out) \<Longrightarrow> po_replayed out"
  by (auto simp: Purchasing.findReplay_def Let_def split: option.splits if_splits)

lemma commit_cases:
  assumes "commit_purchase d hash c ids dto pn s = (res, s')"
  obtains (idle) "s' = s" "\<And>out. res = Inr out \<Longrightarrow> po_replayed out"
    | (written) s1 where "purchase_tx hash c ids dto pn s = Inr s1" "s' = after_delivery d c ids s1"
        "res = Inr \<lparr>po_purchaseId = Some (pid_purchase ids), po_unitsCreated = length (pn_units pn), po_stockLines = length (pn_stock pn),
                po_total = pn_total pn, po_rejected = pn_rejected pn, po_replayed = False\<rparr>"
proof (cases "purchase_tx hash c ids dto pn s")
  case (Inl e)
  have "s' = s \<and> (\<forall>out. res = Inr out \<longrightarrow> po_replayed out)"
    using assms Inl replay_flag [of hash c dto s]
    by (auto simp: commit_purchase_def split: http_error.splits purchase_refusal.splits sum.splits option.splits)
  then show ?thesis using idle by blast
qed (use assms written in \<open>auto simp: commit_purchase_def\<close>)

lemma delivery_cases:
  assumes "createPurchase d hash c ids dto s = (res, s')"
  obtains (idle) "s' = s" "\<And>out. res = Inr out \<Longrightarrow> po_replayed out \<or> po_purchaseId out = None"
    | (written) pn s1 where "plan_purchase hash c dto s = Inr (Inr pn)" "purchase_tx hash c ids dto pn s = Inr s1" "s' = after_delivery d c ids s1"
        "res = Inr \<lparr>po_purchaseId = Some (pid_purchase ids), po_unitsCreated = length (pn_units pn), po_stockLines = length (pn_stock pn),
                po_total = pn_total pn, po_rejected = pn_rejected pn, po_replayed = False\<rparr>"
proof (cases "plan_purchase hash c dto s")
  case (Inl e)
  with assms show ?thesis by (intro idle) (auto simp: createPurchase_def)
next
  case (Inr x)
  show ?thesis
  proof (cases x)
    case (Inl out)
    have "po_replayed out \<or> po_purchaseId out = None"
      using Inr Inl replay_flag [of hash c dto s] unfolding plan_purchase_def Let_def
      by (auto simp: bindE_Inr split: option.splits if_splits)
    then show ?thesis using assms Inr Inl by (intro idle) (auto simp: createPurchase_def)
  next
    case p: (Inr pn)
    with assms Inr have "commit_purchase d hash c ids dto pn s = (res, s')" by (simp add: createPurchase_def)
    then show ?thesis
    proof (cases rule: commit_cases)
      case idle': idle
      then show ?thesis using idle by blast
    next
      case (written s1)
      with Inr p show ?thesis using that(2) by blast
    qed
  qed
qed

lemma committed:
  assumes "createPurchase d hash c ids dto s = (Inr out, s')" "\<not> po_replayed out" "po_purchaseId out = Some pid"
  obtains pn s1 where "plan_purchase hash c dto s = Inr (Inr pn)" "purchase_tx hash c ids dto pn s = Inr s1" "s' = after_delivery d c ids s1"
    "pid = pid_purchase ids" "out = \<lparr>po_purchaseId = Some (pid_purchase ids), po_unitsCreated = length (pn_units pn), po_stockLines = length (pn_stock pn),
                po_total = pn_total pn, po_rejected = pn_rejected pn, po_replayed = False\<rparr>"
  using assms(1)
proof (cases rule: delivery_cases)
  case idle
  then show ?thesis using assms(2,3) by auto
qed (use assms that in auto)


section \<open>Replays\<close>

definition fresh_purchase :: "id \<Rightarrow> receiving \<Rightarrow> bool" where
  "fresh_purchase pid s \<longleftrightarrow> map_of (bk_purchases (rv_books s)) pid = None \<and>
     (\<forall>x \<in> snd ` set (rv_items s). pit_purchaseId x \<noteq> pid) \<and> (\<forall>x \<in> snd ` set (rv_origins s). uo_purchaseId x \<noteq> pid)"


section \<open>Totals and goods\<close>

definition item_value :: "purchase_item \<Rightarrow> number" where
  "item_value x = of_int (pit_quantity x) * pit_unitCost x"

lemma plan_costs:
  assumes "plan_purchase hash c dto s = Inr (Inr pn)" "request_ok dto"
  shows "\<forall>u \<in> set (pn_units pn). is_cents (pun_cost u) \<and> 0 < pun_cost u" "\<forall>l \<in> set (pn_stock pn). is_cents (pst_cost l) \<and> 0 < pst_cost l"
    "pn_units pn = [] \<longrightarrow> pn_stock pn \<noteq> []"
proof -
  have "(\<forall>u \<in> set (pn_units pn). is_cents (pun_cost u) \<and> 0 < pun_cost u) \<and> (\<forall>l \<in> set (pn_stock pn). is_cents (pst_cost l) \<and> 0 < pst_cost l) \<and>
      (pn_units pn = [] \<longrightarrow> pn_stock pn \<noteq> [])"
    using assms(1)
  proof (cases rule: plan_cases)
    case (1 branch sp pp existing)
    have "costs_ok pp" unfolding 1(6) by (rule prepare_items_costs [OF assms(2)])
    moreover have "pn_stock pn = [] \<longleftrightarrow> pp_stock pp = []" unfolding 1(10) by (metis set_empty set_sort)
    ultimately show ?thesis using 1(14) by (simp add: 1(9,10) costs_ok_def)
  qed
  then show "\<forall>u \<in> set (pn_units pn). is_cents (pun_cost u) \<and> 0 < pun_cost u" "\<forall>l \<in> set (pn_stock pn). is_cents (pst_cost l) \<and> 0 < pst_cost l"
    "pn_units pn = [] \<longrightarrow> pn_stock pn \<noteq> []" by blast+
qed

lemma items_value:
  assumes "plan_purchase hash c dto s = Inr (Inr pn)" "request_ok dto"
  shows "pn_total pn = sum_of item_value (delivery_items c' pid pn)" "is_cents (pn_total pn)" "0 < pn_total pn"
proof -
  note P = plan_ok_of [OF assms(1)] and C = plan_costs [OF assms]
  have u: "sum_of item_value (map (\<lambda>u. new_item c' pid (pun_productId u) 1 (pun_cost u)) us) = sum_of pun_cost us" for us
    by (induction us) (simp_all add: item_value_def new_item_def)
  have st: "sum_of item_value (map (\<lambda>l. new_item c' pid (pst_productId l) (int (pst_quantity l)) (pst_cost l)) ls) =
      sum_of (\<lambda>l. pst_cost l * of_nat (pst_quantity l)) ls" for ls
    by (induction ls) (simp_all add: item_value_def new_item_def mult.commute)
  have "is_cents (sum_of pun_cost (pn_units pn))" by (rule sum_of_cents) (use C(1) in blast)
  moreover have "is_cents (sum_of (\<lambda>l. pst_cost l * of_nat (pst_quantity l)) (pn_stock pn))"
  proof (rule sum_of_cents)
    fix l assume "l \<in> set (pn_stock pn)"
    then have "is_cents (pst_cost l)" using C(2) by blast
    from is_cents_mult_int [OF this, of "int (pst_quantity l)"] show "is_cents (pst_cost l * of_nat (pst_quantity l))" by (simp add: mult.commute)
  qed
  ultimately show t: "pn_total pn = sum_of item_value (delivery_items c' pid pn)"
    using P by (simp add: purchase_total_def delivery_items_def u st)
  show "is_cents (pn_total pn)" using P by (simp add: purchase_total_def)
  have pos: "0 < item_value x" if "x \<in> set (delivery_items c' pid pn)" for x
    using that P C by (fastforce simp: delivery_items_def item_value_def new_item_def plan_ok_def)
  have "0 < sum_of item_value xs" if "xs \<noteq> []" "\<forall>x \<in> set xs. 0 < item_value x" for xs
    using that
  proof (induction xs)
    case (Cons x xs)
    then show ?case by (cases "xs = []") (simp_all add: add_pos_pos)
  qed simp
  moreover have "delivery_items c' pid pn \<noteq> []" using C(3) by (simp add: delivery_items_def)
  ultimately show "0 < pn_total pn" unfolding t using pos by blast
qed

lemma delivered_items:
  assumes "purchase_tx hash c ids dto pn s = Inr s1" "fresh_purchase (pid_purchase ids) s"
  shows "filter (\<lambda>x. pit_purchaseId x = pid_purchase ids) (map snd (rv_items s1)) = delivery_items c (pid_purchase ids) pn"
proof -
  have "filter (\<lambda>x. pit_purchaseId x = pid_purchase ids) (map snd (rv_items s)) = []"
    using assms(2) by (simp add: fresh_purchase_def filter_empty_conv)
  moreover have "\<forall>x \<in> set (delivery_items c (pid_purchase ids) pn). pit_purchaseId x = pid_purchase ids"
    by (auto simp: delivery_items_def new_item_def)
  ultimately show ?thesis unfolding purchase_tx_effect(1) [OF assms(1)] filter_append by (simp add: filter_id_conv)
qed

lemma quantities_of_product:
  "sum_list (map pit_quantity (filter (\<lambda>x. pit_productId x = p) (delivery_items c pid pn))) =
     int (length (filter (\<lambda>u. u_productId u = p) (map (unit_row_of c branch) (pn_units pn)))) +
     sum_list (map (\<lambda>l. if pst_productId l = p then int (pst_quantity l) else 0) (pn_stock pn))"
proof -
  have "sum_list (map pit_quantity (filter (\<lambda>x. pit_productId x = p) (map (\<lambda>u. new_item c pid (pun_productId u) 1 (pun_cost u)) us))) =
      int (length (filter (\<lambda>u. u_productId u = p) (map (unit_row_of c branch) us)))" for us
    by (induction us) (simp_all add: new_item_def unit_row_of_def)
  moreover have "sum_list (map pit_quantity (filter (\<lambda>x. pit_productId x = p)
      (map (\<lambda>l. new_item c pid (pst_productId l) (int (pst_quantity l)) (pst_cost l)) ls))) =
      sum_list (map (\<lambda>l. if pst_productId l = p then int (pst_quantity l) else 0) ls)" for ls
    by (induction ls) (simp_all add: new_item_def)
  ultimately show ?thesis by (simp add: delivery_items_def)
qed

section \<open>The suppliers' books\<close>

lemma delivery_received:
  assumes "createPurchase d hash c ids dto s = (res, s')" "request_ok dto" "map_of (bk_purchases (rv_books s)) (pid_purchase ids) = None"
  shows "received (rv_books s) (rv_books s')"
  using assms(1)
proof (cases rule: delivery_cases)
  case (written pn s1)
  note E = purchase_tx_effect [OF written(2)]
  have "is_cents (pu_total (new_purchase c dto pn))" "0 \<le> pu_total (new_purchase c dto pn)"
    using items_value(2,3) [OF written(1) assms(2)] by (simp_all add: new_purchase_def)
  then show ?thesis using assms(3) by (auto simp: received_def written(3) E(4,7-9))
qed (simp add: received_def)

lemma open_after_delivery:
  assumes inv: "sup_inv b" and r: "bk_settlements b' = bk_settlements b" "bk_allocations b' = bk_allocations b" "bk_corrections b' = bk_corrections b"
    and p: "map_of (bk_purchases b) pid = None" "bk_purchases b' = t_insert pid p (bk_purchases b)" "is_cents (pu_total p)" "0 < pu_total p"
  shows "\<exists>x \<in> set (openPurchases (pu_companyId p) (pu_supplierId p) b'). op_purchaseId x = pid \<and> op_outstanding x = pu_total p \<and> op_paid x = 0"
proof -
  have inv': "sup_inv b'" using sup_inv_received [OF inv, of b'] assms by (force simp: received_def)
  have look: "map_of (bk_purchases b') pid = Some p" using p by simp
  have "filter (\<lambda>a. al_purchaseId a = pid \<and> is_live b' a) (map snd (bk_allocations b')) = []"
    unfolding filter_empty_conv using sup_invD(6) [OF inv] p(1) r by (fastforce simp: allocation_ok_def)
  then have "paid_on pid b' = 0" by (simp add: paid_on_def)
  then have z: "sum_of al_amount (filter (\<lambda>a. al_purchaseId a = pid)
       (filter (\<lambda>a. supplier_of b' a = Some (pu_supplierId p)) (live_allocations (pu_companyId p) b'))) = 0"
    using paid_on_reads(2) [OF inv' look] by simp
  have m: "(pid, p) \<in> set (purchases_of (pu_companyId p) (pu_supplierId p) b')"
    using purchases_of_lookup [OF sup_invD(2) [OF inv']] look by simp
  show ?thesis unfolding openPurchases_def Let_def
    using m z p(3,4) by (intro bexI [of _ "\<lparr>op_purchaseId = pid, op_total = pu_total p, op_paid = round2 0, op_outstanding = round2 (pu_total p - 0), op_date = pu_date p\<rparr>"])
      (auto simp: image_iff intro!: bexI [of _ "(pid, p)"])
qed

section \<open>An example\<close>

definition ex_shop :: receiving where
  "ex_shop = \<lparr>rv_books = ex_no_books\<lparr>bk_suppliers := [(3, \<lparr>sp_companyId = 2, sp_name = ''S'', sp_phone = None, sp_notes = None,
       sp_balance = 0, sp_deletedAt = None\<rparr>)]\<rparr>,
     rv_memory = \<lparr>rm_products = [(10, \<lparr>pd_companyId = 2, pd_brand = ''A'', pd_model = ''one'', pd_variant = None, pd_trackingType = track_imei,
          pd_barcode = None, pd_defaultPrice = None, pd_deletedAt = None\<rparr>),
        (11, \<lparr>pd_companyId = 2, pd_brand = ''B'', pd_model = ''cable'', pd_variant = None, pd_trackingType = track_quantity,
          pd_barcode = None, pd_defaultPrice = Some 4, pd_deletedAt = None\<rparr>)],
       rm_rows = [], rm_outbox = [], rm_tacs = [], rm_audit = []\<rparr>,
     rv_requests = [], rv_items = [], rv_payments = [], rv_origins = []\<rparr>"

definition ex_receiver :: ctx where
  "ex_receiver = \<lparr>c_companyId = 2, c_branchId = Some 4, c_userId = Some 8, c_permissions = [''unit.add''], c_now = 1000\<rparr>"

definition ex_line :: "id \<Rightarrow> string list option \<Rightarrow> nat option \<Rightarrow> number \<Rightarrow> ReceiveItemDto" where
  "ex_line pid is q cost = \<lparr>ri_productId = pid, ri_unitCost = cost, ri_identifiers = is, ri_quantity = q, ri_price = None, ri_recognitionKey = None\<rparr>"

definition ex_order :: CreatePurchaseDto where
  "ex_order = \<lparr>cpu_clientUuid = 90, cpu_supplierId = 3, cpu_referenceNo = None, cpu_paidAmount = Some 130, cpu_dueDate = None,
     cpu_items = [ex_line 10 (Some [''1234567-8901-2347'']) None 100, ex_line 11 None (Some 10) 3]\<rparr>"


definition ex_ids :: purchase_ids where
  "ex_ids = \<lparr>pid_purchase = 100, pid_unitItems = (\<lambda>n. 200 + n), pid_units = (\<lambda>n. 300 + n), pid_stockItems = (\<lambda>n. 400 + n),
     pid_payment = 500, pid_events = (\<lambda>n. 600 + n), pid_lessons = (\<lambda>n. 700 + n)\<rparr>"

definition ex_plan :: purchase_plan where
  "ex_plan = \<lparr>pn_branch = 4,
     pn_units = [\<lparr>pun_productId = 10, pun_identifier = ''123456789012347'', pun_imeiPrimary = Some ''123456789012347'', pun_serialNo = None, pun_cost = 100\<rparr>],
     pn_stock = [\<lparr>pst_productId = 11, pst_quantity = 10, pst_cost = 3, pst_price = Some 4\<rparr>],
     pn_plans = [\<lparr>lp_productId = 10, lp_codeType = code_tac, lp_code = ''12345678''\<rparr>], pn_rejected = [], pn_total = 130, pn_paid = 130,
     pn_status = paid\<rparr>"

lemma ex_imei: "isValidImei ''123456789012347''" "imei_normalize ''1234567-8901-2347'' = ''123456789012347''"
  "isValidImei (imei_normalize ''1234567-8901-2347'')"
  by code_simp+

lemma ex_request_ok: "request_ok ex_order"
  by (simp add: request_ok_def ex_order_def ex_line_def amountPaid_of_def)

lemma decimal2_130: "decimal2 130 = 130"
  by simp

lemma ex_planned: "plan_purchase hash ex_receiver ex_order ex_shop = Inr (Inr ex_plan)"
  by (simp add: plan_purchase_def Purchasing.findReplay_def ex_receiver_def ex_order_def ex_shop_def ex_line_def ex_no_books_def
      prepare_items_def prepare_item_def nothing_prepared_def ids_of_def ImeiStrategy_def QuantityStrategy_def prepare_identifier_def
      ex_imei learnPlanFor_def prepared_unit_of_def identifierColumns_def add_plan_def findExistingIdentifiers_def purchase_total_def
      amountPaid_of_def ex_plan_def tacOf_def require_def Let_def)

definition ex_outcome :: PurchaseOutcome where
  "ex_outcome = \<lparr>po_purchaseId = Some 100, po_unitsCreated = 1, po_stockLines = 1, po_total = 130, po_rejected = [], po_replayed = False\<rparr>"

lemma ex_created: "fst (createPurchase d hash ex_receiver ex_ids ex_order ex_shop) = Inr ex_outcome"
proof -
  have "\<exists>s'. purchase_tx hash ex_receiver ex_ids ex_order ex_plan ex_shop = Inr s'"
    by (rule purchase_tx_succeeds [OF ex_planned]) (simp add: ex_plan_def ex_shop_def ex_no_books_def)
  then show ?thesis by (auto simp: createPurchase_def ex_planned commit_purchase_def ex_outcome_def ex_plan_def ex_ids_def)
qed

lemma ex_fresh: "fresh_purchase (pid_purchase ex_ids) ex_shop"
  by (simp add: fresh_purchase_def ex_shop_def ex_no_books_def)

lemma ex_created_pair: "createPurchase d hash ex_receiver ex_ids ex_order ex_shop =
    (Inr ex_outcome, snd (createPurchase d hash ex_receiver ex_ids ex_order ex_shop))"
  by (metis ex_created prod.collapse)

lemma ex_outcome_simps [simp]: "\<not> po_replayed ex_outcome" "po_purchaseId ex_outcome = Some 100" "po_total ex_outcome = 130" "po_unitsCreated ex_outcome = 1"
  by (simp_all add: ex_outcome_def)

section \<open>Properties\<close>



text \<open>
  (C10) What a delivery writes agrees with itself: the purchase is worth the sum of its lines,
  the supplier's balance rises by that less what was paid, as many units appear as the answer
  says, all of them on sale in the branch that received them, and for every product the
  quantities on the lines are the new units plus the rise of the branch's stock.
\<close>

theorem delivery_accounts_for_goods:
  assumes "createPurchase d hash c ids dto s = (Inr out, s')" and "\<not> po_replayed out" and "po_purchaseId out = Some pid"
    and "fresh_purchase (pid_purchase ids) s" and "request_ok dto" and "stock_ok (bk_stock (rv_books s))" and "c_branchId c = Some branch"
    and "items = filter (\<lambda>x. pit_purchaseId x = pid) (map snd (rv_items s'))"
  shows "po_total out = sum_of (\<lambda>x. of_int (pit_quantity x) * pit_unitCost x) items \<and>
    (\<exists>sp sp'. map_of (bk_suppliers (rv_books s)) (cpu_supplierId dto) = Some sp \<and>
       map_of (bk_suppliers (rv_books s')) (cpu_supplierId dto) = Some sp' \<and>
       sp_balance sp' = sp_balance sp + (po_total out - amountPaid_of dto)) \<and>
    (\<exists>us. map snd (bk_units (rv_books s')) = map snd (bk_units (rv_books s)) @ us \<and> length us = po_unitsCreated out \<and>
       (\<forall>u \<in> set us. u_companyId u = c_companyId c \<and> u_branchId u = branch \<and> u_status u = in_stock) \<and>
       (\<forall>p. sum_list (map pit_quantity (filter (\<lambda>x. pit_productId x = p) items)) =
          int (length (filter (\<lambda>u. u_productId u = p) us)) +
          (on_hand (bk_stock (rv_books s')) (c_companyId c, p, branch) - on_hand (bk_stock (rv_books s)) (c_companyId c, p, branch))))"
  using assms(1-3)
proof (cases rule: committed)
  case (1 pn s1)
  note E = purchase_tx_effect [OF 1(2)] and V = items_value [OF 1(1) assms(5)] and P = plan_ok_of [OF 1(1)]
  from 1(1) obtain sp where sp: "map_of (bk_suppliers (rv_books s)) (cpu_supplierId dto) = Some sp" and br: "pn_branch pn = branch"
    using assms(7) by (cases rule: plan_cases) auto
  have items: "items = delivery_items c pid pn"
    unfolding assms(8) 1(3,4) after_delivery_fields by (rule delivered_items [OF 1(2) assms(4)])
  have "po_total out = sum_of (\<lambda>x. of_int (pit_quantity x) * pit_unitCost x) items"
    using V(1) unfolding items item_value_def 1(5) by simp
  moreover have "decimal2 (pn_total pn - pn_paid pn) = pn_total pn - pn_paid pn"
    using V(2) P assms(5) by (simp add: request_ok_def)
  then have "\<exists>sp'. map_of (bk_suppliers (rv_books s')) (cpu_supplierId dto) = Some sp' \<and> sp_balance sp' = sp_balance sp + (po_total out - amountPaid_of dto)"
    using E(10) sp P by (simp add: 1(3,5))
  moreover have "sum_list (map pit_quantity (filter (\<lambda>x. pit_productId x = p) items)) =
      int (length (filter (\<lambda>u. u_productId u = p) (map (unit_row_of c branch) (pn_units pn)))) +
      (on_hand (bk_stock (rv_books s')) (c_companyId c, p, branch) - on_hand (bk_stock (rv_books s)) (c_companyId c, p, branch))" for p
    using quantities_of_product [of p c pid pn branch] E(11) [OF assms(6), of p] by (simp add: items 1(3) br)
  moreover have "map snd (bk_units (rv_books s')) = map snd (bk_units (rv_books s)) @ map (unit_row_of c branch) (pn_units pn)"
    using E(3) by (simp add: 1(3) br)
  moreover have "\<forall>u \<in> set (map (unit_row_of c branch) (pn_units pn)). u_companyId u = c_companyId c \<and> u_branchId u = branch \<and> u_status u = in_stock"
    by (simp add: unit_row_of_def)
  moreover have "length (map (unit_row_of c branch) (pn_units pn)) = po_unitsCreated out" by (simp add: 1(5))
  ultimately show ?thesis using sp by blast
qed

theorem delivery_accounts_for_goods_witness:
  "sum_of (\<lambda>x. of_int (pit_quantity x) * pit_unitCost x) (filter (\<lambda>x. pit_purchaseId x = 100)
     (map snd (rv_items (snd (createPurchase (\<lambda>_. []) (\<lambda>_. ''h'') ex_receiver ex_ids ex_order ex_shop))))) = 130"
proof -
  have "stock_ok (bk_stock (rv_books ex_shop))" "c_branchId ex_receiver = Some 4"
    by (simp_all add: ex_shop_def ex_no_books_def stock_ok_def ex_receiver_def)
  with delivery_accounts_for_goods [OF ex_created_pair _ _ ex_fresh ex_request_ok _ _ refl, of 100 4]
  show ?thesis by fastforce
qed



text \<open>
  (C11) Receiving is a step the suppliers' books allow: whatever the call answers, every
  invariant of purchases, payments, allocations and corrections that held before holds after.
\<close>

theorem delivery_keeps_supplier_books:
  assumes "sup_inv (rv_books s)" and "request_ok dto" and "map_of (bk_purchases (rv_books s)) (pid_purchase ids) = None"
  shows "sup_step (rv_books s) (rv_books (snd (createPurchase d hash c ids dto s))) \<and>
    sup_inv (rv_books (snd (createPurchase d hash c ids dto s)))"
proof -
  have "received (rv_books s) (rv_books (snd (createPurchase d hash c ids dto s)))"
    by (rule delivery_received [OF prod.collapse [symmetric] assms(2,3)])
  then show ?thesis using sup_inv_received [OF assms(1)] sup_step.others by blast
qed

lemma ex_shop_inv: "sup_inv (rv_books ex_shop)"
  by (simp add: sup_inv_def ex_shop_def ex_no_books_def approved_for_def)

theorem delivery_keeps_supplier_books_witness:
  "sup_inv (rv_books (snd (createPurchase (\<lambda>_. []) (\<lambda>_. ''h'') ex_receiver ex_ids ex_order ex_shop)))"
  using delivery_keeps_supplier_books [OF ex_shop_inv ex_request_ok, of ex_ids] by (simp add: ex_shop_def ex_no_books_def)

text \<open>
  (C39) What a payment on delivery does not do: the amount paid at the counter is stored with
  the purchase and as a supplier payment, yet the payable screen reads neither. The new
  purchase is listed as open for its whole total, with nothing paid, even when it was paid in
  full.
\<close>

theorem paid_delivery_still_owed:
  assumes "createPurchase d hash c ids dto s = (Inr out, s')" and "\<not> po_replayed out" and "po_purchaseId out = Some pid"
    and "fresh_purchase (pid_purchase ids) s" and "request_ok dto" and "sup_inv (rv_books s)"
  shows "\<exists>x \<in> set (openPurchases (c_companyId c) (cpu_supplierId dto) (rv_books s')).
    op_purchaseId x = pid \<and> op_outstanding x = po_total out \<and> op_paid x = 0"
  using assms(1-3)
proof (cases rule: committed)
  case (1 pn s1)
  note E = purchase_tx_effect [OF 1(2)] and V = items_value(2,3) [OF 1(1) assms(5)]
  let ?p = "new_purchase c dto pn"
  have p: "pu_companyId ?p = c_companyId c" "pu_supplierId ?p = cpu_supplierId dto" "pu_total ?p = pn_total pn" by (simp_all add: new_purchase_def)
  have "map_of (bk_purchases (rv_books s)) pid = None" using assms(4) by (simp add: fresh_purchase_def 1(4))
  moreover have "bk_purchases (rv_books s') = t_insert pid ?p (bk_purchases (rv_books s))" by (simp add: 1(3,4) E(4))
  ultimately show ?thesis
    using open_after_delivery [OF assms(6), of "rv_books s'" pid ?p] V unfolding p by (simp add: 1(3,5) E(7-9))
qed

theorem paid_delivery_still_owed_witness:
  "amountPaid_of ex_order = 130 \<and>
   (\<exists>x \<in> set (openPurchases 2 3 (rv_books (snd (createPurchase (\<lambda>_. []) (\<lambda>_. ''h'') ex_receiver ex_ids ex_order ex_shop)))).
     op_purchaseId x = 100 \<and> op_outstanding x = 130 \<and> op_paid x = 0)"
  using paid_delivery_still_owed [OF ex_created_pair _ _ ex_fresh ex_request_ok ex_shop_inv, of 100]
  by (simp add: amountPaid_of_def ex_order_def ex_receiver_def)

end
