(* ===== verification/Intake.thy ===== *)
theory Intake
  imports Purchasing
begin

text \<open>
  Adding stock without a purchase, and scanning: the quick intake of one unit or of a counted
  quantity and the question whether an identifier is already taken
  (\<^verbatim>\<open>src/src/inventory/inventory.service.ts\<close>), the suggestions of the catalogue
  (\<^verbatim>\<open>src/src/catalog/catalog.service.ts\<close>) and the scanner's pipeline
  (\<^verbatim>\<open>src/src/scanner/scanner.service.ts\<close>). The hash of a receipt is an argument.
\<close>

section \<open>State\<close>

record stock_receipt =
  sr_companyId :: id
  sr_branchId :: id
  sr_productId :: id
  sr_userId :: "id option"
  sr_clientUuid :: "id option"
  sr_clientRequestHash :: "string option"
  sr_quantity :: nat
  sr_unitCost :: number

record intake =
  ik_books :: books
  ik_memory :: memory
  ik_receipts :: "(id, stock_receipt) table"
  ik_branches :: "(id, string) table"

definition product_in :: "id \<Rightarrow> id \<Rightarrow> memory \<Rightarrow> product_row option" where
  "product_in co pid m =
     (case map_of (rm_products m) pid of None \<Rightarrow> None | Some p \<Rightarrow> if pd_companyId p = co then Some p else None)"

section \<open>Quick intake\<close>

record QuickAddUnitDto =
  qa_productId :: id
  qa_identifier :: "string option"
  qa_imeiSecondary :: "string option"
  qa_quantity :: "nat option"
  qa_cost :: number
  qa_price :: "number option"
  qa_clientUuid :: "id option"

datatype intake_refusal =
    IntakeBranchRequired
  | IntakeProductMissing
  | CountedHasNoIdentifier
  | QuantityNeeded
  | OneAtATime
  | IdentifierNeeded
  | IdentifierInvalid identifier_refusal
  | IdentifierRegistered
  | IdempotencyConflict
  | ReceiptKeyTaken
  | IntakeRefused purchase_refusal
  | IntakeStockRefused stock_refusal
  | IntakeUnitMissing

type_synonym intake_error = "intake_refusal http_error"

datatype QuickAddResult = UnitAdded id | QuantityReceived id nat

type_synonym receipt_content = "id \<times> id \<times> nat \<times> number \<times> number option"

definition receipt_price :: "product_row \<Rightarrow> QuickAddUnitDto \<Rightarrow> number option" where
  "receipt_price p dto = (case qa_price dto of Some x \<Rightarrow> Some x | None \<Rightarrow> pd_defaultPrice p)"

definition fingerprintReceipt :: "(receipt_content \<Rightarrow> string) \<Rightarrow> product_row \<Rightarrow> id \<Rightarrow> nat \<Rightarrow> QuickAddUnitDto \<Rightarrow> string" where
  "fingerprintReceipt hash p branch quantity dto = hash (qa_productId dto, branch, quantity, qa_cost dto, receipt_price p dto)"

definition replayOf :: "stock_receipt \<Rightarrow> string \<Rightarrow> intake_error + QuickAddResult" where
  "replayOf receipt print =
     (if sr_clientRequestHash receipt \<noteq> Some print then Inl (Conflict IdempotencyConflict)
      else Inr (QuantityReceived (sr_productId receipt) (sr_quantity receipt)))"

definition find_receipt :: "id \<Rightarrow> id \<Rightarrow> intake \<Rightarrow> stock_receipt option" where
  "find_receipt co key s = map_option snd (find (\<lambda>(_, r). sr_companyId r = co \<and> sr_clientUuid r = Some key) (ik_receipts s))"

text \<open>The receipt first, so that a key that is taken stops the transaction before the balance moves.\<close>

definition receipt_tx ::
  "(receipt_content \<Rightarrow> string) \<Rightarrow> ctx \<Rightarrow> id \<Rightarrow> product_row \<Rightarrow> id \<Rightarrow> nat \<Rightarrow> QuickAddUnitDto \<Rightarrow> intake \<Rightarrow> intake_error + intake" where
  "receipt_tx hash c new p branch quantity dto s =
     (if (case qa_clientUuid dto of None \<Rightarrow> False | Some k \<Rightarrow> find_receipt (c_companyId c) k s \<noteq> None)
      then Inl (Conflict ReceiptKeyTaken)
      else
        case receiveQuantityAtCost (c_companyId c, qa_productId dto, branch) (int quantity) (qa_cost dto) (receipt_price p dto)
               (bk_stock (ik_books s)) of
          Inl _ \<Rightarrow> Inl (Internal (IntakeStockRefused (ReceivedNotPositive (int quantity))))
        | Inr st \<Rightarrow>
            Inr (s\<lparr>ik_books := (ik_books s)\<lparr>bk_stock := st\<rparr>,
                   ik_receipts := t_insert new
                     \<lparr>sr_companyId = c_companyId c, sr_branchId = branch, sr_productId = qa_productId dto, sr_userId = c_userId c,
                      sr_clientUuid = qa_clientUuid dto,
                      sr_clientRequestHash = (if qa_clientUuid dto = None then None else Some (fingerprintReceipt hash p branch quantity dto)),
                      sr_quantity = quantity, sr_unitCost = qa_cost dto\<rparr> (ik_receipts s)\<rparr>))"

text \<open>The transaction with its race: the loser of two simultaneous retries replays the winner.\<close>

definition commit_receipt ::
  "(receipt_content \<Rightarrow> string) \<Rightarrow> ctx \<Rightarrow> id \<Rightarrow> product_row \<Rightarrow> id \<Rightarrow> nat \<Rightarrow> QuickAddUnitDto \<Rightarrow> intake \<Rightarrow> (intake_error + QuickAddResult) \<times> intake" where
  "commit_receipt hash c new p branch quantity dto s =
     (case receipt_tx hash c new p branch quantity dto s of
        Inr s1 \<Rightarrow> (Inr (QuantityReceived (qa_productId dto) quantity), s1)
      | Inl e \<Rightarrow>
          (case (e, qa_clientUuid dto) of
             (Conflict ReceiptKeyTaken, Some k) \<Rightarrow>
               (case find_receipt (c_companyId c) k s of
                  Some winner \<Rightarrow> (replayOf winner (fingerprintReceipt hash p branch quantity dto), s)
                | None \<Rightarrow> (Inl e, s))
           | _ \<Rightarrow> (Inl e, s)))"

definition receiveQuantity ::
  "(receipt_content \<Rightarrow> string) \<Rightarrow> ctx \<Rightarrow> id \<Rightarrow> product_row \<Rightarrow> id \<Rightarrow> nat \<Rightarrow> QuickAddUnitDto \<Rightarrow> intake \<Rightarrow> (intake_error + QuickAddResult) \<times> intake" where
  "receiveQuantity hash c new p branch quantity dto s =
     (case Option.bind (qa_clientUuid dto) (\<lambda>k. find_receipt (c_companyId c) k s) of
        Some replay \<Rightarrow> (replayOf replay (fingerprintReceipt hash p branch quantity dto), s)
      | None \<Rightarrow> commit_receipt hash c new p branch quantity dto s)"

definition identifierData :: "TrackingStrategy \<Rightarrow> string \<Rightarrow> string option \<times> string option" where
  "identifierData strategy identifier =
     (case ts_identifierField strategy of
        Some imeiPrimary \<Rightarrow> (Some identifier, None)
      | Some serialNo \<Rightarrow> (None, Some identifier)
      | None \<Rightarrow> (None, None))"

text \<open>A violated unique key is answered as a registered identifier, anything else as it came.\<close>

definition mapDuplicate :: "purchase_error \<Rightarrow> intake_error" where
  "mapDuplicate e =
     (case e of
        Conflict DuplicateIdentifier \<Rightarrow> Conflict IdentifierRegistered
      | BadRequest r \<Rightarrow> BadRequest (IntakeRefused r)
      | Conflict r \<Rightarrow> Conflict (IntakeRefused r)
      | Forbidden r \<Rightarrow> Forbidden (IntakeRefused r)
      | NotFound r \<Rightarrow> NotFound (IntakeRefused r)
      | Internal r \<Rightarrow> Internal (IntakeRefused r))"

definition add_unit ::
  "ctx \<Rightarrow> id \<Rightarrow> product_row \<Rightarrow> id \<Rightarrow> string \<Rightarrow> QuickAddUnitDto \<Rightarrow> intake \<Rightarrow> (intake_error + QuickAddResult) \<times> intake" where
  "add_unit c new p branch raw dto s =
     (let strategy = strategy_for (pd_trackingType p)
      in case ts_validateIdentifier strategy raw of
           Inl e \<Rightarrow> (Inl (BadRequest (IdentifierInvalid e)), s)
         | Inr _ \<Rightarrow>
             let identifier = ts_normalize strategy raw;
                 candidates = identifier # (if falsy (qa_imeiSecondary dto) then [] else [the (qa_imeiSecondary dto)])
             in if findExistingIdentifiers (c_companyId c) candidates (bk_units (ik_books s)) \<noteq> []
                then (Inl (Conflict IdentifierRegistered), s)
                else
                  case createUnit c new
                         \<lparr>cud_productId = qa_productId dto, cud_branchId = branch, cud_imeiPrimary = fst (identifierData strategy identifier),
                          cud_imeiSecondary = qa_imeiSecondary dto, cud_serialNo = snd (identifierData strategy identifier),
                          cud_cost = qa_cost dto\<rparr> (ik_books s) of
                    Inl e \<Rightarrow> (Inl (mapDuplicate e), s)
                  | Inr b \<Rightarrow> (Inr (UnitAdded new), s\<lparr>ik_books := b\<rparr>))"

definition quickAdd ::
  "(receipt_content \<Rightarrow> string) \<Rightarrow> ctx \<Rightarrow> id \<Rightarrow> QuickAddUnitDto \<Rightarrow> intake \<Rightarrow> (intake_error + QuickAddResult) \<times> intake" where
  "quickAdd hash c new dto s =
     (case c_branchId c of
        None \<Rightarrow> (Inl (BadRequest IntakeBranchRequired), s)
      | Some branch \<Rightarrow>
          (case product_in (c_companyId c) (qa_productId dto) (ik_memory s) of
             None \<Rightarrow> (Inl (NotFound IntakeProductMissing), s)
           | Some p \<Rightarrow>
               if \<not> ts_perUnit (strategy_for (pd_trackingType p))
               then if qa_identifier dto \<noteq> None \<or> qa_imeiSecondary dto \<noteq> None then (Inl (BadRequest CountedHasNoIdentifier), s)
                    else
                      let quantity = (case qa_quantity dto of None \<Rightarrow> 0 | Some q \<Rightarrow> q)
                      in if quantity < 1 then (Inl (BadRequest QuantityNeeded), s)
                         else receiveQuantity hash c new p branch quantity dto s
               else if (case qa_quantity dto of None \<Rightarrow> False | Some q \<Rightarrow> q > 1) then (Inl (BadRequest OneAtATime), s)
               else if falsy (qa_identifier dto) then (Inl (BadRequest IdentifierNeeded), s)
               else add_unit c new p branch (the (qa_identifier dto)) dto s))"

definition findByIdentifier :: "ctx \<Rightarrow> string \<Rightarrow> intake \<Rightarrow> intake_error + id \<times> unit_row" where
  "findByIdentifier c identifier s =
     (case find (\<lambda>(_, u). u_companyId u = c_companyId c \<and>
                 (u_imeiPrimary u = Some identifier \<or> u_imeiSecondary u = Some identifier \<or> u_serialNo u = Some identifier))
             (bk_units (ik_books s)) of
        None \<Rightarrow> Inl (NotFound IntakeUnitMissing)
      | Some r \<Rightarrow> Inr r)"

section \<open>Is an identifier taken?\<close>

datatype matched_position = pos_primary | pos_secondary

record unit_summary =
  us_productLabel :: string
  us_branchName :: string
  us_status :: UnitStatus

record IdentifierConflict =
  icf_alreadyInInventory :: bool
  icf_matchedIdentifierPosition :: "matched_position option"
  icf_unit :: "unit_summary option"
  icf_elsewhere :: bool
  icf_conflictingUnits :: bool

definition NO_CONFLICT :: IdentifierConflict where
  "NO_CONFLICT = \<lparr>icf_alreadyInInventory = False, icf_matchedIdentifierPosition = None, icf_unit = None, icf_elsewhere = False,
     icf_conflictingUnits = False\<rparr>"

definition accessibleBranchIds :: "ctx \<Rightarrow> assignment list \<Rightarrow> id list" where
  "accessibleBranchIds c as =
     (case c_userId c of
        None \<Rightarrow> []
      | Some u \<Rightarrow> map as_branchId (filter (\<lambda>a. as_companyId a = c_companyId c \<and> as_userId a = u) as))"

fun join_words :: "string list \<Rightarrow> string" where
  "join_words [] = []"
| "join_words [w] = w"
| "join_words (w # ws) = w @ '' '' @ join_words ws"

definition product_label :: "product_row \<Rightarrow> string" where
  "product_label p = join_words (filter (\<lambda>w. w \<noteq> []) [pd_brand p, pd_model p, case pd_variant p of None \<Rightarrow> [] | Some v \<Rightarrow> v])"

definition column_matches :: "string list \<Rightarrow> string option \<Rightarrow> bool" where
  "column_matches wanted x \<longleftrightarrow> (case x of None \<Rightarrow> False | Some i \<Rightarrow> i \<noteq> [] \<and> i \<in> set wanted)"

definition unit_summary_of :: "intake \<Rightarrow> unit_row \<Rightarrow> unit_summary" where
  "unit_summary_of s u =
     \<lparr>us_productLabel = (case map_of (rm_products (ik_memory s)) (u_productId u) of None \<Rightarrow> [] | Some p \<Rightarrow> product_label p),
      us_branchName = (case map_of (ik_branches s) (u_branchId u) of None \<Rightarrow> [] | Some b \<Rightarrow> b), us_status = u_status u\<rparr>"

definition describeIdentifierConflict :: "ctx \<Rightarrow> string list \<Rightarrow> intake \<Rightarrow> IdentifierConflict" where
  "describeIdentifierConflict c identifiers s =
     (let wanted = filter (\<lambda>i. i \<noteq> []) (map js_trim identifiers);
          us = bk_units (ik_books s);
          ours = take 3 (filter (\<lambda>(_, u). u_companyId u = c_companyId c \<and> matches_any wanted u) us)
      in if wanted = [] then NO_CONFLICT
         else if card (set (map fst ours)) > 1
         then NO_CONFLICT\<lparr>icf_alreadyInInventory := True, icf_conflictingUnits := True\<rparr>
         else case ours of
           (_, match) # _ \<Rightarrow>
             if u_branchId match \<notin> set (accessibleBranchIds c (bk_assignments (ik_books s)))
             then NO_CONFLICT\<lparr>icf_alreadyInInventory := True, icf_elsewhere := True\<rparr>
             else \<lparr>icf_alreadyInInventory = True,
                   icf_matchedIdentifierPosition =
                     (if column_matches wanted (u_imeiPrimary match) then Some pos_primary
                      else if column_matches wanted (u_imeiSecondary match) then Some pos_secondary else None),
                   icf_unit = Some (unit_summary_of s match), icf_elsewhere = False, icf_conflictingUnits = False\<rparr>
         | [] \<Rightarrow>
             if length (filter (\<lambda>(_, u). matches_any wanted u) us) > 0
             then NO_CONFLICT\<lparr>icf_alreadyInInventory := True, icf_elsewhere := True\<rparr>
             else NO_CONFLICT)"

section \<open>Suggestions of the catalogue\<close>

text \<open>A suggestion is the product it names; the confirm card shows its columns.\<close>

definition suggest_product :: "ctx \<Rightarrow> id \<Rightarrow> memory \<Rightarrow> id option" where
  "suggest_product c pid m =
     (case product_in (c_companyId c) pid m of None \<Rightarrow> None | Some p \<Rightarrow> if pd_deletedAt p = None then Some pid else None)"

definition suggest_barcode :: "ctx \<Rightarrow> string \<Rightarrow> memory \<Rightarrow> id option" where
  "suggest_barcode c code m =
     map_option fst (find (\<lambda>(_, p). pd_companyId p = c_companyId c \<and> pd_barcode p = Some code \<and> pd_deletedAt p = None) (rm_products m))"

text \<open>\<^verbatim>\<open>recognize\<close>: whether the TAC is in the platform's catalogue, and the one product it can mean.\<close>

definition recognize :: "ctx \<Rightarrow> string \<Rightarrow> memory \<Rightarrow> bool \<times> id option" where
  "recognize c imei m =
     (case map_of (rm_tacs m) (tacOf imei) of
        None \<Rightarrow> (False, None)
      | Some t \<Rightarrow>
          let matches = (if falsy (te_brand t) \<or> falsy (te_model t) then []
                else take 5 (filter (\<lambda>(_, p). pd_companyId p = c_companyId c \<and> pd_deletedAt p = None \<and>
                       Some (pd_brand p) = te_brand t \<and> Some (pd_model p) = te_model t) (rm_products m)))
          in (True, case matches of [(pid, _)] \<Rightarrow> Some pid | _ \<Rightarrow> None))"

section \<open>The scanner\<close>

datatype scan_hint = HintUnrecognized | HintNewBarcode | HintRecognizedDevice | HintUnknownImei | HintSerial | HintTwoProducts id id

record ScanResult =
  sc_code :: string
  sc_kind :: ScanKind
  sc_recognized :: bool
  sc_confidence :: number
  sc_recognitionKey :: "RecognitionKey option"
  sc_suggestion :: "id option"
  sc_inventory :: "IdentifierConflict option"
  sc_hint :: "scan_hint option"

definition CONFIDENCE_EXACT_BARCODE :: number where "CONFIDENCE_EXACT_BARCODE = 1"
definition CONFIDENCE_TAC_CATALOG :: number where "CONFIDENCE_TAC_CATALOG = 6 / 10"
definition CONFIDENCE_CONFLICT_CEILING :: number where "CONFIDENCE_CONFLICT_CEILING = 1 / 2"

definition recognitionKeyFor :: "ScanKind \<Rightarrow> string \<Rightarrow> RecognitionKey option" where
  "recognitionKeyFor kind code =
     (case kind of
        scan_imei \<Rightarrow> ts_recognitionKey (strategy_for track_imei) code
      | scan_barcode \<Rightarrow> Some (code_barcode, code)
      | _ \<Rightarrow> None)"

definition scoreLearnedMatch :: "ctx \<Rightarrow> ScanResult \<Rightarrow> ScanKind \<Rightarrow> string \<Rightarrow> id \<Rightarrow> RecognitionSignals \<Rightarrow> memory \<Rightarrow> ScanResult" where
  "scoreLearnedMatch c base kind code learnedId signals m =
     (let learned = score signals
      in case (if kind = scan_barcode then suggest_barcode c code m else None) of
           None \<Rightarrow> base\<lparr>sc_recognized := True, sc_confidence := learned, sc_suggestion := Some learnedId\<rparr>
         | Some other \<Rightarrow>
             if other = learnedId
             then base\<lparr>sc_recognized := True, sc_confidence := max learned CONFIDENCE_EXACT_BARCODE, sc_suggestion := Some learnedId\<rparr>
             else base\<lparr>sc_recognized := True, sc_confidence := min learned CONFIDENCE_CONFLICT_CEILING, sc_suggestion := Some learnedId,
                       sc_hint := Some (HintTwoProducts learnedId other)\<rparr>)"

definition scan_fallback :: "ctx \<Rightarrow> ScanResult \<Rightarrow> ScanKind \<Rightarrow> string \<Rightarrow> memory \<Rightarrow> ScanResult" where
  "scan_fallback c base kind code m =
     (case kind of
        scan_barcode \<Rightarrow>
          (case suggest_barcode c code m of
             Some p \<Rightarrow> base\<lparr>sc_recognized := True, sc_confidence := CONFIDENCE_EXACT_BARCODE, sc_suggestion := Some p\<rparr>
           | None \<Rightarrow> base\<lparr>sc_hint := Some HintNewBarcode\<rparr>)
      | scan_imei \<Rightarrow>
          let (known, pid) = recognize c code m
          in (case Option.bind pid (\<lambda>p. suggest_product c p m) of
                Some p \<Rightarrow> base\<lparr>sc_recognized := True, sc_confidence := CONFIDENCE_TAC_CATALOG, sc_suggestion := Some p\<rparr>
              | None \<Rightarrow> base\<lparr>sc_hint := Some (if known then HintRecognizedDevice else HintUnknownImei)\<rparr>)
      | _ \<Rightarrow> base\<lparr>sc_hint := Some HintSerial\<rparr>)"

definition scan :: "ctx \<Rightarrow> string \<Rightarrow> string option \<Rightarrow> intake \<Rightarrow> ScanResult" where
  "scan c rawCode rawSecondary s =
     (let (kind, normalized) = classifyCode rawCode;
          m = ik_memory s;
          key = recognitionKeyFor kind normalized;
          inventory = (if kind = scan_imei \<or> kind = scan_serial
            then Some (describeIdentifierConflict c
                   (normalized # (if falsy rawSecondary then [] else [js_trim (the rawSecondary)])) s)
            else None);
          base = \<lparr>sc_code = normalized, sc_kind = kind, sc_recognized = False, sc_confidence = 0, sc_recognitionKey = key,
                  sc_suggestion = None, sc_inventory = inventory, sc_hint = None\<rparr>
      in if kind = scan_unknown then base\<lparr>sc_hint := Some HintUnrecognized\<rparr>
         else case Option.bind key (\<lambda>(ct, code). resolve_code (c_companyId c) ct code m) of
           Some (pid, signals) \<Rightarrow>
             (case suggest_product c pid m of
                Some _ \<Rightarrow> scoreLearnedMatch c base kind normalized pid signals m
              | None \<Rightarrow> scan_fallback c base kind normalized m)
         | None \<Rightarrow> scan_fallback c base kind normalized m)"

end
