(* ===== verification/IntakeProperties.thy ===== *)
theory IntakeProperties
  imports Intake
begin

text \<open>
  Intake and scanning: what an answer about an identifier may reveal, that a counted receipt is
  booked once, how sure the scanner says it is, and a retry that is refused by mistake.
\<close>

section \<open>Confidence\<close>

lemma fraction_bounds:
  fixes a b :: rat
  assumes "0 < a" "0 \<le> b"
  shows "0 < a / (a + b)" "a / (a + b) \<le> 1" "0 < b \<Longrightarrow> a / (a + b) < 1"
proof -
  have "0 < a + b" using assms by (rule add_pos_nonneg)
  then show "0 < a / (a + b)" "a / (a + b) \<le> 1" "0 < b \<Longrightarrow> a / (a + b) < 1"
    using assms by (simp_all add: pos_divide_le_eq pos_divide_less_eq)
qed

lemma score_bounds: "0 \<le> score sg" "score sg < 1"
proof -
  define n where "n = (if sg_confirmations sg = 0 then sg_timesSeen sg else sg_confirmations sg)"
  have "0 \<le> score sg \<and> score sg < 1"
  proof (cases "n = 0")
    case False
    define a :: rat where "a = of_nat n"
    define b :: rat where "b = of_nat (sg_corrections sg)"
    have ab: "0 < a" "0 \<le> b" using False by (simp_all add: a_def b_def)
    have s: "score sg = a / (a + 2) * (a / (a + b))"
      using False unfolding score_def Let_def n_def [symmetric] by (simp add: a_def b_def)
    have "a / (a + 2) * (a / (a + b)) \<le> a / (a + 2) * 1"
      using fraction_bounds(1) [OF ab(1), of 2] fraction_bounds(2) [OF ab] by (intro mult_left_mono) simp_all
    also have "\<dots> < 1" using fraction_bounds(3) [OF ab(1), of 2] by simp
    finally have "score sg < 1" unfolding s .
    moreover have "0 < score sg"
      using fraction_bounds(1) [OF ab(1), of 2] fraction_bounds(1) [OF ab] unfolding s by (intro mult_pos_pos) simp_all
    ultimately show ?thesis by simp
  qed (simp add: score_def Let_def n_def [symmetric])
  then show "0 \<le> score sg" "score sg < 1" by simp_all
qed

section \<open>Receipts\<close>

lemma find_receipt_snoc:
  assumes "find_receipt co k s = None" "sr_companyId r = co" "sr_clientUuid r = Some k"
  shows "find_receipt co k (s\<lparr>ik_books := b, ik_receipts := t_insert new r (ik_receipts s)\<rparr>) = Some r"
proof -
  have "find P xs = None \<Longrightarrow> P x \<Longrightarrow> find P (xs @ [x]) = Some x" for P and xs :: "(id \<times> stock_receipt) list" and x
    by (induction xs) (auto split: if_splits)
  then show ?thesis using assms by (simp add: find_receipt_def t_insert_def)
qed

text \<open>A receipt that was booked under a key is found under it, with the content it was booked with.\<close>

lemma booked_receipt:
  assumes "receiveQuantity hash c new p branch q dto s = (Inr res, s')" "qa_clientUuid dto = Some k" "find_receipt (c_companyId c) k s = None"
  shows "res = QuantityReceived (qa_productId dto) q"
    "\<exists>r. find_receipt (c_companyId c) k s' = Some r \<and> sr_productId r = qa_productId dto \<and> sr_quantity r = q \<and>
       sr_clientRequestHash r = Some (fingerprintReceipt hash p branch q dto)"
proof -
  from assms have "commit_receipt hash c new p branch q dto s = (Inr res, s')" by (simp add: receiveQuantity_def)
  then obtain st where st: "res = QuantityReceived (qa_productId dto) q"
    "s' = s\<lparr>ik_books := (ik_books s)\<lparr>bk_stock := st\<rparr>,
       ik_receipts := t_insert new \<lparr>sr_companyId = c_companyId c, sr_branchId = branch, sr_productId = qa_productId dto, sr_userId = c_userId c,
                      sr_clientUuid = qa_clientUuid dto, sr_clientRequestHash = Some (fingerprintReceipt hash p branch q dto),
                      sr_quantity = q, sr_unitCost = qa_cost dto\<rparr> (ik_receipts s)\<rparr>"
    using assms(2,3) by (auto simp: commit_receipt_def receipt_tx_def split: sum.splits)
  show "res = QuantityReceived (qa_productId dto) q" by fact
  show "\<exists>r. find_receipt (c_companyId c) k s' = Some r \<and> sr_productId r = qa_productId dto \<and> sr_quantity r = q \<and>
       sr_clientRequestHash r = Some (fingerprintReceipt hash p branch q dto)"
    unfolding st(2) by (subst find_receipt_snoc [OF assms(3)]) (simp_all add: assms(2))
qed

lemma replayed_receipt:
  assumes "find_receipt (c_companyId c) k s = Some r" "qa_clientUuid dto = Some k"
  shows "receiveQuantity hash c new p branch q dto s = (replayOf r (fingerprintReceipt hash p branch q dto), s)"
    "commit_receipt hash c new p branch q dto s = (replayOf r (fingerprintReceipt hash p branch q dto), s)"
  using assms by (simp_all add: receiveQuantity_def commit_receipt_def receipt_tx_def)

section \<open>Examples\<close>

definition ex_cable :: product_row where
  "ex_cable = \<lparr>pd_companyId = 2, pd_brand = ''B'', pd_model = ''cable'', pd_variant = None, pd_trackingType = track_quantity,
     pd_barcode = Some ''12345678'', pd_defaultPrice = Some 4, pd_deletedAt = None\<rparr>"

definition ex_intake :: "product_row \<Rightarrow> intake" where
  "ex_intake p = \<lparr>ik_books = ex_no_books, ik_memory = \<lparr>rm_products = [(11, p)], rm_rows = [], rm_outbox = [], rm_tacs = [], rm_audit = []\<rparr>,
     ik_receipts = [], ik_branches = [(4, ''Shop'')]\<rparr>"

definition ex_counter :: ctx where
  "ex_counter = \<lparr>c_companyId = 2, c_branchId = Some 4, c_userId = Some 8, c_permissions = [''unit.add''], c_now = 1000\<rparr>"

definition ex_quick :: QuickAddUnitDto where
  "ex_quick = \<lparr>qa_productId = 11, qa_identifier = None, qa_imeiSecondary = None, qa_quantity = Some 10, qa_cost = 3, qa_price = None,
     qa_clientUuid = Some 90\<rparr>"

text \<open>A hash that tells a missing price from any other.\<close>

definition ex_print :: "receipt_content \<Rightarrow> string" where
  "ex_print x = (case snd (snd (snd (snd x))) of None \<Rightarrow> ''none'' | Some p \<Rightarrow> if p = 4 then ''four'' else ''other'')"

definition ex_stranger :: "id \<Rightarrow> unit_row" where
  "ex_stranger co = \<lparr>u_companyId = co, u_productId = 77, u_branchId = 78, u_imeiPrimary = Some ''123456789012347'', u_imeiSecondary = None,
     u_serialNo = None, u_cost = 500, u_status = in_stock, u_dateSold = None\<rparr>"

definition ex_taken :: "id \<Rightarrow> intake" where
  "ex_taken co = (ex_intake ex_cable)\<lparr>ik_books := ex_no_books\<lparr>bk_units := [(60, ex_stranger co)]\<rparr>\<rparr>"

section \<open>Properties\<close>

text \<open>
  (C22) Asking about an identifier reveals nothing of another company but that it is taken: two
  states that agree on the caller's own units, on the caller's assignments and catalogue, and on
  whether some foreign unit carries a wanted number give the same answer, whatever else the
  foreign rows say. And an answer that rests on foreign units carries no unit at all.
\<close>

theorem foreign_units_stay_private:
  assumes "filter (\<lambda>(_, u). u_companyId u = c_companyId c) (bk_units (ik_books s)) =
      filter (\<lambda>(_, u). u_companyId u = c_companyId c) (bk_units (ik_books s'))"
    and "bk_assignments (ik_books s) = bk_assignments (ik_books s')" and "ik_memory s = ik_memory s'" and "ik_branches s = ik_branches s'"
    and "list_ex (\<lambda>(_, u). u_companyId u \<noteq> c_companyId c \<and> matches_any (map js_trim ids) u) (bk_units (ik_books s)) \<longleftrightarrow>
      list_ex (\<lambda>(_, u). u_companyId u \<noteq> c_companyId c \<and> matches_any (map js_trim ids) u) (bk_units (ik_books s'))"
    and "[] \<notin> set (map js_trim ids)"
  shows "describeIdentifierConflict c ids s = describeIdentifierConflict c ids s' \<and>
    (filter (\<lambda>(_, u). u_companyId u = c_companyId c \<and> matches_any (map js_trim ids) u) (bk_units (ik_books s)) = [] \<longrightarrow>
       icf_unit (describeIdentifierConflict c ids s) = None \<and> icf_matchedIdentifierPosition (describeIdentifierConflict c ids s) = None)"
proof -
  let ?w = "filter (\<lambda>i. i \<noteq> []) (map js_trim ids)"
  let ?own = "\<lambda>s. filter (\<lambda>(_, u). u_companyId u = c_companyId c \<and> matches_any ?w u) (bk_units (ik_books s))"
  have w: "?w = map js_trim ids" using assms(6) by (simp add: filter_id_conv) (metis image_eqI)
  have own_split: "?own t = filter (\<lambda>(_, u). matches_any ?w u) (filter (\<lambda>(_, u). u_companyId u = c_companyId c) (bk_units (ik_books t)))" for t
    unfolding filter_filter by (rule filter_cong) auto
  have own: "?own s = ?own s'" unfolding own_split assms(1) ..
  have any: "filter (\<lambda>(_, u). matches_any ?w u) (bk_units (ik_books t)) \<noteq> [] \<longleftrightarrow>
      list_ex (\<lambda>(_, u). u_companyId u \<noteq> c_companyId c \<and> matches_any ?w u) (bk_units (ik_books t))" if "?own t = []" for t
    using that by (auto simp: filter_empty_conv list_ex_iff)
  have sum: "unit_summary_of s = unit_summary_of s'" using assms(3,4) by (intro ext) (simp add: unit_summary_of_def)
  have 1: "describeIdentifierConflict c ids s = describeIdentifierConflict c ids s'"
    unfolding describeIdentifierConflict_def Let_def own assms(2) sum
    using any [of s] any [of s'] own assms(5) unfolding w by (auto split: list.splits)
  have "icf_unit (describeIdentifierConflict c ids s) = None \<and> icf_matchedIdentifierPosition (describeIdentifierConflict c ids s) = None"
    if "?own s = []"
    unfolding describeIdentifierConflict_def Let_def that by (simp add: NO_CONFLICT_def)
  with 1 show ?thesis unfolding w by blast
qed

theorem foreign_units_stay_private_witness:
  "describeIdentifierConflict ex_counter [''123456789012347''] (ex_taken 5) = describeIdentifierConflict ex_counter [''123456789012347''] (ex_taken 6) \<and>
   icf_elsewhere (describeIdentifierConflict ex_counter [''123456789012347''] (ex_taken 5))"
proof -
  have t: "js_trim ''123456789012347'' = ''123456789012347''" by code_simp
  have "describeIdentifierConflict ex_counter [''123456789012347''] (ex_taken 5) = describeIdentifierConflict ex_counter [''123456789012347''] (ex_taken 6)"
    using foreign_units_stay_private [of ex_counter "ex_taken 5" "ex_taken 6" "[''123456789012347'']"]
    by (simp add: ex_taken_def ex_counter_def ex_stranger_def ex_intake_def matches_any_def t)
  moreover have "icf_elsewhere (describeIdentifierConflict ex_counter [''123456789012347''] (ex_taken 5))"
    by (simp add: describeIdentifierConflict_def ex_taken_def ex_counter_def ex_stranger_def ex_intake_def matches_any_def t NO_CONFLICT_def)
  ultimately show ?thesis by blast
qed

text \<open>
  Counted goods are booked once: while the product is not repriced, a retry under the same
  key answers as the first call did and moves nothing, and so does a twin that lost the race for
  the key.
\<close>

theorem quantity_received_once:
  assumes "receiveQuantity hash c new p branch q dto s = (Inr res, s')" and "qa_clientUuid dto = Some k"
    and "find_receipt (c_companyId c) k s = None" and "receipt_price p' dto = receipt_price p dto"
  shows "receiveQuantity hash c new' p' branch q dto s' = (Inr res, s') \<and> commit_receipt hash c new' p' branch q dto s' = (Inr res, s')"
proof -
  note B = booked_receipt [OF assms(1-3)]
  from B(2) obtain r where r: "find_receipt (c_companyId c) k s' = Some r" "sr_productId r = qa_productId dto" "sr_quantity r = q"
    "sr_clientRequestHash r = Some (fingerprintReceipt hash p branch q dto)" by blast
  have "replayOf r (fingerprintReceipt hash p' branch q dto) = Inr res"
    using r assms(4) by (simp add: replayOf_def fingerprintReceipt_def B(1))
  with replayed_receipt [OF r(1) assms(2)] show ?thesis by simp
qed

lemma ex_booked: "\<exists>s'. receiveQuantity hash ex_counter 91 ex_cable 4 10 ex_quick (ex_intake ex_cable) = (Inr (QuantityReceived 11 10), s')"
  by (simp add: receiveQuantity_def commit_receipt_def receipt_tx_def ex_counter_def ex_quick_def ex_intake_def ex_no_books_def find_receipt_def
      receiveQuantityAtCost_def)

lemma ex_no_receipt: "find_receipt (c_companyId ex_counter) 90 (ex_intake ex_cable) = None" "qa_clientUuid ex_quick = Some 90"
  by (simp_all add: find_receipt_def ex_intake_def ex_quick_def)

theorem quantity_received_once_witness:
  "\<exists>s'. receiveQuantity ex_print ex_counter 91 ex_cable 4 10 ex_quick (ex_intake ex_cable) = (Inr (QuantityReceived 11 10), s') \<and>
     receiveQuantity ex_print ex_counter 92 ex_cable 4 10 ex_quick s' = (Inr (QuantityReceived 11 10), s')"
  using ex_booked [of ex_print] quantity_received_once [OF _ ex_no_receipt(2,1) refl] by blast

text \<open>
  A retry can be refused as a different delivery although nothing in the request changed:
  the receipt's fingerprint contains the price resolved from the catalogue, so when the product
  is repriced between the first call and its retry, the retry answers with a conflict.
\<close>

theorem retry_after_repricing_refused:
  assumes "receiveQuantity hash c new p branch q dto s = (Inr res, s')" and "qa_clientUuid dto = Some k"
    and "find_receipt (c_companyId c) k s = None" and "qa_price dto = None" and "p' = p\<lparr>pd_defaultPrice := price\<rparr>"
    and "hash (qa_productId dto, branch, q, qa_cost dto, price) \<noteq> hash (qa_productId dto, branch, q, qa_cost dto, pd_defaultPrice p)"
  shows "receiveQuantity hash c new' p' branch q dto s' = (Inl (Conflict IdempotencyConflict), s')"
proof -
  from booked_receipt(2) [OF assms(1-3)] obtain r where r: "find_receipt (c_companyId c) k s' = Some r"
    "sr_clientRequestHash r = Some (fingerprintReceipt hash p branch q dto)" by blast
  have "replayOf r (fingerprintReceipt hash p' branch q dto) = Inl (Conflict IdempotencyConflict)"
    using r(2) assms(4-6) by (auto simp: replayOf_def fingerprintReceipt_def receipt_price_def)
  with replayed_receipt(1) [OF r(1) assms(2)] show ?thesis by simp
qed

theorem retry_after_repricing_refused_witness:
  "\<exists>s'. receiveQuantity ex_print ex_counter 91 ex_cable 4 10 ex_quick (ex_intake ex_cable) = (Inr (QuantityReceived 11 10), s') \<and>
     receiveQuantity ex_print ex_counter 92 (ex_cable\<lparr>pd_defaultPrice := Some 5\<rparr>) 4 10 ex_quick s' = (Inl (Conflict IdempotencyConflict), s')"
proof -
  obtain s' where s': "receiveQuantity ex_print ex_counter 91 ex_cable 4 10 ex_quick (ex_intake ex_cable) = (Inr (QuantityReceived 11 10), s')"
    using ex_booked by blast
  from retry_after_repricing_refused [OF this ex_no_receipt(2,1) _ refl, of "Some 5" 92] s' show ?thesis
    by (simp add: ex_print_def ex_quick_def ex_cable_def)
qed

text \<open>
  How sure the scanner is: its confidence lies between zero and one for every code. For a
  barcode that is a product's own, being taught never makes it less sure: a mapping that agrees
  leaves full confidence, and one that names another product on sale is reported at a half at
  most, with both products named.
\<close>

theorem scanner_confidence:
  assumes "classifyCode raw = (scan_barcode, code)" and "suggest_barcode c code (ik_memory s) = Some own"
    and "suggest_product c own (ik_memory s) = Some own"
  shows "(0 \<le> sc_confidence (scan c raw2 sec s) \<and> sc_confidence (scan c raw2 sec s) \<le> 1) \<and>
    (case resolve_code (c_companyId c) code_barcode code (ik_memory s) of
       None \<Rightarrow> sc_suggestion (scan c raw None s) = Some own \<and> sc_confidence (scan c raw None s) = 1
     | Some (pid, _) \<Rightarrow>
         if pid = own then sc_suggestion (scan c raw None s) = Some own \<and> sc_confidence (scan c raw None s) = 1
         else if suggest_product c pid (ik_memory s) = None then sc_suggestion (scan c raw None s) = Some own \<and> sc_confidence (scan c raw None s) = 1
         else sc_confidence (scan c raw None s) \<le> 1 / 2 \<and> sc_hint (scan c raw None s) = Some (HintTwoProducts pid own))"
proof
  have f: "0 \<le> sc_confidence (scan_fallback c b k x m) \<and> sc_confidence (scan_fallback c b k x m) \<le> 1"
    if "sc_confidence b = 0" for b k x m
    using that by (simp add: scan_fallback_def CONFIDENCE_EXACT_BARCODE_def CONFIDENCE_TAC_CATALOG_def split: ScanKind.splits option.splits prod.splits)
  have l: "0 \<le> sc_confidence (scoreLearnedMatch c b k x p sg m) \<and> sc_confidence (scoreLearnedMatch c b k x p sg m) \<le> 1" for b k x p sg m
    using score_bounds [of sg] by (simp add: scoreLearnedMatch_def Let_def CONFIDENCE_EXACT_BARCODE_def CONFIDENCE_CONFLICT_CEILING_def min_def split: option.splits)
  show "0 \<le> sc_confidence (scan c raw2 sec s) \<and> sc_confidence (scan c raw2 sec s) \<le> 1"
    unfolding scan_def Let_def by (simp add: f l split: prod.splits option.splits)
  show "case resolve_code (c_companyId c) code_barcode code (ik_memory s) of
       None \<Rightarrow> sc_suggestion (scan c raw None s) = Some own \<and> sc_confidence (scan c raw None s) = 1
     | Some (pid, _) \<Rightarrow>
         if pid = own then sc_suggestion (scan c raw None s) = Some own \<and> sc_confidence (scan c raw None s) = 1
         else if suggest_product c pid (ik_memory s) = None then sc_suggestion (scan c raw None s) = Some own \<and> sc_confidence (scan c raw None s) = 1
         else sc_confidence (scan c raw None s) \<le> 1 / 2 \<and> sc_hint (scan c raw None s) = Some (HintTwoProducts pid own)"
  proof (cases "resolve_code (c_companyId c) code_barcode code (ik_memory s)")
    case None
    then show ?thesis using assms
      by (simp add: scan_def recognitionKeyFor_def scan_fallback_def CONFIDENCE_EXACT_BARCODE_def)
  next
    case (Some x)
    obtain pid sg where x: "x = (pid, sg)" by fastforce
    show ?thesis using assms Some x score_bounds(2) [of sg]
      by (cases "suggest_product c pid (ik_memory s)")
        (auto simp: scan_def recognitionKeyFor_def scan_fallback_def scoreLearnedMatch_def CONFIDENCE_EXACT_BARCODE_def
          CONFIDENCE_CONFLICT_CEILING_def Let_def max_def)
  qed
qed

theorem scanner_confidence_witness:
  "sc_suggestion (scan ex_counter ''12345678'' None (ex_intake ex_cable)) = Some 11 \<and>
   sc_confidence (scan ex_counter ''12345678'' None (ex_intake ex_cable)) = 1"
proof -
  have c: "classifyCode ''12345678'' = (scan_barcode, ''12345678'')" by code_simp
  have b: "suggest_barcode ex_counter ''12345678'' (ik_memory (ex_intake ex_cable)) = Some 11"
    and p: "suggest_product ex_counter 11 (ik_memory (ex_intake ex_cable)) = Some 11"
    and r: "resolve_code (c_companyId ex_counter) code_barcode ''12345678'' (ik_memory (ex_intake ex_cable)) = None"
    by (simp_all add: suggest_barcode_def suggest_product_def product_in_def ex_counter_def ex_intake_def ex_cable_def resolve_code_def)
  from scanner_confidence [OF c b p] r show ?thesis by simp
qed

end
