(* ===== verification/Spec2Isabelle.thy ===== *)
theory Spec2Isabelle
  imports LoanProperties ConsignmentProperties DebtProperties TransferContracts TransferRuleProperties
    SupplierProperties ExpenseProperties SaleProperties GoalProperties
    PlatformProperties RecognitionProperties PurchasingProperties IntakeProperties
begin

text \<open>
  A verification library for the backend of a multi-store phone shop ERP (NestJS on MySQL
  through Prisma). A tenant is a company with branches; every request runs in a context of
  company, branch, user and permissions. Serialized phones are rows of the table of units,
  other goods are quantity rows per branch; services move both, keep append-only money
  ledgers, and write an audit log and notifications beside.

  \<^bold>\<open>How the program is modelled.\<close> A table is an association list from primary key to row, a
  component's state is a record of its tables, and a handler is a function from request
  context, request and state to a result (an HTTP exception with its reason, or the answer)
  and the new state. Every exception and early return of the source is a branch. A handler
  whose writes are one transaction leaves the state as it was when it throws. Conditional
  updates (\<^verbatim>\<open>updateMany\<close> with a row count) are written out, so lost races are branches as
  well. Money is an exact rational, and the rounding the code performs is explicit. Drawn
  identifiers, the clock and SHA-256 are arguments.

  \<^bold>\<open>Theories, in the order they build on each other.\<close>

  \<^item> \<open>Prelude\<close>: rounding, strings, tables, the error type, reachability and the interface
    \<open>invariant_system\<close> (an invariant that holds initially and is kept by each step).
  \<^item> \<open>Common\<close>: context, audit log, notifications, numbering, UUIDs, lock retry, counterparties
    and receiving accounts (\<^verbatim>\<open>src/src/common\<close>, \<^verbatim>\<open>notifications/in-app.channel.ts\<close>).
  \<^item> \<open>Ledger\<close>: the interface \<open>signed_ledger\<close> of the append-only ledgers, interpreted by the
    loan, the consignment and the employee debt ledgers.
  \<^item> \<open>LoanRules\<close>, \<open>Loans\<close>, \<open>LoanInvariant\<close>, \<open>LoanProperties\<close>: \<^verbatim>\<open>loans/loan-rules.ts\<close> and
    \<^verbatim>\<open>loans/loans.service.ts\<close>, every handler and read. The balance of a loan stays between zero
    and its principal, only the creditor lowers it, a principal needs the consent of the other
    side, third companies are isolated, queued reports replay.
  \<^item> \<open>Inventory\<close>: unit lifecycle, weighted-average receipts and reservations
    (\<^verbatim>\<open>inventory/unit-state-machine.ts\<close>, \<^verbatim>\<open>inventory/stock-cost.ts\<close>,
    \<^verbatim>\<open>transfers/quantity-reservation.ts\<close>), with the interface \<open>reservation_store\<close>.
  \<^item> \<open>ConsignmentRules\<close>, \<open>Consignments\<close>, \<open>ConsignmentInvariant\<close>, \<open>ConsignmentEffects\<close>,
    \<open>ConsignmentProperties\<close>: \<^verbatim>\<open>consignment/consignment-scope.ts\<close>,
    \<^verbatim>\<open>consignment-lifecycle.ts\<close>, \<^verbatim>\<open>consignment-money.ts\<close> and \<^verbatim>\<open>consignments.service.ts\<close>, every
    handler and read. Exactly the units on open lines are out, the balance is bounded by the
    receivable, rows follow the lifecycle table, ownership never moves, only the source lowers
    a debt, third companies are isolated; and two places where the code departs from its
    comments.
  \<^item> \<open>Books\<close>: the tables of money (sales, payments, refunds, suppliers, expenses, corrections,
    closings, debts, rollups) as one state, and the SQL of filters, sums and groups.
  \<^item> \<open>ClosingRules\<close>, \<open>Closing\<close>, \<open>ClosingEffects\<close>, \<open>ClosingProperties\<close>: \<^verbatim>\<open>closing/channels.ts\<close>,
    \<^verbatim>\<open>closing/debt-rules.ts\<close>, the totals of \<^verbatim>\<open>analytics/rollup.service.ts\<close> and
    \<^verbatim>\<open>closing/closing.service.ts\<close>. The expected cash of a sign-off is the expectation of the cash
    channel, the channels account for every movement, a signed-off day stands; and a late
    count can reopen it.
  \<^item> \<open>Discrepancies\<close>, \<open>DebtProperties\<close>: \<^verbatim>\<open>closing/discrepancies.service.ts\<close>. Under counts,
    sign-offs, decisions and settlements in any order the debt ledger is sound; and a retry
    that the code refuses.
  \<^item> \<open>Json\<close>: the texts \<^verbatim>\<open>JSON.stringify\<close> gives for strings and arrays, used by the fingerprints.
  \<^item> \<open>Payable\<close>, \<open>CorrectionRules\<close>, \<open>Suppliers\<close>, \<open>Corrections\<close>, \<open>SupplierInvariant\<close>,
    \<open>SupplierProperties\<close>: \<^verbatim>\<open>suppliers/payable.ts\<close>, \<^verbatim>\<open>suppliers/suppliers.service.ts\<close> and
    \<^verbatim>\<open>corrections/*.ts\<close>, every handler and read. No purchase is paid beyond its total, the
    figures of what is owed agree, an approved correction brings a debt back exactly once, the
    suggested split is accepted; two confirmations at the same time overpay, and the detail
    page forgets corrections.
  \<^item> \<open>Expenses\<close>, \<open>ExpenseProperties\<close>: \<^verbatim>\<open>expenses/*.ts\<close>. Every expense keeps its shape, counts on
    one day and once; a fixed one reaches a closed day.
  \<^item> \<open>Tracking\<close>: \<^verbatim>\<open>inventory/imei.util.ts\<close>, \<^verbatim>\<open>tracking/*.ts\<close> and
    \<^verbatim>\<open>scanner/code-classifier.ts\<close>. The three ways of tracking goods are interpretations of the
    interface \<open>tracking_strategy\<close>; a mistyped IMEI is refused.
  \<^item> \<open>Recognition\<close>, \<open>RecognitionProperties\<close>: the scanner's memory
    (\<^verbatim>\<open>scanner/recognition.service.ts\<close>, \<^verbatim>\<open>tac-resolution.ts\<close>, \<^verbatim>\<open>tac-mapping.service.ts\<close>) and the
    outbox that teaches it (\<^verbatim>\<open>recognition-outbox.service.ts\<close>), whose workers are also a step
    relation in which they interleave. A code has one confirmed meaning, the two ways of asking
    for it agree, a proposal selects nothing, events are counted once while leases are kept; a
    late worker counts twice, a delivery overrides a confirmation, and no new code is learned.
  \<^item> \<open>Purchasing\<close>, \<open>PurchasingProperties\<close>: \<^verbatim>\<open>purchasing/purchasing.service.ts\<close> with the parts of
    \<^verbatim>\<open>inventory/inventory.service.ts\<close> it calls. A delivery is received once, accounts for its
    goods, goes through once planned, and is a step of the transition system of the suppliers;
    what was paid on delivery is still shown as owed.
  \<^item> \<open>Intake\<close>, \<open>IntakeProperties\<close>: the quick intake and the conflicts of identifiers of
    \<^verbatim>\<open>inventory/inventory.service.ts\<close>, the suggestions of \<^verbatim>\<open>catalog/catalog.service.ts\<close> and
    \<^verbatim>\<open>scanner/scanner.service.ts\<close>. Units of other companies stay private, counted goods are booked
    once, the scanner's confidence is bounded; a retry after a new price is refused.
  \<^item> \<open>PriceResolution\<close>, \<open>SalePolicy\<close>, \<open>SaleQuery\<close>, \<open>Sales\<close>: the price ladder
    (\<^verbatim>\<open>pricing/price-resolution.ts\<close>), the sale and return policies and the sale transaction
    (\<^verbatim>\<open>sales/*.ts\<close>).
  \<^item> \<open>ReturnRules\<close>, \<open>Returns\<close>, \<open>Refunds\<close>, \<open>ReturnInvariant\<close>, \<open>ReturnProperties\<close>,
    \<open>SaleProperties\<close>: \<^verbatim>\<open>returns/*.ts\<close>, every handler and read. The transition system runs sales,
    returns, refunds and corrections in any order. What a branch owes in refunds is exact, an
    approval needs authority and freezes the figures the detail shows, a sale takes free goods
    and reconciles; a held phone cannot be handed back, an undone refund stays owed and a phone
    once sold is never sold again.
  \<^item> \<open>Goals\<close>, \<open>GoalProperties\<close>: \<^verbatim>\<open>goals/*.ts\<close>. The goals of people add up to the goal of
    their branch, stay private, and notice no return.
  \<^item> \<open>Calendar\<close>, \<open>EntitlementRules\<close>, \<open>Platform\<close>, \<open>Subscriptions\<close>, \<open>PlatformProperties\<close>:
    \<^verbatim>\<open>entitlement/*.ts\<close>, \<^verbatim>\<open>billing/*.ts\<close> and \<^verbatim>\<open>platform/subscription-lifecycle.service.ts\<close>, with
    the month arithmetic of the language. Exactly the entitled requests pass the interceptor,
    every change of a subscription is recorded, of two administrators one wins, a billing
    period only grows; two retries do harm or no good. These handlers write without a
    transaction, so their failures leave the earlier writes in place.
  \<^item> \<open>TransferRules\<close>, \<open>TransferNotifications\<close>, \<open>TransferRuleProperties\<close>: the pure rules of
    transfers between branches and their notifications (\<^verbatim>\<open>transfers/transfer-lines.ts\<close>,
    \<^verbatim>\<open>transfer-state-machine.ts\<close>, \<^verbatim>\<open>discrepancy.util.ts\<close>, \<^verbatim>\<open>transfer-view.ts\<close>,
    \<^verbatim>\<open>transfer-notifications.ts\<close>).
  \<^item> \<open>Transfers\<close>, \<open>TransferEffects\<close>, \<open>TransferInvariant\<close>, \<open>TransferProperties\<close>,
    \<open>TransferContracts\<close>: \<^verbatim>\<open>transfers/transfers.service.ts\<close>. A handler is split into the read
    before its transaction and the transaction, so that other requests may run between the
    two. Reservations are exact in every reachable state, approved transfers ship and
    shipments are received, goods are conserved, decisions are exclusive, requests replay.

  \<^bold>\<open>Interaction.\<close> Loans and consignments share counterparties and receiving accounts and each
  instantiates the ledger interface. Consignments and transfers both move units along the one
  unit lifecycle; each transition system contains the steps of the rest of the program on the
  shared tables, restricted to what the code leaves to the other services. A delivery adds to
  the tables of the suppliers, the stock, the units and the outbox in one transaction; that it
  is one of the suppliers' outside steps is a theorem, not an assumption.

  \<^bold>\<open>Bounds.\<close> The lock retry runs the number of attempts the code gives it; no other loop needs
  fuel, since every other loop runs over a list.

  \<^bold>\<open>Not modelled.\<close> JSON payloads of audit rows, texts of notifications, the event bus, HTTP
  routing and validation pipes (what the validated requests satisfy is a condition on the
  steps), the search and count reads of transfers and of sales, the comparison
  with earlier days and the facts per product of the rollup, the timer of the outbox, the
  catalogue's administration and the lists of the inventory, and the components the manifest
  lists as not modelled.
\<close>

end
